(* ===== verification/Prelude.thy ===== *)
theory Prelude imports Complex_Main begin

text \<open>
  The prelude: the shape every operation of the model has, and what all proofs share.

  An operation of the code runs inside one database session. It reads and mutates rows, and it
  either returns a value or raises. A Python exception does not undo the attribute writes made
  before it, so the model of an operation is a function from the state to a result \<^emph>\<open>and\<close> a
  state: \<open>Inl e\<close> with the state reached when \<open>e\<close> was raised, or \<open>Inr x\<close>. Rolling back is the
  caller's business (\<open>savepoint\<close>, \<open>transaction\<close>).

  Rows live in lists in insertion order, addressed by their primary key (\<open>row_get\<close>,
  \<open>row_set\<close>): a row of the list is the object the session's identity map hands to every reader,
  so two Python variables bound to one object are two uses of one key.
\<close>

named_theorems exec \<open>one-step execution of the session operations\<close>
named_theorems steps_intro \<open>compositional rules for what an operation does to the state\<close>

section \<open>Operations: state, result, exception\<close>

type_synonym ('s, 'e, 'a) op = "'s \<Rightarrow> ('e + 'a) \<times> 's"

definition ret :: "'a \<Rightarrow> ('s, 'e, 'a) op" where
  "ret x = (\<lambda>s. (Inr x, s))"

definition raise :: "'e \<Rightarrow> ('s, 'e, 'a) op" where
  "raise e = (\<lambda>s. (Inl e, s))"

definition bindM :: "('s, 'e, 'a) op \<Rightarrow> ('a \<Rightarrow> ('s, 'e, 'b) op) \<Rightarrow> ('s, 'e, 'b) op" where
  "bindM m f = (\<lambda>s. case m s of (r, s') \<Rightarrow> (case r of Inl e \<Rightarrow> (Inl e, s') | Inr x \<Rightarrow> f x s'))"

definition andThen :: "('s, 'e, 'a) op \<Rightarrow> ('s, 'e, 'b) op \<Rightarrow> ('s, 'e, 'b) op" where
  "andThen m n = bindM m (\<lambda>_. n)"

definition gets :: "('s \<Rightarrow> 'a) \<Rightarrow> ('s, 'e, 'a) op" where
  "gets f = (\<lambda>s. (Inr (f s), s))"

definition modifyM :: "('s \<Rightarrow> 's) \<Rightarrow> ('s, 'e, unit) op" where
  "modifyM f = (\<lambda>s. (Inr (), f s))"

definition whenM :: "bool \<Rightarrow> ('s, 'e, unit) op \<Rightarrow> ('s, 'e, unit) op" where
  "whenM b m = (if b then m else ret ())"

definition fromSum :: "'e + 'a \<Rightarrow> ('s, 'e, 'a) op" where
  "fromSum r = (\<lambda>s. (r, s))"

text \<open>\<open>try: m except Exception as e: h e\<close>: the handler starts in the state the exception left.\<close>

definition catchM :: "('s, 'e, 'a) op \<Rightarrow> ('e \<Rightarrow> ('s, 'e, 'a) op) \<Rightarrow> ('s, 'e, 'a) op" where
  "catchM m h = (\<lambda>s. case m s of (r, s') \<Rightarrow> (case r of Inl e \<Rightarrow> h e s' | Inr x \<Rightarrow> (Inr x, s')))"

text \<open>
  \<open>async with session.begin_nested()\<close>: an exception leaves the block with the rows as they were
  before it. \<open>undo s s'\<close> puts the rows of \<open>s\<close> back into \<open>s'\<close>.
\<close>

definition savepoint :: "('s \<Rightarrow> 's \<Rightarrow> 's) \<Rightarrow> ('s, 'e, 'a) op \<Rightarrow> ('s, 'e, 'a) op" where
  "savepoint undo m =
     (\<lambda>s. case m s of (r, s') \<Rightarrow> (case r of Inl e \<Rightarrow> (Inl e, undo s s') | Inr x \<Rightarrow> (Inr x, s')))"

primrec forM :: "'x list \<Rightarrow> ('x \<Rightarrow> ('s, 'e, unit) op) \<Rightarrow> ('s, 'e, unit) op" where
  "forM [] f = ret ()"
| "forM (x # xs) f = andThen (f x) (forM xs f)"

primrec mapM :: "'x list \<Rightarrow> ('x \<Rightarrow> ('s, 'e, 'y) op) \<Rightarrow> ('s, 'e, 'y list) op" where
  "mapM [] f = ret []"
| "mapM (x # xs) f = bindM (f x) (\<lambda>y. bindM (mapM xs f) (\<lambda>ys. ret (y # ys)))"

lemma ret_exec [exec]: "ret x s = (Inr x, s)"
  by (simp add: ret_def)

lemma raise_exec [exec]: "raise e s = (Inl e, s)"
  by (simp add: raise_def)

lemma bindM_exec [exec]:
  "bindM m f s = (case m s of (r, s') \<Rightarrow> (case r of Inl e \<Rightarrow> (Inl e, s') | Inr x \<Rightarrow> f x s'))"
  by (simp add: bindM_def)

lemma andThen_exec [exec]:
  "andThen m n s = (case m s of (r, s') \<Rightarrow> (case r of Inl e \<Rightarrow> (Inl e, s') | Inr x \<Rightarrow> n s'))"
  by (simp add: andThen_def bindM_def)

lemma gets_exec [exec]: "gets f s = (Inr (f s), s)"
  by (simp add: gets_def)

lemma modifyM_exec [exec]: "modifyM f s = (Inr (), f s)"
  by (simp add: modifyM_def)

lemma whenM_exec [exec]: "whenM b m s = (if b then m s else (Inr (), s))"
  by (simp add: whenM_def ret_def)

lemma fromSum_exec [exec]: "fromSum r s = (r, s)"
  by (simp add: fromSum_def)

lemma catchM_exec [exec]:
  "catchM m h s = (case m s of (r, s') \<Rightarrow> (case r of Inl e \<Rightarrow> h e s' | Inr x \<Rightarrow> (Inr x, s')))"
  by (simp add: catchM_def)

lemma forM_Nil_exec [exec]: "forM [] f s = (Inr (), s)"
  by (simp add: ret_def)

lemma forM_Cons_exec [exec]:
  "forM (x # xs) f s = (case f x s of (r, s') \<Rightarrow> (case r of Inl e \<Rightarrow> (Inl e, s') | Inr _ \<Rightarrow> forM xs f s'))"
  by (simp add: andThen_exec)

lemma mapM_Nil_exec [exec]: "mapM [] f s = (Inr [], s)"
  by (simp add: ret_def)

lemma bindM_InrE:
  assumes "bindM m f s = (Inr y, s')"
  obtains x s1 where "m s = (Inr x, s1)" and "f x s1 = (Inr y, s')"
  using assms by (auto simp: bindM_def split: prod.splits sum.splits)

lemma andThen_InrE:
  assumes "andThen m n s = (Inr y, s')"
  obtains x s1 where "m s = (Inr x, s1)" and "n s1 = (Inr y, s')"
  using assms by (auto simp: andThen_def elim: bindM_InrE)

lemma bindM_Inr [exec]: "m s = (Inr x, s1) \<Longrightarrow> bindM m f s = f x s1"
  by (simp add: bindM_def)

lemma andThen_Inr: "m s = (Inr x, s1) \<Longrightarrow> andThen m n s = n s1"
  by (simp add: andThen_def bindM_def)

section \<open>What an operation does to the state\<close>

text \<open>
  \<open>steps R m\<close>: whatever the outcome, the state after \<open>m\<close> is related by \<open>R\<close> to the state before.
  With \<open>R s s' = (f s' = f s)\<close> it is a frame property (\<open>keeps\<close>), with
  \<open>R s s' = (I s \<longrightarrow> I s')\<close> the preservation of an invariant (\<open>pres\<close>).
\<close>

definition steps :: "('s \<Rightarrow> 's \<Rightarrow> bool) \<Rightarrow> ('s, 'e, 'a) op \<Rightarrow> bool" where
  "steps R m \<longleftrightarrow> (\<forall>s. R s (snd (m s)))"

definition eqOn :: "('s \<Rightarrow> 'v) \<Rightarrow> 's \<Rightarrow> 's \<Rightarrow> bool" where
  "eqOn f s s' \<longleftrightarrow> f s' = f s"

definition keepsInv :: "('s \<Rightarrow> bool) \<Rightarrow> 's \<Rightarrow> 's \<Rightarrow> bool" where
  "keepsInv I s s' \<longleftrightarrow> (I s \<longrightarrow> I s')"

abbreviation keeps :: "('s \<Rightarrow> 'v) \<Rightarrow> ('s, 'e, 'a) op \<Rightarrow> bool" where
  "keeps f \<equiv> steps (eqOn f)"

abbreviation pres :: "('s \<Rightarrow> bool) \<Rightarrow> ('s, 'e, 'a) op \<Rightarrow> bool" where
  "pres I \<equiv> steps (keepsInv I)"

text \<open>The contract of such a relation: what it takes for the rules of composition to hold.\<close>

locale step_contract =
  fixes R :: "'s \<Rightarrow> 's \<Rightarrow> bool"
  assumes step_refl: "R s s"
    and step_trans: "R s s' \<Longrightarrow> R s' s'' \<Longrightarrow> R s s''"
begin

lemma ret: "steps R (ret x)"
  by (simp add: steps_def ret_def step_refl)

lemma raise: "steps R (raise e)"
  by (simp add: steps_def raise_def step_refl)

lemma gets: "steps R (gets f)"
  by (simp add: steps_def gets_def step_refl)

lemma fromSum: "steps R (fromSum r)"
  by (simp add: steps_def fromSum_def step_refl)

lemma bind:
  assumes "steps R m" and "\<And>x. steps R (f x)"
  shows "steps R (bindM m f)"
proof (unfold steps_def, rule allI)
  fix s
  obtain r s1 where m: "m s = (r, s1)" by (cases "m s")
  have 1: "R s s1" using assms(1) m by (metis steps_def snd_conv)
  show "R s (snd (bindM m f s))"
  proof (cases r)
    case (Inl e)
    then show ?thesis using m 1 by (simp add: bindM_def)
  next
    case (Inr x)
    have "R s1 (snd (f x s1))" using assms(2) by (simp add: steps_def)
    then show ?thesis using m 1 Inr by (simp add: bindM_def) (rule step_trans)
  qed
qed

lemma andThen: "steps R m \<Longrightarrow> steps R n \<Longrightarrow> steps R (andThen m n)"
  unfolding andThen_def by (rule bind)

lemma whenM: "steps R m \<Longrightarrow> steps R (whenM b m)"
  by (simp add: whenM_def ret)

lemma catch:
  assumes "steps R m" and "\<And>e. steps R (h e)"
  shows "steps R (catchM m h)"
proof (unfold steps_def, rule allI)
  fix s
  obtain r s1 where m: "m s = (r, s1)" by (cases "m s")
  have 1: "R s s1" using assms(1) m by (metis steps_def snd_conv)
  have 2: "R s1 (snd (h e s1))" for e using assms(2) by (simp add: steps_def)
  show "R s (snd (catchM m h s))"
    using m 1 step_trans [OF 1 2] by (cases r) (simp_all add: catchM_def)
qed

lemma forM: "(\<And>x. steps R (f x)) \<Longrightarrow> steps R (forM xs f)"
  by (induction xs) (simp_all add: ret andThen)

lemma mapM: "(\<And>x. steps R (f x)) \<Longrightarrow> steps R (mapM xs f)"
  by (induction xs) (auto intro: ret bind)

end

lemma steps_if [steps_intro]:
  "(b \<Longrightarrow> steps R m) \<Longrightarrow> (\<not> b \<Longrightarrow> steps R n) \<Longrightarrow> steps R (if b then m else n)"
  by simp

lemma steps_option [steps_intro]:
  "(x = None \<Longrightarrow> steps R m) \<Longrightarrow> (\<And>y. x = Some y \<Longrightarrow> steps R (n y))
   \<Longrightarrow> steps R (case x of None \<Rightarrow> m | Some y \<Rightarrow> n y)"
  by (cases x) simp_all

lemma steps_list [steps_intro]:
  "steps R m \<Longrightarrow> (\<And>y ys. steps R (n y ys)) \<Longrightarrow> steps R (case x of [] \<Rightarrow> m | y # ys \<Rightarrow> n y ys)"
  by (cases x) simp_all

lemma steps_prod [steps_intro]:
  "(\<And>a b. steps R (f a b)) \<Longrightarrow> steps R (case x of (a, b) \<Rightarrow> f a b)"
  by (cases x) simp

lemma steps_sum [steps_intro]:
  "(\<And>a. steps R (f a)) \<Longrightarrow> (\<And>b. steps R (g b)) \<Longrightarrow> steps R (case x of Inl a \<Rightarrow> f a | Inr b \<Rightarrow> g b)"
  by (cases x) simp_all

lemma steps_Let [steps_intro]: "(\<And>x. steps R (f x)) \<Longrightarrow> steps R (let x = t in f x)"
  by simp

interpretation frame: step_contract "eqOn f"
  by unfold_locales (auto simp: eqOn_def)

interpretation inv: step_contract "keepsInv I"
  by unfold_locales (auto simp: keepsInv_def)

lemmas frame_rules [steps_intro] =
  frame.ret frame.raise frame.gets frame.fromSum frame.bind frame.andThen frame.whenM
  frame.catch frame.forM frame.mapM

lemmas inv_rules [steps_intro] =
  inv.ret inv.raise inv.gets inv.fromSum inv.bind inv.andThen inv.whenM inv.catch inv.forM
  inv.mapM

lemma keepsD: "keeps f m \<Longrightarrow> f (snd (m s)) = f s"
  by (simp add: steps_def eqOn_def)

lemma keepsD': "keeps f m \<Longrightarrow> m s = (r, s') \<Longrightarrow> f s' = f s"
  by (metis keepsD snd_conv)

lemma presD: "pres I m \<Longrightarrow> I s \<Longrightarrow> I (snd (m s))"
  by (simp add: steps_def keepsInv_def)

lemma presD': "pres I m \<Longrightarrow> m s = (r, s') \<Longrightarrow> I s \<Longrightarrow> I s'"
  by (metis presD snd_conv)

lemma steps_modify: "(\<And>s. R s (f s)) \<Longrightarrow> steps R (modifyM f)"
  by (simp add: steps_def modifyM_def)

lemma keeps_modify [steps_intro]: "(\<And>s. f (g s) = f s) \<Longrightarrow> keeps f (modifyM g)"
  by (simp add: steps_def modifyM_def eqOn_def)

section \<open>Rows addressed by primary key\<close>

definition row_get :: "('r \<Rightarrow> 'k) \<Rightarrow> 'k \<Rightarrow> 'r list \<Rightarrow> 'r option" where
  "row_get key i rows = find (\<lambda>r. key r = i) rows"

definition row_set :: "('r \<Rightarrow> 'k) \<Rightarrow> 'k \<Rightarrow> ('r \<Rightarrow> 'r) \<Rightarrow> 'r list \<Rightarrow> 'r list" where
  "row_set key i f rows = map (\<lambda>r. if key r = i then f r else r) rows"

lemma row_get_Nil [simp]: "row_get key i [] = None"
  by (simp add: row_get_def)

lemma row_get_Cons [simp]:
  "row_get key i (r # rows) = (if key r = i then Some r else row_get key i rows)"
  by (simp add: row_get_def)

lemma row_set_Nil [simp]: "row_set key i f [] = []"
  by (simp add: row_set_def)

lemma row_set_Cons [simp]:
  "row_set key i f (r # rows) = (if key r = i then f r else r) # row_set key i f rows"
  by (simp add: row_set_def)

lemma row_set_absent: "k \<notin> key ` set rs \<Longrightarrow> row_set key k f rs = rs"
  by (auto simp: row_set_def image_iff intro!: map_idI)

lemma row_get_append:
  "row_get key i (xs @ ys) = (case row_get key i xs of None \<Rightarrow> row_get key i ys | Some r \<Rightarrow> Some r)"
  by (induction xs) auto

lemma row_get_Some: "row_get key i rows = Some r \<Longrightarrow> r \<in> set rows \<and> key r = i"
  by (induction rows) (auto split: if_splits)

lemma row_get_key: "row_get key i rows = Some r \<Longrightarrow> key r = i"
  by (drule row_get_Some) simp

lemma row_get_None_iff: "row_get key i rows = None \<longleftrightarrow> i \<notin> key ` set rows"
  by (induction rows) auto

lemma row_get_set:
  assumes "\<And>r. key (f r) = key r"
  shows "row_get key i (row_set key j f rows) =
    (if i = j then map_option f (row_get key i rows) else row_get key i rows)"
  by (induction rows) (auto simp: assms)

lemma row_get_set_same [simp]:
  "(\<And>r. key (f r) = key r) \<Longrightarrow> row_get key i (row_set key i f rows) = map_option f (row_get key i rows)"
  by (simp add: row_get_set)

lemma row_get_set_other [simp]:
  "(\<And>r. key (f r) = key r) \<Longrightarrow> i \<noteq> j \<Longrightarrow> row_get key i (row_set key j f rows) = row_get key i rows"
  by (simp add: row_get_set)

lemma length_row_set [simp]: "length (row_set key i f rows) = length rows"
  by (simp add: row_set_def)

lemma set_row_set:
  "set (row_set key i f rows) = (\<lambda>r. if key r = i then f r else r) ` set rows"
  by (simp add: row_set_def)

lemma row_set_keys [simp]:
  "(\<And>r. key (f r) = key r) \<Longrightarrow> map key (row_set key i f rows) = map key rows"
  by (simp add: row_set_def)

lemma row_get_distinct:
  "distinct (map key rows) \<Longrightarrow> r \<in> set rows \<Longrightarrow> row_get key (key r) rows = Some r"
  by (induction rows) (auto simp: rev_image_eqI)

text \<open>A field that the update does not write reads the same on every row.\<close>

lemma map_row_set [simp]:
  "(\<And>r. g (f r) = g r) \<Longrightarrow> map g (row_set key i f rows) = map g rows"
  by (simp add: row_set_def)

lemma filter_row_set:
  "(\<And>r. P (f r) = P r) \<Longrightarrow> filter P (row_set key i f rows) = row_set key i f (filter P rows)"
  by (induction rows) auto

text \<open>A row whose primary key is in the table.\<close>

definition has_row :: "('r \<Rightarrow> 'k) \<Rightarrow> 'k \<Rightarrow> 'r list \<Rightarrow> bool" where
  "has_row key i rows \<longleftrightarrow> i \<in> set (map key rows)"

lemma has_row_get: "has_row key i rows \<longleftrightarrow> (\<exists>r. row_get key i rows = Some r)"
  using row_get_None_iff [of key i rows] by (auto simp: has_row_def)

text \<open>
  The interface of a table of the session: \<open>rows\<close> reads it, \<open>put\<close> rewrites it, and what is read
  after a rewrite is what was written. The lemmas are the lookup laws every component uses.
\<close>

locale row_table =
  fixes rows :: "'s \<Rightarrow> 'r list"
    and put :: "('r list \<Rightarrow> 'r list) \<Rightarrow> 's \<Rightarrow> 's"
    and key :: "'r \<Rightarrow> 'k"
  assumes rows_put: "rows (put f s) = f (rows s)"
begin

lemma get_after_set:
  "(\<And>r. key (f r) = key r) \<Longrightarrow>
   row_get key i (rows (put (row_set key i f) s)) = map_option f (row_get key i (rows s))"
  by (simp add: rows_put)

lemma get_after_set_other:
  "(\<And>r. key (f r) = key r) \<Longrightarrow> i \<noteq> j \<Longrightarrow>
   row_get key j (rows (put (row_set key i f) s)) = row_get key j (rows s)"
  by (simp add: rows_put)

lemma get_after_add:
  "row_get key i (rows s) = None \<Longrightarrow> key r = i \<Longrightarrow>
   row_get key i (rows (put (\<lambda>rs. rs @ [r]) s)) = Some r"
  by (simp add: rows_put row_get_append)

lemma keys_after_set:
  "(\<And>r. key (f r) = key r) \<Longrightarrow> map key (rows (put (row_set key i f) s)) = map key (rows s)"
  by (simp add: rows_put)

end

section \<open>Lists, options, sums\<close>

lemma sum_list_map_row_set:
  assumes "distinct (map key rows)" and "row_get key i rows = Some r"
  shows "sum_list (map g (row_set key i f rows)) + g r = sum_list (map g rows) + (g (f r) :: 'n :: ab_group_add)"
  using assms
proof (induction rows)
  case Nil
  then show ?case by simp
next
  case (Cons x xs)
  show ?case
  proof (cases "key x = i")
    case True
    then have "i \<notin> key ` set xs" using Cons.prems(1) by auto
    then have "row_set key i f xs = xs" by (induction xs) auto
    with True Cons.prems show ?thesis by simp
  next
    case False
    with Cons have "sum_list (map g (row_set key i f xs)) + g r = sum_list (map g xs) + g (f r)"
      by simp
    with False show ?thesis by (simp add: add.assoc)
  qed
qed

lemma hd_filter_Some: "find P xs = Some x \<Longrightarrow> x \<in> set xs \<and> P x"
  by (induction xs) (auto split: if_splits)

lemma find_filter: "find P xs = (case filter P xs of [] \<Rightarrow> None | x # _ \<Rightarrow> Some x)"
  by (induction xs) auto

text \<open>A query on a unique index has at most one row.\<close>

lemma filter_at_most_one:
  assumes "distinct (map k xs)" "\<And>x. P x \<Longrightarrow> k x = c"
  obtains "filter P xs = []" | x where "x \<in> set xs" "P x" "filter P xs = [x]"
proof (cases "filter P xs")
  case (Cons x ys)
  have d: "distinct (map k (x # ys))" using distinct_map_filter [OF assms(1), of P] Cons by simp
  have m: "y \<in> set xs \<and> P y" if "y \<in> set (x # ys)" for y
    using that unfolding Cons [symmetric] by simp
  have "ys = []"
  proof (cases ys)
    case (Cons y zs)
    then have "P x" "P y" using m by simp_all
    then have "k x = k y" using assms(2) by metis
    with d Cons show ?thesis by simp
  qed
  with Cons m show ?thesis by (intro that(2) [of x]) simp_all
qed (use that(1) in simp)

end
