(* ===== verification/PyLib.thy ===== *)
theory PyLib imports Prelude "HOL-Library.List_Lexorder" "HOL-Library.Char_ord" begin

text \<open>
  What the code uses of the Python language and its standard library: exceptions as values,
  identifiers and their text form, instants, money, ASCII text functions, JSON values with
  Python's comparison operators, and the calendar arithmetic of \<open>datetime.replace\<close>.
\<close>

section \<open>Identifiers, instants, money\<close>

text \<open>
  A \<open>uuid.UUID\<close> is its integer (its \<open>.int\<close>). An aware UTC \<open>datetime\<close> is the exact number of
  seconds since the epoch, a \<open>timedelta\<close> a number of seconds, and a \<open>Decimal\<close> amount a rational;
  the rounding of a microsecond or of a \<open>Numeric(10, 4)\<close> column is not modelled.
\<close>

type_synonym uuid = nat
type_synonym datetime = rat
type_synonym usd = rat

section \<open>Exceptions\<close>

text \<open>The exceptions the modelled code raises, with the data its handlers inspect.\<close>

datatype exn =
    ValueError string
  | TypeError string
  | KeyError string
  | AttributeError string
  | LookupError string
  | RuntimeError string
  | NotImplementedError string
  | MultipleResultsFound
  | IntegrityError
  | NoSuchRow
  | LeaseNotOwned
  | LeaseConflict string string
  | SpendBudgetExceededError string
  | ReviewGateNotFoundError string
  | ReviewGateDeliveryError string
  | PublicationBlocked string string
  | BillingError string string
  | HTTPException int string
  | AuthError string string
  | OverflowError string
  | ResearchGateError string
  | StrategyGateError string
  | StrategyAuditGateError string
  | ContentDepartmentGateError string
  | ContentDepartmentNotFoundError string
  | ProductionNotFoundError string
  | ProductionEligibilityError string
  | ProducerGateError string
  | ComplianceNotFoundError string
  | ComplianceGateError string
  | InvalidOperation
  | OutOfFuel

section \<open>Numbers and identifiers as text\<close>

fun nat_digits :: "nat \<Rightarrow> nat \<Rightarrow> nat list" where
  "nat_digits b n = (if b < 2 \<or> n < b then [n] else nat_digits b (n div b) @ [n mod b])"

declare nat_digits.simps [simp del]

definition digit_char :: "nat \<Rightarrow> char" where
  "digit_char d = (if d < 10 then char_of (48 + d) else char_of (87 + d))"

definition char_digit :: "char \<Rightarrow> nat" where
  "char_digit c = (let k = (of_char c :: nat) in
     if 48 \<le> k \<and> k \<le> 57 then k - 48 else if 97 \<le> k \<and> k \<le> 102 then k - 87
     else if 65 \<le> k \<and> k \<le> 70 then k - 55 else 99)"

definition digits_value :: "nat \<Rightarrow> nat list \<Rightarrow> nat" where
  "digits_value b ds = foldl (\<lambda>acc d. acc * b + d) 0 ds"

definition str_nat :: "nat \<Rightarrow> string" where
  "str_nat n = map digit_char (nat_digits 10 n)"

definition str_int :: "int \<Rightarrow> string" where
  "str_int i = (if i < 0 then CHR 0x2D # str_nat (nat (- i)) else str_nat (nat i))"

text \<open>\<open>str(exc)\<close>; \<open>HTTPException\<close> is Starlette's.\<close>

fun exn_str :: "exn \<Rightarrow> string" where
  "exn_str (ValueError m) = m"
| "exn_str (TypeError m) = m"
| "exn_str (KeyError m) = CHR 0x27 # m @ [CHR 0x27]"
| "exn_str (AttributeError m) = m"
| "exn_str (LookupError m) = m"
| "exn_str (RuntimeError m) = m"
| "exn_str (NotImplementedError m) = m"
| "exn_str (LeaseConflict c m) = m"
| "exn_str LeaseNotOwned = ''assignment not owned by worker''"
| "exn_str (SpendBudgetExceededError m) = m"
| "exn_str (ReviewGateNotFoundError m) = m"
| "exn_str (ReviewGateDeliveryError m) = m"
| "exn_str (PublicationBlocked c m) = m"
| "exn_str (BillingError c m) = m"
| "exn_str (AuthError c m) = m"
| "exn_str (OverflowError m) = m"
| "exn_str (ResearchGateError m) = m"
| "exn_str (StrategyGateError m) = m"
| "exn_str (StrategyAuditGateError m) = m"
| "exn_str (ContentDepartmentGateError m) = m"
| "exn_str (ContentDepartmentNotFoundError m) = m"
| "exn_str (ProductionNotFoundError m) = m"
| "exn_str (ProductionEligibilityError m) = m"
| "exn_str (ProducerGateError m) = m"
| "exn_str (ComplianceNotFoundError m) = m"
| "exn_str (ComplianceGateError m) = m"
| "exn_str (HTTPException n d) = str_int n @ '': '' @ d"
| "exn_str _ = ''''"

text \<open>\<open>str(u)\<close>: \<open>'%032x' % u.int\<close>, cut into groups of 8, 4, 4, 4 and the rest; \<open>u.hex\<close> is the uncut form.\<close>

definition uuid_hex :: "uuid \<Rightarrow> string" where
  "uuid_hex u = (let ds = map digit_char (nat_digits 16 u)
     in replicate (32 - length ds) CHR ''0'' @ ds)"

definition dash :: string where
  "dash = ''-''"

definition str_uuid :: "uuid \<Rightarrow> string" where
  "str_uuid u = (let h = uuid_hex u in
     take 8 h @ dash @ take 4 (drop 8 h) @ dash @ take 4 (drop 12 h) @ dash
     @ take 4 (drop 16 h) @ dash @ drop 20 h)"

text \<open>
  \<open>uuid.UUID(s)\<close>: \<open>urn:\<close> and \<open>uuid:\<close> are dropped wherever they occur, braces at both ends and every hyphen too; what is
  left must be 32 characters that \<open>int(s, 16)\<close> reads as a 128-bit number. \<open>int(s, 16)\<close> strips white space, takes a sign and
  a \<open>0x\<close> prefix, and allows single underscores between digits.
\<close>

function remove_all :: "string \<Rightarrow> string \<Rightarrow> string" where
  "remove_all p [] = []"
| "remove_all p (c # s) = (if p \<noteq> [] \<and> take (length p) (c # s) = p then remove_all p (drop (length p - 1) s)
     else c # remove_all p s)"
  by pat_completeness auto
termination by (relation "measure (\<lambda>(p, s). length s)") auto

definition strip_by :: "(char \<Rightarrow> bool) \<Rightarrow> string \<Rightarrow> string" where
  "strip_by P s = rev (dropWhile P (rev (dropWhile P s)))"

definition int_space :: "char \<Rightarrow> bool" where
  "int_space c = (let k = (of_char c :: nat) in k = 32 \<or> (9 \<le> k \<and> k \<le> 13) \<or> k = 133 \<or> k = 160)"

fun grouped_hex :: "string \<Rightarrow> bool" where
  "grouped_hex [] = False"
| "grouped_hex [c] = (char_digit c < 16)"
| "grouped_hex (c # d # s) = (char_digit c < 16 \<and> (if d = CHR ''_'' then grouped_hex s else grouped_hex (d # s)))"

definition int_base_16 :: "string \<Rightarrow> int option" where
  "int_base_16 s = (let t = strip_by int_space s;
      u = (if take 1 t \<in> {''+'', ''-''} then drop 1 t else t);
      v = (if take 2 u \<notin> {''0x'', ''0X''} then u else if take 1 (drop 2 u) = ''_'' then drop 3 u else drop 2 u);
      n = int (digits_value 16 (map char_digit (filter (\<lambda>c. c \<noteq> CHR ''_'') v)))
    in if grouped_hex v then Some (if take 1 t = ''-'' then - n else n) else None)"

definition uuid_of_str :: "string \<Rightarrow> exn + uuid" where
  "uuid_of_str s = (let h = filter (\<lambda>c. c \<noteq> CHR ''-'')
       (strip_by (\<lambda>c. c \<in> set ''{}'') (remove_all ''uuid:'' (remove_all ''urn:'' s))) in
     if length h \<noteq> 32 then Inl (ValueError ''badly formed hexadecimal UUID string'')
     else case int_base_16 h of
         None \<Rightarrow> Inl (ValueError ''invalid literal for int() with base 16'')
       | Some n \<Rightarrow> if 0 \<le> n \<and> n < 2 ^ 128 then Inr (nat n)
           else Inl (ValueError ''int is out of range (need a 128-bit value)''))"

lemma digits_value_snoc: "digits_value b (ds @ [d]) = digits_value b ds * b + d"
  by (simp add: digits_value_def)

lemma digits_value_nat_digits: "2 \<le> b \<Longrightarrow> digits_value b (nat_digits b n) = n"
proof (induction b n rule: nat_digits.induct)
  case (1 b n)
  show ?case
  proof (cases "n < b")
    case True
    then show ?thesis by (subst nat_digits.simps) (simp add: digits_value_def)
  next
    case False
    with 1 have "digits_value b (nat_digits b (n div b)) = n div b" by simp
    with False 1(2) show ?thesis by (subst nat_digits.simps) (simp add: digits_value_snoc)
  qed
qed

lemma nat_digits_bound: "2 \<le> b \<Longrightarrow> d \<in> set (nat_digits b n) \<Longrightarrow> d < b"
proof (induction b n rule: nat_digits.induct)
  case (1 b n)
  from 1(3) show ?case
  proof (cases "n < b")
    case True
    with 1(3) show ?thesis by (subst (asm) nat_digits.simps) simp
  next
    case False
    with 1(2,3) have "d \<in> set (nat_digits b (n div b)) \<or> d = n mod b"
      by (subst (asm) nat_digits.simps) auto
    with 1(1,2) False show ?thesis by auto
  qed
qed

lemma nat_digits_length: "2 \<le> b \<Longrightarrow> n < b ^ k \<Longrightarrow> 0 < k \<Longrightarrow> length (nat_digits b n) \<le> k"
proof (induction k arbitrary: n)
  case 0
  then show ?case by simp
next
  case (Suc k)
  show ?case
  proof (cases "n < b")
    case True
    then show ?thesis by (subst nat_digits.simps) simp
  next
    case False
    have "0 < k"
    proof (rule ccontr)
      assume "\<not> 0 < k"
      with Suc.prems(2) False show False by simp
    qed
    moreover have "n div b < b ^ k"
      using Suc.prems(1,2) by (simp add: div_less_iff_less_mult mult.commute)
    ultimately have "length (nat_digits b (n div b)) \<le> k" using Suc.IH Suc.prems(1) by simp
    with False Suc.prems(1) show ?thesis by (subst nat_digits.simps) simp
  qed
qed

lemma char_digit_char: "d < 16 \<Longrightarrow> char_digit (digit_char d) = d"
  by (auto simp: char_digit_def digit_char_def Let_def)

lemma digit_char_no_dash: "d < 16 \<Longrightarrow> digit_char d \<noteq> CHR ''-''"
proof -
  assume d: "d < 16"
  have "char_digit CHR ''-'' = 99" by (simp add: char_digit_def)
  with d show ?thesis using char_digit_char [OF d] by force
qed

lemma digits_value_zeros: "digits_value b (replicate k 0 @ ds) = digits_value b ds"
  by (induction k) (simp_all add: digits_value_def)

lemma uuid_hex_chars: "c \<in> set (uuid_hex u) \<Longrightarrow> c \<noteq> CHR ''-'' \<and> char_digit c < 16"
proof -
  assume "c \<in> set (uuid_hex u)"
  then consider "c = CHR ''0''" | d where "d \<in> set (nat_digits 16 u)" "c = digit_char d"
    by (auto simp: uuid_hex_def Let_def)
  then show ?thesis
  proof cases
    case 1
    then show ?thesis by (simp add: char_digit_def)
  next
    case (2 d)
    then have "d < 16" using nat_digits_bound [of 16 d u] by simp
    with 2 show ?thesis by (simp add: char_digit_char digit_char_no_dash)
  qed
qed

lemma filter_str_uuid: "filter (\<lambda>c. c \<noteq> CHR ''-'') (str_uuid u) = uuid_hex u"
proof -
  define h where "h = uuid_hex u"
  have sub: "filter (\<lambda>c. c \<noteq> CHR ''-'') xs = xs" if "set xs \<subseteq> set h" for xs
    using that uuid_hex_chars unfolding h_def by (intro filter_True) blast
  have "filter (\<lambda>c. c \<noteq> CHR ''-'') (str_uuid u)
      = take 8 h @ take 4 (drop 8 h) @ take 4 (drop 12 h) @ take 4 (drop 16 h) @ drop 20 h"
    by (simp add: str_uuid_def Let_def dash_def h_def [symmetric] sub set_take_subset
        set_drop_subset order.trans [OF set_take_subset set_drop_subset])
  also have "\<dots> = h"
  proof -
    have 1: "take 4 (drop 16 h) @ drop 20 h = drop 16 h"
      using append_take_drop_id [of 4 "drop 16 h"] by (simp add: add.commute)
    have 2: "take 4 (drop 12 h) @ drop 16 h = drop 12 h"
      using append_take_drop_id [of 4 "drop 12 h"] by (simp add: add.commute)
    have 3: "take 4 (drop 8 h) @ drop 12 h = drop 8 h"
      using append_take_drop_id [of 4 "drop 8 h"] by (simp add: add.commute)
    show ?thesis by (simp add: 1 2 3)
  qed
  finally show ?thesis by (simp add: h_def)
qed

lemma uuid_hex_value: "digits_value 16 (map char_digit (uuid_hex u)) = u"
proof -
  have "map char_digit (map digit_char (nat_digits 16 u)) = nat_digits 16 u"
    by (auto intro!: map_idI simp: char_digit_char nat_digits_bound)
  moreover have "map char_digit (replicate k CHR ''0'') = replicate k 0" for k
    by (simp add: char_digit_def)
  moreover have "char_digit CHR ''0'' = 0"
    by (simp add: char_digit_def)
  ultimately show ?thesis
    by (simp add: uuid_hex_def Let_def digits_value_zeros digits_value_nat_digits)
qed

lemma str_uuid_inject: "str_uuid u = str_uuid v \<longleftrightarrow> u = v"
  using filter_str_uuid uuid_hex_value by metis

text \<open>Reading back what \<open>str\<close> printed: every 128-bit identifier survives the trip through a payload.\<close>

lemma remove_all_absent: "c \<in> set p \<Longrightarrow> c \<notin> set s \<Longrightarrow> remove_all p s = s"
proof (induction p s rule: remove_all.induct)
  case (2 p x s)
  have "take (length p) (x # s) \<noteq> p"
  proof
    assume "take (length p) (x # s) = p"
    then have "set p \<subseteq> set (x # s)" by (metis set_take_subset)
    with 2 show False by auto
  qed
  with 2 show ?case by simp
qed simp

lemma strip_by_absent:
  assumes no: "\<And>c. c \<in> set s \<Longrightarrow> \<not> P c"
  shows "strip_by P s = s"
proof -
  have "dropWhile P t = t" if "set t \<subseteq> set s" for t
    using that no by (cases t) auto
  then show ?thesis by (simp add: strip_by_def)
qed

lemma grouped_hex_digits: "s \<noteq> [] \<Longrightarrow> (\<And>c. c \<in> set s \<Longrightarrow> char_digit c < 16) \<Longrightarrow> grouped_hex s"
proof (induction s rule: grouped_hex.induct)
  case (3 c d s)
  have "d \<noteq> CHR ''_''" using 3(4) [of d] by (auto simp: char_digit_def)
  with 3 show ?case by simp
qed simp_all

lemma int_base_16_digits:
  assumes "s \<noteq> []" "\<And>c. c \<in> set s \<Longrightarrow> char_digit c < 16"
  shows "int_base_16 s = Some (int (digits_value 16 (map char_digit s)))"
proof -
  have no: "c \<notin> set s" if "\<not> char_digit c < 16" for c using assms(2) that by blast
  have sp: "\<not> int_space c" if "c \<in> set s" for c
    using assms(2) [OF that] by (auto simp: int_space_def char_digit_def Let_def split: if_splits)
  have "take 1 s \<notin> {''+'', ''-''}"
    using assms(1) no [of "CHR ''+''"] no [of "CHR ''-''"] by (cases s) (auto simp: char_digit_def)
  moreover have "take 2 s \<notin> {''0x'', ''0X''}"
  proof
    assume "take 2 s \<in> {''0x'', ''0X''}"
    then have "CHR ''x'' \<in> set (take 2 s) \<or> CHR ''X'' \<in> set (take 2 s)" by auto
    then have "CHR ''x'' \<in> set s \<or> CHR ''X'' \<in> set s" using in_set_takeD by fast
    then show False using no [of "CHR ''x''"] no [of "CHR ''X''"] by (simp add: char_digit_def)
  qed
  moreover have "filter (\<lambda>c. c \<noteq> CHR ''_'') s = s"
    using no [of "CHR ''_''"] by (intro filter_True) (auto simp: char_digit_def)
  ultimately show ?thesis
    using assms grouped_hex_digits sp by (simp add: int_base_16_def strip_by_absent Let_def)
qed

lemma str_uuid_chars: "c \<in> set (str_uuid u) \<Longrightarrow> c = CHR ''-'' \<or> char_digit c < 16"
proof -
  assume c: "c \<in> set (str_uuid u)"
  have "set (uuid_hex u) = {c \<in> set (str_uuid u). c \<noteq> CHR ''-''}" unfolding filter_str_uuid [symmetric] by simp
  with c uuid_hex_chars [of c u] show ?thesis by blast
qed

lemma uuid_of_str_uuid: "u < 16 ^ 32 \<Longrightarrow> uuid_of_str (str_uuid u) = Inr u"
proof -
  assume u: "u < 16 ^ 32"
  have "length (nat_digits 16 u) \<le> 32"
    using nat_digits_length [of 16 u 32] u by simp
  then have len: "length (uuid_hex u) = 32" by (simp add: uuid_hex_def Let_def)
  then have "uuid_hex u \<noteq> []" by auto
  have no: "c \<notin> set (str_uuid u)" if "c \<noteq> CHR ''-''" "\<not> char_digit c < 16" for c
    using str_uuid_chars that by blast
  have "remove_all ''urn:'' (str_uuid u) = str_uuid u" "remove_all ''uuid:'' (str_uuid u) = str_uuid u"
    using no [of "CHR ''u''"] by (intro remove_all_absent [of "CHR ''u''"]; simp add: char_digit_def)+
  moreover have "strip_by (\<lambda>c. c \<in> set ''{}'') (str_uuid u) = str_uuid u"
    using no [of "CHR 0x7B"] no [of "CHR 0x7D"] by (intro strip_by_absent) (auto simp: char_digit_def)
  moreover have "int u < 2 ^ 128"
  proof -
    have "(2::nat) ^ 128 = 16 ^ 32" by simp
    with u show ?thesis by (metis of_nat_less_iff of_nat_numeral of_nat_power)
  qed
  ultimately show ?thesis
    using int_base_16_digits [OF \<open>uuid_hex u \<noteq> []\<close>] uuid_hex_chars len
    by (simp add: uuid_of_str_def Let_def filter_str_uuid uuid_hex_value)
qed

lemma str_nat_digits: "map char_digit (str_nat k) = nat_digits 10 k"
proof -
  have "char_digit (digit_char d) = d" if "d \<in> set (nat_digits 10 k)" for d
    using nat_digits_bound [OF _ that] by (simp add: char_digit_char)
  then show ?thesis unfolding str_nat_def by (simp add: map_idI)
qed

lemma str_nat_inject: "str_nat m = str_nat n \<longleftrightarrow> m = n"
proof
  assume "str_nat m = str_nat n"
  then have "nat_digits 10 m = nat_digits 10 n" using str_nat_digits by metis
  then have "digits_value 10 (nat_digits 10 m) = digits_value 10 (nat_digits 10 n)" by simp
  then show "m = n" by (simp add: digits_value_nat_digits)
qed simp

section \<open>Text\<close>

text \<open>A character is a code point below 256.\<close>

definition is_space :: "char \<Rightarrow> bool" where
  "is_space c = (let k = (of_char c :: nat) in k = 32 \<or> (9 \<le> k \<and> k \<le> 13) \<or> (28 \<le> k \<and> k \<le> 31)
     \<or> k = 133 \<or> k = 160)"

definition lower_char :: "char \<Rightarrow> char" where
  "lower_char c = (let k = (of_char c :: nat) in
     if (65 \<le> k \<and> k \<le> 90) \<or> (192 \<le> k \<and> k \<le> 222 \<and> k \<noteq> 215) then char_of (k + 32) else c)"

definition lower :: "string \<Rightarrow> string" where
  "lower s = map lower_char s"

definition strip :: "string \<Rightarrow> string" where
  "strip s = rev (dropWhile is_space (rev (dropWhile is_space s)))"

text \<open>
  \<open>Decimal(s)\<close> on a text: an optional sign, digits with an optional fraction and exponent, or one of the
  special values; blanks around it and underscores in it are ignored. \<open>None\<close>: \<open>InvalidOperation\<close>.
\<close>

datatype decimal = Finite rat | Infinite bool | NotANumber

definition is_digit :: "char \<Rightarrow> bool" where
  "is_digit c \<longleftrightarrow> char_digit c < 10"

definition take_sign :: "string \<Rightarrow> bool \<times> string" where
  "take_sign s = (case s of c # r \<Rightarrow> if c = CHR 0x2D then (True, r) else if c = CHR 0x2B then (False, r) else (False, s)
     | [] \<Rightarrow> (False, []))"

definition read_exponent :: "string \<Rightarrow> int option" where
  "read_exponent s = (case s of [] \<Rightarrow> Some 0 | c # r \<Rightarrow>
     if c \<noteq> CHR ''e'' then None
     else let (neg, ds) = take_sign r in
       if ds = [] \<or> \<not> list_all is_digit ds then None
       else Some ((if neg then - 1 else 1) * int (digits_value 10 (map char_digit ds))))"

definition read_number :: "string \<Rightarrow> rat option" where
  "read_number s =
     (let whole = takeWhile is_digit s; r = dropWhile is_digit s;
          (frac, r') = (case r of c # t \<Rightarrow> if c = CHR ''.'' then (takeWhile is_digit t, dropWhile is_digit t) else ([], r)
                        | [] \<Rightarrow> ([], []))
      in if whole = [] \<and> frac = [] then None
         else map_option (\<lambda>e. of_nat (digits_value 10 (map char_digit (whole @ frac)))
                * power_int 10 (e - int (length frac))) (read_exponent r'))"

definition decimal_of_str :: "string \<Rightarrow> decimal option" where
  "decimal_of_str s =
     (let (neg, t) = take_sign (lower (filter (\<lambda>c. c \<noteq> CHR ''_'') (strip s)))
      in if t = ''inf'' \<or> t = ''infinity'' then Some (Infinite neg)
         else if (take 3 t = ''nan'' \<and> list_all is_digit (drop 3 t))
               \<or> (take 4 t = ''snan'' \<and> list_all is_digit (drop 4 t)) then Some NotANumber
         else map_option (\<lambda>q. Finite (if neg then - q else q)) (read_number t))"

text \<open>\<open>m in s\<close> on strings.\<close>

fun contains :: "string \<Rightarrow> string \<Rightarrow> bool" where
  "contains m [] = (m = [])"
| "contains m (c # s) = (take (length m) (c # s) = m \<or> contains m s)"

text \<open>\<open>s.split(sep)\<close> for a one-character separator, \<open>s.split()\<close>, and \<open>sep.join(xs)\<close>.\<close>

fun split_on :: "char \<Rightarrow> string \<Rightarrow> string list" where
  "split_on sep [] = [[]]"
| "split_on sep (c # s) =
     (if c = sep then [] # split_on sep s
      else (case split_on sep s of [] \<Rightarrow> [[c]] | p # ps \<Rightarrow> (c # p) # ps))"

fun split_ws :: "string \<Rightarrow> string \<Rightarrow> string list" where
  "split_ws acc [] = (if acc = [] then [] else [rev acc])"
| "split_ws acc (c # s) =
     (if is_space c then (if acc = [] then split_ws [] s else rev acc # split_ws [] s)
      else split_ws (c # acc) s)"

fun join :: "string \<Rightarrow> string list \<Rightarrow> string" where
  "join sep [] = []"
| "join sep [x] = x"
| "join sep (x # y # ys) = x @ sep @ join sep (y # ys)"

text \<open>\<open>int(s)\<close>: an optional sign and digits, single underscores between them; \<open>None\<close>: \<open>ValueError\<close>.\<close>

definition int_of_str :: "string \<Rightarrow> int option" where
  "int_of_str s =
     (let (neg, t) = take_sign (strip s); groups = split_on (CHR ''_'') t
      in if list_all (\<lambda>g. g \<noteq> [] \<and> list_all is_digit g) groups
         then Some ((if neg then - 1 else 1) * int (digits_value 10 (map char_digit (concat groups)))) else None)"

lemma contains_iff: "contains m s \<longleftrightarrow> (\<exists>a b. s = a @ m @ b)"
proof (induction s)
  case Nil
  show ?case by auto
next
  case (Cons c s)
  show ?case
  proof
    assume "contains m (c # s)"
    then consider "take (length m) (c # s) = m" | "contains m s" by auto
    then show "\<exists>a b. c # s = a @ m @ b"
    proof cases
      case 1
      then have "c # s = [] @ m @ drop (length m) (c # s)"
        using append_take_drop_id [of "length m" "c # s"] by simp
      then show ?thesis by blast
    next
      case 2
      then obtain a b where "s = a @ m @ b" using Cons.IH by blast
      then have "c # s = (c # a) @ m @ b" by simp
      then show ?thesis by blast
    qed
  next
    assume "\<exists>a b. c # s = a @ m @ b"
    then obtain a b where ab: "c # s = a @ m @ b" by blast
    show "contains m (c # s)"
    proof (cases a)
      case Nil
      with ab have "take (length m) (c # s) = m" by simp
      then show ?thesis by simp
    next
      case (Cons c' a')
      with ab have "s = a' @ m @ b" by simp
      then show ?thesis using Cons.IH by auto
    qed
  qed
qed

lemma lower_idem: "lower (lower s) = lower s"
proof -
  have "lower_char (lower_char c) = lower_char c" for c
    by (auto simp: lower_char_def Let_def)
  then show ?thesis by (simp add: lower_def)
qed

lemma contains_lower_append: "contains m (lower s) \<Longrightarrow> contains m (lower (a @ s @ b))"
  by (auto simp: contains_iff lower_def) (metis append.assoc)

section \<open>JSON values and Python's operators on them\<close>

datatype json =
    JNull
  | JBool bool
  | JNum rat
  | JStr string
  | JList "json list"
  | JObj "(string \<times> json) list"

text \<open>Python's \<open>bool\<close> is a number: \<open>True == 1\<close>.\<close>

fun py_num :: "json \<Rightarrow> rat option" where
  "py_num (JBool b) = Some (of_bool b)"
| "py_num (JNum q) = Some q"
| "py_num _ = None"

definition json_get :: "json \<Rightarrow> string \<Rightarrow> json" where
  "json_get v k = (case v of JObj kvs \<Rightarrow> (case map_of kvs k of None \<Rightarrow> JNull | Some w \<Rightarrow> w) | _ \<Rightarrow> JNull)"

fun py_eq :: "json \<Rightarrow> json \<Rightarrow> bool"
  and py_eq_list :: "json list \<Rightarrow> json list \<Rightarrow> bool"
  and py_eq_items :: "(string \<times> json) list \<Rightarrow> (string \<times> json) list \<Rightarrow> bool" where
  "py_eq JNull w = (w = JNull)"
| "py_eq (JStr s) w = (w = JStr s)"
| "py_eq (JBool b) w = (py_num w = Some (of_bool b))"
| "py_eq (JNum q) w = (py_num w = Some q)"
| "py_eq (JList xs) w = (case w of JList ys \<Rightarrow> py_eq_list xs ys | _ \<Rightarrow> False)"
| "py_eq (JObj xs) w = (case w of JObj ys \<Rightarrow> length xs = length ys \<and> py_eq_items xs ys | _ \<Rightarrow> False)"
| "py_eq_list [] ys = (ys = [])"
| "py_eq_list (x # xs) ys = (case ys of [] \<Rightarrow> False | y # ys' \<Rightarrow> py_eq x y \<and> py_eq_list xs ys')"
| "py_eq_items [] ys = True"
| "py_eq_items ((k, v) # xs) ys =
     ((case map_of ys k of None \<Rightarrow> False | Some u \<Rightarrow> py_eq v u) \<and> py_eq_items xs ys)"

datatype cmp = Gt | Gte | Lt | Lte

fun cmp_holds :: "cmp \<Rightarrow> 'a :: linorder \<Rightarrow> 'a \<Rightarrow> bool" where
  "cmp_holds Gt x y = (x > y)"
| "cmp_holds Gte x y = (x \<ge> y)"
| "cmp_holds Lt x y = (x < y)"
| "cmp_holds Lte x y = (x \<le> y)"

text \<open>
  \<open>a > b\<close> and its kin: numbers, strings and lists compare (lists at the first unequal position,
  else by length); anything else raises.
\<close>

function (sequential) py_cmp :: "cmp \<Rightarrow> json \<Rightarrow> json \<Rightarrow> exn + bool"
  and py_cmp_list :: "cmp \<Rightarrow> json list \<Rightarrow> json list \<Rightarrow> exn + bool" where
  "py_cmp op (JStr a) (JStr b) = Inr (cmp_holds op a b)"
| "py_cmp op (JList xs) (JList ys) = py_cmp_list op xs ys"
| "py_cmp op a b = (case (py_num a, py_num b) of
     (Some x, Some y) \<Rightarrow> Inr (cmp_holds op x y)
   | _ \<Rightarrow> Inl (TypeError ''comparison not supported''))"
| "py_cmp_list op (x # xs) (y # ys) = (if py_eq x y then py_cmp_list op xs ys else py_cmp op x y)"
| "py_cmp_list op xs ys = Inr (cmp_holds op (length xs) (length ys))"
  by pat_completeness auto
termination
  by (relation "measure (\<lambda>z. case z of Inl (_, a, _) \<Rightarrow> size a | Inr (_, xs, _) \<Rightarrow> size_list size xs)") auto

text \<open>\<open>a in b\<close>.\<close>

fun py_in :: "json \<Rightarrow> json \<Rightarrow> exn + bool" where
  "py_in a (JList ys) = Inr (list_ex (\<lambda>y. py_eq y a) ys)"
| "py_in (JStr m) (JStr s) = Inr (contains m s)"
| "py_in a (JStr s) = Inl (TypeError ''in <string> requires string as left operand'')"
| "py_in (JStr k) (JObj kvs) = Inr (k \<in> set (map fst kvs))"
| "py_in (JList xs) (JObj kvs) = Inl (TypeError ''unhashable type: list'')"
| "py_in (JObj xs) (JObj kvs) = Inl (TypeError ''unhashable type: dict'')"
| "py_in a (JObj kvs) = Inr False"
| "py_in a b = Inl (TypeError ''argument is not iterable'')"

section \<open>Calendar: the start of the UTC day and month\<close>

text \<open>
  \<open>day_of_month\<close> reads the day of the month off a day number counted from 1970-01-01 in the
  proleptic Gregorian calendar (years begin in March inside the computation, so that the leap day
  is the last day of its year).
\<close>

definition day_seconds :: int where
  "day_seconds = 86400"

definition day_number :: "datetime \<Rightarrow> int" where
  "day_number t = \<lfloor>t\<rfloor> div day_seconds"

definition day_of_month :: "int \<Rightarrow> int" where
  "day_of_month z = (let
     doe = (z + 719468) mod 146097;
     yoe = (doe - doe div 1460 + doe div 36524 - doe div 146096) div 365;
     doy = doe - (365 * yoe + yoe div 4 - yoe div 100);
     mp = (5 * doy + 2) div 153
   in doy - (153 * mp + 2) div 5 + 1)"

lemma day_of_month_bounds: "1 \<le> day_of_month z \<and> day_of_month z \<le> 31"
proof -
  have *: "0 \<le> doy - (153 * ((5 * doy + 2) div 153) + 2) div 5 \<and>
    doy - (153 * ((5 * doy + 2) div 153) + 2) div 5 \<le> 30" for doy :: int
  proof -
    define m where "m = (5 * doy + 2) div 153"
    define q where "q = (153 * m + 2) div 5"
    have "153 * m \<le> 5 * doy + 2" "5 * doy + 2 < 153 * m + 153" unfolding m_def by simp_all
    moreover have "5 * q \<le> 153 * m + 2" "153 * m + 2 < 5 * q + 5" unfolding q_def by simp_all
    ultimately show ?thesis by (simp add: m_def [symmetric] q_def [symmetric])
  qed
  have "\<exists>doy. day_of_month z = doy - (153 * ((5 * doy + 2) div 153) + 2) div 5 + 1"
    unfolding day_of_month_def Let_def by blast
  with * obtain r where "day_of_month z = r + 1" "0 \<le> r" "r \<le> 30" by blast
  then show ?thesis by simp
qed

lemma day_number_bounds:
  "of_int (day_number t * day_seconds) \<le> t \<and> t < of_int (day_number t * day_seconds) + of_int day_seconds"
proof -
  have 1: "day_number t * day_seconds \<le> \<lfloor>t\<rfloor>" and 2: "\<lfloor>t\<rfloor> + 1 \<le> day_number t * day_seconds + day_seconds"
    unfolding day_number_def day_seconds_def by presburger+
  have "of_int (day_number t * day_seconds) \<le> (of_int \<lfloor>t\<rfloor> :: rat)"
    using 1 by (simp only: of_int_le_iff)
  moreover have "(of_int (\<lfloor>t\<rfloor> + 1) :: rat) \<le> of_int (day_number t * day_seconds + day_seconds)"
    using 2 by (simp only: of_int_le_iff)
  ultimately show ?thesis using of_int_floor_le [of t] floor_less_iff [of t "\<lfloor>t\<rfloor> + 1"]
    by (simp add: add.commute) linarith
qed

text \<open>Stripping twice strips once.\<close>

lemma strip_idem: "strip (strip s) = strip s"
proof -
  let ?u = "dropWhile is_space s"
  let ?t = "rev (dropWhile is_space (rev ?u))"
  have "rev ?u = takeWhile is_space (rev ?u) @ dropWhile is_space (rev ?u)" by simp
  then have "?u = ?t @ rev (takeWhile is_space (rev ?u))" by (metis rev_append rev_rev_ident)
  then have "?t \<noteq> [] \<Longrightarrow> hd ?t = hd ?u" by (metis hd_append2)
  moreover have "?u \<noteq> [] \<Longrightarrow> \<not> is_space (hd ?u)" by (rule hd_dropWhile)
  moreover have "?t \<noteq> [] \<Longrightarrow> ?u \<noteq> []" by (metis dropWhile.simps(1) rev.simps(1))
  ultimately have "?t = [] \<or> \<not> is_space (hd ?t)" by metis
  then have "dropWhile is_space ?t = ?t" by (simp only: dropWhile_eq_self_iff)
  then show ?thesis by (simp add: strip_def dropWhile_idem)
qed

end
