(* ===== verification/Enums.thy ===== *)
theory Enums imports PyLib begin

text \<open>
  The \<open>enum.Enum\<close> classes of \<open>models/enums.py\<close> (and \<open>WorkspaceRole\<close>) that the modelled code uses: one datatype each, with
  the members in source order, and the text of each member (\<open>.value\<close>, what Postgres, JSON payloads
  and audit rows hold). Members are written with their class in front, as in Python. Different
  members have different texts, so a stored text identifies its member.
\<close>

datatype ContentStage =
    IDEA
  | SCRIPTING
  | VOICEOVER
  | VISUALS
  | RENDERING
  | SEO
  | REVIEW
  | SCHEDULED
  | PUBLISHED

fun content_stage_value :: "ContentStage \<Rightarrow> string" where
  "content_stage_value ContentStage.IDEA = ''idea''"
| "content_stage_value ContentStage.SCRIPTING = ''scripting''"
| "content_stage_value ContentStage.VOICEOVER = ''voiceover''"
| "content_stage_value ContentStage.VISUALS = ''visuals''"
| "content_stage_value ContentStage.RENDERING = ''rendering''"
| "content_stage_value ContentStage.SEO = ''seo''"
| "content_stage_value ContentStage.REVIEW = ''review''"
| "content_stage_value ContentStage.SCHEDULED = ''scheduled''"
| "content_stage_value ContentStage.PUBLISHED = ''published''"

lemma content_stage_value_inject [simp]: "content_stage_value a = content_stage_value b \<longleftrightarrow> a = b"
  by (cases a; cases b) simp_all

datatype WorkspaceRole =
    ADMIN
  | EDITOR
  | REVIEWER

fun workspace_role_value :: "WorkspaceRole \<Rightarrow> string" where
  "workspace_role_value WorkspaceRole.ADMIN = ''admin''"
| "workspace_role_value WorkspaceRole.EDITOR = ''editor''"
| "workspace_role_value WorkspaceRole.REVIEWER = ''reviewer''"

lemma workspace_role_value_inject [simp]: "workspace_role_value a = workspace_role_value b \<longleftrightarrow> a = b"
  by (cases a; cases b) simp_all

datatype ContentStatus =
    ACTIVE
  | FAILED
  | ARCHIVED

fun content_status_value :: "ContentStatus \<Rightarrow> string" where
  "content_status_value ContentStatus.ACTIVE = ''active''"
| "content_status_value ContentStatus.FAILED = ''failed''"
| "content_status_value ContentStatus.ARCHIVED = ''archived''"

lemma content_status_value_inject [simp]: "content_status_value a = content_status_value b \<longleftrightarrow> a = b"
  by (cases a; cases b) simp_all

datatype PipelineRunStatus =
    CREATED
  | RUNNING
  | PAUSED
  | COMPENSATING
  | SUCCEEDED
  | FAILED
  | CANCELLED

fun pipeline_run_status_value :: "PipelineRunStatus \<Rightarrow> string" where
  "pipeline_run_status_value PipelineRunStatus.CREATED = ''created''"
| "pipeline_run_status_value PipelineRunStatus.RUNNING = ''running''"
| "pipeline_run_status_value PipelineRunStatus.PAUSED = ''paused''"
| "pipeline_run_status_value PipelineRunStatus.COMPENSATING = ''compensating''"
| "pipeline_run_status_value PipelineRunStatus.SUCCEEDED = ''succeeded''"
| "pipeline_run_status_value PipelineRunStatus.FAILED = ''failed''"
| "pipeline_run_status_value PipelineRunStatus.CANCELLED = ''cancelled''"

lemma pipeline_run_status_value_inject [simp]: "pipeline_run_status_value a = pipeline_run_status_value b \<longleftrightarrow> a = b"
  by (cases a; cases b) simp_all

datatype StageRunStatus =
    SUCCEEDED
  | FAILED

fun stage_run_status_value :: "StageRunStatus \<Rightarrow> string" where
  "stage_run_status_value StageRunStatus.SUCCEEDED = ''succeeded''"
| "stage_run_status_value StageRunStatus.FAILED = ''failed''"

lemma stage_run_status_value_inject [simp]: "stage_run_status_value a = stage_run_status_value b \<longleftrightarrow> a = b"
  by (cases a; cases b) simp_all

datatype ReviewDecisionValue =
    APPROVED
  | CHANGES_REQUESTED
  | REJECTED

fun review_decision_value_value :: "ReviewDecisionValue \<Rightarrow> string" where
  "review_decision_value_value ReviewDecisionValue.APPROVED = ''approved''"
| "review_decision_value_value ReviewDecisionValue.CHANGES_REQUESTED = ''changes_requested''"
| "review_decision_value_value ReviewDecisionValue.REJECTED = ''rejected''"

lemma review_decision_value_value_inject [simp]: "review_decision_value_value a = review_decision_value_value b \<longleftrightarrow> a = b"
  by (cases a; cases b) simp_all

datatype ReservationStatus =
    RESERVED
  | COMMITTED
  | RELEASED

fun reservation_status_value :: "ReservationStatus \<Rightarrow> string" where
  "reservation_status_value ReservationStatus.RESERVED = ''reserved''"
| "reservation_status_value ReservationStatus.COMMITTED = ''committed''"
| "reservation_status_value ReservationStatus.RELEASED = ''released''"

lemma reservation_status_value_inject [simp]: "reservation_status_value a = reservation_status_value b \<longleftrightarrow> a = b"
  by (cases a; cases b) simp_all

datatype DeadLetterStatus =
    PENDING
  | RESOLVED
  | DISCARDED

fun dead_letter_status_value :: "DeadLetterStatus \<Rightarrow> string" where
  "dead_letter_status_value DeadLetterStatus.PENDING = ''pending''"
| "dead_letter_status_value DeadLetterStatus.RESOLVED = ''resolved''"
| "dead_letter_status_value DeadLetterStatus.DISCARDED = ''discarded''"

lemma dead_letter_status_value_inject [simp]: "dead_letter_status_value a = dead_letter_status_value b \<longleftrightarrow> a = b"
  by (cases a; cases b) simp_all

datatype WorkflowTransitionTrigger =
    ON_SUCCESS
  | ON_FAILURE
  | ON_REVIEW_APPROVED
  | ON_REVIEW_REJECTED

fun workflow_transition_trigger_value :: "WorkflowTransitionTrigger \<Rightarrow> string" where
  "workflow_transition_trigger_value WorkflowTransitionTrigger.ON_SUCCESS = ''on_success''"
| "workflow_transition_trigger_value WorkflowTransitionTrigger.ON_FAILURE = ''on_failure''"
| "workflow_transition_trigger_value WorkflowTransitionTrigger.ON_REVIEW_APPROVED = ''on_review_approved''"
| "workflow_transition_trigger_value WorkflowTransitionTrigger.ON_REVIEW_REJECTED = ''on_review_rejected''"

lemma workflow_transition_trigger_value_inject [simp]: "workflow_transition_trigger_value a = workflow_transition_trigger_value b \<longleftrightarrow> a = b"
  by (cases a; cases b) simp_all

datatype OutboxEventStatus =
    PENDING
  | DISPATCHED
  | POISON

fun outbox_event_status_value :: "OutboxEventStatus \<Rightarrow> string" where
  "outbox_event_status_value OutboxEventStatus.PENDING = ''pending''"
| "outbox_event_status_value OutboxEventStatus.DISPATCHED = ''dispatched''"
| "outbox_event_status_value OutboxEventStatus.POISON = ''poison''"

lemma outbox_event_status_value_inject [simp]: "outbox_event_status_value a = outbox_event_status_value b \<longleftrightarrow> a = b"
  by (cases a; cases b) simp_all

datatype JobType =
    STAGE
  | RETRY
  | STAGE_TIMEOUT
  | REVIEW_TIMEOUT
  | RECURRING
  | COMPENSATION

fun job_type_value :: "JobType \<Rightarrow> string" where
  "job_type_value JobType.STAGE = ''stage''"
| "job_type_value JobType.RETRY = ''retry''"
| "job_type_value JobType.STAGE_TIMEOUT = ''stage_timeout''"
| "job_type_value JobType.REVIEW_TIMEOUT = ''review_timeout''"
| "job_type_value JobType.RECURRING = ''recurring''"
| "job_type_value JobType.COMPENSATION = ''compensation''"

lemma job_type_value_inject [simp]: "job_type_value a = job_type_value b \<longleftrightarrow> a = b"
  by (cases a; cases b) simp_all

datatype JobScheduleStatus =
    PENDING
  | LEASED
  | DONE
  | CANCELLED

fun job_schedule_status_value :: "JobScheduleStatus \<Rightarrow> string" where
  "job_schedule_status_value JobScheduleStatus.PENDING = ''pending''"
| "job_schedule_status_value JobScheduleStatus.LEASED = ''leased''"
| "job_schedule_status_value JobScheduleStatus.DONE = ''done''"
| "job_schedule_status_value JobScheduleStatus.CANCELLED = ''cancelled''"

lemma job_schedule_status_value_inject [simp]: "job_schedule_status_value a = job_schedule_status_value b \<longleftrightarrow> a = b"
  by (cases a; cases b) simp_all

datatype WorkerStatus =
    ONLINE
  | BUSY
  | DRAINING
  | OFFLINE

fun worker_status_value :: "WorkerStatus \<Rightarrow> string" where
  "worker_status_value WorkerStatus.ONLINE = ''online''"
| "worker_status_value WorkerStatus.BUSY = ''busy''"
| "worker_status_value WorkerStatus.DRAINING = ''draining''"
| "worker_status_value WorkerStatus.OFFLINE = ''offline''"

lemma worker_status_value_inject [simp]: "worker_status_value a = worker_status_value b \<longleftrightarrow> a = b"
  by (cases a; cases b) simp_all

datatype StageAssignmentStatus =
    PENDING
  | DISPATCHED
  | ACKNOWLEDGED
  | COMPLETED
  | FAILED
  | CANCELLED

fun stage_assignment_status_value :: "StageAssignmentStatus \<Rightarrow> string" where
  "stage_assignment_status_value StageAssignmentStatus.PENDING = ''pending''"
| "stage_assignment_status_value StageAssignmentStatus.DISPATCHED = ''dispatched''"
| "stage_assignment_status_value StageAssignmentStatus.ACKNOWLEDGED = ''acknowledged''"
| "stage_assignment_status_value StageAssignmentStatus.COMPLETED = ''completed''"
| "stage_assignment_status_value StageAssignmentStatus.FAILED = ''failed''"
| "stage_assignment_status_value StageAssignmentStatus.CANCELLED = ''cancelled''"

lemma stage_assignment_status_value_inject [simp]: "stage_assignment_status_value a = stage_assignment_status_value b \<longleftrightarrow> a = b"
  by (cases a; cases b) simp_all

datatype ReviewGateStatus =
    AWAITING
  | APPROVED
  | REJECTED
  | TIMED_OUT
  | ESCALATED

fun review_gate_status_value :: "ReviewGateStatus \<Rightarrow> string" where
  "review_gate_status_value ReviewGateStatus.AWAITING = ''awaiting''"
| "review_gate_status_value ReviewGateStatus.APPROVED = ''approved''"
| "review_gate_status_value ReviewGateStatus.REJECTED = ''rejected''"
| "review_gate_status_value ReviewGateStatus.TIMED_OUT = ''timed_out''"
| "review_gate_status_value ReviewGateStatus.ESCALATED = ''escalated''"

lemma review_gate_status_value_inject [simp]: "review_gate_status_value a = review_gate_status_value b \<longleftrightarrow> a = b"
  by (cases a; cases b) simp_all

datatype PauseReason =
    REVIEW_GATE
  | MANUAL
  | SPEND_HOLD

fun pause_reason_value :: "PauseReason \<Rightarrow> string" where
  "pause_reason_value PauseReason.REVIEW_GATE = ''review_gate''"
| "pause_reason_value PauseReason.MANUAL = ''manual''"
| "pause_reason_value PauseReason.SPEND_HOLD = ''spend_hold''"

lemma pause_reason_value_inject [simp]: "pause_reason_value a = pause_reason_value b \<longleftrightarrow> a = b"
  by (cases a; cases b) simp_all

datatype WorkerCredentialStatus =
    ACTIVE
  | REVOKED

fun worker_credential_status_value :: "WorkerCredentialStatus \<Rightarrow> string" where
  "worker_credential_status_value WorkerCredentialStatus.ACTIVE = ''active''"
| "worker_credential_status_value WorkerCredentialStatus.REVOKED = ''revoked''"

lemma worker_credential_status_value_inject [simp]: "worker_credential_status_value a = worker_credential_status_value b \<longleftrightarrow> a = b"
  by (cases a; cases b) simp_all

datatype ClaimOutcome =
    GRANTED
  | NO_WORK
  | CAPACITY
  | INELIGIBLE

fun claim_outcome_value :: "ClaimOutcome \<Rightarrow> string" where
  "claim_outcome_value ClaimOutcome.GRANTED = ''granted''"
| "claim_outcome_value ClaimOutcome.NO_WORK = ''no_work''"
| "claim_outcome_value ClaimOutcome.CAPACITY = ''capacity''"
| "claim_outcome_value ClaimOutcome.INELIGIBLE = ''ineligible''"

lemma claim_outcome_value_inject [simp]: "claim_outcome_value a = claim_outcome_value b \<longleftrightarrow> a = b"
  by (cases a; cases b) simp_all

datatype RecoveryReason =
    LEASE_EXPIRED
  | WORKER_OFFLINE
  | WORKER_DEREGISTERED
  | WORKER_REVOKED
  | WORKER_RESTART
  | MAX_LEASE_EXCEEDED

fun recovery_reason_value :: "RecoveryReason \<Rightarrow> string" where
  "recovery_reason_value RecoveryReason.LEASE_EXPIRED = ''lease_expired''"
| "recovery_reason_value RecoveryReason.WORKER_OFFLINE = ''worker_offline''"
| "recovery_reason_value RecoveryReason.WORKER_DEREGISTERED = ''worker_deregistered''"
| "recovery_reason_value RecoveryReason.WORKER_REVOKED = ''worker_revoked''"
| "recovery_reason_value RecoveryReason.WORKER_RESTART = ''worker_restart''"
| "recovery_reason_value RecoveryReason.MAX_LEASE_EXCEEDED = ''max_lease_exceeded''"

lemma recovery_reason_value_inject [simp]: "recovery_reason_value a = recovery_reason_value b \<longleftrightarrow> a = b"
  by (cases a; cases b) simp_all

datatype RecoveryOutcome =
    REQUEUED
  | DEAD_LETTERED
  | SKIPPED

fun recovery_outcome_value :: "RecoveryOutcome \<Rightarrow> string" where
  "recovery_outcome_value RecoveryOutcome.REQUEUED = ''requeued''"
| "recovery_outcome_value RecoveryOutcome.DEAD_LETTERED = ''dead_lettered''"
| "recovery_outcome_value RecoveryOutcome.SKIPPED = ''skipped''"

lemma recovery_outcome_value_inject [simp]: "recovery_outcome_value a = recovery_outcome_value b \<longleftrightarrow> a = b"
  by (cases a; cases b) simp_all

datatype BackpressureState =
    NORMAL
  | PRESSURED
  | THROTTLED

fun backpressure_state_value :: "BackpressureState \<Rightarrow> string" where
  "backpressure_state_value BackpressureState.NORMAL = ''normal''"
| "backpressure_state_value BackpressureState.PRESSURED = ''pressured''"
| "backpressure_state_value BackpressureState.THROTTLED = ''throttled''"

lemma backpressure_state_value_inject [simp]: "backpressure_state_value a = backpressure_state_value b \<longleftrightarrow> a = b"
  by (cases a; cases b) simp_all

text \<open>\<open>ContentStage(text)\<close>: the member with that value, else \<open>ValueError\<close>.\<close>

definition all_stages :: "ContentStage list" where
  "all_stages = [IDEA, SCRIPTING, VOICEOVER, VISUALS, RENDERING, SEO, REVIEW, SCHEDULED, ContentStage.PUBLISHED]"

definition content_stage_of :: "string \<Rightarrow> exn + ContentStage" where
  "content_stage_of t = (case find (\<lambda>st. content_stage_value st = t) all_stages of
     None \<Rightarrow> Inl (ValueError (t @ '' is not a valid ContentStage''))
   | Some st \<Rightarrow> Inr st)"

lemma content_stage_of_value [simp]: "content_stage_of (content_stage_value st) = Inr st"
  by (cases st) (simp_all add: content_stage_of_def all_stages_def)

text \<open>The run statuses the code tests together: \<open>{SUCCEEDED, FAILED, CANCELLED}\<close>.\<close>

definition run_terminal :: "PipelineRunStatus \<Rightarrow> bool" where
  "run_terminal st \<longleftrightarrow> st \<in> {PipelineRunStatus.SUCCEEDED, PipelineRunStatus.FAILED, PipelineRunStatus.CANCELLED}"

text \<open>The assignment statuses under which a worker holds the row: \<open>{DISPATCHED, ACKNOWLEDGED}\<close>.\<close>

definition in_flight :: "StageAssignmentStatus \<Rightarrow> bool" where
  "in_flight st \<longleftrightarrow> st \<in> {StageAssignmentStatus.DISPATCHED, StageAssignmentStatus.ACKNOWLEDGED}"

lemma run_terminal_simps [simp]:
  "\<not> run_terminal CREATED" "\<not> run_terminal RUNNING" "\<not> run_terminal PAUSED" "\<not> run_terminal COMPENSATING"
  "run_terminal PipelineRunStatus.SUCCEEDED" "run_terminal PipelineRunStatus.FAILED"
  "run_terminal PipelineRunStatus.CANCELLED"
  by (simp_all add: run_terminal_def)

lemma in_flight_simps [simp]:
  "\<not> in_flight StageAssignmentStatus.PENDING" "in_flight StageAssignmentStatus.DISPATCHED"
  "in_flight ACKNOWLEDGED" "\<not> in_flight COMPLETED" "\<not> in_flight StageAssignmentStatus.FAILED"
  "\<not> in_flight StageAssignmentStatus.CANCELLED"
  by (simp_all add: in_flight_def)

text \<open>Back-pressure states are ordered by severity.\<close>

instantiation BackpressureState :: linorder
begin

fun severity :: "BackpressureState \<Rightarrow> nat" where
  "severity NORMAL = 0"
| "severity PRESSURED = 1"
| "severity THROTTLED = 2"

definition less_eq_BackpressureState :: "BackpressureState \<Rightarrow> BackpressureState \<Rightarrow> bool" where
  "less_eq_BackpressureState a b \<longleftrightarrow> severity a \<le> severity b"

definition less_BackpressureState :: "BackpressureState \<Rightarrow> BackpressureState \<Rightarrow> bool" where
  "less_BackpressureState a b \<longleftrightarrow> severity a < severity b"

instance
proof
  fix x y z :: BackpressureState
  show "x < y \<longleftrightarrow> x \<le> y \<and> \<not> y \<le> x"
    by (auto simp: less_eq_BackpressureState_def less_BackpressureState_def)
  show "x \<le> x" by (simp add: less_eq_BackpressureState_def)
  show "x \<le> y \<Longrightarrow> y \<le> z \<Longrightarrow> x \<le> z" by (simp add: less_eq_BackpressureState_def)
  show "x \<le> y \<Longrightarrow> y \<le> x \<Longrightarrow> x = y"
    by (cases x; cases y) (simp_all add: less_eq_BackpressureState_def)
  show "x \<le> y \<or> y \<le> x" by (auto simp: less_eq_BackpressureState_def)
qed

end

end
