(* ===== verification/Tables.thy ===== *)
theory Tables imports Enums begin

text \<open>
  The ORM rows of \<open>models/*.py\<close> as records, the \<open>Settings\<close> of \<open>core/config.py\<close>, and the database
  \<open>db\<close> every operation of the model runs on.

  A column has the name it has in Python behind the initials of its class (\<open>sa_worker_id\<close> is
  \<open>StageAssignment.worker_id\<close>). A nullable column is an \<open>option\<close>; a JSON column is a \<open>json\<close>. A stage
  column holds the stage's text: \<open>ContentStage\<close> is a subclass of \<open>str\<close>, a member equals its text, and
  the code mixes members and texts freely. The columns that only the database writes (the
  optimistic-lock \<open>version\<close>, the \<open>updated_at\<close> trigger) are left out, and so is \<open>created_at\<close> where no
  modelled query reads it.

  A table is the list of its rows in insertion order. An ORM object is its row's primary key: an
  attribute write is \<open>row_set\<close>, an attribute read looks the row up again, so all holders of the
  object see every write.
\<close>

section \<open>Orchestration rows\<close>

type_synonym stage = string

record PipelineRun =
  pr_id :: uuid
  pr_workspace_id :: uuid
  pr_content_item_id :: uuid
  pr_idempotency_key :: "string option"
  pr_current_stage :: stage
  pr_status :: PipelineRunStatus
  pr_started_at :: "datetime option"
  pr_completed_at :: "datetime option"
  pr_pause_reason :: "string option"
  pr_definition_id :: "uuid option"
  pr_correlation_id :: "uuid option"
  pr_trace_id :: "string option"

record PipelineStageRun =
  psr_id :: uuid
  psr_workspace_id :: uuid
  psr_pipeline_run_id :: uuid
  psr_content_item_id :: uuid
  psr_stage :: stage
  psr_attempt_number :: int
  psr_status :: StageRunStatus
  psr_error_message :: "string option"
  psr_started_at :: "datetime option"
  psr_completed_at :: "datetime option"

record StageAssignment =
  sa_id :: uuid
  sa_workspace_id :: uuid
  sa_pipeline_run_id :: uuid
  sa_stage :: stage
  sa_attempt_number :: int
  sa_worker_id :: "uuid option"
  sa_status :: StageAssignmentStatus
  sa_idempotency_key :: "string option"
  sa_lease_expires_at :: "datetime option"
  sa_dispatched_at :: "datetime option"
  sa_acknowledged_at :: "datetime option"
  sa_completed_at :: "datetime option"
  sa_result :: "json option"
  sa_correlation_id :: "uuid option"
  sa_trace_id :: "string option"
  sa_claimed_at :: "datetime option"
  sa_claimed_by :: "uuid option"
  sa_claim_count :: int
  sa_claim_token :: "uuid option"
  sa_lease_started_at :: "datetime option"
  sa_lease_extension_count :: int
  sa_priority :: int
  sa_provider :: "string option"
  sa_created_at :: datetime

record JobSchedule =
  js_id :: uuid
  js_workspace_id :: uuid
  js_job_type :: JobType
  js_ref_table :: string
  js_ref_id :: uuid
  js_run_after :: datetime
  js_status :: JobScheduleStatus
  js_lease_owner :: "string option"
  js_lease_expires_at :: "datetime option"
  js_attempt :: int
  js_priority :: int
  js_correlation_id :: "uuid option"
  js_trace_id :: "string option"
  js_created_at :: datetime

record WorkspaceConcurrencyLimit =
  wcl_workspace_id :: uuid
  wcl_max_concurrent_assignments :: int
  wcl_max_per_scheduler_tick :: int
  wcl_queue_soft_limit :: int
  wcl_queue_hard_limit :: int

record WorkerRegistration =
  wr_id :: uuid
  wr_workspace_id :: "uuid option"
  wr_name :: string
  wr_supported_stages :: "stage list"
  wr_capabilities :: "json option"
  wr_status :: WorkerStatus
  wr_max_concurrency :: int
  wr_current_load :: int
  wr_health_score :: int
  wr_last_heartbeat_at :: "datetime option"
  wr_registered_at :: datetime
  wr_instance_key :: string
  wr_worker_version :: "string option"
  wr_drain :: bool
  wr_deregistered_at :: "datetime option"

record WorkerCredential =
  wc_id :: uuid
  wc_worker_id :: uuid
  wc_workspace_id :: uuid
  wc_secret_hash :: string
  wc_status :: WorkerCredentialStatus
  wc_rotated_at :: "datetime option"
  wc_expires_at :: "datetime option"

record WorkerHeartbeat =
  whb_worker_id :: uuid
  whb_status :: WorkerStatus
  whb_current_load :: int
  whb_heartbeat_at :: datetime

record WorkerLog =
  wl_id :: uuid
  wl_workspace_id :: uuid
  wl_worker_id :: uuid
  wl_pipeline_run_id :: "uuid option"
  wl_assignment_id :: "uuid option"
  wl_severity :: string
  wl_message :: string
  wl_context :: json
  wl_occurred_at :: datetime
  wl_received_at :: datetime

record WorkflowDefinition =
  wd_id :: uuid
  wd_workspace_id :: uuid
  wd_name :: string
  wd_version :: int
  wd_is_active :: bool

record WorkflowStage =
  wst_id :: uuid
  wst_definition_id :: uuid
  wst_stage_key :: stage
  wst_ordinal :: int
  wst_max_attempts :: int
  wst_backoff_base_seconds :: int
  wst_backoff_multiplier :: int
  wst_backoff_max_seconds :: int
  wst_timeout_seconds :: int
  wst_is_review_gate :: bool
  wst_is_terminal :: bool
  wst_compensation_stage_key :: "stage option"

record WorkflowTransition =
  wt_id :: uuid
  wt_definition_id :: uuid
  wt_from_stage :: stage
  wt_to_stage :: stage
  wt_trigger :: WorkflowTransitionTrigger
  wt_condition :: "json option"
  wt_priority :: int

record ReviewGate =
  rg_id :: uuid
  rg_workspace_id :: uuid
  rg_pipeline_run_id :: uuid
  rg_content_version_id :: "uuid option"
  rg_stage :: stage
  rg_status :: ReviewGateStatus
  rg_requested_at :: datetime
  rg_timeout_at :: "datetime option"
  rg_decided_at :: "datetime option"
  rg_decided_by :: "uuid option"
  rg_escalation_level :: int

record ReviewDecision =
  rvd_id :: uuid
  rvd_workspace_id :: uuid
  rvd_content_item_id :: uuid
  rvd_content_version_id :: "uuid option"
  rvd_reviewer_id :: uuid
  rvd_decision :: ReviewDecisionValue
  rvd_notes :: "string option"

section \<open>Spend rows\<close>

record SpendLog =
  sl_id :: uuid
  sl_workspace_id :: uuid
  sl_provider :: string
  sl_stage :: "stage option"
  sl_cost_usd :: usd
  sl_occurred_at :: datetime

record SpendReservation =
  sr_id :: uuid
  sr_workspace_id :: uuid
  sr_pipeline_run_id :: "uuid option"
  sr_provider :: string
  sr_stage :: "stage option"
  sr_estimated_cost_usd :: usd
  sr_status :: ReservationStatus

record SpendCap =
  cap_id :: uuid
  cap_workspace_id :: uuid
  cap_provider :: "string option"
  cap_daily_cap_usd :: usd
  cap_monthly_cap_usd :: usd

section \<open>Event rows\<close>

record OutboxEvent =
  ev_event_id :: uuid
  ev_workspace_id :: uuid
  ev_event_type :: string
  ev_event_version :: int
  ev_aggregate_type :: string
  ev_aggregate_id :: uuid
  ev_correlation_id :: uuid
  ev_causation_id :: "uuid option"
  ev_trace_id :: "string option"
  ev_span_id :: "string option"
  ev_sequence :: int
  ev_payload :: json
  ev_status :: OutboxEventStatus
  ev_delivery_attempts :: int
  ev_occurred_at :: datetime
  ev_produced_by :: string

record EventConsumer =
  ec_id :: uuid
  ec_name :: string
  ec_max_event_version :: int
  ec_max_delivery_attempts :: int

record ConsumerCheckpoint =
  ck_id :: uuid
  ck_consumer_id :: uuid
  ck_aggregate_type :: string
  ck_partition_key :: string
  ck_last_sequence :: int

record DeadLetterJob =
  dl_id :: uuid
  dl_workspace_id :: uuid
  dl_related_table :: string
  dl_related_id :: uuid
  dl_job_type :: string
  dl_payload :: "json option"
  dl_failure_reason :: string
  dl_attempt_count :: int
  dl_first_failed_at :: datetime
  dl_last_failed_at :: datetime
  dl_status :: DeadLetterStatus

record StageClaimAudit =
  sca_id :: uuid
  sca_workspace_id :: uuid
  sca_assignment_id :: "uuid option"
  sca_worker_id :: uuid
  sca_outcome :: ClaimOutcome
  sca_stage :: "stage option"
  sca_detail :: "string option"
  sca_correlation_id :: "uuid option"

record StageRecoveryAudit =
  sra_id :: uuid
  sra_workspace_id :: uuid
  sra_assignment_id :: uuid
  sra_previous_worker_id :: "uuid option"
  sra_reason :: RecoveryReason
  sra_previous_status :: string
  sra_previous_attempt :: int
  sra_new_attempt :: "int option"
  sra_outcome :: RecoveryOutcome
  sra_detail :: "string option"
  sra_correlation_id :: "uuid option"

record ProviderEffectKey =
  pek_id :: uuid
  pek_workspace_id :: uuid
  pek_assignment_id :: uuid
  pek_attempt_number :: int
  pek_effect_key :: string
  pek_effect_kind :: string

record WorkspaceBackpressureState =
  wbs_workspace_id :: uuid
  wbs_state :: BackpressureState
  wbs_pending_depth :: int
  wbs_entered_at :: "datetime option"
  wbs_updated_at :: datetime

record ProviderConcurrencyBudget =
  pcb_id :: uuid
  pcb_workspace_id :: uuid
  pcb_provider :: string
  pcb_max_concurrent :: int

section \<open>Workspace and content rows\<close>

record Workspace =
  ws_id :: uuid
  ws_name :: string
  ws_priority_tier :: int
  ws_created_by :: "uuid option"

record WorkspaceMembership =
  mb_id :: uuid
  mb_workspace_id :: uuid
  mb_user_id :: uuid
  mb_role :: WorkspaceRole

record Profile =
  pf_id :: uuid
  pf_email :: string
  pf_full_name :: "string option"

record LocalAuthCredential =
  la_user_id :: uuid
  la_email :: string
  la_password_hash :: string
  la_failed_attempts :: int
  la_last_failed_at :: "datetime option"
  la_locked_until :: "datetime option"

record ContentItem =
  ci_id :: uuid
  ci_workspace_id :: uuid
  ci_topic :: string
  ci_target_length_seconds :: "int option"
  ci_current_stage :: stage
  ci_status :: ContentStatus
  ci_current_version_id :: "uuid option"
  ci_current_pipeline_run_id :: "uuid option"
  ci_created_by :: "uuid option"
  ci_deleted_at :: "datetime option"

record ContentVersion =
  cv_id :: uuid
  cv_workspace_id :: uuid
  cv_content_item_id :: uuid
  cv_script_hook :: "string option"
  cv_script_body :: "string option"
  cv_script_cta :: "string option"
  cv_prompt_used :: "string option"
  cv_generated_by :: "string option"
  cv_created_by :: "uuid option"

record PublicationEligibility =
  pe_id :: uuid
  pe_workspace_id :: uuid
  pe_content_item_id :: uuid
  pe_platform :: string
  pe_generated_by :: "string option"
  pe_synthetic_media_disclosed :: bool
  pe_rights_confirmed_by :: "uuid option"
  pe_rights_confirmed_at :: "datetime option"
  pe_originality_fingerprint :: "string option"
  pe_review_gate_id :: "uuid option"
  pe_policy_notes :: "json option"

record WorkspaceBilling =
  wb_workspace_id :: uuid
  wb_stripe_customer_id :: "string option"
  wb_stripe_subscription_id :: "string option"
  wb_plan :: string
  wb_status :: string
  wb_current_period_end :: "datetime option"
  wb_cancel_at_period_end :: bool

record BillingWebhookEvent =
  bwe_id :: uuid
  bwe_stripe_event_id :: string
  bwe_event_type :: string
  bwe_workspace_id :: "uuid option"
  bwe_payload :: json

section \<open>Settings\<close>

text \<open>The fields of \<open>Settings\<close> the modelled code reads; the bounds are those of its \<open>Field\<close>s.\<close>

record Settings =
  environment :: string
  supabase_jwt_secret :: string
  supabase_jwt_algorithm :: string
  supabase_jwt_audience :: string
  auth_mode :: string
  default_stage_estimate_usd :: usd
  worker_offline_after_seconds :: int
  worker_suspect_after_seconds :: int
  worker_credential_rotation_grace_seconds :: int
  worker_capability_protocol_versions :: "int list"
  assignment_lease_seconds :: int
  assignment_max_lease_seconds :: int
  assignment_reaper_batch_size :: int
  assignment_default_max_attempts :: int
  assignment_age_boost_interval_seconds :: int
  assignment_age_boost_per_interval :: int
  assignment_age_boost_max :: int
  workspace_tier_priority_weight :: int
  queue_soft_limit_default :: int
  queue_hard_limit_default :: int
  claim_candidate_batch_size :: int
  default_daily_spend_cap_usd :: usd
  default_monthly_spend_cap_usd :: usd
  scheduler_batch_size :: int
  billing_enabled :: bool
  stripe_secret_key :: "string option"
  stripe_webhook_secret :: "string option"
  stripe_price_id_pro :: "string option"
  stripe_checkout_success_url :: "string option"
  stripe_checkout_cancel_url :: "string option"

definition settings_valid :: "Settings \<Rightarrow> bool" where
  "settings_valid c \<longleftrightarrow> 0 \<le> default_stage_estimate_usd c \<and> 1 \<le> scheduler_batch_size c
     \<and> 1 \<le> assignment_age_boost_interval_seconds c \<and> 0 \<le> assignment_age_boost_per_interval c
     \<and> 0 \<le> assignment_age_boost_max c \<and> 1 \<le> workspace_tier_priority_weight c
     \<and> 1 \<le> queue_soft_limit_default c \<and> 1 \<le> queue_hard_limit_default c
     \<and> 1 \<le> claim_candidate_batch_size c"

definition default_settings :: Settings where
  "default_settings = \<lparr>
     environment = ''development'', supabase_jwt_secret = ''secret'', supabase_jwt_algorithm = ''HS256'',
     supabase_jwt_audience = ''authenticated'', auth_mode = ''supabase'',
     default_stage_estimate_usd = 1 / 100, worker_offline_after_seconds = 90,
     worker_suspect_after_seconds = 30, worker_credential_rotation_grace_seconds = 3600,
     worker_capability_protocol_versions = [1], assignment_lease_seconds = 60,
     assignment_max_lease_seconds = 900, assignment_reaper_batch_size = 100,
     assignment_default_max_attempts = 3, assignment_age_boost_interval_seconds = 60,
     assignment_age_boost_per_interval = 1, assignment_age_boost_max = 100,
     workspace_tier_priority_weight = 10, queue_soft_limit_default = 50,
     queue_hard_limit_default = 200, claim_candidate_batch_size = 32,
     default_daily_spend_cap_usd = 50, default_monthly_spend_cap_usd = 1000,
     scheduler_batch_size = 50, billing_enabled = False, stripe_secret_key = None,
     stripe_webhook_secret = None, stripe_price_id_pro = None,
     stripe_checkout_success_url = None, stripe_checkout_cancel_url = None \<rparr>"

lemma default_settings_valid [simp]: "settings_valid default_settings"
  by (simp add: settings_valid_def default_settings_def)

end
