(* ===== verification/Database.thy ===== *)
theory Database imports Tables begin

text \<open>
  The database the operations run on, and the session's primitive operations.

  Beside the tables, \<open>db\<close> holds what an operation reads from its environment: the settings, and four
  oracles (\<open>clock\<close>, \<open>uuids\<close>, \<open>rng\<close>, \<open>tokens\<close>) read through one counter \<open>tick\<close>, so that every
  \<open>datetime.now(UTC)\<close>, \<open>uuid.uuid4()\<close>, \<open>random.uniform\<close> and \<open>secrets.token_urlsafe\<close> is a fresh reading. What a proof needs of
  the oracles (fresh identifiers, readings in [0, 1)) is a named hypothesis of the theorem that needs it.
  \<open>locks\<close> are the primary keys of the rows other transactions hold locked: \<open>FOR UPDATE SKIP LOCKED\<close>
  does not see them.
\<close>

record db =
  cfg :: Settings
  clock :: "nat \<Rightarrow> datetime"
  uuids :: "nat \<Rightarrow> uuid"
  rng :: "nat \<Rightarrow> rat"
  tokens :: "nat \<Rightarrow> string"
  tick :: nat
  locks :: "uuid list"
  runs :: "PipelineRun list"
  stage_runs :: "PipelineStageRun list"
  assignments :: "StageAssignment list"
  jobs :: "JobSchedule list"
  limits :: "WorkspaceConcurrencyLimit list"
  workers :: "WorkerRegistration list"
  credentials :: "WorkerCredential list"
  heartbeats :: "WorkerHeartbeat list"
  worker_logs :: "WorkerLog list"
  workflows :: "WorkflowDefinition list"
  wstages :: "WorkflowStage list"
  transitions :: "WorkflowTransition list"
  gates :: "ReviewGate list"
  decisions :: "ReviewDecision list"
  spend_logs :: "SpendLog list"
  reservations :: "SpendReservation list"
  caps :: "SpendCap list"
  events :: "OutboxEvent list"
  consumers :: "EventConsumer list"
  checkpoints :: "ConsumerCheckpoint list"
  dead_letters :: "DeadLetterJob list"
  claim_audits :: "StageClaimAudit list"
  recovery_audits :: "StageRecoveryAudit list"
  effect_keys :: "ProviderEffectKey list"
  backpressure_states :: "WorkspaceBackpressureState list"
  budgets :: "ProviderConcurrencyBudget list"
  workspaces :: "Workspace list"
  memberships :: "WorkspaceMembership list"
  profiles :: "Profile list"
  local_credentials :: "LocalAuthCredential list"
  items :: "ContentItem list"
  versions :: "ContentVersion list"
  eligibilities :: "PublicationEligibility list"
  billings :: "WorkspaceBilling list"
  billing_events :: "BillingWebhookEvent list"

type_synonym 'a M = "(db, exn, 'a) op"

text \<open>A database with no rows, the default settings and the given oracles: where witnesses start.\<close>

definition empty_db :: "(nat \<Rightarrow> datetime) \<Rightarrow> (nat \<Rightarrow> uuid) \<Rightarrow> (nat \<Rightarrow> rat) \<Rightarrow> db" where
  "empty_db c u r = \<lparr> cfg = default_settings, clock = c, uuids = u, rng = r, tokens = (\<lambda>n. ''token-'' @ str_nat n), tick = 0, locks = [],
     runs = [], stage_runs = [], assignments = [], jobs = [], limits = [], workers = [],
     credentials = [], heartbeats = [], worker_logs = [], workflows = [], wstages = [], transitions = [], gates = [],
     decisions = [], spend_logs = [], reservations = [], caps = [], events = [], consumers = [],
     checkpoints = [], dead_letters = [], claim_audits = [], recovery_audits = [],
     effect_keys = [], backpressure_states = [], budgets = [], workspaces = [], memberships = [], profiles = [], local_credentials = [], items = [],
     versions = [], eligibilities = [], billings = [], billing_events = [] \<rparr>"

section \<open>Reading the environment\<close>

definition utcnow :: "datetime M" where
  "utcnow s = (Inr (clock s (tick s)), s\<lparr>tick := Suc (tick s)\<rparr>)"

definition uuid4 :: "uuid M" where
  "uuid4 s = (Inr (uuids s (tick s)), s\<lparr>tick := Suc (tick s)\<rparr>)"

text \<open>\<open>random.uniform(0, b)\<close> is \<open>0 + b * random()\<close>.\<close>

definition uniform0 :: "rat \<Rightarrow> rat M" where
  "uniform0 b s = (Inr (b * rng s (tick s)), s\<lparr>tick := Suc (tick s)\<rparr>)"

text \<open>\<open>now or datetime.now(UTC)\<close>, \<open>x or uuid.uuid4()\<close>: an aware datetime and a UUID are truthy.\<close>

definition now_or_utcnow :: "datetime option \<Rightarrow> datetime M" where
  "now_or_utcnow now = (case now of None \<Rightarrow> utcnow | Some t \<Rightarrow> ret t)"

definition or_uuid4 :: "uuid option \<Rightarrow> uuid M" where
  "or_uuid4 x = (case x of None \<Rightarrow> uuid4 | Some u \<Rightarrow> ret u)"

lemma utcnow_exec [exec]: "utcnow s = (Inr (clock s (tick s)), s\<lparr>tick := Suc (tick s)\<rparr>)"
  by (simp add: utcnow_def)

lemma uuid4_exec [exec]: "uuid4 s = (Inr (uuids s (tick s)), s\<lparr>tick := Suc (tick s)\<rparr>)"
  by (simp add: uuid4_def)

lemma uniform0_exec [exec]: "uniform0 b s = (Inr (b * rng s (tick s)), s\<lparr>tick := Suc (tick s)\<rparr>)"
  by (simp add: uniform0_def)

lemma or_uuid4_exec [exec]:
  "or_uuid4 x s = (case x of None \<Rightarrow> (Inr (uuids s (tick s)), s\<lparr>tick := Suc (tick s)\<rparr>) | Some u \<Rightarrow> (Inr u, s))"
  by (simp add: or_uuid4_def uuid4_def ret_def split: option.split)

lemma now_or_utcnow_exec [exec]:
  "now_or_utcnow x s = (case x of None \<Rightarrow> (Inr (clock s (tick s)), s\<lparr>tick := Suc (tick s)\<rparr>) | Some t \<Rightarrow> (Inr t, s))"
  by (simp add: now_or_utcnow_def utcnow_def ret_def split: option.split)

lemma now_or_utcnow_Inr: "\<exists>t n. now_or_utcnow x s = (Inr t, s\<lparr>tick := n\<rparr>)"
  by (cases x) (auto simp: exec intro: exI [of _ "tick s"])

lemma or_uuid4_Inr: "\<exists>u n. or_uuid4 x s = (Inr u, s\<lparr>tick := n\<rparr>)"
  by (cases x) (auto simp: exec intro: exI [of _ "tick s"])

text \<open>Everything but the counter stays: the footprint of a reading.\<close>

lemma keeps_tick:
  assumes "\<And>s n. f (s\<lparr>tick := n\<rparr>) = f s"
  shows keeps_utcnow: "keeps f utcnow" and keeps_uuid4: "keeps f uuid4"
    and keeps_uniform0: "keeps f (uniform0 b)" and keeps_now_or_utcnow: "keeps f (now_or_utcnow t)"
    and keeps_or_uuid4: "keeps f (or_uuid4 x)"
  by (auto simp: steps_def eqOn_def exec assms split: option.split)

lemmas keeps_env [steps_intro] =
  keeps_utcnow keeps_uuid4 keeps_uniform0 keeps_now_or_utcnow keeps_or_uuid4

lemma pres_tick:
  assumes "\<And>s n. I s \<Longrightarrow> I (s\<lparr>tick := n\<rparr>)"
  shows pres_utcnow: "pres I utcnow" and pres_uuid4: "pres I uuid4"
    and pres_uniform0: "pres I (uniform0 b)" and pres_now_or_utcnow: "pres I (now_or_utcnow t)"
    and pres_or_uuid4: "pres I (or_uuid4 x)"
  by (auto simp: steps_def keepsInv_def exec assms split: option.split)

lemmas pres_env [steps_intro] =
  pres_utcnow pres_uuid4 pres_uniform0 pres_now_or_utcnow pres_or_uuid4

lemma pres_modify [steps_intro]: "(\<And>s. I s \<Longrightarrow> I (g s)) \<Longrightarrow> pres I (modifyM g)"
  by (simp add: steps_def modifyM_def keepsInv_def)

section \<open>Query results\<close>

text \<open>
  \<open>scalar_one_or_none()\<close>, and the query \<open>SELECT ... ORDER BY ... LIMIT n\<close> on rows in insertion order
  (a stable sort; rows of equal rank come in insertion order). \<open>rows_due\<close> adds \<open>FOR UPDATE SKIP LOCKED\<close>.
\<close>

definition scalar_one_or_none :: "'r list \<Rightarrow> exn + 'r option" where
  "scalar_one_or_none rs = (case rs of [] \<Rightarrow> Inr None | [r] \<Rightarrow> Inr (Some r) | _ \<Rightarrow> Inl MultipleResultsFound)"

definition unlocked :: "('r \<Rightarrow> uuid) \<Rightarrow> db \<Rightarrow> 'r list \<Rightarrow> 'r list" where
  "unlocked key s rs = filter (\<lambda>r. key r \<notin> set (locks s)) rs"

text \<open>\<open>LIMIT n\<close> and the batch loops take an int.\<close>

definition limit_rows :: "int \<Rightarrow> 'r list \<Rightarrow> 'r list" where
  "limit_rows n rs = take (nat n) rs"

lemma scalar_one_or_none_None: "scalar_one_or_none rs = Inr None \<longleftrightarrow> rs = []"
  by (auto simp: scalar_one_or_none_def split: list.splits)

lemma scalar_one_or_none_Some: "scalar_one_or_none rs = Inr (Some r) \<longleftrightarrow> rs = [r]"
  by (auto simp: scalar_one_or_none_def split: list.splits)

lemma scalar_one_or_none_simps [simp]:
  "scalar_one_or_none [] = Inr None" "scalar_one_or_none [r] = Inr (Some r)"
  "scalar_one_or_none (a # b # rs) = Inl MultipleResultsFound"
  by (simp_all add: scalar_one_or_none_def)

lemma unlocked_subset: "set (unlocked key s rs) \<subseteq> set rs"
  by (auto simp: unlocked_def)

lemma limit_rows_subset: "set (limit_rows n rs) \<subseteq> set rs"
  by (simp add: limit_rows_def set_take_subset)

lemma length_limit_rows: "length (limit_rows n rs) \<le> nat n"
  by (simp add: limit_rows_def)

section \<open>Loading and writing rows\<close>

text \<open>Loading a row a Python variable holds; the row is there as long as nothing deletes it.\<close>

definition the_row :: "(db \<Rightarrow> 'r list) \<Rightarrow> ('r \<Rightarrow> uuid) \<Rightarrow> uuid \<Rightarrow> 'r M" where
  "the_row tab key i = (\<lambda>s. case row_get key i (tab s) of None \<Rightarrow> (Inl NoSuchRow, s) | Some r \<Rightarrow> (Inr r, s))"

lemma the_row_exec [exec]:
  "the_row tab key i s = (case row_get key i (tab s) of None \<Rightarrow> (Inl NoSuchRow, s) | Some r \<Rightarrow> (Inr r, s))"
  by (simp add: the_row_def)

lemma keeps_the_row [steps_intro]: "keeps f (the_row tab key i)"
  by (simp add: steps_def eqOn_def exec split: option.split)

lemma pres_the_row [steps_intro]: "pres I (the_row tab key i)"
  by (simp add: steps_def keepsInv_def exec split: option.split)

definition the_run :: "uuid \<Rightarrow> PipelineRun M" where
  "the_run = the_row runs pr_id"

definition set_run :: "uuid \<Rightarrow> (PipelineRun \<Rightarrow> PipelineRun) \<Rightarrow> unit M" where
  "set_run i f = modifyM (runs_update (row_set pr_id i f))"

definition the_assignment :: "uuid \<Rightarrow> StageAssignment M" where
  "the_assignment = the_row assignments sa_id"

definition set_assignment :: "uuid \<Rightarrow> (StageAssignment \<Rightarrow> StageAssignment) \<Rightarrow> unit M" where
  "set_assignment i f = modifyM (assignments_update (row_set sa_id i f))"

definition the_job :: "uuid \<Rightarrow> JobSchedule M" where
  "the_job = the_row jobs js_id"

definition set_job :: "uuid \<Rightarrow> (JobSchedule \<Rightarrow> JobSchedule) \<Rightarrow> unit M" where
  "set_job i f = modifyM (jobs_update (row_set js_id i f))"

definition the_worker :: "uuid \<Rightarrow> WorkerRegistration M" where
  "the_worker = the_row workers wr_id"

definition set_worker :: "uuid \<Rightarrow> (WorkerRegistration \<Rightarrow> WorkerRegistration) \<Rightarrow> unit M" where
  "set_worker i f = modifyM (workers_update (row_set wr_id i f))"

definition the_gate :: "uuid \<Rightarrow> ReviewGate M" where
  "the_gate = the_row gates rg_id"

definition set_gate :: "uuid \<Rightarrow> (ReviewGate \<Rightarrow> ReviewGate) \<Rightarrow> unit M" where
  "set_gate i f = modifyM (gates_update (row_set rg_id i f))"

definition the_reservation :: "uuid \<Rightarrow> SpendReservation M" where
  "the_reservation = the_row reservations sr_id"

definition set_reservation :: "uuid \<Rightarrow> (SpendReservation \<Rightarrow> SpendReservation) \<Rightarrow> unit M" where
  "set_reservation i f = modifyM (reservations_update (row_set sr_id i f))"

definition the_event :: "uuid \<Rightarrow> OutboxEvent M" where
  "the_event = the_row events ev_event_id"

definition set_event :: "uuid \<Rightarrow> (OutboxEvent \<Rightarrow> OutboxEvent) \<Rightarrow> unit M" where
  "set_event i f = modifyM (events_update (row_set ev_event_id i f))"

definition the_checkpoint :: "uuid \<Rightarrow> ConsumerCheckpoint M" where
  "the_checkpoint = the_row checkpoints ck_id"

definition set_checkpoint :: "uuid \<Rightarrow> (ConsumerCheckpoint \<Rightarrow> ConsumerCheckpoint) \<Rightarrow> unit M" where
  "set_checkpoint i f = modifyM (checkpoints_update (row_set ck_id i f))"

definition the_item :: "uuid \<Rightarrow> ContentItem M" where
  "the_item = the_row items ci_id"

definition set_item :: "uuid \<Rightarrow> (ContentItem \<Rightarrow> ContentItem) \<Rightarrow> unit M" where
  "set_item i f = modifyM (items_update (row_set ci_id i f))"

lemmas load_defs =
  the_run_def the_assignment_def the_job_def the_worker_def the_gate_def the_reservation_def
  the_event_def the_checkpoint_def the_item_def

lemmas store_defs =
  set_run_def set_assignment_def set_job_def set_worker_def set_gate_def set_reservation_def
  set_event_def set_checkpoint_def set_item_def

lemma load_exec [exec]:
  "the_run i s = (case row_get pr_id i (runs s) of None \<Rightarrow> (Inl NoSuchRow, s) | Some r \<Rightarrow> (Inr r, s))"
  "the_assignment i s = (case row_get sa_id i (assignments s) of None \<Rightarrow> (Inl NoSuchRow, s) | Some r \<Rightarrow> (Inr r, s))"
  "the_job i s = (case row_get js_id i (jobs s) of None \<Rightarrow> (Inl NoSuchRow, s) | Some r \<Rightarrow> (Inr r, s))"
  "the_worker i s = (case row_get wr_id i (workers s) of None \<Rightarrow> (Inl NoSuchRow, s) | Some r \<Rightarrow> (Inr r, s))"
  "the_gate i s = (case row_get rg_id i (gates s) of None \<Rightarrow> (Inl NoSuchRow, s) | Some r \<Rightarrow> (Inr r, s))"
  "the_reservation i s = (case row_get sr_id i (reservations s) of None \<Rightarrow> (Inl NoSuchRow, s) | Some r \<Rightarrow> (Inr r, s))"
  "the_event i s = (case row_get ev_event_id i (events s) of None \<Rightarrow> (Inl NoSuchRow, s) | Some r \<Rightarrow> (Inr r, s))"
  "the_checkpoint i s = (case row_get ck_id i (checkpoints s) of None \<Rightarrow> (Inl NoSuchRow, s) | Some r \<Rightarrow> (Inr r, s))"
  "the_item i s = (case row_get ci_id i (items s) of None \<Rightarrow> (Inl NoSuchRow, s) | Some r \<Rightarrow> (Inr r, s))"
  by (simp_all add: load_defs the_row_def)

lemma store_exec [exec]:
  "set_run i f0 s = (Inr (), runs_update (row_set pr_id i f0) s)"
  "set_assignment i f1 s = (Inr (), assignments_update (row_set sa_id i f1) s)"
  "set_job i f2 s = (Inr (), jobs_update (row_set js_id i f2) s)"
  "set_worker i f3 s = (Inr (), workers_update (row_set wr_id i f3) s)"
  "set_gate i f4 s = (Inr (), gates_update (row_set rg_id i f4) s)"
  "set_reservation i f5 s = (Inr (), reservations_update (row_set sr_id i f5) s)"
  "set_event i f6 s = (Inr (), events_update (row_set ev_event_id i f6) s)"
  "set_checkpoint i f7 s = (Inr (), checkpoints_update (row_set ck_id i f7) s)"
  "set_item i f8 s = (Inr (), items_update (row_set ci_id i f8) s)"
  by (simp_all add: store_defs modifyM_def)

text \<open>The tables that rows are updated in place of meet the interface of the prelude.\<close>

interpretation run_rows: row_table runs runs_update pr_id by unfold_locales simp

interpretation assignment_rows: row_table assignments assignments_update sa_id by unfold_locales simp

interpretation job_rows: row_table jobs jobs_update js_id by unfold_locales simp

interpretation worker_rows: row_table workers workers_update wr_id by unfold_locales simp

interpretation gate_rows: row_table gates gates_update rg_id by unfold_locales simp

interpretation reservation_rows: row_table reservations reservations_update sr_id by unfold_locales simp

interpretation event_rows: row_table events events_update ev_event_id by unfold_locales simp

interpretation item_rows: row_table items items_update ci_id by unfold_locales simp

text \<open>\<open>session.get(Model, id)\<close>: the row or \<open>None\<close>.\<close>

abbreviation get_row :: "(db \<Rightarrow> 'r list) \<Rightarrow> ('r \<Rightarrow> uuid) \<Rightarrow> uuid \<Rightarrow> 'r option M" where
  "get_row tab key i \<equiv> gets (\<lambda>s. row_get key i (tab s))"

text \<open>A query: a function of the tables, followed by what the code does with its rows.\<close>

abbreviation query :: "(db \<Rightarrow> 'r list) \<Rightarrow> 'r list M" where
  "query q \<equiv> gets q"

definition query_one :: "(db \<Rightarrow> 'r list) \<Rightarrow> 'r option M" where
  "query_one q = (\<lambda>s. (scalar_one_or_none (q s), s))"

lemma query_one_exec [exec]: "query_one q s = (scalar_one_or_none (q s), s)"
  by (simp add: query_one_def)

lemma keeps_query_one [steps_intro]: "keeps f (query_one q)"
  by (simp add: steps_def eqOn_def exec)

lemma pres_query_one [steps_intro]: "pres I (query_one q)"
  by (simp add: steps_def keepsInv_def exec)

text \<open>The loads change nothing; a store changes its own table only.\<close>

lemma keeps_loads [steps_intro]:
  "keeps f (the_run i)" "keeps f (the_assignment i)" "keeps f (the_job i)" "keeps f (the_worker i)"
  "keeps f (the_gate i)" "keeps f (the_reservation i)" "keeps f (the_event i)"
  "keeps f (the_checkpoint i)" "keeps f (the_item i)"
  by (simp_all add: load_defs keeps_the_row)

lemma pres_loads [steps_intro]:
  "pres I (the_run i)" "pres I (the_assignment i)" "pres I (the_job i)" "pres I (the_worker i)"
  "pres I (the_gate i)" "pres I (the_reservation i)" "pres I (the_event i)"
  "pres I (the_checkpoint i)" "pres I (the_item i)"
  by (simp_all add: load_defs pres_the_row)

lemma keeps_set_run [steps_intro]:
  "(\<And>s. f (runs_update (row_set pr_id i h) s) = f s) \<Longrightarrow> keeps f (set_run i h)"
  unfolding set_run_def by (rule keeps_modify) simp

lemma keeps_set_assignment [steps_intro]:
  "(\<And>s. f (assignments_update (row_set sa_id i h) s) = f s) \<Longrightarrow> keeps f (set_assignment i h)"
  unfolding set_assignment_def by (rule keeps_modify) simp

lemma keeps_set_job [steps_intro]: "(\<And>s. f (jobs_update (row_set js_id i h) s) = f s) \<Longrightarrow> keeps f (set_job i h)"
  unfolding set_job_def by (rule keeps_modify) simp

lemma keeps_set_worker [steps_intro]:
  "(\<And>s. f (workers_update (row_set wr_id i h) s) = f s) \<Longrightarrow> keeps f (set_worker i h)"
  unfolding set_worker_def by (rule keeps_modify) simp

lemma keeps_set_gate [steps_intro]:
  "(\<And>s. f (gates_update (row_set rg_id i h) s) = f s) \<Longrightarrow> keeps f (set_gate i h)"
  unfolding set_gate_def by (rule keeps_modify) simp

lemma keeps_set_reservation [steps_intro]:
  "(\<And>s. f (reservations_update (row_set sr_id i h) s) = f s) \<Longrightarrow> keeps f (set_reservation i h)"
  unfolding set_reservation_def by (rule keeps_modify) simp

lemma keeps_set_event [steps_intro]:
  "(\<And>s. f (events_update (row_set ev_event_id i h) s) = f s) \<Longrightarrow> keeps f (set_event i h)"
  unfolding set_event_def by (rule keeps_modify) simp

lemma keeps_set_checkpoint [steps_intro]:
  "(\<And>s. f (checkpoints_update (row_set ck_id i h) s) = f s) \<Longrightarrow> keeps f (set_checkpoint i h)"
  unfolding set_checkpoint_def by (rule keeps_modify) simp

lemma keeps_set_item [steps_intro]: "(\<And>s. f (items_update (row_set ci_id i h) s) = f s) \<Longrightarrow> keeps f (set_item i h)"
  unfolding set_item_def by (rule keeps_modify) simp

section \<open>Inserting rows\<close>

text \<open>
  \<open>session.add(row)\<close> followed by the flush. The unique indexes that a modelled operation can run into
  raise \<open>IntegrityError\<close>: one stage run per (run, stage, attempt), one assignment per primary key and
  per (workspace, idempotency key), one effect key per workspace, one consumer per name and one
  checkpoint per (consumer, aggregate). Foreign keys are not modelled.
\<close>

definition insert_row :: "(('r list \<Rightarrow> 'r list) \<Rightarrow> db \<Rightarrow> db) \<Rightarrow> 'r \<Rightarrow> unit M" where
  "insert_row tab_update r = modifyM (tab_update (\<lambda>rs. rs @ [r]))"

definition add_run :: "PipelineRun \<Rightarrow> unit M" where
  "add_run = insert_row runs_update"

definition add_job :: "JobSchedule \<Rightarrow> unit M" where
  "add_job = insert_row jobs_update"

definition add_gate :: "ReviewGate \<Rightarrow> unit M" where
  "add_gate = insert_row gates_update"

definition add_decision :: "ReviewDecision \<Rightarrow> unit M" where
  "add_decision = insert_row decisions_update"

definition add_spend_log :: "SpendLog \<Rightarrow> unit M" where
  "add_spend_log = insert_row spend_logs_update"

definition add_reservation :: "SpendReservation \<Rightarrow> unit M" where
  "add_reservation = insert_row reservations_update"

definition add_dead_letter :: "DeadLetterJob \<Rightarrow> unit M" where
  "add_dead_letter = insert_row dead_letters_update"

definition add_claim_audit :: "StageClaimAudit \<Rightarrow> unit M" where
  "add_claim_audit = insert_row claim_audits_update"

definition add_recovery_audit :: "StageRecoveryAudit \<Rightarrow> unit M" where
  "add_recovery_audit = insert_row recovery_audits_update"

definition add_item :: "ContentItem \<Rightarrow> unit M" where
  "add_item = insert_row items_update"

definition add_version :: "ContentVersion \<Rightarrow> unit M" where
  "add_version = insert_row versions_update"

definition add_eligibility :: "PublicationEligibility \<Rightarrow> unit M" where
  "add_eligibility = insert_row eligibilities_update"

definition add_heartbeat :: "WorkerHeartbeat \<Rightarrow> unit M" where
  "add_heartbeat = insert_row heartbeats_update"

definition add_backpressure_state :: "WorkspaceBackpressureState \<Rightarrow> unit M" where
  "add_backpressure_state = insert_row backpressure_states_update"

definition add_credential :: "WorkerCredential \<Rightarrow> unit M" where
  "add_credential = insert_row credentials_update"

definition add_worker :: "WorkerRegistration \<Rightarrow> unit M" where
  "add_worker = insert_row workers_update"

definition add_stage_run :: "PipelineStageRun \<Rightarrow> unit M" where
  "add_stage_run r = (\<lambda>s.
     if list_ex (\<lambda>q. psr_pipeline_run_id q = psr_pipeline_run_id r \<and> psr_stage q = psr_stage r
                    \<and> psr_attempt_number q = psr_attempt_number r) (stage_runs s)
     then (Inl IntegrityError, s)
     else (Inr (), s\<lparr>stage_runs := stage_runs s @ [r]\<rparr>))"

definition idem_taken :: "uuid \<Rightarrow> string option \<Rightarrow> StageAssignment list \<Rightarrow> bool" where
  "idem_taken ws key rows \<longleftrightarrow>
     key \<noteq> None \<and> list_ex (\<lambda>q. sa_workspace_id q = ws \<and> sa_idempotency_key q = key) rows"

definition add_assignment :: "StageAssignment \<Rightarrow> unit M" where
  "add_assignment r = (\<lambda>s.
     if has_row sa_id (sa_id r) (assignments s) \<or> idem_taken (sa_workspace_id r) (sa_idempotency_key r) (assignments s)
     then (Inl IntegrityError, s)
     else (Inr (), s\<lparr>assignments := assignments s @ [r]\<rparr>))"

definition add_effect_key :: "ProviderEffectKey \<Rightarrow> unit M" where
  "add_effect_key r = (\<lambda>s.
     if list_ex (\<lambda>q. pek_workspace_id q = pek_workspace_id r \<and> pek_effect_key q = pek_effect_key r) (effect_keys s)
     then (Inl IntegrityError, s)
     else (Inr (), s\<lparr>effect_keys := effect_keys s @ [r]\<rparr>))"

definition add_consumer :: "EventConsumer \<Rightarrow> unit M" where
  "add_consumer r = (\<lambda>s.
     if list_ex (\<lambda>q. ec_id q = ec_id r \<or> ec_name q = ec_name r) (consumers s) then (Inl IntegrityError, s)
     else (Inr (), s\<lparr>consumers := consumers s @ [r]\<rparr>))"

definition checkpoint_slot :: "ConsumerCheckpoint \<Rightarrow> uuid \<times> string \<times> string" where
  "checkpoint_slot k = (ck_consumer_id k, ck_aggregate_type k, ck_partition_key k)"

definition add_checkpoint :: "ConsumerCheckpoint \<Rightarrow> unit M" where
  "add_checkpoint r = (\<lambda>s.
     if list_ex (\<lambda>q. ck_id q = ck_id r \<or> checkpoint_slot q = checkpoint_slot r) (checkpoints s) then (Inl IntegrityError, s)
     else (Inr (), s\<lparr>checkpoints := checkpoints s @ [r]\<rparr>))"

lemmas insert_defs =
  insert_row_def add_run_def add_job_def add_gate_def add_decision_def add_spend_log_def add_reservation_def add_dead_letter_def add_claim_audit_def add_recovery_audit_def add_item_def add_version_def add_eligibility_def add_heartbeat_def add_backpressure_state_def add_credential_def add_worker_def
  add_stage_run_def add_assignment_def add_effect_key_def add_consumer_def add_checkpoint_def

lemma insert_exec [exec]:
  "add_run r0 s = (Inr (), runs_update (\<lambda>rs. rs @ [r0]) s)"
  "add_job r1 s = (Inr (), jobs_update (\<lambda>rs. rs @ [r1]) s)"
  "add_gate r2 s = (Inr (), gates_update (\<lambda>rs. rs @ [r2]) s)"
  "add_decision r3 s = (Inr (), decisions_update (\<lambda>rs. rs @ [r3]) s)"
  "add_spend_log r4 s = (Inr (), spend_logs_update (\<lambda>rs. rs @ [r4]) s)"
  "add_reservation r5 s = (Inr (), reservations_update (\<lambda>rs. rs @ [r5]) s)"
  "add_dead_letter r6 s = (Inr (), dead_letters_update (\<lambda>rs. rs @ [r6]) s)"
  "add_claim_audit r7 s = (Inr (), claim_audits_update (\<lambda>rs. rs @ [r7]) s)"
  "add_recovery_audit r8 s = (Inr (), recovery_audits_update (\<lambda>rs. rs @ [r8]) s)"
  "add_item r11 s = (Inr (), items_update (\<lambda>rs. rs @ [r11]) s)"
  "add_version r12 s = (Inr (), versions_update (\<lambda>rs. rs @ [r12]) s)"
  "add_eligibility r13 s = (Inr (), eligibilities_update (\<lambda>rs. rs @ [r13]) s)"
  "add_heartbeat r14 s = (Inr (), heartbeats_update (\<lambda>rs. rs @ [r14]) s)"
  "add_backpressure_state r15 s = (Inr (), backpressure_states_update (\<lambda>rs. rs @ [r15]) s)"
  "add_credential r16 s = (Inr (), credentials_update (\<lambda>rs. rs @ [r16]) s)"
  "add_worker r17 s = (Inr (), workers_update (\<lambda>rs. rs @ [r17]) s)"
  by (simp_all add: insert_defs modifyM_def)

lemmas insert_unique_exec [exec] = add_stage_run_def add_assignment_def add_effect_key_def add_consumer_def
  add_checkpoint_def

lemma keeps_insert_row [steps_intro]:
  "(\<And>s. f (upd (\<lambda>rs. rs @ [r]) s) = f s) \<Longrightarrow> keeps f (insert_row upd r)"
  unfolding insert_row_def by (rule keeps_modify) simp

lemma keeps_add_run [steps_intro]:
  "(\<And>s. f (runs_update (\<lambda>rs. rs @ [r]) s) = f s) \<Longrightarrow> keeps f (add_run r)"
  unfolding add_run_def by (rule keeps_insert_row)

lemma keeps_add_job [steps_intro]:
  "(\<And>s. f (jobs_update (\<lambda>rs. rs @ [r]) s) = f s) \<Longrightarrow> keeps f (add_job r)"
  unfolding add_job_def by (rule keeps_insert_row)

lemma keeps_add_gate [steps_intro]:
  "(\<And>s. f (gates_update (\<lambda>rs. rs @ [r]) s) = f s) \<Longrightarrow> keeps f (add_gate r)"
  unfolding add_gate_def by (rule keeps_insert_row)

lemma keeps_add_decision [steps_intro]:
  "(\<And>s. f (decisions_update (\<lambda>rs. rs @ [r]) s) = f s) \<Longrightarrow> keeps f (add_decision r)"
  unfolding add_decision_def by (rule keeps_insert_row)

lemma keeps_add_spend_log [steps_intro]:
  "(\<And>s. f (spend_logs_update (\<lambda>rs. rs @ [r]) s) = f s) \<Longrightarrow> keeps f (add_spend_log r)"
  unfolding add_spend_log_def by (rule keeps_insert_row)

lemma keeps_add_reservation [steps_intro]:
  "(\<And>s. f (reservations_update (\<lambda>rs. rs @ [r]) s) = f s) \<Longrightarrow> keeps f (add_reservation r)"
  unfolding add_reservation_def by (rule keeps_insert_row)

lemma keeps_add_dead_letter [steps_intro]:
  "(\<And>s. f (dead_letters_update (\<lambda>rs. rs @ [r]) s) = f s) \<Longrightarrow> keeps f (add_dead_letter r)"
  unfolding add_dead_letter_def by (rule keeps_insert_row)

lemma keeps_add_claim_audit [steps_intro]:
  "(\<And>s. f (claim_audits_update (\<lambda>rs. rs @ [r]) s) = f s) \<Longrightarrow> keeps f (add_claim_audit r)"
  unfolding add_claim_audit_def by (rule keeps_insert_row)

lemma keeps_add_recovery_audit [steps_intro]:
  "(\<And>s. f (recovery_audits_update (\<lambda>rs. rs @ [r]) s) = f s) \<Longrightarrow> keeps f (add_recovery_audit r)"
  unfolding add_recovery_audit_def by (rule keeps_insert_row)

lemma keeps_add_consumer [steps_intro]:
  "(\<And>s q. f (s\<lparr>consumers := q\<rparr>) = f s) \<Longrightarrow> keeps f (add_consumer r)"
  by (simp add: steps_def eqOn_def add_consumer_def)

lemma keeps_add_checkpoint [steps_intro]:
  "(\<And>s q. f (s\<lparr>checkpoints := q\<rparr>) = f s) \<Longrightarrow> keeps f (add_checkpoint r)"
  by (simp add: steps_def eqOn_def add_checkpoint_def)

lemma keeps_add_item [steps_intro]:
  "(\<And>s. f (items_update (\<lambda>rs. rs @ [r]) s) = f s) \<Longrightarrow> keeps f (add_item r)"
  unfolding add_item_def by (rule keeps_insert_row)

lemma keeps_add_version [steps_intro]:
  "(\<And>s. f (versions_update (\<lambda>rs. rs @ [r]) s) = f s) \<Longrightarrow> keeps f (add_version r)"
  unfolding add_version_def by (rule keeps_insert_row)

lemma keeps_add_eligibility [steps_intro]:
  "(\<And>s. f (eligibilities_update (\<lambda>rs. rs @ [r]) s) = f s) \<Longrightarrow> keeps f (add_eligibility r)"
  unfolding add_eligibility_def by (rule keeps_insert_row)

lemma keeps_add_heartbeat [steps_intro]:
  "(\<And>s. f (heartbeats_update (\<lambda>rs. rs @ [r]) s) = f s) \<Longrightarrow> keeps f (add_heartbeat r)"
  unfolding add_heartbeat_def by (rule keeps_insert_row)

lemma keeps_add_backpressure_state [steps_intro]:
  "(\<And>s. f (backpressure_states_update (\<lambda>rs. rs @ [r]) s) = f s) \<Longrightarrow> keeps f (add_backpressure_state r)"
  unfolding add_backpressure_state_def by (rule keeps_insert_row)

lemma keeps_add_credential [steps_intro]:
  "(\<And>s. f (credentials_update (\<lambda>rs. rs @ [r]) s) = f s) \<Longrightarrow> keeps f (add_credential r)"
  unfolding add_credential_def by (rule keeps_insert_row)

lemma keeps_add_worker [steps_intro]:
  "(\<And>s. f (workers_update (\<lambda>rs. rs @ [r]) s) = f s) \<Longrightarrow> keeps f (add_worker r)"
  unfolding add_worker_def by (rule keeps_insert_row)

lemma keeps_add_stage_run [steps_intro]:
  "(\<And>s q. f (s\<lparr>stage_runs := q\<rparr>) = f s) \<Longrightarrow> keeps f (add_stage_run r)"
  by (simp add: steps_def eqOn_def add_stage_run_def)

lemma keeps_add_assignment [steps_intro]:
  "(\<And>s q. f (s\<lparr>assignments := q\<rparr>) = f s) \<Longrightarrow> keeps f (add_assignment r)"
  by (simp add: steps_def eqOn_def add_assignment_def)

lemma keeps_add_effect_key [steps_intro]:
  "(\<And>s q. f (s\<lparr>effect_keys := q\<rparr>) = f s) \<Longrightarrow> keeps f (add_effect_key r)"
  by (simp add: steps_def eqOn_def add_effect_key_def)

section \<open>Credentials, worker logs, transactions\<close>

text \<open>\<open>secrets.token_urlsafe\<close> reads the oracle \<open>tokens\<close>.\<close>

definition token_urlsafe :: "string M" where
  "token_urlsafe s = (Inr (tokens s (tick s)), s\<lparr>tick := Suc (tick s)\<rparr>)"

definition set_credential :: "uuid \<Rightarrow> (WorkerCredential \<Rightarrow> WorkerCredential) \<Rightarrow> unit M" where
  "set_credential i f = modifyM (credentials_update (row_set wc_id i f))"

definition add_worker_log :: "WorkerLog \<Rightarrow> unit M" where
  "add_worker_log = insert_row worker_logs_update"

text \<open>A session's transaction: commit, or every row as it was; readings of the environment are not undone.\<close>

definition transaction :: "'a M \<Rightarrow> 'a M" where
  "transaction m = savepoint (\<lambda>s s'. s\<lparr>tick := tick s'\<rparr>) m"

lemma token_urlsafe_exec [exec]: "token_urlsafe s = (Inr (tokens s (tick s)), s\<lparr>tick := Suc (tick s)\<rparr>)"
  by (simp add: token_urlsafe_def)

lemma credential_exec [exec]:
  "set_credential i f s = (Inr (), credentials_update (row_set wc_id i f) s)"
  "add_worker_log r s = (Inr (), worker_logs_update (\<lambda>rs. rs @ [r]) s)"
  by (simp_all add: set_credential_def add_worker_log_def insert_row_def modifyM_def)

lemma transaction_exec: "transaction m s = (case m s of (r, s') \<Rightarrow>
   (case r of Inl e \<Rightarrow> (Inl e, s\<lparr>tick := tick s'\<rparr>) | Inr x \<Rightarrow> (Inr x, s')))"
  by (simp add: transaction_def savepoint_def)

lemma transaction_Inr: "transaction m s = (Inr x, s') \<longleftrightarrow> m s = (Inr x, s')"
  by (auto simp: transaction_exec split: prod.splits sum.splits)

lemma transaction_Inl: "transaction m s = (Inl e, s') \<longleftrightarrow> (\<exists>t. m s = (Inl e, t) \<and> s' = s\<lparr>tick := tick t\<rparr>)"
  by (auto simp: transaction_exec split: prod.splits sum.splits)

lemma keeps_token_urlsafe [steps_intro]: "(\<And>s n. f (s\<lparr>tick := n\<rparr>) = f s) \<Longrightarrow> keeps f token_urlsafe"
  by (simp add: steps_def eqOn_def exec)

lemma keeps_set_credential [steps_intro]:
  "(\<And>s. f (credentials_update (row_set wc_id i h) s) = f s) \<Longrightarrow> keeps f (set_credential i h)"
  unfolding set_credential_def by (rule keeps_modify) simp

lemma keeps_add_worker_log [steps_intro]:
  "(\<And>s. f (worker_logs_update (\<lambda>rs. rs @ [r]) s) = f s) \<Longrightarrow> keeps f (add_worker_log r)"
  unfolding add_worker_log_def by (rule keeps_insert_row)

interpretation credential_rows: row_table credentials credentials_update wc_id by unfold_locales simp

end
