(* ===== verification/Outbox.thy ===== *)
theory Outbox imports Database begin

text \<open>
  The transactional outbox: \<open>orchestration/outbox.py\<close>, \<open>orchestration/events/types.py\<close> and
  \<open>orchestration/events/envelope.py\<close>. \<open>emit\<close> is the only writer of \<open>outbox_events\<close>; it numbers the
  events of an aggregate 1, 2, 3, ... (\<open>gapless\<close>), which is what the consumers' checkpoints rest on.
  The advisory lock that serialises concurrent emitters of one aggregate is the atomicity of a step.
\<close>

section \<open>Event types\<close>

definition PIPELINE_CANCELLED :: string where "PIPELINE_CANCELLED = ''pipeline.cancelled''"
definition PIPELINE_FAILED :: string where "PIPELINE_FAILED = ''pipeline.failed''"
definition PIPELINE_SUCCEEDED :: string where "PIPELINE_SUCCEEDED = ''pipeline.succeeded''"
definition STAGE_ASSIGNED :: string where "STAGE_ASSIGNED = ''stage.assigned''"
definition STAGE_REASSIGNED :: string where "STAGE_REASSIGNED = ''stage.reassigned''"
definition STAGE_COMPLETED :: string where "STAGE_COMPLETED = ''stage.completed''"
definition STAGE_FAILED :: string where "STAGE_FAILED = ''stage.failed''"
definition REVIEW_REQUESTED :: string where "REVIEW_REQUESTED = ''review.requested''"
definition REVIEW_APPROVED :: string where "REVIEW_APPROVED = ''review.approved''"
definition REVIEW_REJECTED :: string where "REVIEW_REJECTED = ''review.rejected''"
definition REVIEW_TIMED_OUT :: string where "REVIEW_TIMED_OUT = ''review.timed_out''"
definition REVIEW_ESCALATED :: string where "REVIEW_ESCALATED = ''review.escalated''"
definition SPEND_RESERVED :: string where "SPEND_RESERVED = ''spend.reserved''"
definition SPEND_COMMITTED :: string where "SPEND_COMMITTED = ''spend.committed''"
definition SPEND_RELEASED :: string where "SPEND_RELEASED = ''spend.released''"
definition SPEND_BUDGET_EXCEEDED :: string where "SPEND_BUDGET_EXCEEDED = ''spend.budget_exceeded''"
definition BACKPRESSURE_ENTERED :: string where "BACKPRESSURE_ENTERED = ''backpressure.entered''"
definition BACKPRESSURE_CLEARED :: string where "BACKPRESSURE_CLEARED = ''backpressure.cleared''"
definition CONTENT_CREATED :: string where "CONTENT_CREATED = ''content.created''"

section \<open>Trace and span identifiers\<close>

definition new_trace_id :: "string M" where
  "new_trace_id = bindM uuid4 (\<lambda>u. ret (uuid_hex u))"

definition new_span_id :: "string M" where
  "new_span_id = bindM uuid4 (\<lambda>u. ret (take 16 (uuid_hex u)))"

text \<open>\<open>trace_id or new_trace_id()\<close>: both \<open>None\<close> and the empty string start a new trace.\<close>

definition child_span :: "string option \<Rightarrow> (string \<times> string) M" where
  "child_span trace_id =
     bindM (case trace_id of None \<Rightarrow> new_trace_id | Some t \<Rightarrow> if t = [] then new_trace_id else ret t) (\<lambda>t.
     bindM new_span_id (\<lambda>sp.
     ret (t, sp)))"

section \<open>Upcasters\<close>

text \<open>
  The registry maps an event type and a version to the function that lifts a payload one version. The
  loop of \<open>upcast\<close> climbs from \<open>version\<close> to \<open>target_version\<close> and stops where no function is registered.
\<close>

type_synonym upcasters = "string \<times> int \<Rightarrow> (json \<Rightarrow> json) option"

definition register_upcaster :: "string \<Rightarrow> int \<Rightarrow> (json \<Rightarrow> json) \<Rightarrow> upcasters \<Rightarrow> upcasters" where
  "register_upcaster event_type from_version fn reg = reg((event_type, from_version) \<mapsto> fn)"

function upcast :: "upcasters \<Rightarrow> string \<Rightarrow> int \<Rightarrow> json \<Rightarrow> int \<Rightarrow> json" where
  "upcast reg event_type version payload target =
     (if version < target then
        (case reg (event_type, version) of
           None \<Rightarrow> payload
         | Some fn \<Rightarrow> upcast reg event_type (version + 1) (fn payload) target)
      else payload)"
  by pat_completeness auto
termination
  by (relation "measure (\<lambda>(_, _, v, _, t). nat (t - v))") auto

declare upcast.simps [simp del]

section \<open>Sequence numbers\<close>

definition same_aggregate :: "string \<Rightarrow> uuid \<Rightarrow> OutboxEvent \<Rightarrow> bool" where
  "same_aggregate t a e \<longleftrightarrow> ev_aggregate_type e = t \<and> ev_aggregate_id e = a"

definition sequences :: "string \<Rightarrow> uuid \<Rightarrow> OutboxEvent list \<Rightarrow> int list" where
  "sequences t a evs = map ev_sequence (filter (same_aggregate t a) evs)"

text \<open>\<open>COALESCE(MAX(sequence), 0) + 1\<close>.\<close>

definition next_sequence :: "string \<Rightarrow> uuid \<Rightarrow> OutboxEvent list \<Rightarrow> int" where
  "next_sequence t a evs =
     (case sequences t a evs of [] \<Rightarrow> 0 | n # ns \<Rightarrow> fold max ns n) + 1"

section \<open>Emitting\<close>

definition new_event ::
  "string \<Rightarrow> uuid \<Rightarrow> string \<Rightarrow> uuid \<Rightarrow> uuid \<Rightarrow> json \<Rightarrow> string \<Rightarrow> uuid option \<Rightarrow> string option \<Rightarrow>
   string option \<Rightarrow> int \<Rightarrow> uuid \<Rightarrow> int \<Rightarrow> datetime \<Rightarrow> OutboxEvent" where
  "new_event event_type workspace_id aggregate_type aggregate_id correlation_id payload produced_by
     causation_id trace_id span_id event_version event_id sequence occurred_at =
   \<lparr> ev_event_id = event_id, ev_workspace_id = workspace_id, ev_event_type = event_type,
     ev_event_version = event_version, ev_aggregate_type = aggregate_type,
     ev_aggregate_id = aggregate_id, ev_correlation_id = correlation_id,
     ev_causation_id = causation_id, ev_trace_id = trace_id, ev_span_id = span_id,
     ev_sequence = sequence, ev_payload = payload, ev_status = OutboxEventStatus.PENDING,
     ev_delivery_attempts = 0, ev_occurred_at = occurred_at, ev_produced_by = produced_by \<rparr>"

definition emit_full ::
  "string \<Rightarrow> uuid \<Rightarrow> string \<Rightarrow> uuid \<Rightarrow> uuid \<Rightarrow> json \<Rightarrow> string \<Rightarrow> uuid option \<Rightarrow> string option \<Rightarrow>
   string option \<Rightarrow> int \<Rightarrow> uuid M" where
  "emit_full event_type workspace_id aggregate_type aggregate_id correlation_id payload produced_by
     causation_id trace_id span_id event_version =
     bindM (gets (\<lambda>s. next_sequence aggregate_type aggregate_id (events s))) (\<lambda>sequence.
     bindM uuid4 (\<lambda>event_id.
     bindM utcnow (\<lambda>occurred_at.
     andThen (modifyM (\<lambda>s. s\<lparr>events := events s @
       [new_event event_type workspace_id aggregate_type aggregate_id correlation_id payload produced_by
          causation_id trace_id span_id event_version event_id sequence occurred_at]\<rparr>))
     (ret event_id))))"

text \<open>The arguments every modelled call gives: no \<open>causation_id\<close>, version 1, and a trace.\<close>

definition emit ::
  "string \<Rightarrow> uuid \<Rightarrow> string \<Rightarrow> uuid \<Rightarrow> uuid \<Rightarrow> string \<times> string \<Rightarrow> json \<Rightarrow> string \<Rightarrow> uuid M" where
  "emit event_type workspace_id aggregate_type aggregate_id correlation_id trace payload produced_by =
     emit_full event_type workspace_id aggregate_type aggregate_id correlation_id payload produced_by
       None (Some (fst trace)) (Some (snd trace)) 1"

record EventEnvelope =
  env_event_type :: string
  env_workspace_id :: uuid
  env_aggregate_type :: string
  env_aggregate_id :: uuid
  env_correlation_id :: uuid
  env_payload :: json
  env_produced_by :: string
  env_causation_id :: "uuid option"
  env_trace_id :: "string option"
  env_span_id :: "string option"
  env_event_version :: int

definition emit_envelope :: "EventEnvelope \<Rightarrow> uuid M" where
  "emit_envelope e =
     emit_full (env_event_type e) (env_workspace_id e) (env_aggregate_type e) (env_aggregate_id e)
       (env_correlation_id e) (env_payload e) (env_produced_by e) (env_causation_id e)
       (env_trace_id e) (env_span_id e) (env_event_version e)"

section \<open>Sequence numbers: lemmas\<close>

lemma fold_max_Max: "fold max ns n = Max (set (n # ns))" for n :: int
  by (rule Max.set_eq_fold [symmetric])

lemma next_sequence_greater: "n \<in> set (sequences t a evs) \<Longrightarrow> n < next_sequence t a evs"
  by (auto simp: next_sequence_def fold_max_Max split: list.splits intro!: le_imp_less_or_eq
      simp del: Max_insert)

lemma next_sequence_fresh:
  "e \<in> set evs \<Longrightarrow> same_aggregate t a e \<Longrightarrow> ev_sequence e < next_sequence t a evs"
  by (rule next_sequence_greater) (simp add: sequences_def)

text \<open>The log is gapless: the events of every aggregate, in log order, are numbered 1 to n.\<close>

definition gapless :: "OutboxEvent list \<Rightarrow> bool" where
  "gapless evs \<longleftrightarrow> (\<forall>t a. sequences t a evs = map int [1..<Suc (length (sequences t a evs))])"

lemma gapless_Nil [simp]: "gapless []"
  by (simp add: gapless_def sequences_def)

lemma next_sequence_gapless:
  assumes "gapless evs"
  shows "next_sequence t a evs = int (length (sequences t a evs)) + 1"
proof (cases "sequences t a evs")
  case Nil
  then show ?thesis by (simp add: next_sequence_def)
next
  case (Cons n ns)
  define k where "k = length (sequences t a evs)"
  have eq: "n # ns = map int [1..<Suc k]"
    using assms Cons unfolding gapless_def k_def by metis
  have "k = Suc (length ns)" using Cons by (simp add: k_def)
  then have "set (n # ns) = int ` {1..k}"
    unfolding eq by (simp add: atLeastLessThanSuc_atLeastAtMost del: upt_Suc)
  moreover have "Max (int ` {1..k}) = int k"
    by (rule Max_eqI) (use \<open>k = Suc (length ns)\<close> in \<open>auto intro!: imageI simp del: of_nat_Suc\<close>)
  ultimately have "fold max ns n = int k" by (simp only: fold_max_Max)
  then show ?thesis using Cons by (simp add: next_sequence_def k_def)
qed

lemma gapless_snoc:
  assumes "gapless evs" and "ev_sequence e = next_sequence (ev_aggregate_type e) (ev_aggregate_id e) evs"
  shows "gapless (evs @ [e])"
  unfolding gapless_def
proof (intro allI)
  fix t a
  have old: "sequences t a evs = map int [1..<Suc (length (sequences t a evs))]"
    using assms(1) by (simp add: gapless_def del: upt_Suc)
  show "sequences t a (evs @ [e]) = map int [1..<Suc (length (sequences t a (evs @ [e])))]"
  proof (cases "same_aggregate t a e")
    case True
    then have new: "ev_sequence e = int (Suc (length (sequences t a evs)))"
      using assms next_sequence_gapless by (simp add: same_aggregate_def)
    have snoc: "sequences t a (evs @ [e]) = sequences t a evs @ [ev_sequence e]"
      using True by (simp add: sequences_def)
    have "map int [1..<Suc (Suc n)] = map int [1..<Suc n] @ [int (Suc n)]" for n by simp
    with old new show ?thesis unfolding snoc length_append_singleton by metis
  next
    case False
    with old show ?thesis by (simp add: sequences_def del: upt_Suc)
  qed
qed

lemma gapless_row_set:
  assumes "\<And>e. ev_sequence (f e) = ev_sequence e" "\<And>e. ev_aggregate_type (f e) = ev_aggregate_type e"
    "\<And>e. ev_aggregate_id (f e) = ev_aggregate_id e"
  shows "gapless (row_set ev_event_id i f evs) = gapless evs"
proof -
  have "sequences t a (row_set ev_event_id i f evs) = sequences t a evs" for t a
    by (simp add: sequences_def filter_row_set same_aggregate_def assms)
  then show ?thesis by (simp add: gapless_def)
qed

text \<open>In a gapless log two events of one aggregate with one number are the same position of the log.\<close>

lemma gapless_distinct:
  assumes "gapless evs"
  shows "distinct (sequences t a evs)"
  using assms unfolding gapless_def by (metis distinct_map distinct_upt inj_of_nat inj_on_subset subset_UNIV)

section \<open>Execution\<close>

lemma new_trace_id_exec [exec]:
  "new_trace_id s = (Inr (uuid_hex (uuids s (tick s))), s\<lparr>tick := Suc (tick s)\<rparr>)"
  by (simp add: new_trace_id_def exec)

lemma new_span_id_exec [exec]:
  "new_span_id s = (Inr (take 16 (uuid_hex (uuids s (tick s)))), s\<lparr>tick := Suc (tick s)\<rparr>)"
  by (simp add: new_span_id_def exec)

lemma keeps_child_span [steps_intro]: "(\<And>s n. f (s\<lparr>tick := n\<rparr>) = f s) \<Longrightarrow> keeps f (child_span t)"
  unfolding child_span_def new_trace_id_def new_span_id_def
  by (intro steps_intro) simp_all

text \<open>\<open>child_span\<close> and \<open>emit\<close> cannot fail.\<close>

lemma child_span_Inr: "\<exists>p n. child_span t s = (Inr p, s\<lparr>tick := n\<rparr>)"
  by (cases t) (auto simp: child_span_def exec)

lemma child_span_trace: "t \<noteq> [] \<Longrightarrow> child_span (Some t) s = (Inr (t, take 16 (uuid_hex (uuids s (tick s)))), s\<lparr>tick := Suc (tick s)\<rparr>)"
  by (simp add: child_span_def exec)

lemma emit_full_exec [exec]:
  "emit_full ty ws t a corr payload by cause tr sp v s =
     (Inr (uuids s (tick s)),
      s\<lparr>tick := Suc (Suc (tick s)),
        events := events s @ [new_event ty ws t a corr payload by cause tr sp v (uuids s (tick s))
          (next_sequence t a (events s)) (clock s (Suc (tick s)))]\<rparr>)"
  by (simp add: emit_full_def exec)

lemma emit_exec [exec]:
  "emit ty ws t a corr trace payload by s =
     (Inr (uuids s (tick s)),
      s\<lparr>tick := Suc (Suc (tick s)),
        events := events s @ [new_event ty ws t a corr payload by None (Some (fst trace)) (Some (snd trace)) 1
          (uuids s (tick s)) (next_sequence t a (events s)) (clock s (Suc (tick s)))]\<rparr>)"
  by (simp add: emit_def emit_full_exec)

lemma keeps_emit [steps_intro]:
  assumes "\<And>s n es. f (s\<lparr>tick := n, events := es\<rparr>) = f s"
  shows "keeps f (emit ty ws t a corr trace payload by)"
  by (simp add: steps_def eqOn_def emit_exec assms)

lemma new_event_sel [simp]:
  "ev_event_id (new_event ty ws t a corr pl by cause tr sp v i n o') = i"
  "ev_workspace_id (new_event ty ws t a corr pl by cause tr sp v i n o') = ws"
  "ev_event_type (new_event ty ws t a corr pl by cause tr sp v i n o') = ty"
  "ev_aggregate_type (new_event ty ws t a corr pl by cause tr sp v i n o') = t"
  "ev_aggregate_id (new_event ty ws t a corr pl by cause tr sp v i n o') = a"
  "ev_correlation_id (new_event ty ws t a corr pl by cause tr sp v i n o') = corr"
  "ev_sequence (new_event ty ws t a corr pl by cause tr sp v i n o') = n"
  "ev_payload (new_event ty ws t a corr pl by cause tr sp v i n o') = pl"
  "ev_status (new_event ty ws t a corr pl by cause tr sp v i n o') = OutboxEventStatus.PENDING"
  "ev_delivery_attempts (new_event ty ws t a corr pl by cause tr sp v i n o') = 0"
  "ev_occurred_at (new_event ty ws t a corr pl by cause tr sp v i n o') = o'"
  "ev_produced_by (new_event ty ws t a corr pl by cause tr sp v i n o') = by"
  by (simp_all add: new_event_def)

text \<open>What a caller needs to know of \<open>emit\<close>: it succeeds and appends one event.\<close>

lemma emit_Inr:
  "\<exists>e. emit ty ws t a corr trace pl by s
      = (Inr (ev_event_id e), s\<lparr>tick := Suc (Suc (tick s)), events := events s @ [e]\<rparr>)
    \<and> ev_event_type e = ty \<and> ev_workspace_id e = ws \<and> ev_aggregate_type e = t \<and> ev_aggregate_id e = a
    \<and> ev_payload e = pl \<and> ev_status e = OutboxEventStatus.PENDING"
  unfolding emit_exec
  by (rule exI [of _ "new_event ty ws t a corr pl by None (Some (fst trace)) (Some (snd trace)) 1
      (uuids s (tick s)) (next_sequence t a (events s)) (clock s (Suc (tick s)))"]) simp

section \<open>Upcasting\<close>

lemma upcast_unregistered: "reg (ty, v) = None \<Longrightarrow> upcast reg ty v p n = p"
  by (subst upcast.simps) simp

lemma upcast_reached: "n \<le> v \<Longrightarrow> upcast reg ty v p n = p"
  by (subst upcast.simps) simp

lemma upcast_step: "v < n \<Longrightarrow> reg (ty, v) = Some f \<Longrightarrow> upcast reg ty v p n = upcast reg ty (v + 1) (f p) n"
  by (subst upcast.simps) simp

text \<open>Upcasting in two stages is upcasting in one, when the path to the middle version is registered.\<close>

lemma upcast_compose:
  assumes "v \<le> m" "m \<le> n" "\<And>k. v \<le> k \<Longrightarrow> k < m \<Longrightarrow> reg (ty, k) \<noteq> None"
  shows "upcast reg ty m (upcast reg ty v p m) n = upcast reg ty v p n"
  using assms
proof (induction "nat (m - v)" arbitrary: v p)
  case 0
  then have "v = m" by simp
  then show ?case by (simp add: upcast_reached)
next
  case (Suc k)
  then have lt: "v < m" by simp
  then obtain f where f: "reg (ty, v) = Some f" using Suc.prems(3) by fastforce
  have "upcast reg ty m (upcast reg ty (v + 1) (f p) m) n = upcast reg ty (v + 1) (f p) n"
    using Suc.hyps(2) lt Suc.prems by (intro Suc.hyps(1)) auto
  with lt f Suc.prems(2) show ?case by (simp add: upcast_step)
qed

end
