(* ===== verification/Writes.thy ===== *)
theory Writes imports Outbox begin

text \<open>
  The atomic writes every operation of the engine is made of, as a step relation \<open>db_write\<close> on the
  database, and the rules that show an operation consists of such writes only
  (\<open>steps db_write\<^sup>*\<^sup>* op\<close>).

  The rules say what the code promises of its tables: the history tables (stage runs, spend ledger,
  decisions, audits, dead letters, effect keys) are append-only; an event is appended with the next
  sequence number of its aggregate and afterwards only its delivery bookkeeping changes; a
  reservation leaves \<open>RESERVED\<close> once and for all and its amount never changes; a review gate is opened only
  when its run has none awaiting, and never goes back to \<open>AWAITING\<close>; keys and tenancy of a
  row never change; a checkpoint never moves backwards. An invariant that every \<open>db_write\<close> preserves is
  preserved by every operation (\<open>writes_pres\<close>).
\<close>

section \<open>What an attribute write may not touch\<close>

definition run_write :: "(PipelineRun \<Rightarrow> PipelineRun) \<Rightarrow> bool" where
  "run_write f \<longleftrightarrow> (\<forall>r. pr_id (f r) = pr_id r \<and> pr_workspace_id (f r) = pr_workspace_id r
     \<and> pr_content_item_id (f r) = pr_content_item_id r \<and> pr_idempotency_key (f r) = pr_idempotency_key r)"

definition assignment_write :: "(StageAssignment \<Rightarrow> StageAssignment) \<Rightarrow> bool" where
  "assignment_write f \<longleftrightarrow> (\<forall>r. sa_id (f r) = sa_id r \<and> sa_workspace_id (f r) = sa_workspace_id r
     \<and> sa_pipeline_run_id (f r) = sa_pipeline_run_id r \<and> sa_stage (f r) = sa_stage r
     \<and> sa_priority (f r) = sa_priority r \<and> sa_provider (f r) = sa_provider r
     \<and> sa_created_at (f r) = sa_created_at r \<and> sa_correlation_id (f r) = sa_correlation_id r
     \<and> sa_idempotency_key (f r) = sa_idempotency_key r)"

definition job_write :: "(JobSchedule \<Rightarrow> JobSchedule) \<Rightarrow> bool" where
  "job_write f \<longleftrightarrow> (\<forall>r. js_id (f r) = js_id r \<and> js_workspace_id (f r) = js_workspace_id r
     \<and> js_job_type (f r) = js_job_type r \<and> js_ref_table (f r) = js_ref_table r
     \<and> js_ref_id (f r) = js_ref_id r \<and> js_priority (f r) = js_priority r)"

definition worker_write :: "(WorkerRegistration \<Rightarrow> WorkerRegistration) \<Rightarrow> bool" where
  "worker_write f \<longleftrightarrow> (\<forall>r. wr_id (f r) = wr_id r)"

definition gate_write :: "(ReviewGate \<Rightarrow> ReviewGate) \<Rightarrow> bool" where
  "gate_write f \<longleftrightarrow> (\<forall>r. rg_id (f r) = rg_id r \<and> rg_workspace_id (f r) = rg_workspace_id r
     \<and> rg_pipeline_run_id (f r) = rg_pipeline_run_id r \<and> rg_stage (f r) = rg_stage r
     \<and> rg_content_version_id (f r) = rg_content_version_id r
     \<and> (rg_status (f r) = rg_status r \<or> rg_status (f r) \<noteq> AWAITING))"

definition event_write :: "(OutboxEvent \<Rightarrow> OutboxEvent) \<Rightarrow> bool" where
  "event_write f \<longleftrightarrow> (\<forall>e. \<exists>st n. f e = e\<lparr>ev_status := st, ev_delivery_attempts := n\<rparr>)"

definition item_write :: "(ContentItem \<Rightarrow> ContentItem) \<Rightarrow> bool" where
  "item_write f \<longleftrightarrow> (\<forall>r. ci_id (f r) = ci_id r \<and> ci_workspace_id (f r) = ci_workspace_id r)"

text \<open>A credential is bound to its worker, workspace and secret, and is not activated again.\<close>

definition credential_write :: "(WorkerCredential \<Rightarrow> WorkerCredential) \<Rightarrow> bool" where
  "credential_write f \<longleftrightarrow> (\<forall>r. wc_id (f r) = wc_id r \<and> wc_worker_id (f r) = wc_worker_id r
     \<and> wc_workspace_id (f r) = wc_workspace_id r \<and> wc_secret_hash (f r) = wc_secret_hash r
     \<and> (wc_status (f r) = WorkerCredentialStatus.ACTIVE \<longrightarrow> wc_status r = WorkerCredentialStatus.ACTIVE))"

text \<open>Another row of the workspace carries the idempotency key.\<close>

definition key_elsewhere :: "uuid \<Rightarrow> uuid \<Rightarrow> string \<Rightarrow> StageAssignment list \<Rightarrow> bool" where
  "key_elsewhere i ws key rows \<longleftrightarrow>
     list_ex (\<lambda>q. sa_id q \<noteq> i \<and> sa_workspace_id q = ws \<and> sa_idempotency_key q = Some key) rows"

section \<open>The step relation\<close>

inductive db_write :: "db \<Rightarrow> db \<Rightarrow> bool" where
  read: "tick s \<le> n \<Longrightarrow> db_write s (s\<lparr>tick := n\<rparr>)"
| run: "run_write f \<Longrightarrow> db_write s (runs_update (row_set pr_id i f) s)"
| new_run: "db_write s (runs_update (\<lambda>rs. rs @ [r]) s)"
| assignment: "assignment_write f \<Longrightarrow> db_write s (assignments_update (row_set sa_id i f) s)"
| rekey: "row_get sa_id i (assignments s) = Some a \<Longrightarrow> \<not> key_elsewhere i (sa_workspace_id a) key (assignments s) \<Longrightarrow>
     db_write s (assignments_update (row_set sa_id i (sa_idempotency_key_update (\<lambda>_. Some key))) s)"
| new_assignment:
    "\<not> has_row sa_id (sa_id a) (assignments s) \<Longrightarrow> \<not> idem_taken (sa_workspace_id a) (sa_idempotency_key a) (assignments s)
     \<Longrightarrow> db_write s (s\<lparr>assignments := assignments s @ [a]\<rparr>)"
| job: "job_write f \<Longrightarrow> db_write s (jobs_update (row_set js_id i f) s)"
| new_job: "db_write s (jobs_update (\<lambda>rs. rs @ [j]) s)"
| worker: "worker_write f \<Longrightarrow> db_write s (workers_update (row_set wr_id i f) s)"
| gate: "gate_write f \<Longrightarrow> db_write s (gates_update (row_set rg_id i f) s)"
| new_gate:
    "\<not> list_ex (\<lambda>q. rg_pipeline_run_id q = rg_pipeline_run_id g \<and> rg_status q = AWAITING) (gates s)
     \<Longrightarrow> db_write s (gates_update (\<lambda>rs. rs @ [g]) s)"
| edit_gate: "row_get rg_id i (gates s) = Some g \<Longrightarrow> rg_status g = AWAITING \<Longrightarrow>
     db_write s (gates_update (row_set rg_id i (rg_content_version_id_update (\<lambda>_. v))) s)"
| new_decision: "db_write s (decisions_update (\<lambda>rs. rs @ [d]) s)"
| close_reservation:
    "row_get sr_id i (reservations s) = Some r \<Longrightarrow> sr_status r = RESERVED \<Longrightarrow>
     db_write s (reservations_update (row_set sr_id i (sr_status_update (\<lambda>_. st))) s)"
| new_reservation: "db_write s (reservations_update (\<lambda>rs. rs @ [r]) s)"
| new_spend_log: "db_write s (spend_logs_update (\<lambda>rs. rs @ [l]) s)"
| new_stage_run: "db_write s (s\<lparr>stage_runs := stage_runs s @ [q]\<rparr>)"
| new_dead_letter: "db_write s (dead_letters_update (\<lambda>rs. rs @ [d]) s)"
| new_claim_audit: "db_write s (claim_audits_update (\<lambda>rs. rs @ [c]) s)"
| new_recovery_audit: "db_write s (recovery_audits_update (\<lambda>rs. rs @ [c]) s)"
| new_effect_key:
    "\<not> list_ex (\<lambda>q. pek_workspace_id q = pek_workspace_id k \<and> pek_effect_key q = pek_effect_key k) (effect_keys s)
     \<Longrightarrow> db_write s (s\<lparr>effect_keys := effect_keys s @ [k]\<rparr>)"
| new_event:
    "ev_sequence e = next_sequence (ev_aggregate_type e) (ev_aggregate_id e) (events s) \<Longrightarrow>
     ev_status e = OutboxEventStatus.PENDING \<Longrightarrow> db_write s (s\<lparr>events := events s @ [e]\<rparr>)"
| event: "event_write f \<Longrightarrow> db_write s (events_update (row_set ev_event_id i f) s)"
| new_consumer:
    "\<not> list_ex (\<lambda>q. ec_id q = ec_id c \<or> ec_name q = ec_name c) (consumers s)
     \<Longrightarrow> db_write s (s\<lparr>consumers := consumers s @ [c]\<rparr>)"
| new_checkpoint:
    "\<not> list_ex (\<lambda>q. ck_id q = ck_id k \<or> checkpoint_slot q = checkpoint_slot k) (checkpoints s)
     \<Longrightarrow> db_write s (s\<lparr>checkpoints := checkpoints s @ [k]\<rparr>)"
| checkpoint:
    "row_get ck_id i (checkpoints s) = Some k \<Longrightarrow> ck_last_sequence k \<le> n \<Longrightarrow>
     db_write s (checkpoints_update (row_set ck_id i (ck_last_sequence_update (\<lambda>_. n))) s)"
| backpressure: "db_write s (backpressure_states_update g s)"
| item: "item_write f \<Longrightarrow> db_write s (items_update (row_set ci_id i f) s)"
| new_item: "db_write s (items_update (\<lambda>rs. rs @ [x]) s)"
| new_version: "db_write s (versions_update (\<lambda>rs. rs @ [v]) s)"
| eligibility: "db_write s (eligibilities_update g s)"
| workspace: "db_write s (workspaces_update g s)"
| membership: "db_write s (memberships_update g s)"
| profile: "db_write s (profiles_update g s)"
| local_credential: "db_write s (local_credentials_update g s)"
| cap: "db_write s (caps_update g s)"
| workflow: "db_write s (workflows_update g s)"
| wstage: "db_write s (wstages_update g s)"
| transition: "db_write s (transitions_update g s)"
| billing: "db_write s (billings_update g s)"
| new_receipt: "\<not> list_ex (\<lambda>q. bwe_stripe_event_id q = bwe_stripe_event_id r) (billing_events s)
     \<Longrightarrow> db_write s (billing_events_update (\<lambda>rs. rs @ [r]) s)"
| link_receipt: "db_write s (billing_events_update (row_set bwe_stripe_event_id i (bwe_workspace_id_update (\<lambda>_. w))) s)"
| new_worker: "db_write s (workers_update (\<lambda>rs. rs @ [w]) s)"
| credential: "credential_write f \<Longrightarrow> db_write s (credentials_update (row_set wc_id i f) s)"
| new_credential: "db_write s (credentials_update (\<lambda>rs. rs @ [k]) s)"
| new_heartbeat: "db_write s (heartbeats_update (\<lambda>rs. rs @ [b]) s)"
| new_worker_log: "db_write s (worker_logs_update (\<lambda>rs. rs @ [m]) s)"

abbreviation writes :: "db \<Rightarrow> db \<Rightarrow> bool" where
  "writes \<equiv> db_write\<^sup>*\<^sup>*"

interpretation w: step_contract writes
  by unfold_locales auto

lemmas w_rules [steps_intro] =
  w.ret w.raise w.gets w.fromSum w.bind w.andThen w.whenM w.catch w.forM w.mapM

section \<open>The primitive operations are writes\<close>

lemma w_one: "db_write s s' \<Longrightarrow> writes s s'"
  by (rule r_into_rtranclp)

lemma w_tick: "tick s \<le> n \<Longrightarrow> writes s (s\<lparr>tick := n\<rparr>)"
  by (intro w_one db_write.read)

lemma w_env [steps_intro]:
  "steps writes utcnow" "steps writes uuid4" "steps writes (uniform0 b)"
  "steps writes (now_or_utcnow t)" "steps writes (or_uuid4 x)"
  by (auto simp: steps_def exec w_tick split: option.split)

lemma w_the_row: "steps writes (the_row tab key i)"
  by (simp add: steps_def exec split: option.split)

lemma w_query_one [steps_intro]: "steps writes (query_one q)"
  by (simp add: steps_def exec)

lemma w_loads [steps_intro]:
  "steps writes (the_run i)" "steps writes (the_assignment i)" "steps writes (the_job i)"
  "steps writes (the_worker i)" "steps writes (the_gate i)" "steps writes (the_reservation i)"
  "steps writes (the_event i)" "steps writes (the_checkpoint i)" "steps writes (the_item i)"
  by (simp_all add: load_defs w_the_row)

lemma w_set_run [steps_intro]: "run_write f \<Longrightarrow> steps writes (set_run i f)"
  unfolding set_run_def by (intro steps_modify w_one db_write.run)

lemma w_set_assignment [steps_intro]: "assignment_write f \<Longrightarrow> steps writes (set_assignment i f)"
  unfolding set_assignment_def by (intro steps_modify w_one db_write.assignment)

lemma w_set_job [steps_intro]: "job_write f \<Longrightarrow> steps writes (set_job i f)"
  unfolding set_job_def by (intro steps_modify w_one db_write.job)

lemma w_set_worker [steps_intro]: "worker_write f \<Longrightarrow> steps writes (set_worker i f)"
  unfolding set_worker_def by (intro steps_modify w_one db_write.worker)

lemma w_set_gate [steps_intro]: "gate_write f \<Longrightarrow> steps writes (set_gate i f)"
  unfolding set_gate_def by (intro steps_modify w_one db_write.gate)

lemma w_set_event [steps_intro]: "event_write f \<Longrightarrow> steps writes (set_event i f)"
  unfolding set_event_def by (intro steps_modify w_one db_write.event)

lemma w_set_item [steps_intro]: "item_write f \<Longrightarrow> steps writes (set_item i f)"
  unfolding set_item_def by (intro steps_modify w_one db_write.item)

lemma w_inserts [steps_intro]:
  "steps writes (add_run r)" "steps writes (add_job j)"
  "steps writes (add_decision d)" "steps writes (add_spend_log l)" "steps writes (add_reservation q)"
  "steps writes (add_dead_letter dl)" "steps writes (add_claim_audit ca)"
  "steps writes (add_recovery_audit ra)" "steps writes (add_item x)" "steps writes (add_version v)"
  "steps writes (add_worker w)" "steps writes (add_credential cr)" "steps writes (add_heartbeat hb)"
  unfolding insert_defs by (intro steps_modify w_one db_write.intros)+

lemma w_add_worker_log [steps_intro]: "steps writes (add_worker_log r)"
  unfolding add_worker_log_def insert_row_def by (intro steps_modify w_one db_write.new_worker_log)

lemma w_tables [steps_intro]:
  "steps writes (modifyM (workspaces_update g1))" "steps writes (modifyM (memberships_update g2))"
  "steps writes (modifyM (profiles_update g3))" "steps writes (modifyM (local_credentials_update g4))"
  "steps writes (modifyM (caps_update g5))" "steps writes (modifyM (workflows_update g6))"
  "steps writes (modifyM (wstages_update g7))" "steps writes (modifyM (transitions_update g8))"
  "steps writes (modifyM (billings_update g9))"
  by (intro steps_modify w_one db_write.intros)+

lemma w_set_credential [steps_intro]: "credential_write f \<Longrightarrow> steps writes (set_credential i f)"
  unfolding set_credential_def by (intro steps_modify w_one db_write.credential)

lemma w_add_gate:
  "\<not> list_ex (\<lambda>q. rg_pipeline_run_id q = rg_pipeline_run_id g \<and> rg_status q = AWAITING) (gates s)
   \<Longrightarrow> writes s (snd (add_gate g s))"
  by (simp add: insert_defs modifyM_exec w_one [OF db_write.new_gate])

lemma w_add_stage_run [steps_intro]: "steps writes (add_stage_run r)"
  by (simp add: steps_def add_stage_run_def w_one [OF db_write.new_stage_run])

lemma w_add_assignment [steps_intro]: "steps writes (add_assignment r)"
  by (simp add: steps_def add_assignment_def w_one [OF db_write.new_assignment])

lemma w_add_effect_key [steps_intro]: "steps writes (add_effect_key r)"
  by (simp add: steps_def add_effect_key_def w_one [OF db_write.new_effect_key])

lemma w_add_consumer [steps_intro]: "steps writes (add_consumer r)" "steps writes (add_checkpoint k)"
  by (simp_all add: steps_def add_consumer_def add_checkpoint_def w_one [OF db_write.new_consumer]
      w_one [OF db_write.new_checkpoint])

lemma w_child_span [steps_intro]: "steps writes (child_span t)"
  unfolding child_span_def new_trace_id_def new_span_id_def by (intro steps_intro)

lemma w_emit [steps_intro]: "steps writes (emit ty ws t a corr trace payload by)"
  unfolding emit_def emit_full_def
proof (unfold steps_def, rule allI)
  fix s :: db
  let ?s = "s\<lparr>tick := Suc (Suc (tick s))\<rparr>"
  let ?e = "new_event ty ws t a corr payload by None (Some (fst trace)) (Some (snd trace)) 1
    (uuids s (tick s)) (next_sequence t a (events s)) (clock s (Suc (tick s)))"
  have "writes s ?s" by (rule w_tick) simp
  moreover have "db_write ?s (?s\<lparr>events := events ?s @ [?e]\<rparr>)" by (rule db_write.new_event) simp_all
  ultimately have "writes s (?s\<lparr>events := events ?s @ [?e]\<rparr>)" by (rule rtranclp.rtrancl_into_rtrancl)
  then show "writes s (snd (bindM (gets (\<lambda>s. next_sequence t a (events s))) (\<lambda>sequence.
     bindM uuid4 (\<lambda>event_id. bindM utcnow (\<lambda>occurred_at. andThen (modifyM (\<lambda>s. s\<lparr>events := events s @
       [new_event ty ws t a corr payload by None (Some (fst trace)) (Some (snd trace)) 1 event_id sequence
         occurred_at]\<rparr>)) (ret event_id)))) s))"
    by (simp add: exec)
qed

lemma w_backpressure [steps_intro]: "steps writes (modifyM (backpressure_states_update g))"
  by (intro steps_modify w_one db_write.backpressure)

lemma w_eligibility [steps_intro]: "steps writes (modifyM (eligibilities_update g))"
  by (intro steps_modify w_one db_write.eligibility)

lemmas write_preds = run_write_def gate_write_def assignment_write_def job_write_def worker_write_def gate_write_def
  item_write_def

text \<open>A load followed by an operation: the operation runs with the loaded row in hand.\<close>

lemma steps_with_row:
  assumes "\<And>s. R s s" and "\<And>s r. row_get key i (tab s) = Some r \<Longrightarrow> R s (snd (f r s))"
  shows "steps R (bindM (the_row tab key i) f)"
  by (auto simp: steps_def exec assms split: option.split)

section \<open>Invariants\<close>

text \<open>An invariant of the single writes is an invariant of whatever consists of writes.\<close>

lemma writes_pres:
  assumes inv: "\<And>s s'. db_write s s' \<Longrightarrow> I s \<Longrightarrow> I s'" and "steps writes m"
  shows "pres I m"
proof -
  have "I s'" if "writes s s'" and "I s" for s s'
    using that by (induction rule: rtranclp_induct) (blast intro: inv)+
  with assms(2) show ?thesis by (auto simp: steps_def keepsInv_def)
qed

text \<open>A relation that every single write satisfies, and that composes, holds across an operation.\<close>

lemma writes_rel:
  assumes "\<And>s s'. db_write s s' \<Longrightarrow> R s s'" "\<And>s. R s s" "\<And>a b c. R a b \<Longrightarrow> R b c \<Longrightarrow> R a c" and "writes s s'"
  shows "R s s'"
  using assms(4) by (induction rule: rtranclp_induct) (blast intro: assms)+

lemma event_write_keeps:
  assumes "event_write f"
  shows "ev_event_id (f e) = ev_event_id e" "ev_sequence (f e) = ev_sequence e"
    "ev_aggregate_type (f e) = ev_aggregate_type e" "ev_aggregate_id (f e) = ev_aggregate_id e"
    "ev_event_type (f e) = ev_event_type e" "ev_payload (f e) = ev_payload e"
    "ev_workspace_id (f e) = ev_workspace_id e" "ev_occurred_at (f e) = ev_occurred_at e"
proof -
  obtain st n where "f e = e\<lparr>ev_status := st, ev_delivery_attempts := n\<rparr>"
    using assms unfolding event_write_def by blast
  then show "ev_event_id (f e) = ev_event_id e" "ev_sequence (f e) = ev_sequence e"
    "ev_aggregate_type (f e) = ev_aggregate_type e" "ev_aggregate_id (f e) = ev_aggregate_id e"
    "ev_event_type (f e) = ev_event_type e" "ev_payload (f e) = ev_payload e"
    "ev_workspace_id (f e) = ev_workspace_id e" "ev_occurred_at (f e) = ev_occurred_at e"
    by simp_all
qed

lemma write_gapless: "db_write s s' \<Longrightarrow> gapless (events s) \<Longrightarrow> gapless (events s')"
  by (induction rule: db_write.induct) (simp_all add: gapless_snoc gapless_row_set event_write_keeps)

text \<open>The history a write can only extend.\<close>

definition extends :: "'r list \<Rightarrow> 'r list \<Rightarrow> bool" where
  "extends xs ys \<longleftrightarrow> take (length xs) ys = xs"

text \<open>An event without its delivery bookkeeping.\<close>

definition event_facts :: "OutboxEvent \<Rightarrow> uuid \<times> string \<times> string \<times> uuid \<times> int \<times> json \<times> uuid" where
  "event_facts e = (ev_event_id e, ev_event_type e, ev_aggregate_type e, ev_aggregate_id e, ev_sequence e,
     ev_payload e, ev_workspace_id e)"

definition history_grows :: "db \<Rightarrow> db \<Rightarrow> bool" where
  "history_grows s s' \<longleftrightarrow> extends (stage_runs s) (stage_runs s') \<and> extends (spend_logs s) (spend_logs s')
     \<and> extends (decisions s) (decisions s') \<and> extends (dead_letters s) (dead_letters s')
     \<and> extends (claim_audits s) (claim_audits s') \<and> extends (recovery_audits s) (recovery_audits s')
     \<and> extends (effect_keys s) (effect_keys s') \<and> extends (versions s) (versions s')
     \<and> extends (map event_facts (events s)) (map event_facts (events s'))"

lemma extends_refl [simp]: "extends xs xs" by (simp add: extends_def)

lemma extends_snoc [simp]: "extends xs (xs @ ys)" by (simp add: extends_def)

lemma extends_trans: "extends xs ys \<Longrightarrow> extends ys zs \<Longrightarrow> extends xs zs"
  unfolding extends_def by (metis min.absorb1 take_take length_take nat_le_linear take_all)

lemma write_history: "db_write s s' \<Longrightarrow> history_grows s s'"
  by (induction rule: db_write.induct) (simp_all add: history_grows_def event_facts_def event_write_keeps)

lemma history_trans: "history_grows a b \<Longrightarrow> history_grows b c \<Longrightarrow> history_grows a c"
  unfolding history_grows_def by (blast intro: extends_trans)

lemma writes_history: "writes s s' \<Longrightarrow> history_grows s s'"
  by (rule writes_rel [OF write_history _ history_trans]) (simp_all add: history_grows_def)

lemma steps_history: "steps writes m \<Longrightarrow> m s = (r, s') \<Longrightarrow> history_grows s s'"
  unfolding steps_def by (metis writes_history snd_conv)

lemma extends_set: "extends xs ys \<Longrightarrow> set xs \<subseteq> set ys"
  unfolding extends_def by (metis set_take_subset)

text \<open>An event of this type, aggregate and payload is in the log.\<close>

definition logged :: "string \<Rightarrow> uuid \<Rightarrow> json \<Rightarrow> db \<Rightarrow> bool" where
  "logged ty i p s \<longleftrightarrow> list_ex (\<lambda>e. ev_event_type e = ty \<and> ev_aggregate_id e = i \<and> ev_payload e = p) (events s)"

lemma logged_grows:
  assumes "history_grows s s'" "logged ty i p s"
  shows "logged ty i p s'"
proof -
  obtain e where e: "e \<in> set (events s)" "ev_event_type e = ty" "ev_aggregate_id e = i" "ev_payload e = p"
    using assms(2) by (auto simp: logged_def list_ex_iff)
  have "set (map event_facts (events s)) \<subseteq> set (map event_facts (events s'))"
    using assms(1) by (intro extends_set) (simp add: history_grows_def)
  with e(1) obtain e' where "e' \<in> set (events s')" "event_facts e' = event_facts e" by auto
  with e(2-4) show ?thesis by (auto simp: logged_def list_ex_iff event_facts_def)
qed

text \<open>The environment is only read: settings and oracles stay, the counter never goes back.\<close>

definition same_env :: "db \<Rightarrow> db \<Rightarrow> bool" where
  "same_env s s' \<longleftrightarrow> cfg s' = cfg s \<and> clock s' = clock s \<and> uuids s' = uuids s \<and> rng s' = rng s \<and> tokens s' = tokens s
     \<and> locks s' = locks s \<and> tick s \<le> tick s'"

lemma write_env: "db_write s s' \<Longrightarrow> same_env s s'"
  by (induction rule: db_write.induct) (simp_all add: same_env_def)

lemma writes_env: "writes s s' \<Longrightarrow> same_env s s'"
  by (rule writes_rel [OF write_env]) (simp_all add: same_env_def)

lemma steps_env: "steps writes m \<Longrightarrow> m s = (r, s') \<Longrightarrow> same_env s s'"
  unfolding steps_def by (metis writes_env snd_conv)

lemma w_transaction [steps_intro]: "steps writes m \<Longrightarrow> steps writes (transaction m)"
  unfolding steps_def
proof (intro allI)
  fix s
  assume w: "\<forall>s. writes s (snd (m s))"
  obtain r s' where m: "m s = (r, s')" by (cases "m s")
  then have "writes s s'" using w by (metis snd_conv)
  moreover from this have "tick s \<le> tick s'" using writes_env by (simp add: same_env_def)
  ultimately show "writes s (snd (transaction m s))"
    using m by (cases r) (simp_all add: transaction_exec w_tick)
qed

text \<open>A reservation keeps its amount and owner, and once closed stays as it is.\<close>

definition reservation_step :: "SpendReservation list \<Rightarrow> SpendReservation list \<Rightarrow> bool" where
  "reservation_step rs rs' \<longleftrightarrow> (\<forall>i r. row_get sr_id i rs = Some r \<longrightarrow>
     (\<exists>r'. row_get sr_id i rs' = Some r' \<and> r' = r\<lparr>sr_status := sr_status r'\<rparr>
       \<and> (sr_status r \<noteq> RESERVED \<longrightarrow> sr_status r' = sr_status r)))"

lemma reservation_step_refl: "reservation_step rs rs"
  by (simp add: reservation_step_def)

lemma reservation_step_trans: "reservation_step a b \<Longrightarrow> reservation_step b c \<Longrightarrow> reservation_step a c"
  unfolding reservation_step_def
  by (metis (no_types, lifting) SpendReservation.select_convs(7) SpendReservation.surjective
      SpendReservation.update_convs(7))

lemma write_reservation: "db_write s s' \<Longrightarrow> reservation_step (reservations s) (reservations s')"
  by (induction rule: db_write.induct)
    (auto simp: reservation_step_def row_get_set row_get_append split: option.split)

lemma writes_reservation: "writes s s' \<Longrightarrow> reservation_step (reservations s) (reservations s')"
  by (rule writes_rel [where R = "\<lambda>s s'. reservation_step (reservations s) (reservations s')"])
    (blast intro: write_reservation reservation_step_refl reservation_step_trans)+

text \<open>At most one effect key of a workspace carries a given key.\<close>

definition effects_unique :: "ProviderEffectKey list \<Rightarrow> bool" where
  "effects_unique ks \<longleftrightarrow> distinct (map (\<lambda>k. (pek_workspace_id k, pek_effect_key k)) ks)"

lemma write_effects: "db_write s s' \<Longrightarrow> effects_unique (effect_keys s) \<Longrightarrow> effects_unique (effect_keys s')"
  by (induction rule: db_write.induct) (auto simp: effects_unique_def list_ex_iff)

text \<open>An assignment has its primary key, and its idempotency key within the workspace, for itself.\<close>

definition assignments_unique :: "StageAssignment list \<Rightarrow> bool" where
  "assignments_unique as \<longleftrightarrow> distinct (map sa_id as) \<and> (\<forall>a \<in> set as. \<forall>b \<in> set as.
     sa_workspace_id a = sa_workspace_id b \<and> sa_idempotency_key a = sa_idempotency_key b
     \<and> sa_idempotency_key a \<noteq> None \<longrightarrow> sa_id a = sa_id b)"

lemma assignments_uniqueI:
  assumes "distinct (map sa_id as)"
    and "\<And>a b. a \<in> set as \<Longrightarrow> b \<in> set as \<Longrightarrow> sa_workspace_id a = sa_workspace_id b \<Longrightarrow>
      sa_idempotency_key a = sa_idempotency_key b \<Longrightarrow> sa_idempotency_key a \<noteq> None \<Longrightarrow> sa_id a = sa_id b"
  shows "assignments_unique as"
  unfolding assignments_unique_def using assms by blast

lemma assignments_uniqueD:
  assumes "assignments_unique as"
  shows "distinct (map sa_id as)"
    and "a \<in> set as \<Longrightarrow> b \<in> set as \<Longrightarrow> sa_workspace_id a = sa_workspace_id b \<Longrightarrow>
      sa_idempotency_key a = sa_idempotency_key b \<Longrightarrow> sa_idempotency_key a \<noteq> None \<Longrightarrow> sa_id a = sa_id b"
  using assms unfolding assignments_unique_def by blast+

lemma unique_row_set:
  assumes u: "assignments_unique as" and f: "\<And>r. sa_id (f r) = sa_id r" "\<And>r. sa_workspace_id (f r) = sa_workspace_id r"
    "\<And>r. sa_idempotency_key (f r) = sa_idempotency_key r"
  shows "assignments_unique (row_set sa_id i f as)"
proof (rule assignments_uniqueI)
  show "distinct (map sa_id (row_set sa_id i f as))" using assignments_uniqueD(1) [OF u] f(1) by simp
next
  fix a b
  assume m: "a \<in> set (row_set sa_id i f as)" "b \<in> set (row_set sa_id i f as)"
    and e: "sa_workspace_id a = sa_workspace_id b" "sa_idempotency_key a = sa_idempotency_key b" "sa_idempotency_key a \<noteq> None"
  have "\<exists>a' \<in> set as. sa_id a' = sa_id a \<and> sa_workspace_id a' = sa_workspace_id a \<and> sa_idempotency_key a' = sa_idempotency_key a"
    if "a \<in> set (row_set sa_id i f as)" for a
    using that by (auto simp: set_row_set f split: if_splits intro: bexI [rotated])
  from this [OF m(1)] this [OF m(2)] obtain a' b' where
    "a' \<in> set as" "b' \<in> set as" "sa_id a' = sa_id a" "sa_id b' = sa_id b"
    "sa_workspace_id a' = sa_workspace_id b'" "sa_idempotency_key a' = sa_idempotency_key b'" "sa_idempotency_key a' \<noteq> None"
    using e by auto
  with assignments_uniqueD(2) [OF u, of a' b'] show "sa_id a = sa_id b" by simp
qed

lemma unique_rekey:
  assumes u: "assignments_unique as" and a: "row_get sa_id i as = Some a"
    and k: "\<not> key_elsewhere i (sa_workspace_id a) key as"
  shows "assignments_unique (row_set sa_id i (sa_idempotency_key_update (\<lambda>_. Some key)) as)" (is "assignments_unique ?rs")
proof (rule assignments_uniqueI)
  show "distinct (map sa_id ?rs)" using assignments_uniqueD(1) [OF u] by simp
next
  have one: "r = a" if "r \<in> set as" "sa_id r = i" for r
    using row_get_distinct [OF assignments_uniqueD(1) [OF u] that(1)] a that(2) by simp
  have apart: "sa_idempotency_key r \<noteq> Some key" if "r \<in> set as" "sa_id r \<noteq> i" "sa_workspace_id r = sa_workspace_id a" for r
    using k that unfolding key_elsewhere_def list_ex_iff by blast
  have rd: "(x \<in> set as \<and> sa_id x \<noteq> i) \<or> x = a\<lparr>sa_idempotency_key := Some key\<rparr>" if "x \<in> set ?rs" for x
  proof -
    from that obtain r where r: "r \<in> set as" "x = (if sa_id r = i then r\<lparr>sa_idempotency_key := Some key\<rparr> else r)"
      unfolding set_row_set by auto
    show ?thesis using r one [OF r(1)] by (cases "sa_id r = i") simp_all
  qed
  fix x y
  assume m: "x \<in> set ?rs" "y \<in> set ?rs" and e: "sa_workspace_id x = sa_workspace_id y"
    "sa_idempotency_key x = sa_idempotency_key y" "sa_idempotency_key x \<noteq> None"
  consider "x \<in> set as" "y \<in> set as" | "x \<in> set as" "sa_id x \<noteq> i" "y = a\<lparr>sa_idempotency_key := Some key\<rparr>"
    | "y \<in> set as" "sa_id y \<noteq> i" "x = a\<lparr>sa_idempotency_key := Some key\<rparr>" | "x = y"
    using rd [OF m(1)] rd [OF m(2)] by blast
  then show "sa_id x = sa_id y"
  proof cases
    case 1
    then show ?thesis using assignments_uniqueD(2) [OF u] e by blast
  next
    case 2
    then show ?thesis using apart [OF 2(1,2)] e by simp
  next
    case 3
    then show ?thesis using apart [OF 3(1,2)] e by simp
  qed simp
qed

lemma unique_snoc:
  assumes u: "assignments_unique as" and n: "\<not> has_row sa_id (sa_id a) as"
    "\<not> idem_taken (sa_workspace_id a) (sa_idempotency_key a) as"
  shows "assignments_unique (as @ [a])"
proof (rule assignments_uniqueI)
  show "distinct (map sa_id (as @ [a]))" using assignments_uniqueD(1) [OF u] n(1) by (simp add: has_row_def)
next
  have apart: "sa_idempotency_key r \<noteq> sa_idempotency_key a"
    if "r \<in> set as" "sa_workspace_id r = sa_workspace_id a" "sa_idempotency_key a \<noteq> None" for r
    using n(2) that unfolding idem_taken_def list_ex_iff by blast
  fix x y
  assume m: "x \<in> set (as @ [a])" "y \<in> set (as @ [a])" and e: "sa_workspace_id x = sa_workspace_id y"
    "sa_idempotency_key x = sa_idempotency_key y" "sa_idempotency_key x \<noteq> None"
  consider "x \<in> set as" "y \<in> set as" | "x \<in> set as" "y = a" | "y \<in> set as" "x = a" | "x = y" using m by auto
  then show "sa_id x = sa_id y"
  proof cases
    case 1
    then show ?thesis using assignments_uniqueD(2) [OF u] e by blast
  next
    case 2
    then show ?thesis using apart [OF 2(1)] e by simp
  next
    case 3
    then show ?thesis using apart [OF 3(1)] e by simp
  qed simp
qed

lemma write_assignments: "db_write s s' \<Longrightarrow> assignments_unique (assignments s) \<Longrightarrow> assignments_unique (assignments s')"
proof (induction rule: db_write.induct)
  case (assignment f s i)
  then have f: "\<And>r. sa_id (f r) = sa_id r" "\<And>r. sa_workspace_id (f r) = sa_workspace_id r"
    "\<And>r. sa_idempotency_key (f r) = sa_idempotency_key r" by (simp_all add: assignment_write_def)
  from unique_row_set [OF assignment.prems f] show ?case by simp
next
  case (rekey i s a key)
  from unique_rekey [OF rekey.prems rekey.hyps] show ?case by simp
next
  case (new_assignment a s)
  from unique_snoc [OF new_assignment.prems new_assignment.hyps] show ?case by simp
qed simp_all

text \<open>A credential that is not active never becomes active, and stays bound to its worker.\<close>

definition dead_credential :: "uuid \<Rightarrow> db \<Rightarrow> bool" where
  "dead_credential i s \<longleftrightarrow> (\<exists>c. row_get wc_id i (credentials s) = Some c \<and> wc_status c \<noteq> WorkerCredentialStatus.ACTIVE)"

lemma write_dead_credential: "db_write s s' \<Longrightarrow> dead_credential i s \<Longrightarrow> dead_credential i s'"
  by (induction rule: db_write.induct)
    (auto simp: dead_credential_def credential_write_def row_get_set row_get_append)

text \<open>A gate that is no longer awaiting stays so, with the content version it was decided on.\<close>

definition gate_settled :: "uuid \<Rightarrow> uuid option \<Rightarrow> db \<Rightarrow> bool" where
  "gate_settled i v s \<longleftrightarrow> (\<exists>g. row_get rg_id i (gates s) = Some g \<and> rg_status g \<noteq> AWAITING \<and> rg_content_version_id g = v)"

lemma write_gate_settled: "db_write s s' \<Longrightarrow> gate_settled i v s \<Longrightarrow> gate_settled i v s'"
proof (induction rule: db_write.induct)
  case (gate f s j)
  then show ?case by (auto simp: gate_settled_def gate_write_def row_get_set) (metis)+
qed (auto simp: gate_settled_def row_get_set row_get_append)

lemma writes_gate_settled: "writes s s' \<Longrightarrow> gate_settled i v s \<Longrightarrow> gate_settled i v s'"
  by (rule writes_rel [where R = "\<lambda>s s'. gate_settled i v s \<longrightarrow> gate_settled i v s'", THEN mp])
    (blast intro: write_gate_settled)+

text \<open>A webhook receipt is kept, and no two of them carry the same Stripe event.\<close>

definition received :: "string \<Rightarrow> db \<Rightarrow> bool" where
  "received event_id s \<longleftrightarrow> event_id \<in> set (map bwe_stripe_event_id (billing_events s))"

definition receipts_unique :: "db \<Rightarrow> bool" where
  "receipts_unique s \<longleftrightarrow> distinct (map bwe_stripe_event_id (billing_events s))"

lemma write_receipts:
  "db_write s s' \<Longrightarrow> received e s \<Longrightarrow> received e s'"
  "db_write s s' \<Longrightarrow> receipts_unique s \<Longrightarrow> receipts_unique s'"
  by (induction rule: db_write.induct) (auto simp: received_def receipts_unique_def list_ex_iff)

lemma writes_receipts:
  assumes "writes s s'"
  shows "received e s \<Longrightarrow> received e s'" and "receipts_unique s \<Longrightarrow> receipts_unique s'"
  using assms writes_rel [where R = "\<lambda>s s'. received e s \<longrightarrow> received e s'"]
    writes_rel [where R = "\<lambda>s s'. receipts_unique s \<longrightarrow> receipts_unique s'"] write_receipts by blast+

text \<open>The relay's tables: consumers and checkpoints have their keys for themselves.\<close>

definition relay_keys :: "db \<Rightarrow> bool" where
  "relay_keys s \<longleftrightarrow> distinct (map ec_id (consumers s)) \<and> distinct (map ec_name (consumers s))
     \<and> distinct (map ck_id (checkpoints s)) \<and> distinct (map checkpoint_slot (checkpoints s))"

lemma write_relay_keys: "db_write s s' \<Longrightarrow> relay_keys s \<Longrightarrow> relay_keys s'"
  by (induction rule: db_write.induct) (auto simp: relay_keys_def list_ex_iff checkpoint_slot_def)

text \<open>A run has at most one review gate awaiting a decision.\<close>

definition awaiting_gates :: "uuid \<Rightarrow> db \<Rightarrow> ReviewGate list" where
  "awaiting_gates run_id s = filter (\<lambda>g. rg_pipeline_run_id g = run_id \<and> rg_status g = AWAITING) (gates s)"

definition one_awaiting_gate :: "db \<Rightarrow> bool" where
  "one_awaiting_gate s \<longleftrightarrow> (\<forall>i. length (awaiting_gates i s) \<le> 1)"

lemma length_filter_mono:
  "(\<And>x. x \<in> set xs \<Longrightarrow> Q x \<Longrightarrow> P x) \<Longrightarrow> length (filter Q xs) \<le> length (filter P xs)"
  by (induction xs) (auto intro: le_SucI)

lemma write_one_awaiting: "db_write s s' \<Longrightarrow> one_awaiting_gate s \<Longrightarrow> one_awaiting_gate s'"
proof (induction rule: db_write.induct)
  case (gate f s i)
  have "length (awaiting_gates r (gates_update (row_set rg_id i f) s)) \<le> length (awaiting_gates r s)" for r
    using gate.hyps unfolding awaiting_gates_def gate_write_def
    by (simp add: row_set_def) (rule length_filter_mono, auto split: if_splits, metis)
  with gate.prems show ?case unfolding one_awaiting_gate_def by (meson order_trans)
next
  case (edit_gate i s g v)
  have "length (awaiting_gates r (gates_update (row_set rg_id i (rg_content_version_id_update (\<lambda>_. v))) s))
      \<le> length (awaiting_gates r s)" for r
    unfolding awaiting_gates_def by (simp add: row_set_def) (rule length_filter_mono, auto split: if_splits)
  with edit_gate.prems show ?case unfolding one_awaiting_gate_def by (meson order_trans)
next
  case (new_gate g s)
  then have "awaiting_gates (rg_pipeline_run_id g) s = []"
    by (auto simp: awaiting_gates_def list_ex_iff filter_empty_conv)
  with new_gate.prems show ?case
    by (auto simp: one_awaiting_gate_def awaiting_gates_def)
qed (simp_all add: one_awaiting_gate_def awaiting_gates_def)

end
