(* ===== verification/Retry.thy ===== *)
theory Retry imports Writes begin

text \<open>
  The retry framework, \<open>orchestration/retry.py\<close>: backoff with full jitter, the classification of error
  messages, and the dead-letter record. Floats are rationals here: the rounding of the product and
  its overflow to infinity are not modelled.
\<close>

section \<open>Backoff\<close>

definition backoff_cap :: "int \<Rightarrow> int \<Rightarrow> rat \<Rightarrow> int \<Rightarrow> rat" where
  "backoff_cap attempt base_seconds multiplier max_seconds =
     (let attempt = (if attempt < 1 then 1 else attempt);
          raw = of_int base_seconds * multiplier ^ nat (attempt - 1)
      in min raw (of_int max_seconds))"

definition compute_backoff_seconds :: "int \<Rightarrow> int \<Rightarrow> rat \<Rightarrow> int \<Rightarrow> rat M" where
  "compute_backoff_seconds attempt base_seconds multiplier max_seconds =
     uniform0 (backoff_cap attempt base_seconds multiplier max_seconds)"

definition next_run_after :: "int \<Rightarrow> int \<Rightarrow> rat \<Rightarrow> int \<Rightarrow> datetime M" where
  "next_run_after attempt base_seconds multiplier max_seconds =
     bindM (compute_backoff_seconds attempt base_seconds multiplier max_seconds) (\<lambda>delay.
     bindM utcnow (\<lambda>now.
     ret (now + delay)))"

section \<open>Classification\<close>

definition RETRYABLE_MARKERS :: "string list" where
  "RETRYABLE_MARKERS = [''timeout'', ''timed out'', ''connection reset'', ''connection refused'',
     ''temporarily unavailable'', ''lease lost'', ''rate limit'', ''503'', ''429'']"

definition is_retryable :: "string \<Rightarrow> bool" where
  "is_retryable error_message =
     (let lowered = lower error_message in list_ex (\<lambda>marker. contains marker lowered) RETRYABLE_MARKERS)"

section \<open>Dead letters\<close>

definition route_to_dead_letter ::
  "uuid \<Rightarrow> string \<Rightarrow> uuid \<Rightarrow> string \<Rightarrow> json option \<Rightarrow> string \<Rightarrow> int \<Rightarrow> datetime \<Rightarrow> uuid M" where
  "route_to_dead_letter workspace_id related_table related_id job_type payload failure_reason
     attempt_count first_failed_at =
     bindM uuid4 (\<lambda>i.
     bindM utcnow (\<lambda>now.
     andThen (add_dead_letter \<lparr> dl_id = i, dl_workspace_id = workspace_id, dl_related_table = related_table,
       dl_related_id = related_id, dl_job_type = job_type, dl_payload = payload,
       dl_failure_reason = failure_reason, dl_attempt_count = attempt_count,
       dl_first_failed_at = first_failed_at, dl_last_failed_at = now,
       dl_status = DeadLetterStatus.PENDING \<rparr>)
     (ret i)))"

section \<open>Footprint\<close>

lemma w_compute_backoff [steps_intro]: "steps writes (compute_backoff_seconds a b m x)"
  unfolding compute_backoff_seconds_def by (intro steps_intro)

lemma keeps_compute_backoff [steps_intro]:
  "(\<And>s n. f (s\<lparr>tick := n\<rparr>) = f s) \<Longrightarrow> keeps f (compute_backoff_seconds a b m x)"
  unfolding compute_backoff_seconds_def by (rule keeps_uniform0)

lemma w_route_to_dead_letter [steps_intro]:
  "steps writes (route_to_dead_letter ws t i jt p r n ff)"
  unfolding route_to_dead_letter_def by (intro steps_intro)

lemma keeps_route_to_dead_letter [steps_intro]:
  "(\<And>s n. f (s\<lparr>tick := n\<rparr>) = f s) \<Longrightarrow> (\<And>s g. f (dead_letters_update g s) = f s) \<Longrightarrow>
   keeps f (route_to_dead_letter ws t i jt p r n ff)"
  unfolding route_to_dead_letter_def by (intro steps_intro) simp_all

lemma route_to_dead_letter_exec [exec]:
  "route_to_dead_letter ws t i jt p r n ff s =
     (Inr (uuids s (tick s)), s\<lparr>tick := Suc (Suc (tick s)), dead_letters := dead_letters s @
       [\<lparr> dl_id = uuids s (tick s), dl_workspace_id = ws, dl_related_table = t, dl_related_id = i,
          dl_job_type = jt, dl_payload = p, dl_failure_reason = r, dl_attempt_count = n,
          dl_first_failed_at = ff, dl_last_failed_at = clock s (Suc (tick s)),
          dl_status = DeadLetterStatus.PENDING \<rparr>]\<rparr>)"
  by (simp add: route_to_dead_letter_def exec)

section \<open>Properties\<close>

lemma backoff_cap_bounds:
  assumes "0 \<le> base" "0 \<le> mult" "0 \<le> mx"
  shows "0 \<le> backoff_cap a base mult mx" "backoff_cap a base mult mx \<le> of_int mx"
  using assms by (simp_all add: backoff_cap_def Let_def)

lemma backoff_cap_mono:
  assumes "0 \<le> base" "1 \<le> mult" "a \<le> b"
  shows "backoff_cap a base mult mx \<le> backoff_cap b base mult mx"
proof -
  have "mult ^ nat ((if a < 1 then 1 else a) - 1) \<le> mult ^ nat ((if b < 1 then 1 else b) - 1)"
    using assms(2,3) by (intro power_increasing) auto
  then show ?thesis using assms(1)
    unfolding backoff_cap_def Let_def by (intro min.mono mult_left_mono) auto
qed

text \<open>
  A retry never waits a negative time and never longer than the exponential bound
  \<open>base * multiplier ^ (attempt - 1)\<close>, itself capped at \<open>max_seconds\<close>; the upper bound grows with the
  attempt and the first attempt's is at most \<open>base\<close>. The jitter reading is in [0, 1).
\<close>

theorem backoff_within_bounds:
  assumes "0 \<le> base" "1 \<le> mult" "0 \<le> mx" and "0 \<le> rng s (tick s)" "rng s (tick s) < 1"
    and "compute_backoff_seconds a base mult mx s = (Inr d, s')"
  shows "0 \<le> d \<and> d \<le> of_int mx \<and> d \<le> backoff_cap a base mult mx
    \<and> d \<le> backoff_cap (a + 1) base mult mx \<and> backoff_cap 1 base mult mx \<le> of_int base"
proof -
  let ?c = "backoff_cap a base mult mx"
  have c: "0 \<le> ?c" "?c \<le> of_int mx" using assms backoff_cap_bounds [of base mult mx a] by simp_all
  have d: "d = ?c * rng s (tick s)" using assms(6) by (simp add: compute_backoff_seconds_def exec)
  have "d \<le> ?c" unfolding d using c(1) assms(4,5) by (simp add: mult_left_le)
  moreover have "0 \<le> d" unfolding d using c(1) assms(4) by simp
  moreover have "?c \<le> backoff_cap (a + 1) base mult mx" using assms(1,2) by (rule backoff_cap_mono) simp
  moreover have "backoff_cap 1 base mult mx \<le> of_int base" by (simp add: backoff_cap_def)
  ultimately show ?thesis using c(2) by linarith
qed

lemma backoff_within_bounds_witness:
  "0 \<le> (4 :: rat) \<and> (4 :: rat) \<le> of_int 300 \<and> (4 :: rat) \<le> backoff_cap 2 5 2 300
    \<and> (4 :: rat) \<le> backoff_cap (2 + 1) 5 2 300 \<and> backoff_cap 1 5 2 300 \<le> of_int 5"
  using backoff_within_bounds [of 5 2 300 "empty_db (\<lambda>_. 0) id (\<lambda>_. 2 / 5)" 2 4
      "(empty_db (\<lambda>_. 0) id (\<lambda>_. 2 / 5))\<lparr>tick := 1\<rparr>"]
  by (simp add: empty_db_def compute_backoff_seconds_def exec backoff_cap_def)

text \<open>
  A message is retryable exactly when one of the known markers occurs in it, whatever its letter
  case and whatever surrounds the marker; an unrecognised message, such as the empty one, is permanent.
\<close>

theorem is_retryable_iff:
  "(is_retryable e \<longleftrightarrow> (\<exists>m \<in> set RETRYABLE_MARKERS. \<exists>a b. lower e = a @ m @ b))
    \<and> is_retryable (lower e) = is_retryable e \<and> (is_retryable e \<longrightarrow> is_retryable (p @ e @ q))
    \<and> \<not> is_retryable []"
proof (intro conjI impI)
  show "is_retryable e \<longleftrightarrow> (\<exists>m \<in> set RETRYABLE_MARKERS. \<exists>a b. lower e = a @ m @ b)"
    by (auto simp: is_retryable_def list_ex_iff contains_iff)
  show "is_retryable (lower e) = is_retryable e"
    by (simp add: is_retryable_def lower_idem)
  show "is_retryable (p @ e @ q)" if "is_retryable e"
    using that by (auto simp: is_retryable_def list_ex_iff intro: contains_lower_append)
  show "\<not> is_retryable []"
    by (simp add: is_retryable_def RETRYABLE_MARKERS_def lower_def)
qed

lemma is_retryable_iff_witness: "is_retryable (''upstream '' @ ''Rate Limit'' @ '' hit'')"
proof -
  have "is_retryable ''Rate Limit''" by code_simp
  then show ?thesis using is_retryable_iff [of "''Rate Limit''" "''upstream ''" "'' hit''"] by blast
qed

end
