(* ===== verification/Fixtures.thy ===== *)
theory Fixtures imports Database begin

text \<open>
  A small concrete database the witnesses evaluate on: one workspace (1) with a cap, a workflow (2)
  \<open>idea \<rightarrow> scripting \<rightarrow> review \<rightarrow> published\<close> with a review gate and a terminal stage, a run (10) of a content
  item (11) standing at \<open>scripting\<close>, and one online worker (20).
\<close>

definition sample_stage :: "uuid \<Rightarrow> stage \<Rightarrow> int \<Rightarrow> bool \<Rightarrow> bool \<Rightarrow> WorkflowStage" where
  "sample_stage i key ord gate term =
     \<lparr> wst_id = i, wst_definition_id = 2, wst_stage_key = key, wst_ordinal = ord, wst_max_attempts = 3,
       wst_backoff_base_seconds = 5, wst_backoff_multiplier = 2, wst_backoff_max_seconds = 300,
       wst_timeout_seconds = 600, wst_is_review_gate = gate, wst_is_terminal = term,
       wst_compensation_stage_key = None \<rparr>"

definition sample_edge :: "uuid \<Rightarrow> stage \<Rightarrow> stage \<Rightarrow> WorkflowTransitionTrigger \<Rightarrow> WorkflowTransition" where
  "sample_edge i a b trig =
     \<lparr> wt_id = i, wt_definition_id = 2, wt_from_stage = a, wt_to_stage = b, wt_trigger = trig,
       wt_condition = None, wt_priority = 0 \<rparr>"

definition sample_run :: PipelineRun where
  "sample_run =
     \<lparr> pr_id = 10, pr_workspace_id = 1, pr_content_item_id = 11, pr_idempotency_key = None,
       pr_current_stage = ''scripting'', pr_status = RUNNING, pr_started_at = Some 0,
       pr_completed_at = None, pr_pause_reason = None, pr_definition_id = Some 2,
       pr_correlation_id = Some 12, pr_trace_id = Some ''t'' \<rparr>"

definition sample_worker :: WorkerRegistration where
  "sample_worker =
     \<lparr> wr_id = 20, wr_workspace_id = Some 1, wr_name = ''w'', wr_supported_stages = [''scripting''],
       wr_capabilities = None, wr_status = ONLINE, wr_max_concurrency = 2, wr_current_load = 0,
       wr_health_score = 100, wr_last_heartbeat_at = Some 1000, wr_registered_at = 0,
       wr_instance_key = ''k'', wr_worker_version = None, wr_drain = False, wr_deregistered_at = None \<rparr>"

definition sample_item :: ContentItem where
  "sample_item =
     \<lparr> ci_id = 11, ci_workspace_id = 1, ci_topic = ''topic'', ci_target_length_seconds = None,
       ci_current_stage = ''scripting'', ci_status = ContentStatus.ACTIVE, ci_current_version_id = None,
       ci_current_pipeline_run_id = Some 10, ci_created_by = None, ci_deleted_at = None \<rparr>"

definition sample_assignment :: StageAssignment where
  "sample_assignment =
     \<lparr> sa_id = 30, sa_workspace_id = 1, sa_pipeline_run_id = 10, sa_stage = ''scripting'',
       sa_attempt_number = 1, sa_worker_id = None, sa_status = StageAssignmentStatus.PENDING,
       sa_idempotency_key = Some ''k1'', sa_lease_expires_at = None, sa_dispatched_at = None,
       sa_acknowledged_at = None, sa_completed_at = None, sa_result = None, sa_correlation_id = Some 12,
       sa_trace_id = Some ''t'', sa_claimed_at = None, sa_claimed_by = None, sa_claim_count = 0,
       sa_claim_token = None, sa_lease_started_at = None, sa_lease_extension_count = 0,
       sa_priority = 0, sa_provider = Some ''draft_desk'', sa_created_at = 900 \<rparr>"

definition sample_reservation :: SpendReservation where
  "sample_reservation =
     \<lparr> sr_id = 40, sr_workspace_id = 1, sr_pipeline_run_id = Some 10, sr_provider = ''draft_desk'',
       sr_stage = Some ''scripting'', sr_estimated_cost_usd = 1 / 100, sr_status = RESERVED \<rparr>"

definition sample_db :: db where
  "sample_db = (empty_db (\<lambda>n. 1000 + of_nat n) (\<lambda>n. 5000 + n) (\<lambda>_. 1 / 2))
     \<lparr> workspaces := [\<lparr> ws_id = 1, ws_name = ''ws'', ws_priority_tier = 0, ws_created_by = None \<rparr>],
       caps := [\<lparr> cap_id = 3, cap_workspace_id = 1, cap_provider = None, cap_daily_cap_usd = 50,
                 cap_monthly_cap_usd = 1000 \<rparr>],
       wstages := [sample_stage 50 ''idea'' 0 False False, sample_stage 51 ''scripting'' 1 False False,
                   sample_stage 52 ''review'' 2 True False, sample_stage 53 ''published'' 3 False True],
       transitions := [sample_edge 60 ''idea'' ''scripting'' ON_SUCCESS,
                       sample_edge 61 ''scripting'' ''review'' ON_SUCCESS,
                       sample_edge 62 ''review'' ''published'' ON_REVIEW_APPROVED],
       runs := [sample_run], items := [sample_item], workers := [sample_worker] \<rparr>"

lemmas fixture = sample_db_def empty_db_def sample_run_def sample_worker_def sample_item_def
  sample_assignment_def sample_reservation_def sample_stage_def sample_edge_def default_settings_def

text \<open>
  The rows of the sample, one equation per table: evaluating with these keeps the database itself folded, so a run of
  many operations stays a chain of updates on \<open>sample_db\<close>.
\<close>

lemma sample_db_tables:
  "clock sample_db = (\<lambda>n. 1000 + of_nat n)" "uuids sample_db = (\<lambda>n. 5000 + n)"
  "rng sample_db = (\<lambda>_. 1 / 2)" "tokens sample_db = (\<lambda>n. ''token-'' @ str_nat n)"
  "cfg sample_db = default_settings" "tick sample_db = 0" "locks sample_db = []" "stage_runs sample_db = []"
  "assignments sample_db = []" "jobs sample_db = []" "limits sample_db = []" "credentials sample_db = []"
  "heartbeats sample_db = []" "worker_logs sample_db = []" "workflows sample_db = []" "gates sample_db = []"
  "decisions sample_db = []" "spend_logs sample_db = []" "reservations sample_db = []" "events sample_db = []"
  "consumers sample_db = []" "checkpoints sample_db = []" "dead_letters sample_db = []" "claim_audits sample_db = []"
  "recovery_audits sample_db = []" "effect_keys sample_db = []" "backpressure_states sample_db = []"
  "budgets sample_db = []" "memberships sample_db = []" "profiles sample_db = []" "local_credentials sample_db = []"
  "versions sample_db = []" "eligibilities sample_db = []" "billings sample_db = []" "billing_events sample_db = []"
  "workspaces sample_db = [\<lparr> ws_id = 1, ws_name = ''ws'', ws_priority_tier = 0, ws_created_by = None \<rparr>]"
  "caps sample_db = [\<lparr> cap_id = 3, cap_workspace_id = 1, cap_provider = None, cap_daily_cap_usd = 50, cap_monthly_cap_usd = 1000 \<rparr>]"
  "wstages sample_db = [sample_stage 50 ''idea'' 0 False False, sample_stage 51 ''scripting'' 1 False False, sample_stage 52 ''review'' 2 True False, sample_stage 53 ''published'' 3 False True]"
  "transitions sample_db = [sample_edge 60 ''idea'' ''scripting'' ON_SUCCESS, sample_edge 61 ''scripting'' ''review'' ON_SUCCESS, sample_edge 62 ''review'' ''published'' ON_REVIEW_APPROVED]"
  "runs sample_db = [sample_run]" "items sample_db = [sample_item]" "workers sample_db = [sample_worker]"
  by (simp_all add: sample_db_def empty_db_def)

lemmas sample_rows = sample_run_def sample_worker_def sample_item_def sample_assignment_def sample_reservation_def
  sample_stage_def sample_edge_def

lemmas sample = sample_db_tables sample_rows

end
