(* ===== verification/Capacity.thy ===== *)
theory Capacity imports Retry Fixtures begin

text \<open>
  What limits and orders work: assignment priority (\<open>orchestration/priority.py\<close>), provider concurrency
  budgets (\<open>orchestration/provider_budgets.py\<close>) and queue-depth back-pressure
  (\<open>orchestration/backpressure.py\<close>).
\<close>

section \<open>Priority\<close>

definition the_or :: "'a option \<Rightarrow> 'a \<Rightarrow> 'a" where
  "the_or x d = (case x of None \<Rightarrow> d | Some y \<Rightarrow> y)"

text \<open>\<open>now\<close> is the instant the caller passes or has read from the clock.\<close>

definition compute_age_boost ::
  "Settings \<Rightarrow> datetime \<Rightarrow> datetime \<Rightarrow> int option \<Rightarrow> int option \<Rightarrow> int option \<Rightarrow> int" where
  "compute_age_boost c created_at now interval_seconds per_interval boost_max =
     (let interval = the_or interval_seconds (assignment_age_boost_interval_seconds c);
          step = the_or per_interval (assignment_age_boost_per_interval c);
          cap = the_or boost_max (assignment_age_boost_max c);
          age = max 0 (now - created_at)
      in if interval \<le> 0 then 0
         else let boost = \<lfloor>age / of_int interval\<rfloor> * step in min boost cap)"

definition compute_effective_priority :: "Settings \<Rightarrow> int \<Rightarrow> datetime \<Rightarrow> datetime \<Rightarrow> int" where
  "compute_effective_priority c priority created_at now =
     priority + compute_age_boost c created_at now None None None"

definition base_priority_for_tier :: "Settings \<Rightarrow> int \<Rightarrow> int" where
  "base_priority_for_tier c priority_tier = priority_tier * workspace_tier_priority_weight c"

text \<open>The value of the SQL expression on one row.\<close>

definition effective_priority_expr :: "Settings \<Rightarrow> int \<Rightarrow> datetime \<Rightarrow> datetime \<Rightarrow> int" where
  "effective_priority_expr c priority created_at now =
     (let interval = assignment_age_boost_interval_seconds c;
          step = assignment_age_boost_per_interval c;
          cap = assignment_age_boost_max c;
          age = max 0 (now - created_at)
      in if interval \<le> 0 then priority
         else let boost = min cap (\<lfloor>age / of_int interval\<rfloor> * step) in priority + boost)"

section \<open>Provider budgets\<close>

definition lock_budget :: "uuid \<Rightarrow> string \<Rightarrow> ProviderConcurrencyBudget option M" where
  "lock_budget workspace_id provider =
     query_one (\<lambda>s. filter (\<lambda>b. pcb_workspace_id b = workspace_id \<and> pcb_provider b = provider) (budgets s))"

definition count_inflight :: "uuid \<Rightarrow> string \<Rightarrow> db \<Rightarrow> int" where
  "count_inflight workspace_id provider s =
     int (length (filter (\<lambda>a. sa_workspace_id a = workspace_id \<and> sa_provider a = Some provider
       \<and> in_flight (sa_status a)) (assignments s)))"

definition has_provider_capacity :: "uuid \<Rightarrow> string option \<Rightarrow> bool M" where
  "has_provider_capacity workspace_id provider =
     (case provider of
        None \<Rightarrow> ret True
      | Some p \<Rightarrow>
          if p = [] then ret True
          else bindM (lock_budget workspace_id p) (\<lambda>budget.
               case budget of
                 None \<Rightarrow> ret True
               | Some b \<Rightarrow> gets (\<lambda>s. count_inflight workspace_id p s < pcb_max_concurrent b)))"

section \<open>Back-pressure\<close>

record BackpressureSnapshot =
  bps_workspace_id :: uuid
  bps_state :: BackpressureState
  bps_pending_depth :: int
  bps_soft_limit :: int
  bps_hard_limit :: int
  bps_changed :: bool

definition classify_depth :: "int \<Rightarrow> int \<Rightarrow> int \<Rightarrow> BackpressureState" where
  "classify_depth depth soft hard =
     (if depth \<ge> hard then THROTTLED else if depth \<ge> soft then PRESSURED else NORMAL)"

definition pending_depth :: "uuid \<Rightarrow> db \<Rightarrow> int" where
  "pending_depth workspace_id s =
     int (length (filter (\<lambda>a. sa_workspace_id a = workspace_id
       \<and> sa_status a = StageAssignmentStatus.PENDING) (assignments s)))"

definition concurrency_limit_row :: "uuid \<Rightarrow> WorkspaceConcurrencyLimit option M" where
  "concurrency_limit_row workspace_id =
     query_one (\<lambda>s. filter (\<lambda>l. wcl_workspace_id l = workspace_id) (limits s))"

text \<open>Soft limit, hard limit, jobs per tick.\<close>

definition bp_limits :: "uuid \<Rightarrow> (int \<times> int \<times> int) M" where
  "bp_limits workspace_id =
     bindM (concurrency_limit_row workspace_id) (\<lambda>row.
     case row of
       None \<Rightarrow> gets (\<lambda>s. (queue_soft_limit_default (cfg s), queue_hard_limit_default (cfg s), 5))
     | Some r \<Rightarrow> ret (wcl_queue_soft_limit r, wcl_queue_hard_limit r, wcl_max_per_scheduler_tick r))"

definition bp_row :: "uuid \<Rightarrow> db \<Rightarrow> WorkspaceBackpressureState list" where
  "bp_row workspace_id s = filter (\<lambda>b. wbs_workspace_id b = workspace_id) (backpressure_states s)"

definition bp_store :: "uuid \<Rightarrow> WorkspaceBackpressureState option \<Rightarrow> BackpressureState \<Rightarrow> int \<Rightarrow> bool \<Rightarrow> datetime \<Rightarrow> unit M" where
  "bp_store workspace_id row new_state depth changed now =
     (case row of
        None \<Rightarrow> modifyM (backpressure_states_update (\<lambda>rs. rs @
          [\<lparr> wbs_workspace_id = workspace_id, wbs_state = new_state, wbs_pending_depth = depth,
             wbs_entered_at = (if new_state \<noteq> NORMAL then Some now else None), wbs_updated_at = now \<rparr>]))
      | Some _ \<Rightarrow> modifyM (backpressure_states_update (row_set wbs_workspace_id workspace_id
          (\<lambda>r. r\<lparr> wbs_state := new_state, wbs_pending_depth := depth, wbs_updated_at := now,
             wbs_entered_at := (if changed then (if new_state \<noteq> NORMAL then Some now else None)
                                else wbs_entered_at r) \<rparr>))))"

definition bp_payload :: "BackpressureState \<Rightarrow> BackpressureState \<Rightarrow> int \<Rightarrow> int \<Rightarrow> int \<Rightarrow> json" where
  "bp_payload new_state previous depth soft hard =
     JObj [(''state'', JStr (backpressure_state_value new_state)),
           (''previous_state'', JStr (backpressure_state_value previous)),
           (''pending_depth'', JNum (of_int depth)),
           (''soft_limit'', JNum (of_int soft)), (''hard_limit'', JNum (of_int hard))]"

definition bp_emit ::
  "uuid \<Rightarrow> uuid option \<Rightarrow> BackpressureState \<Rightarrow> BackpressureState \<Rightarrow> int \<Rightarrow> int \<Rightarrow> int \<Rightarrow> unit M" where
  "bp_emit workspace_id correlation_id new_state previous depth soft hard =
     bindM (child_span None) (\<lambda>trace.
     bindM (or_uuid4 correlation_id) (\<lambda>corr.
     bindM (emit (if new_state = NORMAL then BACKPRESSURE_CLEARED else BACKPRESSURE_ENTERED)
       workspace_id ''workspace'' workspace_id corr trace
       (bp_payload new_state previous depth soft hard)
       ''backpressure'') (\<lambda>_.
     ret ())))"

definition evaluate_workspace_backpressure ::
  "uuid \<Rightarrow> datetime option \<Rightarrow> uuid option \<Rightarrow> BackpressureSnapshot M" where
  "evaluate_workspace_backpressure workspace_id now_arg correlation_id =
     bindM (now_or_utcnow now_arg) (\<lambda>now.
     bindM (bp_limits workspace_id) (\<lambda>(soft, hard, _).
     bindM (gets (pending_depth workspace_id)) (\<lambda>depth.
     let new_state = classify_depth depth soft hard in
     bindM (query_one (bp_row workspace_id)) (\<lambda>row.
     let previous = (case row of None \<Rightarrow> NORMAL | Some r \<Rightarrow> wbs_state r);
         changed = (previous \<noteq> new_state) in
     andThen (bp_store workspace_id row new_state depth changed now) (
     andThen (whenM changed (bp_emit workspace_id correlation_id new_state previous depth soft hard)) (
     ret \<lparr> bps_workspace_id = workspace_id, bps_state = new_state, bps_pending_depth = depth,
           bps_soft_limit = soft, bps_hard_limit = hard, bps_changed = changed \<rparr>))))))"

text \<open>\<open>GROUP BY workspace_id LIMIT n\<close>: the distinct workspaces, in the order of their first row.\<close>

fun in_order :: "'a list \<Rightarrow> 'a list" where
  "in_order [] = []"
| "in_order (x # xs) = x # filter (\<lambda>y. y \<noteq> x) (in_order xs)"

definition evaluate_all_active_workspaces :: "int \<Rightarrow> BackpressureSnapshot list M" where
  "evaluate_all_active_workspaces batch_size =
     bindM (gets (\<lambda>s. limit_rows batch_size (in_order (map sa_workspace_id
       (filter (\<lambda>a. sa_status a = StageAssignmentStatus.PENDING) (assignments s)))))) (\<lambda>ids.
     mapM ids (\<lambda>workspace_id. evaluate_workspace_backpressure workspace_id None None))"

definition effective_scheduler_tick_limit :: "uuid \<Rightarrow> int \<Rightarrow> int M" where
  "effective_scheduler_tick_limit workspace_id configured =
     bindM (query_one (bp_row workspace_id)) (\<lambda>row.
     ret (case row of
            Some r \<Rightarrow> if wbs_state r = THROTTLED then max 1 (configured div 2) else configured
          | None \<Rightarrow> configured))"

section \<open>Footprint\<close>

lemma ro_capacity [steps_intro]:
  "keeps f (has_provider_capacity ws p)" "keeps f (bp_limits ws)" "keeps f (concurrency_limit_row ws)"
  "keeps f (effective_scheduler_tick_limit ws n)" "keeps f (lock_budget ws q)"
  unfolding has_provider_capacity_def bp_limits_def concurrency_limit_row_def
    effective_scheduler_tick_limit_def lock_budget_def
  by (intro steps_intro)+

lemma w_capacity [steps_intro]:
  "steps writes (has_provider_capacity ws p)" "steps writes (bp_limits ws)"
  "steps writes (concurrency_limit_row ws)"
  "steps writes (effective_scheduler_tick_limit ws n)" "steps writes (lock_budget ws q)"
  unfolding has_provider_capacity_def bp_limits_def concurrency_limit_row_def
    effective_scheduler_tick_limit_def lock_budget_def
  by (intro steps_intro)+

lemma w_evaluate_workspace_backpressure [steps_intro]:
  "steps writes (evaluate_workspace_backpressure ws now corr)"
  unfolding evaluate_workspace_backpressure_def bp_store_def bp_emit_def by (intro steps_intro)

lemma w_evaluate_all [steps_intro]: "steps writes (evaluate_all_active_workspaces n)"
  unfolding evaluate_all_active_workspaces_def by (intro steps_intro)

section \<open>Properties\<close>

text \<open>
  The SQL expression the claim orders by and the Python function agree on every row, and under
  valid settings ageing adds between 0 and the configured maximum and never decreases with time.
\<close>

theorem effective_priority_agrees:
  assumes "settings_valid c"
  shows "effective_priority_expr c p created now = compute_effective_priority c p created now
    \<and> p \<le> effective_priority_expr c p created now
    \<and> effective_priority_expr c p created now \<le> p + assignment_age_boost_max c
    \<and> (now \<le> later \<longrightarrow> effective_priority_expr c p created now \<le> effective_priority_expr c p created later)"
proof (intro conjI impI)
  let ?i = "assignment_age_boost_interval_seconds c" and ?st = "assignment_age_boost_per_interval c"
  have i: "0 < ?i" and st: "0 \<le> ?st" and mx: "0 \<le> assignment_age_boost_max c"
    using assms by (auto simp: settings_valid_def)
  show "effective_priority_expr c p created now = compute_effective_priority c p created now"
    by (simp add: effective_priority_expr_def compute_effective_priority_def compute_age_boost_def
        the_or_def Let_def min.commute)
  have "0 \<le> \<lfloor>max 0 (now - created) / of_int ?i\<rfloor> * ?st" using i st by simp
  then show "p \<le> effective_priority_expr c p created now"
    using i mx by (simp add: effective_priority_expr_def Let_def)
  show "effective_priority_expr c p created now \<le> p + assignment_age_boost_max c"
    using i by (simp add: effective_priority_expr_def Let_def)
  assume "now \<le> later"
  then have "max 0 (now - created) / of_int ?i \<le> max 0 (later - created) / of_int ?i"
    using i by (intro divide_right_mono max.mono) auto
  then have "\<lfloor>max 0 (now - created) / of_int ?i\<rfloor> * ?st \<le> \<lfloor>max 0 (later - created) / of_int ?i\<rfloor> * ?st"
    using st by (intro mult_right_mono floor_mono)
  then show "effective_priority_expr c p created now \<le> effective_priority_expr c p created later"
    using i by (auto simp: effective_priority_expr_def Let_def min_def)
qed

lemma effective_priority_agrees_witness:
  "effective_priority_expr default_settings 10 0 130 = 12
    \<and> effective_priority_expr default_settings 10 0 130 \<le> effective_priority_expr default_settings 10 0 200"
proof -
  have "effective_priority_expr default_settings 10 0 130 = 12" by code_simp
  then show ?thesis
    using effective_priority_agrees [of default_settings 10 0 130 200, OF default_settings_valid] by simp
qed

lemma classify_depth_mono: "d \<le> d' \<Longrightarrow> classify_depth d soft hard \<le> classify_depth d' soft hard"
  by (auto simp: classify_depth_def less_eq_BackpressureState_def)

text \<open>
  A throttled workspace keeps at least one job per scheduler tick and never gets more than its
  configured allowance; the classification is monotone in the queue depth.
\<close>

theorem tick_limit_never_zero:
  assumes "1 \<le> configured" and "effective_scheduler_tick_limit ws configured s = (Inr n, s')"
  shows "1 \<le> n \<and> n \<le> configured \<and> s' = s
    \<and> (n \<noteq> configured \<longrightarrow> (\<exists>r. bp_row ws s = [r] \<and> wbs_state r = THROTTLED))
    \<and> (d \<le> d' \<longrightarrow> classify_depth d soft hard \<le> classify_depth d' soft hard)"
  using assms classify_depth_mono [of d d' soft hard]
  by (auto simp: effective_scheduler_tick_limit_def exec scalar_one_or_none_Some
      split: sum.splits option.splits if_splits)

lemma row_set_bp [simp]:
  assumes "\<And>r. wbs_workspace_id (f r) = wbs_workspace_id r" and "bp_row ws s = [r]"
  shows "filter (\<lambda>b. wbs_workspace_id b = ws) (row_set wbs_workspace_id ws f (backpressure_states s)) = [f r]"
proof -
  have "wbs_workspace_id r = ws" using assms(2) unfolding bp_row_def by (metis (mono_tags) filter_eq_ConsD)
  with assms show ?thesis by (simp add: filter_row_set bp_row_def)
qed

definition bp_previous :: "uuid \<Rightarrow> db \<Rightarrow> BackpressureState" where
  "bp_previous ws s = (case bp_row ws s of [] \<Rightarrow> NORMAL | r # _ \<Rightarrow> wbs_state r)"

lemma bp_store_result:
  assumes "query_one (bp_row ws) s = (Inr row, s)"
  shows "\<exists>s1. bp_store ws row st d ch t s = (Inr (), s1) \<and> map wbs_state (bp_row ws s1) = [st]
    \<and> map wbs_pending_depth (bp_row ws s1) = [d] \<and> events s1 = events s \<and> assignments s1 = assignments s
    \<and> limits s1 = limits s \<and> cfg s1 = cfg s"
proof (cases row)
  case None
  then have "bp_row ws s = []" using assms by (simp add: exec scalar_one_or_none_None)
  then show ?thesis using None by (simp add: bp_store_def exec bp_row_def)
next
  case (Some r)
  then have "bp_row ws s = [r]" using assms by (simp add: exec scalar_one_or_none_Some)
  then show ?thesis using Some by (simp add: bp_store_def exec) (simp add: bp_row_def)
qed

lemma bp_emit_result:
  "\<exists>n e. bp_emit ws corr st prev d soft hard s = (Inr (), s\<lparr>tick := n, events := events s @ [e]\<rparr>)
    \<and> ev_event_type e = (if st = NORMAL then BACKPRESSURE_CLEARED else BACKPRESSURE_ENTERED)"
proof -
  obtain p n where 1: "child_span None s = (Inr p, s\<lparr>tick := n\<rparr>)" using child_span_Inr by blast
  obtain u n' where 2: "or_uuid4 corr (s\<lparr>tick := n\<rparr>) = (Inr u, s\<lparr>tick := n'\<rparr>)"
    using or_uuid4_Inr [of corr "s\<lparr>tick := n\<rparr>"] by auto
  define ty where "ty = (if st = NORMAL then BACKPRESSURE_CLEARED else BACKPRESSURE_ENTERED)"
  obtain e where 3: "emit ty ws ''workspace'' ws u p (bp_payload st prev d soft hard)
       ''backpressure'' (s\<lparr>tick := n'\<rparr>)
     = (Inr (ev_event_id e), s\<lparr>tick := Suc (Suc n'), events := events s @ [e]\<rparr>)"
    and e: "ev_event_type e = ty"
    using emit_Inr [of ty ws "''workspace''" ws u p "bp_payload st prev d soft hard" "''backpressure''"
        "s\<lparr>tick := n'\<rparr>"] by auto
  show ?thesis
    unfolding bp_emit_def bindM_exec 1 2 3 prod.case sum.case ret_exec ty_def [symmetric] using e by blast
qed

lemma bp_limits_tick: "bp_limits ws (s\<lparr>tick := n\<rparr>) = (case bp_limits ws s of (r, s') \<Rightarrow> (r, s'\<lparr>tick := n\<rparr>))"
  by (auto simp: bp_limits_def concurrency_limit_row_def exec split: sum.splits option.splits)

lemma bp_limits_state: "bp_limits ws s = (r, s') \<Longrightarrow> s' = s"
  using keepsD' [OF ro_capacity(2) [where f = "\<lambda>x. x"]] by blast

lemma backpressure_step:
  assumes "evaluate_workspace_backpressure ws now corr s = (Inr sn, s')"
  shows "\<exists>tk. bp_limits ws s = (Inr (bps_soft_limit sn, bps_hard_limit sn, tk), s)"
    and "bps_state sn = classify_depth (pending_depth ws s) (bps_soft_limit sn) (bps_hard_limit sn)"
    and "map wbs_state (bp_row ws s') = [bps_state sn]"
    and "map wbs_pending_depth (bp_row ws s') = [pending_depth ws s]"
    and "bps_changed sn \<longleftrightarrow> bps_state sn \<noteq> bp_previous ws s"
    and "if bps_changed sn then \<exists>e. events s' = events s @ [e] \<and> ev_event_type e =
          (if bps_state sn = NORMAL then BACKPRESSURE_CLEARED else BACKPRESSURE_ENTERED)
         else events s' = events s"
    and "assignments s' = assignments s \<and> limits s' = limits s \<and> cfg s' = cfg s"
proof -
  obtain t n where 1: "now_or_utcnow now s = (Inr t, s\<lparr>tick := n\<rparr>)" using now_or_utcnow_Inr by blast
  let ?s1 = "s\<lparr>tick := n\<rparr>"
  obtain soft hard tk where 2: "bp_limits ws ?s1 = (Inr (soft, hard, tk), ?s1)"
    using assms bp_limits_state [of ws ?s1]
    by (auto simp: evaluate_workspace_backpressure_def bindM_exec 1 split: prod.splits sum.splits)
  have depth: "pending_depth ws ?s1 = pending_depth ws s" by (simp add: pending_depth_def)
  let ?d = "pending_depth ws s" and ?st = "classify_depth (pending_depth ws s) soft hard"
  have same: "bp_row ws ?s1 = bp_row ws s" by (simp add: bp_row_def)
  obtain row where 3: "query_one (bp_row ws) ?s1 = (Inr row, ?s1)"
    using assms by (auto simp: evaluate_workspace_backpressure_def bindM_exec 1 2 gets_exec Let_def
        query_one_exec split: prod.splits sum.splits)
  have prev: "(case row of None \<Rightarrow> NORMAL | Some r \<Rightarrow> wbs_state r) = bp_previous ws s"
    using 3 same by (cases row)
      (simp_all add: exec bp_previous_def scalar_one_or_none_None scalar_one_or_none_Some)
  let ?ch = "bp_previous ws s \<noteq> ?st"
  obtain s2 where 4: "bp_store ws row ?st ?d ?ch t ?s1 = (Inr (), s2)"
    and s2: "map wbs_state (bp_row ws s2) = [?st]" "map wbs_pending_depth (bp_row ws s2) = [?d]"
      "events s2 = events s" "assignments s2 = assignments s" "limits s2 = limits s" "cfg s2 = cfg s"
    using bp_store_result [OF 3] by force
  obtain n' e where 5: "bp_emit ws corr ?st (bp_previous ws s) ?d soft hard s2
      = (Inr (), s2\<lparr>tick := n', events := events s2 @ [e]\<rparr>)"
    and e: "ev_event_type e = (if ?st = NORMAL then BACKPRESSURE_CLEARED else BACKPRESSURE_ENTERED)"
    using bp_emit_result by blast
  have sn: "sn = \<lparr> bps_workspace_id = ws, bps_state = ?st, bps_pending_depth = ?d,
           bps_soft_limit = soft, bps_hard_limit = hard, bps_changed = ?ch \<rparr>"
    and s': "s' = (if ?ch then s2\<lparr>tick := n', events := events s2 @ [e]\<rparr> else s2)"
    using assms
    by (auto simp: evaluate_workspace_backpressure_def bindM_exec andThen_exec whenM_exec ret_exec 1 2
        gets_exec Let_def depth 3 prev 4 5 split: if_splits)
  have row': "bp_row ws s' = bp_row ws s2" by (simp add: s' bp_row_def)
  from 2 show "\<exists>tk. bp_limits ws s = (Inr (bps_soft_limit sn, bps_hard_limit sn, tk), s)"
    using bp_limits_state [of ws s] by (cases "bp_limits ws s") (auto simp: sn bp_limits_tick)
  show "bps_state sn = classify_depth (pending_depth ws s) (bps_soft_limit sn) (bps_hard_limit sn)"
    "bps_changed sn \<longleftrightarrow> bps_state sn \<noteq> bp_previous ws s"
    "map wbs_state (bp_row ws s') = [bps_state sn]"
    "map wbs_pending_depth (bp_row ws s') = [pending_depth ws s]"
    using s2(1,2) by (auto simp: sn row')
  show "if bps_changed sn then \<exists>e. events s' = events s @ [e] \<and> ev_event_type e =
          (if bps_state sn = NORMAL then BACKPRESSURE_CLEARED else BACKPRESSURE_ENTERED)
         else events s' = events s"
    using e s2(3) by (auto simp: sn s')
  show "assignments s' = assignments s \<and> limits s' = limits s \<and> cfg s' = cfg s"
    using s2(4-6) by (simp add: s')
qed

text \<open>A queue of two pending assignments, and a workspace that was throttled before.\<close>

definition queued_db :: db where
  "queued_db = sample_db\<lparr>assignments := [sample_assignment, sample_assignment\<lparr>sa_id := 31\<rparr>],
     limits := [\<lparr> wcl_workspace_id = 1, wcl_max_concurrent_assignments = 10, wcl_max_per_scheduler_tick = 5,
                  wcl_queue_soft_limit = 2, wcl_queue_hard_limit = 3 \<rparr>],
     backpressure_states := [\<lparr> wbs_workspace_id = 1, wbs_state = THROTTLED, wbs_pending_depth = 9,
                  wbs_entered_at = Some 0, wbs_updated_at = 0 \<rparr>]\<rparr>"

lemma tick_limit_never_zero_witness:
  "\<exists>n s'. effective_scheduler_tick_limit 1 5 queued_db = (Inr n, s') \<and> n = 2 \<and> 1 \<le> n \<and> s' = queued_db"
proof -
  have 1: "effective_scheduler_tick_limit 1 5 queued_db = (Inr 2, queued_db)"
    by (simp add: effective_scheduler_tick_limit_def exec bp_row_def queued_db_def)
  from tick_limit_never_zero [OF _ 1] show ?thesis using 1 by simp
qed

text \<open>
  An evaluation stores the state its thresholds give for the workspace's pending depth, and emits one
  \<open>backpressure.*\<close> event exactly when that state differs from the stored one (\<open>NORMAL\<close> before the first
  evaluation). Evaluating again right away changes nothing and emits nothing.
\<close>

theorem backpressure_evaluated:
  assumes "evaluate_workspace_backpressure ws now corr s = (Inr sn, s')"
  shows "map wbs_state (bp_row ws s') = [classify_depth (pending_depth ws s) (bps_soft_limit sn) (bps_hard_limit sn)]
    \<and> map wbs_pending_depth (bp_row ws s') = [pending_depth ws s]
    \<and> (bps_changed sn \<longleftrightarrow> bps_state sn \<noteq> bp_previous ws s)
    \<and> (if bps_changed sn then \<exists>e. events s' = events s @ [e] \<and> ev_event_type e =
          (if bps_state sn = NORMAL then BACKPRESSURE_CLEARED else BACKPRESSURE_ENTERED)
       else events s' = events s)
    \<and> (\<forall>now' corr' sn' s''. evaluate_workspace_backpressure ws now' corr' s' = (Inr sn', s'')
         \<longrightarrow> \<not> bps_changed sn' \<and> events s'' = events s')"
proof -
  note step = backpressure_step [OF assms]
  have again: "\<not> bps_changed sn' \<and> events s'' = events s'"
    if "evaluate_workspace_backpressure ws now' corr' s' = (Inr sn', s'')" for now' corr' sn' s''
  proof -
    note step' = backpressure_step [OF that]
    have "bp_limits ws s' = (case bp_limits ws s of (r, _) \<Rightarrow> (r, s'))"
      using step(7) by (simp add: bp_limits_def concurrency_limit_row_def exec split: sum.splits option.splits)
    then have "bps_soft_limit sn' = bps_soft_limit sn" "bps_hard_limit sn' = bps_hard_limit sn"
      using step(1) step'(1) by auto
    moreover have "pending_depth ws s' = pending_depth ws s" using step(7) by (simp add: pending_depth_def)
    ultimately have "bps_state sn' = bps_state sn" using step(2) step'(2) by simp
    moreover have "bp_previous ws s' = bps_state sn"
      using step(3) by (cases "bp_row ws s'") (simp_all add: bp_previous_def)
    ultimately have "\<not> bps_changed sn'" using step'(5) by simp
    then show ?thesis using step'(6) by simp
  qed
  show ?thesis using step(2-6) again by auto
qed

lemma backpressure_evaluated_witness:
  "\<exists>sn s' e. evaluate_workspace_backpressure 1 (Some 1000) (Some 7) queued_db = (Inr sn, s')
    \<and> map wbs_state (bp_row 1 s') = [PRESSURED] \<and> events s' = events queued_db @ [e]
    \<and> ev_event_type e = BACKPRESSURE_ENTERED"
proof -
  have ev: "fst (evaluate_workspace_backpressure 1 (Some 1000) (Some 7) queued_db) =
      Inr \<lparr> bps_workspace_id = 1, bps_state = PRESSURED, bps_pending_depth = 2, bps_soft_limit = 2,
            bps_hard_limit = 3, bps_changed = True \<rparr>"
    by (simp add: evaluate_workspace_backpressure_def bp_limits_def concurrency_limit_row_def pending_depth_def
        classify_depth_def bp_row_def bp_store_def bp_emit_def child_span_def exec queued_db_def fixture Let_def)
  then obtain s' where 1: "evaluate_workspace_backpressure 1 (Some 1000) (Some 7) queued_db =
      (Inr \<lparr> bps_workspace_id = 1, bps_state = PRESSURED, bps_pending_depth = 2, bps_soft_limit = 2,
            bps_hard_limit = 3, bps_changed = True \<rparr>, s')" by (metis prod.collapse)
  have d: "classify_depth (pending_depth 1 queued_db) 2 3 = PRESSURED"
    by (simp add: pending_depth_def classify_depth_def queued_db_def fixture)
  from backpressure_evaluated [OF 1] 1 d show ?thesis by auto
qed

lemma capacity_read_only: "has_provider_capacity ws p s = (r, s') \<Longrightarrow> s' = s"
  using keepsD' [OF ro_capacity(1) [where f = "\<lambda>x. x"]] by blast

lemma has_provider_capacity_True:
  "has_provider_capacity ws (Some p) s = (Inr True, s') \<Longrightarrow> p \<noteq> [] \<Longrightarrow>
   b \<in> set (budgets s) \<Longrightarrow> pcb_workspace_id b = ws \<Longrightarrow> pcb_provider b = p \<Longrightarrow>
   count_inflight ws p s < pcb_max_concurrent b"
proof -
  let ?rows = "filter (\<lambda>b. pcb_workspace_id b = ws \<and> pcb_provider b = p) (budgets s)"
  assume a: "has_provider_capacity ws (Some p) s = (Inr True, s')" "p \<noteq> []"
    and b: "b \<in> set (budgets s)" "pcb_workspace_id b = ws" "pcb_provider b = p"
  from b have "b \<in> set ?rows" by simp
  with a show ?thesis
    by (cases ?rows; cases "tl ?rows") (auto simp: has_provider_capacity_def lock_budget_def exec)
qed

end
