(* ===== verification/Effects.thy ===== *)
theory Effects imports Capacity Fixtures begin

text \<open>
  Provider effect keys, \<open>orchestration/provider_effects.py\<close>: the record that makes a billable side
  effect of an assignment happen at most once across all its attempts.
\<close>

record EffectKeyResult =
  ekr_effect_key :: string
  ekr_created :: bool

definition default_effect_key :: "uuid \<Rightarrow> int \<Rightarrow> string" where
  "default_effect_key assignment_id attempt_number = str_uuid assignment_id"

text \<open>\<open>effect_key or default_effect_key(...)\<close>: \<open>None\<close> and the empty text take the default.\<close>

definition effect_key_for :: "uuid \<Rightarrow> int \<Rightarrow> string option \<Rightarrow> string" where
  "effect_key_for assignment_id attempt_number effect_key =
     (case effect_key of
        None \<Rightarrow> default_effect_key assignment_id attempt_number
      | Some k \<Rightarrow> if k = [] then default_effect_key assignment_id attempt_number else k)"

definition ensure_provider_effect_key ::
  "uuid \<Rightarrow> uuid \<Rightarrow> int \<Rightarrow> string \<Rightarrow> string option \<Rightarrow> EffectKeyResult M" where
  "ensure_provider_effect_key workspace_id assignment_id attempt_number effect_kind effect_key =
     (let key = effect_key_for assignment_id attempt_number effect_key in
     catchM
       (savepoint (\<lambda>s s'. s'\<lparr>effect_keys := effect_keys s\<rparr>) (
          bindM uuid4 (\<lambda>i.
          andThen (add_effect_key \<lparr> pek_id = i, pek_workspace_id = workspace_id,
            pek_assignment_id = assignment_id, pek_attempt_number = attempt_number,
            pek_effect_key = key, pek_effect_kind = effect_kind \<rparr>)
          (ret \<lparr> ekr_effect_key = key, ekr_created = True \<rparr>))))
       (\<lambda>e. if e = IntegrityError then ret \<lparr> ekr_effect_key = key, ekr_created = False \<rparr> else raise e))"

definition key_recorded :: "uuid \<Rightarrow> string \<Rightarrow> db \<Rightarrow> bool" where
  "key_recorded ws key s \<longleftrightarrow> list_ex (\<lambda>k. pek_workspace_id k = ws \<and> pek_effect_key k = key) (effect_keys s)"

lemma ensure_provider_effect_key_exec [exec]:
  "ensure_provider_effect_key ws i n kind ek s =
     (let key = effect_key_for i n ek in
      if key_recorded ws key s
      then (Inr \<lparr> ekr_effect_key = key, ekr_created = False \<rparr>, s\<lparr>tick := Suc (tick s)\<rparr>)
      else (Inr \<lparr> ekr_effect_key = key, ekr_created = True \<rparr>,
            s\<lparr>tick := Suc (tick s), effect_keys := effect_keys s @
              [\<lparr> pek_id = uuids s (tick s), pek_workspace_id = ws, pek_assignment_id = i,
                 pek_attempt_number = n, pek_effect_key = key, pek_effect_kind = kind \<rparr>]\<rparr>))"
  by (simp add: ensure_provider_effect_key_def savepoint_def exec key_recorded_def Let_def)

lemma ensure_provider_effect_key_Inr: "\<exists>r s'. ensure_provider_effect_key ws i n kind ek s = (Inr r, s')"
  by (auto simp: exec Let_def)

lemma w_ensure_provider_effect_key [steps_intro]:
  "steps writes (ensure_provider_effect_key ws i n kind ek)"
proof (unfold steps_def, rule allI)
  fix s :: db
  let ?key = "effect_key_for i n ek"
  let ?s1 = "s\<lparr>tick := Suc (tick s)\<rparr>"
  let ?k = "\<lparr> pek_id = uuids s (tick s), pek_workspace_id = ws, pek_assignment_id = i,
    pek_attempt_number = n, pek_effect_key = ?key, pek_effect_kind = kind \<rparr>"
  have 1: "writes s ?s1" by (rule w_tick) simp
  have 2: "db_write ?s1 (?s1\<lparr>effect_keys := effect_keys ?s1 @ [?k]\<rparr>)" if "\<not> key_recorded ws ?key s"
    using that by (intro db_write.new_effect_key) (simp add: key_recorded_def)
  show "writes s (snd (ensure_provider_effect_key ws i n kind ek s))"
    using 1 rtranclp.rtrancl_into_rtrancl [OF 1 2] by (simp add: exec Let_def)
qed

lemma keeps_ensure_provider_effect_key [steps_intro]:
  "(\<And>s n. f (s\<lparr>tick := n\<rparr>) = f s) \<Longrightarrow> (\<And>s n q. f (s\<lparr>tick := n, effect_keys := q\<rparr>) = f s) \<Longrightarrow>
   keeps f (ensure_provider_effect_key ws i n kind ek)"
  by (simp add: steps_def eqOn_def exec Let_def)

lemma key_recorded_grows:
  assumes "writes s s'" "key_recorded ws key s"
  shows "key_recorded ws key s'"
proof -
  have "set (effect_keys s) \<subseteq> set (effect_keys s')"
    using writes_history [OF assms(1)] unfolding history_grows_def extends_def
    by (metis set_take_subset)
  with assms(2) show ?thesis by (auto simp: key_recorded_def list_ex_iff)
qed

text \<open>
  C16: Once the effect key of an assignment has been asked for, no later attempt of that assignment gets
  \<open>created = True\<close> again, whatever the engine writes in between and whatever the attempt number; and
  the refusal leaves the recorded keys as they are.
\<close>

theorem effect_at_most_once:
  assumes "ensure_provider_effect_key ws i n kind None s = (Inr r, s1)" and "writes s1 s2"
    and "ensure_provider_effect_key ws i m kind' None s2 = (Inr r', s3)"
  shows "\<not> ekr_created r' \<and> effect_keys s3 = effect_keys s2 \<and> ekr_effect_key r' = ekr_effect_key r
    \<and> (ekr_created r \<longleftrightarrow> \<not> key_recorded ws (str_uuid i) s)"
proof -
  have "key_recorded ws (str_uuid i) s1"
    using assms(1) by (auto simp: exec Let_def effect_key_for_def default_effect_key_def key_recorded_def
        list_ex_iff split: if_splits)
  then have "key_recorded ws (str_uuid i) s2" by (rule key_recorded_grows [OF assms(2)])
  then show ?thesis using assms(1,3)
    by (auto simp: exec Let_def effect_key_for_def default_effect_key_def split: if_splits)
qed

definition effects_db :: db where
  "effects_db = empty_db (\<lambda>_. 0) (\<lambda>n. 1000 + n) (\<lambda>_. 0)"

lemma effect_at_most_once_witness:
  "\<exists>r s1 r' s3. ensure_provider_effect_key 1 7 1 ''stage_execute'' None effects_db = (Inr r, s1)
    \<and> ensure_provider_effect_key 1 7 2 ''stage_execute'' None s1 = (Inr r', s3)
    \<and> ekr_created r \<and> \<not> ekr_created r' \<and> length (effect_keys s3) = 1"
proof -
  obtain r s1 where 1: "ensure_provider_effect_key 1 7 1 ''stage_execute'' None effects_db = (Inr r, s1)"
    using ensure_provider_effect_key_Inr by blast
  obtain r' s3 where 2: "ensure_provider_effect_key 1 7 2 ''stage_execute'' None s1 = (Inr r', s3)"
    using ensure_provider_effect_key_Inr by blast
  have "ekr_created r" "length (effect_keys s1) = 1"
    using 1 by (auto simp: exec Let_def effects_db_def empty_db_def key_recorded_def)
  with effect_at_most_once [OF 1 rtranclp.rtrancl_refl 2] 1 2 show ?thesis by auto
qed

end
