(* ===== verification/Workflow.thy ===== *)
theory Workflow imports Effects "HOL-Library.Product_Lexorder" begin

text \<open>
  The workflow graph, the first part of \<open>orchestration/controller.py\<close>: the restricted condition
  language, choosing the outgoing transition, looking up a stage, enqueueing a stage, starting a run;
  and the two helpers for the pattern \<open>child_span\<close> / \<open>run.trace_id = ...\<close> / \<open>emit\<close> that every run-level
  operation of the controller repeats.
\<close>

section \<open>Conditions\<close>

text \<open>\<open>condition["key"]\<close>.\<close>

definition json_index :: "json \<Rightarrow> string \<Rightarrow> exn + json" where
  "json_index v k = (case v of
     JObj kvs \<Rightarrow> (case map_of kvs k of None \<Rightarrow> Inl (KeyError k) | Some w \<Rightarrow> Inr w)
   | _ \<Rightarrow> Inl (TypeError ''indices must be integers''))"

definition is_some_and :: "json \<Rightarrow> exn + bool \<Rightarrow> exn + bool" where
  "is_some_and a r = (if a = JNull then Inr False else r)"

text \<open>\<open>_OPS[name](a, b)\<close>; \<open>None\<close> when the name is not in the table.\<close>

definition OPS :: "string \<Rightarrow> (json \<Rightarrow> json \<Rightarrow> exn + bool) option" where
  "OPS name =
     (if name = ''eq'' then Some (\<lambda>a b. Inr (py_eq a b))
      else if name = ''ne'' then Some (\<lambda>a b. Inr (\<not> py_eq a b))
      else if name = ''gt'' then Some (\<lambda>a b. is_some_and a (py_cmp Gt a b))
      else if name = ''gte'' then Some (\<lambda>a b. is_some_and a (py_cmp Gte a b))
      else if name = ''lt'' then Some (\<lambda>a b. is_some_and a (py_cmp Lt a b))
      else if name = ''lte'' then Some (\<lambda>a b. is_some_and a (py_cmp Lte a b))
      else if name = ''in'' then Some py_in
      else None)"

definition get_op :: "json \<Rightarrow> exn + (json \<Rightarrow> json \<Rightarrow> exn + bool) option" where
  "get_op v = (case v of
     JStr name \<Rightarrow> Inr (OPS name)
   | JList _ \<Rightarrow> Inl (TypeError ''unhashable type: list'')
   | JObj _ \<Rightarrow> Inl (TypeError ''unhashable type: dict'')
   | _ \<Rightarrow> Inr None)"

definition split_path :: "json \<Rightarrow> exn + string list" where
  "split_path v = (case v of
     JStr p \<Rightarrow> Inr (split_on CHR ''.'' p)
   | _ \<Rightarrow> Inl (AttributeError ''object has no attribute split''))"

definition bind_sum :: "'e + 'a \<Rightarrow> ('a \<Rightarrow> 'e + 'b) \<Rightarrow> 'e + 'b" where
  "bind_sum r f = (case r of Inl e \<Rightarrow> Inl e | Inr x \<Rightarrow> f x)"

definition evaluate_condition :: "json option \<Rightarrow> json \<Rightarrow> exn + bool" where
  "evaluate_condition condition context = (case condition of
     None \<Rightarrow> Inr True
   | Some c \<Rightarrow>
       if c = JNull then Inr True
       else bind_sum (json_index c ''field'') (\<lambda>field.
            bind_sum (split_path field) (\<lambda>field_path.
            let v = foldl json_get context field_path in
            bind_sum (json_index c ''op'') (\<lambda>op_name.
            bind_sum (get_op op_name) (\<lambda>op.
            case op of
              None \<Rightarrow> Inl (ValueError ''unsupported condition operator'')
            | Some f \<Rightarrow> bind_sum (json_index c ''value'') (\<lambda>w. f v w))))))"

section \<open>Transitions and stages\<close>

text \<open>The loop over the candidate transitions: the first whose condition holds; an exception ends it.\<close>

fun first_match :: "json \<Rightarrow> WorkflowTransition list \<Rightarrow> exn + WorkflowTransition option" where
  "first_match context [] = Inr None"
| "first_match context (t # ts) =
     (case evaluate_condition (wt_condition t) context of
        Inl e \<Rightarrow> Inl e
      | Inr b \<Rightarrow> if b then Inr (Some t) else first_match context ts)"

definition candidate_transitions ::
  "uuid \<Rightarrow> stage \<Rightarrow> WorkflowTransitionTrigger \<Rightarrow> WorkflowTransition list \<Rightarrow> WorkflowTransition list" where
  "candidate_transitions definition_id from_stage trigger ts =
     sort_key wt_priority (filter (\<lambda>t. wt_definition_id t = definition_id \<and> wt_from_stage t = from_stage
       \<and> wt_trigger t = trigger) ts)"

definition find_transition ::
  "uuid \<Rightarrow> stage \<Rightarrow> WorkflowTransitionTrigger \<Rightarrow> json \<Rightarrow> WorkflowTransition option M" where
  "find_transition definition_id from_stage trigger context =
     (\<lambda>s. (first_match context (candidate_transitions definition_id from_stage trigger (transitions s)), s))"

definition stage_rows :: "uuid \<Rightarrow> stage \<Rightarrow> db \<Rightarrow> WorkflowStage list" where
  "stage_rows definition_id stage_key s =
     filter (\<lambda>w. wst_definition_id w = definition_id \<and> wst_stage_key w = stage_key) (wstages s)"

definition get_stage_def :: "uuid \<Rightarrow> stage \<Rightarrow> WorkflowStage M" where
  "get_stage_def definition_id stage_key =
     bindM (query_one (stage_rows definition_id stage_key)) (\<lambda>row.
     case row of
       None \<Rightarrow> raise (ValueError (''workflow_stages has no row for stage '' @ stage_key
                 @ '' in definition '' @ str_uuid definition_id))
     | Some w \<Rightarrow> ret w)"

section \<open>A run's identity in the log\<close>

definition run_correlation_id :: "PipelineRun \<Rightarrow> uuid M" where
  "run_correlation_id run = or_uuid4 (pr_correlation_id run)"

definition run_definition_id :: "PipelineRun \<Rightarrow> uuid M" where
  "run_definition_id run = (case pr_definition_id run of
     None \<Rightarrow> raise (ValueError (''pipeline run '' @ str_uuid (pr_id run) @ '' has no definition_id pinned''))
   | Some d \<Rightarrow> ret d)"

text \<open>\<open>trace_id, span_id = child_span(run.trace_id); run.trace_id = trace_id\<close>.\<close>

definition trace_run :: "uuid \<Rightarrow> (string \<times> string) M" where
  "trace_run run_id =
     bindM (the_run run_id) (\<lambda>run.
     bindM (child_span (pr_trace_id run)) (\<lambda>trace.
     andThen (set_run run_id (\<lambda>r. r\<lparr>pr_trace_id := Some (fst trace)\<rparr>))
     (ret trace)))"

text \<open>
  \<open>emit(session, event_type=..., workspace_id=run.workspace_id, aggregate_type="pipeline_run",
  aggregate_id=run.id, correlation_id=_correlation_id(run), ..., produced_by="controller")\<close>.
\<close>

definition emit_run :: "string \<Rightarrow> uuid \<Rightarrow> string \<times> string \<Rightarrow> json \<Rightarrow> unit M" where
  "emit_run event_type run_id trace payload =
     bindM (the_run run_id) (\<lambda>run.
     bindM (run_correlation_id run) (\<lambda>corr.
     bindM (emit event_type (pr_workspace_id run) ''pipeline_run'' run_id corr trace payload ''controller'') (\<lambda>_.
     ret ())))"

definition pin_correlation :: "uuid \<Rightarrow> unit M" where
  "pin_correlation run_id =
     bindM (the_run run_id) (\<lambda>run.
     whenM (pr_correlation_id run = None) (
       bindM uuid4 (\<lambda>u. set_run run_id (\<lambda>r. r\<lparr>pr_correlation_id := Some u\<rparr>))))"

section \<open>Enqueueing a stage, starting a run\<close>

definition new_job ::
  "uuid \<Rightarrow> JobType \<Rightarrow> string \<Rightarrow> uuid \<Rightarrow> datetime \<Rightarrow> int \<Rightarrow> int \<Rightarrow> uuid option \<Rightarrow> string option \<Rightarrow> uuid \<Rightarrow>
   datetime \<Rightarrow> JobSchedule" where
  "new_job workspace_id job_type ref_table ref_id run_after attempt priority correlation_id trace_id i created =
     \<lparr> js_id = i, js_workspace_id = workspace_id, js_job_type = job_type, js_ref_table = ref_table,
       js_ref_id = ref_id, js_run_after = run_after, js_status = JobScheduleStatus.PENDING,
       js_lease_owner = None, js_lease_expires_at = None, js_attempt = attempt, js_priority = priority,
       js_correlation_id = correlation_id, js_trace_id = trace_id, js_created_at = created \<rparr>"

definition workspace_priority :: "uuid \<Rightarrow> int M" where
  "workspace_priority workspace_id =
     bindM (get_row workspaces ws_id workspace_id) (\<lambda>workspace.
     gets (\<lambda>s. base_priority_for_tier (cfg s)
       (case workspace of None \<Rightarrow> 0 | Some w \<Rightarrow> ws_priority_tier w)))"

definition enqueue_stage :: "uuid \<Rightarrow> stage \<Rightarrow> int \<Rightarrow> datetime option \<Rightarrow> uuid M" where
  "enqueue_stage run_id stage_key attempt run_after =
     bindM (the_run run_id) (\<lambda>run.
     bindM (workspace_priority (pr_workspace_id run)) (\<lambda>priority.
     bindM uuid4 (\<lambda>i.
     bindM (now_or_utcnow run_after) (\<lambda>due.
     bindM (run_correlation_id run) (\<lambda>corr.
     bindM utcnow (\<lambda>created.
     andThen (add_job (new_job (pr_workspace_id run) (if attempt = 0 then STAGE else RETRY) stage_key
       run_id due attempt priority (Some corr) (pr_trace_id run) i created))
     (ret i)))))))"

definition start_run :: "uuid \<Rightarrow> WorkflowDefinition \<Rightarrow> unit M" where
  "start_run run_id d =
     andThen (set_run run_id (\<lambda>r. r\<lparr>pr_definition_id := Some (wd_id d)\<rparr>)) (
     andThen (pin_correlation run_id) (
     bindM (query (\<lambda>s. sort_key wst_ordinal (filter (\<lambda>w. wst_definition_id w = wd_id d) (wstages s)))) (\<lambda>stages.
     case stages of
       [] \<Rightarrow> raise (ValueError (''workflow_definitions '' @ str_uuid (wd_id d) @ '' has no stages''))
     | first_stage # _ \<Rightarrow>
         andThen (set_run run_id (\<lambda>r. r\<lparr>pr_current_stage := wst_stage_key first_stage\<rparr>)) (
         bindM utcnow (\<lambda>now.
         andThen (set_run run_id (\<lambda>r. r\<lparr>pr_started_at := Some now\<rparr>)) (
         bindM (enqueue_stage run_id (wst_stage_key first_stage) 0 None) (\<lambda>_.
         ret ())))))))"

section \<open>Footprint\<close>

lemma find_transition_exec [exec]:
  "find_transition d st tr ctx s = (first_match ctx (candidate_transitions d st tr (transitions s)), s)"
  by (simp add: find_transition_def)

lemma ro_workflow [steps_intro]:
  "keeps f (find_transition d st tr ctx)" "keeps f (get_stage_def d st)"
  "keeps f (run_definition_id r)" "keeps f (workspace_priority ws)"
  unfolding get_stage_def_def run_definition_id_def workspace_priority_def
  by (simp add: steps_def eqOn_def exec, (intro steps_intro)+)

lemma w_workflow [steps_intro]:
  "steps writes (find_transition d st tr ctx)" "steps writes (get_stage_def d st)"
  "steps writes (run_definition_id r)" "steps writes (workspace_priority ws)"
  "steps writes (run_correlation_id r)" "steps writes (trace_run i)" "steps writes (pin_correlation i)"
  "steps writes (emit_run ty i trace p)" "steps writes (enqueue_stage i st n t)"
  "steps writes (start_run i wd)"
  unfolding get_stage_def_def run_definition_id_def workspace_priority_def run_correlation_id_def
    trace_run_def pin_correlation_def emit_run_def enqueue_stage_def start_run_def
  by (simp add: steps_def exec, (intro steps_intro; simp add: run_write_def)+)

lemma keeps_trace_run [steps_intro]:
  "(\<And>s n. f (s\<lparr>tick := n\<rparr>) = f s) \<Longrightarrow> (\<And>s t. f (runs_update (row_set pr_id i (pr_trace_id_update (\<lambda>_. t))) s) = f s)
   \<Longrightarrow> keeps f (trace_run i)"
  unfolding trace_run_def by (intro steps_intro) simp_all

lemma keeps_emit_run [steps_intro]:
  "(\<And>s n. f (s\<lparr>tick := n\<rparr>) = f s) \<Longrightarrow> (\<And>s n es. f (s\<lparr>tick := n, events := es\<rparr>) = f s)
   \<Longrightarrow> keeps f (emit_run ty i trace p)"
  unfolding emit_run_def run_correlation_id_def by (intro steps_intro) simp_all

lemma keeps_pin_correlation [steps_intro]:
  "(\<And>s n. f (s\<lparr>tick := n\<rparr>) = f s) \<Longrightarrow>
   (\<And>s c. f (runs_update (row_set pr_id i (pr_correlation_id_update (\<lambda>_. c))) s) = f s)
   \<Longrightarrow> keeps f (pin_correlation i)"
  unfolding pin_correlation_def by (intro steps_intro) simp_all

lemma keeps_enqueue_stage [steps_intro]:
  "(\<And>s n. f (s\<lparr>tick := n\<rparr>) = f s) \<Longrightarrow> (\<And>s g. f (jobs_update g s) = f s) \<Longrightarrow> keeps f (enqueue_stage i st n t)"
  unfolding enqueue_stage_def run_correlation_id_def by (intro steps_intro) simp_all

text \<open>With the run's row present these helpers cannot fail.\<close>

lemma trace_run_Inr:
  assumes "row_get pr_id i (runs s) = Some r"
  shows "\<exists>tr n. trace_run i s = (Inr tr,
    runs_update (row_set pr_id i (\<lambda>r. r\<lparr>pr_trace_id := Some (fst tr)\<rparr>)) (s\<lparr>tick := n\<rparr>))"
proof -
  obtain tr n where "child_span (pr_trace_id r) s = (Inr tr, s\<lparr>tick := n\<rparr>)" using child_span_Inr by blast
  then show ?thesis using assms by (auto simp: trace_run_def exec)
qed

lemma emit_run_Inr:
  assumes "row_get pr_id i (runs s) = Some r"
  shows "\<exists>n e. emit_run ty i tr p s = (Inr (), s\<lparr>tick := n, events := events s @ [e]\<rparr>)
    \<and> ev_event_type e = ty \<and> ev_aggregate_id e = i \<and> ev_payload e = p \<and> ev_workspace_id e = pr_workspace_id r"
proof -
  obtain u n where 1: "or_uuid4 (pr_correlation_id r) s = (Inr u, s\<lparr>tick := n\<rparr>)" using or_uuid4_Inr by blast
  obtain e where "emit ty (pr_workspace_id r) ''pipeline_run'' i u tr p ''controller'' (s\<lparr>tick := n\<rparr>)
      = (Inr (ev_event_id e), s\<lparr>tick := Suc (Suc n), events := events s @ [e]\<rparr>)"
    "ev_event_type e = ty" "ev_aggregate_id e = i" "ev_payload e = p" "ev_workspace_id e = pr_workspace_id r"
    using emit_Inr [of ty "pr_workspace_id r" "''pipeline_run''" i u tr p "''controller''" "s\<lparr>tick := n\<rparr>"]
    by auto
  then show ?thesis using assms 1 by (auto simp: emit_run_def run_correlation_id_def exec simp del: emit_exec)
qed

text \<open>Unfolding the operations of this theory on concrete rows.\<close>

lemmas workflow_ops = get_stage_def_def stage_rows_def run_correlation_id_def run_definition_id_def
  trace_run_def emit_run_def pin_correlation_def workspace_priority_def enqueue_stage_def new_job_def
  child_span_def start_run_def candidate_transitions_def base_priority_for_tier_def

section \<open>Properties\<close>

lemma first_match_Some:
  assumes "first_match ctx ts = Inr (Some t)"
  shows "\<exists>us vs. ts = us @ t # vs \<and> evaluate_condition (wt_condition t) ctx = Inr True
    \<and> (\<forall>u \<in> set us. evaluate_condition (wt_condition u) ctx = Inr False)"
  using assms
proof (induction ts)
  case Nil
  then show ?case by simp
next
  case (Cons a ts)
  show ?case
  proof (cases "evaluate_condition (wt_condition a) ctx")
    case (Inl e)
    with Cons.prems show ?thesis by simp
  next
    case (Inr b)
    show ?thesis
    proof (cases b)
      case True
      with Inr Cons.prems show ?thesis by (intro exI [of _ "[]"] exI [of _ ts]) simp
    next
      case False
      with Inr Cons.prems Cons.IH obtain us vs where "ts = us @ t # vs"
        "evaluate_condition (wt_condition t) ctx = Inr True"
        "\<forall>u \<in> set us. evaluate_condition (wt_condition u) ctx = Inr False" by auto
      with Inr False show ?thesis by (intro exI [of _ "a # us"] exI [of _ vs]) simp
    qed
  qed
qed

lemma first_match_None:
  "first_match ctx ts = Inr None \<longleftrightarrow> (\<forall>t \<in> set ts. evaluate_condition (wt_condition t) ctx = Inr False)"
  by (induction ts) (auto split: sum.splits if_splits)

text \<open>
  Routing is deterministic: the transition taken leaves the given stage on the given trigger, its
  condition holds, and every candidate of a smaller priority number was tried and refused. No transition is
  returned only when every candidate's condition is false.
\<close>

theorem find_transition_lowest_priority:
  assumes "find_transition d st tr ctx s = (Inr ot, s')"
  defines "cands \<equiv> filter (\<lambda>t. wt_definition_id t = d \<and> wt_from_stage t = st \<and> wt_trigger t = tr) (transitions s)"
  shows "s' = s \<and> (case ot of
      Some t \<Rightarrow> t \<in> set cands \<and> evaluate_condition (wt_condition t) ctx = Inr True
        \<and> (\<forall>u \<in> set cands. wt_priority u < wt_priority t \<longrightarrow> evaluate_condition (wt_condition u) ctx = Inr False)
    | None \<Rightarrow> (\<forall>u \<in> set cands. evaluate_condition (wt_condition u) ctx = Inr False))"
proof -
  let ?ts = "sort_key wt_priority cands"
  have m: "first_match ctx ?ts = Inr ot" and s': "s' = s"
    using assms by (auto simp: find_transition_def candidate_transitions_def)
  show ?thesis
  proof (cases ot)
    case None
    with m s' show ?thesis by (simp add: first_match_None)
  next
    case (Some t)
    with m obtain us vs where ts: "?ts = us @ t # vs"
      and t: "evaluate_condition (wt_condition t) ctx = Inr True"
      and us: "\<forall>u \<in> set us. evaluate_condition (wt_condition u) ctx = Inr False"
      using first_match_Some by blast
    have "sorted (map wt_priority (us @ t # vs))" using sorted_sort_key [of wt_priority cands] ts by simp
    then have "u \<in> set us" if "u \<in> set cands" "wt_priority u < wt_priority t" for u
      using that ts [THEN arg_cong [of _ _ set]] by (auto simp: sorted_append not_less [symmetric])
    moreover have "t \<in> set cands" using ts [THEN arg_cong [of _ _ set]] by auto
    ultimately show ?thesis using Some s' t us by auto
  qed
qed

definition two_edges :: "WorkflowTransition list" where
  "two_edges =
     [\<lparr> wt_id = 1, wt_definition_id = 5, wt_from_stage = ''idea'', wt_to_stage = ''seo'',
        wt_trigger = ON_SUCCESS, wt_condition = None, wt_priority = 2 \<rparr>,
      \<lparr> wt_id = 2, wt_definition_id = 5, wt_from_stage = ''idea'', wt_to_stage = ''scripting'',
        wt_trigger = ON_SUCCESS, wt_condition = Some (JObj [(''field'', JStr ''a.b''), (''op'', JStr ''gt''),
          (''value'', JNum 60)]), wt_priority = 1 \<rparr>]"

lemma find_transition_lowest_priority_witness:
  "\<exists>t s'. find_transition 5 ''idea'' ON_SUCCESS (JObj [(''a'', JObj [(''b'', JNum 61)])])
       (effects_db\<lparr>transitions := two_edges\<rparr>) = (Inr (Some t), s')
     \<and> wt_to_stage t = ''scripting'' \<and> t \<in> set two_edges"
proof -
  have "fst (find_transition 5 ''idea'' ON_SUCCESS (JObj [(''a'', JObj [(''b'', JNum 61)])])
       (effects_db\<lparr>transitions := two_edges\<rparr>)) = Inr (Some (two_edges ! 1))"
    by code_simp
  then obtain s' where 1: "find_transition 5 ''idea'' ON_SUCCESS (JObj [(''a'', JObj [(''b'', JNum 61)])])
       (effects_db\<lparr>transitions := two_edges\<rparr>) = (Inr (Some (two_edges ! 1)), s')"
    by (metis prod.collapse)
  from find_transition_lowest_priority [OF 1] have "two_edges ! 1 \<in> set two_edges" by auto
  with 1 show ?thesis by (auto simp: two_edges_def)
qed

end
