(* ===== verification/Spend.thy ===== *)
theory Spend imports Workflow begin

text \<open>
  Spend protection, the last part of \<open>orchestration/controller.py\<close>: reserving an estimated cost under
  the workspace's daily and monthly caps, committing or releasing the reservation. The cap row's
  \<open>FOR UPDATE\<close> lock is the atomicity of a step. In event payloads a \<open>Decimal\<close>'s text is represented by
  its number.
\<close>

section \<open>Windows and sums\<close>

definition utc_day_start :: "datetime \<Rightarrow> datetime" where
  "utc_day_start now = of_int (day_number now * day_seconds)"

definition utc_month_start :: "datetime \<Rightarrow> datetime" where
  "utc_month_start now = of_int ((day_number now - (day_of_month (day_number now) - 1)) * day_seconds)"

definition counted_logs :: "uuid \<Rightarrow> string option \<Rightarrow> datetime option \<Rightarrow> SpendLog list \<Rightarrow> SpendLog list" where
  "counted_logs workspace_id provider since =
     filter (\<lambda>l. sl_workspace_id l = workspace_id
       \<and> (case since of None \<Rightarrow> True | Some t \<Rightarrow> sl_occurred_at l \<ge> t)
       \<and> (case provider of None \<Rightarrow> True | Some p \<Rightarrow> sl_provider l = p))"

definition counted_reservations :: "uuid \<Rightarrow> string option \<Rightarrow> SpendReservation list \<Rightarrow> SpendReservation list" where
  "counted_reservations workspace_id provider =
     filter (\<lambda>r. sr_workspace_id r = workspace_id \<and> sr_status r = RESERVED
       \<and> (case provider of None \<Rightarrow> True | Some p \<Rightarrow> sr_provider r = p))"

definition spend_committed_plus_reserved :: "uuid \<Rightarrow> string option \<Rightarrow> datetime option \<Rightarrow> db \<Rightarrow> usd" where
  "spend_committed_plus_reserved workspace_id provider since s =
     sum_list (map sl_cost_usd (counted_logs workspace_id provider since (spend_logs s)))
     + sum_list (map sr_estimated_cost_usd (counted_reservations workspace_id provider (reservations s)))"

definition load_spend_cap_for_update :: "uuid \<Rightarrow> string \<Rightarrow> SpendCap option M" where
  "load_spend_cap_for_update workspace_id provider =
     bindM (query_one (\<lambda>s. filter (\<lambda>c. cap_workspace_id c = workspace_id \<and> cap_provider c = Some provider) (caps s)))
       (\<lambda>cap. case cap of
         Some c \<Rightarrow> ret (Some c)
       | None \<Rightarrow> query_one (\<lambda>s. filter (\<lambda>c. cap_workspace_id c = workspace_id \<and> cap_provider c = None) (caps s)))"

section \<open>Releasing and committing\<close>

definition release_spend :: "uuid \<Rightarrow> uuid \<Rightarrow> unit M" where
  "release_spend run_id reservation_id =
     bindM (the_reservation reservation_id) (\<lambda>reservation.
     if sr_status reservation \<noteq> RESERVED then ret ()
     else andThen (set_reservation reservation_id (sr_status_update (\<lambda>_. RELEASED))) (
          bindM (trace_run run_id) (\<lambda>trace.
          emit_run SPEND_RELEASED run_id trace (JObj [(''reservation_id'', JStr (str_uuid reservation_id))]))))"

definition open_reservations :: "uuid \<Rightarrow> db \<Rightarrow> SpendReservation list" where
  "open_reservations run_id s =
     filter (\<lambda>r. sr_pipeline_run_id r = Some run_id \<and> sr_status r = RESERVED) (reservations s)"

definition open_stage_reservations :: "uuid \<Rightarrow> stage \<Rightarrow> db \<Rightarrow> SpendReservation list" where
  "open_stage_reservations run_id st s =
     filter (\<lambda>r. sr_pipeline_run_id r = Some run_id \<and> sr_stage r = Some st \<and> sr_status r = RESERVED) (reservations s)"

definition release_all_reservations :: "uuid \<Rightarrow> unit M" where
  "release_all_reservations run_id =
     bindM (query (open_reservations run_id)) (\<lambda>rs.
     forM rs (\<lambda>r. release_spend run_id (sr_id r)))"

definition commit_spend :: "uuid \<Rightarrow> uuid \<Rightarrow> usd \<Rightarrow> unit M" where
  "commit_spend run_id reservation_id actual_cost_usd =
     bindM (the_reservation reservation_id) (\<lambda>reservation.
     if sr_status reservation = ReservationStatus.COMMITTED then ret ()
     else if sr_status reservation \<noteq> RESERVED
     then raise (ValueError (''cannot commit reservation in status '' @ reservation_status_value (sr_status reservation)
                 @ ''; expected reserved''))
     else let reserved = sr_estimated_cost_usd reservation in
       if actual_cost_usd < 0 then raise (ValueError ''actual_cost_usd must be >= 0'')
       else let actual = (if actual_cost_usd > reserved then reserved else actual_cost_usd) in
         andThen (set_reservation reservation_id (sr_status_update (\<lambda>_. ReservationStatus.COMMITTED))) (
         bindM (the_run run_id) (\<lambda>run.
         bindM uuid4 (\<lambda>i.
         bindM utcnow (\<lambda>now.
         andThen (add_spend_log \<lparr> sl_id = i, sl_workspace_id = pr_workspace_id run,
           sl_provider = sr_provider reservation, sl_stage = sr_stage reservation,
           sl_cost_usd = actual, sl_occurred_at = now \<rparr>) (
         bindM (trace_run run_id) (\<lambda>trace.
         emit_run SPEND_COMMITTED run_id trace (JObj [(''reservation_id'', JStr (str_uuid reservation_id)),
           (''actual_usd'', JNum actual), (''reserved_usd'', JNum reserved)]))))))))"

section \<open>Reserving\<close>

text \<open>\<open>reserve_spend\<close> in its four parts: release the priors, check the caps, hold the run, grant.\<close>

definition release_priors :: "uuid \<Rightarrow> stage \<Rightarrow> unit M" where
  "release_priors run_id st =
     bindM (query (open_stage_reservations run_id st)) (\<lambda>prior.
     forM prior (\<lambda>old. release_spend run_id (sr_id old)))"

text \<open>The reason the caps refuse, with the payload of the event; \<open>None\<close> lets the reservation through.\<close>

definition check_caps :: "uuid \<Rightarrow> stage \<Rightarrow> string \<Rightarrow> usd \<Rightarrow> (string \<times> (string \<times> json) list) option M" where
  "check_caps workspace_id st provider estimated_cost_usd =
     bindM (load_spend_cap_for_update workspace_id provider) (\<lambda>cap.
     let payload = [(''provider'', JStr provider), (''stage'', JStr st)] in
     case cap of
       None \<Rightarrow> ret (Some (''missing_cap'', payload @ [(''attempted_usd'', JNum estimated_cost_usd)]))
     | Some c \<Rightarrow>
         let usage_provider = (if cap_provider c = None then None else Some provider) in
         bindM utcnow (\<lambda>now1.
         bindM (gets (spend_committed_plus_reserved workspace_id usage_provider (Some (utc_day_start now1)))) (\<lambda>daily.
         bindM utcnow (\<lambda>now2.
         bindM (gets (spend_committed_plus_reserved workspace_id usage_provider (Some (utc_month_start now2)))) (\<lambda>monthly.
         let daily_cap = cap_daily_cap_usd c; monthly_cap = cap_monthly_cap_usd c;
             exceeded = (if daily + estimated_cost_usd > daily_cap then Some ''daily''
                         else if monthly + estimated_cost_usd > monthly_cap then Some ''monthly''
                         else None) in
         ret (case exceeded of
                None \<Rightarrow> None
              | Some kind \<Rightarrow> Some (kind, payload @
                  [(''attempted_usd'', JNum estimated_cost_usd), (''daily_used_usd'', JNum daily),
                   (''monthly_used_usd'', JNum monthly), (''daily_cap_usd'', JNum daily_cap),
                   (''monthly_cap_usd'', JNum monthly_cap)])))))))"

definition spend_hold :: "uuid \<Rightarrow> string \<Rightarrow> (string \<times> json) list \<Rightarrow> unit M" where
  "spend_hold run_id kind payload =
     andThen (set_run run_id (\<lambda>r. r\<lparr> pr_status := PAUSED,
                                    pr_pause_reason := Some (pause_reason_value PauseReason.SPEND_HOLD) \<rparr>)) (
     andThen (pin_correlation run_id) (
     bindM (trace_run run_id) (\<lambda>trace.
     emit_run SPEND_BUDGET_EXCEEDED run_id trace (JObj (payload @ [(''cap_kind'', JStr kind)])))))"

definition spend_grant :: "uuid \<Rightarrow> stage \<Rightarrow> string \<Rightarrow> usd \<Rightarrow> uuid M" where
  "spend_grant run_id st provider estimated_cost_usd =
     bindM (the_run run_id) (\<lambda>run.
     bindM uuid4 (\<lambda>i.
     andThen (add_reservation \<lparr> sr_id = i, sr_workspace_id = pr_workspace_id run,
       sr_pipeline_run_id = Some run_id, sr_provider = provider, sr_stage = Some st,
       sr_estimated_cost_usd = estimated_cost_usd, sr_status = RESERVED \<rparr>) (
     andThen (pin_correlation run_id) (
     bindM (trace_run run_id) (\<lambda>trace.
     andThen (emit_run SPEND_RESERVED run_id trace (JObj [(''reservation_id'', JStr (str_uuid i)),
       (''estimated_usd'', JNum estimated_cost_usd)]))
     (ret i))))))"

definition reserve_spend :: "uuid \<Rightarrow> stage \<Rightarrow> string \<Rightarrow> usd \<Rightarrow> uuid option M" where
  "reserve_spend run_id st provider estimated_cost_usd =
     andThen (release_priors run_id st) (
     bindM (the_run run_id) (\<lambda>run.
     bindM (check_caps (pr_workspace_id run) st provider estimated_cost_usd) (\<lambda>exceeded.
     case exceeded of
       Some (kind, payload) \<Rightarrow> andThen (spend_hold run_id kind payload) (ret None)
     | None \<Rightarrow> bindM (spend_grant run_id st provider estimated_cost_usd) (\<lambda>i. ret (Some i)))))"

section \<open>Footprint\<close>

lemma w_close [steps_intro]:
  "steps writes (release_spend i q)" "steps writes (commit_spend i q c)"
proof -
  have R: "writes s (snd (andThen (set_reservation q (sr_status_update (\<lambda>_. st))) m s))"
    if "row_get sr_id q (reservations s) = Some r" "sr_status r = RESERVED" "steps writes m"
    for s r st and m :: "unit M"
  proof -
    let ?s1 = "reservations_update (row_set sr_id q (sr_status_update (\<lambda>_. st))) s"
    have "db_write s ?s1" using that(1,2) by (rule db_write.close_reservation)
    moreover have "writes ?s1 (snd (m ?s1))" using that(3) by (simp add: steps_def)
    ultimately show ?thesis by (simp add: exec)
  qed
  show "steps writes (release_spend i q)"
    unfolding release_spend_def the_reservation_def
    by (rule steps_with_row) (auto simp: ret_exec intro!: R steps_intro)
  show "steps writes (commit_spend i q c)"
    unfolding commit_spend_def the_reservation_def Let_def
    by (rule steps_with_row) (auto simp: ret_exec raise_exec intro!: R steps_intro)
qed

lemma w_spend [steps_intro]:
  "steps writes (release_all_reservations i)" "steps writes (release_priors i st)"
  "steps writes (load_spend_cap_for_update ws p)" "steps writes (check_caps ws st p c)"
  "steps writes (spend_hold i k pl)" "steps writes (spend_grant i st p c)" "steps writes (reserve_spend i st p c)"
  unfolding release_all_reservations_def release_priors_def load_spend_cap_for_update_def check_caps_def
    spend_hold_def spend_grant_def reserve_spend_def
  by (intro steps_intro; simp add: run_write_def)+

lemma keeps_release_spend [steps_intro]:
  assumes "\<And>s n. f (s\<lparr>tick := n\<rparr>) = f s" "\<And>s n es. f (s\<lparr>tick := n, events := es\<rparr>) = f s"
    and "\<And>s t. f (runs_update (row_set pr_id i (pr_trace_id_update (\<lambda>_. t))) s) = f s"
    and "\<And>s g. f (reservations_update g s) = f s"
  shows "keeps f (release_spend i q)" "keeps f (release_all_reservations i)" "keeps f (release_priors i st)"
  unfolding release_spend_def release_all_reservations_def release_priors_def
  by (intro steps_intro; simp add: assms)+

lemma ro_check [steps_intro]: "keeps f (load_spend_cap_for_update ws p)"
  unfolding load_spend_cap_for_update_def by (intro steps_intro)

lemma keeps_check_caps [steps_intro]: "(\<And>s n. f (s\<lparr>tick := n\<rparr>) = f s) \<Longrightarrow> keeps f (check_caps ws st p c)"
  unfolding check_caps_def by (intro steps_intro) simp_all

lemma keeps_spend_grant [steps_intro]:
  assumes "\<And>s n. f (s\<lparr>tick := n\<rparr>) = f s" "\<And>s n es. f (s\<lparr>tick := n, events := es\<rparr>) = f s"
    and "\<And>s t. f (runs_update (row_set pr_id i (pr_trace_id_update (\<lambda>_. t))) s) = f s"
    and "\<And>s c. f (runs_update (row_set pr_id i (pr_correlation_id_update (\<lambda>_. c))) s) = f s"
    and "\<And>s g. f (reservations_update g s) = f s"
  shows "keeps f (spend_grant i st p c)"
  unfolding spend_grant_def by (intro steps_intro; simp add: assms)

lemma keeps_spend_hold [steps_intro]:
  assumes "\<And>s n. f (s\<lparr>tick := n\<rparr>) = f s" "\<And>s n es. f (s\<lparr>tick := n, events := es\<rparr>) = f s"
    and "\<And>s g. f (runs_update (row_set pr_id i g) s) = f s"
  shows "keeps f (spend_hold i k pl)"
  unfolding spend_hold_def by (intro steps_intro; simp add: assms)

lemma keeps_reserve_spend [steps_intro]:
  assumes "\<And>s n. f (s\<lparr>tick := n\<rparr>) = f s" "\<And>s n es. f (s\<lparr>tick := n, events := es\<rparr>) = f s"
    and "\<And>s g. f (runs_update (row_set pr_id i g) s) = f s"
    and "\<And>s g. f (reservations_update g s) = f s"
  shows "keeps f (reserve_spend i st p c)"
  unfolding reserve_spend_def by (intro steps_intro; simp add: assms)

lemma keeps_commit_spend [steps_intro]:
  assumes "\<And>s n. f (s\<lparr>tick := n\<rparr>) = f s" "\<And>s n es. f (s\<lparr>tick := n, events := es\<rparr>) = f s"
    and "\<And>s t. f (runs_update (row_set pr_id i (pr_trace_id_update (\<lambda>_. t))) s) = f s"
    and "\<And>s g. f (reservations_update g s) = f s" "\<And>s g. f (spend_logs_update g s) = f s"
  shows "keeps f (commit_spend i q c)"
  unfolding commit_spend_def by (intro steps_intro; simp add: assms)

section \<open>What releasing does\<close>

lemma keeps_run_ids: "map pr_id (runs (runs_update (row_set pr_id i f) s)) = map pr_id (runs s)"
  if "\<And>r. pr_id (f r) = pr_id r"
  using that by simp

lemma release_spend_run_ids: "keeps (\<lambda>s. map pr_id (runs s)) (release_spend i q)"
  by (rule keeps_release_spend) simp_all

lemma release_spend_reservations:
  "reservations (snd (release_spend i q s)) = (case row_get sr_id q (reservations s) of
      None \<Rightarrow> reservations s
    | Some r \<Rightarrow> if sr_status r = RESERVED then row_set sr_id q (sr_status_update (\<lambda>_. RELEASED)) (reservations s)
               else reservations s)"
proof (cases "row_get sr_id q (reservations s)")
  case None
  then show ?thesis by (simp add: release_spend_def exec)
next
  case (Some r)
  let ?tail = "bindM (trace_run i) (\<lambda>trace. emit_run SPEND_RELEASED i trace
    (JObj [(''reservation_id'', JStr (str_uuid q))]))"
  have "keeps reservations ?tail" by (intro steps_intro) simp_all
  then have "reservations (snd (?tail s1)) = reservations s1" for s1 by (rule keepsD)
  with Some show ?thesis by (simp add: release_spend_def load_defs store_defs the_row_exec bindM_exec
        andThen_exec modifyM_exec ret_exec)
qed

lemma release_spend_Inr:
  assumes "has_row pr_id i (runs s)" "has_row sr_id q (reservations s)"
  shows "\<exists>s'. release_spend i q s = (Inr (), s')"
proof -
  obtain rn where rn: "row_get pr_id i (runs s) = Some rn" using assms(1) by (auto simp: has_row_get)
  obtain r where r: "row_get sr_id q (reservations s) = Some r" using assms(2) by (auto simp: has_row_get)
  let ?s1 = "reservations_update (row_set sr_id q (sr_status_update (\<lambda>_. RELEASED))) s"
  have "row_get pr_id i (runs ?s1) = Some rn" using rn by simp
  then obtain tr n where t: "trace_run i ?s1 = (Inr tr,
      runs_update (row_set pr_id i (\<lambda>r. r\<lparr>pr_trace_id := Some (fst tr)\<rparr>)) (?s1\<lparr>tick := n\<rparr>))"
    using trace_run_Inr by blast
  let ?s2 = "runs_update (row_set pr_id i (\<lambda>r. r\<lparr>pr_trace_id := Some (fst tr)\<rparr>)) (?s1\<lparr>tick := n\<rparr>)"
  have "row_get pr_id i (runs ?s2) = Some (rn\<lparr>pr_trace_id := Some (fst tr)\<rparr>)" using rn by simp
  then obtain n' e where "emit_run SPEND_RELEASED i tr (JObj [(''reservation_id'', JStr (str_uuid q))]) ?s2
      = (Inr (), ?s2\<lparr>tick := n', events := events ?s2 @ [e]\<rparr>)"
    using emit_run_Inr by blast
  with r t show ?thesis
    by (simp add: release_spend_def load_defs store_defs the_row_exec bindM_exec andThen_exec modifyM_exec ret_exec)
qed

definition closing :: "uuid set \<Rightarrow> SpendReservation \<Rightarrow> SpendReservation" where
  "closing ids r = (if sr_id r \<in> ids \<and> sr_status r = RESERVED then r\<lparr>sr_status := RELEASED\<rparr> else r)"

lemma closing_id [simp]: "sr_id (closing ids r) = sr_id r"
  by (simp add: closing_def)

lemma closing_closing: "closing A (closing B r) = closing (A \<union> B) r"
  by (auto simp: closing_def)

lemma release_spend_closing:
  assumes "distinct (map sr_id (reservations s))"
  shows "reservations (snd (release_spend i q s)) = map (closing {q}) (reservations s)"
proof (cases "row_get sr_id q (reservations s)")
  case None
  then have "closing {q} r = r" if "r \<in> set (reservations s)" for r
    using that by (auto simp: row_get_None_iff closing_def)
  with None show ?thesis by (simp add: release_spend_reservations map_idI)
next
  case (Some r)
  have one: "x = r" if "x \<in> set (reservations s)" "sr_id x = q" for x
    using row_get_distinct [OF assms that(1)] that(2) Some by simp
  show ?thesis
  proof (cases "sr_status r = RESERVED")
    case True
    have "(if sr_id x = q then x\<lparr>sr_status := RELEASED\<rparr> else x) = closing {q} x"
      if "x \<in> set (reservations s)" for x
      using one [OF that] True by (auto simp: closing_def)
    with Some True show ?thesis by (simp add: release_spend_reservations row_set_def)
  next
    case False
    have "closing {q} x = x" if "x \<in> set (reservations s)" for x
      using one [OF that] False by (auto simp: closing_def)
    with Some False show ?thesis by (simp add: release_spend_reservations map_idI)
  qed
qed

lemma release_loop:
  assumes "has_row pr_id i (runs s)" "distinct (map sr_id (reservations s))"
    and "\<And>r. r \<in> set rs \<Longrightarrow> has_row sr_id (sr_id r) (reservations s)"
  shows "\<exists>s'. forM rs (\<lambda>r. release_spend i (sr_id r)) s = (Inr (), s')
    \<and> reservations s' = map (closing (sr_id ` set rs)) (reservations s)
    \<and> map pr_id (runs s') = map pr_id (runs s)"
  using assms
proof (induction rs arbitrary: s)
  case Nil
  show ?case by (simp add: ret_exec closing_def)
next
  case (Cons r rs)
  have q: "has_row sr_id (sr_id r) (reservations s)" using Cons.prems(3) by simp
  obtain s1 where s1: "release_spend i (sr_id r) s = (Inr (), s1)"
    using release_spend_Inr [OF Cons.prems(1) q] by blast
  have res: "reservations s1 = map (closing {sr_id r}) (reservations s)"
    using release_spend_closing [OF Cons.prems(2), of i "sr_id r"] s1 by simp
  have ids: "map pr_id (runs s1) = map pr_id (runs s)" using keepsD' [OF release_spend_run_ids s1] .
  have keys: "map sr_id (reservations s1) = map sr_id (reservations s)" by (simp add: res comp_def)
  obtain s2 where s2: "forM rs (\<lambda>r. release_spend i (sr_id r)) s1 = (Inr (), s2)"
    "reservations s2 = map (closing (sr_id ` set rs)) (reservations s1)"
    "map pr_id (runs s2) = map pr_id (runs s1)"
    using Cons.IH [of s1] Cons.prems keys ids unfolding has_row_def by (metis list.set_intros(2))
  show ?case
    by (rule exI [of _ s2]) (simp add: andThen_exec s1 s2 res ids comp_def closing_closing)
qed

lemma open_reservations_rows:
  assumes "r \<in> set (open_reservations i s) \<union> set (open_stage_reservations i st s)"
  shows "has_row sr_id (sr_id r) (reservations s)"
  using assms by (auto simp: open_reservations_def open_stage_reservations_def has_row_def)

lemma closing_open:
  assumes "distinct (map sr_id (reservations s))" "r \<in> set (reservations s)"
  shows "closing (sr_id ` set (open_reservations i s)) r
      = (if sr_pipeline_run_id r = Some i \<and> sr_status r = RESERVED then r\<lparr>sr_status := RELEASED\<rparr> else r)"
    and "closing (sr_id ` set (open_stage_reservations i st s)) r
      = (if sr_pipeline_run_id r = Some i \<and> sr_stage r = Some st \<and> sr_status r = RESERVED
         then r\<lparr>sr_status := RELEASED\<rparr> else r)"
proof -
  have same: "q = r" if "q \<in> set (reservations s)" "sr_id q = sr_id r" for q
    using assms that by (metis distinct_map inj_onD)
  have mem: "sr_id r \<in> sr_id ` A \<longleftrightarrow> r \<in> A" if "A \<subseteq> set (reservations s)" for A
  proof
    assume "sr_id r \<in> sr_id ` A"
    then obtain q where "q \<in> A" "sr_id q = sr_id r" by (metis imageE)
    with same that show "r \<in> A" by blast
  qed simp
  have sub: "set (open_reservations i s) \<subseteq> set (reservations s)"
    "set (open_stage_reservations i st s) \<subseteq> set (reservations s)"
    by (auto simp: open_reservations_def open_stage_reservations_def)
  show "closing (sr_id ` set (open_reservations i s)) r
      = (if sr_pipeline_run_id r = Some i \<and> sr_status r = RESERVED then r\<lparr>sr_status := RELEASED\<rparr> else r)"
    using assms(2) by (simp add: closing_def mem [OF sub(1)]) (auto simp: open_reservations_def)
  show "closing (sr_id ` set (open_stage_reservations i st s)) r
      = (if sr_pipeline_run_id r = Some i \<and> sr_stage r = Some st \<and> sr_status r = RESERVED
         then r\<lparr>sr_status := RELEASED\<rparr> else r)"
    using assms(2) by (simp add: closing_def mem [OF sub(2)]) (auto simp: open_stage_reservations_def)
qed

lemma release_all_result:
  assumes "has_row pr_id i (runs s)" "distinct (map sr_id (reservations s))"
  shows "\<exists>s'. release_all_reservations i s = (Inr (), s')
    \<and> reservations s' = map (\<lambda>r. if sr_pipeline_run_id r = Some i \<and> sr_status r = RESERVED
                                 then r\<lparr>sr_status := RELEASED\<rparr> else r) (reservations s)
    \<and> map pr_id (runs s') = map pr_id (runs s)"
proof -
  have rows: "has_row sr_id (sr_id r) (reservations s)" if "r \<in> set (open_reservations i s)" for r
    using that open_reservations_rows by blast
  obtain s' where 1: "forM (open_reservations i s) (\<lambda>r. release_spend i (sr_id r)) s = (Inr (), s')"
    and 2: "reservations s' = map (closing (sr_id ` set (open_reservations i s))) (reservations s)"
    and 3: "map pr_id (runs s') = map pr_id (runs s)"
    using release_loop [OF assms rows] by blast
  show ?thesis
    using 1 2 3 closing_open(1) [OF assms(2)]
    by (intro exI [of _ s']) (simp add: release_all_reservations_def bindM_exec gets_exec)
qed

lemma release_priors_result:
  assumes "has_row pr_id i (runs s)" "distinct (map sr_id (reservations s))"
  shows "\<exists>s'. release_priors i st s = (Inr (), s')
    \<and> reservations s' = map (\<lambda>r. if sr_pipeline_run_id r = Some i \<and> sr_stage r = Some st \<and> sr_status r = RESERVED
                                 then r\<lparr>sr_status := RELEASED\<rparr> else r) (reservations s)
    \<and> map pr_id (runs s') = map pr_id (runs s)"
proof -
  have rows: "has_row sr_id (sr_id r) (reservations s)" if "r \<in> set (open_stage_reservations i st s)" for r
    using that open_reservations_rows by blast
  obtain s' where 1: "forM (open_stage_reservations i st s) (\<lambda>r. release_spend i (sr_id r)) s = (Inr (), s')"
    and 2: "reservations s' = map (closing (sr_id ` set (open_stage_reservations i st s))) (reservations s)"
    and 3: "map pr_id (runs s') = map pr_id (runs s)"
    using release_loop [OF assms rows] by blast
  show ?thesis
    using 1 2 3 closing_open(2) [OF assms(2)]
    by (intro exI [of _ s']) (simp add: release_priors_def bindM_exec gets_exec)
qed

text \<open>
  Releasing a run's reservations always succeeds, leaves that run no open reservation, changes no other
  run's reservation and no committed or released one, and is idempotent on the reservations.
\<close>

theorem release_all_scoped:
  assumes "has_row pr_id i (runs s)" "distinct (map sr_id (reservations s))"
  shows "\<exists>s'. release_all_reservations i s = (Inr (), s') \<and> open_reservations i s' = []
    \<and> (\<forall>r \<in> set (reservations s). sr_pipeline_run_id r \<noteq> Some i \<or> sr_status r \<noteq> RESERVED
         \<longrightarrow> row_get sr_id (sr_id r) (reservations s') = Some r)
    \<and> (\<exists>s''. release_all_reservations i s' = (Inr (), s'') \<and> reservations s'' = reservations s')"
proof -
  let ?f = "\<lambda>r. if sr_pipeline_run_id r = Some i \<and> sr_status r = RESERVED then r\<lparr>sr_status := RELEASED\<rparr> else r"
  obtain s' where s': "release_all_reservations i s = (Inr (), s')"
    and res: "reservations s' = map ?f (reservations s)" and ids: "map pr_id (runs s') = map pr_id (runs s)"
    using release_all_result [OF assms] by blast
  have keys: "map sr_id (reservations s') = map sr_id (reservations s)" by (simp add: res comp_def)
  have d': "distinct (map sr_id (reservations s'))" using assms(2) keys by metis
  have none: "open_reservations i s' = []" by (auto simp: open_reservations_def res filter_empty_conv)
  have kept: "row_get sr_id (sr_id r) (reservations s') = Some r"
    if "r \<in> set (reservations s)" "sr_pipeline_run_id r \<noteq> Some i \<or> sr_status r \<noteq> RESERVED" for r
  proof -
    have "r = ?f r" using that(2) by auto
    with that(1) have "r \<in> set (reservations s')" unfolding res by force
    then show ?thesis by (rule row_get_distinct [OF d'])
  qed
  have "\<exists>s''. release_all_reservations i s' = (Inr (), s'') \<and> reservations s'' = reservations s'"
    by (simp add: release_all_reservations_def bindM_exec gets_exec none ret_exec)
  with s' none kept show ?thesis by blast
qed

text \<open>Reading one field of a row by key, as a finite map of the table.\<close>

lemma row_get_map_of: "map_option g (row_get key i rows) = map_of (map (\<lambda>r. (key r, g r)) rows) i"
  by (induction rows) auto

section \<open>What reserving does\<close>

lemma pin_correlation_Inr:
  assumes "row_get pr_id i (runs s) = Some r"
  shows "\<exists>s'. pin_correlation i s = (Inr (), s') \<and> row_get pr_id i (runs s') \<noteq> None"
  using assms by (auto simp: pin_correlation_def exec)

lemma trace_and_emit_Inr:
  assumes "row_get pr_id i (runs s) \<noteq> None"
  shows "\<exists>s'. bindM (trace_run i) (\<lambda>trace. emit_run ty i trace p) s = (Inr (), s')"
proof -
  obtain r where r: "row_get pr_id i (runs s) = Some r" using assms by blast
  obtain tr n where t: "trace_run i s = (Inr tr,
      runs_update (row_set pr_id i (\<lambda>r. r\<lparr>pr_trace_id := Some (fst tr)\<rparr>)) (s\<lparr>tick := n\<rparr>))"
    using trace_run_Inr [OF r] by blast
  let ?s1 = "runs_update (row_set pr_id i (\<lambda>r. r\<lparr>pr_trace_id := Some (fst tr)\<rparr>)) (s\<lparr>tick := n\<rparr>)"
  have "row_get pr_id i (runs ?s1) = Some (r\<lparr>pr_trace_id := Some (fst tr)\<rparr>)" using r by simp
  then obtain s2 where "emit_run ty i tr p ?s1 = (Inr (), s2)" using emit_run_Inr by blast
  with t show ?thesis by (auto simp: bindM_exec)
qed

lemma spend_grant_result:
  assumes "row_get pr_id i (runs s) = Some run" and "spend_grant i st p c s = (Inr k, s')"
  shows "reservations s' = reservations s @ [\<lparr> sr_id = k, sr_workspace_id = pr_workspace_id run,
       sr_pipeline_run_id = Some i, sr_provider = p, sr_stage = Some st, sr_estimated_cost_usd = c,
       sr_status = RESERVED \<rparr>] \<and> k = uuids s (tick s) \<and> spend_logs s' = spend_logs s"
proof -
  let ?r = "\<lparr> sr_id = uuids s (tick s), sr_workspace_id = pr_workspace_id run,
       sr_pipeline_run_id = Some i, sr_provider = p, sr_stage = Some st, sr_estimated_cost_usd = c,
       sr_status = RESERVED \<rparr>"
  let ?s1 = "reservations_update (\<lambda>rs. rs @ [?r]) (s\<lparr>tick := Suc (tick s)\<rparr>)"
  let ?tail = "andThen (pin_correlation i) (bindM (trace_run i) (\<lambda>trace.
       andThen (emit_run SPEND_RESERVED i trace (JObj [(''reservation_id'', JStr (str_uuid (uuids s (tick s)))),
       (''estimated_usd'', JNum c)])) (ret (uuids s (tick s)))))"
  have tail: "?tail ?s1 = (Inr k, s')"
    using assms by (simp add: spend_grant_def the_run_def the_row_exec bindM_exec andThen_exec uuid4_exec
        add_reservation_def insert_row_def modifyM_exec)
  have "keeps (\<lambda>s. (reservations s, spend_logs s)) ?tail" by (intro steps_intro) simp_all
  from keepsD' [OF this tail] have "reservations s' = reservations ?s1 \<and> spend_logs s' = spend_logs ?s1" by simp
  moreover have "k = uuids s (tick s)"
    using tail by (auto simp: andThen_exec bindM_exec ret_exec split: prod.splits sum.splits)
  ultimately show ?thesis by simp
qed

text \<open>What a successful or refused reservation leaves for its run and stage, whatever the other rows are.\<close>

lemma reserve_spend_Some:
  assumes "reserve_spend i st p c s = (Inr (Some k), s')"
  shows "\<exists>r \<in> set (open_stage_reservations i st s'). sr_id r = k \<and> sr_provider r = p \<and> sr_estimated_cost_usd r = c"
proof -
  obtain s1 where g: "spend_grant i st p c s1 = (Inr k, s')"
    using assms by (auto simp: reserve_spend_def ret_exec elim!: andThen_InrE bindM_InrE split: option.splits)
  then obtain run where "row_get pr_id i (runs s1) = Some run"
    by (auto simp: spend_grant_def the_run_def the_row_exec bindM_exec split: option.splits)
  from spend_grant_result [OF this g] show ?thesis by (simp add: open_stage_reservations_def)
qed

lemma spend_hold_pauses:
  assumes "spend_hold i kind pl s = (Inr u, s')"
  shows "\<exists>run. row_get pr_id i (runs s') = Some run \<and> pr_status run = PAUSED \<and> pr_pause_reason run = Some ''spend_hold''"
proof -
  let ?f = "\<lambda>r. r\<lparr> pr_status := PAUSED, pr_pause_reason := Some (pause_reason_value PauseReason.SPEND_HOLD) \<rparr>"
  let ?s1 = "runs_update (row_set pr_id i ?f) s"
  let ?tail = "andThen (pin_correlation i)
     (bindM (trace_run i) (\<lambda>trace. emit_run SPEND_BUDGET_EXCEEDED i trace (JObj (pl @ [(''cap_kind'', JStr kind)]))))"
  have t: "?tail ?s1 = (Inr u, s')" using assms by (simp add: spend_hold_def andThen_exec set_run_def modifyM_exec)
  have "keeps (\<lambda>s. map_option (\<lambda>r. (pr_status r, pr_pause_reason r)) (row_get pr_id i (runs s))) ?tail"
    by (intro steps_intro) (simp_all add: option.map_comp comp_def)
  note k = keepsD' [OF this t]
  have "row_get pr_id i (runs s) \<noteq> None"
  proof
    assume "row_get pr_id i (runs s) = None"
    then have "fst (?tail ?s1) \<noteq> Inr u" by (simp add: pin_correlation_def exec)
    with t show False by simp
  qed
  with k show ?thesis by auto
qed

lemma reserve_spend_refused:
  assumes "reserve_spend i st p c s = (Inr None, s')"
  shows "\<exists>run. row_get pr_id i (runs s') = Some run \<and> pr_status run = PAUSED \<and> pr_pause_reason run = Some ''spend_hold''"
  using assms by (auto simp: reserve_spend_def ret_exec dest!: spend_hold_pauses elim!: andThen_InrE bindM_InrE split: option.splits)

lemma load_cap_state: "load_spend_cap_for_update ws p s = (r, s') \<Longrightarrow> s' = s"
  using keepsD' [OF ro_check [where f = "\<lambda>x. x"]] by blast

lemma check_caps_None:
  assumes "check_caps ws st p c s = (Inr None, s')"
  shows "\<exists>cap t1 t2. load_spend_cap_for_update ws p s = (Inr (Some cap), s)
    \<and> t1 = clock s (tick s) \<and> t2 = clock s (Suc (tick s)) \<and> s' = s\<lparr>tick := Suc (Suc (tick s))\<rparr>
    \<and> (let up = (if cap_provider cap = None then None else Some p) in
        spend_committed_plus_reserved ws up (Some (utc_day_start t1)) s + c \<le> cap_daily_cap_usd cap
      \<and> spend_committed_plus_reserved ws up (Some (utc_month_start t2)) s + c \<le> cap_monthly_cap_usd cap)"
proof -
  obtain r where 1: "load_spend_cap_for_update ws p s = (r, s)"
    using load_cap_state [of ws p s] by (cases "load_spend_cap_for_update ws p s") auto
  with assms obtain cap where r: "r = Inr (Some cap)"
    by (cases r) (auto simp: check_caps_def bindM_exec ret_exec Let_def split: option.splits)
  have tickless: "spend_committed_plus_reserved w pv since (s\<lparr>tick := n\<rparr>) = spend_committed_plus_reserved w pv since s"
    for w pv since n by (simp add: spend_committed_plus_reserved_def)
  show ?thesis
    using assms 1 r
    by (auto simp: check_caps_def bindM_exec ret_exec utcnow_exec gets_exec Let_def tickless not_less
        split: if_splits)
qed

lemma spent_with_new:
  assumes "spend_logs s' = spend_logs s" "reservations s' = reservations s @ [r]" "sr_status r = RESERVED"
    "sr_workspace_id r = ws" "sr_estimated_cost_usd r = c" "up = None \<or> up = Some (sr_provider r)"
  shows "spend_committed_plus_reserved ws up since s' = spend_committed_plus_reserved ws up since s + c"
  using assms by (auto simp: spend_committed_plus_reserved_def counted_reservations_def split: option.splits)

lemma spent_cong:
  "spend_logs s' = spend_logs s \<Longrightarrow> reservations s' = reservations s \<Longrightarrow>
   spend_committed_plus_reserved ws up since s' = spend_committed_plus_reserved ws up since s"
  by (simp add: spend_committed_plus_reserved_def)

text \<open>The cap that governs a provider: its own row if there is one, else the workspace-wide row.\<close>

definition governing_cap :: "uuid \<Rightarrow> string \<Rightarrow> SpendCap list \<Rightarrow> SpendCap option" where
  "governing_cap ws p cs =
     (case filter (\<lambda>c. cap_workspace_id c = ws \<and> cap_provider c = Some p) cs of
        c # _ \<Rightarrow> Some c
      | [] \<Rightarrow> (case filter (\<lambda>c. cap_workspace_id c = ws \<and> cap_provider c = None) cs of
                 c # _ \<Rightarrow> Some c | [] \<Rightarrow> None))"

lemma load_cap_governing:
  "load_spend_cap_for_update ws p s = (Inr oc, s') \<Longrightarrow> oc = governing_cap ws p (caps s)"
  by (auto simp: load_spend_cap_for_update_def governing_cap_def bindM_exec query_one_exec ret_exec
      scalar_one_or_none_def split: list.splits option.splits)

lemma reserve_spend_cases:
  assumes "has_row pr_id i (runs s)" "distinct (map sr_id (reservations s))"
    and "reserve_spend i st p c s = (Inr o', s')"
  shows "\<exists>s1 run s2 x. release_priors i st s = (Inr (), s1) \<and> row_get pr_id i (runs s1) = Some run
    \<and> check_caps (pr_workspace_id run) st p c s1 = (Inr x, s2)
    \<and> ((\<exists>k. x = None \<and> spend_grant i st p c s2 = (Inr k, s') \<and> o' = Some k)
       \<or> (\<exists>kind pl. x = Some (kind, pl) \<and> spend_hold i kind pl s2 = (Inr (), s') \<and> o' = None))"
proof -
  obtain s1 where s1: "release_priors i st s = (Inr (), s1)" and ids: "map pr_id (runs s1) = map pr_id (runs s)"
    using release_priors_result [OF assms(1,2)] by blast
  from assms(1) ids obtain run where run: "row_get pr_id i (runs s1) = Some run"
    by (metis has_row_def has_row_get)
  obtain x s2 where x: "check_caps (pr_workspace_id run) st p c s1 = (Inr x, s2)"
    using assms(3) s1 run by (auto simp: reserve_spend_def andThen_exec bindM_exec the_run_def the_row_exec
        split: prod.splits sum.splits)
  have "(\<exists>k. x = None \<and> spend_grant i st p c s2 = (Inr k, s') \<and> o' = Some k)
       \<or> (\<exists>kind pl. x = Some (kind, pl) \<and> spend_hold i kind pl s2 = (Inr (), s') \<and> o' = None)"
    using assms(3) s1 run x by (auto simp: reserve_spend_def andThen_exec bindM_exec the_run_def the_row_exec
        ret_exec split: prod.splits sum.splits option.splits)
  with s1 run x show ?thesis by blast
qed

text \<open>
  C1: A granted reservation is within budget: after it, ledger plus open reservations, this one included,
  stay within the governing cap for the UTC day and the UTC month of the instants read from the clock. Without any cap row no
  reservation is granted. And the new reservation is the only open one of its run and stage.
\<close>

theorem reserve_within_caps:
  assumes "has_row pr_id i (runs s)" "distinct (map sr_id (reservations s))"
    and "reserve_spend i st p c s = (Inr (Some k), s')"
  shows "\<exists>run cap k1 k2. row_get pr_id i (runs s) = Some run
    \<and> governing_cap (pr_workspace_id run) p (caps s) = Some cap
    \<and> {k1, k2} \<subseteq> {tick s ..< tick s'}
    \<and> (let up = (if cap_provider cap = None then None else Some p) in
        spend_committed_plus_reserved (pr_workspace_id run) up (Some (utc_day_start (clock s k1))) s' \<le> cap_daily_cap_usd cap
      \<and> spend_committed_plus_reserved (pr_workspace_id run) up (Some (utc_month_start (clock s k2))) s' \<le> cap_monthly_cap_usd cap)
    \<and> map sr_id (open_stage_reservations i st s') = [k]"
proof -
  obtain s1 run s2 where
    s1: "release_priors i st s = (Inr (), s1)" and run: "row_get pr_id i (runs s1) = Some run"
    and x: "check_caps (pr_workspace_id run) st p c s1 = (Inr None, s2)"
    and g: "spend_grant i st p c s2 = (Inr k, s')"
    using reserve_spend_cases [OF assms] by auto
  let ?ws = "pr_workspace_id run"
  obtain cap t1 t2 where t: "t1 = clock s1 (tick s1)" "t2 = clock s1 (Suc (tick s1))"
    and cap: "load_spend_cap_for_update ?ws p s1 = (Inr (Some cap), s1)"
    and s2: "s2 = s1\<lparr>tick := Suc (Suc (tick s1))\<rparr>"
    and le: "let up = (if cap_provider cap = None then None else Some p) in
        spend_committed_plus_reserved ?ws up (Some (utc_day_start t1)) s1 + c \<le> cap_daily_cap_usd cap
      \<and> spend_committed_plus_reserved ?ws up (Some (utc_month_start t2)) s1 + c \<le> cap_monthly_cap_usd cap"
    using check_caps_None [OF x] by blast
  have run2: "row_get pr_id i (runs s2) = Some run" using run s2 by simp
  have env: "same_env s s1" "same_env s2 s'" using steps_env [OF w_spend(2) s1] steps_env [OF w_spend(6) g] by simp_all
  note new = spend_grant_result [OF run2 g]
  let ?r = "\<lparr> sr_id = k, sr_workspace_id = ?ws, sr_pipeline_run_id = Some i, sr_provider = p,
       sr_stage = Some st, sr_estimated_cost_usd = c, sr_status = RESERVED \<rparr>"
  have spent: "spend_committed_plus_reserved ?ws up since s' = spend_committed_plus_reserved ?ws up since s1 + c"
    if "up = None \<or> up = Some p" for up since
    using new s2 that by (intro spent_with_new [of _ _ ?r]) simp_all
  have "keeps (\<lambda>s. (caps s, map (\<lambda>r. (pr_id r, pr_workspace_id r)) (runs s))) (release_priors i st)"
    by (rule keeps_release_spend) simp_all
  from keepsD' [OF this s1] have caps: "caps s1 = caps s"
    and ws: "map (\<lambda>r. (pr_id r, pr_workspace_id r)) (runs s1) = map (\<lambda>r. (pr_id r, pr_workspace_id r)) (runs s)"
    by auto
  have "map_option pr_workspace_id (row_get pr_id i (runs s)) = map_option pr_workspace_id (row_get pr_id i (runs s1))"
    by (simp only: row_get_map_of ws)
  with run have "map_option pr_workspace_id (row_get pr_id i (runs s)) = Some ?ws" by simp
  then obtain run0 where run0: "row_get pr_id i (runs s) = Some run0" "pr_workspace_id run0 = ?ws" by auto
  have "open_stage_reservations i st s1 = []"
    using release_priors_result [OF assms(1,2), of st] s1
    by (auto simp: open_stage_reservations_def filter_empty_conv)
  then have "map sr_id (open_stage_reservations i st s') = [k]"
    using new s2 by (simp add: open_stage_reservations_def)
  moreover have "governing_cap ?ws p (caps s) = Some cap" using load_cap_governing [OF cap] caps by simp
  ultimately show ?thesis
    using le run0 spent [of None] spent [of "Some p"] env
    by (intro exI [of _ run0] exI [of _ cap] exI [of _ "tick s1"] exI [of _ "Suc (tick s1)"])
      (auto simp: Let_def t same_env_def s2)
qed

text \<open>
  A refused reservation parks the run: it is \<open>PAUSED\<close> for \<open>spend_hold\<close>, no reservation is left open for
  the stage, the ledger is untouched and one \<open>spend.budget_exceeded\<close> event is the last of the log.
\<close>

theorem reserve_refused_holds_run:
  assumes "has_row pr_id i (runs s)" "distinct (map sr_id (reservations s))"
    and "reserve_spend i st p c s = (Inr None, s')"
  shows "(\<exists>run. row_get pr_id i (runs s') = Some run \<and> pr_status run = PAUSED \<and> pr_pause_reason run = Some ''spend_hold'')
    \<and> open_stage_reservations i st s' = [] \<and> spend_logs s' = spend_logs s
    \<and> ev_event_type (last (events s')) = SPEND_BUDGET_EXCEEDED"
proof -
  obtain s1 run s2 kind pl where
    s1: "release_priors i st s = (Inr (), s1)" and run: "row_get pr_id i (runs s1) = Some run"
    and x: "check_caps (pr_workspace_id run) st p c s1 = (Inr (Some (kind, pl)), s2)"
    and h: "spend_hold i kind pl s2 = (Inr (), s')"
    using reserve_spend_cases [OF assms] by auto
  have k2: "reservations s2 = reservations s1 \<and> spend_logs s2 = spend_logs s1 \<and> runs s2 = runs s1"
    using keepsD' [OF keeps_check_caps [where f = "\<lambda>s. (reservations s, spend_logs s, runs s)"] x] by simp
  have k3: "reservations s' = reservations s2 \<and> spend_logs s' = spend_logs s2"
    using keepsD' [OF keeps_spend_hold [where f = "\<lambda>s. (reservations s, spend_logs s)"] h] by simp
  have k1: "spend_logs s1 = spend_logs s"
    using keepsD' [OF keeps_release_spend(3) [where f = spend_logs] s1] by simp
  have closed: "open_stage_reservations i st s' = []"
    using release_priors_result [OF assms(1,2), of st] s1 k2 k3
    by (auto simp: open_stage_reservations_def filter_empty_conv)
  let ?f = "\<lambda>r. r\<lparr> pr_status := PAUSED, pr_pause_reason := Some (pause_reason_value PauseReason.SPEND_HOLD) \<rparr>"
  let ?s3 = "runs_update (row_set pr_id i ?f) s2"
  let ?tail = "bindM (trace_run i) (\<lambda>trace. emit_run SPEND_BUDGET_EXCEEDED i trace (JObj (pl @ [(''cap_kind'', JStr kind)])))"
  have t: "andThen (pin_correlation i) ?tail ?s3 = (Inr (), s')"
    using h by (simp add: spend_hold_def andThen_exec set_run_def modifyM_exec)
  have "keeps (\<lambda>s. map_option (\<lambda>r. (pr_status r, pr_pause_reason r)) (row_get pr_id i (runs s))) (andThen (pin_correlation i) ?tail)"
    by (intro steps_intro) (simp_all add: option.map_comp comp_def)
  from keepsD' [OF this t] have st: "map_option (\<lambda>r. (pr_status r, pr_pause_reason r)) (row_get pr_id i (runs s'))
      = Some (PAUSED, Some ''spend_hold'')" using run k2 by simp
  obtain s4 where "pin_correlation i ?s3 = (Inr (), s4)" and 4: "row_get pr_id i (runs s4) \<noteq> None"
    using pin_correlation_Inr [of i ?s3] run k2 by auto
  with t have "?tail s4 = (Inr (), s')" by (simp add: andThen_exec)
  then obtain tr s5 where 5: "trace_run i s4 = (Inr tr, s5)"
    and 6: "emit_run SPEND_BUDGET_EXCEEDED i tr (JObj (pl @ [(''cap_kind'', JStr kind)])) s5 = (Inr (), s')"
    by (auto elim: bindM_InrE)
  have "ev_event_type (last (events s')) = SPEND_BUDGET_EXCEEDED"
    using 4 trace_run_Inr 5 6 emit_run_Inr [of i s5 _ SPEND_BUDGET_EXCEEDED tr "JObj (pl @ [(''cap_kind'', JStr kind)])"]
    by fastforce
  with st closed k1 k2 k3 show ?thesis by auto
qed

section \<open>What committing does\<close>

lemma spent_row_set:
  assumes "distinct (map sr_id rs)" "row_get sr_id q rs = Some r" "sr_status r = RESERVED" "st \<noteq> RESERVED"
  shows "sum_list (map sr_estimated_cost_usd (counted_reservations ws up (row_set sr_id q (sr_status_update (\<lambda>_. st)) rs)))
     = sum_list (map sr_estimated_cost_usd (counted_reservations ws up rs))
       - (if counted_reservations ws up [r] = [] then 0 else sr_estimated_cost_usd r)"
proof -
  define P where "P = (\<lambda>r :: SpendReservation. sr_workspace_id r = ws \<and> sr_status r = RESERVED
    \<and> (case up of None \<Rightarrow> True | Some p \<Rightarrow> sr_provider r = p))"
  define g where "g = (\<lambda>r :: SpendReservation. if P r then sr_estimated_cost_usd r else 0)"
  have sum: "sum_list (map sr_estimated_cost_usd (counted_reservations ws up xs)) = sum_list (map g xs)" for xs
    by (simp add: counted_reservations_def sum_list_map_filter' g_def P_def)
  have "sum_list (map g (row_set sr_id q (sr_status_update (\<lambda>_. st)) rs)) + g r
      = sum_list (map g rs) + g (r\<lparr>sr_status := st\<rparr>)"
    using assms(1,2) by (rule sum_list_map_row_set)
  moreover have "g (r\<lparr>sr_status := st\<rparr>) = 0" using assms(4) by (simp add: g_def P_def)
  moreover have "(if counted_reservations ws up [r] = [] then 0 else sr_estimated_cost_usd r) = g r"
    by (simp add: counted_reservations_def g_def P_def)
  ultimately show ?thesis unfolding sum by (simp add: eq_diff_eq)
qed

text \<open>
  A commit that returns either found the reservation committed and changed nothing, or moved it from
  \<open>RESERVED\<close> to \<open>COMMITTED\<close> and booked exactly one ledger row, of the reported cost clamped to the reserved
  estimate. Either way the spend counted against any cap of the workspace does not grow, and committing
  again, with whatever cost, is a no-op.
\<close>

theorem commit_clamps_and_is_idempotent:
  assumes "row_get sr_id q (reservations s) = Some r" "distinct (map sr_id (reservations s))"
    and "row_get pr_id i (runs s) = Some run" "pr_workspace_id run = sr_workspace_id r"
    and "0 \<le> sr_estimated_cost_usd r" "commit_spend i q actual s = (Inr (), s')"
  shows "(sr_status r = ReservationStatus.COMMITTED \<and> s' = s
       \<or> sr_status r = RESERVED \<and> 0 \<le> actual \<and> (\<exists>l. spend_logs s' = spend_logs s @ [l]
           \<and> sl_cost_usd l = min actual (sr_estimated_cost_usd r) \<and> sl_provider l = sr_provider r))
    \<and> row_get sr_id q (reservations s') = Some (r\<lparr>sr_status := ReservationStatus.COMMITTED\<rparr>)
    \<and> (\<forall>up since. spend_committed_plus_reserved (sr_workspace_id r) up since s'
          \<le> spend_committed_plus_reserved (sr_workspace_id r) up since s)
    \<and> commit_spend i q actual2 s' = (Inr (), s')"
proof (cases "sr_status r = ReservationStatus.COMMITTED")
  case True
  then have "s' = s" using assms(1,6) by (simp add: commit_spend_def the_reservation_def the_row_exec bindM_exec ret_exec)
  moreover have "r\<lparr>sr_status := ReservationStatus.COMMITTED\<rparr> = r" using True by (cases r) simp
  ultimately show ?thesis using True assms(1) by (simp add: commit_spend_def the_reservation_def the_row_exec bindM_exec ret_exec)
next
  case False
  then have res: "sr_status r = RESERVED" and pos: "0 \<le> actual"
    using assms(1,6) by (auto simp: commit_spend_def the_reservation_def the_row_exec bindM_exec raise_exec Let_def not_less
        split: if_splits)
  let ?c = "ReservationStatus.COMMITTED" and ?cost = "min actual (sr_estimated_cost_usd r)"
  let ?s1 = "reservations_update (row_set sr_id q (sr_status_update (\<lambda>_. ?c))) s"
  let ?l = "\<lparr> sl_id = uuids s (tick s), sl_workspace_id = sr_workspace_id r, sl_provider = sr_provider r,
      sl_stage = sr_stage r, sl_cost_usd = ?cost, sl_occurred_at = clock s (Suc (tick s)) \<rparr>"
  let ?s2 = "spend_logs_update (\<lambda>ls. ls @ [?l]) (?s1\<lparr>tick := Suc (Suc (tick s))\<rparr>)"
  let ?tail = "bindM (trace_run i) (\<lambda>trace.
      emit_run SPEND_COMMITTED i trace (JObj [(''reservation_id'', JStr (str_uuid q)),
           (''actual_usd'', JNum ?cost), (''reserved_usd'', JNum (sr_estimated_cost_usd r))]))"
  have cost: "(if actual > sr_estimated_cost_usd r then sr_estimated_cost_usd r else actual) = ?cost" by auto
  have tail: "?tail ?s2 = (Inr (), s')"
    using assms(1,3,4,6) res pos
    by (simp add: commit_spend_def the_reservation_def the_run_def the_row_exec bindM_exec andThen_exec ret_exec
        Let_def cost set_reservation_def modifyM_exec uuid4_exec utcnow_exec add_spend_log_def insert_row_def)
  have "keeps (\<lambda>s. (reservations s, spend_logs s)) ?tail" by (intro steps_intro) simp_all
  from keepsD' [OF this tail] have rs: "reservations s' = reservations ?s1" and ls: "spend_logs s' = spend_logs s @ [?l]"
    by auto
  have row: "row_get sr_id q (reservations s') = Some (r\<lparr>sr_status := ?c\<rparr>)" using rs assms(1) by simp
  have "commit_spend i q actual2 s' = (Inr (), s')"
    using row by (simp add: commit_spend_def the_reservation_def the_row_exec bindM_exec ret_exec)
  moreover have "spend_committed_plus_reserved (sr_workspace_id r) up since s'
      \<le> spend_committed_plus_reserved (sr_workspace_id r) up since s" for up since
    unfolding spend_committed_plus_reserved_def ls rs
    using spent_row_set [OF assms(2,1) res, of ?c "sr_workspace_id r" up] assms(5) res pos
    by (auto simp: counted_logs_def counted_reservations_def split: option.splits)
  ultimately show ?thesis using res pos row ls by auto
qed

section \<open>Witnesses\<close>

definition reserved_db :: db where
  "reserved_db = sample_db\<lparr>reservations := [sample_reservation]\<rparr>"

lemma reserved_db_rows [simp]:
  "has_row pr_id 10 (runs reserved_db)" "distinct (map sr_id (reservations reserved_db))"
  "has_row pr_id 10 (runs sample_db)" "distinct (map sr_id (reservations sample_db))"
  "row_get sr_id 40 (reservations reserved_db) = Some sample_reservation"
  "row_get pr_id 10 (runs reserved_db) = Some sample_run" "runs sample_db = [sample_run]"
  by (simp_all add: has_row_def reserved_db_def fixture)

lemmas spend_ops = release_spend_def open_reservations_def open_stage_reservations_def
  release_all_reservations_def commit_spend_def release_priors_def load_spend_cap_for_update_def
  check_caps_def spend_hold_def spend_grant_def reserve_spend_def spend_committed_plus_reserved_def
  counted_logs_def counted_reservations_def Let_def

lemma release_all_scoped_witness:
  "\<exists>s'. release_all_reservations 10 reserved_db = (Inr (), s') \<and> open_reservations 10 s' = []"
  using release_all_scoped [of 10 reserved_db] by auto

lemma reserve_within_caps_witness:
  "\<exists>k s'. reserve_spend 10 ''scripting'' ''draft_desk'' (1 / 100) reserved_db = (Inr (Some k), s')
    \<and> map sr_id (open_stage_reservations 10 ''scripting'' s') = [k]"
proof -
  have "\<exists>k. fst (reserve_spend 10 ''scripting'' ''draft_desk'' (1 / 100) reserved_db) = Inr (Some k)"
    by (simp add: spend_ops workflow_ops exec reserved_db_def fixture Let_def)
  then obtain k s' where 1: "reserve_spend 10 ''scripting'' ''draft_desk'' (1 / 100) reserved_db = (Inr (Some k), s')"
    by (metis prod.collapse)
  from reserve_within_caps [OF reserved_db_rows(1,2) 1]
  have "map sr_id (open_stage_reservations 10 ''scripting'' s') = [k]" by (elim exE conjE)
  with 1 show ?thesis by (intro exI conjI)
qed

lemma reserve_refused_holds_run_witness:
  "\<exists>s' run. reserve_spend 10 ''scripting'' ''draft_desk'' 51 reserved_db = (Inr None, s')
    \<and> row_get pr_id 10 (runs s') = Some run \<and> pr_status run = PAUSED"
proof -
  have "fst (reserve_spend 10 ''scripting'' ''draft_desk'' 51 reserved_db) = Inr None"
    by (simp add: spend_ops workflow_ops exec reserved_db_def fixture Let_def)
  then obtain s' where 1: "reserve_spend 10 ''scripting'' ''draft_desk'' 51 reserved_db = (Inr None, s')"
    by (metis prod.collapse)
  with reserve_refused_holds_run [OF reserved_db_rows(1,2) 1] show ?thesis by blast
qed

lemma commit_clamps_and_is_idempotent_witness:
  "\<exists>s' l. commit_spend 10 40 3 reserved_db = (Inr (), s') \<and> spend_logs s' = [l] \<and> sl_cost_usd l = 1 / 100"
proof -
  have "fst (commit_spend 10 40 3 reserved_db) = Inr ()" by (simp add: spend_ops workflow_ops exec reserved_db_def fixture Let_def)
  then obtain s' where 1: "commit_spend 10 40 3 reserved_db = (Inr (), s')" by (metis prod.collapse)
  have f: "pr_workspace_id sample_run = sr_workspace_id sample_reservation"
    "0 \<le> sr_estimated_cost_usd sample_reservation" "spend_logs reserved_db = []"
    "sr_status sample_reservation = RESERVED" "min 3 (sr_estimated_cost_usd sample_reservation) = 1 / 100"
    by (simp_all add: reserved_db_def fixture)
  show ?thesis using commit_clamps_and_is_idempotent [OF reserved_db_rows(5,2,6) f(1,2) 1, of 0] 1 f(3-5) by auto
qed

end
