(* ===== verification/Controller.thy ===== *)
theory Controller imports Spend begin

text \<open>
  The execution controller, the middle of \<open>orchestration/controller.py\<close>: advancing a run through its
  workflow, failures and retries, timeouts, cancellation, compensation and the human review gate.
  Logging is left out; it changes no state.
\<close>

definition DEFAULT_REVIEW_TIMEOUT_HOURS :: int where
  "DEFAULT_REVIEW_TIMEOUT_HOURS = 48"

section \<open>Review gate: opening\<close>

definition add_timer :: "uuid \<Rightarrow> uuid \<Rightarrow> datetime \<Rightarrow> uuid option \<Rightarrow> string option \<Rightarrow> unit M" where
  "add_timer workspace_id gate_id due corr trace_id =
     bindM uuid4 (\<lambda>i.
     bindM utcnow (\<lambda>created.
     add_job (new_job workspace_id REVIEW_TIMEOUT ''review_gates'' gate_id due 0 0 corr trace_id i created)))"

definition announce_gate :: "uuid \<Rightarrow> stage \<Rightarrow> uuid \<Rightarrow> datetime \<Rightarrow> uuid M" where
  "announce_gate run_id stage_key gate_id timeout_at =
     bindM (the_run run_id) (\<lambda>run.
     bindM (run_correlation_id run) (\<lambda>corr.
     andThen (add_timer (pr_workspace_id run) gate_id timeout_at (Some corr) (pr_trace_id run)) (
     bindM (trace_run run_id) (\<lambda>trace.
     andThen (emit_run REVIEW_REQUESTED run_id trace
       (JObj [(''stage'', JStr stage_key), (''review_gate_id'', JStr (str_uuid gate_id))]))
     (ret gate_id)))))"

definition open_gate :: "uuid \<Rightarrow> stage \<Rightarrow> int \<Rightarrow> uuid option \<Rightarrow> uuid M" where
  "open_gate run_id stage_key timeout_seconds content_version_id =
     andThen (set_run run_id (\<lambda>r. r\<lparr> pr_status := PAUSED,
                                    pr_pause_reason := Some (pause_reason_value PauseReason.REVIEW_GATE) \<rparr>)) (
     bindM (the_run run_id) (\<lambda>run.
     bindM utcnow (\<lambda>now.
     let timeout_at = now + of_int timeout_seconds in
     bindM uuid4 (\<lambda>gate_id.
     bindM utcnow (\<lambda>requested.
     andThen (add_gate \<lparr> rg_id = gate_id, rg_workspace_id = pr_workspace_id run, rg_pipeline_run_id = run_id,
       rg_content_version_id = content_version_id, rg_stage = stage_key, rg_status = AWAITING,
       rg_requested_at = requested, rg_timeout_at = Some timeout_at, rg_decided_at = None,
       rg_decided_by = None, rg_escalation_level = 0 \<rparr>)
     (announce_gate run_id stage_key gate_id timeout_at))))))"

definition pause_for_review :: "uuid \<Rightarrow> stage \<Rightarrow> int \<Rightarrow> uuid M" where
  "pause_for_review run_id stage_key timeout_seconds =
     bindM (the_run run_id) (\<lambda>run.
     if run_terminal (pr_status run)
     then raise (ValueError (''cannot open review gate on terminal run status='' @ pipeline_run_status_value (pr_status run)))
     else bindM (query_one (awaiting_gates run_id)) (\<lambda>existing_awaiting.
     case existing_awaiting of
       Some g \<Rightarrow> ret (rg_id g)
     | None \<Rightarrow>
         bindM (get_row items ci_id (pr_content_item_id run)) (\<lambda>item.
         case item of
           None \<Rightarrow> raise (ValueError (''pipeline run '' @ str_uuid run_id @ '' has no content item''))
         | Some x \<Rightarrow> open_gate run_id stage_key timeout_seconds (ci_current_version_id x))))"

section \<open>Advancing\<close>

definition finish_succeeded :: "uuid \<Rightarrow> string \<times> string \<Rightarrow> stage \<Rightarrow> unit M" where
  "finish_succeeded run_id trace final_stage =
     emit_run PIPELINE_SUCCEEDED run_id trace (JObj [(''final_stage'', JStr final_stage)])"

definition advance_or_finish :: "uuid \<Rightarrow> stage \<Rightarrow> WorkflowTransitionTrigger \<Rightarrow> json \<Rightarrow> unit M" where
  "advance_or_finish run_id from_stage trigger context =
     bindM (the_run run_id) (\<lambda>run.
     bindM (run_definition_id run) (\<lambda>d.
     bindM (find_transition d from_stage trigger context) (\<lambda>transition.
     case transition of
       None \<Rightarrow>
         bindM (get_stage_def d from_stage) (\<lambda>current_stage_def.
         if wst_is_terminal current_stage_def then
           bindM (trace_run run_id) (\<lambda>trace.
           andThen (set_run run_id (\<lambda>r. r\<lparr>pr_status := PipelineRunStatus.SUCCEEDED\<rparr>)) (
           bindM utcnow (\<lambda>now.
           andThen (set_run run_id (\<lambda>r. r\<lparr>pr_completed_at := Some now\<rparr>)) (
           bindM (fromSum (content_stage_of from_stage)) (\<lambda>st.
           andThen (set_run run_id (\<lambda>r. r\<lparr>pr_current_stage := content_stage_value st\<rparr>))
           (finish_succeeded run_id trace from_stage))))))
         else raise (ValueError (''no matching transition from stage='' @ from_stage @ '' trigger=''
                @ workflow_transition_trigger_value trigger @ '' for definition '' @ str_uuid d)))
     | Some t \<Rightarrow>
         bindM (get_stage_def d (wt_to_stage t)) (\<lambda>to_stage_def.
         bindM (trace_run run_id) (\<lambda>trace.
         andThen (set_run run_id (\<lambda>r. r\<lparr>pr_current_stage := wt_to_stage t\<rparr>)) (
         if wst_is_terminal to_stage_def then
           andThen (set_run run_id (\<lambda>r. r\<lparr>pr_status := PipelineRunStatus.SUCCEEDED\<rparr>)) (
           bindM utcnow (\<lambda>now.
           andThen (set_run run_id (\<lambda>r. r\<lparr>pr_completed_at := Some now\<rparr>))
           (finish_succeeded run_id trace (wt_to_stage t))))
         else if wst_is_review_gate to_stage_def then
           bindM (pause_for_review run_id (wst_stage_key to_stage_def) (wst_timeout_seconds to_stage_def)) (\<lambda>_. ret ())
         else
           bindM (enqueue_stage run_id (wst_stage_key to_stage_def) 0 None) (\<lambda>_. ret ())))))))"

text \<open>\<open>x or {}\<close> for a JSON argument.\<close>

definition or_empty :: "json option \<Rightarrow> json" where
  "or_empty x = (case x of None \<Rightarrow> JObj [] | Some v \<Rightarrow> if v \<in> {JNull, JBool False, JNum 0, JStr [], JList [], JObj []} then JObj [] else v)"

definition handle_stage_success :: "uuid \<Rightarrow> stage \<Rightarrow> json option \<Rightarrow> unit M" where
  "handle_stage_success run_id st result_context =
     bindM (the_run run_id) (\<lambda>run.
     if run_terminal (pr_status run) then ret ()
     else advance_or_finish run_id st ON_SUCCESS (or_empty result_context))"

section \<open>Failing\<close>

definition fail_run :: "uuid \<Rightarrow> string \<Rightarrow> unit M" where
  "fail_run run_id reason =
     andThen (set_run run_id (\<lambda>r. r\<lparr>pr_status := PipelineRunStatus.FAILED\<rparr>)) (
     bindM utcnow (\<lambda>now.
     andThen (set_run run_id (\<lambda>r. r\<lparr>pr_completed_at := Some now\<rparr>)) (
     bindM (trace_run run_id) (\<lambda>trace.
     andThen (emit_run PIPELINE_FAILED run_id trace (JObj [(''reason'', JStr reason)]))
     (release_all_reservations run_id)))))"

text \<open>\<open>ORDER BY completed_at DESC\<close> puts NULLs first.\<close>

definition latest_first :: "datetime option \<Rightarrow> nat \<times> datetime" where
  "latest_first t = (case t of None \<Rightarrow> (0, 0) | Some x \<Rightarrow> (1, - x))"

definition succeeded_stage_runs :: "uuid \<Rightarrow> db \<Rightarrow> PipelineStageRun list" where
  "succeeded_stage_runs run_id s =
     sort_key (\<lambda>q. latest_first (psr_completed_at q))
       (filter (\<lambda>q. psr_pipeline_run_id q = run_id \<and> psr_status q = StageRunStatus.SUCCEEDED) (stage_runs s))"

definition trigger_compensation :: "uuid \<Rightarrow> unit M" where
  "trigger_compensation run_id =
     andThen (set_run run_id (\<lambda>r. r\<lparr>pr_status := COMPENSATING\<rparr>)) (
     bindM (query (succeeded_stage_runs run_id)) (\<lambda>completed.
     andThen (forM completed (\<lambda>stage_run.
       bindM (the_run run_id) (\<lambda>run.
       bindM (run_definition_id run) (\<lambda>d.
       bindM (get_stage_def d (psr_stage stage_run)) (\<lambda>stage_def.
       case wst_compensation_stage_key stage_def of
         None \<Rightarrow> ret ()
       | Some key \<Rightarrow>
           bindM uuid4 (\<lambda>i.
           bindM utcnow (\<lambda>now.
           bindM (run_correlation_id run) (\<lambda>corr.
           bindM utcnow (\<lambda>created.
           add_job (new_job (pr_workspace_id run) COMPENSATION key run_id now 0 0 (Some corr) (pr_trace_id run) i created))))))))))
     (set_run run_id (\<lambda>r. r\<lparr>pr_status := PipelineRunStatus.FAILED\<rparr>))))"

text \<open>The real handler of a compensation job only logs.\<close>

definition run_compensation_stage :: "uuid \<Rightarrow> stage \<Rightarrow> unit M" where
  "run_compensation_stage pipeline_run_id st = ret ()"

definition dead_letter_run :: "uuid \<Rightarrow> stage \<Rightarrow> int \<Rightarrow> string \<Rightarrow> WorkflowStage \<Rightarrow> unit M" where
  "dead_letter_run run_id st attempt_number error_message stage_def =
     bindM (the_run run_id) (\<lambda>run.
     bindM (now_or_utcnow (pr_started_at run)) (\<lambda>first_failed_at.
     bindM (route_to_dead_letter (pr_workspace_id run) ''pipeline_runs'' run_id (''stage:'' @ st)
       (Some (JObj [(''stage'', JStr st), (''attempt_number'', JNum (of_int attempt_number))]))
       error_message attempt_number first_failed_at) (\<lambda>_.
     andThen (fail_run run_id error_message)
     (whenM (wst_compensation_stage_key stage_def \<noteq> None) (trigger_compensation run_id)))))"

definition handle_stage_failure :: "uuid \<Rightarrow> stage \<Rightarrow> int \<Rightarrow> string \<Rightarrow> unit M" where
  "handle_stage_failure run_id st attempt_number error_message =
     bindM (trace_run run_id) (\<lambda>trace.
     andThen (emit_run STAGE_FAILED run_id trace (JObj [(''stage'', JStr st),
       (''attempt_number'', JNum (of_int attempt_number)), (''error'', JStr error_message)])) (
     bindM (the_run run_id) (\<lambda>run.
     bindM (run_definition_id run) (\<lambda>d.
     bindM (get_stage_def d st) (\<lambda>stage_def.
     let retryable = is_retryable error_message in
     if retryable \<and> attempt_number < wst_max_attempts stage_def then
       bindM (compute_backoff_seconds (attempt_number + 1) (wst_backoff_base_seconds stage_def)
         (of_int (wst_backoff_multiplier stage_def)) (wst_backoff_max_seconds stage_def)) (\<lambda>delay.
       bindM utcnow (\<lambda>now.
       bindM (enqueue_stage run_id st attempt_number (Some (now + delay))) (\<lambda>_.
       ret ())))
     else dead_letter_run run_id st attempt_number error_message stage_def)))))"

definition handle_stage_timeout :: "uuid \<Rightarrow> stage \<Rightarrow> unit M" where
  "handle_stage_timeout pipeline_run_id st =
     bindM (get_row runs pr_id pipeline_run_id) (\<lambda>orun.
     case orun of
       None \<Rightarrow> ret ()
     | Some run \<Rightarrow>
         if pr_current_stage run \<noteq> st \<or> pr_status run \<noteq> RUNNING then ret ()
         else bindM (gets (\<lambda>s. int (length (filter (\<lambda>q. psr_pipeline_run_id q = pipeline_run_id \<and> psr_stage q = st)
                (stage_runs s))))) (\<lambda>n.
              handle_stage_failure pipeline_run_id st (n + 1) ''timeout''))"

section \<open>Cancelling\<close>

definition open_assignment :: "StageAssignmentStatus \<Rightarrow> bool" where
  "open_assignment st \<longleftrightarrow> st \<in> {StageAssignmentStatus.PENDING, StageAssignmentStatus.DISPATCHED, ACKNOWLEDGED}"

definition cancel_run :: "uuid \<Rightarrow> unit M" where
  "cancel_run run_id =
     bindM (the_run run_id) (\<lambda>run.
     if run_terminal (pr_status run) then ret ()
     else bindM (query (\<lambda>s. filter (\<lambda>a. sa_pipeline_run_id a = run_id \<and> open_assignment (sa_status a)) (assignments s)))
       (\<lambda>open_assignments.
     andThen (forM open_assignments (\<lambda>a. set_assignment (sa_id a) (sa_status_update (\<lambda>_. StageAssignmentStatus.CANCELLED)))) (
     andThen (set_run run_id (\<lambda>r. r\<lparr>pr_status := PipelineRunStatus.CANCELLED\<rparr>)) (
     bindM utcnow (\<lambda>now.
     andThen (set_run run_id (\<lambda>r. r\<lparr>pr_completed_at := Some now\<rparr>)) (
     bindM (trace_run run_id) (\<lambda>trace.
     andThen (release_all_reservations run_id)
     (emit_run PIPELINE_CANCELLED run_id trace (JObj [])))))))))"

section \<open>Review gate: deciding\<close>

definition resume_from_review :: "uuid \<Rightarrow> bool \<Rightarrow> unit M" where
  "resume_from_review gate_id approved =
     bindM (the_gate gate_id) (\<lambda>gate.
     if rg_status gate \<noteq> AWAITING then ret ()
     else bindM (get_row runs pr_id (rg_pipeline_run_id gate)) (\<lambda>orun.
     case orun of
       None \<Rightarrow> raise (ValueError (''review_gate '' @ str_uuid gate_id @ '' has no pipeline_run''))
     | Some run \<Rightarrow>
         let run_id = pr_id run in
         andThen (set_gate gate_id (rg_status_update (\<lambda>_. if approved then ReviewGateStatus.APPROVED else ReviewGateStatus.REJECTED))) (
         bindM utcnow (\<lambda>now.
         andThen (set_gate gate_id (rg_decided_at_update (\<lambda>_. Some now))) (
         bindM (if approved then ret False
                else bindM (run_definition_id run) (\<lambda>d.
                     bindM (find_transition d (rg_stage gate) ON_REVIEW_REJECTED (JObj [])) (\<lambda>reject_transition.
                     ret (reject_transition = None)))) (\<lambda>fails.
         if fails then
           andThen (set_run run_id (pr_pause_reason_update (\<lambda>_. None)))
           (fail_run run_id ''review_rejected'')
         else
           andThen (set_run run_id (\<lambda>r. r\<lparr> pr_status := RUNNING, pr_pause_reason := None \<rparr>))
           (advance_or_finish run_id (rg_stage gate)
             (if approved then ON_REVIEW_APPROVED else ON_REVIEW_REJECTED) (JObj []))))))))"

definition gate_event :: "string \<Rightarrow> ReviewGate \<Rightarrow> PipelineRun option \<Rightarrow> string \<times> string \<Rightarrow> (string \<times> json) list \<Rightarrow> unit M" where
  "gate_event event_type gate orun trace payload =
     bindM (case orun of Some run \<Rightarrow> run_correlation_id run | None \<Rightarrow> uuid4) (\<lambda>corr.
     bindM (emit event_type (rg_workspace_id gate) ''pipeline_run'' (rg_pipeline_run_id gate) corr trace
       (JObj ((''review_gate_id'', JStr (str_uuid (rg_id gate))) # payload)) ''controller'') (\<lambda>_.
     ret ()))"

definition handle_review_timeout :: "uuid \<Rightarrow> unit M" where
  "handle_review_timeout review_gate_id =
     bindM (get_row gates rg_id review_gate_id) (\<lambda>ogate.
     case ogate of
       None \<Rightarrow> ret ()
     | Some gate \<Rightarrow>
         if rg_status gate \<noteq> AWAITING then ret ()
         else bindM (get_row runs pr_id (rg_pipeline_run_id gate)) (\<lambda>orun.
         bindM (child_span (case orun of Some run \<Rightarrow> pr_trace_id run | None \<Rightarrow> None)) (\<lambda>trace.
         if rg_escalation_level gate = 0 then
           andThen (set_gate review_gate_id (\<lambda>g. g\<lparr> rg_status := ESCALATED, rg_escalation_level := rg_escalation_level g + 1 \<rparr>)) (
           bindM utcnow (\<lambda>now.
           let new_timeout = now + of_int (DEFAULT_REVIEW_TIMEOUT_HOURS * 3600) in
           andThen (set_gate review_gate_id (rg_timeout_at_update (\<lambda>_. Some new_timeout))) (
           andThen (add_timer (rg_workspace_id gate) review_gate_id new_timeout None None)
           (gate_event REVIEW_ESCALATED gate orun trace
             [(''escalation_level'', JNum (of_int (rg_escalation_level gate + 1)))]))))
         else
           andThen (set_gate review_gate_id (rg_status_update (\<lambda>_. TIMED_OUT))) (
           andThen (gate_event REVIEW_TIMED_OUT gate orun trace [])
           (case orun of
              None \<Rightarrow> ret ()
            | Some run \<Rightarrow> fail_run (pr_id run) ''review_gate_timed_out'')))))"

definition submit_review_decision :: "uuid \<Rightarrow> uuid \<Rightarrow> bool \<Rightarrow> string option \<Rightarrow> uuid M" where
  "submit_review_decision gate_id reviewer_id approved notes =
     bindM (the_gate gate_id) (\<lambda>gate.
     if rg_status gate \<noteq> AWAITING
     then raise (ValueError (''review_gate '' @ str_uuid gate_id @ '' is not awaiting a decision''))
     else bindM (get_row runs pr_id (rg_pipeline_run_id gate)) (\<lambda>orun.
     case orun of
       None \<Rightarrow> raise (ValueError (''review_gate '' @ str_uuid gate_id @ '' missing pipeline run / content item''))
     | Some run \<Rightarrow>
         andThen (set_gate gate_id (rg_decided_by_update (\<lambda>_. Some reviewer_id))) (
         bindM uuid4 (\<lambda>decision_id.
         andThen (add_decision \<lparr> rvd_id = decision_id, rvd_workspace_id = rg_workspace_id gate,
           rvd_content_item_id = pr_content_item_id run, rvd_content_version_id = None,
           rvd_reviewer_id = reviewer_id,
           rvd_decision = (if approved then ReviewDecisionValue.APPROVED else ReviewDecisionValue.REJECTED),
           rvd_notes = notes \<rparr>) (
         bindM (child_span (pr_trace_id run)) (\<lambda>trace.
         bindM (or_uuid4 (pr_correlation_id run)) (\<lambda>corr.
         emit (if approved then REVIEW_APPROVED else REVIEW_REJECTED) (rg_workspace_id gate) ''pipeline_run''
           (rg_pipeline_run_id gate) corr trace
           (JObj [(''review_gate_id'', JStr (str_uuid gate_id)), (''decision_id'', JStr (str_uuid decision_id))])
           ''review_hook'')))))))"

section \<open>Footprint: the operations are writes\<close>

lemma w_gate_tail [steps_intro]:
  "steps writes (add_timer ws g due c t)" "steps writes (announce_gate i st g due)"
  unfolding add_timer_def announce_gate_def by (intro steps_intro)+

lemma w_open_gate:
  assumes "awaiting_gates i s = []"
  shows "writes s (snd (open_gate i st t v s))"
proof -
  let ?f = "\<lambda>r. r\<lparr> pr_status := PAUSED, pr_pause_reason := Some (pause_reason_value PauseReason.REVIEW_GATE) \<rparr>"
  let ?s1 = "runs_update (row_set pr_id i ?f) s"
  have 1: "writes s ?s1" by (intro w_one db_write.run) (simp add: run_write_def)
  show ?thesis
  proof (cases "row_get pr_id i (runs s)")
    case None
    then show ?thesis using 1 by (simp add: open_gate_def exec)
  next
    case (Some run)
    let ?s2 = "?s1\<lparr>tick := Suc (Suc (Suc (tick s)))\<rparr>"
    let ?g = "\<lparr> rg_id = uuids s (Suc (tick s)), rg_workspace_id = pr_workspace_id run, rg_pipeline_run_id = i,
       rg_content_version_id = v, rg_stage = st, rg_status = AWAITING,
       rg_requested_at = clock s (Suc (Suc (tick s))), rg_timeout_at = Some (clock s (tick s) + of_int t),
       rg_decided_at = None, rg_decided_by = None, rg_escalation_level = 0 \<rparr>"
    let ?s3 = "snd (add_gate ?g ?s2)"
    have 2: "writes ?s1 ?s2" by (rule w_tick) simp
    have 3: "writes ?s2 ?s3"
      using assms by (intro w_add_gate) (auto simp: awaiting_gates_def list_ex_iff filter_empty_conv)
    have 4: "writes ?s3 (snd (announce_gate i st (uuids s (Suc (tick s))) (clock s (tick s) + of_int t) ?s3))"
      using w_gate_tail(2) by (simp add: steps_def)
    have "snd (open_gate i st t v s) = snd (announce_gate i st (uuids s (Suc (tick s))) (clock s (tick s) + of_int t) ?s3)"
      using Some by (simp add: open_gate_def set_run_def the_run_def the_row_exec bindM_exec andThen_exec modifyM_exec
          utcnow_exec uuid4_exec Let_def add_gate_def insert_row_def)
    then show ?thesis using 1 2 3 4 by (metis rtranclp_trans)
  qed
qed

lemma w_pause_for_review [steps_intro]: "steps writes (pause_for_review i st t)"
  by (auto simp: steps_def pause_for_review_def the_run_def the_row_exec bindM_exec raise_exec ret_exec query_one_exec
      gets_exec scalar_one_or_none_None intro: w_open_gate split: option.split sum.split)

lemma w_controller [steps_intro]:
  "steps writes (finish_succeeded i tr st)" "steps writes (advance_or_finish i st tg c)"
  "steps writes (handle_stage_success i st rc)" "steps writes (fail_run i m)"
  "steps writes (trigger_compensation i)" "steps writes (run_compensation_stage i st)"
  "steps writes (dead_letter_run i st n m sd)" "steps writes (handle_stage_failure i st n m)"
  "steps writes (handle_stage_timeout i st)" "steps writes (cancel_run i)"
  "steps writes (resume_from_review g b)" "steps writes (gate_event ty gt orn trc pl)"
  "steps writes (handle_review_timeout g)" "steps writes (submit_review_decision g u b nt)"
  unfolding finish_succeeded_def advance_or_finish_def handle_stage_success_def fail_run_def
    trigger_compensation_def run_compensation_stage_def dead_letter_run_def handle_stage_failure_def
    handle_stage_timeout_def cancel_run_def resume_from_review_def gate_event_def handle_review_timeout_def
    submit_review_decision_def
  by (intro steps_intro; simp add: write_preds)+

section \<open>Footprint: what the controller leaves alone\<close>

text \<open>
  An observation of the database that does not look at runs, jobs, gates, reservations, dead letters,
  events and the counter.
\<close>

definition blind :: "(db \<Rightarrow> 'v) \<Rightarrow> bool" where
  "blind f \<longleftrightarrow> (\<forall>s n. f (s\<lparr>tick := n\<rparr>) = f s) \<and> (\<forall>s n es. f (s\<lparr>tick := n, events := es\<rparr>) = f s)
     \<and> (\<forall>s g. f (runs_update g s) = f s) \<and> (\<forall>s g. f (jobs_update g s) = f s)
     \<and> (\<forall>s g. f (gates_update g s) = f s) \<and> (\<forall>s g. f (reservations_update g s) = f s)
     \<and> (\<forall>s g. f (dead_letters_update g s) = f s)"

lemma blindD:
  assumes "blind f"
  shows "f (s\<lparr>tick := n\<rparr>) = f s" "f (s\<lparr>tick := n, events := es\<rparr>) = f s" "f (runs_update g1 s) = f s"
    "f (jobs_update g2 s) = f s" "f (gates_update g3 s) = f s" "f (reservations_update g4 s) = f s"
    "f (dead_letters_update g5 s) = f s"
  using assms by (simp_all add: blind_def)

lemma blind_tables [simp]:
  "blind cfg" "blind workers" "blind assignments" "blind stage_runs" "blind spend_logs" "blind items"
  "blind claim_audits" "blind recovery_audits" "blind effect_keys" "blind decisions" "blind checkpoints"
  "blind consumers" "blind wstages" "blind transitions" "blind caps" "blind locks" "blind limits"
  by (simp_all add: blind_def)

lemma keeps_controller [steps_intro]:
  assumes b: "blind f"
  shows "keeps f (reserve_spend i st p c)" "keeps f (release_spend i q)" "keeps f (release_all_reservations i)"
    "keeps f (pause_for_review i st t)" "keeps f (advance_or_finish i st tg cx)"
    "keeps f (handle_stage_success i st rc)" "keeps f (fail_run i m)" "keeps f (trigger_compensation i)"
    "keeps f (dead_letter_run i st n m sd)" "keeps f (handle_stage_failure i st n m)"
    "keeps f (handle_stage_timeout i st)" "keeps f (resume_from_review g bb)" "keeps f (handle_review_timeout g)"
proof -
  note b = blindD [OF b]
  show r: "keeps f (reserve_spend i st p c)" "keeps f (release_spend i q)" "keeps f (release_all_reservations i)"
    for i st p c q by (intro steps_intro; simp add: b)+
  show pause: "keeps f (pause_for_review i st t)" for i st t
    unfolding pause_for_review_def open_gate_def announce_gate_def add_timer_def run_correlation_id_def
    by (intro steps_intro; simp add: b)
  show adv: "keeps f (advance_or_finish i st tg cx)" for i st tg cx
    unfolding advance_or_finish_def finish_succeeded_def by (intro pause steps_intro; simp add: b)
  show "keeps f (handle_stage_success i st rc)"
    unfolding handle_stage_success_def by (intro adv steps_intro)
  show fail: "keeps f (fail_run i m)" for i m
    unfolding fail_run_def by (intro r steps_intro; simp add: b)
  show comp: "keeps f (trigger_compensation i)" for i
    unfolding trigger_compensation_def run_correlation_id_def by (intro steps_intro; simp add: b)
  show dead: "keeps f (dead_letter_run i st n m sd)" for i st n m sd
    unfolding dead_letter_run_def by (intro fail comp steps_intro; simp add: b)
  show sf: "keeps f (handle_stage_failure i st n m)" for i st n m
    unfolding handle_stage_failure_def by (intro dead steps_intro; simp add: b)
  show "keeps f (handle_stage_timeout i st)"
    unfolding handle_stage_timeout_def by (intro sf steps_intro; simp add: b)
  show "keeps f (resume_from_review g bb)"
    unfolding resume_from_review_def by (intro adv fail steps_intro; simp add: b)
  show "keeps f (handle_review_timeout g)"
    unfolding handle_review_timeout_def gate_event_def add_timer_def run_correlation_id_def
    by (intro fail steps_intro; simp add: b)
qed

section \<open>Observing one run\<close>

definition run_view :: "(PipelineRun \<Rightarrow> 'v) \<Rightarrow> uuid \<Rightarrow> db \<Rightarrow> 'v option" where
  "run_view g i s = map_option g (row_get pr_id i (runs s))"

lemma run_view_map_of: "run_view g i s = map_of (map (\<lambda>r. (pr_id r, g r)) (runs s)) i"
  by (simp add: run_view_def row_get_map_of)

lemma run_view_Some: "run_view g i s = Some v \<longleftrightarrow> (\<exists>r. row_get pr_id i (runs s) = Some r \<and> g r = v)"
  by (auto simp: run_view_def)

lemma run_view_cong:
  "map (\<lambda>r. (pr_id r, g r)) (runs s') = map (\<lambda>r. (pr_id r, g r)) (runs s) \<Longrightarrow> run_view g i s' = run_view g i s"
  by (simp add: run_view_map_of)

text \<open>What the trace and correlation bookkeeping leaves of a run: its lifecycle fields.\<close>

abbreviation life :: "PipelineRun \<Rightarrow> PipelineRunStatus \<times> string option \<times> stage \<times> datetime option \<times> uuid option" where
  "life r \<equiv> (pr_status r, pr_pause_reason r, pr_current_stage r, pr_completed_at r, pr_definition_id r)"

definition lives :: "db \<Rightarrow> (uuid \<times> PipelineRunStatus \<times> string option \<times> stage \<times> datetime option \<times> uuid option) list" where
  "lives s = map (\<lambda>r. (pr_id r, life r)) (runs s)"

lemma lives_simps [simp]:
  "lives (s\<lparr>tick := n\<rparr>) = lives s" "lives (s\<lparr>tick := n, events := es\<rparr>) = lives s" "lives (jobs_update g1 s) = lives s"
  "lives (gates_update g2 s) = lives s" "lives (reservations_update g3 s) = lives s"
  "lives (dead_letters_update g4 s) = lives s" "lives (assignments_update g5 s) = lives s"
  "lives (spend_logs_update g6 s) = lives s"
  "lives (runs_update (row_set pr_id i (pr_trace_id_update h)) s) = lives s"
  "lives (runs_update (row_set pr_id i (pr_correlation_id_update h')) s) = lives s"
  by (simp_all add: lives_def)

lemma lives_view: "lives s' = lives s \<Longrightarrow> run_view life i s' = run_view life i s"
  unfolding lives_def by (rule run_view_cong)

lemma keeps_lives [steps_intro]:
  "keeps lives (release_all_reservations i)" "keeps lives (release_spend i q)" "keeps lives (enqueue_stage i st n dt)"
  "keeps lives (announce_gate i st g due)" "keeps lives (finish_succeeded i tr st)"
  "keeps lives (trace_run i)" "keeps lives (emit_run ty i tr p)" "keeps lives (gate_event ty gt orn tr pl)"
  "keeps lives (add_timer w gg due' c tt)" "keeps lives (commit_spend i q ca)"
  unfolding announce_gate_def finish_succeeded_def gate_event_def add_timer_def run_correlation_id_def
  by (intro steps_intro; simp)+

text \<open>The tail \<open>child_span\<close>, write the trace, \<open>emit\<close> of an operation, as one step.\<close>

lemma trace_emit:
  assumes "row_get pr_id i (runs s) \<noteq> None"
  shows "\<exists>tr s1 s2 e. trace_run i s = (Inr tr, s1) \<and> emit_run ty i tr p s1 = (Inr (), s2)
    \<and> events s1 = events s \<and> events s2 = events s @ [e] \<and> ev_event_type e = ty \<and> ev_aggregate_id e = i
    \<and> ev_payload e = p \<and> map pr_id (runs s2) = map pr_id (runs s) \<and> reservations s2 = reservations s"
proof -
  obtain r where r: "row_get pr_id i (runs s) = Some r" using assms by blast
  obtain tr n where t: "trace_run i s = (Inr tr,
      runs_update (row_set pr_id i (\<lambda>r. r\<lparr>pr_trace_id := Some (fst tr)\<rparr>)) (s\<lparr>tick := n\<rparr>))"
    using trace_run_Inr [OF r] by blast
  let ?s1 = "runs_update (row_set pr_id i (\<lambda>r. r\<lparr>pr_trace_id := Some (fst tr)\<rparr>)) (s\<lparr>tick := n\<rparr>)"
  have "row_get pr_id i (runs ?s1) = Some (r\<lparr>pr_trace_id := Some (fst tr)\<rparr>)" using r by simp
  from emit_run_Inr [OF this, of ty tr p] obtain n' e where
    "emit_run ty i tr p ?s1 = (Inr (), ?s1\<lparr>tick := n', events := events ?s1 @ [e]\<rparr>)"
    "ev_event_type e = ty" "ev_aggregate_id e = i" "ev_payload e = p" by blast
  with t show ?thesis
    by (intro exI [of _ tr] exI [of _ ?s1] exI [of _ "?s1\<lparr>tick := n', events := events ?s1 @ [e]\<rparr>"] exI [of _ e]) simp
qed

section \<open>Properties: failing a run\<close>

lemma fail_run_result:
  assumes "has_row pr_id i (runs s)" "distinct (map sr_id (reservations s))"
  shows "\<exists>s' now. fail_run i m s = (Inr (), s') \<and> open_reservations i s' = []
    \<and> run_view (\<lambda>r. (pr_status r, pr_completed_at r)) i s' = Some (PipelineRunStatus.FAILED, Some now)
    \<and> logged PIPELINE_FAILED i (JObj [(''reason'', JStr m)]) s' \<and> map pr_id (runs s') = map pr_id (runs s)
    \<and> map sr_id (reservations s') = map sr_id (reservations s)"
proof -
  let ?s1 = "runs_update (row_set pr_id i (\<lambda>r. r\<lparr>pr_status := PipelineRunStatus.FAILED\<rparr>)) s"
  let ?now = "clock s (tick s)"
  let ?s2 = "runs_update (row_set pr_id i (\<lambda>r. r\<lparr>pr_completed_at := Some ?now\<rparr>)) (?s1\<lparr>tick := Suc (tick s)\<rparr>)"
  obtain run where run: "row_get pr_id i (runs s) = Some run" using assms(1) by (auto simp: has_row_get)
  then have "row_get pr_id i (runs ?s2) \<noteq> None" by simp
  from trace_emit [OF this, of PIPELINE_FAILED "JObj [(''reason'', JStr m)]"] obtain tr s3 s4 e where
    3: "trace_run i ?s2 = (Inr tr, s3)" and 4: "emit_run PIPELINE_FAILED i tr (JObj [(''reason'', JStr m)]) s3 = (Inr (), s4)"
    and e: "events s4 = events ?s2 @ [e]" "ev_event_type e = PIPELINE_FAILED" "ev_aggregate_id e = i"
      "ev_payload e = JObj [(''reason'', JStr m)]"
    and ids: "map pr_id (runs s4) = map pr_id (runs ?s2)" and res: "reservations s4 = reservations ?s2" by blast
  have h: "has_row pr_id i (runs s4)" "distinct (map sr_id (reservations s4))"
    using assms ids res by (simp_all add: has_row_def del: set_map)
  from release_all_scoped [OF h] obtain s5 where 5: "release_all_reservations i s4 = (Inr (), s5)"
    and none: "open_reservations i s5 = []" by blast
  from release_all_result [OF h] 5 have keys: "map sr_id (reservations s5) = map sr_id (reservations s4)"
    and ids5: "map pr_id (runs s5) = map pr_id (runs s4)" by (auto simp: comp_def)
  have fr: "fail_run i m s = (Inr (), s5)"
    using 3 4 5 by (simp add: fail_run_def set_run_def andThen_exec bindM_exec modifyM_exec utcnow_exec)
  have l: "lives s5 = lives ?s2"
    using keepsD' [OF keeps_lives(6) 3] keepsD' [OF keeps_lives(7) 4] keepsD' [OF keeps_lives(1) 5] by simp
  have "run_view life i s5 = run_view life i ?s2" using l by (rule lives_view)
  then have v: "run_view (\<lambda>r. (pr_status r, pr_completed_at r)) i s5 = Some (PipelineRunStatus.FAILED, Some ?now)"
    using run by (auto simp: run_view_def)
  have "logged PIPELINE_FAILED i (JObj [(''reason'', JStr m)]) s4" using e by (simp add: logged_def)
  then have "logged PIPELINE_FAILED i (JObj [(''reason'', JStr m)]) s5"
    by (rule logged_grows [OF steps_history [OF w_spend(1) 5]])
  with fr none v ids ids5 keys res show ?thesis by (intro exI [of _ s5] exI [of _ ?now]) simp
qed

text \<open>
  Failing a run always succeeds and settles it: status \<open>FAILED\<close> with a completion time, a
  \<open>pipeline.failed\<close> event carrying the reason in the log, and none of its spend reservations left open.
\<close>

theorem fail_run_settles:
  assumes "has_row pr_id i (runs s)" "distinct (map sr_id (reservations s))"
  shows "\<exists>s' run. fail_run i m s = (Inr (), s') \<and> row_get pr_id i (runs s') = Some run
    \<and> pr_status run = PipelineRunStatus.FAILED \<and> pr_completed_at run \<noteq> None \<and> open_reservations i s' = []
    \<and> logged PIPELINE_FAILED i (JObj [(''reason'', JStr m)]) s'"
proof -
  obtain s' now where "fail_run i m s = (Inr (), s')" "open_reservations i s' = []"
    "run_view (\<lambda>r. (pr_status r, pr_completed_at r)) i s' = Some (PipelineRunStatus.FAILED, Some now)"
    "logged PIPELINE_FAILED i (JObj [(''reason'', JStr m)]) s'"
    using fail_run_result [OF assms] by blast
  then show ?thesis by (auto simp: run_view_Some)
qed

lemma fail_run_settles_witness:
  "\<exists>s' run. fail_run 10 ''boom'' reserved_db = (Inr (), s') \<and> row_get pr_id 10 (runs s') = Some run
    \<and> pr_status run = PipelineRunStatus.FAILED \<and> open_reservations 10 s' = []"
  using fail_run_settles [OF reserved_db_rows(1,2)] by blast

section \<open>Properties: cancelling\<close>

definition cancelled :: "uuid set \<Rightarrow> StageAssignment \<Rightarrow> StageAssignment" where
  "cancelled ids a = (if sa_id a \<in> ids then a\<lparr>sa_status := StageAssignmentStatus.CANCELLED\<rparr> else a)"

lemma forM_step: "f x s = (Inr (), s1) \<Longrightarrow> forM (x # xs) f s = forM xs f s1"
  by (simp add: andThen_exec)

lemma cancel_loop:
  "forM as (\<lambda>a. set_assignment (sa_id a) (sa_status_update (\<lambda>_. StageAssignmentStatus.CANCELLED))) s
   = (Inr (), assignments_update (map (cancelled (sa_id ` set as))) s)"
proof (induction as arbitrary: s)
  case Nil
  have "cancelled {} = (\<lambda>a. a)" by (simp add: cancelled_def fun_eq_iff)
  then show ?case by (cases s) (simp add: ret_exec)
next
  case (Cons a as)
  have "cancelled (sa_id ` set as) (if sa_id x = sa_id a then x\<lparr>sa_status := StageAssignmentStatus.CANCELLED\<rparr> else x)
      = cancelled (sa_id ` set (a # as)) x" for x by (auto simp: cancelled_def)
  then have eq: "map (cancelled (sa_id ` set as)) \<circ> row_set sa_id (sa_id a) (sa_status_update (\<lambda>_. StageAssignmentStatus.CANCELLED))
      = map (cancelled (sa_id ` set (a # as)))" by (auto simp: row_set_def fun_eq_iff)
  have step: "forM (a # as) (\<lambda>a. set_assignment (sa_id a) (sa_status_update (\<lambda>_. StageAssignmentStatus.CANCELLED))) s
      = forM as (\<lambda>a. set_assignment (sa_id a) (sa_status_update (\<lambda>_. StageAssignmentStatus.CANCELLED)))
          (assignments_update (row_set sa_id (sa_id a) (sa_status_update (\<lambda>_. StageAssignmentStatus.CANCELLED))) s)"
    by (rule forM_step) (rule store_exec(2))
  show ?case unfolding step Cons.IH eq [symmetric] by (simp add: o_def)
qed

definition cancelling :: "uuid \<Rightarrow> StageAssignment \<Rightarrow> StageAssignment" where
  "cancelling i a = (if sa_pipeline_run_id a = i \<and> open_assignment (sa_status a)
     then a\<lparr>sa_status := StageAssignmentStatus.CANCELLED\<rparr> else a)"

lemma cancelled_open:
  assumes "distinct (map sa_id as)"
  shows "map (cancelled (sa_id ` set (filter (\<lambda>a. sa_pipeline_run_id a = i \<and> open_assignment (sa_status a)) as))) as
    = map (cancelling i) as"
proof (rule map_cong [OF refl])
  fix a assume a: "a \<in> set as"
  have "sa_id a \<in> sa_id ` A \<longleftrightarrow> a \<in> A" if "A \<subseteq> set as" for A
    using assms a that by (auto simp: distinct_map inj_on_def)
  moreover have "set (filter (\<lambda>a. sa_pipeline_run_id a = i \<and> open_assignment (sa_status a)) as) \<subseteq> set as" by auto
  ultimately show "cancelled (sa_id ` set (filter (\<lambda>a. sa_pipeline_run_id a = i \<and> open_assignment (sa_status a)) as)) a
      = cancelling i a"
    using a by (simp add: cancelled_def cancelling_def)
qed

lemma cancel_run_result:
  assumes "row_get pr_id i (runs s) = Some run" "\<not> run_terminal (pr_status run)"
    and "distinct (map sr_id (reservations s))" "distinct (map sa_id (assignments s))"
  shows "\<exists>s' now. cancel_run i s = (Inr (), s') \<and> open_reservations i s' = []
    \<and> run_view (\<lambda>r. (pr_status r, pr_completed_at r)) i s' = Some (PipelineRunStatus.CANCELLED, Some now)
    \<and> assignments s' = map (cancelling i) (assignments s) \<and> workers s' = workers s"
proof -
  let ?s0 = "assignments_update (map (cancelled (sa_id ` set (filter (\<lambda>a. sa_pipeline_run_id a = i
      \<and> open_assignment (sa_status a)) (assignments s))))) s"
  let ?s1 = "runs_update (row_set pr_id i (\<lambda>r. r\<lparr>pr_status := PipelineRunStatus.CANCELLED\<rparr>)) ?s0"
  let ?now = "clock s (tick s)"
  let ?s2 = "runs_update (row_set pr_id i (\<lambda>r. r\<lparr>pr_completed_at := Some ?now\<rparr>)) (?s1\<lparr>tick := Suc (tick s)\<rparr>)"
  have r2: "row_get pr_id i (runs ?s2)
      = Some (run\<lparr>pr_status := PipelineRunStatus.CANCELLED, pr_completed_at := Some ?now\<rparr>)"
    using assms(1) by simp
  from trace_run_Inr [OF r2] obtain tr n where 3: "trace_run i ?s2 = (Inr tr,
      runs_update (row_set pr_id i (\<lambda>r. r\<lparr>pr_trace_id := Some (fst tr)\<rparr>)) (?s2\<lparr>tick := n\<rparr>))" by blast
  let ?s3 = "runs_update (row_set pr_id i (\<lambda>r. r\<lparr>pr_trace_id := Some (fst tr)\<rparr>)) (?s2\<lparr>tick := n\<rparr>)"
  have h: "has_row pr_id i (runs ?s3)" "distinct (map sr_id (reservations ?s3))"
    using assms(1) unfolding has_row_get by simp (use assms(3) in simp)
  from release_all_scoped [OF h] obtain s4 where 4: "release_all_reservations i ?s3 = (Inr (), s4)"
    and none: "open_reservations i s4 = []" by blast
  have "map pr_id (runs s4) = map pr_id (runs ?s3)" by (rule keepsD' [OF keeps_release_spend(2) 4]) simp_all
  with h(1) have "has_row pr_id i (runs s4)" by (simp only: has_row_def)
  then obtain r4 where "row_get pr_id i (runs s4) = Some r4" unfolding has_row_get by blast
  from emit_run_Inr [OF this, of PIPELINE_CANCELLED tr "JObj []"] obtain n' e where
    5: "emit_run PIPELINE_CANCELLED i tr (JObj []) s4 = (Inr (), s4\<lparr>tick := n', events := events s4 @ [e]\<rparr>)" by blast
  let ?s5 = "s4\<lparr>tick := n', events := events s4 @ [e]\<rparr>"
  have c: "cancel_run i s = (Inr (), ?s5)"
    using assms(1,2) 3 4 5 by (simp add: cancel_run_def the_run_def the_row_exec set_run_def andThen_exec bindM_exec
        modifyM_exec utcnow_exec gets_exec cancel_loop)
  have l: "lives s4 = lives ?s2"
    using keepsD' [OF keeps_lives(6) 3] keepsD' [OF keeps_lives(1) 4] by simp
  have "run_view life i ?s5 = run_view life i ?s2" by (rule lives_view) (simp add: l)
  then have v: "run_view (\<lambda>r. (pr_status r, pr_completed_at r)) i ?s5 = Some (PipelineRunStatus.CANCELLED, Some ?now)"
    using r2 by (auto simp: run_view_def)
  have "assignments s4 = assignments ?s0" "workers s4 = workers s"
    using keepsD' [OF keeps_controller(3) [of assignments] 4] keepsD' [OF keeps_controller(3) [of workers] 4] by simp_all
  then show ?thesis
    using c none v cancelled_open [OF assms(4), of i]
    by (intro exI [of _ ?s5] exI [of _ ?now]) (simp add: open_reservations_def)
qed

text \<open>
  C17: Cancelling a live run leaves it \<open>CANCELLED\<close> with none of its assignments open and none of its
  reservations held, and cancelling it once more changes nothing. Other runs' assignments stay as they are.
\<close>

theorem cancel_run_settles:
  assumes "row_get pr_id i (runs s) = Some run" "\<not> run_terminal (pr_status run)"
    and "distinct (map sr_id (reservations s))" "distinct (map sa_id (assignments s))"
  shows "\<exists>s' run'. cancel_run i s = (Inr (), s') \<and> row_get pr_id i (runs s') = Some run'
    \<and> pr_status run' = PipelineRunStatus.CANCELLED \<and> open_reservations i s' = []
    \<and> (\<forall>a \<in> set (assignments s'). sa_pipeline_run_id a = i \<longrightarrow> \<not> open_assignment (sa_status a))
    \<and> filter (\<lambda>a. sa_pipeline_run_id a \<noteq> i) (assignments s') = filter (\<lambda>a. sa_pipeline_run_id a \<noteq> i) (assignments s)
    \<and> cancel_run i s' = (Inr (), s')"
proof -
  obtain s' now where c: "cancel_run i s = (Inr (), s')" and none: "open_reservations i s' = []"
    and v: "run_view (\<lambda>r. (pr_status r, pr_completed_at r)) i s' = Some (PipelineRunStatus.CANCELLED, Some now)"
    and as: "assignments s' = map (cancelling i) (assignments s)"
    using cancel_run_result [OF assms] by blast
  obtain run' where run': "row_get pr_id i (runs s') = Some run'" "pr_status run' = PipelineRunStatus.CANCELLED"
    using v by (auto simp: run_view_Some)
  have "\<not> open_assignment (sa_status (cancelling i a))" if "sa_pipeline_run_id (cancelling i a) = i" for a
    using that by (auto simp: cancelling_def open_assignment_def)
  moreover have "filter (\<lambda>a. sa_pipeline_run_id a \<noteq> i) (map (cancelling i) xs) = filter (\<lambda>a. sa_pipeline_run_id a \<noteq> i) xs" for xs
    by (induction xs) (auto simp: cancelling_def)
  moreover have "cancel_run i s' = (Inr (), s')"
    using run' by (simp add: cancel_run_def the_run_def the_row_exec bindM_exec ret_exec)
  ultimately show ?thesis using c none run' as by (intro exI [of _ s'] exI [of _ run']) auto
qed

lemma cancel_run_settles_witness:
  "\<exists>s'. cancel_run 10 (reserved_db\<lparr>assignments := [sample_assignment]\<rparr>) = (Inr (), s')
    \<and> map sa_status (assignments s') = [StageAssignmentStatus.CANCELLED] \<and> cancel_run 10 s' = (Inr (), s')"
proof -
  let ?s = "reserved_db\<lparr>assignments := [sample_assignment]\<rparr>"
  have p: "row_get pr_id 10 (runs ?s) = Some sample_run" "\<not> run_terminal (pr_status sample_run)"
    "distinct (map sr_id (reservations ?s))" "distinct (map sa_id (assignments ?s))"
    using reserved_db_rows by (simp_all add: sample_run_def)
  from cancel_run_result [OF p] obtain s' where "cancel_run 10 ?s = (Inr (), s')"
    "assignments s' = map (cancelling 10) (assignments ?s)" by blast
  with cancel_run_settles [OF p] show ?thesis
    by (auto simp: cancelling_def open_assignment_def sample_assignment_def)
qed

end
