(* ===== verification/Lifecycle.thy ===== *)
theory Lifecycle imports Controller begin

text \<open>
  Properties of the run lifecycle: where advancing takes a run, that a terminal run stays, and what a
  stage failure leads to.
\<close>

section \<open>Terminal runs\<close>

text \<open>
  C18: A terminal run is final for the controller: a late stage success, a stage timeout and a cancel request
  are no-ops on the whole database, and opening a review gate is refused without touching anything.
\<close>

theorem terminal_run_is_final:
  assumes "row_get pr_id i (runs s) = Some run" "run_terminal (pr_status run)"
  shows "handle_stage_success i st c s = (Inr (), s) \<and> handle_stage_timeout i st s = (Inr (), s)
    \<and> cancel_run i s = (Inr (), s) \<and> (\<exists>m. pause_for_review i st t s = (Inl (ValueError m), s))"
  using assms by (auto simp: handle_stage_success_def handle_stage_timeout_def cancel_run_def pause_for_review_def
      load_exec bindM_exec ret_exec raise_exec gets_exec run_terminal_def)

lemma terminal_run_is_final_witness:
  "handle_stage_success 10 ''scripting'' None (sample_db\<lparr>runs := [sample_run\<lparr>pr_status := PipelineRunStatus.CANCELLED\<rparr>]\<rparr>)
    = (Inr (), sample_db\<lparr>runs := [sample_run\<lparr>pr_status := PipelineRunStatus.CANCELLED\<rparr>]\<rparr>)"
  using terminal_run_is_final [of 10 "sample_db\<lparr>runs := [sample_run\<lparr>pr_status := PipelineRunStatus.CANCELLED\<rparr>]\<rparr>"
      "sample_run\<lparr>pr_status := PipelineRunStatus.CANCELLED\<rparr>"]
  by (simp add: sample_run_def)

section \<open>Opening a review gate\<close>

lemma add_timer_exec [exec]:
  "add_timer ws g due c tr s = (Inr (), jobs_update (\<lambda>js. js @
     [new_job ws REVIEW_TIMEOUT ''review_gates'' g due 0 0 c tr (uuids s (tick s)) (clock s (Suc (tick s)))])
     (s\<lparr>tick := Suc (Suc (tick s))\<rparr>))"
  by (simp add: add_timer_def exec)

lemma announce_gate_result:
  assumes "row_get pr_id i (runs s) = Some run"
  shows "\<exists>s' j. announce_gate i st g due s = (Inr g, s') \<and> gates s' = gates s \<and> lives s' = lives s
    \<and> jobs s' = jobs s @ [j] \<and> js_job_type j = REVIEW_TIMEOUT \<and> js_ref_id j = g \<and> js_run_after j = due
    \<and> js_status j = JobScheduleStatus.PENDING
    \<and> logged REVIEW_REQUESTED i (JObj [(''stage'', JStr st), (''review_gate_id'', JStr (str_uuid g))]) s'"
proof -
  obtain c n where 1: "or_uuid4 (pr_correlation_id run) s = (Inr c, s\<lparr>tick := n\<rparr>)" using or_uuid4_Inr by blast
  let ?j = "new_job (pr_workspace_id run) REVIEW_TIMEOUT ''review_gates'' g due 0 0 (Some c) (pr_trace_id run)
    (uuids s n) (clock s (Suc n))"
  let ?s1 = "jobs_update (\<lambda>js. js @ [?j]) (s\<lparr>tick := Suc (Suc n)\<rparr>)"
  let ?p = "JObj [(''stage'', JStr st), (''review_gate_id'', JStr (str_uuid g))]"
  have "row_get pr_id i (runs ?s1) \<noteq> None" using assms by simp
  from trace_emit [OF this, of REVIEW_REQUESTED ?p] obtain tr s2 s3 e where
    2: "trace_run i ?s1 = (Inr tr, s2)" and 3: "emit_run REVIEW_REQUESTED i tr ?p s2 = (Inr (), s3)"
    and e: "events s3 = events ?s1 @ [e]" "ev_event_type e = REVIEW_REQUESTED" "ev_aggregate_id e = i" "ev_payload e = ?p"
    by blast
  have a: "announce_gate i st g due s = (Inr g, s3)"
    using assms 1 2 3 by (simp add: announce_gate_def run_correlation_id_def load_exec bindM_exec andThen_exec
        add_timer_exec ret_exec)
  have "keeps (\<lambda>s. (gates s, jobs s, lives s)) (trace_run i)" "keeps (\<lambda>s. (gates s, jobs s, lives s)) (emit_run REVIEW_REQUESTED i tr ?p)"
    by (intro steps_intro; simp)+
  from keepsD' [OF this(1) 2] keepsD' [OF this(2) 3]
  have "gates s3 = gates s" "jobs s3 = jobs s @ [?j]" "lives s3 = lives s" by auto
  with a e show ?thesis
    by (intro exI [of _ s3] exI [of _ ?j]) (simp add: new_job_def logged_def)
qed

lemma open_gate_result:
  assumes "row_get pr_id i (runs s) = Some run"
  shows "\<exists>s' g j. open_gate i st t v s = (Inr (rg_id g), s') \<and> gates s' = gates s @ [g]
    \<and> rg_pipeline_run_id g = i \<and> rg_status g = AWAITING \<and> rg_stage g = st \<and> rg_content_version_id g = v
    \<and> rg_escalation_level g = 0 \<and> rg_id g = uuids s (Suc (tick s))
    \<and> run_view life i s' = Some (PAUSED, Some ''review_gate'', pr_current_stage run, pr_completed_at run, pr_definition_id run)
    \<and> jobs s' = jobs s @ [j] \<and> js_job_type j = REVIEW_TIMEOUT \<and> js_ref_id j = rg_id g
    \<and> rg_timeout_at g = Some (js_run_after j) \<and> js_run_after j = clock s (tick s) + of_int t
    \<and> js_status j = JobScheduleStatus.PENDING"
proof -
  let ?f = "\<lambda>r. r\<lparr> pr_status := PAUSED, pr_pause_reason := Some (pause_reason_value PauseReason.REVIEW_GATE) \<rparr>"
  let ?due = "clock s (tick s) + of_int t" and ?k = "uuids s (Suc (tick s))"
  let ?g = "\<lparr> rg_id = ?k, rg_workspace_id = pr_workspace_id run, rg_pipeline_run_id = i,
       rg_content_version_id = v, rg_stage = st, rg_status = AWAITING,
       rg_requested_at = clock s (Suc (Suc (tick s))), rg_timeout_at = Some ?due,
       rg_decided_at = None, rg_decided_by = None, rg_escalation_level = 0 \<rparr>"
  let ?s1 = "gates_update (\<lambda>gs. gs @ [?g]) ((runs_update (row_set pr_id i ?f) s)\<lparr>tick := Suc (Suc (Suc (tick s)))\<rparr>)"
  have r: "row_get pr_id i (runs ?s1) = Some (?f run)" using assms by simp
  from announce_gate_result [OF r, of st ?k ?due] obtain s2 j where
    2: "announce_gate i st ?k ?due ?s1 = (Inr ?k, s2)" and gs: "gates s2 = gates ?s1" and l: "lives s2 = lives ?s1"
    and j: "jobs s2 = jobs ?s1 @ [j]" "js_job_type j = REVIEW_TIMEOUT" "js_ref_id j = ?k" "js_run_after j = ?due"
      "js_status j = JobScheduleStatus.PENDING" by blast
  have "open_gate i st t v s = (Inr ?k, s2)"
    using assms 2 by (simp add: open_gate_def exec Let_def)
  moreover have "run_view life i s2 = run_view life i ?s1" using l by (rule lives_view)
  then have "run_view life i s2 = Some (PAUSED, Some ''review_gate'', pr_current_stage run, pr_completed_at run, pr_definition_id run)"
    unfolding run_view_def r by simp
  ultimately show ?thesis using gs j
    by (intro exI [of _ s2] exI [of _ ?g] exI [of _ j]) simp
qed

text \<open>
  Pausing for review is idempotent and leaves exactly one gate to decide: with a gate already awaiting it
  returns that gate and changes nothing; otherwise the run is \<open>PAUSED\<close> for \<open>review_gate\<close> behind one new
  \<open>AWAITING\<close> gate for the content item's current version, with one timeout job armed for the gate's deadline.
\<close>

theorem pause_for_review_gates:
  assumes "row_get pr_id i (runs s) = Some run" and "pause_for_review i st t s = (Inr k, s')"
  shows "\<not> run_terminal (pr_status run) \<and> map rg_id (awaiting_gates i s') = [k]
    \<and> (if awaiting_gates i s \<noteq> [] then s' = s
       else \<exists>item g j. row_get ci_id (pr_content_item_id run) (items s) = Some item
         \<and> awaiting_gates i s' = [g] \<and> rg_stage g = st \<and> rg_content_version_id g = ci_current_version_id item
         \<and> run_view (\<lambda>r. (pr_status r, pr_pause_reason r)) i s' = Some (PAUSED, Some ''review_gate'')
         \<and> jobs s' = jobs s @ [j] \<and> js_job_type j = REVIEW_TIMEOUT \<and> js_ref_id j = k
         \<and> rg_timeout_at g = Some (js_run_after j))"
proof -
  have nt: "\<not> run_terminal (pr_status run)"
    using assms by (auto simp: pause_for_review_def load_exec bindM_exec raise_exec)
  obtain og where og: "scalar_one_or_none (awaiting_gates i s) = Inr og"
    using assms nt by (cases "scalar_one_or_none (awaiting_gates i s)")
      (auto simp: pause_for_review_def load_exec bindM_exec query_one_exec)
  show ?thesis
  proof (cases og)
    case (Some g)
    then have "awaiting_gates i s = [g]" using og by (simp add: scalar_one_or_none_Some)
    with assms nt show ?thesis by (auto simp: pause_for_review_def load_exec bindM_exec query_one_exec ret_exec)
  next
    case None
    then have none: "awaiting_gates i s = []" using og by (simp add: scalar_one_or_none_None)
    obtain item where item: "row_get ci_id (pr_content_item_id run) (items s) = Some item"
      using assms nt none by (auto simp: pause_for_review_def load_exec bindM_exec query_one_exec gets_exec raise_exec
          split: option.splits)
    have og: "open_gate i st t (ci_current_version_id item) s = (Inr k, s')"
      using assms nt none item by (simp add: pause_for_review_def load_exec bindM_exec query_one_exec gets_exec)
    obtain g j where "rg_id g = k" "gates s' = gates s @ [g]" "rg_pipeline_run_id g = i" "rg_status g = AWAITING"
      "rg_stage g = st" "rg_content_version_id g = ci_current_version_id item"
      "run_view life i s' = Some (PAUSED, Some ''review_gate'', pr_current_stage run, pr_completed_at run, pr_definition_id run)"
      "jobs s' = jobs s @ [j]" "js_job_type j = REVIEW_TIMEOUT" "js_ref_id j = rg_id g" "rg_timeout_at g = Some (js_run_after j)"
      using open_gate_result [OF assms(1), of st t "ci_current_version_id item"] og by auto
    moreover from this none have "awaiting_gates i s' = [g]" by (simp add: awaiting_gates_def)
    ultimately show ?thesis using nt none item by (auto simp: run_view_Some)
  qed
qed

lemma pause_for_review_gates_witness:
  "\<exists>k s'. pause_for_review 10 ''review'' 600 sample_db = (Inr k, s') \<and> map rg_id (awaiting_gates 10 s') = [k]"
proof -
  have row: "row_get pr_id 10 (runs sample_db) = Some sample_run" by (simp add: sample_run_def)
  have "pause_for_review 10 ''review'' 600 sample_db = open_gate 10 ''review'' 600 None sample_db"
    by (simp add: pause_for_review_def exec awaiting_gates_def fixture)
  then obtain k s' where 1: "pause_for_review 10 ''review'' 600 sample_db = (Inr k, s')"
    using open_gate_result [OF row, of "''review''" 600 None] by auto
  have "map rg_id (awaiting_gates 10 s') = [k]"
    using pause_for_review_gates [OF row 1] by (elim conjE)
  with 1 show ?thesis by (intro exI conjI)
qed

end

