(* ===== verification/Dispatcher.thy ===== *)
theory Dispatcher imports Lifecycle begin

text \<open>
  The dispatcher, \<open>orchestration/dispatcher.py\<close>: choosing a worker and creating an assignment
  (\<open>dispatch_stage\<close>), the lease of an assignment (\<open>acknowledge\<close>, \<open>renew_lease\<close>), and the result a worker
  reports (\<open>submit_result\<close>). An assignment, a worker, a run is passed by its key. A lock taken with
  \<open>FOR UPDATE\<close> is the atomicity of a step; the rows other transactions hold, which \<open>SKIP LOCKED\<close> leaves out,
  are \<open>locks\<close>.
\<close>

definition DEFAULT_MAX_CONCURRENT_ASSIGNMENTS :: int where
  "DEFAULT_MAX_CONCURRENT_ASSIGNMENTS = 10"

datatype DispatchOutcome = DISPATCHED | IDEMPOTENT | NO_WORKER | BACKPRESSURE | SPEND_HOLD | SKIPPED

record DispatchResult =
  dr_outcome :: DispatchOutcome
  dr_assignment :: "uuid option"

section \<open>Leases\<close>

definition lease_seconds_setting :: "Settings \<Rightarrow> int" where
  "lease_seconds_setting c = assignment_lease_seconds c"

definition max_lease_seconds_setting :: "Settings \<Rightarrow> int" where
  "max_lease_seconds_setting c = assignment_max_lease_seconds c"

text \<open>\<open>assignment.lease_started_at or assignment.dispatched_at or now\<close>.\<close>

definition lease_start :: "StageAssignment \<Rightarrow> datetime \<Rightarrow> datetime" where
  "lease_start a now = the_or (sa_lease_started_at a) (the_or (sa_dispatched_at a) now)"

definition assert_lease_extendable :: "uuid \<Rightarrow> uuid \<Rightarrow> datetime option \<Rightarrow> int option \<Rightarrow> unit M" where
  "assert_lease_extendable assignment_id worker_id now_arg lease_seconds =
     bindM (now_or_utcnow now_arg) (\<lambda>now.
     bindM (gets (\<lambda>s. the_or lease_seconds (lease_seconds_setting (cfg s)))) (\<lambda>seconds.
     bindM (gets (\<lambda>s. max_lease_seconds_setting (cfg s))) (\<lambda>max_seconds.
     bindM (the_assignment assignment_id) (\<lambda>a.
     if sa_worker_id a \<noteq> Some worker_id then raise LeaseNotOwned
     else if \<not> in_flight (sa_status a) then
       raise (LeaseConflict ''invalid_status'' (''assignment status is ''
         @ stage_assignment_status_value (sa_status a) @ '', expected dispatched or acknowledged''))
     else if (case sa_lease_expires_at a of None \<Rightarrow> True | Some e \<Rightarrow> e < now) then
       raise (LeaseConflict ''lease_expired'' ''lease has expired; assignment is eligible for recovery'')
     else if now + of_int seconds > lease_start a now + of_int max_seconds then
       raise (LeaseConflict ''max_lease_exceeded'' ''renewal would exceed the maximum total lease duration'')
     else ret ()))))"

definition extend_lease :: "uuid \<Rightarrow> datetime \<Rightarrow> int \<Rightarrow> unit M" where
  "extend_lease assignment_id now seconds =
     set_assignment assignment_id (\<lambda>a. a\<lparr> sa_lease_expires_at := Some (now + of_int seconds),
       sa_lease_started_at := (case sa_lease_started_at a of
          None \<Rightarrow> Some (the_or (sa_dispatched_at a) now) | Some t \<Rightarrow> Some t),
       sa_lease_extension_count := sa_lease_extension_count a + 1 \<rparr>)"

definition acknowledge :: "uuid \<Rightarrow> int option \<Rightarrow> uuid option \<Rightarrow> datetime option \<Rightarrow> unit M" where
  "acknowledge assignment_id lease_seconds worker_id now_arg =
     bindM (now_or_utcnow now_arg) (\<lambda>now.
     bindM (gets (\<lambda>s. the_or lease_seconds (lease_seconds_setting (cfg s)))) (\<lambda>seconds.
     andThen (case worker_id of
         None \<Rightarrow> ret ()
       | Some w \<Rightarrow>
           andThen (assert_lease_extendable assignment_id w (Some now) (Some seconds)) (
           bindM (the_assignment assignment_id) (\<lambda>a.
           if sa_status a \<noteq> StageAssignmentStatus.DISPATCHED
           then raise (LeaseConflict ''invalid_status'' (''ack requires dispatched, got ''
                  @ stage_assignment_status_value (sa_status a)))
           else ret ()))) (
     andThen (set_assignment assignment_id (\<lambda>a. a\<lparr> sa_status := ACKNOWLEDGED, sa_acknowledged_at := Some now \<rparr>))
     (extend_lease assignment_id now seconds))))"

definition renew_lease :: "uuid \<Rightarrow> int option \<Rightarrow> uuid option \<Rightarrow> datetime option \<Rightarrow> unit M" where
  "renew_lease assignment_id lease_seconds worker_id now_arg =
     bindM (now_or_utcnow now_arg) (\<lambda>now.
     bindM (gets (\<lambda>s. the_or lease_seconds (lease_seconds_setting (cfg s)))) (\<lambda>seconds.
     andThen (case worker_id of
         None \<Rightarrow> ret ()
       | Some w \<Rightarrow> assert_lease_extendable assignment_id w (Some now) (Some seconds))
     (extend_lease assignment_id now seconds)))"

section \<open>Choosing a worker\<close>

text \<open>\<open>ORDER BY ... ASC NULLS FIRST\<close>.\<close>

definition nulls_first :: "datetime option \<Rightarrow> nat \<times> datetime" where
  "nulls_first t = (case t of None \<Rightarrow> (0, 0) | Some x \<Rightarrow> (1, x))"

definition selectable :: "stage \<Rightarrow> int \<Rightarrow> WorkerRegistration \<Rightarrow> bool" where
  "selectable stage_key min_health_score w \<longleftrightarrow>
     wr_status w \<in> {ONLINE, BUSY} \<and> \<not> wr_drain w \<and> wr_deregistered_at w = None
     \<and> wr_health_score w \<ge> min_health_score \<and> stage_key \<in> set (wr_supported_stages w)
     \<and> wr_current_load w < wr_max_concurrency w"

definition worker_rank :: "WorkerRegistration \<Rightarrow> int \<times> int \<times> nat \<times> datetime" where
  "worker_rank w = (- wr_health_score w, wr_current_load w, nulls_first (wr_last_heartbeat_at w))"

definition select_worker :: "stage \<Rightarrow> int \<Rightarrow> WorkerRegistration option M" where
  "select_worker stage_key min_health_score =
     query_one (\<lambda>s. limit_rows 1 (sort_key worker_rank
       (filter (selectable stage_key min_health_score) (unlocked wr_id s (workers s)))))"

section \<open>Dispatching\<close>

definition workspace_in_flight :: "uuid \<Rightarrow> db \<Rightarrow> int" where
  "workspace_in_flight workspace_id s =
     int (length (filter (\<lambda>a. sa_workspace_id a = workspace_id \<and> in_flight (sa_status a)) (assignments s)))"

definition concurrency_cap :: "WorkspaceConcurrencyLimit option \<Rightarrow> int" where
  "concurrency_cap row = (case row of Some l \<Rightarrow> wcl_max_concurrent_assignments l | None \<Rightarrow> DEFAULT_MAX_CONCURRENT_ASSIGNMENTS)"

text \<open>The early returns of \<open>dispatch_stage\<close>: the outcome when nothing is dispatched.\<close>

definition dispatch_blocked :: "uuid \<Rightarrow> uuid \<Rightarrow> DispatchOutcome option M" where
  "dispatch_blocked workspace_id pipeline_run_id =
     bindM (concurrency_limit_row workspace_id) (\<lambda>limit_row.
     bindM (gets (workspace_in_flight workspace_id)) (\<lambda>n.
     if n \<ge> concurrency_cap limit_row then ret (Some BACKPRESSURE)
     else bindM (get_row runs pr_id pipeline_run_id) (\<lambda>run_for_spend.
       ret (case run_for_spend of
              None \<Rightarrow> None
            | Some run \<Rightarrow>
                if run_terminal (pr_status run) then Some SKIPPED
                else if pr_status run = PAUSED then
                  (if pr_pause_reason run = Some ''spend_hold'' then Some SPEND_HOLD else Some SKIPPED)
                else None))))"

definition stage_key_of_attempt :: "uuid \<Rightarrow> stage \<Rightarrow> int \<Rightarrow> string" where
  "stage_key_of_attempt pipeline_run_id st attempt_number =
     str_uuid pipeline_run_id @ '':'' @ st @ '':'' @ str_int attempt_number"

definition provider_or_default :: "string option \<Rightarrow> string" where
  "provider_or_default p = (case p of None \<Rightarrow> ''draft_desk'' | Some x \<Rightarrow> if x = [] then ''draft_desk'' else x)"

definition new_assignment ::
  "uuid \<Rightarrow> uuid \<Rightarrow> stage \<Rightarrow> int \<Rightarrow> uuid \<Rightarrow> string \<Rightarrow> int \<Rightarrow> string \<Rightarrow> uuid option \<Rightarrow> datetime \<Rightarrow> int \<Rightarrow> uuid \<Rightarrow>
   datetime \<Rightarrow> StageAssignment" where
  "new_assignment workspace_id run_id st attempt_number correlation_id trace_id priority provider worker now
     lease_seconds i created =
     \<lparr> sa_id = i, sa_workspace_id = workspace_id, sa_pipeline_run_id = run_id, sa_stage = st,
       sa_attempt_number = attempt_number, sa_worker_id = worker,
       sa_status = (if worker = None then StageAssignmentStatus.PENDING else StageAssignmentStatus.DISPATCHED),
       sa_idempotency_key = Some (stage_key_of_attempt run_id st attempt_number),
       sa_lease_expires_at = (if worker = None then None else Some (now + of_int lease_seconds)),
       sa_dispatched_at = (if worker = None then None else Some now), sa_acknowledged_at = None,
       sa_completed_at = None, sa_result = None, sa_correlation_id = Some correlation_id,
       sa_trace_id = Some trace_id, sa_claimed_at = None, sa_claimed_by = None, sa_claim_count = 0,
       sa_claim_token = None, sa_lease_started_at = (if worker = None then None else Some now),
       sa_lease_extension_count = 0, sa_priority = priority, sa_provider = Some provider,
       sa_created_at = created \<rparr>"

text \<open>\<open>worker.current_load += 1\<close>, and \<open>BUSY\<close> once the worker is full; \<open>take_slot\<close> is used by claiming too.\<close>

definition take_slot :: "uuid \<Rightarrow> unit M" where
  "take_slot worker_id =
     set_worker worker_id (\<lambda>w. w\<lparr> wr_current_load := wr_current_load w + 1,
       wr_status := (if wr_current_load w + 1 \<ge> wr_max_concurrency w then BUSY else wr_status w) \<rparr>)"

definition assigned_payload :: "stage \<Rightarrow> int \<Rightarrow> uuid option \<Rightarrow> uuid \<Rightarrow> int \<Rightarrow> string \<Rightarrow> json" where
  "assigned_payload st attempt_number worker i priority provider =
     JObj [(''stage'', JStr st), (''attempt_number'', JNum (of_int attempt_number)),
           (''worker_id'', case worker of None \<Rightarrow> JNull | Some w \<Rightarrow> JStr (str_uuid w)),
           (''assignment_id'', JStr (str_uuid i)), (''priority'', JNum (of_int priority)),
           (''provider'', JStr provider)]"

definition create_assignment ::
  "uuid \<Rightarrow> uuid \<Rightarrow> stage \<Rightarrow> int \<Rightarrow> uuid \<Rightarrow> string option \<Rightarrow> int \<Rightarrow> string \<Rightarrow> uuid option \<Rightarrow> uuid M" where
  "create_assignment workspace_id run_id st attempt_number correlation_id trace_id priority provider worker =
     bindM (gets (\<lambda>s. lease_seconds_setting (cfg s))) (\<lambda>lease_seconds.
     bindM utcnow (\<lambda>now.
     bindM (child_span trace_id) (\<lambda>trace.
     bindM uuid4 (\<lambda>i.
     bindM utcnow (\<lambda>created.
     andThen (add_assignment (new_assignment workspace_id run_id st attempt_number correlation_id (fst trace)
       priority provider worker now lease_seconds i created)) (
     andThen (case worker of None \<Rightarrow> ret () | Some w \<Rightarrow> take_slot w) (
     andThen (bindM (emit STAGE_ASSIGNED workspace_id ''pipeline_run'' run_id correlation_id trace
       (assigned_payload st attempt_number worker i priority provider) ''dispatcher'') (\<lambda>_. ret ()))
     (ret i))))))))"

definition spend_gate :: "uuid \<Rightarrow> stage \<Rightarrow> string \<Rightarrow> uuid option \<Rightarrow> bool M" where
  "spend_gate run_id st provider worker =
     bindM (get_row runs pr_id run_id) (\<lambda>run_for_spend.
     if run_for_spend \<noteq> None \<and> worker \<noteq> None
     then bindM (gets (\<lambda>s. default_stage_estimate_usd (cfg s))) (\<lambda>estimate.
          bindM (reserve_spend run_id st provider estimate) (\<lambda>reservation. ret (reservation \<noteq> None)))
     else ret True)"

definition dispatch_stage ::
  "uuid \<Rightarrow> uuid \<Rightarrow> stage \<Rightarrow> int \<Rightarrow> uuid \<Rightarrow> string option \<Rightarrow> string option \<Rightarrow> int option \<Rightarrow> DispatchResult M" where
  "dispatch_stage workspace_id pipeline_run_id st attempt_number correlation_id trace_id provider priority_arg =
     bindM (dispatch_blocked workspace_id pipeline_run_id) (\<lambda>blocked.
     case blocked of
       Some outcome \<Rightarrow> ret \<lparr> dr_outcome = outcome, dr_assignment = None \<rparr>
     | None \<Rightarrow>
       bindM (case priority_arg of Some p \<Rightarrow> ret p | None \<Rightarrow> workspace_priority workspace_id) (\<lambda>priority.
       bindM (has_provider_capacity workspace_id provider) (\<lambda>provider_ok.
       bindM (if provider_ok then select_worker st 50 else ret None) (\<lambda>worker.
       bindM (query_one (\<lambda>s. filter (\<lambda>a. sa_workspace_id a = workspace_id \<and>
           sa_idempotency_key a = Some (stage_key_of_attempt pipeline_run_id st attempt_number)) (assignments s)))
         (\<lambda>already.
       case already of
         Some a \<Rightarrow> ret \<lparr> dr_outcome = IDEMPOTENT, dr_assignment = Some (sa_id a) \<rparr>
       | None \<Rightarrow>
         bindM (spend_gate pipeline_run_id st (provider_or_default provider) (map_option wr_id worker)) (\<lambda>funded.
         if \<not> funded then ret \<lparr> dr_outcome = SPEND_HOLD, dr_assignment = None \<rparr>
         else bindM (create_assignment workspace_id pipeline_run_id st attempt_number correlation_id trace_id
                priority (provider_or_default provider) (map_option wr_id worker)) (\<lambda>i.
              ret \<lparr> dr_outcome = (if worker = None then NO_WORKER else DISPATCHED), dr_assignment = Some i \<rparr>)))))))"

section \<open>Submitting a result\<close>

text \<open>
  \<open>Decimal(str(result["estimated_cost_usd"]))\<close>, or the default estimate when there is no cost or it is no
  number. A negative infinite cost fails in \<open>commit_spend\<close> as any negative one does, an infinite one is
  clamped there as any cost above the reservation is, and comparing a NaN raises.
\<close>

definition decimal_of_json :: "json \<Rightarrow> decimal option" where
  "decimal_of_json v = (case v of JNum q \<Rightarrow> Some (Finite q) | JStr t \<Rightarrow> decimal_of_str t | _ \<Rightarrow> None)"

definition reported_cost :: "Settings \<Rightarrow> json option \<Rightarrow> decimal" where
  "reported_cost c result =
     (let dflt = Finite (default_stage_estimate_usd c);
          v = (case result of None \<Rightarrow> JNull | Some r \<Rightarrow> json_get r ''estimated_cost_usd'')
      in if v = JNull then dflt else the_or (decimal_of_json v) dflt)"

definition commit_reported :: "uuid \<Rightarrow> SpendReservation \<Rightarrow> decimal \<Rightarrow> unit M" where
  "commit_reported run_id reservation cost =
     (case cost of
        Finite q \<Rightarrow> commit_spend run_id (sr_id reservation) q
      | Infinite True \<Rightarrow> commit_spend run_id (sr_id reservation) (- 1)
      | Infinite False \<Rightarrow> commit_spend run_id (sr_id reservation) (max 0 (sr_estimated_cost_usd reservation) + 1)
      | NotANumber \<Rightarrow> raise InvalidOperation)"

text \<open>The newest open reservation: \<open>created_at\<close> grows with the insertion order.\<close>

definition latest_open_reservation :: "uuid \<Rightarrow> stage \<Rightarrow> db \<Rightarrow> SpendReservation list" where
  "latest_open_reservation run_id st s = limit_rows 1 (rev (open_stage_reservations run_id st s))"

definition check_submit :: "StageAssignment \<Rightarrow> uuid option \<Rightarrow> datetime \<Rightarrow> exn option" where
  "check_submit a worker_id now =
     (if worker_id \<noteq> None \<and> sa_worker_id a \<noteq> worker_id then Some LeaseNotOwned
      else if \<not> in_flight (sa_status a) then
        Some (LeaseConflict ''invalid_status'' (''submit requires in-flight status, got ''
          @ stage_assignment_status_value (sa_status a)))
      else if worker_id \<noteq> None \<and> (case sa_lease_expires_at a of None \<Rightarrow> True | Some e \<Rightarrow> e < now) then
        Some (LeaseConflict ''lease_expired'' ''lease has expired; assignment is eligible for recovery'')
      else None)"

text \<open>A worker gives back its slot; the row may be gone, the load may be zeroed already.\<close>

definition give_slot_back :: "uuid option \<Rightarrow> unit M" where
  "give_slot_back worker_id =
     (case worker_id of
        None \<Rightarrow> ret ()
      | Some i \<Rightarrow> bindM (get_row workers wr_id i) (\<lambda>ow. case ow of
          None \<Rightarrow> ret ()
        | Some w \<Rightarrow> whenM (wr_current_load w > 0) (set_worker i (\<lambda>w. w\<lparr> wr_current_load := wr_current_load w - 1,
            wr_status := (if wr_status w = BUSY \<and> wr_current_load w - 1 < wr_max_concurrency w then ONLINE
                          else wr_status w) \<rparr>))))"

definition new_stage_run :: "StageAssignment \<Rightarrow> PipelineRun \<Rightarrow> bool \<Rightarrow> string \<Rightarrow> datetime \<Rightarrow> uuid \<Rightarrow> PipelineStageRun" where
  "new_stage_run a run success error_message now i =
     \<lparr> psr_id = i, psr_workspace_id = sa_workspace_id a, psr_pipeline_run_id = sa_pipeline_run_id a,
       psr_content_item_id = pr_content_item_id run, psr_stage = sa_stage a,
       psr_attempt_number = sa_attempt_number a,
       psr_status = (if success then StageRunStatus.SUCCEEDED else StageRunStatus.FAILED),
       psr_error_message = (if success then None else Some error_message),
       psr_started_at = sa_dispatched_at a, psr_completed_at = Some now \<rparr>"

definition emit_completed :: "StageAssignment \<Rightarrow> PipelineRun \<Rightarrow> json option \<Rightarrow> unit M" where
  "emit_completed a run result =
     bindM (child_span (sa_trace_id a)) (\<lambda>trace.
     bindM (case sa_correlation_id a of Some c \<Rightarrow> ret c | None \<Rightarrow> or_uuid4 (pr_correlation_id run)) (\<lambda>corr.
     bindM (emit STAGE_COMPLETED (sa_workspace_id a) ''pipeline_run'' (sa_pipeline_run_id a) corr trace
       (JObj [(''stage'', JStr (sa_stage a)), (''attempt_number'', JNum (of_int (sa_attempt_number a))),
              (''context'', or_empty result)]) ''dispatcher'') (\<lambda>_. ret ())))"

definition settle_stage :: "StageAssignment \<Rightarrow> uuid \<Rightarrow> bool \<Rightarrow> json option \<Rightarrow> string \<Rightarrow> unit M" where
  "settle_stage a run_id success result error_message =
     bindM (query_one (latest_open_reservation run_id (sa_stage a))) (\<lambda>open_reservation.
     if success then
       andThen (case open_reservation of
           None \<Rightarrow> ret ()
         | Some r \<Rightarrow> bindM (gets (\<lambda>s. reported_cost (cfg s) result)) (\<lambda>cost. commit_reported run_id r cost))
       (handle_stage_success run_id (sa_stage a) (Some (or_empty result)))
     else
       andThen (case open_reservation of None \<Rightarrow> ret () | Some r \<Rightarrow> release_spend run_id (sr_id r))
       (handle_stage_failure run_id (sa_stage a) (sa_attempt_number a) error_message))"

definition submit_result ::
  "uuid \<Rightarrow> bool \<Rightarrow> json option \<Rightarrow> string \<Rightarrow> uuid option \<Rightarrow> datetime option \<Rightarrow> unit M" where
  "submit_result assignment_id success result error_message worker_id now_arg =
     bindM (now_or_utcnow now_arg) (\<lambda>now.
     bindM (the_assignment assignment_id) (\<lambda>a.
     case check_submit a worker_id now of
       Some e \<Rightarrow> raise e
     | None \<Rightarrow>
       andThen (set_assignment assignment_id (\<lambda>a. a\<lparr>
         sa_status := (if success then COMPLETED else StageAssignmentStatus.FAILED), sa_completed_at := Some now,
         sa_result := result, sa_lease_expires_at := None, sa_lease_started_at := None \<rparr>)) (
       andThen (give_slot_back (sa_worker_id a)) (
       bindM (get_row runs pr_id (sa_pipeline_run_id a)) (\<lambda>orun.
       case orun of
         None \<Rightarrow> ret ()
       | Some run \<Rightarrow>
           bindM uuid4 (\<lambda>i.
           andThen (add_stage_run (new_stage_run a run success error_message now i)) (
           andThen (whenM success (emit_completed a run result))
           (settle_stage a (pr_id run) success result error_message))))))))"

section \<open>Footprint\<close>

lemma w_slots [steps_intro]: "steps writes (take_slot w)" "steps writes (give_slot_back ow)"
  unfolding take_slot_def give_slot_back_def by (intro steps_intro; simp add: worker_write_def)+

lemma w_lease [steps_intro]:
  "steps writes (assert_lease_extendable a w t n)" "steps writes (extend_lease a now sec)"
  "steps writes (acknowledge a n ow t)" "steps writes (renew_lease a n ow t)"
  unfolding assert_lease_extendable_def extend_lease_def acknowledge_def renew_lease_def
  by (intro steps_intro; simp add: write_preds)+

lemma w_dispatch [steps_intro]:
  "steps writes (select_worker st n)" "steps writes (dispatch_blocked ws r)" "steps writes (spend_gate r st p ow)"
  "steps writes (create_assignment ws r st n c tr pri p ow)" "steps writes (dispatch_stage ws r st n c tr op prio)"
  unfolding select_worker_def dispatch_blocked_def concurrency_limit_row_def spend_gate_def create_assignment_def
    dispatch_stage_def
  by (intro steps_intro)+

lemma w_submit [steps_intro]:
  "steps writes (commit_reported r sr d)" "steps writes (emit_completed a run res)"
  "steps writes (settle_stage a r ok res m)" "steps writes (submit_result i ok res m ow t)"
proof -
  show c: "steps writes (commit_reported r sr d)" for r sr d
    unfolding commit_reported_def by (cases d) (auto intro!: steps_intro split: bool.split)
  show e: "steps writes (emit_completed a run res)" for a run res
    unfolding emit_completed_def by (intro steps_intro)
  show s: "steps writes (settle_stage a r ok res m)" for a r ok res m
    unfolding settle_stage_def by (intro c steps_intro)
  show "steps writes (submit_result i ok res m ow t)"
    unfolding submit_result_def by (intro e s steps_intro; simp add: write_preds)
qed

section \<open>Footprint: what stays\<close>

lemma keeps_slots [steps_intro]:
  "(\<And>s g. f (workers_update g s) = f s) \<Longrightarrow> keeps f (take_slot w)"
  "(\<And>s g. f (workers_update g s) = f s) \<Longrightarrow> keeps f (give_slot_back ow)"
  unfolding take_slot_def give_slot_back_def by (intro steps_intro; simp)+

lemma ro_dispatch [steps_intro]:
  "keeps f (select_worker st n)" "keeps f (dispatch_blocked ws r)"
  unfolding select_worker_def dispatch_blocked_def concurrency_limit_row_def by (intro steps_intro)+

lemma keeps_spend_gate [steps_intro]: "blind f \<Longrightarrow> keeps f (spend_gate r st p ow)"
  unfolding spend_gate_def by (intro steps_intro)

lemma keeps_settle [steps_intro]:
  assumes "blind f" "\<And>s g. f (spend_logs_update g s) = f s"
  shows "keeps f (settle_stage a r ok res m)"
proof -
  note b = blindD [OF assms(1)]
  have "keeps f (commit_reported r q d)" for q d
    unfolding commit_reported_def by (cases d) (auto intro!: steps_intro simp: b assms(2) split: bool.split)
  then show ?thesis unfolding settle_stage_def by (intro steps_intro assms(1)) simp_all
qed

text \<open>\<open>SELECT ... ORDER BY rank LIMIT 1\<close> answers with a row of least rank.\<close>

lemma query_first:
  fixes rank :: "db \<Rightarrow> 'r \<Rightarrow> 'k :: linorder"
  assumes "query_one (\<lambda>s. limit_rows 1 (sort_key (rank s) (f s))) s = (Inr (Some r), s')"
  shows "s' = s \<and> r \<in> set (f s) \<and> (\<forall>q \<in> set (f s). rank s r \<le> rank s q)"
proof -
  let ?qs = "sort_key (rank s) (f s)"
  have "limit_rows 1 ?qs = [r]" and s': "s' = s"
    using assms by (auto simp: query_one_exec scalar_one_or_none_Some)
  then obtain qs where qs: "?qs = r # qs" by (cases ?qs) (auto simp: limit_rows_def)
  have "sorted (map (rank s) ?qs)" by (rule sorted_sort_key)
  then have "\<forall>q \<in> set ?qs. rank s r \<le> rank s q" unfolding qs by simp
  moreover have "r \<in> set ?qs" unfolding qs by simp
  ultimately show ?thesis using s' by simp
qed

lemma select_worker_Some:
  assumes "select_worker st n s = (Inr (Some w), s')"
  shows "s' = s \<and> w \<in> set (workers s) \<and> wr_id w \<notin> set (locks s) \<and> selectable st n w
    \<and> (\<forall>v \<in> set (workers s). wr_id v \<notin> set (locks s) \<and> selectable st n v \<longrightarrow> worker_rank w \<le> worker_rank v)"
  using query_first [where rank = "\<lambda>_. worker_rank" and f = "\<lambda>s. filter (selectable st n) (unlocked wr_id s (workers s))",
      OF assms [unfolded select_worker_def]]
  by (auto simp: unlocked_def)

section \<open>What creating an assignment does\<close>

definition filled :: "WorkerRegistration \<Rightarrow> WorkerRegistration" where
  "filled w = w\<lparr> wr_current_load := wr_current_load w + 1,
     wr_status := (if wr_current_load w + 1 \<ge> wr_max_concurrency w then BUSY else wr_status w) \<rparr>"

lemma filled_id [simp]: "wr_id (filled w) = wr_id w" "wr_max_concurrency (filled w) = wr_max_concurrency w"
  "wr_current_load (filled w) = wr_current_load w + 1"
  by (simp_all add: filled_def)

lemma take_slot_exec: "take_slot w s = (Inr (), workers_update (row_set wr_id w filled) s)"
  by (simp add: take_slot_def store_exec filled_def [abs_def])

lemma create_assignment_result:
  assumes "create_assignment ws i st n c tr pr p ow s = (Inr k, s')"
  shows "\<exists>tid now created. assignments s' = assignments s
      @ [new_assignment ws i st n c tid pr p ow now (assignment_lease_seconds (cfg s)) k created]
    \<and> workers s' = (case ow of None \<Rightarrow> workers s | Some w \<Rightarrow> row_set wr_id w filled (workers s))
    \<and> reservations s' = reservations s \<and> runs s' = runs s \<and> length (events s') = Suc (length (events s))"
proof -
  obtain tr' m where cs: "child_span tr (s\<lparr>tick := Suc (tick s)\<rparr>) = (Inr tr', s\<lparr>tick := m\<rparr>)"
    using child_span_Inr [of tr "s\<lparr>tick := Suc (tick s)\<rparr>"] by auto
  from assms show ?thesis
    by (cases ow) (auto simp: create_assignment_def lease_seconds_setting_def exec cs take_slot_exec
        simp del: emit_exec split: if_splits; fastforce simp: exec)+
qed

section \<open>Properties: dispatching\<close>

text \<open>A result case of \<open>dispatch_stage\<close>: what it leaves, by outcome.\<close>

lemma dispatch_blocked_None:
  assumes "dispatch_blocked ws i s = (Inr None, s')"
  shows "s' = s \<and> (\<exists>l. concurrency_limit_row ws s = (Inr l, s) \<and> workspace_in_flight ws s < concurrency_cap l)
    \<and> (\<forall>run. row_get pr_id i (runs s) = Some run \<longrightarrow> \<not> run_terminal (pr_status run) \<and> pr_status run \<noteq> PAUSED)"
  using assms by (auto simp: dispatch_blocked_def concurrency_limit_row_def exec not_le
      split: sum.splits if_splits option.splits)

lemma dispatch_blocked_Some:
  assumes "dispatch_blocked ws i s = (Inr (Some out), s')"
  shows "s' = s \<and> out \<in> {BACKPRESSURE, SKIPPED, SPEND_HOLD}"
  using assms by (auto simp: dispatch_blocked_def concurrency_limit_row_def exec
      split: sum.splits if_splits option.splits)

lemma spend_gate_unowned: "spend_gate i st p None s = (Inr True, s)"
  by (simp add: spend_gate_def exec)

lemma spend_gate_keeps:
  assumes "spend_gate i st p ow s = (Inr b, s')"
  shows "assignments s' = assignments s" "workers s' = workers s" "cfg s' = cfg s" "limits s' = limits s"
  using keepsD' [OF keeps_spend_gate [of assignments] assms] keepsD' [OF keeps_spend_gate [of workers] assms]
    keepsD' [OF keeps_spend_gate [of cfg] assms] keepsD' [OF keeps_spend_gate [of limits] assms] by simp_all

lemma dispatch_stage_cases:
  assumes "dispatch_stage ws i st n c tr p pr s = (Inr d, s')"
  obtains (blocked) out where "dispatch_blocked ws i s = (Inr (Some out), s)" "d = \<lparr> dr_outcome = out, dr_assignment = None \<rparr>" "s' = s"
  | (again) a where "d = \<lparr> dr_outcome = IDEMPOTENT, dr_assignment = Some (sa_id a) \<rparr>" "s' = s" "a \<in> set (assignments s)"
      "sa_workspace_id a = ws" "sa_idempotency_key a = Some (stage_key_of_attempt i st n)"
  | (unfunded) w where "d = \<lparr> dr_outcome = SPEND_HOLD, dr_assignment = None \<rparr>"
      "spend_gate i st (provider_or_default p) (Some w) s = (Inr False, s')"
  | (created) s1 ow prio k pok where "dispatch_blocked ws i s = (Inr None, s)" "(ow = None \<or> select_worker st 50 s = (Inr ow, s))"
      "\<not> idem_taken ws (Some (stage_key_of_attempt i st n)) (assignments s)"
      "spend_gate i st (provider_or_default p) (map_option wr_id ow) s = (Inr True, s1)"
      "create_assignment ws i st n c tr prio (provider_or_default p) (map_option wr_id ow) s1 = (Inr k, s')"
      "d = \<lparr> dr_outcome = (if ow = None then NO_WORKER else DISPATCHED), dr_assignment = Some k \<rparr>"
      "has_provider_capacity ws p s = (Inr pok, s)" "if pok then select_worker st 50 s = (Inr ow, s) else ow = None"
proof -
  obtain b where b: "dispatch_blocked ws i s = (Inr b, s)"
    using assms keepsD' [OF ro_dispatch(2) [where f = "\<lambda>s. s"]]
    by (cases "dispatch_blocked ws i s"; cases "fst (dispatch_blocked ws i s)")
      (force simp: dispatch_stage_def bindM_exec)+
  show thesis
  proof (cases b)
    case (Some out)
    with b assms show ?thesis by (intro blocked [of out]) (simp_all add: dispatch_stage_def exec)
  next
    case None
    let ?pr = "case pr of Some p \<Rightarrow> ret p | None \<Rightarrow> workspace_priority ws"
    obtain prio where 1: "?pr s = (Inr prio, s)"
      by (cases pr) (auto simp: workspace_priority_def exec)
    obtain pok where 2: "has_provider_capacity ws p s = (Inr pok, s)"
      using assms b None 1 capacity_read_only by (auto simp: dispatch_stage_def bindM_exec split: prod.splits sum.splits)
    let ?sel = "if pok then select_worker st 50 else ret None"
    obtain ow where 3: "?sel s = (Inr ow, s)"
      using assms b None 1 2 keepsD' [OF ro_dispatch(1) [where f = "\<lambda>s. s"]]
      by (cases pok) (auto simp: dispatch_stage_def bindM_exec ret_exec split: prod.splits sum.splits)
    let ?hits = "filter (\<lambda>a. sa_workspace_id a = ws \<and> sa_idempotency_key a = Some (stage_key_of_attempt i st n)) (assignments s)"
    obtain al where 4: "scalar_one_or_none ?hits = Inr al"
      using assms b None 1 2 3 by (auto simp: dispatch_stage_def bindM_exec query_one_exec split: sum.splits)
    show ?thesis
    proof (cases al)
      case (Some a)
      then have "?hits = [a]" using 4 by (simp add: scalar_one_or_none_Some)
      then have "a \<in> set ?hits" by simp
      with assms b None 1 2 3 4 Some show ?thesis
        by (intro again [of a]) (simp_all add: dispatch_stage_def bindM_exec query_one_exec ret_exec)
    next
      case None': None
      then have fresh: "\<not> idem_taken ws (Some (stage_key_of_attempt i st n)) (assignments s)"
        using 4 by (simp add: scalar_one_or_none_None idem_taken_def list_ex_iff filter_empty_conv)
      obtain fd s1 where 5: "spend_gate i st (provider_or_default p) (map_option wr_id ow) s = (Inr fd, s1)"
        using assms b None 1 2 3 4 None'
        by (auto simp: dispatch_stage_def bindM_exec query_one_exec split: prod.splits sum.splits)
      show ?thesis
      proof (cases fd)
        case False
        then obtain w where "map_option wr_id ow = Some w" using 5 by (cases ow) (auto simp: spend_gate_unowned)
        with assms b None 1 2 3 4 None' 5 False show ?thesis
          by (intro unfunded [of w]) (auto simp: dispatch_stage_def bindM_exec query_one_exec ret_exec)
      next
        case True
        obtain k where 6: "create_assignment ws i st n c tr prio (provider_or_default p) (map_option wr_id ow) s1 = (Inr k, s')"
            "d = \<lparr> dr_outcome = (if ow = None then NO_WORKER else DISPATCHED), dr_assignment = Some k \<rparr>"
          using assms b None 1 2 3 4 None' 5 True
          by (auto simp: dispatch_stage_def bindM_exec query_one_exec ret_exec split: prod.splits sum.splits)
        have "ow = None \<or> select_worker st 50 s = (Inr ow, s)" using 3 by (auto simp: ret_exec split: if_splits)
        moreover have "if pok then select_worker st 50 s = (Inr ow, s) else ow = None" using 3 by (simp add: ret_exec split: if_splits)
        ultimately show ?thesis using b None fresh 2 5 6 True by (intro created [of ow s1 prio k pok]) simp_all
      qed
    qed
  qed
qed

lemma dispatch_blocked_why:
  assumes "dispatch_blocked ws i s = (Inr (Some out), s')"
  shows "case out of
      BACKPRESSURE \<Rightarrow> \<exists>l. concurrency_limit_row ws s = (Inr l, s) \<and> concurrency_cap l \<le> workspace_in_flight ws s
    | SKIPPED \<Rightarrow> \<exists>run. row_get pr_id i (runs s) = Some run
        \<and> (run_terminal (pr_status run) \<or> pr_status run = PAUSED \<and> pr_pause_reason run \<noteq> Some ''spend_hold'')
    | SPEND_HOLD \<Rightarrow> \<exists>run. row_get pr_id i (runs s) = Some run \<and> pr_status run = PAUSED \<and> pr_pause_reason run = Some ''spend_hold''
    | _ \<Rightarrow> False"
  using assms by (auto simp: dispatch_blocked_def concurrency_limit_row_def exec
      split: sum.splits if_splits option.splits)

lemma select_worker_None:
  assumes "select_worker st n s = (Inr None, s')" "w \<in> set (workers s)"
  shows "wr_id w \<in> set (locks s) \<or> \<not> selectable st n w"
proof -
  have "limit_rows 1 (sort_key worker_rank (filter (selectable st n) (unlocked wr_id s (workers s)))) = []"
    using assms(1) by (auto simp: select_worker_def query_one_exec scalar_one_or_none_None)
  then have "set (sort_key worker_rank (filter (selectable st n) (unlocked wr_id s (workers s)))) = {}"
    by (simp add: limit_rows_def)
  with assms(2) show ?thesis by (auto simp: unlocked_def)
qed

lemma spend_gate_funds:
  assumes "spend_gate i st p (Some w) s = (Inr True, s')" "has_row pr_id i (runs s)"
  shows "\<exists>r \<in> set (open_stage_reservations i st s'). sr_provider r = p \<and> sr_estimated_cost_usd r = default_stage_estimate_usd (cfg s)"
proof -
  obtain k where "reserve_spend i st p (default_stage_estimate_usd (cfg s)) s = (Inr (Some k), s')"
    using assms by (auto simp: spend_gate_def has_row_get bindM_exec gets_exec ret_exec split: prod.splits sum.splits)
  from reserve_spend_Some [OF this] show ?thesis by blast
qed

lemma spend_gate_holds:
  assumes "spend_gate i st p ow s = (Inr False, s')"
  shows "\<exists>run. row_get pr_id i (runs s') = Some run \<and> pr_status run = PAUSED \<and> pr_pause_reason run = Some ''spend_hold''"
proof -
  have "reserve_spend i st p (default_stage_estimate_usd (cfg s)) s = (Inr None, s')"
    using assms by (auto simp: spend_gate_def bindM_exec gets_exec ret_exec split: prod.splits sum.splits if_splits)
  then show ?thesis by (rule reserve_spend_refused)
qed

text \<open>A dispatch to a worker: which worker, which row, and what pays for it.\<close>

lemma dispatched_to:
  assumes "dispatch_blocked ws i s = (Inr None, s)" "select_worker st 50 s = (Inr (Some w), s)"
    and "spend_gate i st pv (Some (wr_id w)) s = (Inr True, s1)"
    and "create_assignment ws i st n c tr prio pv (Some (wr_id w)) s1 = (Inr k, s')"
  shows "\<exists>a l. w \<in> set (workers s) \<and> selectable st 50 w \<and> wr_id w \<notin> set (locks s)
    \<and> (\<forall>v \<in> set (workers s). wr_id v \<notin> set (locks s) \<and> selectable st 50 v \<longrightarrow> worker_rank w \<le> worker_rank v)
    \<and> sa_id a = k \<and> assignments s' = assignments s @ [a] \<and> sa_status a = StageAssignmentStatus.DISPATCHED
    \<and> sa_worker_id a = Some (wr_id w) \<and> sa_idempotency_key a = Some (stage_key_of_attempt i st n)
    \<and> workers s' = row_set wr_id (wr_id w) filled (workers s)
    \<and> concurrency_limit_row ws s = (Inr l, s) \<and> workspace_in_flight ws s' \<le> concurrency_cap l
    \<and> (has_row pr_id i (runs s) \<longrightarrow> (\<exists>r \<in> set (open_stage_reservations i st s'). sr_provider r = pv
        \<and> sr_estimated_cost_usd r = default_stage_estimate_usd (cfg s)))"
proof -
  note k1 = spend_gate_keeps [OF assms(3)]
  from create_assignment_result [OF assms(4), unfolded k1] obtain tid now cr where
    as: "assignments s' = assignments s @ [new_assignment ws i st n c tid prio pv (Some (wr_id w)) now
          (assignment_lease_seconds (cfg s)) k cr]"
    and wk: "workers s' = row_set wr_id (wr_id w) filled (workers s)"
    and rs: "reservations s' = reservations s1" by auto
  let ?a = "new_assignment ws i st n c tid prio pv (Some (wr_id w)) now (assignment_lease_seconds (cfg s)) k cr"
  have a: "sa_id ?a = k" "sa_workspace_id ?a = ws" "sa_idempotency_key ?a = Some (stage_key_of_attempt i st n)"
    "sa_worker_id ?a = Some (wr_id w)" "sa_status ?a = StageAssignmentStatus.DISPATCHED"
    by (simp_all add: new_assignment_def)
  from dispatch_blocked_None [OF assms(1)] obtain l where
    l: "concurrency_limit_row ws s = (Inr l, s)" "workspace_in_flight ws s < concurrency_cap l" by blast
  have "workspace_in_flight ws s' = workspace_in_flight ws s + 1"
    using as a by (simp add: workspace_in_flight_def)
  moreover have "open_stage_reservations i st s' = open_stage_reservations i st s1"
    using rs by (simp add: open_stage_reservations_def)
  ultimately show ?thesis
    using select_worker_Some [OF assms(2)] spend_gate_funds [OF assms(3)] l as wk a
    by (intro exI [of _ ?a] exI [of _ l]) simp
qed

text \<open>
  C2: What a dispatch does, by outcome. \<open>DISPATCHED\<close>: exactly one assignment is appended, held by the best-ranked unlocked
  worker that is online or busy, not draining, registered, healthy enough (50), supports the stage and is below its
  capacity; its load grows by one, the workspace stays within its concurrency cap, and where the run exists an open
  reservation of the stage's estimate pays for it. \<open>NO_WORKER\<close>: the provider has no capacity or no unlocked worker is
  eligible, and one unowned \<open>PENDING\<close> assignment is queued; no worker, run or reservation is touched. \<open>IDEMPOTENT\<close>: the attempt
  exists already, its assignment is named and nothing changes. \<open>BACKPRESSURE\<close> (at the concurrency cap) and \<open>SKIPPED\<close>
  (terminal, or paused for another reason) change nothing. \<open>SPEND_HOLD\<close>: no assignment and no worker changes, and the
  run is paused for \<open>spend_hold\<close>, as it was or by this refusal. A terminal or paused run never gets an assignment.
\<close>

theorem dispatch_stage_outcomes:
  assumes "dispatch_stage ws i st n c tr p pr s = (Inr d, s')"
  shows "(case dr_outcome d of
      DISPATCHED \<Rightarrow> \<exists>w a l. w \<in> set (workers s) \<and> wr_status w \<in> {ONLINE, BUSY} \<and> \<not> wr_drain w
        \<and> wr_deregistered_at w = None \<and> 50 \<le> wr_health_score w
        \<and> st \<in> set (wr_supported_stages w) \<and> wr_current_load w < wr_max_concurrency w \<and> wr_id w \<notin> set (locks s)
        \<and> (\<forall>v \<in> set (workers s). wr_id v \<notin> set (locks s) \<and> selectable st 50 v \<longrightarrow> worker_rank w \<le> worker_rank v)
        \<and> has_provider_capacity ws p s = (Inr True, s) \<and> dr_assignment d = Some (sa_id a)
        \<and> assignments s' = assignments s @ [a] \<and> sa_status a = StageAssignmentStatus.DISPATCHED
        \<and> sa_worker_id a = Some (wr_id w) \<and> sa_idempotency_key a = Some (stage_key_of_attempt i st n)
        \<and> workers s' = row_set wr_id (wr_id w) filled (workers s)
        \<and> concurrency_limit_row ws s = (Inr l, s) \<and> workspace_in_flight ws s' \<le> concurrency_cap l
        \<and> (has_row pr_id i (runs s) \<longrightarrow> (\<exists>r \<in> set (open_stage_reservations i st s').
             sr_provider r = provider_or_default p \<and> sr_estimated_cost_usd r = default_stage_estimate_usd (cfg s)))
    | NO_WORKER \<Rightarrow> (has_provider_capacity ws p s = (Inr False, s)
          \<or> (\<forall>w \<in> set (workers s). wr_id w \<in> set (locks s) \<or> \<not> selectable st 50 w))
        \<and> (\<exists>a. dr_assignment d = Some (sa_id a) \<and> assignments s' = assignments s @ [a]
            \<and> sa_status a = StageAssignmentStatus.PENDING \<and> sa_worker_id a = None)
        \<and> workers s' = workers s \<and> reservations s' = reservations s \<and> runs s' = runs s
    | IDEMPOTENT \<Rightarrow> s' = s \<and> (\<exists>a \<in> set (assignments s). dr_assignment d = Some (sa_id a) \<and> sa_workspace_id a = ws
        \<and> sa_idempotency_key a = Some (stage_key_of_attempt i st n))
    | BACKPRESSURE \<Rightarrow> s' = s \<and> (\<exists>l. concurrency_limit_row ws s = (Inr l, s) \<and> concurrency_cap l \<le> workspace_in_flight ws s)
    | SKIPPED \<Rightarrow> s' = s \<and> (\<exists>run. row_get pr_id i (runs s) = Some run
        \<and> (run_terminal (pr_status run) \<or> pr_status run = PAUSED \<and> pr_pause_reason run \<noteq> Some ''spend_hold''))
    | SPEND_HOLD \<Rightarrow> assignments s' = assignments s \<and> workers s' = workers s
        \<and> (\<exists>run. row_get pr_id i (runs s') = Some run \<and> pr_status run = PAUSED \<and> pr_pause_reason run = Some ''spend_hold''))
    \<and> (\<forall>run. row_get pr_id i (runs s) = Some run \<longrightarrow> run_terminal (pr_status run) \<or> pr_status run = PAUSED \<longrightarrow>
      assignments s' = assignments s)"
  using assms
proof (cases rule: dispatch_stage_cases)
  case (blocked out)
  with dispatch_blocked_why [OF blocked(1)] show ?thesis by (cases out) auto
next
  case (again a)
  then show ?thesis by auto
next
  case (unfunded w)
  with spend_gate_keeps [OF unfunded(2)] spend_gate_holds [OF unfunded(2)] show ?thesis by simp
next
  case (created s1 ow prio k pok)
  have live: "\<not> (run_terminal (pr_status run) \<or> pr_status run = PAUSED)" if "row_get pr_id i (runs s) = Some run" for run
    using dispatch_blocked_None [OF created(1)] that by blast
  show ?thesis
  proof (cases ow)
    case None
    then have "s1 = s" using created(4) by (simp add: spend_gate_unowned)
    with create_assignment_result [OF created(5)] None obtain a where
      "assignments s' = assignments s @ [a]" "sa_id a = k" "sa_status a = StageAssignmentStatus.PENDING" "sa_worker_id a = None"
      "workers s' = workers s" "reservations s' = reservations s" "runs s' = runs s"
      by (auto simp: new_assignment_def)
    moreover have "has_provider_capacity ws p s = (Inr False, s)
        \<or> (\<forall>w \<in> set (workers s). wr_id w \<in> set (locks s) \<or> \<not> selectable st 50 w)"
      using created(7,8) None select_worker_None by (cases pok) auto
    ultimately show ?thesis using created(6) None live by auto
  next
    case (Some w)
    then have "select_worker st 50 s = (Inr (Some w), s)" "has_provider_capacity ws p s = (Inr True, s)"
      using created(7,8) by (cases pok; simp)+
    note selected = this
    have "spend_gate i st (provider_or_default p) (Some (wr_id w)) s = (Inr True, s1)"
      "create_assignment ws i st n c tr prio (provider_or_default p) (Some (wr_id w)) s1 = (Inr k, s')"
      using created(4,5) Some by simp_all
    from dispatched_to [OF created(1) selected(1) this] obtain a l where
      "w \<in> set (workers s)" "selectable st 50 w" "wr_id w \<notin> set (locks s)"
      "\<forall>v \<in> set (workers s). wr_id v \<notin> set (locks s) \<and> selectable st 50 v \<longrightarrow> worker_rank w \<le> worker_rank v"
      "sa_id a = k" "assignments s' = assignments s @ [a]" "sa_status a = StageAssignmentStatus.DISPATCHED"
      "sa_worker_id a = Some (wr_id w)" "sa_idempotency_key a = Some (stage_key_of_attempt i st n)"
      "workers s' = row_set wr_id (wr_id w) filled (workers s)"
      "concurrency_limit_row ws s = (Inr l, s)" "workspace_in_flight ws s' \<le> concurrency_cap l"
      "has_row pr_id i (runs s) \<longrightarrow> (\<exists>r \<in> set (open_stage_reservations i st s').
             sr_provider r = provider_or_default p \<and> sr_estimated_cost_usd r = default_stage_estimate_usd (cfg s))"
      by blast
    note paid = this
    have "dr_outcome d = DISPATCHED" "dr_assignment d = Some (sa_id a)" using created(6) Some paid(5) by simp_all
    with paid selected(2) live show ?thesis
      by (simp add: selectable_def) (intro exI [of _ w] exI [of _ a] exI [of _ l], simp)
  qed
qed

lemmas dispatch_ops = dispatch_stage_def dispatch_blocked_def concurrency_limit_row_def workspace_in_flight_def
  concurrency_cap_def DEFAULT_MAX_CONCURRENT_ASSIGNMENTS_def has_provider_capacity_def lock_budget_def
  select_worker_def unlocked_def selectable_def limit_rows_def provider_or_default_def spend_gate_def
  create_assignment_def lease_seconds_setting_def new_assignment_def take_slot_def

definition pinned_elsewhere :: db where
  "pinned_elsewhere = sample_db\<lparr>workers := [sample_worker\<lparr>wr_workspace_id := Some 2\<rparr>]\<rparr>"

lemma dispatch_pinned: "\<exists>k s'. dispatch_stage 1 10 ''scripting'' 1 12 None None None pinned_elsewhere
    = (Inr \<lparr> dr_outcome = DISPATCHED, dr_assignment = Some k \<rparr>, s')"
proof -
  have "\<exists>k. fst (dispatch_stage 1 10 ''scripting'' 1 12 None None None pinned_elsewhere)
    = Inr \<lparr> dr_outcome = DISPATCHED, dr_assignment = Some k \<rparr>"
    by (simp add: dispatch_ops spend_ops workflow_ops exec pinned_elsewhere_def fixture idem_taken_def has_row_def)
  then show ?thesis by (metis prod.collapse)
qed

lemma dispatch_stage_outcomes_witness:
  "\<exists>d s' a. dispatch_stage 1 10 ''scripting'' 1 12 None None None pinned_elsewhere = (Inr d, s')
    \<and> dr_outcome d = DISPATCHED \<and> assignments s' = [a] \<and> sa_worker_id a = Some 20"
proof -
  from dispatch_pinned obtain k s' where
    1: "dispatch_stage 1 10 ''scripting'' 1 12 None None None pinned_elsewhere
      = (Inr \<lparr> dr_outcome = DISPATCHED, dr_assignment = Some k \<rparr>, s')" by blast
  have f: "workers pinned_elsewhere = [sample_worker\<lparr>wr_workspace_id := Some 2\<rparr>]" "assignments pinned_elsewhere = []"
    "wr_id sample_worker = 20"
    by (simp_all add: pinned_elsewhere_def fixture)
  from dispatch_stage_outcomes [OF 1] f 1 show ?thesis by auto
qed

text \<open>
  The dispatcher ignores a worker's workspace pin: with only a worker pinned to workspace 2 online, a stage
  of workspace 1 is handed to it. That worker cannot acknowledge it (the route answers 404 to a pinned worker of
  another workspace), so the attempt can only expire.
\<close>

theorem dispatch_ignores_worker_pin:
  "\<exists>d s' w a. dispatch_stage 1 10 ''scripting'' 1 12 None None None pinned_elsewhere = (Inr d, s')
    \<and> dr_outcome d = DISPATCHED \<and> assignments s' = [a] \<and> sa_workspace_id a = 1
    \<and> sa_worker_id a = Some (wr_id w) \<and> workers pinned_elsewhere = [w] \<and> wr_workspace_id w = Some 2"
proof -
  from dispatch_pinned obtain k s' where
    1: "dispatch_stage 1 10 ''scripting'' 1 12 None None None pinned_elsewhere
      = (Inr \<lparr> dr_outcome = DISPATCHED, dr_assignment = Some k \<rparr>, s')" by blast
  then obtain s1 ow prio k' where
    2: "ow \<noteq> None" "ow = None \<or> select_worker ''scripting'' 50 pinned_elsewhere = (Inr ow, pinned_elsewhere)"
      "spend_gate 10 ''scripting'' (provider_or_default None) (map_option wr_id ow) pinned_elsewhere = (Inr True, s1)"
      "create_assignment 1 10 ''scripting'' 1 12 None prio (provider_or_default None) (map_option wr_id ow) s1 = (Inr k', s')"
  proof (cases rule: dispatch_stage_cases)
    case (blocked out)
    with dispatch_blocked_Some [OF blocked(1)] show ?thesis by auto
  next
    case (created s1 ow prio k')
    show ?thesis by (rule that [of ow s1 prio k']) (use created in \<open>auto split: if_splits\<close>)
  qed simp_all
  then obtain w where w: "ow = Some w" "w \<in> set (workers pinned_elsewhere)" using select_worker_Some by blast
  have f: "workers pinned_elsewhere = [sample_worker\<lparr>wr_workspace_id := Some 2\<rparr>]" "assignments pinned_elsewhere = []"
    by (simp_all add: pinned_elsewhere_def fixture)
  from create_assignment_result [OF 2(4), unfolded spend_gate_keeps [OF 2(3)]] obtain a where
    "assignments s' = [a]" "sa_workspace_id a = 1" "sa_worker_id a = Some (wr_id w)"
    using f w by (auto simp: new_assignment_def)
  with 1 w f show ?thesis by auto
qed

section \<open>Properties: leases\<close>

definition lease_extendable :: "StageAssignment \<Rightarrow> uuid \<Rightarrow> datetime \<Rightarrow> int \<Rightarrow> int \<Rightarrow> bool" where
  "lease_extendable a w now seconds max_seconds \<longleftrightarrow> sa_worker_id a = Some w \<and> in_flight (sa_status a)
     \<and> (\<exists>e. sa_lease_expires_at a = Some e \<and> now \<le> e)
     \<and> now + of_int seconds \<le> lease_start a now + of_int max_seconds"

lemma assert_lease_extendable_iff:
  assumes "row_get sa_id i (assignments s) = Some a"
  shows "\<exists>r. assert_lease_extendable i w (Some now) (Some sec) s = (r, s)
    \<and> (r = Inr () \<longleftrightarrow> lease_extendable a w now sec (assignment_max_lease_seconds (cfg s)))
    \<and> (r \<noteq> Inr () \<longrightarrow> (\<exists>e. r = Inl e))"
  using assms by (auto simp: assert_lease_extendable_def lease_extendable_def max_lease_seconds_setting_def the_or_def
      exec not_le not_less split: option.splits)

definition extended :: "datetime \<Rightarrow> int \<Rightarrow> StageAssignment \<Rightarrow> StageAssignment" where
  "extended now seconds a = a\<lparr> sa_lease_expires_at := Some (now + of_int seconds),
     sa_lease_started_at := Some (lease_start a now), sa_lease_extension_count := sa_lease_extension_count a + 1 \<rparr>"

lemma extend_lease_exec:
  "extend_lease i now sec s = (Inr (), assignments_update (row_set sa_id i (extended now sec)) s)"
proof -
  have "(\<lambda>a. a\<lparr> sa_lease_expires_at := Some (now + of_int sec),
       sa_lease_started_at := (case sa_lease_started_at a of
          None \<Rightarrow> Some (the_or (sa_dispatched_at a) now) | Some t \<Rightarrow> Some t),
       sa_lease_extension_count := sa_lease_extension_count a + 1 \<rparr>) = extended now sec"
    by (rule ext) (simp add: extended_def lease_start_def the_or_def split: option.split)
  then show ?thesis by (simp add: extend_lease_def store_exec)
qed

lemma extended_id [simp]: "sa_id (extended now sec a) = sa_id a"
  by (simp add: extended_def)

text \<open>
  C4: A worker's lease renewal goes through exactly when the worker owns the assignment, the assignment is in
  flight, its lease has not expired, and the new expiry stays within the maximum total lease counted from the
  lease's first start; then the row's lease runs to \<open>now\<close> plus the lease time and the start is kept, so that no
  number of renewals outruns the maximum. A refused renewal changes nothing.
\<close>

theorem renew_lease_checked:
  fixes secs :: "int option"
  assumes "row_get sa_id i (assignments s) = Some a"
  defines "sec \<equiv> the_or secs (assignment_lease_seconds (cfg s))" and "most \<equiv> assignment_max_lease_seconds (cfg s)"
  shows "if lease_extendable a w now sec most
     then \<exists>s' a'. renew_lease i secs (Some w) (Some now) s = (Inr (), s')
       \<and> row_get sa_id i (assignments s') = Some a' \<and> sa_lease_expires_at a' = Some (now + of_int sec)
       \<and> lease_start a' now = lease_start a now \<and> now + of_int sec \<le> lease_start a' later + of_int most
       \<and> sa_status a' = sa_status a \<and> sa_lease_extension_count a' = sa_lease_extension_count a + 1
     else \<exists>e. renew_lease i secs (Some w) (Some now) s = (Inl e, s)"
proof -
  obtain r where r: "assert_lease_extendable i w (Some now) (Some sec) s = (r, s)"
    "r = Inr () \<longleftrightarrow> lease_extendable a w now sec most" "r \<noteq> Inr () \<longrightarrow> (\<exists>e. r = Inl e)"
    using assert_lease_extendable_iff [OF assms(1)] unfolding most_def by blast
  have e: "renew_lease i secs (Some w) (Some now) s
      = (case r of Inl e \<Rightarrow> (Inl e, s) | Inr _ \<Rightarrow> extend_lease i now sec s)"
    using r(1) by (simp add: renew_lease_def exec lease_seconds_setting_def sec_def split: sum.split)
  show ?thesis
  proof (cases "lease_extendable a w now sec most")
    case True
    then have "renew_lease i secs (Some w) (Some now) s
        = (Inr (), assignments_update (row_set sa_id i (extended now sec)) s)"
      using e r(2) by (simp add: extend_lease_exec)
    with True assms(1) show ?thesis
      by (auto simp: lease_extendable_def extended_def lease_start_def the_or_def)
  next
    case False
    then show ?thesis using e r(2,3) by auto
  qed
qed

lemma renew_lease_checked_witness:
  "\<exists>s' a'. renew_lease 30 (Some 60) (Some 20) (Some 1000)
      (sample_db\<lparr>assignments := [sample_assignment\<lparr> sa_status := ACKNOWLEDGED, sa_worker_id := Some 20,
         sa_lease_started_at := Some 950, sa_lease_expires_at := Some 1010 \<rparr>]\<rparr>) = (Inr (), s')
    \<and> row_get sa_id 30 (assignments s') = Some a' \<and> sa_lease_expires_at a' = Some 1060"
  (is "\<exists>s' a'. renew_lease _ _ _ _ ?s = _ \<and> _")
proof -
  let ?a = "sample_assignment\<lparr> sa_status := ACKNOWLEDGED, sa_worker_id := Some 20,
         sa_lease_started_at := Some 950, sa_lease_expires_at := Some 1010 \<rparr>"
  have row: "row_get sa_id 30 (assignments ?s) = Some ?a" by (simp add: fixture)
  have "lease_extendable ?a 20 1000 60 (assignment_max_lease_seconds (cfg ?s))"
    by (simp add: lease_extendable_def lease_start_def the_or_def fixture)
  with renew_lease_checked [OF row, where secs = "Some 60" and w = 20 and now = 1000 and later = 0] show ?thesis by (auto simp: the_or_def)
qed

section \<open>Properties: submitting a result\<close>

definition closed_assignment :: "bool \<Rightarrow> json option \<Rightarrow> datetime \<Rightarrow> StageAssignment \<Rightarrow> StageAssignment" where
  "closed_assignment success result now a = a\<lparr>
     sa_status := (if success then COMPLETED else StageAssignmentStatus.FAILED), sa_completed_at := Some now,
     sa_result := result, sa_lease_expires_at := None, sa_lease_started_at := None \<rparr>"

lemma closed_assignment_sel [simp]:
  "sa_id (closed_assignment b r now a) = sa_id a" "\<not> in_flight (sa_status (closed_assignment b r now a))"
  by (simp_all add: closed_assignment_def)

definition released :: "uuid option \<Rightarrow> WorkerRegistration list \<Rightarrow> WorkerRegistration list" where
  "released ow ws = (case ow of None \<Rightarrow> ws | Some i \<Rightarrow> (case row_get wr_id i ws of None \<Rightarrow> ws
     | Some w \<Rightarrow> if wr_current_load w > 0 then row_set wr_id i (\<lambda>w. w\<lparr> wr_current_load := wr_current_load w - 1,
          wr_status := (if wr_status w = BUSY \<and> wr_current_load w - 1 < wr_max_concurrency w then ONLINE
                        else wr_status w) \<rparr>) ws else ws))"

lemma give_slot_back_exec: "give_slot_back ow s = (Inr (), workers_update (released ow) s)"
  by (simp add: give_slot_back_def released_def [abs_def] exec split: option.split)

lemma submit_result_Inr:
  assumes row: "row_get sa_id i (assignments s) = Some a" and ok: "submit_result i b res m ow (Some now) s = (Inr (), s')"
  shows "check_submit a ow now = None"
    and "assignments s' = row_set sa_id i (closed_assignment b res now) (assignments s)"
    and "workers s' = released (sa_worker_id a) (workers s)"
    and "row_get pr_id (sa_pipeline_run_id a) (runs s) = Some run \<Longrightarrow>
      \<exists>q. stage_runs s' = stage_runs s @ [new_stage_run a run b m now q]"
proof -
  show c: "check_submit a ow now = None"
    using assms by (cases "check_submit a ow now") (simp_all add: submit_result_def exec)
  let ?s1 = "workers_update (released (sa_worker_id a))
    (assignments_update (row_set sa_id i (closed_assignment b res now)) s)"
  let ?rest = "\<lambda>run. bindM uuid4 (\<lambda>i. andThen (add_stage_run (new_stage_run a run b m now i)) (
           andThen (whenM b (emit_completed a run res)) (settle_stage a (pr_id run) b res m)))"
  have e: "submit_result i b res m ow (Some now) s = (case row_get pr_id (sa_pipeline_run_id a) (runs s) of
      None \<Rightarrow> (Inr (), ?s1) | Some run \<Rightarrow> ?rest run ?s1)"
    using row c by (simp add: submit_result_def now_or_utcnow_exec load_exec store_exec give_slot_back_exec bindM_exec
        andThen_exec gets_exec ret_exec closed_assignment_def [abs_def] split: option.split)
  have ka: "keeps assignments (?rest run)" and kw: "keeps workers (?rest run)" for run
    unfolding emit_completed_def by (intro steps_intro; simp)+
  show "assignments s' = row_set sa_id i (closed_assignment b res now) (assignments s)"
    "workers s' = released (sa_worker_id a) (workers s)"
    using ok e keepsD' [OF ka] keepsD' [OF kw] by (auto split: option.splits)
  assume run: "row_get pr_id (sa_pipeline_run_id a) (runs s) = Some run"
  let ?q = "uuids ?s1 (tick s)" and ?s2 = "?s1\<lparr>tick := Suc (tick s)\<rparr>"
  let ?s3 = "?s2\<lparr>stage_runs := stage_runs ?s2 @ [new_stage_run a run b m now ?q]\<rparr>"
  let ?tail = "andThen (whenM b (emit_completed a run res)) (settle_stage a (pr_id run) b res m)"
  have "?tail ?s3 = (Inr (), s')"
    using ok e run by (auto simp: bindM_exec andThen_exec uuid4_exec add_stage_run_def split: if_splits)
  moreover have "keeps stage_runs ?tail"
    unfolding emit_completed_def by (intro steps_intro; simp)
  ultimately have "stage_runs s' = stage_runs ?s3" by (rule keepsD' [rotated])
  then show "\<exists>q. stage_runs s' = stage_runs s @ [new_stage_run a run b m now q]" by auto
qed

text \<open>
  C3: A result is taken once, and only from the holder of a live lease: with no lease, an expired one, a foreign
  worker or a row that is no longer in flight, submitting raises and changes nothing. A submission that goes
  through closes the assignment, gives the worker's slot back, records one stage run of the attempt with the
  outcome, and any later submission for the assignment is refused without effect.
\<close>

theorem submit_result_once:
  assumes "row_get sa_id i (assignments s) = Some a" and "submit_result i b res m (Some w) (Some now) s = (r, s')"
  shows "if r = Inr ()
    then sa_worker_id a = Some w \<and> in_flight (sa_status a) \<and> (\<exists>e. sa_lease_expires_at a = Some e \<and> now \<le> e)
      \<and> row_get sa_id i (assignments s') = Some (closed_assignment b res now a)
      \<and> workers s' = released (Some w) (workers s)
      \<and> (\<forall>run. row_get pr_id (sa_pipeline_run_id a) (runs s) = Some run \<longrightarrow>
           (\<exists>q. stage_runs s' = stage_runs s @ [q] \<and> psr_stage q = sa_stage a
             \<and> psr_attempt_number q = sa_attempt_number a
             \<and> psr_status q = (if b then StageRunStatus.SUCCEEDED else StageRunStatus.FAILED)))
      \<and> (\<exists>e. submit_result i b' res' m' ow' (Some now') s' = (Inl e, s'))
    else \<not> (sa_worker_id a = Some w \<and> in_flight (sa_status a) \<and> (\<exists>e. sa_lease_expires_at a = Some e \<and> now \<le> e))
      \<longrightarrow> s' = s"
proof -
  have chk: "check_submit a (Some w) now = None \<longleftrightarrow>
      sa_worker_id a = Some w \<and> in_flight (sa_status a) \<and> (\<exists>e. sa_lease_expires_at a = Some e \<and> now \<le> e)"
    by (auto simp: check_submit_def not_less split: option.splits)
  show ?thesis
  proof (cases "r = Inr ()")
    case True
    note sub = submit_result_Inr [OF assms(1), of b res m "Some w" now s']
    have ok: "submit_result i b res m (Some w) (Some now) s = (Inr (), s')" using assms(2) True by simp
    have row': "row_get sa_id i (assignments s') = Some (closed_assignment b res now a)"
      using sub(2) [OF ok] assms(1) by simp
    then have "\<exists>e. check_submit (closed_assignment b res now a) ow' now' = Some e"
      by (simp add: check_submit_def)
    then have "\<exists>e. submit_result i b' res' m' ow' (Some now') s' = (Inl e, s')"
      using row' by (auto simp: submit_result_def exec)
    moreover have "\<exists>q. stage_runs s' = stage_runs s @ [q] \<and> psr_stage q = sa_stage a
             \<and> psr_attempt_number q = sa_attempt_number a
             \<and> psr_status q = (if b then StageRunStatus.SUCCEEDED else StageRunStatus.FAILED)"
      if "row_get pr_id (sa_pipeline_run_id a) (runs s) = Some run" for run
      using sub(4) [OF ok that] by (auto simp: new_stage_run_def)
    moreover have "sa_worker_id a = Some w \<and> in_flight (sa_status a) \<and> (\<exists>e. sa_lease_expires_at a = Some e \<and> now \<le> e)"
      using sub(1) [OF ok] chk by simp
    ultimately show ?thesis using True sub(3) [OF ok] row' by simp
  next
    case False
    have "s' = s" if "check_submit a (Some w) now \<noteq> None"
      using that assms by (auto simp: submit_result_def exec)
    then show ?thesis using False chk by auto
  qed
qed

definition held_assignment :: StageAssignment where
  "held_assignment = sample_assignment\<lparr> sa_status := ACKNOWLEDGED, sa_worker_id := Some 20,
     sa_lease_started_at := Some 950, sa_lease_expires_at := Some 1010, sa_dispatched_at := Some 950 \<rparr>"

definition held_db :: db where
  "held_db = reserved_db\<lparr> assignments := [held_assignment],
     workers := [sample_worker\<lparr> wr_current_load := 1 \<rparr>] \<rparr>"

lemma held_db_row: "row_get sa_id 30 (assignments held_db) = Some held_assignment"
  by (simp add: held_db_def held_assignment_def fixture)

lemmas submit_ops = submit_result_def check_submit_def give_slot_back_def new_stage_run_def emit_completed_def
  settle_stage_def latest_open_reservation_def limit_rows_def commit_reported_def reported_cost_def

lemma submit_result_once_witness:
  "\<exists>s'. submit_result 30 False None ''bad prompt'' (Some 20) (Some 1000) held_db = (Inr (), s')
    \<and> row_get sa_id 30 (assignments s') = Some (closed_assignment False None 1000 held_assignment)
    \<and> workers s' = released (Some 20) (workers held_db)"
proof -
  have nr: "\<not> is_retryable ''bad prompt''" by code_simp
  have "fst (submit_result 30 False None ''bad prompt'' (Some 20) (Some 1000) held_db) = Inr ()"
    by (simp add: nr submit_ops spend_ops workflow_ops handle_stage_failure_def dead_letter_run_def fail_run_def
        route_to_dead_letter_def exec held_db_def held_assignment_def reserved_db_def fixture)
  then obtain s' where 1: "submit_result 30 False None ''bad prompt'' (Some 20) (Some 1000) held_db = (Inr (), s')"
    by (metis prod.collapse)
  from submit_result_once [OF held_db_row 1] 1 show ?thesis by auto
qed

end
