(* ===== verification/Claiming.thy ===== *)
theory Claiming imports Dispatcher begin

text \<open>
  Atomic worker claiming, \<open>orchestration/claiming.py\<close>: an idempotent replay, the worker's eligibility, the scan
  over the pending assignments by effective priority, the spend gate, and the grant. The \<open>FOR UPDATE\<close> lock on
  the worker's row and on the candidate is the atomicity of the step; the savepoints around a candidate only
  release locks, as nothing is written inside them.
\<close>

record ClaimResult =
  clr_assignment :: "uuid option"
  clr_outcome :: ClaimOutcome
  clr_reason :: string

definition heartbeat_max_age :: "Settings \<Rightarrow> int" where
  "heartbeat_max_age c = worker_offline_after_seconds c"

definition claim_lease_seconds :: "Settings \<Rightarrow> int" where
  "claim_lease_seconds c = assignment_lease_seconds c"

section \<open>The audit row of every attempt\<close>

definition record_claim ::
  "WorkerRegistration \<Rightarrow> ClaimOutcome \<Rightarrow> string \<Rightarrow> StageAssignment option \<Rightarrow> stage option \<Rightarrow> uuid option \<Rightarrow> unit M" where
  "record_claim worker outcome reason assignment st request_workspace_id =
     (case (case assignment of
              Some a \<Rightarrow> Some (sa_workspace_id a)
            | None \<Rightarrow> (case wr_workspace_id worker of Some ws \<Rightarrow> Some ws | None \<Rightarrow> request_workspace_id)) of
        None \<Rightarrow> ret ()
      | Some ws \<Rightarrow> bindM uuid4 (\<lambda>i. add_claim_audit \<lparr> sca_id = i, sca_workspace_id = ws,
          sca_assignment_id = map_option sa_id assignment, sca_worker_id = wr_id worker, sca_outcome = outcome,
          sca_stage = st, sca_detail = Some reason,
          sca_correlation_id = (case assignment of Some a \<Rightarrow> sa_correlation_id a | None \<Rightarrow> None) \<rparr>))"

definition refuse_claim ::
  "WorkerRegistration \<Rightarrow> ClaimOutcome \<Rightarrow> string \<Rightarrow> StageAssignment option \<Rightarrow> uuid option \<Rightarrow> ClaimResult M" where
  "refuse_claim worker outcome reason assignment request_workspace_id =
     andThen (record_claim worker outcome reason assignment (map_option sa_stage assignment) request_workspace_id)
     (ret \<lparr> clr_assignment = None, clr_outcome = outcome, clr_reason = reason \<rparr>)"

section \<open>Replay and eligibility\<close>

definition held_under_token :: "WorkerRegistration \<Rightarrow> uuid \<Rightarrow> db \<Rightarrow> StageAssignment list" where
  "held_under_token worker claim_token s =
     filter (\<lambda>a. sa_claimed_by a = Some (wr_id worker) \<and> sa_claim_token a = Some claim_token
       \<and> sa_status a = StageAssignmentStatus.DISPATCHED
       \<and> (wr_workspace_id worker = None \<or> Some (sa_workspace_id a) = wr_workspace_id worker)) (assignments s)"

definition replayed_claim :: "WorkerRegistration \<Rightarrow> uuid option \<Rightarrow> StageAssignment option M" where
  "replayed_claim worker claim_token =
     (case claim_token of None \<Rightarrow> ret None | Some t \<Rightarrow> query_one (held_under_token worker t))"

text \<open>Why a worker may not claim now; the last reason is a worker without stages.\<close>

definition claim_refusal :: "Settings \<Rightarrow> datetime \<Rightarrow> WorkerRegistration \<Rightarrow> (ClaimOutcome \<times> string) option" where
  "claim_refusal c now worker =
     (if wr_drain worker then Some (INELIGIBLE, ''worker is draining'')
      else if wr_deregistered_at worker \<noteq> None \<or> wr_status worker \<noteq> ONLINE then
        Some (INELIGIBLE, ''worker status is '' @ worker_status_value (wr_status worker) @ '', not online'')
      else if (case wr_last_heartbeat_at worker of None \<Rightarrow> True | Some t \<Rightarrow> now - t \<ge> of_int (heartbeat_max_age c)) then
        Some (INELIGIBLE, ''heartbeat is stale'')
      else if wr_current_load worker \<ge> wr_max_concurrency worker then Some (CAPACITY, ''worker at maximum concurrency'')
      else if wr_supported_stages worker = [] then Some (NO_WORK, ''worker supports no stages'')
      else None)"

section \<open>Scanning the candidates\<close>

definition claimable :: "WorkerRegistration \<Rightarrow> uuid list \<Rightarrow> db \<Rightarrow> StageAssignment list" where
  "claimable worker skipped s =
     filter (\<lambda>a. sa_status a = StageAssignmentStatus.PENDING \<and> sa_stage a \<in> set (wr_supported_stages worker)
       \<and> (wr_workspace_id worker = None \<or> Some (sa_workspace_id a) = wr_workspace_id worker)
       \<and> sa_id a \<notin> set skipped) (unlocked sa_id s (assignments s))"

definition claim_rank :: "Settings \<Rightarrow> datetime \<Rightarrow> StageAssignment \<Rightarrow> int \<times> datetime" where
  "claim_rank c now a = (- effective_priority_expr c (sa_priority a) (sa_created_at a) now, sa_created_at a)"

definition next_candidate :: "WorkerRegistration \<Rightarrow> datetime \<Rightarrow> uuid list \<Rightarrow> db \<Rightarrow> StageAssignment list" where
  "next_candidate worker now skipped s =
     limit_rows 1 (sort_key (claim_rank (cfg s) now) (claimable worker skipped s))"

text \<open>The loop over at most \<open>claim_candidate_batch_size\<close> candidates; the flag says a provider was saturated.\<close>

fun scan_candidates ::
  "nat \<Rightarrow> WorkerRegistration \<Rightarrow> datetime \<Rightarrow> uuid list \<Rightarrow> bool \<Rightarrow> (StageAssignment option \<times> bool) M" where
  "scan_candidates 0 worker now skipped blocked = ret (None, blocked)"
| "scan_candidates (Suc n) worker now skipped blocked =
     bindM (query_one (next_candidate worker now skipped)) (\<lambda>row.
     case row of
       None \<Rightarrow> ret (None, blocked)
     | Some r \<Rightarrow>
         bindM (has_provider_capacity (sa_workspace_id r) (sa_provider r)) (\<lambda>ok.
         if ok then ret (Some r, blocked)
         else scan_candidates n worker now (skipped @ [sa_id r]) True))"

section \<open>Spend gate and grant\<close>

definition claim_funded :: "StageAssignment \<Rightarrow> bool M" where
  "claim_funded a =
     bindM (get_row runs pr_id (sa_pipeline_run_id a)) (\<lambda>run_for_spend.
     case run_for_spend of
       None \<Rightarrow> ret True
     | Some run \<Rightarrow>
         bindM (query_one (open_stage_reservations (sa_pipeline_run_id a) (sa_stage a))) (\<lambda>open_reservation.
         case open_reservation of
           Some _ \<Rightarrow> ret True
         | None \<Rightarrow>
             bindM (gets (\<lambda>s. default_stage_estimate_usd (cfg s))) (\<lambda>estimate.
             bindM (reserve_spend (pr_id run) (sa_stage a) (provider_or_default (sa_provider a)) estimate)
               (\<lambda>reservation. ret (reservation \<noteq> None)))))"

definition claimed_row :: "uuid \<Rightarrow> datetime \<Rightarrow> int \<Rightarrow> uuid option \<Rightarrow> string \<Rightarrow> StageAssignment \<Rightarrow> StageAssignment" where
  "claimed_row worker_id now lease_seconds claim_token trace_id a = a\<lparr>
     sa_status := StageAssignmentStatus.DISPATCHED, sa_worker_id := Some worker_id, sa_claimed_by := Some worker_id,
     sa_claimed_at := Some now, sa_dispatched_at := Some now,
     sa_lease_expires_at := Some (now + of_int lease_seconds), sa_lease_started_at := Some now,
     sa_lease_extension_count := 0, sa_claim_count := sa_claim_count a + 1, sa_claim_token := claim_token,
     sa_trace_id := Some trace_id \<rparr>"

definition claim_payload :: "StageAssignment \<Rightarrow> uuid \<Rightarrow> json" where
  "claim_payload a worker_id =
     JObj [(''stage'', JStr (sa_stage a)), (''attempt_number'', JNum (of_int (sa_attempt_number a))),
           (''worker_id'', JStr (str_uuid worker_id)), (''assignment_id'', JStr (str_uuid (sa_id a))),
           (''via'', JStr ''claim''), (''priority'', JNum (of_int (sa_priority a))),
           (''provider'', case sa_provider a of None \<Rightarrow> JNull | Some p \<Rightarrow> JStr p)]"

definition grant_claim ::
  "WorkerRegistration \<Rightarrow> StageAssignment \<Rightarrow> datetime \<Rightarrow> uuid option \<Rightarrow> uuid option \<Rightarrow> ClaimResult M" where
  "grant_claim worker a now claim_token request_workspace_id =
     bindM (gets (\<lambda>s. claim_lease_seconds (cfg s))) (\<lambda>lease_seconds.
     bindM (child_span (sa_trace_id a)) (\<lambda>trace.
     andThen (set_assignment (sa_id a) (claimed_row (wr_id worker) now lease_seconds claim_token (fst trace))) (
     andThen (take_slot (wr_id worker)) (
     andThen (record_claim worker GRANTED ''claimed'' (Some a) (Some (sa_stage a)) request_workspace_id) (
     bindM (or_uuid4 (sa_correlation_id a)) (\<lambda>corr.
     bindM (emit STAGE_ASSIGNED (sa_workspace_id a) ''pipeline_run'' (sa_pipeline_run_id a) corr trace
       (claim_payload a (wr_id worker)) ''claiming'') (\<lambda>_.
     ret \<lparr> clr_assignment = Some (sa_id a), clr_outcome = GRANTED, clr_reason = ''claimed'' \<rparr>)))))))"

definition claim_new :: "WorkerRegistration \<Rightarrow> datetime \<Rightarrow> uuid option \<Rightarrow> uuid option \<Rightarrow> ClaimResult M" where
  "claim_new worker now claim_token request_workspace_id =
     bindM (gets (\<lambda>s. nat (claim_candidate_batch_size (cfg s)))) (\<lambda>batch.
     bindM (scan_candidates batch worker now [] False) (\<lambda>(found, saw_provider_budget_block).
     case found of
       None \<Rightarrow>
         (if saw_provider_budget_block then refuse_claim worker CAPACITY ''provider budget exhausted'' None request_workspace_id
          else refuse_claim worker NO_WORK ''no eligible assignment'' None request_workspace_id)
     | Some a \<Rightarrow>
         bindM (claim_funded a) (\<lambda>funded.
         if \<not> funded then refuse_claim worker CAPACITY ''workspace spend cap reached'' (Some a) request_workspace_id
         else grant_claim worker a now claim_token request_workspace_id)))"

definition claim_assignment :: "uuid \<Rightarrow> datetime option \<Rightarrow> uuid option \<Rightarrow> uuid option \<Rightarrow> ClaimResult M" where
  "claim_assignment worker_id now_arg claim_token request_workspace_id =
     bindM (now_or_utcnow now_arg) (\<lambda>now.
     bindM (get_row workers wr_id worker_id) (\<lambda>ow.
     case ow of
       None \<Rightarrow> ret \<lparr> clr_assignment = None, clr_outcome = INELIGIBLE, clr_reason = ''worker not found'' \<rparr>
     | Some worker \<Rightarrow>
         bindM (replayed_claim worker claim_token) (\<lambda>existing.
         case existing of
           Some a \<Rightarrow>
             andThen (record_claim worker GRANTED ''idempotent replay'' (Some a) (Some (sa_stage a)) request_workspace_id)
             (ret \<lparr> clr_assignment = Some (sa_id a), clr_outcome = GRANTED, clr_reason = ''idempotent replay'' \<rparr>)
         | None \<Rightarrow>
             bindM (gets (\<lambda>s. claim_refusal (cfg s) now worker)) (\<lambda>refusal.
             case refusal of
               Some (outcome, reason) \<Rightarrow> refuse_claim worker outcome reason None request_workspace_id
             | None \<Rightarrow> claim_new worker now claim_token request_workspace_id))))"

section \<open>Footprint\<close>

lemma w_claim_parts [steps_intro]:
  "steps writes (record_claim w out rs oa ost req)" "steps writes (refuse_claim w out rs oa req)"
  "steps writes (replayed_claim w tok)" "steps writes (claim_funded a)"
  "steps writes (grant_claim w a now tok req)"
  unfolding record_claim_def refuse_claim_def replayed_claim_def claim_funded_def grant_claim_def
  by (intro steps_intro; simp add: write_preds claimed_row_def)+

lemma w_scan [steps_intro]: "steps writes (scan_candidates n w now sk b)"
  by (induction n arbitrary: sk b) (auto intro!: steps_intro)

lemma w_claim [steps_intro]:
  "steps writes (claim_new w now tok req)" "steps writes (claim_assignment i t tok req)"
  unfolding claim_new_def claim_assignment_def by (intro steps_intro)+

lemma keeps_record_claim [steps_intro]:
  assumes "\<And>s n. f (s\<lparr>tick := n\<rparr>) = f s" "\<And>s g. f (claim_audits_update g s) = f s"
  shows "keeps f (record_claim w out rs oa ost req)" "keeps f (refuse_claim w out rs oa req)"
  unfolding refuse_claim_def record_claim_def by (intro steps_intro; simp add: assms)+

lemma keeps_claim_funded [steps_intro]: "blind f \<Longrightarrow> keeps f (claim_funded a)"
  unfolding claim_funded_def by (intro steps_intro)

lemma ro_scan [steps_intro]: "keeps f (scan_candidates n w now sk b)"
  by (induction n arbitrary: sk b) (auto intro!: steps_intro)

lemma scan_state: "scan_candidates n w now sk b s = (r, s') \<Longrightarrow> s' = s"
  using keepsD' [OF ro_scan [where f = "\<lambda>s. s"]] by blast

section \<open>What the scan finds\<close>

lemma next_candidate_Some:
  assumes "query_one (next_candidate w now sk) s = (Inr (Some r), s')"
  shows "s' = s \<and> r \<in> set (claimable w sk s)
    \<and> (\<forall>q \<in> set (claimable w sk s). claim_rank (cfg s) now r \<le> claim_rank (cfg s) now q)"
  using query_first [where rank = "\<lambda>s. claim_rank (cfg s) now" and f = "claimable w sk"]
    assms unfolding next_candidate_def by blast

lemma claimable_skip: "set (claimable w (sk @ [k]) s) = {q \<in> set (claimable w sk s). sa_id q \<noteq> k}"
  by (auto simp: claimable_def)

lemma claimable_row: "q \<in> set (claimable w sk s) \<Longrightarrow> q \<in> set (assignments s)"
  by (auto simp: claimable_def unlocked_def)

abbreviation saturated :: "StageAssignment \<Rightarrow> db \<Rightarrow> bool" where
  "saturated q s \<equiv> has_provider_capacity (sa_workspace_id q) (sa_provider q) s = (Inr False, s)"

lemma scan_finds:
  assumes "distinct (map sa_id (assignments s))" and "scan_candidates n w now sk b s = (Inr (Some r, b'), s')"
  shows "r \<in> set (claimable w sk s) \<and> has_provider_capacity (sa_workspace_id r) (sa_provider r) s = (Inr True, s)
    \<and> (\<forall>q \<in> set (claimable w sk s). claim_rank (cfg s) now q < claim_rank (cfg s) now r \<longrightarrow> saturated q s)"
  using assms(2)
proof (induction n arbitrary: sk b)
  case 0
  then show ?case by (simp add: ret_exec)
next
  case (Suc n)
  obtain h where h: "query_one (next_candidate w now sk) s = (Inr (Some h), s)"
    using Suc.prems by (auto simp: bindM_exec gets_exec query_one_exec ret_exec split: sum.splits option.splits)
  obtain ok where ok: "has_provider_capacity (sa_workspace_id h) (sa_provider h) s = (Inr ok, s)"
    using Suc.prems h capacity_read_only by (auto simp: bindM_exec split: prod.splits sum.splits)
  note hd = next_candidate_Some [OF h]
  show ?case
  proof (cases ok)
    case True
    then have "r = h" using Suc.prems h ok by (simp add: bindM_exec ret_exec)
    with hd ok True show ?thesis by (auto dest: leD)
  next
    case False
    then have "scan_candidates n w now (sk @ [sa_id h]) True s = (Inr (Some r, b'), s')"
      using Suc.prems h ok by (simp add: bindM_exec)
    note IH = Suc.IH [OF this, unfolded claimable_skip]
    have "saturated q s" if q: "q \<in> set (claimable w sk s)" "claim_rank (cfg s) now q < claim_rank (cfg s) now r" for q
    proof (cases "sa_id q = sa_id h")
      case True
      have "h \<in> set (claimable w sk s)" using hd by blast
      then have "row_get sa_id (sa_id h) (assignments s) = Some h"
        "row_get sa_id (sa_id h) (assignments s) = Some q"
        using row_get_distinct [OF assms(1) claimable_row] q(1) True by metis+
      then have "q = h" by simp
      with ok \<open>\<not> ok\<close> show ?thesis by simp
    next
      case False
      with IH q show ?thesis by blast
    qed
    with IH show ?thesis by blast
  qed
qed

section \<open>What a grant does\<close>

lemma grant_claim_result:
  "\<exists>s' tid. grant_claim w a now tok req s = (Inr \<lparr> clr_assignment = Some (sa_id a), clr_outcome = GRANTED, clr_reason = ''claimed'' \<rparr>, s')
    \<and> assignments s' = row_set sa_id (sa_id a) (claimed_row (wr_id w) now (assignment_lease_seconds (cfg s)) tok tid) (assignments s)
    \<and> workers s' = row_set wr_id (wr_id w) filled (workers s) \<and> cfg s' = cfg s \<and> reservations s' = reservations s"
proof -
  let ?lease = "assignment_lease_seconds (cfg s)"
  obtain tr n where 1: "child_span (sa_trace_id a) s = (Inr tr, s\<lparr>tick := n\<rparr>)" using child_span_Inr by blast
  let ?s1 = "workers_update (row_set wr_id (wr_id w) filled) (assignments_update (row_set sa_id (sa_id a)
    (claimed_row (wr_id w) now ?lease tok (fst tr))) (s\<lparr>tick := n\<rparr>))"
  obtain s2 where 2: "record_claim w GRANTED ''claimed'' (Some a) (Some (sa_stage a)) req ?s1 = (Inr (), s2)"
    by (simp add: record_claim_def exec)
  obtain c m where 3: "or_uuid4 (sa_correlation_id a) s2 = (Inr c, s2\<lparr>tick := m\<rparr>)" using or_uuid4_Inr by blast
  obtain e where 4: "emit STAGE_ASSIGNED (sa_workspace_id a) ''pipeline_run'' (sa_pipeline_run_id a) c tr
       (claim_payload a (wr_id w)) ''claiming'' (s2\<lparr>tick := m\<rparr>) = (Inr (ev_event_id e), s2\<lparr>tick := Suc (Suc m), events := events s2 @ [e]\<rparr>)"
    using emit_Inr [of STAGE_ASSIGNED "sa_workspace_id a" "''pipeline_run''" "sa_pipeline_run_id a" c tr
       "claim_payload a (wr_id w)" "''claiming''" "s2\<lparr>tick := m\<rparr>"] by auto
  have k: "assignments s2 = assignments ?s1" "workers s2 = workers ?s1" "cfg s2 = cfg ?s1" "reservations s2 = reservations ?s1"
    using keepsD' [OF keeps_record_claim(1) 2, of assignments] keepsD' [OF keeps_record_claim(1) 2, of workers]
      keepsD' [OF keeps_record_claim(1) 2, of cfg] keepsD' [OF keeps_record_claim(1) 2, of reservations] by simp_all
  have "grant_claim w a now tok req s = (Inr \<lparr> clr_assignment = Some (sa_id a), clr_outcome = GRANTED, clr_reason = ''claimed'' \<rparr>,
      s2\<lparr>tick := Suc (Suc m), events := events s2 @ [e]\<rparr>)"
    using 1 2 3 4 by (simp add: grant_claim_def claim_lease_seconds_def bindM_exec andThen_exec gets_exec store_exec
        take_slot_exec ret_exec)
  with k show ?thesis by (intro exI [of _ "s2\<lparr>tick := Suc (Suc m), events := events s2 @ [e]\<rparr>"] exI [of _ "fst tr"]) simp
qed

lemma claim_funded_keeps:
  assumes "claim_funded a s = (Inr b, s')"
  shows "assignments s' = assignments s" "workers s' = workers s" "cfg s' = cfg s" "claim_audits s' = claim_audits s"
  using keepsD' [OF keeps_claim_funded [of assignments] assms] keepsD' [OF keeps_claim_funded [of workers] assms]
    keepsD' [OF keeps_claim_funded [of cfg] assms] keepsD' [OF keeps_claim_funded [of claim_audits] assms] by simp_all

text \<open>The claim's budget: an open reservation of the stage that was there already, or a new one of the stage's estimate.\<close>

lemma claim_funded_pays:
  assumes "claim_funded a s = (Inr True, s')" "has_row pr_id (sa_pipeline_run_id a) (runs s)"
  shows "\<exists>r \<in> set (open_stage_reservations (sa_pipeline_run_id a) (sa_stage a) s'). r \<in> set (reservations s)
    \<or> sr_provider r = provider_or_default (sa_provider a) \<and> sr_estimated_cost_usd r = default_stage_estimate_usd (cfg s)"
proof -
  from assms(2) obtain run where run: "row_get pr_id (sa_pipeline_run_id a) (runs s) = Some run"
    by (auto simp: has_row_get)
  then have i: "pr_id run = sa_pipeline_run_id a" by (rule row_get_key)
  let ?open = "open_stage_reservations (sa_pipeline_run_id a) (sa_stage a)"
  obtain x where x: "scalar_one_or_none (?open s) = Inr x"
    using assms(1) run by (auto simp: claim_funded_def bindM_exec gets_exec query_one_exec split: sum.splits)
  show ?thesis
  proof (cases x)
    case (Some r)
    then have "?open s = [r]" using x by (simp add: scalar_one_or_none_Some)
    then have "r \<in> set (?open s)" by simp
    moreover have "s' = s" using assms(1) run x Some by (simp add: claim_funded_def bindM_exec gets_exec query_one_exec ret_exec)
    ultimately show ?thesis by (auto simp: open_stage_reservations_def)
  next
    case None
    then obtain k where "reserve_spend (sa_pipeline_run_id a) (sa_stage a) (provider_or_default (sa_provider a))
        (default_stage_estimate_usd (cfg s)) s = (Inr (Some k), s')"
      using assms(1) run x i by (auto simp: claim_funded_def bindM_exec gets_exec query_one_exec ret_exec
          split: prod.splits sum.splits)
    from reserve_spend_Some [OF this] show ?thesis by blast
  qed
qed

lemma refuse_claim_result:
  assumes "refuse_claim w out rs oa req s = (Inr res, s')"
  shows "res = \<lparr> clr_assignment = None, clr_outcome = out, clr_reason = rs \<rparr>"
    and "assignments s' = assignments s \<and> workers s' = workers s"
proof -
  show "assignments s' = assignments s \<and> workers s' = workers s"
    using keepsD' [OF keeps_record_claim(2) assms, of assignments] keepsD' [OF keeps_record_claim(2) assms, of workers] by simp
  show "res = \<lparr> clr_assignment = None, clr_outcome = out, clr_reason = rs \<rparr>"
    using assms by (auto simp: refuse_claim_def exec split: prod.splits sum.splits)
qed

lemma claim_cases:
  assumes "claim_assignment i (Some now) tok req s = (Inr res, s')"
  obtains (unknown) "row_get wr_id i (workers s) = None" "res = \<lparr> clr_assignment = None, clr_outcome = INELIGIBLE, clr_reason = ''worker not found'' \<rparr>" "s' = s"
  | (replay) w a where "row_get wr_id i (workers s) = Some w" "replayed_claim w tok s = (Inr (Some a), s)"
      "res = \<lparr> clr_assignment = Some (sa_id a), clr_outcome = GRANTED, clr_reason = ''idempotent replay'' \<rparr>"
      "record_claim w GRANTED ''idempotent replay'' (Some a) (Some (sa_stage a)) req s = (Inr (), s')"
  | (refused) w out rs oa s1 where "row_get wr_id i (workers s) = Some w" "refuse_claim w out rs oa req s1 = (Inr res, s')"
      "out \<noteq> GRANTED" "assignments s1 = assignments s" "workers s1 = workers s"
  | (granted) w a b s1 where "row_get wr_id i (workers s) = Some w" "replayed_claim w tok s = (Inr None, s)" "claim_refusal (cfg s) now w = None"
      "scan_candidates (nat (claim_candidate_batch_size (cfg s))) w now [] False s = (Inr (Some a, b), s)"
      "claim_funded a s = (Inr True, s1)" "grant_claim w a now tok req s1 = (Inr res, s')"
proof (cases "row_get wr_id i (workers s)")
  case None
  with assms show thesis by (intro unknown) (simp_all add: claim_assignment_def exec)
next
  case (Some w)
  have rs: "replayed_claim w tok s = (fst (replayed_claim w tok s), s)"
    by (cases tok) (simp_all add: replayed_claim_def exec)
  then obtain ex where ex: "replayed_claim w tok s = (Inr ex, s)"
    using assms Some by (cases "fst (replayed_claim w tok s)") (auto simp: claim_assignment_def exec split: sum.splits)
  show thesis
  proof (cases ex)
    case (Some a)
    with assms ex \<open>row_get wr_id i (workers s) = Some w\<close> show ?thesis
      by (intro replay [of w a]) (auto simp: claim_assignment_def bindM_exec andThen_exec gets_exec now_or_utcnow_exec
          ret_exec split: prod.splits sum.splits)
  next
    case None
    show ?thesis
    proof (cases "claim_refusal (cfg s) now w")
      case (Some p)
      moreover have "fst p \<noteq> GRANTED" using Some by (auto simp: claim_refusal_def split: if_splits option.splits)
      ultimately show ?thesis using assms ex None \<open>row_get wr_id i (workers s) = Some w\<close>
        by (cases p) (intro refused [of w "fst p" "snd p" None s]; simp add: claim_assignment_def exec)
    next
      case ok: None
      have new: "claim_new w now tok req s = (Inr res, s')"
        using assms ex None ok Some by (simp add: claim_assignment_def exec)
      let ?n = "nat (claim_candidate_batch_size (cfg s))"
      obtain f b where sc: "scan_candidates ?n w now [] False s = (Inr (f, b), s)"
        using new scan_state by (auto simp: claim_new_def bindM_exec gets_exec split: prod.splits sum.splits)
      show ?thesis
      proof (cases f)
        case None
        with new sc Some show ?thesis
          by (intro refused [of w "if b then CAPACITY else NO_WORK"
              "if b then ''provider budget exhausted'' else ''no eligible assignment''" None s])
            (auto simp: claim_new_def bindM_exec gets_exec)
      next
        case (Some a)
        obtain fd s1 where fd: "claim_funded a s = (Inr fd, s1)"
          using new sc Some by (auto simp: claim_new_def bindM_exec gets_exec split: prod.splits sum.splits)
        note k = claim_funded_keeps [OF fd]
        show ?thesis
        proof (cases fd)
          case True
          with new sc Some fd ex None ok \<open>row_get wr_id i (workers s) = Some w\<close> show ?thesis
            by (intro granted [of w a b s1]) (simp_all add: claim_new_def bindM_exec gets_exec)
        next
          case False
          with new sc Some fd k \<open>row_get wr_id i (workers s) = Some w\<close> show ?thesis
            by (intro refused [of w CAPACITY "''workspace spend cap reached''" "Some a" s1])
              (simp_all add: claim_new_def bindM_exec gets_exec)
        qed
      qed
    qed
  qed
qed

section \<open>Properties\<close>

lemma claim_grants:
  assumes "distinct (map sa_id (assignments s))" and "claim_assignment i (Some now) tok req s = (Inr res, s')"
  shows "if clr_outcome res = GRANTED \<and> clr_reason res \<noteq> ''idempotent replay''
    then \<exists>w a a'. row_get wr_id i (workers s) = Some w \<and> claim_refusal (cfg s) now w = None
      \<and> clr_assignment res = Some (sa_id a) \<and> a \<in> set (claimable w [] s)
      \<and> has_provider_capacity (sa_workspace_id a) (sa_provider a) s = (Inr True, s)
      \<and> (\<forall>q \<in> set (claimable w [] s). claim_rank (cfg s) now q < claim_rank (cfg s) now a \<longrightarrow> saturated q s)
      \<and> row_get sa_id (sa_id a) (assignments s') = Some a' \<and> sa_status a' = StageAssignmentStatus.DISPATCHED
      \<and> sa_worker_id a' = Some i \<and> sa_lease_expires_at a' = Some (now + of_int (assignment_lease_seconds (cfg s)))
      \<and> workers s' = row_set wr_id i filled (workers s) \<and> wr_current_load w + 1 \<le> wr_max_concurrency w
      \<and> (has_row pr_id (sa_pipeline_run_id a) (runs s) \<longrightarrow>
          (\<exists>r \<in> set (open_stage_reservations (sa_pipeline_run_id a) (sa_stage a) s'). r \<in> set (reservations s)
             \<or> sr_provider r = provider_or_default (sa_provider a) \<and> sr_estimated_cost_usd r = default_stage_estimate_usd (cfg s)))
    else assignments s' = assignments s \<and> workers s' = workers s"
  using assms(2)
proof (cases rule: claim_cases)
  case (replay w a)
  then show ?thesis
    using keepsD' [OF keeps_record_claim(1) replay(4), of assignments] keepsD' [OF keeps_record_claim(1) replay(4), of workers]
    by simp
next
  case (refused w out rs oa s1)
  then show ?thesis using refuse_claim_result [OF refused(2)] by simp
next
  case (granted w a b s1)
  note found = scan_finds [OF assms(1) granted(4)] and k = claim_funded_keeps [OF granted(5)]
  obtain s2 tid where g: "grant_claim w a now tok req s1 = (Inr \<lparr> clr_assignment = Some (sa_id a), clr_outcome = GRANTED, clr_reason = ''claimed'' \<rparr>, s2)"
    "assignments s2 = row_set sa_id (sa_id a) (claimed_row (wr_id w) now (assignment_lease_seconds (cfg s)) tok tid) (assignments s)"
    "workers s2 = row_set wr_id (wr_id w) filled (workers s)" "reservations s2 = reservations s1"
    using grant_claim_result [of w a now tok req s1, unfolded k] by blast
  have w: "wr_id w = i" using granted(1) by (rule row_get_key)
  have sw: "s2 = s'" using granted(6) g(1) by simp
  have pays: "has_row pr_id (sa_pipeline_run_id a) (runs s) \<longrightarrow>
      (\<exists>r \<in> set (open_stage_reservations (sa_pipeline_run_id a) (sa_stage a) s'). r \<in> set (reservations s)
         \<or> sr_provider r = provider_or_default (sa_provider a) \<and> sr_estimated_cost_usd r = default_stage_estimate_usd (cfg s))"
    using claim_funded_pays [OF granted(5)] g(4) sw by (simp add: open_stage_reservations_def)
  have "a \<in> set (assignments s)" using found claimable_row by blast
  then have row: "row_get sa_id (sa_id a) (assignments s) = Some a" by (rule row_get_distinct [OF assms(1)])
  let ?a' = "claimed_row (wr_id w) now (assignment_lease_seconds (cfg s)) tok tid a"
  have "row_get sa_id (sa_id a) (assignments s2) = Some ?a'"
    unfolding g(2) using row by (simp add: claimed_row_def)
  moreover have "wr_current_load w + 1 \<le> wr_max_concurrency w"
    using granted(3) by (auto simp: claim_refusal_def split: if_splits option.splits)
  moreover have "s2 = s'" "res = \<lparr> clr_assignment = Some (sa_id a), clr_outcome = GRANTED, clr_reason = ''claimed'' \<rparr>"
    using granted(6) g(1) by simp_all
  ultimately have "row_get wr_id i (workers s) = Some w \<and> claim_refusal (cfg s) now w = None
      \<and> clr_assignment res = Some (sa_id a) \<and> a \<in> set (claimable w [] s)
      \<and> has_provider_capacity (sa_workspace_id a) (sa_provider a) s = (Inr True, s)
      \<and> (\<forall>q \<in> set (claimable w [] s). claim_rank (cfg s) now q < claim_rank (cfg s) now a \<longrightarrow> saturated q s)
      \<and> row_get sa_id (sa_id a) (assignments s') = Some ?a' \<and> sa_status ?a' = StageAssignmentStatus.DISPATCHED
      \<and> sa_worker_id ?a' = Some i \<and> sa_lease_expires_at ?a' = Some (now + of_int (assignment_lease_seconds (cfg s)))
      \<and> workers s' = row_set wr_id i filled (workers s) \<and> wr_current_load w + 1 \<le> wr_max_concurrency w
      \<and> (has_row pr_id (sa_pipeline_run_id a) (runs s) \<longrightarrow>
          (\<exists>r \<in> set (open_stage_reservations (sa_pipeline_run_id a) (sa_stage a) s'). r \<in> set (reservations s)
             \<or> sr_provider r = provider_or_default (sa_provider a) \<and> sr_estimated_cost_usd r = default_stage_estimate_usd (cfg s)))"
    using granted(1,3) found g(3) w pays by (auto simp: claimed_row_def)
  moreover have "clr_outcome res = GRANTED \<and> clr_reason res \<noteq> ''idempotent replay''"
    using granted(6) g(1) by auto
  ultimately show ?thesis by (simp only: if_True simp_thms) blast
qed simp_all

text \<open>The order of the claims, spelled out: a better effective priority first, then the older assignment.\<close>

definition outranks :: "Settings \<Rightarrow> datetime \<Rightarrow> StageAssignment \<Rightarrow> StageAssignment \<Rightarrow> bool" where
  "outranks c now q a \<longleftrightarrow>
     (let p = (\<lambda>r. effective_priority_expr c (sa_priority r) (sa_created_at r) now)
      in p q > p a \<or> p q = p a \<and> sa_created_at q < sa_created_at a)"

lemma outranks_iff: "outranks c now q a \<longleftrightarrow> claim_rank c now q < claim_rank c now a"
  by (auto simp: outranks_def claim_rank_def Let_def)

lemma claim_refusal_None:
  assumes "claim_refusal c now w = None"
  shows "wr_status w = ONLINE \<and> \<not> wr_drain w \<and> wr_deregistered_at w = None
    \<and> (\<exists>t. wr_last_heartbeat_at w = Some t \<and> now - t < of_int (heartbeat_max_age c))"
  using assms by (auto simp: claim_refusal_def split: if_splits option.splits)

lemma claimable_facts:
  assumes "a \<in> set (claimable w [] s)"
  shows "sa_status a = StageAssignmentStatus.PENDING \<and> sa_id a \<notin> set (locks s) \<and> sa_stage a \<in> set (wr_supported_stages w)
    \<and> (wr_workspace_id w = None \<or> wr_workspace_id w = Some (sa_workspace_id a))"
  using assms by (auto simp: claimable_def unlocked_def)

text \<open>
  C5: A claim that grants new work hands out the best admissible assignment: the worker is online, registered, fresh, not
  draining, below its capacity and supports the stage; the assignment was pending, unlocked, within the worker's
  workspace pin, its provider has budget, and every claimable assignment of better effective priority (or equal
  priority and older) is blocked by its provider's budget. The row becomes the worker's with a lease from now, and
  the load grows by one within the capacity. The claim is funded: where the run exists, its stage has an open reservation afterwards,
  one it had before or a new one of the stage's estimate. Any other outcome leaves assignments and workers unchanged.
\<close>

theorem claim_grants_best:
  assumes "distinct (map sa_id (assignments s))" and "claim_assignment i (Some now) tok req s = (Inr res, s')"
  shows "if clr_outcome res = GRANTED \<and> clr_reason res \<noteq> ''idempotent replay''
    then \<exists>w a a'. row_get wr_id i (workers s) = Some w \<and> wr_status w = ONLINE \<and> \<not> wr_drain w
      \<and> wr_deregistered_at w = None
      \<and> (\<exists>t. wr_last_heartbeat_at w = Some t \<and> now - t < of_int (heartbeat_max_age (cfg s)))
      \<and> clr_assignment res = Some (sa_id a) \<and> a \<in> set (claimable w [] s)
      \<and> sa_status a = StageAssignmentStatus.PENDING \<and> sa_id a \<notin> set (locks s) \<and> sa_stage a \<in> set (wr_supported_stages w)
      \<and> (wr_workspace_id w = None \<or> wr_workspace_id w = Some (sa_workspace_id a))
      \<and> has_provider_capacity (sa_workspace_id a) (sa_provider a) s = (Inr True, s)
      \<and> (\<forall>q \<in> set (claimable w [] s). outranks (cfg s) now q a \<longrightarrow> saturated q s)
      \<and> row_get sa_id (sa_id a) (assignments s') = Some a' \<and> sa_status a' = StageAssignmentStatus.DISPATCHED
      \<and> sa_worker_id a' = Some i \<and> sa_lease_expires_at a' = Some (now + of_int (assignment_lease_seconds (cfg s)))
      \<and> workers s' = row_set wr_id i filled (workers s) \<and> wr_current_load w + 1 \<le> wr_max_concurrency w
      \<and> (has_row pr_id (sa_pipeline_run_id a) (runs s) \<longrightarrow>
          (\<exists>r \<in> set (open_stage_reservations (sa_pipeline_run_id a) (sa_stage a) s'). r \<in> set (reservations s)
             \<or> sr_provider r = provider_or_default (sa_provider a) \<and> sr_estimated_cost_usd r = default_stage_estimate_usd (cfg s)))
    else assignments s' = assignments s \<and> workers s' = workers s"
proof (cases "clr_outcome res = GRANTED \<and> clr_reason res \<noteq> ''idempotent replay''")
  case True
  note f = claim_grants [OF assms, unfolded if_P [OF True]]
  from f show ?thesis unfolding if_P [OF True] outranks_iff by (metis claim_refusal_None claimable_facts)
next
  case False
  from claim_grants [OF assms] show ?thesis unfolding if_not_P [OF False] .
qed

lemma filter_row_set_new:
  assumes "distinct (map key xs)" "row_get key k xs = Some a" "filter P xs = []" "P (f a)"
  shows "filter P (row_set key k f xs) = [f a]"
  using assms
proof (induction xs)
  case (Cons x xs)
  show ?case
  proof (cases "key x = k")
    case True
    with Cons.prems have "k \<notin> key ` set xs" by auto
    then have "row_set key k f xs = xs" by (induction xs) auto
    with True Cons.prems show ?thesis by (simp split: if_splits)
  next
    case False
    with Cons show ?thesis by (simp split: if_splits)
  qed
qed simp

text \<open>
  C8: A claim is idempotent under its token: the worker that repeats a granted request with the same token is
  handed the same assignment again, and neither an assignment nor a worker changes.
\<close>

theorem claim_replay_same:
  assumes "distinct (map sa_id (assignments s))" and "claim_assignment i (Some now) (Some tok) req s = (Inr res, s')"
    and "clr_outcome res = GRANTED"
  shows "\<exists>res' s''. claim_assignment i (Some now') (Some tok) req s' = (Inr res', s'')
    \<and> clr_outcome res' = GRANTED \<and> clr_assignment res' = clr_assignment res
    \<and> assignments s'' = assignments s' \<and> workers s'' = workers s'"
proof -
  have replays: "\<exists>res' s''. claim_assignment i (Some now') (Some tok) req s' = (Inr res', s'')
      \<and> clr_outcome res' = GRANTED \<and> clr_assignment res' = Some (sa_id a)
      \<and> assignments s'' = assignments s' \<and> workers s'' = workers s'"
    if "row_get wr_id i (workers s') = Some w" "held_under_token w tok s' = [a]" for w a
  proof -
    obtain s2 where r: "record_claim w GRANTED ''idempotent replay'' (Some a) (Some (sa_stage a)) req s' = (Inr (), s2)"
      by (simp add: record_claim_def exec)
    then have "claim_assignment i (Some now') (Some tok) req s'
        = (Inr \<lparr> clr_assignment = Some (sa_id a), clr_outcome = GRANTED, clr_reason = ''idempotent replay'' \<rparr>, s2)"
      using that by (simp add: claim_assignment_def replayed_claim_def exec)
    with keepsD' [OF keeps_record_claim(1) r, of assignments] keepsD' [OF keeps_record_claim(1) r, of workers]
    show ?thesis by simp
  qed
  show ?thesis using assms(2)
  proof (cases rule: claim_cases)
    case (replay w a)
    then have "held_under_token w tok s = [a]" by (simp add: replayed_claim_def query_one_exec scalar_one_or_none_Some)
    moreover have "assignments s' = assignments s" "workers s' = workers s"
      using keepsD' [OF keeps_record_claim(1) replay(4), of assignments] keepsD' [OF keeps_record_claim(1) replay(4), of workers]
      by simp_all
    ultimately show ?thesis using replays [of w a] replay by (simp add: held_under_token_def)
  next
    case (granted w a b s1)
    note found = scan_finds [OF assms(1) granted(4)] and k = claim_funded_keeps [OF granted(5)]
    obtain tid where g: "assignments s' = row_set sa_id (sa_id a) (claimed_row (wr_id w) now (assignment_lease_seconds (cfg s)) (Some tok) tid) (assignments s)"
      "workers s' = row_set wr_id (wr_id w) filled (workers s)" "clr_assignment res = Some (sa_id a)"
      using grant_claim_result [of w a now "Some tok" req s1, unfolded k] granted(6) by auto
    have "a \<in> set (assignments s)" using found claimable_row by blast
    then have row: "row_get sa_id (sa_id a) (assignments s) = Some a" by (rule row_get_distinct [OF assms(1)])
    have w: "wr_id w = i" using granted(1) by (rule row_get_key)
    have none: "held_under_token (filled w) tok s = []"
      using granted(2) by (simp add: replayed_claim_def query_one_exec scalar_one_or_none_None held_under_token_def filled_def)
    let ?a' = "claimed_row (wr_id w) now (assignment_lease_seconds (cfg s)) (Some tok) tid a"
    have "wr_workspace_id w = None \<or> Some (sa_workspace_id a) = wr_workspace_id w" using found by (simp add: claimable_def)
    then have "held_under_token (filled w) tok s' = [?a']"
      unfolding held_under_token_def g(1) using none
      by (intro filter_row_set_new [OF assms(1) row]) (simp_all add: held_under_token_def claimed_row_def filled_def)
    moreover have "row_get wr_id i (workers s') = Some (filled w)" unfolding g(2) using granted(1) w by simp
    ultimately show ?thesis using replays [of "filled w" ?a'] g(3) by (simp add: claimed_row_def)
  next
    case (refused w out rs oa s1)
    with refuse_claim_result(1) [OF refused(2)] assms(3) show ?thesis by simp
  qed (use assms(3) in simp)
qed

lemmas claim_ops = claim_assignment_def replayed_claim_def held_under_token_def claim_refusal_def heartbeat_max_age_def
  claim_new_def next_candidate_def claimable_def claim_rank_def effective_priority_expr_def claim_funded_def
  grant_claim_def claim_lease_seconds_def record_claim_def refuse_claim_def claimed_row_def

definition pending_db :: db where
  "pending_db = sample_db\<lparr>assignments := [sample_assignment],
     cfg := default_settings\<lparr>claim_candidate_batch_size := 1\<rparr>\<rparr>"

lemma pending_db_claim:
  "\<exists>res s'. claim_assignment 20 (Some 1000) (Some 77) None pending_db = (Inr res, s') \<and> clr_outcome res = GRANTED
    \<and> clr_reason res = ''claimed''"
proof -
  have "\<exists>res. fst (claim_assignment 20 (Some 1000) (Some 77) None pending_db) = Inr res \<and> clr_outcome res = GRANTED
    \<and> clr_reason res = ''claimed''"
    by (simp add: claim_ops dispatch_ops spend_ops workflow_ops exec pending_db_def fixture)
  then show ?thesis by (metis prod.collapse)
qed

lemma pending_db_rows: "distinct (map sa_id (assignments pending_db))" "workers pending_db = [sample_worker]"
  "assignments pending_db = [sample_assignment]"
  by (simp_all add: pending_db_def fixture)

lemma claim_grants_best_witness:
  "\<exists>res s'. claim_assignment 20 (Some 1000) (Some 77) None pending_db = (Inr res, s') \<and> clr_assignment res = Some 30
    \<and> workers s' = row_set wr_id 20 filled (workers pending_db)"
proof -
  from pending_db_claim obtain res s' where 1: "claim_assignment 20 (Some 1000) (Some 77) None pending_db = (Inr res, s')"
    "clr_outcome res = GRANTED \<and> clr_reason res \<noteq> ''idempotent replay''" by force
  from claim_grants_best [OF pending_db_rows(1) 1(1)] obtain w a where
    "clr_assignment res = Some (sa_id a)" "a \<in> set (claimable w [] pending_db)"
    "workers s' = row_set wr_id 20 filled (workers pending_db)"
    unfolding if_P [OF 1(2)] by blast
  moreover from this(2) have "sa_id a = 30"
    by (auto dest!: claimable_row simp: pending_db_rows sample_assignment_def)
  ultimately show ?thesis using 1(1) by auto
qed

lemma claim_replay_same_witness:
  "\<exists>res s' res' s''. claim_assignment 20 (Some 1000) (Some 77) None pending_db = (Inr res, s')
    \<and> claim_assignment 20 (Some 1001) (Some 77) None s' = (Inr res', s'')
    \<and> clr_assignment res' = clr_assignment res \<and> assignments s'' = assignments s'"
proof -
  from pending_db_claim obtain res s' where 1: "claim_assignment 20 (Some 1000) (Some 77) None pending_db = (Inr res, s')"
    "clr_outcome res = GRANTED" by blast
  from claim_replay_same [OF pending_db_rows(1) 1, of 1001] 1 show ?thesis by blast
qed

definition failed_db :: db where
  "failed_db = pending_db\<lparr> runs := [sample_run\<lparr>pr_status := PipelineRunStatus.FAILED\<rparr>], caps := [] \<rparr>"

text \<open>
  A claim can bring a failed run back: a spend refusal pauses the run of the candidate whatever its status, and
  the claim never looks at that status. Here the run has \<open>FAILED\<close> and its leftover assignment is pending; after
  a claim over budget the run is \<open>PAUSED\<close> again, no longer terminal.
\<close>

theorem claim_revives_failed_run:
  "\<exists>res s'. claim_assignment 20 (Some 1000) None None failed_db = (Inr res, s') \<and> clr_outcome res = CAPACITY
    \<and> map (\<lambda>r. (pr_id r, pr_status r)) (runs failed_db) = [(10, PipelineRunStatus.FAILED)]
    \<and> map (\<lambda>r. (pr_id r, pr_status r)) (runs s') = [(10, PAUSED)] \<and> \<not> run_terminal PAUSED"
proof -
  let ?v = "\<lambda>s. map (\<lambda>r. (pr_id r, pr_status r)) (runs s)"
  have fd: "fst (claim_funded sample_assignment failed_db) = Inr False"
    and rs: "?v (snd (claim_funded sample_assignment failed_db)) = [(10, PAUSED)]"
    by (simp_all add: claim_funded_def dispatch_ops spend_ops workflow_ops exec failed_db_def pending_db_def fixture)
  then obtain s1 where f: "claim_funded sample_assignment failed_db = (Inr False, s1)" and v: "?v s1 = [(10, PAUSED)]"
    by (metis prod.collapse)
  have sc: "fst (scan_candidates 1 sample_worker 1000 [] False failed_db) = Inr (Some sample_assignment, False)"
    by (simp add: claim_ops dispatch_ops spend_ops workflow_ops exec failed_db_def pending_db_def fixture)
  then have sc: "scan_candidates 1 sample_worker 1000 [] False failed_db = (Inr (Some sample_assignment, False), failed_db)"
    using scan_state by (metis prod.collapse)
  have w: "row_get wr_id 20 (workers failed_db) = Some sample_worker" "nat (claim_candidate_batch_size (cfg failed_db)) = 1"
    "claim_refusal (cfg failed_db) 1000 sample_worker = None"
    by (simp_all add: failed_db_def pending_db_def claim_refusal_def heartbeat_max_age_def fixture)
  have "claim_assignment 20 (Some 1000) None None failed_db
      = refuse_claim sample_worker CAPACITY ''workspace spend cap reached'' (Some sample_assignment) None s1"
    using w sc f by (simp add: claim_assignment_def replayed_claim_def claim_new_def bindM_exec gets_exec ret_exec
        now_or_utcnow_exec del: One_nat_def)
  moreover obtain s2 where "refuse_claim sample_worker CAPACITY ''workspace spend cap reached'' (Some sample_assignment) None s1
      = (Inr \<lparr> clr_assignment = None, clr_outcome = CAPACITY, clr_reason = ''workspace spend cap reached'' \<rparr>, s2)" "runs s2 = runs s1"
    by (simp add: refuse_claim_def record_claim_def exec)
  moreover have "?v failed_db = [(10, PipelineRunStatus.FAILED)]" by (simp add: failed_db_def fixture)
  ultimately show ?thesis using v by simp
qed

end
