(* ===== verification/Recovery.thy ===== *)
theory Recovery imports Claiming begin

text \<open>
  Lease recovery, \<open>orchestration/recovery.py\<close>: requeueing an expired or orphaned assignment for another attempt,
  or dead-lettering it when its attempts are used up; and the two batch entry points. Every attempt that reached a
  worker counts, so \<open>max_attempts\<close> bounds the starts of a stage.
\<close>

datatype RecoveryResultKind = REQUEUED | DEAD_LETTERED | SKIPPED

record RecoveryResult =
  rcr_assignment :: uuid
  rcr_kind :: RecoveryResultKind
  rcr_previous_attempt :: int
  rcr_new_attempt :: "int option"

section \<open>The parts of a recovery\<close>

definition clear_lease_and_claim_fields :: "StageAssignment \<Rightarrow> StageAssignment" where
  "clear_lease_and_claim_fields a = a\<lparr> sa_worker_id := None, sa_lease_expires_at := None,
     sa_lease_started_at := None, sa_lease_extension_count := 0, sa_dispatched_at := None,
     sa_acknowledged_at := None, sa_claimed_by := None, sa_claimed_at := None, sa_claim_token := None \<rparr>"

definition free_slot :: "WorkerRegistration \<Rightarrow> WorkerRegistration" where
  "free_slot w =
     (let load = (if wr_current_load w > 0 then wr_current_load w - 1 else wr_current_load w)
      in w\<lparr> wr_current_load := load,
            wr_status := (if wr_status w = BUSY \<and> load < wr_max_concurrency w then ONLINE else wr_status w) \<rparr>)"

definition release_worker_slot :: "uuid option \<Rightarrow> unit M" where
  "release_worker_slot worker_id =
     (case worker_id of
        None \<Rightarrow> ret ()
      | Some i \<Rightarrow> bindM (get_row workers wr_id i) (\<lambda>ow. case ow of
          None \<Rightarrow> ret ()
        | Some _ \<Rightarrow> set_worker i free_slot))"

definition resolve_max_attempts :: "StageAssignment \<Rightarrow> int M" where
  "resolve_max_attempts a =
     bindM (gets (\<lambda>s. assignment_default_max_attempts (cfg s))) (\<lambda>default_max.
     bindM (get_row runs pr_id (sa_pipeline_run_id a)) (\<lambda>run.
     case (case run of None \<Rightarrow> None | Some r \<Rightarrow> pr_definition_id r) of
       None \<Rightarrow> ret default_max
     | Some d \<Rightarrow>
         bindM (query_one (stage_rows d (sa_stage a))) (\<lambda>stage_def.
         ret (case stage_def of None \<Rightarrow> default_max | Some sd \<Rightarrow> wst_max_attempts sd))))"

text \<open>\<open>detail or default\<close>.\<close>

definition text_or :: "string option \<Rightarrow> string \<Rightarrow> string" where
  "text_or t dflt = (case t of None \<Rightarrow> dflt | Some x \<Rightarrow> if x = [] then dflt else x)"

definition audit_recovery ::
  "StageAssignment \<Rightarrow> RecoveryReason \<Rightarrow> int option \<Rightarrow> RecoveryOutcome \<Rightarrow> string option \<Rightarrow> unit M" where
  "audit_recovery a reason new_attempt outcome detail =
     bindM uuid4 (\<lambda>i. add_recovery_audit \<lparr> sra_id = i, sra_workspace_id = sa_workspace_id a,
       sra_assignment_id = sa_id a, sra_previous_worker_id = sa_worker_id a, sra_reason = reason,
       sra_previous_status = stage_assignment_status_value (sa_status a),
       sra_previous_attempt = sa_attempt_number a, sra_new_attempt = new_attempt, sra_outcome = outcome,
       sra_detail = detail, sra_correlation_id = sa_correlation_id a \<rparr>)"

section \<open>Dead-lettering and requeueing\<close>

text \<open>\<open>a\<close> is the row as it was before the recovery; the dispatch time is cleared before it is read.\<close>

definition fail_live_run :: "StageAssignment \<Rightarrow> RecoveryReason \<Rightarrow> unit M" where
  "fail_live_run a reason =
     bindM (get_row runs pr_id (sa_pipeline_run_id a)) (\<lambda>orun.
     case orun of
       None \<Rightarrow> ret ()
     | Some run \<Rightarrow>
         whenM (\<not> run_terminal (pr_status run)) (
         andThen (whenM (pr_correlation_id run = None) (bindM (or_uuid4 (sa_correlation_id a)) (\<lambda>c.
           set_run (pr_id run) (\<lambda>r. r\<lparr>pr_correlation_id := Some c\<rparr>))))
         (fail_run (pr_id run) (''assignment recovery exhausted ('' @ recovery_reason_value reason @ '')''))))"

definition give_up :: "StageAssignment \<Rightarrow> RecoveryReason \<Rightarrow> datetime \<Rightarrow> string option \<Rightarrow> int \<Rightarrow> RecoveryResult M" where
  "give_up a reason now detail max_attempts =
     andThen (set_assignment (sa_id a) (\<lambda>r. clear_lease_and_claim_fields
       (r\<lparr> sa_status := StageAssignmentStatus.FAILED, sa_completed_at := Some now \<rparr>))) (
     bindM (the_assignment (sa_id a)) (\<lambda>cleared.
     bindM (route_to_dead_letter (sa_workspace_id a) ''stage_assignments'' (sa_id a) (''stage:'' @ sa_stage a)
       (Some (JObj [(''stage'', JStr (sa_stage a)), (''attempt_number'', JNum (of_int (sa_attempt_number a))),
                    (''reason'', JStr (recovery_reason_value reason))]))
       (''recovery exhausted ('' @ recovery_reason_value reason @ '') after ''
         @ str_int (sa_attempt_number a) @ '' attempts'')
       (sa_attempt_number a) (the_or (sa_dispatched_at cleared) now)) (\<lambda>_.
     andThen (fail_live_run a reason) (
     andThen (audit_recovery a reason None RecoveryOutcome.DEAD_LETTERED
       (Some (text_or detail (''max_attempts='' @ str_int max_attempts))))
     (ret \<lparr> rcr_assignment = sa_id a, rcr_kind = DEAD_LETTERED, rcr_previous_attempt = sa_attempt_number a,
            rcr_new_attempt = None \<rparr>)))))"

text \<open>
  The flush of the requeued row: the new idempotency key runs into the unique index when another row of the
  workspace has it already.
\<close>

definition rekey_assignment :: "uuid \<Rightarrow> string \<Rightarrow> unit M" where
  "rekey_assignment i key = (\<lambda>s. case row_get sa_id i (assignments s) of
     None \<Rightarrow> (Inl NoSuchRow, s)
   | Some a \<Rightarrow> if key_elsewhere i (sa_workspace_id a) key (assignments s) then (Inl IntegrityError, s)
       else (Inr (), assignments_update (row_set sa_id i (sa_idempotency_key_update (\<lambda>_. Some key))) s))"

definition requeued_row :: "int \<Rightarrow> StageAssignment \<Rightarrow> StageAssignment" where
  "requeued_row next_attempt r = clear_lease_and_claim_fields
     (r\<lparr> sa_status := StageAssignmentStatus.PENDING, sa_attempt_number := next_attempt \<rparr>)"

definition release_stale :: "StageAssignment \<Rightarrow> unit M" where
  "release_stale a =
     bindM (get_row runs pr_id (sa_pipeline_run_id a)) (\<lambda>run_for_release.
     case run_for_release of
       None \<Rightarrow> ret ()
     | Some run \<Rightarrow> release_priors (pr_id run) (sa_stage a))"

definition announce_requeue :: "StageAssignment \<Rightarrow> RecoveryReason \<Rightarrow> int \<Rightarrow> unit M" where
  "announce_requeue a reason next_attempt =
     bindM (child_span (sa_trace_id a)) (\<lambda>trace.
     andThen (set_assignment (sa_id a) (\<lambda>r. r\<lparr>sa_trace_id := Some (fst trace)\<rparr>)) (
     bindM (or_uuid4 (sa_correlation_id a)) (\<lambda>corr.
     bindM (emit STAGE_REASSIGNED (sa_workspace_id a) ''pipeline_run'' (sa_pipeline_run_id a) corr trace
       (JObj [(''stage'', JStr (sa_stage a)), (''assignment_id'', JStr (str_uuid (sa_id a))),
              (''reason'', JStr (recovery_reason_value reason)),
              (''previous_attempt'', JNum (of_int (sa_attempt_number a))),
              (''attempt_number'', JNum (of_int next_attempt))]) ''recovery'') (\<lambda>_. ret ()))))"

definition requeue :: "StageAssignment \<Rightarrow> RecoveryReason \<Rightarrow> string option \<Rightarrow> int \<Rightarrow> RecoveryResult M" where
  "requeue a reason detail next_attempt =
     andThen (release_stale a) (
     andThen (rekey_assignment (sa_id a) (stage_key_of_attempt (sa_pipeline_run_id a) (sa_stage a) next_attempt)) (
     andThen (set_assignment (sa_id a) (requeued_row next_attempt)) (
     andThen (announce_requeue a reason next_attempt) (
     andThen (audit_recovery a reason (Some next_attempt) RecoveryOutcome.REQUEUED detail)
     (ret \<lparr> rcr_assignment = sa_id a, rcr_kind = REQUEUED, rcr_previous_attempt = sa_attempt_number a,
            rcr_new_attempt = Some next_attempt \<rparr>)))))"

definition recover_assignment ::
  "uuid \<Rightarrow> RecoveryReason \<Rightarrow> datetime option \<Rightarrow> string option \<Rightarrow> RecoveryResult M" where
  "recover_assignment assignment_id reason now_arg detail =
     bindM (now_or_utcnow now_arg) (\<lambda>now.
     bindM (the_assignment assignment_id) (\<lambda>a.
     if \<not> in_flight (sa_status a) then
       andThen (audit_recovery a reason None RecoveryOutcome.SKIPPED (Some (text_or detail ''not in-flight'')))
       (ret \<lparr> rcr_assignment = sa_id a, rcr_kind = SKIPPED, rcr_previous_attempt = sa_attempt_number a,
              rcr_new_attempt = None \<rparr>)
     else
       andThen (release_worker_slot (sa_worker_id a)) (
       bindM (resolve_max_attempts a) (\<lambda>max_attempts.
       let next_attempt = sa_attempt_number a + 1 in
       if next_attempt > max_attempts then give_up a reason now detail max_attempts
       else requeue a reason detail next_attempt))))"

section \<open>The batches\<close>

definition expired_leases :: "datetime \<Rightarrow> int \<Rightarrow> db \<Rightarrow> StageAssignment list" where
  "expired_leases now limit s =
     limit_rows limit (sort_key (\<lambda>a. the_or (sa_lease_expires_at a) now)
       (filter (\<lambda>a. in_flight (sa_status a) \<and> (case sa_lease_expires_at a of None \<Rightarrow> False | Some e \<Rightarrow> e < now))
         (unlocked sa_id s (assignments s))))"

definition reap_expired_leases :: "int option \<Rightarrow> datetime option \<Rightarrow> RecoveryResult list M" where
  "reap_expired_leases batch_size now_arg =
     bindM (now_or_utcnow now_arg) (\<lambda>now.
     bindM (gets (\<lambda>s. the_or batch_size (assignment_reaper_batch_size (cfg s)))) (\<lambda>limit.
     bindM (query (expired_leases now limit)) (\<lambda>expired.
     mapM expired (\<lambda>a. recover_assignment (sa_id a) LEASE_EXPIRED (Some now) None))))"

definition held_by :: "uuid \<Rightarrow> db \<Rightarrow> StageAssignment list" where
  "held_by worker_id s =
     filter (\<lambda>a. sa_worker_id a = Some worker_id \<and> in_flight (sa_status a)) (unlocked sa_id s (assignments s))"

text \<open>Nothing left to take means: whatever the worker still holds is locked by another transaction.\<close>

lemma held_by_empty:
  "held_by w s = [] \<longleftrightarrow> (\<forall>a \<in> set (assignments s). sa_worker_id a = Some w \<and> sa_status a \<in> {StageAssignmentStatus.DISPATCHED, ACKNOWLEDGED}
     \<longrightarrow> sa_id a \<in> set (locks s))"
  by (auto simp: held_by_def unlocked_def filter_empty_conv in_flight_def)

text \<open>The \<open>while True\<close> loop, with fuel for its rounds.\<close>

fun reap_rounds ::
  "nat \<Rightarrow> uuid \<Rightarrow> RecoveryReason \<Rightarrow> int \<Rightarrow> datetime \<Rightarrow> string option \<Rightarrow> RecoveryResult list M" where
  "reap_rounds 0 worker_id reason limit now detail = raise OutOfFuel"
| "reap_rounds (Suc n) worker_id reason limit now detail =
     bindM (query (\<lambda>s. limit_rows limit (held_by worker_id s))) (\<lambda>holdings.
     if holdings = [] then ret []
     else bindM (mapM holdings (\<lambda>a. recover_assignment (sa_id a) reason (Some now) detail)) (\<lambda>outcomes.
          if int (length holdings) < limit then ret outcomes
          else bindM (reap_rounds n worker_id reason limit now detail) (\<lambda>more. ret (outcomes @ more))))"

definition reap_worker_assignments ::
  "uuid \<Rightarrow> RecoveryReason \<Rightarrow> int option \<Rightarrow> datetime option \<Rightarrow> string option \<Rightarrow> RecoveryResult list M" where
  "reap_worker_assignments worker_id reason batch_size now_arg detail =
     bindM (now_or_utcnow now_arg) (\<lambda>now.
     bindM (gets (\<lambda>s. the_or batch_size (assignment_reaper_batch_size (cfg s)))) (\<lambda>limit.
     bindM (gets (\<lambda>s. length (held_by worker_id s))) (\<lambda>held.
     reap_rounds (Suc held) worker_id reason limit now detail)))"

section \<open>Footprint\<close>

lemma w_rekey [steps_intro]: "steps writes (rekey_assignment i key)"
  by (auto simp: steps_def rekey_assignment_def split: option.split intro: w_one [OF db_write.rekey])

lemma w_recovery_parts [steps_intro]:
  "steps writes (release_worker_slot ow)" "steps writes (resolve_max_attempts a)"
  "steps writes (audit_recovery a rs na out d)" "steps writes (fail_live_run a rs)"
  "steps writes (give_up a rs now d mx)" "steps writes (release_stale a)" "steps writes (announce_requeue a rs n)"
  "steps writes (requeue a rs d n)"
  unfolding release_worker_slot_def resolve_max_attempts_def audit_recovery_def fail_live_run_def give_up_def
    release_stale_def announce_requeue_def requeue_def
  by (intro steps_intro; simp add: write_preds free_slot_def Let_def clear_lease_and_claim_fields_def requeued_row_def)+

lemma w_recover [steps_intro]: "steps writes (recover_assignment i rs t d)"
  unfolding recover_assignment_def Let_def by (intro steps_intro)

lemma w_reap_rounds [steps_intro]: "steps writes (reap_rounds n w rs l now d)"
  by (induction n) (auto intro!: steps_intro)

lemma w_reap [steps_intro]:
  "steps writes (reap_expired_leases b t)" "steps writes (reap_worker_assignments w rs b t d)"
  unfolding reap_expired_leases_def reap_worker_assignments_def by (intro steps_intro)+

section \<open>What a recovery does\<close>

lemma release_worker_slot_exec:
  "\<exists>g. release_worker_slot ow s = (Inr (), workers_update g s)"
proof (cases ow)
  case None
  then show ?thesis by (intro exI [of _ "\<lambda>x. x"]) (simp add: release_worker_slot_def exec)
next
  case (Some i)
  then show ?thesis
    by (cases "row_get wr_id i (workers s)")
      (auto simp: release_worker_slot_def exec intro: exI [of _ "\<lambda>x. x"])
qed

lemma resolve_state: "resolve_max_attempts a s = (fst (resolve_max_attempts a s), s)"
proof -
  have "keeps (\<lambda>s. s) (resolve_max_attempts a)" unfolding resolve_max_attempts_def by (intro steps_intro)
  from keepsD [OF this, of s] show ?thesis by (metis prod.collapse)
qed

lemma resolve_workers: "fst (resolve_max_attempts a (workers_update g s)) = fst (resolve_max_attempts a s)"
  by (simp add: resolve_max_attempts_def stage_rows_def exec split: option.split sum.split)

lemma recover_in_flight:
  assumes "row_get sa_id i (assignments s) = Some a" "in_flight (sa_status a)"
    and "recover_assignment i rs (Some now) d s = (Inr res, s')"
  obtains mx g where "resolve_max_attempts a s = (Inr mx, s)"
    "(if sa_attempt_number a + 1 > mx then give_up a rs now d mx else requeue a rs d (sa_attempt_number a + 1))
       (workers_update g s) = (Inr res, s')"
proof -
  obtain g where g: "release_worker_slot (sa_worker_id a) s = (Inr (), workers_update g s)"
    using release_worker_slot_exec by blast
  have r: "resolve_max_attempts a (workers_update g s) = (fst (resolve_max_attempts a s), workers_update g s)"
    using resolve_state [of a "workers_update g s"] resolve_workers by simp
  obtain mx where mx: "fst (resolve_max_attempts a s) = Inr mx"
    using assms g r by (cases "fst (resolve_max_attempts a s)")
      (auto simp: recover_assignment_def now_or_utcnow_exec load_exec bindM_exec andThen_exec)
  show ?thesis
  proof (rule that)
    show "resolve_max_attempts a s = (Inr mx, s)" using resolve_state [of a s] mx by simp
    show "(if sa_attempt_number a + 1 > mx then give_up a rs now d mx else requeue a rs d (sa_attempt_number a + 1))
       (workers_update g s) = (Inr res, s')"
      using assms g r mx by (simp add: recover_assignment_def now_or_utcnow_exec load_exec bindM_exec andThen_exec Let_def
          split: if_splits)
  qed
qed

lemma fail_run_status:
  assumes "row_get pr_id i (runs s) = Some run" "fail_run i m s = (r, s')"
  shows "\<exists>run'. row_get pr_id i (runs s') = Some run' \<and> pr_status run' = PipelineRunStatus.FAILED"
proof -
  let ?s2 = "runs_update (row_set pr_id i (\<lambda>r. r\<lparr>pr_completed_at := Some (clock s (tick s))\<rparr>))
    ((runs_update (row_set pr_id i (\<lambda>r. r\<lparr>pr_status := PipelineRunStatus.FAILED\<rparr>)) s)\<lparr>tick := Suc (tick s)\<rparr>)"
  let ?rest = "bindM (trace_run i) (\<lambda>trace.
     andThen (emit_run PIPELINE_FAILED i trace (JObj [(''reason'', JStr m)])) (release_all_reservations i))"
  have "keeps lives ?rest" by (intro steps_intro keeps_lives) simp_all
  moreover have "?rest ?s2 = (r, s')"
    using assms(2) by (simp add: fail_run_def set_run_def andThen_exec modifyM_exec utcnow_exec bindM_exec)
  ultimately have "lives s' = lives ?s2" by (rule keepsD')
  then have "run_view life i s' = run_view life i ?s2" by (rule lives_view)
  with assms(1) show ?thesis by (auto simp: run_view_def)
qed

lemma keeps_fail_live_run [steps_intro]: "blind f \<Longrightarrow> keeps f (fail_live_run a rs)"
  unfolding fail_live_run_def by (intro steps_intro) (simp_all add: blindD)

lemma keeps_audit_recovery [steps_intro]:
  "(\<And>s n. f (s\<lparr>tick := n\<rparr>) = f s) \<Longrightarrow> (\<And>s g. f (recovery_audits_update g s) = f s) \<Longrightarrow> keeps f (audit_recovery a rs na out d)"
  unfolding audit_recovery_def by (intro steps_intro) simp_all

lemma audit_recovery_exec: "\<exists>n r. audit_recovery a rs na out d s = (Inr (), recovery_audits_update (\<lambda>rs. rs @ [r]) (s\<lparr>tick := n\<rparr>))"
  by (auto simp: audit_recovery_def exec)

lemma fail_live_run_status:
  assumes "fail_live_run a rs s = (Inr (), s')" "row_get pr_id (sa_pipeline_run_id a) (runs s) = Some run"
  shows "\<exists>run'. row_get pr_id (sa_pipeline_run_id a) (runs s') = Some run' \<and> run_terminal (pr_status run')"
proof (cases "run_terminal (pr_status run)")
  case True
  with assms show ?thesis by (auto simp: fail_live_run_def exec)
next
  case False
  have i: "pr_id run = sa_pipeline_run_id a" using assms(2) by (rule row_get_key)
  obtain s1 where "fail_run (sa_pipeline_run_id a) (''assignment recovery exhausted ('' @ recovery_reason_value rs @ '')'') s1 = (Inr (), s')"
    "\<exists>r. row_get pr_id (sa_pipeline_run_id a) (runs s1) = Some r"
    using assms False i by (cases "sa_correlation_id a"; cases "pr_correlation_id run")
      (auto simp: fail_live_run_def bindM_exec gets_exec whenM_exec andThen_exec or_uuid4_exec store_exec)
  then show ?thesis using fail_run_status by fastforce
qed

text \<open>The row a recovery leaves behind.\<close>

definition given_up :: "datetime \<Rightarrow> StageAssignment \<Rightarrow> StageAssignment" where
  "given_up now r = clear_lease_and_claim_fields (r\<lparr> sa_status := StageAssignmentStatus.FAILED, sa_completed_at := Some now \<rparr>)"

lemma recovered_sel [simp]:
  "sa_id (given_up now r) = sa_id r" "sa_worker_id (given_up now r) = None" "sa_lease_expires_at (given_up now r) = None"
  "sa_status (given_up now r) = StageAssignmentStatus.FAILED" "sa_attempt_number (given_up now r) = sa_attempt_number r"
  "sa_id (requeued_row n r) = sa_id r" "sa_worker_id (requeued_row n r) = None" "sa_lease_expires_at (requeued_row n r) = None"
  "sa_status (requeued_row n r) = StageAssignmentStatus.PENDING" "sa_attempt_number (requeued_row n r) = n"
  "sa_idempotency_key (requeued_row n r) = sa_idempotency_key r" "sa_dispatched_at (given_up now r) = None"
  by (simp_all add: given_up_def requeued_row_def clear_lease_and_claim_fields_def)

lemma route_result:
  "\<exists>dl n. route_to_dead_letter ws tab i jt p m k f s = (Inr (dl_id dl), dead_letters_update (\<lambda>rs. rs @ [dl]) (s\<lparr>tick := n\<rparr>))
    \<and> dl_related_id dl = i \<and> dl_attempt_count dl = k \<and> dl_first_failed_at dl = f"
  by (intro exI [of _ "\<lparr> dl_id = uuids s (tick s), dl_workspace_id = ws, dl_related_table = tab, dl_related_id = i,
      dl_job_type = jt, dl_payload = p, dl_failure_reason = m, dl_attempt_count = k, dl_first_failed_at = f,
      dl_last_failed_at = clock s (Suc (tick s)), dl_status = DeadLetterStatus.PENDING \<rparr>"] exI [of _ "Suc (Suc (tick s))"])
    (simp add: route_to_dead_letter_exec)

lemma give_up_result:
  assumes "give_up a rs now d mx s = (Inr res, s')" "row_get sa_id (sa_id a) (assignments s) = Some a"
  shows "res = \<lparr> rcr_assignment = sa_id a, rcr_kind = DEAD_LETTERED, rcr_previous_attempt = sa_attempt_number a, rcr_new_attempt = None \<rparr>"
    and "assignments s' = row_set sa_id (sa_id a) (given_up now) (assignments s)"
    and "row_get pr_id (sa_pipeline_run_id a) (runs s) = Some run \<Longrightarrow>
      \<exists>run'. row_get pr_id (sa_pipeline_run_id a) (runs s') = Some run' \<and> run_terminal (pr_status run')"
    and "\<exists>dl. dead_letters s' = dead_letters s @ [dl] \<and> dl_related_id dl = sa_id a \<and> dl_attempt_count dl = sa_attempt_number a
      \<and> dl_first_failed_at dl = now"
proof -
  let ?s1 = "assignments_update (row_set sa_id (sa_id a) (given_up now)) s"
  obtain dl n where 1: "route_to_dead_letter (sa_workspace_id a) ''stage_assignments'' (sa_id a) (''stage:'' @ sa_stage a)
       (Some (JObj [(''stage'', JStr (sa_stage a)), (''attempt_number'', JNum (of_int (sa_attempt_number a))),
                    (''reason'', JStr (recovery_reason_value rs))]))
       (''recovery exhausted ('' @ recovery_reason_value rs @ '') after '' @ str_int (sa_attempt_number a) @ '' attempts'')
       (sa_attempt_number a) now ?s1 = (Inr (dl_id dl), dead_letters_update (\<lambda>rs. rs @ [dl]) (?s1\<lparr>tick := n\<rparr>))"
    and dl: "dl_related_id dl = sa_id a" "dl_attempt_count dl = sa_attempt_number a" "dl_first_failed_at dl = now"
    using route_result by blast
  let ?s2 = "dead_letters_update (\<lambda>rs. rs @ [dl]) (?s1\<lparr>tick := n\<rparr>)"
  have gu: "(\<lambda>r. clear_lease_and_claim_fields (r\<lparr> sa_status := StageAssignmentStatus.FAILED, sa_completed_at := Some now \<rparr>)) = given_up now"
    by (simp add: given_up_def fun_eq_iff)
  have la: "the_assignment (sa_id a) ?s1 = (Inr (given_up now a), ?s1)" using assms(2) by (simp add: load_exec)
  have e: "give_up a rs now d mx s = andThen (fail_live_run a rs) (
     andThen (audit_recovery a rs None RecoveryOutcome.DEAD_LETTERED (Some (text_or d (''max_attempts='' @ str_int mx))))
     (ret \<lparr> rcr_assignment = sa_id a, rcr_kind = DEAD_LETTERED, rcr_previous_attempt = sa_attempt_number a,
            rcr_new_attempt = None \<rparr>)) ?s2"
    unfolding give_up_def gu using la 1
    by (simp add: andThen_exec bindM_exec store_exec the_or_def)
  obtain s3 where 3: "fail_live_run a rs ?s2 = (Inr (), s3)"
    using assms(1) e by (cases "fail_live_run a rs ?s2"; cases "fst (fail_live_run a rs ?s2)") (auto simp: andThen_exec)
  obtain m au where 4: "audit_recovery a rs None RecoveryOutcome.DEAD_LETTERED (Some (text_or d (''max_attempts='' @ str_int mx))) s3
      = (Inr (), recovery_audits_update (\<lambda>rs. rs @ [au]) (s3\<lparr>tick := m\<rparr>))" using audit_recovery_exec by blast
  have s': "s' = recovery_audits_update (\<lambda>rs. rs @ [au]) (s3\<lparr>tick := m\<rparr>)"
    and "res = \<lparr> rcr_assignment = sa_id a, rcr_kind = DEAD_LETTERED, rcr_previous_attempt = sa_attempt_number a, rcr_new_attempt = None \<rparr>"
    using assms(1) e 3 4 by (simp_all add: andThen_exec ret_exec)
  then show "res = \<lparr> rcr_assignment = sa_id a, rcr_kind = DEAD_LETTERED, rcr_previous_attempt = sa_attempt_number a, rcr_new_attempt = None \<rparr>"
    by simp
  have "assignments s3 = assignments ?s2" using keepsD' [OF keeps_fail_live_run 3, of assignments] by simp
  then show "assignments s' = row_set sa_id (sa_id a) (given_up now) (assignments s)" by (simp add: s')
  have "keeps dead_letters (fail_live_run a rs)"
    unfolding fail_live_run_def fail_run_def release_all_reservations_def by (intro steps_intro) simp_all
  from keepsD' [OF this 3] show "\<exists>dl. dead_letters s' = dead_letters s @ [dl] \<and> dl_related_id dl = sa_id a
      \<and> dl_attempt_count dl = sa_attempt_number a \<and> dl_first_failed_at dl = now"
    using dl by (intro exI [of _ dl]) (simp add: s')
  assume "row_get pr_id (sa_pipeline_run_id a) (runs s) = Some run"
  then have "row_get pr_id (sa_pipeline_run_id a) (runs ?s2) = Some run" by simp
  from fail_live_run_status [OF 3 this] show
    "\<exists>run'. row_get pr_id (sa_pipeline_run_id a) (runs s') = Some run' \<and> run_terminal (pr_status run')" by (simp add: s')
qed

lemma row_set_twice: "(\<And>r. key (g r) = key r) \<Longrightarrow> row_set key i f (row_set key i g xs) = row_set key i (\<lambda>r. f (g r)) xs"
  by (simp add: row_set_def)

definition requeued :: "string \<Rightarrow> string \<Rightarrow> int \<Rightarrow> StageAssignment \<Rightarrow> StageAssignment" where
  "requeued key tid n r = (requeued_row n (r\<lparr>sa_idempotency_key := Some key\<rparr>))\<lparr>sa_trace_id := Some tid\<rparr>"

lemma requeued_sel [simp]:
  "sa_id (requeued key tid n r) = sa_id r" "sa_worker_id (requeued key tid n r) = None"
  "sa_lease_expires_at (requeued key tid n r) = None" "sa_status (requeued key tid n r) = StageAssignmentStatus.PENDING"
  "sa_attempt_number (requeued key tid n r) = n" "sa_idempotency_key (requeued key tid n r) = Some key"
  by (simp_all add: requeued_def)

lemma keeps_release_stale [steps_intro]: "blind f \<Longrightarrow> keeps f (release_stale a)"
  unfolding release_stale_def release_priors_def by (intro steps_intro) (simp_all add: blindD)

lemma release_stale_result:
  assumes "release_stale a s = (Inr (), s')" "distinct (map sr_id (reservations s))"
    and "row_get pr_id (sa_pipeline_run_id a) (runs s) = Some run"
  shows "open_stage_reservations (sa_pipeline_run_id a) (sa_stage a) s' = []"
proof -
  have i: "pr_id run = sa_pipeline_run_id a" using assms(3) by (rule row_get_key)
  have h: "has_row pr_id (sa_pipeline_run_id a) (runs s)" using assms(3) by (auto simp: has_row_get)
  from release_priors_result [OF h assms(2), of "sa_stage a"] obtain s1 where
    1: "release_priors (sa_pipeline_run_id a) (sa_stage a) s = (Inr (), s1)"
    and 2: "reservations s1 = map (\<lambda>r. if sr_pipeline_run_id r = Some (sa_pipeline_run_id a) \<and> sr_stage r = Some (sa_stage a)
        \<and> sr_status r = RESERVED then r\<lparr>sr_status := RELEASED\<rparr> else r) (reservations s)" by blast
  have "s' = s1" using assms(1,3) i 1 by (simp add: release_stale_def bindM_exec gets_exec)
  then show ?thesis by (simp add: open_stage_reservations_def 2 filter_empty_conv image_iff) (auto split: if_splits)
qed

lemma announce_requeue_result:
  "\<exists>s' tid. announce_requeue a rs n s = (Inr (), s')
    \<and> assignments s' = row_set sa_id (sa_id a) (\<lambda>r. r\<lparr>sa_trace_id := Some tid\<rparr>) (assignments s) \<and> reservations s' = reservations s"
proof -
  obtain tr m where 1: "child_span (sa_trace_id a) s = (Inr tr, s\<lparr>tick := m\<rparr>)" using child_span_Inr by blast
  let ?s1 = "assignments_update (row_set sa_id (sa_id a) (\<lambda>r. r\<lparr>sa_trace_id := Some (fst tr)\<rparr>)) (s\<lparr>tick := m\<rparr>)"
  obtain c m' where 2: "or_uuid4 (sa_correlation_id a) ?s1 = (Inr c, ?s1\<lparr>tick := m'\<rparr>)" using or_uuid4_Inr by blast
  show ?thesis
    using 1 2 by (intro exI [of _ "snd (announce_requeue a rs n s)"] exI [of _ "fst tr"])
      (simp add: announce_requeue_def bindM_exec andThen_exec store_exec ret_exec emit_exec)
qed

lemma requeue_result:
  assumes "requeue a rs d n s = (Inr res, s')" "row_get sa_id (sa_id a) (assignments s) = Some a"
  defines "key \<equiv> stage_key_of_attempt (sa_pipeline_run_id a) (sa_stage a) n"
  shows "res = \<lparr> rcr_assignment = sa_id a, rcr_kind = REQUEUED, rcr_previous_attempt = sa_attempt_number a, rcr_new_attempt = Some n \<rparr>"
    and "\<exists>tid. assignments s' = row_set sa_id (sa_id a) (requeued key tid n) (assignments s)"
    and "distinct (map sr_id (reservations s)) \<Longrightarrow> row_get pr_id (sa_pipeline_run_id a) (runs s) = Some run \<Longrightarrow>
      open_stage_reservations (sa_pipeline_run_id a) (sa_stage a) s' = []"
proof -
  obtain s1 where 1: "release_stale a s = (Inr (), s1)"
    using assms(1) by (cases "release_stale a s"; cases "fst (release_stale a s)") (auto simp: requeue_def andThen_exec)
  have as: "assignments s1 = assignments s" using keepsD' [OF keeps_release_stale 1, of assignments] by simp
  let ?s2 = "assignments_update (row_set sa_id (sa_id a) (sa_idempotency_key_update (\<lambda>_. Some key))) s1"
  have 2: "rekey_assignment (sa_id a) key s1 = (Inr (), ?s2)"
    using assms(1,2) 1 as unfolding key_def by (auto simp: requeue_def andThen_exec rekey_assignment_def split: if_splits)
  let ?s3 = "assignments_update (row_set sa_id (sa_id a) (requeued_row n)) ?s2"
  obtain s4 tid where 4: "announce_requeue a rs n ?s3 = (Inr (), s4)"
    "assignments s4 = row_set sa_id (sa_id a) (\<lambda>r. r\<lparr>sa_trace_id := Some tid\<rparr>) (assignments ?s3)" "reservations s4 = reservations s1"
    using announce_requeue_result [of a rs n ?s3] by auto
  obtain m au where 5: "audit_recovery a rs (Some n) RecoveryOutcome.REQUEUED d s4
      = (Inr (), recovery_audits_update (\<lambda>rs. rs @ [au]) (s4\<lparr>tick := m\<rparr>))" using audit_recovery_exec by blast
  have e: "requeue a rs d n s = (Inr \<lparr> rcr_assignment = sa_id a, rcr_kind = REQUEUED, rcr_previous_attempt = sa_attempt_number a,
      rcr_new_attempt = Some n \<rparr>, recovery_audits_update (\<lambda>rs. rs @ [au]) (s4\<lparr>tick := m\<rparr>))"
    using 1 2 4(1) 5 unfolding key_def by (simp add: requeue_def andThen_exec store_exec ret_exec)
  then show "res = \<lparr> rcr_assignment = sa_id a, rcr_kind = REQUEUED, rcr_previous_attempt = sa_attempt_number a, rcr_new_attempt = Some n \<rparr>"
    using assms(1) by simp
  have s': "s' = recovery_audits_update (\<lambda>rs. rs @ [au]) (s4\<lparr>tick := m\<rparr>)" using e assms(1) by simp
  show "\<exists>tid. assignments s' = row_set sa_id (sa_id a) (requeued key tid n) (assignments s)"
    by (rule exI [of _ tid]) (simp add: s' 4(2) as row_set_twice requeued_def [abs_def])
  assume "distinct (map sr_id (reservations s))" "row_get pr_id (sa_pipeline_run_id a) (runs s) = Some run"
  from release_stale_result [OF 1 this] show "open_stage_reservations (sa_pipeline_run_id a) (sa_stage a) s' = []"
    by (simp add: open_stage_reservations_def s' 4(3))
qed

text \<open>
  C6: Recovering an in-flight assignment always takes it out of flight and away from its worker. With attempts left
  it is requeued: \<open>PENDING\<close>, the attempt number one higher and still within the stage's maximum, no open reservation
  for the stage. Otherwise it is \<open>FAILED\<close>, one dead letter is appended and its run is terminal. Recovering
  it again is \<open>SKIPPED\<close> and leaves all assignments as they are, so an attempt is consumed once.
\<close>

theorem recover_assignment_bounded:
  assumes "row_get sa_id i (assignments s) = Some a" "in_flight (sa_status a)" "distinct (map sr_id (reservations s))"
    and "row_get pr_id (sa_pipeline_run_id a) (runs s) = Some run"
    and "recover_assignment i rs (Some now) d s = (Inr res, s')"
  shows "\<exists>mx a'. resolve_max_attempts a s = (Inr mx, s) \<and> row_get sa_id i (assignments s') = Some a'
    \<and> sa_worker_id a' = None \<and> sa_lease_expires_at a' = None
    \<and> (if sa_attempt_number a < mx
       then rcr_kind res = REQUEUED \<and> sa_status a' = StageAssignmentStatus.PENDING
         \<and> sa_attempt_number a' = sa_attempt_number a + 1 \<and> sa_attempt_number a' \<le> mx
         \<and> open_stage_reservations (sa_pipeline_run_id a) (sa_stage a) s' = []
       else rcr_kind res = DEAD_LETTERED \<and> sa_status a' = StageAssignmentStatus.FAILED
         \<and> length (dead_letters s') = Suc (length (dead_letters s))
         \<and> (\<exists>run'. row_get pr_id (sa_pipeline_run_id a) (runs s') = Some run' \<and> run_terminal (pr_status run')))
    \<and> (\<exists>res' s''. recover_assignment i rs' (Some now') d' s' = (Inr res', s'') \<and> rcr_kind res' = SKIPPED
         \<and> assignments s'' = assignments s')"
proof -
  have i: "sa_id a = i" using assms(1) by (rule row_get_key)
  obtain mx g where mx: "resolve_max_attempts a s = (Inr mx, s)" and
    r: "(if sa_attempt_number a + 1 > mx then give_up a rs now d mx else requeue a rs d (sa_attempt_number a + 1))
       (workers_update g s) = (Inr res, s')"
    using recover_in_flight [OF assms(1,2,5)] by blast
  have again: "\<exists>res' s''. recover_assignment i rs' (Some now') d' s' = (Inr res', s'') \<and> rcr_kind res' = SKIPPED
         \<and> assignments s'' = assignments s'"
    if "row_get sa_id i (assignments s') = Some a'" "\<not> in_flight (sa_status a')" for a'
    using that by (simp add: recover_assignment_def audit_recovery_def exec)
  have row: "row_get sa_id (sa_id a) (assignments (workers_update g s)) = Some a" using assms(1) i by simp
  show ?thesis
  proof (cases "sa_attempt_number a < mx")
    case True
    with r have q: "requeue a rs d (sa_attempt_number a + 1) (workers_update g s) = (Inr res, s')" by simp
    note rq = requeue_result [OF q row]
    obtain tid where as: "assignments s' = row_set sa_id (sa_id a) (requeued (stage_key_of_attempt (sa_pipeline_run_id a)
        (sa_stage a) (sa_attempt_number a + 1)) tid (sa_attempt_number a + 1)) (assignments s)" using rq(2) by auto
    have row': "row_get sa_id i (assignments s') = Some (requeued (stage_key_of_attempt (sa_pipeline_run_id a)
        (sa_stage a) (sa_attempt_number a + 1)) tid (sa_attempt_number a + 1) a)"
      unfolding as i using assms(1) by simp
    have "open_stage_reservations (sa_pipeline_run_id a) (sa_stage a) s' = []" using rq(3) assms(3,4) by simp
    with mx row' True rq(1) again [OF row'] show ?thesis
      by (intro exI [of _ mx] exI [of _ "requeued (stage_key_of_attempt (sa_pipeline_run_id a)
        (sa_stage a) (sa_attempt_number a + 1)) tid (sa_attempt_number a + 1) a"]) simp
  next
    case False
    with r have q: "give_up a rs now d mx (workers_update g s) = (Inr res, s')" by simp
    note gu = give_up_result [OF q row]
    have row': "row_get sa_id i (assignments s') = Some (given_up now a)" unfolding gu(2) i using assms(1) by simp
    have "\<exists>run'. row_get pr_id (sa_pipeline_run_id a) (runs s') = Some run' \<and> run_terminal (pr_status run')"
      using gu(3) assms(4) by simp
    moreover have "length (dead_letters s') = Suc (length (dead_letters s))" using gu(4) by auto
    ultimately show ?thesis using mx row' False gu(1) again [OF row']
      by (intro exI [of _ mx] exI [of _ "given_up now a"]) simp
  qed
qed

section \<open>Draining a worker\<close>

lemma recover_row:
  assumes "recover_assignment i rs (Some now) d s = (Inr res, s')"
  shows "(\<exists>f. assignments s' = row_set sa_id i f (assignments s) \<and> (\<forall>r. sa_id (f r) = sa_id r \<and> sa_worker_id (f r) = None))
    \<or> (assignments s' = assignments s \<and> (\<exists>a. row_get sa_id i (assignments s) = Some a \<and> \<not> in_flight (sa_status a)))"
proof -
  obtain a where row: "row_get sa_id i (assignments s) = Some a"
    using assms by (auto simp: recover_assignment_def exec split: option.splits)
  have i: "sa_id a = i" using row by (rule row_get_key)
  show ?thesis
  proof (cases "in_flight (sa_status a)")
    case False
    then have "assignments s' = assignments s" using assms row by (auto simp: recover_assignment_def audit_recovery_def exec)
    with row False show ?thesis by blast
  next
    case True
    obtain mx g where r: "(if sa_attempt_number a + 1 > mx then give_up a rs now d mx else requeue a rs d (sa_attempt_number a + 1))
       (workers_update g s) = (Inr res, s')"
      using recover_in_flight [OF row True assms] by blast
    have row': "row_get sa_id (sa_id a) (assignments (workers_update g s)) = Some a" using row i by simp
    show ?thesis
    proof (cases "sa_attempt_number a + 1 > mx")
      case True
      then have "give_up a rs now d mx (workers_update g s) = (Inr res, s')" using r by simp
      from give_up_result(2) [OF this row'] i show ?thesis by (auto intro!: disjI1 exI [of _ "given_up now"])
    next
      case False
      then have "requeue a rs d (sa_attempt_number a + 1) (workers_update g s) = (Inr res, s')" using r by simp
      from requeue_result(2) [OF this row'] i obtain key tid n where
        "assignments s' = row_set sa_id i (requeued key tid n) (assignments s)" by auto
      then show ?thesis by (auto intro!: disjI1 exI [of _ "requeued key tid n"])
    qed
  qed
qed

lemma recover_held:
  assumes "recover_assignment i rs (Some now) d s = (Inr res, s')" "distinct (map sa_id (assignments s))"
  shows "held_by w s' = filter (\<lambda>a. sa_id a \<noteq> i) (held_by w s) \<and> map sa_id (assignments s') = map sa_id (assignments s)"
proof -
  have locks: "locks s' = locks s" using steps_env [OF w_recover assms(1)] by (simp add: same_env_def)
  from recover_row [OF assms(1)] show ?thesis
  proof (elim disjE exE conjE)
    fix f assume f: "assignments s' = row_set sa_id i f (assignments s)" "\<forall>r. sa_id (f r) = sa_id r \<and> sa_worker_id (f r) = None"
    have "filter (\<lambda>a. sa_worker_id a = Some w \<and> in_flight (sa_status a)) (unlocked sa_id s (row_set sa_id i f as))
        = filter (\<lambda>a. sa_id a \<noteq> i) (filter (\<lambda>a. sa_worker_id a = Some w \<and> in_flight (sa_status a)) (unlocked sa_id s as))" for as
      using f(2) by (induction as) (auto simp: unlocked_def)
    with f locks show ?thesis by (simp add: held_by_def unlocked_def)
  next
    fix a assume a: "assignments s' = assignments s" "row_get sa_id i (assignments s) = Some a" "\<not> in_flight (sa_status a)"
    have "sa_id x \<noteq> i" if "x \<in> set (held_by w s)" for x
    proof
      assume "sa_id x = i"
      moreover have "x \<in> set (assignments s)" "in_flight (sa_status x)" using that by (auto simp: held_by_def unlocked_def)
      ultimately show False using row_get_distinct [OF assms(2), of x] a(2,3) by simp
    qed
    then have "filter (\<lambda>a. sa_id a \<noteq> i) (held_by w s) = held_by w s" by (simp add: filter_id_conv)
    with a(1) locks show ?thesis by (simp add: held_by_def unlocked_def)
  qed
qed

lemma recover_all_held:
  assumes "mapM xs (\<lambda>a. recover_assignment (sa_id a) rs (Some now) d) s = (Inr outs, s')" "distinct (map sa_id (assignments s))"
  shows "held_by w s' = filter (\<lambda>a. sa_id a \<notin> sa_id ` set xs) (held_by w s) \<and> map sa_id (assignments s') = map sa_id (assignments s)"
  using assms
proof (induction xs arbitrary: s outs)
  case Nil
  then show ?case by (simp add: ret_exec)
next
  case (Cons x xs)
  from Cons.prems(1) obtain o1 s1 os where 1: "recover_assignment (sa_id x) rs (Some now) d s = (Inr o1, s1)"
    and 2: "mapM xs (\<lambda>a. recover_assignment (sa_id a) rs (Some now) d) s1 = (Inr os, s')"
    by (auto simp: ret_exec elim!: bindM_InrE)
  note h1 = recover_held [OF 1 Cons.prems(2), of w]
  then have "distinct (map sa_id (assignments s1))" using Cons.prems(2) by simp
  from Cons.IH [OF 2 this] h1 show ?case by (auto simp: filter_filter intro!: filter_cong)
qed

lemma held_ids_distinct: "distinct (map sa_id (assignments s)) \<Longrightarrow> distinct (map sa_id (held_by w s))"
  by (auto simp: held_by_def unlocked_def distinct_map_filter)

lemma held_after_round:
  assumes "mapM (take k (held_by w s)) (\<lambda>a. recover_assignment (sa_id a) rs (Some now) d) s = (Inr outs, s')"
    and "distinct (map sa_id (assignments s))"
  shows "held_by w s' = drop k (held_by w s) \<and> distinct (map sa_id (assignments s'))"
proof -
  let ?h = "held_by w s"
  have h: "?h = take k ?h @ drop k ?h" by simp
  have "distinct (map sa_id (take k ?h @ drop k ?h))" using held_ids_distinct [OF assms(2), of w] h by metis
  then have "distinct (map sa_id (take k ?h) @ map sa_id (drop k ?h))" by (simp only: map_append)
  then have "set (map sa_id (take k ?h)) \<inter> set (map sa_id (drop k ?h)) = {}" unfolding distinct_append by blast
  then have "\<forall>a \<in> set (drop k ?h). sa_id a \<notin> sa_id ` set (take k ?h)" unfolding set_map by blast
  then have "filter (\<lambda>a. sa_id a \<notin> sa_id ` set (take k ?h)) (take k ?h @ drop k ?h) = drop k ?h"
    by (simp add: filter_empty_conv filter_id_conv del: append_take_drop_id)
  then show ?thesis using recover_all_held [OF assms, of w] assms(2) h by metis
qed

lemma mapM_Inl:
  assumes "mapM xs f s = (Inl e, s')"
  shows "\<exists>x \<in> set xs. \<exists>s1. fst (f x s1) = Inl e"
  using assms
proof (induction xs arbitrary: s)
  case (Cons x xs)
  show ?case
  proof (cases "f x s")
    case (Pair r s1)
    show ?thesis
    proof (cases r)
      case (Inl e')
      with Cons.prems Pair show ?thesis by (intro bexI [of _ x] exI [of _ s]) (simp_all add: bindM_exec)
    next
      case (Inr y)
      have "mapM xs f s1 = (Inl e, s')"
        using Cons.prems Pair Inr by (cases "mapM xs f s1"; cases "fst (mapM xs f s1)") (simp_all add: bindM_exec ret_exec)
      from Cons.IH [OF this] show ?thesis by auto
    qed
  qed
qed (simp add: ret_exec)

lemma reap_rounds_enough:
  assumes "distinct (map sa_id (assignments s))" "length (held_by w s) < n" "1 \<le> limit"
  shows "reap_rounds n w rs limit now d s = reap_rounds (Suc (length (held_by w s))) w rs limit now d s
    \<and> (\<forall>e s'. reap_rounds n w rs limit now d s = (Inl e, s') \<longrightarrow> (\<exists>i s1. fst (recover_assignment i rs (Some now) d s1) = Inl e))
    \<and> (\<forall>outs s'. reap_rounds n w rs limit now d s = (Inr outs, s') \<longrightarrow> held_by w s' = [])"
  using assms
proof (induction "length (held_by w s)" arbitrary: s n rule: less_induct)
  case less
  obtain m where n: "n = Suc m" using less.prems(2) by (cases n) auto
  let ?h = "take (nat limit) (held_by w s)"
  let ?rounds = "\<lambda>m. reap_rounds m w rs limit now d"
  show ?case
  proof (cases "?h = []")
    case True
    then have "held_by w s = []" using less.prems(3) by auto
    then show ?thesis using n by (simp add: limit_rows_def gets_exec bindM_exec ret_exec)
  next
    case False
    obtain r s1 where r: "mapM ?h (\<lambda>a. recover_assignment (sa_id a) rs (Some now) d) s = (r, s1)" by fastforce
    show ?thesis
    proof (cases r)
      case (Inl e)
      then have "?rounds (Suc k) s = (Inl e, s1)" for k using False r by (simp add: limit_rows_def gets_exec bindM_exec)
      with mapM_Inl r Inl n show ?thesis by (metis sum.distinct(1) sum.inject(1) prod.inject)
    next
      case (Inr outs)
      note hs = held_after_round [OF r [unfolded Inr] less.prems(1)]
      have unf: "?rounds (Suc k) s = (if int (length ?h) < limit then (Inr outs, s1)
          else bindM (?rounds k) (\<lambda>more. ret (outs @ more)) s1)" for k
        using False r Inr by (simp add: limit_rows_def gets_exec bindM_exec ret_exec)
      show ?thesis
      proof (cases "int (length ?h) < limit")
        case True
        then have "held_by w s1 = []" using hs by auto
        with True show ?thesis unfolding n unf if_P [OF True] by simp
      next
        case len: False
        have short: "length (held_by w s1) < length (held_by w s)" using hs False less.prems(3) by auto
        have m1: "length (held_by w s1) < m" "length (held_by w s1) < length (held_by w s)"
          using short less.prems(2) n by simp_all
        note IHm = less.hyps [OF short conjunct2 [OF hs] m1(1) less.prems(3)]
        note IHk = less.hyps [OF short conjunct2 [OF hs] m1(2) less.prems(3)]
        have same: "?rounds m s1 = ?rounds (length (held_by w s)) s1"
          by (rule trans [OF conjunct1 [OF IHm] sym [OF conjunct1 [OF IHk]]])
        note IHe = conjunct1 [OF conjunct2 [OF IHm]] and IHo = conjunct2 [OF conjunct2 [OF IHm]]
        have e: "bindM (?rounds m) (\<lambda>more. ret (outs @ more)) s1 = (Inl e, s') \<longleftrightarrow> ?rounds m s1 = (Inl e, s')" for e s'
          by (cases "?rounds m s1"; cases "fst (?rounds m s1)") (auto simp: bindM_exec ret_exec)
        have o: "bindM (?rounds m) (\<lambda>more. ret (outs @ more)) s1 = (Inr os, s') \<Longrightarrow> held_by w s' = []" for os s'
          using IHo by (auto simp: ret_exec elim!: bindM_InrE)
        have "?rounds n s = ?rounds (Suc (length (held_by w s))) s" unfolding n unf using len same by (simp add: bindM_exec)
        moreover have "\<forall>e s'. ?rounds n s = (Inl e, s') \<longrightarrow> (\<exists>i s1. fst (recover_assignment i rs (Some now) d s1) = Inl e)"
          unfolding n unf using len e IHe by simp
        moreover have "\<forall>os s'. ?rounds n s = (Inr os, s') \<longrightarrow> held_by w s' = []"
          unfolding n unf using len o by simp
        ultimately show ?thesis by blast
      qed
    qed
  qed
qed

text \<open>
  C7: The loop that reaps a worker's assignments ends: a number of rounds one above the rows it holds is enough and
  more changes nothing, an exception can only be one of a recovery, and when it returns the worker holds no
  in-flight assignment that is not locked elsewhere.
\<close>

theorem reap_worker_drains:
  assumes "distinct (map sa_id (assignments s))" and "1 \<le> the_or b (assignment_reaper_batch_size (cfg s))"
    and "reap_worker_assignments w rs b (Some now) d s = (r, s')"
  shows "(case r of Inr outs \<Rightarrow> held_by w s' = []
      | Inl e \<Rightarrow> \<exists>i s1. fst (recover_assignment i rs (Some now) d s1) = Inl e)
    \<and> (n > length (held_by w s) \<longrightarrow>
       reap_rounds n w rs (the_or b (assignment_reaper_batch_size (cfg s))) now d s = (r, s'))"
proof -
  let ?l = "the_or b (assignment_reaper_batch_size (cfg s))"
  have r: "reap_rounds (Suc (length (held_by w s))) w rs ?l now d s = (r, s')"
    using assms(3) by (simp add: reap_worker_assignments_def exec)
  note enough = reap_rounds_enough [OF assms(1) _ assms(2), of w _ rs now d]
  have "case r of Inr outs \<Rightarrow> held_by w s' = []
      | Inl e \<Rightarrow> \<exists>i s1. fst (recover_assignment i rs (Some now) d s1) = Inl e"
    using conjunct2 [OF enough [OF lessI]] r by (cases r) simp_all
  moreover have "reap_rounds n w rs ?l now d s = (r, s')" if "length (held_by w s) < n"
    using trans [OF conjunct1 [OF enough [OF that]] r] .
  ultimately show ?thesis by blast
qed

text \<open>Recovery frees slots, but takes no worker out of \<open>OFFLINE\<close> and puts none there.\<close>

lemma keeps_offline:
  "keeps (\<lambda>s. map (\<lambda>w. (wr_id w, wr_status w = OFFLINE)) (workers s)) (recover_assignment i rs t d)"
proof -
  let ?st = "\<lambda>s. map (\<lambda>w. (wr_id w, wr_status w = OFFLINE)) (workers s)"
  have "?st (workers_update (row_set wr_id i free_slot) s) = ?st s" for i s
    by (simp add: row_set_def free_slot_def Let_def)
  then have "keeps ?st (release_worker_slot ow)" for ow
    by (auto simp: steps_def eqOn_def release_worker_slot_def exec split: option.splits)
  moreover have "keeps ?st (rekey_assignment i k)" for i k
    by (auto simp: steps_def eqOn_def rekey_assignment_def split: option.split)
  ultimately show ?thesis
    unfolding recover_assignment_def resolve_max_attempts_def Let_def give_up_def fail_live_run_def requeue_def release_stale_def
      announce_requeue_def audit_recovery_def
    by (intro steps_intro; simp add: blind_def)
qed

lemma keeps_offline_reap:
  "keeps (\<lambda>s. map (\<lambda>w. (wr_id w, wr_status w = OFFLINE)) (workers s)) (reap_worker_assignments w rs b t d)"
  "keeps (\<lambda>s. map (\<lambda>w. (wr_id w, wr_status w = OFFLINE)) (workers s)) (reap_expired_leases b t)"
proof -
  have r: "keeps (\<lambda>s. map (\<lambda>w. (wr_id w, wr_status w = OFFLINE)) (workers s)) (reap_rounds n w rs l now d)" for n l now
    by (induction n) (auto intro!: steps_intro keeps_offline)
  show "keeps (\<lambda>s. map (\<lambda>w. (wr_id w, wr_status w = OFFLINE)) (workers s)) (reap_worker_assignments w rs b t d)"
    unfolding reap_worker_assignments_def by (intro steps_intro r; simp del: reap_rounds.simps)
  show "keeps (\<lambda>s. map (\<lambda>w. (wr_id w, wr_status w = OFFLINE)) (workers s)) (reap_expired_leases b t)"
    unfolding reap_expired_leases_def by (intro steps_intro keeps_offline; simp)
qed

section \<open>Witnesses\<close>

lemmas recovery_ops = recover_assignment_def release_worker_slot_def resolve_max_attempts_def stage_rows_def requeue_def release_stale_def
  rekey_assignment_def key_elsewhere_def announce_requeue_def audit_recovery_def text_or_def free_slot_def requeued_row_def
  clear_lease_and_claim_fields_def in_flight_def stage_key_of_attempt_def reap_worker_assignments_def held_by_def unlocked_def limit_rows_def

text \<open>A worker holds two assignments; another transaction has the second one locked.\<close>

definition held_and_locked :: "StageAssignment list" where
  "held_and_locked = [held_assignment, held_assignment\<lparr>sa_id := 31, sa_attempt_number := 2, sa_idempotency_key := Some ''k2''\<rparr>]"

lemma held_db_facts: "distinct (map sr_id (reservations held_db))" "distinct (map sa_id (assignments held_db))"
  "row_get pr_id (sa_pipeline_run_id held_assignment) (runs held_db) = Some sample_run" "in_flight (sa_status held_assignment)"
  "held_by 20 held_db = [held_assignment]" "resolve_max_attempts held_assignment held_db = (Inr 3, held_db)"
  "sa_attempt_number held_assignment = 1" "sa_id held_assignment = 30"
  by (simp_all add: held_db_def held_assignment_def reserved_db_def held_by_def unlocked_def resolve_max_attempts_def
      stage_rows_def exec fixture)

lemma held_db_recovers: "\<exists>res s'. recover_assignment 30 rs (Some 2000) None held_db = (Inr res, s')"
proof -
  obtain g where g: "release_worker_slot (sa_worker_id held_assignment) held_db = (Inr (), workers_update g held_db)"
    using release_worker_slot_exec by blast
  let ?s = "workers_update g held_db"
  have "resolve_max_attempts held_assignment ?s = (Inr 3, ?s)"
    using resolve_state [of held_assignment ?s] resolve_workers [of held_assignment g held_db] held_db_facts(6) by simp
  then have e: "recover_assignment 30 rs (Some 2000) None held_db = requeue held_assignment rs None 2 ?s"
    using g held_db_row held_db_facts by (simp add: recover_assignment_def exec Let_def)
  have h: "has_row pr_id 10 (runs ?s)" "distinct (map sr_id (reservations ?s))"
    using held_db_facts(1) by (simp_all add: held_db_def reserved_db_def fixture has_row_def)
  obtain s1 where "release_priors 10 ''scripting'' ?s = (Inr (), s1)" using release_priors_result [OF h] by blast
  moreover have "sa_pipeline_run_id held_assignment = 10" "sa_stage held_assignment = ''scripting''" "pr_id sample_run = 10"
    by (simp_all add: held_assignment_def fixture)
  ultimately have 1: "release_stale held_assignment ?s = (Inr (), s1)"
    using held_db_facts(3) by (simp add: release_stale_def exec)
  have "assignments s1 = [held_assignment]"
    using keepsD' [OF keeps_release_stale 1, of assignments] by (simp add: held_db_def)
  then obtain s2 where 2: "rekey_assignment 30 (stage_key_of_attempt 10 ''scripting'' 2) s1 = (Inr (), s2)"
    by (auto simp: rekey_assignment_def key_elsewhere_def held_assignment_def sample_assignment_def)
  obtain s3 tid where 3: "announce_requeue held_assignment rs 2 (assignments_update (row_set sa_id 30 (requeued_row 2)) s2) = (Inr (), s3)"
    using announce_requeue_result by blast
  show ?thesis unfolding e requeue_def using 1 2 3 held_db_facts(8)
    by (simp add: andThen_exec store_exec ret_exec held_assignment_def sample_assignment_def audit_recovery_def exec)
qed

lemma recover_assignment_bounded_witness:
  "\<exists>res s' a'. recover_assignment 30 LEASE_EXPIRED (Some 2000) None held_db = (Inr res, s') \<and> rcr_kind res = REQUEUED
    \<and> row_get sa_id 30 (assignments s') = Some a' \<and> sa_attempt_number a' = 2"
proof -
  obtain res s' where 1: "recover_assignment 30 LEASE_EXPIRED (Some 2000) None held_db = (Inr res, s')"
    using held_db_recovers by blast
  from recover_assignment_bounded [OF held_db_row held_db_facts(4,1,3) 1, where rs' = LEASE_EXPIRED and now' = 0 and d' = None]
    1 held_db_facts(6,7) show ?thesis by auto
qed

lemma reap_worker_drains_witness:
  "\<exists>outs s'. reap_worker_assignments 20 WORKER_OFFLINE None (Some 2000) None held_db = (Inr outs, s') \<and> held_by 20 s' = []"
proof -
  obtain res s1 where 1: "recover_assignment 30 WORKER_OFFLINE (Some 2000) None held_db = (Inr res, s1)"
    using held_db_recovers by blast
  have l: "the_or None (assignment_reaper_batch_size (cfg held_db)) = 100"
    by (simp add: the_or_def held_db_def reserved_db_def fixture)
  have 2: "reap_worker_assignments 20 WORKER_OFFLINE None (Some 2000) None held_db = (Inr [res], s1)"
    using 1 held_db_facts(5,8) l by (simp add: reap_worker_assignments_def exec limit_rows_def)
  from reap_worker_drains [OF held_db_facts(2) _ 2] 2 l show ?thesis by auto
qed

end
