(* ===== verification/Scheduler.thy ===== *)
theory Scheduler imports Recovery begin

text \<open>
  The scheduler, \<open>orchestration/scheduler.py\<close>: a tick selects the due jobs, shares the batch among the workspaces
  by a weighted round-robin, leases the chosen jobs (\<open>poll_and_lease\<close>) and then executes each
  (\<open>process_leased_job\<close>); leases that ran out go back to the queue (\<open>reap_expired_jobs\<close>). A job is passed by its
  key. \<open>by_workspace\<close>, a dict filled in the order of the candidates, is the list of its items; the loop that
  fills \<open>leased\<close> only reads cursors and limits, so the jobs are picked first and then leased in that order.
\<close>

definition DEFAULT_MAX_PER_WORKSPACE_PER_TICK :: int where
  "DEFAULT_MAX_PER_WORKSPACE_PER_TICK = 5"

definition LEASE_SECONDS :: int where
  "LEASE_SECONDS = 30"

definition NO_WORKER_MAX_RETRIES :: int where
  "NO_WORKER_MAX_RETRIES = 20"

definition NO_WORKER_RETRY_BASE_SECONDS :: int where
  "NO_WORKER_RETRY_BASE_SECONDS = 5"

definition NO_WORKER_RETRY_MAX_SECONDS :: int where
  "NO_WORKER_RETRY_MAX_SECONDS = 120"

definition SPEND_HOLD_RETRY_SECONDS :: int where
  "SPEND_HOLD_RETRY_SECONDS = 60"

lemmas scheduler_consts = DEFAULT_MAX_PER_WORKSPACE_PER_TICK_def LEASE_SECONDS_def NO_WORKER_MAX_RETRIES_def
  NO_WORKER_RETRY_BASE_SECONDS_def NO_WORKER_RETRY_MAX_SECONDS_def SPEND_HOLD_RETRY_SECONDS_def

section \<open>Sharing a tick among the workspaces\<close>

definition scheduler_owner_id :: "string \<Rightarrow> string M" where
  "scheduler_owner_id hostname = bindM uuid4 (\<lambda>u. ret (hostname @ '':'' @ take 8 (uuid_hex u)))"

text \<open>The last row of the workspace is what the dict comprehension keeps.\<close>

definition configured_tick_limit :: "uuid \<Rightarrow> db \<Rightarrow> int" where
  "configured_tick_limit ws s =
     (case rev (filter (\<lambda>l. wcl_workspace_id l = ws) (limits s)) of
        [] \<Rightarrow> DEFAULT_MAX_PER_WORKSPACE_PER_TICK | l # _ \<Rightarrow> wcl_max_per_scheduler_tick l)"

definition fairness_limits :: "uuid list \<Rightarrow> (uuid \<times> int) list M" where
  "fairness_limits workspace_ids =
     mapM workspace_ids (\<lambda>ws.
       bindM (gets (configured_tick_limit ws)) (\<lambda>configured.
       bindM (effective_scheduler_tick_limit ws configured) (\<lambda>n. ret (ws, n))))"

definition job_rank :: "JobSchedule \<Rightarrow> int \<times> datetime" where
  "job_rank j = (- js_priority j, js_run_after j)"

definition due_jobs :: "datetime \<Rightarrow> int \<Rightarrow> db \<Rightarrow> JobSchedule list" where
  "due_jobs now n s =
     limit_rows n (sort_key job_rank
       (filter (\<lambda>j. js_status j = JobScheduleStatus.PENDING \<and> js_run_after j \<le> now) (unlocked js_id s (jobs s))))"

definition group_by_workspace :: "JobSchedule list \<Rightarrow> (uuid \<times> JobSchedule list) list" where
  "group_by_workspace candidates =
     map (\<lambda>ws. (ws, filter (\<lambda>j. js_workspace_id j = ws) candidates)) (in_order (map js_workspace_id candidates))"

text \<open>How many jobs of a workspace this tick may take, \<open>min(len(jobs), limits[ws])\<close>.\<close>

definition allowance :: "(uuid \<Rightarrow> int) \<Rightarrow> uuid \<times> JobSchedule list \<Rightarrow> nat" where
  "allowance quota g = min (length (snd g)) (nat (quota (fst g)))"

text \<open>One pass of the \<open>for\<close> loop over the workspaces, and the \<open>while\<close> loop around it.\<close>

fun rr_pass ::
  "int \<Rightarrow> (uuid \<Rightarrow> int) \<Rightarrow> (uuid \<times> JobSchedule list) list \<Rightarrow> (uuid \<Rightarrow> nat) \<times> JobSchedule list
   \<Rightarrow> (uuid \<Rightarrow> nat) \<times> JobSchedule list" where
  "rr_pass batch quota [] (cur, leased) = (cur, leased)"
| "rr_pass batch quota (g # gs) (cur, leased) =
     (if int (length leased) \<ge> batch then (cur, leased)
      else if cur (fst g) \<ge> allowance quota g then rr_pass batch quota gs (cur, leased)
      else rr_pass batch quota gs (cur(fst g := Suc (cur (fst g))), leased @ [snd g ! cur (fst g)]))"

definition rr_more :: "int \<Rightarrow> (uuid \<Rightarrow> int) \<Rightarrow> (uuid \<times> JobSchedule list) list \<Rightarrow> (uuid \<Rightarrow> nat) \<times> JobSchedule list \<Rightarrow> bool" where
  "rr_more batch quota gs st \<longleftrightarrow>
     int (length (snd st)) < batch \<and> list_ex (\<lambda>g. fst st (fst g) < allowance quota g) gs"

lemma rr_pass_grows: "length (snd st) \<le> length (snd (rr_pass batch quota gs st))"
  by (induction batch quota gs st rule: rr_pass.induct) auto

lemma rr_pass_progress:
  "rr_more batch quota gs st \<Longrightarrow> length (snd st) < length (snd (rr_pass batch quota gs st))"
proof (induction batch quota gs st rule: rr_pass.induct)
  case (2 batch quota g gs cur leased)
  show ?case
  proof (cases "cur (fst g) \<ge> allowance quota g")
    case True
    with 2 show ?thesis by (auto simp: rr_more_def)
  next
    case False
    let ?st = "(cur(fst g := Suc (cur (fst g))), leased @ [snd g ! cur (fst g)])"
    have "length (snd ?st) \<le> length (snd (rr_pass batch quota gs ?st))" by (rule rr_pass_grows)
    with False 2(3) show ?thesis by (auto simp: rr_more_def)
  qed
qed (simp add: rr_more_def)

function rr_rounds ::
  "int \<Rightarrow> (uuid \<Rightarrow> int) \<Rightarrow> (uuid \<times> JobSchedule list) list \<Rightarrow> (uuid \<Rightarrow> nat) \<times> JobSchedule list
   \<Rightarrow> (uuid \<Rightarrow> nat) \<times> JobSchedule list" where
  "rr_rounds batch quota gs st =
     (if rr_more batch quota gs st then rr_rounds batch quota gs (rr_pass batch quota gs st) else st)"
  by pat_completeness auto

termination
proof (relation "measure (\<lambda>(batch, quota, gs, st). nat batch - length (snd st))")
  fix batch quota gs st
  assume m: "rr_more batch quota gs st"
  then have "length (snd st) < nat batch" by (auto simp: rr_more_def)
  with rr_pass_progress [OF m]
  show "((batch, quota, gs, rr_pass batch quota gs st), (batch, quota, gs, st))
      \<in> measure (\<lambda>(batch, quota, gs, st). nat batch - length (snd st))" by auto
qed simp

declare rr_rounds.simps [simp del]

definition round_robin :: "int \<Rightarrow> (uuid \<Rightarrow> int) \<Rightarrow> (uuid \<times> JobSchedule list) list \<Rightarrow> JobSchedule list" where
  "round_robin batch quota gs = snd (rr_rounds batch quota gs (\<lambda>_. 0, []))"

definition lease_job :: "string \<Rightarrow> JobSchedule \<Rightarrow> uuid M" where
  "lease_job owner j =
     bindM utcnow (\<lambda>now.
     andThen (set_job (js_id j) (\<lambda>r. r\<lparr> js_status := LEASED, js_lease_owner := Some owner,
       js_lease_expires_at := Some (now + of_int LEASE_SECONDS) \<rparr>))
     (ret (js_id j)))"

definition poll_and_lease :: "string \<Rightarrow> int \<Rightarrow> uuid list M" where
  "poll_and_lease hostname batch_size =
     bindM (scheduler_owner_id hostname) (\<lambda>owner.
     bindM utcnow (\<lambda>now.
     bindM (query (due_jobs now (batch_size * 3))) (\<lambda>candidates.
     if candidates = [] then ret []
     else bindM (fairness_limits (map fst (group_by_workspace candidates))) (\<lambda>limits.
       mapM (round_robin batch_size (\<lambda>ws. the_or (map_of limits ws) 0) (group_by_workspace candidates))
         (lease_job owner)))))"

section \<open>Executing a job\<close>

definition unlease :: "JobSchedule \<Rightarrow> JobSchedule" where
  "unlease j = j\<lparr> js_lease_owner := None, js_lease_expires_at := None \<rparr>"

definition expired_jobs :: "datetime \<Rightarrow> int \<Rightarrow> db \<Rightarrow> JobSchedule list" where
  "expired_jobs now batch_size s =
     limit_rows batch_size (filter (\<lambda>j. js_status j = LEASED
       \<and> (case js_lease_expires_at j of None \<Rightarrow> False | Some t \<Rightarrow> t < now)) (unlocked js_id s (jobs s)))"

definition reap_expired_jobs :: "int \<Rightarrow> int M" where
  "reap_expired_jobs batch_size =
     bindM utcnow (\<lambda>now.
     bindM (query (expired_jobs now batch_size)) (\<lambda>expired.
     andThen (forM expired (\<lambda>j. set_job (js_id j) (\<lambda>r. (unlease r)\<lparr> js_status := JobScheduleStatus.PENDING,
       js_attempt := js_attempt r + 1 \<rparr>)))
     (ret (int (length expired)))))"

definition park_job :: "uuid \<Rightarrow> unit M" where
  "park_job job_id =
     bindM utcnow (\<lambda>now.
     set_job job_id (\<lambda>r. unlease (r\<lparr> js_status := JobScheduleStatus.PENDING,
       js_run_after := now + of_int SPEND_HOLD_RETRY_SECONDS \<rparr>)))"

definition open_of_stage :: "uuid \<Rightarrow> stage \<Rightarrow> db \<Rightarrow> StageAssignment list" where
  "open_of_stage run_id st s =
     filter (\<lambda>a. sa_pipeline_run_id a = run_id \<and> sa_stage a = st \<and> open_assignment (sa_status a)) (assignments s)"

text \<open>The job has been rescheduled too often: retire it, free the run's money, cancel its assignments, dead-letter.\<close>

definition abandon_stage :: "uuid \<Rightarrow> stage \<Rightarrow> unit M" where
  "abandon_stage run_id st =
     bindM (get_row runs pr_id run_id) (\<lambda>orun.
     case orun of
       None \<Rightarrow> ret ()
     | Some run \<Rightarrow>
         andThen (release_all_reservations (pr_id run)) (
         bindM (query (open_of_stage (pr_id run) st)) (\<lambda>open_assignments.
         forM open_assignments (\<lambda>a. set_assignment (sa_id a)
           (sa_status_update (\<lambda>_. StageAssignmentStatus.CANCELLED))))))"

definition exhaust_job :: "uuid \<Rightarrow> unit M" where
  "exhaust_job job_id =
     andThen (set_job job_id (\<lambda>r. r\<lparr> js_status := JobScheduleStatus.CANCELLED \<rparr>)) (
     bindM (the_job job_id) (\<lambda>job.
     andThen (abandon_stage (js_ref_id job) (js_ref_table job)) (
     bindM (route_to_dead_letter (js_workspace_id job) ''job_schedule'' (js_id job)
       (''stage_dispatch:'' @ js_ref_table job)
       (Some (JObj [(''stage'', JStr (js_ref_table job)), (''pipeline_run_id'', JStr (str_uuid (js_ref_id job)))]))
       ''no eligible worker available after repeated attempts'' (js_attempt job) (js_created_at job)) (\<lambda>_.
     ret ()))))"

definition retry_job_later :: "uuid \<Rightarrow> int \<Rightarrow> unit M" where
  "retry_job_later job_id attempt =
     bindM (compute_backoff_seconds attempt NO_WORKER_RETRY_BASE_SECONDS 2 NO_WORKER_RETRY_MAX_SECONDS) (\<lambda>delay.
     bindM utcnow (\<lambda>now.
     set_job job_id (\<lambda>r. unlease (r\<lparr> js_status := JobScheduleStatus.PENDING, js_run_after := now + delay \<rparr>))))"

definition reschedule_job :: "uuid \<Rightarrow> unit M" where
  "reschedule_job job_id =
     andThen (set_job job_id (\<lambda>r. r\<lparr> js_attempt := js_attempt r + 1 \<rparr>)) (
     bindM (the_job job_id) (\<lambda>job.
     if js_attempt job \<ge> NO_WORKER_MAX_RETRIES then exhaust_job job_id
     else retry_job_later job_id (js_attempt job)))"

definition finish_job :: "uuid \<Rightarrow> unit M" where
  "finish_job job_id = set_job job_id (\<lambda>r. r\<lparr> js_status := JobScheduleStatus.DONE \<rparr>)"

definition settle_dispatch :: "uuid \<Rightarrow> DispatchResult \<Rightarrow> unit M" where
  "settle_dispatch job_id result =
     (if dr_outcome result = SPEND_HOLD then park_job job_id
      else if dr_outcome result = DispatchOutcome.SKIPPED
        then set_job job_id (\<lambda>r. unlease (r\<lparr> js_status := JobScheduleStatus.CANCELLED \<rparr>))
      else if dr_outcome result \<in> {DispatchOutcome.DISPATCHED, IDEMPOTENT} then finish_job job_id
      else if dr_outcome result = NO_WORKER \<and> dr_assignment result \<noteq> None then finish_job job_id
      else reschedule_job job_id)"

definition process_leased_job :: "uuid \<Rightarrow> unit M" where
  "process_leased_job job_id =
     bindM (the_job job_id) (\<lambda>job.
     if js_job_type job = JobType.STAGE \<or> js_job_type job = RETRY then
       bindM (or_uuid4 (js_correlation_id job)) (\<lambda>corr.
       bindM (dispatch_stage (js_workspace_id job) (js_ref_id job) (js_ref_table job) (js_attempt job + 1) corr
         (js_trace_id job) None None) (\<lambda>result.
       settle_dispatch job_id result))
     else if js_job_type job = STAGE_TIMEOUT then
       andThen (handle_stage_timeout (js_ref_id job) (js_ref_table job)) (finish_job job_id)
     else if js_job_type job = REVIEW_TIMEOUT then
       andThen (handle_review_timeout (js_ref_id job)) (finish_job job_id)
     else if js_job_type job = COMPENSATION then
       andThen (run_compensation_stage (js_ref_id job) (js_ref_table job)) (finish_job job_id)
     else raise (NotImplementedError (''recurring job_type has no policy defined in Milestone 4 '' @
       ''- no recurring producer exists yet; add one before scheduling this type'')))"

section \<open>Footprint\<close>

lemma unlease_sel [simp]:
  "js_id (unlease j) = js_id j" "js_workspace_id (unlease j) = js_workspace_id j" "js_job_type (unlease j) = js_job_type j"
  "js_ref_table (unlease j) = js_ref_table j" "js_ref_id (unlease j) = js_ref_id j" "js_priority (unlease j) = js_priority j"
  "js_status (unlease j) = js_status j" "js_attempt (unlease j) = js_attempt j" "js_run_after (unlease j) = js_run_after j"
  by (simp_all add: unlease_def)

lemma w_scheduler_parts [steps_intro]:
  "steps writes (scheduler_owner_id h)" "steps writes (fairness_limits wss)" "steps writes (lease_job o' j)"
  "steps writes (park_job i)" "steps writes (exhaust_job i)" "steps writes (retry_job_later i n)"
  "steps writes (finish_job i)"
  unfolding scheduler_owner_id_def fairness_limits_def lease_job_def park_job_def exhaust_job_def abandon_stage_def retry_job_later_def
    finish_job_def
  by (intro steps_intro; simp add: write_preds)+

lemma w_reschedule [steps_intro]: "steps writes (reschedule_job i)"
  unfolding reschedule_job_def by (intro steps_intro; simp add: write_preds)

lemma w_settle_dispatch [steps_intro]: "steps writes (settle_dispatch i r)"
  unfolding settle_dispatch_def by (intro steps_intro; simp add: write_preds)

lemma w_scheduler [steps_intro]:
  "steps writes (poll_and_lease h n)" "steps writes (process_leased_job i)" "steps writes (reap_expired_jobs n)"
  unfolding poll_and_lease_def process_leased_job_def reap_expired_jobs_def
  by (intro steps_intro; simp add: write_preds)+


section \<open>The round-robin\<close>

lemma in_order_set [simp]: "set (in_order xs) = set xs"
  by (induction xs) auto

lemma in_order_distinct [simp]: "distinct (in_order xs)"
  by (induction xs) auto

lemma group_by_workspace_keys:
  "map fst (group_by_workspace js) = in_order (map js_workspace_id js)"
  by (simp add: group_by_workspace_def comp_def)

lemma group_by_workspace_mem:
  "g \<in> set (group_by_workspace js) \<longleftrightarrow>
   fst g \<in> js_workspace_id ` set js \<and> snd g = filter (\<lambda>j. js_workspace_id j = fst g) js"
  by (cases g) (auto simp: group_by_workspace_def)

text \<open>After pass \<open>k\<close> every workspace has had \<open>k\<close> turns, or all it may have; a full batch cuts a pass short.\<close>

definition turns :: "(uuid \<Rightarrow> int) \<Rightarrow> nat \<Rightarrow> (uuid \<Rightarrow> nat) \<Rightarrow> uuid \<times> JobSchedule list \<Rightarrow> bool" where
  "turns quota k cur g \<longleftrightarrow> cur (fst g) = min (allowance quota g) k"

definition picked :: "(uuid \<Rightarrow> nat) \<Rightarrow> JobSchedule list \<Rightarrow> uuid \<times> JobSchedule list \<Rightarrow> bool" where
  "picked cur leased g \<longleftrightarrow> filter (\<lambda>j. js_workspace_id j = fst g) leased = take (cur (fst g)) (snd g)"

definition own_jobs :: "uuid \<times> JobSchedule list \<Rightarrow> bool" where
  "own_jobs g \<longleftrightarrow> (\<forall>j\<in>set (snd g). js_workspace_id j = fst g)"

lemma allowance_le: "allowance quota g \<le> length (snd g)"
  by (simp add: allowance_def)

text \<open>One turn of a workspace.\<close>

lemma picked_turn:
  assumes "picked cur leased g" "own_jobs g" "cur (fst g) < allowance quota g"
  shows "picked (cur(fst g := Suc (cur (fst g)))) (leased @ [snd g ! cur (fst g)]) g"
proof -
  have l: "cur (fst g) < length (snd g)" using assms(3) allowance_le [of quota g] by simp
  then have "js_workspace_id (snd g ! cur (fst g)) = fst g" using assms(2) by (simp add: own_jobs_def)
  with assms(1) l show ?thesis by (simp add: picked_def take_Suc_conv_app_nth)
qed

lemma picked_other:
  assumes "picked cur leased h" "own_jobs g" "cur (fst g) < allowance quota g" "fst h \<noteq> fst g"
  shows "picked (cur(fst g := Suc (cur (fst g)))) (leased @ [snd g ! cur (fst g)]) h"
proof -
  have "cur (fst g) < length (snd g)" using assms(3) allowance_le [of quota g] by simp
  then have "js_workspace_id (snd g ! cur (fst g)) = fst g" using assms(2) by (simp add: own_jobs_def)
  with assms(1,4) show ?thesis by (simp add: picked_def)
qed

lemma rr_pass_picked:
  "rr_pass batch quota gs (cur, leased) = (cur', leased') \<Longrightarrow> set gs \<subseteq> set all \<Longrightarrow> distinct (map fst all) \<Longrightarrow>
   \<forall>g\<in>set all. own_jobs g \<and> picked cur leased g \<Longrightarrow> \<forall>g\<in>set all. picked cur' leased' g"
proof (induction gs arbitrary: cur leased)
  case (Cons g gs)
  let ?cur = "cur(fst g := Suc (cur (fst g)))" and ?leased = "leased @ [snd g ! cur (fst g)]"
  consider "batch \<le> int (length leased)" | "int (length leased) < batch" "allowance quota g \<le> cur (fst g)"
    | "int (length leased) < batch" "cur (fst g) < allowance quota g" by linarith
  then show ?case
  proof cases
    case 3
    have "picked ?cur ?leased h" if h: "h \<in> set all" for h
    proof (cases "fst h = fst g")
      case True
      with h Cons.prems(2,3) have "h = g" by (auto simp: distinct_map inj_on_def)
      with Cons.prems(2,4) 3 show ?thesis by (auto intro: picked_turn)
    next
      case False
      then show ?thesis using Cons.prems(2,4) 3 h by (auto intro: picked_other)
    qed
    with Cons.prems 3 show ?thesis by (intro Cons.IH [of ?cur ?leased]) (simp_all del: fun_upd_apply)
  qed (use Cons in auto)
qed simp

lemma rr_pass_turns:
  "rr_pass batch quota gs (cur, leased) = (cur', leased') \<Longrightarrow> distinct (map fst gs) \<Longrightarrow> \<forall>g\<in>set gs. turns quota k cur g \<Longrightarrow>
   (\<forall>g\<in>set gs. turns quota k cur' g \<or> turns quota (Suc k) cur' g)
   \<and> (int (length leased') < batch \<longrightarrow> (\<forall>g\<in>set gs. turns quota (Suc k) cur' g))
   \<and> (\<forall>ws. ws \<notin> fst ` set gs \<longrightarrow> cur' ws = cur ws)
   \<and> (int (length leased) \<le> batch \<longrightarrow> int (length leased') \<le> batch)"
proof (induction gs arbitrary: cur leased)
  case (Cons g gs)
  let ?cur = "cur(fst g := Suc (cur (fst g)))" and ?leased = "leased @ [snd g ! cur (fst g)]"
  have g: "turns quota k cur g" "\<forall>g\<in>set gs. turns quota k cur g" "fst g \<notin> fst ` set gs" "distinct (map fst gs)"
    using Cons.prems(2,3) by auto
  consider "batch \<le> int (length leased)" | "int (length leased) < batch" "allowance quota g \<le> cur (fst g)"
    | "int (length leased) < batch" "cur (fst g) < allowance quota g" by linarith
  then show ?case
  proof cases
    case 1
    with Cons.prems show ?thesis by auto
  next
    case 2
    with Cons.prems(1) have r: "rr_pass batch quota gs (cur, leased) = (cur', leased')" by simp
    note ih = Cons.IH [OF r g(4,2)]
    then have "cur' (fst g) = cur (fst g)" using g(3) by blast
    with 2(2) g(1) have "turns quota k cur' g" "turns quota (Suc k) cur' g" by (auto simp: turns_def)
    with ih show ?thesis by auto
  next
    case 3
    with Cons.prems(1) have r: "rr_pass batch quota gs (?cur, ?leased) = (cur', leased')" by simp
    have "\<forall>h\<in>set gs. turns quota k ?cur h"
    proof
      fix h assume h: "h \<in> set gs"
      then have "fst h \<noteq> fst g" using g(3) by (metis image_eqI)
      with g(2) h show "turns quota k ?cur h" by (simp add: turns_def)
    qed
    note ih = Cons.IH [OF r g(4) this]
    then have "cur' (fst g) = Suc (cur (fst g))" using g(3) by (metis fun_upd_same)
    with 3(2) g(1) have "turns quota (Suc k) cur' g" by (auto simp: turns_def)
    moreover have "int (length ?leased) \<le> batch" using 3(1) by simp
    ultimately show ?thesis using ih g(3) by auto
  qed
qed simp

lemma rr_rounds_result:
  "distinct (map fst gs) \<Longrightarrow> \<forall>g\<in>set gs. own_jobs g \<Longrightarrow> \<forall>g\<in>set gs. picked (fst st) (snd st) g \<and> turns quota k (fst st) g \<Longrightarrow>
    int (length (snd st)) \<le> max 0 batch \<Longrightarrow> rr_rounds batch quota gs st = (cur, leased) \<Longrightarrow>
    (\<forall>g\<in>set gs. picked cur leased g) \<and> (\<exists>k. \<forall>g\<in>set gs. turns quota k cur g \<or> turns quota (Suc k) cur g)
    \<and> int (length leased) \<le> max 0 batch \<and> \<not> rr_more batch quota gs (cur, leased)"
proof (induction batch quota gs st arbitrary: k rule: rr_rounds.induct)
  case (1 batch quota gs st)
  show ?case
  proof (cases "rr_more batch quota gs st")
    case False
    with 1(6) have "st = (cur, leased)" by (simp add: rr_rounds.simps [of _ _ _ st])
    with 1(4,5) False show ?thesis by auto
  next
    case True
    obtain c0 l0 where st: "st = (c0, l0)" by (cases st)
    obtain c1 l1 where p: "rr_pass batch quota gs (c0, l0) = (c1, l1)" by (cases "rr_pass batch quota gs (c0, l0)")
    have b: "int (length l0) < batch" using True by (simp add: rr_more_def st)
    have r: "rr_rounds batch quota gs (c1, l1) = (cur, leased)" using 1(6) True st p by (simp add: rr_rounds.simps [of batch quota gs "(c0, l0)"])
    have pk: "\<forall>g\<in>set gs. picked c1 l1 g"
      using rr_pass_picked [OF p subset_refl 1(2)] 1(3,4) st by auto
    have t0: "\<forall>g\<in>set gs. turns quota k c0 g" using 1(4) st by auto
    note t = rr_pass_turns [OF p 1(2) t0]
    show ?thesis
    proof (cases "int (length l1) < batch")
      case True
      with t pk have "\<forall>g\<in>set gs. picked (fst (c1, l1)) (snd (c1, l1)) g \<and> turns quota (Suc k) (fst (c1, l1)) g" by simp
      with 1(1) [OF \<open>rr_more batch quota gs st\<close>, unfolded st p, OF 1(2,3) this _ r] b t show ?thesis by simp
    next
      case False
      then have "(c1, l1) = (cur, leased)" using r by (simp add: rr_rounds.simps [of _ _ _ "(c1, l1)"] rr_more_def)
      with False t pk b show ?thesis by (auto simp: rr_more_def)
    qed
  qed
qed

text \<open>What the round-robin picks: a prefix of each workspace's jobs, in turn, until the batch or all allowances are used up.\<close>

lemma round_robin_result:
  assumes "distinct (map fst gs)" "\<forall>g\<in>set gs. own_jobs g"
  shows "\<exists>cur. (\<forall>g\<in>set gs. picked cur (round_robin batch quota gs) g \<and> cur (fst g) \<le> allowance quota g)
    \<and> int (length (round_robin batch quota gs)) \<le> max 0 batch
    \<and> (int (length (round_robin batch quota gs)) < batch \<longrightarrow> (\<forall>g\<in>set gs. cur (fst g) = allowance quota g))
    \<and> (\<forall>g\<in>set gs. \<forall>h\<in>set gs. cur (fst g) < allowance quota g \<longrightarrow> cur (fst h) \<le> Suc (cur (fst g)))"
proof -
  obtain cur leased where r: "rr_rounds batch quota gs (\<lambda>_. 0, []) = (cur, leased)"
    by (cases "rr_rounds batch quota gs (\<lambda>_. 0, [])")
  then have l: "round_robin batch quota gs = leased" by (simp add: round_robin_def)
  have s: "\<forall>g\<in>set gs. picked (fst (\<lambda>_. 0, [])) (snd (\<lambda>_. 0, [])) g \<and> turns quota 0 (fst (\<lambda>_. 0, [])) g"
    by (simp add: picked_def turns_def)
  from rr_rounds_result [OF assms s _ r] obtain k where
    pk: "\<forall>g\<in>set gs. picked cur leased g" and k: "\<forall>g\<in>set gs. turns quota k cur g \<or> turns quota (Suc k) cur g"
    and n: "int (length leased) \<le> max 0 batch" "\<not> rr_more batch quota gs (cur, leased)" by auto
  have a: "\<forall>g\<in>set gs. cur (fst g) \<le> allowance quota g" using k by (auto simp: turns_def)
  have "int (length leased) < batch \<longrightarrow> (\<forall>g\<in>set gs. cur (fst g) = allowance quota g)"
    using n(2) a by (fastforce simp: rr_more_def list_ex_iff)
  moreover have "cur (fst h) \<le> Suc (cur (fst g))"
    if "g \<in> set gs" "h \<in> set gs" "cur (fst g) < allowance quota g" for g h
    using bspec [OF k that(1)] bspec [OF k that(2)] that(3) by (auto simp: turns_def)
  ultimately show ?thesis unfolding l using pk n(1) a by blast
qed

section \<open>A tick leases fairly\<close>

lemma effective_limit_tick:
  "effective_scheduler_tick_limit ws c (s\<lparr>tick := n\<rparr>)
   = (fst (effective_scheduler_tick_limit ws c s), s\<lparr>tick := n\<rparr>)"
  by (auto simp: effective_scheduler_tick_limit_def exec bp_row_def split: sum.split)

lemma fairness_limits_result:
  assumes "fairness_limits wss (s\<lparr>tick := n\<rparr>) = (Inr ls, s')"
  shows "s' = s\<lparr>tick := n\<rparr> \<and> map fst ls = wss
    \<and> (\<forall>(ws, q)\<in>set ls. fst (effective_scheduler_tick_limit ws (configured_tick_limit ws s) s) = Inr q)"
  using assms
proof (induction wss arbitrary: ls s')
  case Nil
  then show ?case by (simp add: fairness_limits_def ret_exec)
next
  case (Cons ws wss)
  have c: "configured_tick_limit ws (s\<lparr>tick := n\<rparr>) = configured_tick_limit ws s" by (simp add: configured_tick_limit_def)
  from Cons.prems obtain q ls' where e: "fst (effective_scheduler_tick_limit ws (configured_tick_limit ws s) s) = Inr q"
    and r: "fairness_limits wss (s\<lparr>tick := n\<rparr>) = (Inr ls', s')" and l: "ls = (ws, q) # ls'"
    by (auto simp: fairness_limits_def bindM_exec gets_exec ret_exec c effective_limit_tick split: sum.splits prod.splits)
  from Cons.IH [OF r] e l show ?case by auto
qed

abbreviation leased_by :: "string \<Rightarrow> datetime \<Rightarrow> JobSchedule \<Rightarrow> JobSchedule" where
  "leased_by owner t j \<equiv> j\<lparr> js_status := LEASED, js_lease_owner := Some owner, js_lease_expires_at := Some t \<rparr>"

lemma lease_all:
  assumes "distinct (map js_id js)"
  shows "\<exists>t s'. mapM js (lease_job owner) s = (Inr (map js_id js), s')
    \<and> (\<forall>i. row_get js_id i (jobs s') = (if i \<in> js_id ` set js then map_option (leased_by owner (t i)) (row_get js_id i (jobs s))
            else row_get js_id i (jobs s)))
    \<and> (\<forall>i \<in> js_id ` set js. \<exists>k \<ge> tick s. t i = clock s k + of_int LEASE_SECONDS)"
  using assms
proof (induction js arbitrary: s)
  case Nil
  then show ?case by (simp add: ret_exec)
next
  case (Cons j js)
  let ?due = "clock s (tick s) + of_int LEASE_SECONDS"
  obtain s1 where 1: "lease_job owner j s = (Inr (js_id j), s1)" and c1: "clock s1 = clock s" "tick s1 = Suc (tick s)"
    and g1: "row_get js_id i (jobs s1)
      = (if i = js_id j then map_option (leased_by owner ?due) (row_get js_id i (jobs s)) else row_get js_id i (jobs s))" for i
    by (simp add: lease_job_def exec)
  have j: "js_id j \<notin> js_id ` set js" using Cons.prems by simp
  obtain t s' where 2: "mapM js (lease_job owner) s1 = (Inr (map js_id js), s')"
    and g2: "\<forall>i. row_get js_id i (jobs s') = (if i \<in> js_id ` set js then map_option (leased_by owner (t i)) (row_get js_id i (jobs s1))
            else row_get js_id i (jobs s1))"
    and t: "\<forall>i \<in> js_id ` set js. \<exists>k \<ge> tick s1. t i = clock s1 k + of_int LEASE_SECONDS"
    using Cons.IH [of s1] Cons.prems by auto
  let ?t = "t(js_id j := ?due)"
  have "row_get js_id i (jobs s') = (if i \<in> js_id ` set (j # js)
      then map_option (leased_by owner (?t i)) (row_get js_id i (jobs s)) else row_get js_id i (jobs s))" for i
    using g1 [of i] g2 [rule_format, of i] j by (cases "i = js_id j") auto
  moreover have "mapM (j # js) (lease_job owner) s = (Inr (map js_id (j # js)), s')"
    using 1 2 by (simp add: bindM_exec ret_exec)
  moreover have "\<exists>k \<ge> tick s. ?t i = clock s k + of_int LEASE_SECONDS" if "i \<in> js_id ` set (j # js)" for i
  proof (cases "i = js_id j")
    case False
    with that t c1 obtain k where "Suc (tick s) \<le> k" "t i = clock s k + of_int LEASE_SECONDS" by auto
    with False show ?thesis by (intro exI [of _ k]) simp
  qed auto
  ultimately show ?case by blast
qed

lemma due_jobs_mem: "j \<in> set (due_jobs now n s) \<Longrightarrow>
  j \<in> set (jobs s) \<and> js_status j = JobScheduleStatus.PENDING \<and> js_run_after j \<le> now"
  using limit_rows_subset unlocked_subset by (fastforce simp: due_jobs_def)

text \<open>A due job that is no candidate is ranked behind a full window of candidates.\<close>

lemma due_jobs_complete:
  assumes "j \<in> set (jobs s)" "js_status j = JobScheduleStatus.PENDING" "js_run_after j \<le> now" "js_id j \<notin> set (locks s)"
    and "j \<notin> set (due_jobs now n s)"
  shows "length (due_jobs now n s) = nat n \<and> (\<forall>c \<in> set (due_jobs now n s). job_rank c \<le> job_rank j)"
proof -
  let ?all = "sort_key job_rank (filter (\<lambda>j. js_status j = JobScheduleStatus.PENDING \<and> js_run_after j \<le> now) (unlocked js_id s (jobs s)))"
  have d: "due_jobs now n s = take (nat n) ?all" by (simp add: due_jobs_def limit_rows_def)
  have "j \<in> set ?all" using assms(1-4) by (simp add: unlocked_def)
  moreover have "set ?all = set (take (nat n) ?all) \<union> set (drop (nat n) ?all)" by (metis append_take_drop_id set_append)
  ultimately have j: "j \<in> set (drop (nat n) ?all)" using assms(5) d by auto
  then have "nat n < length ?all" by (metis drop_all empty_iff list.set(1) not_le_imp_less)
  moreover have "sorted (map job_rank (take (nat n) ?all) @ map job_rank (drop (nat n) ?all))"
    unfolding map_append [symmetric] append_take_drop_id by (rule sorted_sort_key)
  then have "\<forall>c \<in> set (take (nat n) ?all). job_rank c \<le> job_rank j" using j unfolding sorted_append by simp
  ultimately show ?thesis unfolding d by simp
qed

lemma due_jobs_distinct:
  assumes "distinct (map js_id (jobs s))"
  shows "distinct (map js_id (due_jobs now n s))"
proof -
  have "distinct (due_jobs now n s)"
    using assms by (simp add: due_jobs_def limit_rows_def unlocked_def distinct_map distinct_take)
  moreover have "set (due_jobs now n s) \<subseteq> set (jobs s)" using due_jobs_mem by blast
  ultimately show ?thesis using assms by (auto simp: distinct_map intro: inj_on_subset)
qed

text \<open>Picks of the round-robin are candidates, each picked once.\<close>

lemma picks_distinct:
  assumes "\<forall>g\<in>set (group_by_workspace cs). picked cur leased g" "js_workspace_id ` set leased \<subseteq> js_workspace_id ` set cs"
    and "distinct (map js_id cs)"
  shows "set leased \<subseteq> set cs" "distinct (map js_id leased)"
proof -
  have own: "filter (\<lambda>j. js_workspace_id j = ws) leased = take (cur ws) (filter (\<lambda>j. js_workspace_id j = ws) cs)"
    if "ws \<in> js_workspace_id ` set cs" for ws
    using bspec [OF assms(1), of "(ws, filter (\<lambda>j. js_workspace_id j = ws) cs)"] that
    by (simp add: group_by_workspace_mem picked_def)
  show sub: "set leased \<subseteq> set cs"
  proof
    fix j assume j: "j \<in> set leased"
    then have ws: "js_workspace_id j \<in> js_workspace_id ` set cs" using assms(2) by auto
    have "j \<in> set (filter (\<lambda>k. js_workspace_id k = js_workspace_id j) leased)" using j by simp
    then show "j \<in> set cs" unfolding own [OF ws] using in_set_takeD by fastforce
  qed
  have dc: "distinct cs" and inj: "inj_on js_id (set cs)" using assms(3) by (simp_all add: distinct_map)
  have once: "distinct (filter (\<lambda>j. js_workspace_id j = ws) leased)" for ws
  proof (cases "ws \<in> js_workspace_id ` set cs")
    case True
    then show ?thesis using dc by (simp add: own distinct_take)
  next
    case False
    then have "filter (\<lambda>j. js_workspace_id j = ws) leased = []" using assms(2) by (auto simp: filter_empty_conv)
    then show ?thesis by simp
  qed
  have "distinct leased"
  proof (rule ccontr)
    assume "\<not> distinct leased"
    then obtain xs ys zs j where "leased = xs @ [j] @ ys @ [j] @ zs" using not_distinct_decomp by blast
    then have "\<not> distinct (filter (\<lambda>k. js_workspace_id k = js_workspace_id j) leased)" by simp
    with once show False by blast
  qed
  with inj sub show "distinct (map js_id leased)" by (auto simp: distinct_map intro: inj_on_subset)
qed

lemma rr_pass_keys:
  "js_workspace_id ` set (snd st) \<subseteq> fst ` set all \<Longrightarrow> set gs \<subseteq> set all \<Longrightarrow> \<forall>g\<in>set all. own_jobs g \<Longrightarrow>
   js_workspace_id ` set (snd (rr_pass batch quota gs st)) \<subseteq> fst ` set all"
proof (induction batch quota gs st rule: rr_pass.induct)
  case (2 batch quota g gs cur leased)
  have "js_workspace_id (snd g ! cur (fst g)) = fst g" if "cur (fst g) < allowance quota g"
    using that 2(4,5) allowance_le [of quota g] by (auto simp: own_jobs_def)
  with 2 show ?case by auto
qed simp

lemma rr_rounds_keys:
  "js_workspace_id ` set (snd st) \<subseteq> fst ` set gs \<Longrightarrow> \<forall>g\<in>set gs. own_jobs g \<Longrightarrow>
   js_workspace_id ` set (snd (rr_rounds batch quota gs st)) \<subseteq> fst ` set gs"
proof (induction batch quota gs st rule: rr_rounds.induct)
  case (1 batch quota gs st)
  show ?case
  proof (cases "rr_more batch quota gs st")
    case True
    from 1(1) [OF True rr_pass_keys [OF 1(2) subset_refl 1(3)] 1(3)] True
    show ?thesis by (simp add: rr_rounds.simps [of batch quota gs st])
  qed (use 1(2) in \<open>simp add: rr_rounds.simps [of batch quota gs st]\<close>)
qed

text \<open>The share of each workspace, in terms of the candidates alone.\<close>

definition fair_share ::
  "int \<Rightarrow> (uuid \<Rightarrow> int) \<Rightarrow> JobSchedule list \<Rightarrow> JobSchedule list \<Rightarrow> (uuid \<Rightarrow> nat) \<Rightarrow> bool" where
  "fair_share batch quota cs picks taken \<longleftrightarrow>
     (\<forall>ws\<in>js_workspace_id ` set cs.
        let own = filter (\<lambda>j. js_workspace_id j = ws) cs; may = min (length own) (nat (quota ws)) in
        filter (\<lambda>j. js_workspace_id j = ws) picks = take (taken ws) own \<and> taken ws \<le> may
        \<and> (int (length picks) < batch \<longrightarrow> taken ws = may)
        \<and> (taken ws < may \<longrightarrow> (\<forall>ws'\<in>js_workspace_id ` set cs. taken ws' \<le> Suc (taken ws))))"

lemma round_robin_fair:
  assumes "distinct (map js_id cs)" and picks_def: "picks = round_robin batch quota (group_by_workspace cs)"
  shows "set picks \<subseteq> set cs \<and> distinct (map js_id picks) \<and> int (length picks) \<le> max 0 batch
    \<and> (\<exists>taken. fair_share batch quota cs picks taken)"
proof -
  let ?gs = "group_by_workspace cs"
  have keys: "distinct (map fst ?gs)" "fst ` set ?gs = js_workspace_id ` set cs"
    by (simp_all add: group_by_workspace_keys flip: image_set) (simp add: group_by_workspace_def image_image)
  have own: "\<forall>g\<in>set ?gs. own_jobs g" by (auto simp: own_jobs_def group_by_workspace_mem)
  obtain cur where c: "\<forall>g\<in>set ?gs. picked cur picks g \<and> cur (fst g) \<le> allowance quota g"
    "int (length picks) \<le> max 0 batch" "int (length picks) < batch \<longrightarrow> (\<forall>g\<in>set ?gs. cur (fst g) = allowance quota g)"
    "\<forall>g\<in>set ?gs. \<forall>h\<in>set ?gs. cur (fst g) < allowance quota g \<longrightarrow> cur (fst h) \<le> Suc (cur (fst g))"
    using round_robin_result [OF keys(1) own] unfolding picks_def by blast
  have "js_workspace_id ` set picks \<subseteq> js_workspace_id ` set cs"
    using rr_rounds_keys [of "(\<lambda>_. 0, [])" ?gs batch quota] own keys(2) by (simp add: round_robin_def picks_def)
  from picks_distinct [OF _ this assms(1)] c(1) have p: "set picks \<subseteq> set cs" "distinct (map js_id picks)" by blast+
  have mem: "(ws, filter (\<lambda>j. js_workspace_id j = ws) cs) \<in> set ?gs" if "ws \<in> js_workspace_id ` set cs" for ws
    using that by (simp add: group_by_workspace_mem)
  have "fair_share batch quota cs picks cur"
    unfolding fair_share_def Let_def
    using c(1) [THEN bspec, OF mem] c(3) [THEN mp, THEN bspec, OF _ mem] c(4) [THEN bspec, OF mem, THEN bspec, OF _ mem]
    by (auto simp: picked_def allowance_def)
  with p c(2) show ?thesis by blast
qed

lemma poll_and_lease_steps:
  assumes "poll_and_lease h n s = (Inr ids, s')"
  defines "cs \<equiv> due_jobs (clock s (Suc (tick s))) (n * 3) s"
  obtains quota where "mapM (round_robin n quota (group_by_workspace cs))
      (lease_job (h @ '':'' @ take 8 (uuid_hex (uuids s (tick s))))) (s\<lparr>tick := Suc (Suc (tick s))\<rparr>) = (Inr ids, s')"
    "\<forall>ws\<in>js_workspace_id ` set cs. fst (effective_scheduler_tick_limit ws (configured_tick_limit ws s) s) = Inr (quota ws)"
proof -
  let ?s = "s\<lparr>tick := Suc (Suc (tick s))\<rparr>"
  let ?owner = "h @ '':'' @ take 8 (uuid_hex (uuids s (tick s)))"
  have d: "due_jobs (clock s (Suc (tick s))) (n * 3) ?s = cs" by (simp add: cs_def due_jobs_def unlocked_def)
  have o: "scheduler_owner_id h s = (Inr ?owner, s\<lparr>tick := Suc (tick s)\<rparr>)"
    by (simp add: scheduler_owner_id_def exec)
  show thesis
  proof (cases "cs = []")
    case True
    with assms(1) d o have "ids = []" "s' = ?s" by (auto simp: poll_and_lease_def exec)
    with True show thesis
      by (intro that [of "\<lambda>_. 0"])
        (simp_all add: group_by_workspace_def round_robin_def rr_rounds.simps rr_more_def ret_exec)
  next
    case False
    with assms(1) d o obtain ls s1 where
      ls: "fairness_limits (map fst (group_by_workspace cs)) ?s = (Inr ls, s1)" and
      m: "mapM (round_robin n (\<lambda>ws. the_or (map_of ls ws) 0) (group_by_workspace cs)) (lease_job ?owner) s1 = (Inr ids, s')"
      by (auto simp: poll_and_lease_def exec split: sum.splits prod.splits)
    note fl = fairness_limits_result [OF ls]
    have "fst (effective_scheduler_tick_limit ws (configured_tick_limit ws s) s) = Inr (the_or (map_of ls ws) 0)"
      if "ws \<in> js_workspace_id ` set cs" for ws
    proof -
      have "ws \<in> fst ` set ls" using that fl by (metis group_by_workspace_keys in_order_set image_set)
      then obtain q where q: "map_of ls ws = Some q" by (metis map_of_eq_None_iff not_Some_eq)
      then have "(ws, q) \<in> set ls" by (rule map_of_SomeD)
      with fl q show ?thesis by (auto simp: the_or_def)
    qed
    then show thesis using fl m by (intro that [of "\<lambda>ws. the_or (map_of ls ws) 0"]) auto
  qed
qed

text \<open>
  C9: A scheduler tick is fair, exclusive and complete. Its candidates are the first \<open>3 * batch\<close> jobs, in priority order, that are
  pending, unlocked and due at the instant the tick read from the clock. The jobs it leases are among them, at most the batch,
  each once, and are now leased to this scheduler process for 30 seconds; every other job stays as it was. Of each
  workspace it takes the first candidates, never more than the workspace's tick limit (halved under throttling); unless the
  batch is full, every workspace got all it may have; and no workspace that could have had more is
  more than one job behind any other.
\<close>

theorem poll_leases_fairly:
  assumes "distinct (map js_id (jobs s))" and "poll_and_lease h n s = (Inr ids, s')"
  shows "let now = clock s (Suc (tick s)); cs = due_jobs now (n * 3) s; owner = h @ '':'' @ take 8 (uuid_hex (uuids s (tick s)))
    in \<exists>picks quota taken. ids = map js_id picks \<and> distinct ids
    \<and> int (length ids) \<le> max 0 n \<and> set picks \<subseteq> set cs
    \<and> (\<forall>j\<in>set (jobs s). js_status j = JobScheduleStatus.PENDING \<longrightarrow> js_run_after j \<le> now \<longrightarrow> js_id j \<notin> set (locks s) \<longrightarrow>
         j \<in> set cs \<or> length cs = nat (n * 3) \<and> (\<forall>c\<in>set cs. job_rank c \<le> job_rank j))
    \<and> (\<forall>j\<in>set picks. js_status j = JobScheduleStatus.PENDING \<and> js_run_after j \<le> now
         \<and> (\<exists>k > tick s. row_get js_id (js_id j) (jobs s') = Some (leased_by owner (clock s k + 30) j)))
    \<and> (\<forall>i. i \<notin> set ids \<longrightarrow> row_get js_id i (jobs s') = row_get js_id i (jobs s))
    \<and> (\<forall>ws\<in>js_workspace_id ` set cs.
         fst (effective_scheduler_tick_limit ws (configured_tick_limit ws s) s) = Inr (quota ws))
    \<and> fair_share n quota cs picks taken"
proof -
  let ?now = "clock s (Suc (tick s))" and ?owner = "h @ '':'' @ take 8 (uuid_hex (uuids s (tick s)))"
  let ?cs = "due_jobs ?now (n * 3) s" and ?s1 = "s\<lparr>tick := Suc (Suc (tick s))\<rparr>"
  from assms(2) obtain quota where
    m: "mapM (round_robin n quota (group_by_workspace ?cs)) (lease_job ?owner) ?s1 = (Inr ids, s')" and
    q: "\<forall>ws\<in>js_workspace_id ` set ?cs. fst (effective_scheduler_tick_limit ws (configured_tick_limit ws s) s) = Inr (quota ws)"
    by (rule poll_and_lease_steps)
  let ?picks = "round_robin n quota (group_by_workspace ?cs)"
  obtain taken where p: "set ?picks \<subseteq> set ?cs" "distinct (map js_id ?picks)" "int (length ?picks) \<le> max 0 n"
    "fair_share n quota ?cs ?picks taken"
    using round_robin_fair [OF due_jobs_distinct [OF assms(1)] refl] by blast
  obtain t s2 where l: "mapM ?picks (lease_job ?owner) ?s1 = (Inr (map js_id ?picks), s2)" and
    g2: "\<forall>i. row_get js_id i (jobs s2) = (if i \<in> js_id ` set ?picks then map_option (leased_by ?owner (t i)) (row_get js_id i (jobs ?s1))
            else row_get js_id i (jobs ?s1))" and
    tk: "\<forall>i\<in>js_id ` set ?picks. \<exists>k \<ge> tick ?s1. t i = clock ?s1 k + of_int LEASE_SECONDS"
    using lease_all [OF p(2), of ?owner ?s1] by blast
  from m l have ids: "ids = map js_id ?picks" and s2: "s2 = s'" by (simp_all del: append.simps)
  have g: "row_get js_id i (jobs s') = (if i \<in> js_id ` set ?picks then map_option (leased_by ?owner (t i)) (row_get js_id i (jobs s))
            else row_get js_id i (jobs s))" for i
    using g2 s2 by simp
  have "js_status j = JobScheduleStatus.PENDING \<and> js_run_after j \<le> ?now
      \<and> (\<exists>k > tick s. row_get js_id (js_id j) (jobs s') = Some (leased_by ?owner (clock s k + 30) j))" if j: "j \<in> set ?picks" for j
  proof -
    have d: "j \<in> set (jobs s)" "js_status j = JobScheduleStatus.PENDING" "js_run_after j \<le> ?now"
      using p(1) j due_jobs_mem by blast+
    from tk j obtain k where "Suc (Suc (tick s)) \<le> k" "t (js_id j) = clock s k + 30" by (auto simp: LEASE_SECONDS_def)
    moreover have "row_get js_id (js_id j) (jobs s') = Some (leased_by ?owner (t (js_id j)) j)"
      using row_get_distinct [OF assms(1) d(1)] g [of "js_id j"] j by simp
    ultimately show ?thesis using d by (intro conjI exI [of _ k]) simp_all
  qed
  moreover have "\<forall>i. i \<notin> set ids \<longrightarrow> row_get js_id i (jobs s') = row_get js_id i (jobs s)" using g ids by simp
  moreover have "\<forall>j\<in>set (jobs s). js_status j = JobScheduleStatus.PENDING \<longrightarrow> js_run_after j \<le> ?now \<longrightarrow> js_id j \<notin> set (locks s) \<longrightarrow>
      j \<in> set ?cs \<or> length ?cs = nat (n * 3) \<and> (\<forall>c\<in>set ?cs. job_rank c \<le> job_rank j)"
    using due_jobs_complete by blast
  moreover have "distinct ids" "int (length ids) \<le> max 0 n" using p(2,3) ids by simp_all
  ultimately show ?thesis
    unfolding Let_def using p(1,4) q ids
    by (intro exI [of _ ?picks] exI [of _ quota] exI [of _ taken] conjI) (assumption | blast)+
qed

section \<open>What becomes of a processed job\<close>

lemma keeps_jobs_dispatch [steps_intro]: "keeps jobs (dispatch_stage ws r st n c tr op prio)"
  unfolding dispatch_stage_def spend_gate_def create_assignment_def workspace_priority_def take_slot_def
  by (intro steps_intro; simp)+

lemma open_of_stage_cancelled:
  "open_of_stage r st (assignments_update (map (cancelled (sa_id ` set (open_of_stage r st s)))) s) = []"
  unfolding open_of_stage_def
  by (auto simp: filter_empty_conv cancelled_def open_assignment_def split: if_splits)

lemma abandon_stage_result:
  assumes "distinct (map sr_id (reservations s))"
  shows "\<exists>s'. abandon_stage r st s = (Inr (), s') \<and> jobs s' = jobs s
      \<and> dead_letters s' = dead_letters s \<and> lives s' = lives s \<and> workers s' = workers s
      \<and> (has_row pr_id r (runs s) \<longrightarrow> open_reservations r s' = [] \<and> open_of_stage r st s' = [])"
proof (cases "row_get pr_id r (runs s)")
  case None
  then show ?thesis by (simp add: abandon_stage_def exec has_row_get)
next
  case (Some run)
  have h: "has_row pr_id r (runs s)" "pr_id run = r" using Some row_get_key [OF Some] by (simp_all add: has_row_get)
  from release_all_scoped [OF h(1) assms] obtain s1 where 1: "release_all_reservations r s = (Inr (), s1)"
    and none: "open_reservations r s1 = []" by blast
  have k: "(jobs s1, dead_letters s1, workers s1) = (jobs s, dead_letters s, workers s)"
    by (rule keepsD' [OF keeps_release_spend(2) 1]) simp_all
  have l: "lives s1 = lives s" by (rule keepsD' [OF keeps_lives(1) 1])
  let ?s2 = "assignments_update (map (cancelled (sa_id ` set (open_of_stage r st s1)))) s1"
  have "abandon_stage r st s = (Inr (), ?s2)"
    using Some 1 h(2) by (simp add: abandon_stage_def andThen_exec bindM_exec gets_exec cancel_loop)
  with k l none open_of_stage_cancelled [of r st s1] show ?thesis
    by (intro exI [of _ ?s2]) (simp add: open_reservations_def)
qed

lemma exhaust_job_result:
  assumes j: "row_get js_id i (jobs s) = Some j" and d: "distinct (map sr_id (reservations s))"
  shows "\<exists>s' dl. exhaust_job i s = (Inr (), s') \<and> row_get js_id i (jobs s') = Some (j\<lparr>js_status := JobScheduleStatus.CANCELLED\<rparr>)
    \<and> dead_letters s' = dead_letters s @ [dl] \<and> dl_related_id dl = i \<and> dl_attempt_count dl = js_attempt j
    \<and> lives s' = lives s \<and> workers s' = workers s
    \<and> (has_row pr_id (js_ref_id j) (runs s) \<longrightarrow>
         open_reservations (js_ref_id j) s' = [] \<and> open_of_stage (js_ref_id j) (js_ref_table j) s' = [])"
proof -
  let ?s1 = "jobs_update (row_set js_id i (\<lambda>r. r\<lparr>js_status := JobScheduleStatus.CANCELLED\<rparr>)) s"
  have id: "js_id j = i" using j by (rule row_get_key)
  have "distinct (map sr_id (reservations ?s1))" using d by simp
  then obtain s2 where 2: "abandon_stage (js_ref_id j) (js_ref_table j) ?s1 = (Inr (), s2)" and k: "jobs s2 = jobs ?s1"
    "dead_letters s2 = dead_letters s" "lives s2 = lives s" "workers s2 = workers s"
    "has_row pr_id (js_ref_id j) (runs s) \<longrightarrow>
         open_reservations (js_ref_id j) s2 = [] \<and> open_of_stage (js_ref_id j) (js_ref_table j) s2 = []"
    using abandon_stage_result [of ?s1 "js_ref_id j" "js_ref_table j"] by auto
  obtain dl n where 3: "route_to_dead_letter (js_workspace_id j) ''job_schedule'' i (''stage_dispatch:'' @ js_ref_table j)
       (Some (JObj [(''stage'', JStr (js_ref_table j)), (''pipeline_run_id'', JStr (str_uuid (js_ref_id j)))]))
       ''no eligible worker available after repeated attempts'' (js_attempt j) (js_created_at j) s2
     = (Inr (dl_id dl), dead_letters_update (\<lambda>rs. rs @ [dl]) (s2\<lparr>tick := n\<rparr>))"
    and dl: "dl_related_id dl = i" "dl_attempt_count dl = js_attempt j" using route_result by blast
  let ?s3 = "dead_letters_update (\<lambda>rs. rs @ [dl]) (s2\<lparr>tick := n\<rparr>)"
  have "exhaust_job i s = (Inr (), ?s3)"
    using j 2 3 id by (simp add: exhaust_job_def store_exec andThen_exec load_exec bindM_exec ret_exec)
  with k j dl show ?thesis
    by (intro exI [of _ ?s3] exI [of _ dl]) (simp add: open_reservations_def open_of_stage_def lives_def)
qed

text \<open>A dispatch outcome that keeps the job in the queue.\<close>

definition parked :: "datetime \<Rightarrow> JobSchedule \<Rightarrow> JobSchedule" where
  "parked t j = unlease (j\<lparr> js_status := JobScheduleStatus.PENDING, js_run_after := t \<rparr>)"

lemma parked_status [simp]: "js_status (parked t j) = JobScheduleStatus.PENDING"
  by (simp add: parked_def)

text \<open>Back after \<open>uniform(0, min(5 * 2 ** attempt, 120))\<close> seconds, the attempt counted.\<close>

definition backed_off :: "db \<Rightarrow> JobSchedule \<Rightarrow> JobSchedule \<Rightarrow> bool" where
  "backed_off s j j' \<longleftrightarrow> (\<exists>t u. j' = parked (t + backoff_cap (js_attempt j + 1) 5 2 120 * rng s u)
     (j\<lparr>js_attempt := js_attempt j + 1\<rparr>))"

lemma backed_off_simps [simp]: "backed_off (s\<lparr>tick := n\<rparr>) j j' = backed_off s j j'"
  by (simp add: backed_off_def)

lemma backed_off_status: "backed_off s j j' \<Longrightarrow> js_status j' \<noteq> LEASED"
  by (auto simp: backed_off_def)

lemma settle_back_pressure:
  assumes j: "row_get js_id i (jobs s) = Some j" and d: "distinct (map sr_id (reservations s))"
  shows "\<exists>s'. reschedule_job i s = (Inr (), s') \<and> lives s' = lives s \<and> workers s' = workers s
    \<and> (if js_attempt j + 1 < NO_WORKER_MAX_RETRIES
       then dead_letters s' = dead_letters s \<and> (\<exists>j'. row_get js_id i (jobs s') = Some j' \<and> backed_off s j j')
       else row_get js_id i (jobs s') = Some (j\<lparr>js_status := JobScheduleStatus.CANCELLED, js_attempt := js_attempt j + 1\<rparr>)
         \<and> (\<exists>dl. dead_letters s' = dead_letters s @ [dl] \<and> dl_related_id dl = i \<and> dl_attempt_count dl = js_attempt j + 1)
         \<and> (has_row pr_id (js_ref_id j) (runs s) \<longrightarrow>
              open_reservations (js_ref_id j) s' = [] \<and> open_of_stage (js_ref_id j) (js_ref_table j) s' = []))"
proof -
  let ?j = "j\<lparr>js_attempt := js_attempt j + 1\<rparr>"
  let ?s1 = "jobs_update (row_set js_id i (\<lambda>r. r\<lparr>js_attempt := js_attempt r + 1\<rparr>)) s"
  have j1: "row_get js_id i (jobs ?s1) = Some ?j" using j by simp
  have e: "reschedule_job i s = (if js_attempt j + 1 \<ge> NO_WORKER_MAX_RETRIES then exhaust_job i ?s1
      else retry_job_later i (js_attempt j + 1) ?s1)"
    using j by (simp add: reschedule_job_def andThen_exec store_exec bindM_exec load_exec)
  have l: "lives ?s1 = lives s" "workers ?s1 = workers s" by simp_all
  show ?thesis
  proof (cases "js_attempt j + 1 < NO_WORKER_MAX_RETRIES")
    case True
    let ?t = "clock s (Suc (tick s))" and ?b = "backoff_cap (js_attempt j + 1) 5 2 120 * rng s (tick s)"
    have "\<exists>s'. retry_job_later i (js_attempt j + 1) ?s1 = (Inr (), s') \<and> lives s' = lives s \<and> workers s' = workers s
      \<and> dead_letters s' = dead_letters s \<and> row_get js_id i (jobs s') = Some (parked (?t + ?b) ?j)"
      using j by (simp add: retry_job_later_def compute_backoff_seconds_def scheduler_consts parked_def bindM_exec
          uniform0_exec utcnow_exec store_exec)
    moreover have "backed_off s j (parked (?t + ?b) ?j)" unfolding backed_off_def by blast
    ultimately show ?thesis using True unfolding e by (auto simp: not_le)
  next
    case False
    have "distinct (map sr_id (reservations ?s1))" using d by simp
    from exhaust_job_result [OF j1 this] l False show ?thesis unfolding e by (auto intro: exI)
  qed
qed

lemma reschedules_only_back_pressure:
  assumes "dispatch_stage ws i st n c tr p pr s = (Inr d, s')"
  shows "dr_outcome d = BACKPRESSURE \<longrightarrow> s' = s" and "dr_outcome d = NO_WORKER \<longrightarrow> dr_assignment d \<noteq> None"
  using assms by (cases rule: dispatch_stage_cases; auto dest: dispatch_blocked_Some)+

text \<open>
  C11: What becomes of a stage job. It is dispatched as attempt \<open>attempt + 1\<close>. A dispatched, already dispatched or
  claimable stage ends the job \<open>DONE\<close>; a terminal or review-paused run cancels it; a spend hold puts it back for a
  minute without counting an attempt. Under back-pressure it goes back with its attempt counted and a jittered
  exponential delay, but never more than twenty times: then it is cancelled with one dead letter, the run's reservations
  are released and the stage's open assignments cancelled. In every case the job is no longer leased, so the number of
  back-pressure rounds is bounded. (An exhausted job changes neither the run's status nor any worker's load.)
\<close>

theorem stage_job_processed:
  assumes "row_get js_id i (jobs s) = Some j" "js_job_type j \<in> {JobType.STAGE, RETRY}" "js_status j = LEASED"
    and "distinct (map sr_id (reservations s))" and "process_leased_job i s = (Inr (), s')"
  shows "\<exists>c n d s1 j'. dispatch_stage (js_workspace_id j) (js_ref_id j) (js_ref_table j) (js_attempt j + 1) c (js_trace_id j)
      None None (s\<lparr>tick := n\<rparr>) = (Inr d, s1) \<and> row_get js_id i (jobs s') = Some j' \<and> js_status j' \<noteq> LEASED
    \<and> (case dr_outcome d of
         SPEND_HOLD \<Rightarrow> (\<exists>t. j' = parked (t + 60) j)
       | DispatchOutcome.SKIPPED \<Rightarrow> j' = unlease (j\<lparr>js_status := JobScheduleStatus.CANCELLED\<rparr>)
       | BACKPRESSURE \<Rightarrow>
           (if js_attempt j + 1 < 20
            then backed_off s j j'
            else j' = j\<lparr>js_status := JobScheduleStatus.CANCELLED, js_attempt := js_attempt j + 1\<rparr>
              \<and> (\<exists>dl. dead_letters s' = dead_letters s @ [dl] \<and> dl_related_id dl = i \<and> dl_attempt_count dl = js_attempt j + 1)
              \<and> lives s' = lives s \<and> workers s' = workers s
              \<and> (has_row pr_id (js_ref_id j) (runs s) \<longrightarrow>
                   open_reservations (js_ref_id j) s' = [] \<and> open_of_stage (js_ref_id j) (js_ref_table j) s' = []))
       | _ \<Rightarrow> j' = j\<lparr>js_status := JobScheduleStatus.DONE\<rparr>)"
proof -
  obtain c n where c: "or_uuid4 (js_correlation_id j) s = (Inr c, s\<lparr>tick := n\<rparr>)" using or_uuid4_Inr by blast
  let ?disp = "dispatch_stage (js_workspace_id j) (js_ref_id j) (js_ref_table j) (js_attempt j + 1) c (js_trace_id j) None None"
  have "bindM ?disp (settle_dispatch i) (s\<lparr>tick := n\<rparr>) = (Inr (), s')"
    using assms(1,2,5) c by (simp add: process_leased_job_def bindM_exec [of "the_job i"] bindM_exec [of "or_uuid4 x" for x] load_exec)
  then obtain d s1 where d: "?disp (s\<lparr>tick := n\<rparr>) = (Inr d, s1)" and r: "settle_dispatch i d s1 = (Inr (), s')"
    by (rule bindM_InrE)
  have j1: "row_get js_id i (jobs s1) = Some j" using keepsD' [OF keeps_jobs_dispatch d] assms(1) by simp
  note only = reschedules_only_back_pressure [OF d]
  let ?becomes = "\<lambda>j'. case dr_outcome d of
         SPEND_HOLD \<Rightarrow> (\<exists>t. j' = parked (t + 60) j)
       | DispatchOutcome.SKIPPED \<Rightarrow> j' = unlease (j\<lparr>js_status := JobScheduleStatus.CANCELLED\<rparr>)
       | BACKPRESSURE \<Rightarrow>
           (if js_attempt j + 1 < 20
            then backed_off s j j'
            else j' = j\<lparr>js_status := JobScheduleStatus.CANCELLED, js_attempt := js_attempt j + 1\<rparr>
              \<and> (\<exists>dl. dead_letters s' = dead_letters s @ [dl] \<and> dl_related_id dl = i \<and> dl_attempt_count dl = js_attempt j + 1)
              \<and> lives s' = lives s \<and> workers s' = workers s
              \<and> (has_row pr_id (js_ref_id j) (runs s) \<longrightarrow>
                   open_reservations (js_ref_id j) s' = [] \<and> open_of_stage (js_ref_id j) (js_ref_table j) s' = []))
       | _ \<Rightarrow> j' = j\<lparr>js_status := JobScheduleStatus.DONE\<rparr>"
  have "\<exists>j'. row_get js_id i (jobs s') = Some j' \<and> js_status j' \<noteq> LEASED \<and> ?becomes j'"
  proof (cases "dr_outcome d = BACKPRESSURE")
    case True
    then have s1: "s1 = s\<lparr>tick := n\<rparr>" using only(1) by blast
    then have "distinct (map sr_id (reservations s1))" using assms(4) by simp
    note b = settle_back_pressure [OF j1 this]
    have "reschedule_job i s1 = (Inr (), s')" using r True by (simp add: settle_dispatch_def)
    with b True s1 show ?thesis by (auto simp: NO_WORKER_MAX_RETRIES_def lives_def dest: backed_off_status split: if_splits)
  next
    case False
    with r j1 only(2) show ?thesis by (cases "dr_outcome d")
        (auto simp: settle_dispatch_def park_job_def finish_job_def exec scheduler_consts parked_def)
  qed
  with d show ?thesis by blast
qed

lemma set_each_job:
  assumes "\<And>r. js_id (f r) = js_id r" "distinct (map js_id js)"
  shows "\<exists>s'. forM js (\<lambda>j. set_job (js_id j) f) s = (Inr (), s')
    \<and> (\<forall>k. row_get js_id k (jobs s') = (if k \<in> js_id ` set js then map_option f (row_get js_id k (jobs s)) else row_get js_id k (jobs s)))"
  using assms(2)
proof (induction js arbitrary: s)
  case Nil
  then show ?case by (simp add: ret_exec)
next
  case (Cons j js)
  let ?s1 = "jobs_update (row_set js_id (js_id j) f) s"
  from Cons obtain s' where 2: "forM js (\<lambda>j. set_job (js_id j) f) ?s1 = (Inr (), s')" and
    g: "\<forall>k. row_get js_id k (jobs s') = (if k \<in> js_id ` set js then map_option f (row_get js_id k (jobs ?s1)) else row_get js_id k (jobs ?s1))"
    by (metis distinct.simps(2) list.simps(9))
  have "row_get js_id k (jobs s') = (if k \<in> js_id ` set (j # js) then map_option f (row_get js_id k (jobs s)) else row_get js_id k (jobs s))" for k
    using g [rule_format, of k] Cons.prems assms(1) by (cases "k = js_id j") auto
  moreover have "forM (j # js) (\<lambda>j. set_job (js_id j) f) s = (Inr (), s')"
    using 2 by (simp add: andThen_exec store_exec)
  ultimately show ?case by blast
qed

lemma expired_jobs_distinct:
  assumes "distinct (map js_id (jobs s))"
  shows "distinct (map js_id (expired_jobs now n s))"
proof -
  have "distinct (expired_jobs now n s)"
    using assms by (simp add: expired_jobs_def limit_rows_def unlocked_def distinct_map distinct_take)
  moreover have "set (expired_jobs now n s) \<subseteq> set (jobs s)"
    using limit_rows_subset unlocked_subset by (fastforce simp: expired_jobs_def)
  ultimately show ?thesis using assms by (auto simp: distinct_map intro: inj_on_subset)
qed

text \<open>
  The other job types. A timeout job runs its handler and is then \<open>DONE\<close>; a compensation job has nothing to run
  and is \<open>DONE\<close>; a recurring job is refused loudly and nothing is written. A job whose lease ran out goes back to the
  queue with one more attempt counted, and the count of such jobs is returned.
\<close>

theorem other_jobs_processed:
  assumes "row_get js_id i (jobs s) = Some j" and "distinct (map js_id (jobs s))"
  shows "(js_job_type j = RECURRING \<longrightarrow> (\<exists>m. process_leased_job i s = (Inl (NotImplementedError m), s)))
    \<and> (js_job_type j = COMPENSATION \<longrightarrow>
        process_leased_job i s = (Inr (), jobs_update (row_set js_id i (js_status_update (\<lambda>_. JobScheduleStatus.DONE))) s))
    \<and> (js_job_type j = REVIEW_TIMEOUT \<longrightarrow>
        process_leased_job i s = andThen (handle_review_timeout (js_ref_id j)) (finish_job i) s)
    \<and> (js_job_type j = STAGE_TIMEOUT \<longrightarrow>
        process_leased_job i s = andThen (handle_stage_timeout (js_ref_id j) (js_ref_table j)) (finish_job i) s)
    \<and> (\<exists>now s'. reap_expired_jobs n s = (Inr (int (length (expired_jobs now n s))), s')
        \<and> (\<forall>k. row_get js_id k (jobs s') =
             (if k \<in> js_id ` set (expired_jobs now n s)
              then map_option (\<lambda>r. (unlease r)\<lparr>js_status := JobScheduleStatus.PENDING, js_attempt := js_attempt r + 1\<rparr>) (row_get js_id k (jobs s))
              else row_get js_id k (jobs s))))"
proof -
  let ?f = "\<lambda>r. (unlease r)\<lparr>js_status := JobScheduleStatus.PENDING, js_attempt := js_attempt r + 1\<rparr>"
  let ?now = "clock s (tick s)" and ?s = "s\<lparr>tick := Suc (tick s)\<rparr>"
  have e: "expired_jobs ?now n ?s = expired_jobs ?now n s" by (simp add: expired_jobs_def unlocked_def)
  have "js_id (?f r) = js_id r" for r by simp
  from set_each_job [OF this expired_jobs_distinct [OF assms(2), of ?now n], of ?s] obtain s' where
    l: "forM (expired_jobs ?now n s) (\<lambda>j. set_job (js_id j) ?f) ?s = (Inr (), s')" and
    g: "\<forall>k. row_get js_id k (jobs s') = (if k \<in> js_id ` set (expired_jobs ?now n s)
      then map_option ?f (row_get js_id k (jobs s)) else row_get js_id k (jobs s))" by auto
  have "reap_expired_jobs n s = (Inr (int (length (expired_jobs ?now n s))), s')"
    using l e by (simp add: reap_expired_jobs_def bindM_exec gets_exec utcnow_exec andThen_exec ret_exec)
  with g assms(1) show ?thesis
    by (auto simp: process_leased_job_def run_compensation_stage_def finish_job_def bindM_exec [of "the_job i"] load_exec
        raise_exec andThen_exec ret_exec store_exec)
qed

section \<open>Witnesses\<close>

definition sample_job :: "uuid \<Rightarrow> uuid \<Rightarrow> datetime \<Rightarrow> int \<Rightarrow> JobSchedule" where
  "sample_job i ws due priority = new_job ws JobType.STAGE ''scripting'' 10 due 0 priority (Some 12) (Some ''t'') i 0"

definition due_db :: db where
  "due_db = sample_db\<lparr>jobs := [sample_job 70 1 100 0, sample_job 71 1 90 0, sample_job 72 2 200 5, sample_job 73 2 5000 9]\<rparr>"

lemma poll_due_db: "fst (poll_and_lease ''host'' 2 due_db) = Inr [72, 71]"
  by (simp add: poll_and_lease_def scheduler_owner_id_def due_jobs_def fairness_limits_def configured_tick_limit_def
      effective_scheduler_tick_limit_def bp_row_def unlocked_def limit_rows_def job_rank_def group_by_workspace_def
      round_robin_def rr_rounds.simps rr_more_def allowance_def lease_job_def scheduler_consts exec due_db_def sample_job_def
      new_job_def fixture the_or_def)

lemma due_db_ids: "distinct (map js_id (jobs due_db))" "row_get js_id 72 (jobs due_db) = Some (sample_job 72 2 200 5)"
  by (simp_all add: due_db_def sample_job_def new_job_def)

lemma poll_leases_fairly_witness:
  "\<exists>s' owner t. poll_and_lease ''host'' 2 due_db = (Inr [72, 71], s')
    \<and> row_get js_id 72 (jobs s') = Some (leased_by owner t (sample_job 72 2 200 5))"
proof -
  obtain s' where p: "poll_and_lease ''host'' 2 due_db = (Inr [72, 71], s')" using poll_due_db by (metis prod.collapse)
  from poll_leases_fairly [OF due_db_ids(1) p, unfolded Let_def] obtain now picks where
    1: "[72, 71] = map js_id picks" "set picks \<subseteq> set (due_jobs now (2 * 3) due_db)"
    "\<forall>j\<in>set picks. \<exists>owner t. row_get js_id (js_id j) (jobs s') = Some (leased_by owner t j)"
    by (elim exE conjE) (rule that, assumption, assumption, blast)
  then obtain j where j: "j \<in> set picks" "js_id j = 72" by (metis list.set_intros(1) list.set_map imageE)
  have "j \<in> set (jobs due_db)" using 1(2) j(1) due_jobs_mem by blast
  from row_get_distinct [OF due_db_ids(1) this] j(2) due_db_ids(2) have "j = sample_job 72 2 200 5" by simp
  with p 1(3) j show ?thesis by metis
qed

definition exhausted_db :: db where
  "exhausted_db = sample_db\<lparr>jobs := [(sample_job 70 1 100 0)\<lparr>js_status := LEASED, js_attempt := 19\<rparr>],
     limits := [\<lparr>wcl_workspace_id = 1, wcl_max_concurrent_assignments = 0, wcl_max_per_scheduler_tick = 5,
       wcl_queue_soft_limit = 50, wcl_queue_hard_limit = 200\<rparr>], reservations := [sample_reservation],
     assignments := [sample_assignment]\<rparr>"

lemma exhausted_db_rows:
  "row_get js_id 70 (jobs exhausted_db) = Some ((sample_job 70 1 100 0)\<lparr>js_status := LEASED, js_attempt := 19\<rparr>)"
  "distinct (map sr_id (reservations exhausted_db))" "has_row pr_id 10 (runs exhausted_db)"
  by (simp_all add: exhausted_db_def sample_job_def new_job_def fixture has_row_def)

lemma stage_job_processed_witness:
  "\<exists>s' j'. process_leased_job 70 exhausted_db = (Inr (), s') \<and> row_get js_id 70 (jobs s') = Some j'
    \<and> js_status j' \<noteq> LEASED"
proof -
  let ?j = "(sample_job 70 1 100 0)\<lparr>js_status := LEASED, js_attempt := 19\<rparr>"
  have d: "dispatch_stage 1 10 ''scripting'' 20 12 (Some ''t'') None None exhausted_db
      = (Inr \<lparr>dr_outcome = BACKPRESSURE, dr_assignment = None\<rparr>, exhausted_db)"
    by (simp add: dispatch_stage_def dispatch_blocked_def concurrency_limit_row_def workspace_in_flight_def
        concurrency_cap_def exec exhausted_db_def fixture)
  obtain s' where r: "reschedule_job 70 exhausted_db = (Inr (), s')"
    using settle_back_pressure [OF exhausted_db_rows(1,2)] by blast
  have p: "process_leased_job 70 exhausted_db = (Inr (), s')"
    using d r exhausted_db_rows(1) by (simp add: process_leased_job_def bindM_exec load_exec or_uuid4_exec settle_dispatch_def
        sample_job_def new_job_def)
  have t: "js_job_type ?j \<in> {JobType.STAGE, RETRY}" "js_status ?j = LEASED" by (simp_all add: sample_job_def new_job_def)
  from stage_job_processed [OF exhausted_db_rows(1) t exhausted_db_rows(2) p] p show ?thesis by blast
qed

lemma other_jobs_processed_witness:
  "\<exists>m. process_leased_job 70 (sample_db\<lparr>jobs := [(sample_job 70 1 100 0)\<lparr>js_job_type := RECURRING\<rparr>]\<rparr>)
    = (Inl (NotImplementedError m), sample_db\<lparr>jobs := [(sample_job 70 1 100 0)\<lparr>js_job_type := RECURRING\<rparr>]\<rparr>)"
  using other_jobs_processed [of 70 "sample_db\<lparr>jobs := [(sample_job 70 1 100 0)\<lparr>js_job_type := RECURRING\<rparr>]\<rparr>"
    "(sample_job 70 1 100 0)\<lparr>js_job_type := RECURRING\<rparr>" 1]
  by (simp add: sample_job_def new_job_def)

end
