(* ===== verification/Relay.thy ===== *)
theory Relay imports Scheduler begin

text \<open>
  The outbox relay, \<open>orchestration/relay.py\<close>, and the consumers wired to it, \<open>orchestration/consumers.py\<close>.
  \<open>_REGISTRY\<close>, a dict of dicts, is an association list of association lists in insertion order; a handler is an
  operation that takes the event. An exception of a handler leaves the writes made before it in place, as there is no
  savepoint around the call. (A database error would also make the session unusable until the tick is rolled back;
  no registered handler can raise one.)
\<close>

type_synonym handler = "OutboxEvent \<Rightarrow> unit M"

type_synonym registry = "(string \<times> (string \<times> handler) list) list"

section \<open>The registry\<close>

text \<open>\<open>d[k] = v\<close> on a dict: in place, or at the end.\<close>

fun dict_put :: "'k \<Rightarrow> 'v \<Rightarrow> ('k \<times> 'v) list \<Rightarrow> ('k \<times> 'v) list" where
  "dict_put k v [] = [(k, v)]"
| "dict_put k v ((k', v') # kvs) = (if k' = k then (k, v) # kvs else (k', v') # dict_put k v kvs)"

definition register_consumer :: "string \<Rightarrow> string \<Rightarrow> handler \<Rightarrow> registry \<Rightarrow> registry" where
  "register_consumer consumer_name event_type handler reg =
     dict_put consumer_name (dict_put event_type handler (the_or (map_of reg consumer_name) [])) reg"

section \<open>Delivering an event\<close>

definition get_or_create_consumer :: "string \<Rightarrow> EventConsumer M" where
  "get_or_create_consumer name =
     bindM (query_one (\<lambda>s. filter (\<lambda>c. ec_name c = name) (consumers s))) (\<lambda>consumer.
     case consumer of
       Some c \<Rightarrow> ret c
     | None \<Rightarrow>
         bindM uuid4 (\<lambda>i.
         let c = \<lparr> ec_id = i, ec_name = name, ec_max_event_version = 1, ec_max_delivery_attempts = 10 \<rparr> in
         andThen (add_consumer c) (ret c)))"

definition get_or_create_checkpoint :: "uuid \<Rightarrow> string \<Rightarrow> string \<Rightarrow> ConsumerCheckpoint M" where
  "get_or_create_checkpoint consumer_id aggregate_type partition_key =
     bindM (query_one (\<lambda>s. filter (\<lambda>k. checkpoint_slot k = (consumer_id, aggregate_type, partition_key)) (checkpoints s)))
     (\<lambda>checkpoint.
     case checkpoint of
       Some k \<Rightarrow> ret k
     | None \<Rightarrow>
         bindM uuid4 (\<lambda>i.
         let k = \<lparr> ck_id = i, ck_consumer_id = consumer_id, ck_aggregate_type = aggregate_type,
                   ck_partition_key = partition_key, ck_last_sequence = 0 \<rparr> in
         andThen (add_checkpoint k) (ret k)))"

text \<open>The handler raised: count the attempt; poison the event, or leave it pending (the result).\<close>

definition delivery_failed :: "uuid \<Rightarrow> string \<Rightarrow> int \<Rightarrow> exn \<Rightarrow> bool M" where
  "delivery_failed event_id consumer_name max_attempts exc =
     andThen (set_event event_id (\<lambda>e. e\<lparr> ev_delivery_attempts := ev_delivery_attempts e + 1 \<rparr>)) (
     bindM (the_event event_id) (\<lambda>e.
     if ev_delivery_attempts e \<ge> max_attempts then
       andThen (set_event event_id (\<lambda>e. e\<lparr> ev_status := POISON \<rparr>)) (
       bindM (route_to_dead_letter (ev_workspace_id e) ''outbox_events'' (ev_event_id e)
         (''event_consumer:'' @ consumer_name) (Some (ev_payload e)) (exn_str exc) (ev_delivery_attempts e)
         (ev_occurred_at e)) (\<lambda>_. ret False))
     else ret True))"

definition apply_handler :: "handler \<Rightarrow> OutboxEvent \<Rightarrow> uuid \<Rightarrow> unit M" where
  "apply_handler handler e checkpoint_id =
     andThen (handler e) (set_checkpoint checkpoint_id (ck_last_sequence_update (\<lambda>_. ev_sequence e)))"

text \<open>The consumer's part once its checkpoint is loaded: skip what it has applied, else run the handler.\<close>

definition deliver_unless_applied ::
  "handler \<Rightarrow> OutboxEvent \<Rightarrow> EventConsumer \<Rightarrow> ConsumerCheckpoint \<Rightarrow> bool \<Rightarrow> bool M" where
  "deliver_unless_applied handler e c k any_pending =
     (if ck_last_sequence k \<ge> ev_sequence e then ret any_pending
      else catchM (andThen (apply_handler handler e (ck_id k)) (ret any_pending))
        (\<lambda>exc. bindM (delivery_failed (ev_event_id e) (ec_name c) (ec_max_delivery_attempts c) exc)
          (\<lambda>pending. ret (any_pending \<or> pending))))"

definition deliver_to :: "string \<times> (string \<times> handler) list \<Rightarrow> uuid \<Rightarrow> bool \<Rightarrow> bool M" where
  "deliver_to consumer event_id any_pending =
     bindM (the_event event_id) (\<lambda>e.
     case map_of (snd consumer) (ev_event_type e) of
       None \<Rightarrow> ret any_pending
     | Some handler \<Rightarrow>
         bindM (get_or_create_consumer (fst consumer)) (\<lambda>c.
         bindM (get_or_create_checkpoint (ec_id c) (ev_aggregate_type e) (str_uuid (ev_aggregate_id e))) (\<lambda>k.
         deliver_unless_applied handler e c k any_pending)))"

primrec deliver_all :: "registry \<Rightarrow> uuid \<Rightarrow> bool \<Rightarrow> bool M" where
  "deliver_all [] event_id any_pending = ret any_pending"
| "deliver_all (consumer # reg) event_id any_pending =
     bindM (deliver_to consumer event_id any_pending) (\<lambda>p. deliver_all reg event_id p)"

definition dispatch_one :: "registry \<Rightarrow> uuid \<Rightarrow> unit M" where
  "dispatch_one reg event_id =
     bindM (deliver_all reg event_id False) (\<lambda>any_pending.
     bindM (the_event event_id) (\<lambda>e.
     if ev_status e \<noteq> POISON \<and> \<not> any_pending
     then set_event event_id (\<lambda>e. e\<lparr> ev_status := OutboxEventStatus.DISPATCHED \<rparr>)
     else ret ()))"

definition pending_events :: "int \<Rightarrow> db \<Rightarrow> OutboxEvent list" where
  "pending_events batch_size s =
     limit_rows batch_size (sort_key ev_occurred_at
       (filter (\<lambda>e. ev_status e = OutboxEventStatus.PENDING) (unlocked ev_event_id s (events s))))"

definition poll_and_dispatch :: "registry \<Rightarrow> int \<Rightarrow> int M" where
  "poll_and_dispatch reg batch_size =
     bindM (query (pending_events batch_size)) (\<lambda>evs.
     andThen (forM evs (\<lambda>e. dispatch_one reg (ev_event_id e)))
     (ret (int (length evs))))"

section \<open>The registered consumers\<close>

text \<open>\<open>uuid.UUID(event.payload["review_gate_id"])\<close>.\<close>

definition payload_gate_id :: "json \<Rightarrow> exn + uuid" where
  "payload_gate_id payload =
     (case payload of
        JObj kvs \<Rightarrow>
          (case map_of kvs ''review_gate_id'' of
             None \<Rightarrow> Inl (KeyError ''review_gate_id'')
           | Some (JStr t) \<Rightarrow> uuid_of_str t
           | Some JNull \<Rightarrow> Inl (TypeError ''one of the hex, bytes, bytes_le, fields, or int arguments must be given'')
           | Some _ \<Rightarrow> Inl (AttributeError ''object has no attribute replace''))
      | _ \<Rightarrow> Inl (TypeError ''payload is no object''))"

definition on_review :: "bool \<Rightarrow> handler" where
  "on_review approved e =
     bindM (fromSum (payload_gate_id (ev_payload e))) (\<lambda>gate_id.
     bindM (get_row gates rg_id gate_id) (\<lambda>gate.
     case gate of None \<Rightarrow> ret () | Some g \<Rightarrow> resume_from_review (rg_id g) approved))"

definition on_review_approved :: handler where
  "on_review_approved = on_review True"

definition on_review_rejected :: handler where
  "on_review_rejected = on_review False"

definition register_all :: "registry \<Rightarrow> registry" where
  "register_all reg =
     register_consumer ''pipeline-controller'' REVIEW_REJECTED on_review_rejected
       (register_consumer ''pipeline-controller'' REVIEW_APPROVED on_review_approved reg)"

section \<open>What the relay may do to the database\<close>

text \<open>With unique consumers and checkpoints, a step of the relay consists of writes and keeps them unique.\<close>

definition relay_step :: "db \<Rightarrow> db \<Rightarrow> bool" where
  "relay_step s s' \<longleftrightarrow> (relay_keys s \<longrightarrow> writes s s' \<and> relay_keys s')"

interpretation relay: step_contract relay_step
  by unfold_locales (auto simp: relay_step_def)

lemmas relay_rules [steps_intro] =
  relay.ret relay.raise relay.gets relay.fromSum relay.bind relay.andThen relay.whenM relay.catch relay.forM relay.mapM

lemma writes_keep_relay_keys: "writes s s' \<Longrightarrow> relay_keys s \<Longrightarrow> relay_keys s'"
  by (induction rule: rtranclp_induct) (blast intro: write_relay_keys)+

lemma relay_step_of_writes: "steps writes m \<Longrightarrow> steps relay_step m"
  by (auto simp: steps_def relay_step_def intro: writes_keep_relay_keys)

lemma relay_stepD: "steps relay_step m \<Longrightarrow> m s = (r, s') \<Longrightarrow> relay_keys s \<Longrightarrow> writes s s' \<and> relay_keys s'"
  unfolding steps_def relay_step_def by (metis snd_conv)

text \<open>The consumer's checkpoint of the event's aggregate has reached the event.\<close>

definition event_slot :: "EventConsumer \<Rightarrow> OutboxEvent \<Rightarrow> uuid \<times> string \<times> string" where
  "event_slot c e = (ec_id c, ev_aggregate_type e, str_uuid (ev_aggregate_id e))"

definition applied :: "string \<Rightarrow> OutboxEvent \<Rightarrow> db \<Rightarrow> bool" where
  "applied name e s \<longleftrightarrow> (\<exists>c\<in>set (consumers s). ec_name c = name \<and>
     (\<exists>k\<in>set (checkpoints s). checkpoint_slot k = event_slot c e \<and> ev_sequence e \<le> ck_last_sequence k))"

lemma applied_write: "db_write s s' \<Longrightarrow> relay_keys s \<Longrightarrow> applied name e s \<Longrightarrow> applied name e s'"
proof (induction rule: db_write.induct)
  case (checkpoint i s k n)
  have "ck_last_sequence q \<le> n" if "q \<in> set (checkpoints s)" "ck_id q = i" for q
    using row_get_distinct [of ck_id "checkpoints s" q] that checkpoint by (simp add: relay_keys_def)
  then have "\<exists>q'\<in>set (row_set ck_id i (ck_last_sequence_update (\<lambda>_. n)) (checkpoints s)).
      checkpoint_slot q' = checkpoint_slot q \<and> ck_last_sequence q \<le> ck_last_sequence q'" if "q \<in> set (checkpoints s)" for q
    using that by (intro bexI [of _ "if ck_id q = i then q\<lparr>ck_last_sequence := n\<rparr> else q"])
      (auto simp: set_row_set checkpoint_slot_def)
  with checkpoint.prems(2) show ?case unfolding applied_def by simp (metis order_trans)
qed (auto simp: applied_def)

lemma applied_writes: "writes s s' \<Longrightarrow> relay_keys s \<Longrightarrow> applied name e s \<Longrightarrow> applied name e s' \<and> relay_keys s'"
  by (induction rule: rtranclp_induct) (blast intro: applied_write write_relay_keys)+

lemma unique_filter: "distinct (map f xs) \<Longrightarrow> x \<in> set xs \<Longrightarrow> filter (\<lambda>y. f y = f x) xs = [x]"
  by (induction xs) (auto simp: filter_empty_conv rev_image_eqI)

lemma get_consumer_known:
  "relay_keys s \<Longrightarrow> c \<in> set (consumers s) \<Longrightarrow> get_or_create_consumer (ec_name c) s = (Inr c, s)"
  by (simp add: get_or_create_consumer_def exec relay_keys_def unique_filter)

lemma get_checkpoint_known:
  "relay_keys s \<Longrightarrow> k \<in> set (checkpoints s) \<Longrightarrow> checkpoint_slot k = (ci, ty, pk) \<Longrightarrow>
   get_or_create_checkpoint ci ty pk s = (Inr k, s)"
  using unique_filter [of checkpoint_slot "checkpoints s" k]
  by (simp add: get_or_create_checkpoint_def exec relay_keys_def)

lemma get_consumer_result:
  assumes "get_or_create_consumer name s = (Inr c, s')"
  shows "c \<in> set (consumers s') \<and> ec_name c = name \<and> events s' = events s"
  using assms by (auto simp: get_or_create_consumer_def exec Let_def scalar_one_or_none_def filter_eq_Cons_iff
      split: list.splits sum.splits option.splits if_splits)

lemma get_checkpoint_result:
  assumes "get_or_create_checkpoint ci ty pk s = (Inr k, s')"
  shows "k \<in> set (checkpoints s') \<and> checkpoint_slot k = (ci, ty, pk) \<and> events s' = events s \<and> consumers s' = consumers s"
  using assms by (auto simp: get_or_create_checkpoint_def exec Let_def scalar_one_or_none_def filter_eq_Cons_iff checkpoint_slot_def
      split: list.splits sum.splits option.splits if_splits)

lemma w_get_or_create [steps_intro]:
  "steps writes (get_or_create_consumer name)" "steps writes (get_or_create_checkpoint ci ty pk)"
  unfolding get_or_create_consumer_def get_or_create_checkpoint_def Let_def by (intro steps_intro)+

lemma w_delivery_failed [steps_intro]: "steps writes (delivery_failed i name n x)"
  unfolding delivery_failed_def
  by (intro steps_intro; simp add: event_write_def) (metis OutboxEvent.surjective OutboxEvent.update_convs(13,14))+


text \<open>A failed delivery counts one attempt and either leaves the event pending or poisons it with one dead letter.\<close>

definition counted :: "OutboxEvent \<Rightarrow> OutboxEvent" where
  "counted e = e\<lparr>ev_delivery_attempts := ev_delivery_attempts e + 1\<rparr>"

lemma delivery_failed_row:
  assumes "row_get ev_event_id i (events s) = Some e"
  shows "\<exists>s'. delivery_failed i name n x s = (Inr (ev_delivery_attempts e + 1 < n), s')
    \<and> row_get ev_event_id i (events s') = Some (if ev_delivery_attempts e + 1 < n then counted e
         else (counted e)\<lparr>ev_status := POISON\<rparr>)"
  using assms row_get_key [OF assms] by (simp add: delivery_failed_def counted_def exec)

text \<open>What one delivery leaves of the event and of the consumer's checkpoint.\<close>

definition delivered :: "string \<times> (string \<times> handler) list \<Rightarrow> uuid \<Rightarrow> OutboxEvent \<Rightarrow> bool \<Rightarrow> bool \<Rightarrow> db \<Rightarrow> bool" where
  "delivered consumer i e p p' s' \<longleftrightarrow>
     (map_of (snd consumer) (ev_event_type e) \<noteq> None \<longrightarrow> applied (fst consumer) e s')
       \<and> p' = p \<and> row_get ev_event_id i (events s') = Some e
     \<or> row_get ev_event_id i (events s') = Some (counted e) \<and> p'
     \<or> row_get ev_event_id i (events s') = Some ((counted e)\<lparr>ev_status := POISON\<rparr>) \<and> p' = p"

text \<open>All consumers in turn: the event is left pending, poisoned, or applied by every consumer that handles its type.\<close>

definition rebooked :: "OutboxEvent \<Rightarrow> OutboxEvent \<Rightarrow> bool" where
  "rebooked e e' \<longleftrightarrow> (\<exists>st n. e' = e\<lparr>ev_status := st, ev_delivery_attempts := n\<rparr> \<and> st \<in> {ev_status e, POISON})"

lemma rebooked_refl: "rebooked e e"
  unfolding rebooked_def by (intro exI [of _ "ev_status e"] exI [of _ "ev_delivery_attempts e"]) simp

lemma rebooked_trans:
  assumes "rebooked a b" "rebooked b c"
  shows "rebooked a c"
proof -
  obtain st n st' n' where "b = a\<lparr>ev_status := st, ev_delivery_attempts := n\<rparr>"
    "c = b\<lparr>ev_status := st', ev_delivery_attempts := n'\<rparr>" "st \<in> {ev_status a, POISON}" "st' \<in> {ev_status b, POISON}"
    using assms unfolding rebooked_def by blast
  then have "c = a\<lparr>ev_status := st', ev_delivery_attempts := n'\<rparr>" "st' \<in> {ev_status a, POISON}" by auto
  then show ?thesis unfolding rebooked_def by blast
qed

lemma rebooked_counted: "rebooked e (counted e)" "rebooked e ((counted e)\<lparr>ev_status := POISON\<rparr>)"
  unfolding rebooked_def counted_def
  by (intro exI [of _ "ev_status e"] exI [of _ "ev_delivery_attempts e + 1"], simp)
    (intro exI [of _ POISON] exI [of _ "ev_delivery_attempts e + 1"], simp)

lemma rebooked_sel:
  assumes "rebooked e e'"
  shows "ev_event_type e' = ev_event_type e" "applied n e' s = applied n e s"
proof -
  obtain st k where "e' = e\<lparr>ev_status := st, ev_delivery_attempts := k\<rparr>" using assms unfolding rebooked_def by blast
  then show "ev_event_type e' = ev_event_type e" "applied n e' s = applied n e s"
    by (simp_all add: applied_def event_slot_def)
qed

definition wanted_by :: "registry \<Rightarrow> OutboxEvent \<Rightarrow> string set" where
  "wanted_by cs e = {n. \<exists>hs. (n, hs) \<in> set cs \<and> map_of hs (ev_event_type e) \<noteq> None}"

section \<open>The contract of a consumer's handlers\<close>

text \<open>
  What the relay relies on: a handler consists of writes, leaves the relay's own bookkeeping and the logged events as
  they are (it may log new ones).
\<close>

definition logged_event_kept :: "db \<Rightarrow> db \<Rightarrow> bool" where
  "logged_event_kept s s' \<longleftrightarrow> (\<forall>i q. row_get ev_event_id i (events s) = Some q \<longrightarrow> row_get ev_event_id i (events s') = Some q)"

locale relay_handlers =
  fixes reg :: registry
  assumes handler_writes: "(n, hs) \<in> set reg \<Longrightarrow> (ty, h) \<in> set hs \<Longrightarrow> steps writes (h e)"
    and handler_frame: "(n, hs) \<in> set reg \<Longrightarrow> (ty, h) \<in> set hs \<Longrightarrow> keeps (\<lambda>s. (consumers s, checkpoints s)) (h e)"
    and handler_events: "(n, hs) \<in> set reg \<Longrightarrow> (ty, h) \<in> set hs \<Longrightarrow> steps logged_event_kept (h e)"
begin

lemma apply_handler_result:
  assumes reg: "(n, hs) \<in> set reg" "map_of hs ty = Some h"
    and k: "k \<in> set (checkpoints s)" "ck_last_sequence k < ev_sequence e" and inv: "relay_keys s"
    and ev: "row_get ev_event_id i (events s) = Some q"
  shows "writes s (snd (apply_handler h e (ck_id k) s)) \<and> row_get ev_event_id i (events (snd (apply_handler h e (ck_id k) s))) = Some q
    \<and> (fst (apply_handler h e (ck_id k) s) = Inr () \<longrightarrow> consumers (snd (apply_handler h e (ck_id k) s)) = consumers s
        \<and> k\<lparr>ck_last_sequence := ev_sequence e\<rparr> \<in> set (checkpoints (snd (apply_handler h e (ck_id k) s))))"
proof -
  have h: "(ty, h) \<in> set hs" using reg(2) by (rule map_of_SomeD)
  obtain r s1 where m: "h e s = (r, s1)" by (cases "h e s")
  have 1: "writes s s1" "consumers s1 = consumers s" "checkpoints s1 = checkpoints s"
    using handler_writes [OF reg(1) h, of e] keepsD' [OF handler_frame [OF reg(1) h] m] m by (auto simp: steps_def dest: spec [of _ s])
  have q: "row_get ev_event_id i (events s1) = Some q"
    using handler_events [OF reg(1) h, of e] m ev by (auto simp: steps_def logged_event_kept_def dest: spec [of _ s])
  have row: "row_get ck_id (ck_id k) (checkpoints s1) = Some k"
    using inv k(1) 1(3) by (simp add: relay_keys_def row_get_distinct)
  have w: "writes s1 (checkpoints_update (row_set ck_id (ck_id k) (ck_last_sequence_update (\<lambda>_. ev_sequence e))) s1)"
    using k(2) by (intro w_one db_write.checkpoint [OF row]) simp
  have "k\<lparr>ck_last_sequence := ev_sequence e\<rparr> \<in> set (row_set ck_id (ck_id k) (ck_last_sequence_update (\<lambda>_. ev_sequence e)) (checkpoints s1))"
    using k(1) 1(3) by (auto simp: set_row_set rev_image_eqI)
  with m 1 q w show ?thesis
    by (cases r) (auto simp: apply_handler_def andThen_exec store_exec)
qed

lemma deliver_unless_applied_result:
  assumes c: "(n, hs) \<in> set reg" "map_of hs (ev_event_type e) = Some h" and inv: "relay_keys s"
    and ev: "row_get ev_event_id i (events s) = Some e"
    and f: "c \<in> set (consumers s)" "ec_name c = n" "k \<in> set (checkpoints s)" "checkpoint_slot k = event_slot c e"
    and d: "deliver_unless_applied h e c k p s = (r, s')"
  shows "writes s s' \<and> (\<forall>p'. r = Inr p' \<longrightarrow> delivered (n, hs) i e p p' s')"
proof (cases "ck_last_sequence k \<ge> ev_sequence e")
  case True
  with f have "applied n e s" by (auto simp: applied_def)
  with d True ev show ?thesis by (auto simp: deliver_unless_applied_def ret_exec delivered_def)
next
  case False
  have id: "ev_event_id e = i" using ev by (rule row_get_key)
  obtain ra s1 where a: "apply_handler h e (ck_id k) s = (ra, s1)" by (cases "apply_handler h e (ck_id k) s")
  have lt: "ck_last_sequence k < ev_sequence e" using False by simp
  from a apply_handler_result [OF c f(3) lt inv ev] have
    w: "writes s s1" "row_get ev_event_id i (events s1) = Some e" and
    ok: "ra = Inr () \<longrightarrow> consumers s1 = consumers s \<and> k\<lparr>ck_last_sequence := ev_sequence e\<rparr> \<in> set (checkpoints s1)" by auto
  show ?thesis
  proof (cases ra)
    case (Inl x)
    have fw: "writes s1 (snd (delivery_failed i n m x s1))" for m using w_delivery_failed by (simp add: steps_def)
    obtain s2 where
      2: "delivery_failed i n (ec_max_delivery_attempts c) x s1 = (Inr (ev_delivery_attempts e + 1 < ec_max_delivery_attempts c), s2)"
      "row_get ev_event_id i (events s2) = Some (if ev_delivery_attempts e + 1 < ec_max_delivery_attempts c then counted e
         else (counted e)\<lparr>ev_status := POISON\<rparr>)"
      using delivery_failed_row [OF w(2)] by blast
    have "writes s s2" using w(1) fw [of "ec_max_delivery_attempts c"] 2(1) by (metis rtranclp_trans snd_conv)
    with d False a Inl 2 f(2) id show ?thesis
      by (auto simp: deliver_unless_applied_def catchM_exec andThen_exec bindM_exec ret_exec delivered_def split: if_splits)
  next
    case (Inr u)
    have "applied n e s1" unfolding applied_def using ok Inr f
      by (intro bexI [of _ c] conjI bexI [of _ "k\<lparr>ck_last_sequence := ev_sequence e\<rparr>"]) (auto simp: checkpoint_slot_def)
    with d False a Inr w show ?thesis
      by (auto simp: deliver_unless_applied_def catchM_exec andThen_exec ret_exec delivered_def)
  qed
qed

lemma deliver_to_result:
  assumes c: "(n, hs) \<in> set reg" and inv: "relay_keys s" and ev: "row_get ev_event_id i (events s) = Some e"
    and d: "deliver_to (n, hs) i p s = (r, s')"
  shows "writes s s' \<and> (\<forall>p'. r = Inr p' \<longrightarrow> delivered (n, hs) i e p p' s')"
proof (cases "map_of hs (ev_event_type e)")
  case None
  with d ev show ?thesis by (auto simp: deliver_to_def exec delivered_def)
next
  case (Some h)
  let ?cp = "\<lambda>c. get_or_create_checkpoint (ec_id c) (ev_aggregate_type e) (str_uuid (ev_aggregate_id e))"
  obtain rc s1 where 1: "get_or_create_consumer n s = (rc, s1)" by (cases "get_or_create_consumer n s")
  have w1: "writes s s1" using w_get_or_create(1) [of n] 1 by (metis steps_def snd_conv)
  show ?thesis
  proof (cases rc)
    case (Inl x)
    with d ev 1 Some w1 show ?thesis by (auto simp: deliver_to_def exec)
  next
    case rc: (Inr c)
    obtain rk s2 where 2: "?cp c s1 = (rk, s2)" by (cases "?cp c s1")
    then have "writes s1 s2" using w_get_or_create(2) by (metis steps_def snd_conv)
    with w1 have w2: "writes s s2" by (rule rtranclp_trans)
    show ?thesis
    proof (cases rk)
      case (Inl x)
      with d ev 1 2 Some rc w2 show ?thesis by (auto simp: deliver_to_def exec)
    next
      case rk: (Inr k)
      have f: "c \<in> set (consumers s2)" "ec_name c = n" "k \<in> set (checkpoints s2)" "checkpoint_slot k = event_slot c e"
        "row_get ev_event_id i (events s2) = Some e"
        using get_consumer_result [of n s c s1] get_checkpoint_result [OF 2 [unfolded rk]] 1 rc ev
        by (simp_all add: event_slot_def)
      have "deliver_unless_applied h e c k p s2 = (r, s')"
        using d ev 1 2 Some rc rk by (simp add: deliver_to_def bindM_exec load_exec)
      from deliver_unless_applied_result [OF c Some writes_keep_relay_keys [OF w2 inv] f(5,1-4) this] w2
      show ?thesis by (meson rtranclp_trans)
    qed
  qed
qed

lemma deliver_all_result:
  "set cs \<subseteq> set reg \<Longrightarrow> relay_keys s \<Longrightarrow> row_get ev_event_id i (events s) = Some e \<Longrightarrow> deliver_all cs i p s = (r, s') \<Longrightarrow>
   writes s s' \<and> (\<forall>p'. r = Inr p' \<longrightarrow> (\<exists>e'. row_get ev_event_id i (events s') = Some e' \<and> rebooked e e'
     \<and> (\<not> p' \<and> ev_status e' \<noteq> POISON \<longrightarrow> \<not> p \<and> e' = e \<and> (\<forall>n\<in>wanted_by cs e. applied n e s'))))"
proof (induction cs arbitrary: s e p)
  case Nil
  then show ?case by (auto simp: ret_exec wanted_by_def rebooked_refl)
next
  case (Cons c cs)
  obtain n hs where c: "c = (n, hs)" by (cases c)
  obtain r1 s1 where 1: "deliver_to c i p s = (r1, s1)" by (cases "deliver_to c i p s")
  have "(n, hs) \<in> set reg" using Cons.prems(1) c by simp
  from deliver_to_result [OF this Cons.prems(2,3) 1 [unfolded c]]
  have w: "writes s s1" and del: "r1 = Inr p1 \<Longrightarrow> delivered (n, hs) i e p p1 s1" for p1 by blast+
  show ?case
  proof (cases r1)
    case (Inl x)
    with 1 w Cons.prems(4) show ?thesis by (auto simp: bindM_exec)
  next
    case (Inr p1)
    have d: "deliver_all cs i p1 s1 = (r, s')" using 1 Inr Cons.prems(4) by (simp add: bindM_exec)
    note keys = writes_keep_relay_keys [OF w Cons.prems(2)]
    obtain e1 where e1: "row_get ev_event_id i (events s1) = Some e1" "rebooked e e1" and
      still: "\<not> p1 \<and> ev_status e1 \<noteq> POISON \<longrightarrow> \<not> p \<and> e1 = e \<and> (map_of hs (ev_event_type e) \<noteq> None \<longrightarrow> applied n e s1)"
      using del [OF Inr] rebooked_refl rebooked_counted by (auto simp: delivered_def)
    have sub: "set cs \<subseteq> set reg" using Cons.prems(1) by simp
    from Cons.IH [OF sub keys e1(1) d] have w2: "writes s1 s'" and
      rest: "r = Inr p' \<Longrightarrow> \<exists>e'. row_get ev_event_id i (events s') = Some e' \<and> rebooked e1 e'
        \<and> (\<not> p' \<and> ev_status e' \<noteq> POISON \<longrightarrow> \<not> p1 \<and> e' = e1 \<and> (\<forall>n\<in>wanted_by cs e1. applied n e1 s'))" for p' by blast+
    have "\<exists>e'. row_get ev_event_id i (events s') = Some e' \<and> rebooked e e'
        \<and> (\<not> p' \<and> ev_status e' \<noteq> POISON \<longrightarrow> \<not> p \<and> e' = e \<and> (\<forall>n\<in>wanted_by (c # cs) e. applied n e s'))"
      if "r = Inr p'" for p'
    proof -
      from rest [OF that] obtain e' where e': "row_get ev_event_id i (events s') = Some e'" "rebooked e1 e'" and
        r': "\<not> p' \<and> ev_status e' \<noteq> POISON \<longrightarrow> \<not> p1 \<and> e' = e1 \<and> (\<forall>n\<in>wanted_by cs e1. applied n e1 s')" by blast
      have "\<not> p \<and> e' = e \<and> (\<forall>m\<in>wanted_by (c # cs) e. applied m e s')" if ok: "\<not> p'" "ev_status e' \<noteq> POISON"
      proof -
        from ok r' have 1: "\<not> p1" "e' = e1" "\<forall>m\<in>wanted_by cs e1. applied m e1 s'" by blast+
        with ok still have 2: "\<not> p" "e1 = e" "map_of hs (ev_event_type e) \<noteq> None \<longrightarrow> applied n e s1" by blast+
        with 1(3) applied_writes [OF w2 keys, of n e] show ?thesis using 1(2) by (auto simp: wanted_by_def c)
      qed
      with e' rebooked_trans [OF e1(2) e'(2)] show ?thesis by blast
    qed
    with rtranclp_trans [OF w w2] show ?thesis by blast
  qed
qed

lemma dispatch_one_result:
  assumes inv: "relay_keys s" and ev: "row_get ev_event_id i (events s) = Some e" and d: "dispatch_one reg i s = (r, s')"
  shows "writes s s' \<and> (r = Inr () \<longrightarrow> (\<exists>e'. row_get ev_event_id i (events s') = Some e' \<and>
    (rebooked e e' \<or> e' = e\<lparr>ev_status := OutboxEventStatus.DISPATCHED\<rparr> \<and> (\<forall>n\<in>wanted_by reg e. applied n e s'))))"
proof -
  obtain r1 s1 where 1: "deliver_all reg i False s = (r1, s1)" by (cases "deliver_all reg i False s")
  note all = deliver_all_result [OF subset_refl inv ev 1]
  show ?thesis
  proof (cases r1)
    case (Inl x)
    with d 1 all show ?thesis by (auto simp: dispatch_one_def bindM_exec)
  next
    case (Inr p)
    with all obtain e1 where w: "writes s s1" and e1: "row_get ev_event_id i (events s1) = Some e1" "rebooked e e1" and
      ok: "\<not> p \<and> ev_status e1 \<noteq> POISON \<longrightarrow> e1 = e \<and> (\<forall>n\<in>wanted_by reg e. applied n e s1)" by blast
    show ?thesis
    proof (cases "ev_status e1 \<noteq> POISON \<and> \<not> p")
      case False
      with d 1 Inr e1(1) have "r = Inr ()" "s' = s1" by (auto simp: dispatch_one_def bindM_exec load_exec ret_exec)
      with w e1 show ?thesis by blast
    next
      case True
      let ?f = "\<lambda>e. e\<lparr>ev_status := OutboxEventStatus.DISPATCHED\<rparr>"
      from d 1 Inr e1(1) True have s': "r = Inr ()" "s' = events_update (row_set ev_event_id i ?f) s1"
        by (auto simp: dispatch_one_def bindM_exec load_exec store_exec)
      have "event_write ?f" unfolding event_write_def
      proof
        fix q :: OutboxEvent
        show "\<exists>st n. ?f q = q\<lparr>ev_status := st, ev_delivery_attempts := n\<rparr>"
          by (intro exI [of _ OutboxEventStatus.DISPATCHED] exI [of _ "ev_delivery_attempts q"]) simp
      qed
      then have "db_write s1 s'" unfolding s'(2) by (rule db_write.event)
      then have "writes s s'" using w by (rule rtranclp.rtrancl_into_rtrancl [rotated])
      moreover have "applied n e s' = applied n e s1" for n unfolding s'(2) by (simp add: applied_def)
      moreover have "row_get ev_event_id i (events s') = Some (?f e)" unfolding s'(2) using e1(1) ok True by simp
      ultimately show ?thesis using ok True by blast
    qed
  qed
qed

lemma relay_dispatch_one: "steps relay_step (dispatch_one reg i)"
proof (unfold steps_def, rule allI)
  fix s
  show "relay_step s (snd (dispatch_one reg i s))"
  proof (cases "row_get ev_event_id i (events s)")
    case None
    then have "snd (dispatch_one reg i s) = s"
      by (cases reg) (simp_all add: dispatch_one_def bindM_exec ret_exec load_exec deliver_to_def)
    then show ?thesis by (simp add: relay_step_def)
  next
    case (Some e)
    then show ?thesis unfolding relay_step_def
      using dispatch_one_result [of s i e "fst (dispatch_one reg i s)" "snd (dispatch_one reg i s)"] writes_keep_relay_keys
      by (metis prod.collapse)
  qed
qed

lemma relay_poll: "steps relay_step (poll_and_dispatch reg n)"
  unfolding poll_and_dispatch_def by (intro steps_intro relay_dispatch_one)

lemma redelivery_skips:
  assumes inv: "relay_keys s" and ev: "row_get ev_event_id i (events s) = Some e"
  shows "\<forall>n\<in>wanted_by cs e. applied n e s \<Longrightarrow> deliver_all cs i p s = (Inr p, s)"
proof (induction cs)
  case Nil
  then show ?case by (simp add: ret_exec)
next
  case (Cons c cs)
  obtain n hs where c: "c = (n, hs)" by (cases c)
  have "deliver_to c i p s = (Inr p, s)"
  proof (cases "map_of hs (ev_event_type e)")
    case None
    with ev show ?thesis by (simp add: deliver_to_def exec c)
  next
    case (Some h)
    then have "applied n e s" using Cons.prems by (auto simp: wanted_by_def c)
    then obtain q k where q: "q \<in> set (consumers s)" "ec_name q = n" and k: "k \<in> set (checkpoints s)"
      "checkpoint_slot k = event_slot q e" "ev_sequence e \<le> ck_last_sequence k" by (auto simp: applied_def)
    with get_consumer_known [OF inv q(1)] get_checkpoint_known [OF inv k(1)] ev Some show ?thesis
      by (simp add: deliver_to_def bindM_exec load_exec c event_slot_def deliver_unless_applied_def ret_exec)
  qed
  moreover have "\<forall>n\<in>wanted_by cs e. applied n e s" using Cons.prems by (auto simp: wanted_by_def)
  ultimately show ?case using Cons.IH by (simp add: bindM_exec)
qed

end

section \<open>The review consumers meet the contract\<close>

interpretation kept: step_contract logged_event_kept
  by unfold_locales (auto simp: logged_event_kept_def)

lemmas kept_rules [steps_intro] =
  kept.ret kept.raise kept.gets kept.fromSum kept.bind kept.andThen kept.whenM kept.catch kept.forM kept.mapM

lemma kept_of_keeps: "keeps events m \<Longrightarrow> steps logged_event_kept m"
  by (simp add: steps_def eqOn_def logged_event_kept_def)

lemma kept_query_one [steps_intro]: "steps logged_event_kept (query_one q)"
  by (simp add: steps_def exec logged_event_kept_def)

lemma kept_primitives [steps_intro]:
  "steps logged_event_kept utcnow" "steps logged_event_kept uuid4" "steps logged_event_kept (now_or_utcnow t)"
  "steps logged_event_kept (or_uuid4 x)" "steps logged_event_kept (the_run i)" "steps logged_event_kept (the_gate i)"
  "steps logged_event_kept (the_reservation i)" "steps logged_event_kept (set_run i f1)" "steps logged_event_kept (set_gate i f2)"
  "steps logged_event_kept (set_reservation i f3)" "steps logged_event_kept (add_job j)" "steps logged_event_kept (add_gate g)"
  "steps logged_event_kept (child_span t')"
  by (rule kept_of_keeps, intro steps_intro; simp)+

lemma kept_emit [steps_intro]: "steps logged_event_kept (emit ty ws t a corr tr p by')"
  by (simp add: steps_def emit_exec logged_event_kept_def row_get_append)

lemma kept_workflow [steps_intro]:
  "steps logged_event_kept (trace_run i)" "steps logged_event_kept (emit_run ty i tr p)"
  "steps logged_event_kept (enqueue_stage i st n dt)" "steps logged_event_kept (find_transition d st tg cx)"
  "steps logged_event_kept (get_stage_def d st)" "steps logged_event_kept (run_definition_id r)"
proof -
  show "steps logged_event_kept (find_transition d st tg cx)" by (simp add: steps_def find_transition_def logged_event_kept_def)
qed (unfold trace_run_def emit_run_def enqueue_stage_def get_stage_def_def run_definition_id_def
    run_correlation_id_def workspace_priority_def, (intro steps_intro)+)

lemma kept_release [steps_intro]: "steps logged_event_kept (release_all_reservations i)"
  unfolding release_all_reservations_def release_spend_def by (intro steps_intro)

lemma kept_resume: "steps logged_event_kept (resume_from_review g b)"
proof -
  have p: "steps logged_event_kept (pause_for_review i st t)" for i st t
    unfolding pause_for_review_def open_gate_def announce_gate_def add_timer_def run_correlation_id_def by (intro steps_intro)
  have a: "steps logged_event_kept (advance_or_finish i st tg cx)" for i st tg cx
    unfolding advance_or_finish_def finish_succeeded_def by (intro p steps_intro)
  have f: "steps logged_event_kept (fail_run i m)" for i m
    unfolding fail_run_def by (intro steps_intro)
  show ?thesis unfolding resume_from_review_def by (intro a f steps_intro)
qed

lemma on_review_contract:
  "steps writes (on_review b e)" "keeps (\<lambda>s. (consumers s, checkpoints s)) (on_review b e)"
  "steps logged_event_kept (on_review b e)"
proof -
  have "blind (\<lambda>s. (consumers s, checkpoints s))" by (simp add: blind_def)
  then show "keeps (\<lambda>s. (consumers s, checkpoints s)) (on_review b e)"
    unfolding on_review_def by (intro steps_intro)
  show "steps writes (on_review b e)" unfolding on_review_def by (intro steps_intro)
  show "steps logged_event_kept (on_review b e)" unfolding on_review_def by (intro kept_resume steps_intro)
qed

interpretation review_relay: relay_handlers "register_all []"
  by unfold_locales
    (auto simp: register_all_def register_consumer_def the_or_def on_review_approved_def on_review_rejected_def
      on_review_contract split: if_splits)

lemma review_handlers:
  "wanted_by (register_all []) e = (if ev_event_type e \<in> {REVIEW_APPROVED, REVIEW_REJECTED} then {''pipeline-controller''} else {})"
  by (auto simp: wanted_by_def register_all_def register_consumer_def the_or_def)

definition mark_dispatched :: "uuid \<Rightarrow> db \<Rightarrow> db" where
  "mark_dispatched i = events_update (row_set ev_event_id i (\<lambda>e. e\<lparr>ev_status := OutboxEventStatus.DISPATCHED\<rparr>))"

lemma redispatch_is_silent:
  assumes "relay_keys s" "row_get ev_event_id i (events s) = Some e" "ev_status e \<noteq> POISON"
    and "\<forall>n\<in>wanted_by (register_all []) e. applied n e s"
  shows "dispatch_one (register_all []) i s = (Inr (), mark_dispatched i s)"
  using review_relay.redelivery_skips [OF assms(1,2,4), of False] assms(2,3)
  by (simp add: dispatch_one_def bindM_exec load_exec store_exec mark_dispatched_def)

lemma get_consumer_frame:
  assumes "get_or_create_consumer name s = (r, s')"
  shows "s' = s\<lparr>consumers := consumers s', tick := tick s'\<rparr>"
  using assms by (auto simp: get_or_create_consumer_def exec Let_def split: sum.splits option.splits if_splits)

lemma get_checkpoint_frame:
  assumes "get_or_create_checkpoint ci ty pk s = (r, s')"
  shows "s' = s\<lparr>checkpoints := checkpoints s', tick := tick s'\<rparr>"
  using assms by (auto simp: get_or_create_checkpoint_def exec Let_def split: sum.splits option.splits if_splits)

lemma get_checkpoint_old_or_new:
  assumes "get_or_create_checkpoint ci ty pk s = (Inr k, s')"
  shows "k \<in> set (checkpoints s) \<and> checkpoint_slot k = (ci, ty, pk) \<or> ck_last_sequence k = 0"
  using assms by (auto simp: get_or_create_checkpoint_def exec Let_def scalar_one_or_none_def filter_eq_Cons_iff
      split: list.splits sum.splits option.splits if_splits)

lemma get_consumer_old_or_new:
  assumes "get_or_create_consumer name s = (Inr c, s')"
  shows "checkpoints s' = checkpoints s
    \<and> (c \<in> set (consumers s) \<and> ec_name c = name \<or> ec_id c \<notin> ec_id ` set (consumers s))"
  using assms by (auto simp: get_or_create_consumer_def exec Let_def scalar_one_or_none_def filter_eq_Cons_iff list_ex_iff
      split: list.splits sum.splits option.splits if_splits)

lemma review_delivery:
  "deliver_all (register_all []) i False s = deliver_to (''pipeline-controller'',
     [(REVIEW_APPROVED, on_review True), (REVIEW_REJECTED, on_review False)]) i False s"
  by (simp add: register_all_def register_consumer_def the_or_def on_review_approved_def on_review_rejected_def
      REVIEW_APPROVED_def REVIEW_REJECTED_def bindM_def ret_def split: prod.splits sum.splits)

lemma review_handler_of:
  "map_of [(REVIEW_APPROVED, on_review True), (REVIEW_REJECTED, on_review False)] (if b then REVIEW_APPROVED else REVIEW_REJECTED)
    = Some (on_review b)"
  by (simp add: REVIEW_APPROVED_def REVIEW_REJECTED_def)

lemma unapplied_checkpoint_behind:
  assumes c: "get_or_create_consumer n s = (Inr c, s1)"
    and k: "get_or_create_checkpoint (ec_id c) (ev_aggregate_type e) (str_uuid (ev_aggregate_id e)) s1 = (Inr k, s2)"
    and fk: "ck_consumer_id ` set (checkpoints s) \<subseteq> ec_id ` set (consumers s)"
    and na: "\<not> applied n e s" and pos: "0 < ev_sequence e"
  shows "ck_last_sequence k < ev_sequence e"
proof (rule ccontr)
  assume ge: "\<not> ck_last_sequence k < ev_sequence e"
  with get_checkpoint_old_or_new [OF k] pos get_consumer_old_or_new [OF c] have
    k': "k \<in> set (checkpoints s)" "checkpoint_slot k = event_slot c e" by (auto simp: event_slot_def)
  then have "ec_id c = ck_consumer_id k" by (simp add: checkpoint_slot_def event_slot_def)
  then have "ec_id c \<in> ec_id ` set (consumers s)" using fk k'(1) by auto
  with get_consumer_old_or_new [OF c] k' ge na show False unfolding applied_def by (auto simp: not_less)
qed

text \<open>A pending event that its dispatch turns to \<open>DISPATCHED\<close>, and that no checkpoint had passed, was handled in it.\<close>

lemma dispatch_runs_handler:
  assumes ev: "row_get ev_event_id i (events s) = Some e" "ev_status e = OutboxEventStatus.PENDING"
    and ty: "ev_event_type e = (if b then REVIEW_APPROVED else REVIEW_REJECTED)"
    and d: "dispatch_one (register_all []) i s = (Inr (), s')"
    and e': "row_get ev_event_id i (events s') = Some e'" "ev_status e' = OutboxEventStatus.DISPATCHED"
    and pos: "0 < ev_sequence e" and fk: "ck_consumer_id ` set (checkpoints s) \<subseteq> ec_id ` set (consumers s)"
    and na: "\<not> applied ''pipeline-controller'' e s"
  shows "\<exists>s1 s2 k. s1 = s\<lparr>consumers := consumers s1, checkpoints := checkpoints s1, tick := tick s1\<rparr>
    \<and> on_review b e s1 = (Inr (), s2)
    \<and> s' = mark_dispatched i (checkpoints_update (row_set ck_id k (ck_last_sequence_update (\<lambda>_. ev_sequence e))) s2)"
proof -
  obtain p s3 where 1: "deliver_all (register_all []) i False s = (Inr p, s3)" and
    2: "bindM (the_event i) (\<lambda>e. if ev_status e \<noteq> POISON \<and> \<not> p
        then set_event i (\<lambda>e. e\<lparr>ev_status := OutboxEventStatus.DISPATCHED\<rparr>) else ret ()) s3 = (Inr (), s')"
    using d unfolding dispatch_one_def by (rule bindM_InrE)
  have h: "map_of [(REVIEW_APPROVED, on_review True), (REVIEW_REJECTED, on_review False)] (ev_event_type e) = Some (on_review b)"
    unfolding ty by (rule review_handler_of)
  from 1 ev(1) h obtain c k sc s1 where c: "get_or_create_consumer ''pipeline-controller'' s = (Inr c, sc)" and
    k: "get_or_create_checkpoint (ec_id c) (ev_aggregate_type e) (str_uuid (ev_aggregate_id e)) sc = (Inr k, s1)" and
    3: "deliver_unless_applied (on_review b) e c k False s1 = (Inr p, s3)"
    unfolding review_delivery deliver_to_def by (auto simp: load_exec bindM_exec split: sum.splits prod.splits)
  note behind = unapplied_checkpoint_behind [OF c k fk na pos]
  obtain xs t where "sc = s\<lparr>consumers := xs, tick := t\<rparr>" using get_consumer_frame [OF c] by blast
  moreover obtain ys u where "s1 = sc\<lparr>checkpoints := ys, tick := u\<rparr>" using get_checkpoint_frame [OF k] by blast
  ultimately have s1: "s1 = s\<lparr>consumers := consumers s1, checkpoints := checkpoints s1, tick := tick s1\<rparr>" by simp
  have e1: "row_get ev_event_id i (events s1) = Some e" using ev(1) arg_cong [OF s1, of events] by simp
  obtain ra s2 where r: "on_review b e s1 = (ra, s2)" by (cases "on_review b e s1")
  have e2: "row_get ev_event_id i (events s2) = Some e"
    using on_review_contract(3) [of b e] r e1 by (auto simp: steps_def logged_event_kept_def dest: spec [of _ s1])
  show ?thesis
  proof (cases ra)
    case (Inl x)
    have "ev_event_id e = i" using ev(1) by (rule row_get_key)
    with Inl r 3 behind have "delivery_failed i (ec_name c) (ec_max_delivery_attempts c) x s2 = (Inr p, s3)"
      by (auto simp: deliver_unless_applied_def apply_handler_def catchM_exec andThen_exec bindM_exec ret_exec split: sum.splits prod.splits)
    with delivery_failed_row [OF e2, of "ec_name c" "ec_max_delivery_attempts c" x] have
      "p = (ev_delivery_attempts e + 1 < ec_max_delivery_attempts c)"
      "row_get ev_event_id i (events s3) = Some (if p then counted e else (counted e)\<lparr>ev_status := POISON\<rparr>)" by auto
    with 2 e' ev(2) have False by (auto simp: bindM_exec load_exec ret_exec counted_def split: if_splits)
    then show ?thesis ..
  next
    case (Inr u)
    with r 3 behind have 4: "\<not> p" "s3 = checkpoints_update (row_set ck_id (ck_id k) (ck_last_sequence_update (\<lambda>_. ev_sequence e))) s2"
      by (auto simp: deliver_unless_applied_def apply_handler_def catchM_exec andThen_exec ret_exec store_exec)
    with 2 e2 ev(2) have "s' = mark_dispatched i s3" by (auto simp: bindM_exec load_exec store_exec mark_dispatched_def)
    with s1 r Inr 4 show ?thesis by auto
  qed
qed

section \<open>Properties\<close>

text \<open>
  C10: A review event is handled to its end at most once, and is called dispatched only when its handler has returned. When the relay turns a
  pending event to \<open>DISPATCHED\<close> and the controller's checkpoint of the run had not reached the event, then in this very
  dispatch \<open>on_review_approved\<close> or \<open>on_review_rejected\<close>, after the event's type, ran to its end, on the database as it was
  (a consumer and a checkpoint row may have been added), and after it only the checkpoint and the event's status were written.
  When the checkpoint had already reached the event, no handler ran: only the status was written. (So an event that failed
  and was overtaken by a later one is dispatched without being handled; and a handler that raised halfway and is retried starts
  from what its first run left.) No attempt was counted; the checkpoint stays past the event through any further operation, and
  dispatching the event again runs no handler: the only write is the status it has already. The relay's keys stay unique.
\<close>

theorem review_event_applied_once:
  assumes "relay_keys s" "row_get ev_event_id i (events s) = Some e" "ev_status e = OutboxEventStatus.PENDING" "0 < ev_sequence e"
    and "ev_event_type e = (if b then REVIEW_APPROVED else REVIEW_REJECTED)"
    and "ck_consumer_id ` set (checkpoints s) \<subseteq> ec_id ` set (consumers s)"
    and "dispatch_one (register_all []) i s = (Inr (), s')"
    and "row_get ev_event_id i (events s') = Some e'" "ev_status e' = OutboxEventStatus.DISPATCHED"
  shows "relay_keys s' \<and> e' = e\<lparr>ev_status := OutboxEventStatus.DISPATCHED\<rparr>
    \<and> (if applied ''pipeline-controller'' e s then s' = mark_dispatched i s
       else \<exists>s1 s2 k. s1 = s\<lparr>consumers := consumers s1, checkpoints := checkpoints s1, tick := tick s1\<rparr>
          \<and> on_review b e s1 = (Inr (), s2)
          \<and> s' = mark_dispatched i (checkpoints_update (row_set ck_id k (ck_last_sequence_update (\<lambda>_. ev_sequence e))) s2))
    \<and> (\<forall>t. writes s' t \<longrightarrow> applied ''pipeline-controller'' e t)
    \<and> dispatch_one (register_all []) i s' = (Inr (), mark_dispatched i s')"
proof -
  from review_relay.dispatch_one_result [OF assms(1,2,7)] assms(3,8,9) have
    w: "writes s s'" and e': "e' = e\<lparr>ev_status := OutboxEventStatus.DISPATCHED\<rparr>" and
    a: "\<forall>n\<in>wanted_by (register_all []) e. applied n e s'" by (auto simp: rebooked_def)
  note keys = writes_keep_relay_keys [OF w assms(1)]
  have "wanted_by (register_all []) e' = wanted_by (register_all []) e" "applied n e' s' = applied n e s'" for n
    by (simp_all add: e' review_handlers applied_def event_slot_def)
  then have again: "dispatch_one (register_all []) i s' = (Inr (), mark_dispatched i s')"
    using redispatch_is_silent [OF keys assms(8)] assms(9) a by simp
  have ct: "applied ''pipeline-controller'' e s'" using a assms(5) by (simp add: review_handlers)
  then have stays: "\<forall>t. writes s' t \<longrightarrow> applied ''pipeline-controller'' e t" using applied_writes [OF _ keys] by blast
  show ?thesis
  proof (cases "applied ''pipeline-controller'' e s")
    case True
    then have "dispatch_one (register_all []) i s = (Inr (), mark_dispatched i s)"
      using redispatch_is_silent [OF assms(1,2)] assms(3) by (simp add: review_handlers)
    with assms(7) True keys e' stays again show ?thesis by simp
  next
    case False
    from dispatch_runs_handler [OF assms(2,3,5,7,8,9,4,6) False] keys e' stays again False show ?thesis by simp
  qed
qed

text \<open>
  A failing handler is retried a bounded number of times: every failure counts one attempt on the event; below the
  consumer's maximum the event stays in the queue, at the maximum it is poisoned with one dead letter that carries the
  attempt count. Neither the consumer nor its checkpoint moves.
\<close>

theorem failed_delivery_counted:
  assumes "row_get ev_event_id i (events s) = Some e"
  shows "\<exists>s'. delivery_failed i name n x s = (Inr (ev_delivery_attempts e + 1 < n), s')
    \<and> (if ev_delivery_attempts e + 1 < n
       then row_get ev_event_id i (events s') = Some (counted e) \<and> dead_letters s' = dead_letters s
       else row_get ev_event_id i (events s') = Some ((counted e)\<lparr>ev_status := POISON\<rparr>)
         \<and> (\<exists>dl. dead_letters s' = dead_letters s @ [dl] \<and> dl_related_id dl = i
               \<and> dl_attempt_count dl = ev_delivery_attempts e + 1 \<and> dl_failure_reason dl = exn_str x))
    \<and> consumers s' = consumers s \<and> checkpoints s' = checkpoints s"
  using assms row_get_key [OF assms] by (simp add: delivery_failed_def counted_def exec)

text \<open>
  An event that failed is lost once a later event of the same run has been applied. The checkpoint is a high-water
  mark: the failed event, though still pending and never applied, is marked \<open>DISPATCHED\<close> at its next turn without
  its handler being run and without a dead letter.
\<close>

theorem failed_event_overtaken:
  assumes "relay_keys s" "row_get ev_event_id i (events s) = Some e" "ev_status e = OutboxEventStatus.PENDING"
    and "ev_event_type e \<in> {REVIEW_APPROVED, REVIEW_REJECTED}"
    and "applied ''pipeline-controller'' later s" "ev_sequence e < ev_sequence later"
    and "ev_aggregate_type later = ev_aggregate_type e" "ev_aggregate_id later = ev_aggregate_id e"
  shows "dispatch_one (register_all []) i s
    = (Inr (), mark_dispatched i s)"
proof -
  have "applied ''pipeline-controller'' e s" using assms(5-8) by (force simp: applied_def event_slot_def)
  with assms(1-3) redispatch_is_silent show ?thesis by (simp add: review_handlers)
qed

section \<open>Witnesses\<close>

definition review_event :: "uuid \<Rightarrow> int \<Rightarrow> OutboxEvent" where
  "review_event i n = (new_event REVIEW_APPROVED 1 ''pipeline_run'' 10 12 (JObj [(''review_gate_id'', JStr (str_uuid 80))])
     ''controller'' None None None 1 i n 0)"

definition sample_gate :: ReviewGate where
  "sample_gate = \<lparr> rg_id = 80, rg_workspace_id = 1, rg_pipeline_run_id = 10, rg_content_version_id = None,
     rg_stage = ''review'', rg_status = AWAITING, rg_requested_at = 0, rg_timeout_at = None, rg_decided_at = None,
     rg_decided_by = None, rg_escalation_level = 0 \<rparr>"

definition approved_db :: db where
  "approved_db = sample_db\<lparr>runs := [sample_run\<lparr>pr_status := PAUSED, pr_current_stage := ''review''\<rparr>],
     gates := [sample_gate], events := [review_event 90 1]\<rparr>"

lemmas relay_ops = dispatch_one_def deliver_to_def get_or_create_consumer_def get_or_create_checkpoint_def
  deliver_unless_applied_def apply_handler_def delivery_failed_def register_all_def register_consumer_def
  on_review_approved_def on_review_rejected_def on_review_def payload_gate_id_def resume_from_review_def the_or_def

lemma gate_80: "uuid_of_str (str_uuid 80) = Inr 80"
  by (rule uuid_of_str_uuid) simp

lemma approved_db_facts:
  "relay_keys approved_db" "row_get ev_event_id 90 (events approved_db) = Some (review_event 90 1)"
  by (simp_all add: relay_keys_def approved_db_def fixture review_event_def new_event_def)

lemma review_types [simp]: "REVIEW_APPROVED \<noteq> REVIEW_REJECTED" "REVIEW_REJECTED \<noteq> REVIEW_APPROVED"
  by (simp_all add: REVIEW_APPROVED_def REVIEW_REJECTED_def)

lemma approved_db_dispatch:
  "fst (dispatch_one (register_all []) 90 approved_db) = Inr ()"
  "map ev_status (filter (\<lambda>e. ev_event_id e = 90) (events (snd (dispatch_one (register_all []) 90 approved_db)))) = [OutboxEventStatus.DISPATCHED]"
  by (simp_all add: relay_ops gate_80 advance_or_finish_def finish_succeeded_def workflow_ops exec approved_db_def review_event_def new_event_def
    sample_gate_def fixture evaluate_condition_def find_transition_def checkpoint_slot_def Let_def)

definition stuck_db :: db where
  "stuck_db = approved_db\<lparr>transitions := []\<rparr>"

definition half_resumed :: "db \<Rightarrow> db" where
  "half_resumed s = s\<lparr>tick := 3, consumers := [\<lparr> ec_id = 5000, ec_name = ''pipeline-controller'', ec_max_event_version = 1,
       ec_max_delivery_attempts = 10 \<rparr>],
     checkpoints := [\<lparr> ck_id = 5001, ck_consumer_id = 5000, ck_aggregate_type = ''pipeline_run'', ck_partition_key = str_uuid 10,
       ck_last_sequence = 0 \<rparr>],
     gates := [sample_gate\<lparr>rg_status := ReviewGateStatus.APPROVED, rg_decided_at := Some 1002\<rparr>],
     runs := [sample_run\<lparr>pr_status := RUNNING, pr_current_stage := ''review''\<rparr>],
     events := [(review_event 90 1)\<lparr>ev_delivery_attempts := 1\<rparr>]\<rparr>"

lemma stuck_first_delivery: "dispatch_one (register_all []) 90 stuck_db = (Inr (), half_resumed stuck_db)"
  by (simp add: relay_ops gate_80 advance_or_finish_def workflow_ops exec stuck_db_def half_resumed_def approved_db_def review_event_def
    new_event_def sample_gate_def fixture find_transition_def checkpoint_slot_def Let_def)

lemma stuck_second_delivery:
  "dispatch_one (register_all []) 90 (half_resumed stuck_db)
    = (Inr (), (half_resumed stuck_db)\<lparr>
        checkpoints := [\<lparr> ck_id = 5001, ck_consumer_id = 5000, ck_aggregate_type = ''pipeline_run'', ck_partition_key = str_uuid 10,
          ck_last_sequence = 1 \<rparr>],
        events := [(review_event 90 1)\<lparr>ev_status := OutboxEventStatus.DISPATCHED, ev_delivery_attempts := 1\<rparr>]\<rparr>)"
  by (simp add: relay_ops gate_80 exec stuck_db_def half_resumed_def approved_db_def review_event_def
    new_event_def sample_gate_def fixture checkpoint_slot_def Let_def)

text \<open>
  A raising handler leaves its first writes behind, and its retry hides the failure. A reviewer approves a gate of a
  workflow without an \<open>on_review_approved\<close> edge: the first delivery marks the gate approved and the run running, then
  raises; the event stays pending with one attempt. The second delivery finds the gate decided, does nothing and
  succeeds: the event is \<open>DISPATCHED\<close>, there is no dead letter, and the run is \<open>RUNNING\<close> with no job, for ever.
\<close>

theorem approval_failure_swallowed:
  "\<exists>s1 s2. dispatch_one (register_all []) 90 stuck_db = (Inr (), s1) \<and> dispatch_one (register_all []) 90 s1 = (Inr (), s2)
    \<and> map (\<lambda>e. (ev_status e, ev_delivery_attempts e)) (events s1) = [(OutboxEventStatus.PENDING, 1)]
    \<and> map (\<lambda>e. (ev_status e, ev_delivery_attempts e)) (events s2) = [(OutboxEventStatus.DISPATCHED, 1)]
    \<and> map rg_status (gates s2) = [ReviewGateStatus.APPROVED] \<and> map pr_status (runs s2) = [RUNNING]
    \<and> jobs s2 = [] \<and> assignments s2 = [] \<and> dead_letters s2 = []"
  using stuck_first_delivery stuck_second_delivery
  by (simp add: half_resumed_def stuck_db_def approved_db_def review_event_def new_event_def fixture)

lemma review_event_applied_once_witness:
  "\<exists>s' s1 s2. dispatch_one (register_all []) 90 approved_db = (Inr (), s') \<and> relay_keys s'
    \<and> on_review True (review_event 90 1) s1 = (Inr (), s2) \<and> gates s1 = [sample_gate] \<and> gates s' = gates s2
    \<and> applied ''pipeline-controller'' (review_event 90 1) s'"
proof -
  obtain s' where d: "dispatch_one (register_all []) 90 approved_db = (Inr (), s')"
    using approved_db_dispatch(1) by (metis prod.collapse)
  obtain e' where e': "row_get ev_event_id 90 (events s') = Some e'"
    using review_relay.dispatch_one_result [OF approved_db_facts d] by blast
  have "ev_status e' \<in> set (map ev_status (filter (\<lambda>e. ev_event_id e = 90) (events s')))" using row_get_Some [OF e'] by simp
  moreover have "map ev_status (filter (\<lambda>e. ev_event_id e = 90) (events s')) = [OutboxEventStatus.DISPATCHED]"
    using approved_db_dispatch(2) d by simp
  ultimately have "ev_status e' \<in> set [OutboxEventStatus.DISPATCHED]" by (simp only:)
  then have st: "ev_status e' = OutboxEventStatus.DISPATCHED" by simp
  have e: "ev_status (review_event 90 1) = OutboxEventStatus.PENDING" "0 < ev_sequence (review_event 90 1)"
    "ev_event_type (review_event 90 1) = (if True then REVIEW_APPROVED else REVIEW_REJECTED)"
    "ck_consumer_id ` set (checkpoints approved_db) \<subseteq> ec_id ` set (consumers approved_db)"
    and na: "\<not> applied ''pipeline-controller'' (review_event 90 1) approved_db" and g: "gates approved_db = [sample_gate]"
    by (simp_all add: review_event_def new_event_def approved_db_def fixture applied_def)
  from review_event_applied_once [OF approved_db_facts e d e' st] na
  obtain s1 s2 k where r: "relay_keys s'" "s1 = approved_db\<lparr>consumers := consumers s1, checkpoints := checkpoints s1, tick := tick s1\<rparr>"
    "on_review True (review_event 90 1) s1 = (Inr (), s2)" "applied ''pipeline-controller'' (review_event 90 1) s'"
    "s' = mark_dispatched 90 (checkpoints_update (row_set ck_id k (ck_last_sequence_update (\<lambda>_. ev_sequence (review_event 90 1)))) s2)"
    by auto
  have "gates s1 = [sample_gate]" using arg_cong [OF r(2), of gates] g by simp
  moreover have "gates s' = gates s2" unfolding r(5) by (simp add: mark_dispatched_def)
  ultimately show ?thesis using d r by blast
qed

lemma failed_delivery_counted_witness:
  "\<exists>s' dl. delivery_failed 90 ''pipeline-controller'' 1 (ValueError ''no'') approved_db = (Inr False, s')
    \<and> dead_letters s' = [dl] \<and> dl_failure_reason dl = ''no''"
  using failed_delivery_counted [OF approved_db_facts(2), of "''pipeline-controller''" 1 "ValueError ''no''"]
  by (auto simp: review_event_def new_event_def approved_db_def fixture)

definition overtaken_db :: db where
  "overtaken_db = approved_db\<lparr>events := [(review_event 90 1)\<lparr>ev_delivery_attempts := 1\<rparr>],
     consumers := [\<lparr> ec_id = 5, ec_name = ''pipeline-controller'', ec_max_event_version = 1, ec_max_delivery_attempts = 10 \<rparr>],
     checkpoints := [\<lparr> ck_id = 6, ck_consumer_id = 5, ck_aggregate_type = ''pipeline_run'', ck_partition_key = str_uuid 10,
       ck_last_sequence = 2 \<rparr>]\<rparr>"

lemma failed_event_overtaken_witness:
  "\<exists>s'. dispatch_one (register_all []) 90 overtaken_db = (Inr (), s') \<and> map ev_status (events s') = [OutboxEventStatus.DISPATCHED]
    \<and> map rg_status (gates s') = [AWAITING]"
proof -
  have p: "relay_keys overtaken_db" "row_get ev_event_id 90 (events overtaken_db) = Some ((review_event 90 1)\<lparr>ev_delivery_attempts := 1\<rparr>)"
    "applied ''pipeline-controller'' (review_event 91 2) overtaken_db"
    by (simp_all add: relay_keys_def overtaken_db_def review_event_def new_event_def applied_def event_slot_def checkpoint_slot_def)
  from failed_event_overtaken [OF p(1,2) _ _ p(3)] show ?thesis
    by (simp add: review_event_def new_event_def overtaken_db_def approved_db_def sample_gate_def mark_dispatched_def)
qed

end
