(* ===== verification/Ticks.thy ===== *)
theory Ticks imports Relay begin

text \<open>
  The fleet and the background loops: worker liveness and the offline sweep of \<open>services/workers.py\<close>, and the body of
  each loop of \<open>main.py\<close> (\<open>_outbox_relay_loop\<close>, \<open>_scheduler_loop\<close>, \<open>_orchestration_maintenance_loop\<close>). A tick
  runs one database transaction: it commits what it did, or an exception rolls every row back and is recorded in the
  process-local \<open>AutomationRuntimeState\<close>. The sleep between ticks and the log lines are left out.
\<close>

section \<open>Worker liveness and the offline sweep\<close>

definition LIVENESS_HEALTHY :: string where "LIVENESS_HEALTHY = ''healthy''"

definition LIVENESS_SUSPECT :: string where "LIVENESS_SUSPECT = ''suspect''"

definition LIVENESS_DEAD :: string where "LIVENESS_DEAD = ''dead''"

definition compute_liveness :: "datetime option \<Rightarrow> datetime option \<Rightarrow> int \<Rightarrow> int \<Rightarrow> string M" where
  "compute_liveness last_heartbeat_at now_arg suspect_after_seconds offline_after_seconds =
     (case last_heartbeat_at of
        None \<Rightarrow> ret LIVENESS_DEAD
      | Some t \<Rightarrow>
          bindM (now_or_utcnow now_arg) (\<lambda>now.
          let age = now - t in
          ret (if age < of_int suspect_after_seconds then LIVENESS_HEALTHY
               else if age < of_int offline_after_seconds then LIVENESS_SUSPECT
               else LIVENESS_DEAD)))"

definition stale_worker :: "int \<Rightarrow> datetime \<Rightarrow> WorkerRegistration \<Rightarrow> bool" where
  "stale_worker offline_after_seconds now w \<longleftrightarrow>
     wr_deregistered_at w = None \<and> wr_status w \<noteq> OFFLINE
     \<and> (case wr_last_heartbeat_at w of None \<Rightarrow> True | Some t \<Rightarrow> t < now - of_int offline_after_seconds)"

definition select_stale_worker_ids :: "int \<Rightarrow> datetime option \<Rightarrow> uuid list M" where
  "select_stale_worker_ids offline_after_seconds now_arg =
     bindM (now_or_utcnow now_arg) (\<lambda>now.
     gets (\<lambda>s. map wr_id (filter (stale_worker offline_after_seconds now) (unlocked wr_id s (workers s)))))"

definition taken_offline :: "WorkerRegistration \<Rightarrow> WorkerRegistration" where
  "taken_offline w = w\<lparr> wr_status := OFFLINE, wr_current_load := 0 \<rparr>"

definition mark_stale_workers_offline :: "int \<Rightarrow> datetime option \<Rightarrow> uuid list M" where
  "mark_stale_workers_offline offline_after_seconds now_arg =
     bindM (now_or_utcnow now_arg) (\<lambda>now.
     bindM (select_stale_worker_ids offline_after_seconds (Some now)) (\<lambda>stale_ids.
     if stale_ids = [] then ret []
     else andThen (forM stale_ids (\<lambda>i. set_worker i taken_offline)) (ret stale_ids)))"

section \<open>The loops\<close>

record AutomationRuntimeState =
  started_at :: "datetime option"
  maintenance_ticks :: int
  maintenance_last_ok_at :: "datetime option"
  maintenance_last_error :: "string option"
  outbox_ticks :: int
  outbox_last_ok_at :: "datetime option"
  outbox_last_error :: "string option"
  scheduler_ticks :: int
  scheduler_last_ok_at :: "datetime option"
  scheduler_last_error :: "string option"
  scheduler_jobs_leased :: int
  tasks_running :: "string list"

definition initial_automation :: AutomationRuntimeState where
  "initial_automation = \<lparr> started_at = None, maintenance_ticks = 0, maintenance_last_ok_at = None,
     maintenance_last_error = None, outbox_ticks = 0, outbox_last_ok_at = None, outbox_last_error = None,
     scheduler_ticks = 0, scheduler_last_ok_at = None, scheduler_last_error = None, scheduler_jobs_leased = 0,
     tasks_running = [] \<rparr>"

definition relay_tick :: "registry \<Rightarrow> AutomationRuntimeState \<times> db \<Rightarrow> AutomationRuntimeState \<times> db" where
  "relay_tick reg = (\<lambda>(a, s).
     case transaction (poll_and_dispatch reg 50) s of (r, s') \<Rightarrow>
       (case r of
          Inl e \<Rightarrow> (a\<lparr> outbox_last_error := Some (exn_str e) \<rparr>, s')
        | Inr n \<Rightarrow> (a\<lparr> outbox_ticks := outbox_ticks a + 1, outbox_last_ok_at := Some (clock s' (tick s')),
              outbox_last_error := None \<rparr>, s'\<lparr>tick := Suc (tick s')\<rparr>)))"

definition scheduler_work :: "string \<Rightarrow> (int \<times> int) M" where
  "scheduler_work hostname =
     bindM (gets (\<lambda>s. scheduler_batch_size (cfg s))) (\<lambda>batch_size.
     bindM (poll_and_lease hostname batch_size) (\<lambda>leased.
     andThen (forM leased process_leased_job) (
     bindM (reap_expired_jobs 100) (\<lambda>reaped.
     ret (int (length leased), reaped)))))"

definition scheduler_tick :: "string \<Rightarrow> AutomationRuntimeState \<times> db \<Rightarrow> AutomationRuntimeState \<times> db" where
  "scheduler_tick hostname = (\<lambda>(a, s).
     case transaction (scheduler_work hostname) s of (r, s') \<Rightarrow>
       (case r of
          Inl e \<Rightarrow> (a\<lparr> scheduler_last_error := Some (exn_str e) \<rparr>, s')
        | Inr (leased, reaped) \<Rightarrow> (a\<lparr> scheduler_ticks := scheduler_ticks a + 1,
              scheduler_jobs_leased := scheduler_jobs_leased a + leased,
              scheduler_last_ok_at := Some (clock s' (tick s')), scheduler_last_error := None \<rparr>,
            s'\<lparr>tick := Suc (tick s')\<rparr>)))"

definition reap_offline_worker :: "uuid \<Rightarrow> unit M" where
  "reap_offline_worker w = bindM (reap_worker_assignments w WORKER_OFFLINE None None None) (\<lambda>_. ret ())"

definition maintenance_work :: "uuid list M" where
  "maintenance_work =
     bindM (gets (\<lambda>s. worker_offline_after_seconds (cfg s))) (\<lambda>offline_after.
     bindM (mark_stale_workers_offline offline_after None) (\<lambda>flipped.
     andThen (forM flipped reap_offline_worker) (
     andThen (bindM (reap_expired_leases None None) (\<lambda>_. ret ())) (
     andThen (bindM (evaluate_all_active_workspaces 100) (\<lambda>_. ret ()))
     (ret flipped)))))"

definition maintenance_tick :: "AutomationRuntimeState \<times> db \<Rightarrow> AutomationRuntimeState \<times> db" where
  "maintenance_tick = (\<lambda>(a, s).
     case transaction maintenance_work s of (r, s') \<Rightarrow>
       (case r of
          Inl e \<Rightarrow> (a\<lparr> maintenance_last_error := Some (exn_str e) \<rparr>, s')
        | Inr flipped \<Rightarrow> (a\<lparr> maintenance_ticks := maintenance_ticks a + 1,
              maintenance_last_ok_at := Some (clock s' (tick s')), maintenance_last_error := None \<rparr>,
            s'\<lparr>tick := Suc (tick s')\<rparr>)))"

section \<open>Footprint\<close>

lemma w_fleet [steps_intro]:
  "steps writes (select_stale_worker_ids n now)" "steps writes (mark_stale_workers_offline n now)"
  unfolding select_stale_worker_ids_def mark_stale_workers_offline_def
  by (intro steps_intro; simp add: write_preds taken_offline_def)+

lemma w_work [steps_intro]: "steps writes (scheduler_work h)" "steps writes maintenance_work"
  unfolding scheduler_work_def maintenance_work_def reap_offline_worker_def by (intro steps_intro)+

section \<open>Properties: the fleet\<close>

lemma set_each_worker:
  assumes "\<And>w. wr_id (f w) = wr_id w" "\<And>w. f (f w) = f w"
  shows "forM is (\<lambda>i. set_worker i f) s = (Inr (), workers_update (map (\<lambda>w. if wr_id w \<in> set is then f w else w)) s)"
proof (induction "is" arbitrary: s)
  case Nil
  then show ?case by (cases s) (simp add: ret_exec)
next
  case (Cons i js)
  have "map (\<lambda>w. if wr_id w \<in> set js then f w else w) (row_set wr_id i f ws) = map (\<lambda>w. if wr_id w \<in> set (i # js) then f w else w) ws" for ws
    by (auto simp: row_set_def assms)
  moreover have "forM (i # js) (\<lambda>i. set_worker i f) s = forM js (\<lambda>i. set_worker i f) (workers_update (row_set wr_id i f) s)"
    by (rule forM_step) (rule store_exec(4))
  ultimately show ?case by (simp add: Cons.IH o_def)
qed

text \<open>
  The offline sweep takes exactly the silent workers offline: those registered, not offline yet, not locked by another
  transaction, whose last heartbeat is missing or older than the limit. Each becomes \<open>OFFLINE\<close> with no load;
  nothing else in the database changes, and a second sweep at the same instant finds nobody.
\<close>

theorem stale_workers_swept:
  "\<exists>ids. mark_stale_workers_offline n (Some now) s
      = (Inr ids, workers_update (map (\<lambda>w. if wr_id w \<in> set ids then taken_offline w else w)) s)
    \<and> ids = map wr_id (filter (stale_worker n now) (unlocked wr_id s (workers s)))
    \<and> (\<forall>s'. mark_stale_workers_offline n (Some now) s = (Inr ids, s') \<longrightarrow>
         mark_stale_workers_offline n (Some now) s' = (Inr [], s'))"
proof -
  let ?ids = "map wr_id (filter (stale_worker n now) (unlocked wr_id s (workers s)))"
  let ?f = "\<lambda>w. if wr_id w \<in> set ?ids then taken_offline w else w"
  have m: "mark_stale_workers_offline n (Some now) s = (Inr ?ids, workers_update (map ?f) s)"
  proof (cases "?ids = []")
    case True
    then have "map ?f (workers s) = workers s" by (intro map_idI) (auto simp: unlocked_def filter_empty_conv)
    with True show ?thesis
      by (cases s) (simp add: mark_stale_workers_offline_def select_stale_worker_ids_def exec)
  next
    case False
    have "wr_id (taken_offline w) = wr_id w" "taken_offline (taken_offline w) = taken_offline w" for w
      by (simp_all add: taken_offline_def)
    from set_each_worker [OF this] False show ?thesis
      by (simp add: mark_stale_workers_offline_def select_stale_worker_ids_def bindM_exec gets_exec now_or_utcnow_exec
          andThen_exec ret_exec)
  qed
  have "filter (stale_worker n now) (unlocked wr_id s (map ?f ws)) = []" if "set ws \<subseteq> set (workers s)" for ws
    using that by (induction ws) (auto simp: unlocked_def stale_worker_def taken_offline_def)
  then have "mark_stale_workers_offline n (Some now) (workers_update (map ?f) s) = (Inr [], workers_update (map ?f) s)"
    by (simp add: mark_stale_workers_offline_def select_stale_worker_ids_def exec unlocked_def)
  with m show ?thesis by auto
qed

text \<open>
  The liveness a worker is shown with and the sweep agree up to the boundary: the three bands partition the age of the
  last heartbeat; a worker the sweep would take is shown dead, and one shown dead is taken unless its age is exactly
  the limit (the sweep compares strictly).
\<close>

theorem liveness_bands:
  assumes "suspect \<le> offline" "compute_liveness (wr_last_heartbeat_at w) (Some now) suspect offline s = (Inr l, s')"
  shows "s' = s \<and> l \<in> {LIVENESS_HEALTHY, LIVENESS_SUSPECT, LIVENESS_DEAD}
    \<and> (l = LIVENESS_DEAD \<longleftrightarrow> (\<forall>t. wr_last_heartbeat_at w = Some t \<longrightarrow> of_int offline \<le> now - t))
    \<and> (l = LIVENESS_HEALTHY \<longleftrightarrow> (\<exists>t. wr_last_heartbeat_at w = Some t \<and> now - t < of_int suspect))
    \<and> (stale_worker offline now w \<longrightarrow> l = LIVENESS_DEAD)
    \<and> (l = LIVENESS_DEAD \<and> wr_deregistered_at w = None \<and> wr_status w \<noteq> OFFLINE
        \<and> wr_last_heartbeat_at w \<noteq> Some (now - of_int offline) \<longrightarrow> stale_worker offline now w)"
proof (cases "wr_last_heartbeat_at w")
  case None
  with assms show ?thesis
    by (auto simp: compute_liveness_def exec stale_worker_def LIVENESS_DEAD_def LIVENESS_HEALTHY_def)
next
  case (Some t)
  have "(of_int suspect :: rat) \<le> of_int offline" using assms(1) by simp
  with assms(2) Some show ?thesis
    by (auto simp: compute_liveness_def exec stale_worker_def Let_def LIVENESS_DEAD_def LIVENESS_HEALTHY_def
        LIVENESS_SUSPECT_def split: if_splits)
qed

section \<open>Properties: the ticks\<close>

text \<open>
  A tick is all or nothing, and a failing tick does not stop its loop. If the scheduler's, the relay's or the maintenance
  tick's work raises, every row is as it was before the tick and the error is on record; otherwise the rows are
  what the work left, the tick is counted and the recorded error is cleared.
\<close>

theorem tick_commits_or_rolls_back:
  "(case fst (scheduler_work h s) of
      Inl e \<Rightarrow> scheduler_tick h (a, s) = (a\<lparr>scheduler_last_error := Some (exn_str e)\<rparr>, s\<lparr>tick := tick (snd (scheduler_work h s))\<rparr>)
    | Inr (n, k) \<Rightarrow> \<exists>t m. scheduler_tick h (a, s) = (a\<lparr>scheduler_ticks := scheduler_ticks a + 1,
        scheduler_jobs_leased := scheduler_jobs_leased a + n, scheduler_last_ok_at := Some t, scheduler_last_error := None\<rparr>,
        (snd (scheduler_work h s))\<lparr>tick := m\<rparr>))
   \<and> (case fst (poll_and_dispatch reg 50 s) of
      Inl e \<Rightarrow> relay_tick reg (a, s) = (a\<lparr>outbox_last_error := Some (exn_str e)\<rparr>, s\<lparr>tick := tick (snd (poll_and_dispatch reg 50 s))\<rparr>)
    | Inr n \<Rightarrow> \<exists>t m. relay_tick reg (a, s) = (a\<lparr>outbox_ticks := outbox_ticks a + 1, outbox_last_ok_at := Some t,
        outbox_last_error := None\<rparr>, (snd (poll_and_dispatch reg 50 s))\<lparr>tick := m\<rparr>))
   \<and> (case fst (maintenance_work s) of
      Inl e \<Rightarrow> maintenance_tick (a, s) = (a\<lparr>maintenance_last_error := Some (exn_str e)\<rparr>, s\<lparr>tick := tick (snd (maintenance_work s))\<rparr>)
    | Inr ws \<Rightarrow> \<exists>t m. maintenance_tick (a, s) = (a\<lparr>maintenance_ticks := maintenance_ticks a + 1,
        maintenance_last_ok_at := Some t, maintenance_last_error := None\<rparr>, (snd (maintenance_work s))\<lparr>tick := m\<rparr>))"
proof -
  obtain r1 s1 where 1: "scheduler_work h s = (r1, s1)" by (cases "scheduler_work h s")
  obtain r2 s2 where 2: "poll_and_dispatch reg 50 s = (r2, s2)" by (cases "poll_and_dispatch reg 50 s")
  obtain r3 s3 where 3: "maintenance_work s = (r3, s3)" by (cases "maintenance_work s")
  show ?thesis
    by (cases r1; cases r2; cases r3)
      (auto simp: scheduler_tick_def relay_tick_def maintenance_tick_def transaction_exec 1 2 3)
qed

section \<open>Properties: maintenance\<close>

text \<open>Recovering assignments never gives a worker one.\<close>

definition idle_stays :: "db \<Rightarrow> db \<Rightarrow> bool" where
  "idle_stays s s' \<longleftrightarrow> map sa_id (assignments s') = map sa_id (assignments s)
     \<and> (\<forall>w. held_by w s = [] \<longrightarrow> held_by w s' = [])"

lemma idle_refl: "idle_stays s s"
  by (simp add: idle_stays_def)

lemma idle_trans: "idle_stays a b \<Longrightarrow> idle_stays b c \<Longrightarrow> idle_stays a c"
  by (auto simp: idle_stays_def)

lemma idle_recovered:
  "mapM xs (\<lambda>a. recover_assignment (sa_id a) rs (Some now) d) s = (Inr outs, s') \<Longrightarrow> distinct (map sa_id (assignments s))
   \<Longrightarrow> idle_stays s s'"
  using recover_all_held by (fastforce simp: idle_stays_def)

lemma idle_reap_rounds:
  "reap_rounds n w rs limit now d s = (Inr outs, s') \<Longrightarrow> distinct (map sa_id (assignments s)) \<Longrightarrow> idle_stays s s'"
proof (induction n arbitrary: s outs)
  case 0
  then show ?case by (simp add: raise_exec)
next
  case (Suc n)
  let ?h = "limit_rows limit (held_by w s)"
  show ?case
  proof (cases "?h = []")
    case True
    with Suc.prems(1) show ?thesis by (simp add: exec idle_refl)
  next
    case False
    with Suc.prems(1) obtain o1 s1 where
      1: "mapM ?h (\<lambda>a. recover_assignment (sa_id a) rs (Some now) d) s = (Inr o1, s1)" and
      2: "s' = s1 \<or> (\<exists>os. reap_rounds n w rs limit now d s1 = (Inr os, s'))"
      by (auto simp: exec split: prod.splits sum.splits if_splits)
    note i = idle_recovered [OF 1 Suc.prems(2)]
    then have "distinct (map sa_id (assignments s1))" using Suc.prems(2) by (simp add: idle_stays_def)
    with 2 Suc.IH i idle_trans show ?thesis by blast
  qed
qed

lemma reap_worker_idle:
  assumes "reap_worker_assignments w rs None None d s = (Inr outs, s')" "distinct (map sa_id (assignments s))"
    and "1 \<le> assignment_reaper_batch_size (cfg s)"
  shows "idle_stays s s' \<and> held_by w s' = []"
proof -
  let ?s = "s\<lparr>tick := Suc (tick s)\<rparr>"
  have h: "held_by v ?s = held_by v s" for v by (simp add: held_by_def unlocked_def)
  have r: "reap_rounds (Suc (length (held_by w s))) w rs (assignment_reaper_batch_size (cfg s)) (clock s (tick s)) d ?s = (Inr outs, s')"
    using assms(1) by (simp add: reap_worker_assignments_def bindM_exec gets_exec now_or_utcnow_exec the_or_def h del: reap_rounds.simps)
  have d: "distinct (map sa_id (assignments ?s))" "1 \<le> assignment_reaper_batch_size (cfg ?s)" using assms(2,3) by simp_all
  have "held_by w s' = []" using reap_rounds_enough [OF d(1) _ d(2), of w "Suc (length (held_by w s))"] r h by auto
  with idle_reap_rounds [OF r d(1)] h show ?thesis by (simp add: idle_stays_def)
qed

lemma reap_all_idle:
  "forM ws reap_offline_worker s = (Inr (), s') \<Longrightarrow>
   distinct (map sa_id (assignments s)) \<Longrightarrow> 1 \<le> assignment_reaper_batch_size (cfg s) \<Longrightarrow>
   idle_stays s s' \<and> (\<forall>w\<in>set ws. held_by w s' = [])"
proof (induction ws arbitrary: s)
  case Nil
  then show ?case by (simp add: ret_exec idle_refl)
next
  case (Cons w ws)
  from Cons.prems(1) obtain s1 where 0: "reap_offline_worker w s = (Inr (), s1)" and
    2: "forM ws reap_offline_worker s1 = (Inr (), s')" by (auto elim!: andThen_InrE)
  from 0 obtain os where 1: "reap_worker_assignments w WORKER_OFFLINE None None None s = (Inr os, s1)"
    unfolding reap_offline_worker_def by (auto simp: ret_exec elim!: bindM_InrE)
  note r = reap_worker_idle [OF 1 Cons.prems(2,3)]
  have "cfg s1 = cfg s" using steps_env [OF w_reap(2) 1] by (simp add: same_env_def)
  with r Cons.prems(2,3) Cons.IH [OF 2] have "idle_stays s1 s'" "\<forall>v\<in>set ws. held_by v s' = []"
    by (simp_all add: idle_stays_def)
  with r idle_trans show ?case by (auto simp: idle_stays_def)
qed

lemma maintenance_parts:
  assumes "maintenance_work s = (Inr flipped, s')"
  obtains s1 s2 s3 o3 o4 where
    "mark_stale_workers_offline (worker_offline_after_seconds (cfg s)) None s = (Inr flipped, s1)"
    "forM flipped reap_offline_worker s1 = (Inr (), s2)"
    "reap_expired_leases None None s2 = (Inr o3, s3)" "evaluate_all_active_workspaces 100 s3 = (Inr o4, s')"
  using assms unfolding maintenance_work_def by (auto simp: ret_exec gets_exec elim!: andThen_InrE bindM_InrE)

lemma maintenance_drains:
  assumes "distinct (map sa_id (assignments s))" "1 \<le> assignment_reaper_batch_size (cfg s)"
    and "maintenance_work s = (Inr flipped, s')"
  shows "\<forall>w\<in>set flipped. held_by w s' = []"
proof -
  from assms(3) obtain s1 s2 s3 o3 o4 where
    1: "mark_stale_workers_offline (worker_offline_after_seconds (cfg s)) None s = (Inr flipped, s1)" and
    2: "forM flipped reap_offline_worker s1 = (Inr (), s2)" and
    3: "reap_expired_leases None None s2 = (Inr o3, s3)" and 4: "evaluate_all_active_workspaces 100 s3 = (Inr o4, s')"
    by (rule maintenance_parts)
  have k: "keeps assignments (mark_stale_workers_offline n t)" for n t
    unfolding mark_stale_workers_offline_def select_stale_worker_ids_def by (intro steps_intro; simp)
  have a1: "assignments s1 = assignments s" by (rule keepsD' [OF k 1])
  have c1: "cfg s1 = cfg s" using steps_env [OF w_fleet(2) 1] by (simp add: same_env_def)
  have d1: "distinct (map sa_id (assignments s1))" "1 \<le> assignment_reaper_batch_size (cfg s1)"
    using assms(1,2) a1 c1 by simp_all
  note i2 = reap_all_idle [OF 2 d1]
  have "distinct (map sa_id (assignments (s2\<lparr>tick := Suc (tick s2)\<rparr>)))" using i2 d1(1) by (simp add: idle_stays_def)
  moreover from 3 have "mapM (expired_leases (clock s2 (tick s2)) (assignment_reaper_batch_size (cfg s2)) (s2\<lparr>tick := Suc (tick s2)\<rparr>))
      (\<lambda>a. recover_assignment (sa_id a) LEASE_EXPIRED (Some (clock s2 (tick s2))) None) (s2\<lparr>tick := Suc (tick s2)\<rparr>) = (Inr o3, s3)"
    by (simp add: reap_expired_leases_def bindM_exec gets_exec now_or_utcnow_exec the_or_def)
  ultimately have "idle_stays (s2\<lparr>tick := Suc (tick s2)\<rparr>) s3" using idle_recovered by blast
  then have i3: "idle_stays s2 s3" by (simp add: idle_stays_def held_by_def unlocked_def)
  have "keeps (\<lambda>s. (assignments s, locks s)) (evaluate_all_active_workspaces n)" for n
    unfolding evaluate_all_active_workspaces_def evaluate_workspace_backpressure_def bp_store_def bp_emit_def
    by (intro steps_intro; simp)
  from keepsD' [OF this 4] have i4: "idle_stays s3 s'" by (simp add: idle_stays_def held_by_def unlocked_def)
  from i2 i3 i4 show ?thesis by (auto simp: idle_stays_def)
qed

lemma maintenance_sweeps:
  assumes "maintenance_work s = (Inr flipped, s')"
  shows "flipped = map wr_id (filter (stale_worker (worker_offline_after_seconds (cfg s)) (clock s (tick s))) (unlocked wr_id s (workers s)))"
    and "map (\<lambda>w. (wr_id w, wr_status w = OFFLINE)) (workers s')
      = map (\<lambda>w. (wr_id w, wr_status w = OFFLINE \<or> wr_id w \<in> set flipped)) (workers s)"
proof -
  from assms obtain s1 s2 s3 o3 o4 where
    1: "mark_stale_workers_offline (worker_offline_after_seconds (cfg s)) None s = (Inr flipped, s1)" and
    2: "forM flipped reap_offline_worker s1 = (Inr (), s2)" and
    3: "reap_expired_leases None None s2 = (Inr o3, s3)" and 4: "evaluate_all_active_workspaces 100 s3 = (Inr o4, s')"
    by (rule maintenance_parts)
  let ?st = "\<lambda>s. map (\<lambda>w. (wr_id w, wr_status w = OFFLINE)) (workers s)"
  have "mark_stale_workers_offline (worker_offline_after_seconds (cfg s)) None s
      = mark_stale_workers_offline (worker_offline_after_seconds (cfg s)) (Some (clock s (tick s))) (s\<lparr>tick := Suc (tick s)\<rparr>)"
    by (simp add: mark_stale_workers_offline_def bindM_exec now_or_utcnow_exec)
  with 1 stale_workers_swept [of "worker_offline_after_seconds (cfg s)" "clock s (tick s)" "s\<lparr>tick := Suc (tick s)\<rparr>"] have
    f: "flipped = map wr_id (filter (stale_worker (worker_offline_after_seconds (cfg s)) (clock s (tick s))) (unlocked wr_id s (workers s)))"
    and s1: "s1 = workers_update (map (\<lambda>w. if wr_id w \<in> set flipped then taken_offline w else w)) (s\<lparr>tick := Suc (tick s)\<rparr>)"
    by (auto simp: unlocked_def)
  show "flipped = map wr_id (filter (stale_worker (worker_offline_after_seconds (cfg s)) (clock s (tick s))) (unlocked wr_id s (workers s)))"
    by (rule f)
  have "keeps ?st (reap_offline_worker w)" for w unfolding reap_offline_worker_def by (intro steps_intro keeps_offline_reap)
  then have "keeps ?st (forM flipped reap_offline_worker)" by (intro steps_intro)
  moreover have "keeps ?st (reap_expired_leases None None)" by (rule keeps_offline_reap)
  moreover have "keeps ?st (evaluate_all_active_workspaces 100)"
    unfolding evaluate_all_active_workspaces_def evaluate_workspace_backpressure_def bp_store_def bp_emit_def
    by (intro steps_intro; simp)
  ultimately have "?st s' = ?st s1" using 2 3 4 by (auto dest!: keepsD')
  then show "?st s' = map (\<lambda>w. (wr_id w, wr_status w = OFFLINE \<or> wr_id w \<in> set flipped)) (workers s)"
    by (simp add: s1 taken_offline_def)
qed

text \<open>
  C15: A maintenance tick takes the silent workers offline and takes their work back. When its work completes, the workers it
  flipped are exactly those that had not deregistered, were not \<open>OFFLINE\<close>, whose last heartbeat (if any) was older than the
  limit at the tick's first look at the clock, and whose row no other transaction held; they are \<open>OFFLINE\<close>, and any other
  worker is \<open>OFFLINE\<close> afterwards when it was before. No assignment in flight names one of them any more, whatever the batch size, however many the
  worker held, and whatever the recovery of other workers' assignments did in between; the only exception are rows that
  another transaction held locked during the tick, which \<open>SKIP LOCKED\<close> passes over.
\<close>

theorem maintenance_frees_offline_workers:
  assumes "distinct (map sa_id (assignments s))" "1 \<le> assignment_reaper_batch_size (cfg s)"
    and "maintenance_work s = (Inr flipped, s')"
  shows "set flipped = wr_id ` {w \<in> set (workers s). wr_deregistered_at w = None \<and> wr_status w \<noteq> OFFLINE \<and> wr_id w \<notin> set (locks s)
        \<and> (case wr_last_heartbeat_at w of None \<Rightarrow> True | Some t \<Rightarrow> t < clock s (tick s) - of_int (worker_offline_after_seconds (cfg s)))}
    \<and> map (\<lambda>w. (wr_id w, wr_status w = OFFLINE)) (workers s')
        = map (\<lambda>w. (wr_id w, wr_status w = OFFLINE \<or> wr_id w \<in> set flipped)) (workers s)
    \<and> (\<forall>w\<in>set flipped. \<forall>a\<in>set (assignments s'). sa_worker_id a = Some w
        \<and> sa_status a \<in> {StageAssignmentStatus.DISPATCHED, ACKNOWLEDGED} \<longrightarrow> sa_id a \<in> set (locks s))"
proof -
  have "locks s' = locks s" using steps_env [OF w_work(2) assms(3)] by (simp add: same_env_def)
  with maintenance_drains [OF assms] have "\<forall>w\<in>set flipped. \<forall>a\<in>set (assignments s'). sa_worker_id a = Some w
        \<and> sa_status a \<in> {StageAssignmentStatus.DISPATCHED, ACKNOWLEDGED} \<longrightarrow> sa_id a \<in> set (locks s)"
    by (simp add: held_by_empty)
  moreover have "set flipped = wr_id ` {w \<in> set (workers s). wr_deregistered_at w = None \<and> wr_status w \<noteq> OFFLINE \<and> wr_id w \<notin> set (locks s)
        \<and> (case wr_last_heartbeat_at w of None \<Rightarrow> True | Some t \<Rightarrow> t < clock s (tick s) - of_int (worker_offline_after_seconds (cfg s)))}"
    unfolding maintenance_sweeps(1) [OF assms(3)] by (auto simp: unlocked_def stale_worker_def)
  ultimately show ?thesis using maintenance_sweeps(2) [OF assms(3)] by blast
qed

section \<open>Properties: one bad job stops the scheduler\<close>

lemma rr_pass_prefix: "\<exists>r. snd (rr_pass batch quota gs st) = snd st @ r"
  by (induction batch quota gs st rule: rr_pass.induct) auto

lemma rr_rounds_prefix: "\<exists>r. snd (rr_rounds batch quota gs st) = snd st @ r"
proof (induction batch quota gs st rule: rr_rounds.induct)
  case (1 batch quota gs st)
  obtain r where "snd (rr_pass batch quota gs st) = snd st @ r" using rr_pass_prefix by blast
  with 1 show ?case by (subst rr_rounds.simps) auto
qed

text \<open>The first candidate is the first job leased.\<close>

lemma round_robin_first:
  assumes "1 \<le> batch" "1 \<le> quota ws"
  shows "\<exists>r. round_robin batch quota ((ws, j # js) # gs) = j # r"
proof -
  let ?gs = "(ws, j # js) # gs" and ?st = "(\<lambda>_. 0, []) :: (uuid \<Rightarrow> nat) \<times> JobSchedule list"
  have a: "0 < allowance quota (ws, j # js)" using assms(2) by (simp add: allowance_def)
  then have "rr_rounds batch quota ?gs ?st = rr_rounds batch quota ?gs (rr_pass batch quota ?gs ?st)"
    using assms(1) by (subst rr_rounds.simps) (simp add: rr_more_def del: rr_pass.simps)
  moreover have "rr_pass batch quota ?gs ?st = rr_pass batch quota gs ((\<lambda>_. 0)(ws := Suc 0), [j])"
    using a assms(1) by simp
  moreover obtain r where "snd (rr_pass batch quota gs ((\<lambda>_. 0)(ws := Suc 0), [j])) = [j] @ r"
    using rr_pass_prefix [of batch quota gs "((\<lambda>_. 0)(ws := Suc 0), [j])"] by auto
  moreover obtain r' where "snd (rr_rounds batch quota ?gs (rr_pass batch quota ?gs ?st)) = snd (rr_pass batch quota ?gs ?st) @ r'"
    using rr_rounds_prefix by blast
  ultimately show ?thesis by (simp add: round_robin_def)
qed

text \<open>A due job that comes_first every other job is the first candidate of the poll.\<close>

definition comes_first :: "JobSchedule \<Rightarrow> db \<Rightarrow> bool" where
  "comes_first j s \<longleftrightarrow> j \<in> set (jobs s) \<and> (\<forall>i \<in> set (jobs s). i \<noteq> j \<longrightarrow> job_rank j < job_rank i)"

lemma outranking_job_first:
  assumes "comes_first j s" "js_status j = JobScheduleStatus.PENDING" "js_id j \<notin> set (locks s)" "js_run_after j \<le> now" "1 \<le> n"
  shows "\<exists>r. due_jobs now n s = j # r"
proof -
  let ?all = "sort_key job_rank (filter (\<lambda>j. js_status j = JobScheduleStatus.PENDING \<and> js_run_after j \<le> now) (unlocked js_id s (jobs s)))"
  have m: "j \<in> set ?all" using assms by (simp add: unlocked_def comes_first_def)
  then obtain x xs where x: "?all = x # xs" by (cases ?all) auto
  have "sorted (map job_rank ?all)" by (rule sorted_sort_key)
  then have "job_rank x \<le> job_rank j" using m unfolding x by auto
  moreover have "x \<in> set ?all" unfolding x by simp
  then have "x \<in> set (jobs s)" by (simp add: unlocked_def)
  ultimately have "x = j" using assms(1) unfolding comes_first_def by (metis leD)
  moreover obtain k where "nat n = Suc k" using assms(5) by (cases "nat n") auto
  ultimately show ?thesis unfolding due_jobs_def limit_rows_def x by simp
qed

lemma effective_limit_positive:
  "1 \<le> configured \<Longrightarrow> fst (effective_scheduler_tick_limit ws configured s) = Inr q \<Longrightarrow> 1 \<le> q"
  by (auto simp: effective_scheduler_tick_limit_def exec split: sum.splits option.splits if_splits)

lemma keeps_poll_types: "keeps (\<lambda>s. map (\<lambda>j. (js_id j, js_job_type j)) (jobs s)) (poll_and_lease h n)"
  unfolding poll_and_lease_def scheduler_owner_id_def fairness_limits_def lease_job_def
  by (intro steps_intro; simp)

lemma poll_leases_outranking:
  assumes "poll_and_lease h n s = (Inr ids, s')" "distinct (map js_id (jobs s))"
    and "comes_first j s" "js_status j = JobScheduleStatus.PENDING" "js_id j \<notin> set (locks s)" "js_run_after j \<le> clock s (Suc (tick s))"
    and "1 \<le> n" "1 \<le> configured_tick_limit (js_workspace_id j) s"
  shows "\<exists>r. ids = js_id j # r"
proof -
  let ?cs = "due_jobs (clock s (Suc (tick s))) (n * 3) s" and ?w = "js_workspace_id j"
  from assms(1) obtain quota owner where
    m: "mapM (round_robin n quota (group_by_workspace ?cs)) (lease_job owner) (s\<lparr>tick := Suc (Suc (tick s))\<rparr>) = (Inr ids, s')" and
    q: "\<forall>ws\<in>js_workspace_id ` set ?cs. fst (effective_scheduler_tick_limit ws (configured_tick_limit ws s) s) = Inr (quota ws)"
    by (rule poll_and_lease_steps)
  have "1 \<le> n * 3" using assms(7) by simp
  then obtain r where r: "?cs = j # r" using outranking_job_first assms(3-6) by blast
  then have "1 \<le> quota ?w" using q effective_limit_positive [OF assms(8)] by auto
  moreover obtain js gs where "group_by_workspace ?cs = (?w, j # js) # gs" unfolding r by (simp add: group_by_workspace_def in_order.simps)
  ultimately obtain r' where p: "round_robin n quota (group_by_workspace ?cs) = j # r'" using round_robin_first [OF assms(7)] by metis
  have "distinct (map js_id (round_robin n quota (group_by_workspace ?cs)))"
    using round_robin_fair [OF due_jobs_distinct [OF assms(2)] refl] by blast
  from lease_all [OF this, of owner "s\<lparr>tick := Suc (Suc (tick s))\<rparr>"] m p show ?thesis by auto
qed

lemma scheduler_work_raises:
  assumes "distinct (map js_id (jobs s))" "comes_first j s" "js_job_type j = RECURRING" "js_status j = JobScheduleStatus.PENDING"
    and "js_id j \<notin> set (locks s)" "js_run_after j \<le> clock s (Suc (tick s))"
    and "1 \<le> scheduler_batch_size (cfg s)" "1 \<le> configured_tick_limit (js_workspace_id j) s"
  shows "\<exists>e s'. scheduler_work h s = (Inl e, s')"
proof -
  let ?n = "scheduler_batch_size (cfg s)"
  obtain r s1 where p: "poll_and_lease h ?n s = (r, s1)" by (cases "poll_and_lease h ?n s")
  show ?thesis
  proof (cases r)
    case (Inl e)
    with p show ?thesis by (simp add: scheduler_work_def bindM_exec gets_exec)
  next
    case (Inr ids)
    from poll_leases_outranking [OF p [unfolded Inr] assms(1,2,4-8)] obtain r' where ids: "ids = js_id j # r'" by blast
    have "(js_id j, RECURRING) \<in> set (map (\<lambda>j. (js_id j, js_job_type j)) (jobs s))"
      using assms(2,3) by (force simp: comes_first_def)
    then have "(js_id j, RECURRING) \<in> set (map (\<lambda>j. (js_id j, js_job_type j)) (jobs s1))"
      using keepsD' [OF keeps_poll_types p] by simp
    then obtain i where i: "i \<in> set (jobs s1)" "js_id i = js_id j" "js_job_type i = RECURRING" by auto
    have "map js_id (jobs s1) = map js_id (jobs s)"
      using arg_cong [OF keepsD' [OF keeps_poll_types p], of "map fst"] by (simp add: comp_def)
    then have "row_get js_id (js_id j) (jobs s1) = Some i" using row_get_distinct [OF _ i(1)] assms(1) i(2) by metis
    with i(3) have "\<exists>m. process_leased_job (js_id j) s1 = (Inl (NotImplementedError m), s1)"
      by (simp add: process_leased_job_def bindM_exec load_exec raise_exec)
    with p Inr ids show ?thesis
      by (auto simp: scheduler_work_def bindM_exec gets_exec andThen_exec forM_Cons_exec)
  qed
qed

lemma scheduler_work_tick: "tick s \<le> tick (snd (scheduler_work h s))"
  using steps_env [OF w_work(1), of h s "fst (scheduler_work h s)" "snd (scheduler_work h s)"] by (simp add: same_env_def)

text \<open>
  C19: One job that raises stops the scheduler for every workspace. Take any database with a pending, unlocked job of the type
  \<open>RECURRING\<close>, for which no policy is defined, that is due from now on and comes before every other job by priority and due time; the
  tick's batch and its workspace's share are at least one. Then, as the tick is one transaction, the work on all other jobs is undone
  with it and it is due again at the next tick: after any number of ticks none has been counted, an error is on record, and
  every row of the database, the other workspaces' due jobs included, is as it was.
\<close>

theorem raising_job_blocks_scheduler:
  assumes "distinct (map js_id (jobs s))" "j \<in> set (jobs s)" "js_job_type j = RECURRING" "js_status j = JobScheduleStatus.PENDING"
    and "js_id j \<notin> set (locks s)" "\<forall>k \<ge> tick s. js_run_after j \<le> clock s k"
    and "\<forall>i \<in> set (jobs s). i \<noteq> j \<longrightarrow> (- js_priority j, js_run_after j) < (- js_priority i, js_run_after i)"
    and "1 \<le> scheduler_batch_size (cfg s)" "1 \<le> configured_tick_limit (js_workspace_id j) s"
  shows "\<exists>k a'. (scheduler_tick h ^^ Suc n) (a, s) = (a', s\<lparr>tick := k\<rparr>)
    \<and> scheduler_ticks a' = scheduler_ticks a \<and> scheduler_last_error a' \<noteq> None"
proof -
  have o: "comes_first j s" using assms(2,7) by (simp add: comes_first_def job_rank_def)
  have one: "\<exists>k' m. scheduler_tick h (b, s\<lparr>tick := k\<rparr>) = (b\<lparr>scheduler_last_error := Some m\<rparr>, s\<lparr>tick := k'\<rparr>) \<and> k \<le> k'"
    if k: "tick s \<le> k" for b k
  proof -
    let ?s = "s\<lparr>tick := k\<rparr>"
    have "comes_first j ?s" using o by (simp add: comes_first_def)
    moreover have "configured_tick_limit (js_workspace_id j) ?s = configured_tick_limit (js_workspace_id j) s"
      by (simp add: configured_tick_limit_def)
    ultimately obtain e s' where e: "scheduler_work h ?s = (Inl e, s')"
      using scheduler_work_raises [of ?s j h] assms(1,3,4,5,6,8,9) k by auto
    moreover have "k \<le> tick s'" using scheduler_work_tick [of ?s h] e by simp
    ultimately show ?thesis
      by (intro exI [of _ "tick s'"] exI [of _ "exn_str e"]) (simp add: scheduler_tick_def transaction_exec)
  qed
  have "\<exists>k a'. (scheduler_tick h ^^ n) (a, s) = (a', s\<lparr>tick := k\<rparr>) \<and> tick s \<le> k \<and> scheduler_ticks a' = scheduler_ticks a" for n
  proof (induction n)
    case 0
    show ?case by (intro exI [of _ "tick s"] exI [of _ a]) simp
  next
    case (Suc n)
    then obtain k a' where "(scheduler_tick h ^^ n) (a, s) = (a', s\<lparr>tick := k\<rparr>)" "tick s \<le> k" "scheduler_ticks a' = scheduler_ticks a"
      by blast
    moreover from one [OF this(2), of a'] obtain k' m where
      "scheduler_tick h (a', s\<lparr>tick := k\<rparr>) = (a'\<lparr>scheduler_last_error := Some m\<rparr>, s\<lparr>tick := k'\<rparr>)" "k \<le> k'" by blast
    ultimately show ?case by (intro exI [of _ k'] exI [of _ "a'\<lparr>scheduler_last_error := Some m\<rparr>"]) simp
  qed
  from this [of n] obtain k a' where "(scheduler_tick h ^^ n) (a, s) = (a', s\<lparr>tick := k\<rparr>)" "tick s \<le> k" "scheduler_ticks a' = scheduler_ticks a"
    by blast
  moreover from one [OF this(2), of a'] obtain k' m where
    "scheduler_tick h (a', s\<lparr>tick := k\<rparr>) = (a'\<lparr>scheduler_last_error := Some m\<rparr>, s\<lparr>tick := k'\<rparr>)" by blast
  ultimately show ?thesis by (intro exI [of _ k'] exI [of _ "a'\<lparr>scheduler_last_error := Some m\<rparr>"]) simp
qed

section \<open>Witnesses\<close>

lemma stale_workers_swept_witness:
  "\<exists>s'. mark_stale_workers_offline 90 (Some 2000) sample_db = (Inr [20], s') \<and> map wr_status (workers s') = [OFFLINE]
    \<and> mark_stale_workers_offline 90 (Some 2000) s' = (Inr [], s')"
  using stale_workers_swept [of 90 2000 sample_db]
  by (simp add: fixture stale_worker_def unlocked_def taken_offline_def)

lemma liveness_bands_witness:
  "compute_liveness (Some 1000) (Some 1090) 30 90 sample_db = (Inr LIVENESS_DEAD, sample_db) \<and> \<not> stale_worker 90 1090 sample_worker"
proof -
  have 1: "compute_liveness (wr_last_heartbeat_at sample_worker) (Some 1090) 30 90 sample_db = (Inr LIVENESS_DEAD, sample_db)"
    by (simp add: compute_liveness_def exec sample_worker_def Let_def)
  from liveness_bands [OF _ 1] show ?thesis using 1 by (simp add: sample_worker_def stale_worker_def)
qed

definition silent_db :: db where
  "silent_db = sample_db\<lparr>workers := [sample_worker\<lparr>wr_last_heartbeat_at := Some 0, wr_current_load := 2\<rparr>],
     assignments := held_and_locked, locks := [31]\<rparr>"

lemma maintenance_frees_offline_workers_witness:
  "\<exists>s'. maintenance_work silent_db = (Inr [20], s') \<and> map wr_id (workers s') = [20] \<and> map wr_status (workers s') = [OFFLINE]
    \<and> length (assignments s') = 2 \<and> (\<forall>a\<in>set (assignments s'). sa_worker_id a = Some 20
        \<and> sa_status a \<in> {StageAssignmentStatus.DISPATCHED, ACKNOWLEDGED} \<longrightarrow> sa_id a = 31)"
proof -
  have m: "fst (maintenance_work silent_db) = Inr [20]" "length (assignments (snd (maintenance_work silent_db))) = 2"
    by (simp_all add: maintenance_work_def mark_stale_workers_offline_def select_stale_worker_ids_def reap_offline_worker_def
        reap_expired_leases_def expired_leases_def evaluate_all_active_workspaces_def
        stale_worker_def taken_offline_def the_or_def exec silent_db_def held_and_locked_def held_assignment_def sample
        recovery_ops spend_ops workflow_ops numeral_2_eq_2 Let_def default_settings_def
        evaluate_workspace_backpressure_def bp_limits_def concurrency_limit_row_def bp_row_def bp_store_def bp_emit_def
        classify_depth_def pending_depth_def del: One_nat_def)
  then obtain s' where s': "maintenance_work silent_db = (Inr [20], s')" by (metis prod.collapse)
  have d: "distinct (map sa_id (assignments silent_db))" "1 \<le> assignment_reaper_batch_size (cfg silent_db)"
    by (simp_all add: silent_db_def held_and_locked_def held_assignment_def sample default_settings_def)
  have "locks silent_db = [31]" "map wr_id (workers silent_db) = [20]"
    by (simp_all add: silent_db_def sample)
  with maintenance_frees_offline_workers [OF d s'] m(2) s' show ?thesis by (auto simp: map_eq_Cons_conv Cons_eq_map_conv)
qed

definition blocked_db :: db where
  "blocked_db = sample_db\<lparr>jobs := [(sample_job 70 1 0 5)\<lparr>js_job_type := RECURRING\<rparr>, sample_job 71 2 0 0]\<rparr>"

lemma raising_job_blocks_scheduler_witness:
  "\<exists>k a. (scheduler_tick ''host'' ^^ Suc 9) (initial_automation, blocked_db) = (a, blocked_db\<lparr>tick := k\<rparr>)
    \<and> scheduler_ticks a = 0 \<and> scheduler_last_error a \<noteq> None
    \<and> js_workspace_id (sample_job 71 2 0 0) = 2 \<and> sample_job 71 2 0 0 \<in> set (jobs blocked_db)"
proof -
  let ?j = "(sample_job 70 1 0 5)\<lparr>js_job_type := RECURRING\<rparr>"
  have p: "distinct (map js_id (jobs blocked_db))" "?j \<in> set (jobs blocked_db)" "js_job_type ?j = RECURRING"
    "js_status ?j = JobScheduleStatus.PENDING" "js_id ?j \<notin> set (locks blocked_db)"
    "\<forall>k \<ge> tick blocked_db. js_run_after ?j \<le> clock blocked_db k"
    "\<forall>i \<in> set (jobs blocked_db). i \<noteq> ?j \<longrightarrow> (- js_priority ?j, js_run_after ?j) < (- js_priority i, js_run_after i)"
    "1 \<le> scheduler_batch_size (cfg blocked_db)" "1 \<le> configured_tick_limit (js_workspace_id ?j) blocked_db"
    by (simp_all add: blocked_db_def sample_job_def new_job_def fixture configured_tick_limit_def scheduler_consts add_nonneg_nonneg)
  have "scheduler_ticks initial_automation = 0" by (simp add: initial_automation_def)
  with raising_job_blocks_scheduler [OF p, where h = "''host''" and n = 9 and a = initial_automation]
  show ?thesis by (simp add: blocked_db_def sample_job_def new_job_def)
qed

end
