(* ===== verification/Sha256.thy ===== *)
theory Sha256 imports PyLib "HOL-Library.Word" begin

text \<open>
  \<open>hashlib.sha256(text.encode("utf-8")).hexdigest()\<close>, the digest under which worker secrets and script fingerprints
  are stored: FIPS 180-4 on 32-bit words, with the HMAC and PBKDF2 over it that hash passwords. Text characters are code points below 256.
\<close>

unbundle bit_operations_syntax

section \<open>Bytes\<close>

definition encode_utf8 :: "string \<Rightarrow> nat list" where
  "encode_utf8 s = concat (map (\<lambda>c. let k = (of_char c :: nat) in
     if k < 128 then [k] else [192 + k div 64, 128 + k mod 64]) s)"

definition word_of_bytes :: "nat list \<Rightarrow> 32 word" where
  "word_of_bytes bs = foldl (\<lambda>acc b. push_bit 8 acc OR of_nat b) 0 bs"

fun chunks :: "nat \<Rightarrow> nat \<Rightarrow> 'a list \<Rightarrow> 'a list list" where
  "chunks 0 n xs = []"
| "chunks (Suc k) n xs = take n xs # chunks k n (drop n xs)"

text \<open>The message, a one bit, zeros up to 56 modulo 64 bytes, and the bit length in eight bytes.\<close>

definition sha_pad :: "nat list \<Rightarrow> nat list" where
  "sha_pad bs = (let n = length bs in
     bs @ [128] @ replicate ((119 - n mod 64) mod 64) 0 @ map (\<lambda>i. 8 * n div 256 ^ (7 - i) mod 256) [0..<8])"

section \<open>The compression function\<close>

definition rotr :: "nat \<Rightarrow> 32 word \<Rightarrow> 32 word" where
  "rotr n x = drop_bit n x OR push_bit (32 - n) x"

definition small_sigma0 :: "32 word \<Rightarrow> 32 word" where
  "small_sigma0 x = rotr 7 x XOR rotr 18 x XOR drop_bit 3 x"

definition small_sigma1 :: "32 word \<Rightarrow> 32 word" where
  "small_sigma1 x = rotr 17 x XOR rotr 19 x XOR drop_bit 10 x"

definition big_sigma0 :: "32 word \<Rightarrow> 32 word" where
  "big_sigma0 x = rotr 2 x XOR rotr 13 x XOR rotr 22 x"

definition big_sigma1 :: "32 word \<Rightarrow> 32 word" where
  "big_sigma1 x = rotr 6 x XOR rotr 11 x XOR rotr 25 x"

text \<open>
  The constants: the first 32 fractional bits of the cube roots of the first 64 primes, and of the square roots of the
  first 8, found bit by bit.
\<close>

primrec iroot :: "nat \<Rightarrow> nat \<Rightarrow> nat \<Rightarrow> nat \<Rightarrow> nat" where
  "iroot k n 0 r = r"
| "iroot k n (Suc b) r = iroot k n b (if (r + 2 ^ b) ^ k \<le> n then r + 2 ^ b else r)"

definition primes_below :: "nat \<Rightarrow> nat list" where
  "primes_below m = filter (\<lambda>n. list_all (\<lambda>d. n mod d \<noteq> 0) [2..<n]) [2..<m]"

definition sha_k :: "32 word list" where
  "sha_k = map (\<lambda>p. of_nat (iroot 3 (p * 2 ^ 96) 36 0)) (primes_below 312)"

definition sha_init :: "32 word list" where
  "sha_init = map (\<lambda>p. of_nat (iroot 2 (p * 2 ^ 64) 36 0)) [2, 3, 5, 7, 11, 13, 17, 19]"

primrec sha_extend :: "nat \<Rightarrow> 32 word list \<Rightarrow> 32 word list" where
  "sha_extend 0 w = w"
| "sha_extend (Suc k) w = (let n = length w in sha_extend k
     (w @ [small_sigma1 (w ! (n - 2)) + w ! (n - 7) + small_sigma0 (w ! (n - 15)) + w ! (n - 16)]))"

fun sha_round :: "32 word list \<Rightarrow> 32 word \<times> 32 word \<Rightarrow> 32 word list" where
  "sha_round [a, b, c, d, e, f, g, h] (k, w) =
     (let t1 = h + big_sigma1 e + ((e AND f) XOR (NOT e AND g)) + k + w;
          t2 = big_sigma0 a + ((a AND b) XOR (a AND c) XOR (b AND c))
      in [t1 + t2, a, b, c, d + t1, e, f, g])"
| "sha_round st kw = st"

definition sha_block :: "32 word list \<Rightarrow> nat list \<Rightarrow> 32 word list" where
  "sha_block st block =
     (let w = sha_extend 48 (map word_of_bytes (chunks 16 4 block))
      in map2 (+) st (foldl sha_round st (zip sha_k w)))"

section \<open>The digest\<close>

definition hex32 :: "32 word \<Rightarrow> string" where
  "hex32 x = map (\<lambda>i. digit_char (unat (drop_bit (28 - 4 * i) x AND 15))) [0..<8]"

definition sha256_words :: "nat list \<Rightarrow> 32 word list" where
  "sha256_words bs = (let p = sha_pad bs in foldl sha_block sha_init (chunks (length p div 64) 64 p))"

definition sha256_hex :: "string \<Rightarrow> string" where
  "sha256_hex s = concat (map hex32 (sha256_words (encode_utf8 s)))"

text \<open>The digest's bytes, HMAC (RFC 2104) and the one block of PBKDF2 (RFC 8018) of the digest's length.\<close>

definition sha256_bytes :: "nat list \<Rightarrow> nat list" where
  "sha256_bytes bs = concat (map (\<lambda>w. map (\<lambda>i. unat (drop_bit (24 - 8 * i) w AND 255)) [0..<4]) (sha256_words bs))"

definition hmac_sha256 :: "nat list \<Rightarrow> nat list \<Rightarrow> nat list" where
  "hmac_sha256 key msg =
     (let k = (if 64 < length key then sha256_bytes key else key);
          k0 = k @ replicate (64 - length k) 0
      in sha256_bytes (map (\<lambda>b. b XOR 92) k0 @ sha256_bytes (map (\<lambda>b. b XOR 54) k0 @ msg)))"

primrec pbkdf2_rounds :: "nat \<Rightarrow> nat list \<Rightarrow> nat list \<Rightarrow> nat list \<Rightarrow> nat list" where
  "pbkdf2_rounds 0 key u acc = acc"
| "pbkdf2_rounds (Suc n) key u acc = (let u' = hmac_sha256 key u in pbkdf2_rounds n key u' (map2 (XOR) acc u'))"

definition pbkdf2_sha256 :: "nat list \<Rightarrow> nat list \<Rightarrow> nat \<Rightarrow> nat list" where
  "pbkdf2_sha256 password salt rounds =
     (let u = hmac_sha256 password (salt @ [0, 0, 0, 1]) in pbkdf2_rounds (rounds - 1) password u u)"

definition hex_bytes :: "nat list \<Rightarrow> string" where
  "hex_bytes bs = concat (map (\<lambda>b. [digit_char (b div 16), digit_char (b mod 16)]) bs)"

lemma sha_round_length: "length (sha_round st kw) = length st"
  by (cases "(st, kw)" rule: sha_round.cases) (simp_all add: Let_def)

lemma foldl_round_length: "length (foldl sha_round st kws) = length st"
  by (induction kws arbitrary: st) (simp_all add: sha_round_length)

lemma sha_block_length: "length (sha_block st b) = length st"
  by (simp add: sha_block_def Let_def foldl_round_length)

lemma sha256_hex_length: "length (sha256_hex s) = 64"
proof -
  have b: "length (foldl sha_block st bs) = length st" for st bs
    by (induction bs arbitrary: st) (simp_all add: sha_block_length)
  have "length (sha256_words bs) = 8" for bs
    by (simp add: sha256_words_def Let_def b sha_init_def)
  moreover have "length (concat (map hex32 ws)) = 8 * length ws" for ws
    by (induction ws) (simp_all add: hex32_def)
  ultimately show ?thesis by (simp add: sha256_hex_def)
qed

lemma sha256_hex_nonempty [simp]: "sha256_hex s \<noteq> []"
  using sha256_hex_length [of s] by force

end
