(* ===== verification/WorkerAuth.thy ===== *)
theory WorkerAuth imports Ticks Sha256 begin

text \<open>
  Machine and workspace authentication: \<open>core/worker_auth.py\<close> (a worker's bearer credential), the role guards of
  \<open>core/authorization.py\<close>, and the administrator's half of \<open>api/routes/workers.py\<close>: provisioning, draining, rotating
  and revoking. A route's session is a \<open>transaction\<close>; its audit line is left out. The users' JWT is verified by a
  library, so the guards take the verified user id.
\<close>

section \<open>Worker credentials\<close>

record AuthenticatedWorker =
  aw_worker_id :: uuid
  aw_credential_id :: uuid
  aw_workspace_id :: uuid

definition DUMMY_HASH :: string where
  "DUMMY_HASH = sha256_hex ''nonexistent-credential-dummy''"

definition hash_worker_secret :: "string \<Rightarrow> string" where
  "hash_worker_secret secret = sha256_hex secret"

definition generate_worker_secret :: "string M" where
  "generate_worker_secret = token_urlsafe"

definition unauthorized :: exn where
  "unauthorized = HTTPException 401 ''invalid worker credentials''"

text \<open>\<open>s.partition(sep)\<close> for a one-character separator: the part before, whether it occurs, the part after.\<close>

definition partition_at :: "char \<Rightarrow> string \<Rightarrow> string \<times> bool \<times> string" where
  "partition_at sep s = (takeWhile (\<lambda>c. c \<noteq> sep) s, sep \<in> set s, tl (dropWhile (\<lambda>c. c \<noteq> sep) s))"

definition credential_expired :: "WorkerCredential \<Rightarrow> datetime \<Rightarrow> bool" where
  "credential_expired c now \<longleftrightarrow> (case wc_expires_at c of None \<Rightarrow> False | Some e \<Rightarrow> e \<le> now)"

definition authenticate :: "uuid \<Rightarrow> string \<Rightarrow> AuthenticatedWorker M" where
  "authenticate credential_id secret =
     bindM (query_one (\<lambda>s. filter (\<lambda>c. wc_id c = credential_id) (credentials s))) (\<lambda>credential.
     let stored_hash = (case credential of Some c \<Rightarrow> wc_secret_hash c | None \<Rightarrow> DUMMY_HASH);
         secret_ok = (hash_worker_secret secret = stored_hash) in
     case credential of
       None \<Rightarrow> raise unauthorized
     | Some c \<Rightarrow>
         if \<not> secret_ok then raise unauthorized
         else if wc_status c \<noteq> WorkerCredentialStatus.ACTIVE then raise unauthorized
         else bindM utcnow (\<lambda>now.
           if credential_expired c now then raise unauthorized
           else ret \<lparr> aw_worker_id = wc_worker_id c, aw_credential_id = wc_id c,
                      aw_workspace_id = wc_workspace_id c \<rparr>))"

definition get_current_worker :: "string option \<Rightarrow> AuthenticatedWorker M" where
  "get_current_worker bearer =
     (case bearer of
        None \<Rightarrow> raise unauthorized
      | Some token \<Rightarrow>
          (case partition_at (CHR ''.'') token of (credential_id_raw, sep, secret) \<Rightarrow>
           if \<not> sep \<or> secret = [] then raise unauthorized
           else (case uuid_of_str credential_id_raw of
               Inl e \<Rightarrow> raise unauthorized
             | Inr credential_id \<Rightarrow> authenticate credential_id secret)))"

section \<open>Workspace roles\<close>

definition get_membership :: "uuid \<Rightarrow> uuid \<Rightarrow> WorkspaceMembership option M" where
  "get_membership workspace_id user_id =
     query_one (\<lambda>s. filter (\<lambda>m. mb_workspace_id m = workspace_id \<and> mb_user_id m = user_id) (memberships s))"

definition require_workspace_member :: "uuid \<Rightarrow> uuid \<Rightarrow> WorkspaceMembership M" where
  "require_workspace_member workspace_id user_id =
     bindM (get_membership workspace_id user_id) (\<lambda>membership.
     case membership of
       None \<Rightarrow> raise (HTTPException 403 ''not a member of this workspace'')
     | Some m \<Rightarrow> ret m)"

definition require_workspace_role :: "WorkspaceRole list \<Rightarrow> uuid \<Rightarrow> uuid \<Rightarrow> WorkspaceMembership M" where
  "require_workspace_role allowed_roles workspace_id user_id =
     bindM (get_membership workspace_id user_id) (\<lambda>membership.
     case membership of
       None \<Rightarrow> raise (HTTPException 403 ''not a member of this workspace'')
     | Some m \<Rightarrow>
         if mb_role m \<notin> set allowed_roles then
           raise (HTTPException 403 (''requires one of: '' @ join '', '' (map workspace_role_value allowed_roles)))
         else ret m)"

definition require_workspace_admin :: "uuid \<Rightarrow> uuid \<Rightarrow> WorkspaceMembership M" where
  "require_workspace_admin = require_workspace_role [WorkspaceRole.ADMIN]"

definition require_workspace_content_author :: "uuid \<Rightarrow> uuid \<Rightarrow> WorkspaceMembership M" where
  "require_workspace_content_author = require_workspace_role [WorkspaceRole.ADMIN, WorkspaceRole.EDITOR]"

definition require_workspace_reviewer :: "uuid \<Rightarrow> uuid \<Rightarrow> WorkspaceMembership M" where
  "require_workspace_reviewer = require_workspace_role [WorkspaceRole.ADMIN, WorkspaceRole.REVIEWER]"

section \<open>The administrator's routes\<close>

record WorkerOut =
  wo_id :: uuid
  wo_workspace_id :: "uuid option"
  wo_name :: string
  wo_status :: WorkerStatus
  wo_liveness :: string
  wo_drain :: bool
  wo_supported_stages :: "stage list"
  wo_capabilities :: "json option"
  wo_worker_version :: "string option"
  wo_max_concurrency :: int
  wo_current_load :: int
  wo_health_score :: int
  wo_last_heartbeat_at :: "datetime option"
  wo_registered_at :: datetime
  wo_deregistered_at :: "datetime option"

definition worker_out :: "WorkerRegistration \<Rightarrow> WorkerOut M" where
  "worker_out r =
     bindM (gets (\<lambda>s. worker_suspect_after_seconds (cfg s))) (\<lambda>suspect.
     bindM (gets (\<lambda>s. worker_offline_after_seconds (cfg s))) (\<lambda>offline.
     bindM (compute_liveness (wr_last_heartbeat_at r) None suspect offline) (\<lambda>live.
     ret \<lparr> wo_id = wr_id r, wo_workspace_id = wr_workspace_id r, wo_name = wr_name r, wo_status = wr_status r,
           wo_liveness = live, wo_drain = wr_drain r, wo_supported_stages = wr_supported_stages r,
           wo_capabilities = wr_capabilities r, wo_worker_version = wr_worker_version r,
           wo_max_concurrency = wr_max_concurrency r, wo_current_load = wr_current_load r,
           wo_health_score = wr_health_score r, wo_last_heartbeat_at = wr_last_heartbeat_at r,
           wo_registered_at = wr_registered_at r, wo_deregistered_at = wr_deregistered_at r \<rparr>)))"

definition new_credential :: "uuid \<Rightarrow> uuid \<Rightarrow> uuid \<Rightarrow> string \<Rightarrow> WorkerCredential" where
  "new_credential i worker_id workspace_id secret =
     \<lparr> wc_id = i, wc_worker_id = worker_id, wc_workspace_id = workspace_id,
       wc_secret_hash = hash_worker_secret secret, wc_status = WorkerCredentialStatus.ACTIVE,
       wc_rotated_at = None, wc_expires_at = None \<rparr>"

text \<open>The text a worker is configured with, \<open><credential_id>.<secret>\<close>.\<close>

definition worker_secret_text :: "uuid \<Rightarrow> string \<Rightarrow> string" where
  "worker_secret_text credential_id secret = str_uuid credential_id @ ''.'' @ secret"

record WorkerProvisionIn =
  wpi_name :: string
  wpi_supported_stages :: "stage list"
  wpi_max_concurrency :: int

record WorkerProvisionOut =
  wpo_worker_id :: uuid
  wpo_credential_id :: uuid
  wpo_worker_secret :: string
  wpo_workspace_id :: uuid

definition new_registration :: "uuid \<Rightarrow> uuid \<Rightarrow> WorkerProvisionIn \<Rightarrow> datetime \<Rightarrow> uuid \<Rightarrow> WorkerRegistration" where
  "new_registration i workspace_id payload now inst =
     \<lparr> wr_id = i, wr_workspace_id = Some workspace_id, wr_name = wpi_name payload,
       wr_supported_stages = wpi_supported_stages payload, wr_capabilities = None, wr_status = OFFLINE,
       wr_max_concurrency = wpi_max_concurrency payload, wr_current_load = 0, wr_health_score = 100,
       wr_last_heartbeat_at = None, wr_registered_at = now, wr_instance_key = str_uuid inst,
       wr_worker_version = None, wr_drain = False, wr_deregistered_at = None \<rparr>"

definition provision_worker :: "uuid \<Rightarrow> WorkerProvisionIn \<Rightarrow> uuid \<Rightarrow> WorkerProvisionOut M" where
  "provision_worker workspace_id payload user_id =
     andThen (require_workspace_admin workspace_id user_id) (
     bindM generate_worker_secret (\<lambda>secret.
     bindM (transaction (
       bindM utcnow (\<lambda>now.
       bindM uuid4 (\<lambda>worker_id.
       bindM uuid4 (\<lambda>inst.
       andThen (add_worker (new_registration worker_id workspace_id payload now inst)) (
       bindM uuid4 (\<lambda>credential_id.
       andThen (add_credential (new_credential credential_id worker_id workspace_id secret))
         (ret (worker_id, credential_id))))))))) (\<lambda>(worker_id, credential_id).
     ret \<lparr> wpo_worker_id = worker_id, wpo_credential_id = credential_id,
           wpo_worker_secret = worker_secret_text credential_id secret, wpo_workspace_id = workspace_id \<rparr>)))"

definition list_workers :: "uuid \<Rightarrow> uuid \<Rightarrow> WorkerOut list M" where
  "list_workers workspace_id user_id =
     andThen (require_workspace_member workspace_id user_id) (
     bindM (query (\<lambda>s. sort_key (\<lambda>w. - wr_registered_at w)
       (filter (\<lambda>w. wr_workspace_id w = Some workspace_id) (workers s)))) (\<lambda>rows. mapM rows worker_out))"

definition get_workspace_worker :: "uuid \<Rightarrow> uuid \<Rightarrow> WorkerRegistration M" where
  "get_workspace_worker workspace_id worker_id =
     bindM (query_one (\<lambda>s. filter (\<lambda>w. wr_id w = worker_id \<and> wr_workspace_id w = Some workspace_id) (workers s)))
       (\<lambda>registration.
     case registration of
       None \<Rightarrow> raise (HTTPException 404 ''worker not found'')
     | Some r \<Rightarrow> ret r)"

definition get_worker :: "uuid \<Rightarrow> uuid \<Rightarrow> uuid \<Rightarrow> WorkerOut M" where
  "get_worker workspace_id worker_id user_id =
     andThen (require_workspace_member workspace_id user_id) (
     bindM (get_workspace_worker workspace_id worker_id) worker_out)"

definition list_worker_heartbeats :: "uuid \<Rightarrow> uuid \<Rightarrow> uuid \<Rightarrow> int \<Rightarrow> WorkerHeartbeat list M" where
  "list_worker_heartbeats workspace_id worker_id user_id limit =
     andThen (require_workspace_admin workspace_id user_id) (
     andThen (get_workspace_worker workspace_id worker_id) (
     query (\<lambda>s. limit_rows (min (max limit 1) 1000) (sort_key (\<lambda>h. - whb_heartbeat_at h)
       (filter (\<lambda>h. whb_worker_id h = worker_id) (heartbeats s))))))"

definition set_worker_drain :: "uuid \<Rightarrow> uuid \<Rightarrow> bool \<Rightarrow> uuid \<Rightarrow> WorkerOut M" where
  "set_worker_drain workspace_id worker_id drain user_id =
     andThen (require_workspace_admin workspace_id user_id) (
     andThen (get_workspace_worker workspace_id worker_id) (
     transaction (
       bindM (get_row workers wr_id worker_id) (\<lambda>registration.
       case registration of
         None \<Rightarrow> raise (HTTPException 404 ''worker not found'')
       | Some r \<Rightarrow>
           andThen (set_worker worker_id (wr_drain_update (\<lambda>_. drain))) (
           bindM (the_worker worker_id) worker_out)))))"

definition active_credentials :: "uuid \<Rightarrow> db \<Rightarrow> WorkerCredential list" where
  "active_credentials worker_id s =
     filter (\<lambda>c. wc_worker_id c = worker_id \<and> wc_status c = WorkerCredentialStatus.ACTIVE) (credentials s)"

text \<open>What a rotation leaves of a credential that was active before it.\<close>

definition retire :: "datetime \<Rightarrow> datetime \<Rightarrow> WorkerCredential \<Rightarrow> WorkerCredential" where
  "retire now grace_until c = c\<lparr> wc_rotated_at := Some now,
     wc_expires_at := (case wc_expires_at c of
        None \<Rightarrow> Some grace_until
      | Some e \<Rightarrow> if e > grace_until then Some grace_until else Some e) \<rparr>"

record CredentialRotateOut =
  cro_credential_id :: uuid
  cro_worker_secret :: string
  cro_previous_expires_at :: "datetime option"

definition rotate_worker_credential :: "uuid \<Rightarrow> uuid \<Rightarrow> uuid \<Rightarrow> CredentialRotateOut M" where
  "rotate_worker_credential workspace_id worker_id user_id =
     andThen (require_workspace_admin workspace_id user_id) (
     andThen (get_workspace_worker workspace_id worker_id) (
     bindM generate_worker_secret (\<lambda>secret.
     bindM utcnow (\<lambda>now.
     bindM (gets (\<lambda>s. now + of_int (worker_credential_rotation_grace_seconds (cfg s)))) (\<lambda>grace_until.
     bindM (transaction (
       bindM (query (active_credentials worker_id)) (\<lambda>olds.
       andThen (forM olds (\<lambda>old. set_credential (wc_id old) (retire now grace_until))) (
       bindM uuid4 (\<lambda>credential_id.
       andThen (add_credential (new_credential credential_id worker_id workspace_id secret))
         (ret credential_id)))))) (\<lambda>credential_id.
     ret \<lparr> cro_credential_id = credential_id, cro_worker_secret = worker_secret_text credential_id secret,
           cro_previous_expires_at = Some grace_until \<rparr>))))))"

definition revoke_worker_credentials :: "uuid \<Rightarrow> uuid \<Rightarrow> uuid \<Rightarrow> int M" where
  "revoke_worker_credentials workspace_id worker_id user_id =
     andThen (require_workspace_admin workspace_id user_id) (
     andThen (get_workspace_worker workspace_id worker_id) (
     transaction (
       bindM (query (active_credentials worker_id)) (\<lambda>actives.
       andThen (forM actives (\<lambda>c. set_credential (wc_id c) (wc_status_update (\<lambda>_. WorkerCredentialStatus.REVOKED)))) (
       bindM (reap_worker_assignments worker_id WORKER_REVOKED None None None) (\<lambda>_.
       bindM (get_row workers wr_id worker_id) (\<lambda>registration.
       andThen (case registration of
           None \<Rightarrow> ret ()
         | Some r \<Rightarrow> whenM (wr_deregistered_at r = None)
             (set_worker worker_id (\<lambda>w. w\<lparr> wr_status := OFFLINE, wr_current_load := 0 \<rparr>)))
       (ret (int (length actives))))))))))"

section \<open>Footprint\<close>

lemma w_token [steps_intro]: "steps writes token_urlsafe"
  by (simp add: steps_def exec w_tick)

lemma w_authenticate [steps_intro]:
  "steps writes (authenticate i sec)" "steps writes (get_current_worker b)" "steps writes (get_membership ws u)"
  "steps writes (require_workspace_member ws u)" "steps writes (require_workspace_role rs ws u)"
  "steps writes (require_workspace_admin ws u)" "steps writes (get_workspace_worker ws i)" "steps writes (worker_out r)"
  "steps writes generate_worker_secret"
  unfolding authenticate_def get_current_worker_def get_membership_def require_workspace_member_def
    require_workspace_role_def require_workspace_admin_def get_workspace_worker_def worker_out_def
    generate_worker_secret_def compute_liveness_def Let_def
  by (intro steps_intro)+

lemma w_worker_admin [steps_intro]:
  "steps writes (provision_worker ws p u)" "steps writes (set_worker_drain ws i d u)"
  "steps writes (rotate_worker_credential ws i u)" "steps writes (revoke_worker_credentials ws i u)"
  unfolding provision_worker_def set_worker_drain_def rotate_worker_credential_def revoke_worker_credentials_def
  by (intro steps_intro; simp add: write_preds credential_write_def retire_def)+

text \<open>The guards change nothing.\<close>

lemma filter_single: "filter P xs = [x] \<Longrightarrow> x \<in> set xs \<and> P x"
  by (metis (mono_tags, lifting) list.set_intros(1) mem_Collect_eq set_filter)

lemma get_membership_state: "snd (get_membership ws u s) = s"
  by (simp add: get_membership_def exec)

lemma require_role_state: "snd (require_workspace_role rs ws u s) = s"
  by (simp add: require_workspace_role_def get_membership_def exec split: sum.split option.split)

lemma require_admin_Inr:
  assumes "require_workspace_admin ws u s = (Inr m, s')"
  shows "s' = s \<and> m \<in> set (memberships s) \<and> mb_workspace_id m = ws \<and> mb_user_id m = u \<and> mb_role m = WorkspaceRole.ADMIN"
proof -
  let ?ms = "filter (\<lambda>m. mb_workspace_id m = ws \<and> mb_user_id m = u) (memberships s)"
  have "?ms = [m]" "mb_role m = WorkspaceRole.ADMIN" "s' = s"
    using assms by (auto simp: require_workspace_admin_def require_workspace_role_def get_membership_def exec
        scalar_one_or_none_Some split: sum.splits option.splits if_splits)
  with filter_single [OF this(1)] show ?thesis by simp
qed

lemma get_workspace_worker_Inr:
  assumes "get_workspace_worker ws i s = (Inr w, s')"
  shows "s' = s \<and> w \<in> set (workers s) \<and> wr_id w = i \<and> wr_workspace_id w = Some ws"
proof -
  let ?ms = "filter (\<lambda>w. wr_id w = i \<and> wr_workspace_id w = Some ws) (workers s)"
  have "?ms = [w]" "s' = s"
    using assms by (auto simp: get_workspace_worker_def exec scalar_one_or_none_Some split: sum.splits option.splits)
  with filter_single [OF this(1)] show ?thesis by simp
qed

text \<open>What runs behind a guard runs in the state the guard saw.\<close>

lemma past_admin:
  assumes "andThen (require_workspace_admin ws u) m s = (Inr x, s')"
  shows "(\<exists>mb. require_workspace_admin ws u s = (Inr mb, s)) \<and> m s = (Inr x, s')"
  using assms require_role_state [of "[WorkspaceRole.ADMIN]" ws u s]
  by (cases "require_workspace_admin ws u s") (auto simp: andThen_exec require_workspace_admin_def split: sum.splits)

lemma past_worker:
  assumes "andThen (get_workspace_worker ws i) m s = (Inr x, s')"
  shows "(\<exists>w. get_workspace_worker ws i s = (Inr w, s)) \<and> m s = (Inr x, s')"
  using assms
  by (cases "get_workspace_worker ws i s") (auto simp: andThen_exec dest: get_workspace_worker_Inr split: sum.splits)

section \<open>Authentication\<close>

lemma filter_by_key:
  assumes "distinct (map key rows)"
  shows "filter (\<lambda>r. key r = i) rows = (case row_get key i rows of None \<Rightarrow> [] | Some r \<Rightarrow> [r])"
  using assms
proof (induction rows)
  case (Cons r rows)
  show ?case
  proof (cases "key r = i")
    case True
    with Cons.prems have "row_get key i rows = None" by (auto simp: row_get_None_iff)
    with True Cons show ?thesis by simp
  next
    case False
    with Cons show ?thesis by simp
  qed
qed simp

lemma authenticate_exec:
  assumes "distinct (map wc_id (credentials s))"
  shows "authenticate i sec s =
    (case row_get wc_id i (credentials s) of
       None \<Rightarrow> (Inl unauthorized, s)
     | Some c \<Rightarrow>
         if hash_worker_secret sec \<noteq> wc_secret_hash c \<or> wc_status c \<noteq> WorkerCredentialStatus.ACTIVE then (Inl unauthorized, s)
         else if credential_expired c (clock s (tick s)) then (Inl unauthorized, s\<lparr>tick := Suc (tick s)\<rparr>)
         else (Inr \<lparr> aw_worker_id = wc_worker_id c, aw_credential_id = wc_id c, aw_workspace_id = wc_workspace_id c \<rparr>,
               s\<lparr>tick := Suc (tick s)\<rparr>))"
  by (simp add: authenticate_def exec filter_by_key [OF assms] Let_def split: option.split)

lemma dead_credential_rejected:
  assumes "dead_credential i s"
  shows "\<nexists>aw. fst (authenticate i sec s) = Inr aw"
proof -
  obtain c where c: "row_get wc_id i (credentials s) = Some c" "wc_status c \<noteq> WorkerCredentialStatus.ACTIVE"
    using assms by (auto simp: dead_credential_def)
  have "row_get wc_id i (credentials s) = Some d" if "filter (\<lambda>c. wc_id c = i) (credentials s) = [d]" for d
    using that by (simp add: row_get_def find_filter)
  with c show ?thesis
    by (auto simp: authenticate_def exec Let_def scalar_one_or_none_Some split: sum.splits option.splits if_splits)
qed

lemma partition_at_first:
  assumes "sep \<notin> set a"
  shows "partition_at sep (a @ sep # b) = (a, True, b)"
proof -
  have "takeWhile (\<lambda>c. c \<noteq> sep) (a @ sep # b) = a" "dropWhile (\<lambda>c. c \<noteq> sep) (a @ sep # b) = sep # b"
    using assms by (auto simp: takeWhile_append dropWhile_append)
  then show ?thesis by (simp add: partition_at_def)
qed

lemma partition_at_found:
  assumes "partition_at sep s = (a, True, b)"
  shows "s = a @ sep # b \<and> sep \<notin> set a"
proof -
  from assms have a: "a = takeWhile (\<lambda>c. c \<noteq> sep) s" "sep \<in> set s" "b = tl (dropWhile (\<lambda>c. c \<noteq> sep) s)"
    by (simp_all add: partition_at_def)
  then have "dropWhile (\<lambda>c. c \<noteq> sep) s \<noteq> []" by (auto simp: dropWhile_eq_Nil_conv)
  then have "dropWhile (\<lambda>c. c \<noteq> sep) s = sep # b" using a hd_dropWhile [of "\<lambda>c. c \<noteq> sep" s]
    by (cases "dropWhile (\<lambda>c. c \<noteq> sep) s") auto
  then show ?thesis using a takeWhile_dropWhile_id [of "\<lambda>c. c \<noteq> sep" s] set_takeWhileD by (metis (full_types))
qed

lemma malformed_rejected:
  assumes "\<nexists>raw secret i. bearer = Some (raw @ CHR ''.'' # secret) \<and> CHR ''.'' \<notin> set raw \<and> secret \<noteq> []
    \<and> uuid_of_str raw = Inr i"
  shows "get_current_worker bearer s = (Inl unauthorized, s)"
proof (cases bearer)
  case None
  then show ?thesis by (simp add: get_current_worker_def exec)
next
  case (Some token)
  obtain raw sep sec where p: "partition_at (CHR ''.'') token = (raw, sep, sec)" by (metis prod_cases3)
  show ?thesis
  proof (cases "\<not> sep \<or> sec = []")
    case True
    then show ?thesis using Some p by (simp add: get_current_worker_def exec)
  next
    case nz: False
    with p partition_at_found [of "CHR ''.''" token raw sec] have "token = raw @ CHR ''.'' # sec" "CHR ''.'' \<notin> set raw" by auto
    with assms Some nz have "uuid_of_str raw \<noteq> Inr i" for i by auto
    then obtain e where "uuid_of_str raw = Inl e" by (cases "uuid_of_str raw") auto
    then show ?thesis using Some p nz by (simp add: get_current_worker_def exec)
  qed
qed

lemma token_parts_unique:
  assumes "(sep :: char) \<notin> set a" "sep \<notin> set a'"
  shows "a' @ sep # b' = a @ sep # b \<longleftrightarrow> a' = a \<and> b' = b"
  using partition_at_first [OF assms(1), of b] partition_at_first [OF assms(2), of b'] by (metis prod.inject)

text \<open>
  C20: Who a request is taken for. A worker is authenticated exactly by a token \<open>id.secret\<close> whose part before the
  first dot names a credential that is active, not expired by the server's clock and stored under the SHA-256 of the
  non-empty rest; every other request gets one and the same error; only the clock is read.
\<close>

theorem worker_authenticated_iff:
  assumes "distinct (map wc_id (credentials s))" and "get_current_worker bearer s = (r, s')"
  shows "((\<exists>aw. r = Inr aw) = (\<exists>raw secret c. bearer = Some (raw @ ''.'' @ secret) \<and> CHR ''.'' \<notin> set raw \<and> secret \<noteq> []
      \<and> uuid_of_str raw = Inr (wc_id c) \<and> c \<in> set (credentials s) \<and> wc_secret_hash c = sha256_hex secret
      \<and> wc_status c = WorkerCredentialStatus.ACTIVE
      \<and> (case wc_expires_at c of None \<Rightarrow> True | Some e \<Rightarrow> clock s (tick s) < e)))
    \<and> (case r of Inl e \<Rightarrow> e = HTTPException 401 ''invalid worker credentials''
       | Inr aw \<Rightarrow> \<exists>c \<in> set (credentials s). aw = \<lparr> aw_worker_id = wc_worker_id c, aw_credential_id = wc_id c,
           aw_workspace_id = wc_workspace_id c \<rparr>)
    \<and> (\<exists>n. s' = s\<lparr>tick := n\<rparr>)"
proof (cases "\<exists>raw secret i. bearer = Some (raw @ ''.'' @ secret) \<and> CHR ''.'' \<notin> set raw \<and> secret \<noteq> [] \<and> uuid_of_str raw = Inr i")
  case True
  then obtain raw secret i where b: "bearer = Some (raw @ CHR ''.'' # secret)" "CHR ''.'' \<notin> set raw" "secret \<noteq> []"
    "uuid_of_str raw = Inr i" by auto
  have p: "raw' @ CHR ''.'' # secret' = raw @ CHR ''.'' # secret \<longleftrightarrow> raw' = raw \<and> secret' = secret"
    if "CHR ''.'' \<notin> set raw'" for raw' secret'
    by (rule token_parts_unique [OF b(2) that])
  have "authenticate i secret s = (r, s')"
    using assms(2) b by (simp add: get_current_worker_def partition_at_first)
  note a = this [unfolded authenticate_exec [OF assms(1)]]
  have g: "c \<in> set (credentials s) \<Longrightarrow> wc_id c = i \<Longrightarrow> row_get wc_id i (credentials s) = Some c" for c
    using row_get_distinct [OF assms(1)] by auto
  show ?thesis
  proof (cases "row_get wc_id i (credentials s)")
    case None
    then have n: "c \<in> set (credentials s) \<Longrightarrow> wc_id c \<noteq> i" for c using g by auto
    from None a have "r = Inl unauthorized" "s' = s" by simp_all
    moreover have "wc_id c \<noteq> i" if "bearer = Some (raw' @ ''.'' @ secret')" "CHR ''.'' \<notin> set raw'"
      "uuid_of_str raw' = Inr (wc_id c)" "c \<in> set (credentials s)" for raw' secret' c
      using n [OF that(4)] .
    moreover have "uuid_of_str raw' = Inr i" if "bearer = Some (raw' @ ''.'' @ secret')" "CHR ''.'' \<notin> set raw'" for raw' secret'
      using p [OF that(2), of secret'] that(1) b by simp
    ultimately have "(\<nexists>raw secret c. bearer = Some (raw @ ''.'' @ secret) \<and> CHR ''.'' \<notin> set raw
        \<and> uuid_of_str raw = Inr (wc_id c) \<and> c \<in> set (credentials s))"
      by (metis sum.inject(2))
    with \<open>r = Inl unauthorized\<close> \<open>s' = s\<close> show ?thesis by (auto simp: unauthorized_def intro: exI [of _ "tick s"])
  next
    case (Some c)
    have c: "c \<in> set (credentials s)" "wc_id c = i" using row_get_Some [OF Some] by simp_all
    have "(\<exists>aw. r = Inr aw) \<longleftrightarrow> wc_secret_hash c = sha256_hex secret \<and> wc_status c = WorkerCredentialStatus.ACTIVE
        \<and> (case wc_expires_at c of None \<Rightarrow> True | Some e \<Rightarrow> clock s (tick s) < e)"
      using a Some by (auto simp: hash_worker_secret_def credential_expired_def split: if_splits option.splits)
    moreover have "(\<exists>raw secret c. bearer = Some (raw @ ''.'' @ secret) \<and> CHR ''.'' \<notin> set raw \<and> secret \<noteq> []
        \<and> uuid_of_str raw = Inr (wc_id c) \<and> c \<in> set (credentials s) \<and> wc_secret_hash c = sha256_hex secret
        \<and> wc_status c = WorkerCredentialStatus.ACTIVE
        \<and> (case wc_expires_at c of None \<Rightarrow> True | Some e \<Rightarrow> clock s (tick s) < e))
      \<longleftrightarrow> wc_secret_hash c = sha256_hex secret \<and> wc_status c = WorkerCredentialStatus.ACTIVE
        \<and> (case wc_expires_at c of None \<Rightarrow> True | Some e \<Rightarrow> clock s (tick s) < e)" (is "?L \<longleftrightarrow> ?R")
    proof
      assume ?L
      then obtain raw' secret' c' where l: "bearer = Some (raw' @ ''.'' @ secret')" "CHR ''.'' \<notin> set raw'"
        "uuid_of_str raw' = Inr (wc_id c')" "c' \<in> set (credentials s)" "wc_secret_hash c' = sha256_hex secret'"
        "wc_status c' = WorkerCredentialStatus.ACTIVE" "case wc_expires_at c' of None \<Rightarrow> True | Some e \<Rightarrow> clock s (tick s) < e"
        by blast
      with p [OF l(2)] b have "raw' = raw" "secret' = secret" by auto
      with l(3) b(4) have "wc_id c' = i" by simp
      with g [OF l(4)] Some have "c' = c" by simp
      with l \<open>secret' = secret\<close> show ?R by simp
    next
      assume ?R
      with b c show ?L by auto
    qed
    moreover have "\<exists>n. s' = s\<lparr>tick := n\<rparr>" using a Some by (auto split: if_splits intro: exI [of _ "tick s"])
    moreover have "case r of Inl e \<Rightarrow> e = HTTPException 401 ''invalid worker credentials''
       | Inr aw \<Rightarrow> \<exists>c \<in> set (credentials s). aw = \<lparr> aw_worker_id = wc_worker_id c, aw_credential_id = wc_id c,
           aw_workspace_id = wc_workspace_id c \<rparr>"
      using a Some c by (auto simp: unauthorized_def split: if_splits)
    ultimately show ?thesis by simp
  qed
next
  case False
  have "r = Inl unauthorized \<and> s' = s"
    using malformed_rejected [OF False [unfolded append_Cons append_Nil], of s] assms(2) by simp
  then show ?thesis using False by (auto simp: unauthorized_def intro: exI [of _ "tick s"])
qed

section \<open>Provisioning, rotation, revocation\<close>

lemma no_dot_in_id: "CHR ''.'' \<notin> set (str_uuid u)"
proof
  assume "CHR ''.'' \<in> set (str_uuid u)"
  moreover have "CHR ''.'' \<noteq> CHR ''-''" by simp
  ultimately have "CHR ''.'' \<in> set (filter (\<lambda>c. c \<noteq> CHR ''-'') (str_uuid u))" by (simp only: set_filter mem_Collect_eq) simp
  then have "char_digit CHR ''.'' < 16" using uuid_hex_chars by (simp only: filter_str_uuid)
  then show False by (simp add: char_digit_def)
qed

lemma secret_text_parsed:
  assumes "i < 16 ^ 32" "sec \<noteq> []"
  shows "get_current_worker (Some (worker_secret_text i sec)) s = authenticate i sec s"
  using assms by (simp add: get_current_worker_def worker_secret_text_def partition_at_first [OF no_dot_in_id] uuid_of_str_uuid)

lemma set_each_credential:
  assumes "distinct is" "\<And>c. wc_id (f c) = wc_id c"
  shows "forM is (\<lambda>i. set_credential i f) s
    = (Inr (), credentials_update (map (\<lambda>c. if wc_id c \<in> set is then f c else c)) s)"
  using assms(1)
proof (induction "is" arbitrary: s)
  case Nil
  then show ?case by (cases s) (simp add: ret_exec)
next
  case (Cons i js)
  have "map (\<lambda>c. if wc_id c \<in> set js then f c else c) (row_set wc_id i f cs)
      = map (\<lambda>c. if wc_id c \<in> set (i # js) then f c else c) cs" for cs
    using Cons.prems by (auto simp: row_set_def assms)
  moreover have "forM (i # js) (\<lambda>i. set_credential i f) s
      = forM js (\<lambda>i. set_credential i f) (credentials_update (row_set wc_id i f) s)"
    by (rule forM_step) (rule credential_exec(1))
  ultimately show ?case using Cons by (simp add: o_def)
qed

text \<open>The loops over the active credentials of a worker rewrite exactly those.\<close>

lemma forM_map: "forM (map g xs) f = forM xs (\<lambda>x. f (g x))"
  by (induction xs) simp_all

lemma set_active_credentials:
  assumes "distinct (map wc_id (credentials s))" "\<And>c. wc_id (f c) = wc_id c"
  shows "forM (active_credentials w s) (\<lambda>c. set_credential (wc_id c) f) s
    = (Inr (), credentials_update (\<lambda>_. map (\<lambda>c. if c \<in> set (active_credentials w s) then f c else c) (credentials s)) s)"
proof -
  let ?cs = "active_credentials w s"
  have d: "distinct (map wc_id ?cs)" using assms(1) by (simp add: active_credentials_def distinct_map_filter)
  have m: "wc_id c \<in> wc_id ` set ?cs \<longleftrightarrow> c \<in> set ?cs" if "c \<in> set (credentials s)" for c
    using that assms(1) by (auto simp: active_credentials_def distinct_map inj_on_def)
  have "forM ?cs (\<lambda>c. set_credential (wc_id c) f) s = forM (map wc_id ?cs) (\<lambda>i. set_credential i f) s"
    by (simp add: forM_map)
  also have "\<dots> = (Inr (), credentials_update (map (\<lambda>c. if wc_id c \<in> set (map wc_id ?cs) then f c else c)) s)"
    by (rule set_each_credential [OF d assms(2)])
  also have "map (\<lambda>c. if wc_id c \<in> set (map wc_id ?cs) then f c else c) (credentials s)
      = map (\<lambda>c. if c \<in> set ?cs then f c else c) (credentials s)"
    using m by (intro map_cong) auto
  then have "credentials_update (map (\<lambda>c. if wc_id c \<in> set (map wc_id ?cs) then f c else c)) s
      = credentials_update (\<lambda>_. map (\<lambda>c. if c \<in> set ?cs then f c else c) (credentials s)) s"
    by (cases s) simp
  finally show ?thesis .
qed

text \<open>
  C21: The secret a provisioning returns works, and for the new worker only: only an administrator of the workspace gets
  one; the row appended is an idle \<open>OFFLINE\<close> worker pinned to the workspace; and the text handed out, sent back as
  a bearer token, authenticates as that worker, whenever it is sent.
\<close>

theorem provisioned_worker_authenticates:
  assumes "provision_worker ws p u s = (Inr out, s')" and "distinct (map wc_id (credentials s'))"
    and "wpo_credential_id out < 16 ^ 32" and "tokens s (tick s) \<noteq> []"
    and "credentials t = credentials s'"
  shows "(\<exists>m \<in> set (memberships s). mb_workspace_id m = ws \<and> mb_user_id m = u \<and> mb_role m = WorkspaceRole.ADMIN)
    \<and> (\<exists>w. workers s' = workers s @ [w] \<and> wr_id w = wpo_worker_id out \<and> wr_workspace_id w = Some ws
        \<and> wr_status w = OFFLINE \<and> wr_current_load w = 0)
    \<and> get_current_worker (Some (wpo_worker_secret out)) t
      = (Inr \<lparr> aw_worker_id = wpo_worker_id out, aw_credential_id = wpo_credential_id out, aw_workspace_id = ws \<rparr>,
         t\<lparr>tick := Suc (tick t)\<rparr>)"
proof -
  obtain m where m: "require_workspace_admin ws u s = (Inr m, s)"
    using past_admin [OF assms(1) [unfolded provision_worker_def]] by blast
  let ?n = "tick s" and ?sec = "tokens s (tick s)"
  let ?w = "new_registration (uuids s (?n + 2)) ws p (clock s (?n + 1)) (uuids s (?n + 3))"
  let ?c = "new_credential (uuids s (?n + 4)) (uuids s (?n + 2)) ws ?sec"
  have r: "out = \<lparr> wpo_worker_id = uuids s (?n + 2), wpo_credential_id = uuids s (?n + 4),
      wpo_worker_secret = worker_secret_text (uuids s (?n + 4)) ?sec, wpo_workspace_id = ws \<rparr>"
    "workers s' = workers s @ [?w]" "credentials s' = credentials s @ [?c]"
    using assms(1) m by (auto simp: provision_worker_def exec transaction_exec generate_worker_secret_def numeral_eq_Suc)
  have "row_get wc_id (wc_id ?c) (credentials t) = Some ?c"
    using assms(2,5) r(3) by (intro row_get_distinct) simp_all
  then have "authenticate (wc_id ?c) ?sec t
      = (Inr \<lparr> aw_worker_id = uuids s (?n + 2), aw_credential_id = wc_id ?c, aw_workspace_id = ws \<rparr>, t\<lparr>tick := Suc (tick t)\<rparr>)"
    using assms(2,5) by (simp add: authenticate_exec new_credential_def credential_expired_def)
  then show ?thesis
    using require_admin_Inr [OF m] assms(3,4) r
    by (auto simp: secret_text_parsed new_registration_def new_credential_def)
qed

lemma rotate_result:
  assumes "rotate_worker_credential ws i u s = (Inr out, s')" and "distinct (map wc_id (credentials s))"
  obtains sec now g where "sec = tokens s (tick s)" "now = clock s (Suc (tick s))"
    "g = now + of_int (worker_credential_rotation_grace_seconds (cfg s))"
    "cro_worker_secret out = worker_secret_text (cro_credential_id out) sec" "cro_previous_expires_at out = Some g"
    "credentials s' = map (\<lambda>c. if c \<in> set (active_credentials i s) then retire now g c else c) (credentials s)
      @ [new_credential (cro_credential_id out) i ws sec]"
    "workers s' = workers s" "assignments s' = assignments s"
proof -
  note body = conjunct2 [OF past_worker [OF conjunct2 [OF past_admin [OF assms(1) [unfolded rotate_worker_credential_def]]]]]
  let ?s = "s\<lparr>tick := Suc (Suc (tick s))\<rparr>" and ?now = "clock s (Suc (tick s))"
  let ?g = "?now + of_int (worker_credential_rotation_grace_seconds (cfg s))"
  have a: "active_credentials i ?s = active_credentials i s" by (simp add: active_credentials_def)
  have "forM (active_credentials i ?s) (\<lambda>c. set_credential (wc_id c) (retire ?now ?g)) ?s
    = (Inr (), credentials_update (\<lambda>_. map (\<lambda>c. if c \<in> set (active_credentials i ?s) then retire ?now ?g c else c)
        (credentials ?s)) ?s)"
    by (rule set_active_credentials) (simp_all add: assms(2) retire_def)
  note f = this [unfolded a]
  show ?thesis
    by (rule that [of "tokens s (tick s)" ?now ?g])
      (use body f in \<open>auto simp: exec transaction_exec generate_worker_secret_def a\<close>)
qed

text \<open>
  Rotation has no gap and an end: after it the new secret authenticates at any time, and a secret that was good
  before it goes on working until the announced instant (or its own earlier expiry) and not from then on.
\<close>

theorem rotation_has_grace:
  assumes "rotate_worker_credential ws i u s = (Inr out, s')" and "distinct (map wc_id (credentials s))"
    and "cro_credential_id out \<notin> wc_id ` set (credentials s)" and "credentials t = credentials s'"
    and "c \<in> set (credentials s)" "wc_worker_id c = i" "wc_status c = WorkerCredentialStatus.ACTIVE" "wc_secret_hash c = sha256_hex sec"
  shows "\<exists>g. cro_previous_expires_at out = Some g
    \<and> ((\<exists>aw. fst (authenticate (wc_id c) sec t) = Inr aw)
        = (clock t (tick t) < (case wc_expires_at c of None \<Rightarrow> g | Some e \<Rightarrow> min e g)))
    \<and> fst (authenticate (cro_credential_id out) (tokens s (tick s)) t)
      = Inr \<lparr> aw_worker_id = i, aw_credential_id = cro_credential_id out, aw_workspace_id = ws \<rparr>"
proof -
  obtain now g where r: "cro_previous_expires_at out = Some g"
    "credentials s' = map (\<lambda>c. if c \<in> set (active_credentials i s) then retire now g c else c) (credentials s)
      @ [new_credential (cro_credential_id out) i ws (tokens s (tick s))]"
    by (rule rotate_result [OF assms(1,2)]) blast
  have keys: "map wc_id (credentials t) = map wc_id (credentials s) @ [cro_credential_id out]"
    unfolding assms(4) r(2) by (simp add: new_credential_def retire_def o_def)
  have d: "distinct (map wc_id (credentials t))" unfolding keys using assms(2,3) by simp
  have "retire now g c \<in> set (credentials t)"
    using assms(4-7) r(2) by (force simp: active_credentials_def)
  from row_get_distinct [OF d this] have 1: "row_get wc_id (wc_id c) (credentials t) = Some (retire now g c)"
    by (simp add: retire_def)
  have "new_credential (cro_credential_id out) i ws (tokens s (tick s)) \<in> set (credentials t)" using assms(4) r(2) by simp
  from row_get_distinct [OF d this] have 2: "row_get wc_id (cro_credential_id out) (credentials t)
      = Some (new_credential (cro_credential_id out) i ws (tokens s (tick s)))" by (simp add: new_credential_def)
  show ?thesis
    by (intro exI [of _ g] conjI r(1))
      (use assms(7,8) in \<open>auto simp: authenticate_exec [OF d] 1 2 retire_def credential_expired_def hash_worker_secret_def
        new_credential_def min_def split: option.split\<close>)
qed

lemma reap_worker_empties:
  assumes "reap_worker_assignments w rs b t d s = (Inr outs, s')" "distinct (map sa_id (assignments s))"
    "1 \<le> the_or b (assignment_reaper_batch_size (cfg s))"
  shows "held_by w s' = []"
proof -
  obtain now n where n: "now_or_utcnow t s = (Inr now, s\<lparr>tick := n\<rparr>)" using now_or_utcnow_Inr by blast
  let ?s = "s\<lparr>tick := n\<rparr>"
  have "reap_rounds (Suc (length (held_by w ?s))) w rs (the_or b (assignment_reaper_batch_size (cfg s))) now d ?s = (Inr outs, s')"
    using assms(1) n by (simp add: reap_worker_assignments_def bindM_exec gets_exec del: reap_rounds.simps)
  with reap_rounds_enough [of ?s w "Suc (length (held_by w ?s))" "the_or b (assignment_reaper_batch_size (cfg s))" rs now d] assms(2,3)
  show ?thesis by (simp del: reap_rounds.simps)
qed

lemma revoke_cases:
  assumes "revoke_worker_credentials ws i u s = (Inr n, s')" and "distinct (map wc_id (credentials s))"
  obtains s1 outs s2 where
    "s1 = credentials_update (\<lambda>_. map (\<lambda>c. if c \<in> set (active_credentials i s) then c\<lparr>wc_status := WorkerCredentialStatus.REVOKED\<rparr> else c)
        (credentials s)) s"
    "reap_worker_assignments i WORKER_REVOKED None None None s1 = (Inr outs, s2)"
    "s' = (case row_get wr_id i (workers s2) of None \<Rightarrow> s2 | Some r \<Rightarrow> if wr_deregistered_at r = None
        then workers_update (row_set wr_id i (\<lambda>w. w\<lparr> wr_status := OFFLINE, wr_current_load := 0 \<rparr>)) s2 else s2)"
    "n = int (length (active_credentials i s))"
proof -
  note body = conjunct2 [OF past_worker [OF conjunct2 [OF past_admin [OF assms(1) [unfolded revoke_worker_credentials_def]]]]]
  let ?f = "wc_status_update (\<lambda>_. WorkerCredentialStatus.REVOKED)"
  have f: "forM (active_credentials i s) (\<lambda>c. set_credential (wc_id c) ?f) s
    = (Inr (), credentials_update (\<lambda>_. map (\<lambda>c. if c \<in> set (active_credentials i s) then ?f c else c) (credentials s)) s)"
    by (rule set_active_credentials [OF assms(2)]) simp
  let ?s1 = "credentials_update (\<lambda>_. map (\<lambda>c. if c \<in> set (active_credentials i s) then ?f c else c) (credentials s)) s"
  let ?rest = "\<lambda>k. bindM (get_row workers wr_id i) (\<lambda>registration.
       andThen (case registration of
           None \<Rightarrow> ret ()
         | Some r \<Rightarrow> whenM (wr_deregistered_at r = None)
             (set_worker i (\<lambda>w. w\<lparr> wr_status := OFFLINE, wr_current_load := 0 \<rparr>)))
       (ret k))"
  have "bindM (reap_worker_assignments i WORKER_REVOKED None None None)
      (\<lambda>_. ?rest (int (length (active_credentials i s)))) ?s1 = (Inr n, s')"
    using body f by (simp add: transaction_Inr bindM_Inr [OF gets_exec] andThen_Inr)
  then obtain outs s2 where r: "reap_worker_assignments i WORKER_REVOKED None None None ?s1 = (Inr outs, s2)"
    "?rest (int (length (active_credentials i s))) s2 = (Inr n, s')" by (rule bindM_InrE)
  have "s' = (case row_get wr_id i (workers s2) of None \<Rightarrow> s2 | Some r \<Rightarrow> if wr_deregistered_at r = None
        then workers_update (row_set wr_id i (\<lambda>w. w\<lparr> wr_status := OFFLINE, wr_current_load := 0 \<rparr>)) s2 else s2)"
    "n = int (length (active_credentials i s))"
    using r(2) by (auto simp: exec split: option.splits if_splits)
  from that [OF refl r(1) this] show ?thesis .
qed

text \<open>
  C22: Revocation is a kill switch: once it has committed, no credential the worker had authenticates again, whatever
  the system does afterwards. When it commits no assignment in flight names the worker, save the rows another transaction
  held locked, which \<open>SKIP LOCKED\<close> passes over; and the worker is \<open>OFFLINE\<close> with no load unless it had deregistered.
\<close>

theorem revocation_is_final:
  assumes "revoke_worker_credentials ws i u s = (Inr n, s')"
    and "distinct (map wc_id (credentials s))" "distinct (map sa_id (assignments s))" "1 \<le> assignment_reaper_batch_size (cfg s)"
    and "writes s' t" and "c \<in> set (credentials s)" "wc_worker_id c = i"
  shows "(\<nexists>aw. fst (authenticate (wc_id c) sec t) = Inr aw)
    \<and> (\<forall>a\<in>set (assignments s'). sa_worker_id a = Some i \<and> sa_status a \<in> {StageAssignmentStatus.DISPATCHED, ACKNOWLEDGED}
        \<longrightarrow> sa_id a \<in> set (locks s))
    \<and> (\<forall>w. row_get wr_id i (workers s') = Some w \<longrightarrow> wr_deregistered_at w = None \<longrightarrow>
        wr_status w = OFFLINE \<and> wr_current_load w = 0)"
proof -
  obtain s1 outs s2 where r:
    "s1 = credentials_update (\<lambda>_. map (\<lambda>c. if c \<in> set (active_credentials i s) then c\<lparr>wc_status := WorkerCredentialStatus.REVOKED\<rparr> else c)
      (credentials s)) s"
    "reap_worker_assignments i WORKER_REVOKED None None None s1 = (Inr outs, s2)"
    "s' = (case row_get wr_id i (workers s2) of None \<Rightarrow> s2 | Some r \<Rightarrow> if wr_deregistered_at r = None
        then workers_update (row_set wr_id i (\<lambda>w. w\<lparr> wr_status := OFFLINE, wr_current_load := 0 \<rparr>)) s2 else s2)"
    by (rule revoke_cases [OF assms(1,2)])
  have keys: "map wc_id (credentials s1) = map wc_id (credentials s)" by (auto simp: r(1))
  let ?c = "if c \<in> set (active_credentials i s) then c\<lparr>wc_status := WorkerCredentialStatus.REVOKED\<rparr> else c"
  have "?c \<in> set (credentials s1)" using assms(6) by (simp add: r(1))
  moreover have "wc_id ?c = wc_id c" by simp
  ultimately have "row_get wc_id (wc_id c) (credentials s1) = Some ?c"
    using row_get_distinct [of wc_id "credentials s1" ?c] assms(2) keys by metis
  then have "dead_credential (wc_id c) s1"
    using assms(6,7) by (auto simp: dead_credential_def active_credentials_def)
  moreover have "writes s1 s2" using w_reap(2) r(2) by (metis steps_def snd_conv)
  moreover have "writes s2 s'"
    unfolding r(3) by (auto split: option.split intro!: w_one [OF db_write.worker] simp: worker_write_def)
  ultimately have dead: "dead_credential (wc_id c) t"
    using assms(5) writes_rel [where R = "\<lambda>s s'. dead_credential (wc_id c) s \<longrightarrow> dead_credential (wc_id c) s'", of s1 t]
      write_dead_credential by (metis (no_types, lifting) rtranclp_trans)
  have "held_by i s2 = []"
    by (rule reap_worker_empties [OF r(2)]) (use assms(3,4) in \<open>simp_all add: r(1) the_or_def\<close>)
  then have "held_by i s' = []" by (simp add: r(3) held_by_def unlocked_def split: option.split)
  moreover have "same_env s1 s2" using steps_env [OF w_reap(2) r(2)] .
  then have "locks s' = locks s" by (simp add: same_env_def r(1,3) split: option.split)
  ultimately have "\<forall>a\<in>set (assignments s'). sa_worker_id a = Some i \<and> sa_status a \<in> {StageAssignmentStatus.DISPATCHED, ACKNOWLEDGED}
        \<longrightarrow> sa_id a \<in> set (locks s)" by (simp add: held_by_empty)
  moreover have "wr_status w = OFFLINE \<and> wr_current_load w = 0"
    if "row_get wr_id i (workers s') = Some w" "wr_deregistered_at w = None" for w
    using that by (auto simp: r(3) split: option.splits if_splits)
  ultimately show ?thesis using dead dead_credential_rejected by blast
qed

section \<open>Witnesses\<close>

definition admin_db :: db where
  "admin_db = sample_db\<lparr>memberships := [\<lparr> mb_id = 90, mb_workspace_id = 1, mb_user_id = 70, mb_role = WorkspaceRole.ADMIN \<rparr>],
     credentials := [new_credential 80 20 1 ''s'']\<rparr>"

lemmas admin_fixture = admin_db_def new_credential_def hash_worker_secret_def fixture

lemma admin_passes [simp]: "fst (require_workspace_admin 1 70 admin_db) = Inr \<lparr> mb_id = 90, mb_workspace_id = 1, mb_user_id = 70, mb_role = WorkspaceRole.ADMIN \<rparr>"
  by (simp add: require_workspace_admin_def require_workspace_role_def get_membership_def exec admin_fixture)

lemma worker_authenticated_iff_witness:
  "\<exists>aw s'. get_current_worker (Some (worker_secret_text 80 ''s'')) admin_db = (Inr aw, s') \<and> aw_worker_id aw = 20"
proof -
  have d: "distinct (map wc_id (credentials admin_db))" by (simp add: admin_fixture)
  obtain r s' where r: "get_current_worker (Some (worker_secret_text 80 ''s'')) admin_db = (r, s')"
    by (metis prod.exhaust)
  note w = worker_authenticated_iff [OF d r]
  have "\<exists>raw secret c. Some (worker_secret_text 80 ''s'') = Some (raw @ ''.'' @ secret) \<and> CHR ''.'' \<notin> set raw \<and> secret \<noteq> []
      \<and> uuid_of_str raw = Inr (wc_id c) \<and> c \<in> set (credentials admin_db) \<and> wc_secret_hash c = sha256_hex secret
      \<and> wc_status c = WorkerCredentialStatus.ACTIVE
      \<and> (case wc_expires_at c of None \<Rightarrow> True | Some e \<Rightarrow> clock admin_db (tick admin_db) < e)"
    by (rule exI [of _ "str_uuid 80"], rule exI [of _ "''s''"], rule exI [of _ "new_credential 80 20 1 ''s''"])
      (simp add: worker_secret_text_def no_dot_in_id uuid_of_str_uuid admin_fixture)
  then obtain aw where a: "r = Inr aw" using w by blast
  with w show ?thesis using r by (auto simp: admin_fixture)
qed

definition registry :: WorkerProvisionIn where
  "registry = \<lparr> wpi_name = ''w2'', wpi_supported_stages = [], wpi_max_concurrency = 1 \<rparr>"

lemma provisioned_worker_authenticates_witness:
  "\<exists>out s'. provision_worker 1 registry 70 admin_db = (Inr out, s')
    \<and> get_current_worker (Some (wpo_worker_secret out)) s'
      = (Inr \<lparr> aw_worker_id = wpo_worker_id out, aw_credential_id = wpo_credential_id out, aw_workspace_id = 1 \<rparr>,
         s'\<lparr>tick := Suc (tick s')\<rparr>)"
proof -
  obtain out s' where p: "provision_worker 1 registry 70 admin_db = (Inr out, s')" "wpo_credential_id out = 5004"
    "credentials s' = credentials admin_db @ [new_credential 5004 5002 1 (tokens admin_db 0)]"
    by (simp add: provision_worker_def require_workspace_admin_def require_workspace_role_def get_membership_def exec
        transaction_exec generate_worker_secret_def admin_fixture)
  have "distinct (map wc_id (credentials s'))" unfolding p(3) by (simp add: admin_fixture)
  moreover have "tokens admin_db (tick admin_db) \<noteq> []" by (simp add: admin_fixture)
  ultimately show ?thesis using provisioned_worker_authenticates [OF p(1) _ _ _ refl] p by auto
qed

lemma rotation_has_grace_witness:
  "\<exists>out s'. rotate_worker_credential 1 20 70 admin_db = (Inr out, s')
    \<and> fst (authenticate (cro_credential_id out) (tokens admin_db (tick admin_db)) s')
      = Inr \<lparr> aw_worker_id = 20, aw_credential_id = cro_credential_id out, aw_workspace_id = 1 \<rparr>"
proof -
  obtain out s' where p: "rotate_worker_credential 1 20 70 admin_db = (Inr out, s')" "cro_credential_id out = 5002"
    by (simp add: rotate_worker_credential_def require_workspace_admin_def require_workspace_role_def get_membership_def
        get_workspace_worker_def active_credentials_def exec transaction_exec generate_worker_secret_def admin_fixture)
  have "distinct (map wc_id (credentials admin_db))" "cro_credential_id out \<notin> wc_id ` set (credentials admin_db)"
    "new_credential 80 20 1 ''s'' \<in> set (credentials admin_db)" using p(2) by (simp_all add: admin_fixture)
  from rotation_has_grace [OF p(1) this(1,2) refl this(3), of "''s''"] p(1) show ?thesis by (auto simp: admin_fixture)
qed

definition revoked_worker_db :: db where
  "revoked_worker_db = admin_db\<lparr>assignments := held_and_locked, locks := [31]\<rparr>"

lemma revocation_is_final_witness:
  "\<exists>n s'. revoke_worker_credentials 1 20 70 revoked_worker_db = (Inr n, s') \<and> (\<nexists>aw. fst (authenticate 80 ''s'' s') = Inr aw)
    \<and> length (assignments revoked_worker_db) = 2
    \<and> (\<forall>a\<in>set (assignments s'). sa_worker_id a = Some 20 \<and> sa_status a \<in> {StageAssignmentStatus.DISPATCHED, ACKNOWLEDGED}
        \<longrightarrow> sa_id a = 31)"
proof -
  obtain n s' where p: "revoke_worker_credentials 1 20 70 revoked_worker_db = (Inr n, s')"
    by (simp add: revoke_worker_credentials_def require_workspace_admin_def require_workspace_role_def get_membership_def
        get_workspace_worker_def active_credentials_def exec transaction_exec the_or_def admin_db_def new_credential_def
        hash_worker_secret_def revoked_worker_db_def held_and_locked_def sample held_assignment_def
        recovery_ops spend_ops workflow_ops numeral_2_eq_2 Let_def default_settings_def del: One_nat_def)
  have d: "distinct (map wc_id (credentials revoked_worker_db))" "distinct (map sa_id (assignments revoked_worker_db))"
    "1 \<le> assignment_reaper_batch_size (cfg revoked_worker_db)" "new_credential 80 20 1 ''s'' \<in> set (credentials revoked_worker_db)"
    "locks revoked_worker_db = [31]" "length (assignments revoked_worker_db) = 2"
    by (simp_all add: admin_db_def new_credential_def revoked_worker_db_def held_and_locked_def held_assignment_def sample default_settings_def)
  have "wc_id (new_credential 80 20 1 ''s'') = 80" "wc_worker_id (new_credential 80 20 1 ''s'') = 20"
    by (simp_all add: new_credential_def)
  with revocation_is_final [OF p d(1,2,3) rtranclp.rtrancl_refl d(4), of "''s''"] p d(5,6) show ?thesis by auto
qed

end
