(* ===== verification/WorkerRoutes.thy ===== *)
theory WorkerRoutes imports WorkerAuth begin

text \<open>
  The machine half of \<open>api/routes/workers.py\<close>: what an authenticated worker can ask for (registering, heartbeats,
  logs, claims, acknowledging, renewing and submitting). A handler takes the \<open>AuthenticatedWorker\<close> that
  \<open>get_current_worker\<close> returned earlier, in a session of its own: between the two anything may commit. Its own session
  is a \<open>transaction\<close>. The bounds the request schemas enforce before a handler runs are \<open>register_in_ok\<close> and its like.
\<close>

section \<open>Request and response data\<close>

record ProviderCapability =
  pc_name :: string
  pc_models :: "string list"
  pc_max_concurrency :: int

record CapabilitySpec =
  cs_protocol_version :: int
  cs_providers :: "ProviderCapability list"
  cs_features :: "string list"

definition dump_capabilities :: "CapabilitySpec \<Rightarrow> json" where
  "dump_capabilities c =
     JObj [(''protocol_version'', JNum (of_int (cs_protocol_version c))),
           (''providers'', JList (map (\<lambda>p. JObj [(''name'', JStr (pc_name p)), (''models'', JList (map JStr (pc_models p))),
              (''max_concurrency'', JNum (of_int (pc_max_concurrency p)))]) (cs_providers c))),
           (''features'', JList (map JStr (cs_features c)))]"

record WorkerRegisterIn =
  wri_supported_stages :: "stage list"
  wri_capabilities :: CapabilitySpec
  wri_worker_version :: "string option"
  wri_max_concurrency :: int

definition register_in_ok :: "WorkerRegisterIn \<Rightarrow> bool" where
  "register_in_ok p \<longleftrightarrow> 1 \<le> cs_protocol_version (wri_capabilities p)
     \<and> list_all (\<lambda>q. 1 \<le> length (pc_name q) \<and> length (pc_name q) \<le> 200 \<and> 1 \<le> pc_max_concurrency q \<and> pc_max_concurrency q \<le> 1000)
         (cs_providers (wri_capabilities p))
     \<and> (case wri_worker_version p of None \<Rightarrow> True | Some v \<Rightarrow> length v \<le> 100)
     \<and> 1 \<le> wri_max_concurrency p \<and> wri_max_concurrency p \<le> 1000"

record WorkerRegisterOut =
  wro_worker_id :: uuid
  wro_status :: WorkerStatus
  wro_accepted_protocol_version :: int

record WorkerLogIn =
  wli_severity :: string
  wli_message :: string
  wli_pipeline_run_id :: "uuid option"
  wli_assignment_id :: "uuid option"
  wli_occurred_at :: "datetime option"
  wli_context :: json

record ClaimedAssignmentOut =
  cao_id :: uuid
  cao_stage :: stage
  cao_pipeline_run_id :: uuid
  cao_attempt_number :: int
  cao_lease_expires_at :: "datetime option"
  cao_correlation_id :: "uuid option"
  cao_trace_id :: "string option"
  cao_workspace_id :: "uuid option"
  cao_content_item_id :: "uuid option"
  cao_topic :: "string option"
  cao_target_length_seconds :: "int option"
  cao_provider :: "string option"

record ClaimOut =
  co_assignment :: "ClaimedAssignmentOut option"
  co_outcome :: ClaimOutcome
  co_reason :: string

record LeaseOut =
  lo_assignment_id :: uuid
  lo_status :: StageAssignmentStatus
  lo_lease_expires_at :: "datetime option"
  lo_lease_extension_count :: int
  lo_attempt_number :: int
  lo_provider_effect_created :: "bool option"

record SubmitIn =
  si_success :: bool
  si_result :: "json option"
  si_error_message :: string
  si_provider_effect_key :: "string option"

record SubmitOut =
  so_assignment_id :: uuid
  so_status :: StageAssignmentStatus
  so_provider_effect_key :: "string option"
  so_provider_effect_created :: "bool option"

section \<open>Logs\<close>

definition log_error :: "string \<Rightarrow> exn" where
  "log_error detail = HTTPException 422 detail"

definition log_run_of_assignment :: "AuthenticatedWorker \<Rightarrow> WorkerLogIn \<Rightarrow> uuid option M" where
  "log_run_of_assignment worker payload =
     (case wli_assignment_id payload of
        None \<Rightarrow> ret (wli_pipeline_run_id payload)
      | Some i \<Rightarrow>
          bindM (get_row assignments sa_id i) (\<lambda>oa. case oa of
            None \<Rightarrow> raise (log_error ''assignment does not belong to authenticated worker'')
          | Some a \<Rightarrow>
              if sa_workspace_id a \<noteq> aw_workspace_id worker \<or> sa_worker_id a \<noteq> Some (aw_worker_id worker) then
                raise (log_error ''assignment does not belong to authenticated worker'')
              else if wli_pipeline_run_id payload \<noteq> None \<and> Some (sa_pipeline_run_id a) \<noteq> wli_pipeline_run_id payload then
                raise (log_error ''pipeline_run_id does not match assignment'')
              else ret (Some (sa_pipeline_run_id a))))"

definition check_log_run :: "AuthenticatedWorker \<Rightarrow> uuid option \<Rightarrow> unit M" where
  "check_log_run worker run_id =
     (case run_id of
        None \<Rightarrow> ret ()
      | Some i \<Rightarrow>
          bindM (get_row runs pr_id i) (\<lambda>orun. case orun of
            None \<Rightarrow> raise (log_error ''pipeline does not belong to authenticated worker workspace'')
          | Some r \<Rightarrow>
              if pr_workspace_id r \<noteq> aw_workspace_id worker then
                raise (log_error ''pipeline does not belong to authenticated worker workspace'')
              else ret ()))"

definition ingest_worker_log :: "WorkerLogIn \<Rightarrow> AuthenticatedWorker \<Rightarrow> (uuid \<times> datetime) M" where
  "ingest_worker_log payload worker =
     bindM utcnow (\<lambda>now.
     let occurred_at = the_or (wli_occurred_at payload) now in
     if occurred_at > now + 300 then raise (log_error ''occurred_at cannot be more than five minutes in the future'')
     else bindM (transaction (
       bindM (log_run_of_assignment worker payload) (\<lambda>run_id.
       andThen (check_log_run worker run_id) (
       bindM uuid4 (\<lambda>i.
       andThen (add_worker_log \<lparr> wl_id = i, wl_workspace_id = aw_workspace_id worker, wl_worker_id = aw_worker_id worker,
         wl_pipeline_run_id = run_id, wl_assignment_id = wli_assignment_id payload, wl_severity = wli_severity payload,
         wl_message = wli_message payload, wl_context = wli_context payload, wl_occurred_at = occurred_at,
         wl_received_at = now \<rparr>)
       (ret i)))))) (\<lambda>log_id. ret (log_id, now)))"

section \<open>Registration and heartbeats\<close>

definition announce :: "WorkerRegisterIn \<Rightarrow> datetime \<Rightarrow> WorkerRegistration \<Rightarrow> WorkerRegistration" where
  "announce payload now r = r\<lparr>
     wr_supported_stages := wri_supported_stages payload,
     wr_capabilities := Some (dump_capabilities (wri_capabilities payload)),
     wr_worker_version := wri_worker_version payload, wr_max_concurrency := wri_max_concurrency payload,
     wr_current_load := 0, wr_status := ONLINE, wr_last_heartbeat_at := Some now, wr_registered_at := now,
     wr_deregistered_at := None \<rparr>"

definition register_worker :: "WorkerRegisterIn \<Rightarrow> AuthenticatedWorker \<Rightarrow> WorkerRegisterOut M" where
  "register_worker payload worker =
     (let version = cs_protocol_version (wri_capabilities payload) in
     bindM (gets (\<lambda>s. worker_capability_protocol_versions (cfg s))) (\<lambda>accepted.
     if version \<notin> set accepted then
       raise (HTTPException 422 (''unsupported capability protocol_version '' @ str_int version
         @ ''; server accepts ['' @ join '', '' (map str_int accepted) @ '']''))
     else andThen (transaction (
       bindM (get_row workers wr_id (aw_worker_id worker)) (\<lambda>registration.
       case registration of
         None \<Rightarrow> raise (HTTPException 404 ''worker not found'')
       | Some _ \<Rightarrow>
           bindM utcnow (\<lambda>now.
           bindM (reap_worker_assignments (aw_worker_id worker) WORKER_RESTART None (Some now) None) (\<lambda>_.
           set_worker (aw_worker_id worker) (announce payload now))))))
     (ret \<lparr> wro_worker_id = aw_worker_id worker, wro_status = ONLINE, wro_accepted_protocol_version = version \<rparr>)))"

definition worker_heartbeat :: "WorkerStatus \<Rightarrow> int \<Rightarrow> AuthenticatedWorker \<Rightarrow> WorkerOut M" where
  "worker_heartbeat status current_load worker =
     (if status \<notin> {ONLINE, BUSY, DRAINING} then
        raise (HTTPException 422 ''a heartbeat may report online, busy, or draining - not offline'')
      else transaction (
        bindM (get_row workers wr_id (aw_worker_id worker)) (\<lambda>registration.
        case registration of
          None \<Rightarrow> raise (HTTPException 404 ''worker not found'')
        | Some r \<Rightarrow>
            if wr_deregistered_at r \<noteq> None then raise (HTTPException 410 ''worker is deregistered'')
            else if current_load > wr_max_concurrency r then raise (HTTPException 422 ''current_load exceeds max_concurrency'')
            else bindM utcnow (\<lambda>now.
              andThen (set_worker (aw_worker_id worker) (\<lambda>w. w\<lparr> wr_status := status, wr_current_load := current_load,
                wr_last_heartbeat_at := Some now \<rparr>)) (
              andThen (add_heartbeat \<lparr> whb_worker_id = aw_worker_id worker, whb_status = status,
                whb_current_load = current_load, whb_heartbeat_at = now \<rparr>) (
              bindM (the_worker (aw_worker_id worker)) worker_out))))))"

definition deregister_worker :: "AuthenticatedWorker \<Rightarrow> WorkerOut M" where
  "deregister_worker worker =
     transaction (
       bindM (get_row workers wr_id (aw_worker_id worker)) (\<lambda>registration.
       case registration of
         None \<Rightarrow> raise (HTTPException 404 ''worker not found'')
       | Some r \<Rightarrow>
           andThen (whenM (wr_deregistered_at r = None) (
             bindM (reap_worker_assignments (aw_worker_id worker) WORKER_DEREGISTERED None None None) (\<lambda>_.
             bindM utcnow (\<lambda>now.
             set_worker (aw_worker_id worker) (\<lambda>w. w\<lparr> wr_status := OFFLINE, wr_current_load := 0,
               wr_deregistered_at := Some now \<rparr>))))) (
           bindM (the_worker (aw_worker_id worker)) worker_out)))"

section \<open>Claiming\<close>

definition assert_credential_still_active :: "AuthenticatedWorker \<Rightarrow> unit M" where
  "assert_credential_still_active worker =
     bindM (get_row credentials wc_id (aw_credential_id worker)) (\<lambda>credential.
     bindM utcnow (\<lambda>now.
     case credential of
       None \<Rightarrow> raise unauthorized
     | Some c \<Rightarrow>
         if wc_status c \<noteq> WorkerCredentialStatus.ACTIVE \<or> wc_worker_id c \<noteq> aw_worker_id worker \<or> credential_expired c now
         then raise unauthorized else ret ()))"

definition claimed_out :: "StageAssignment \<Rightarrow> ContentItem option \<Rightarrow> ClaimedAssignmentOut" where
  "claimed_out a item =
     \<lparr> cao_id = sa_id a, cao_stage = sa_stage a, cao_pipeline_run_id = sa_pipeline_run_id a,
       cao_attempt_number = sa_attempt_number a, cao_lease_expires_at = sa_lease_expires_at a,
       cao_correlation_id = sa_correlation_id a, cao_trace_id = sa_trace_id a,
       cao_workspace_id = Some (sa_workspace_id a), cao_content_item_id = map_option ci_id item,
       cao_topic = map_option ci_topic item,
       cao_target_length_seconds = (case item of None \<Rightarrow> None | Some x \<Rightarrow> ci_target_length_seconds x),
       cao_provider = sa_provider a \<rparr>"

definition item_of_run :: "uuid \<Rightarrow> db \<Rightarrow> ContentItem option" where
  "item_of_run run_id s = (case row_get pr_id run_id (runs s) of
     None \<Rightarrow> None | Some run \<Rightarrow> row_get ci_id (pr_content_item_id run) (items s))"

definition claim_assignment_endpoint :: "uuid option \<Rightarrow> AuthenticatedWorker \<Rightarrow> ClaimOut M" where
  "claim_assignment_endpoint claim_token worker =
     transaction (
       andThen (assert_credential_still_active worker) (
       bindM (claim_assignment (aw_worker_id worker) None claim_token (Some (aw_workspace_id worker))) (\<lambda>result.
       bindM (case clr_assignment result of
           None \<Rightarrow> ret None
         | Some i \<Rightarrow>
             bindM (the_assignment i) (\<lambda>a.
             bindM (gets (item_of_run (sa_pipeline_run_id a))) (\<lambda>item.
             ret (Some (claimed_out a item))))) (\<lambda>out.
       ret \<lparr> co_assignment = out, co_outcome = clr_outcome result, co_reason = clr_reason result \<rparr>))))"

section \<open>Leases and results\<close>

definition lease_http_error :: "exn \<Rightarrow> exn" where
  "lease_http_error e =
     (case e of
        LeaseNotOwned \<Rightarrow> HTTPException 403 (exn_str e)
      | LeaseConflict code message \<Rightarrow>
          if code = ''lease_expired'' then HTTPException 409 code
          else if code = ''max_lease_exceeded'' then HTTPException 409 code
          else HTTPException 409 message
      | _ \<Rightarrow> e)"

definition load_owned_assignment :: "uuid \<Rightarrow> AuthenticatedWorker \<Rightarrow> WorkerRegistration \<Rightarrow> StageAssignment M" where
  "load_owned_assignment assignment_id worker registration =
     bindM (get_row assignments sa_id assignment_id) (\<lambda>oa. case oa of
       None \<Rightarrow> raise (HTTPException 404 ''assignment not found'')
     | Some a \<Rightarrow>
         if wr_workspace_id registration = None then
           (if sa_worker_id a \<noteq> Some (aw_worker_id worker) then raise (HTTPException 404 ''assignment not found'') else ret a)
         else if sa_workspace_id a \<noteq> aw_workspace_id worker then raise (HTTPException 404 ''assignment not found'')
         else ret a)"

text \<open>What the three assignment routes begin with.\<close>

definition assignment_session :: "uuid \<Rightarrow> AuthenticatedWorker \<Rightarrow> StageAssignment M" where
  "assignment_session assignment_id worker =
     andThen (assert_credential_still_active worker) (
     bindM (get_row workers wr_id (aw_worker_id worker)) (\<lambda>registration.
     case registration of
       None \<Rightarrow> raise (HTTPException 404 ''worker not found'')
     | Some r \<Rightarrow>
         if wr_deregistered_at r \<noteq> None then raise (HTTPException 410 ''worker is deregistered'')
         else load_owned_assignment assignment_id worker r))"

definition lease_out :: "uuid \<Rightarrow> bool option \<Rightarrow> LeaseOut M" where
  "lease_out assignment_id created =
     bindM (the_assignment assignment_id) (\<lambda>a.
     ret \<lparr> lo_assignment_id = sa_id a, lo_status = sa_status a, lo_lease_expires_at = sa_lease_expires_at a,
           lo_lease_extension_count = sa_lease_extension_count a, lo_attempt_number = sa_attempt_number a,
           lo_provider_effect_created = created \<rparr>)"

text \<open>\<open>try: ... except LeaseError as exc: raise _lease_http_error(exc)\<close>; other exceptions pass.\<close>

definition lease_checked :: "'a M \<Rightarrow> 'a M" where
  "lease_checked m = catchM m (\<lambda>e. raise (lease_http_error e))"

definition ack_assignment :: "uuid \<Rightarrow> AuthenticatedWorker \<Rightarrow> LeaseOut M" where
  "ack_assignment assignment_id worker =
     transaction (
       bindM (assignment_session assignment_id worker) (\<lambda>a.
       andThen (lease_checked (acknowledge assignment_id None (Some (aw_worker_id worker)) None)) (
       bindM (ensure_provider_effect_key (sa_workspace_id a) assignment_id (sa_attempt_number a) ''stage_execute'' None) (\<lambda>effect.
       lease_out assignment_id (Some (ekr_created effect))))))"

definition renew_assignment_lease :: "uuid \<Rightarrow> AuthenticatedWorker \<Rightarrow> LeaseOut M" where
  "renew_assignment_lease assignment_id worker =
     transaction (
       bindM (assignment_session assignment_id worker) (\<lambda>a.
       andThen (lease_checked (renew_lease assignment_id None (Some (aw_worker_id worker)) None))
       (lease_out assignment_id None)))"

definition submit_out :: "uuid \<Rightarrow> EffectKeyResult \<Rightarrow> SubmitOut M" where
  "submit_out assignment_id effect =
     bindM (the_assignment assignment_id) (\<lambda>a.
     ret \<lparr> so_assignment_id = sa_id a, so_status = sa_status a,
           so_provider_effect_key = Some (ekr_effect_key effect), so_provider_effect_created = Some (ekr_created effect) \<rparr>)"

definition submit_assignment_result :: "uuid \<Rightarrow> SubmitIn \<Rightarrow> AuthenticatedWorker \<Rightarrow> SubmitOut M" where
  "submit_assignment_result assignment_id payload worker =
     transaction (
       bindM (assignment_session assignment_id worker) (\<lambda>a.
       bindM (ensure_provider_effect_key (sa_workspace_id a) assignment_id (sa_attempt_number a) ''stage_execute''
         (si_provider_effect_key payload)) (\<lambda>effect.
       if \<not> ekr_created effect \<and> sa_status a \<in> {COMPLETED, StageAssignmentStatus.FAILED}
       then submit_out assignment_id effect
       else andThen (lease_checked (submit_result assignment_id (si_success payload) (si_result payload)
              (si_error_message payload) (Some (aw_worker_id worker)) None))
            (submit_out assignment_id effect))))"

section \<open>Footprint\<close>

lemma w_machine_parts [steps_intro]:
  "steps writes (assert_credential_still_active w)" "steps writes (load_owned_assignment i w reg)"
  "steps writes (lease_out i cr)" "steps writes (submit_out i eff)"
  "steps writes (log_run_of_assignment w p)" "steps writes (check_log_run w x)"
  unfolding assert_credential_still_active_def load_owned_assignment_def lease_out_def submit_out_def
    log_run_of_assignment_def check_log_run_def
  by (intro steps_intro)+

lemma w_lease_checked [steps_intro]: "steps writes m \<Longrightarrow> steps writes (lease_checked m)"
  unfolding lease_checked_def by (intro steps_intro)

lemma w_assignment_session [steps_intro]: "steps writes (assignment_session i w)"
  unfolding assignment_session_def by (intro steps_intro)

lemma w_machine_routes [steps_intro]:
  "steps writes (ingest_worker_log lp w)" "steps writes (register_worker rp w)" "steps writes (worker_heartbeat st n w)"
  "steps writes (deregister_worker w)" "steps writes (claim_assignment_endpoint tok w)" "steps writes (ack_assignment i w)"
  "steps writes (renew_assignment_lease i w)" "steps writes (submit_assignment_result i sp w)"
  unfolding ingest_worker_log_def register_worker_def worker_heartbeat_def deregister_worker_def
    claim_assignment_endpoint_def ack_assignment_def renew_assignment_lease_def submit_assignment_result_def Let_def
  by (intro steps_intro; simp add: write_preds announce_def)+

lemma keeps_give_slot_back [steps_intro]:
  "(\<And>s g. f (workers_update g s) = f s) \<Longrightarrow> keeps f (give_slot_back ow)"
  unfolding give_slot_back_def by (intro steps_intro) simp_all

lemma keeps_submit_result:
  shows "keeps credentials (submit_result i b res m ow t)" "keeps cfg (submit_result i b res m ow t)"
proof -
  have bl: "blind credentials" by (simp add: blind_def)
  show "keeps credentials (submit_result i b res m ow t)"
    unfolding submit_result_def emit_completed_def by (intro steps_intro; simp add: bl)
  show "keeps cfg (submit_result i b res m ow t)"
    unfolding submit_result_def emit_completed_def by (intro steps_intro; simp)
qed

section \<open>The guards\<close>

text \<open>What the session of an assignment route has checked when it goes on.\<close>

definition credential_good :: "AuthenticatedWorker \<Rightarrow> db \<Rightarrow> bool" where
  "credential_good w s \<longleftrightarrow> (case row_get wc_id (aw_credential_id w) (credentials s) of
     None \<Rightarrow> False
   | Some c \<Rightarrow> wc_status c = WorkerCredentialStatus.ACTIVE \<and> wc_worker_id c = aw_worker_id w
       \<and> \<not> credential_expired c (clock s (tick s)))"

definition may_touch :: "AuthenticatedWorker \<Rightarrow> StageAssignment \<Rightarrow> db \<Rightarrow> bool" where
  "may_touch w a s \<longleftrightarrow> (\<exists>reg. row_get wr_id (aw_worker_id w) (workers s) = Some reg \<and> wr_deregistered_at reg = None
     \<and> (if wr_workspace_id reg = None then sa_worker_id a = Some (aw_worker_id w)
        else sa_workspace_id a = aw_workspace_id w))"

lemma credential_check_exec:
  "assert_credential_still_active w s
   = (if credential_good w s then Inr () else Inl unauthorized, s\<lparr>tick := Suc (tick s)\<rparr>)"
  by (simp add: assert_credential_still_active_def credential_good_def exec split: option.split)

lemma session_Inr:
  "assignment_session i w s = (Inr a, s1) \<longleftrightarrow> credential_good w s \<and> row_get sa_id i (assignments s) = Some a
    \<and> may_touch w a s \<and> s1 = s\<lparr>tick := Suc (tick s)\<rparr>"
  by (auto simp: assignment_session_def load_owned_assignment_def andThen_exec credential_check_exec may_touch_def exec
      split: option.splits if_splits)

lemma lease_checked_Inr: "lease_checked m s = (Inr x, s') \<longleftrightarrow> m s = (Inr x, s')"
  by (auto simp: lease_checked_def exec split: prod.splits sum.splits)

lemma acknowledge_owner:
  assumes "acknowledge i n (Some w) t s = (Inr (), s')" "row_get sa_id i (assignments s) = Some a"
  shows "sa_worker_id a = Some w"
  using assms by (auto simp: acknowledge_def assert_lease_extendable_def exec split: option.splits if_splits)

lemma renew_owner:
  assumes "renew_lease i n (Some w) t s = (Inr (), s')" "row_get sa_id i (assignments s) = Some a"
  shows "sa_worker_id a = Some w"
  using assms by (auto simp: renew_lease_def assert_lease_extendable_def exec split: option.splits if_splits)

lemma submit_owner:
  assumes "submit_result i b res m (Some w) t s = (Inr (), s')" "row_get sa_id i (assignments s) = Some a"
  shows "sa_worker_id a = Some w"
proof (rule ccontr)
  assume "sa_worker_id a \<noteq> Some w"
  then have "check_submit a (Some w) now = Some LeaseNotOwned" for now by (simp add: check_submit_def)
  with assms show False by (auto simp: submit_result_def exec split: option.splits)
qed

text \<open>A route whose value does not matter.\<close>

abbreviation void :: "'a M \<Rightarrow> unit M" where
  "void m \<equiv> bindM m (\<lambda>_. ret ())"

lemma void_Inr: "void m s = (Inr (), s') \<longleftrightarrow> (\<exists>x. m s = (Inr x, s'))"
  by (auto simp: exec split: prod.splits sum.splits)

lemma void_Inl: "void m s = (Inl e, s') \<longleftrightarrow> m s = (Inl e, s')"
  by (auto simp: exec split: prod.splits sum.splits)

text \<open>The three routes that act on an assignment.\<close>

definition assignment_routes :: "uuid \<Rightarrow> SubmitIn \<Rightarrow> AuthenticatedWorker \<Rightarrow> unit M set" where
  "assignment_routes i p w = {void (ack_assignment i w), void (renew_assignment_lease i w), void (submit_assignment_result i p w)}"

text \<open>A submission that succeeds: the session, the effect key, then the replay or the settlement.\<close>

lemma submit_result_parts:
  assumes "submit_assignment_result i p w s = (Inr out, s')"
  obtains a eff s2 where "assignment_session i w s = (Inr a, s\<lparr>tick := Suc (tick s)\<rparr>)"
    "ensure_provider_effect_key (sa_workspace_id a) i (sa_attempt_number a) ''stage_execute'' (si_provider_effect_key p)
      (s\<lparr>tick := Suc (tick s)\<rparr>) = (Inr eff, s2)"
    "assignments s2 = assignments s" "credentials s2 = credentials s" "workers s2 = workers s" "clock s2 = clock s"
    "(\<not> ekr_created eff \<and> sa_status a \<in> {COMPLETED, StageAssignmentStatus.FAILED} \<and> s' = s2) \<or>
     submit_result i (si_success p) (si_result p) (si_error_message p) (Some (aw_worker_id w)) None s2 = (Inr (), s')"
    "submit_out i eff s' = (Inr out, s')"
proof -
  let ?s1 = "s\<lparr>tick := Suc (tick s)\<rparr>"
  let ?key = "\<lambda>a. ensure_provider_effect_key (sa_workspace_id a) i (sa_attempt_number a) ''stage_execute'' (si_provider_effect_key p)"
  let ?sub = "submit_result i (si_success p) (si_result p) (si_error_message p) (Some (aw_worker_id w)) None"
  have so: "snd (submit_out i eff t) = t" for eff t by (simp add: submit_out_def exec split: option.split)
  from assms obtain a s1 where a: "assignment_session i w s = (Inr a, s1)" and
    r: "bindM (?key a) (\<lambda>effect. if \<not> ekr_created effect \<and> sa_status a \<in> {COMPLETED, StageAssignmentStatus.FAILED}
        then submit_out i effect else andThen (lease_checked ?sub) (submit_out i effect)) s1 = (Inr out, s')"
    unfolding submit_assignment_result_def transaction_Inr by (rule bindM_InrE)
  from a have s1: "s1 = ?s1" by (simp add: session_Inr)
  from r obtain eff s2 where e: "?key a s1 = (Inr eff, s2)" and
    r2: "(if \<not> ekr_created eff \<and> sa_status a \<in> {COMPLETED, StageAssignmentStatus.FAILED}
        then submit_out i eff else andThen (lease_checked ?sub) (submit_out i eff)) s2 = (Inr out, s')"
    by (rule bindM_InrE)
  have k: "assignments s2 = assignments s" "credentials s2 = credentials s" "workers s2 = workers s" "clock s2 = clock s"
    using e by (auto simp: s1 ensure_provider_effect_key_exec Let_def split: if_splits)
  have "((\<not> ekr_created eff \<and> sa_status a \<in> {COMPLETED, StageAssignmentStatus.FAILED} \<and> s' = s2)
      \<or> ?sub s2 = (Inr (), s')) \<and> submit_out i eff s' = (Inr out, s')"
  proof (cases "\<not> ekr_created eff \<and> sa_status a \<in> {COMPLETED, StageAssignmentStatus.FAILED}")
    case True
    with r2 have "submit_out i eff s2 = (Inr out, s')" by (simp only: if_True simp_thms)
    with so [of eff s2] True show ?thesis by simp
  next
    case False
    with r2 have "andThen (lease_checked ?sub) (submit_out i eff) s2 = (Inr out, s')" by (simp only: if_False)
    then obtain x s3 where "lease_checked ?sub s2 = (Inr x, s3)" "submit_out i eff s3 = (Inr out, s')" by (rule andThen_InrE)
    with so [of eff s3] show ?thesis by (simp add: lease_checked_Inr)
  qed
  with that [of a eff s2] a e k s1 show ?thesis by blast
qed

lemma route_done:
  assumes "m \<in> assignment_routes i p w" "m s = (Inr (), s')"
  obtains a where "credential_good w s" "row_get sa_id i (assignments s) = Some a" "may_touch w a s"
    "sa_worker_id a = Some (aw_worker_id w) \<or> assignments s' = assignments s"
proof -
  from assms consider
      (ack) x where "ack_assignment i w s = (Inr x, s')"
    | (renew) x where "renew_assignment_lease i w s = (Inr x, s')"
    | (submit) x where "submit_assignment_result i p w s = (Inr x, s')"
    by (auto simp: assignment_routes_def void_Inr)
  then show ?thesis
  proof cases
    case ack
    then obtain a s1 where a: "assignment_session i w s = (Inr a, s1)" and
      r: "andThen (lease_checked (acknowledge i None (Some (aw_worker_id w)) None))
        (bindM (ensure_provider_effect_key (sa_workspace_id a) i (sa_attempt_number a) ''stage_execute'' None)
          (\<lambda>effect. lease_out i (Some (ekr_created effect)))) s1 = (Inr x, s')"
      unfolding ack_assignment_def transaction_Inr by (rule bindM_InrE)
    from r obtain s2 where "acknowledge i None (Some (aw_worker_id w)) None s1 = (Inr (), s2)"
      by (auto elim!: andThen_InrE simp: lease_checked_Inr)
    with a have "sa_worker_id a = Some (aw_worker_id w)" by (auto simp: session_Inr dest: acknowledge_owner)
    with a show ?thesis by (intro that [of a]) (auto simp: session_Inr)
  next
    case renew
    then obtain a s1 where a: "assignment_session i w s = (Inr a, s1)" and
      r: "andThen (lease_checked (renew_lease i None (Some (aw_worker_id w)) None)) (lease_out i None) s1 = (Inr x, s')"
      unfolding renew_assignment_lease_def transaction_Inr by (rule bindM_InrE)
    from r obtain s2 where "renew_lease i None (Some (aw_worker_id w)) None s1 = (Inr (), s2)"
      by (auto elim!: andThen_InrE simp: lease_checked_Inr)
    with a have "sa_worker_id a = Some (aw_worker_id w)" by (auto simp: session_Inr dest: renew_owner)
    with a show ?thesis by (intro that [of a]) (auto simp: session_Inr)
  next
    case submit
    obtain a s2 where a: "assignment_session i w s = (Inr a, s\<lparr>tick := Suc (tick s)\<rparr>)"
      "assignments s2 = assignments s" and
      "s' = s2 \<or> submit_result i (si_success p) (si_result p) (si_error_message p) (Some (aw_worker_id w)) None s2 = (Inr (), s')"
      by (rule submit_result_parts [OF submit]) blast
    then have "sa_worker_id a = Some (aw_worker_id w) \<or> assignments s' = assignments s"
      by (auto simp: session_Inr dest: submit_owner)
    with a show ?thesis by (intro that [of a]) (auto simp: session_Inr)
  qed
qed

text \<open>A transaction that fails leaves no row behind.\<close>

lemma transaction_atomic: "transaction m s = (Inl e, s') \<Longrightarrow> \<exists>n. s' = s\<lparr>tick := n\<rparr>"
  by (auto simp: transaction_Inl)

text \<open>
  C23: What a worker may do with an assignment. Acknowledging, renewing and submitting succeed only while the very
  credential the request came with is still active, unexpired and bound to the worker, the worker is registered, and the
  assignment is in the worker's workspace (for a global worker: its own); only the holder's request changes an
  assignment; and a request that fails leaves every row as it was.
\<close>

theorem assignment_routes_guarded:
  assumes "m \<in> assignment_routes i p w" and "m s = (r, s')"
  shows "case r of
      Inr _ \<Rightarrow> (\<exists>c. row_get wc_id (aw_credential_id w) (credentials s) = Some c
          \<and> wc_status c = WorkerCredentialStatus.ACTIVE \<and> wc_worker_id c = aw_worker_id w
          \<and> (case wc_expires_at c of None \<Rightarrow> True | Some e \<Rightarrow> clock s (tick s) < e))
        \<and> (\<exists>reg a. row_get wr_id (aw_worker_id w) (workers s) = Some reg \<and> wr_deregistered_at reg = None
          \<and> row_get sa_id i (assignments s) = Some a
          \<and> (if wr_workspace_id reg = None then sa_worker_id a = Some (aw_worker_id w)
             else sa_workspace_id a = aw_workspace_id w)
          \<and> (sa_worker_id a = Some (aw_worker_id w) \<or> assignments s' = assignments s))
    | Inl e \<Rightarrow> \<exists>n. s' = s\<lparr>tick := n\<rparr>"
proof (cases r)
  case (Inl e)
  with assms show ?thesis
    by (auto simp: assignment_routes_def void_Inl ack_assignment_def renew_assignment_lease_def
        submit_assignment_result_def dest!: transaction_atomic)
next
  case (Inr x)
  with assms have "m s = (Inr (), s')" by simp
  from route_done [OF assms(1) this] obtain a where a: "credential_good w s" "row_get sa_id i (assignments s) = Some a"
    "may_touch w a s" "sa_worker_id a = Some (aw_worker_id w) \<or> assignments s' = assignments s" by blast
  from a(1) have "\<exists>c. row_get wc_id (aw_credential_id w) (credentials s) = Some c
      \<and> wc_status c = WorkerCredentialStatus.ACTIVE \<and> wc_worker_id c = aw_worker_id w
      \<and> (case wc_expires_at c of None \<Rightarrow> True | Some e \<Rightarrow> clock s (tick s) < e)"
    by (auto simp: credential_good_def credential_expired_def split: option.splits)
  with a(2-4) Inr show ?thesis unfolding may_touch_def by auto
qed

text \<open>
  A worker that authenticated before its credential was revoked is stopped at the next step: claiming,
  acknowledging, renewing and submitting answer 401 and change nothing.
\<close>

theorem revoked_credential_stopped:
  assumes "dead_credential (aw_credential_id w) s"
  shows "claim_assignment_endpoint tok w s = (Inl (HTTPException 401 ''invalid worker credentials''), s\<lparr>tick := Suc (tick s)\<rparr>)
    \<and> (\<forall>m \<in> assignment_routes i p w. m s = (Inl (HTTPException 401 ''invalid worker credentials''), s\<lparr>tick := Suc (tick s)\<rparr>))"
proof -
  have "\<not> credential_good w s" using assms by (auto simp: dead_credential_def credential_good_def)
  then show ?thesis
    by (simp add: assignment_routes_def claim_assignment_endpoint_def ack_assignment_def renew_assignment_lease_def
        submit_assignment_result_def transaction_exec assignment_session_def andThen_exec bindM_exec credential_check_exec
        unauthorized_def)
qed

text \<open>Recovery frees slots but does not touch a worker's drain flag.\<close>

definition drains :: "db \<Rightarrow> (uuid \<times> bool) list" where
  "drains s = map (\<lambda>w. (wr_id w, wr_drain w)) (workers s)"

lemma blind_drains [simp]: "blind drains"
  by (simp add: blind_def drains_def)

lemma drains_tables [simp]:
  "drains (assignments_update g1 s) = drains s" "drains (recovery_audits_update g2 s) = drains s"
  "drains (dead_letters_update g3 s) = drains s" "drains (s\<lparr>tick := n\<rparr>) = drains s"
  "drains (s\<lparr>tick := n, events := es\<rparr>) = drains s"
  by (simp_all add: drains_def)

lemma drains_get: "map_option wr_drain (row_get wr_id i (workers s)) = map_of (drains s) i"
  by (simp add: drains_def row_get_map_of map_of_map o_def option.map_comp) 

lemma keeps_drains_recover: "keeps drains (reap_worker_assignments w rs b t d)"
proof -
  have slot: "keeps drains (release_worker_slot ow)" for ow
    unfolding release_worker_slot_def by (intro steps_intro) (auto simp: drains_def free_slot_def Let_def intro!: map_row_set)
  have key: "keeps drains (rekey_assignment i k)" for i k
    by (auto simp: steps_def eqOn_def rekey_assignment_def split: option.split)
  have "keeps drains (give_up a r n dt m)" for a r n dt m
    unfolding give_up_def by (intro steps_intro; simp)
  moreover have "keeps drains (announce_requeue a r n)" for a r n
    unfolding announce_requeue_def by (intro steps_intro; simp)
  then have "keeps drains (requeue a r dt n)" for a r dt n
    unfolding requeue_def by (intro key steps_intro; simp)
  moreover have "keeps drains (resolve_max_attempts a)" for a
    unfolding resolve_max_attempts_def by (intro steps_intro)
  ultimately have "keeps drains (recover_assignment i r tm dt)" for i r tm dt
    unfolding recover_assignment_def Let_def by (intro slot steps_intro; simp)
  then have rr: "keeps drains (reap_rounds n w rs l now d)" for n l now
    by (induction n) (auto intro!: steps_intro)
  show ?thesis unfolding reap_worker_assignments_def by (intro rr steps_intro) (simp add: drains_def)
qed

text \<open>
  A worker that (re)registers starts clean: what its previous process held has been recovered, its load is zero,
  it is \<open>ONLINE\<close> with the announced stages, a version the server accepts, and an administrator's \<open>drain\<close> stays.
\<close>

theorem registration_resets:
  assumes "register_worker p w s = (r, s')" and "distinct (map sa_id (assignments s))" "1 \<le> assignment_reaper_batch_size (cfg s)"
  shows "case r of
      Inr out \<Rightarrow> held_by (aw_worker_id w) s' = []
        \<and> wro_accepted_protocol_version out \<in> set (worker_capability_protocol_versions (cfg s))
        \<and> (\<exists>old new. row_get wr_id (aw_worker_id w) (workers s') = Some new \<and> wr_status new = ONLINE
            \<and> wr_current_load new = 0 \<and> wr_deregistered_at new = None
            \<and> wr_supported_stages new = wri_supported_stages p \<and> wr_max_concurrency new = wri_max_concurrency p
            \<and> row_get wr_id (aw_worker_id w) (workers s) = Some old \<and> wr_drain new = wr_drain old)
    | Inl e \<Rightarrow> \<exists>n. s' = s\<lparr>tick := n\<rparr>"
proof -
  let ?i = "aw_worker_id w"
  let ?acc = "worker_capability_protocol_versions (cfg s)" and ?v = "cs_protocol_version (wri_capabilities p)"
  let ?body = "bindM (get_row workers wr_id ?i) (\<lambda>registration.
       case registration of
         None \<Rightarrow> raise (HTTPException 404 ''worker not found'')
       | Some _ \<Rightarrow>
           bindM utcnow (\<lambda>now.
           bindM (reap_worker_assignments ?i WORKER_RESTART None (Some now) None) (\<lambda>_.
           set_worker ?i (announce p now))))"
  show ?thesis
  proof (cases "?v \<in> set ?acc \<and> (\<exists>t. transaction ?body s = (Inr (), t))")
    case False
    have "\<exists>e n. r = Inl e \<and> s' = s\<lparr>tick := n\<rparr>"
    proof (cases "?v \<in> set ?acc")
      case True
      with False obtain e t where "transaction ?body s = (Inl e, t)"
        by (cases "transaction ?body s") (metis (full_types) old.unit.exhaust sum.exhaust)
      with True assms(1) transaction_atomic [OF this] show ?thesis
        by (auto simp: register_worker_def bindM_exec gets_exec andThen_exec Let_def)
    next
      case False
      with assms(1) show ?thesis
        by (auto simp: register_worker_def bindM_exec gets_exec raise_exec Let_def intro: exI [of _ "tick s"])
    qed
    then show ?thesis by auto
  next
    case True
    then obtain t where v: "?v \<in> set ?acc" and t: "?body s = (Inr (), t)" by (auto simp: transaction_Inr)
    obtain old where old: "row_get wr_id ?i (workers s) = Some old"
      using t by (cases "row_get wr_id ?i (workers s)") (simp_all add: bindM_exec gets_exec raise_exec)
    let ?s1 = "s\<lparr>tick := Suc (tick s)\<rparr>" and ?now = "clock s (tick s)"
    from t old obtain outs s2 where reap: "reap_worker_assignments ?i WORKER_RESTART None (Some ?now) None ?s1 = (Inr outs, s2)"
      and t2: "t = workers_update (row_set wr_id ?i (announce p ?now)) s2"
      by (auto simp: bindM_exec gets_exec utcnow_exec store_exec split: prod.splits sum.splits)
    have "transaction ?body s = (Inr (), t)" using t by (simp add: transaction_Inr)
    with assms(1) v have rs: "s' = t"
      "r = Inr \<lparr> wro_worker_id = ?i, wro_status = ONLINE, wro_accepted_protocol_version = ?v \<rparr>"
      by (auto simp: register_worker_def bindM_exec gets_exec andThen_exec ret_exec Let_def)
    have "held_by ?i s2 = []"
      by (rule reap_worker_empties [OF reap]) (use assms(2,3) in \<open>simp_all add: the_or_def\<close>)
    then have h: "held_by ?i s' = []" by (simp add: rs t2 held_by_def unlocked_def)
    have "drains s2 = drains s" using keepsD' [OF keeps_drains_recover reap] by simp
    then have "map_option wr_drain (row_get wr_id ?i (workers s2)) = Some (wr_drain old)"
      using old drains_get [of ?i s2] drains_get [of ?i s] by simp
    then obtain mid where "row_get wr_id ?i (workers s2) = Some mid" "wr_drain mid = wr_drain old" by auto
    then have "row_get wr_id ?i (workers s') = Some (announce p ?now mid)" "wr_drain (announce p ?now mid) = wr_drain old"
      by (simp_all add: rs(1) t2 announce_def)
    with h v old show ?thesis unfolding rs(2) by (auto simp: announce_def)
  qed
qed

lemma released_get:
  assumes "row_get wr_id j ws = Some reg"
  shows "\<exists>reg'. row_get wr_id j (released ow ws) = Some reg' \<and> wr_deregistered_at reg' = wr_deregistered_at reg
    \<and> wr_workspace_id reg' = wr_workspace_id reg"
  using assms by (auto simp: released_def row_get_set split: option.split)

lemma may_touch_closed:
  assumes "may_touch w a s" "workers s' = released ow (workers s)"
  shows "may_touch w (closed_assignment b r now a) s'"
proof -
  obtain reg where reg: "row_get wr_id (aw_worker_id w) (workers s) = Some reg" "wr_deregistered_at reg = None"
    "if wr_workspace_id reg = None then sa_worker_id a = Some (aw_worker_id w) else sa_workspace_id a = aw_workspace_id w"
    using assms(1) by (auto simp: may_touch_def)
  with released_get [OF reg(1), of ow] obtain reg' where "row_get wr_id (aw_worker_id w) (workers s') = Some reg'"
    "wr_deregistered_at reg' = None" "wr_workspace_id reg' = wr_workspace_id reg" by (auto simp: assms(2))
  with reg(3) show ?thesis by (auto simp: may_touch_def closed_assignment_def)
qed

text \<open>
  Submitting is idempotent: a worker that repeats a submission (its answer was lost, say) is told the outcome of the
  first, with the effect key marked as already used, and nothing in the database changes.
\<close>

theorem submit_route_idempotent:
  assumes "submit_assignment_result i p w s = (Inr out, s')"
    and "\<And>c. row_get wc_id (aw_credential_id w) (credentials s) = Some c \<Longrightarrow> \<not> credential_expired c (clock s k)"
  shows "\<exists>n. submit_assignment_result i p w (s'\<lparr>tick := k\<rparr>)
    = (Inr (out\<lparr>so_provider_effect_created := Some False\<rparr>), s'\<lparr>tick := n\<rparr>)"
proof -
  let ?key = "\<lambda>a. ensure_provider_effect_key (sa_workspace_id a) i (sa_attempt_number a) ''stage_execute'' (si_provider_effect_key p)"
  let ?sub = "submit_result i (si_success p) (si_result p) (si_error_message p) (Some (aw_worker_id w)) None"
  obtain a eff s2 where r: "assignment_session i w s = (Inr a, s\<lparr>tick := Suc (tick s)\<rparr>)"
    "?key a (s\<lparr>tick := Suc (tick s)\<rparr>) = (Inr eff, s2)"
    "assignments s2 = assignments s" "credentials s2 = credentials s" "workers s2 = workers s" "clock s2 = clock s"
    "(\<not> ekr_created eff \<and> sa_status a \<in> {COMPLETED, StageAssignmentStatus.FAILED} \<and> s' = s2) \<or> ?sub s2 = (Inr (), s')"
    "submit_out i eff s' = (Inr out, s')"
    by (rule submit_result_parts [OF assms(1)])
  have good: "credential_good w s" "row_get sa_id i (assignments s) = Some a" "may_touch w a s"
    using r(1) by (simp_all add: session_Inr)
  let ?k = "effect_key_for i (sa_attempt_number a) (si_provider_effect_key p)"
  have key: "ekr_effect_key eff = ?k" "key_recorded (sa_workspace_id a) ?k s2"
    using r(2) by (auto simp: ensure_provider_effect_key_exec Let_def key_recorded_def split: if_splits)
  have w2: "writes s2 s'" using r(7) w_submit(4) by (auto simp: steps_def) (metis snd_conv)
  have clk: "clock s' = clock s" using writes_env [OF w2] r(6) by (simp add: same_env_def)
  have "set (effect_keys s2) \<subseteq> set (effect_keys s')"
    using writes_history [OF w2] by (intro extends_set) (simp add: history_grows_def)
  then have key': "key_recorded (sa_workspace_id a) ?k s'" using key(2) by (auto simp: key_recorded_def list_ex_iff)
  have "\<exists>a'. row_get sa_id i (assignments s') = Some a' \<and> sa_status a' \<in> {COMPLETED, StageAssignmentStatus.FAILED}
      \<and> sa_workspace_id a' = sa_workspace_id a \<and> sa_attempt_number a' = sa_attempt_number a \<and> sa_worker_id a' = sa_worker_id a
      \<and> credentials s' = credentials s \<and> may_touch w a' s'"
    using r(7)
  proof
    assume "\<not> ekr_created eff \<and> sa_status a \<in> {COMPLETED, StageAssignmentStatus.FAILED} \<and> s' = s2"
    then show ?thesis using good(2,3) r(3-5) by (auto simp: may_touch_def)
  next
    assume sub: "?sub s2 = (Inr (), s')"
    let ?now = "clock s2 (tick s2)" and ?s3 = "s2\<lparr>tick := Suc (tick s2)\<rparr>"
    have row: "row_get sa_id i (assignments ?s3) = Some a" using good(2) r(3) by simp
    have sub3: "submit_result i (si_success p) (si_result p) (si_error_message p) (Some (aw_worker_id w)) (Some ?now) ?s3 = (Inr (), s')"
      using sub by (simp add: submit_result_def bindM_exec now_or_utcnow_exec)
    note f = submit_result_Inr [OF row sub3]
    have c: "credentials s' = credentials s" using keepsD' [OF keeps_submit_result(1) sub] r(4) by simp
    let ?a' = "closed_assignment (si_success p) (si_result p) ?now a"
    have "row_get sa_id i (assignments s') = Some ?a'" using f(2) row by simp
    moreover have "may_touch w ?a' s'"
      using good(3) f(3) r(5) by (intro may_touch_closed) simp_all
    ultimately show ?thesis using c by (intro exI [of _ ?a']) (simp add: closed_assignment_def)
  qed
  then obtain a' where a': "row_get sa_id i (assignments s') = Some a'" "sa_status a' \<in> {COMPLETED, StageAssignmentStatus.FAILED}"
    "sa_workspace_id a' = sa_workspace_id a" "sa_attempt_number a' = sa_attempt_number a"
    "credentials s' = credentials s" "may_touch w a' s'" by blast
  let ?t = "s'\<lparr>tick := k\<rparr>" and ?t1 = "s'\<lparr>tick := Suc k\<rparr>"
  have "credential_good w ?t"
    using good(1) assms(2) a'(5) clk by (auto simp: credential_good_def split: option.splits)
  then have 1: "assignment_session i w ?t = (Inr a', ?t1)" using a'(1,6) by (simp add: session_Inr may_touch_def)
  have 2: "?key a' ?t1 = (Inr \<lparr> ekr_effect_key = ?k, ekr_created = False \<rparr>, s'\<lparr>tick := Suc (Suc k)\<rparr>)"
    using key' a'(3,4) by (simp add: ensure_provider_effect_key_exec Let_def key_recorded_def)
  have 3: "submit_out i \<lparr> ekr_effect_key = ?k, ekr_created = False \<rparr> (s'\<lparr>tick := Suc (Suc k)\<rparr>)
      = (Inr (out\<lparr>so_provider_effect_created := Some False\<rparr>), s'\<lparr>tick := Suc (Suc k)\<rparr>)"
    using r(8) key(1) a'(1) by (auto simp: submit_out_def exec)
  show ?thesis
    by (intro exI [of _ "Suc (Suc k)"])
      (use a'(2) in \<open>simp add: submit_assignment_result_def transaction_exec bindM_exec 1 2 3\<close>)
qed

section \<open>What the routes do not check\<close>

text \<open>
  Only the claim and assignment routes look at the credential again. A registration or a heartbeat that had authenticated
  before the credential was revoked still goes through, and puts the worker the revocation took offline back \<open>ONLINE\<close>.
\<close>

definition auth20 :: AuthenticatedWorker where
  "auth20 = \<lparr> aw_worker_id = 20, aw_credential_id = 80, aw_workspace_id = 1 \<rparr>"

definition announcement :: WorkerRegisterIn where
  "announcement = \<lparr> wri_supported_stages = [''scripting''],
     wri_capabilities = \<lparr> cs_protocol_version = 1, cs_providers = [], cs_features = [] \<rparr>,
     wri_worker_version = None, wri_max_concurrency = 1 \<rparr>"

definition revoked_db :: db where
  "revoked_db = snd (revoke_worker_credentials 1 20 70 admin_db)"

lemmas admin_ops = require_workspace_admin_def require_workspace_role_def get_membership_def get_workspace_worker_def
  active_credentials_def reap_worker_assignments_def held_by_def unlocked_def limit_rows_def the_or_def transaction_exec

lemma revoked_db_eq:
  "revoked_db = admin_db\<lparr> credentials := map (wc_status_update (\<lambda>_. WorkerCredentialStatus.REVOKED)) (credentials admin_db),
     workers := map (\<lambda>w. w\<lparr> wr_status := OFFLINE, wr_current_load := 0 \<rparr>) (workers admin_db), tick := 1 \<rparr>"
  by (simp add: revoked_db_def revoke_worker_credentials_def admin_ops exec admin_fixture)

text \<open>
  The gap this leaves. The worker was authenticated, its credential is then revoked and the worker taken offline; its
  registration, already past authentication, brings the worker back \<open>ONLINE\<close> although no credential of it works.
\<close>

theorem revoked_worker_registers_again:
  "\<exists>s1 out s'. get_current_worker (Some (worker_secret_text 80 ''s'')) admin_db = (Inr auth20, s1)
    \<and> revoked_db = snd (revoke_worker_credentials 1 20 70 admin_db)
    \<and> map wr_status (workers revoked_db) = [OFFLINE]
    \<and> register_worker announcement auth20 revoked_db = (Inr out, s')
    \<and> map wr_status (workers s') = [ONLINE]
    \<and> \<not> list_ex (\<lambda>c. wc_status c = WorkerCredentialStatus.ACTIVE) (credentials s')"
proof -
  have "get_current_worker (Some (worker_secret_text 80 ''s'')) admin_db = authenticate 80 ''s'' admin_db"
    by (rule secret_text_parsed) simp_all
  moreover have "authenticate 80 ''s'' admin_db = (Inr auth20, admin_db\<lparr>tick := Suc (tick admin_db)\<rparr>)"
    by (simp add: authenticate_def exec scalar_one_or_none_def auth20_def credential_expired_def Let_def admin_fixture)
  ultimately have 1: "get_current_worker (Some (worker_secret_text 80 ''s'')) admin_db
      = (Inr auth20, admin_db\<lparr>tick := Suc (tick admin_db)\<rparr>)" by simp
  have 2: "map wr_status (workers revoked_db) = [OFFLINE]" by (simp add: revoked_db_eq admin_fixture)
  have "\<exists>out s'. register_worker announcement auth20 revoked_db = (Inr out, s') \<and> map wr_status (workers s') = [ONLINE]
      \<and> \<not> list_ex (\<lambda>c. wc_status c = WorkerCredentialStatus.ACTIVE) (credentials s')"
    by (simp add: register_worker_def announcement_def announce_def auth20_def revoked_db_eq admin_ops exec admin_fixture)
  then show ?thesis using 1 2 revoked_db_def by auto
qed

definition busy_db :: db where
  "busy_db = pending_db\<lparr> assignments := [held_assignment, sample_assignment\<lparr> sa_id := 31 \<rparr>],
     workers := [sample_worker\<lparr> wr_max_concurrency := 1, wr_current_load := 1 \<rparr>] \<rparr>"

definition idle_db :: db where
  "idle_db = busy_db\<lparr> workers := [sample_worker\<lparr> wr_max_concurrency := 1, wr_current_load := 0, wr_last_heartbeat_at := Some 1000 \<rparr>],
     heartbeats := [\<lparr> whb_worker_id = 20, whb_status = ONLINE, whb_current_load = 0, whb_heartbeat_at = 1000 \<rparr>], tick := Suc (Suc 0) \<rparr>"

text \<open>
  A heartbeat overwrites the slot count. The count a worker reports is taken as it is, so a worker of concurrency one
  that holds an assignment and reports a load of zero is given a second one.
\<close>

theorem heartbeat_overbooks_worker:
  "\<exists>refused out s' granted s''. map (\<lambda>w. (wr_max_concurrency w, wr_current_load w)) (workers busy_db) = [(1, 1)]
    \<and> fst (claim_assignment 20 (Some 1000) None (Some 1) busy_db) = Inr refused \<and> clr_assignment refused = None
    \<and> worker_heartbeat ONLINE 0 auth20 busy_db = (Inr out, s')
    \<and> claim_assignment 20 (Some 1000) None (Some 1) s' = (Inr granted, s'') \<and> clr_assignment granted = Some 31
    \<and> map (\<lambda>a. (sa_id a, sa_worker_id a)) (assignments s'') = [(30, Some 20), (31, Some 20)]"
proof -
  have b: "map (\<lambda>w. (wr_max_concurrency w, wr_current_load w)) (workers busy_db) = [(1, 1)]"
    by (simp add: busy_db_def fixture)
  have "\<exists>r. fst (claim_assignment 20 (Some 1000) None (Some 1) busy_db) = Inr r \<and> clr_assignment r = None"
    by (simp add: claim_ops exec busy_db_def pending_db_def fixture)
  moreover have "snd (worker_heartbeat ONLINE 0 auth20 busy_db) = idle_db" "\<exists>out. fst (worker_heartbeat ONLINE 0 auth20 busy_db) = Inr out"
    by (simp_all add: worker_heartbeat_def worker_out_def compute_liveness_def transaction_exec auth20_def exec idle_db_def busy_db_def pending_db_def fixture)
  then have "\<exists>out. worker_heartbeat ONLINE 0 auth20 busy_db = (Inr out, idle_db)" by (metis prod.collapse)
  moreover have "\<exists>r s''. claim_assignment 20 (Some 1000) None (Some 1) idle_db = (Inr r, s'') \<and> clr_assignment r = Some 31
      \<and> map (\<lambda>a. (sa_id a, sa_worker_id a)) (assignments s'') = [(30, Some 20), (31, Some 20)]"
  proof -
    have "\<exists>r. fst (claim_assignment 20 (Some 1000) None (Some 1) idle_db) = Inr r \<and> clr_outcome r = GRANTED \<and> clr_reason r = ''claimed''"
      by (simp add: claim_ops dispatch_ops spend_ops workflow_ops exec idle_db_def busy_db_def pending_db_def fixture held_assignment_def)
    then obtain r s'' where c: "claim_assignment 20 (Some 1000) None (Some 1) idle_db = (Inr r, s'')"
      "clr_outcome r = GRANTED" "clr_reason r = ''claimed''" by (metis prod.collapse)
    have rows: "assignments idle_db = [held_assignment, sample_assignment\<lparr> sa_id := 31 \<rparr>]"
      by (simp add: idle_db_def busy_db_def)
    from c(1) show ?thesis
    proof (cases rule: claim_cases)
      case (granted w a b s1)
      note k = claim_funded_keeps [OF granted(5)]
      have "a \<in> set (claimable w [] idle_db)"
        using scan_finds [OF _ granted(4)] by (simp add: rows held_assignment_def sample_assignment_def)
      then have a: "a = sample_assignment\<lparr> sa_id := 31 \<rparr>"
        by (auto simp: rows held_assignment_def sample_assignment_def claimable_def unlocked_def
            split: if_splits)
      obtain tid where "clr_assignment r = Some 31"
        "assignments s'' = row_set sa_id 31 (claimed_row (wr_id w) 1000 (assignment_lease_seconds (cfg idle_db)) None tid) (assignments idle_db)"
        using grant_claim_result [of w a 1000 None "Some 1" s1, unfolded k] granted(6) by (auto simp: a)
      moreover have "wr_id w = 20" using granted(1) by (rule row_get_key)
      ultimately show ?thesis using c(1) unfolding rows
        by (simp add: row_set_def claimed_row_def held_assignment_def sample_assignment_def)
    qed (use c in \<open>auto dest!: refuse_claim_result(1)\<close>)
  qed
  ultimately show ?thesis using b by (metis prod.collapse)
qed

section \<open>Witnesses\<close>

definition working_db :: db where
  "working_db = admin_db\<lparr> assignments := [held_assignment], reservations := [sample_reservation] \<rparr>"

lemma working_row: "row_get sa_id 30 (assignments working_db) = Some held_assignment"
  by (simp add: working_db_def held_assignment_def fixture)

lemma assignment_routes_guarded_witness:
  "\<exists>s'. void (renew_assignment_lease 30 auth20) working_db = (Inr (), s') \<and> wc_status (hd (credentials working_db)) = WorkerCredentialStatus.ACTIVE"
proof -
  have "fst (void (renew_assignment_lease 30 auth20) working_db) = Inr ()"
    by (simp add: renew_assignment_lease_def assignment_session_def assert_credential_still_active_def credential_expired_def
        load_owned_assignment_def renew_lease_def assert_lease_extendable_def extend_lease_def lease_checked_def lease_out_def
        lease_start_def max_lease_seconds_setting_def lease_seconds_setting_def transaction_exec the_or_def auth20_def exec held_assignment_def working_db_def admin_fixture)
  then obtain s' where 1: "void (renew_assignment_lease 30 auth20) working_db = (Inr (), s')" by (metis prod.collapse)
  have "void (renew_assignment_lease 30 auth20) \<in> assignment_routes 30 p auth20" for p by (simp add: assignment_routes_def)
  from assignment_routes_guarded [OF this 1] 1 show ?thesis
    by (auto simp: working_db_def auth20_def admin_fixture split: if_splits)
qed

lemma revoked_credential_stopped_witness:
  "claim_assignment_endpoint (Some 5) auth20 revoked_db
    = (Inl (HTTPException 401 ''invalid worker credentials''), revoked_db\<lparr>tick := Suc (tick revoked_db)\<rparr>)"
proof -
  have "dead_credential (aw_credential_id auth20) revoked_db"
    by (simp add: dead_credential_def auth20_def revoked_db_eq admin_fixture)
  from revoked_credential_stopped [OF this] show ?thesis by blast
qed

lemma registration_resets_witness:
  "\<exists>out s'. register_worker announcement auth20 admin_db = (Inr out, s') \<and> held_by 20 s' = []
    \<and> (\<exists>new. row_get wr_id 20 (workers s') = Some new \<and> wr_max_concurrency new = 1)"
proof -
  have "\<exists>out. fst (register_worker announcement auth20 admin_db) = Inr out"
    by (simp add: register_worker_def announcement_def auth20_def admin_ops exec admin_fixture)
  then obtain out s' where 1: "register_worker announcement auth20 admin_db = (Inr out, s')" by (metis prod.collapse)
  have "distinct (map sa_id (assignments admin_db))" "1 \<le> assignment_reaper_batch_size (cfg admin_db)"
    by (simp_all add: admin_fixture)
  from registration_resets [OF 1 this] 1 show ?thesis by (auto simp: auth20_def announcement_def)
qed

definition failed_result :: SubmitIn where
  "failed_result = \<lparr> si_success = False, si_result = None, si_error_message = ''bad prompt'', si_provider_effect_key = None \<rparr>"

lemma submit_route_idempotent_witness:
  "\<exists>out s' out'. submit_assignment_result 30 failed_result auth20 working_db = (Inr out, s')
    \<and> fst (submit_assignment_result 30 failed_result auth20 (s'\<lparr>tick := 7\<rparr>)) = Inr out'
    \<and> so_provider_effect_created out' = Some False"
proof -
  have nr: "\<not> is_retryable ''bad prompt''" by code_simp
  have "\<exists>out. fst (submit_assignment_result 30 failed_result auth20 working_db) = Inr out"
    by (simp add: nr submit_assignment_result_def failed_result_def assignment_session_def assert_credential_still_active_def
        credential_expired_def load_owned_assignment_def lease_checked_def submit_out_def ensure_provider_effect_key_exec
        key_recorded_def transaction_exec auth20_def submit_ops spend_ops workflow_ops handle_stage_failure_def
        dead_letter_run_def fail_run_def route_to_dead_letter_def exec held_assignment_def working_db_def admin_fixture)
  then obtain out s' where 1: "submit_assignment_result 30 failed_result auth20 working_db = (Inr out, s')" by (metis prod.collapse)
  have "\<not> credential_expired c (clock working_db 7)" if "row_get wc_id (aw_credential_id auth20) (credentials working_db) = Some c" for c
    using that by (auto simp: auth20_def credential_expired_def working_db_def admin_fixture)
  from submit_route_idempotent [OF 1 this] show ?thesis using 1 by auto
qed

end
