(* ===== verification/PublicationPolicy.thy ===== *)
theory PublicationPolicy imports Sha256 Writes Fixtures begin

text \<open>
  \<open>services/publication_policy.py\<close>: the gate every publication has to pass. \<open>assert_publishable\<close> is the code's
  chain of checks, \<open>publishable\<close> says what it is a check of; the fingerprint of a script is the SHA-256 of its
  normalised text.
\<close>

section \<open>The fingerprint of a script\<close>

definition SUPPORTED_PLATFORMS :: "string list" where
  "SUPPORTED_PLATFORMS = [''youtube'', ''tiktok'', ''instagram'']"

definition normalized_script :: "string option list \<Rightarrow> string" where
  "normalized_script parts =
     strip (join '' '' (map (\<lambda>part. join '' '' (split_ws [] (lower (case part of None \<Rightarrow> [] | Some t \<Rightarrow> t)))) parts))"

definition fingerprint_script :: "string option list \<Rightarrow> exn + string" where
  "fingerprint_script parts =
     (let normalized = normalized_script parts in
      if normalized = [] then
        Inl (PublicationBlocked ''originality_fingerprint_missing'' ''cannot fingerprint empty script content'')
      else Inr (sha256_hex normalized))"

section \<open>The checks\<close>

record PublicationDecision =
  pd_content_item_id :: uuid
  pd_platform :: string
  pd_eligibility_id :: uuid
  pd_review_gate_id :: uuid

definition blocked :: "string \<Rightarrow> string \<Rightarrow> 'a M" where
  "blocked code message = raise (PublicationBlocked code message)"

text \<open>\<open>repr\<close> of a text: quotes that do not occur in it, escapes for what does not print.\<close>

definition repr_char :: "char \<Rightarrow> char \<Rightarrow> string" where
  "repr_char q c =
     (let n = of_char c :: nat in
      if c = q \<or> n = 92 then [char_of (92 :: nat), c]
      else if n = 9 then [char_of (92 :: nat), CHR ''t'']
      else if n = 10 then [char_of (92 :: nat), CHR ''n'']
      else if n = 13 then [char_of (92 :: nat), CHR ''r'']
      else if n < 32 \<or> (127 \<le> n \<and> n \<le> 160) \<or> n = 173 then [char_of (92 :: nat), CHR ''x'', digit_char (n div 16), digit_char (n mod 16)]
      else [c])"

definition repr_str :: "string \<Rightarrow> string" where
  "repr_str s =
     (let single = char_of (39 :: nat); double = char_of (34 :: nat);
          q = (if single \<in> set s \<and> double \<notin> set s then double else single)
      in [q] @ concat (map (repr_char q) s) @ [q])"

definition normalized_platform :: "string \<Rightarrow> string" where
  "normalized_platform platform = lower (strip platform)"

definition load_eligibility :: "uuid \<Rightarrow> uuid \<Rightarrow> string \<Rightarrow> PublicationEligibility M" where
  "load_eligibility workspace_id content_item_id platform =
     bindM (query_one (\<lambda>s. filter (\<lambda>e. pe_workspace_id e = workspace_id \<and> pe_content_item_id e = content_item_id
       \<and> pe_platform e = platform) (eligibilities s))) (\<lambda>row.
     case row of
       None \<Rightarrow> blocked ''eligibility_missing'' ''no publication eligibility record exists for this item and platform''
     | Some e \<Rightarrow> ret e)"

definition approved_gate :: "uuid \<Rightarrow> PublicationEligibility \<Rightarrow> ReviewGate M" where
  "approved_gate workspace_id row =
     (case pe_review_gate_id row of
        None \<Rightarrow> blocked ''review_gate_missing'' ''publication requires an approved human review gate''
      | Some i \<Rightarrow>
          bindM (get_row gates rg_id i) (\<lambda>gate. case gate of
            None \<Rightarrow> blocked ''review_gate_missing'' ''the referenced review gate does not exist in this workspace''
          | Some g \<Rightarrow>
              if rg_workspace_id g \<noteq> workspace_id then
                blocked ''review_gate_missing'' ''the referenced review gate does not exist in this workspace''
              else if rg_status g \<noteq> ReviewGateStatus.APPROVED then
                blocked ''review_gate_not_approved'' (''review gate status is '' @ repr_str (review_gate_status_value (rg_status g))
                  @ ''; publication requires '' @ repr_str ''approved'')
              else ret g))"

definition check_gate_item :: "uuid \<Rightarrow> uuid \<Rightarrow> ReviewGate \<Rightarrow> unit M" where
  "check_gate_item workspace_id content_item_id gate =
     bindM (get_row runs pr_id (rg_pipeline_run_id gate)) (\<lambda>run. case run of
       None \<Rightarrow> blocked ''review_gate_missing'' ''the referenced review gate has no pipeline run in this workspace''
     | Some r \<Rightarrow>
         if pr_workspace_id r \<noteq> workspace_id then
           blocked ''review_gate_missing'' ''the referenced review gate has no pipeline run in this workspace''
         else if pr_content_item_id r \<noteq> content_item_id then
           blocked ''review_gate_content_item_mismatch'' ''the approved review gate belongs to a different content item''
         else ret ())"

definition check_gate_version :: "uuid \<Rightarrow> uuid \<Rightarrow> ReviewGate \<Rightarrow> unit M" where
  "check_gate_version workspace_id content_item_id gate =
     bindM (get_row items ci_id content_item_id) (\<lambda>item. case item of
       None \<Rightarrow> blocked ''content_item_missing'' ''the requested content item does not exist in this workspace''
     | Some it \<Rightarrow>
         if ci_workspace_id it \<noteq> workspace_id then
           blocked ''content_item_missing'' ''the requested content item does not exist in this workspace''
         else if rg_content_version_id gate = None \<or> ci_current_version_id it = None
             \<or> rg_content_version_id gate \<noteq> ci_current_version_id it then
           blocked ''review_gate_content_version_mismatch''
             ''the approved review gate does not bind to the current content version''
         else ret ())"

definition check_attestations :: "PublicationEligibility \<Rightarrow> string M" where
  "check_attestations row =
     (if \<not> pe_synthetic_media_disclosed row then
        blocked ''synthetic_media_not_disclosed'' ''platform policy requires AI/synthetic-media disclosure before publishing''
      else if pe_rights_confirmed_by row = None \<or> pe_rights_confirmed_at row = None then
        blocked ''rights_not_confirmed'' ''a named reviewer must confirm content rights before publishing''
      else case pe_originality_fingerprint row of
        None \<Rightarrow> blocked ''originality_fingerprint_missing'' ''an originality fingerprint is required before publishing''
      | Some f \<Rightarrow>
          if f = [] then blocked ''originality_fingerprint_missing'' ''an originality fingerprint is required before publishing''
          else ret f)"

definition same_fingerprint :: "uuid \<Rightarrow> uuid \<Rightarrow> string \<Rightarrow> string \<Rightarrow> db \<Rightarrow> PublicationEligibility list" where
  "same_fingerprint workspace_id content_item_id platform f s =
     filter (\<lambda>e. pe_workspace_id e = workspace_id \<and> pe_platform e = platform \<and> pe_originality_fingerprint e = Some f
       \<and> pe_content_item_id e \<noteq> content_item_id) (eligibilities s)"

definition assert_publishable :: "uuid \<Rightarrow> uuid \<Rightarrow> string \<Rightarrow> PublicationDecision M" where
  "assert_publishable workspace_id content_item_id platform =
     (let p = normalized_platform platform in
      if p \<notin> set SUPPORTED_PLATFORMS then
        blocked ''unsupported_platform'' (''platform '' @ repr_str platform @ '' is not an approved publication target'')
      else
        bindM (load_eligibility workspace_id content_item_id p) (\<lambda>row.
        bindM (approved_gate workspace_id row) (\<lambda>gate.
        andThen (check_gate_item workspace_id content_item_id gate) (
        andThen (check_gate_version workspace_id content_item_id gate) (
        bindM (check_attestations row) (\<lambda>f.
        bindM (query (same_fingerprint workspace_id content_item_id p f)) (\<lambda>duplicates.
        if duplicates \<noteq> [] then
          blocked ''duplicate_content_for_platform'' (''identical content was already prepared for this platform in this ''
            @ ''workspace; repetitive mass output is not publishable'')
        else ret \<lparr> pd_content_item_id = content_item_id, pd_platform = p, pd_eligibility_id = pe_id row,
                    pd_review_gate_id = rg_id gate \<rparr>)))))))"

section \<open>What they check\<close>

text \<open>
  The contract: the item may go to the platform, on the strength of this eligibility record and this review gate.
\<close>

definition publishable :: "uuid \<Rightarrow> uuid \<Rightarrow> string \<Rightarrow> PublicationEligibility \<Rightarrow> ReviewGate \<Rightarrow> db \<Rightarrow> bool" where
  "publishable ws item platform e g s \<longleftrightarrow>
     platform \<in> {''youtube'', ''tiktok'', ''instagram''}
     \<and> e \<in> set (eligibilities s) \<and> pe_workspace_id e = ws \<and> pe_content_item_id e = item \<and> pe_platform e = platform
     \<and> pe_review_gate_id e = Some (rg_id g) \<and> row_get rg_id (rg_id g) (gates s) = Some g
     \<and> rg_workspace_id g = ws \<and> rg_status g = ReviewGateStatus.APPROVED
     \<and> (\<exists>run. row_get pr_id (rg_pipeline_run_id g) (runs s) = Some run \<and> pr_workspace_id run = ws
         \<and> pr_content_item_id run = item)
     \<and> (\<exists>it v. row_get ci_id item (items s) = Some it \<and> ci_workspace_id it = ws
         \<and> ci_current_version_id it = Some v \<and> rg_content_version_id g = Some v)
     \<and> pe_synthetic_media_disclosed e \<and> pe_rights_confirmed_by e \<noteq> None \<and> pe_rights_confirmed_at e \<noteq> None
     \<and> (\<exists>f. pe_originality_fingerprint e = Some f \<and> f \<noteq> []
         \<and> (\<forall>q \<in> set (eligibilities s). pe_workspace_id q = ws \<and> pe_platform q = platform
              \<and> pe_originality_fingerprint q = Some f \<longrightarrow> pe_content_item_id q = item))"

lemmas publish_checks = load_eligibility_def approved_gate_def check_gate_item_def check_gate_version_def
  check_attestations_def same_fingerprint_def blocked_def

lemma supported_iff [simp]: "p \<in> set SUPPORTED_PLATFORMS \<longleftrightarrow> p \<in> {''youtube'', ''tiktok'', ''instagram''}"
  by (simp add: SUPPORTED_PLATFORMS_def)

text \<open>One row per item and platform: the unique constraint of the table.\<close>

definition eligibility_slot :: "PublicationEligibility \<Rightarrow> uuid \<times> string" where
  "eligibility_slot e = (pe_content_item_id e, pe_platform e)"

lemma load_eligibility_cases:
  assumes "distinct (map eligibility_slot (eligibilities s))"
  obtains (none) "load_eligibility ws item p s = (Inl (PublicationBlocked ''eligibility_missing''
        ''no publication eligibility record exists for this item and platform''), s)"
      "\<And>e. e \<in> set (eligibilities s) \<Longrightarrow> pe_workspace_id e = ws \<Longrightarrow> pe_content_item_id e = item \<Longrightarrow> pe_platform e \<noteq> p"
    | (one) e where "load_eligibility ws item p s = (Inr e, s)" "e \<in> set (eligibilities s)" "pe_workspace_id e = ws"
        "pe_content_item_id e = item" "pe_platform e = p"
        "\<And>q. q \<in> set (eligibilities s) \<Longrightarrow> pe_content_item_id q = item \<Longrightarrow> pe_platform q = p \<Longrightarrow> q = e"
proof -
  let ?P = "\<lambda>e. pe_workspace_id e = ws \<and> pe_content_item_id e = item \<and> pe_platform e = p"
  have k: "?P e \<Longrightarrow> eligibility_slot e = (item, p)" for e by (simp add: eligibility_slot_def)
  show ?thesis
  proof (rule filter_at_most_one [OF assms, of ?P, OF k])
    assume "filter ?P (eligibilities s) = []"
    then show ?thesis
      by (intro none) (simp add: load_eligibility_def blocked_def exec, blast dest: filter_empty_conv [THEN iffD1])
  next
    fix e assume e: "e \<in> set (eligibilities s)" "?P e" "filter ?P (eligibilities s) = [e]"
    have u: "q = e" if "q \<in> set (eligibilities s)" "pe_content_item_id q = item" "pe_platform q = p" for q
      using assms e(1,2) that unfolding distinct_map inj_on_def eligibility_slot_def by blast
    from e have "load_eligibility ws item p s = (Inr e, s)" by (simp add: load_eligibility_def exec)
    from one [OF this e(1) _ _ _ u] e(2) show ?thesis by blast
  qed
qed

text \<open>Each check passes with what it has checked, or blocks; none writes.\<close>

lemma approved_gate_cases:
  obtains (no) c m where "approved_gate ws e s = (Inl (PublicationBlocked c m), s)"
  | (ok) g where "approved_gate ws e s = (Inr g, s)" "pe_review_gate_id e = Some (rg_id g)"
      "row_get rg_id (rg_id g) (gates s) = Some g" "rg_workspace_id g = ws" "rg_status g = ReviewGateStatus.APPROVED"
proof (cases "\<exists>g. approved_gate ws e s = (Inr g, s)")
  case True
  then obtain g where g: "approved_gate ws e s = (Inr g, s)" ..
  then obtain i where i: "pe_review_gate_id e = Some i" "row_get rg_id i (gates s) = Some g"
    "rg_workspace_id g = ws" "rg_status g = ReviewGateStatus.APPROVED"
    by (auto simp: approved_gate_def blocked_def exec split: option.splits if_splits)
  with row_get_key [OF i(2)] show ?thesis by (intro ok [OF g]) simp_all
next
  case False
  then have "\<exists>c m. approved_gate ws e s = (Inl (PublicationBlocked c m), s)"
    by (auto simp: approved_gate_def blocked_def exec split: option.splits if_splits)
  with no show ?thesis by blast
qed

lemma check_gate_item_cases:
  obtains (no) c m where "check_gate_item ws item g s = (Inl (PublicationBlocked c m), s)"
  | (ok) run where "check_gate_item ws item g s = (Inr (), s)" "row_get pr_id (rg_pipeline_run_id g) (runs s) = Some run"
      "pr_workspace_id run = ws" "pr_content_item_id run = item"
proof (cases "row_get pr_id (rg_pipeline_run_id g) (runs s)")
  case None
  then show ?thesis by (intro no) (simp add: check_gate_item_def blocked_def exec)
next
  case (Some run)
  consider "pr_workspace_id run \<noteq> ws" | "pr_workspace_id run = ws" "pr_content_item_id run \<noteq> item"
    | "pr_workspace_id run = ws" "pr_content_item_id run = item" by blast
  then show ?thesis
  proof cases
    case 3
    with Some show ?thesis by (intro ok) (simp_all add: check_gate_item_def exec)
  qed (use Some in \<open>intro no; simp add: check_gate_item_def blocked_def exec\<close>)+
qed

lemma check_gate_version_cases:
  obtains (no) c m where "check_gate_version ws item g s = (Inl (PublicationBlocked c m), s)"
  | (ok) it v where "check_gate_version ws item g s = (Inr (), s)" "row_get ci_id item (items s) = Some it"
      "ci_workspace_id it = ws" "ci_current_version_id it = Some v" "rg_content_version_id g = Some v"
proof (cases "row_get ci_id item (items s)")
  case None
  then show ?thesis by (intro no) (simp add: check_gate_version_def blocked_def exec)
next
  case (Some it)
  consider "ci_workspace_id it \<noteq> ws"
    | "ci_workspace_id it = ws" "rg_content_version_id g = None \<or> ci_current_version_id it = None
        \<or> rg_content_version_id g \<noteq> ci_current_version_id it"
    | v where "ci_workspace_id it = ws" "ci_current_version_id it = Some v" "rg_content_version_id g = Some v"
    by fastforce
  then show ?thesis
  proof cases
    case 3
    with Some show ?thesis by (intro ok) (simp_all add: check_gate_version_def exec)
  qed (use Some in \<open>intro no; simp add: check_gate_version_def blocked_def exec\<close>)+
qed

lemma check_attestations_cases:
  obtains (no) c m where "check_attestations e s = (Inl (PublicationBlocked c m), s)"
  | (ok) f where "check_attestations e s = (Inr f, s)" "pe_synthetic_media_disclosed e" "pe_rights_confirmed_by e \<noteq> None"
      "pe_rights_confirmed_at e \<noteq> None" "pe_originality_fingerprint e = Some f" "f \<noteq> []"
proof -
  have "(\<exists>c m. check_attestations e s = (Inl (PublicationBlocked c m), s)) \<or>
    (\<exists>f. check_attestations e s = (Inr f, s) \<and> pe_synthetic_media_disclosed e \<and> pe_rights_confirmed_by e \<noteq> None
      \<and> pe_rights_confirmed_at e \<noteq> None \<and> pe_originality_fingerprint e = Some f \<and> f \<noteq> [])"
    by (auto simp: check_attestations_def blocked_def exec split: option.split)
  with that show ?thesis by blast
qed

lemma assert_publishable_result:
  assumes "distinct (map eligibility_slot (eligibilities s))" and "assert_publishable ws item platform s = (r, s')"
  shows "s' = s \<and> (case r of
      Inr d \<Rightarrow> \<exists>e g. publishable ws item (lower (strip platform)) e g s \<and> d = \<lparr> pd_content_item_id = item,
        pd_platform = lower (strip platform), pd_eligibility_id = pe_id e, pd_review_gate_id = rg_id g \<rparr>
    | Inl x \<Rightarrow> (\<exists>code message. x = PublicationBlocked code message)
        \<and> (\<nexists>e g. publishable ws item (lower (strip platform)) e g s))"
proof (cases "lower (strip platform) \<in> set SUPPORTED_PLATFORMS")
  case False
  then show ?thesis using assms(2)
    by (auto simp: assert_publishable_def normalized_platform_def blocked_def exec publishable_def)
next
  case True
  let ?p = "lower (strip platform)"
  from assms(1) show ?thesis
  proof (cases rule: load_eligibility_cases [where ws = ws and item = item and p = ?p])
    case none
    then have "\<nexists>e g. publishable ws item ?p e g s" by (auto simp: publishable_def)
    with none(1) True assms(2) show ?thesis
      by (auto simp: assert_publishable_def normalized_platform_def Let_def bindM_exec)
  next
    case (one e)
    let ?body = "bindM (approved_gate ws e) (\<lambda>gate.
        andThen (check_gate_item ws item gate) (
        andThen (check_gate_version ws item gate) (
        bindM (check_attestations e) (\<lambda>f.
        bindM (query (same_fingerprint ws item ?p f)) (\<lambda>duplicates.
        if duplicates \<noteq> [] then
          blocked ''duplicate_content_for_platform'' (''identical content was already prepared for this platform in this ''
            @ ''workspace; repetitive mass output is not publishable'')
        else ret \<lparr> pd_content_item_id = item, pd_platform = ?p, pd_eligibility_id = pe_id e,
                    pd_review_gate_id = rg_id gate \<rparr>)))))"
    have body: "?body s = (r, s')"
      using assms(2) True one(1)
      by (simp add: assert_publishable_def normalized_platform_def Let_def bindM_exec del: supported_iff)
    have only: "publishable ws item ?p e' g s \<Longrightarrow> e' = e" for e' g using one(6) by (auto simp: publishable_def)
    show ?thesis
    proof (cases "\<exists>g. publishable ws item ?p e g s")
      case True
      then obtain g where g: "publishable ws item ?p e g s" ..
      have "approved_gate ws e s = (Inr g, s)" using g by (simp add: publishable_def approved_gate_def exec)
      moreover have "check_gate_item ws item g s = (Inr (), s)" using g by (auto simp: publishable_def check_gate_item_def exec)
      moreover have "check_gate_version ws item g s = (Inr (), s)" using g by (auto simp: publishable_def check_gate_version_def exec)
      moreover obtain f where f: "pe_originality_fingerprint e = Some f" "f \<noteq> []"
        "\<forall>q \<in> set (eligibilities s). pe_workspace_id q = ws \<and> pe_platform q = ?p
              \<and> pe_originality_fingerprint q = Some f \<longrightarrow> pe_content_item_id q = item"
        using g unfolding publishable_def by blast
      moreover have "check_attestations e s = (Inr f, s)" using g f(1,2) by (auto simp: publishable_def check_attestations_def exec)
      moreover have "same_fingerprint ws item ?p f s = []"
        using f(3) unfolding same_fingerprint_def filter_empty_conv by blast
      ultimately have "?body s = (Inr \<lparr> pd_content_item_id = item, pd_platform = ?p, pd_eligibility_id = pe_id e,
          pd_review_gate_id = rg_id g \<rparr>, s)"
        by (simp add: bindM_exec andThen_exec gets_exec ret_exec)
      with body have "s' = s" "r = Inr \<lparr> pd_content_item_id = item, pd_platform = ?p, pd_eligibility_id = pe_id e,
          pd_review_gate_id = rg_id g \<rparr>" by simp_all
      with g show ?thesis by simp blast
    next
      case False
      have "\<exists>code message. ?body s = (Inl (PublicationBlocked code message), s)"
      proof (cases rule: approved_gate_cases [of ws e s])
        case (ok g)
        note g = this
        show ?thesis
        proof (cases rule: check_gate_item_cases [of ws item g s])
          case (ok run)
          note run = this
          show ?thesis
          proof (cases rule: check_gate_version_cases [of ws item g s])
            case (ok it v)
            note it = this
            show ?thesis
            proof (cases rule: check_attestations_cases [of e s])
              case (ok f)
              have "same_fingerprint ws item ?p f s \<noteq> []"
              proof
                assume "same_fingerprint ws item ?p f s = []"
                then have "publishable ws item ?p e g s"
                  using one(2-5) True g run it ok by (auto simp: publishable_def same_fingerprint_def filter_empty_conv)
                with False show False by blast
              qed
              with g run it ok show ?thesis by (simp add: bindM_exec andThen_exec gets_exec blocked_def raise_exec)
            qed (use g run it in \<open>simp add: bindM_exec andThen_exec\<close>)
          qed (use g run in \<open>simp add: bindM_exec andThen_exec\<close>)
        qed (use g in \<open>simp add: bindM_exec andThen_exec\<close>)
      qed (simp add: bindM_exec)
      then obtain c m where "r = Inl (PublicationBlocked c m)" "s' = s" using body by auto
      moreover have "\<nexists>e g. publishable ws item ?p e g s" using False only by blast
      ultimately show ?thesis by simp
    qed
  qed
qed

text \<open>
  C24: The publication gate implements its contract, closed on failure. Given one eligibility record per item and
  platform, \<open>assert_publishable\<close> returns a decision exactly when the item is \<open>publishable\<close> there (an approved review gate of
  this workspace for this very item, pinned to the version now current, disclosure, a named rights attestation, a
  fingerprint no other item of the workspace has for the platform), and the decision names that record and that gate;
  in every other case it raises \<open>PublicationBlocked\<close>; and it never writes.
\<close>

theorem assert_publishable_refines:
  assumes "distinct (map eligibility_slot (eligibilities s))" and "assert_publishable ws item platform s = (r, s')"
  shows "s' = s \<and> (case r of
      Inr d \<Rightarrow> \<exists>e g. publishable ws item (lower (strip platform)) e g s \<and> d = \<lparr> pd_content_item_id = item,
        pd_platform = lower (strip platform), pd_eligibility_id = pe_id e, pd_review_gate_id = rg_id g \<rparr>
    | Inl x \<Rightarrow> (\<exists>code message. x = PublicationBlocked code message)
        \<and> (\<nexists>e g. publishable ws item (lower (strip platform)) e g s))"
  using assms by (rule assert_publishable_result)

text \<open>
  C25: What is published is what was approved. Once a review gate has been decided, whatever happens to the database
  afterwards, a publication that goes through on that gate publishes an item whose current version is the very version
  the gate was decided on: an item edited after its approval is refused.
\<close>

theorem approval_pins_version:
  assumes "row_get rg_id i (gates s) = Some g" "rg_status g \<noteq> AWAITING" "writes s t"
    and "distinct (map eligibility_slot (eligibilities t))"
    and "assert_publishable ws item platform t = (Inr d, t')" "pd_review_gate_id d = i"
  shows "\<exists>it v. row_get ci_id item (items t) = Some it \<and> ci_current_version_id it = Some v
    \<and> rg_content_version_id g = Some v"
proof -
  from assert_publishable_result [OF assms(4,5)] obtain e g' where
    p: "publishable ws item (lower (strip platform)) e g' t" "pd_review_gate_id d = rg_id g'" by auto
  have "gate_settled i (rg_content_version_id g) t"
    by (rule writes_gate_settled [OF assms(3)]) (use assms(1,2) in \<open>simp add: gate_settled_def\<close>)
  with p assms(6) show ?thesis by (auto simp: publishable_def gate_settled_def)
qed

section \<open>What the fingerprint sees\<close>

definition words_of :: "string option \<Rightarrow> string list" where
  "words_of part = split_ws [] (lower (case part of None \<Rightarrow> [] | Some t \<Rightarrow> t))"

lemma join_append: "xs \<noteq> [] \<Longrightarrow> ys \<noteq> [] \<Longrightarrow> join sep (xs @ ys) = join sep xs @ sep @ join sep ys"
proof (induction sep xs rule: join.induct)
  case (2 sep x)
  then show ?case by (cases ys) simp_all
qed simp_all

lemma join_concat: "\<forall>ws \<in> set wss. ws \<noteq> [] \<Longrightarrow> join sep (map (join sep) wss) = join sep (concat wss)"
proof (induction wss)
  case (Cons ws wss)
  then show ?case by (cases wss) (auto simp: join_append)
qed simp

text \<open>
  Trivial edits do not defeat the anti-repetition control: two scripts without blank parts that have the same words,
  upper and lower case, spacing and the division into hook, body and call to action aside, have the same fingerprint.
\<close>

theorem fingerprint_ignores_layout:
  assumes "concat (map words_of ps) = concat (map words_of qs)"
    and "\<forall>p \<in> set ps. words_of p \<noteq> []" and "\<forall>q \<in> set qs. words_of q \<noteq> []"
  shows "fingerprint_script ps = fingerprint_script qs"
proof -
  have "normalized_script rs = strip (join '' '' (concat (map words_of rs)))" if "\<forall>r \<in> set rs. words_of r \<noteq> []" for rs
    using join_concat [of "map words_of rs" "'' ''"] that by (simp add: normalized_script_def words_of_def o_def)
  with assms show ?thesis by (simp add: fingerprint_script_def)
qed

text \<open>
  An empty part does defeat it: it leaves a second space between its neighbours, so moving the last part's words into
  an empty middle part gives the same words another normal form, and so another fingerprint.
\<close>

theorem empty_part_changes_fingerprint:
  "concat (map words_of [Some ''a'', None, Some ''b'']) = concat (map words_of [Some ''a'', Some ''b'', None])
    \<and> normalized_script [Some ''a'', None, Some ''b''] = ''a  b''
    \<and> normalized_script [Some ''a'', Some ''b'', None] = ''a b''"
  by code_simp

section \<open>Items waiting for each other\<close>

definition approved_gate_80 :: ReviewGate where
  "approved_gate_80 = \<lparr> rg_id = 80, rg_workspace_id = 1, rg_pipeline_run_id = 10, rg_content_version_id = Some 7,
     rg_stage = ''review'', rg_status = ReviewGateStatus.APPROVED, rg_requested_at = 900, rg_timeout_at = None,
     rg_decided_at = Some 950, rg_decided_by = Some 70, rg_escalation_level = 0 \<rparr>"

definition ready_record :: "uuid \<Rightarrow> uuid \<Rightarrow> uuid \<Rightarrow> PublicationEligibility" where
  "ready_record i item gate = \<lparr> pe_id = i, pe_workspace_id = 1, pe_content_item_id = item, pe_platform = ''youtube'',
     pe_generated_by = None, pe_synthetic_media_disclosed = True, pe_rights_confirmed_by = Some 70,
     pe_rights_confirmed_at = Some 900, pe_originality_fingerprint = Some ''f'', pe_review_gate_id = Some gate,
     pe_policy_notes = None \<rparr>"

definition publish_db :: db where
  "publish_db = sample_db\<lparr> gates := [approved_gate_80], items := [sample_item\<lparr>ci_current_version_id := Some 7\<rparr>],
     eligibilities := [ready_record 95 11 80] \<rparr>"

definition twins_db :: db where
  "twins_db = publish_db\<lparr> gates := [approved_gate_80, approved_gate_80\<lparr>rg_id := 81, rg_pipeline_run_id := 13\<rparr>],
     runs := [sample_run, sample_run\<lparr>pr_id := 13, pr_content_item_id := 14\<rparr>],
     items := [sample_item\<lparr>ci_current_version_id := Some 7\<rparr>, sample_item\<lparr>ci_id := 14, ci_current_version_id := Some 7\<rparr>],
     eligibilities := [ready_record 95 11 80, ready_record 96 14 81] \<rparr>"

lemmas publish_fixture = twins_db_def publish_db_def approved_gate_80_def ready_record_def sample

text \<open>
  The duplicate check looks at records that were prepared, not at publications: of two items that fulfil everything
  else and have the same fingerprint each blocks the other, so neither is published although none ever was.
\<close>

theorem prepared_twins_block_each_other:
  "(\<exists>m. assert_publishable 1 11 ''youtube'' twins_db = (Inl (PublicationBlocked ''duplicate_content_for_platform'' m), twins_db))
   \<and> (\<exists>m. assert_publishable 1 14 ''youtube'' twins_db = (Inl (PublicationBlocked ''duplicate_content_for_platform'' m), twins_db))
   \<and> (\<exists>d. assert_publishable 1 11 ''youtube'' (twins_db\<lparr>eligibilities := [ready_record 95 11 80]\<rparr>)
        = (Inr d, twins_db\<lparr>eligibilities := [ready_record 95 11 80]\<rparr>))"
proof -
  have p: "normalized_platform ''youtube'' = ''youtube''" by code_simp
  show ?thesis
    by (simp add: assert_publishable_def p Let_def publish_checks exec publish_fixture)
qed

section \<open>Witnesses\<close>

lemma publish_db_slots: "distinct (map eligibility_slot (eligibilities publish_db))"
  by (simp add: publish_fixture)

lemma publish_db_passes: "\<exists>d. assert_publishable 1 11 ''YouTube '' publish_db = (Inr d, publish_db) \<and> pd_review_gate_id d = 80"
proof -
  have p: "normalized_platform ''YouTube '' = ''youtube''" by code_simp
  show ?thesis by (simp add: assert_publishable_def p Let_def publish_checks exec publish_fixture)
qed

lemma assert_publishable_refines_witness:
  "\<exists>d e g. assert_publishable 1 11 ''YouTube '' publish_db = (Inr d, publish_db)
    \<and> publishable 1 11 (lower (strip ''YouTube '')) e g publish_db \<and> pd_eligibility_id d = pe_id e"
proof -
  obtain d where d: "assert_publishable 1 11 ''YouTube '' publish_db = (Inr d, publish_db)" using publish_db_passes by blast
  from assert_publishable_refines [OF publish_db_slots d] d show ?thesis by auto
qed

lemma approval_pins_version_witness:
  "\<exists>it v. row_get ci_id 11 (items publish_db) = Some it \<and> ci_current_version_id it = Some v
    \<and> rg_content_version_id approved_gate_80 = Some v"
proof -
  obtain d where d: "assert_publishable 1 11 ''YouTube '' publish_db = (Inr d, publish_db)" "pd_review_gate_id d = 80"
    using publish_db_passes by blast
  have "row_get rg_id 80 (gates publish_db) = Some approved_gate_80" "rg_status approved_gate_80 \<noteq> AWAITING"
    by (simp_all add: publish_fixture)
  from approval_pins_version [OF this rtranclp.rtrancl_refl publish_db_slots d] show ?thesis .
qed

lemma fingerprint_ignores_layout_witness:
  "fingerprint_script [Some ''A  b'', Some ''c''] = fingerprint_script [Some ''a'', Some ''B c '']"
proof -
  have "concat (map words_of [Some ''A  b'', Some ''c'']) = concat (map words_of [Some ''a'', Some ''B c ''])"
    "\<forall>p \<in> set [Some ''A  b'', Some ''c'']. words_of p \<noteq> []" "\<forall>p \<in> set [Some ''a'', Some ''B c '']. words_of p \<noteq> []"
    by code_simp+
  then show ?thesis by (rule fingerprint_ignores_layout)
qed

end
