(* ===== verification/Billing.thy ===== *)
theory Billing imports WorkerAuth begin

text \<open>
  \<open>services/billing.py\<close> with its routes: Stripe webhooks mirrored into \<open>workspace_billing\<close>, and the entitlement that
  guards content jobs. Stripe itself is a parameter (the functions that create a customer, a checkout session, and
  verify a webhook); the JSON of an event is read as the code reads it. The unique and foreign keys of the two billing
  tables are checked, since the code relies on the \<open>IntegrityError\<close> they raise.
\<close>

section \<open>Reading Stripe's JSON\<close>

fun truthy :: "json \<Rightarrow> bool" where
  "truthy JNull = False"
| "truthy (JBool b) = b"
| "truthy (JNum q) = (q \<noteq> 0)"
| "truthy (JStr s) = (s \<noteq> [])"
| "truthy (JList xs) = (xs \<noteq> [])"
| "truthy (JObj kvs) = (kvs \<noteq> [])"

definition or_empty :: "json \<Rightarrow> json" where
  "or_empty v = (if truthy v then v else JObj [])"

text \<open>\<open>v.get(k)\<close>: only a dict has it.\<close>

definition dict_get :: "json \<Rightarrow> string \<Rightarrow> exn + json" where
  "dict_get v k = (case v of JObj _ \<Rightarrow> Inr (json_get v k) | _ \<Rightarrow> Inl (AttributeError ''get''))"

text \<open>
  \<open>str(v)\<close>. A float, a list and a dict are given a fixed text: theirs is none of the texts the code compares with.
\<close>

fun py_str :: "json \<Rightarrow> string" where
  "py_str JNull = ''None''"
| "py_str (JBool b) = (if b then ''True'' else ''False'')"
| "py_str (JNum q) = (if q \<in> \<int> then str_int \<lfloor>q\<rfloor> else ''<float>'')"
| "py_str (JStr s) = s"
| "py_str (JList xs) = ''<list>''"
| "py_str (JObj kvs) = ''<dict>''"

text \<open>
  \<open>isinstance(v, int)\<close>: JSON's integers, and Python's bools. (A number written with a point and a zero, \<open>5.0\<close>, is a float
  there and no int; \<open>JNum\<close> holds the number's value alone and does not tell the two apart. Stripe writes times as integers.)
\<close>

definition as_int :: "json \<Rightarrow> int option" where
  "as_int v = (case v of JNum q \<Rightarrow> if q \<in> \<int> then Some \<lfloor>q\<rfloor> else None | JBool b \<Rightarrow> Some (of_bool b) | _ \<Rightarrow> None)"

text \<open>\<open>int(v)\<close>: numbers are cut towards zero, a text must be signed digits.\<close>

definition py_int :: "json \<Rightarrow> exn + int" where
  "py_int v = (case v of
     JNum q \<Rightarrow> Inr (if q < 0 then \<lceil>q\<rceil> else \<lfloor>q\<rfloor>)
   | JBool b \<Rightarrow> Inr (of_bool b)
   | JStr s \<Rightarrow> (case int_of_str s of None \<Rightarrow> Inl (ValueError ''invalid literal for int()'') | Some n \<Rightarrow> Inr n)
   | _ \<Rightarrow> Inl (TypeError ''int() argument''))"

section \<open>Entitlement\<close>

definition ACTIVE_STATUSES :: "string set" where
  "ACTIVE_STATUSES = {''active'', ''trialing''}"

definition PRO_PLAN :: string where
  "PRO_PLAN = ''pro''"

record CheckoutResult =
  chk_checkout_url :: json
  chk_session_id :: json
  chk_workspace_id :: uuid

record Entitlement =
  ent_workspace_id :: uuid
  ent_plan :: string
  ent_status :: string
  ent_entitled :: bool
  ent_billing_enabled :: bool
  ent_stripe_customer_id :: "string option"
  ent_stripe_subscription_id :: "string option"
  ent_current_period_end :: "datetime option"
  ent_cancel_at_period_end :: bool

definition is_entitled :: "WorkspaceBilling option \<Rightarrow> bool \<Rightarrow> bool" where
  "is_entitled row enabled =
     (if \<not> enabled then True
      else case row of None \<Rightarrow> False | Some r \<Rightarrow> wb_plan r = PRO_PLAN \<and> wb_status r \<in> ACTIVE_STATUSES)"

definition missing_settings :: "Settings \<Rightarrow> string list" where
  "missing_settings c = map fst (filter (\<lambda>(name, value). case value of None \<Rightarrow> True | Some v \<Rightarrow> v = [])
     [(''STRIPE_SECRET_KEY'', stripe_secret_key c), (''STRIPE_WEBHOOK_SECRET'', stripe_webhook_secret c),
      (''STRIPE_PRICE_ID_PRO'', stripe_price_id_pro c),
      (''STRIPE_CHECKOUT_SUCCESS_URL'', stripe_checkout_success_url c),
      (''STRIPE_CHECKOUT_CANCEL_URL'', stripe_checkout_cancel_url c)])"

definition require_billing_config :: "unit M" where
  "require_billing_config =
     bindM (gets cfg) (\<lambda>settings.
     if \<not> billing_enabled settings then raise (BillingError ''billing_disabled'' ''billing is not enabled'')
     else if missing_settings settings \<noteq> [] then
       raise (BillingError ''billing_misconfigured'' (''billing enabled but missing required settings: ''
         @ join '', '' (missing_settings settings)))
     else ret ())"

section \<open>The billing row and its constraints\<close>

text \<open>No two rows have the same Stripe customer, none the same subscription.\<close>

definition stripe_ids_unique :: "WorkspaceBilling list \<Rightarrow> bool" where
  "stripe_ids_unique rows \<longleftrightarrow> distinct (filter (\<lambda>x. x \<noteq> None) (map wb_stripe_customer_id rows))
     \<and> distinct (filter (\<lambda>x. x \<noteq> None) (map wb_stripe_subscription_id rows))"

definition set_billing :: "uuid \<Rightarrow> (WorkspaceBilling \<Rightarrow> WorkspaceBilling) \<Rightarrow> unit M" where
  "set_billing i f = (\<lambda>s.
     if stripe_ids_unique (row_set wb_workspace_id i f (billings s))
     then (Inr (), billings_update (row_set wb_workspace_id i f) s) else (Inl IntegrityError, s))"

definition new_billing :: "uuid \<Rightarrow> WorkspaceBilling" where
  "new_billing workspace_id = \<lparr> wb_workspace_id = workspace_id, wb_stripe_customer_id = None, wb_stripe_subscription_id = None,
     wb_plan = ''none'', wb_status = ''inactive'', wb_current_period_end = None, wb_cancel_at_period_end = False \<rparr>"

definition ensure_workspace_billing :: "uuid \<Rightarrow> WorkspaceBilling M" where
  "ensure_workspace_billing workspace_id =
     bindM (get_row billings wb_workspace_id workspace_id) (\<lambda>row. case row of
       Some r \<Rightarrow> ret r
     | None \<Rightarrow>
         (\<lambda>s. if has_row ws_id workspace_id (workspaces s)
              then (Inr (new_billing workspace_id), billings_update (\<lambda>rs. rs @ [new_billing workspace_id]) s)
              else (Inl IntegrityError, s)))"

definition get_entitlement :: "uuid \<Rightarrow> Entitlement M" where
  "get_entitlement workspace_id =
     bindM (gets (\<lambda>s. billing_enabled (cfg s))) (\<lambda>enabled.
     bindM (ensure_workspace_billing workspace_id) (\<lambda>row.
     ret \<lparr> ent_workspace_id = workspace_id, ent_plan = wb_plan row, ent_status = wb_status row,
           ent_entitled = is_entitled (Some row) enabled, ent_billing_enabled = enabled,
           ent_stripe_customer_id = wb_stripe_customer_id row, ent_stripe_subscription_id = wb_stripe_subscription_id row,
           ent_current_period_end = wb_current_period_end row, ent_cancel_at_period_end = wb_cancel_at_period_end row \<rparr>))"

definition require_entitlement_for_workspace :: "uuid \<Rightarrow> unit M" where
  "require_entitlement_for_workspace workspace_id =
     bindM (gets (\<lambda>s. billing_enabled (cfg s))) (\<lambda>enabled.
     if \<not> enabled then ret ()
     else bindM (get_row billings wb_workspace_id workspace_id) (\<lambda>row.
       if \<not> is_entitled row True
       then raise (BillingError ''not_entitled'' ''workspace requires an active Pro subscription to create content jobs'')
       else ret ()))"

section \<open>Applying a subscription\<close>

definition period_end_from_subscription :: "json \<Rightarrow> exn + datetime option" where
  "period_end_from_subscription sub =
     (case json_get sub ''current_period_end'' of
        JNull \<Rightarrow> Inr None
      | raw \<Rightarrow> (case py_int raw of Inl e \<Rightarrow> Inl e | Inr n \<Rightarrow> Inr (Some (of_int n))))"

definition ENTITLEMENT_EVENTS :: "string set" where
  "ENTITLEMENT_EVENTS = {''customer.subscription.created'', ''customer.subscription.updated'',
     ''customer.subscription.deleted'', ''invoice.payment_failed''}"

definition applied_created :: "uuid \<Rightarrow> string \<Rightarrow> db \<Rightarrow> int list" where
  "applied_created workspace_id exclude_event_id s =
     List.map_filter (\<lambda>e. if bwe_workspace_id e = Some workspace_id \<and> bwe_stripe_event_id e \<noteq> exclude_event_id
         \<and> bwe_event_type e \<in> ENTITLEMENT_EVENTS
       then (case bwe_payload e of JObj _ \<Rightarrow> as_int (json_get (bwe_payload e) ''created'') | _ \<Rightarrow> None)
       else None) (billing_events s)"

definition latest_applied_event_created :: "uuid \<Rightarrow> string \<Rightarrow> int option M" where
  "latest_applied_event_created workspace_id exclude_event_id =
     gets (\<lambda>s. let created = applied_created workspace_id exclude_event_id s in
       if created = [] then None else Some (Max (set created)))"

definition subscription_status :: "json \<Rightarrow> string" where
  "subscription_status sub =
     (let v = json_get sub ''status'' in if truthy v then py_str v else ''inactive'')"

definition plan_of :: "string \<Rightarrow> string \<Rightarrow> string" where
  "plan_of status old =
     (if status \<in> ACTIVE_STATUSES then PRO_PLAN
      else if status = ''canceled'' then ''none''
      else if status \<in> {''past_due'', ''unpaid'', ''incomplete''} then PRO_PLAN else old)"

text \<open>\<open>subscription.get("id") or old\<close>; an id that is not a text does not fit its column.\<close>

definition subscription_id :: "json \<Rightarrow> string option \<Rightarrow> string option" where
  "subscription_id sub old =
     (let v = json_get sub ''id'' in if truthy v then Some (py_str v) else old)"

definition customer_of :: "json \<Rightarrow> string option \<Rightarrow> string option" where
  "customer_of sub old =
     (case json_get sub ''customer'' of
        JStr c \<Rightarrow> Some c
      | JObj kvs \<Rightarrow> (let v = json_get (JObj kvs) ''id'' in if truthy v then Some (py_str v) else old)
      | _ \<Rightarrow> old)"

definition mirror_subscription :: "json \<Rightarrow> datetime option \<Rightarrow> WorkspaceBilling \<Rightarrow> WorkspaceBilling" where
  "mirror_subscription sub period_end r = r\<lparr>
     wb_stripe_subscription_id := subscription_id sub (wb_stripe_subscription_id r),
     wb_stripe_customer_id := customer_of sub (wb_stripe_customer_id r),
     wb_status := subscription_status sub, wb_plan := plan_of (subscription_status sub) (wb_plan r),
     wb_current_period_end := period_end, wb_cancel_at_period_end := truthy (json_get sub ''cancel_at_period_end'') \<rparr>"

definition subscription_stale :: "string \<Rightarrow> int option \<Rightarrow> int option \<Rightarrow> bool" where
  "subscription_stale status event_created latest =
     (case (event_created, latest) of
        (Some c, Some l) \<Rightarrow> c < l \<or> (c = l \<and> status \<in> ACTIVE_STATUSES)
      | _ \<Rightarrow> False)"

definition apply_subscription :: "uuid \<Rightarrow> json \<Rightarrow> string \<Rightarrow> int option \<Rightarrow> unit M" where
  "apply_subscription workspace_id subscription event_id event_created =
     bindM (ensure_workspace_billing workspace_id) (\<lambda>_.
     bindM (case event_created of None \<Rightarrow> ret None
            | Some _ \<Rightarrow> latest_applied_event_created workspace_id event_id) (\<lambda>latest.
     if subscription_stale (subscription_status subscription) event_created latest then ret ()
     else bindM (fromSum (period_end_from_subscription subscription)) (\<lambda>period_end.
       set_billing workspace_id (mirror_subscription subscription period_end))))"

section \<open>Webhook events\<close>

record WebhookResult =
  whr_status :: string
  whr_event_id :: string
  whr_event_type :: string
  whr_workspace_id :: "uuid option"

definition duplicate :: "string \<Rightarrow> string \<Rightarrow> WebhookResult" where
  "duplicate event_id event_type =
     \<lparr> whr_status = ''duplicate'', whr_event_id = event_id, whr_event_type = event_type, whr_workspace_id = None \<rparr>"

definition workspace_id_from_metadata :: "json \<Rightarrow> exn + uuid option" where
  "workspace_id_from_metadata obj =
     (case dict_get obj ''metadata'' of
        Inl e \<Rightarrow> Inl e
      | Inr m \<Rightarrow> (case dict_get (or_empty m) ''workspace_id'' of
          Inl e \<Rightarrow> Inl e
        | Inr w \<Rightarrow>
            let raw = (if truthy w then w else json_get obj ''client_reference_id'') in
            if \<not> truthy raw then Inr None
            else (case uuid_of_str (py_str raw) of Inl _ \<Rightarrow> Inr None | Inr u \<Rightarrow> Inr (Some u))))"

definition event_object :: "json \<Rightarrow> exn + json" where
  "event_object event =
     (case dict_get (or_empty (json_get event ''data'')) ''object'' of Inl e \<Rightarrow> Inl e | Inr v \<Rightarrow> Inr (or_empty v))"

text \<open>Text columns take texts.\<close>

definition as_text :: "json \<Rightarrow> exn + string" where
  "as_text v = (case v of JStr s \<Rightarrow> Inr s | _ \<Rightarrow> Inl (TypeError ''expected str''))"

text \<open>The receipt: its Stripe id is unique, and its workspace exists.\<close>

definition insert_receipt :: "string \<Rightarrow> string \<Rightarrow> uuid option \<Rightarrow> json \<Rightarrow> unit M" where
  "insert_receipt event_id event_type workspace_id payload =
     bindM uuid4 (\<lambda>i. \<lambda>s.
       if received event_id s \<or> (\<exists>w \<in> set_option workspace_id. \<not> has_row ws_id w (workspaces s)) then (Inl IntegrityError, s)
       else (Inr (), billing_events_update (\<lambda>rs. rs @ [\<lparr> bwe_id = i, bwe_stripe_event_id = event_id,
         bwe_event_type = event_type, bwe_workspace_id = workspace_id, bwe_payload = payload \<rparr>]) s))"

definition link_checkout :: "json \<Rightarrow> WorkspaceBilling \<Rightarrow> WorkspaceBilling" where
  "link_checkout obj r = r\<lparr>
     wb_stripe_customer_id := (case json_get obj ''customer'' of JStr c \<Rightarrow> Some c | _ \<Rightarrow> wb_stripe_customer_id r),
     wb_stripe_subscription_id := (case json_get obj ''subscription'' of JStr x \<Rightarrow> Some x | _ \<Rightarrow> wb_stripe_subscription_id r) \<rparr>"

definition checkout_completed :: "uuid option \<Rightarrow> json \<Rightarrow> unit M" where
  "checkout_completed workspace_id obj =
     (case workspace_id of
        None \<Rightarrow> raise (BillingError ''missing_workspace'' ''checkout session missing workspace_id'')
      | Some w \<Rightarrow> bindM (ensure_workspace_billing w) (\<lambda>_. set_billing w (link_checkout obj)))"

definition billing_where :: "(WorkspaceBilling \<Rightarrow> string option) \<Rightarrow> json \<Rightarrow> WorkspaceBilling option M" where
  "billing_where col v =
     (case v of JStr x \<Rightarrow> query_one (\<lambda>s. filter (\<lambda>b. col b = Some x) (billings s)) | _ \<Rightarrow> ret None)"

definition subscription_workspace :: "uuid option \<Rightarrow> json \<Rightarrow> uuid M" where
  "subscription_workspace workspace_id obj =
     (case workspace_id of
        Some w \<Rightarrow> ret w
      | None \<Rightarrow>
          bindM (billing_where wb_stripe_subscription_id (json_get obj ''id'')) (\<lambda>row.
          bindM (case row of Some r \<Rightarrow> ret (Some r)
                 | None \<Rightarrow> billing_where wb_stripe_customer_id (json_get obj ''customer'')) (\<lambda>row.
          case row of
            None \<Rightarrow> raise (BillingError ''unknown_subscription'' ''subscription event could not be mapped to a workspace'')
          | Some r \<Rightarrow> ret (wb_workspace_id r))))"

definition subscription_changed :: "string \<Rightarrow> uuid option \<Rightarrow> json \<Rightarrow> json \<Rightarrow> uuid option M" where
  "subscription_changed event_id workspace_id obj event =
     bindM (subscription_workspace workspace_id obj) (\<lambda>w.
     andThen (apply_subscription w obj event_id (as_int (json_get event ''created'')))
     (ret (Some w)))"

definition payment_stale :: "int option \<Rightarrow> int option \<Rightarrow> bool" where
  "payment_stale event_created latest = (case (event_created, latest) of (Some c, Some l) \<Rightarrow> c < l | _ \<Rightarrow> False)"

definition payment_failed :: "string \<Rightarrow> uuid option \<Rightarrow> json \<Rightarrow> json \<Rightarrow> uuid option M" where
  "payment_failed event_id workspace_id obj event =
     bindM (billing_where wb_stripe_subscription_id (json_get obj ''subscription'')) (\<lambda>found.
     case found of
       None \<Rightarrow> ret workspace_id
     | Some b \<Rightarrow>
         bindM (ensure_workspace_billing (wb_workspace_id b)) (\<lambda>_.
         let created = as_int (json_get event ''created'') in
         bindM (case created of None \<Rightarrow> ret None
                | Some _ \<Rightarrow> latest_applied_event_created (wb_workspace_id b) event_id) (\<lambda>latest.
         andThen (if payment_stale created latest then ret ()
                  else set_billing (wb_workspace_id b) (wb_status_update (\<lambda>_. ''past_due'')))
         (ret (Some (wb_workspace_id b))))))"

definition link_receipt :: "string \<Rightarrow> uuid option \<Rightarrow> unit M" where
  "link_receipt event_id workspace_id =
     (if workspace_id = None then ret ()
      else bindM (query_one (\<lambda>s. filter (\<lambda>e. bwe_stripe_event_id e = event_id) (billing_events s))) (\<lambda>receipt.
        case receipt of
          None \<Rightarrow> raise NoSuchRow
        | Some e \<Rightarrow> whenM (bwe_workspace_id e = None)
            (modifyM (billing_events_update (row_set bwe_stripe_event_id event_id (bwe_workspace_id_update (\<lambda>_. workspace_id)))))))"

definition event_effect :: "string \<Rightarrow> string \<Rightarrow> uuid option \<Rightarrow> json \<Rightarrow> json \<Rightarrow> uuid option M" where
  "event_effect event_id event_type workspace_id obj event =
     (if event_type = ''checkout.session.completed'' then andThen (checkout_completed workspace_id obj) (ret workspace_id)
      else if event_type \<in> {''customer.subscription.created'', ''customer.subscription.updated'', ''customer.subscription.deleted''}
        then subscription_changed event_id workspace_id obj event
      else if event_type = ''invoice.payment_failed'' then payment_failed event_id workspace_id obj event
      else ret workspace_id)"

definition apply_event :: "string \<Rightarrow> string \<Rightarrow> uuid option \<Rightarrow> json \<Rightarrow> json \<Rightarrow> uuid option M" where
  "apply_event event_id event_type workspace_id obj event =
     andThen (insert_receipt event_id event_type workspace_id event) (
     bindM (event_effect event_id event_type workspace_id obj event) (\<lambda>workspace_id.
     andThen (link_receipt event_id workspace_id) (ret workspace_id)))"

definition process_stripe_event :: "json \<Rightarrow> WebhookResult M" where
  "process_stripe_event event =
     (if \<not> truthy (json_get event ''id'') \<or> \<not> truthy (json_get event ''type'') then
        raise (BillingError ''invalid_event'' ''Stripe event missing id or type'')
      else
        bindM (fromSum (as_text (json_get event ''id''))) (\<lambda>event_id.
        bindM (fromSum (as_text (json_get event ''type''))) (\<lambda>event_type.
        bindM (query_one (\<lambda>s. filter (\<lambda>e. bwe_stripe_event_id e = event_id) (billing_events s))) (\<lambda>existing.
        if existing \<noteq> None then ret (duplicate event_id event_type)
        else
          bindM (fromSum (event_object event)) (\<lambda>obj.
          bindM (fromSum (workspace_id_from_metadata obj)) (\<lambda>workspace_id.
          catchM
            (bindM (transaction (apply_event event_id event_type workspace_id obj event)) (\<lambda>w.
             ret \<lparr> whr_status = ''processed'', whr_event_id = event_id, whr_event_type = event_type, whr_workspace_id = w \<rparr>))
            (\<lambda>e. if e = IntegrityError then ret (duplicate event_id event_type) else raise e)))))))"

section \<open>Routes\<close>

text \<open>What Stripe's library answers: the signature does not match, something else failed, or the event.\<close>

datatype webhook_failure = SignatureVerificationError | OtherFailure string

type_synonym verifier = "string \<Rightarrow> string \<Rightarrow> string \<Rightarrow> webhook_failure + json"

definition webhook_error :: "webhook_failure \<Rightarrow> exn" where
  "webhook_error f = (case f of
     SignatureVerificationError \<Rightarrow> BillingError ''invalid_signature'' ''invalid Stripe webhook signature''
   | OtherFailure m \<Rightarrow> BillingError ''invalid_payload'' (''invalid Stripe webhook payload: '' @ m))"

definition construct_stripe_event :: "verifier \<Rightarrow> string \<Rightarrow> string \<Rightarrow> json M" where
  "construct_stripe_event verify payload sig_header =
     andThen require_billing_config (
     bindM (gets (\<lambda>s. stripe_webhook_secret (cfg s))) (\<lambda>secret.
     case verify payload sig_header (the_or secret []) of
       Inl f \<Rightarrow> raise (webhook_error f)
     | Inr event \<Rightarrow> ret event))"

definition webhook_http_error :: "exn \<Rightarrow> exn" where
  "webhook_http_error e = (case e of
     BillingError code message \<Rightarrow> HTTPException
       (if code \<in> {''invalid_signature'', ''invalid_payload'', ''invalid_event''} then 400 else 422) message
   | _ \<Rightarrow> e)"

definition stripe_webhook :: "verifier \<Rightarrow> string \<Rightarrow> string option \<Rightarrow> WebhookResult M" where
  "stripe_webhook verify payload stripe_signature =
     bindM (gets (\<lambda>s. billing_enabled (cfg s))) (\<lambda>enabled.
     if \<not> enabled then raise (HTTPException 503 ''billing is not enabled'')
     else if the_or stripe_signature [] = [] then raise (HTTPException 400 ''missing Stripe-Signature header'')
     else catchM
       (bindM (construct_stripe_event verify payload (the_or stripe_signature [])) (\<lambda>event.
        transaction (process_stripe_event event)))
       (\<lambda>e. raise (webhook_http_error e)))"

text \<open>
  Stripe's answers to a customer and to a checkout session: an error's text, or an object. They depend on the call's
  arguments: the customer on its email, the idempotency key and the metadata, the session on the customer, the settings'
  price and URLs, and the workspace it names three times.
\<close>

record Stripe =
  customer_create :: "string option \<Rightarrow> string \<Rightarrow> string \<Rightarrow> string + json"
  session_create :: "string option \<Rightarrow> string \<Rightarrow> string \<Rightarrow> string \<Rightarrow> string \<Rightarrow> string + json"

definition dict_item :: "json \<Rightarrow> string \<Rightarrow> exn + json" where
  "dict_item v k = (case v of JObj kvs \<Rightarrow> (case map_of kvs k of None \<Rightarrow> Inl (KeyError k) | Some w \<Rightarrow> Inr w) | _ \<Rightarrow> Inl (TypeError ''not subscriptable''))"

definition customer_key :: "uuid \<Rightarrow> string" where
  "customer_key workspace_id = ''workspace-customer-'' @ str_uuid workspace_id"

definition ensure_customer :: "Stripe \<Rightarrow> uuid \<Rightarrow> string option \<Rightarrow> WorkspaceBilling \<Rightarrow> string option M" where
  "ensure_customer stripe workspace_id customer_email billing =
     (if the_or (wb_stripe_customer_id billing) [] \<noteq> [] then ret (wb_stripe_customer_id billing)
      else case customer_create stripe (if the_or customer_email [] = [] then None else customer_email)
          (customer_key workspace_id) (str_uuid workspace_id) of
        Inl m \<Rightarrow> raise (BillingError ''stripe_unavailable'' (''Stripe customer creation failed: '' @ m))
      | Inr customer \<Rightarrow>
          bindM (fromSum (dict_item customer ''id'')) (\<lambda>i.
          bindM (fromSum (as_text i)) (\<lambda>i.
          andThen (set_billing workspace_id (wb_stripe_customer_id_update (\<lambda>_. Some i)))
          (ret (Some i)))))"

definition create_checkout_session :: "Stripe \<Rightarrow> uuid \<Rightarrow> string option \<Rightarrow> CheckoutResult M" where
  "create_checkout_session stripe workspace_id customer_email =
     andThen require_billing_config (
     bindM (gets cfg) (\<lambda>settings.
     bindM (ensure_workspace_billing workspace_id) (\<lambda>billing.
     if is_entitled (Some billing) True then
       raise (BillingError ''already_entitled'' ''workspace already has an active Pro plan'')
     else
       bindM (ensure_customer stripe workspace_id customer_email billing) (\<lambda>customer.
       case session_create stripe customer (the_or (stripe_price_id_pro settings) [])
           (the_or (stripe_checkout_success_url settings) []) (the_or (stripe_checkout_cancel_url settings) [])
           (str_uuid workspace_id) of
         Inl m \<Rightarrow> raise (BillingError ''stripe_unavailable'' (''Stripe checkout session creation failed: '' @ m))
       | Inr checkout \<Rightarrow>
           bindM (fromSum (dict_get checkout ''url'')) (\<lambda>url.
           if \<not> truthy url then raise (BillingError ''checkout_failed'' ''Stripe Checkout session missing url'')
           else bindM (fromSum (dict_item checkout ''id'')) (\<lambda>i.
             ret \<lparr> chk_checkout_url = url, chk_session_id = i, chk_workspace_id = workspace_id \<rparr>))))))"

definition checkout_http_error :: "exn \<Rightarrow> exn" where
  "checkout_http_error e = (case e of
     BillingError code message \<Rightarrow> HTTPException
       (if code \<in> {''billing_misconfigured'', ''stripe_unavailable''} then 503
        else if code = ''already_entitled'' then 409 else 400) message
   | _ \<Rightarrow> e)"

definition create_checkout :: "Stripe \<Rightarrow> uuid \<Rightarrow> string option \<Rightarrow> string option \<Rightarrow> uuid \<Rightarrow> CheckoutResult M" where
  "create_checkout stripe workspace_id payload_email user_email user =
     bindM (require_workspace_admin workspace_id user) (\<lambda>_.
     bindM (gets (\<lambda>s. billing_enabled (cfg s))) (\<lambda>enabled.
     if \<not> enabled then raise (HTTPException 503 ''billing is not enabled'')
     else catchM
       (transaction (create_checkout_session stripe workspace_id
          (if the_or payload_email [] \<noteq> [] then payload_email else user_email)))
       (\<lambda>e. raise (checkout_http_error e))))"

definition get_billing :: "uuid \<Rightarrow> uuid \<Rightarrow> Entitlement M" where
  "get_billing workspace_id user =
     bindM (require_workspace_member workspace_id user) (\<lambda>_.
     bindM (transaction (ensure_workspace_billing workspace_id)) (\<lambda>_.
     get_entitlement workspace_id))"

section \<open>Footprint\<close>

lemma set_billing_Inr: "set_billing i f s = (Inr (), s') \<longleftrightarrow> stripe_ids_unique (row_set wb_workspace_id i f (billings s))
    \<and> s' = billings_update (row_set wb_workspace_id i f) s"
  by (auto simp: set_billing_def)

lemma ensure_Inr: "ensure_workspace_billing w s = (Inr r, s') \<longleftrightarrow>
    (case row_get wb_workspace_id w (billings s) of
       Some q \<Rightarrow> r = q \<and> s' = s
     | None \<Rightarrow> has_row ws_id w (workspaces s) \<and> r = new_billing w \<and> s' = billings_update (\<lambda>rs. rs @ [new_billing w]) s)"
  by (auto simp: ensure_workspace_billing_def exec split: option.split)

lemma w_billing_parts [steps_intro]:
  "steps writes (set_billing i f)" "steps writes (ensure_workspace_billing w)" "steps writes require_billing_config"
  "steps writes (latest_applied_event_created w x)" "steps writes (billing_where col v)" "steps writes (link_receipt x w')"
proof -
  show "steps writes (set_billing i f)" by (simp add: steps_def set_billing_def w_one [OF db_write.billing])
  show "steps writes (ensure_workspace_billing w)"
    by (auto simp: steps_def ensure_workspace_billing_def exec w_one [OF db_write.billing] split: option.split)
  show "steps writes require_billing_config" unfolding require_billing_config_def by (intro steps_intro)
  show "steps writes (latest_applied_event_created w x)" unfolding latest_applied_event_created_def by (intro steps_intro)
  show "steps writes (billing_where col v)" by (cases v) (auto simp: billing_where_def intro: steps_intro)
  show "steps writes (link_receipt x w')"
    unfolding link_receipt_def by (intro steps_intro steps_modify w_one db_write.link_receipt)
qed

lemma w_insert_receipt [steps_intro]: "steps writes (insert_receipt x ty w p)"
  unfolding insert_receipt_def
  by (intro steps_intro)
    (auto simp: steps_def received_def list_ex_iff intro!: w_one db_write.new_receipt)

lemma w_apply [steps_intro]:
  "steps writes (apply_subscription w sub x c)" "steps writes (checkout_completed ow obj)"
  "steps writes (subscription_workspace ow obj)" "steps writes (subscription_changed x ow obj ev)"
  "steps writes (payment_failed x ow obj ev)"
  unfolding apply_subscription_def checkout_completed_def subscription_workspace_def subscription_changed_def
    payment_failed_def Let_def
  by (intro steps_intro)+

lemma w_process [steps_intro]:
  "steps writes (event_effect x ty ow obj ev)" "steps writes (apply_event x ty ow obj ev)"
  "steps writes (process_stripe_event ev)"
  unfolding process_stripe_event_def apply_event_def event_effect_def by (intro steps_intro)+

lemma w_billing_routes [steps_intro]:
  "steps writes (construct_stripe_event v p sg)" "steps writes (stripe_webhook v p osg)"
  "steps writes (create_checkout_session st w em)" "steps writes (create_checkout st w em em' u)"
  "steps writes (get_billing w u)" "steps writes (require_entitlement_for_workspace w)"
  unfolding construct_stripe_event_def stripe_webhook_def create_checkout_session_def ensure_customer_def
    create_checkout_def get_billing_def get_entitlement_def require_entitlement_for_workspace_def
  by (intro steps_intro)+

section \<open>Webhooks are processed once\<close>

lemma received_query:
  assumes "received x s" "receipts_unique s"
  shows "\<exists>e. query_one (\<lambda>s. filter (\<lambda>e. bwe_stripe_event_id e = x) (billing_events s)) s = (Inr (Some e), s)"
proof -
  obtain e where e: "e \<in> set (billing_events s)" "bwe_stripe_event_id e = x" using assms(1) by (auto simp: received_def)
  have "filter (\<lambda>e. bwe_stripe_event_id e = x) (billing_events s) \<noteq> []" using e by (auto simp: filter_empty_conv)
  moreover consider "filter (\<lambda>e. bwe_stripe_event_id e = x) (billing_events s) = []"
    | q where "filter (\<lambda>e. bwe_stripe_event_id e = x) (billing_events s) = [q]"
    by (rule filter_at_most_one [OF assms(2) [unfolded receipts_unique_def], of "\<lambda>e. bwe_stripe_event_id e = x" x]) simp_all
  ultimately obtain q where "filter (\<lambda>e. bwe_stripe_event_id e = x) (billing_events s) = [q]" by metis
  then show ?thesis by (simp add: exec)
qed

lemma received_tables [simp]:
  "received x (s\<lparr>tick := n\<rparr>) = received x s" "received x (billings_update g s) = received x s"
  "received x (billing_events_update (\<lambda>rs. rs @ [r]) s) \<longleftrightarrow> x = bwe_stripe_event_id r \<or> received x s"
  by (auto simp: received_def)

lemma insert_receipt_Inr:
  "insert_receipt x ty ow p s = (Inr u, s1) \<longleftrightarrow> \<not> received x s \<and> (\<forall>w \<in> set_option ow. has_row ws_id w (workspaces s))
    \<and> s1 = billing_events_update (\<lambda>rs. rs @ [\<lparr> bwe_id = uuids s (tick s), bwe_stripe_event_id = x, bwe_event_type = ty,
        bwe_workspace_id = ow, bwe_payload = p \<rparr>]) (s\<lparr>tick := Suc (tick s)\<rparr>)"
proof (cases "received x s \<or> (\<exists>w \<in> set_option ow. \<not> has_row ws_id w (workspaces s))")
  case True
  then show ?thesis unfolding insert_receipt_def bindM_exec uuid4_exec by auto
next
  case False
  then show ?thesis unfolding insert_receipt_def bindM_exec uuid4_exec by auto
qed

lemma apply_event_received:
  assumes "apply_event x ty ow obj ev s = (Inr w, s')"
  shows "received x s'"
proof -
  let ?rest = "bindM (event_effect x ty ow obj ev) (\<lambda>w. andThen (link_receipt x w) (ret w))"
  from assms [unfolded apply_event_def] obtain u s1 where 1: "insert_receipt x ty ow ev s = (Inr u, s1)" and
    2: "?rest s1 = (Inr w, s')" by (rule andThen_InrE)
  have "received x s1" using 1 by (simp add: insert_receipt_Inr)
  moreover have "steps writes ?rest" by (intro steps_intro)
  then have "writes s1 (snd (?rest s1))" by (simp add: steps_def)
  then have "writes s1 s'" by (simp add: 2)
  ultimately show ?thesis by (rule writes_receipts(1) [rotated])
qed

text \<open>What a processed event was: a text id not seen before, and a transaction that went through.\<close>

lemma processed_cases:
  assumes "process_stripe_event event s = (Inr res, s')" "whr_status res = ''processed''"
  obtains x ty obj ow where "json_get event ''id'' = JStr x" "x \<noteq> []" "json_get event ''type'' = JStr ty" "ty \<noteq> []"
    "\<not> received x s" "event_object event = Inr obj" "workspace_id_from_metadata obj = Inr ow"
    "apply_event x ty ow obj event s = (Inr (whr_workspace_id res), s')"
    "res = \<lparr> whr_status = ''processed'', whr_event_id = x, whr_event_type = ty, whr_workspace_id = whr_workspace_id res \<rparr>"
proof -
  obtain x ty where t: "json_get event ''id'' = JStr x" "x \<noteq> []" "json_get event ''type'' = JStr ty" "ty \<noteq> []"
    using assms(1) by (auto simp: process_stripe_event_def exec as_text_def split: if_splits json.splits)
  let ?f = "\<lambda>s. filter (\<lambda>e. bwe_stripe_event_id e = x) (billing_events s)"
  obtain ex where q: "query_one ?f s = (Inr ex, s)"
    using assms(1) t by (cases "scalar_one_or_none (?f s)") (auto simp: process_stripe_event_def exec as_text_def)
  have "ex = None"
  proof (rule ccontr)
    assume "ex \<noteq> None"
    with assms q t show False by (auto simp: process_stripe_event_def bindM_exec fromSum_exec ret_exec as_text_def duplicate_def)
  qed
  then have nr: "\<not> received x s"
    using q by (auto simp: exec scalar_one_or_none_None received_def filter_empty_conv)
  obtain obj ow where o: "event_object event = Inr obj" "workspace_id_from_metadata obj = Inr ow"
    using assms(1) t q \<open>ex = None\<close>
    by (cases "event_object event"; cases "workspace_id_from_metadata (projr (event_object event))")
      (auto simp: process_stripe_event_def bindM_exec fromSum_exec as_text_def)
  have "catchM (bindM (transaction (apply_event x ty ow obj event)) (\<lambda>w.
      ret \<lparr> whr_status = ''processed'', whr_event_id = x, whr_event_type = ty, whr_workspace_id = w \<rparr>))
      (\<lambda>e. if e = IntegrityError then ret (duplicate x ty) else raise e) s = (Inr res, s')"
    using assms(1) t q \<open>ex = None\<close> o
    by (simp add: process_stripe_event_def bindM_exec fromSum_exec as_text_def)
  then obtain w where "transaction (apply_event x ty ow obj event) s = (Inr w, s')"
    "res = \<lparr> whr_status = ''processed'', whr_event_id = x, whr_event_type = ty, whr_workspace_id = w \<rparr>"
    using assms(2) by (auto simp: catchM_exec bindM_exec ret_exec raise_exec duplicate_def split: prod.splits sum.splits if_splits)
  then show ?thesis using that t nr o by (simp add: transaction_Inr)
qed

text \<open>
  C26: A Stripe event is applied once. After an event has been processed its receipt stays for good, and however often
  and whenever Stripe delivers it again, the answer is \<open>duplicate\<close> and nothing in the database changes.
\<close>

theorem webhook_processed_once:
  assumes "process_stripe_event event s = (Inr res, s')" "whr_status res = ''processed''" "receipts_unique s" "writes s' t"
  shows "process_stripe_event event t = (Inr (duplicate (whr_event_id res) (whr_event_type res)), t)"
proof -
  from processed_cases [OF assms(1,2)] obtain x ty obj ow where p:
    "json_get event ''id'' = JStr x" "x \<noteq> []" "json_get event ''type'' = JStr ty" "ty \<noteq> []"
    "apply_event x ty ow obj event s = (Inr (whr_workspace_id res), s')"
    "res = \<lparr> whr_status = ''processed'', whr_event_id = x, whr_event_type = ty, whr_workspace_id = whr_workspace_id res \<rparr>"
    by metis
  have "writes s s'" using w_process(2) p(5) by (metis steps_def snd_conv)
  then have "writes s t" using assms(4) by simp
  then have "receipts_unique t" by (rule writes_receipts(2)) (rule assms(3))
  moreover have "received x t" by (rule writes_receipts(1) [OF assms(4) apply_event_received [OF p(5)]])
  ultimately obtain e where "query_one (\<lambda>s. filter (\<lambda>e. bwe_stripe_event_id e = x) (billing_events s)) t = (Inr (Some e), t)"
    using received_query by blast
  moreover have "whr_event_id res = x" by (subst p(6)) simp
  moreover have "whr_event_type res = ty" by (subst p(6)) simp
  ultimately show ?thesis using p(1-4) by (simp add: process_stripe_event_def bindM_exec fromSum_exec as_text_def ret_exec)
qed

text \<open>
  A foreign key that fails is taken for a duplicate. An event whose metadata names a workspace that is gone is
  answered \<open>duplicate\<close> (a success to Stripe, which never sends it again) although it was never received: no receipt
  is written and nothing changes.
\<close>

theorem unknown_workspace_reported_duplicate:
  assumes "json_get event ''id'' = JStr x" "x \<noteq> []" "json_get event ''type'' = JStr ty" "ty \<noteq> []" "\<not> received x s"
    and "event_object event = Inr obj" "workspace_id_from_metadata obj = Inr (Some w)" "\<not> has_row ws_id w (workspaces s)"
  shows "process_stripe_event event s = (Inr (duplicate x ty), s\<lparr>tick := Suc (tick s)\<rparr>) \<and> \<not> received x (s\<lparr>tick := Suc (tick s)\<rparr>)"
proof -
  have "filter (\<lambda>e. bwe_stripe_event_id e = x) (billing_events s) = []"
    using assms(5) by (auto simp: received_def filter_empty_conv)
  moreover have "insert_receipt x ty (Some w) event s = (Inl IntegrityError, s\<lparr>tick := Suc (tick s)\<rparr>)"
    using assms(8) by (simp add: insert_receipt_def bindM_exec uuid4_exec)
  ultimately show ?thesis using assms
    by (simp add: process_stripe_event_def bindM_exec query_one_exec fromSum_exec as_text_def catchM_exec transaction_exec
        apply_event_def andThen_exec ret_exec)
qed

section \<open>Entitlement\<close>

definition entitled :: "uuid \<Rightarrow> db \<Rightarrow> bool" where
  "entitled w s \<longleftrightarrow> (\<exists>r. row_get wb_workspace_id w (billings s) = Some r \<and> wb_plan r = ''pro''
     \<and> wb_status r \<in> {''active'', ''trialing''})"

lemma entitled_iff: "entitled w s = is_entitled (row_get wb_workspace_id w (billings s)) True"
  by (auto simp: entitled_def is_entitled_def PRO_PLAN_def ACTIVE_STATUSES_def split: option.split)

lemma entitled_tables [simp]:
  "entitled w (s\<lparr>tick := n\<rparr>) = entitled w s" "entitled w (billing_events_update g s) = entitled w s"
  by (simp_all add: entitled_def)

lemma ensure_entitled: "ensure_workspace_billing w s = (Inr r, s') \<Longrightarrow> entitled v s' = entitled v s"
  by (auto simp: ensure_Inr entitled_def row_get_append new_billing_def split: option.splits if_splits)

lemma set_billing_entitled:
  assumes "set_billing w f s = (Inr (), s')" "\<And>r. wb_workspace_id (f r) = wb_workspace_id r"
  shows "entitled v s' = (if v = w then \<exists>r. row_get wb_workspace_id w (billings s) = Some r \<and> wb_plan (f r) = ''pro''
      \<and> wb_status (f r) \<in> {''active'', ''trialing''} else entitled v s)"
  using assms by (auto simp: set_billing_Inr entitled_def row_get_set)

lemma checkout_entitled:
  assumes "checkout_completed ow obj s = (Inr (), s')"
  shows "entitled v s' = entitled v s"
proof -
  obtain w where w: "ow = Some w" using assms by (cases ow) (auto simp: checkout_completed_def exec)
  from assms w have "bindM (ensure_workspace_billing w) (\<lambda>_. set_billing w (link_checkout obj)) s = (Inr (), s')"
    by (simp add: checkout_completed_def)
  then obtain r s1 where 1: "ensure_workspace_billing w s = (Inr r, s1)" and 2: "set_billing w (link_checkout obj) s1 = (Inr (), s')"
    by (rule bindM_InrE)
  have "entitled v s' = entitled v s1"
    by (subst set_billing_entitled [OF 2]) (auto simp: link_checkout_def entitled_def)
  then show ?thesis using ensure_entitled [OF 1] by simp
qed

lemma apply_subscription_cases:
  assumes "apply_subscription w sub x c s = (Inr (), s')"
  obtains (stale) r where "ensure_workspace_billing w s = (Inr r, s')" "c \<noteq> None" "applied_created w x s \<noteq> []"
      "subscription_stale (subscription_status sub) c (Some (Max (set (applied_created w x s))))"
  | (applied) r s1 p where "ensure_workspace_billing w s = (Inr r, s1)" "period_end_from_subscription sub = Inr p"
      "set_billing w (mirror_subscription sub p) s1 = (Inr (), s')"
      "\<not> subscription_stale (subscription_status sub) c
        (if applied_created w x s = [] then None else Some (Max (set (applied_created w x s))))"
proof -
  from assms [unfolded apply_subscription_def] obtain r s1 where 1: "ensure_workspace_billing w s = (Inr r, s1)" and
    2: "bindM (case c of None \<Rightarrow> ret None | Some _ \<Rightarrow> latest_applied_event_created w x) (\<lambda>latest.
     if subscription_stale (subscription_status sub) c latest then ret ()
     else bindM (fromSum (period_end_from_subscription sub)) (\<lambda>p. set_billing w (mirror_subscription sub p))) s1 = (Inr (), s')"
    by (rule bindM_InrE)
  have ac: "applied_created w x s1 = applied_created w x s"
    using 1 by (auto simp: ensure_Inr applied_created_def split: option.splits)
  let ?l = "if applied_created w x s = [] then None else Some (Max (set (applied_created w x s)))"
  let ?l' = "case c of None \<Rightarrow> None | Some _ \<Rightarrow> ?l"
  have "latest_applied_event_created w x s1 = (Inr ?l, s1)"
    by (simp only: latest_applied_event_created_def gets_exec Let_def ac)
  then have "(case c of None \<Rightarrow> ret None | Some _ \<Rightarrow> latest_applied_event_created w x) s1 = (Inr ?l', s1)"
    by (cases c) (simp_all only: option.case ret_exec)
  note bindM_Inr [where m = "case c of None \<Rightarrow> ret None | Some _ \<Rightarrow> latest_applied_event_created w x", OF this]
  from 2 [unfolded this] have "(if subscription_stale (subscription_status sub) c ?l' then ret ()
     else bindM (fromSum (period_end_from_subscription sub)) (\<lambda>p. set_billing w (mirror_subscription sub p))) s1 = (Inr (), s')" .
  moreover have st: "subscription_stale (subscription_status sub) c ?l' = subscription_stale (subscription_status sub) c ?l"
    by (cases c) (simp_all add: subscription_stale_def)
  ultimately have 3: "(if subscription_stale (subscription_status sub) c ?l then ret ()
     else bindM (fromSum (period_end_from_subscription sub)) (\<lambda>p. set_billing w (mirror_subscription sub p))) s1 = (Inr (), s')"
    by simp
  show ?thesis
  proof (cases "subscription_stale (subscription_status sub) c ?l")
    case True
    then have "c \<noteq> None" "applied_created w x s \<noteq> []"
      by (auto simp: subscription_stale_def split: option.splits if_splits)
    moreover from True 3 have "s1 = s'" by (simp add: ret_exec)
    ultimately show ?thesis using stale [OF _ _ _ ] 1 True by simp
  next
    case False
    with 3 obtain p where "period_end_from_subscription sub = Inr p" "set_billing w (mirror_subscription sub p) s1 = (Inr (), s')"
      by (cases "period_end_from_subscription sub") (simp_all add: bindM_exec fromSum_exec)
    with False applied [OF 1] show ?thesis by blast
  qed
qed

lemma mirror_keeps_key [simp]: "wb_workspace_id (mirror_subscription sub p r) = wb_workspace_id r"
  by (simp add: mirror_subscription_def)

lemma apply_subscription_entitled:
  assumes "apply_subscription w sub x c s = (Inr (), s')" "entitled v s'" "\<not> entitled v s"
  shows "v = w \<and> subscription_status sub \<in> {''active'', ''trialing''}
    \<and> (\<forall>n. c = Some n \<longrightarrow> (\<forall>l \<in> set (applied_created w x s). l < n))"
  using assms(1)
proof (cases rule: apply_subscription_cases)
  case (stale r)
  then show ?thesis using assms(2,3) ensure_entitled by blast
next
  case (applied r s1 p)
  have active: "v = w \<and> subscription_status sub \<in> {''active'', ''trialing''}"
    using assms(2,3) ensure_entitled [OF applied(1), of v]
    by (auto simp: set_billing_entitled [OF applied(3)] mirror_subscription_def split: if_splits)
  have "l < n" if "c = Some n" "l \<in> set (applied_created w x s)" for n l
  proof -
    have "l \<le> Max (set (applied_created w x s))" using that(2) by simp
    moreover have "applied_created w x s \<noteq> []" using that(2) by auto
    then have "\<not> subscription_stale (subscription_status sub) c (Some (Max (set (applied_created w x s))))"
      using applied(4) by simp
    ultimately show ?thesis using that(1) active by (auto simp: subscription_stale_def ACTIVE_STATUSES_def)
  qed
  with active show ?thesis by blast
qed

lemma billing_where_result: "billing_where col v s = (r, s') \<Longrightarrow> s' = s"
  by (cases v) (auto simp: billing_where_def exec)

lemma subscription_workspace_state: "subscription_workspace ow obj s = (Inr w, s') \<Longrightarrow> s' = s \<and> (ow \<noteq> None \<longrightarrow> ow = Some w)"
  by (cases ow) (auto simp: subscription_workspace_def ret_exec raise_exec elim!: bindM_InrE dest!: billing_where_result
      split: option.splits)

lemma payment_entitled:
  assumes "payment_failed x ow obj ev s = (Inr w', s')" "entitled v s'"
  shows "entitled v s"
proof -
  from assms(1) [unfolded payment_failed_def] obtain found s1 where f: "billing_where wb_stripe_subscription_id (json_get obj ''subscription'') s = (Inr found, s1)" and
    r: "(case found of None \<Rightarrow> ret ow
     | Some b \<Rightarrow> bindM (ensure_workspace_billing (wb_workspace_id b)) (\<lambda>_.
         let created = as_int (json_get ev ''created'') in
         bindM (case created of None \<Rightarrow> ret None | Some _ \<Rightarrow> latest_applied_event_created (wb_workspace_id b) x) (\<lambda>latest.
         andThen (if payment_stale created latest then ret ()
                  else set_billing (wb_workspace_id b) (wb_status_update (\<lambda>_. ''past_due'')))
         (ret (Some (wb_workspace_id b)))))) s1 = (Inr w', s')"
    by (rule bindM_InrE)
  have s1: "s1 = s" using billing_where_result [OF f] .
  show ?thesis
  proof (cases found)
    case None
    with r s1 assms(2) show ?thesis by (simp add: ret_exec)
  next
    case (Some b)
    let ?c = "as_int (json_get ev ''created'')"
    from r Some s1 have "bindM (ensure_workspace_billing (wb_workspace_id b)) (\<lambda>_.
         bindM (case ?c of None \<Rightarrow> ret None | Some _ \<Rightarrow> latest_applied_event_created (wb_workspace_id b) x) (\<lambda>latest.
         andThen (if payment_stale ?c latest then ret ()
                  else set_billing (wb_workspace_id b) (wb_status_update (\<lambda>_. ''past_due'')))
         (ret (Some (wb_workspace_id b))))) s = (Inr w', s')" by (simp only: option.case Let_def)
    then obtain q s2 where 1: "ensure_workspace_billing (wb_workspace_id b) s = (Inr q, s2)" and
      2: "bindM (case ?c of None \<Rightarrow> ret None | Some _ \<Rightarrow> latest_applied_event_created (wb_workspace_id b) x) (\<lambda>latest.
         andThen (if payment_stale ?c latest then ret ()
                  else set_billing (wb_workspace_id b) (wb_status_update (\<lambda>_. ''past_due'')))
         (ret (Some (wb_workspace_id b)))) s2 = (Inr w', s')"
      by (rule bindM_InrE)
    from 2 obtain l s3 where 3: "(case ?c of None \<Rightarrow> ret None | Some _ \<Rightarrow> latest_applied_event_created (wb_workspace_id b) x) s2 = (Inr l, s3)" and
      4: "andThen (if payment_stale ?c l then ret () else set_billing (wb_workspace_id b) (wb_status_update (\<lambda>_. ''past_due'')))
         (ret (Some (wb_workspace_id b))) s3 = (Inr w', s')" by (rule bindM_InrE)
    have "s3 = s2" using 3 by (cases ?c) (auto simp: latest_applied_event_created_def exec)
    with 4 have "(if payment_stale ?c l then ret () else set_billing (wb_workspace_id b) (wb_status_update (\<lambda>_. ''past_due''))) s2 = (Inr (), s')"
      by (auto elim!: andThen_InrE simp: ret_exec)
    then have "entitled v s' \<Longrightarrow> entitled v s2"
      by (auto simp: ret_exec set_billing_entitled split: if_splits)
    with assms(2) ensure_entitled [OF 1] show ?thesis by simp
  qed
qed

lemma effect_entitled:
  assumes "event_effect x ty ow obj ev s = (Inr w', s')" "entitled v s'" "\<not> entitled v s"
  shows "ty \<in> {''customer.subscription.created'', ''customer.subscription.updated'', ''customer.subscription.deleted''}
    \<and> w' = Some v \<and> subscription_status obj \<in> {''active'', ''trialing''}
    \<and> (\<forall>n. as_int (json_get ev ''created'') = Some n \<longrightarrow> (\<forall>l \<in> set (applied_created v x s). l < n))"
proof -
  let ?T = "{''customer.subscription.created'', ''customer.subscription.updated'', ''customer.subscription.deleted''}"
  have ty: "ty \<in> ?T"
  proof (rule ccontr)
    assume n: "ty \<notin> ?T"
    show False
    proof (cases "ty = ''checkout.session.completed''")
      case True
      then have "checkout_completed ow obj s = (Inr (), s')"
        using assms(1) by (auto simp: event_effect_def ret_exec elim!: andThen_InrE)
      then show False using checkout_entitled assms(2,3) by blast
    next
      case False
      show False
      proof (cases "ty = ''invoice.payment_failed''")
        case True
        then have "payment_failed x ow obj ev s = (Inr w', s')" using assms(1) by (simp add: event_effect_def)
        then show False using payment_entitled assms(2,3) by blast
      next
        case f: False
        with False n have "s' = s" using assms(1) by (simp only: event_effect_def if_False ret_exec prod.inject)
        then show False using assms(2,3) by simp
      qed
    qed
  qed
  then have "event_effect x ty ow obj ev = subscription_changed x ow obj ev" by (auto simp: event_effect_def)
  then have "subscription_changed x ow obj ev s = (Inr w', s')" using assms(1) by simp
  then obtain w s1 where 1: "subscription_workspace ow obj s = (Inr w, s1)" and
    2: "andThen (apply_subscription w obj x (as_int (json_get ev ''created''))) (ret (Some w)) s1 = (Inr w', s')"
    unfolding subscription_changed_def by (rule bindM_InrE)
  have s1: "s1 = s" using subscription_workspace_state [OF 1] by simp
  from 2 have "apply_subscription w obj x (as_int (json_get ev ''created'')) s = (Inr (), s')" "w' = Some w"
    unfolding s1 by (auto elim!: andThen_InrE simp: ret_exec)
  with apply_subscription_entitled [OF this(1) assms(2,3)] ty show ?thesis by auto
qed

lemma applied_created_receipts:
  "applied_created w x (billing_events_update (\<lambda>rs. rs @ [r]) s) = applied_created w x s
    @ (if bwe_workspace_id r = Some w \<and> bwe_stripe_event_id r \<noteq> x \<and> bwe_event_type r \<in> ENTITLEMENT_EVENTS
       then (case bwe_payload r of JObj _ \<Rightarrow> (case as_int (json_get (bwe_payload r) ''created'') of None \<Rightarrow> [] | Some n \<Rightarrow> [n]) | _ \<Rightarrow> [])
       else [])"
  "applied_created w x (s\<lparr>tick := n\<rparr>) = applied_created w x s" "applied_created w x (billings_update g s) = applied_created w x s"
  by (auto simp: applied_created_def List.map_filter_def split: json.split option.split)

lemma link_receipt_entitled: "link_receipt x ow s = (Inr (), s') \<Longrightarrow> entitled v s' = entitled v s"
  by (auto simp: link_receipt_def exec split: if_splits option.splits sum.splits)

lemma process_result:
  assumes "process_stripe_event event s = (Inr res, s')" "whr_status res \<noteq> ''processed''"
  shows "\<exists>n. s' = s\<lparr>tick := n\<rparr>"
  using assms
  by (auto simp: process_stripe_event_def bindM_exec fromSum_exec query_one_exec catchM_exec transaction_exec ret_exec
      raise_exec intro: exI [of _ "tick s"] split: if_splits sum.splits prod.splits)

text \<open>
  Only a subscription grants entitlement. When an event makes a workspace entitled that was not, it is a
  subscription event for this workspace whose status is active or trialing, and it is newer than every event applied to
  the workspace before; a checkout, a payment failure and any other event never do, and neither does a late one.
\<close>

theorem only_subscription_grants:
  assumes "process_stripe_event event s = (Inr res, s')" "entitled w s'" "\<not> entitled w s"
  shows "\<exists>x ty obj. json_get event ''id'' = JStr x \<and> json_get event ''type'' = JStr ty
    \<and> ty \<in> {''customer.subscription.created'', ''customer.subscription.updated'', ''customer.subscription.deleted''}
    \<and> event_object event = Inr obj \<and> subscription_status obj \<in> {''active'', ''trialing''}
    \<and> whr_workspace_id res = Some w
    \<and> (\<forall>n. as_int (json_get event ''created'') = Some n \<longrightarrow> (\<forall>l \<in> set (applied_created w x s). l < n))"
proof -
  have "whr_status res = ''processed''"
    using process_result [OF assms(1)] assms(2,3) by (cases "whr_status res = ''processed''") auto
  from processed_cases [OF assms(1) this] obtain x ty obj ow where p: "json_get event ''id'' = JStr x"
    "json_get event ''type'' = JStr ty" "event_object event = Inr obj"
    "apply_event x ty ow obj event s = (Inr (whr_workspace_id res), s')" by metis
  from p(4) [unfolded apply_event_def] obtain u s1 where 1: "insert_receipt x ty ow event s = (Inr u, s1)" and
    2: "bindM (event_effect x ty ow obj event) (\<lambda>w. andThen (link_receipt x w) (ret w)) s1 = (Inr (whr_workspace_id res), s')"
    by (rule andThen_InrE)
  from 2 obtain w' s2 where 3: "event_effect x ty ow obj event s1 = (Inr w', s2)" and
    4: "andThen (link_receipt x w') (ret w') s2 = (Inr (whr_workspace_id res), s')" by (rule bindM_InrE)
  from 4 have 5: "link_receipt x w' s2 = (Inr (), s')" "w' = whr_workspace_id res" by (auto elim!: andThen_InrE simp: ret_exec)
  have "\<not> entitled w s1" using assms(3) 1 by (auto simp: insert_receipt_Inr)
  moreover have "entitled w s2" using assms(2) link_receipt_entitled [OF 5(1)] by simp
  ultimately have "ty \<in> {''customer.subscription.created'', ''customer.subscription.updated'', ''customer.subscription.deleted''}
    \<and> w' = Some w \<and> subscription_status obj \<in> {''active'', ''trialing''}
    \<and> (\<forall>n. as_int (json_get event ''created'') = Some n \<longrightarrow> (\<forall>l \<in> set (applied_created w x s1). l < n))"
    using effect_entitled [OF 3] by blast
  moreover have "applied_created w x s1 = applied_created w x s"
    using 1 by (simp add: insert_receipt_Inr applied_created_receipts)
  ultimately show ?thesis using p(1-3) 5(2) by auto
qed

section \<open>Delivery order does not matter\<close>

text \<open>What an event says of the subscription: its id, when it was created, the status it reports.\<close>

type_synonym report = "string \<times> int \<times> string"

definition reports :: "uuid \<Rightarrow> string \<Rightarrow> string \<Rightarrow> json \<Rightarrow> report \<Rightarrow> bool" where
  "reports w sub cust event rep = (case rep of (x, c, st) \<Rightarrow>
     (\<exists>kvs. event = JObj kvs) \<and> json_get event ''id'' = JStr x \<and> x \<noteq> [] \<and> as_int (json_get event ''created'') = Some c
     \<and> (\<exists>ty obj. json_get event ''type'' = JStr ty \<and> event_object event = Inr obj
       \<and> (ty \<in> {''customer.subscription.created'', ''customer.subscription.updated'', ''customer.subscription.deleted''}
            \<and> workspace_id_from_metadata obj = Inr (Some w) \<and> json_get obj ''id'' = JStr sub
            \<and> json_get obj ''customer'' = JStr cust \<and> subscription_status obj = st
            \<and> (\<exists>p. period_end_from_subscription obj = Inr p)
          \<or> ty = ''invoice.payment_failed'' \<and> workspace_id_from_metadata obj = Inr None
            \<and> json_get obj ''subscription'' = JStr sub \<and> st = ''past_due'')))"

text \<open>The workspace is linked to its Stripe customer and subscription, as a completed checkout leaves it.\<close>

definition linked :: "uuid \<Rightarrow> string \<Rightarrow> string \<Rightarrow> db \<Rightarrow> bool" where
  "linked w sub cust s \<longleftrightarrow> has_row ws_id w (workspaces s) \<and> distinct (map wb_workspace_id (billings s))
     \<and> stripe_ids_unique (billings s) \<and> (\<exists>r. row_get wb_workspace_id w (billings s) = Some r
         \<and> wb_stripe_subscription_id r = Some sub \<and> wb_stripe_customer_id r = Some cust)"

lemma linked_tables [simp]:
  "linked w sub cust (s\<lparr>tick := n\<rparr>) = linked w sub cust s"
  "linked w sub cust (billing_events_update g s) = linked w sub cust s"
  by (simp_all add: linked_def)

lemma unique_column:
  assumes "distinct (filter (\<lambda>x. x \<noteq> None) (map k rows))" "r \<in> set rows" "k r = Some c"
  shows "filter (\<lambda>b. k b = Some c) rows = [r]"
  using assms
proof (induction rows)
  case (Cons a rows)
  show ?case
  proof (cases "k a = Some c")
    case True
    then have "Some c \<notin> k ` set rows" using Cons.prems(1) by auto
    then have "r = a" "filter (\<lambda>b. k b = Some c) rows = []" using Cons.prems(2,3) by (auto simp: filter_empty_conv) force+
    with True show ?thesis by simp
  next
    case False
    then show ?thesis using Cons by (auto split: if_splits)
  qed
qed simp

lemma map_row_set_same:
  assumes "\<And>r. r \<in> set rows \<Longrightarrow> key r = i \<Longrightarrow> g (f r) = g r"
  shows "map g (row_set key i f rows) = map g rows"
  using assms by (auto simp: row_set_def)

lemma linked_set:
  assumes "linked w sub cust s" "\<And>r. wb_workspace_id (f r) = wb_workspace_id r"
    and "\<And>r. wb_stripe_subscription_id r = Some sub \<Longrightarrow> wb_stripe_subscription_id (f r) = Some sub"
    and "\<And>r. wb_stripe_customer_id r = Some cust \<Longrightarrow> wb_stripe_customer_id (f r) = Some cust"
  shows "set_billing w f s = (Inr (), billings_update (row_set wb_workspace_id w f) s)"
    and "linked w sub cust (billings_update (row_set wb_workspace_id w f) s)"
proof -
  obtain r where r: "row_get wb_workspace_id w (billings s) = Some r" "wb_stripe_subscription_id r = Some sub"
    "wb_stripe_customer_id r = Some cust" using assms(1) by (auto simp: linked_def)
  have only: "q = r" if "q \<in> set (billings s)" "wb_workspace_id q = w" for q
    using row_get_distinct [of wb_workspace_id "billings s" q] that r(1) assms(1) by (simp add: linked_def)
  have "map wb_stripe_customer_id (row_set wb_workspace_id w f (billings s)) = map wb_stripe_customer_id (billings s)"
    using only r(3) assms(4) by (intro map_row_set_same) metis
  moreover have "map wb_stripe_subscription_id (row_set wb_workspace_id w f (billings s)) = map wb_stripe_subscription_id (billings s)"
    using only r(2) assms(3) by (intro map_row_set_same) metis
  ultimately have u: "stripe_ids_unique (row_set wb_workspace_id w f (billings s))"
    using assms(1) by (simp add: linked_def stripe_ids_unique_def)
  then show "set_billing w f s = (Inr (), billings_update (row_set wb_workspace_id w f) s)" by (simp add: set_billing_Inr)
  have "map wb_workspace_id (row_set wb_workspace_id w f (billings s)) = map wb_workspace_id (billings s)"
    using assms(2) by (intro map_row_set_same) simp
  with u r assms show "linked w sub cust (billings_update (row_set wb_workspace_id w f) s)"
    by (simp add: linked_def row_get_set)
qed

lemma linked_ensure: "linked w sub cust s \<Longrightarrow> \<exists>r. ensure_workspace_billing w s = (Inr r, s)"
  by (auto simp: linked_def ensure_Inr)

lemma linked_where:
  assumes "linked w sub cust s"
  shows "\<exists>b. billing_where wb_stripe_subscription_id (JStr sub) s = (Inr (Some b), s) \<and> wb_workspace_id b = w"
proof -
  obtain r where r: "row_get wb_workspace_id w (billings s) = Some r" "wb_stripe_subscription_id r = Some sub"
    using assms by (auto simp: linked_def)
  then have "filter (\<lambda>b. wb_stripe_subscription_id b = Some sub) (billings s) = [r]"
    using assms row_get_Some [OF r(1)] by (intro unique_column) (simp_all add: linked_def stripe_ids_unique_def)
  then show ?thesis using row_get_key [OF r(1)] by (simp add: billing_where_def exec)
qed

text \<open>What applying a report does to the row.\<close>

definition effect_of :: "json \<Rightarrow> WorkspaceBilling \<Rightarrow> WorkspaceBilling" where
  "effect_of event = (if json_get event ''type'' = JStr ''invoice.payment_failed'' then wb_status_update (\<lambda>_. ''past_due'')
     else mirror_subscription (projr (event_object event)) (projr (period_end_from_subscription (projr (event_object event)))))"

definition latest_of :: "int list \<Rightarrow> int option" where
  "latest_of cs = (if cs = [] then None else Some (Max (set cs)))"

lemma apply_subscription_linked:
  assumes "linked w sub cust s" "json_get obj ''id'' = JStr sub" "json_get obj ''customer'' = JStr cust"
    "period_end_from_subscription obj = Inr p"
  shows "apply_subscription w obj x (Some c) s = (Inr (), if subscription_stale (subscription_status obj) (Some c)
      (latest_of (applied_created w x s)) then s else billings_update (row_set wb_workspace_id w (mirror_subscription obj p)) s)"
proof -
  obtain r where 1: "ensure_workspace_billing w s = (Inr r, s)" using linked_ensure [OF assms(1)] by blast
  have 2: "set_billing w (mirror_subscription obj p) s = (Inr (), billings_update (row_set wb_workspace_id w (mirror_subscription obj p)) s)"
    by (rule linked_set(1) [OF assms(1)]) (use assms(2,3) in \<open>simp_all add: mirror_subscription_def subscription_id_def customer_of_def\<close>)
  have 3: "latest_applied_event_created w x s = (Inr (latest_of (applied_created w x s)), s)"
    by (simp add: latest_applied_event_created_def gets_exec latest_of_def Let_def)
  show ?thesis by (simp add: apply_subscription_def bindM_exec 1 3 assms(4) fromSum_exec 2 ret_exec)
qed

lemma payment_failed_linked:
  assumes "linked w sub cust s" "json_get obj ''subscription'' = JStr sub" "as_int (json_get ev ''created'') = Some c"
  shows "payment_failed x ow obj ev s = (Inr (Some w), if payment_stale (Some c) (latest_of (applied_created w x s)) then s
      else billings_update (row_set wb_workspace_id w (wb_status_update (\<lambda>_. ''past_due''))) s)"
proof -
  obtain r where 1: "ensure_workspace_billing w s = (Inr r, s)" using linked_ensure [OF assms(1)] by blast
  obtain b where 2: "billing_where wb_stripe_subscription_id (JStr sub) s = (Inr (Some b), s)" "wb_workspace_id b = w"
    using linked_where [OF assms(1)] by blast
  have 3: "set_billing w (wb_status_update (\<lambda>_. ''past_due'')) s
      = (Inr (), billings_update (row_set wb_workspace_id w (wb_status_update (\<lambda>_. ''past_due''))) s)"
    by (rule linked_set(1) [OF assms(1)]) simp_all
  have 4: "latest_applied_event_created w x s = (Inr (latest_of (applied_created w x s)), s)"
    by (simp add: latest_applied_event_created_def gets_exec latest_of_def Let_def)
  show ?thesis by (simp add: payment_failed_def bindM_exec andThen_exec assms(2,3) 1 2 3 4 Let_def ret_exec)
qed

lemma billings_id [simp]: "billings_update id s = s"
  by (cases s) simp

lemma link_receipt_exec:
  assumes "\<not> received x s" "bwe_stripe_event_id e = x" "bwe_workspace_id e \<in> {None, Some w}"
  shows "link_receipt x (Some w) (billings_update g (billing_events_update (\<lambda>rs. rs @ [e]) s))
    = (Inr (), billings_update g (billing_events_update (\<lambda>rs. rs @ [e\<lparr>bwe_workspace_id := Some w\<rparr>]) s))"
proof -
  have n: "filter (\<lambda>e. bwe_stripe_event_id e = x) (billing_events s) = []" "row_set bwe_stripe_event_id x f (billing_events s) = billing_events s" for f
    using assms(1) by (auto simp: received_def filter_empty_conv row_set_def intro!: map_idI)
  have snoc: "row_set bwe_stripe_event_id x f (billing_events s @ [e]) = billing_events s @ [f e]" for f
    using n(2) [of f] assms(2) by (simp add: row_set_def)
  let ?t = "billings_update g (billing_events_update (\<lambda>rs. rs @ [e]) s)"
  have upd: "billing_events_update (row_set bwe_stripe_event_id x f) ?t = billings_update g (billing_events_update (\<lambda>rs. rs @ [f e]) s)" for f
  proof -
    have "billing_events (billing_events_update (row_set bwe_stripe_event_id x f) ?t) = billing_events s @ [f e]"
      using snoc [of f] by simp
    then show ?thesis by (cases s) simp
  qed
  have q: "query_one (\<lambda>s. filter (\<lambda>e. bwe_stripe_event_id e = x) (billing_events s)) ?t = (Inr (Some e), ?t)"
    using n(1) assms(2) by (simp add: query_one_exec)
  show ?thesis
  proof (cases "bwe_workspace_id e = None")
    case True
    then show ?thesis by (simp add: link_receipt_def bindM_exec q whenM_def modifyM_exec upd)
  next
    case False
    then have "bwe_workspace_id e = Some w" using assms(3) by auto
    moreover from this have "e\<lparr>bwe_workspace_id := Some w\<rparr> = e" by (cases e) simp
    ultimately show ?thesis by (simp add: link_receipt_def bindM_exec q whenM_def ret_exec)
  qed
qed

lemma process_report:
  assumes "reports w sub cust event (x, c, st)" "linked w sub cust s" "\<not> received x s"
  shows "\<exists>ty g. json_get event ''type'' = JStr ty \<and> ty \<in> ENTITLEMENT_EVENTS
    \<and> process_stripe_event event s = (Inr \<lparr> whr_status = ''processed'', whr_event_id = x, whr_event_type = ty, whr_workspace_id = Some w \<rparr>,
      billings_update g (billing_events_update (\<lambda>rs. rs @ [\<lparr> bwe_id = uuids s (tick s), bwe_stripe_event_id = x,
        bwe_event_type = ty, bwe_workspace_id = Some w, bwe_payload = event \<rparr>]) (s\<lparr>tick := Suc (tick s)\<rparr>)))
    \<and> linked w sub cust (billings_update g s)
    \<and> entitled w (billings_update g s) = (if subscription_stale st (Some c) (latest_of (applied_created w x s))
        then entitled w s else st \<in> ACTIVE_STATUSES)"
proof -
  obtain kvs ty obj where r: "event = JObj kvs" "json_get event ''id'' = JStr x" "x \<noteq> []"
    "as_int (json_get event ''created'') = Some c" "json_get event ''type'' = JStr ty" "event_object event = Inr obj" and
    k: "ty \<in> {''customer.subscription.created'', ''customer.subscription.updated'', ''customer.subscription.deleted''}
            \<and> workspace_id_from_metadata obj = Inr (Some w) \<and> json_get obj ''id'' = JStr sub
            \<and> json_get obj ''customer'' = JStr cust \<and> subscription_status obj = st
            \<and> (\<exists>p. period_end_from_subscription obj = Inr p)
          \<or> ty = ''invoice.payment_failed'' \<and> workspace_id_from_metadata obj = Inr None
            \<and> json_get obj ''subscription'' = JStr sub \<and> st = ''past_due''"
    using assms(1) unfolding reports_def prod.case by (elim exE conjE) (rule that; assumption)
  have ne: "filter (\<lambda>e. bwe_stripe_event_id e = x) (billing_events s) = []"
    using assms(3) by (auto simp: received_def filter_empty_conv)
  have start: "process_stripe_event event s = (case apply_event x ty ow obj event s of
      (Inr v, s') \<Rightarrow> (Inr \<lparr> whr_status = ''processed'', whr_event_id = x, whr_event_type = ty, whr_workspace_id = v \<rparr>, s')
    | (Inl e, s') \<Rightarrow> if e = IntegrityError then (Inr (duplicate x ty), s\<lparr>tick := tick s'\<rparr>) else (Inl e, s\<lparr>tick := tick s'\<rparr>))"
    if "workspace_id_from_metadata obj = Inr ow" "ty \<noteq> []" for ow
    using r(2,3,5,6) that ne
    by (auto simp: process_stripe_event_def bindM_exec fromSum_exec query_one_exec as_text_def catchM_exec transaction_exec
        ret_exec raise_exec split: prod.split sum.split)
  let ?s1 = "\<lambda>ow. billing_events_update (\<lambda>rs. rs @ [\<lparr> bwe_id = uuids s (tick s), bwe_stripe_event_id = x,
        bwe_event_type = ty, bwe_workspace_id = ow, bwe_payload = event \<rparr>]) (s\<lparr>tick := Suc (tick s)\<rparr>)"
  have l1: "linked w sub cust (?s1 ow)" for ow using assms(2) by simp
  have ac: "applied_created w x (?s1 ow) = applied_created w x s" for ow by (simp add: applied_created_receipts)
  have ins: "insert_receipt x ty ow event s = (Inr (), ?s1 ow)" if "ow = None \<or> ow = Some w" for ow
    using assms(2,3) that by (auto simp: insert_receipt_Inr linked_def)
  have link: "link_receipt x (Some w) (billings_update g (?s1 ow)) = (Inr (), billings_update g (?s1 (Some w)))"
    if "ow = None \<or> ow = Some w" for g ow
    using link_receipt_exec [of x "s\<lparr>tick := Suc (tick s)\<rparr>" "\<lparr> bwe_id = uuids s (tick s), bwe_stripe_event_id = x,
        bwe_event_type = ty, bwe_workspace_id = ow, bwe_payload = event \<rparr>" w g] assms(3) that by auto
  obtain row where row: "row_get wb_workspace_id w (billings s) = Some row" using assms(2) by (auto simp: linked_def)
  from k show ?thesis
  proof
    assume k: "ty \<in> {''customer.subscription.created'', ''customer.subscription.updated'', ''customer.subscription.deleted''}
            \<and> workspace_id_from_metadata obj = Inr (Some w) \<and> json_get obj ''id'' = JStr sub
            \<and> json_get obj ''customer'' = JStr cust \<and> subscription_status obj = st
            \<and> (\<exists>p. period_end_from_subscription obj = Inr p)"
    then obtain p where p: "period_end_from_subscription obj = Inr p" by blast
    let ?stale = "subscription_stale st (Some c) (latest_of (applied_created w x s))"
    let ?g = "if ?stale then id else row_set wb_workspace_id w (mirror_subscription obj p)"
    have "event_effect x ty (Some w) obj event = subscription_changed x (Some w) obj event"
      using k by (auto simp: event_effect_def)
    moreover have "subscription_changed x (Some w) obj event (?s1 (Some w)) = (Inr (Some w), billings_update ?g (?s1 (Some w)))"
      using apply_subscription_linked [where x = x and c = c, OF l1 [of "Some w"] _ _ p] k
      by (auto simp: subscription_changed_def subscription_workspace_def bindM_exec andThen_exec ret_exec ac r(4))
    ultimately have "apply_event x ty (Some w) obj event s = (Inr (Some w), billings_update ?g (?s1 (Some w)))"
      by (simp add: apply_event_def andThen_exec bindM_exec ins link ret_exec)
    then have "process_stripe_event event s = (Inr \<lparr> whr_status = ''processed'', whr_event_id = x, whr_event_type = ty, whr_workspace_id = Some w \<rparr>,
        billings_update ?g (?s1 (Some w)))"
      using start [of "Some w"] k by auto
    moreover have "ty \<in> ENTITLEMENT_EVENTS" using k by (auto simp: ENTITLEMENT_EVENTS_def)
    moreover have "linked w sub cust (billings_update ?g s)"
      using assms(2) linked_set(2) [OF assms(2), of "mirror_subscription obj p"] k
      by (auto simp: mirror_subscription_def subscription_id_def customer_of_def Let_def linked_def)
    moreover have "entitled w (billings_update ?g s) = (if ?stale then entitled w s else st \<in> ACTIVE_STATUSES)"
      using k row by (auto simp: entitled_def row_get_set mirror_subscription_def plan_of_def PRO_PLAN_def ACTIVE_STATUSES_def)
    ultimately show ?thesis using r(5) by blast
  next
    assume k: "ty = ''invoice.payment_failed'' \<and> workspace_id_from_metadata obj = Inr None
            \<and> json_get obj ''subscription'' = JStr sub \<and> st = ''past_due''"
    let ?stale = "subscription_stale st (Some c) (latest_of (applied_created w x s))"
    let ?g = "if ?stale then id else row_set wb_workspace_id w (wb_status_update (\<lambda>_. ''past_due''))"
    have st: "payment_stale (Some c) l = subscription_stale st (Some c) l" for l
      using k by (auto simp: payment_stale_def subscription_stale_def ACTIVE_STATUSES_def split: option.split)
    have "event_effect x ty None obj event = payment_failed x None obj event" using k by (simp add: event_effect_def)
    moreover have "payment_failed x None obj event (?s1 None) = (Inr (Some w), if payment_stale (Some c)
        (latest_of (applied_created w x (?s1 None))) then ?s1 None
        else billings_update (row_set wb_workspace_id w (wb_status_update (\<lambda>_. ''past_due''))) (?s1 None))"
      by (rule payment_failed_linked [OF l1 [of None] _ r(4)]) (use k in simp)
    then have "payment_failed x None obj event (?s1 None) = (Inr (Some w), billings_update ?g (?s1 None))"
      unfolding ac st by (cases ?stale) simp_all
    ultimately have "apply_event x ty None obj event s = (Inr (Some w), billings_update ?g (?s1 (Some w)))"
      by (simp add: apply_event_def andThen_exec bindM_exec ins link ret_exec)
    then have "process_stripe_event event s = (Inr \<lparr> whr_status = ''processed'', whr_event_id = x, whr_event_type = ty, whr_workspace_id = Some w \<rparr>,
        billings_update ?g (?s1 (Some w)))"
      using start [of None] k by simp
    moreover have "ty \<in> ENTITLEMENT_EVENTS" using k by (auto simp: ENTITLEMENT_EVENTS_def)
    moreover have "linked w sub cust (billings_update ?g s)"
      using assms(2) linked_set(2) [OF assms(2), of "wb_status_update (\<lambda>_. ''past_due'')"] by (auto simp: linked_def)
    moreover have "entitled w (billings_update ?g s) = (if ?stale then entitled w s else st \<in> ACTIVE_STATUSES)"
      using k row by (auto simp: entitled_def row_get_set ACTIVE_STATUSES_def)
    ultimately show ?thesis using r(5) by blast
  qed
qed

text \<open>The abstract rule: a set of reports entitles when all the newest of them are of an active status.\<close>

definition entitling :: "report set \<Rightarrow> bool" where
  "entitling R \<longleftrightarrow> (\<forall>(x, c, st) \<in> R. (\<forall>(x', c', st') \<in> R. c' \<le> c) \<longrightarrow> st \<in> {''active'', ''trialing''})"

definition created_of :: "report \<Rightarrow> int" where
  "created_of r = fst (snd r)"

lemma entitling_iff:
  "entitling R \<longleftrightarrow> (\<forall>r \<in> R. (\<forall>q \<in> R. created_of q \<le> created_of r) \<longrightarrow> snd (snd r) \<in> ACTIVE_STATUSES)"
  by (force simp: entitling_def created_of_def ACTIVE_STATUSES_def)

lemma entitling_insert:
  assumes "finite R" "R \<noteq> {}"
  shows "entitling (insert (x, c, st) R) = (if subscription_stale st (Some c) (Some (Max (created_of ` R)))
    then entitling R else st \<in> ACTIVE_STATUSES)"
proof -
  let ?m = "Max (created_of ` R)"
  have m: "created_of q \<le> ?m" if "q \<in> R" for q using that assms(1) by simp
  have "?m \<in> created_of ` R" using assms by (intro Max_in) auto
  then obtain t where t: "t \<in> R" "created_of t = ?m" by (metis imageE)
  have top: "(\<forall>q \<in> R. created_of q \<le> created_of r) \<longleftrightarrow> created_of r = ?m" if "r \<in> R" for r
    using that m t by (metis antisym)
  have old: "entitling R \<longleftrightarrow> (\<forall>r \<in> R. created_of r = ?m \<longrightarrow> snd (snd r) \<in> ACTIVE_STATUSES)"
    unfolding entitling_iff using top by blast
  have c: "created_of (x, c, st) = c" by (simp add: created_of_def)
  have new: "entitling (insert (x, c, st) R) \<longleftrightarrow> (?m \<le> c \<longrightarrow> st \<in> ACTIVE_STATUSES)
      \<and> (\<forall>r \<in> R. created_of r = ?m \<and> c \<le> ?m \<longrightarrow> snd (snd r) \<in> ACTIVE_STATUSES)"
  proof -
    have "(\<forall>q \<in> insert (x, c, st) R. created_of q \<le> c) \<longleftrightarrow> ?m \<le> c" using m t c by (metis insert_iff order.trans order_refl)
    moreover have "(\<forall>q \<in> insert (x, c, st) R. created_of q \<le> created_of r) \<longleftrightarrow> created_of r = ?m \<and> c \<le> ?m" if "r \<in> R" for r
      using top [OF that] c by auto
    ultimately show ?thesis unfolding entitling_iff using c by auto
  qed
  show ?thesis
  proof (cases c ?m rule: linorder_cases)
    case less
    then show ?thesis unfolding new old by (auto simp: subscription_stale_def)
  next
    case equal
    then show ?thesis unfolding new old using t by (auto simp: subscription_stale_def)
  next
    case greater
    then show ?thesis unfolding new old by (auto simp: subscription_stale_def)
  qed
qed

lemma applied_created_other:
  assumes "event = JObj kvs" "as_int (json_get event ''created'') = Some c" "ty \<in> ENTITLEMENT_EVENTS" "y \<noteq> x"
  shows "applied_created w y (billings_update g (billing_events_update (\<lambda>rs. rs @ [\<lparr> bwe_id = i, bwe_stripe_event_id = x,
        bwe_event_type = ty, bwe_workspace_id = Some w, bwe_payload = event \<rparr>]) (s\<lparr>tick := n\<rparr>)))
    = applied_created w y s @ [c]"
  using assms by (simp add: applied_created_receipts)

lemma process_reports:
  assumes "list_all2 (reports w sub cust) es rs" "linked w sub cust s" "distinct (map fst rs)" "\<forall>r \<in> set rs. \<not> received (fst r) s"
    and "finite R" "\<And>y. y \<in> fst ` set rs \<Longrightarrow> set (applied_created w y s) = created_of ` R" "R \<noteq> {} \<Longrightarrow> entitled w s = entitling R"
  shows "\<exists>outs s'. mapM es process_stripe_event s = (Inr outs, s') \<and> (set rs \<union> R \<noteq> {} \<longrightarrow> entitled w s' = entitling (set rs \<union> R))"
  using assms
proof (induction es arbitrary: rs s R)
  case Nil
  then show ?case by (simp add: ret_exec)
next
  case (Cons event es)
  from Cons.prems(1) obtain x c st rs' where rs: "rs = (x, c, st) # rs'" "reports w sub cust event (x, c, st)"
    "list_all2 (reports w sub cust) es rs'" by (metis list_all2_Cons1 prod_cases3)
  have nr: "\<not> received x s" using Cons.prems(4) rs(1) by simp
  from process_report [OF rs(2) Cons.prems(2) nr] obtain ty g where p: "json_get event ''type'' = JStr ty" "ty \<in> ENTITLEMENT_EVENTS"
    "process_stripe_event event s = (Inr \<lparr> whr_status = ''processed'', whr_event_id = x, whr_event_type = ty, whr_workspace_id = Some w \<rparr>,
      billings_update g (billing_events_update (\<lambda>rs. rs @ [\<lparr> bwe_id = uuids s (tick s), bwe_stripe_event_id = x,
        bwe_event_type = ty, bwe_workspace_id = Some w, bwe_payload = event \<rparr>]) (s\<lparr>tick := Suc (tick s)\<rparr>)))"
    "linked w sub cust (billings_update g s)"
    "entitled w (billings_update g s) = (if subscription_stale st (Some c) (latest_of (applied_created w x s))
        then entitled w s else st \<in> ACTIVE_STATUSES)" by blast
  let ?s1 = "billings_update g (billing_events_update (\<lambda>rs. rs @ [\<lparr> bwe_id = uuids s (tick s), bwe_stripe_event_id = x,
        bwe_event_type = ty, bwe_workspace_id = Some w, bwe_payload = event \<rparr>]) (s\<lparr>tick := Suc (tick s)\<rparr>))"
  let ?R = "insert (x, c, st) R"
  obtain kvs where ev: "event = JObj kvs" "as_int (json_get event ''created'') = Some c" using rs(2) by (auto simp: reports_def)
  have x: "x \<notin> fst ` set rs'" using Cons.prems(3) rs(1) by auto
  have e1: "entitled w ?s1 = entitled w (billings_update g s)" by (simp add: entitled_def)
  have cx: "set (applied_created w x s) = created_of ` R" using Cons.prems(6) rs(1) by simp
  have "entitled w ?s1 = entitling ?R"
  proof (cases "R = {}")
    case True
    then have "latest_of (applied_created w x s) = None" using cx by (simp add: latest_of_def)
    then show ?thesis using e1 p(5) True by (simp add: subscription_stale_def entitling_iff)
  next
    case False
    then have "latest_of (applied_created w x s) = Some (Max (created_of ` R))" using cx by (auto simp: latest_of_def)
    then show ?thesis using e1 p(5) entitling_insert [OF Cons.prems(5) False] Cons.prems(7) [OF False] by simp
  qed
  moreover have "linked w sub cust ?s1" using p(4) by (simp add: linked_def)
  moreover have "set (applied_created w y ?s1) = created_of ` ?R" if "y \<in> fst ` set rs'" for y
  proof -
    have "y \<noteq> x" using that x by auto
    then show ?thesis using applied_created_other [OF ev p(2)] Cons.prems(6) that rs(1) by (simp add: created_of_def)
  qed
  moreover have "\<forall>r \<in> set rs'. \<not> received (fst r) ?s1" using Cons.prems(4) rs(1) x by auto
  ultimately obtain outs s' where "mapM es process_stripe_event ?s1 = (Inr outs, s')" "entitled w s' = entitling (set rs' \<union> ?R)"
    using Cons.IH [of rs' ?s1 ?R] rs Cons.prems(3,5) by auto
  then show ?case using p(3) rs(1) by (simp add: bindM_exec ret_exec)
qed

text \<open>
  C27: Entitlement does not depend on the order in which Stripe delivers. A workspace is linked to its customer and
  subscription, by its completed checkout, and none of its subscription changes and payment failures has been received yet
  (the receipt of the checkout, and of any other kind of event, may be there). Once these events, each once, have been processed in
  whatever order, the workspace is entitled exactly when every one of them with the newest creation time reports an active or
  trialing status: late deliveries never override newer ones, and a tie is resolved against entitlement.
\<close>

theorem entitlement_order_independent:
  assumes "list_all2 (reports w sub cust) es rs" "rs \<noteq> []" "distinct (map fst rs)" "\<forall>r \<in> set rs. \<not> received (fst r) s"
    and "linked w sub cust s"
    and "\<forall>e \<in> set (billing_events s). bwe_workspace_id e = Some w \<longrightarrow> bwe_event_type e \<notin> ENTITLEMENT_EVENTS"
  shows "\<exists>outs s'. mapM es process_stripe_event s = (Inr outs, s')
    \<and> is_entitled (row_get wb_workspace_id w (billings s')) True = (\<forall>(x, c, st) \<in> set rs.
        (\<forall>(x', c', st') \<in> set rs. c' \<le> c) \<longrightarrow> st \<in> {''active'', ''trialing''})"
proof -
  have "applied_created w y s = []" for y
    using assms(6) by (auto simp: applied_created_def List.map_filter_def filter_empty_conv)
  then have "\<exists>outs s'. mapM es process_stripe_event s = (Inr outs, s') \<and> (set rs \<union> {} \<noteq> {} \<longrightarrow> entitled w s' = entitling (set rs \<union> {}))"
    by (intro process_reports [OF assms(1,5,3,4)]) simp_all
  with assms(2) show ?thesis by (auto simp: entitled_iff [symmetric] entitling_def)
qed

section \<open>Witnesses\<close>

definition subscription_object :: "string \<Rightarrow> json" where
  "subscription_object st = JObj [(''id'', JStr ''sub''), (''customer'', JStr ''cus''), (''status'', JStr st),
     (''metadata'', JObj [(''workspace_id'', JStr (str_uuid 1))])]"

definition subscription_event :: "string \<Rightarrow> rat \<Rightarrow> string \<Rightarrow> json" where
  "subscription_event i created st =
     JObj [(''id'', JStr i), (''type'', JStr ''customer.subscription.updated''), (''created'', JNum created),
           (''data'', JObj [(''object'', subscription_object st)])]"

definition billing_db :: db where
  "billing_db = sample_db\<lparr> billings := [(new_billing 1)\<lparr> wb_stripe_customer_id := Some ''cus'', wb_stripe_subscription_id := Some ''sub'' \<rparr>],
     cfg := default_settings\<lparr> billing_enabled := True \<rparr> \<rparr>"

lemmas billing_fixture = billing_db_def new_billing_def sample

lemma uuid_1: "uuid_of_str (str_uuid 1) = Inr 1"
  by (rule uuid_of_str_uuid) simp

lemma subscription_event_facts:
  "json_get (subscription_event i c st) ''id'' = JStr i" "json_get (subscription_event i c st) ''type'' = JStr ''customer.subscription.updated''"
  "json_get (subscription_event i c st) ''created'' = JNum c"
  by (simp_all add: subscription_event_def json_get_def)

lemma str_uuid_nonempty: "str_uuid u \<noteq> []"
  by (simp add: str_uuid_def dash_def Let_def)

lemma subscription_object_facts:
  "event_object (subscription_event i c st) = Inr (subscription_object st)"
  "workspace_id_from_metadata (subscription_object st) = Inr (Some 1)"
  "json_get (subscription_object st) ''id'' = JStr ''sub''" "json_get (subscription_object st) ''customer'' = JStr ''cus''"
  "json_get (subscription_object st) ''status'' = JStr st" "json_get (subscription_object st) ''current_period_end'' = JNull"
  using uuid_1 str_uuid_nonempty [of 1]
  by (simp_all add: event_object_def workspace_id_from_metadata_def dict_get_def or_empty_def json_get_def
      subscription_event_def subscription_object_def Let_def)

lemma billing_db_linked: "linked 1 ''sub'' ''cus'' billing_db"
  by (simp add: linked_def stripe_ids_unique_def has_row_def billing_fixture)

lemma billing_db_fresh: "\<not> received x billing_db" "billing_events billing_db = []" "receipts_unique billing_db"
  by (simp_all add: received_def receipts_unique_def billing_fixture)

lemma subscription_event_reports:
  assumes "i \<noteq> []" "st \<noteq> []"
  shows "reports 1 ''sub'' ''cus'' (subscription_event i (of_int n) st) (i, n, st)"
proof -
  have "subscription_status (subscription_object st) = st" "\<exists>p. period_end_from_subscription (subscription_object st) = Inr p"
    using assms(2) by (simp_all add: subscription_status_def period_end_from_subscription_def Let_def subscription_object_facts)
  then show ?thesis using assms(1)
    by (simp add: reports_def subscription_event_facts subscription_object_facts as_int_def) (simp add: subscription_event_def)
qed

definition checkout_object :: json where
  "checkout_object = JObj [(''customer'', JStr ''cus''), (''subscription'', JStr ''sub''),
     (''metadata'', JObj [(''workspace_id'', JStr (str_uuid 1))])]"

definition checkout_event :: json where
  "checkout_event = JObj [(''id'', JStr ''e0''), (''type'', JStr ''checkout.session.completed''), (''created'', JNum 5),
     (''data'', JObj [(''object'', checkout_object)])]"

definition before_checkout :: db where
  "before_checkout = sample_db\<lparr> cfg := default_settings\<lparr> billing_enabled := True \<rparr> \<rparr>"

definition after_checkout :: db where
  "after_checkout = before_checkout\<lparr> tick := Suc (tick before_checkout),
     billings := [(new_billing 1)\<lparr> wb_stripe_customer_id := Some ''cus'', wb_stripe_subscription_id := Some ''sub'' \<rparr>],
     billing_events := [\<lparr> bwe_id = uuids before_checkout (tick before_checkout), bwe_stripe_event_id = ''e0'',
       bwe_event_type = ''checkout.session.completed'', bwe_workspace_id = Some 1, bwe_payload = checkout_event \<rparr>] \<rparr>"

lemma checkout_object_facts:
  "json_get checkout_event ''id'' = JStr ''e0''" "json_get checkout_event ''type'' = JStr ''checkout.session.completed''"
  "json_get checkout_object ''customer'' = JStr ''cus''" "json_get checkout_object ''subscription'' = JStr ''sub''"
  "event_object checkout_event = Inr checkout_object" "workspace_id_from_metadata checkout_object = Inr (Some 1)"
  using uuid_1 str_uuid_nonempty [of 1]
  by (simp_all add: event_object_def workspace_id_from_metadata_def dict_get_def or_empty_def json_get_def
      checkout_event_def checkout_object_def Let_def)

lemma checkout_applied:
  "apply_event ''e0'' ''checkout.session.completed'' (Some 1) checkout_object checkout_event before_checkout = (Inr (Some 1), after_checkout)"
  by (simp add: apply_event_def event_effect_def insert_receipt_def uuid4_exec received_def has_row_def bindM_exec andThen_exec gets_exec
      checkout_completed_def ensure_workspace_billing_def set_billing_def link_checkout_def link_receipt_def store_exec load_exec ret_exec
      checkout_object_facts stripe_ids_unique_def after_checkout_def before_checkout_def new_billing_def exec sample del: One_nat_def)

lemma checkout_processed:
  "\<exists>res. process_stripe_event checkout_event before_checkout = (Inr res, after_checkout)"
proof -
  have "billing_events before_checkout = []" by (simp add: before_checkout_def sample)
  then show ?thesis by (simp add: process_stripe_event_def checkout_object_facts bindM_exec fromSum_exec query_one_exec catchM_exec transaction_exec
      ret_exec checkout_applied as_text_def del: One_nat_def)
qed

lemma after_checkout_facts:
  "linked 1 ''sub'' ''cus'' after_checkout" "\<forall>x \<in> {''e1'', ''e2''}. \<not> received x after_checkout"
  "\<forall>e \<in> set (billing_events after_checkout). bwe_event_type e \<notin> ENTITLEMENT_EVENTS"
  by (simp_all add: linked_def stripe_ids_unique_def has_row_def received_def ENTITLEMENT_EVENTS_def after_checkout_def
      before_checkout_def new_billing_def sample)

lemma entitlement_order_independent_witness:
  "\<exists>outs s'. mapM [checkout_event, subscription_event ''e2'' 20 ''canceled'', subscription_event ''e1'' 10 ''active'']
      process_stripe_event before_checkout = (Inr outs, s')
    \<and> \<not> is_entitled (row_get wb_workspace_id 1 (billings s')) True"
proof -
  have "list_all2 (reports 1 ''sub'' ''cus'') [subscription_event ''e2'' 20 ''canceled'', subscription_event ''e1'' 10 ''active'']
      [(''e2'', 20, ''canceled''), (''e1'', 10, ''active'')]"
    using subscription_event_reports [of "''e2''" "''canceled''" 20] subscription_event_reports [of "''e1''" "''active''" 10]
    by simp
  from entitlement_order_independent [OF this _ _ _ after_checkout_facts(1)] after_checkout_facts(2,3)
  obtain outs s' where "mapM [subscription_event ''e2'' 20 ''canceled'', subscription_event ''e1'' 10 ''active''] process_stripe_event
      after_checkout = (Inr outs, s')" "\<not> is_entitled (row_get wb_workspace_id 1 (billings s')) True" by auto
  moreover obtain res where "process_stripe_event checkout_event before_checkout = (Inr res, after_checkout)"
    using checkout_processed by blast
  ultimately show ?thesis
    by (intro exI [of _ "res # outs"] exI [of _ s']) (simp only: mapM.simps bindM_exec prod.case sum.case ret_exec simp_thms)
qed

lemma active_event_processed:
  "\<exists>res s'. process_stripe_event (subscription_event ''e1'' 10 ''active'') billing_db = (Inr res, s')
    \<and> whr_status res = ''processed'' \<and> entitled 1 s'"
proof -
  have "reports 1 ''sub'' ''cus'' (subscription_event ''e1'' 10 ''active'') (''e1'', 10, ''active'')"
    using subscription_event_reports [of "''e1''" "''active''" 10] by simp
  from process_report [OF this billing_db_linked billing_db_fresh(1)] show ?thesis
    by (fastforce simp: applied_created_def List.map_filter_def billing_db_fresh(2) latest_of_def subscription_stale_def
        ACTIVE_STATUSES_def entitled_def)
qed

lemma webhook_processed_once_witness:
  "\<exists>res s'. process_stripe_event (subscription_event ''e1'' 10 ''active'') billing_db = (Inr res, s')
    \<and> process_stripe_event (subscription_event ''e1'' 10 ''active'') s' = (Inr (duplicate (whr_event_id res) (whr_event_type res)), s')"
  using active_event_processed webhook_processed_once [OF _ _ billing_db_fresh(3) rtranclp.rtrancl_refl] by blast

lemma only_subscription_grants_witness:
  "\<exists>res s'. process_stripe_event (subscription_event ''e1'' 10 ''active'') billing_db = (Inr res, s') \<and> whr_workspace_id res = Some 1"
proof -
  obtain res s' where p: "process_stripe_event (subscription_event ''e1'' 10 ''active'') billing_db = (Inr res, s')" "entitled 1 s'"
    using active_event_processed by blast
  have "\<not> entitled 1 billing_db" by (simp add: entitled_def billing_fixture)
  from only_subscription_grants [OF p this] p(1) show ?thesis by blast
qed

lemma unknown_workspace_reported_duplicate_witness:
  "process_stripe_event (subscription_event ''e1'' 10 ''active'') (billing_db\<lparr>workspaces := []\<rparr>)
    = (Inr (duplicate ''e1'' ''customer.subscription.updated''), billing_db\<lparr>workspaces := [], tick := 1\<rparr>)"
proof -
  have n: "\<not> received ''e1'' (billing_db\<lparr>workspaces := []\<rparr>)" "\<not> has_row ws_id 1 (workspaces (billing_db\<lparr>workspaces := []\<rparr>))"
    by (simp_all add: received_def has_row_def billing_fixture)
  from unknown_workspace_reported_duplicate [OF subscription_event_facts(1) _ subscription_event_facts(2) _ n(1) subscription_object_facts(1,2) n(2)]
  show ?thesis by (simp add: billing_fixture)
qed

end
