(* ===== verification/LocalAuth.thy ===== *)
theory LocalAuth imports Sha256 Writes Fixtures begin

text \<open>
  Users: \<open>services/local_auth.py\<close> (accounts with a password, behind a lockout), \<open>core/security.py\<close> (who a bearer token
  names) and \<open>api/routes/auth.py\<close>. PBKDF2 is computed; the JWT library is a parameter. A route's session is a
  \<open>transaction\<close>, except that the login route commits a refused guess, and so its counter.
\<close>

section \<open>Passwords\<close>

definition MAX_FAILED_ATTEMPTS :: int where
  "MAX_FAILED_ATTEMPTS = 10"

definition LOCKOUT_SECONDS :: int where
  "LOCKOUT_SECONDS = 900"

definition FAILURE_WINDOW_SECONDS :: int where
  "FAILURE_WINDOW_SECONDS = 900"

definition MIN_PASSWORD_LENGTH :: nat where
  "MIN_PASSWORD_LENGTH = 12"

definition TIMING_EQUALIZER_HASH :: string where
  "TIMING_EQUALIZER_HASH = ''pbkdf2_sha256$200000$'' @ replicate 64 (CHR ''0'') @ ''$'' @ replicate 64 (CHR ''0'')"

text \<open>\<open>secrets.token_hex\<close> reads the oracle \<open>tokens\<close>.\<close>

definition token_hex :: "string M" where
  "token_hex = token_urlsafe"

definition hash_password :: "string \<Rightarrow> string M" where
  "hash_password password =
     bindM token_hex (\<lambda>salt.
     let digest = hex_bytes (pbkdf2_sha256 (encode_utf8 password) (encode_utf8 salt) 200000)
     in ret (''pbkdf2_sha256$200000$'' @ salt @ ''$'' @ digest))"

text \<open>\<open>s.split(sep, n)\<close> for a one-character separator.\<close>

primrec split_at_most :: "nat \<Rightarrow> char \<Rightarrow> string \<Rightarrow> string list" where
  "split_at_most 0 sep s = [s]"
| "split_at_most (Suc n) sep s =
     (if sep \<in> set s then takeWhile (\<lambda>c. c \<noteq> sep) s # split_at_most n sep (tl (dropWhile (\<lambda>c. c \<noteq> sep) s)) else [s])"

text \<open>\<open>hashlib.pbkdf2_hmac\<close> takes its rounds as a C \<open>long\<close> from 1 to the largest \<open>int\<close>.\<close>

definition pbkdf2_hex :: "string \<Rightarrow> string \<Rightarrow> int \<Rightarrow> exn + string" where
  "pbkdf2_hex password salt rounds =
     (if rounds < - (2 ^ 63) \<or> 2 ^ 63 \<le> rounds then Inl (OverflowError ''Python int too large to convert to C long'')
      else if rounds < 1 then Inl (ValueError ''iteration value must be greater than 0.'')
      else if 2 ^ 31 \<le> rounds then Inl (OverflowError ''iteration value is too great.'')
      else Inr (hex_bytes (pbkdf2_sha256 (encode_utf8 password) (encode_utf8 salt) (nat rounds))))"

definition is_ascii :: "string \<Rightarrow> bool" where
  "is_ascii s \<longleftrightarrow> list_all (\<lambda>c. (of_char c :: nat) < 128) s"

definition compare_digest :: "string \<Rightarrow> string \<Rightarrow> exn + bool" where
  "compare_digest a b =
     (if is_ascii a \<and> is_ascii b then Inr (a = b)
      else Inl (TypeError ''comparing strings with non-ASCII characters is not supported''))"

definition verify_password :: "string \<Rightarrow> string \<Rightarrow> exn + bool" where
  "verify_password password password_hash =
     (case split_at_most 3 (CHR ''$'') password_hash of
        [algo, rounds_s, salt, digest] \<Rightarrow>
          if algo \<noteq> ''pbkdf2_sha256'' then Inr False
          else (case int_of_str rounds_s of
              None \<Rightarrow> Inr False
            | Some rounds \<Rightarrow> (case pbkdf2_hex password salt rounds of
                Inl e \<Rightarrow> Inl e
              | Inr candidate \<Rightarrow> compare_digest candidate digest))
      | _ \<Rightarrow> Inr False)"

section \<open>Tokens\<close>

text \<open>PyJWT: \<open>encode(claims, key, algorithm)\<close>, and \<open>decode(token, key, algorithms, audience)\<close> at a time; \<open>None\<close> is
  \<open>InvalidTokenError\<close>.\<close>

record Jwt =
  jwt_encode :: "json \<Rightarrow> string \<Rightarrow> string \<Rightarrow> string"
  jwt_decode :: "string \<Rightarrow> string \<Rightarrow> string list \<Rightarrow> string \<Rightarrow> datetime \<Rightarrow> json option"

definition access_claims :: "string \<Rightarrow> uuid \<Rightarrow> string \<Rightarrow> int \<Rightarrow> json" where
  "access_claims aud user_id email expires_at = JObj [(''sub'', JStr (str_uuid user_id)), (''email'', JStr email),
     (''aud'', JStr aud), (''exp'', JNum (of_int expires_at)), (''role'', JStr ''authenticated''),
     (''iss'', JStr ''content-orchestrator-local'')]"

definition mint_access_token :: "Jwt \<Rightarrow> uuid \<Rightarrow> string \<Rightarrow> int \<Rightarrow> string M" where
  "mint_access_token jwt user_id email expires_in =
     bindM (gets cfg) (\<lambda>settings.
     bindM utcnow (\<lambda>now.
     ret (jwt_encode jwt (access_claims (supabase_jwt_audience settings) user_id email (\<lfloor>now\<rfloor> + expires_in))
       (supabase_jwt_secret settings) (supabase_jwt_algorithm settings))))"

record AuthenticatedUser =
  au_id :: string
  au_email :: json

definition decode_supabase_jwt :: "Jwt \<Rightarrow> string \<Rightarrow> json M" where
  "decode_supabase_jwt jwt token =
     bindM (gets cfg) (\<lambda>settings.
     bindM utcnow (\<lambda>now.
     case jwt_decode jwt token (supabase_jwt_secret settings) [supabase_jwt_algorithm settings]
         (supabase_jwt_audience settings) now of
       None \<Rightarrow> raise (HTTPException 401 ''invalid or expired token'')
     | Some claims \<Rightarrow> ret claims))"

text \<open>PyJWT refuses a subject that is not a text.\<close>

definition get_current_user :: "Jwt \<Rightarrow> string option \<Rightarrow> AuthenticatedUser M" where
  "get_current_user jwt bearer =
     (case bearer of
        None \<Rightarrow> raise (HTTPException 401 ''missing bearer token'')
      | Some token \<Rightarrow>
          bindM (decode_supabase_jwt jwt token) (\<lambda>claims.
          case json_get claims ''sub'' of
            JStr sub \<Rightarrow>
              if sub = [] then raise (HTTPException 401 ''token missing 'sub' claim'')
              else ret \<lparr> au_id = sub, au_email = json_get claims ''email'' \<rparr>
          | _ \<Rightarrow> raise (HTTPException 401 ''token missing 'sub' claim'')))"

record AuthToken =
  at_access_token :: string
  at_token_type :: string
  at_expires_in :: int
  at_user_id :: uuid
  at_email :: string

section \<open>Accounts\<close>

definition normalize_email :: "string \<Rightarrow> string" where
  "normalize_email email = lower (strip email)"

definition with_email :: "string \<Rightarrow> db \<Rightarrow> LocalAuthCredential list" where
  "with_email email s = filter (\<lambda>c. la_email c = email) (local_credentials s)"

definition upsert_profile :: "uuid \<Rightarrow> string \<Rightarrow> string option \<Rightarrow> unit M" where
  "upsert_profile i email full_name =
     modifyM (profiles_update (\<lambda>rs. if has_row pf_id i rs then row_set pf_id i (pf_email_update (\<lambda>_. email)) rs
       else rs @ [\<lparr> pf_id = i, pf_email = email, pf_full_name = full_name \<rparr>]))"

definition add_local_credential :: "LocalAuthCredential \<Rightarrow> unit M" where
  "add_local_credential c = (\<lambda>s.
     if has_row la_user_id (la_user_id c) (local_credentials s) \<or> with_email (la_email c) s \<noteq> [] then (Inl IntegrityError, s)
     else (Inr (), local_credentials_update (\<lambda>rs. rs @ [c]) s))"

definition set_local_credential :: "uuid \<Rightarrow> (LocalAuthCredential \<Rightarrow> LocalAuthCredential) \<Rightarrow> unit M" where
  "set_local_credential i f = modifyM (local_credentials_update (row_set la_user_id i f))"

definition issue_token :: "Jwt \<Rightarrow> uuid \<Rightarrow> string \<Rightarrow> AuthToken M" where
  "issue_token jwt user_id email =
     bindM (mint_access_token jwt user_id email 3600) (\<lambda>token.
     ret \<lparr> at_access_token = token, at_token_type = ''bearer'', at_expires_in = 3600, at_user_id = user_id, at_email = email \<rparr>)"

definition signup :: "Jwt \<Rightarrow> string \<Rightarrow> string \<Rightarrow> string option \<Rightarrow> AuthToken M" where
  "signup jwt email password full_name =
     bindM (gets (\<lambda>s. auth_mode (cfg s))) (\<lambda>mode.
     if mode \<noteq> ''local'' then raise (AuthError ''auth_disabled'' ''local signup is disabled when AUTH_MODE!=local'')
     else let normalized = normalize_email email in
     if length password < MIN_PASSWORD_LENGTH then
       raise (AuthError ''weak_password'' (''password must be at least '' @ str_nat MIN_PASSWORD_LENGTH @ '' characters''))
     else
       bindM (query_one (with_email normalized)) (\<lambda>existing.
       if existing \<noteq> None then raise (AuthError ''email_taken'' ''an account with this email already exists'')
       else
         bindM uuid4 (\<lambda>user_id.
         andThen (upsert_profile user_id normalized full_name) (
         bindM (hash_password password) (\<lambda>password_hash.
         andThen (add_local_credential \<lparr> la_user_id = user_id, la_email = normalized, la_password_hash = password_hash,
           la_failed_attempts = 0, la_last_failed_at = None, la_locked_until = None \<rparr>)
         (issue_token jwt user_id normalized))))))"

definition invalid_credentials :: exn where
  "invalid_credentials = AuthError ''invalid_credentials'' ''invalid email or password''"

definition locked :: "LocalAuthCredential \<Rightarrow> datetime \<Rightarrow> bool" where
  "locked r now \<longleftrightarrow> (case la_locked_until r of None \<Rightarrow> False | Some t \<Rightarrow> now < t)"

definition stale_failures :: "LocalAuthCredential \<Rightarrow> datetime \<Rightarrow> bool" where
  "stale_failures r now \<longleftrightarrow> (case la_last_failed_at r of None \<Rightarrow> True | Some t \<Rightarrow> of_int FAILURE_WINDOW_SECONDS < now - t)"

definition record_failure :: "datetime \<Rightarrow> LocalAuthCredential \<Rightarrow> LocalAuthCredential" where
  "record_failure now r =
     (let attempts = (if stale_failures r now then 1 else la_failed_attempts r + 1)
      in r\<lparr> la_failed_attempts := attempts, la_last_failed_at := Some now,
            la_locked_until := (if MAX_FAILED_ATTEMPTS \<le> attempts then Some (now + of_int LOCKOUT_SECONDS) else la_locked_until r) \<rparr>)"

definition clear_failures :: "LocalAuthCredential \<Rightarrow> LocalAuthCredential" where
  "clear_failures r = r\<lparr> la_failed_attempts := 0, la_last_failed_at := None, la_locked_until := None \<rparr>"

definition check_guess :: "Jwt \<Rightarrow> string \<Rightarrow> datetime \<Rightarrow> LocalAuthCredential \<Rightarrow> AuthToken M" where
  "check_guess jwt password now r =
     bindM (fromSum (verify_password password (la_password_hash r))) (\<lambda>correct.
     if \<not> correct then andThen (set_local_credential (la_user_id r) (record_failure now)) (raise invalid_credentials)
     else andThen (set_local_credential (la_user_id r) clear_failures) (issue_token jwt (la_user_id r) (la_email r)))"

definition login :: "Jwt \<Rightarrow> string \<Rightarrow> string \<Rightarrow> AuthToken M" where
  "login jwt email password =
     bindM (gets (\<lambda>s. auth_mode (cfg s))) (\<lambda>mode.
     if mode \<noteq> ''local'' then raise (AuthError ''auth_disabled'' ''local login is disabled when AUTH_MODE!=local'')
     else
       bindM utcnow (\<lambda>now.
       bindM (query_one (with_email (normalize_email email))) (\<lambda>row.
       case row of
         None \<Rightarrow> andThen (fromSum (verify_password password TIMING_EQUALIZER_HASH)) (raise invalid_credentials)
       | Some r \<Rightarrow>
           if locked r now then andThen (fromSum (verify_password password (la_password_hash r))) (raise invalid_credentials)
           else check_guess jwt password now r)))"

section \<open>Routes\<close>

definition ensure_local_auth_enabled :: "unit M" where
  "ensure_local_auth_enabled =
     bindM (gets (\<lambda>s. auth_mode (cfg s))) (\<lambda>mode.
     if mode \<noteq> ''local'' then raise (HTTPException 404 ''local auth is disabled'') else ret ())"

record SignupIn =
  si_email :: string
  si_password :: string
  si_full_name :: "string option"

record LoginIn =
  li_email :: string
  li_password :: string

text \<open>The validated payloads, their email normalised; \<open>None\<close> is answered with 422.\<close>

definition signup_in :: "SignupIn \<Rightarrow> SignupIn option" where
  "signup_in p =
     (let normalized = normalize_email (si_email p) in
      if 3 \<le> length (si_email p) \<and> length (si_email p) \<le> 320 \<and> 12 \<le> length (si_password p) \<and> length (si_password p) \<le> 128
         \<and> (case si_full_name p of None \<Rightarrow> True | Some n \<Rightarrow> length n \<le> 200)
         \<and> CHR ''@'' \<in> set normalized \<and> hd normalized \<noteq> CHR ''@'' \<and> last normalized \<noteq> CHR ''@''
      then Some (p\<lparr> si_email := normalized \<rparr>) else None)"

definition login_in :: "LoginIn \<Rightarrow> LoginIn option" where
  "login_in p =
     (if 3 \<le> length (li_email p) \<and> length (li_email p) \<le> 320 \<and> 1 \<le> length (li_password p) \<and> length (li_password p) \<le> 128
      then Some (p\<lparr> li_email := normalize_email (li_email p) \<rparr>) else None)"

definition is_auth_error :: "exn \<Rightarrow> bool" where
  "is_auth_error e = (case e of AuthError _ _ \<Rightarrow> True | _ \<Rightarrow> False)"

definition signup_http_error :: "exn \<Rightarrow> exn" where
  "signup_http_error e = (case e of AuthError code message \<Rightarrow> HTTPException (if code = ''email_taken'' then 409 else 400) message | _ \<Rightarrow> e)"

definition signup_route :: "Jwt \<Rightarrow> SignupIn \<Rightarrow> AuthToken M" where
  "signup_route jwt payload =
     (case signup_in payload of
        None \<Rightarrow> raise (HTTPException 422 ''invalid signup'')
      | Some p \<Rightarrow>
          andThen ensure_local_auth_enabled (
          transaction (catchM (signup jwt (si_email p) (si_password p) (si_full_name p)) (\<lambda>e. raise (signup_http_error e)))))"

text \<open>\<open>login\<close> inside its \<open>try\<close>: an \<open>AuthError\<close> becomes a value, so that the session commits.\<close>

definition login_result :: "Jwt \<Rightarrow> string \<Rightarrow> string \<Rightarrow> (exn + AuthToken) M" where
  "login_result jwt email password =
     catchM (bindM (login jwt email password) (\<lambda>t. ret (Inr t))) (\<lambda>e. if is_auth_error e then ret (Inl e) else raise e)"

definition login_route :: "Jwt \<Rightarrow> LoginIn \<Rightarrow> AuthToken M" where
  "login_route jwt payload =
     (case login_in payload of
        None \<Rightarrow> raise (HTTPException 422 ''invalid login'')
      | Some p \<Rightarrow>
          andThen ensure_local_auth_enabled (
          bindM (transaction (login_result jwt (li_email p) (li_password p))) (\<lambda>r.
          case r of
            Inl e \<Rightarrow> raise (HTTPException 401 (exn_str e))
          | Inr token \<Rightarrow> ret token)))"

definition auth_mode_route :: "string M" where
  "auth_mode_route = gets (\<lambda>s. auth_mode (cfg s))"

section \<open>Hashing and verifying\<close>

lemma split_at_most_part:
  "sep \<notin> set a \<Longrightarrow> split_at_most (Suc n) sep (a @ sep # b) = a # split_at_most n sep b"
  by (simp add: takeWhile_append dropWhile_append)

lemma int_of_str_200000: "int_of_str ''200000'' = Some 200000"
  by (simp add: int_of_str_def strip_def is_space_def take_sign_def is_digit_def char_digit_def digits_value_def)

lemma split_hash:
  assumes "CHR ''$'' \<notin> set salt"
  shows "split_at_most 3 (CHR ''$'') (''pbkdf2_sha256$200000$'' @ salt @ ''$'' @ d) = [''pbkdf2_sha256'', ''200000'', salt, d]"
proof -
  have eq: "''pbkdf2_sha256$200000$'' @ salt @ ''$'' @ d = ''pbkdf2_sha256'' @ CHR ''$'' # (''200000'' @ CHR ''$'' # (salt @ CHR ''$'' # d))"
    by simp
  have n: "(3 :: nat) = Suc (Suc (Suc 0))" by simp
  have a: "CHR ''$'' \<notin> set ''pbkdf2_sha256''" and b: "CHR ''$'' \<notin> set ''200000''" by simp_all
  show ?thesis unfolding eq n
    by (simp only: split_at_most_part [OF a] split_at_most_part [OF b] split_at_most_part [OF assms] split_at_most.simps(1))
qed

lemma xor_byte: "a < 256 \<Longrightarrow> b < 256 \<Longrightarrow> a XOR b < (256 :: nat)"
proof -
  assume "a < 256" "b < 256"
  then have "take_bit 8 a = a" "take_bit 8 b = b" by (simp_all add: take_bit_eq_mod)
  then have "take_bit 8 (a XOR b) = a XOR b" by (simp add: take_bit_xor)
  then show ?thesis using take_bit_nat_less_exp [of 8 "a XOR b"] by simp
qed

lemma sha256_bytes_bound: "b \<in> set (sha256_bytes bs) \<Longrightarrow> b < 256"
proof -
  assume "b \<in> set (sha256_bytes bs)"
  then obtain w :: "32 word" and i :: nat where b: "b = unat (drop_bit (24 - 8 * i) w AND 255)"
    by (auto simp: sha256_bytes_def)
  have "drop_bit (24 - 8 * i) w AND 255 \<le> 255" by (rule word_and_le1)
  then show ?thesis using b by (simp add: word_le_nat_alt)
qed

lemma hmac_bound: "b \<in> set (hmac_sha256 key msg) \<Longrightarrow> b < 256"
  by (simp add: hmac_sha256_def Let_def sha256_bytes_bound)

lemma pbkdf2_rounds_bound:
  "\<forall>b \<in> set u. b < 256 \<Longrightarrow> \<forall>b \<in> set acc. b < 256 \<Longrightarrow> b \<in> set (pbkdf2_rounds n key u acc) \<Longrightarrow> b < 256"
proof (induction n arbitrary: u acc)
  case (Suc n)
  have "\<forall>b \<in> set (map2 (XOR) acc (hmac_sha256 key u)). b < 256"
    using Suc.prems(2) by (auto intro!: xor_byte dest: set_zip_leftD set_zip_rightD hmac_bound)
  moreover have "b \<in> set (pbkdf2_rounds n key (hmac_sha256 key u) (map2 (XOR) acc (hmac_sha256 key u)))"
    using Suc.prems(3) by (simp add: Let_def)
  ultimately show ?case by (intro Suc.IH [of "hmac_sha256 key u"] ballI) (auto dest: hmac_bound)
qed simp

lemma hex_bytes_ascii: "\<forall>b \<in> set bs. b < 256 \<Longrightarrow> is_ascii (hex_bytes bs)"
proof -
  have "(of_char (digit_char d) :: nat) < 128" if "d < 16" for d
    using that by (auto simp: digit_char_def)
  moreover assume "\<forall>b \<in> set bs. b < 256"
  ultimately show ?thesis by (auto simp: is_ascii_def hex_bytes_def list_all_iff)
qed

lemma pbkdf2_ascii: "is_ascii (hex_bytes (pbkdf2_sha256 p salt n))"
  unfolding pbkdf2_sha256_def Let_def by (intro hex_bytes_ascii ballI, elim pbkdf2_rounds_bound [rotated 2]) (auto dest: hmac_bound)

lemma verify_hash:
  assumes "CHR ''$'' \<notin> set salt"
  shows "verify_password q (''pbkdf2_sha256$200000$'' @ salt @ ''$'' @ hex_bytes (pbkdf2_sha256 (encode_utf8 p) (encode_utf8 salt) 200000))
    = Inr (hex_bytes (pbkdf2_sha256 (encode_utf8 q) (encode_utf8 salt) 200000)
        = hex_bytes (pbkdf2_sha256 (encode_utf8 p) (encode_utf8 salt) 200000))"
  unfolding verify_password_def split_hash [OF assms] by (simp add: int_of_str_200000 pbkdf2_hex_def compare_digest_def pbkdf2_ascii)

text \<open>Whether a hash can be read does not depend on the password it is compared with.\<close>

lemma pbkdf2_hex_error: "pbkdf2_hex p salt n = Inl e \<Longrightarrow> pbkdf2_hex q salt n = Inl e"
  by (auto simp: pbkdf2_hex_def split: if_splits)

lemma verify_readable:
  assumes "verify_password p h = Inr b"
  shows "\<exists>c. verify_password q h = Inr c"
proof (cases "\<exists>algo rounds_s salt digest rounds. split_at_most 3 (CHR ''$'') h = [algo, rounds_s, salt, digest]
    \<and> algo = ''pbkdf2_sha256'' \<and> int_of_str rounds_s = Some rounds")
  case True
  then obtain rounds_s salt digest rounds where
    h: "split_at_most 3 (CHR ''$'') h = [''pbkdf2_sha256'', rounds_s, salt, digest]" "int_of_str rounds_s = Some rounds" by blast
  have v: "verify_password w h = (case pbkdf2_hex w salt rounds of Inl e \<Rightarrow> Inl e | Inr candidate \<Rightarrow> compare_digest candidate digest)" for w
    unfolding verify_password_def h(1) by (simp add: h(2))
  obtain x where x: "pbkdf2_hex p salt rounds = Inr x" "compare_digest x digest = Inr b"
    using assms unfolding v by (auto split: sum.splits)
  obtain y where y: "pbkdf2_hex q salt rounds = Inr y"
  proof (cases "pbkdf2_hex q salt rounds")
    case (Inl e)
    from pbkdf2_hex_error [OF this, of p] x(1) show ?thesis by simp
  qed
  have "is_ascii y" using y pbkdf2_ascii by (auto simp: pbkdf2_hex_def split: if_splits)
  moreover have "is_ascii digest" using x(2) by (simp add: compare_digest_def split: if_splits)
  ultimately show ?thesis unfolding v y by (simp add: compare_digest_def)
next
  case False
  then show ?thesis unfolding verify_password_def by (auto split: list.split option.split)
qed

lemma hash_password_exec: "hash_password p s = (Inr (''pbkdf2_sha256$200000$'' @ tokens s (tick s) @ ''$''
    @ hex_bytes (pbkdf2_sha256 (encode_utf8 p) (encode_utf8 (tokens s (tick s))) 200000)), s\<lparr>tick := Suc (tick s)\<rparr>)"
  by (simp add: hash_password_def token_hex_def bindM_exec exec Let_def)

lemma replicate_no_dollar: "CHR ''$'' \<notin> set (replicate 64 (CHR ''0''))"
  by simp

lemma verify_equalizer: "\<exists>b. verify_password q TIMING_EQUALIZER_HASH = Inr b"
proof -
  have "is_ascii (replicate 64 (CHR ''0''))" by (simp add: is_ascii_def list_all_iff)
  then show ?thesis unfolding TIMING_EQUALIZER_HASH_def verify_password_def split_hash [OF replicate_no_dollar]
    by (simp add: int_of_str_200000 pbkdf2_hex_def compare_digest_def pbkdf2_ascii)
qed

section \<open>Email addresses\<close>

lemma is_space_lower: "is_space (lower_char c) = is_space c"
  by (auto simp: is_space_def lower_char_def Let_def)

lemma dropWhile_lower: "dropWhile is_space (lower s) = lower (dropWhile is_space s)"
  by (induction s) (simp_all add: lower_def is_space_lower)

lemma rev_lower: "rev (lower s) = lower (rev s)"
  by (simp add: lower_def rev_map)

lemma strip_lower: "strip (lower s) = lower (strip s)"
  by (simp add: strip_def dropWhile_lower rev_lower)

lemma normalize_idem: "normalize_email (normalize_email e) = normalize_email e"
  by (simp add: normalize_email_def strip_lower lower_idem strip_idem)

lemma with_email_frame [simp]: "with_email e (tick_update f s) = with_email e s" "with_email e (profiles_update g s) = with_email e s"
  by (simp_all add: with_email_def)

section \<open>One login\<close>

definition issued :: "Jwt \<Rightarrow> Settings \<Rightarrow> uuid \<Rightarrow> string \<Rightarrow> datetime \<Rightarrow> AuthToken" where
  "issued jwt c user_id email now =
     \<lparr> at_access_token = jwt_encode jwt (access_claims (supabase_jwt_audience c) user_id email (\<lfloor>now\<rfloor> + 3600))
         (supabase_jwt_secret c) (supabase_jwt_algorithm c),
       at_token_type = ''bearer'', at_expires_in = 3600, at_user_id = user_id, at_email = email \<rparr>"

lemma issue_token_exec: "issue_token jwt u e s = (Inr (issued jwt (cfg s) u e (clock s (tick s))), s\<lparr>tick := Suc (tick s)\<rparr>)"
  by (simp add: issue_token_def mint_access_token_def issued_def bindM_exec exec)

lemma login_unknown:
  assumes "auth_mode (cfg s) = ''local''" "with_email (normalize_email email) s = []"
  shows "login jwt email password s = (Inl invalid_credentials, s\<lparr>tick := Suc (tick s)\<rparr>)"
proof -
  have "with_email (normalize_email email) (s\<lparr>tick := Suc (tick s)\<rparr>) = []" using assms(2) by (simp add: with_email_def)
  then show ?thesis using assms(1) verify_equalizer [of password]
    by (auto simp: login_def bindM_exec andThen_exec gets_exec utcnow_exec query_one_exec fromSum_exec raise_exec)
qed

lemma login_known:
  assumes "auth_mode (cfg s) = ''local''" "with_email (normalize_email email) s = [r]" "verify_password password (la_password_hash r) = Inr b"
  shows "login jwt email password s =
    (if locked r (clock s (tick s)) then (Inl invalid_credentials, s\<lparr>tick := Suc (tick s)\<rparr>)
     else if b then (Inr (issued jwt (cfg s) (la_user_id r) (la_email r) (clock s (Suc (tick s)))),
       local_credentials_update (row_set la_user_id (la_user_id r) clear_failures) (s\<lparr>tick := Suc (Suc (tick s))\<rparr>))
     else (Inl invalid_credentials,
       local_credentials_update (row_set la_user_id (la_user_id r) (record_failure (clock s (tick s)))) (s\<lparr>tick := Suc (tick s)\<rparr>)))"
proof -
  have "with_email (normalize_email email) (s\<lparr>tick := Suc (tick s)\<rparr>) = [r]" using assms(2) by (simp add: with_email_def)
  then show ?thesis using assms(1,3)
    by (simp add: login_def check_guess_def bindM_exec andThen_exec gets_exec utcnow_exec query_one_exec fromSum_exec raise_exec
        set_local_credential_def modifyM_exec issue_token_exec)
qed

lemma login_result_exec: "login_result jwt email password s = (case login jwt email password s of (r, s') \<Rightarrow>
    (case r of Inl e \<Rightarrow> if is_auth_error e then (Inr (Inl e), s') else (Inl e, s') | Inr t \<Rightarrow> (Inr (Inr t), s')))"
  by (auto simp: login_result_def catchM_exec bindM_exec ret_exec raise_exec split: prod.split sum.split)

lemma login_route_refused:
  assumes "login_in p = Some q" "auth_mode (cfg s) = ''local''"
    and "login jwt (li_email q) (li_password q) s = (Inl invalid_credentials, s')"
  shows "login_route jwt p s = (Inl (HTTPException 401 ''invalid email or password''), s')"
  using assms by (simp add: login_route_def ensure_local_auth_enabled_def bindM_exec andThen_exec gets_exec ret_exec raise_exec
      transaction_exec login_result_exec invalid_credentials_def is_auth_error_def)

lemma login_route_granted:
  assumes "login_in p = Some q" "auth_mode (cfg s) = ''local''" "login jwt (li_email q) (li_password q) s = (Inr t, s')"
  shows "login_route jwt p s = (Inr t, s')"
  using assms by (simp add: login_route_def ensure_local_auth_enabled_def bindM_exec andThen_exec gets_exec ret_exec raise_exec
      transaction_exec login_result_exec)

lemma login_in_facts: "login_in p = Some q \<Longrightarrow> li_email q = normalize_email (li_email p) \<and> li_password q = li_password p"
  by (auto simp: login_in_def split: if_splits)

lemma with_email_unique:
  assumes "distinct (map la_email (local_credentials s))"
  obtains "with_email e s = []" | r where "r \<in> set (local_credentials s)" "la_email r = e" "with_email e s = [r]"
  unfolding with_email_def by (rule filter_at_most_one [OF assms, of "\<lambda>c. la_email c = e" e]) auto

lemma login_route_unknown:
  assumes "login_in p = Some q" "auth_mode (cfg s) = ''local''" "with_email (normalize_email (li_email p)) s = []"
  shows "login_route jwt p s = (Inl (HTTPException 401 ''invalid email or password''), s\<lparr>tick := Suc (tick s)\<rparr>)"
  using login_route_refused [OF assms(1,2) login_unknown [OF assms(2)]] login_in_facts [OF assms(1)] assms(3)
  by (simp add: normalize_idem)

lemma login_route_known:
  assumes "login_in p = Some q" "auth_mode (cfg s) = ''local''" "with_email (normalize_email (li_email p)) s = [r]"
    and "verify_password (li_password p) (la_password_hash r) = Inr b"
  shows "login_route jwt p s =
    (if locked r (clock s (tick s)) then (Inl (HTTPException 401 ''invalid email or password''), s\<lparr>tick := Suc (tick s)\<rparr>)
     else if b then (Inr (issued jwt (cfg s) (la_user_id r) (la_email r) (clock s (Suc (tick s)))),
       local_credentials_update (row_set la_user_id (la_user_id r) clear_failures) (s\<lparr>tick := Suc (Suc (tick s))\<rparr>))
     else (Inl (HTTPException 401 ''invalid email or password''),
       local_credentials_update (row_set la_user_id (la_user_id r) (record_failure (clock s (tick s)))) (s\<lparr>tick := Suc (tick s)\<rparr>)))"
proof -
  note q = login_in_facts [OF assms(1)]
  have "with_email (normalize_email (li_email q)) s = [r]" "verify_password (li_password q) (la_password_hash r) = Inr b"
    using q assms(3,4) by (simp_all add: normalize_idem)
  note known = login_known [OF assms(2) this, of jwt]
  show ?thesis
    using known login_route_refused [OF assms(1,2), of jwt] login_route_granted [OF assms(1,2), of jwt] by (auto split: if_splits)
qed

text \<open>
  C28: What a login says and writes, branch by branch, with local accounts enabled and password hashes the code can read. An
  address without an account and a locked account get the same error and nothing is written. A wrong password at an
  unlocked account gets that error too and is counted: the count starts again at 1 when the last failure is more than 900 seconds
  old, goes up by one otherwise, and at 10 locks the account for 900 seconds. The right password gets a token for the
  account and clears count and lock.
\<close>

theorem login_decided:
  assumes "login_in p = Some q" "auth_mode (cfg s) = ''local''" "distinct (map la_email (local_credentials s))"
    and "\<forall>r \<in> set (local_credentials s). \<exists>b. verify_password (li_password p) (la_password_hash r) = Inr b"
  shows "let now = clock s (tick s); refused = Inl (HTTPException 401 ''invalid email or password'') in
    ((\<forall>r \<in> set (local_credentials s). la_email r \<noteq> normalize_email (li_email p)) \<longrightarrow>
       login_route jwt p s = (refused, s\<lparr>tick := Suc (tick s)\<rparr>))
    \<and> (\<forall>r \<in> set (local_credentials s). la_email r = normalize_email (li_email p) \<longrightarrow>
       (if \<exists>l. la_locked_until r = Some l \<and> now < l then login_route jwt p s = (refused, s\<lparr>tick := Suc (tick s)\<rparr>)
        else if verify_password (li_password p) (la_password_hash r) = Inr False then
          login_route jwt p s = (refused, local_credentials_update (row_set la_user_id (la_user_id r) (\<lambda>r.
            let count = (if \<forall>t. la_last_failed_at r = Some t \<longrightarrow> 900 < now - t then 1 else la_failed_attempts r + 1)
            in r\<lparr>la_failed_attempts := count, la_last_failed_at := Some now,
                 la_locked_until := (if 10 \<le> count then Some (now + 900) else la_locked_until r)\<rparr>)) (s\<lparr>tick := Suc (tick s)\<rparr>))
        else \<exists>t s'. login_route jwt p s = (Inr t, s') \<and> at_user_id t = la_user_id r \<and> at_email t = la_email r
          \<and> local_credentials s' = row_set la_user_id (la_user_id r)
              (\<lambda>r. r\<lparr>la_failed_attempts := 0, la_last_failed_at := None, la_locked_until := None\<rparr>) (local_credentials s)))"
proof (cases rule: with_email_unique [OF assms(3), of "normalize_email (li_email p)"])
  case 1
  have "\<forall>r \<in> set (local_credentials s). la_email r \<noteq> normalize_email (li_email p)"
    using 1 by (auto simp: with_email_def filter_empty_conv)
  then show ?thesis using login_route_unknown [OF assms(1,2) 1] by (simp add: Let_def)
next
  case (2 r)
  obtain b where b: "verify_password (li_password p) (la_password_hash r) = Inr b" using assms(4) 2(1) by auto
  have only: "r' = r" if "r' \<in> set (local_credentials s)" "la_email r' = normalize_email (li_email p)" for r'
  proof -
    have "r' \<in> set (with_email (normalize_email (li_email p)) s)" using that by (simp add: with_email_def)
    then show ?thesis using 2(3) by simp
  qed
  have lk: "locked r now \<longleftrightarrow> (\<exists>l. la_locked_until r = Some l \<and> now < l)" for r now
    by (auto simp: locked_def split: option.split)
  have rf: "(\<lambda>r. let count = (if \<forall>t. la_last_failed_at r = Some t \<longrightarrow> 900 < now - t then 1 else la_failed_attempts r + 1)
            in r\<lparr>la_failed_attempts := count, la_last_failed_at := Some now,
                 la_locked_until := (if 10 \<le> count then Some (now + 900) else la_locked_until r)\<rparr>) = record_failure now" for now
    by (rule ext) (simp add: record_failure_def stale_failures_def FAILURE_WINDOW_SECONDS_def LOCKOUT_SECONDS_def MAX_FAILED_ATTEMPTS_def
        split: option.split)
  have cf: "(\<lambda>r. r\<lparr>la_failed_attempts := 0, la_last_failed_at := None, la_locked_until := None\<rparr>) = clear_failures"
    by (rule ext) (simp add: clear_failures_def)
  show ?thesis
    unfolding Let_def [of "clock s (tick s)"] Let_def [of "Inl (HTTPException 401 ''invalid email or password'')"] rf cf lk [symmetric]
  proof (intro conjI impI ballI)
    assume "\<forall>r \<in> set (local_credentials s). la_email r \<noteq> normalize_email (li_email p)"
    with 2(1,2) show "login_route jwt p s = (Inl (HTTPException 401 ''invalid email or password''), s\<lparr>tick := Suc (tick s)\<rparr>)"
      by blast
  next
    fix r' assume "r' \<in> set (local_credentials s)" "la_email r' = normalize_email (li_email p)"
    then have r': "r' = r" by (rule only)
    note known = login_route_known [OF assms(1,2) 2(3) b, of jwt]
    show "if locked r' (clock s (tick s))
        then login_route jwt p s = (Inl (HTTPException 401 ''invalid email or password''), s\<lparr>tick := Suc (tick s)\<rparr>)
        else if verify_password (li_password p) (la_password_hash r') = Inr False then
          login_route jwt p s = (Inl (HTTPException 401 ''invalid email or password''),
            local_credentials_update (row_set la_user_id (la_user_id r') (record_failure (clock s (tick s)))) (s\<lparr>tick := Suc (tick s)\<rparr>))
        else \<exists>t s'. login_route jwt p s = (Inr t, s') \<and> at_user_id t = la_user_id r' \<and> at_email t = la_email r'
          \<and> local_credentials s' = row_set la_user_id (la_user_id r') clear_failures (local_credentials s)"
      unfolding r' known b by (simp add: issued_def)
  qed
qed

section \<open>From signing up to being recognised\<close>

text \<open>What PyJWT documents of these claims: what it encoded it decodes, under the same key and algorithm, for the claims'
  audience, until they expire.\<close>

definition jwt_accepts :: "Jwt \<Rightarrow> Settings \<Rightarrow> json \<Rightarrow> bool" where
  "jwt_accepts jwt c claims \<longleftrightarrow> (\<forall>now e. json_get claims ''aud'' = JStr (supabase_jwt_audience c)
     \<and> json_get claims ''exp'' = JNum e \<and> now < e \<longrightarrow>
     jwt_decode jwt (jwt_encode jwt claims (supabase_jwt_secret c) (supabase_jwt_algorithm c)) (supabase_jwt_secret c)
       [supabase_jwt_algorithm c] (supabase_jwt_audience c) now = Some claims)"

lemma access_claims_get:
  "json_get (access_claims a u e x) ''aud'' = JStr a" "json_get (access_claims a u e x) ''exp'' = JNum (of_int x)"
  "json_get (access_claims a u e x) ''sub'' = JStr (str_uuid u)" "json_get (access_claims a u e x) ''email'' = JStr e"
  by (simp_all add: access_claims_def json_get_def)

lemma str_uuid_not_empty: "str_uuid u \<noteq> []"
  by (simp add: str_uuid_def dash_def Let_def)

lemma token_recognised:
  assumes "jwt_accepts jwt c (access_claims (supabase_jwt_audience c) u e (\<lfloor>t\<rfloor> + 3600))" "cfg s = c"
    and "clock s (tick s) < of_int (\<lfloor>t\<rfloor> + 3600)"
  shows "get_current_user jwt (Some (at_access_token (issued jwt c u e t))) s
    = (Inr \<lparr> au_id = str_uuid u, au_email = JStr e \<rparr>, s\<lparr>tick := Suc (tick s)\<rparr>)"
  using assms str_uuid_not_empty [of u]
  by (simp add: get_current_user_def decode_supabase_jwt_def bindM_exec gets_exec utcnow_exec ret_exec jwt_accepts_def issued_def access_claims_get)

lemma signup_granted:
  assumes "signup_route jwt p s = (Inr tok, s1)"
  obtains q where "signup_in p = Some q" "auth_mode (cfg s) = ''local''" "with_email (normalize_email (si_email p)) s = []"
    "s1 = local_credentials_update (\<lambda>rs. rs @ [\<lparr> la_user_id = uuids s (tick s), la_email = normalize_email (si_email p),
        la_password_hash = ''pbkdf2_sha256$200000$'' @ tokens s (Suc (tick s)) @ ''$''
          @ hex_bytes (pbkdf2_sha256 (encode_utf8 (si_password p)) (encode_utf8 (tokens s (Suc (tick s)))) 200000),
        la_failed_attempts = 0, la_last_failed_at = None, la_locked_until = None \<rparr>])
      (profiles_update (\<lambda>rs. if has_row pf_id (uuids s (tick s)) rs
          then row_set pf_id (uuids s (tick s)) (pf_email_update (\<lambda>_. normalize_email (si_email p))) rs
          else rs @ [\<lparr> pf_id = uuids s (tick s), pf_email = normalize_email (si_email p), pf_full_name = si_full_name p \<rparr>])
        (s\<lparr>tick := tick s + 3\<rparr>))"
    "tok = issued jwt (cfg s) (uuids s (tick s)) (normalize_email (si_email p)) (clock s (tick s + 2))"
    "12 \<le> length (si_password p)"
proof -
  obtain q where q: "signup_in p = Some q" using assms by (cases "signup_in p") (simp_all add: signup_route_def raise_exec)
  then have qf: "si_email q = normalize_email (si_email p)" "si_password q = si_password p" "si_full_name q = si_full_name p"
    "12 \<le> length (si_password p)"
    by (auto simp: signup_in_def Let_def split: if_splits)
  have m: "auth_mode (cfg s) = ''local''"
  proof (rule ccontr)
    assume "auth_mode (cfg s) \<noteq> ''local''"
    then show False using assms q
      by (simp add: signup_route_def ensure_local_auth_enabled_def bindM_exec andThen_exec gets_exec raise_exec)
  qed
  from assms q m have g: "signup jwt (si_email q) (si_password q) (si_full_name q) s = (Inr tok, s1)"
    by (auto simp: signup_route_def ensure_local_auth_enabled_def bindM_exec andThen_exec gets_exec raise_exec ret_exec
        transaction_exec catchM_exec split: prod.splits sum.splits)
  have w: "with_email (normalize_email (si_email p)) s = []"
    using g m qf by (auto simp: signup_def bindM_exec gets_exec raise_exec query_one_exec scalar_one_or_none_def Let_def
        normalize_idem MIN_PASSWORD_LENGTH_def split: list.splits if_splits)
  have k: "\<not> has_row la_user_id (uuids s (tick s)) (local_credentials s)"
  proof
    assume "has_row la_user_id (uuids s (tick s)) (local_credentials s)"
    then show False using g m qf w
      by (simp add: signup_def bindM_exec andThen_exec gets_exec raise_exec query_one_exec Let_def normalize_idem
          MIN_PASSWORD_LENGTH_def uuid4_exec upsert_profile_def modifyM_exec hash_password_exec add_local_credential_def)
  qed
  show ?thesis using g m qf w k
    by (intro that [OF q m w]; simp add: signup_def bindM_exec andThen_exec gets_exec raise_exec query_one_exec Let_def normalize_idem
          MIN_PASSWORD_LENGTH_def uuid4_exec upsert_profile_def modifyM_exec hash_password_exec add_local_credential_def issue_token_exec
          numeral_2_eq_2 numeral_3_eq_3; elim conjE; hypsubst; simp)
qed

text \<open>
  C29: Signing up, logging in, being recognised: after a successful sign-up a login with the same password succeeds, whatever
  the case and the blanks its email is typed with, and for an hour its token names to every route the account that was
  created.
\<close>

theorem signup_then_login:
  assumes "signup_route jwt p s = (Inr tok, s1)" "\<forall>n. CHR ''$'' \<notin> set (tokens s n)"
    and "login_in q \<noteq> None" "normalize_email (li_email q) = normalize_email (si_email p)" "li_password q = si_password p"
    and "jwt_accepts jwt (cfg s) (access_claims (supabase_jwt_audience (cfg s)) (at_user_id tok) (at_email tok) (\<lfloor>clock s (tick s + 4)\<rfloor> + 3600))"
    and "cfg s3 = cfg s" "clock s3 (tick s3) < of_int (\<lfloor>clock s (tick s + 4)\<rfloor> + 3600)"
  shows "\<exists>tok' s2. login_route jwt q s1 = (Inr tok', s2) \<and> at_user_id tok' = at_user_id tok
    \<and> fst (get_current_user jwt (Some (at_access_token tok')) s3)
        = Inr \<lparr> au_id = str_uuid (at_user_id tok), au_email = JStr (normalize_email (si_email p)) \<rparr>"
proof -
  from assms(1) obtain p' where g: "auth_mode (cfg s) = ''local''" "with_email (normalize_email (si_email p)) s = []"
    "s1 = local_credentials_update (\<lambda>rs. rs @ [\<lparr> la_user_id = uuids s (tick s), la_email = normalize_email (si_email p),
        la_password_hash = ''pbkdf2_sha256$200000$'' @ tokens s (Suc (tick s)) @ ''$''
          @ hex_bytes (pbkdf2_sha256 (encode_utf8 (si_password p)) (encode_utf8 (tokens s (Suc (tick s)))) 200000),
        la_failed_attempts = 0, la_last_failed_at = None, la_locked_until = None \<rparr>])
      (profiles_update (\<lambda>rs. if has_row pf_id (uuids s (tick s)) rs
          then row_set pf_id (uuids s (tick s)) (pf_email_update (\<lambda>_. normalize_email (si_email p))) rs
          else rs @ [\<lparr> pf_id = uuids s (tick s), pf_email = normalize_email (si_email p), pf_full_name = si_full_name p \<rparr>])
        (s\<lparr>tick := tick s + 3\<rparr>))" (is "_ = local_credentials_update (\<lambda>rs. rs @ [?r]) ?s0")
    "tok = issued jwt (cfg s) (uuids s (tick s)) (normalize_email (si_email p)) (clock s (tick s + 2))"
    by (rule signup_granted)
  obtain q' where q: "login_in q = Some q'" using assms(3) by blast
  note qf = login_in_facts [OF q]
  have env: "cfg s1 = cfg s" "clock s1 = clock s" "tick s1 = tick s + 3" using g(3) by simp_all
  have w: "with_email (normalize_email (li_email q')) s1 = [?r]"
    using g(2,3) qf assms(4) by (simp add: with_email_def normalize_idem)
  have v: "verify_password (li_password q') (la_password_hash ?r) = Inr True"
    using verify_hash [of "tokens s (Suc (tick s))" "si_password p" "si_password p"] assms(2,5) qf by simp
  let ?t = "issued jwt (cfg s) (uuids s (tick s)) (normalize_email (si_email p)) (clock s (tick s + 4))"
  have "\<exists>s2. login jwt (li_email q') (li_password q') s1 = (Inr ?t, s2)"
  proof -
    have "Suc (tick s1) = tick s + 4" using env by simp
    then show ?thesis using login_known [OF _ w v, of jwt] g(1) env by (simp add: locked_def add.commute)
  qed
  then obtain s2 where "login_route jwt q s1 = (Inr ?t, s2)"
    using login_route_granted [OF q] g(1) env by metis
  moreover have t: "at_user_id tok = uuids s (tick s)" "at_email tok = normalize_email (si_email p)" using g(4) by (simp_all add: issued_def)
  moreover have "at_user_id ?t = uuids s (tick s)" by (simp add: issued_def)
  moreover have "get_current_user jwt (Some (at_access_token ?t)) s3
      = (Inr \<lparr> au_id = str_uuid (uuids s (tick s)), au_email = JStr (normalize_email (si_email p)) \<rparr>, s3\<lparr>tick := Suc (tick s3)\<rparr>)"
    by (rule token_recognised [OF assms(6) [unfolded t] assms(7,8)])
  ultimately show ?thesis by (metis fst_conv)
qed

section \<open>The lockout\<close>

text \<open>
  What happens to one account over time: any calls of the login route, whatever address and password they carry, and anything else
  that leaves the account's row alone. The list holds, with its time, every successful login to the account (\<open>True\<close>) and
  every refused one that told the caller something about the password (\<open>False\<close>): a valid payload for its address at a
  moment at which the route would have let the right password in. While it would not have, as under a lock, a refusal says nothing.
\<close>

definition answer_to :: "Jwt \<Rightarrow> LoginIn \<Rightarrow> uuid \<Rightarrow> LoginIn \<Rightarrow> db \<Rightarrow> (datetime \<times> bool) list" where
  "answer_to jwt right i p s = (case fst (login_route jwt p s) of
       Inr t \<Rightarrow> if at_user_id t = i then [(clock s (tick s), True)] else []
     | Inl _ \<Rightarrow> if login_in p \<noteq> None \<and> normalize_email (li_email p) = normalize_email (li_email right)
           \<and> \<not> isl (fst (login_route jwt right s)) then [(clock s (tick s), False)] else [])"

definition accounts_unique :: "db \<Rightarrow> bool" where
  "accounts_unique s \<longleftrightarrow> distinct (map la_user_id (local_credentials s)) \<and> distinct (map la_email (local_credentials s))"

inductive logins :: "Jwt \<Rightarrow> LoginIn \<Rightarrow> uuid \<Rightarrow> db \<Rightarrow> (datetime \<times> bool) list \<Rightarrow> bool" for jwt right i where
  stop: "logins jwt right i s []"
| other: "row_get la_user_id i (local_credentials s') = row_get la_user_id i (local_credentials s) \<Longrightarrow> same_env s s' \<Longrightarrow>
    accounts_unique s' \<Longrightarrow> logins jwt right i s' as \<Longrightarrow> logins jwt right i s as"
| call: "logins jwt right i (snd (login_route jwt p s)) as \<Longrightarrow> logins jwt right i s (answer_to jwt right i p s @ as)"

text \<open>Ten failures on record come with the lock they set.\<close>

definition lock_consistent :: "LocalAuthCredential \<Rightarrow> bool" where
  "lock_consistent r \<longleftrightarrow> 0 \<le> la_failed_attempts r
     \<and> (10 \<le> la_failed_attempts r \<longrightarrow> (\<exists>l. la_last_failed_at r = Some l \<and> la_locked_until r = Some (l + 900)))"

lemma failures_consistent: "lock_consistent r \<Longrightarrow> lock_consistent (record_failure t r)" "lock_consistent (clear_failures r)"
  by (simp_all add: lock_consistent_def record_failure_def clear_failures_def Let_def MAX_FAILED_ATTEMPTS_def LOCKOUT_SECONDS_def)

lemma failures_facts [simp]:
  "la_user_id (record_failure t r) = la_user_id r" "la_last_failed_at (record_failure t r) = Some t"
  "la_email (record_failure t r) = la_email r" "la_password_hash (record_failure t r) = la_password_hash r"
  "la_user_id (clear_failures r) = la_user_id r" "la_last_failed_at (clear_failures r) = None"
  "la_email (clear_failures r) = la_email r" "la_password_hash (clear_failures r) = la_password_hash r"
  by (simp_all add: record_failure_def clear_failures_def Let_def)

text \<open>The right payload for an account: valid, for its address, with the password its hash was made of.\<close>

definition right_for :: "LoginIn \<Rightarrow> LocalAuthCredential \<Rightarrow> bool" where
  "right_for p r \<longleftrightarrow> login_in p \<noteq> None \<and> normalize_email (li_email p) = la_email r
     \<and> verify_password (li_password p) (la_password_hash r) = Inr True"

text \<open>Whatever a login does, it reads the clock and writes at most the failure fields of the account it is addressed to.\<close>

definition login_wrote :: "string \<Rightarrow> db \<Rightarrow> db \<Rightarrow> bool" where
  "login_wrote email s s' \<longleftrightarrow> (\<exists>n \<ge> tick s. s' = s\<lparr>tick := n\<rparr> \<or> (\<exists>r f. with_email email s = [r]
    \<and> (f = clear_failures \<or> f = record_failure (clock s (tick s)))
    \<and> s' = local_credentials_update (row_set la_user_id (la_user_id r) f) (s\<lparr>tick := n\<rparr>)))"

lemma login_wrote_intros:
  "tick s \<le> n \<Longrightarrow> login_wrote email s (s\<lparr>tick := n\<rparr>)"
  "tick s \<le> n \<Longrightarrow> with_email email s = [r] \<Longrightarrow>
    login_wrote email s (local_credentials_update (row_set la_user_id (la_user_id r) clear_failures) (s\<lparr>tick := n\<rparr>))"
  "tick s \<le> n \<Longrightarrow> with_email email s = [r] \<Longrightarrow>
    login_wrote email s (local_credentials_update (row_set la_user_id (la_user_id r) (record_failure (clock s (tick s)))) (s\<lparr>tick := n\<rparr>))"
  unfolding login_wrote_def by blast+

lemma login_wrote_then_tick: "tick s \<le> n \<Longrightarrow> with_email email s = [r] \<Longrightarrow>
    login_wrote email s ((local_credentials_update (row_set la_user_id (la_user_id r) clear_failures) s)\<lparr>tick := n\<rparr>)"
proof -
  assume a: "tick s \<le> n" "with_email email s = [r]"
  have "(local_credentials_update g s)\<lparr>tick := n\<rparr> = local_credentials_update g (s\<lparr>tick := n\<rparr>)" for g by simp
  note swap = this
  from login_wrote_intros(2) [OF a] show ?thesis unfolding swap .
qed

lemma login_wrote_refl: "login_wrote email s s"
  using login_wrote_intros(1) [of s "tick s"] by simp

lemma login_state:
  assumes "login jwt email password s = (x, s')"
  shows "login_wrote (normalize_email email) s s'"
proof (cases "auth_mode (cfg s) = ''local''")
  case False
  with assms have "s' = s" by (simp add: login_def bindM_exec gets_exec raise_exec)
  then show ?thesis by (simp add: login_wrote_refl)
next
  case True
  let ?e = "normalize_email email"
  have w: "with_email ?e (s\<lparr>tick := Suc (tick s)\<rparr>) = with_email ?e s" by simp
  consider (none) "s' = s\<lparr>tick := Suc (tick s)\<rparr>"
    | (one) r where "with_email ?e s = [r]" "check_guess jwt password (clock s (tick s)) r (s\<lparr>tick := Suc (tick s)\<rparr>) = (x, s')"
    using assms True
    by (auto simp: login_def bindM_exec andThen_exec gets_exec utcnow_exec query_one_exec fromSum_exec raise_exec w scalar_one_or_none_Some
        split: sum.splits option.splits if_splits)
  then show ?thesis
  proof cases
    case none
    then show ?thesis by (simp add: login_wrote_intros)
  next
    case (one r)
    then show ?thesis
      by (auto simp: check_guess_def bindM_exec andThen_exec fromSum_exec raise_exec set_local_credential_def modifyM_exec issue_token_exec
          intro: login_wrote_intros login_wrote_then_tick split: sum.splits if_splits)
  qed
qed

lemma login_route_state: "login_wrote (normalize_email (li_email p)) s (snd (login_route jwt p s))"
proof (cases "login_in p")
  case None
  then show ?thesis by (simp add: login_route_def raise_exec login_wrote_refl)
next
  case (Some q)
  obtain x s1 where l: "login jwt (li_email q) (li_password q) s = (x, s1)" by fastforce
  have e: "normalize_email (li_email q) = normalize_email (li_email p)"
    using login_in_facts [OF Some] by (simp add: normalize_idem)
  note wrote = login_state [OF l, unfolded e]
  show ?thesis
  proof (cases "auth_mode (cfg s) = ''local''")
    case False
    with Some show ?thesis
      by (simp add: login_route_def ensure_local_auth_enabled_def bindM_exec andThen_exec gets_exec raise_exec login_wrote_refl)
  next
    case True
    have "snd (login_route jwt p s) = s1 \<or> snd (login_route jwt p s) = s\<lparr>tick := tick s1\<rparr>"
      using Some True l by (auto simp: login_route_def ensure_local_auth_enabled_def bindM_exec andThen_exec gets_exec ret_exec raise_exec
          transaction_exec login_result_exec split: sum.splits if_splits)
    moreover have "tick s \<le> tick s1" using wrote by (auto simp: login_wrote_def)
    ultimately show ?thesis using wrote login_wrote_intros(1) by metis
  qed
qed

lemma login_route_env: "same_env s (snd (login_route jwt p s))"
  using login_route_state [of p s jwt] by (auto simp: login_wrote_def same_env_def)

lemma login_route_unique:
  assumes "accounts_unique s"
  shows "accounts_unique (snd (login_route jwt p s))"
  using login_route_state [of p s jwt] assms by (auto simp: login_wrote_def accounts_unique_def)

lemma login_route_elsewhere:
  assumes "accounts_unique s" "row_get la_user_id i (local_credentials s) = Some r" "normalize_email (li_email p) \<noteq> la_email r"
  shows "row_get la_user_id i (local_credentials (snd (login_route jwt p s))) = Some r"
proof -
  have other: "la_user_id r' \<noteq> i" if "with_email (normalize_email (li_email p)) s = [r']" for r'
  proof
    assume "la_user_id r' = i"
    moreover have "r' \<in> set (with_email (normalize_email (li_email p)) s)" using that by simp
    then have r': "r' \<in> set (local_credentials s)" "la_email r' = normalize_email (li_email p)" by (simp_all add: with_email_def)
    ultimately have "row_get la_user_id i (local_credentials s) = Some r'"
      using row_get_distinct [of la_user_id "local_credentials s" r'] assms(1) by (simp add: accounts_unique_def)
    with assms(2,3) r'(2) show False by simp
  qed
  show ?thesis
    using login_route_state [of p s jwt] other assms(2) by (fastforce simp: login_wrote_def)
qed

lemma mine_only:
  assumes "accounts_unique s" "row_get la_user_id i (local_credentials s) = Some r"
  shows "with_email (la_email r) s = [r]"
proof -
  have r: "r \<in> set (local_credentials s)" using row_get_Some [OF assms(2)] by simp
  have "distinct (map la_email (local_credentials s))" using assms(1) by (simp add: accounts_unique_def)
  then show ?thesis
  proof (cases rule: with_email_unique [of s "la_email r"])
    case 1
    with r show ?thesis by (auto simp: with_email_def filter_empty_conv)
  next
    case (2 r')
    moreover have "r \<in> set (with_email (la_email r) s)" using r by (simp add: with_email_def)
    ultimately show ?thesis by simp
  qed
qed

text \<open>What one call of the route does to the account, and what it tells.\<close>

lemma login_call:
  assumes u: "accounts_unique s" and r: "row_get la_user_id i (local_credentials s) = Some r" and m: "auth_mode (cfg s) = ''local''"
    and right: "right_for right r"
  shows "(row_get la_user_id i (local_credentials (snd (login_route jwt p s))) = Some r \<and> answer_to jwt right i p s = [])
    \<or> (row_get la_user_id i (local_credentials (snd (login_route jwt p s))) = Some (clear_failures r)
        \<and> answer_to jwt right i p s = [(clock s (tick s), True)])
    \<or> (row_get la_user_id i (local_credentials (snd (login_route jwt p s))) = Some (record_failure (clock s (tick s)) r)
        \<and> \<not> locked r (clock s (tick s)) \<and> answer_to jwt right i p s = [(clock s (tick s), False)])"
proof -
  let ?now = "clock s (tick s)"
  have i: "la_user_id r = i" using row_get_key [OF r] .
  have er: "normalize_email (li_email right) = la_email r" using right by (simp add: right_for_def)
  note mine = mine_only [OF u r]
  have granted: "isl (fst (login_route jwt right s)) \<longleftrightarrow> locked r ?now"
  proof -
    obtain q where "login_in right = Some q" using right by (auto simp: right_for_def)
    from login_route_known [OF this m, of r True jwt] mine right show ?thesis by (simp add: right_for_def)
  qed
  show ?thesis
  proof (cases "normalize_email (li_email p) = la_email r")
    case False
    have "at_user_id t \<noteq> i" if t: "fst (login_route jwt p s) = Inr t" for t
    proof
      assume "at_user_id t = i"
      obtain q where q: "login_in p = Some q" using t by (cases "login_in p") (auto simp: login_route_def raise_exec)
      have d: "distinct (map la_email (local_credentials s))" using u by (simp add: accounts_unique_def)
      show False
      proof (cases rule: with_email_unique [OF d, of "normalize_email (li_email p)"])
        case 1
        from login_route_unknown [OF q m 1, of jwt] t show ?thesis by simp
      next
        case (2 r')
        show ?thesis
        proof (cases "verify_password (li_password p) (la_password_hash r')")
          case (Inr b)
          from login_route_known [OF q m 2(3) Inr, of jwt] t have "at_user_id t = la_user_id r'"
            by (auto simp: issued_def split: if_splits)
          then have "row_get la_user_id i (local_credentials s) = Some r'"
            using row_get_distinct [of la_user_id "local_credentials s" r'] u 2(1) \<open>at_user_id t = i\<close> by (simp add: accounts_unique_def)
          with r 2(2) False show ?thesis by simp
        next
          case (Inl e)
          have "li_password q = li_password p" "normalize_email (li_email q) = normalize_email (li_email p)"
            using login_in_facts [OF q] by (simp_all add: normalize_idem)
          then have "fst (login_route jwt p s) \<noteq> Inr t"
            using q m 2(3) Inl
            by (auto simp: login_route_def ensure_local_auth_enabled_def bindM_exec andThen_exec gets_exec ret_exec raise_exec transaction_exec
                login_result_exec login_def check_guess_def utcnow_exec query_one_exec fromSum_exec split: sum.splits if_splits)
          with t show ?thesis by simp
        qed
      qed
    qed
    then have "answer_to jwt right i p s = []" using False er by (auto simp: answer_to_def split: sum.split)
    with login_route_elsewhere [OF u r False] show ?thesis by simp
  next
    case e: True
    show ?thesis
    proof (cases "login_in p")
      case None
      then show ?thesis using r by (simp add: login_route_def raise_exec answer_to_def)
    next
      case (Some q)
      obtain b where b: "verify_password (li_password p) (la_password_hash r) = Inr b"
        using right verify_readable [of "li_password right" "la_password_hash r" True "li_password p"] by (auto simp: right_for_def)
      have w: "with_email (normalize_email (li_email p)) s = [r]" using mine e by simp
      from login_route_known [OF Some m w b, of jwt] r granted e er Some i show ?thesis
        by (auto simp: answer_to_def issued_def)
    qed
  qed
qed

lemma logins_after:
  assumes "logins jwt right i s as" "mono (clock s)" "x \<in> set as"
  shows "clock s (tick s) \<le> fst x"
  using assms
proof (induction rule: logins.induct)
  case (other s' s as)
  then have "clock s' (tick s') \<le> fst x" by (simp add: same_env_def)
  moreover have "clock s (tick s) \<le> clock s (tick s')" using other.hyps(2) other.prems(1) by (simp add: same_env_def monoD)
  ultimately show ?case using other.hyps(2) by (simp add: same_env_def)
next
  case (call p s as)
  let ?s = "snd (login_route jwt p s)"
  have e: "clock ?s = clock s" "tick s \<le> tick ?s" using login_route_env [of s jwt p] by (simp_all add: same_env_def)
  show ?case
  proof (cases "x \<in> set as")
    case True
    then have "clock ?s (tick ?s) \<le> fst x" using call.IH call.prems e by simp
    moreover have "clock s (tick s) \<le> clock s (tick ?s)" using e call.prems(1) by (simp add: monoD)
    ultimately show ?thesis using e by simp
  next
    case False
    then show ?thesis using call.prems by (auto simp: answer_to_def split: sum.splits if_splits)
  qed
qed simp

abbreviation told :: "bool \<Rightarrow> datetime \<Rightarrow> (datetime \<times> bool) list \<Rightarrow> int" where
  "told b a as \<equiv> int (length (filter (\<lambda>(t, ok). ok = b \<and> a \<le> t \<and> t < a + 900) as))"

text \<open>Inside the window the failures on record count what is left until the next successful login.\<close>

lemma guesses_left:
  assumes "logins jwt right i s as" "mono (clock s)" "auth_mode (cfg s) = ''local''" "accounts_unique s"
    and "row_get la_user_id i (local_credentials s) = Some r" "lock_consistent r" "right_for right r"
  shows "told False a as \<le> 10 + 10 * told True a as
    \<and> (\<forall>l. la_last_failed_at r = Some l \<and> a \<le> l \<and> a \<le> clock s (tick s) \<longrightarrow>
        told False a as \<le> max 0 (10 - la_failed_attempts r) + 10 * told True a as)"
  using assms
proof (induction arbitrary: r rule: logins.induct)
  case (other s' s as)
  have "clock s (tick s) \<le> clock s (tick s')" using other.hyps(2) other.prems(1) by (simp add: same_env_def monoD)
  moreover have "clock s' = clock s" "cfg s' = cfg s" using other.hyps(2) by (simp_all add: same_env_def)
  ultimately show ?case using other.IH [of r] other.hyps(1,3) other.prems by (auto intro: order_trans)
next
  case (call p s as)
  let ?now = "clock s (tick s)" and ?s = "snd (login_route jwt p s)"
  have e: "clock ?s = clock s" "cfg ?s = cfg s" "tick s \<le> tick ?s" using login_route_env [of s jwt p] by (simp_all add: same_env_def)
  have later: "?now \<le> clock s (tick ?s)" using e call.prems(1) by (simp add: monoD)
  have env: "mono (clock ?s)" "auth_mode (cfg ?s) = ''local''" "accounts_unique ?s"
    using e call.prems login_route_unique by simp_all
  have over: "told False a as = 0" if "a + 900 \<le> ?now"
  proof -
    have "\<not> fst x < a + 900" if "x \<in> set as" for x
      using logins_after [OF call.hyps env(1) that] e later \<open>a + 900 \<le> ?now\<close> by simp
    then show ?thesis by (auto simp: filter_empty_conv)
  qed
  have nonneg: "0 \<le> told True a as" by simp
  from login_call [OF call.prems(3,4,2,6), of jwt p] show ?case
  proof (elim disjE conjE)
    assume "row_get la_user_id i (local_credentials ?s) = Some r" "answer_to jwt right i p s = []"
    with call.IH [OF env] call.prems(5,6) e later show ?thesis by (auto intro: order_trans)
  next
    assume row: "row_get la_user_id i (local_credentials ?s) = Some (clear_failures r)" and t: "answer_to jwt right i p s = [(?now, True)]"
    have IH: "told False a as \<le> 10 + 10 * told True a as"
      using call.IH [OF env row] call.prems(6) failures_consistent by (simp add: right_for_def)
    show ?thesis using IH over nonneg unfolding t by (cases "a + 900 \<le> ?now") auto
  next
    assume row: "row_get la_user_id i (local_credentials ?s) = Some (record_failure ?now r)" and open_: "\<not> locked r ?now"
      and t: "answer_to jwt right i p s = [(?now, False)]"
    note IH = call.IH [OF env row failures_consistent(1) [OF call.prems(5)]]
    have IH1: "told False a as \<le> 10 + 10 * told True a as" using IH call.prems(6) by (simp add: right_for_def)
    have IH2: "told False a as \<le> max 0 (10 - la_failed_attempts (record_failure ?now r)) + 10 * told True a as" if "a \<le> ?now"
      using IH call.prems(6) that e later by (auto simp: right_for_def)
    have pos: "1 \<le> la_failed_attempts (record_failure ?now r)"
      using call.prems(5) by (simp add: record_failure_def Let_def lock_consistent_def)
    have next_: "la_failed_attempts r < 10 \<and> la_failed_attempts (record_failure ?now r) = la_failed_attempts r + 1"
      if "la_last_failed_at r = Some l" "a \<le> l" "?now < a + 900" for l
    proof
      show "la_failed_attempts r < 10"
      proof (rule ccontr)
        assume "\<not> la_failed_attempts r < 10"
        then have "la_locked_until r = Some (l + 900)" using call.prems(5) that(1) by (auto simp: lock_consistent_def)
        then show False using open_ that by (simp add: locked_def)
      qed
      have "\<not> stale_failures r ?now" using that by (simp add: stale_failures_def FAILURE_WINDOW_SECONDS_def)
      then show "la_failed_attempts (record_failure ?now r) = la_failed_attempts r + 1" by (simp add: record_failure_def Let_def)
    qed
    consider (before) "?now < a" | (inside) "a \<le> ?now" "?now < a + 900" | (after) "a + 900 \<le> ?now" by linarith
    then show ?thesis
    proof cases
      case before
      then show ?thesis using IH1 unfolding t by auto
    next
      case inside
      then show ?thesis using IH2 pos next_ unfolding t by fastforce
    next
      case after
      then show ?thesis using over nonneg unfolding t by auto
    qed
  qed
qed simp

text \<open>
  C30: Guessing is slow. Whatever login requests are sent, whatever happens between them and however many of them are answered, in
  any 900 seconds at most ten wrong guesses per successful login of the account's owner (and ten more) are answered at a moment
  at which the right password would have been let in; all others are refused unseen. It holds from any account whose lock
  goes with its failures, as every write leaves it.
\<close>

theorem lockout_bounds_guesses:
  assumes "logins jwt right i s as" "mono (clock s)" "auth_mode (cfg s) = ''local''" "accounts_unique s"
    and "row_get la_user_id i (local_credentials s) = Some r" "lock_consistent r" "right_for right r"
  shows "length (filter (\<lambda>(t, ok). \<not> ok \<and> a \<le> t \<and> t < a + 900) as)
    \<le> 10 * Suc (length (filter (\<lambda>(t, ok). ok \<and> a \<le> t \<and> t < a + 900) as))"
  using guesses_left [OF assms, of a] by simp

section \<open>Witnesses\<close>

definition account :: "string \<Rightarrow> LocalAuthCredential" where
  "account h = \<lparr> la_user_id = 7, la_email = ''a@b'', la_password_hash = h, la_failed_attempts = 0, la_last_failed_at = None,
     la_locked_until = None \<rparr>"

definition account_db :: "LocalAuthCredential list \<Rightarrow> db" where
  "account_db cs = sample_db\<lparr> cfg := default_settings\<lparr> auth_mode := ''local'' \<rparr>, local_credentials := cs \<rparr>"

definition stub_jwt :: Jwt where
  "stub_jwt = \<lparr> jwt_encode = (\<lambda>c k a. ''t''), jwt_decode = (\<lambda>t k a u n. Some (access_claims ''authenticated'' 5000 ''a@b'' 4604)) \<rparr>"

lemma account_db_facts: "auth_mode (cfg (account_db cs)) = ''local''" "local_credentials (account_db cs) = cs"
    "clock (account_db cs) = (\<lambda>n. 1000 + of_nat n)" "tick (account_db cs) = 0" "uuids (account_db cs) = (\<lambda>n. 5000 + n)"
    "tokens (account_db cs) = (\<lambda>n. ''token-'' @ str_nat n)" "supabase_jwt_audience (cfg (account_db cs)) = ''authenticated''"
  by (simp_all add: account_db_def sample default_settings_def)

lemma typed_email: "normalize_email ''A@b'' = ''a@b''"
  by code_simp

lemma login_in_typed: "login_in \<lparr> li_email = ''A@b'', li_password = ''correct horse'' \<rparr> = Some \<lparr> li_email = ''a@b'', li_password = ''correct horse'' \<rparr>"
  by (simp add: login_in_def typed_email)

lemma login_decided_witness:
  "\<exists>t s'. login_route stub_jwt \<lparr> li_email = ''A@b'', li_password = ''correct horse'' \<rparr>
      (account_db [account (''pbkdf2_sha256$200000$'' @ ''s'' @ ''$'' @ hex_bytes (pbkdf2_sha256 (encode_utf8 ''correct horse'') (encode_utf8 ''s'') 200000))])
    = (Inr t, s') \<and> at_user_id t = 7"
proof -
  define h where "h = ''pbkdf2_sha256$200000$'' @ ''s'' @ ''$'' @ hex_bytes (pbkdf2_sha256 (encode_utf8 ''correct horse'') (encode_utf8 ''s'') 200000)"
  let ?p = "\<lparr> li_email = ''A@b'', li_password = ''correct horse'' \<rparr>" and ?s = "account_db [account h]"
  have v: "verify_password ''correct horse'' h = Inr True" unfolding h_def by (subst verify_hash) simp_all
  have f: "la_email (account h) = ''a@b''" "\<not> locked (account h) t" "la_password_hash (account h) = h" "la_user_id (account h) = 7" for t
    by (simp_all add: account_def locked_def)
  have d: "distinct (map la_email (local_credentials ?s))" by (simp add: account_db_facts)
  have e: "\<forall>r \<in> set (local_credentials ?s). \<exists>b. verify_password (li_password ?p) (la_password_hash r) = Inr b"
    using v f by (auto simp: account_db_facts)
  have "account h \<in> set (local_credentials ?s)" "la_email (account h) = normalize_email (li_email ?p)"
    using f by (simp_all add: account_db_facts typed_email)
  note mine = login_decided [OF login_in_typed account_db_facts(1) d e, of stub_jwt, unfolded Let_def, THEN conjunct2, rule_format, OF this]
  have "la_locked_until (account h) = None" by (simp add: account_def)
  then have "\<exists>t s'. login_route stub_jwt ?p ?s = (Inr t, s') \<and> at_user_id t = 7"
    using mine v f by auto
  then show ?thesis unfolding h_def .
qed

lemma no_dollar: "CHR ''$'' \<notin> set (''token-'' @ str_nat n)"
proof -
  have "digit_char d \<noteq> CHR ''$''" if "d < 10" for d
  proof
    assume "digit_char d = CHR ''$''"
    then have "char_digit (CHR ''$'') = d" using char_digit_char [of d] that by simp
    then show False using that by (simp add: char_digit_def)
  qed
  moreover have "\<forall>d \<in> set (nat_digits 10 n). d < 10" using nat_digits_bound [of 10] by simp
  ultimately have "CHR ''$'' \<notin> set (str_nat n)" unfolding str_nat_def by force
  then show ?thesis by simp
qed

lemma signup_then_login_witness:
  "\<exists>tok s1 tok' s2. signup_route stub_jwt \<lparr> si_email = ''A@b'', si_password = ''correct horse'', si_full_name = None \<rparr> (account_db []) = (Inr tok, s1)
    \<and> login_route stub_jwt \<lparr> li_email = ''A@b'', li_password = ''correct horse'' \<rparr> s1 = (Inr tok', s2)
    \<and> fst (get_current_user stub_jwt (Some (at_access_token tok')) (account_db [])) = Inr \<lparr> au_id = str_uuid 5000, au_email = JStr ''a@b'' \<rparr>"
proof -
  let ?p = "\<lparr> si_email = ''A@b'', si_password = ''correct horse'', si_full_name = None \<rparr>"
  have p: "signup_in ?p = Some (?p\<lparr> si_email := ''a@b'' \<rparr>)" by (simp add: signup_in_def typed_email)
  have n: "normalize_email ''a@b'' = ''a@b''" using normalize_idem [of "''A@b''"] typed_email by simp
  have "\<exists>s1. signup_route stub_jwt ?p (account_db []) = (Inr (issued stub_jwt (cfg (account_db [])) 5000 ''a@b'' 1002), s1)"
    unfolding signup_route_def p
    by (simp add: ensure_local_auth_enabled_def bindM_exec andThen_exec gets_exec ret_exec transaction_exec catchM_exec signup_def
        account_db_facts n MIN_PASSWORD_LENGTH_def query_one_exec with_email_def uuid4_exec upsert_profile_def modifyM_exec
        hash_password_exec add_local_credential_def has_row_def issue_token_exec Let_def)
  then obtain s1 where s1: "signup_route stub_jwt ?p (account_db []) = (Inr (issued stub_jwt (cfg (account_db [])) 5000 ''a@b'' 1002), s1)" ..
  have acc: "jwt_accepts stub_jwt (cfg (account_db [])) (access_claims (supabase_jwt_audience (cfg (account_db []))) 5000 ''a@b'' (\<lfloor>1004 :: rat\<rfloor> + 3600))"
    by (simp add: jwt_accepts_def stub_jwt_def account_db_facts)
  have u: "at_user_id (issued stub_jwt c 5000 ''a@b'' t) = 5000" "at_email (issued stub_jwt c 5000 ''a@b'' t) = ''a@b''" for c t
    by (simp_all add: issued_def)
  from signup_then_login [OF s1, of "\<lparr> li_email = ''A@b'', li_password = ''correct horse'' \<rparr>" "account_db []"] acc no_dollar s1 show ?thesis
    by (fastforce simp: account_db_facts u login_in_typed typed_email)
qed

definition known_hash :: string where
  "known_hash = ''pbkdf2_sha256$200000$'' @ ''s'' @ ''$'' @ hex_bytes (pbkdf2_sha256 (encode_utf8 ''correct horse'') (encode_utf8 ''s'') 200000)"

lemma lockout_bounds_guesses_witness:
  "\<exists>x. logins stub_jwt \<lparr> li_email = ''A@b'', li_password = ''correct horse'' \<rparr> 7 (account_db [account known_hash]) [(1000, x)]
    \<and> length (filter (\<lambda>(t, ok). \<not> ok \<and> 500 \<le> t \<and> t < 500 + 900) [(1000 :: rat, x)])
      \<le> 10 * Suc (length (filter (\<lambda>(t, ok). ok \<and> 500 \<le> t \<and> t < 500 + 900) [(1000 :: rat, x)]))"
proof -
  let ?s = "account_db [account known_hash]" and ?p = "\<lparr> li_email = ''A@b'', li_password = ''correct horse'' \<rparr>"
  have v: "verify_password ''correct horse'' known_hash = Inr True" unfolding known_hash_def by (subst verify_hash) simp_all
  have right: "right_for ?p (account known_hash)"
    using v login_in_typed by (simp add: right_for_def account_def typed_email)
  have m: "mono (clock ?s)" by (simp add: account_db_facts mono_def)
  have c: "lock_consistent (account known_hash)" by (simp add: lock_consistent_def account_def)
  have r: "row_get la_user_id 7 (local_credentials ?s) = Some (account known_hash)" by (simp add: account_db_facts account_def)
  have u: "accounts_unique ?s" by (simp add: accounts_unique_def account_db_facts)
  have w: "with_email (normalize_email (li_email ?p)) ?s = [account known_hash]"
    by (simp add: typed_email with_email_def account_db_facts account_def)
  have "fst (login_route stub_jwt ?p ?s) = Inr (issued stub_jwt (cfg ?s) 7 ''a@b'' 1001)"
    using login_route_known [OF login_in_typed account_db_facts(1) w, of True stub_jwt] v
    by (simp add: account_def locked_def account_db_facts)
  then have "answer_to stub_jwt ?p 7 ?p ?s = [(1000, True)]" by (simp add: answer_to_def issued_def account_db_facts)
  moreover have "logins stub_jwt ?p 7 ?s (answer_to stub_jwt ?p 7 ?p ?s @ [])" by (rule logins.call) (rule logins.stop)
  ultimately have g: "logins stub_jwt ?p 7 ?s [(1000, True)]" by simp
  from lockout_bounds_guesses [OF g m account_db_facts(1) u r c right, of 500] g show ?thesis by blast
qed

end
