(* ===== verification/Members.thy ===== *)
theory Members imports WorkerAuth Spend begin

text \<open>
  Workspaces and who belongs to them: \<open>api/routes/memberships.py\<close>, \<open>workspaces.py\<close>, \<open>spend.py\<close> with
  \<open>services/spend.py\<close>, and \<open>profiles.py\<close>. A route's session is a \<open>transaction\<close>; the row-level policies of the database
  admit what the guards admit and are left out, as are the audit lines. The keys of the tables written here are checked.
\<close>

section \<open>Rows\<close>

definition add_workspace :: "Workspace \<Rightarrow> unit M" where
  "add_workspace w = (\<lambda>s.
     if has_row ws_id (ws_id w) (workspaces s) \<or> (\<exists>u \<in> set_option (ws_created_by w). \<not> has_row pf_id u (profiles s))
     then (Inl IntegrityError, s) else (Inr (), workspaces_update (\<lambda>rs. rs @ [w]) s))"

definition member_key :: "WorkspaceMembership \<Rightarrow> uuid \<times> uuid" where
  "member_key m = (mb_workspace_id m, mb_user_id m)"

definition add_membership :: "WorkspaceMembership \<Rightarrow> unit M" where
  "add_membership m = (\<lambda>s.
     if has_row mb_id (mb_id m) (memberships s) \<or> has_row member_key (member_key m) (memberships s)
        \<or> \<not> has_row ws_id (mb_workspace_id m) (workspaces s) \<or> \<not> has_row pf_id (mb_user_id m) (profiles s)
     then (Inl IntegrityError, s) else (Inr (), memberships_update (\<lambda>rs. rs @ [m]) s))"

definition set_membership :: "uuid \<Rightarrow> (WorkspaceMembership \<Rightarrow> WorkspaceMembership) \<Rightarrow> unit M" where
  "set_membership i f = modifyM (memberships_update (row_set mb_id i f))"

definition delete_membership :: "uuid \<Rightarrow> unit M" where
  "delete_membership i = modifyM (memberships_update (filter (\<lambda>m. mb_id m \<noteq> i)))"

definition admins :: "uuid \<Rightarrow> db \<Rightarrow> WorkspaceMembership list" where
  "admins w s = filter (\<lambda>m. mb_workspace_id m = w \<and> mb_role m = WorkspaceRole.ADMIN) (memberships s)"

definition admin_count :: "uuid \<Rightarrow> nat M" where
  "admin_count workspace_id = gets (\<lambda>s. length (admins workspace_id s))"

section \<open>Memberships\<close>

definition list_memberships :: "uuid \<Rightarrow> uuid \<Rightarrow> WorkspaceMembership list M" where
  "list_memberships workspace_id user =
     andThen (require_workspace_member workspace_id user) (
     query (\<lambda>s. filter (\<lambda>m. mb_workspace_id m = workspace_id) (memberships s)))"

definition invite_member :: "uuid \<Rightarrow> uuid \<Rightarrow> WorkspaceRole \<Rightarrow> uuid \<Rightarrow> WorkspaceMembership M" where
  "invite_member workspace_id user_id role user = transaction (
     andThen (require_workspace_admin workspace_id user) (
     bindM (query_one (\<lambda>s. filter (\<lambda>m. mb_workspace_id m = workspace_id \<and> mb_user_id m = user_id) (memberships s))) (\<lambda>existing.
     if existing \<noteq> None then raise (HTTPException 409 ''user is already a member of this workspace'')
     else
       bindM uuid4 (\<lambda>i.
       let membership = \<lparr> mb_id = i, mb_workspace_id = workspace_id, mb_user_id = user_id, mb_role = role \<rparr> in
       andThen (add_membership membership) (ret membership)))))"

text \<open>The last administrator stays one.\<close>

definition check_last_admin :: "uuid \<Rightarrow> bool \<Rightarrow> unit M" where
  "check_last_admin workspace_id losing =
     (if \<not> losing then ret ()
      else bindM (admin_count workspace_id) (\<lambda>n.
        if n \<le> 1 then raise (HTTPException 409 ''workspace must retain at least one admin'') else ret ()))"

definition update_member_role :: "uuid \<Rightarrow> uuid \<Rightarrow> WorkspaceRole \<Rightarrow> uuid \<Rightarrow> WorkspaceMembership M" where
  "update_member_role workspace_id user_id role user = transaction (
     andThen (require_workspace_admin workspace_id user) (
     bindM (get_membership workspace_id user_id) (\<lambda>target. case target of
       None \<Rightarrow> raise (HTTPException 404 ''member not found'')
     | Some t \<Rightarrow>
         andThen (check_last_admin workspace_id (mb_role t = WorkspaceRole.ADMIN \<and> role \<noteq> WorkspaceRole.ADMIN)) (
         andThen (set_membership (mb_id t) (mb_role_update (\<lambda>_. role)))
         (ret (t\<lparr> mb_role := role \<rparr>))))))"

text \<open>\<open>remove_member\<close> up to its deletion: the membership to delete.\<close>

definition check_removal :: "uuid \<Rightarrow> uuid \<Rightarrow> uuid \<Rightarrow> WorkspaceMembership M" where
  "check_removal workspace_id user_id user =
     bindM (get_membership workspace_id user) (\<lambda>caller. case caller of
       None \<Rightarrow> raise (HTTPException 403 ''not a member'')
     | Some c \<Rightarrow>
         if user_id \<noteq> user \<and> mb_role c \<noteq> WorkspaceRole.ADMIN then raise (HTTPException 403 ''requires one of: admin'')
         else bindM (get_membership workspace_id user_id) (\<lambda>target. case target of
           None \<Rightarrow> raise (HTTPException 404 ''member not found'')
         | Some t \<Rightarrow> andThen (check_last_admin workspace_id (mb_role t = WorkspaceRole.ADMIN)) (ret t)))"

definition remove_member :: "uuid \<Rightarrow> uuid \<Rightarrow> uuid \<Rightarrow> unit M" where
  "remove_member workspace_id user_id user = transaction (
     bindM (check_removal workspace_id user_id user) (\<lambda>target. delete_membership (mb_id target)))"

section \<open>Spend caps\<close>

definition workspace_cap :: "uuid \<Rightarrow> db \<Rightarrow> SpendCap list" where
  "workspace_cap workspace_id s = filter (\<lambda>c. cap_workspace_id c = workspace_id \<and> cap_provider c = None) (caps s)"

definition ensure_default_spend_cap :: "uuid \<Rightarrow> usd option \<Rightarrow> usd option \<Rightarrow> SpendCap M" where
  "ensure_default_spend_cap workspace_id daily monthly =
     bindM (query_one (workspace_cap workspace_id)) (\<lambda>existing. case existing of
       Some c \<Rightarrow> ret c
     | None \<Rightarrow>
         bindM (gets cfg) (\<lambda>settings.
         bindM uuid4 (\<lambda>i.
         let cap = \<lparr> cap_id = i, cap_workspace_id = workspace_id, cap_provider = None,
           cap_daily_cap_usd = the_or daily (default_daily_spend_cap_usd settings),
           cap_monthly_cap_usd = the_or monthly (default_monthly_spend_cap_usd settings) \<rparr> in
         andThen (modifyM (caps_update (\<lambda>rs. rs @ [cap]))) (ret cap))))"

definition get_workspace_spend_cap :: "uuid \<Rightarrow> SpendCap option M" where
  "get_workspace_spend_cap workspace_id = query_one (workspace_cap workspace_id)"

definition recapped :: "usd option \<Rightarrow> usd option \<Rightarrow> SpendCap \<Rightarrow> SpendCap" where
  "recapped daily monthly c = c\<lparr> cap_daily_cap_usd := the_or daily (cap_daily_cap_usd c),
     cap_monthly_cap_usd := the_or monthly (cap_monthly_cap_usd c) \<rparr>"

definition update_workspace_spend_cap :: "uuid \<Rightarrow> usd option \<Rightarrow> usd option \<Rightarrow> SpendCap M" where
  "update_workspace_spend_cap workspace_id daily monthly =
     bindM (ensure_default_spend_cap workspace_id None None) (\<lambda>cap.
     andThen (modifyM (caps_update (row_set cap_id (cap_id cap) (recapped daily monthly))))
     (ret (recapped daily monthly cap)))"

record SpendOut =
  so_workspace_id :: uuid
  so_daily_cap_usd :: "usd option"
  so_monthly_cap_usd :: "usd option"
  so_daily_used_usd :: usd
  so_monthly_used_usd :: usd
  so_reserved_usd :: usd
  so_has_spend_history :: bool
  so_cap_id :: "uuid option"

definition spend_snapshot :: "uuid \<Rightarrow> SpendOut M" where
  "spend_snapshot workspace_id =
     bindM (get_workspace_spend_cap workspace_id) (\<lambda>cap.
     bindM utcnow (\<lambda>now1.
     bindM (gets (spend_committed_plus_reserved workspace_id None (Some (utc_day_start now1)))) (\<lambda>daily_used.
     bindM utcnow (\<lambda>now2.
     bindM (gets (spend_committed_plus_reserved workspace_id None (Some (utc_month_start now2)))) (\<lambda>monthly_used.
     bindM (gets (\<lambda>s. sum_list (map sr_estimated_cost_usd
       (filter (\<lambda>r. sr_workspace_id r = workspace_id \<and> sr_status r = RESERVED) (reservations s))))) (\<lambda>reserved_total.
     bindM (gets (\<lambda>s. list_ex (\<lambda>l. sl_workspace_id l = workspace_id) (spend_logs s))) (\<lambda>history.
     ret \<lparr> so_workspace_id = workspace_id, so_daily_cap_usd = map_option cap_daily_cap_usd cap,
           so_monthly_cap_usd = map_option cap_monthly_cap_usd cap, so_daily_used_usd = daily_used,
           so_monthly_used_usd = monthly_used, so_reserved_usd = reserved_total, so_has_spend_history = history,
           so_cap_id = map_option cap_id cap \<rparr>)))))))"

definition get_spend :: "uuid \<Rightarrow> uuid \<Rightarrow> SpendOut M" where
  "get_spend workspace_id user = andThen (require_workspace_member workspace_id user) (spend_snapshot workspace_id)"

text \<open>A cap is a non-negative amount of at most twelve digits, four of them decimals.\<close>

definition valid_cap :: "usd option \<Rightarrow> bool" where
  "valid_cap v = (case v of None \<Rightarrow> True | Some q \<Rightarrow> 0 \<le> q \<and> q * 10000 \<in> \<int> \<and> q < 10 ^ 8)"

definition update_spend :: "uuid \<Rightarrow> usd option \<Rightarrow> usd option \<Rightarrow> uuid \<Rightarrow> SpendOut M" where
  "update_spend workspace_id daily monthly user = transaction (
     andThen (require_workspace_admin workspace_id user) (
     if \<not> valid_cap daily \<or> \<not> valid_cap monthly then raise (HTTPException 422 ''invalid spend cap'')
     else if daily = None \<and> monthly = None then
       raise (HTTPException 422 ''at least one of daily_cap_usd or monthly_cap_usd is required'')
     else if (case (daily, monthly) of (Some d, Some m) \<Rightarrow> m < d | _ \<Rightarrow> False) then
       raise (HTTPException 422 ''daily_cap_usd cannot exceed monthly_cap_usd'')
     else
       andThen (update_workspace_spend_cap workspace_id daily monthly) (spend_snapshot workspace_id)))"

section \<open>Workspaces and profiles\<close>

definition valid_name :: "string \<Rightarrow> bool" where
  "valid_name name \<longleftrightarrow> 1 \<le> length name \<and> length name \<le> 200"

definition create_workspace :: "string \<Rightarrow> uuid \<Rightarrow> Workspace M" where
  "create_workspace name user = transaction (
     if \<not> valid_name name then raise (HTTPException 422 ''invalid name'')
     else
       bindM uuid4 (\<lambda>i.
       let workspace = \<lparr> ws_id = i, ws_name = name, ws_priority_tier = 0, ws_created_by = Some user \<rparr> in
       andThen (add_workspace workspace) (
       bindM uuid4 (\<lambda>j.
       andThen (add_membership \<lparr> mb_id = j, mb_workspace_id = i, mb_user_id = user, mb_role = WorkspaceRole.ADMIN \<rparr>) (
       andThen (ensure_default_spend_cap i None None)
       (ret workspace))))))"

text \<open>A newer workspace's row comes later.\<close>

definition list_my_workspaces :: "uuid \<Rightarrow> Workspace list M" where
  "list_my_workspaces user =
     query (\<lambda>s. rev (filter (\<lambda>w. list_ex (\<lambda>m. mb_workspace_id m = ws_id w \<and> mb_user_id m = user) (memberships s)) (workspaces s)))"

definition get_workspace :: "uuid \<Rightarrow> uuid \<Rightarrow> Workspace M" where
  "get_workspace workspace_id user =
     andThen (require_workspace_member workspace_id user) (
     bindM (get_row workspaces ws_id workspace_id) (\<lambda>w. case w of
       None \<Rightarrow> raise (HTTPException 404 ''workspace not found'')
     | Some r \<Rightarrow> ret r))"

definition retitled :: "string option \<Rightarrow> int option \<Rightarrow> Workspace \<Rightarrow> Workspace" where
  "retitled name tier w = w\<lparr> ws_name := the_or name (ws_name w), ws_priority_tier := the_or tier (ws_priority_tier w) \<rparr>"

definition update_workspace :: "uuid \<Rightarrow> string option \<Rightarrow> int option \<Rightarrow> uuid \<Rightarrow> Workspace M" where
  "update_workspace workspace_id name tier user = transaction (
     andThen (require_workspace_admin workspace_id user) (
     if (case name of None \<Rightarrow> False | Some n \<Rightarrow> \<not> valid_name n) \<or> (case tier of None \<Rightarrow> False | Some t \<Rightarrow> t < 0 \<or> 10 < t)
     then raise (HTTPException 422 ''invalid workspace update'')
     else bindM (get_row workspaces ws_id workspace_id) (\<lambda>w. case w of
       None \<Rightarrow> raise (HTTPException 404 ''workspace not found'')
     | Some r \<Rightarrow>
         if name = None \<and> tier = None then raise (HTTPException 422 ''at least one of name or priority_tier is required'')
         else
           andThen (modifyM (workspaces_update (row_set ws_id workspace_id (retitled name tier))))
           (ret (retitled name tier r)))))"

definition get_my_profile :: "uuid \<Rightarrow> string option \<Rightarrow> Profile M" where
  "get_my_profile user email = transaction (
     bindM (get_row profiles pf_id user) (\<lambda>profile. case profile of
       Some p \<Rightarrow> ret p
     | None \<Rightarrow>
         let p = \<lparr> pf_id = user, pf_email = the_or email [], pf_full_name = None \<rparr> in
         andThen (modifyM (profiles_update (\<lambda>rs. rs @ [p]))) (ret p)))"

section \<open>Who may do what\<close>

definition role_of :: "uuid \<Rightarrow> uuid \<Rightarrow> db \<Rightarrow> WorkspaceRole option" where
  "role_of w u s = map_option mb_role (row_get member_key (w, u) (memberships s))"

text \<open>The keys of the memberships are unique, and every workspace has an administrator.\<close>

definition account_ok :: "db \<Rightarrow> bool" where
  "account_ok s \<longleftrightarrow> distinct (map mb_id (memberships s)) \<and> distinct (map member_key (memberships s))
     \<and> (\<forall>w \<in> set (workspaces s). admins (ws_id w) s \<noteq> [])"

lemma membership_query:
  assumes "distinct (map member_key (memberships s))"
  shows "query_one (\<lambda>s. filter (\<lambda>m. mb_workspace_id m = w \<and> mb_user_id m = u) (memberships s)) s
    = (Inr (row_get member_key (w, u) (memberships s)), s)"
proof -
  have p: "(\<lambda>m. mb_workspace_id m = w \<and> mb_user_id m = u) = (\<lambda>m. member_key m = (w, u))" by (auto simp: member_key_def)
  let ?q = "filter (\<lambda>m. member_key m = (w, u)) (memberships s)"
  consider "?q = []" | m where "m \<in> set (memberships s)" "member_key m = (w, u)" "?q = [m]"
    by (rule filter_at_most_one [OF assms, of "\<lambda>m. member_key m = (w, u)" "(w, u)"]) auto
  then show ?thesis
  proof cases
    case 1
    then have "row_get member_key (w, u) (memberships s) = None" by (auto simp: filter_empty_conv row_get_None_iff)
    then show ?thesis using p 1 by (simp add: query_one_exec)
  next
    case (2 m)
    then show ?thesis using p row_get_distinct [OF assms, of m] by (simp add: query_one_exec)
  qed
qed

lemma get_membership_row:
  "distinct (map member_key (memberships s)) \<Longrightarrow> get_membership w u s = (Inr (row_get member_key (w, u) (memberships s)), s)"
  unfolding get_membership_def by (rule membership_query)

lemma admin_guard:
  assumes "distinct (map member_key (memberships s))"
  shows "andThen (require_workspace_admin w u) m s =
    (case role_of w u s of
       None \<Rightarrow> (Inl (HTTPException 403 ''not a member of this workspace''), s)
     | Some r \<Rightarrow> if r = WorkspaceRole.ADMIN then m s else (Inl (HTTPException 403 ''requires one of: admin''), s))"
  by (simp add: andThen_exec require_workspace_admin_def require_workspace_role_def bindM_exec get_membership_row [OF assms]
      role_of_def raise_exec ret_exec split: option.split)

lemma member_key_get: "row_get member_key (w, u) rows = Some m \<Longrightarrow> m \<in> set rows \<and> mb_workspace_id m = w \<and> mb_user_id m = u"
  by (drule row_get_Some) (auto simp: member_key_def)

lemma role_of_key: "row_get member_key (w, u) (memberships s) = Some t \<Longrightarrow> role_of w u s = Some (mb_role t)"
  by (simp add: role_of_def)

lemma check_last_admin_exec:
  "check_last_admin w losing s =
    (if losing \<and> length (admins w s) \<le> 1 then (Inl (HTTPException 409 ''workspace must retain at least one admin''), s) else (Inr (), s))"
  by (simp add: check_last_admin_def admin_count_def bindM_exec gets_exec raise_exec ret_exec)

lemma tick_frame [simp]: "role_of w u (tick_update f s) = role_of w u s" "admins w (tick_update f s) = admins w s"
  "account_ok (tick_update f s) = account_ok s"
  by (simp_all add: role_of_def admins_def account_ok_def)

text \<open>What each route has done when it succeeds.\<close>

lemma invite_done:
  assumes "account_ok s" "invite_member w u r a s = (Inr m, s')"
  shows "role_of w a s = Some WorkspaceRole.ADMIN" "mb_workspace_id m = w" "mb_user_id m = u" "mb_role m = r"
    "\<not> has_row mb_id (mb_id m) (memberships s)" "\<not> has_row member_key (w, u) (memberships s)"
    "\<exists>n. s' = memberships_update (\<lambda>rs. rs @ [m]) (s\<lparr>tick := n\<rparr>)"
proof -
  have d: "distinct (map member_key (memberships s))" using assms(1) by (simp add: account_ok_def)
  note g = assms(2) [unfolded invite_member_def transaction_Inr admin_guard [OF d]]
  show "role_of w a s = Some WorkspaceRole.ADMIN" "mb_workspace_id m = w" "mb_user_id m = u" "mb_role m = r"
    "\<not> has_row mb_id (mb_id m) (memberships s)" "\<not> has_row member_key (w, u) (memberships s)"
    "\<exists>n. s' = memberships_update (\<lambda>rs. rs @ [m]) (s\<lparr>tick := n\<rparr>)"
    using g by (auto simp: bindM_exec membership_query [OF d] raise_exec uuid4_exec Let_def andThen_exec add_membership_def ret_exec
        member_key_def split: option.splits if_splits)
qed

lemma update_role_done:
  assumes "account_ok s" "update_member_role w u r a s = (Inr m, s')"
  obtains t where "role_of w a s = Some WorkspaceRole.ADMIN" "row_get member_key (w, u) (memberships s) = Some t"
    "mb_role t = WorkspaceRole.ADMIN \<and> r \<noteq> WorkspaceRole.ADMIN \<longrightarrow> 1 < length (admins w s)"
    "s' = memberships_update (row_set mb_id (mb_id t) (mb_role_update (\<lambda>_. r))) s"
proof -
  have d: "distinct (map member_key (memberships s))" using assms(1) by (simp add: account_ok_def)
  note g = assms(2) [unfolded update_member_role_def transaction_Inr admin_guard [OF d]]
  then obtain t where "row_get member_key (w, u) (memberships s) = Some t" "role_of w a s = Some WorkspaceRole.ADMIN"
    by (auto simp: bindM_exec get_membership_row [OF d] raise_exec split: option.splits if_splits)
  with g show ?thesis
    by (intro that [of t]) (auto simp: bindM_exec get_membership_row [OF d] andThen_exec check_last_admin_exec set_membership_def
        modifyM_exec ret_exec split: if_splits)
qed

lemma check_removal_Inr:
  assumes "distinct (map member_key (memberships s))" "check_removal w u a s = (Inr t, s')"
  shows "s' = s" "row_get member_key (w, u) (memberships s) = Some t" "a = u \<or> role_of w a s = Some WorkspaceRole.ADMIN"
    "mb_role t = WorkspaceRole.ADMIN \<longrightarrow> 1 < length (admins w s)"
  using assms
  by (auto simp: check_removal_def bindM_exec get_membership_row raise_exec andThen_exec check_last_admin_exec ret_exec role_of_def
      split: option.splits if_splits)

lemma remove_done:
  assumes "account_ok s" "remove_member w u a s = (Inr x, s')"
  obtains t where "row_get member_key (w, u) (memberships s) = Some t" "a = u \<or> role_of w a s = Some WorkspaceRole.ADMIN"
    "mb_role t = WorkspaceRole.ADMIN \<longrightarrow> 1 < length (admins w s)"
    "s' = memberships_update (filter (\<lambda>m. mb_id m \<noteq> mb_id t)) s"
proof -
  obtain t s1 where t: "check_removal w u a s = (Inr t, s1)" "delete_membership (mb_id t) s1 = (Inr x, s')"
    using assms(2) unfolding remove_member_def transaction_Inr by (rule bindM_InrE)
  have d: "distinct (map member_key (memberships s))" using assms(1) by (simp add: account_ok_def)
  note c = check_removal_Inr [OF d t(1)]
  show ?thesis using t(2) c by (intro that [of t]) (simp_all add: delete_membership_def modifyM_exec)
qed

lemma ensure_default_cap_state:
  "ensure_default_spend_cap w d m s = (r, s') \<Longrightarrow> \<exists>f n. s' = caps_update f (s\<lparr>tick := n\<rparr>)"
proof -
  assume e: "ensure_default_spend_cap w d m s = (r, s')"
  have same: "\<exists>f n. s = caps_update f (s\<lparr>tick := n\<rparr>)" by (intro exI [of _ "\<lambda>c. c"] exI [of _ "tick s"]) simp
  have "s' = s \<or> (\<exists>f n. s' = caps_update f (s\<lparr>tick := n\<rparr>))"
    using e by (auto simp: ensure_default_spend_cap_def bindM_exec query_one_exec gets_exec uuid4_exec andThen_exec modifyM_exec
        ret_exec Let_def split: option.splits sum.splits)
  then show ?thesis using same by blast
qed

lemma create_workspace_done:
  assumes "create_workspace n a s = (Inr w, s')"
  obtains m f k where "\<not> has_row ws_id (ws_id w) (workspaces s)" "mb_workspace_id m = ws_id w" "mb_user_id m = a" "mb_role m = WorkspaceRole.ADMIN"
    "\<not> has_row mb_id (mb_id m) (memberships s)" "\<not> has_row member_key (ws_id w, a) (memberships s)"
    "s' = caps_update f (memberships_update (\<lambda>rs. rs @ [m]) (workspaces_update (\<lambda>rs. rs @ [w]) (s\<lparr>tick := k\<rparr>)))"
proof -
  let ?w = "\<lparr> ws_id = uuids s (tick s), ws_name = n, ws_priority_tier = 0, ws_created_by = Some a \<rparr>"
  let ?m = "\<lparr> mb_id = uuids s (Suc (tick s)), mb_workspace_id = uuids s (tick s), mb_user_id = a, mb_role = WorkspaceRole.ADMIN \<rparr>"
  let ?s = "memberships_update (\<lambda>rs. rs @ [?m]) ((workspaces_update (\<lambda>rs. rs @ [?w]) s)\<lparr>tick := Suc (Suc (tick s))\<rparr>)"
  have g: "\<not> has_row ws_id (uuids s (tick s)) (workspaces s)" "\<not> has_row mb_id (mb_id ?m) (memberships s)"
    "\<not> has_row member_key (uuids s (tick s), a) (memberships s)"
    "bindM (ensure_default_spend_cap (uuids s (tick s)) None None) (\<lambda>_. ret ?w) ?s = (Inr w, s')"
    using assms by (auto simp: create_workspace_def transaction_Inr raise_exec bindM_exec uuid4_exec Let_def andThen_exec
        add_workspace_def add_membership_def member_key_def split: if_splits)
  from g(4) obtain c s1 where c: "ensure_default_spend_cap (uuids s (tick s)) None None ?s = (Inr c, s1)" "w = ?w" "s' = s1"
    by (auto simp: bindM_exec ret_exec split: prod.splits sum.splits)
  obtain f k where "s1 = caps_update f (?s\<lparr>tick := k\<rparr>)" using ensure_default_cap_state [OF c(1)] by blast
  then show ?thesis using g(1-3) c(2,3) by (intro that [of ?m f k]) simp_all
qed

lemma update_workspace_done:
  assumes "account_ok s" "update_workspace w n t a s = (Inr x, s')"
  shows "role_of w a s = Some WorkspaceRole.ADMIN" "s' = workspaces_update (row_set ws_id w (retitled n t)) s"
proof -
  have d: "distinct (map member_key (memberships s))" using assms(1) by (simp add: account_ok_def)
  note g = assms(2) [unfolded update_workspace_def transaction_Inr admin_guard [OF d]]
  show "role_of w a s = Some WorkspaceRole.ADMIN" "s' = workspaces_update (row_set ws_id w (retitled n t)) s"
    using g by (auto simp: bindM_exec exec split: option.splits if_splits)
qed

section \<open>Administrators\<close>

lemma same_row:
  assumes "distinct (map mb_id (memberships s))" "a \<in> set (memberships s)" "t \<in> set (memberships s)" "mb_id a = mb_id t"
  shows "a = t"
  using assms by (metis row_get_distinct option.inject)

lemma survivor:
  assumes "account_ok s" "row_get member_key (w, u) (memberships s) = Some t"
    and "mb_role t = WorkspaceRole.ADMIN \<longrightarrow> 1 < length (admins w s)" "v \<in> set (workspaces s)"
  shows "\<exists>a \<in> set (admins (ws_id v) s). mb_id a \<noteq> mb_id t"
proof (rule ccontr)
  assume c: "\<not> (\<exists>a \<in> set (admins (ws_id v) s). mb_id a \<noteq> mb_id t)"
  have d: "distinct (map mb_id (memberships s))" using assms(1) by (simp add: account_ok_def)
  note t = member_key_get [OF assms(2)]
  have only: "a = t" if "a \<in> set (admins (ws_id v) s)" for a
  proof (rule same_row [OF d])
    show "a \<in> set (memberships s)" using that by (simp add: admins_def)
    show "mb_id a = mb_id t" using c that by blast
  qed (use t in blast)
  obtain a where "a \<in> set (admins (ws_id v) s)" using assms(1,4) by (fastforce simp: account_ok_def neq_Nil_conv)
  then have "t \<in> set (admins (ws_id v) s)" using only by blast
  then have "ws_id v = w" "1 < length (admins w s)" using t assms(3) by (auto simp: admins_def)
  moreover have "distinct (admins w s)" using d by (simp add: admins_def distinct_map)
  moreover have "set (admins w s) \<subseteq> {t}" using only \<open>ws_id v = w\<close> by blast
  ultimately show False using card_mono [of "{t}" "set (admins w s)"] distinct_card [of "admins w s"] by simp
qed

lemma role_of_append:
  "\<not> has_row member_key (member_key m) (memberships s) \<Longrightarrow> role_of w u (memberships_update (\<lambda>rs. rs @ [m]) s)
    = (if member_key m = (w, u) then Some (mb_role m) else role_of w u s)"
  by (auto simp: role_of_def row_get_append has_row_get split: option.split)

lemma row_get_map_same:
  "(\<And>x. x \<in> set rows \<Longrightarrow> key (f x) = key x \<and> (key x = k \<longrightarrow> f x = x)) \<Longrightarrow> row_get key k (map f rows) = row_get key k rows"
  by (induction rows) auto

lemma row_get_filter_same:
  "(\<And>x. x \<in> set rows \<Longrightarrow> key x = k \<Longrightarrow> P x) \<Longrightarrow> row_get key k (filter P rows) = row_get key k rows"
  by (induction rows) auto

lemma role_of_update_other:
  assumes "account_ok s" "row_get member_key (w, u) (memberships s) = Some t" "(w', u') \<noteq> (w, u)"
  shows "role_of w' u' (memberships_update (row_set mb_id (mb_id t) (mb_role_update (\<lambda>_. r))) s) = role_of w' u' s"
    and "role_of w' u' (memberships_update (filter (\<lambda>m. mb_id m \<noteq> mb_id t)) s) = role_of w' u' s"
proof -
  have d: "distinct (map mb_id (memberships s))" using assms(1) by (simp add: account_ok_def)
  note t = row_get_Some [OF assms(2)]
  have n: "mb_id x \<noteq> mb_id t" if "x \<in> set (memberships s)" "member_key x = (w', u')" for x
    using same_row [OF d that(1)] t that(2) assms(3) by metis
  show "role_of w' u' (memberships_update (row_set mb_id (mb_id t) (mb_role_update (\<lambda>_. r))) s) = role_of w' u' s"
  proof -
    have "row_get member_key (w', u') (row_set mb_id (mb_id t) (mb_role_update (\<lambda>_. r)) (memberships s))
        = row_get member_key (w', u') (memberships s)"
      unfolding row_set_def by (rule row_get_map_same) (use n in \<open>auto simp: member_key_def\<close>)
    then show ?thesis by (simp add: role_of_def)
  qed
  show "role_of w' u' (memberships_update (filter (\<lambda>m. mb_id m \<noteq> mb_id t)) s) = role_of w' u' s"
  proof -
    have "row_get member_key (w', u') (filter (\<lambda>m. mb_id m \<noteq> mb_id t) (memberships s)) = row_get member_key (w', u') (memberships s)"
      by (rule row_get_filter_same) (rule n)
    then show ?thesis by (simp add: role_of_def)
  qed
qed

lemma role_of_removed:
  assumes "account_ok s" "row_get member_key (w, u) (memberships s) = Some t"
  shows "role_of w u (memberships_update (filter (\<lambda>m. mb_id m \<noteq> mb_id t)) s) = None"
proof -
  have d: "distinct (map member_key (memberships s))" using assms(1) by (simp add: account_ok_def)
  have "x = t" if "x \<in> set (memberships s)" "member_key x = (w, u)" for x
    using row_get_distinct [OF d that(1)] that(2) assms(2) by simp
  then show ?thesis by (auto simp: role_of_def row_get_None_iff)
qed

text \<open>The writing routes, as calls by a user.\<close>

datatype account_call =
    CreateWorkspace string uuid
  | InviteMember uuid uuid WorkspaceRole uuid
  | UpdateMemberRole uuid uuid WorkspaceRole uuid
  | RemoveMember uuid uuid uuid
  | UpdateWorkspace uuid "string option" "int option" uuid

fun actor :: "account_call \<Rightarrow> uuid" where
  "actor (CreateWorkspace n a) = a"
| "actor (InviteMember w u r a) = a"
| "actor (UpdateMemberRole w u r a) = a"
| "actor (RemoveMember w u a) = a"
| "actor (UpdateWorkspace w n t a) = a"

fun run_call :: "account_call \<Rightarrow> unit M" where
  "run_call (CreateWorkspace n a) = andThen (create_workspace n a) (ret ())"
| "run_call (InviteMember w u r a) = andThen (invite_member w u r a) (ret ())"
| "run_call (UpdateMemberRole w u r a) = andThen (update_member_role w u r a) (ret ())"
| "run_call (RemoveMember w u a) = remove_member w u a"
| "run_call (UpdateWorkspace w n t a) = andThen (update_workspace w n t a) (ret ())"

text \<open>A failed call has read the clock; a successful one has done what its route does.\<close>

lemma route_failed:
  "create_workspace n a s = (Inl e, s') \<Longrightarrow> \<exists>k. s' = s\<lparr>tick := k\<rparr>"
  "invite_member w u r a s = (Inl e, s') \<Longrightarrow> \<exists>k. s' = s\<lparr>tick := k\<rparr>"
  "update_member_role w u r a s = (Inl e, s') \<Longrightarrow> \<exists>k. s' = s\<lparr>tick := k\<rparr>"
  "remove_member w u a s = (Inl e, s') \<Longrightarrow> \<exists>k. s' = s\<lparr>tick := k\<rparr>"
  "update_workspace w nn t a s = (Inl e, s') \<Longrightarrow> \<exists>k. s' = s\<lparr>tick := k\<rparr>"
  unfolding create_workspace_def invite_member_def update_member_role_def remove_member_def update_workspace_def
  by (auto simp: transaction_Inl)

inductive account_change :: "account_call \<Rightarrow> db \<Rightarrow> db \<Rightarrow> bool" where
  failed: "account_change c s (s\<lparr>tick := k\<rparr>)"
| created: "\<not> has_row ws_id (ws_id w) (workspaces s) \<Longrightarrow> mb_workspace_id m = ws_id w \<Longrightarrow> mb_user_id m = a \<Longrightarrow>
    mb_role m = WorkspaceRole.ADMIN \<Longrightarrow> \<not> has_row mb_id (mb_id m) (memberships s) \<Longrightarrow> \<not> has_row member_key (member_key m) (memberships s) \<Longrightarrow>
    account_change (CreateWorkspace n a) s
      (caps_update f (memberships_update (\<lambda>rs. rs @ [m]) (workspaces_update (\<lambda>rs. rs @ [w]) (s\<lparr>tick := k\<rparr>))))"
| invited: "role_of w a s = Some WorkspaceRole.ADMIN \<Longrightarrow> member_key m = (w, u) \<Longrightarrow> \<not> has_row mb_id (mb_id m) (memberships s) \<Longrightarrow>
    \<not> has_row member_key (member_key m) (memberships s) \<Longrightarrow>
    account_change (InviteMember w u r a) s (memberships_update (\<lambda>rs. rs @ [m]) (s\<lparr>tick := k\<rparr>))"
| changed: "role_of w a s = Some WorkspaceRole.ADMIN \<Longrightarrow> row_get member_key (w, u) (memberships s) = Some t \<Longrightarrow>
    (mb_role t = WorkspaceRole.ADMIN \<and> r \<noteq> WorkspaceRole.ADMIN \<longrightarrow> 1 < length (admins w s)) \<Longrightarrow>
    account_change (UpdateMemberRole w u r a) s (memberships_update (row_set mb_id (mb_id t) (mb_role_update (\<lambda>_. r))) s)"
| removed: "a = u \<or> role_of w a s = Some WorkspaceRole.ADMIN \<Longrightarrow> row_get member_key (w, u) (memberships s) = Some t \<Longrightarrow>
    (mb_role t = WorkspaceRole.ADMIN \<longrightarrow> 1 < length (admins w s)) \<Longrightarrow>
    account_change (RemoveMember w u a) s (memberships_update (filter (\<lambda>m. mb_id m \<noteq> mb_id t)) s)"
| renamed: "role_of w a s = Some WorkspaceRole.ADMIN \<Longrightarrow>
    account_change (UpdateWorkspace w n t a) s (workspaces_update (row_set ws_id w (retitled n t)) s)"

lemma andThen_ret_state: "snd (andThen m (ret x) s) = snd (m s)"
  by (simp add: andThen_exec ret_exec split: prod.split sum.split)

lemma call_change:
  assumes "account_ok s"
  shows "account_change c s (snd (run_call c s))"
proof -
  have f: "account_change c s s'" if "\<exists>k. s' = s\<lparr>tick := k\<rparr>" for s' using that account_change.failed by blast
  show ?thesis
  proof (cases c)
    case (CreateWorkspace n a)
    obtain r s' where x: "create_workspace n a s = (r, s')" by fastforce
    show ?thesis
    proof (cases r)
      case (Inl e)
      then show ?thesis using f route_failed(1) x CreateWorkspace by (auto simp: andThen_ret_state)
    next
      case (Inr w)
      show ?thesis
        by (rule create_workspace_done [OF x [unfolded Inr]])
          (use x CreateWorkspace account_change.created in \<open>auto simp: andThen_ret_state member_key_def\<close>)
    qed
  next
    case (InviteMember w u r a)
    obtain q s' where x: "invite_member w u r a s = (q, s')" by fastforce
    show ?thesis
    proof (cases q)
      case (Inl e)
      then show ?thesis using f route_failed(2) x InviteMember by (auto simp: andThen_ret_state)
    next
      case (Inr m)
      note d = invite_done [OF assms x [unfolded Inr]]
      then show ?thesis using x InviteMember by (auto simp: andThen_ret_state member_key_def intro!: account_change.invited)
    qed
  next
    case (UpdateMemberRole w u r a)
    obtain q s' where x: "update_member_role w u r a s = (q, s')" by fastforce
    show ?thesis
    proof (cases q)
      case (Inl e)
      then show ?thesis using f route_failed(3) x UpdateMemberRole by (auto simp: andThen_ret_state)
    next
      case (Inr m)
      show ?thesis
        by (rule update_role_done [OF assms x [unfolded Inr]])
          (use x UpdateMemberRole account_change.changed in \<open>auto simp: andThen_ret_state\<close>)
    qed
  next
    case (RemoveMember w u a)
    obtain q s' where x: "remove_member w u a s = (q, s')" by fastforce
    show ?thesis
    proof (cases q)
      case (Inl e)
      then show ?thesis using f route_failed(4) x RemoveMember by auto
    next
      case (Inr m)
      show ?thesis
        by (rule remove_done [OF assms x [unfolded Inr]]) (use x RemoveMember account_change.removed in auto)
    qed
  next
    case (UpdateWorkspace w n t a)
    obtain q s' where x: "update_workspace w n t a s = (q, s')" by fastforce
    show ?thesis
    proof (cases q)
      case (Inl e)
      then show ?thesis using f route_failed(5) x UpdateWorkspace by (auto simp: andThen_ret_state)
    next
      case (Inr m)
      from update_workspace_done [OF assms x [unfolded this]] show ?thesis
        using x UpdateWorkspace account_change.renamed by (auto simp: andThen_ret_state)
    qed
  qed
qed

lemma change_keeps_ok:
  assumes "account_change c s s'" "account_ok s"
  shows "account_ok s'"
  using assms
proof (cases rule: account_change.cases)
  case (changed w a u t r)
  note old = assms(2) [unfolded account_ok_def]
  have a: "\<exists>b \<in> set (admins (ws_id v) s'). True" if v: "v \<in> set (workspaces s)" for v
  proof (cases "mb_role t = WorkspaceRole.ADMIN \<and> r \<noteq> WorkspaceRole.ADMIN")
    case True
    then obtain b where "b \<in> set (admins (ws_id v) s)" "mb_id b \<noteq> mb_id t"
      using survivor [OF assms(2) changed(4) _ v] changed(5) by blast
    then have "b \<in> set (admins (ws_id v) s')" using changed(2) by (force simp: admins_def set_row_set)
    then show ?thesis by blast
  next
    case False
    obtain b where b: "b \<in> set (admins (ws_id v) s)" using old v by (fastforce simp: neq_Nil_conv)
    have "(if mb_id b = mb_id t then b\<lparr> mb_role := r \<rparr> else b) \<in> set (admins (ws_id v) s')"
      using b False changed(2) same_row [of s b t] old member_key_get [OF changed(4)] by (auto simp: admins_def set_row_set)
    then show ?thesis by blast
  qed
  then show ?thesis using old changed(2) by (fastforce simp: account_ok_def member_key_def)
next
  case (removed a u w t)
  note old = assms(2) [unfolded account_ok_def]
  have "\<exists>b. b \<in> set (admins (ws_id v) s')" if "v \<in> set (workspaces s)" for v
    using survivor [OF assms(2) removed(4,5) that] removed(2) by (auto simp: admins_def)
  then show ?thesis using old removed(2) by (fastforce simp: account_ok_def distinct_map_filter)
next
  case (created w m a n f k)
  then show ?thesis using assms(2) by (auto simp: account_ok_def admins_def has_row_def)
next
  case (invited w a m u r k)
  then show ?thesis using assms(2) by (auto simp: account_ok_def admins_def has_row_def)
next
  case (renamed w a n t)
  then show ?thesis using assms(2) by (auto simp: account_ok_def admins_def set_row_set retitled_def)
qed (simp add: account_ok_def admins_def)

text \<open>
  C31: No sequence of calls leaves a workspace without an administrator: whoever creates workspaces, invites, promotes,
  demotes, removes or leaves, in whatever order, and whatever of it is refused, every workspace has an administrator
  afterwards (and a user is a member of a workspace at most once).
\<close>

theorem workspaces_keep_an_admin:
  assumes "account_ok s"
  shows "account_ok (fold (\<lambda>c s. snd (run_call c s)) calls s)"
  using assms by (induction calls arbitrary: s) (simp_all add: change_keeps_ok [OF call_change])

text \<open>
  C32: Who changes a role: when a call changes what a user is in a workspace, its caller is an administrator of that workspace,
  or the user leaving, or the user who has just created the workspace.
\<close>

theorem roles_changed_by_admins:
  assumes "account_ok s" "role_of w u (snd (run_call c s)) \<noteq> role_of w u s"
  shows "role_of w (actor c) s = Some WorkspaceRole.ADMIN \<or> (actor c = u \<and> role_of w u (snd (run_call c s)) = None)
    \<or> (actor c = u \<and> \<not> has_row ws_id w (workspaces s))"
proof -
  have caps_role: "role_of w u (caps_update f t) = role_of w u t" "role_of w u (workspaces_update g t) = role_of w u t" for w u f g t
    by (simp_all add: role_of_def)
  have "account_change c s (snd (run_call c s))" by (rule call_change [OF assms(1)])
  then show ?thesis
  proof (cases rule: account_change.cases)
    case (created v m a n f k)
    have "role_of w u (snd (run_call c s)) = (if member_key m = (w, u) then Some (mb_role m) else role_of w u s)"
      using role_of_append [of m "workspaces_update (\<lambda>rs. rs @ [v]) (s\<lparr>tick := k\<rparr>)" w u] created(2,8)
      by (simp add: caps_role)
    then have "member_key m = (w, u)" using assms(2) by (simp split: if_splits)
    then show ?thesis using created(1,3-5) by (auto simp: member_key_def)
  next
    case (invited v a m x r k)
    have "role_of w u (snd (run_call c s)) = (if member_key m = (w, u) then Some (mb_role m) else role_of w u s)"
      using role_of_append [of m "s\<lparr>tick := k\<rparr>" w u] invited(2,6) by simp
    then have "member_key m = (w, u)" using assms(2) by (simp split: if_splits)
    then show ?thesis using invited(1,3,4) by auto
  next
    case (changed v a x t r)
    then have "(w, u) = (v, x)" using role_of_update_other(1) [OF assms(1) changed(4)] assms(2) by metis
    then show ?thesis using changed(1,3) by simp
  next
    case (removed a x v t)
    then have "(w, u) = (v, x)" using role_of_update_other(2) [OF assms(1) removed(4)] assms(2) by metis
    then show ?thesis using removed(1-3) role_of_removed [OF assms(1) removed(4)] by auto
  qed (use assms(2) caps_role in auto)
qed

section \<open>Setting a cap\<close>

definition cap_key :: "SpendCap \<Rightarrow> uuid \<times> string option" where
  "cap_key c = (cap_workspace_id c, cap_provider c)"

lemma workspace_cap_get:
  assumes "distinct (map cap_key (caps s))"
  shows "query_one (workspace_cap w) s = (Inr (row_get cap_key (w, None) (caps s)), s)"
proof -
  have p: "(\<lambda>c. cap_workspace_id c = w \<and> cap_provider c = None) = (\<lambda>c. cap_key c = (w, None))" by (auto simp: cap_key_def)
  let ?q = "filter (\<lambda>c. cap_key c = (w, None)) (caps s)"
  consider "?q = []" | c where "c \<in> set (caps s)" "cap_key c = (w, None)" "?q = [c]"
    by (rule filter_at_most_one [OF assms, of "\<lambda>c. cap_key c = (w, None)" "(w, None)"]) auto
  then show ?thesis
  proof cases
    case 1
    then have "row_get cap_key (w, None) (caps s) = None" by (auto simp: filter_empty_conv row_get_None_iff)
    then show ?thesis using p 1 by (simp add: query_one_exec workspace_cap_def)
  next
    case (2 c)
    then show ?thesis using p row_get_distinct [OF assms, of c] by (simp add: query_one_exec workspace_cap_def)
  qed
qed

text \<open>The workspace-wide cap before an update: the stored one, or the settings' defaults.\<close>

definition current_caps :: "uuid \<Rightarrow> db \<Rightarrow> usd \<times> usd" where
  "current_caps w s = (case row_get cap_key (w, None) (caps s) of
     Some c \<Rightarrow> (cap_daily_cap_usd c, cap_monthly_cap_usd c)
   | None \<Rightarrow> (default_daily_spend_cap_usd (cfg s), default_monthly_spend_cap_usd (cfg s)))"

lemma update_cap_done:
  assumes "distinct (map cap_key (caps s))" "distinct (map cap_id (caps s))" "uuids s (tick s) \<notin> cap_id ` set (caps s)"
    and "update_workspace_spend_cap w d m s = (Inr c, s')"
  shows "distinct (map cap_key (caps s'))" "c \<in> set (caps s')" "cap_key c = (w, None)"
    "cap_daily_cap_usd c = the_or d (fst (current_caps w s))" "cap_monthly_cap_usd c = the_or m (snd (current_caps w s))"
    "\<forall>p. filter (\<lambda>c. cap_workspace_id c = w \<and> cap_provider c = Some p) (caps s')
      = filter (\<lambda>c. cap_workspace_id c = w \<and> cap_provider c = Some p) (caps s)"
proof -
  have kp: "cap_key (recapped d m x) = cap_key x" "cap_id (recapped d m x) = cap_id x"
    "cap_workspace_id (recapped d m x) = cap_workspace_id x" "cap_provider (recapped d m x) = cap_provider x" for x
    by (simp_all add: cap_key_def recapped_def)
  let ?new = "\<lparr> cap_id = uuids s (tick s), cap_workspace_id = w, cap_provider = None,
     cap_daily_cap_usd = default_daily_spend_cap_usd (cfg s), cap_monthly_cap_usd = default_monthly_spend_cap_usd (cfg s) \<rparr>"
  obtain c0 rows where c: "c = recapped d m c0" "caps s' = row_set cap_id (cap_id c0) (recapped d m) rows" "c0 \<in> set rows"
    "cap_key c0 = (w, None)" "distinct (map cap_key rows)" "distinct (map cap_id rows)"
    "(cap_daily_cap_usd c0, cap_monthly_cap_usd c0) = current_caps w s"
    "\<forall>p. filter (\<lambda>c. cap_workspace_id c = w \<and> cap_provider c = Some p) rows = filter (\<lambda>c. cap_workspace_id c = w \<and> cap_provider c = Some p) (caps s)"
  proof (cases "row_get cap_key (w, None) (caps s)")
    case None
    then have "c = recapped d m ?new" "caps s' = row_set cap_id (cap_id ?new) (recapped d m) (caps s @ [?new])"
      using assms(4) by (auto simp: update_workspace_spend_cap_def ensure_default_spend_cap_def bindM_exec workspace_cap_get [OF assms(1)]
          gets_exec uuid4_exec andThen_exec modifyM_exec ret_exec Let_def the_or_def)
    moreover have "(w, None) \<notin> cap_key ` set (caps s)" using None by (simp add: row_get_None_iff)
    ultimately show ?thesis using assms(1-3) None
      by (intro that [of ?new "caps s @ [?new]"]) (simp_all add: cap_key_def current_caps_def)
  next
    case (Some c0)
    then have "c = recapped d m c0" "caps s' = row_set cap_id (cap_id c0) (recapped d m) (caps s)"
      using assms(4) by (auto simp: update_workspace_spend_cap_def ensure_default_spend_cap_def bindM_exec workspace_cap_get [OF assms(1)]
          andThen_exec modifyM_exec ret_exec)
    then show ?thesis using row_get_Some [OF Some] assms(1,2) Some by (intro that [of c0 "caps s"]) (simp_all add: current_caps_def)
  qed
  show "distinct (map cap_key (caps s'))" using c(2,5) kp by simp
  show "c \<in> set (caps s')" using c(1-3) by (auto simp: set_row_set)
  show "cap_key c = (w, None)" using c(1,4) kp by simp
  show "cap_daily_cap_usd c = the_or d (fst (current_caps w s))" "cap_monthly_cap_usd c = the_or m (snd (current_caps w s))"
    using c(1) c(7) [symmetric] by (simp_all add: recapped_def)
  show "\<forall>p. filter (\<lambda>c. cap_workspace_id c = w \<and> cap_provider c = Some p) (caps s')
      = filter (\<lambda>c. cap_workspace_id c = w \<and> cap_provider c = Some p) (caps s)"
  proof
    fix p
    let ?P = "\<lambda>c. cap_workspace_id c = w \<and> cap_provider c = Some p"
    have other: "cap_id x \<noteq> cap_id c0" if "x \<in> set (filter ?P rows)" for x
    proof
      assume "cap_id x = cap_id c0"
      then have "x = c0" using row_get_distinct [OF c(6)] c(3) that by (metis filter_is_subset option.inject subsetD)
      then show False using that c(4) by (simp add: cap_key_def)
    qed
    have "cap_id c0 \<notin> cap_id ` set (filter ?P rows)"
    proof
      assume "cap_id c0 \<in> cap_id ` set (filter ?P rows)"
      then obtain x where x: "cap_id c0 = cap_id x" "x \<in> set (filter ?P rows)" by (rule imageE)
      from other [OF x(2)] x(1) show False by metis
    qed
    then have "row_set cap_id (cap_id c0) (recapped d m) (filter ?P rows) = filter ?P rows" by (rule row_set_absent)
    moreover have "filter ?P (row_set cap_id (cap_id c0) (recapped d m) rows) = row_set cap_id (cap_id c0) (recapped d m) (filter ?P rows)"
      by (rule filter_row_set) (simp add: kp)
    ultimately show "filter ?P (caps s') = filter ?P (caps s)" using c(2,8) by metis
  qed
qed

lemma spend_snapshot_caps:
  assumes "distinct (map cap_key (caps s))" "c \<in> set (caps s)" "cap_key c = (w, None)" "spend_snapshot w s = (Inr out, s')"
  shows "so_daily_cap_usd out = Some (cap_daily_cap_usd c)" "so_monthly_cap_usd out = Some (cap_monthly_cap_usd c)" "caps s' = caps s"
  using assms(4) row_get_distinct [OF assms(1,2)] assms(3)
  by (auto simp: spend_snapshot_def get_workspace_spend_cap_def bindM_exec workspace_cap_get [OF assms(1)] utcnow_exec gets_exec ret_exec)

text \<open>
  An administrator's cap is the one reservations are held to: after a successful update the answer shows, and the
  reservation check of the controller uses for every provider without a cap of its own, the amounts given, or where one was
  not given the stored (or default) one; providers with their own cap keep it.
\<close>

theorem spend_update_governs:
  assumes "distinct (map cap_key (caps s))" "distinct (map cap_id (caps s))" "uuids s (tick s) \<notin> cap_id ` set (caps s)"
    and "distinct (map member_key (memberships s))" "update_spend w d m a s = (Inr out, s')"
  shows "role_of w a s = Some WorkspaceRole.ADMIN \<and> so_daily_cap_usd out = Some (the_or d (fst (current_caps w s)))
    \<and> so_monthly_cap_usd out = Some (the_or m (snd (current_caps w s)))
    \<and> (\<forall>p. \<exists>c. governing_cap w p (caps s') = Some c \<and>
        (if cap_provider c = None then cap_daily_cap_usd c = the_or d (fst (current_caps w s))
           \<and> cap_monthly_cap_usd c = the_or m (snd (current_caps w s))
         else governing_cap w p (caps s) = Some c))"
proof -
  note g = assms(5) [unfolded update_spend_def transaction_Inr admin_guard [OF assms(4)]]
  have role: "role_of w a s = Some WorkspaceRole.ADMIN" using g by (auto split: option.splits if_splits)
  obtain c s1 where c: "update_workspace_spend_cap w d m s = (Inr c, s1)" "spend_snapshot w s1 = (Inr out, s')"
    using g by (auto simp: raise_exec andThen_exec split: option.splits if_splits prod.splits sum.splits)
  note u = update_cap_done [OF assms(1-3) c(1)]
  note o = spend_snapshot_caps [OF u(1-3) c(2)]
  have one: "filter (\<lambda>c. cap_workspace_id c = w \<and> cap_provider c = None) (caps s1) = [c]"
  proof -
    have p: "(\<lambda>c. cap_workspace_id c = w \<and> cap_provider c = None) = (\<lambda>c. cap_key c = (w, None))" by (auto simp: cap_key_def)
    show ?thesis unfolding p
    proof (rule filter_at_most_one [OF u(1), of "\<lambda>c. cap_key c = (w, None)" "(w, None)"])
      fix x
      assume "x \<in> set (caps s1)" "cap_key x = (w, None)" "filter (\<lambda>c. cap_key c = (w, None)) (caps s1) = [x]"
      moreover from this have "x = c" using u(2,3) row_get_distinct [OF u(1)] by (metis option.inject)
      ultimately show "filter (\<lambda>c. cap_key c = (w, None)) (caps s1) = [c]" by simp
    qed (use u(2,3) in \<open>auto simp: filter_empty_conv\<close>)
  qed
  have "\<exists>c'. governing_cap w p (caps s') = Some c' \<and>
        (if cap_provider c' = None then cap_daily_cap_usd c' = cap_daily_cap_usd c \<and> cap_monthly_cap_usd c' = cap_monthly_cap_usd c
         else governing_cap w p (caps s) = Some c')" for p
  proof (cases "filter (\<lambda>c. cap_workspace_id c = w \<and> cap_provider c = Some p) (caps s)")
    case Nil
    then show ?thesis using u(3,6) o(3) one by (simp add: governing_cap_def cap_key_def)
  next
    case (Cons x xs)
    then have "x \<in> set (filter (\<lambda>c. cap_workspace_id c = w \<and> cap_provider c = Some p) (caps s))" by simp
    then have "cap_provider x = Some p" by simp
    then show ?thesis using Cons u(6) o(3) by (simp add: governing_cap_def)
  qed
  then show ?thesis unfolding u(4,5) using role o(1,2) [unfolded u(4,5)] by blast
qed

section \<open>Witnesses and counterexamples\<close>

definition members_db :: db where
  "members_db = sample_db\<lparr> profiles := [\<lparr> pf_id = 7, pf_email = ''a'', pf_full_name = None \<rparr>, \<lparr> pf_id = 8, pf_email = ''b'', pf_full_name = None \<rparr>],
     memberships := [\<lparr> mb_id = 90, mb_workspace_id = 1, mb_user_id = 7, mb_role = WorkspaceRole.ADMIN \<rparr>,
                     \<lparr> mb_id = 91, mb_workspace_id = 1, mb_user_id = 8, mb_role = WorkspaceRole.ADMIN \<rparr>] \<rparr>"

lemma members_db_ok: "account_ok members_db"
  by (simp add: account_ok_def admins_def members_db_def sample member_key_def)

lemma members_db_caps: "distinct (map cap_key (caps members_db))" "distinct (map cap_id (caps members_db))"
    "uuids members_db (tick members_db) \<notin> cap_id ` set (caps members_db)" "distinct (map member_key (memberships members_db))"
  by (simp_all add: members_db_def sample member_key_def cap_key_def)

lemma workspaces_keep_an_admin_witness:
  "account_ok (fold (\<lambda>c s. snd (run_call c s)) [RemoveMember 1 7 7, RemoveMember 1 8 8, CreateWorkspace ''w'' 7] members_db)"
  by (rule workspaces_keep_an_admin [OF members_db_ok])

lemma roles_changed_by_admins_witness:
  "role_of 1 8 (snd (run_call (RemoveMember 1 8 7) members_db)) \<noteq> role_of 1 8 members_db \<and> role_of 1 7 members_db = Some WorkspaceRole.ADMIN"
proof -
  have "role_of 1 8 (snd (run_call (RemoveMember 1 8 7) members_db)) \<noteq> role_of 1 8 members_db"
    by (simp add: role_of_def remove_member_def check_removal_def bindM_exec get_membership_def query_one_exec transaction_exec
        andThen_exec check_last_admin_exec admins_def delete_membership_def modifyM_exec ret_exec members_db_def sample member_key_def)
  with roles_changed_by_admins [OF members_db_ok this] show ?thesis by auto
qed

lemma spend_update_governs_witness:
  "\<exists>out s'. update_spend 1 (Some 5) None 7 members_db = (Inr out, s') \<and> so_daily_cap_usd out = Some 5"
proof -
  obtain r s' where x: "update_spend 1 (Some 5) None 7 members_db = (r, s')" by fastforce
  have "\<exists>out. r = Inr out"
    using x unfolding update_spend_def transaction_def savepoint_def admin_guard [OF members_db_caps(4)]
    by (auto simp: role_of_def valid_cap_def andThen_exec update_workspace_spend_cap_def ensure_default_spend_cap_def bindM_exec query_one_exec
        workspace_cap_def modifyM_exec ret_exec spend_snapshot_def get_workspace_spend_cap_def utcnow_exec gets_exec members_db_def sample
        member_key_def recapped_def split: sum.splits prod.splits)
  with spend_update_governs [OF members_db_caps] x show ?thesis by (auto simp: the_or_def)
qed

text \<open>
  The check and the deletion of \<open>remove_member\<close> are two statements and the count is not locked: when two administrators
  leave at the same time, both checks see the other one, and the workspace is left without an administrator.
\<close>

theorem concurrent_leaves_lose_last_admin:
  "\<exists>t1 t2. check_removal 1 7 7 members_db = (Inr t1, members_db) \<and> check_removal 1 8 8 members_db = (Inr t2, members_db)
    \<and> admins 1 (snd (delete_membership (mb_id t2) (snd (delete_membership (mb_id t1) members_db)))) = []"
  by (simp add: check_removal_def bindM_exec get_membership_def query_one_exec andThen_exec check_last_admin_exec admins_def ret_exec
      delete_membership_def modifyM_exec members_db_def sample)

text \<open>A PATCH of one cap is not compared with the stored other one: the daily cap can exceed the monthly cap.\<close>

theorem single_patch_inverts_caps:
  "\<exists>out s'. update_spend 1 (Some 2000) None 7 members_db = (Inr out, s')
    \<and> so_daily_cap_usd out = Some 2000 \<and> so_monthly_cap_usd out = Some 1000"
  unfolding update_spend_def transaction_def savepoint_def admin_guard [OF members_db_caps(4)]
  by (simp add: role_of_def valid_cap_def andThen_exec update_workspace_spend_cap_def ensure_default_spend_cap_def bindM_exec query_one_exec
      workspace_cap_def modifyM_exec ret_exec spend_snapshot_def get_workspace_spend_cap_def utcnow_exec gets_exec members_db_def sample
      member_key_def recapped_def the_or_def)

end
