(* ===== verification/Concurrency.thy ===== *)
theory Concurrency imports Members Dispatcher begin

text \<open>
  The limits an administrator sets: \<open>api/routes/concurrency.py\<close> with the payload checks of \<open>schemas/concurrency.py\<close>. The limits row of a
  workspace bounds its assignments, its jobs per scheduler tick and its queue; a provider budget bounds the calls in flight to one
  provider. The budgets are written through a session of their own once the guard has passed, the limits in the request's.
\<close>

section \<open>Rows\<close>

text \<open>Under \<open>uq_workspace_concurrency_limit\<close> and \<open>uq_provider_concurrency_budgets_ws_provider\<close>.\<close>

definition add_limit :: "WorkspaceConcurrencyLimit \<Rightarrow> unit M" where
  "add_limit l = (\<lambda>s.
     if has_row wcl_workspace_id (wcl_workspace_id l) (limits s) then (Inl IntegrityError, s)
     else (Inr (), limits_update (\<lambda>rs. rs @ [l]) s))"

definition set_limit :: "uuid \<Rightarrow> (WorkspaceConcurrencyLimit \<Rightarrow> WorkspaceConcurrencyLimit) \<Rightarrow> unit M" where
  "set_limit workspace_id f = modifyM (limits_update (row_set wcl_workspace_id workspace_id f))"

definition budget_key :: "ProviderConcurrencyBudget \<Rightarrow> uuid \<times> string" where
  "budget_key b = (pcb_workspace_id b, pcb_provider b)"

definition add_budget :: "ProviderConcurrencyBudget \<Rightarrow> unit M" where
  "add_budget b = (\<lambda>s.
     if has_row pcb_id (pcb_id b) (budgets s) \<or> has_row budget_key (budget_key b) (budgets s) then (Inl IntegrityError, s)
     else (Inr (), budgets_update (\<lambda>rs. rs @ [b]) s))"

section \<open>Concurrency limits\<close>

record ConcurrencyLimitsUpdate =
  lu_max_concurrent_assignments :: "int option"
  lu_max_per_scheduler_tick :: "int option"
  lu_queue_soft_limit :: "int option"
  lu_queue_hard_limit :: "int option"

definition positive :: "int option \<Rightarrow> bool" where
  "positive x = (case x of None \<Rightarrow> True | Some n \<Rightarrow> 1 \<le> n)"

definition valid_limits :: "ConcurrencyLimitsUpdate \<Rightarrow> bool" where
  "valid_limits p \<longleftrightarrow> positive (lu_max_concurrent_assignments p) \<and> positive (lu_max_per_scheduler_tick p)
     \<and> positive (lu_queue_soft_limit p) \<and> positive (lu_queue_hard_limit p)"

record ConcurrencyLimitsOut =
  lo_workspace_id :: uuid
  lo_max_concurrent_assignments :: int
  lo_max_per_scheduler_tick :: int
  lo_queue_soft_limit :: int
  lo_queue_hard_limit :: int
  lo_pending_depth :: int
  lo_in_flight :: int
  lo_backpressure_state :: BackpressureState

text \<open>What the code shows, and starts from, where a workspace has no row.\<close>

definition shown_limits :: "uuid \<Rightarrow> WorkspaceConcurrencyLimit option \<Rightarrow> WorkspaceConcurrencyLimit" where
  "shown_limits workspace_id limit = (case limit of
     Some l \<Rightarrow> l
   | None \<Rightarrow> \<lparr> wcl_workspace_id = workspace_id, wcl_max_concurrent_assignments = 10, wcl_max_per_scheduler_tick = 5,
       wcl_queue_soft_limit = 50, wcl_queue_hard_limit = 200 \<rparr>)"

definition assignments_in_flight :: "uuid \<Rightarrow> db \<Rightarrow> int" where
  "assignments_in_flight workspace_id s =
     int (length (filter (\<lambda>a. sa_workspace_id a = workspace_id \<and> in_flight (sa_status a)) (assignments s)))"

definition concurrency_out :: "uuid \<Rightarrow> ConcurrencyLimitsOut M" where
  "concurrency_out workspace_id =
     bindM (concurrency_limit_row workspace_id) (\<lambda>limit.
     bindM (query_one (bp_row workspace_id)) (\<lambda>bp.
     let l = shown_limits workspace_id limit in
     gets (\<lambda>s. \<lparr> lo_workspace_id = workspace_id, lo_max_concurrent_assignments = wcl_max_concurrent_assignments l,
       lo_max_per_scheduler_tick = wcl_max_per_scheduler_tick l, lo_queue_soft_limit = wcl_queue_soft_limit l,
       lo_queue_hard_limit = wcl_queue_hard_limit l, lo_pending_depth = pending_depth workspace_id s,
       lo_in_flight = assignments_in_flight workspace_id s,
       lo_backpressure_state = (case bp of None \<Rightarrow> NORMAL | Some b \<Rightarrow> wbs_state b) \<rparr>)))"

definition get_concurrency :: "uuid \<Rightarrow> uuid \<Rightarrow> ConcurrencyLimitsOut M" where
  "get_concurrency workspace_id user = andThen (require_workspace_member workspace_id user) (concurrency_out workspace_id)"

definition limits_set :: "ConcurrencyLimitsUpdate \<Rightarrow> WorkspaceConcurrencyLimit \<Rightarrow> WorkspaceConcurrencyLimit" where
  "limits_set p l = l\<lparr> wcl_max_concurrent_assignments := the_or (lu_max_concurrent_assignments p) (wcl_max_concurrent_assignments l),
     wcl_max_per_scheduler_tick := the_or (lu_max_per_scheduler_tick p) (wcl_max_per_scheduler_tick l),
     wcl_queue_soft_limit := the_or (lu_queue_soft_limit p) (wcl_queue_soft_limit l),
     wcl_queue_hard_limit := the_or (lu_queue_hard_limit p) (wcl_queue_hard_limit l) \<rparr>"

definition hard_below_soft :: exn where
  "hard_below_soft = HTTPException 422 ''queue_hard_limit must be >= queue_soft_limit''"

text \<open>A row is changed before its thresholds are compared; the refusal rolls the change back.\<close>

definition store_limits :: "uuid \<Rightarrow> ConcurrencyLimitsUpdate \<Rightarrow> WorkspaceConcurrencyLimit option \<Rightarrow> unit M" where
  "store_limits workspace_id p limit =
     (let new = limits_set p (shown_limits workspace_id limit); crossed = wcl_queue_hard_limit new < wcl_queue_soft_limit new in
      case limit of
        None \<Rightarrow> if crossed then raise hard_below_soft else bindM uuid4 (\<lambda>i. add_limit new)
      | Some l \<Rightarrow> andThen (set_limit workspace_id (limits_set p)) (if crossed then raise hard_below_soft else ret ()))"

definition put_concurrency :: "uuid \<Rightarrow> ConcurrencyLimitsUpdate \<Rightarrow> uuid \<Rightarrow> ConcurrencyLimitsOut M" where
  "put_concurrency workspace_id p user = transaction (
     andThen (require_workspace_admin workspace_id user) (
     if \<not> valid_limits p then raise (HTTPException 422 ''invalid limits'')
     else if (case (lu_queue_soft_limit p, lu_queue_hard_limit p) of (Some soft, Some hard) \<Rightarrow> hard < soft | _ \<Rightarrow> False)
     then raise hard_below_soft
     else
       andThen (bindM (concurrency_limit_row workspace_id) (store_limits workspace_id p))
       (concurrency_out workspace_id)))"

section \<open>Provider budgets\<close>

definition list_provider_budgets :: "uuid \<Rightarrow> uuid \<Rightarrow> ProviderConcurrencyBudget list M" where
  "list_provider_budgets workspace_id user =
     andThen (require_workspace_member workspace_id user) (
     query (\<lambda>s. sort_key pcb_provider (filter (\<lambda>b. pcb_workspace_id b = workspace_id) (budgets s))))"

definition upsert_provider_budget :: "uuid \<Rightarrow> string \<Rightarrow> int \<Rightarrow> uuid \<Rightarrow> ProviderConcurrencyBudget M" where
  "upsert_provider_budget workspace_id provider max_concurrent user = transaction (
     andThen (require_workspace_admin workspace_id user) (
     if max_concurrent < 1 then raise (HTTPException 422 ''invalid budget'')
     else bindM (lock_budget workspace_id provider) (\<lambda>existing. case existing of
       None \<Rightarrow>
         bindM uuid4 (\<lambda>i.
         let b = \<lparr> pcb_id = i, pcb_workspace_id = workspace_id, pcb_provider = provider, pcb_max_concurrent = max_concurrent \<rparr> in
         andThen (add_budget b) (ret b))
     | Some b \<Rightarrow>
         andThen (modifyM (budgets_update (row_set pcb_id (pcb_id b) (pcb_max_concurrent_update (\<lambda>_. max_concurrent)))))
         (ret (b\<lparr>pcb_max_concurrent := max_concurrent\<rparr>)))))"

definition delete_provider_budget :: "uuid \<Rightarrow> string \<Rightarrow> uuid \<Rightarrow> unit M" where
  "delete_provider_budget workspace_id provider user = transaction (
     andThen (require_workspace_admin workspace_id user) (
     bindM (lock_budget workspace_id provider) (\<lambda>existing. case existing of
       None \<Rightarrow> raise (HTTPException 404 ''provider budget not found'')
     | Some b \<Rightarrow> modifyM (budgets_update (filter (\<lambda>q. pcb_id q \<noteq> pcb_id b))))))"

section \<open>What the limits keep\<close>

definition limit_ok :: "WorkspaceConcurrencyLimit \<Rightarrow> bool" where
  "limit_ok l \<longleftrightarrow> 1 \<le> wcl_max_concurrent_assignments l \<and> 1 \<le> wcl_max_per_scheduler_tick l \<and> 1 \<le> wcl_queue_soft_limit l
     \<and> wcl_queue_soft_limit l \<le> wcl_queue_hard_limit l"

definition limits_ok :: "db \<Rightarrow> bool" where
  "limits_ok s \<longleftrightarrow> distinct (map wcl_workspace_id (limits s)) \<and> (\<forall>l \<in> set (limits s). limit_ok l)
     \<and> distinct (map budget_key (budgets s)) \<and> (\<forall>b \<in> set (budgets s). 1 \<le> pcb_max_concurrent b)"

inductive limits_call :: "db \<Rightarrow> db \<Rightarrow> bool" where
  limits: "limits_call s (snd (put_concurrency w p u s))"
| budget: "limits_call s (snd (upsert_provider_budget w pr n u s))"
| removed: "limits_call s (snd (delete_provider_budget w pr u s))"

lemma limits_ok_tick [simp]: "limits_ok (s\<lparr>tick := k\<rparr>) = limits_ok s"
  by (simp add: limits_ok_def)

lemma limits_row:
  assumes "concurrency_limit_row w s = (Inr limit, s')" "distinct (map wcl_workspace_id (limits s))"
  shows "s' = s" "limit = row_get wcl_workspace_id w (limits s)"
  using assms by (simp_all add: concurrency_limit_row_def query_one_exec filter_by_key scalar_one_or_none_simps split: option.splits)

lemma limits_set_fields [simp]: "wcl_workspace_id (limits_set p l) = wcl_workspace_id l"
  by (simp add: limits_set_def)

lemma limits_set_ok:
  assumes "valid_limits p" "limit_ok l" "\<not> wcl_queue_hard_limit (limits_set p l) < wcl_queue_soft_limit (limits_set p l)"
  shows "limit_ok (limits_set p l)"
  using assms by (auto simp: limit_ok_def valid_limits_def positive_def limits_set_def the_or_def split: option.splits)

lemma shown_ok: "limit_ok (shown_limits w None)" "wcl_workspace_id (shown_limits w None) = w"
  by (simp_all add: limit_ok_def shown_limits_def)

lemma shown_workspace: "wcl_workspace_id (shown_limits w (row_get wcl_workspace_id w rows)) = w"
  by (auto simp: shown_limits_def dest: row_get_key split: option.split)

text \<open>A save leaves the row it shows: the workspace's row with the given fields replaced, or a new one from the defaults.\<close>

definition limits_after :: "uuid \<Rightarrow> ConcurrencyLimitsUpdate \<Rightarrow> WorkspaceConcurrencyLimit list \<Rightarrow> WorkspaceConcurrencyLimit list" where
  "limits_after w p rows = (case row_get wcl_workspace_id w rows of
     None \<Rightarrow> rows @ [limits_set p (shown_limits w None)]
   | Some l \<Rightarrow> row_set wcl_workspace_id w (limits_set p) rows)"

lemma limits_after_row:
  "row_get wcl_workspace_id w (limits_after w p rows) = Some (limits_set p (shown_limits w (row_get wcl_workspace_id w rows)))"
  by (auto simp: limits_after_def row_get_append row_get_set shown_limits_def split: option.split)

lemma limits_after_distinct: "distinct (map wcl_workspace_id rows) \<Longrightarrow> distinct (map wcl_workspace_id (limits_after w p rows))"
  using shown_ok(2) by (auto simp: limits_after_def row_get_None_iff split: option.split)

lemma store_limits_Inr:
  assumes "store_limits w p (row_get wcl_workspace_id w (limits s)) s = (Inr (), s1)"
  shows "\<not> wcl_queue_hard_limit (limits_set p (shown_limits w (row_get wcl_workspace_id w (limits s))))
      < wcl_queue_soft_limit (limits_set p (shown_limits w (row_get wcl_workspace_id w (limits s))))
    \<and> limits s1 = limits_after w p (limits s) \<and> budgets s1 = budgets s"
proof (cases "row_get wcl_workspace_id w (limits s)")
  case None
  with assms show ?thesis
    by (auto simp: store_limits_def Let_def raise_exec bindM_exec uuid4_exec add_limit_def limits_after_def split: if_splits)
next
  case (Some l)
  with assms show ?thesis
    by (auto simp: store_limits_def Let_def raise_exec ret_exec andThen_exec set_limit_def modifyM_exec limits_after_def split: if_splits)
qed

lemma put_result:
  assumes "put_concurrency w p u s = (Inr out, s')" "distinct (map wcl_workspace_id (limits s))"
  defines "new \<equiv> limits_set p (shown_limits w (row_get wcl_workspace_id w (limits s)))"
  shows "valid_limits p" "\<not> wcl_queue_hard_limit new < wcl_queue_soft_limit new" "limits s' = limits_after w p (limits s)"
    "budgets s' = budgets s" "concurrency_out w s' = (Inr out, s')"
proof -
  have g: "valid_limits p" and b: "andThen (bindM (concurrency_limit_row w) (store_limits w p)) (concurrency_out w) s = (Inr out, s')"
    using past_admin [OF assms(1) [unfolded put_concurrency_def transaction_Inr]] by (auto simp: raise_exec split: if_splits)
  then show "valid_limits p" by simp
  obtain s1 where m: "bindM (concurrency_limit_row w) (store_limits w p) s = (Inr (), s1)" and out: "concurrency_out w s1 = (Inr out, s')"
    using b by (auto elim!: andThen_InrE)
  then obtain limit s0 where l: "concurrency_limit_row w s = (Inr limit, s0)" "store_limits w p limit s0 = (Inr (), s1)"
    by (auto elim!: bindM_InrE)
  note r = store_limits_Inr [of w p s s1] limits_row [OF l(1) assms(2)] l(2)
  have "keeps (\<lambda>s. s) (concurrency_out w)" unfolding concurrency_out_def Let_def by (intro steps_intro)
  then have "s1 = s'" using keepsD [of "\<lambda>s. s" "concurrency_out w" s1] out by simp
  then show "\<not> wcl_queue_hard_limit new < wcl_queue_soft_limit new" "limits s' = limits_after w p (limits s)" "budgets s' = budgets s"
    "concurrency_out w s' = (Inr out, s')"
    using r out by (simp_all add: new_def)
qed

lemma put_keeps_ok:
  assumes "put_concurrency w p u s = (Inr out, s')" "limits_ok s"
  shows "limits_ok s'"
proof -
  have d: "distinct (map wcl_workspace_id (limits s))" and ok: "\<forall>l \<in> set (limits s). limit_ok l" using assms(2) by (simp_all add: limits_ok_def)
  note r = put_result [OF assms(1) d]
  let ?new = "limits_set p (shown_limits w (row_get wcl_workspace_id w (limits s)))"
  have "limit_ok (shown_limits w (row_get wcl_workspace_id w (limits s)))"
    using ok shown_ok(1) [of w] by (cases "row_get wcl_workspace_id w (limits s)") (auto simp: shown_limits_def dest: row_get_Some)
  then have n: "limit_ok ?new" using r(1,2) by (intro limits_set_ok)
  have "limit_ok l" if "l \<in> set (limits s')" for l
  proof (cases "wcl_workspace_id l = w")
    case True
    then have "row_get wcl_workspace_id w (limits s') = Some l" using that row_get_distinct limits_after_distinct [OF d] r(3) by metis
    then show ?thesis using n by (simp add: r(3) limits_after_row)
  next
    case False
    then show ?thesis using that ok r(3) shown_ok(2) by (auto simp: limits_after_def set_row_set split: option.splits if_splits)
  qed
  then show ?thesis using assms(2) limits_after_distinct [OF d] r(3,4) by (simp add: limits_ok_def)
qed

lemma upsert_keeps_ok:
  assumes "upsert_provider_budget w pr n u s = (Inr b, s')" "limits_ok s"
  shows "limits_ok s'"
proof -
  let ?q = "filter (\<lambda>b. pcb_workspace_id b = w \<and> pcb_provider b = pr) (budgets s)"
  have "1 \<le> n" and m: "bindM (lock_budget w pr) (\<lambda>existing. case existing of
       None \<Rightarrow> bindM uuid4 (\<lambda>i. let b = \<lparr> pcb_id = i, pcb_workspace_id = w, pcb_provider = pr, pcb_max_concurrent = n \<rparr> in andThen (add_budget b) (ret b))
     | Some b \<Rightarrow> andThen (modifyM (budgets_update (row_set pcb_id (pcb_id b) (pcb_max_concurrent_update (\<lambda>_. n))))) (ret (b\<lparr>pcb_max_concurrent := n\<rparr>))) s = (Inr b, s')"
    using past_admin [OF assms(1) [unfolded upsert_provider_budget_def transaction_Inr]] by (auto simp: raise_exec split: if_splits)
  have "budget_key (pcb_max_concurrent_update f x) = budget_key x" for f x by (simp add: budget_key_def)
  then show ?thesis using m \<open>1 \<le> n\<close> assms(2)
    by (auto simp: bindM_exec lock_budget_def query_one_exec uuid4_exec Let_def andThen_exec add_budget_def modifyM_exec ret_exec limits_ok_def
        set_row_set has_row_def split: sum.splits option.splits if_splits)
qed

lemma delete_keeps_ok:
  assumes "delete_provider_budget w pr u s = (Inr x, s')" "limits_ok s"
  shows "limits_ok s'"
  using past_admin [OF assms(1) [unfolded delete_provider_budget_def transaction_Inr]] assms(2)
  by (auto simp: bindM_exec lock_budget_def query_one_exec modifyM_exec raise_exec limits_ok_def distinct_map_filter split: sum.splits option.splits)

lemma limits_call_failed:
  "put_concurrency w p u s = (Inl e, s') \<Longrightarrow> limits_ok s' = limits_ok s"
  "upsert_provider_budget w pr n u s = (Inl e, s') \<Longrightarrow> limits_ok s' = limits_ok s"
  "delete_provider_budget w pr u s = (Inl e, s') \<Longrightarrow> limits_ok s' = limits_ok s"
  unfolding put_concurrency_def upsert_provider_budget_def delete_provider_budget_def transaction_Inl by (elim exE conjE; simp)+

lemma limits_call_ok:
  assumes "limits_call s s'" "limits_ok s"
  shows "limits_ok s'"
  using assms
proof cases
  case (limits w p u)
  then show ?thesis using assms(2) put_keeps_ok limits_call_failed(1)
    by (cases "put_concurrency w p u s"; cases "fst (put_concurrency w p u s)") auto
next
  case (budget w pr n u)
  then show ?thesis using assms(2) upsert_keeps_ok limits_call_failed(2)
    by (cases "upsert_provider_budget w pr n u s"; cases "fst (upsert_provider_budget w pr n u s)") auto
next
  case (removed w pr u)
  then show ?thesis using assms(2) delete_keeps_ok limits_call_failed(3)
    by (cases "delete_provider_budget w pr u s"; cases "fst (delete_provider_budget w pr u s)") auto
qed

text \<open>
  Whatever limits and budgets administrators save or delete, a workspace has at most one row of limits and one budget per
  provider, all of them positive, and its soft queue limit never lies above its hard one.
\<close>

theorem limits_stay_ordered:
  assumes "limits_call\<^sup>*\<^sup>* s s'" "limits_ok s"
  shows "limits_ok s'"
  using assms by (induction rule: rtranclp_induct) (auto dest: limits_call_ok)

text \<open>
  What a save shows is what the engine then enforces: the dispatcher's cap on assignments, and the soft and hard queue limits and the jobs per
  tick of back-pressure.
\<close>

theorem saved_limits_govern:
  assumes "put_concurrency w p u s = (Inr out, s')" "distinct (map wcl_workspace_id (limits s))"
  shows "bp_limits w s' = (Inr (lo_queue_soft_limit out, lo_queue_hard_limit out, lo_max_per_scheduler_tick out), s')"
    and "\<exists>l. concurrency_limit_row w s' = (Inr (Some l), s') \<and> concurrency_cap (Some l) = lo_max_concurrent_assignments out"
proof -
  let ?new = "limits_set p (shown_limits w (row_get wcl_workspace_id w (limits s)))"
  note r = put_result [OF assms]
  have "filter (\<lambda>l. wcl_workspace_id l = w) (limits s') = [?new]"
    using filter_by_key [OF limits_after_distinct [OF assms(2)]] by (simp add: r(3) limits_after_row)
  then have row: "concurrency_limit_row w s' = (Inr (Some ?new), s')"
    by (simp add: concurrency_limit_row_def query_one_exec scalar_one_or_none_simps)
  have "shown_limits w (Some x) = x" for x by (simp add: shown_limits_def)
  then have "lo_queue_soft_limit out = wcl_queue_soft_limit ?new" "lo_queue_hard_limit out = wcl_queue_hard_limit ?new"
    "lo_max_per_scheduler_tick out = wcl_max_per_scheduler_tick ?new" "lo_max_concurrent_assignments out = wcl_max_concurrent_assignments ?new"
    using r(5) by (auto simp: concurrency_out_def bindM_exec row query_one_exec gets_exec Let_def split: sum.splits)
  then show "bp_limits w s' = (Inr (lo_queue_soft_limit out, lo_queue_hard_limit out, lo_max_per_scheduler_tick out), s')"
    and "\<exists>l. concurrency_limit_row w s' = (Inr (Some l), s') \<and> concurrency_cap (Some l) = lo_max_concurrent_assignments out"
    by (simp_all add: bp_limits_def bindM_exec row ret_exec concurrency_cap_def)
qed

text \<open>
  Where a workspace has no row, the route shows 50 and 200 whatever defaults are configured, and those of the settings are the ones
  back-pressure goes by.
\<close>

lemma default_limits_differ:
  assumes "limits s = []" "bp_row w s = []"
  shows "\<exists>out. concurrency_out w s = (Inr out, s) \<and> lo_queue_soft_limit out = 50 \<and> lo_queue_hard_limit out = 200
    \<and> bp_limits w s = (Inr (queue_soft_limit_default (cfg s), queue_hard_limit_default (cfg s), 5), s)"
  using assms by (simp add: concurrency_out_def concurrency_limit_row_def bindM_exec query_one_exec scalar_one_or_none_simps shown_limits_def Let_def
      gets_exec bp_limits_def)

section \<open>Limits saved\<close>

definition some_limits :: ConcurrencyLimitsUpdate where
  "some_limits = \<lparr> lu_max_concurrent_assignments = None, lu_max_per_scheduler_tick = Some 3, lu_queue_soft_limit = Some 60, lu_queue_hard_limit = None \<rparr>"

lemma limits_saved: "\<exists>out s'. put_concurrency 1 some_limits 7 members_db = (Inr out, s')"
proof -
  have "\<exists>out. fst (put_concurrency 1 some_limits 7 members_db) = Inr out"
    by (simp add: put_concurrency_def transaction_exec andThen_exec require_workspace_admin_def require_workspace_role_def get_membership_def
        bindM_exec query_one_exec valid_limits_def positive_def some_limits_def concurrency_limit_row_def store_limits_def limits_set_def
        shown_limits_def the_or_def Let_def uuid4_exec add_limit_def has_row_def concurrency_out_def gets_exec bp_row_def ret_exec
        members_db_def sample)
  then show ?thesis by (metis prod.collapse)
qed

lemma saved_limits_govern_witness: "\<exists>out s' soft hard n. put_concurrency 1 some_limits 7 members_db = (Inr out, s') \<and> bp_limits 1 s' = (Inr (soft, hard, n), s')"
proof -
  have "distinct (map wcl_workspace_id (limits members_db))" by (simp add: members_db_def sample)
  then show ?thesis using limits_saved saved_limits_govern(1) by blast
qed

lemma limits_stay_ordered_witness: "limits_ok (snd (put_concurrency 1 some_limits 7 members_db))"
  by (rule limits_stay_ordered [of members_db])
    (auto intro: limits_call.limits simp: limits_ok_def members_db_def sample_db_def empty_db_def)

end
