(* ===== verification/RateLimit.thy ===== *)
theory RateLimit imports Prelude PyLib begin

text \<open>
  \<open>core/rate_limit.py\<close>: the fixed-window limiter and the middleware in front of all routes. Times are the readings of the
  process's monotonic clock; the limiter lives in memory, so its operations take and return it.
\<close>

section \<open>The limiter\<close>

record Window =
  win_started_at :: rat
  win_count :: int

record InMemoryRateLimiter =
  rl_max_requests :: int
  rl_window_seconds :: rat
  rl_windows :: "string \<rightharpoonup> Window"

definition new_limiter :: "int \<Rightarrow> rat \<Rightarrow> exn + InMemoryRateLimiter" where
  "new_limiter max_requests window_seconds =
     (if max_requests < 1 then Inl (ValueError ''max_requests must be >= 1'')
      else if window_seconds \<le> 0 then Inl (ValueError ''window_seconds must be > 0'')
      else Inr \<lparr> rl_max_requests = max_requests, rl_window_seconds = window_seconds, rl_windows = Map.empty \<rparr>)"

text \<open>\<open>check(key, now=now)\<close>: whether the request is allowed, and the seconds to wait when it is not.\<close>

definition check :: "string \<Rightarrow> rat \<Rightarrow> InMemoryRateLimiter \<Rightarrow> (bool \<times> rat) \<times> InMemoryRateLimiter" where
  "check key now l =
     (case rl_windows l key of
        None \<Rightarrow> ((True, 0), l\<lparr> rl_windows := (rl_windows l)(key \<mapsto> \<lparr> win_started_at = now, win_count = 1 \<rparr>) \<rparr>)
      | Some w \<Rightarrow>
          if rl_window_seconds l \<le> now - win_started_at w then
            ((True, 0), l\<lparr> rl_windows := (rl_windows l)(key \<mapsto> \<lparr> win_started_at = now, win_count = 1 \<rparr>) \<rparr>)
          else if win_count w < rl_max_requests l then
            ((True, 0), l\<lparr> rl_windows := (rl_windows l)(key \<mapsto> w\<lparr> win_count := win_count w + 1 \<rparr>) \<rparr>)
          else ((False, max (rl_window_seconds l - (now - win_started_at w)) 0), l))"

section \<open>The middleware\<close>

record Request =
  rq_path :: string
  rq_client :: "string option"

definition client_ip :: "Request \<Rightarrow> string" where
  "client_ip r = (case rq_client r of None \<Rightarrow> ''unknown'' | Some host \<Rightarrow> host)"

record RateLimitMiddleware =
  global_limiter :: InMemoryRateLimiter
  auth_limiter :: InMemoryRateLimiter
  auth_path_prefixes :: "string list"
  exempt_paths :: "string list"

definition default_middleware :: "InMemoryRateLimiter \<Rightarrow> InMemoryRateLimiter \<Rightarrow> RateLimitMiddleware" where
  "default_middleware g a = \<lparr> global_limiter = g, auth_limiter = a, auth_path_prefixes = [''/auth/''],
     exempt_paths = [''/health/live'', ''/health/ready'', ''/health/automation'', ''/metrics''] \<rparr>"

definition starts_with :: "string \<Rightarrow> string \<Rightarrow> bool" where
  "starts_with prefix s \<longleftrightarrow> take (length prefix) s = prefix"

definition is_auth_path :: "RateLimitMiddleware \<Rightarrow> string \<Rightarrow> bool" where
  "is_auth_path m path \<longleftrightarrow> list_ex (\<lambda>prefix. starts_with prefix path) (auth_path_prefixes m)"

definition limit_key :: "RateLimitMiddleware \<Rightarrow> Request \<Rightarrow> string" where
  "limit_key m r = (if is_auth_path m (rq_path r) then ''auth'' else ''global'') @ '':'' @ client_ip r"

text \<open>What a request gets: the application, or 429 with the text of \<open>Retry-After\<close>.\<close>

datatype verdict = Forwarded | TooManyRequests string

definition dispatch :: "Request \<Rightarrow> rat \<Rightarrow> RateLimitMiddleware \<Rightarrow> verdict \<times> RateLimitMiddleware" where
  "dispatch r now m =
     (if rq_path r \<in> set (exempt_paths m) then (Forwarded, m)
      else
        let auth = is_auth_path m (rq_path r);
            ((allowed, retry_after), l) = check (limit_key m r) now (if auth then auth_limiter m else global_limiter m);
            m' = (if auth then m\<lparr> auth_limiter := l \<rparr> else m\<lparr> global_limiter := l \<rparr>)
        in (if \<not> allowed then TooManyRequests (str_int (\<lfloor>retry_after\<rfloor> + 1)) else Forwarded, m'))"

section \<open>One window at a time\<close>

text \<open>The requests of a sequence that the limiter allows.\<close>

fun served :: "(string \<times> rat) list \<Rightarrow> InMemoryRateLimiter \<Rightarrow> (string \<times> rat) list" where
  "served [] l = []"
| "served ((k, t) # rs) l = (case check k t l of ((ok, _), l') \<Rightarrow> if ok then (k, t) # served rs l' else served rs l')"

definition limiter_ok :: "InMemoryRateLimiter \<Rightarrow> bool" where
  "limiter_ok l \<longleftrightarrow> 1 \<le> rl_max_requests l \<and> 0 < rl_window_seconds l
     \<and> (\<forall>k w. rl_windows l k = Some w \<longrightarrow> 1 \<le> win_count w \<and> win_count w \<le> rl_max_requests l)"

lemma check_ok: "limiter_ok l \<Longrightarrow> limiter_ok (snd (check k t l))"
  by (auto simp: limiter_ok_def check_def split: option.split) (metis add_increasing2 order.trans zero_le_one)

lemma check_settings: "rl_max_requests (snd (check k t l)) = rl_max_requests l" "rl_window_seconds (snd (check k t l)) = rl_window_seconds l"
  by (auto simp: check_def split: option.split)

lemma check_other: "k' \<noteq> k \<Longrightarrow> rl_windows (snd (check k t l)) k' = rl_windows l k'"
  by (auto simp: check_def split: option.split)

lemma new_limiter_ok: "new_limiter n w = Inr l \<Longrightarrow> limiter_ok l"
  by (auto simp: new_limiter_def limiter_ok_def split: if_splits)

definition hits :: "string \<Rightarrow> rat \<Rightarrow> rat \<Rightarrow> (string \<times> rat) list \<Rightarrow> int" where
  "hits k a b rs = int (length (filter (\<lambda>(x, t). x = k \<and> a \<le> t \<and> t < b) rs))"

lemma hits_simps [simp]: "hits k a b [] = 0"
  "hits k a b ((x, t) # rs) = (if x = k \<and> a \<le> t \<and> t < b then 1 else 0) + hits k a b rs"
  by (simp_all add: hits_def)

lemma check_cases:
  obtains (fresh) "check k t l = ((True, 0), l\<lparr> rl_windows := (rl_windows l)(k \<mapsto> \<lparr> win_started_at = t, win_count = 1 \<rparr>) \<rparr>)"
      "\<forall>w. rl_windows l k = Some w \<longrightarrow> win_started_at w + rl_window_seconds l \<le> t"
  | (more) w where "rl_windows l k = Some w" "t < win_started_at w + rl_window_seconds l" "win_count w < rl_max_requests l"
      "check k t l = ((True, 0), l\<lparr> rl_windows := (rl_windows l)(k \<mapsto> w\<lparr> win_count := win_count w + 1 \<rparr>) \<rparr>)"
  | (full) w where "rl_windows l k = Some w" "t < win_started_at w + rl_window_seconds l" "rl_max_requests l \<le> win_count w"
      "check k t l = ((False, max (rl_window_seconds l - (t - win_started_at w)) 0), l)"
proof (cases "rl_windows l k")
  case None
  then show ?thesis by (intro fresh) (simp_all add: check_def)
next
  case (Some w)
  consider "rl_window_seconds l \<le> t - win_started_at w" | "\<not> rl_window_seconds l \<le> t - win_started_at w" "win_count w < rl_max_requests l"
    | "\<not> rl_window_seconds l \<le> t - win_started_at w" "\<not> win_count w < rl_max_requests l" by blast
  then show ?thesis
  proof cases
    case 1
    then show ?thesis using Some by (intro fresh) (simp_all add: check_def algebra_simps)
  next
    case 2
    then show ?thesis using Some by (intro more [of w]) (simp_all add: check_def algebra_simps)
  next
    case 3
    then show ?thesis using Some by (intro full [of w]) (simp_all add: check_def algebra_simps)
  qed
qed

lemma hits_nonneg: "0 \<le> hits k a b rs"
  by (simp add: hits_def)

lemma served_subset: "set (served rs l) \<subseteq> set rs"
  by (induction rs arbitrary: l) (auto split: prod.splits if_splits, blast+)

lemma hits_late: "\<forall>(x, t) \<in> set rs. b \<le> t \<Longrightarrow> hits k a b (served rs l) = 0"
  using served_subset [of rs l] by (fastforce simp: hits_def filter_empty_conv)

lemma served_step:
  "hits k a b (served ((x, t) # rs) l) =
    (if fst (fst (check x t l)) \<and> x = k \<and> a \<le> t \<and> t < b then 1 else 0) + hits k a b (served rs (snd (check x t l)))"
  by (auto split: prod.splits)

lemma served_step_le: "hits k a b (served ((x, t) # rs) l) \<le> 1 + hits k a b (served rs (snd (check x t l)))"
  unfolding served_step by simp

text \<open>Inside a window: what is left of its allowance.\<close>

lemma hits_in_window:
  assumes "limiter_ok l" "rl_windows l k = Some w" "b \<le> win_started_at w + rl_window_seconds l" "sorted (map snd rs)"
  shows "hits k a b (served rs l) \<le> rl_max_requests l - win_count w"
  using assms
proof (induction rs arbitrary: l w)
  case Nil
  then show ?case by (simp add: limiter_ok_def)
next
  case (Cons r rs)
  obtain x t where r: "r = (x, t)" by fastforce
  have nn: "0 \<le> rl_max_requests l - win_count w" using Cons.prems(1,2) by (simp add: limiter_ok_def)
  show ?case
  proof (cases "b \<le> t")
    case True
    then have "\<forall>(x, t) \<in> set (r # rs). b \<le> t" using Cons.prems(4) r by fastforce
    then show ?thesis using hits_late nn by metis
  next
    case False
    let ?l = "snd (check x t l)"
    have ok: "limiter_ok ?l" "rl_max_requests ?l = rl_max_requests l" "rl_window_seconds ?l = rl_window_seconds l"
      using check_ok [OF Cons.prems(1)] check_settings by auto
    have so: "sorted (map snd rs)" using Cons.prems(4) by simp
    show ?thesis
    proof (cases "x = k")
      case other: False
      then have "hits k a b (served rs ?l) \<le> rl_max_requests l - win_count w"
        using Cons.IH [OF ok(1), of w] Cons.prems ok so check_other [of k x t l] by simp
      then show ?thesis unfolding r served_step using other by simp
    next
      case True
      have notfresh: "\<not> (\<forall>w. rl_windows l x = Some w \<longrightarrow> win_started_at w + rl_window_seconds l \<le> t)"
        using Cons.prems(2,3) False True by force
      show ?thesis
      proof (cases rule: check_cases [of x t l])
        case fresh
        then show ?thesis using notfresh by blast
      next
        case (more v)
        have v: "v = w" using more(1) Cons.prems(2) True by simp
        have "hits k a b (served rs ?l) \<le> rl_max_requests ?l - win_count (w\<lparr> win_count := win_count w + 1 \<rparr>)"
          by (rule Cons.IH [OF ok(1) _ _ so]) (use more(4) v True ok(3) Cons.prems(3) in auto)
        then show ?thesis unfolding r using ok served_step_le [of k a b x t rs l] by simp
      next
        case (full v)
        have "hits k a b (served rs l) \<le> rl_max_requests l - win_count w" by (rule Cons.IH [OF Cons.prems(1-3) so])
        then show ?thesis unfolding r served_step using full(4) by simp
      qed
    qed
  qed
qed

text \<open>From any state, once the interval has begun: the rest of the running window, and one more.\<close>

lemma hits_two_windows:
  assumes "limiter_ok l" "rl_windows l k = Some w" "b \<le> a + rl_window_seconds l" "sorted (map snd rs)" "\<forall>(x, t) \<in> set rs. a \<le> t"
  shows "hits k a b (served rs l) \<le> (rl_max_requests l - win_count w) + rl_max_requests l"
  using assms
proof (induction rs arbitrary: l w)
  case Nil
  then have "win_count w \<le> rl_max_requests l" "1 \<le> rl_max_requests l" by (auto simp: limiter_ok_def)
  then show ?case by simp
next
  case (Cons r rs)
  obtain x t where r: "r = (x, t)" by fastforce
  let ?l = "snd (check x t l)"
  have ok: "limiter_ok ?l" "rl_max_requests ?l = rl_max_requests l" "rl_window_seconds ?l = rl_window_seconds l"
    using check_ok [OF Cons.prems(1)] check_settings by auto
  have so: "sorted (map snd rs)" "\<forall>(x, t) \<in> set rs. a \<le> t" "a \<le> t" using Cons.prems(4,5) r by auto
  have nn: "0 \<le> rl_max_requests l - win_count w" using Cons.prems(1,2) by (simp add: limiter_ok_def)
  show ?case
  proof (cases "x = k")
    case False
    then have "hits k a b (served rs ?l) \<le> (rl_max_requests l - win_count w) + rl_max_requests l"
      using Cons.IH [OF ok(1), of w] Cons.prems ok so check_other [of k x t l] by simp
    then show ?thesis unfolding r served_step using False by simp
  next
    case True
    show ?thesis
    proof (cases rule: check_cases [of x t l])
      case fresh
      have "hits k a b (served rs ?l) \<le> rl_max_requests ?l - win_count \<lparr> win_started_at = t, win_count = 1 \<rparr>"
        by (rule hits_in_window [OF ok(1) _ _ so(1)]) (use fresh(1) True ok(3) so(3) Cons.prems(3) in auto)
      then show ?thesis unfolding r using ok nn served_step_le [of k a b x t rs l] by simp
    next
      case (more v)
      have v: "v = w" using more(1) Cons.prems(2) True by simp
      have "hits k a b (served rs ?l) \<le> (rl_max_requests ?l - win_count (w\<lparr> win_count := win_count w + 1 \<rparr>)) + rl_max_requests ?l"
        by (rule Cons.IH [OF ok(1) _ _ so(1,2)]) (use more(4) v True ok(3) Cons.prems(3) in auto)
      then show ?thesis unfolding r using ok served_step_le [of k a b x t rs l] by simp
    next
      case (full v)
      have "hits k a b (served rs l) \<le> (rl_max_requests l - win_count w) + rl_max_requests l"
        by (rule Cons.IH [OF Cons.prems(1-3) so(1,2)])
      then show ?thesis unfolding r served_step using full(4) by simp
    qed
  qed
qed

text \<open>
  The limiter's promise over any interval as long as its window: for one key at most twice the maximum is let through,
  wherever the interval falls across the windows, and whatever other keys are used. (Exactly a window's worth is the
  bound from a window's start on.)
\<close>

lemma served_bounded:
  assumes "limiter_ok l" "b \<le> a + rl_window_seconds l" "sorted (map snd rs)"
  shows "hits k a b (served rs l) \<le> 2 * rl_max_requests l"
  using assms
proof (induction rs arbitrary: l)
  case Nil
  then show ?case by (simp add: limiter_ok_def)
next
  case (Cons r rs)
  obtain x t where r: "r = (x, t)" by fastforce
  let ?l = "snd (check x t l)"
  have ok: "limiter_ok ?l" "rl_max_requests ?l = rl_max_requests l" "rl_window_seconds ?l = rl_window_seconds l"
    using check_ok [OF Cons.prems(1)] check_settings by auto
  have so: "sorted (map snd rs)" using Cons.prems(3) by simp
  have ih: "hits k a b (served rs ?l) \<le> 2 * rl_max_requests l"
    using Cons.IH [OF ok(1) _ so] ok Cons.prems(2) by simp
  show ?case
  proof (cases "x = k \<and> a \<le> t \<and> fst (fst (check x t l))")
    case False
    then show ?thesis unfolding r served_step using ih by auto
  next
    case True
    have after: "\<forall>(x, u) \<in> set rs. a \<le> u" using Cons.prems(3) r True by fastforce
    have "\<forall>w. rl_windows l k = Some w \<longrightarrow> 0 \<le> win_count w" using Cons.prems(1) by (force simp: limiter_ok_def)
    then obtain w where w: "rl_windows ?l k = Some w" "1 \<le> win_count w"
      using True
      by (cases rule: check_cases [of x t l]) auto
    have "hits k a b (served rs ?l) \<le> (rl_max_requests ?l - win_count w) + rl_max_requests ?l"
      by (rule hits_two_windows [OF ok(1) w(1) _ so after]) (use ok(3) Cons.prems(2) in simp)
    then show ?thesis unfolding r using w(2) ok(2) served_step_le [of k a b x t rs l] by simp
  qed
qed

section \<open>Requests\<close>

text \<open>The requests of a sequence the middleware forwards, with their times.\<close>

fun forwarded :: "(Request \<times> rat) list \<Rightarrow> RateLimitMiddleware \<Rightarrow> (Request \<times> rat) list" where
  "forwarded [] m = []"
| "forwarded ((r, t) # rs) m =
     (case dispatch r t m of (v, m') \<Rightarrow> if v = Forwarded then (r, t) # forwarded rs m' else forwarded rs m')"

definition limited :: "RateLimitMiddleware \<Rightarrow> Request \<Rightarrow> bool" where
  "limited m r \<longleftrightarrow> rq_path r \<notin> set (exempt_paths m)"

definition tier_limiter :: "RateLimitMiddleware \<Rightarrow> bool \<Rightarrow> InMemoryRateLimiter" where
  "tier_limiter m auth = (if auth then auth_limiter m else global_limiter m)"

text \<open>What one of the two limiters is asked.\<close>

definition asked :: "RateLimitMiddleware \<Rightarrow> bool \<Rightarrow> (Request \<times> rat) list \<Rightarrow> (string \<times> rat) list" where
  "asked m auth rs = map (\<lambda>(r, t). (limit_key m r, t)) (filter (\<lambda>(r, t). limited m r \<and> is_auth_path m (rq_path r) = auth) rs)"

lemma dispatch_paths:
  "exempt_paths (snd (dispatch r t m)) = exempt_paths m" "auth_path_prefixes (snd (dispatch r t m)) = auth_path_prefixes m"
  by (simp_all add: dispatch_def Let_def split: prod.split)

lemma asked_dispatch: "asked (snd (dispatch r t m)) auth rs = asked m auth rs"
  by (simp add: asked_def limit_key_def limited_def is_auth_path_def dispatch_paths)

lemma forwarded_served: "asked m auth (forwarded rs m) = served (asked m auth rs) (tier_limiter m auth)"
proof (induction rs arbitrary: m)
  case Nil
  then show ?case by (simp add: asked_def)
next
  case (Cons q rs)
  obtain r t where q: "q = (r, t)" by fastforce
  note ih = Cons.IH [of "snd (dispatch r t m)", unfolded asked_dispatch]
  show ?case
  proof (cases "limited m r \<and> is_auth_path m (rq_path r) = auth")
    case False
    have "tier_limiter (snd (dispatch r t m)) auth = tier_limiter m auth"
      using False by (auto simp: tier_limiter_def dispatch_def limited_def Let_def split: prod.split)
    with ih False show ?thesis by (auto simp: q asked_def split: prod.splits)
  next
    case True
    obtain ok w l where c: "check (limit_key m r) t (tier_limiter m auth) = ((ok, w), l)" by (metis prod.exhaust)
    then have d: "dispatch r t m = (if ok then Forwarded else TooManyRequests (str_int (\<lfloor>w\<rfloor> + 1)),
        if auth then m\<lparr> auth_limiter := l \<rparr> else m\<lparr> global_limiter := l \<rparr>)"
      using True by (auto simp: dispatch_def limited_def tier_limiter_def Let_def)
    then have "tier_limiter (snd (dispatch r t m)) auth = l" by (simp add: tier_limiter_def)
    with ih c d True show ?thesis by (simp add: q asked_def)
  qed
qed

lemma limit_key_eq: "is_auth_path m (rq_path r) = auth \<Longrightarrow> limit_key m r = (if auth then ''auth'' else ''global'') @ '':'' @ ip \<longleftrightarrow> client_ip r = ip"
  by (simp add: limit_key_def)

text \<open>
  C33: How many requests get through: in any span of time as long as the window, of the requests an address sends to the
  credential routes at most twice \<open>max_requests\<close> of the authentication limiter are forwarded, and of its other requests
  that are not exempt at most twice that of the global one; what other addresses send makes no difference.
\<close>

theorem forwarding_bounded:
  assumes "limiter_ok (tier_limiter m auth)" "sorted (map snd rs)" "b \<le> a + rl_window_seconds (tier_limiter m auth)"
  shows "int (length (filter (\<lambda>(r, t). rq_path r \<notin> set (exempt_paths m) \<and> is_auth_path m (rq_path r) = auth
      \<and> client_ip r = ip \<and> a \<le> t \<and> t < b) (forwarded rs m))) \<le> 2 * rl_max_requests (tier_limiter m auth)"
proof -
  let ?key = "(if auth then ''auth'' else ''global'') @ '':'' @ ip"
  have "sorted (map snd (asked m auth rs))"
  proof -
    have "map snd (asked m auth rs) = map snd (filter (\<lambda>(r, t). limited m r \<and> is_auth_path m (rq_path r) = auth) rs)"
      by (simp add: asked_def comp_def case_prod_beta)
    then show ?thesis using assms(2) by (simp add: sorted_filter)
  qed
  then have "hits ?key a b (served (asked m auth rs) (tier_limiter m auth)) \<le> 2 * rl_max_requests (tier_limiter m auth)"
    using served_bounded assms(1,3) by blast
  moreover have "hits ?key a b (asked m auth xs) = int (length (filter (\<lambda>(r, t). rq_path r \<notin> set (exempt_paths m)
      \<and> is_auth_path m (rq_path r) = auth \<and> client_ip r = ip \<and> a \<le> t \<and> t < b) xs))" for xs
    unfolding hits_def asked_def filter_map length_map filter_filter
    by (intro arg_cong [where f = int] arg_cong [where f = length] filter_cong refl) (auto simp: limited_def limit_key_def)
  ultimately show ?thesis unfolding forwarded_served [symmetric] by metis
qed

text \<open>
  A refusal is never unfounded, and it says when to come back: a request is refused only when the key's running window has
  used up its allowance, the seconds it names are more than none and at most a window, and after them the key is
  served again.
\<close>

theorem refusal_founded:
  assumes "limiter_ok l" "check k now l = ((False, retry), l')" "\<forall>w. rl_windows l k = Some w \<longrightarrow> win_started_at w \<le> now"
  shows "\<exists>w. rl_windows l k = Some w \<and> win_count w = rl_max_requests l \<and> now - win_started_at w < rl_window_seconds l
    \<and> 0 < retry \<and> retry \<le> rl_window_seconds l \<and> l' = l \<and> fst (fst (check k (now + retry) l')) = True"
proof -
  from assms(2) show ?thesis
  proof (cases rule: check_cases [of k now l])
    case (full w)
    have "win_count w \<le> rl_max_requests l" using assms(1) full(1) by (simp add: limiter_ok_def)
    then have "win_count w = rl_max_requests l" using full(3) by simp
    moreover have "retry = rl_window_seconds l - (now - win_started_at w)" "l' = l" using full(2,4) assms(2) by auto
    moreover from this have "fst (fst (check k (now + retry) l'))" using full(1) by (simp add: check_def)
    ultimately show ?thesis using full(1,2) assms(3) by auto
  qed auto
qed

section \<open>Witnesses\<close>

definition small_limiter :: "int \<Rightarrow> InMemoryRateLimiter" where
  "small_limiter n = \<lparr> rl_max_requests = n, rl_window_seconds = 60, rl_windows = Map.empty \<rparr>"

definition login_request :: Request where
  "login_request = \<lparr> rq_path = ''/auth/login'', rq_client = Some ''ip'' \<rparr>"

lemma small_limiter_ok: "1 \<le> n \<Longrightarrow> limiter_ok (small_limiter n)"
  by (simp add: limiter_ok_def small_limiter_def)

lemma forwarding_bounded_witness:
  "int (length (filter (\<lambda>(r, t). rq_path r \<notin> set (exempt_paths (default_middleware (small_limiter 5) (small_limiter 1)))
      \<and> is_auth_path (default_middleware (small_limiter 5) (small_limiter 1)) (rq_path r) = True \<and> client_ip r = ''ip'' \<and> 50 \<le> t \<and> t < 110)
    (forwarded [(login_request, 0), (login_request, 50), (login_request, 61), (login_request, 62)]
      (default_middleware (small_limiter 5) (small_limiter 1))))) \<le> 2"
  using forwarding_bounded [of "default_middleware (small_limiter 5) (small_limiter 1)" True
      "[(login_request, 0), (login_request, 50), (login_request, 61), (login_request, 62)]" 110 50 "''ip''"] small_limiter_ok [of 1]
  by (simp add: tier_limiter_def default_middleware_def small_limiter_def)

lemma refusal_founded_witness:
  "\<exists>w. rl_windows (snd (check ''k'' 0 (small_limiter 1))) ''k'' = Some w \<and> win_count w = 1
    \<and> fst (check ''k'' 20 (snd (check ''k'' 0 (small_limiter 1)))) = (False, 40)"
proof -
  let ?l = "snd (check ''k'' 0 (small_limiter 1))"
  have l: "?l = (small_limiter 1)\<lparr> rl_windows := [''k'' \<mapsto> \<lparr> win_started_at = 0, win_count = 1 \<rparr>] \<rparr>"
    by (simp add: check_def small_limiter_def)
  have c: "check ''k'' 20 ?l = ((False, 40), ?l)" unfolding l by (simp add: check_def small_limiter_def)
  have w: "\<forall>w. rl_windows ?l ''k'' = Some w \<longrightarrow> win_started_at w \<le> 20" unfolding l by simp
  have m: "rl_max_requests ?l = 1" by (simp add: check_settings) (simp add: small_limiter_def)
  have o: "limiter_ok ?l" by (rule check_ok, rule small_limiter_ok) simp
  from refusal_founded [OF o c w] m c show ?thesis by auto
qed

end
