(* ===== verification/Departments.thy ===== *)
theory Departments imports Outbox begin

text \<open>
  The tables of the editorial departments (\<open>models/content_profile.py\<close>, \<open>research.py\<close>, \<open>strategy.py\<close>,
  \<open>content_department.py\<close>, \<open>production.py\<close>, \<open>compliance.py\<close>), one record per row class, and the state their services run on: these tables
  beside the engine's database, in one session. Left out are the version counter, \<open>updated_at\<close> and \<open>updated_by\<close>, and \<open>created_at\<close>
  where nothing is ordered by it.
\<close>

section \<open>Rows\<close>

record WorkspaceContentProfile =
  cp_id :: uuid
  cp_workspace_id :: uuid
  cp_business_name :: "string option"
  cp_offer :: "string option"
  cp_target_audience :: "string option"
  cp_brand_voice :: "string option"
  cp_target_platform :: "string option"
  cp_content_goal :: "string option"
  cp_created_by :: "uuid option"

record ResearchRun =
  rn_id :: uuid
  rn_workspace_id :: uuid
  rn_trigger :: string
  rn_research_objective :: string
  rn_permitted_sources :: "string list"
  rn_started_at :: datetime
  rn_deadline :: datetime
  rn_max_searches :: int
  rn_max_provider_calls :: int
  rn_max_tokens :: int
  rn_max_cost_usd :: usd
  rn_max_attempts :: int
  rn_status :: string
  rn_provider_state :: string
  rn_searches_used :: int
  rn_provider_calls_used :: int
  rn_tokens_used :: int
  rn_reserved_cost_usd :: usd
  rn_actual_cost_usd :: usd
  rn_opportunity_count :: int
  rn_audited_opportunity_count :: int
  rn_blocked_opportunity_count :: int
  rn_last_error :: "string option"
  rn_correlation_id :: uuid
  rn_trace_id :: "string option"
  rn_test_data :: bool
  rn_created_by :: "uuid option"
  rn_created_at :: datetime

record ResearchSource =
  rs_id :: uuid
  rs_workspace_id :: uuid
  rs_research_run_id :: uuid
  rs_canonical_url :: string
  rs_source_type :: string
  rs_retrieved_at :: datetime
  rs_published_at :: "datetime option"
  rs_publisher :: "string option"
  rs_author :: "string option"
  rs_claim_supported :: "string option"
  rs_freshness :: string
  rs_confidence :: usd
  rs_content_digest :: string
  rs_safe_excerpt :: "string option"
  rs_handling_state :: string
  rs_rejection_reason :: "string option"
  rs_test_data :: bool

record Opportunity =
  op_id :: uuid
  op_workspace_id :: uuid
  op_research_run_id :: uuid
  op_title :: string
  op_topic :: string
  op_summary :: string
  op_proposed_angle :: string
  op_target_audience :: "string option"
  op_target_platform :: "string option"
  op_suggested_format :: "string option"
  op_discovered_at :: datetime
  op_freshness :: string
  op_source_count :: int
  op_confidence :: usd
  op_risk :: string
  op_status :: string
  op_created_by_worker :: string
  op_component_scores :: json
  op_score_reasoning :: json
  op_dedupe_key :: string
  op_audit_gate_status :: string
  op_performance_data_state :: string
  op_strategist_state :: string
  op_test_data :: bool
  op_created_by :: "uuid option"
  op_deleted_at :: "datetime option"

record OpportunityEvidence =
  oe_id :: uuid
  oe_workspace_id :: uuid
  oe_opportunity_id :: uuid
  oe_source_id :: uuid
  oe_claim_supported :: string
  oe_relevance :: usd
  oe_contradiction_flag :: bool

record ResearchAudit =
  ra_id :: uuid
  ra_workspace_id :: uuid
  ra_opportunity_id :: uuid
  ra_research_run_id :: uuid
  ra_state :: string
  ra_evaluator_context_version :: string
  ra_scout_snapshot :: json
  ra_findings :: "json list"
  ra_warnings :: "string list"
  ra_blocked_reasons :: "string list"
  ra_checked_at :: datetime
  ra_test_data :: bool

record ResearchSchedule =
  rc_id :: uuid
  rc_workspace_id :: uuid
  rc_frequency :: string
  rc_enabled :: bool
  rc_next_run_at :: "datetime option"
  rc_paused_at :: "datetime option"
  rc_enabled_by :: "uuid option"
  rc_created_by :: "uuid option"

record StrategyRun =
  sn_id :: uuid
  sn_workspace_id :: uuid
  sn_trigger :: string
  sn_strategy_objective :: string
  sn_source_opportunity_ids :: "string list"
  sn_started_at :: datetime
  sn_deadline :: datetime
  sn_max_provider_calls :: int
  sn_max_tokens :: int
  sn_max_cost_usd :: usd
  sn_max_attempts :: int
  sn_status :: string
  sn_provider_state :: string
  sn_business_context_state :: string
  sn_provider_calls_used :: int
  sn_tokens_used :: int
  sn_reserved_cost_usd :: usd
  sn_actual_cost_usd :: usd
  sn_briefs_created :: int
  sn_briefs_passed :: int
  sn_briefs_blocked :: int
  sn_last_error :: "string option"
  sn_correlation_id :: uuid
  sn_trace_id :: "string option"
  sn_test_data :: bool
  sn_created_by :: "uuid option"
  sn_created_at :: datetime

record StrategyBrief =
  sb_id :: uuid
  sb_workspace_id :: uuid
  sb_strategy_run_id :: uuid
  sb_objective :: string
  sb_target_audience :: "string option"
  sb_target_platform :: "string option"
  sb_content_format :: "string option"
  sb_creative_angle :: "string option"
  sb_core_message :: "string option"
  sb_hook_direction :: "string option"
  sb_cta_direction :: "string option"
  sb_business_goal :: "string option"
  sb_success_metric :: "string option"
  sb_commercial_goal :: "string option"
  sb_estimated_complexity :: string
  sb_risk_level :: string
  sb_evidence_summary :: string
  sb_reasoning :: string
  sb_confidence :: usd
  sb_priority :: string
  sb_component_scores :: json
  sb_score_reasoning :: json
  sb_recommended_length :: "string option"
  sb_recommended_posting_window :: "string option"
  sb_required_assets :: "json list"
  sb_production_requirements :: "json list"
  sb_rights_requirements :: "json list"
  sb_compliance_requirements :: "json list"
  sb_estimated_provider_usage :: json
  sb_estimated_cost_range :: json
  sb_cost_state :: string
  sb_capability_state :: string
  sb_business_context_state :: string
  sb_performance_data_state :: string
  sb_structural_fingerprint :: string
  sb_repetition_state :: string
  sb_repetition_reasons :: "json list"
  sb_audit_gate_status :: string
  sb_writer_handoff_state :: string
  sb_created_by_worker :: string
  sb_status :: string
  sb_test_data :: bool
  sb_created_by :: "uuid option"
  sb_deleted_at :: "datetime option"
  sb_created_at :: datetime

record StrategyBriefOpportunity =
  so_id :: uuid
  so_workspace_id :: uuid
  so_strategy_brief_id :: uuid
  so_opportunity_id :: uuid

record StrategyAudit =
  st_id :: uuid
  st_workspace_id :: uuid
  st_strategy_brief_id :: uuid
  st_strategy_run_id :: uuid
  st_state :: string
  st_evaluator_context_version :: string
  st_brief_snapshot :: json
  st_findings :: "json list"
  st_warnings :: "json list"
  st_blocked_reasons :: "json list"
  st_checked_at :: datetime
  st_test_data :: bool

record StrategySchedule =
  ss_id :: uuid
  ss_workspace_id :: uuid
  ss_frequency :: string
  ss_enabled :: bool
  ss_next_run_at :: "datetime option"
  ss_paused_at :: "datetime option"
  ss_enabled_by :: "uuid option"
  ss_created_by :: "uuid option"

record ContentDepartmentRun =
  dn_id :: uuid
  dn_workspace_id :: uuid
  dn_strategy_brief_id :: uuid
  dn_trigger :: string
  dn_status :: string
  dn_provider_state :: string
  dn_business_context_state :: string
  dn_max_provider_calls :: int
  dn_max_tokens :: int
  dn_max_cost_usd :: usd
  dn_max_attempts :: int
  dn_timeout_seconds :: int
  dn_provider_calls_used :: int
  dn_tokens_used :: int
  dn_actual_cost_usd :: usd
  dn_creative_directions_created :: int
  dn_packages_ready :: int
  dn_packages_blocked :: int
  dn_last_error :: "string option"
  dn_correlation_id :: uuid
  dn_trace_id :: "string option"
  dn_test_data :: bool
  dn_created_by :: "uuid option"
  dn_created_at :: datetime

record CreativeDirection =
  cd_id :: uuid
  cd_workspace_id :: uuid
  cd_content_department_run_id :: uuid
  cd_strategy_brief_id :: uuid
  cd_objective :: string
  cd_target_platform :: "string option"
  cd_target_audience :: "string option"
  cd_creative_concept :: string
  cd_opening_pattern :: "string option"
  cd_hook_direction :: "string option"
  cd_story_structure :: "string option"
  cd_tone :: "string option"
  cd_pacing :: "string option"
  cd_visual_direction :: "string option"
  cd_audio_direction :: "string option"
  cd_cta_direction :: "string option"
  cd_desired_emotion :: "string option"
  cd_required_claims :: "json list"
  cd_prohibited_claims :: "json list"
  cd_required_assets :: "json list"
  cd_estimated_duration :: "string option"
  cd_production_complexity :: string
  cd_risk_notes :: "json list"
  cd_worker_id :: string
  cd_provider :: string
  cd_model :: "string option"
  cd_prompt_version :: string
  cd_status :: string
  cd_test_data :: bool
  cd_created_by :: "uuid option"

record ContentPackage =
  pk_id :: uuid
  pk_workspace_id :: uuid
  pk_content_department_run_id :: uuid
  pk_creative_direction_id :: uuid
  pk_strategy_brief_id :: uuid
  pk_content_item_id :: uuid
  pk_content_version_id :: uuid
  pk_prior_content_version_id :: "uuid option"
  pk_revision_reason :: "string option"
  pk_writer_worker_id :: string
  pk_provider :: string
  pk_model :: "string option"
  pk_prompt_version :: string
  pk_input_references :: json
  pk_package_fields :: json
  pk_status :: string
  pk_audit_gate_status :: string
  pk_producer_handoff_state :: string
  pk_invalidated_at :: "datetime option"
  pk_test_data :: bool
  pk_created_by :: "uuid option"
  pk_deleted_at :: "datetime option"
  pk_created_at :: datetime

record ContentClaim =
  cl_id :: uuid
  cl_workspace_id :: uuid
  cl_content_package_id :: uuid
  cl_content_version_id :: uuid
  cl_claim_text :: string
  cl_claim_type :: string
  cl_source_required :: bool
  cl_supporting_evidence :: "json list"
  cl_verification_status :: string
  cl_confidence :: usd
  cl_risk :: string
  cl_freshness :: "string option"
  cl_evidence_reasoning :: "string option"
  cl_test_data :: bool
  cl_created_by :: "uuid option"

record ContentAudit =
  ca_id :: uuid
  ca_workspace_id :: uuid
  ca_content_package_id :: uuid
  ca_content_version_id :: uuid
  ca_auditor_type :: string
  ca_auditor_worker_id :: string
  ca_state :: string
  ca_artifact_snapshot :: json
  ca_requirements_snapshot :: json
  ca_findings :: "json list"
  ca_warnings :: "json list"
  ca_blocked_reasons :: "json list"
  ca_evidence :: "json list"
  ca_checked_at :: datetime
  ca_cost_usd :: usd
  ca_retry_history :: "json list"
  ca_test_data :: bool

record ContentAuditInvalidation =
  cx_id :: uuid
  cx_workspace_id :: uuid
  cx_content_audit_id :: uuid
  cx_content_package_id :: uuid
  cx_content_version_id :: uuid
  cx_reason :: string
  cx_affected_dimensions :: "json list"
  cx_created_by :: "uuid option"

record OriginalityFingerprint =
  og_id :: uuid
  og_workspace_id :: uuid
  og_content_package_id :: uuid
  og_content_version_id :: uuid
  og_text_fingerprint :: string
  og_hook_fingerprint :: string
  og_structure_fingerprint :: string
  og_semantic_reference :: "string option"
  og_comparison_set :: "json list"
  og_similarity_findings :: "json list"
  og_state :: string
  og_test_data :: bool
  og_created_by :: "uuid option"

record ProductionJob =
  pj_id :: uuid
  pj_workspace_id :: uuid
  pj_content_package_id :: uuid
  pj_content_item_id :: uuid
  pj_content_version_id :: uuid
  pj_pipeline_run_id :: "uuid option"
  pj_producer_worker_id :: string
  pj_target_platform :: "string option"
  pj_target_format :: "string option"
  pj_target_duration_seconds :: "int option"
  pj_required_assets :: "json list"
  pj_provider_plan :: json
  pj_status :: string
  pj_provider_state :: string
  pj_max_provider_calls :: int
  pj_max_render_calls :: int
  pj_max_cost_usd :: usd
  pj_max_total_cost_usd :: usd
  pj_max_attempts :: int
  pj_max_repair_cycles :: int
  pj_timeout_seconds :: int
  pj_deadline_at :: "datetime option"
  pj_provider_calls_used :: int
  pj_render_calls_used :: int
  pj_repair_cycles_used :: int
  pj_actual_cost_usd :: usd
  pj_retry_count :: int
  pj_last_error :: "string option"
  pj_correlation_id :: uuid
  pj_trace_id :: "string option"
  pj_started_at :: "datetime option"
  pj_completed_at :: "datetime option"
  pj_test_data :: bool
  pj_created_by :: "uuid option"
  pj_created_at :: datetime

record ProductionAsset =
  pa_id :: uuid
  pa_workspace_id :: uuid
  pa_production_job_id :: uuid
  pa_asset_id :: uuid
  pa_content_item_id :: uuid
  pa_content_version_id :: uuid
  pa_asset_type :: string
  pa_provider :: string
  pa_provider_job_id :: "string option"
  pa_source_inputs :: json
  pa_generation_settings :: json
  pa_model_version :: "string option"
  pa_file_hash :: "string option"
  pa_duration_seconds :: "usd option"
  pa_dimensions :: json
  pa_cost_usd :: usd
  pa_status :: string
  pa_test_data :: bool
  pa_created_by :: "uuid option"

record FinalArtifact =
  fa_id :: uuid
  fa_workspace_id :: uuid
  fa_production_job_id :: uuid
  fa_content_item_id :: uuid
  fa_content_version_id :: uuid
  fa_render_asset_id :: "uuid option"
  fa_render_provider :: string
  fa_render_job_id :: "string option"
  fa_artifact_hash :: string
  fa_storage_reference :: json
  fa_duration_seconds :: "usd option"
  fa_resolution :: json
  fa_aspect_ratio :: "string option"
  fa_container :: "string option"
  fa_codec :: "string option"
  fa_cost_usd :: usd
  fa_status :: string
  fa_test_data :: bool
  fa_created_by :: "uuid option"

record MediaQaResult =
  mq_id :: uuid
  mq_workspace_id :: uuid
  mq_final_artifact_id :: uuid
  mq_artifact_hash :: string
  mq_auditor_worker_id :: string
  mq_status :: string
  mq_checks_run :: "json list"
  mq_visual_findings :: "json list"
  mq_audio_findings :: "json list"
  mq_subtitle_findings :: "json list"
  mq_script_alignment :: json
  mq_platform_check :: json
  mq_package_alignment :: json
  mq_evidence :: "json list"
  mq_recommended_repair :: "json list"
  mq_cost_usd :: usd
  mq_started_at :: "datetime option"
  mq_completed_at :: "datetime option"
  mq_test_data :: bool
  mq_created_at :: datetime

record ProductionRepair =
  pp_id :: uuid
  pp_workspace_id :: uuid
  pp_production_job_id :: uuid
  pp_final_artifact_id :: "uuid option"
  pp_media_qa_result_id :: "uuid option"
  pp_affected_component :: string
  pp_finding_snapshot :: json
  pp_repair_operation :: string
  pp_repair_cycle :: int
  pp_status :: string
  pp_cost_usd :: usd
  pp_provider_calls_used :: int
  pp_result_references :: json
  pp_test_data :: bool
  pp_created_by :: "uuid option"

record ArtifactInvalidation =
  ax_id :: uuid
  ax_workspace_id :: uuid
  ax_final_artifact_id :: uuid
  ax_media_qa_result_id :: "uuid option"
  ax_reason :: string
  ax_affected_dimensions :: "json list"
  ax_created_by :: "uuid option"

record ProductionReadiness =
  rd_id :: uuid
  rd_workspace_id :: uuid
  rd_final_artifact_id :: uuid
  rd_content_version_id :: uuid
  rd_media_qa_state :: string
  rd_compliance_state :: string
  rd_chief_audit_state :: string
  rd_human_review_state :: string
  rd_status :: string
  rd_blocking_reasons :: "json list"
  rd_total_cost_usd :: usd
  rd_test_data :: bool
  rd_created_by :: "uuid option"

record ArtifactRightsEvidence =
  re_id :: uuid
  re_workspace_id :: uuid
  re_final_artifact_id :: uuid
  re_asset_id :: "uuid option"
  re_origin :: string
  re_provider_or_source :: "string option"
  re_license_or_right_basis :: "string option"
  re_generation_record :: json
  re_source_reference :: "string option"
  re_modification_lineage :: json
  re_rights_status :: string
  re_test_data :: bool
  re_created_by :: "uuid option"

record AuditGateManifest =
  gm_id :: uuid
  gm_workspace_id :: uuid
  gm_content_type :: string
  gm_manifest_version :: int
  gm_required_gates :: "json list"
  gm_requirements :: json
  gm_is_active :: bool
  gm_test_data :: bool
  gm_created_by :: "uuid option"

record ComplianceAudit =
  co_id :: uuid
  co_workspace_id :: uuid
  co_final_artifact_id :: uuid
  co_artifact_hash :: string
  co_content_version_id :: uuid
  co_target_platform :: string
  co_policy_source_id :: "uuid option"
  co_policy_version :: "string option"
  co_compliance_worker_id :: string
  co_input_snapshot :: json
  co_status :: string
  co_risk_level :: string
  co_findings :: "json list"
  co_evidence :: "json list"
  co_required_disclosures :: "json list"
  co_rights_status :: string
  co_reused_content_risk :: string
  co_monetization_risk :: string
  co_recommended_action :: "string option"
  co_provider_state :: string
  co_provider_calls_used :: int
  co_verification_calls_used :: int
  co_token_count :: int
  co_cost_usd :: usd
  co_retry_history :: "json list"
  co_started_at :: "datetime option"
  co_completed_at :: "datetime option"
  co_test_data :: bool
  co_created_at :: datetime

record ComplianceInvalidation =
  ox_id :: uuid
  ox_workspace_id :: uuid
  ox_compliance_audit_id :: uuid
  ox_final_artifact_id :: uuid
  ox_reason :: string
  ox_affected_dimensions :: "json list"
  ox_created_by :: "uuid option"

record ChiefAudit =
  ch_id :: uuid
  ch_workspace_id :: uuid
  ch_final_artifact_id :: uuid
  ch_artifact_hash :: string
  ch_content_version_id :: uuid
  ch_gate_manifest_id :: uuid
  ch_chief_auditor_worker_id :: string
  ch_gate_snapshot :: json
  ch_lineage_status :: string
  ch_version_integrity_status :: string
  ch_cost_reconciliation_status :: string
  ch_provider_reconciliation_status :: string
  ch_warnings :: "json list"
  ch_blockers :: "json list"
  ch_evidence :: "json list"
  ch_status :: string
  ch_cost_usd :: usd
  ch_retry_history :: "json list"
  ch_started_at :: "datetime option"
  ch_completed_at :: "datetime option"
  ch_test_data :: bool
  ch_created_at :: datetime

record HumanReviewPackage =
  hp_id :: uuid
  hp_workspace_id :: uuid
  hp_final_artifact_id :: uuid
  hp_artifact_hash :: string
  hp_content_version_id :: uuid
  hp_chief_audit_id :: uuid
  hp_review_gate_id :: "uuid option"
  hp_target_platform :: string
  hp_package_snapshot :: json
  hp_warnings :: "json list"
  hp_required_disclosures :: "json list"
  hp_total_cost_usd :: usd
  hp_test_data :: bool
  hp_created_by :: "uuid option"
  hp_created_at :: datetime

record ArtifactPublicationEligibility =
  ae_id :: uuid
  ae_workspace_id :: uuid
  ae_final_artifact_id :: uuid
  ae_artifact_hash :: string
  ae_content_version_id :: uuid
  ae_target_platform :: string
  ae_chief_audit_id :: "uuid option"
  ae_review_gate_id :: "uuid option"
  ae_review_decision_id :: "uuid option"
  ae_status :: string
  ae_blocking_reasons :: "json list"
  ae_publication_eligible :: bool
  ae_test_data :: bool
  ae_created_by :: "uuid option"

section \<open>The state\<close>

record dept =
  core :: db
  environment :: string
  profiles_content :: "WorkspaceContentProfile list"
  research_runs :: "ResearchRun list"
  research_sources :: "ResearchSource list"
  opportunities :: "Opportunity list"
  evidences :: "OpportunityEvidence list"
  research_audits :: "ResearchAudit list"
  research_schedules :: "ResearchSchedule list"
  strategy_runs :: "StrategyRun list"
  briefs :: "StrategyBrief list"
  brief_links :: "StrategyBriefOpportunity list"
  strategy_audits :: "StrategyAudit list"
  strategy_schedules :: "StrategySchedule list"
  department_runs :: "ContentDepartmentRun list"
  directions :: "CreativeDirection list"
  packages :: "ContentPackage list"
  claims :: "ContentClaim list"
  content_audits :: "ContentAudit list"
  audit_invalidations :: "ContentAuditInvalidation list"
  fingerprints :: "OriginalityFingerprint list"
  production_jobs :: "ProductionJob list"
  production_assets :: "ProductionAsset list"
  artifacts :: "FinalArtifact list"
  media_qas :: "MediaQaResult list"
  repairs :: "ProductionRepair list"
  artifact_invalidations :: "ArtifactInvalidation list"
  readinesses :: "ProductionReadiness list"
  rights :: "ArtifactRightsEvidence list"
  manifests :: "AuditGateManifest list"
  compliance_audits :: "ComplianceAudit list"
  compliance_invalidations :: "ComplianceInvalidation list"
  chief_audits :: "ChiefAudit list"
  review_packages :: "HumanReviewPackage list"
  artifact_eligibilities :: "ArtifactPublicationEligibility list"

type_synonym 'a D = "(dept, exn, 'a) op"

definition empty_dept :: "db \<Rightarrow> string \<Rightarrow> dept" where
  "empty_dept c env = \<lparr> core = c, environment = env,
     profiles_content = [], research_runs = [], research_sources = [], opportunities = [], evidences = [], research_audits = [], research_schedules = [], strategy_runs = [], briefs = [], brief_links = [], strategy_audits = [], strategy_schedules = [], department_runs = [], directions = [], packages = [], claims = [], content_audits = [], audit_invalidations = [], fingerprints = [], production_jobs = [], production_assets = [], artifacts = [], media_qas = [], repairs = [], artifact_invalidations = [], readinesses = [], rights = [], manifests = [], compliance_audits = [], compliance_invalidations = [], chief_audits = [], review_packages = [], artifact_eligibilities = [] \<rparr>"

section \<open>Operations on it\<close>

text \<open>An operation of the engine, run in the department's session.\<close>

definition in_core :: "'a M \<Rightarrow> 'a D" where
  "in_core m = (\<lambda>d. case m (core d) of (r, c) \<Rightarrow> (r, d\<lparr>core := c\<rparr>))"

definition now :: "datetime D" where "now = in_core utcnow"
definition fresh :: "uuid D" where "fresh = in_core uuid4"

text \<open>\<open>emit\<close> as these services call it: with the run's trace id, if it has one, and no span.\<close>

definition emit_on :: "string \<Rightarrow> uuid \<Rightarrow> string \<Rightarrow> uuid \<Rightarrow> uuid \<Rightarrow> string option \<Rightarrow> json \<Rightarrow> string \<Rightarrow> unit D" where
  "emit_on event_type workspace_id aggregate_type aggregate_id correlation_id trace_id payload produced_by =
     andThen (in_core (emit_full event_type workspace_id aggregate_type aggregate_id correlation_id payload produced_by
       None trace_id None 1)) (ret ())"

definition one_of :: "(dept \<Rightarrow> 'r list) \<Rightarrow> 'r option D" where
  "one_of q = (\<lambda>d. (scalar_one_or_none (q d), d))"

text \<open>\<open>session.add\<close> and its flush, under a unique constraint.\<close>

definition insert_if :: "(dept \<Rightarrow> bool) \<Rightarrow> (dept \<Rightarrow> dept) \<Rightarrow> unit D" where
  "insert_if free f = (\<lambda>d. if free d then (Inr (), f d) else (Inl IntegrityError, d))"

text \<open>
  A row with its primary key, its unique constraint (\<open>clash\<close>: two rows that cannot both be there) and the foreign keys a proof
  needs (\<open>linked\<close>).
\<close>

definition add_row ::
  "('r \<Rightarrow> uuid) \<Rightarrow> (dept \<Rightarrow> 'r list) \<Rightarrow> (('r list \<Rightarrow> 'r list) \<Rightarrow> dept \<Rightarrow> dept) \<Rightarrow> ('r \<Rightarrow> 'r \<Rightarrow> bool) \<Rightarrow> (dept \<Rightarrow> 'r \<Rightarrow> bool) \<Rightarrow> 'r \<Rightarrow> unit D" where
  "add_row key tab upd clash linked r =
     insert_if (\<lambda>d. linked d r \<and> (\<forall>q \<in> set (tab d). key q \<noteq> key r \<and> \<not> clash q r)) (upd (\<lambda>rs. rs @ [r]))"

text \<open>A route's session: what raises is rolled back.\<close>

definition session :: "'a D \<Rightarrow> 'a D" where
  "session m = savepoint (\<lambda>d d'. d\<lparr>core := (core d)\<lparr>tick := tick (core d')\<rparr>\<rparr>) m"

lemma in_core_exec [exec]: "in_core m d = (case m (core d) of (r, c) \<Rightarrow> (r, d\<lparr>core := c\<rparr>))"
  by (simp add: in_core_def)

lemma env_exec [exec]:
  "now d = (Inr (clock (core d) (tick (core d))), d\<lparr>core := (core d)\<lparr>tick := Suc (tick (core d))\<rparr>\<rparr>)"
  "fresh d = (Inr (uuids (core d) (tick (core d))), d\<lparr>core := (core d)\<lparr>tick := Suc (tick (core d))\<rparr>\<rparr>)"
  by (simp_all add: now_def fresh_def in_core_exec utcnow_exec uuid4_exec)

lemma one_of_exec [exec]: "one_of q d = (scalar_one_or_none (q d), d)"
  by (simp add: one_of_def)

lemma insert_if_exec [exec]: "insert_if free f d = (if free d then (Inr (), f d) else (Inl IntegrityError, d))"
  by (simp add: insert_if_def)

lemma session_exec:
  "session m d = (case m d of (r, d') \<Rightarrow> (case r of Inl e \<Rightarrow> (Inl e, d\<lparr>core := (core d)\<lparr>tick := tick (core d')\<rparr>\<rparr>) | Inr x \<Rightarrow> (Inr x, d')))"
  by (simp add: session_def savepoint_def)

text \<open>What runs in the engine's database leaves the department's tables alone.\<close>

lemma keeps_in_core [steps_intro]: "(\<And>d c. f (d\<lparr>core := c\<rparr>) = f d) \<Longrightarrow> keeps f (in_core m)"
  by (auto simp: steps_def eqOn_def in_core_def split: prod.splits)

lemma keeps_dept [steps_intro]:
  assumes "\<And>d c. f (d\<lparr>core := c\<rparr>) = f d"
  shows "keeps f now" "keeps f fresh" "keeps f (emit_on ty w at' a co tr p by')"
  unfolding now_def fresh_def emit_on_def by (intro steps_intro assms)+

lemma keeps_one_of [steps_intro]: "keeps f (one_of q)"
  by (simp add: steps_def eqOn_def one_of_def)

lemma keeps_insert_if [steps_intro]: "(\<And>d. f (g d) = f d) \<Longrightarrow> keeps f (insert_if free g)"
  by (simp add: steps_def eqOn_def insert_if_def)

lemma add_row_exec [exec]:
  "add_row key tab upd clash linked r d =
     (if linked d r \<and> (\<forall>q \<in> set (tab d). key q \<noteq> key r \<and> \<not> clash q r) then (Inr (), upd (\<lambda>rs. rs @ [r]) d) else (Inl IntegrityError, d))"
  by (simp add: add_row_def insert_if_exec)

lemma keeps_add_row [steps_intro]: "(\<And>d h. f (upd h d) = f d) \<Longrightarrow> keeps f (add_row key tab upd clash linked r)"
  unfolding add_row_def by (intro steps_intro)

lemma pres_in_core [steps_intro]: "(\<And>d c. I d \<Longrightarrow> I (d\<lparr>core := c\<rparr>)) \<Longrightarrow> pres I (in_core m)"
  by (auto simp: steps_def keepsInv_def in_core_def split: prod.splits)

lemma pres_dept [steps_intro]:
  assumes "\<And>d c. I d \<Longrightarrow> I (d\<lparr>core := c\<rparr>)"
  shows "pres I now" "pres I fresh" "pres I (emit_on ty w at' a co tr p by')"
  unfolding now_def fresh_def emit_on_def by (intro steps_intro; simp add: assms)+

lemma pres_one_of [steps_intro]: "pres I (one_of q)"
  by (simp add: steps_def keepsInv_def one_of_def)

lemma pres_add_row:
  assumes "\<And>d. I d \<Longrightarrow> linked d r \<Longrightarrow> \<forall>q \<in> set (tab d). key q \<noteq> key r \<and> \<not> clash q r \<Longrightarrow> I (upd (\<lambda>rs. rs @ [r]) d)"
  shows "pres I (add_row key tab upd clash linked r)"
  using assms by (auto simp: steps_def keepsInv_def add_row_exec)

text \<open>A session preserves what its successful runs preserve.\<close>

lemma pres_session:
  assumes "\<And>d x d'. I d \<Longrightarrow> m d = (Inr x, d') \<Longrightarrow> I d'" and "\<And>d c. I d \<Longrightarrow> I (d\<lparr>core := c\<rparr>)"
  shows "pres I (session m)"
  unfolding steps_def keepsInv_def
proof (intro allI impI)
  fix d
  assume "I d"
  then show "I (snd (session m d))"
    using assms by (cases "m d"; cases "fst (m d)") (auto simp: session_exec)
qed

lemma keeps_pres: "keeps f m \<Longrightarrow> (\<And>d d'. f d' = f d \<Longrightarrow> I d \<Longrightarrow> I d') \<Longrightarrow> pres I m"
  by (simp add: steps_def eqOn_def keepsInv_def)

lemma emit_on_exec: "\<exists>c. emit_on ty w at' a co tr p by' d = (Inr (), d\<lparr>core := c\<rparr>)"
  by (auto simp: emit_on_def andThen_exec in_core_exec emit_full_exec ret_exec split: prod.splits sum.splits)

end
