(* ===== verification/Patterns.thy ===== *)
theory Patterns imports PyLib begin

text \<open>
  The regular expressions of the editorial departments (\<open>services/research.py\<close>, \<open>strategy.py\<close>, \<open>content_department.py\<close>): what
  is refused as an instruction smuggled into a text, what is redacted as a secret, and which claims are overstated. A
  backtracking matcher in the order Python's \<open>re\<close> tries the alternatives, and its agreement with the patterns' languages.
\<close>

section \<open>Expressions and the matcher\<close>

text \<open>\<open>Lit\<close> is a lower-case literal under \<open>(?i)\<close>, \<open>Many\<close> a greedy \<open>[...]*\<close>.\<close>

datatype rx = Lit string | Cls "char \<Rightarrow> bool" | Many "char \<Rightarrow> bool" | Seq rx rx | Alt rx rx

fun spans :: "(char \<Rightarrow> bool) \<Rightarrow> string \<Rightarrow> string list" where
  "spans p [] = [[]]"
| "spans p (c # s) = (if p c then spans p s @ [c # s] else [c # s])"

text \<open>What each way of matching a prefix leaves, in the order the matcher tries them.\<close>

fun tails :: "rx \<Rightarrow> string \<Rightarrow> string list" where
  "tails (Lit w) s = (if lower (take (length w) s) = w then [drop (length w) s] else [])"
| "tails (Cls p) s = (case s of [] \<Rightarrow> [] | c # t \<Rightarrow> if p c then [t] else [])"
| "tails (Many p) s = spans p s"
| "tails (Seq a b) s = concat (map (tails b) (tails a s))"
| "tails (Alt a b) s = tails a s @ tails b s"

text \<open>\<open>pattern.search(text) is not None\<close>.\<close>

fun search :: "rx \<Rightarrow> string \<Rightarrow> bool" where
  "search r [] = (tails r [] \<noteq> [])"
| "search r (c # s) = (tails r (c # s) \<noteq> [] \<or> search r s)"

text \<open>\<open>pattern.sub(new, text)\<close> for a pattern that matches no empty text: leftmost matches, each the first the matcher finds.\<close>

function sub :: "rx \<Rightarrow> string \<Rightarrow> string \<Rightarrow> string" where
  "sub r new s = (case tails r s of
      t # _ \<Rightarrow> if length t < length s then new @ sub r new t else s
    | [] \<Rightarrow> (case s of [] \<Rightarrow> [] | c # u \<Rightarrow> c # sub r new u))"
  by pat_completeness auto
termination by (relation "measure (\<lambda>(r, new, s). length s)") auto

declare sub.simps [simp del]

fun choice :: "rx list \<Rightarrow> rx" where
  "choice [] = Alt (Lit '''') (Lit '''')"
| "choice [r] = r"
| "choice (r # q # rs) = Alt r (choice (q # rs))"

fun chain :: "rx list \<Rightarrow> rx" where
  "chain [] = Lit ''''"
| "chain [r] = r"
| "chain (r # q # rs) = Seq r (chain (q # rs))"

definition Some1 :: "(char \<Rightarrow> bool) \<Rightarrow> rx" where
  "Some1 p = Seq (Cls p) (Many p)"

definition Opt :: "rx \<Rightarrow> rx" where
  "Opt r = Alt r (Lit '''')"

abbreviation spaces :: rx where "spaces \<equiv> Some1 is_space"
abbreviation blanks :: rx where "blanks \<equiv> Many is_space"

section \<open>The patterns\<close>

definition UNTRUSTED_INSTRUCTION :: rx where
  "UNTRUSTED_INSTRUCTION = choice
     [chain [Lit ''ignore'', spaces, Opt (Seq (Lit ''all'') spaces), Lit ''previous''],
      chain [Lit ''system'', spaces, Lit ''prompt''],
      chain [Lit ''developer'', spaces, Lit ''message''],
      chain [Lit ''reveal'', spaces, choice [Lit ''secret'', Lit ''token'', Lit ''password'']],
      chain [Lit ''bypass'', spaces, choice [Lit ''review'', Lit ''security'']],
      chain [Lit ''execute'', spaces, Lit ''this'', spaces, Lit ''instruction'']]"

definition SECRET_PATTERN :: rx where
  "SECRET_PATTERN = chain
     [choice [chain [Lit ''api'', Opt (Cls (\<lambda>c. c \<in> set ''_ -'')), Lit ''key''], Lit ''authorization'', Lit ''bearer'',
        Lit ''oauth'', Lit ''token'', Lit ''password''],
      blanks, Cls (\<lambda>c. c \<in> set '':=''), blanks, Some1 (\<lambda>c. \<not> is_space c \<and> c \<notin> set '',;'')]"

definition expected_views :: rx where
  "expected_views = chain [Lit ''expected'', spaces, Some1 is_digit, Opt (Cls (\<lambda>c. lower_char c \<in> set ''km'')), spaces, Lit ''views'']"

definition OVERSTATED_PATTERN :: rx where
  "OVERSTATED_PATTERN = choice
     [chain [Lit ''will'', spaces, Lit ''go'', spaces, Lit ''viral''],
      chain [Lit ''guaranteed'', spaces, choice [Lit ''winner'', Lit ''success'']],
      expected_views]"

definition UNSUPPORTED_CLAIM :: rx where
  "UNSUPPORTED_CLAIM = choice
     [chain [Lit ''will'', spaces, Lit ''go'', spaces, Lit ''viral''],
      chain [Lit ''guaranteed'', spaces, choice [Lit ''winner'', Lit ''success'']],
      expected_views,
      chain [Lit ''increase'', spaces, choice [Lit ''revenue'', Lit ''profit''], spaces, Lit ''by'', spaces, Cls is_digit]]"

definition is_alnum :: "char \<Rightarrow> bool" where
  "is_alnum c = (let k = (of_char c :: nat) in (48 \<le> k \<and> k \<le> 57) \<or> (65 \<le> k \<and> k \<le> 90) \<or> (97 \<le> k \<and> k \<le> 122))"

text \<open>\<open>re.compile(r"(?<=[.!?])\s+").split(text)\<close>; \<open>acc\<close> is the piece read so far, reversed.\<close>

function split_sentences :: "string \<Rightarrow> string \<Rightarrow> string list" where
  "split_sentences acc [] = [rev acc]"
| "split_sentences acc (c # s) =
     (if is_space c \<and> acc \<noteq> [] \<and> hd acc \<in> set ''.!?'' then rev acc # split_sentences [] (dropWhile is_space s)
      else split_sentences (c # acc) s)"
  by pat_completeness auto
termination by (relation "measure (\<lambda>(acc, s). length s)") (auto simp: le_imp_less_Suc length_dropWhile_le)

section \<open>Agreement with the languages\<close>

fun lang :: "rx \<Rightarrow> string set" where
  "lang (Lit w) = {v. lower v = w}"
| "lang (Cls p) = {[c] | c. p c}"
| "lang (Many p) = {v. list_all p v}"
| "lang (Seq a b) = {u @ v | u v. u \<in> lang a \<and> v \<in> lang b}"
| "lang (Alt a b) = lang a \<union> lang b"

lemma spans_iff: "t \<in> set (spans p s) \<longleftrightarrow> (\<exists>v. list_all p v \<and> s = v @ t)"
proof (induction s)
  case Nil
  then show ?case by auto
next
  case (Cons c s)
  show ?case
  proof
    assume "t \<in> set (spans p (c # s))"
    then consider "p c" "t \<in> set (spans p s)" | "t = c # s" by (auto split: if_splits)
    then show "\<exists>v. list_all p v \<and> c # s = v @ t"
    proof cases
      case 1
      then obtain v where "list_all p v" "s = v @ t" using Cons.IH by blast
      then show ?thesis using 1 by (intro exI [of _ "c # v"]) simp
    qed (auto intro: exI [of _ "[]"])
  next
    assume "\<exists>v. list_all p v \<and> c # s = v @ t"
    then obtain v where v: "list_all p v" "c # s = v @ t" by blast
    then show "t \<in> set (spans p (c # s))" using Cons.IH by (cases v) auto
  qed
qed

lemma length_lower [simp]: "length (lower s) = length s"
  by (simp add: lower_def)

lemma tails_iff: "t \<in> set (tails r s) \<longleftrightarrow> (\<exists>v. v \<in> lang r \<and> s = v @ t)"
proof (induction r arbitrary: s t)
  case (Lit w)
  show ?case
  proof
    assume "t \<in> set (tails (Lit w) s)"
    then have "lower (take (length w) s) = w" "t = drop (length w) s" by (auto split: if_splits)
    then show "\<exists>v. v \<in> lang (Lit w) \<and> s = v @ t"
      by (intro exI [of _ "take (length w) s"]) simp
  next
    assume "\<exists>v. v \<in> lang (Lit w) \<and> s = v @ t"
    then obtain v where "lower v = w" "s = v @ t" by auto
    then show "t \<in> set (tails (Lit w) s)" using length_lower [of v] by simp
  qed
next
  case (Cls p)
  then show ?case by (cases s) auto
next
  case (Many p)
  then show ?case by (simp add: spans_iff)
next
  case (Seq a b)
  have "t \<in> set (tails (Seq a b) s) \<longleftrightarrow> (\<exists>m. m \<in> set (tails a s) \<and> t \<in> set (tails b m))" by auto
  also have "\<dots> \<longleftrightarrow> (\<exists>u v. u \<in> lang a \<and> v \<in> lang b \<and> s = u @ v @ t)" using Seq by auto
  also have "\<dots> \<longleftrightarrow> (\<exists>w. w \<in> lang (Seq a b) \<and> s = w @ t)" by auto blast
  finally show ?case .
next
  case (Alt a b)
  then show ?case by auto
qed

lemma search_tails: "search r s \<longleftrightarrow> (\<exists>u w. s = u @ w \<and> tails r w \<noteq> [])"
proof (induction s)
  case (Cons c s)
  show ?case
  proof
    assume "search r (c # s)"
    then consider "tails r (c # s) \<noteq> []" | "search r s" by auto
    then show "\<exists>u w. c # s = u @ w \<and> tails r w \<noteq> []"
    proof cases
      case 2
      then obtain u w where "s = u @ w" "tails r w \<noteq> []" using Cons.IH by blast
      then show ?thesis by (intro exI [of _ "c # u"] exI [of _ w]) simp
    qed (auto intro: exI [of _ "[]"])
  next
    assume "\<exists>u w. c # s = u @ w \<and> tails r w \<noteq> []"
    then obtain u w where u: "c # s = u @ w" "tails r w \<noteq> []" by blast
    then show "search r (c # s)" using Cons.IH by (cases u) auto
  qed
qed simp

lemma search_iff: "search r s \<longleftrightarrow> (\<exists>u v w. s = u @ v @ w \<and> v \<in> lang r)"
proof -
  have "tails r q \<noteq> [] \<longleftrightarrow> (\<exists>v w. q = v @ w \<and> v \<in> lang r)" for q
    using tails_iff [of _ r q] by (metis list.set_intros(1) neq_Nil_conv empty_iff list.set(1))
  then show ?thesis by (auto simp: search_tails)
qed

lemma search_append: "search r s \<Longrightarrow> search r (a @ s @ b)"
  by (auto simp: search_iff) (metis append.assoc)

text \<open>A substitution keeps a text without a match.\<close>

lemma sub_no_match: "\<not> search r s \<Longrightarrow> sub r new s = s"
proof (induction s)
  case Nil
  then show ?case by (subst sub.simps) simp
next
  case (Cons c s)
  then show ?case by (subst sub.simps) simp
qed

text \<open>A cheap test for the absence of an instruction: every match has one of two letters.\<close>

lemma untrusted_letters:
  assumes "search UNTRUSTED_INSTRUCTION t"
  shows "CHR ''s'' \<in> set (lower t) \<or> CHR ''v'' \<in> set (lower t)"
proof -
  have cons: "lower (c # s) = lower_char c # lower s" for c s by (simp add: lower_def)
  have app: "lower (a @ b) = lower a @ lower b" for a b by (simp add: lower_def)
  obtain a v b where t: "t = a @ v @ b" and v: "v \<in> lang UNTRUSTED_INSTRUCTION" using assms by (auto simp: search_iff)
  have "CHR ''s'' \<in> set (lower v) \<or> CHR ''v'' \<in> set (lower v)"
    using v by (auto simp: UNTRUSTED_INSTRUCTION_def Some1_def Opt_def app cons)
  then show ?thesis by (auto simp: t app)
qed

end
