(* ===== verification/Urls.thy ===== *)
theory Urls imports PyLib begin

text \<open>
  What \<open>_canonical_url\<close> of \<open>services/research.py\<close> uses of \<open>urllib.parse\<close> (\<open>urlsplit\<close> and the fields of its result,
  \<open>urlunsplit\<close>) and of \<open>ipaddress\<close> (the textual forms of addresses and their special ranges), for Python 3.12, and the function
  itself.
\<close>

section \<open>Splitting\<close>

text \<open>\<open>s.partition(c)\<close> and \<open>s.rpartition(c)\<close>: before, whether \<open>c\<close> occurs, after.\<close>

definition str_partition :: "char \<Rightarrow> string \<Rightarrow> string \<times> bool \<times> string" where
  "str_partition c s = (let a = takeWhile (\<lambda>x. x \<noteq> c) s; b = dropWhile (\<lambda>x. x \<noteq> c) s in (a, b \<noteq> [], tl b))"

definition str_rpartition :: "char \<Rightarrow> string \<Rightarrow> string \<times> bool \<times> string" where
  "str_rpartition c s = (case str_partition c (rev s) of (a, found, b) \<Rightarrow> (rev b, found, rev a))"

record SplitResult =
  url_scheme :: string
  url_netloc :: string
  url_path :: string
  url_query :: string

definition is_letter :: "char \<Rightarrow> bool" where
  "is_letter c = (let k = (of_char c :: nat) in (65 \<le> k \<and> k \<le> 90) \<or> (97 \<le> k \<and> k \<le> 122))"

definition scheme_char :: "char \<Rightarrow> bool" where
  "scheme_char c \<longleftrightarrow> is_letter c \<or> is_digit c \<or> c \<in> set ''+-.''"

definition split_scheme :: "string \<Rightarrow> string \<times> string" where
  "split_scheme url = (case str_partition (CHR '':'') url of (s, found, rest) \<Rightarrow>
     if found \<and> s \<noteq> [] \<and> is_letter (hd s) \<and> list_all scheme_char s then (lower s, rest) else ([], url))"

section \<open>Addresses\<close>

text \<open>\<open>ipaddress.ip_address(text)\<close>: \<open>None\<close> where it raises \<open>ValueError\<close>.\<close>

datatype address = IPv4 nat | IPv6 nat

definition octet :: "string \<Rightarrow> nat option" where
  "octet s = (if s \<noteq> [] \<and> list_all is_digit s \<and> length s \<le> 3 \<and> (hd s = CHR ''0'' \<longrightarrow> length s = 1)
     \<and> digits_value 10 (map char_digit s) \<le> 255 then Some (digits_value 10 (map char_digit s)) else None)"

definition ipv4 :: "string \<Rightarrow> nat option" where
  "ipv4 s = (case map octet (split_on (CHR ''.'') s) of
     [Some a, Some b, Some c, Some d] \<Rightarrow> Some (((a * 256 + b) * 256 + c) * 256 + d)
   | _ \<Rightarrow> None)"

definition is_hex :: "char \<Rightarrow> bool" where
  "is_hex c = (is_digit c \<or> lower_char c \<in> set ''abcdef'')"

definition hextet :: "string \<Rightarrow> nat option" where
  "hextet s = (if s \<noteq> [] \<and> list_all is_hex s \<and> length s \<le> 4
     then Some (digits_value 16 (map (\<lambda>c. char_digit (lower_char c)) s)) else None)"

definition hextets :: "string list \<Rightarrow> nat option" where
  "hextets ps = (if list_all (\<lambda>p. hextet p \<noteq> None) ps then Some (digits_value 65536 (map (\<lambda>p. the (hextet p)) ps)) else None)"

text \<open>A dotted suffix stands for two groups.\<close>

definition expand_suffix :: "string list \<Rightarrow> nat list option \<times> string list" where
  "expand_suffix ps = (if ps \<noteq> [] \<and> CHR ''.'' \<in> set (last ps)
     then (case ipv4 (last ps) of None \<Rightarrow> (None, butlast ps) | Some n \<Rightarrow> (Some [n div 65536, n mod 65536], butlast ps))
     else (Some [], ps))"

definition skip_positions :: "string list \<Rightarrow> nat \<Rightarrow> nat list" where
  "skip_positions ps extra = filter (\<lambda>i. ps ! i = []) [1 ..< min (length ps) (length ps + extra - 1)]"

definition ipv6_groups :: "string list \<Rightarrow> nat list \<Rightarrow> nat option" where
  "ipv6_groups ps suffix =
     (let n = length ps + length suffix in
      if 9 < n then None
      else (case skip_positions ps (length suffix) of
          [] \<Rightarrow> if n \<noteq> 8 then None else map_option (\<lambda>v. v * 65536 ^ length suffix + digits_value 65536 suffix) (hextets ps)
        | [i] \<Rightarrow>
            let hi = (if ps ! 0 = [] then take i ps \<noteq> [[]] else False);
                lo = (suffix = [] \<and> last ps = [] \<and> drop (Suc i) ps \<noteq> [[]]);
                front = (if ps ! 0 = [] then [] else take i ps);
                back = (if suffix = [] \<and> last ps = [] then [] else drop (Suc i) ps);
                skipped = 8 - int (length front + length back + length suffix)
            in if hi \<or> lo \<or> skipped < 1 then None
               else (case (hextets front, hextets back) of
                   (Some f, Some b) \<Rightarrow> Some (f * 65536 ^ (8 - length front)
                      + b * 65536 ^ length suffix + digits_value 65536 suffix)
                 | _ \<Rightarrow> None)
        | _ \<Rightarrow> None))"

definition ipv6 :: "string \<Rightarrow> nat option" where
  "ipv6 s = (case str_partition (CHR ''%'') s of (addr, scoped, scope) \<Rightarrow>
     if scoped \<and> (scope = [] \<or> CHR ''%'' \<in> set scope) \<or> CHR ''/'' \<in> set s then None
     else let parts = split_on (CHR '':'') addr in
       if length parts < 3 then None
       else (case expand_suffix parts of (None, _) \<Rightarrow> None | (Some suffix, ps) \<Rightarrow> ipv6_groups ps suffix))"

definition ip_address :: "string \<Rightarrow> address option" where
  "ip_address s = (case ipv4 s of Some n \<Rightarrow> Some (IPv4 n) | None \<Rightarrow> map_option IPv6 (ipv6 s))"

text \<open>\<open>is_private\<close>, \<open>is_loopback\<close>, \<open>is_link_local\<close> or \<open>is_reserved\<close>: the address is in one of the networks.\<close>

definition in_network :: "nat \<Rightarrow> nat \<Rightarrow> nat \<times> nat \<Rightarrow> bool" where
  "in_network width a n = (case n of (base, bits) \<Rightarrow> a div 2 ^ (width - bits) = base div 2 ^ (width - bits))"

definition quad :: "nat \<Rightarrow> nat \<Rightarrow> nat \<Rightarrow> nat \<Rightarrow> nat" where
  "quad a b c d = ((a * 256 + b) * 256 + c) * 256 + d"

definition special_ipv4 :: "(nat \<times> nat) list" where
  "special_ipv4 = [(quad 0 0 0 0, 8), (quad 10 0 0 0, 8), (quad 127 0 0 0, 8), (quad 169 254 0 0, 16), (quad 172 16 0 0, 12),
     (quad 192 0 0 0, 29), (quad 192 0 0 170, 31), (quad 192 0 2 0, 24), (quad 192 168 0 0, 16), (quad 198 18 0 0, 15),
     (quad 198 51 100 0, 24), (quad 203 0 113 0, 24), (quad 240 0 0 0, 4), (quad 255 255 255 255, 32)]"

text \<open>The first group of the network, with the groups below it zero, and two longer prefixes.\<close>

definition special_ipv6 :: "(nat \<times> nat) list" where
  "special_ipv6 = map (\<lambda>(g, b). (g * 65536 ^ 7, b))
     [(0, 8), (0x100, 8), (0x200, 7), (0x400, 6), (0x800, 5), (0x1000, 4), (0x4000, 3), (0x6000, 3), (0x8000, 3), (0xA000, 3),
      (0xC000, 3), (0xE000, 4), (0xF000, 5), (0xF800, 6), (0xFE00, 9), (0xFC00, 7), (0xFE80, 10), (0x2001, 23)]
     @ [((0x2001 * 65536 + 0xDB8) * 65536 ^ 6, 32)]"

definition special_address :: "address \<Rightarrow> bool" where
  "special_address a = (case a of
     IPv4 n \<Rightarrow> list_ex (in_network 32 n) special_ipv4
   | IPv6 n \<Rightarrow> list_ex (in_network 128 n) special_ipv6)"

section \<open>Splitting and joining a URL\<close>

definition c0_or_space :: "char \<Rightarrow> bool" where
  "c0_or_space c = ((of_char c :: nat) \<le> 32)"

definition bracketed_host_ok :: "string \<Rightarrow> bool" where
  "bracketed_host_ok h =
     (if take 1 h = ''v'' then
        (case str_partition (CHR ''.'') (tl h) of (v, found, rest) \<Rightarrow> v \<noteq> [] \<and> list_all is_hex v \<and> found \<and> rest \<noteq> [])
      else (case ip_address h of Some (IPv6 _) \<Rightarrow> True | _ \<Rightarrow> False))"

definition host_info :: "string \<Rightarrow> string \<times> bool \<times> string \<times> string" where
  "host_info netloc = (case str_rpartition (CHR ''@'') netloc of (_, _, info) \<Rightarrow>
     (case str_partition (CHR ''['') info of (pre, br, bracketed) \<Rightarrow>
        if br then (case str_partition (CHR '']'') bracketed of (h, _, after) \<Rightarrow> (pre, True, h, after))
        else (case str_partition (CHR '':'') info of (h, _, port) \<Rightarrow> ([], False, h, port))))"

definition netloc_ok :: "string \<Rightarrow> bool" where
  "netloc_ok n =
     (if CHR ''['' \<in> set n \<and> CHR '']'' \<in> set n then
        (case host_info n of (pre, br, h, after) \<Rightarrow>
           (br \<longrightarrow> pre = [] \<and> (after = [] \<or> hd after = CHR '':'')) \<and> bracketed_host_ok h)
      else CHR ''['' \<notin> set n \<and> CHR '']'' \<notin> set n)"

definition urlsplit :: "string \<Rightarrow> exn + SplitResult" where
  "urlsplit u =
     (let u = filter (\<lambda>c. (of_char c :: nat) \<notin> {9, 10, 13}) (dropWhile c0_or_space u);
          (scheme, url) = split_scheme u;
          (netloc, url) = (if take 2 url = ''//'' then
              (takeWhile (\<lambda>c. c \<notin> set ''/?#'') (drop 2 url), dropWhile (\<lambda>c. c \<notin> set ''/?#'') (drop 2 url)) else ([], url));
          url = fst (str_partition (CHR ''#'') url)
      in if netloc_ok netloc then
           (case str_partition (CHR ''?'') url of (path, _, query) \<Rightarrow>
              Inr \<lparr> url_scheme = scheme, url_netloc = netloc, url_path = path, url_query = query \<rparr>)
         else Inl (ValueError ''Invalid IPv6 URL''))"

text \<open>\<open>result.hostname\<close> (\<open>None\<close> as the empty text), and whether \<open>result.username\<close> or \<open>result.password\<close> is a non-empty text.\<close>

definition hostname :: "SplitResult \<Rightarrow> string" where
  "hostname r = (case host_info (url_netloc r) of (_, _, h, _) \<Rightarrow>
     (case str_partition (CHR ''%'') h of (name, pct, zone) \<Rightarrow> lower name @ (if pct then ''%'' else []) @ zone))"

definition has_credentials :: "SplitResult \<Rightarrow> bool" where
  "has_credentials r = (case str_rpartition (CHR ''@'') (url_netloc r) of (userinfo, found, _) \<Rightarrow>
     found \<and> (case str_partition (CHR '':'') userinfo of (name, _, pw) \<Rightarrow> name \<noteq> [] \<or> pw \<noteq> []))"

definition urlunsplit :: "string \<Rightarrow> string \<Rightarrow> string \<Rightarrow> string \<Rightarrow> string" where
  "urlunsplit scheme netloc path query =
     (let path = (if path \<noteq> [] \<and> take 1 path \<noteq> ''/'' then ''/'' @ path else path);
          url = (if netloc \<noteq> [] \<or> take 2 path \<noteq> ''//'' then ''//'' @ netloc @ path else path)
      in scheme @ '':'' @ url @ (if query = [] then [] else ''?'' @ query))"

section \<open>Canonical source URLs\<close>

definition rstrip_char :: "char \<Rightarrow> string \<Rightarrow> string" where
  "rstrip_char c s = rev (dropWhile (\<lambda>x. x = c) (rev s))"

definition canonical_url :: "string \<Rightarrow> exn + string" where
  "canonical_url value =
     (case urlsplit (strip value) of
        Inl e \<Rightarrow> Inl e
      | Inr parsed \<Rightarrow>
          if url_scheme parsed \<notin> {''http'', ''https''} \<or> hostname parsed = [] \<or> has_credentials parsed then
            Inl (ValueError ''source URL must be a public http(s) URL without embedded credentials'')
          else let host = rstrip_char (CHR ''.'') (lower (hostname parsed)) in
            if host \<in> {''localhost'', ''localhost.localdomain''} then
              Inl (ValueError ''private or localhost source URL is not permitted'')
            else if (case ip_address host of None \<Rightarrow> contains ''private or local'' host | Some a \<Rightarrow> special_address a) then
              Inl (ValueError ''private or local source URL is not permitted'')
            else
              let path = (case rstrip_char (CHR ''/'') (url_path parsed) of [] \<Rightarrow> ''/'' | p \<Rightarrow> p)
              in Inr (urlunsplit (lower (url_scheme parsed)) host path (url_query parsed)))"

text \<open>
  What is refused, and what slips through: the address forms the platform's resolver reads as loopback but \<open>ipaddress\<close> does not
  parse, and two different origins that become one because the port is dropped.
\<close>

lemma canonical_url_accepts:
  assumes "canonical_url u = Inr c"
  shows "\<exists>p host. urlsplit (strip u) = Inr p \<and> url_scheme p \<in> {''http'', ''https''} \<and> \<not> has_credentials p
    \<and> host = rstrip_char (CHR ''.'') (lower (hostname p)) \<and> host \<noteq> ''localhost''
    \<and> (\<forall>a. ip_address host = Some a \<longrightarrow> \<not> special_address a)"
  using assms by (auto simp: canonical_url_def Let_def split: sum.splits if_splits option.splits)

end
