(* ===== verification/Research.thy ===== *)
theory Research imports Departments Patterns Urls Sha256 WorkerAuth Billing begin

text \<open>
  Scout research and the independent research auditor: \<open>services/research.py\<close>, its routes \<open>api/routes/research.py\<close> and the
  payload checks of \<open>schemas/research.py\<close>. Live runs stop at the missing provider; opportunities come from the fixture path, and only
  an audited PASS opens the strategist gate.
\<close>

section \<open>Reading a fixture\<close>

text \<open>
  A fixture is a \<open>dict[str, Any]\<close>. \<open>d.get(k, default)\<close> gives the value even where it is \<open>None\<close>; a text column takes \<open>None\<close> or a
  string, and the driver refuses anything else.
\<close>

type_synonym fields = "(string \<times> json) list"

definition get_or :: "fields \<Rightarrow> string \<Rightarrow> json \<Rightarrow> json" where
  "get_or d k v = (case map_of d k of None \<Rightarrow> v | Some x \<Rightarrow> x)"

definition opt_text :: "json \<Rightarrow> exn + string option" where
  "opt_text v = (case v of JNull \<Rightarrow> Inr None | JStr s \<Rightarrow> Inr (Some s) | _ \<Rightarrow> Inl (TypeError ''expected str''))"

definition opt_time :: "json \<Rightarrow> exn + datetime option" where
  "opt_time v = (case v of JNull \<Rightarrow> Inr None | JNum q \<Rightarrow> Inr (Some q) | _ \<Rightarrow> Inl (TypeError ''expected datetime''))"

text \<open>\<open>Decimal(str(v))\<close>.\<close>

definition decimal_arg :: "json \<Rightarrow> exn + usd" where
  "decimal_arg v = (case v of
     JNum q \<Rightarrow> Inr q
   | JStr s \<Rightarrow> (case decimal_of_str s of Some (Finite q) \<Rightarrow> Inr q | _ \<Rightarrow> Inl InvalidOperation)
   | _ \<Rightarrow> Inl InvalidOperation)"

text \<open>\<open>dict(v)\<close> and \<open>list(v)\<close>; the dict of a list of pairs does not occur.\<close>

definition as_dict :: "json \<Rightarrow> exn + json" where
  "as_dict v = (case v of JObj kvs \<Rightarrow> Inr v | JList [] \<Rightarrow> Inr (JObj []) | JStr [] \<Rightarrow> Inr (JObj [])
     | _ \<Rightarrow> Inl (TypeError ''expected dict''))"

definition as_list :: "json \<Rightarrow> exn + json list" where
  "as_list v = (case v of JList xs \<Rightarrow> Inr xs | JStr s \<Rightarrow> Inr (map (\<lambda>c. JStr [c]) s)
     | JObj kvs \<Rightarrow> Inr (map (\<lambda>(k, x). JStr k) kvs) | _ \<Rightarrow> Inl (TypeError ''expected list''))"

definition opt_or :: "string option \<Rightarrow> string" where
  "opt_or x = (case x of None \<Rightarrow> [] | Some s \<Rightarrow> s)"

section \<open>Texts\<close>

definition MAX_FIXTURE_EXCERPT :: nat where
  "MAX_FIXTURE_EXCERPT = 6000"

definition safe_excerpt :: "string option \<Rightarrow> string option \<times> string option" where
  "safe_excerpt v = (case v of
     None \<Rightarrow> (None, None)
   | Some t \<Rightarrow>
       let bounded = take MAX_FIXTURE_EXCERPT (strip t) in
       if search UNTRUSTED_INSTRUCTION bounded then (None, Some ''untrusted instruction pattern detected'')
       else (Some (sub SECRET_PATTERN ''[REDACTED_SECRET]'' bounded), None))"

definition dedupe_key :: "string \<Rightarrow> string \<Rightarrow> string option \<Rightarrow> string option \<Rightarrow> string list \<Rightarrow> string" where
  "dedupe_key topic angle platform format_name source_urls =
     sha256_hex (join [CHR 0x0A] ([lower (strip topic), lower (strip angle), lower (strip (opt_or platform)),
       lower (strip (opt_or format_name))] @ sort source_urls))"

definition run_is_terminal :: "string \<Rightarrow> bool" where
  "run_is_terminal st \<longleftrightarrow> st \<in> {''succeeded'', ''provider_not_configured'', ''budget_exhausted'', ''timeout'',
     ''source_limit_reached'', ''failed'', ''cancelled''}"

section \<open>Runs\<close>

definition emit_research :: "uuid \<Rightarrow> string \<Rightarrow> json \<Rightarrow> unit D" where
  "emit_research run_id event_type payload =
     bindM (gets (\<lambda>d. row_get rn_id run_id (research_runs d))) (\<lambda>run. case run of
       None \<Rightarrow> raise NoSuchRow
     | Some r \<Rightarrow> emit_on event_type (rn_workspace_id r) ''research_run'' (rn_id r) (rn_correlation_id r) (rn_trace_id r)
         payload ''scout-service'')"

definition set_rrun :: "uuid \<Rightarrow> (ResearchRun \<Rightarrow> ResearchRun) \<Rightarrow> unit D" where
  "set_rrun i f = modifyM (research_runs_update (row_set rn_id i f))"

definition set_opportunity :: "uuid \<Rightarrow> (Opportunity \<Rightarrow> Opportunity) \<Rightarrow> unit D" where
  "set_opportunity i f = modifyM (opportunities_update (row_set op_id i f))"

record ResearchRunCreate =
  rp_research_objective :: string
  rp_permitted_sources :: "string list"
  rp_max_searches :: int
  rp_max_provider_calls :: int
  rp_max_tokens :: int
  rp_max_cost_usd :: usd
  rp_max_attempts :: int

definition valid_research_run :: "ResearchRunCreate \<Rightarrow> bool" where
  "valid_research_run p \<longleftrightarrow> 3 \<le> length (rp_research_objective p) \<and> length (rp_research_objective p) \<le> 1000
     \<and> length (rp_permitted_sources p) \<le> 25
     \<and> (\<forall>s \<in> set (rp_permitted_sources p). strip s \<noteq> [] \<and> length (strip s) \<le> 500)
     \<and> 1 \<le> rp_max_searches p \<and> rp_max_searches p \<le> 25 \<and> 0 \<le> rp_max_provider_calls p \<and> rp_max_provider_calls p \<le> 25
     \<and> 0 \<le> rp_max_tokens p \<and> rp_max_tokens p \<le> 100000 \<and> 0 \<le> rp_max_cost_usd p \<and> rp_max_cost_usd p \<le> 25
     \<and> 1 \<le> rp_max_attempts p \<and> rp_max_attempts p \<le> 5"

text \<open>A run before anything has been used or found.\<close>

definition new_research_run ::
  "uuid \<Rightarrow> uuid \<Rightarrow> string \<Rightarrow> string \<Rightarrow> string list \<Rightarrow> datetime \<Rightarrow> datetime \<Rightarrow> uuid \<Rightarrow> uuid \<Rightarrow> datetime \<Rightarrow> ResearchRun" where
  "new_research_run workspace_id actor_id trigger objective sources started deadline i corr created =
     \<lparr> rn_id = i, rn_workspace_id = workspace_id, rn_trigger = trigger, rn_research_objective = objective,
       rn_permitted_sources = sources, rn_started_at = started, rn_deadline = deadline, rn_max_searches = 1,
       rn_max_provider_calls = 0, rn_max_tokens = 0, rn_max_cost_usd = 0, rn_max_attempts = 1, rn_status = ''running'',
       rn_provider_state = ''fixture_test_only'', rn_searches_used = 0, rn_provider_calls_used = 0, rn_tokens_used = 0,
       rn_reserved_cost_usd = 0, rn_actual_cost_usd = 0, rn_opportunity_count = 0, rn_audited_opportunity_count = 0,
       rn_blocked_opportunity_count = 0, rn_last_error = None, rn_correlation_id = corr, rn_trace_id = None,
       rn_test_data = False, rn_created_by = Some actor_id, rn_created_at = created \<rparr>"

definition add_research_run :: "ResearchRun \<Rightarrow> unit D" where
  "add_research_run = add_row rn_id research_runs research_runs_update (\<lambda>q r. False) (\<lambda>d r. True)"

definition manual_research_run :: "ResearchRunCreate \<Rightarrow> ResearchRun \<Rightarrow> ResearchRun" where
  "manual_research_run p r = r\<lparr> rn_max_searches := rp_max_searches p, rn_max_provider_calls := rp_max_provider_calls p,
     rn_max_tokens := rp_max_tokens p, rn_max_cost_usd := rp_max_cost_usd p, rn_max_attempts := rp_max_attempts p,
     rn_status := ''provider_not_configured'', rn_provider_state := ''not_configured'',
     rn_last_error := Some ''RESEARCH PROVIDER NOT CONFIGURED'' \<rparr>"

definition run_limits :: "ResearchRun \<Rightarrow> json" where
  "run_limits r = JObj [(''max_searches'', JNum (of_int (rn_max_searches r))),
     (''max_provider_calls'', JNum (of_int (rn_max_provider_calls r))), (''max_tokens'', JNum (of_int (rn_max_tokens r))),
     (''max_cost_usd'', JNum (rn_max_cost_usd r)), (''max_attempts'', JNum (of_int (rn_max_attempts r)))]"

definition research_create_manual_run :: "uuid \<Rightarrow> uuid \<Rightarrow> ResearchRunCreate \<Rightarrow> ResearchRun D" where
  "research_create_manual_run workspace_id actor_id payload =
     bindM now (\<lambda>t.
     bindM fresh (\<lambda>i.
     bindM fresh (\<lambda>corr.
     bindM now (\<lambda>created.
     let r = manual_research_run payload (new_research_run workspace_id actor_id ''manual'' (strip (rp_research_objective payload))
           (map strip (rp_permitted_sources payload)) t (t + 900) i corr created) in
     andThen (add_research_run r) (
     andThen (emit_research i ''research.started'' (JObj [(''trigger'', JStr ''manual''), (''limits'', run_limits r)])) (
     andThen (emit_research i ''research.provider_not_configured''
       (JObj [(''detail'', JStr ''No external research provider is configured in the Founder Preview.'')]))
     (ret r)))))))"

definition research_list_runs :: "uuid \<Rightarrow> nat \<Rightarrow> dept \<Rightarrow> ResearchRun list" where
  "research_list_runs workspace_id limit d =
     take limit (sort_key (\<lambda>r. - rn_created_at r) (filter (\<lambda>r. rn_workspace_id r = workspace_id) (research_runs d)))"

definition research_get_run :: "uuid \<Rightarrow> uuid \<Rightarrow> ResearchRun option D" where
  "research_get_run workspace_id run_id =
     one_of (\<lambda>d. filter (\<lambda>r. rn_workspace_id r = workspace_id \<and> rn_id r = run_id) (research_runs d))"

section \<open>Opportunities and their evidence\<close>

definition list_opportunities :: "uuid \<Rightarrow> nat \<Rightarrow> dept \<Rightarrow> Opportunity list" where
  "list_opportunities workspace_id limit d =
     take limit (sort_key (\<lambda>opp. - op_discovered_at opp)
       (filter (\<lambda>opp. op_workspace_id opp = workspace_id \<and> op_deleted_at opp = None) (opportunities d)))"

definition get_opportunity :: "uuid \<Rightarrow> uuid \<Rightarrow> Opportunity option D" where
  "get_opportunity workspace_id opportunity_id =
     one_of (\<lambda>d. filter (\<lambda>opp. op_workspace_id opp = workspace_id \<and> op_id opp = opportunity_id \<and> op_deleted_at opp = None)
       (opportunities d))"

definition opportunity_evidence :: "uuid \<Rightarrow> uuid \<Rightarrow> dept \<Rightarrow> (OpportunityEvidence \<times> ResearchSource) list" where
  "opportunity_evidence workspace_id opportunity_id d =
     sort_key (\<lambda>(l, s). - rs_retrieved_at s)
       (concat (map (\<lambda>l. map (\<lambda>s. (l, s)) (filter (\<lambda>s. rs_id s = oe_source_id l \<and> rs_workspace_id s = workspace_id) (research_sources d)))
         (filter (\<lambda>l. oe_workspace_id l = workspace_id \<and> oe_opportunity_id l = opportunity_id) (evidences d))))"

definition opportunity_audits :: "uuid \<Rightarrow> uuid \<Rightarrow> dept \<Rightarrow> ResearchAudit list" where
  "opportunity_audits workspace_id opportunity_id d =
     filter (\<lambda>a. ra_workspace_id a = workspace_id \<and> ra_opportunity_id a = opportunity_id) (research_audits d)"

definition research_latest_audit :: "uuid \<Rightarrow> uuid \<Rightarrow> dept \<Rightarrow> ResearchAudit option" where
  "research_latest_audit workspace_id opportunity_id d =
     (case sort_key (\<lambda>a. - ra_checked_at a) (opportunity_audits workspace_id opportunity_id d) of [] \<Rightarrow> None | a # _ \<Rightarrow> Some a)"

record ResearchSummary =
  rsu_status :: string
  rsu_current_research :: "ResearchRun option"
  rsu_last_run :: "ResearchRun option"
  rsu_next_run_at :: "datetime option"
  rsu_opportunities_found :: nat
  rsu_audited_opportunities :: nat
  rsu_blocked_findings :: nat
  rsu_cost_today_usd :: usd
  rsu_last_error :: "string option"
  rsu_schedule_enabled :: bool

definition live_opportunities :: "uuid \<Rightarrow> dept \<Rightarrow> Opportunity list" where
  "live_opportunities workspace_id d = filter (\<lambda>opp. op_workspace_id opp = workspace_id \<and> op_deleted_at opp = None) (opportunities d)"

definition research_summary :: "uuid \<Rightarrow> ResearchSummary D" where
  "research_summary workspace_id =
     bindM (one_of (\<lambda>d. filter (\<lambda>c. rc_workspace_id c = workspace_id) (research_schedules d))) (\<lambda>schedule.
     gets (\<lambda>d.
       let rs = research_list_runs workspace_id 2 d;
           current = find (\<lambda>r. \<not> run_is_terminal (rn_status r)) rs;
           last = (case rs of [] \<Rightarrow> None | r # _ \<Rightarrow> Some r);
           ops = live_opportunities workspace_id d;
           shown = (if current \<noteq> None then current else last)
       in \<lparr> rsu_status = (case shown of Some r \<Rightarrow> rn_status r | None \<Rightarrow> ''not_run''),
            rsu_current_research = current, rsu_last_run = last,
            rsu_next_run_at = Option.bind schedule (\<lambda>c. if rc_enabled c then rc_next_run_at c else None),
            rsu_opportunities_found = length ops,
            rsu_audited_opportunities = length (filter (\<lambda>opp. op_audit_gate_status opp \<noteq> ''not_run'') ops),
            rsu_blocked_findings = length (filter (\<lambda>opp. op_audit_gate_status opp = ''blocked'') ops),
            rsu_cost_today_usd = sum_list (map rn_actual_cost_usd rs),
            rsu_last_error = (case shown of Some r \<Rightarrow> rn_last_error r | None \<Rightarrow> Some ''RESEARCH PROVIDER NOT CONFIGURED''),
            rsu_schedule_enabled = (case schedule of None \<Rightarrow> False | Some c \<Rightarrow> rc_enabled c) \<rparr>))"

section \<open>The fixture run\<close>

definition add_source :: "ResearchSource \<Rightarrow> unit D" where
  "add_source = add_row rs_id research_sources research_sources_update (\<lambda>q r. rs_workspace_id q = rs_workspace_id r
     \<and> rs_research_run_id q = rs_research_run_id r \<and> rs_canonical_url q = rs_canonical_url r) (\<lambda>d r. True)"

text \<open>The row of one fixture source, once its URL is accepted.\<close>

definition source_row :: "uuid \<Rightarrow> uuid \<Rightarrow> datetime \<Rightarrow> fields \<Rightarrow> string \<Rightarrow> string option \<Rightarrow> string option \<Rightarrow> uuid \<Rightarrow> exn + ResearchSource" where
  "source_row workspace_id run_id t item url excerpt rejection i =
     (case (opt_time (get_or item ''published_at'' JNull), opt_text (get_or item ''publisher'' JNull),
        opt_text (get_or item ''author'' JNull), opt_text (get_or item ''claim_supported'' JNull),
        decimal_arg (get_or item ''confidence'' (JStr ''0.50''))) of
        (Inr published, Inr publisher, Inr author, Inr claim, Inr confidence) \<Rightarrow>
          Inr \<lparr> rs_id = i, rs_workspace_id = workspace_id, rs_research_run_id = run_id, rs_canonical_url = url,
            rs_source_type = py_str (get_or item ''source_type'' (JStr ''fixture'')), rs_retrieved_at = t,
            rs_published_at = published, rs_publisher = publisher, rs_author = author, rs_claim_supported = claim,
            rs_freshness = py_str (get_or item ''freshness'' (JStr ''test'')), rs_confidence = confidence,
            rs_content_digest = sha256_hex (if opt_or excerpt \<noteq> [] then opt_or excerpt
              else if opt_or rejection \<noteq> [] then opt_or rejection else url),
            rs_safe_excerpt = excerpt, rs_handling_state = (if rejection \<noteq> None then ''rejected'' else ''accepted''),
            rs_rejection_reason = rejection, rs_test_data = True \<rparr>
      | (Inl e, _, _, _, _) \<Rightarrow> Inl e | (_, Inl e, _, _, _) \<Rightarrow> Inl e | (_, _, Inl e, _, _) \<Rightarrow> Inl e
      | (_, _, _, Inl e, _) \<Rightarrow> Inl e | (_, _, _, _, Inl e) \<Rightarrow> Inl e)"

text \<open>\<open>_safe_excerpt\<close> takes \<open>None\<close> or calls \<open>strip\<close>.\<close>

definition excerpt_arg :: "json \<Rightarrow> exn + string option" where
  "excerpt_arg v = (case v of JNull \<Rightarrow> Inr None | JStr t \<Rightarrow> Inr (Some t) | _ \<Rightarrow> Inl (AttributeError ''strip''))"

text \<open>One pass of the loop: the accepted source, or \<open>None\<close> for one that was rejected.\<close>

definition read_source :: "uuid \<Rightarrow> uuid \<Rightarrow> datetime \<Rightarrow> fields \<Rightarrow> ResearchSource option D" where
  "read_source workspace_id run_id t item =
     (case canonical_url (py_str (get_or item ''url'' (JStr ''''))) of
        Inl e \<Rightarrow> andThen (emit_research run_id ''research.source_rejected''
            (JObj [(''reason'', JStr (exn_str e)), (''test_data'', JBool True)])) (ret None)
      | Inr url \<Rightarrow>
          bindM (fromSum (excerpt_arg (get_or item ''excerpt'' JNull))) (\<lambda>text_value.
          let (excerpt, rejection) = safe_excerpt text_value in
          bindM fresh (\<lambda>i.
          bindM (fromSum (source_row workspace_id run_id t item url excerpt rejection i)) (\<lambda>source.
          andThen (add_source source) (
          case rejection of
            Some reason \<Rightarrow> andThen (emit_research run_id ''research.source_rejected'' (JObj [(''source_id'', JStr (str_uuid i)),
                (''reason'', JStr reason), (''test_data'', JBool True)])) (ret None)
          | None \<Rightarrow> andThen (emit_research run_id ''research.source_recorded'' (JObj [(''source_id'', JStr (str_uuid i)),
                (''test_data'', JBool True)])) (ret (Some source)))))))"

definition opportunity_row ::
  "uuid \<Rightarrow> uuid \<Rightarrow> uuid \<Rightarrow> fields \<Rightarrow> string \<Rightarrow> string \<Rightarrow> string option \<Rightarrow> string option \<Rightarrow> string \<Rightarrow> nat \<Rightarrow> uuid \<Rightarrow> datetime \<Rightarrow> exn + Opportunity" where
  "opportunity_row workspace_id actor_id run_id f topic angle platform format_name key n i t =
     (case (map_of f ''title'', map_of f ''summary'', opt_text (get_or f ''target_audience'' JNull),
        decimal_arg (get_or f ''confidence'' (JStr ''0.50'')), as_dict (get_or f ''component_scores'' (JObj [])),
        as_dict (get_or f ''score_reasoning'' (JObj []))) of
        (Some title, Some summary, Inr audience, Inr confidence, Inr scores, Inr reasons) \<Rightarrow>
          Inr \<lparr> op_id = i, op_workspace_id = workspace_id, op_research_run_id = run_id, op_title = strip (py_str title),
            op_topic = topic, op_summary = strip (py_str summary), op_proposed_angle = angle, op_target_audience = audience,
            op_target_platform = platform, op_suggested_format = format_name, op_discovered_at = t,
            op_freshness = py_str (get_or f ''freshness'' (JStr ''test'')), op_source_count = int n,
            op_confidence = confidence, op_risk = py_str (get_or f ''risk'' (JStr ''low'')), op_status = ''active'',
            op_created_by_worker = ''scout_fixture'', op_component_scores = scores, op_score_reasoning = reasons,
            op_dedupe_key = key, op_audit_gate_status = ''not_run'', op_performance_data_state = ''no_performance_data'',
            op_strategist_state = ''not_sent'', op_test_data = True, op_created_by = Some actor_id, op_deleted_at = None \<rparr>
      | (None, _, _, _, _, _) \<Rightarrow> Inl (KeyError ''title'') | (_, None, _, _, _, _) \<Rightarrow> Inl (KeyError ''summary'')
      | (_, _, Inl e, _, _, _) \<Rightarrow> Inl e | (_, _, _, Inl e, _, _) \<Rightarrow> Inl e
      | (_, _, _, _, Inl e, _) \<Rightarrow> Inl e | (_, _, _, _, _, Inl e) \<Rightarrow> Inl e)"

text \<open>Under \<open>uq_opportunities_workspace_dedupe\<close>, which counts deleted rows too.\<close>

definition add_opportunity :: "Opportunity \<Rightarrow> unit D" where
  "add_opportunity = add_row op_id opportunities opportunities_update
     (\<lambda>q r. op_workspace_id q = op_workspace_id r \<and> op_dedupe_key q = op_dedupe_key r)
     (\<lambda>d r. op_research_run_id r \<in> rn_id ` set (research_runs d))"

definition add_evidence :: "OpportunityEvidence \<Rightarrow> unit D" where
  "add_evidence = add_row oe_id evidences evidences_update (\<lambda>q r. oe_workspace_id q = oe_workspace_id r
     \<and> oe_opportunity_id q = oe_opportunity_id r \<and> oe_source_id q = oe_source_id r) (\<lambda>d r. True)"

definition link_source :: "uuid \<Rightarrow> uuid \<Rightarrow> string \<Rightarrow> ResearchSource \<Rightarrow> unit D" where
  "link_source workspace_id opportunity_id summary s =
     bindM fresh (\<lambda>i. add_evidence \<lparr> oe_id = i, oe_workspace_id = workspace_id, oe_opportunity_id = opportunity_id,
         oe_source_id = rs_id s, oe_claim_supported = (if opt_or (rs_claim_supported s) \<noteq> [] then opt_or (rs_claim_supported s) else summary),
         oe_relevance = 8 / 10, oe_contradiction_flag = False \<rparr>)"

definition required_text :: "fields \<Rightarrow> string \<Rightarrow> exn + string" where
  "required_text f k = (case map_of f k of None \<Rightarrow> Inl (KeyError k) | Some v \<Rightarrow> Inr (strip (py_str v)))"

text \<open>The opportunity the accepted sources support: a new one, or the one with the same key.\<close>

definition place_opportunity :: "uuid \<Rightarrow> uuid \<Rightarrow> uuid \<Rightarrow> fields \<Rightarrow> ResearchSource list \<Rightarrow> (uuid \<times> string \<times> bool) D" where
  "place_opportunity workspace_id actor_id run_id f accepted =
     bindM (fromSum (required_text f ''topic'')) (\<lambda>topic.
     bindM (fromSum (required_text f ''proposed_angle'')) (\<lambda>angle.
     bindM (fromSum (opt_text (get_or f ''target_platform'' JNull))) (\<lambda>platform.
     bindM (fromSum (opt_text (get_or f ''suggested_format'' JNull))) (\<lambda>format_name.
     let key = dedupe_key topic angle platform format_name (map rs_canonical_url accepted) in
     bindM (one_of (\<lambda>d. filter (\<lambda>opp. op_workspace_id opp = workspace_id \<and> op_dedupe_key opp = key \<and> op_deleted_at opp = None) (opportunities d))) (\<lambda>existing.
     case existing of
       None \<Rightarrow>
         bindM fresh (\<lambda>i.
         bindM now (\<lambda>t.
         bindM (fromSum (opportunity_row workspace_id actor_id run_id f topic angle platform format_name key (length accepted) i t)) (\<lambda>opp.
         andThen (add_opportunity opp) (ret (i, op_summary opp, True)))))
     | Some opp \<Rightarrow>
         andThen (set_opportunity (op_id opp) (\<lambda>q. q\<lparr>op_source_count := op_source_count q + int (length accepted)\<rparr>))
         (ret (op_id opp, op_summary opp, False)))))))"

definition record_fixture_run :: "uuid \<Rightarrow> uuid \<Rightarrow> string \<Rightarrow> fields list \<Rightarrow> fields \<Rightarrow> (uuid \<times> uuid option) D" where
  "record_fixture_run workspace_id actor_id objective sources f =
     bindM (gets environment) (\<lambda>env.
     if env \<noteq> ''test'' then raise (RuntimeError ''fixture research execution is test-only'')
     else
       bindM now (\<lambda>t.
       bindM fresh (\<lambda>i.
       bindM fresh (\<lambda>corr.
       bindM now (\<lambda>created.
       andThen (add_research_run ((new_research_run workspace_id actor_id ''manual_test_fixture'' objective
           (map (\<lambda>s. py_str (get_or s ''url'' (JStr ''''))) sources) t (t + 300) i corr created)
           \<lparr>rn_max_searches := max 1 (int (length sources)), rn_test_data := True\<rparr>)) (
       andThen (emit_research i ''research.started'' (JObj [(''trigger'', JStr ''manual_test_fixture''), (''test_data'', JBool True)])) (
       bindM (mapM (take (nat (max 1 (int (length sources)))) sources) (read_source workspace_id i t)) (\<lambda>read.
       let accepted = List.map_filter id read in
       andThen (set_rrun i (rn_searches_used_update (\<lambda>_. int (length sources)))) (
       if accepted = [] then
         andThen (set_rrun i (\<lambda>r. r\<lparr>rn_status := ''failed'', rn_last_error := Some ''No safe evidence sources were accepted''\<rparr>)) (
         andThen (emit_research i ''research.failed'' (JObj [(''reason'', JStr ''No safe evidence sources were accepted''), (''test_data'', JBool True)]))
         (ret (i, None)))
       else
         bindM (place_opportunity workspace_id actor_id i f accepted) (\<lambda>(k, summary, created).
         andThen (forM accepted (link_source workspace_id k summary)) (
         andThen (emit_research i (if created then ''opportunity.created'' else ''opportunity.duplicate_detected'')
           (JObj [(''opportunity_id'', JStr (str_uuid k)), (''test_data'', JBool True)])) (
         andThen (set_rrun i (\<lambda>r. r\<lparr>rn_opportunity_count := (if created then 1 else 0), rn_status := ''succeeded''\<rparr>)) (
         andThen (emit_research i ''research.completed'' (JObj [(''opportunity_id'', JStr (str_uuid k)), (''test_data'', JBool True)]))
         (ret (i, Some k)))))))))))))))"

section \<open>The independent audit\<close>

definition source_finding :: "ResearchSource \<Rightarrow> json" where
  "source_finding s = JObj [(''source_id'', JStr (str_uuid (rs_id s))), (''legitimacy'', JStr ''accepted_provenance''),
     (''freshness'', JStr (rs_freshness s)), (''claim_support'', JStr (if opt_or (rs_claim_supported s) \<noteq> [] then ''present'' else ''missing''))]"

definition audit_blocked :: "ResearchSource list \<Rightarrow> string list" where
  "audit_blocked sources =
     (let accepted = filter (\<lambda>s. rs_handling_state s = ''accepted'') sources in
      (if accepted = [] then [''No accepted source provenance supports this opportunity.''] else [])
      @ (if \<exists>s \<in> set sources. rs_handling_state s = ''rejected'' then [''At least one source was rejected as unsafe or unverified.''] else [])
      @ (if length (remdups (map rs_content_digest accepted)) < length accepted then [''Duplicate source content detected.''] else []))"

definition audit_warnings :: "ResearchSource list \<Rightarrow> string list" where
  "audit_warnings sources =
     (let accepted = filter (\<lambda>s. rs_handling_state s = ''accepted'') sources in
      if audit_blocked sources \<noteq> [] then []
      else (if length accepted = 1 then [''Only one independent accepted source is available.''] else [])
        @ (if \<exists>s \<in> set accepted. rs_freshness s \<in> {''stale'', ''unknown''} then [''At least one accepted source has stale or unknown freshness.''] else []))"

definition audit_state :: "'a list \<Rightarrow> 'b list \<Rightarrow> string" where
  "audit_state blocked warnings = (if blocked \<noteq> [] then ''blocked'' else if warnings \<noteq> [] then ''pass_with_warning'' else ''pass'')"

definition scout_snapshot :: "Opportunity \<Rightarrow> json" where
  "scout_snapshot opp = JObj [(''title'', JStr (op_title opp)), (''topic'', JStr (op_topic opp)), (''summary'', JStr (op_summary opp)),
     (''proposed_angle'', JStr (op_proposed_angle opp)), (''source_count'', JNum (of_int (op_source_count opp))),
     (''component_scores'', op_component_scores opp)]"

definition research_audit_row :: "uuid \<Rightarrow> Opportunity \<Rightarrow> ResearchSource list \<Rightarrow> uuid \<Rightarrow> datetime \<Rightarrow> ResearchAudit" where
  "research_audit_row workspace_id opp sources i t =
     \<lparr> ra_id = i, ra_workspace_id = workspace_id, ra_opportunity_id = op_id opp, ra_research_run_id = op_research_run_id opp,
       ra_state = audit_state (audit_blocked sources) (audit_warnings sources),
       ra_evaluator_context_version = ''research-auditor-v1'', ra_scout_snapshot = scout_snapshot opp,
       ra_findings = map source_finding (filter (\<lambda>s. rs_handling_state s = ''accepted'') sources),
       ra_warnings = audit_warnings sources, ra_blocked_reasons = audit_blocked sources, ra_checked_at = t,
       ra_test_data = op_test_data opp \<rparr>"

definition add_research_audit :: "ResearchAudit \<Rightarrow> unit D" where
  "add_research_audit = add_row ra_id research_audits research_audits_update (\<lambda>q r. False) (\<lambda>d r. True)"

text \<open>What an audit changes in the opportunity and in its run's counters.\<close>

definition audited :: "string \<Rightarrow> Opportunity \<Rightarrow> Opportunity" where
  "audited st q = q\<lparr>op_audit_gate_status := st, op_status := (if st = ''blocked'' then ''blocked'' else op_status q)\<rparr>"

definition tallied :: "string \<Rightarrow> ResearchRun \<Rightarrow> ResearchRun" where
  "tallied st r = r\<lparr>rn_audited_opportunity_count := rn_audited_opportunity_count r + 1,
     rn_blocked_opportunity_count := rn_blocked_opportunity_count r + (if st = ''blocked'' then 1 else 0)\<rparr>"

definition count_research_audit :: "uuid \<Rightarrow> Opportunity \<Rightarrow> ResearchAudit \<Rightarrow> unit D" where
  "count_research_audit workspace_id opp a =
     bindM (research_get_run workspace_id (op_research_run_id opp)) (\<lambda>run. case run of
       None \<Rightarrow> ret ()
     | Some r \<Rightarrow>
         andThen (set_rrun (rn_id r) (tallied (ra_state a)))
         (emit_research (rn_id r) (''research.audit.'' @ ra_state a) (JObj [(''opportunity_id'', JStr (str_uuid (op_id opp))),
           (''audit_id'', JStr (str_uuid (ra_id a))), (''test_data'', JBool (op_test_data opp))])))"

definition audit_opportunity :: "uuid \<Rightarrow> uuid \<Rightarrow> ResearchAudit D" where
  "audit_opportunity workspace_id opportunity_id =
     bindM (get_opportunity workspace_id opportunity_id) (\<lambda>opportunity. case opportunity of
       None \<Rightarrow> raise (LookupError ''opportunity not found'')
     | Some opp \<Rightarrow>
         bindM (gets (\<lambda>d. map snd (opportunity_evidence workspace_id opportunity_id d))) (\<lambda>sources.
         bindM fresh (\<lambda>i.
         bindM now (\<lambda>t.
         let a = research_audit_row workspace_id opp sources i t in
         andThen (add_research_audit a) (
         andThen (set_opportunity (op_id opp) (audited (ra_state a))) (
         andThen (count_research_audit workspace_id opp a)
         (ret a)))))))"

record StrategistGate =
  sg_opportunity_id :: uuid
  sg_eligible :: bool
  sg_state :: string
  sg_detail :: string

definition announce_research :: "uuid \<Rightarrow> uuid \<Rightarrow> string \<Rightarrow> json \<Rightarrow> unit D" where
  "announce_research workspace_id run_id event_type payload =
     bindM (research_get_run workspace_id run_id) (\<lambda>run. case run of
       None \<Rightarrow> ret ()
     | Some r \<Rightarrow> emit_research (rn_id r) event_type payload)"

definition strategist_gate :: "uuid \<Rightarrow> uuid \<Rightarrow> StrategistGate D" where
  "strategist_gate workspace_id opportunity_id =
     bindM (get_opportunity workspace_id opportunity_id) (\<lambda>opportunity. case opportunity of
       None \<Rightarrow> raise (LookupError ''opportunity not found'')
     | Some opp \<Rightarrow>
         bindM (gets (research_latest_audit workspace_id opportunity_id)) (\<lambda>audit.
         if audit = None \<or> ra_state (the audit) \<noteq> ''pass'' then
           andThen (announce_research workspace_id (op_research_run_id opp) ''opportunity.strategist_denied''
             (JObj [(''opportunity_id'', JStr (str_uuid (op_id opp))),
                (''audit_state'', JStr (case audit of None \<Rightarrow> ''not_run'' | Some a \<Rightarrow> ra_state a))]))
           (raise (ResearchGateError ''Independent Research Auditor PASS is required before Strategist eligibility.''))
         else
           andThen (set_opportunity (op_id opp) (op_strategist_state_update (\<lambda>_. ''eligible''))) (
           andThen (announce_research workspace_id (op_research_run_id opp) ''opportunity.strategist_eligible''
             (JObj [(''opportunity_id'', JStr (str_uuid (op_id opp)))]))
           (ret \<lparr> sg_opportunity_id = op_id opp, sg_eligible = True, sg_state = ''eligible'',
              sg_detail = ''Approved intelligence is eligible for a future Strategist handoff; no Strategist provider is configured.'' \<rparr>))))"

section \<open>Routes\<close>

definition as_admin :: "uuid \<Rightarrow> uuid \<Rightarrow> 'a D \<Rightarrow> 'a D" where
  "as_admin workspace_id user m = session (andThen (in_core (require_workspace_admin workspace_id user)) m)"

definition research_create_run_route :: "uuid \<Rightarrow> ResearchRunCreate \<Rightarrow> uuid \<Rightarrow> ResearchRun D" where
  "research_create_run_route workspace_id payload user = as_admin workspace_id user (
     if \<not> valid_research_run payload then raise (HTTPException 422 ''invalid research run'')
     else research_create_manual_run workspace_id user payload)"

definition research_runs_route :: "uuid \<Rightarrow> uuid \<Rightarrow> ResearchRun list D" where
  "research_runs_route workspace_id user = as_admin workspace_id user (gets (research_list_runs workspace_id 50))"

definition or_404 :: "string \<Rightarrow> 'a option \<Rightarrow> 'a D" where
  "or_404 detail x = (case x of None \<Rightarrow> raise (HTTPException 404 detail) | Some r \<Rightarrow> ret r)"

definition research_run_route :: "uuid \<Rightarrow> uuid \<Rightarrow> uuid \<Rightarrow> ResearchRun D" where
  "research_run_route workspace_id run_id user = as_admin workspace_id user (
     bindM (research_get_run workspace_id run_id) (or_404 ''research run not found''))"

definition research_summary_route :: "uuid \<Rightarrow> uuid \<Rightarrow> ResearchSummary D" where
  "research_summary_route workspace_id user = as_admin workspace_id user (research_summary workspace_id)"

definition opportunities_route :: "uuid \<Rightarrow> uuid \<Rightarrow> Opportunity list D" where
  "opportunities_route workspace_id user = as_admin workspace_id user (gets (list_opportunities workspace_id 100))"

definition opportunity_detail_route ::
  "uuid \<Rightarrow> uuid \<Rightarrow> uuid \<Rightarrow> (Opportunity \<times> (OpportunityEvidence \<times> ResearchSource) list \<times> ResearchAudit option) D" where
  "opportunity_detail_route workspace_id opportunity_id user = as_admin workspace_id user (
     bindM (bindM (get_opportunity workspace_id opportunity_id) (or_404 ''opportunity not found'')) (\<lambda>opp.
     gets (\<lambda>d. (opp, opportunity_evidence workspace_id opportunity_id d, research_latest_audit workspace_id opportunity_id d))))"

definition sources_route :: "uuid \<Rightarrow> uuid \<Rightarrow> uuid \<Rightarrow> (OpportunityEvidence \<times> ResearchSource) list D" where
  "sources_route workspace_id opportunity_id user = as_admin workspace_id user (
     bindM (bindM (get_opportunity workspace_id opportunity_id) (or_404 ''opportunity not found'')) (\<lambda>opp.
     gets (opportunity_evidence workspace_id opportunity_id)))"

definition research_audit_detail_route :: "uuid \<Rightarrow> uuid \<Rightarrow> uuid \<Rightarrow> ResearchAudit option D" where
  "research_audit_detail_route workspace_id opportunity_id user = as_admin workspace_id user (
     bindM (bindM (get_opportunity workspace_id opportunity_id) (or_404 ''opportunity not found'')) (\<lambda>opp.
     gets (research_latest_audit workspace_id opportunity_id)))"

definition lookup_http_error :: "exn \<Rightarrow> exn" where
  "lookup_http_error e = (case e of
     LookupError m \<Rightarrow> HTTPException 404 m
   | KeyError m \<Rightarrow> HTTPException 404 (exn_str e)
   | _ \<Rightarrow> e)"

definition gate_http_status :: "exn \<Rightarrow> exn" where
  "gate_http_status e = (case e of ResearchGateError m \<Rightarrow> HTTPException 409 m | _ \<Rightarrow> lookup_http_error e)"

definition research_run_audit_route :: "uuid \<Rightarrow> uuid \<Rightarrow> uuid \<Rightarrow> ResearchAudit D" where
  "research_run_audit_route workspace_id opportunity_id user = as_admin workspace_id user (
     catchM (audit_opportunity workspace_id opportunity_id) (\<lambda>e. raise (lookup_http_error e)))"

definition send_to_strategist :: "uuid \<Rightarrow> uuid \<Rightarrow> uuid \<Rightarrow> StrategistGate D" where
  "send_to_strategist workspace_id opportunity_id user = as_admin workspace_id user (
     catchM (strategist_gate workspace_id opportunity_id) (\<lambda>e. raise (gate_http_status e)))"

section \<open>What the calls keep\<close>

definition audits_of :: "uuid \<Rightarrow> ResearchAudit list \<Rightarrow> ResearchAudit list" where
  "audits_of i as = filter (\<lambda>a. ra_opportunity_id a = i) as"

definition gate_state :: "uuid \<Rightarrow> ResearchAudit list \<Rightarrow> string" where
  "gate_state i as = (case rev (audits_of i as) of [] \<Rightarrow> ''not_run'' | a # _ \<Rightarrow> ra_state a)"

definition run_tally :: "ResearchRun \<Rightarrow> ResearchAudit list \<Rightarrow> ResearchAudit list" where
  "run_tally r as = filter (\<lambda>a. ra_research_run_id a = rn_id r \<and> ra_workspace_id a = rn_workspace_id r) as"

text \<open>
  Well-formed research rows: keys are unique and references are not dangling; an audit's state follows from its reasons and
  warnings; the gate status of an opportunity is the state of its last audit; only an opportunity with a PASS on record is eligible;
  and the counters of a run are the numbers of its audits.
\<close>

definition opportunity_ok :: "ResearchAudit list \<Rightarrow> uuid set \<Rightarrow> Opportunity \<Rightarrow> bool" where
  "opportunity_ok as run_ids q \<longleftrightarrow> op_audit_gate_status q = gate_state (op_id q) as
     \<and> op_strategist_state q \<in> {''not_sent'', ''eligible''}
     \<and> (op_strategist_state q = ''eligible'' \<longrightarrow> (\<exists>a \<in> set (audits_of (op_id q) as). ra_state a = ''pass''))
     \<and> op_research_run_id q \<in> run_ids"

definition research_audit_ok :: "uuid set \<Rightarrow> uuid set \<Rightarrow> ResearchAudit \<Rightarrow> bool" where
  "research_audit_ok opp_ids run_ids a \<longleftrightarrow> ra_state a = audit_state (ra_blocked_reasons a) (ra_warnings a)
     \<and> ra_opportunity_id a \<in> opp_ids \<and> ra_research_run_id a \<in> run_ids"

definition research_run_ok :: "ResearchAudit list \<Rightarrow> ResearchRun \<Rightarrow> bool" where
  "research_run_ok as r \<longleftrightarrow> rn_audited_opportunity_count r = int (length (run_tally r as))
     \<and> rn_blocked_opportunity_count r = int (length (filter (\<lambda>a. ra_state a = ''blocked'') (run_tally r as)))"

definition research_wf :: "dept \<Rightarrow> bool" where
  "research_wf d \<longleftrightarrow> distinct (map op_id (opportunities d)) \<and> distinct (map rn_id (research_runs d))
     \<and> (\<forall>q \<in> set (opportunities d). opportunity_ok (research_audits d) (rn_id ` set (research_runs d)) q)
     \<and> (\<forall>a \<in> set (research_audits d). research_audit_ok (op_id ` set (opportunities d)) (rn_id ` set (research_runs d)) a)
     \<and> (\<forall>r \<in> set (research_runs d). research_run_ok (research_audits d) r)"

abbreviation research_rows :: "dept \<Rightarrow> Opportunity list \<times> ResearchRun list \<times> ResearchAudit list" where
  "research_rows d \<equiv> (opportunities d, research_runs d, research_audits d)"

lemma research_wf_cong: "research_rows d' = research_rows d \<Longrightarrow> research_wf d' = research_wf d"
  by (simp add: research_wf_def)

lemma research_wf_core [simp]: "research_wf (d\<lparr>core := c\<rparr>) = research_wf d"
  by (rule research_wf_cong) simp

lemma pres_research_keeps: "keeps research_rows m \<Longrightarrow> pres research_wf m"
  by (erule keeps_pres) (metis research_wf_cong)

lemma pres_fromSum:
  assumes "\<And>x. r = Inr x \<Longrightarrow> pres I (f x)"
  shows "pres I (bindM (fromSum r) f)"
  using assms by (cases r) (simp_all add: steps_def keepsInv_def bindM_exec fromSum_exec)

lemma row_set_in: "q \<in> set (row_set key i f rs) \<Longrightarrow> \<exists>r \<in> set rs. q = r \<or> key r = i \<and> q = f r"
  by (induction rs) (auto split: if_splits)

lemma row_set_ids: "(\<And>r. key (f r) = key r) \<Longrightarrow> key ` set (row_set key i f rs) = key ` set rs"
  by (metis list.set_map row_set_keys)

lemma pres_add_research_run:
  assumes "rn_audited_opportunity_count r = 0" "rn_blocked_opportunity_count r = 0"
  shows "pres research_wf (add_research_run r)"
  unfolding add_research_run_def
proof (rule pres_add_row)
  fix d
  assume wf: "research_wf d" and new: "\<forall>q \<in> set (research_runs d). rn_id q \<noteq> rn_id r \<and> \<not> False"
  have "\<forall>a \<in> set (research_audits d). ra_research_run_id a \<noteq> rn_id r"
    using wf new by (fastforce simp: research_wf_def research_audit_ok_def)
  then have "research_run_ok (research_audits d) r" using assms by (simp add: research_run_ok_def run_tally_def)
  with wf new show "research_wf (research_runs_update (\<lambda>rs. rs @ [r]) d)"
    by (auto simp: research_wf_def opportunity_ok_def research_audit_ok_def)
qed

lemma pres_set_rrun:
  assumes f: "\<And>r. rn_id (f r) = rn_id r" "\<And>r. rn_workspace_id (f r) = rn_workspace_id r"
    "\<And>r. rn_audited_opportunity_count (f r) = rn_audited_opportunity_count r"
    "\<And>r. rn_blocked_opportunity_count (f r) = rn_blocked_opportunity_count r"
  shows "pres research_wf (set_rrun i f)"
  unfolding set_rrun_def
proof (rule pres_modify)
  fix d
  assume wf: "research_wf d"
  have "research_run_ok as (f r) = research_run_ok as r" for as r using f by (simp add: research_run_ok_def run_tally_def)
  then show "research_wf (research_runs_update (row_set rn_id i f) d)"
    using wf row_set_ids [of rn_id f] f(1) by (auto simp: research_wf_def set_row_set)
qed

lemma pres_add_opportunity:
  assumes "op_audit_gate_status q = ''not_run''" "op_strategist_state q = ''not_sent''"
  shows "pres research_wf (add_opportunity q)"
  unfolding add_opportunity_def
proof (rule pres_add_row)
  fix d
  assume wf: "research_wf d" and run: "op_research_run_id q \<in> rn_id ` set (research_runs d)"
    and new: "\<forall>p \<in> set (opportunities d). op_id p \<noteq> op_id q \<and> \<not> (op_workspace_id p = op_workspace_id q \<and> op_dedupe_key p = op_dedupe_key q)"
  have "audits_of (op_id q) (research_audits d) = []"
    using wf new by (fastforce simp: research_wf_def research_audit_ok_def audits_of_def filter_empty_conv)
  then have "opportunity_ok (research_audits d) (rn_id ` set (research_runs d)) q"
    using assms run by (simp add: opportunity_ok_def gate_state_def)
  with wf new show "research_wf (opportunities_update (\<lambda>rs. rs @ [q]) d)"
    by (auto simp: research_wf_def research_audit_ok_def)
qed

lemma pres_set_opportunity:
  assumes f: "\<And>q. op_id (f q) = op_id q" "\<And>q. op_audit_gate_status (f q) = op_audit_gate_status q"
    "\<And>q. op_strategist_state (f q) = op_strategist_state q" "\<And>q. op_research_run_id (f q) = op_research_run_id q"
  shows "pres research_wf (set_opportunity i f)"
  unfolding set_opportunity_def
proof (rule pres_modify)
  fix d
  assume wf: "research_wf d"
  have "opportunity_ok as rs (f q) = opportunity_ok as rs q" for as rs q using f by (simp add: opportunity_ok_def)
  then show "research_wf (opportunities_update (row_set op_id i f) d)"
    using wf row_set_ids [of op_id f] f(1) by (auto simp: research_wf_def set_row_set)
qed

lemma keeps_emit_research [steps_intro]: "(\<And>d c. f (d\<lparr>core := c\<rparr>) = f d) \<Longrightarrow> keeps f (emit_research i ty p)"
  unfolding emit_research_def by (intro steps_intro; simp)

lemma pres_emit_research [steps_intro]: "(\<And>d c. I d \<Longrightarrow> I (d\<lparr>core := c\<rparr>)) \<Longrightarrow> pres I (emit_research i ty p)"
  unfolding emit_research_def by (intro steps_intro; simp)

lemma keeps_announce_research [steps_intro]: "(\<And>d c. f (d\<lparr>core := c\<rparr>) = f d) \<Longrightarrow> keeps f (announce_research w i ty p)"
  unfolding announce_research_def research_get_run_def by (intro steps_intro; simp)

lemma opportunity_row_new:
  "opportunity_row w a i f topic angle pl fm key n k t = Inr q \<Longrightarrow> op_audit_gate_status q = ''not_run'' \<and> op_strategist_state q = ''not_sent''"
  by (auto simp: opportunity_row_def split: option.splits sum.splits)

lemma keeps_read_source: "keeps research_rows (read_source w i t item)"
  unfolding read_source_def add_source_def by (intro steps_intro; simp)

lemma keeps_link_source: "keeps research_rows (link_source w k s src)"
  unfolding link_source_def add_evidence_def by (intro steps_intro; simp)

lemma pres_place_opportunity: "pres research_wf (place_opportunity w a i f accepted)"
  unfolding place_opportunity_def
  by (intro steps_intro pres_fromSum pres_add_opportunity pres_set_opportunity) (auto dest: opportunity_row_new)

lemma pres_record_fixture_run: "pres research_wf (record_fixture_run w a b src f)"
  unfolding record_fixture_run_def
  by (intro steps_intro pres_add_research_run pres_set_rrun pres_place_opportunity
      pres_research_keeps [OF keeps_read_source] pres_research_keeps [OF keeps_link_source])
    (auto simp: new_research_run_def)

section \<open>The audit and the gate\<close>

definition live_opportunity :: "uuid \<Rightarrow> uuid \<Rightarrow> dept \<Rightarrow> Opportunity list" where
  "live_opportunity w k d = filter (\<lambda>q. op_workspace_id q = w \<and> op_id q = k \<and> op_deleted_at q = None) (opportunities d)"

lemma get_opportunity_exec: "get_opportunity w k d = (scalar_one_or_none (live_opportunity w k d), d)"
  by (simp add: get_opportunity_def one_of_exec live_opportunity_def)

lemma keepsE: "keeps f m \<Longrightarrow> m d = (r, d') \<Longrightarrow> f d' = f d"
  by (rule keepsD')

lemma count_research_audit_result:
  assumes "count_research_audit w q a d = (Inr u, d')"
  shows "opportunities d' = opportunities d \<and> research_audits d' = research_audits d
    \<and> research_runs d' = (case filter (\<lambda>r. rn_workspace_id r = w \<and> rn_id r = op_research_run_id q) (research_runs d) of
        [] \<Rightarrow> research_runs d | r # _ \<Rightarrow> row_set rn_id (rn_id r) (tallied (ra_state a)) (research_runs d))"
proof (cases "filter (\<lambda>r. rn_workspace_id r = w \<and> rn_id r = op_research_run_id q) (research_runs d)")
  case Nil
  then show ?thesis using assms by (simp add: count_research_audit_def bindM_exec research_get_run_def one_of_exec ret_exec)
next
  case (Cons r rs)
  then have "rs = []"
    using assms by (cases rs) (auto simp: count_research_audit_def bindM_exec research_get_run_def one_of_exec)
  with Cons obtain ty p where e: "emit_research (rn_id r) ty p (research_runs_update (row_set rn_id (rn_id r) (tallied (ra_state a))) d) = (Inr u, d')"
    using assms by (simp add: count_research_audit_def bindM_exec research_get_run_def one_of_exec andThen_exec set_rrun_def modifyM_exec)
  have "keeps research_rows (emit_research (rn_id r) ty p)" by (intro steps_intro; simp)
  from keepsE [OF this e] show ?thesis using Cons by simp
qed

lemma audit_opportunity_result:
  assumes "audit_opportunity w k d = (Inr a, d')"
  shows "\<exists>q i t. live_opportunity w k d = [q] \<and> a = research_audit_row w q (map snd (opportunity_evidence w k d)) i t
    \<and> i \<notin> ra_id ` set (research_audits d) \<and> research_audits d' = research_audits d @ [a]
    \<and> opportunities d' = row_set op_id (op_id q) (audited (ra_state a)) (opportunities d)
    \<and> research_runs d' = (case filter (\<lambda>r. rn_workspace_id r = w \<and> rn_id r = op_research_run_id q) (research_runs d) of
        [] \<Rightarrow> research_runs d | r # _ \<Rightarrow> row_set rn_id (rn_id r) (tallied (ra_state a)) (research_runs d))"
proof -
  obtain q where q: "live_opportunity w k d = [q]"
    using assms by (auto simp: audit_opportunity_def bindM_exec [of "get_opportunity w k"] get_opportunity_exec
        scalar_one_or_none_def raise_exec split: list.splits)
  let ?i = "uuids (core d) (tick (core d))"
  let ?t = "clock (core d) (Suc (tick (core d)))"
  let ?d = "d\<lparr>core := (core d)\<lparr>tick := Suc (Suc (tick (core d)))\<rparr>\<rparr>"
  define b where "b = research_audit_row w q (map snd (opportunity_evidence w k d)) ?i ?t"
  have b: "ra_id b = ?i" by (simp add: b_def research_audit_row_def)
  have body: "andThen (add_research_audit b) (andThen (set_opportunity (op_id q) (audited (ra_state b)))
      (andThen (count_research_audit w q b) (ret b))) ?d = (Inr a, d')"
    using assms q by (simp add: audit_opportunity_def bindM_exec get_opportunity_exec gets_exec env_exec Let_def b_def)
  have new: "\<forall>p \<in> set (research_audits d). ra_id p \<noteq> ra_id b"
  proof (rule ccontr)
    assume "\<not> ?thesis"
    then have "add_research_audit b ?d = (Inl IntegrityError, ?d)" by (auto simp: add_research_audit_def add_row_exec)
    then show False using body by (simp add: andThen_exec [of "add_research_audit b"])
  qed
  let ?e = "opportunities_update (row_set op_id (op_id q) (audited (ra_state b))) (research_audits_update (\<lambda>rs. rs @ [b]) ?d)"
  have "add_research_audit b ?d = (Inr (), research_audits_update (\<lambda>rs. rs @ [b]) ?d)"
    using new by (simp add: add_research_audit_def add_row_exec)
  then have "andThen (count_research_audit w q b) (ret b) ?e = (Inr a, d')"
    using body by (simp add: andThen_exec [of "add_research_audit b"] andThen_exec [of "modifyM h" for h] set_opportunity_def modifyM_exec)
  then obtain u where "count_research_audit w q b ?e = (Inr u, d')" "a = b" by (auto elim!: andThen_InrE simp: ret_exec)
  have "research_audits d' = research_audits d @ [a]" "opportunities d' = row_set op_id (op_id q) (audited (ra_state a)) (opportunities d)"
    "research_runs d' = (case filter (\<lambda>r. rn_workspace_id r = w \<and> rn_id r = op_research_run_id q) (research_runs d) of
        [] \<Rightarrow> research_runs d | r # _ \<Rightarrow> row_set rn_id (rn_id r) (tallied (ra_state a)) (research_runs d))"
    using count_research_audit_result [OF \<open>count_research_audit w q b ?e = (Inr u, d')\<close>] \<open>a = b\<close> by (simp_all cong: list.case_cong)
  moreover have "?i \<notin> ra_id ` set (research_audits d)" using new b by auto
  ultimately show ?thesis using q \<open>a = b\<close> b_def by blast
qed

lemma audit_keeps_wf:
  assumes wf: "research_wf d" and "audit_opportunity w k d = (Inr a, d')"
  shows "research_wf d'"
proof -
  obtain q i t where q: "live_opportunity w k d = [q]" and a: "a = research_audit_row w q (map snd (opportunity_evidence w k d)) i t"
    and as: "research_audits d' = research_audits d @ [a]"
    and os: "opportunities d' = row_set op_id (op_id q) (audited (ra_state a)) (opportunities d)"
    and rs: "research_runs d' = (case filter (\<lambda>r. rn_workspace_id r = w \<and> rn_id r = op_research_run_id q) (research_runs d) of
        [] \<Rightarrow> research_runs d | r # _ \<Rightarrow> row_set rn_id (rn_id r) (tallied (ra_state a)) (research_runs d))"
    using audit_opportunity_result [OF assms(2)] by blast
  have qin: "q \<in> set (opportunities d)" "op_workspace_id q = w" "op_id q = k"
    using q by (auto simp: live_opportunity_def filter_eq_Cons_iff)
  have asel: "ra_opportunity_id a = op_id q" "ra_research_run_id a = op_research_run_id q" "ra_workspace_id a = w"
    by (simp_all add: a research_audit_row_def)
  have verdict: "ra_state a = audit_state (ra_blocked_reasons a) (ra_warnings a)" by (simp add: a research_audit_row_def)
  have oids: "op_id ` set (opportunities d') = op_id ` set (opportunities d)" "map op_id (opportunities d') = map op_id (opportunities d)"
    by (simp_all add: os row_set_ids audited_def)
  have rids: "map rn_id (research_runs d') = map rn_id (research_runs d)"
    by (simp add: rs tallied_def split: list.split)
  then have rids': "rn_id ` set (research_runs d') = rn_id ` set (research_runs d)" by (metis list.set_map)
  have runs: "research_run_ok (research_audits d') r'" if r': "r' \<in> set (research_runs d')" for r'
  proof -
    have dist: "distinct (map rn_id (research_runs d))" using wf by (simp add: research_wf_def)
    let ?hit = "\<lambda>r. rn_workspace_id r = w \<and> rn_id r = op_research_run_id q"
    have "\<exists>r \<in> set (research_runs d). r' = (if ?hit r then tallied (ra_state a) r else r)"
    proof (cases "filter ?hit (research_runs d)")
      case Nil
      then show ?thesis using r' rs by (auto simp: filter_empty_conv intro!: bexI [of _ r'])
    next
      case (Cons r0 l)
      then have r0: "r0 \<in> set (research_runs d)" "?hit r0" by (auto simp: filter_eq_Cons_iff)
      obtain r where r: "r \<in> set (research_runs d)" "r' = (if rn_id r = rn_id r0 then tallied (ra_state a) r else r)"
        using r' rs Cons by (auto simp: row_set_def)
      moreover have "rn_id r = rn_id r0 \<Longrightarrow> r = r0" using dist r(1) r0(1) by (auto simp: distinct_map inj_on_def)
      ultimately show ?thesis using r0(2) by (intro bexI [of _ r]) auto
    qed
    then obtain r where r: "r \<in> set (research_runs d)" "r' = (if ?hit r then tallied (ra_state a) r else r)" by blast
    have ok: "research_run_ok (research_audits d) r" using wf r(1) by (simp add: research_wf_def)
    have tally: "run_tally r (research_audits d') = run_tally r (research_audits d) @ (if ?hit r then [a] else [])"
      using asel by (auto simp: run_tally_def as)
    have "run_tally (tallied st r) bs = run_tally r bs" for st bs by (simp add: run_tally_def tallied_def)
    then show ?thesis using ok r(2) tally by (cases "?hit r") (simp_all add: research_run_ok_def, simp add: tallied_def)
  qed
  have opps: "opportunity_ok (research_audits d') (rn_id ` set (research_runs d')) p'" if p': "p' \<in> set (opportunities d')" for p'
  proof -
    have dist: "distinct (map op_id (opportunities d))" using wf by (simp add: research_wf_def)
    obtain p where p: "p \<in> set (opportunities d)" "p' = (if op_id p = op_id q then audited (ra_state a) p else p)"
      using p' os by (auto simp: row_set_def)
    have ok: "opportunity_ok (research_audits d) (rn_id ` set (research_runs d)) p" using wf p(1) by (simp add: research_wf_def)
    have "audits_of (op_id p') (research_audits d') = audits_of (op_id p) (research_audits d) @ (if op_id p = op_id q then [a] else [])"
      using p(2) asel by (auto simp: audits_of_def as audited_def)
    then show ?thesis using ok p(2) by (auto simp: opportunity_ok_def gate_state_def rids' audited_def)
  qed
  have "research_audit_ok (op_id ` set (opportunities d')) (rn_id ` set (research_runs d')) b" if "b \<in> set (research_audits d')" for b
  proof (cases "b = a")
    case True
    have "op_research_run_id q \<in> rn_id ` set (research_runs d)" using wf qin(1) by (simp add: research_wf_def opportunity_ok_def)
    then show ?thesis using True asel verdict qin(1) by (simp add: research_audit_ok_def oids rids')
  next
    case False
    then show ?thesis using wf that as by (simp add: research_wf_def oids rids')
  qed
  then show ?thesis using wf runs opps oids(2) rids by (simp add: research_wf_def)
qed

lemma latest_audit_in: "research_latest_audit w k d = Some a \<Longrightarrow> a \<in> set (audits_of k (research_audits d)) \<and> ra_workspace_id a = w"
proof -
  assume "research_latest_audit w k d = Some a"
  then obtain l where l: "sort_key (\<lambda>a. - ra_checked_at a) (opportunity_audits w k d) = a # l"
    by (auto simp: research_latest_audit_def split: list.splits)
  have "a \<in> set (sort_key (\<lambda>a. - ra_checked_at a) (opportunity_audits w k d))" unfolding l by simp
  then show ?thesis by (simp add: opportunity_audits_def audits_of_def)
qed

lemma strategist_gate_result:
  assumes "strategist_gate w k d = (Inr g, d')"
  shows "\<exists>q a. live_opportunity w k d = [q] \<and> research_latest_audit w k d = Some a \<and> ra_state a = ''pass'' \<and> sg_eligible g
    \<and> sg_opportunity_id g = k \<and> research_audits d' = research_audits d \<and> research_runs d' = research_runs d
    \<and> opportunities d' = row_set op_id k (op_strategist_state_update (\<lambda>_. ''eligible'')) (opportunities d)"
proof -
  obtain q where q: "live_opportunity w k d = [q]"
    using assms by (auto simp: strategist_gate_def bindM_exec [of "get_opportunity w k"] get_opportunity_exec
        scalar_one_or_none_def raise_exec split: list.splits)
  then have k: "op_id q = k" by (auto simp: live_opportunity_def filter_eq_Cons_iff)
  let ?d = "opportunities_update (row_set op_id k (op_strategist_state_update (\<lambda>_. ''eligible''))) d"
  obtain a where a: "research_latest_audit w k d = Some a" "ra_state a = ''pass''"
    and tail: "andThen (announce_research w (op_research_run_id q) ''opportunity.strategist_eligible'' (JObj [(''opportunity_id'', JStr (str_uuid k))]))
      (ret \<lparr> sg_opportunity_id = k, sg_eligible = True, sg_state = ''eligible'',
              sg_detail = ''Approved intelligence is eligible for a future Strategist handoff; no Strategist provider is configured.'' \<rparr>) ?d = (Inr g, d')"
    using assms q k by (cases "research_latest_audit w k d")
      (auto simp: strategist_gate_def bindM_exec [of "get_opportunity w k"] bindM_exec [of "gets f" for f] get_opportunity_exec gets_exec
        set_opportunity_def andThen_exec [of "modifyM h" for h] modifyM_exec raise_exec elim!: andThen_InrE split: if_splits)
  have "keeps research_rows (announce_research w i ty p)" for i ty p by (intro steps_intro; simp)
  moreover obtain u where "announce_research w (op_research_run_id q) ''opportunity.strategist_eligible'' (JObj [(''opportunity_id'', JStr (str_uuid k))]) ?d = (Inr u, d')"
    using tail by (auto elim!: andThen_InrE simp: ret_exec)
  ultimately have "research_rows d' = research_rows ?d" by (rule keepsE)
  moreover have "g = \<lparr> sg_opportunity_id = k, sg_eligible = True, sg_state = ''eligible'',
       sg_detail = ''Approved intelligence is eligible for a future Strategist handoff; no Strategist provider is configured.'' \<rparr>"
    using tail by (auto elim!: andThen_InrE simp: ret_exec)
  ultimately show ?thesis using q a by simp
qed

lemma gate_keeps_wf:
  assumes wf: "research_wf d" and g: "strategist_gate w k d = (Inr g, d')"
  shows "research_wf d'"
proof -
  obtain q a where a: "research_latest_audit w k d = Some a" "ra_state a = ''pass''" and r: "research_audits d' = research_audits d" "research_runs d' = research_runs d"
    and q: "opportunities d' = row_set op_id k (op_strategist_state_update (\<lambda>_. ''eligible'')) (opportunities d)"
    using strategist_gate_result [OF g] by blast
  let ?f = "op_strategist_state_update (\<lambda>_. ''eligible'')"
  have ok: "opportunity_ok (research_audits d) rs (if op_id p = k then ?f p else p)" if "opportunity_ok (research_audits d) rs p" for p rs
    using that latest_audit_in [OF a(1)] a(2) by (auto simp: opportunity_ok_def)
  have "map op_id (opportunities d') = map op_id (opportunities d)" "op_id ` set (opportunities d') = op_id ` set (opportunities d)"
    by (simp_all add: q row_set_ids)
  moreover have "\<forall>p \<in> set (opportunities d'). opportunity_ok (research_audits d) (rn_id ` set (research_runs d)) p"
  proof
    fix p'
    assume "p' \<in> set (opportunities d')"
    then obtain p where p: "p \<in> set (opportunities d)" "p' = (if op_id p = k then ?f p else p)" by (auto simp: q row_set_def)
    then have "opportunity_ok (research_audits d) (rn_id ` set (research_runs d)) p" using wf by (simp add: research_wf_def)
    then show "opportunity_ok (research_audits d) (rn_id ` set (research_runs d)) p'" using ok p(2) by simp
  qed
  ultimately show ?thesis using wf by (simp add: research_wf_def r)
qed

section \<open>Properties\<close>

text \<open>The calls a workspace can make, each in its session; a call that raises changes nothing but the readings of the clock.\<close>

inductive research_call :: "dept \<Rightarrow> dept \<Rightarrow> bool" where
  start: "research_call d (snd (research_create_run_route w p u d))"
| fixture: "research_call d (snd (session (record_fixture_run w u objective sources f) d))"
| audit: "research_call d (snd (research_run_audit_route w k u d))"
| handoff: "research_call d (snd (send_to_strategist w k u d))"

lemma in_core_result: "in_core m d = (Inr x, d') \<Longrightarrow> \<exists>c. d' = d\<lparr>core := c\<rparr>"
  by (auto simp: in_core_exec split: prod.splits)

lemma as_admin_pres:
  assumes "\<And>d x d'. I d \<Longrightarrow> m d = (Inr x, d') \<Longrightarrow> I d'" "\<And>d c. I d \<Longrightarrow> I (d\<lparr>core := c\<rparr>)"
  shows "pres I (as_admin w u m)"
  unfolding as_admin_def
proof (rule pres_session)
  fix d x d'
  assume "I d" "andThen (in_core (require_workspace_admin w u)) m d = (Inr x, d')"
  then obtain y d1 where "in_core (require_workspace_admin w u) d = (Inr y, d1)" "m d1 = (Inr x, d')" by (auto elim!: andThen_InrE)
  with \<open>I d\<close> show "I d'" using assms in_core_result by metis
qed (rule assms(2))

lemma catch_raise_Inr: "catchM m (\<lambda>e. raise (h e)) d = (Inr x, d') \<longleftrightarrow> m d = (Inr x, d')"
  by (auto simp: catchM_exec raise_exec split: prod.splits sum.splits)

lemma pres_create_research_run: "pres research_wf (research_create_manual_run w u p)"
  unfolding research_create_manual_run_def Let_def
  by (intro steps_intro pres_add_research_run) (simp_all add: manual_research_run_def new_research_run_def)

lemma research_call_keeps_wf: "research_call d d' \<Longrightarrow> research_wf d \<Longrightarrow> research_wf d'"
proof (induction rule: research_call.induct)
  case (start d w p u)
  have "pres research_wf (research_create_run_route w p u)"
    unfolding research_create_run_route_def
    by (rule as_admin_pres) (auto simp: raise_exec split: if_splits dest: presD' [OF pres_create_research_run])
  then show ?case using start by (auto dest: presD)
next
  case (fixture d w u b src f)
  have "pres research_wf (session (record_fixture_run w u b src f))"
    by (rule pres_session) (auto dest: presD' [OF pres_record_fixture_run])
  then show ?case using fixture by (auto dest: presD)
next
  case (audit d w k u)
  have "pres research_wf (research_run_audit_route w k u)"
    unfolding research_run_audit_route_def by (rule as_admin_pres) (auto simp: catch_raise_Inr audit_keeps_wf)
  then show ?case using audit by (auto dest: presD)
next
  case (handoff d w k u)
  have "pres research_wf (send_to_strategist w k u)"
    unfolding send_to_strategist_def by (rule as_admin_pres) (auto simp: catch_raise_Inr gate_keeps_wf)
  then show ?case using handoff by (auto dest: presD)
qed

text \<open>
  C40: Research rows stay well-formed. Whatever calls are made, in any order and with any outcome: keys are unique and references
  are not dangling, an audit's state is the one its reasons and warnings give, the gate status of an opportunity is the state of
  its last audit, only an opportunity with a PASS on record is ever eligible for the strategist, and a run's counters are the
  numbers of its audits.
\<close>

theorem research_stays_wellformed:
  assumes "research_call\<^sup>*\<^sup>* d d'" "research_wf d"
  shows "research_wf d'"
  using assms by (induction rule: rtranclp_induct) (auto dest: research_call_keeps_wf)

text \<open>
  What the independent audit decides. It looks at the stored sources only: it blocks when no source was accepted, one was
  rejected, or two accepted sources have the same content; it passes exactly when none of this holds, at least two sources were
  accepted, and all of them are fresh; the verdict is recorded and becomes the opportunity's gate status.
\<close>

theorem audit_verdict:
  assumes "audit_opportunity w k d = (Inr a, d')"
  defines "sources \<equiv> map snd (opportunity_evidence w k d)"
  defines "acc \<equiv> filter (\<lambda>s. rs_handling_state s = ''accepted'') sources"
  shows "(ra_state a = ''blocked'' \<longleftrightarrow> acc = [] \<or> (\<exists>s \<in> set sources. rs_handling_state s = ''rejected'')
        \<or> \<not> distinct (map rs_content_digest acc))
    \<and> (ra_state a = ''pass'' \<longleftrightarrow> 2 \<le> length acc \<and> distinct (map rs_content_digest acc)
        \<and> (\<forall>s \<in> set sources. rs_handling_state s \<noteq> ''rejected'') \<and> (\<forall>s \<in> set acc. rs_freshness s \<notin> {''stale'', ''unknown''}))
    \<and> research_audits d' = research_audits d @ [a]
    \<and> (\<exists>q. live_opportunity w k d = [q] \<and> audited (ra_state a) q \<in> set (opportunities d'))"
proof -
  obtain q i t where q: "live_opportunity w k d = [q]" and a: "a = research_audit_row w q sources i t"
    and as: "research_audits d' = research_audits d @ [a]" and os: "opportunities d' = row_set op_id (op_id q) (audited (ra_state a)) (opportunities d)"
    using audit_opportunity_result [OF assms(1)] sources_def by blast
  have dup: "length (remdups (map rs_content_digest acc)) < length acc \<longleftrightarrow> \<not> distinct (map rs_content_digest acc)"
    using length_remdups_leq [of "map rs_content_digest acc"] length_remdups_eq [of "map rs_content_digest acc"]
      remdups_id_iff_distinct [of "map rs_content_digest acc"] by (auto simp: order_le_less)
  have b: "audit_blocked sources = [] \<longleftrightarrow> acc \<noteq> [] \<and> (\<forall>s \<in> set sources. rs_handling_state s \<noteq> ''rejected'') \<and> distinct (map rs_content_digest acc)"
    using dup by (auto simp: audit_blocked_def acc_def Let_def)
  have w: "audit_blocked sources = [] \<Longrightarrow> audit_warnings sources = [] \<longleftrightarrow> length acc \<noteq> 1 \<and> (\<forall>s \<in> set acc. rs_freshness s \<notin> {''stale'', ''unknown''})"
    by (auto simp: audit_warnings_def acc_def Let_def)
  have st: "ra_state a = audit_state (audit_blocked sources) (audit_warnings sources)" by (simp add: a research_audit_row_def)
  have len: "acc \<noteq> [] \<and> length acc \<noteq> 1 \<longleftrightarrow> 2 \<le> length acc" by (cases acc) (auto simp: Suc_le_eq)
  have "ra_state a = ''blocked'' \<longleftrightarrow> audit_blocked sources \<noteq> []" by (simp add: st audit_state_def)
  then have 1: "ra_state a = ''blocked'' \<longleftrightarrow> acc = [] \<or> (\<exists>s \<in> set sources. rs_handling_state s = ''rejected'')
      \<or> \<not> distinct (map rs_content_digest acc)" unfolding b by blast
  have "ra_state a = ''pass'' \<longleftrightarrow> audit_blocked sources = [] \<and> audit_warnings sources = []" by (simp add: st audit_state_def)
  then have 2: "ra_state a = ''pass'' \<longleftrightarrow> 2 \<le> length acc \<and> distinct (map rs_content_digest acc)
      \<and> (\<forall>s \<in> set sources. rs_handling_state s \<noteq> ''rejected'') \<and> (\<forall>s \<in> set acc. rs_freshness s \<notin> {''stale'', ''unknown''})"
    using b w len by blast
  have "audited (ra_state a) q \<in> set (opportunities d')"
    using q by (auto simp: os row_set_def live_opportunity_def filter_eq_Cons_iff)
  then show ?thesis using 1 2 as q by blast
qed

text \<open>
  A refused handoff leaves no trace: the gate writes an \<open>opportunity.strategist_denied\<close> event, but the exception that reports the
  refusal rolls the route's session back, and the event with it.
\<close>

lemma denied_handoff_forgotten:
  assumes "in_core (require_workspace_admin w u) d = (Inr m, d1)" "live_opportunity w k d1 = [q]"
    and "research_latest_audit w k d1 = None \<or> ra_state (the (research_latest_audit w k d1)) \<noteq> ''pass''"
    and "distinct (map rn_id (research_runs d1))"
  shows "\<exists>e n. send_to_strategist w k u d = (Inl e, d\<lparr>core := (core d)\<lparr>tick := n\<rparr>\<rparr>)"
proof -
  have "\<exists>e d2. strategist_gate w k d1 = (Inl e, d2)"
    using assms(2,3) by (auto simp: strategist_gate_def bindM_exec get_opportunity_exec gets_exec andThen_exec raise_exec
        split: prod.splits sum.splits)
  then show ?thesis
    using assms(1) by (auto simp: send_to_strategist_def as_admin_def session_exec andThen_exec catchM_exec raise_exec)
qed

text \<open>
  The redaction takes the scheme of an authorization header for its secret: the token itself stays in the excerpt.
\<close>

theorem bearer_token_survives_redaction:
  "safe_excerpt (Some ''Authorization: Bearer abc123'') = (Some ''[REDACTED_SECRET] abc123'', None)"
proof -
  have "strip ''Authorization: Bearer abc123'' = ''Authorization: Bearer abc123''" by code_simp
  moreover have "lower ''Authorization: Bearer abc123'' = ''authorization: bearer abc123''" by code_simp
  then have "\<not> search UNTRUSTED_INSTRUCTION ''Authorization: Bearer abc123''"
    using untrusted_letters [of "''Authorization: Bearer abc123''"] by auto
  moreover have "sub SECRET_PATTERN ''[REDACTED_SECRET]'' ''Authorization: Bearer abc123'' = ''[REDACTED_SECRET] abc123''" by code_simp
  ultimately show ?thesis by (simp add: safe_excerpt_def MAX_FIXTURE_EXCERPT_def)
qed

text \<open>
  The guard on private addresses knows the address forms \<open>ipaddress\<close> parses; the short and the decimal form of the loopback
  address pass. And a port does not distinguish sources: it is dropped.
\<close>

theorem loopback_forms_accepted:
  "canonical_url ''http://127.1/x'' = Inr ''http://127.1/x''" "canonical_url ''http://2130706433/'' = Inr ''http://2130706433/''"
  "canonical_url ''http://h.io:8080/'' = canonical_url ''http://h.io/''"
  by code_simp+

definition scout_dept :: dept where
  "scout_dept = empty_dept (empty_db (\<lambda>n. 1000 + of_nat n) (\<lambda>n. 5000 + n) (\<lambda>_. 1 / 2)) ''test''"

definition scouting_dept :: dept where
  "scouting_dept = empty_dept admin_db ''test''"

definition fixture_source :: fields where
  "fixture_source = [(''url'', JStr ''https://a.io/x''), (''confidence'', JNum (1 / 2))]"

definition fixture_opportunity :: fields where
  "fixture_opportunity = [(''topic'', JStr ''t''), (''proposed_angle'', JStr ''a''), (''title'', JStr ''n''), (''summary'', JStr ''s''),
     (''confidence'', JNum (1 / 2))]"

lemma fixture_reads:
  "canonical_url ''https://a.io/x'' = Inr ''https://a.io/x''" "strip ''t'' = ''t''" "strip ''a'' = ''a''" "strip ''n'' = ''n''" "strip ''s'' = ''s''"
  by code_simp+

text \<open>What the fixture run leaves: its run, the source it accepted, the opportunity and the link between them.\<close>

lemma fixture_recorded:
  "\<exists>c r s q l. session (record_fixture_run 1 70 ''b'' [fixture_source] fixture_opportunity) scouting_dept = (Inr (5001, Some 5009),
      scouting_dept\<lparr>core := c, research_runs := [r], research_sources := [s], opportunities := [q], evidences := [l]\<rparr>)
    \<and> rn_id r = 5001 \<and> rn_workspace_id r = 1 \<and> rs_id s = 5006 \<and> rs_workspace_id s = 1 \<and> rs_handling_state s = ''accepted'' \<and> rs_freshness s = ''test''
    \<and> op_id q = 5009 \<and> op_workspace_id q = 1 \<and> op_deleted_at q = None \<and> op_research_run_id q = 5001
    \<and> oe_workspace_id l = 1 \<and> oe_opportunity_id l = 5009 \<and> oe_source_id l = 5006 \<and> memberships c = memberships admin_db"
  by (simp add: record_fixture_run_def read_source_def source_row_def excerpt_arg_def safe_excerpt_def place_opportunity_def required_text_def
      opportunity_row_def link_source_def add_research_run_def add_source_def add_opportunity_def add_evidence_def
      emit_research_def emit_on_def emit_full_exec set_rrun_def set_opportunity_def session_exec get_or_def opt_text_def opt_time_def decimal_arg_def
      as_dict_def opt_or_def exec fixture_reads fixture_source_def fixture_opportunity_def scouting_dept_def admin_db_def empty_dept_def
      new_research_run_def sample Let_def List.map_filter_def del: One_nat_def)

lemma fixture_audited:
  assumes "rn_id r = 5001" "rn_workspace_id r = 1" "rs_id s = 5006" "rs_workspace_id s = 1" "rs_handling_state s = ''accepted''" "rs_freshness s = ''test''"
    "op_id q = 5009" "op_workspace_id q = 1" "op_deleted_at q = None" "op_research_run_id q = 5001"
    "oe_workspace_id l = 1" "oe_opportunity_id l = 5009" "oe_source_id l = 5006" "memberships c = memberships admin_db"
  shows "\<exists>a d. research_run_audit_route 1 5009 70 (scouting_dept\<lparr>core := c, research_runs := [r], research_sources := [s], opportunities := [q], evidences := [l]\<rparr>)
      = (Inr a, d) \<and> ra_state a = ''pass_with_warning'' \<and> research_audits d = [a] \<and> map op_audit_gate_status (opportunities d) = [''pass_with_warning'']
        \<and> map rn_audited_opportunity_count (research_runs d) = [rn_audited_opportunity_count r + 1] \<and> length (research_sources d) = 1"
  using assms
  by (simp add: research_run_audit_route_def as_admin_def require_workspace_admin_def require_workspace_role_def get_membership_def
      audit_opportunity_def get_opportunity_def research_audit_row_def add_research_audit_def count_research_audit_def audit_state_def audit_blocked_def
      audit_warnings_def opportunity_evidence_def research_get_run_def set_opportunity_def set_rrun_def emit_research_def emit_on_def emit_full_exec
      audited_def tallied_def session_exec exec scouting_dept_def admin_db_def empty_dept_def Let_def del: One_nat_def)
text \<open>
  Three calls in a row: the fixture run, the audit of its opportunity, and the hand-off to the strategist, which is refused as the audit
  passed with a warning only.
\<close>

lemma research_stays_wellformed_witness:
  "\<exists>d d'. research_call\<^sup>*\<^sup>* scouting_dept d \<and> research_wf d \<and> length (research_runs d) = 1 \<and> length (research_sources d) = 1
    \<and> map op_audit_gate_status (opportunities d) = [''pass_with_warning''] \<and> map ra_state (research_audits d) = [''pass_with_warning'']
    \<and> d' = snd (send_to_strategist 1 5009 70 d) \<and> research_wf d'"
proof -
  have wf: "research_wf scouting_dept" by (simp add: research_wf_def scouting_dept_def empty_dept_def)
  from fixture_recorded obtain c r s q l where
    f: "session (record_fixture_run 1 70 ''b'' [fixture_source] fixture_opportunity) scouting_dept = (Inr (5001, Some 5009),
      scouting_dept\<lparr>core := c, research_runs := [r], research_sources := [s], opportunities := [q], evidences := [l]\<rparr>)" and
    p: "rn_id r = 5001" "rn_workspace_id r = 1" "rs_id s = 5006" "rs_workspace_id s = 1" "rs_handling_state s = ''accepted''" "rs_freshness s = ''test''"
    "op_id q = 5009" "op_workspace_id q = 1" "op_deleted_at q = None" "op_research_run_id q = 5001"
    "oe_workspace_id l = 1" "oe_opportunity_id l = 5009" "oe_source_id l = 5006" "memberships c = memberships admin_db" by blast
  let ?d1 = "scouting_dept\<lparr>core := c, research_runs := [r], research_sources := [s], opportunities := [q], evidences := [l]\<rparr>"
  from fixture_audited [OF p] obtain a d where a: "research_run_audit_route 1 5009 70 ?d1 = (Inr a, d)" "ra_state a = ''pass_with_warning''"
    "research_audits d = [a]" "map op_audit_gate_status (opportunities d) = [''pass_with_warning'']"
    "map rn_audited_opportunity_count (research_runs d) = [rn_audited_opportunity_count r + 1]" "length (research_sources d) = 1" by (elim exE conjE) (rule that)
  have "research_call scouting_dept ?d1"
    using research_call.fixture [of scouting_dept 1 70 "''b''" "[fixture_source]" fixture_opportunity] unfolding f by simp
  moreover have "research_call ?d1 d" using research_call.audit [of ?d1 1 5009 70] unfolding a(1) by simp
  ultimately have d: "research_call\<^sup>*\<^sup>* scouting_dept d" by (rule converse_rtranclp_into_rtranclp [OF _ r_into_rtranclp])
  then have "research_call\<^sup>*\<^sup>* scouting_dept (snd (send_to_strategist 1 5009 70 d))"
    using research_call.handoff by (rule rtranclp.rtrancl_into_rtrancl)
  with d research_stays_wellformed [OF _ wf] have "research_wf d" "research_wf (snd (send_to_strategist 1 5009 70 d))" by blast+
  moreover have "length (research_runs d) = 1" using arg_cong [OF a(5), of length] by simp
  ultimately show ?thesis using d a(2-4,6) by auto
qed

definition scout_source :: "uuid \<Rightarrow> string \<Rightarrow> ResearchSource" where
  "scout_source i digest = \<lparr> rs_id = i, rs_workspace_id = 1, rs_research_run_id = 200, rs_canonical_url = str_nat i, rs_source_type = ''fixture'',
     rs_retrieved_at = 0, rs_published_at = None, rs_publisher = None, rs_author = None, rs_claim_supported = None,
     rs_freshness = ''test'', rs_confidence = 1 / 2, rs_content_digest = digest, rs_safe_excerpt = None,
     rs_handling_state = ''accepted'', rs_rejection_reason = None, rs_test_data = True \<rparr>"

definition scout_opportunity :: Opportunity where
  "scout_opportunity = \<lparr> op_id = 201, op_workspace_id = 1, op_research_run_id = 200, op_title = ''t'', op_topic = ''t'', op_summary = ''s'',
     op_proposed_angle = ''a'', op_target_audience = None, op_target_platform = None, op_suggested_format = None, op_discovered_at = 0,
     op_freshness = ''test'', op_source_count = 2, op_confidence = 1 / 2, op_risk = ''low'', op_status = ''active'',
     op_created_by_worker = ''scout_fixture'', op_component_scores = JObj [], op_score_reasoning = JObj [], op_dedupe_key = ''k'',
     op_audit_gate_status = ''not_run'', op_performance_data_state = ''no_performance_data'', op_strategist_state = ''not_sent'',
     op_test_data = True, op_created_by = None, op_deleted_at = None \<rparr>"

definition scout_link :: "uuid \<Rightarrow> uuid \<Rightarrow> OpportunityEvidence" where
  "scout_link i s = \<lparr> oe_id = i, oe_workspace_id = 1, oe_opportunity_id = 201, oe_source_id = s, oe_claim_supported = ''c'',
     oe_relevance = 8 / 10, oe_contradiction_flag = False \<rparr>"

definition evidence_dept :: dept where
  "evidence_dept = scout_dept\<lparr>research_runs := [new_research_run 1 70 ''manual'' ''b'' [] 0 0 200 202 0],
     opportunities := [scout_opportunity], research_sources := [scout_source 203 ''x'', scout_source 204 ''y''],
     evidences := [scout_link 205 203, scout_link 206 204]\<rparr>"

lemmas scout_fixture = evidence_dept_def scout_dept_def empty_dept_def scout_source_def scout_opportunity_def scout_link_def new_research_run_def
  empty_db_def

lemma audit_verdict_witness:
  "\<exists>a d'. audit_opportunity 1 201 evidence_dept = (Inr a, d') \<and> ra_state a = ''pass''"
proof -
  have "\<exists>a. fst (audit_opportunity 1 201 evidence_dept) = Inr a"
    by (simp add: audit_opportunity_def get_opportunity_def research_audit_row_def add_research_audit_def count_research_audit_def
        research_get_run_def set_opportunity_def set_rrun_def emit_research_def emit_on_def audited_def tallied_def exec scout_fixture Let_def)
  then obtain a d' where a: "audit_opportunity 1 201 evidence_dept = (Inr a, d')" by (metis prod.collapse)
  have e: "map snd (opportunity_evidence 1 201 evidence_dept) = [scout_source 203 ''x'', scout_source 204 ''y'']"
    by (simp add: opportunity_evidence_def scout_fixture)
  have "ra_state a = ''pass''" using audit_verdict [OF a] unfolding e by (simp add: scout_source_def)
  with a show ?thesis by blast
qed

end
