(* ===== verification/Strategy.thy ===== *)
theory Strategy imports Research begin

text \<open>
  The strategist and the independent strategy auditor: \<open>services/strategy.py\<close>, its routes \<open>api/routes/strategy.py\<close>, the payload
  checks of \<open>schemas/strategy.py\<close>, and the content profile (\<open>models/content_profile.py\<close>, \<open>api/routes/content_profile.py\<close>) whose
  completeness the departments report. Only researched opportunities enter a brief, and only an audited PASS opens the writer gate.
  Dashes outside ASCII in the code's texts are written \<open>-\<close>.
\<close>

section \<open>The content profile\<close>

definition is_content_profile_complete :: "WorkspaceContentProfile option \<Rightarrow> bool" where
  "is_content_profile_complete profile = (case profile of
     None \<Rightarrow> False
   | Some p \<Rightarrow> list_all (\<lambda>x. opt_or x \<noteq> []) [cp_business_name p, cp_offer p, cp_target_audience p, cp_brand_voice p,
       cp_target_platform p, cp_content_goal p])"

definition content_profile_row :: "uuid \<Rightarrow> WorkspaceContentProfile option D" where
  "content_profile_row workspace_id = one_of (\<lambda>d. filter (\<lambda>p. cp_workspace_id p = workspace_id) (profiles_content d))"

definition get_business_context_state :: "uuid \<Rightarrow> string D" where
  "get_business_context_state workspace_id =
     bindM (content_profile_row workspace_id) (\<lambda>profile.
     ret (if is_content_profile_complete profile then ''complete'' else ''incomplete''))"

record ContentProfileInput =
  cpi_business_name :: "string option"
  cpi_offer :: "string option"
  cpi_target_audience :: "string option"
  cpi_brand_voice :: "string option"
  cpi_target_platform :: "string option"
  cpi_content_goal :: "string option"

definition longer_than :: "nat \<Rightarrow> string option \<Rightarrow> bool" where
  "longer_than n x = (case x of None \<Rightarrow> False | Some s \<Rightarrow> n < length s)"

definition valid_content_profile :: "ContentProfileInput \<Rightarrow> bool" where
  "valid_content_profile p \<longleftrightarrow> \<not> longer_than 200 (cpi_business_name p) \<and> \<not> longer_than 2000 (cpi_offer p)
     \<and> \<not> longer_than 2000 (cpi_target_audience p) \<and> \<not> longer_than 2000 (cpi_brand_voice p)
     \<and> \<not> longer_than 100 (cpi_target_platform p) \<and> \<not> longer_than 2000 (cpi_content_goal p)"

definition strip_and_blank_to_none :: "string option \<Rightarrow> string option" where
  "strip_and_blank_to_none value = (case value of None \<Rightarrow> None | Some s \<Rightarrow> if strip s = [] then None else Some (strip s))"

definition profile_fields :: "ContentProfileInput \<Rightarrow> WorkspaceContentProfile \<Rightarrow> WorkspaceContentProfile" where
  "profile_fields p r = r\<lparr> cp_business_name := strip_and_blank_to_none (cpi_business_name p),
     cp_offer := strip_and_blank_to_none (cpi_offer p), cp_target_audience := strip_and_blank_to_none (cpi_target_audience p),
     cp_brand_voice := strip_and_blank_to_none (cpi_brand_voice p), cp_target_platform := strip_and_blank_to_none (cpi_target_platform p),
     cp_content_goal := strip_and_blank_to_none (cpi_content_goal p) \<rparr>"

definition add_content_profile :: "WorkspaceContentProfile \<Rightarrow> unit D" where
  "add_content_profile = add_row cp_id profiles_content profiles_content_update
     (\<lambda>q r. cp_workspace_id q = cp_workspace_id r) (\<lambda>d r. True)"

definition get_content_profile :: "uuid \<Rightarrow> uuid \<Rightarrow> WorkspaceContentProfile option D" where
  "get_content_profile workspace_id user = session (
     andThen (in_core (require_workspace_member workspace_id user)) (content_profile_row workspace_id))"

definition save_content_profile :: "uuid \<Rightarrow> ContentProfileInput \<Rightarrow> uuid \<Rightarrow> WorkspaceContentProfile D" where
  "save_content_profile workspace_id payload user = session (
     andThen (in_core (require_workspace_content_author workspace_id user)) (
     if \<not> valid_content_profile payload then raise (HTTPException 422 ''invalid content profile'')
     else bindM (content_profile_row workspace_id) (\<lambda>profile. case profile of
       None \<Rightarrow>
         bindM fresh (\<lambda>i.
         let p = profile_fields payload \<lparr> cp_id = i, cp_workspace_id = workspace_id, cp_business_name = None, cp_offer = None,
               cp_target_audience = None, cp_brand_voice = None, cp_target_platform = None, cp_content_goal = None,
               cp_created_by = Some user \<rparr> in
         andThen (add_content_profile p) (ret p))
     | Some p \<Rightarrow>
         andThen (modifyM (profiles_content_update (row_set cp_id (cp_id p) (profile_fields payload))))
         (ret (profile_fields payload p)))))"

section \<open>Texts\<close>

definition safe_text :: "nat \<Rightarrow> string \<Rightarrow> string \<Rightarrow> exn + string" where
  "safe_text maximum field value =
     (let normalized = strip value in
      if normalized = [] \<or> maximum < length normalized
      then Inl (ValueError (field @ '' must be non-empty and at most '' @ str_nat maximum @ '' characters''))
      else if search UNTRUSTED_INSTRUCTION normalized then Inl (ValueError (field @ '' contains an untrusted instruction pattern''))
      else if search SECRET_PATTERN normalized then Inl (ValueError (field @ '' contains a secret-like value''))
      else Inr normalized)"

text \<open>\<open>(value or "").strip().lower()\<close> of a fixture's value.\<close>

definition key_part :: "json \<Rightarrow> exn + string" where
  "key_part v = (case v of JStr s \<Rightarrow> Inr (lower (strip s)) | _ \<Rightarrow> if truthy v then Inl (AttributeError ''strip'') else Inr [])"

definition structural_fingerprint :: "uuid list \<Rightarrow> string \<Rightarrow> string list \<Rightarrow> string" where
  "structural_fingerprint source_opportunity_ids objective parts =
     sha256_hex (join [CHR 0x0A] (sort (map str_uuid source_opportunity_ids) @ [lower (strip objective)] @ parts))"

section \<open>Runs and briefs\<close>

definition emit_strategy :: "uuid \<Rightarrow> string \<Rightarrow> json \<Rightarrow> unit D" where
  "emit_strategy run_id event_type payload =
     bindM (gets (\<lambda>d. row_get sn_id run_id (strategy_runs d))) (\<lambda>run. case run of
       None \<Rightarrow> raise NoSuchRow
     | Some r \<Rightarrow> emit_on event_type (sn_workspace_id r) ''strategy_run'' (sn_id r) (sn_correlation_id r) (sn_trace_id r)
         payload ''strategist-service'')"

lemma keeps_emit_strategy [steps_intro]: "(\<And>d c. f (d\<lparr>core := c\<rparr>) = f d) \<Longrightarrow> keeps f (emit_strategy i ty p)"
  unfolding emit_strategy_def by (intro steps_intro; simp)

lemma pres_emit_strategy [steps_intro]: "(\<And>d c. I d \<Longrightarrow> I (d\<lparr>core := c\<rparr>)) \<Longrightarrow> pres I (emit_strategy i ty p)"
  unfolding emit_strategy_def by (intro steps_intro; simp)

definition strategy_get_run :: "uuid \<Rightarrow> uuid \<Rightarrow> StrategyRun option D" where
  "strategy_get_run workspace_id run_id =
     one_of (\<lambda>d. filter (\<lambda>r. sn_id r = run_id \<and> sn_workspace_id r = workspace_id) (strategy_runs d))"

definition strategy_list_runs :: "uuid \<Rightarrow> dept \<Rightarrow> StrategyRun list" where
  "strategy_list_runs workspace_id d =
     sort_key (\<lambda>r. - sn_created_at r) (filter (\<lambda>r. sn_workspace_id r = workspace_id) (strategy_runs d))"

definition get_brief :: "uuid \<Rightarrow> uuid \<Rightarrow> StrategyBrief option D" where
  "get_brief workspace_id brief_id =
     one_of (\<lambda>d. filter (\<lambda>b. sb_id b = brief_id \<and> sb_workspace_id b = workspace_id \<and> sb_deleted_at b = None) (briefs d))"

definition list_briefs :: "uuid \<Rightarrow> dept \<Rightarrow> StrategyBrief list" where
  "list_briefs workspace_id d =
     sort_key (\<lambda>b. - sb_created_at b) (filter (\<lambda>b. sb_workspace_id b = workspace_id \<and> sb_deleted_at b = None) (briefs d))"

definition brief_opportunity_ids :: "uuid \<Rightarrow> uuid \<Rightarrow> dept \<Rightarrow> uuid list" where
  "brief_opportunity_ids workspace_id brief_id d =
     map so_opportunity_id (filter (\<lambda>l. so_workspace_id l = workspace_id \<and> so_strategy_brief_id l = brief_id) (brief_links d))"

definition brief_audits :: "uuid \<Rightarrow> uuid \<Rightarrow> dept \<Rightarrow> StrategyAudit list" where
  "brief_audits workspace_id brief_id d =
     filter (\<lambda>a. st_workspace_id a = workspace_id \<and> st_strategy_brief_id a = brief_id) (strategy_audits d)"

definition strategy_latest_audit :: "uuid \<Rightarrow> uuid \<Rightarrow> dept \<Rightarrow> StrategyAudit option" where
  "strategy_latest_audit workspace_id brief_id d =
     (case sort_key (\<lambda>a. - st_checked_at a) (brief_audits workspace_id brief_id d) of [] \<Rightarrow> None | a # _ \<Rightarrow> Some a)"

definition set_srun :: "uuid \<Rightarrow> (StrategyRun \<Rightarrow> StrategyRun) \<Rightarrow> unit D" where
  "set_srun i f = modifyM (strategy_runs_update (row_set sn_id i f))"

definition set_brief :: "uuid \<Rightarrow> (StrategyBrief \<Rightarrow> StrategyBrief) \<Rightarrow> unit D" where
  "set_brief i f = modifyM (briefs_update (row_set sb_id i f))"

definition add_strategy_run :: "StrategyRun \<Rightarrow> unit D" where
  "add_strategy_run = add_row sn_id strategy_runs strategy_runs_update (\<lambda>q r. False) (\<lambda>d r. True)"

text \<open>Under \<open>uq_strategy_briefs_workspace_fp\<close>, which counts deleted rows too.\<close>

definition add_brief :: "StrategyBrief \<Rightarrow> unit D" where
  "add_brief = add_row sb_id briefs briefs_update
     (\<lambda>q r. sb_workspace_id q = sb_workspace_id r \<and> sb_structural_fingerprint q = sb_structural_fingerprint r) (\<lambda>d r. True)"

definition add_brief_link :: "StrategyBriefOpportunity \<Rightarrow> unit D" where
  "add_brief_link = add_row so_id brief_links brief_links_update (\<lambda>q r. so_workspace_id q = so_workspace_id r
     \<and> so_strategy_brief_id q = so_strategy_brief_id r \<and> so_opportunity_id q = so_opportunity_id r) (\<lambda>d r. True)"

definition add_strategy_audit :: "StrategyAudit \<Rightarrow> unit D" where
  "add_strategy_audit = add_row st_id strategy_audits strategy_audits_update (\<lambda>q r. False) (\<lambda>d r. True)"

text \<open>Each source must have passed the research auditor; the strategist gate says so.\<close>

definition research_refusal :: "exn \<Rightarrow> exn" where
  "research_refusal e = (case e of ResearchGateError m \<Rightarrow> StrategyGateError m | _ \<Rightarrow> e)"

definition require_research_pass :: "uuid \<Rightarrow> uuid list \<Rightarrow> Opportunity list D" where
  "require_research_pass workspace_id opportunity_ids = mapM opportunity_ids (\<lambda>k.
     andThen (catchM (strategist_gate workspace_id k) (\<lambda>e. raise (research_refusal e))) (
     bindM (get_opportunity workspace_id k) (\<lambda>opportunity. case opportunity of
       None \<Rightarrow> raise (StrategyGateError ''source opportunity not found'')
     | Some opp \<Rightarrow> ret opp)))"

record StrategyRunCreate =
  sp_strategy_objective :: string
  sp_source_opportunity_ids :: "uuid list"
  sp_max_provider_calls :: int
  sp_max_tokens :: int
  sp_max_cost_usd :: usd
  sp_max_attempts :: int

definition valid_strategy_run :: "StrategyRunCreate \<Rightarrow> bool" where
  "valid_strategy_run p \<longleftrightarrow> 3 \<le> length (sp_strategy_objective p) \<and> length (sp_strategy_objective p) \<le> 1000
     \<and> 1 \<le> length (sp_source_opportunity_ids p) \<and> length (sp_source_opportunity_ids p) \<le> 5
     \<and> 0 \<le> sp_max_provider_calls p \<and> sp_max_provider_calls p \<le> 25
     \<and> 0 \<le> sp_max_tokens p \<and> sp_max_tokens p \<le> 100000 \<and> 0 \<le> sp_max_cost_usd p \<and> sp_max_cost_usd p \<le> 25
     \<and> 1 \<le> sp_max_attempts p \<and> sp_max_attempts p \<le> 5
     \<and> distinct (sp_source_opportunity_ids p)"

definition new_strategy_run ::
  "uuid \<Rightarrow> uuid \<Rightarrow> string \<Rightarrow> string \<Rightarrow> uuid list \<Rightarrow> datetime \<Rightarrow> datetime \<Rightarrow> string \<Rightarrow> uuid \<Rightarrow> uuid \<Rightarrow> datetime \<Rightarrow> StrategyRun" where
  "new_strategy_run workspace_id actor_id trigger objective ids started deadline context i corr created =
     \<lparr> sn_id = i, sn_workspace_id = workspace_id, sn_trigger = trigger, sn_strategy_objective = objective,
       sn_source_opportunity_ids = map str_uuid ids, sn_started_at = started, sn_deadline = deadline, sn_max_provider_calls = 0,
       sn_max_tokens = 0, sn_max_cost_usd = 0, sn_max_attempts = 1, sn_status = ''running'', sn_provider_state = ''fixture_test_only'',
       sn_business_context_state = context, sn_provider_calls_used = 0, sn_tokens_used = 0, sn_reserved_cost_usd = 0,
       sn_actual_cost_usd = 0, sn_briefs_created = 0, sn_briefs_passed = 0, sn_briefs_blocked = 0, sn_last_error = None,
       sn_correlation_id = corr, sn_trace_id = None, sn_test_data = False, sn_created_by = Some actor_id, sn_created_at = created \<rparr>"

definition strategy_error :: "string \<Rightarrow> string" where
  "strategy_error context = ''STRATEGY PROVIDER NOT CONFIGURED'' @ (if context \<noteq> ''complete'' then ''; BUSINESS CONTEXT INCOMPLETE'' else '''')"

definition manual_strategy_run :: "StrategyRunCreate \<Rightarrow> StrategyRun \<Rightarrow> StrategyRun" where
  "manual_strategy_run p r = r\<lparr> sn_max_provider_calls := sp_max_provider_calls p, sn_max_tokens := sp_max_tokens p,
     sn_max_cost_usd := sp_max_cost_usd p, sn_max_attempts := sp_max_attempts p, sn_status := ''provider_not_configured'',
     sn_provider_state := ''not_configured'', sn_last_error := Some (strategy_error (sn_business_context_state r)) \<rparr>"

definition strategy_limits :: "StrategyRun \<Rightarrow> json" where
  "strategy_limits r = JObj [(''max_provider_calls'', JNum (of_int (sn_max_provider_calls r))), (''max_tokens'', JNum (of_int (sn_max_tokens r))),
     (''max_cost_usd'', JNum (sn_max_cost_usd r)), (''max_attempts'', JNum (of_int (sn_max_attempts r)))]"

definition strategy_create_manual_run :: "uuid \<Rightarrow> uuid \<Rightarrow> StrategyRunCreate \<Rightarrow> StrategyRun D" where
  "strategy_create_manual_run workspace_id actor_id payload =
     bindM (fromSum (safe_text 1000 ''strategy objective'' (sp_strategy_objective payload))) (\<lambda>objective.
     andThen (require_research_pass workspace_id (sp_source_opportunity_ids payload)) (
     bindM (get_business_context_state workspace_id) (\<lambda>context.
     bindM now (\<lambda>t.
     bindM fresh (\<lambda>i.
     bindM fresh (\<lambda>corr.
     bindM now (\<lambda>created.
     let r = manual_strategy_run payload (new_strategy_run workspace_id actor_id ''manual'' objective (sp_source_opportunity_ids payload)
           t (t + 900) context i corr created) in
     andThen (add_strategy_run r) (
     andThen (emit_strategy i ''strategy.started'' (JObj [(''trigger'', JStr ''manual''),
       (''source_opportunity_ids'', JList (map (JStr \<circ> str_uuid) (sp_source_opportunity_ids payload))), (''limits'', strategy_limits r),
       (''provider_state'', JStr (sn_provider_state r)), (''business_context_state'', JStr context)])) (
     andThen (emit_strategy i ''strategy.provider_not_configured'' (JObj [(''detail'', JStr (strategy_error context))]))
     (ret r))))))))))"

section \<open>The fixture brief\<close>

definition optional_text :: "fields \<Rightarrow> string \<Rightarrow> exn + string option" where
  "optional_text f name = (case map_of f name of None \<Rightarrow> Inr None | Some JNull \<Rightarrow> Inr None
     | Some v \<Rightarrow> (case safe_text 10000 name (py_str v) of Inl e \<Rightarrow> Inl e | Inr s \<Rightarrow> Inr (Some s)))"

definition text_or :: "fields \<Rightarrow> string \<Rightarrow> string \<Rightarrow> string" where
  "text_or f name v = py_str (get_or f name (JStr v))"

text \<open>The columns that are cleaned texts, filled in the order the code names them.\<close>

definition brief_texts :: "fields \<Rightarrow> StrategyBrief \<Rightarrow> StrategyBrief D" where
  "brief_texts f b =
     bindM (fromSum (optional_text f ''target_audience'')) (\<lambda>audience.
     bindM (fromSum (optional_text f ''target_platform'')) (\<lambda>platform.
     bindM (fromSum (optional_text f ''content_format'')) (\<lambda>format_name.
     bindM (fromSum (optional_text f ''creative_angle'')) (\<lambda>angle.
     bindM (fromSum (optional_text f ''core_message'')) (\<lambda>message.
     bindM (fromSum (optional_text f ''hook_direction'')) (\<lambda>hook.
     bindM (fromSum (optional_text f ''cta_direction'')) (\<lambda>cta.
     bindM (fromSum (optional_text f ''business_goal'')) (\<lambda>goal.
     bindM (fromSum (optional_text f ''success_metric'')) (\<lambda>metric.
     bindM (fromSum (optional_text f ''commercial_goal'')) (\<lambda>commercial.
     ret (b\<lparr> sb_target_audience := audience, sb_target_platform := platform, sb_content_format := format_name,
       sb_creative_angle := angle, sb_core_message := message, sb_hook_direction := hook, sb_cta_direction := cta,
       sb_business_goal := goal, sb_success_metric := metric, sb_commercial_goal := commercial \<rparr>)))))))))))"

definition brief_values :: "fields \<Rightarrow> StrategyBrief \<Rightarrow> StrategyBrief D" where
  "brief_values f b =
     bindM (fromSum (decimal_arg (get_or f ''confidence'' (JStr ''0.50'')))) (\<lambda>confidence.
     bindM (fromSum (as_dict (get_or f ''component_scores'' (JObj [])))) (\<lambda>scores.
     bindM (fromSum (as_dict (get_or f ''score_reasoning'' (JObj [])))) (\<lambda>reasons.
     bindM (fromSum (optional_text f ''recommended_length'')) (\<lambda>len.
     bindM (fromSum (optional_text f ''recommended_posting_window'')) (\<lambda>window.
     bindM (fromSum (as_list (get_or f ''required_assets'' (JList [])))) (\<lambda>assets.
     bindM (fromSum (as_list (get_or f ''production_requirements'' (JList [])))) (\<lambda>production.
     bindM (fromSum (as_list (get_or f ''rights_requirements'' (JList [])))) (\<lambda>rights_list.
     bindM (fromSum (as_list (get_or f ''compliance_requirements'' (JList [])))) (\<lambda>compliance.
     bindM (fromSum (as_dict (get_or f ''estimated_provider_usage'' (JObj [])))) (\<lambda>usage.
     bindM (fromSum (as_dict (get_or f ''estimated_cost_range'' (JObj [])))) (\<lambda>cost.
     bindM (fromSum (as_list (get_or f ''repetition_reasons'' (JList [])))) (\<lambda>repetition.
     ret (b\<lparr> sb_confidence := confidence, sb_component_scores := scores, sb_score_reasoning := reasons,
       sb_recommended_length := len, sb_recommended_posting_window := window, sb_required_assets := assets,
       sb_production_requirements := production, sb_rights_requirements := rights_list, sb_compliance_requirements := compliance,
       sb_estimated_provider_usage := usage, sb_estimated_cost_range := cost, sb_repetition_reasons := repetition \<rparr>)))))))))))))"

definition plain_brief :: "uuid \<Rightarrow> uuid \<Rightarrow> uuid \<Rightarrow> fields \<Rightarrow> string \<Rightarrow> string \<Rightarrow> string \<Rightarrow> string \<Rightarrow> uuid \<Rightarrow> datetime \<Rightarrow> StrategyBrief" where
  "plain_brief workspace_id actor_id run_id f objective evidence_summary reasoning fp i created =
     \<lparr> sb_id = i, sb_workspace_id = workspace_id, sb_strategy_run_id = run_id, sb_objective = objective, sb_target_audience = None,
       sb_target_platform = None, sb_content_format = None, sb_creative_angle = None, sb_core_message = None,
       sb_hook_direction = None, sb_cta_direction = None, sb_business_goal = None, sb_success_metric = None,
       sb_commercial_goal = None, sb_estimated_complexity = text_or f ''estimated_complexity'' ''low'',
       sb_risk_level = text_or f ''risk_level'' ''low'', sb_evidence_summary = evidence_summary, sb_reasoning = reasoning,
       sb_confidence = 0, sb_priority = text_or f ''priority'' ''medium_priority'', sb_component_scores = JObj [],
       sb_score_reasoning = JObj [], sb_recommended_length = None, sb_recommended_posting_window = None, sb_required_assets = [],
       sb_production_requirements = [], sb_rights_requirements = [], sb_compliance_requirements = [],
       sb_estimated_provider_usage = JObj [], sb_estimated_cost_range = JObj [], sb_cost_state = text_or f ''cost_state'' ''known'',
       sb_capability_state = text_or f ''capability_state'' ''configured'',
       sb_business_context_state = text_or f ''business_context_state'' ''complete'',
       sb_performance_data_state = text_or f ''performance_data_state'' ''no_data'', sb_structural_fingerprint = fp,
       sb_repetition_state = text_or f ''repetition_state'' ''clear'', sb_repetition_reasons = [],
       sb_audit_gate_status = ''not_run'', sb_writer_handoff_state = ''blocked'', sb_created_by_worker = ''strategist_fixture'',
       sb_status = ''draft'', sb_test_data = True, sb_created_by = Some actor_id, sb_deleted_at = None, sb_created_at = created \<rparr>"

text \<open>The brief and its links to the opportunities, which makes the run a success.\<close>

definition store_brief :: "uuid \<Rightarrow> Opportunity list \<Rightarrow> uuid \<Rightarrow> StrategyBrief \<Rightarrow> unit D" where
  "store_brief workspace_id opps run_id b =
     andThen (add_brief b) (
     andThen (forM opps (\<lambda>opp. bindM fresh (\<lambda>l. add_brief_link \<lparr> so_id = l, so_workspace_id = workspace_id,
         so_strategy_brief_id = sb_id b, so_opportunity_id = op_id opp \<rparr>))) (
     andThen (set_srun run_id (\<lambda>r. r\<lparr>sn_briefs_created := 1, sn_status := ''succeeded''\<rparr>))
     (emit_strategy run_id ''strategy.brief_created'' (JObj [(''strategy_brief_id'', JStr (str_uuid (sb_id b))), (''test_data'', JBool True)]))))"

definition clean_or :: "fields \<Rightarrow> string \<Rightarrow> string \<Rightarrow> string \<Rightarrow> exn + string" where
  "clean_or f name label v = safe_text 10000 label (text_or f name v)"

definition brief_fingerprint :: "fields \<Rightarrow> uuid list \<Rightarrow> string \<Rightarrow> string D" where
  "brief_fingerprint f ids objective =
     bindM (mapM [''target_platform'', ''content_format'', ''creative_angle'', ''hook_direction'', ''cta_direction'', ''business_goal'']
       (\<lambda>name. fromSum (key_part (get_or f name JNull)))) (\<lambda>parts.
     ret (structural_fingerprint ids objective parts))"

text \<open>The run's brief: an existing one with the same fingerprint, or a new one.\<close>

definition place_brief :: "uuid \<Rightarrow> uuid \<Rightarrow> uuid \<Rightarrow> uuid list \<Rightarrow> Opportunity list \<Rightarrow> string \<Rightarrow> fields \<Rightarrow> (uuid \<times> uuid \<times> bool) D" where
  "place_brief workspace_id actor_id run_id ids opps objective f =
     bindM (fromSum (clean_or f ''objective'' ''brief objective'' objective)) (\<lambda>brief_objective.
     case opps of [] \<Rightarrow> raise (LookupError ''list index out of range'') | first # rest \<Rightarrow>
     bindM (fromSum (clean_or f ''evidence_summary'' ''evidence summary'' (op_summary first))) (\<lambda>evidence.
     bindM (fromSum (clean_or f ''reasoning'' ''reasoning'' (op_proposed_angle first))) (\<lambda>reasoning.
     bindM (brief_fingerprint f ids brief_objective) (\<lambda>fp.
     bindM (one_of (\<lambda>d. filter (\<lambda>b. sb_workspace_id b = workspace_id \<and> sb_structural_fingerprint b = fp \<and> sb_deleted_at b = None) (briefs d))) (\<lambda>existing.
     case existing of
       Some b \<Rightarrow>
         andThen (set_srun run_id (\<lambda>r. r\<lparr>sn_status := ''duplicate'', sn_last_error := Some ''DUPLICATE - REUSE OR REVISE''\<rparr>)) (
         andThen (emit_strategy run_id ''strategy.duplicate_detected'' (JObj [(''strategy_brief_id'', JStr (str_uuid (sb_id b))), (''test_data'', JBool True)]))
         (ret (run_id, sb_id b, True)))
     | None \<Rightarrow>
         bindM fresh (\<lambda>i.
         bindM now (\<lambda>created.
         bindM (brief_texts f (plain_brief workspace_id actor_id run_id f brief_objective evidence reasoning fp i created)) (\<lambda>b1.
         bindM (brief_values f b1) (\<lambda>b.
         andThen (store_brief workspace_id opps run_id b)
         (ret (run_id, i, False)))))))))))"

text \<open>The run for sources that have passed, with its brief.\<close>

definition fixture_strategy_run :: "uuid \<Rightarrow> uuid \<Rightarrow> string \<Rightarrow> uuid list \<Rightarrow> fields \<Rightarrow> Opportunity list \<Rightarrow> (uuid \<times> uuid \<times> bool) D" where
  "fixture_strategy_run workspace_id actor_id objective ids f opps =
     bindM now (\<lambda>t.
     bindM fresh (\<lambda>i.
     bindM fresh (\<lambda>corr.
     bindM now (\<lambda>created.
     andThen (add_strategy_run ((new_strategy_run workspace_id actor_id ''manual_test_fixture'' objective ids t (t + 300)
         (text_or f ''business_context_state'' ''complete'') i corr created)\<lparr>sn_test_data := True\<rparr>)) (
     andThen (emit_strategy i ''strategy.started'' (JObj [(''trigger'', JStr ''manual_test_fixture''), (''test_data'', JBool True)]))
     (place_brief workspace_id actor_id i ids opps objective f))))))"

definition record_fixture_brief :: "uuid \<Rightarrow> uuid \<Rightarrow> string \<Rightarrow> uuid list \<Rightarrow> fields \<Rightarrow> (uuid \<times> uuid \<times> bool) D" where
  "record_fixture_brief workspace_id actor_id objective ids f =
     bindM (gets environment) (\<lambda>env.
     if env \<noteq> ''test'' then raise (RuntimeError ''fixture strategy execution is test-only'')
     else
       bindM (fromSum (safe_text 1000 ''strategy objective'' objective)) (\<lambda>clean_objective.
       bindM (require_research_pass workspace_id ids) (
       fixture_strategy_run workspace_id actor_id clean_objective ids f)))"

section \<open>The independent audit\<close>

text \<open>The sources and their latest research audits; the loop stops at the first that did not pass.\<close>

fun check_sources :: "(uuid \<times> ResearchAudit option) list \<Rightarrow> json list \<times> json list" where
  "check_sources [] = ([], [])"
| "check_sources ((k, audit) # rest) =
     (if audit = None \<or> ra_state (the audit) \<noteq> ''pass''
      then ([], [JStr ''Research Auditor PASS is required for every source opportunity.''])
      else (JObj [(''opportunity_id'', JStr (str_uuid k)), (''research_audit_state'', JStr (ra_state (the audit))), (''evidence_traceability'', JStr ''pass'')]
              # fst (check_sources rest), snd (check_sources rest)))"

definition brief_blocked :: "(uuid \<times> ResearchAudit option) list \<Rightarrow> StrategyBrief \<Rightarrow> json list" where
  "brief_blocked sources b =
     (if sources = [] then [JStr ''No source opportunities are linked to this Strategy Brief.''] else [])
     @ snd (check_sources sources)
     @ (if sb_business_context_state b \<noteq> ''complete'' \<or> opt_or (sb_business_goal b) = [] then [JStr ''BUSINESS CONTEXT INCOMPLETE''] else [])
     @ (if opt_or (sb_target_platform b) = [] \<or> opt_or (sb_content_format b) = [] then [JStr ''Target platform and content format are required.''] else [])
     @ (if sb_cost_state b \<in> {''unknown'', ''not_configured''} then [JStr ''COST UNKNOWN''] else [])
     @ (if sb_capability_state b \<noteq> ''configured'' then [JStr ''BLOCKED - REQUIRED CAPABILITY NOT CONFIGURED''] else [])
     @ (if sb_repetition_state b \<in> {''duplicate'', ''require_differentiation'', ''blocked''}
        then (if sb_repetition_reasons b \<noteq> [] then sb_repetition_reasons b else [JStr ''Materially repetitive strategy.'']) else [])
     @ (if search OVERSTATED_PATTERN (sb_reasoning b) \<or> search OVERSTATED_PATTERN (sb_evidence_summary b)
        then [JStr ''Unsupported performance or commercial guarantee detected.''] else [])"

definition brief_warnings :: "StrategyBrief \<Rightarrow> json list" where
  "brief_warnings b = (if sb_performance_data_state b \<noteq> ''no_data'' then [JStr ''Performance-data state requires a source-backed future check.''] else [])"

definition opt_json :: "string option \<Rightarrow> json" where
  "opt_json x = (case x of None \<Rightarrow> JNull | Some s \<Rightarrow> JStr s)"

definition brief_snapshot :: "StrategyBrief \<Rightarrow> json" where
  "brief_snapshot b = JObj [(''objective'', JStr (sb_objective b)), (''business_goal'', opt_json (sb_business_goal b)),
     (''target_platform'', opt_json (sb_target_platform b)), (''content_format'', opt_json (sb_content_format b)),
     (''structural_fingerprint'', JStr (sb_structural_fingerprint b)), (''cost_state'', JStr (sb_cost_state b)),
     (''capability_state'', JStr (sb_capability_state b)), (''business_context_state'', JStr (sb_business_context_state b)),
     (''repetition_state'', JStr (sb_repetition_state b))]"

definition strategy_audit_row :: "uuid \<Rightarrow> StrategyBrief \<Rightarrow> (uuid \<times> ResearchAudit option) list \<Rightarrow> uuid \<Rightarrow> datetime \<Rightarrow> StrategyAudit" where
  "strategy_audit_row workspace_id b sources i t =
     \<lparr> st_id = i, st_workspace_id = workspace_id, st_strategy_brief_id = sb_id b, st_strategy_run_id = sb_strategy_run_id b,
       st_state = audit_state (brief_blocked sources b) (brief_warnings b), st_evaluator_context_version = ''strategy-auditor-v1'',
       st_brief_snapshot = brief_snapshot b, st_findings = fst (check_sources sources), st_warnings = brief_warnings b,
       st_blocked_reasons = brief_blocked sources b, st_checked_at = t, st_test_data = sb_test_data b \<rparr>"

definition brief_audited :: "string \<Rightarrow> StrategyBrief \<Rightarrow> StrategyBrief" where
  "brief_audited st b = b\<lparr> sb_audit_gate_status := st, sb_writer_handoff_state := (if st = ''pass'' then ''eligible'' else ''blocked''),
     sb_status := (if st = ''pass'' then ''audited_passed'' else ''audited_blocked'') \<rparr>"

definition srun_tallied :: "string \<Rightarrow> StrategyRun \<Rightarrow> StrategyRun" where
  "srun_tallied st r = (if st = ''pass'' then r\<lparr>sn_briefs_passed := sn_briefs_passed r + 1\<rparr> else r\<lparr>sn_briefs_blocked := sn_briefs_blocked r + 1\<rparr>)"

definition count_strategy_audit :: "uuid \<Rightarrow> StrategyBrief \<Rightarrow> StrategyAudit \<Rightarrow> unit D" where
  "count_strategy_audit workspace_id b a =
     bindM (strategy_get_run workspace_id (sb_strategy_run_id b)) (\<lambda>run. case run of
       None \<Rightarrow> ret ()
     | Some r \<Rightarrow>
         andThen (set_srun (sn_id r) (srun_tallied (st_state a)))
         (emit_strategy (sn_id r) (''strategy.audit.'' @ st_state a) (JObj [(''strategy_brief_id'', JStr (str_uuid (sb_id b))),
           (''audit_id'', JStr (str_uuid (st_id a))), (''test_data'', JBool (sb_test_data b))])))"

definition brief_sources :: "uuid \<Rightarrow> uuid \<Rightarrow> dept \<Rightarrow> (uuid \<times> ResearchAudit option) list" where
  "brief_sources workspace_id brief_id d =
     map (\<lambda>k. (k, research_latest_audit workspace_id k d)) (brief_opportunity_ids workspace_id brief_id d)"

definition write_strategy_audit :: "uuid \<Rightarrow> StrategyBrief \<Rightarrow> (uuid \<times> ResearchAudit option) list \<Rightarrow> StrategyAudit D" where
  "write_strategy_audit workspace_id b sources =
     bindM fresh (\<lambda>i.
     bindM now (\<lambda>t.
     let a = strategy_audit_row workspace_id b sources i t in
     andThen (add_strategy_audit a) (
     andThen (set_brief (sb_id b) (brief_audited (st_state a))) (
     andThen (count_strategy_audit workspace_id b a)
     (ret a)))))"

definition audit_brief :: "uuid \<Rightarrow> uuid \<Rightarrow> StrategyAudit D" where
  "audit_brief workspace_id brief_id =
     bindM (get_brief workspace_id brief_id) (\<lambda>brief. case brief of
       None \<Rightarrow> raise (LookupError ''strategy brief not found'')
     | Some b \<Rightarrow> bindM (gets (brief_sources workspace_id brief_id)) (write_strategy_audit workspace_id b))"

section \<open>The writer gate and the summary\<close>

record WriterGate =
  wg_strategy_brief_id :: uuid
  wg_eligible :: bool
  wg_state :: string
  wg_detail :: string

definition announce_strategy :: "uuid \<Rightarrow> uuid \<Rightarrow> string \<Rightarrow> json \<Rightarrow> unit D" where
  "announce_strategy workspace_id run_id event_type payload =
     bindM (strategy_get_run workspace_id run_id) (\<lambda>run. case run of
       None \<Rightarrow> ret ()
     | Some r \<Rightarrow> emit_strategy (sn_id r) event_type payload)"

definition writer_gate :: "uuid \<Rightarrow> uuid \<Rightarrow> WriterGate D" where
  "writer_gate workspace_id brief_id =
     bindM (get_brief workspace_id brief_id) (\<lambda>brief. case brief of
       None \<Rightarrow> raise (LookupError ''strategy brief not found'')
     | Some b \<Rightarrow>
         bindM (gets (strategy_latest_audit workspace_id brief_id)) (\<lambda>audit.
         if audit = None \<or> st_state (the audit) \<noteq> ''pass'' then
           andThen (announce_strategy workspace_id (sb_strategy_run_id b) ''strategy.writer_denied''
             (JObj [(''strategy_brief_id'', JStr (str_uuid (sb_id b))), (''audit_state'', JStr (case audit of None \<Rightarrow> ''not_run'' | Some a \<Rightarrow> st_state a))]))
           (raise (StrategyAuditGateError ''Independent Strategy Auditor PASS is required before Writer eligibility.''))
         else
           andThen (set_brief (sb_id b) (sb_writer_handoff_state_update (\<lambda>_. ''eligible''))) (
           andThen (announce_strategy workspace_id (sb_strategy_run_id b) ''strategy.writer_eligible''
             (JObj [(''strategy_brief_id'', JStr (str_uuid (sb_id b))), (''test_data'', JBool (sb_test_data b))]))
           (ret \<lparr> wg_strategy_brief_id = sb_id b, wg_eligible = True, wg_state = ''eligible'',
              wg_detail = ''Strategy is eligible for a future Writer handoff; no Writer provider is configured.'' \<rparr>))))"

record StrategySummary =
  ssu_status :: string
  ssu_current_strategy :: "StrategyRun option"
  ssu_last_run :: "StrategyRun option"
  ssu_next_run_at :: "datetime option"
  ssu_opportunities_received :: nat
  ssu_briefs_created :: nat
  ssu_briefs_passed :: nat
  ssu_briefs_blocked :: nat
  ssu_cost_today_usd :: usd
  ssu_last_error :: "string option"
  ssu_schedule_enabled :: bool
  ssu_business_context_state :: string

definition strategy_summary :: "uuid \<Rightarrow> StrategySummary D" where
  "strategy_summary workspace_id =
     bindM (one_of (\<lambda>d. filter (\<lambda>c. ss_workspace_id c = workspace_id) (strategy_schedules d))) (\<lambda>schedule.
     bindM (get_business_context_state workspace_id) (\<lambda>context.
     gets (\<lambda>d.
       let rs = strategy_list_runs workspace_id d;
           current = find (\<lambda>r. sn_status r = ''running'') rs;
           last = (case rs of [] \<Rightarrow> None | r # _ \<Rightarrow> Some r);
           bs = filter (\<lambda>b. sb_workspace_id b = workspace_id \<and> sb_deleted_at b = None) (briefs d);
           shown = (if current \<noteq> None then current else last)
       in \<lparr> ssu_status = (case shown of Some r \<Rightarrow> sn_status r | None \<Rightarrow> ''not_run''),
            ssu_current_strategy = current, ssu_last_run = last,
            ssu_next_run_at = Option.bind schedule (\<lambda>c. if ss_enabled c then ss_next_run_at c else None),
            ssu_opportunities_received = length (filter (\<lambda>opp. op_audit_gate_status opp = ''pass'') (live_opportunities workspace_id d)),
            ssu_briefs_created = length bs,
            ssu_briefs_passed = length (filter (\<lambda>b. sb_audit_gate_status b = ''pass'') bs),
            ssu_briefs_blocked = length (filter (\<lambda>b. sb_audit_gate_status b \<noteq> ''pass'') bs),
            ssu_cost_today_usd = sum_list (map sn_actual_cost_usd rs),
            ssu_last_error = (case shown of Some r \<Rightarrow> sn_last_error r | None \<Rightarrow> Some (strategy_error context)),
            ssu_schedule_enabled = (case schedule of None \<Rightarrow> False | Some c \<Rightarrow> ss_enabled c),
            ssu_business_context_state = context \<rparr>)))"

section \<open>Routes\<close>

definition strategy_run_errors :: "exn \<Rightarrow> exn" where
  "strategy_run_errors e = (case e of
     StrategyGateError m \<Rightarrow> HTTPException 409 m
   | ValueError m \<Rightarrow> HTTPException 422 m
   | _ \<Rightarrow> e)"

definition strategy_create_run_route :: "uuid \<Rightarrow> StrategyRunCreate \<Rightarrow> uuid \<Rightarrow> StrategyRun D" where
  "strategy_create_run_route workspace_id payload user = as_admin workspace_id user (
     if \<not> valid_strategy_run payload then raise (HTTPException 422 ''invalid strategy run'')
     else catchM (strategy_create_manual_run workspace_id user payload) (\<lambda>e. raise (strategy_run_errors e)))"

definition strategy_runs_route :: "uuid \<Rightarrow> uuid \<Rightarrow> StrategyRun list D" where
  "strategy_runs_route workspace_id user = as_admin workspace_id user (gets (strategy_list_runs workspace_id))"

definition strategy_run_route :: "uuid \<Rightarrow> uuid \<Rightarrow> uuid \<Rightarrow> StrategyRun D" where
  "strategy_run_route workspace_id run_id user = as_admin workspace_id user (
     bindM (strategy_get_run workspace_id run_id) (or_404 ''strategy run not found''))"

definition strategy_summary_route :: "uuid \<Rightarrow> uuid \<Rightarrow> StrategySummary D" where
  "strategy_summary_route workspace_id user = as_admin workspace_id user (strategy_summary workspace_id)"

definition briefs_route :: "uuid \<Rightarrow> uuid \<Rightarrow> StrategyBrief list D" where
  "briefs_route workspace_id user = as_admin workspace_id user (gets (list_briefs workspace_id))"

definition brief_detail_route :: "uuid \<Rightarrow> uuid \<Rightarrow> uuid \<Rightarrow> (StrategyBrief \<times> uuid list \<times> StrategyAudit option) D" where
  "brief_detail_route workspace_id brief_id user = as_admin workspace_id user (
     bindM (bindM (get_brief workspace_id brief_id) (or_404 ''strategy brief not found'')) (\<lambda>b.
     gets (\<lambda>d. (b, brief_opportunity_ids workspace_id brief_id d, strategy_latest_audit workspace_id brief_id d))))"

definition strategy_audit_detail_route :: "uuid \<Rightarrow> uuid \<Rightarrow> uuid \<Rightarrow> StrategyAudit option D" where
  "strategy_audit_detail_route workspace_id brief_id user = as_admin workspace_id user (
     bindM (bindM (get_brief workspace_id brief_id) (or_404 ''strategy brief not found'')) (\<lambda>b.
     gets (strategy_latest_audit workspace_id brief_id)))"

definition strategy_run_audit_route :: "uuid \<Rightarrow> uuid \<Rightarrow> uuid \<Rightarrow> StrategyAudit D" where
  "strategy_run_audit_route workspace_id brief_id user = as_admin workspace_id user (
     catchM (audit_brief workspace_id brief_id) (\<lambda>e. raise (lookup_http_error e)))"

definition writer_http_error :: "exn \<Rightarrow> exn" where
  "writer_http_error e = (case e of StrategyAuditGateError m \<Rightarrow> HTTPException 409 m | _ \<Rightarrow> lookup_http_error e)"

definition send_to_writer :: "uuid \<Rightarrow> uuid \<Rightarrow> uuid \<Rightarrow> WriterGate D" where
  "send_to_writer workspace_id brief_id user = as_admin workspace_id user (
     catchM (writer_gate workspace_id brief_id) (\<lambda>e. raise (writer_http_error e)))"

section \<open>What a text may hold\<close>

text \<open>An accepted text is trimmed, not empty, not too long, and holds neither an instruction nor a secret; and it is accepted again.\<close>

lemma safe_text_accepts:
  "safe_text m f v = Inr t \<longleftrightarrow> t = strip v \<and> t \<noteq> [] \<and> length t \<le> m \<and> \<not> search UNTRUSTED_INSTRUCTION t \<and> \<not> search SECRET_PATTERN t"
  by (auto simp: safe_text_def Let_def)

lemma safe_text_again: "safe_text m f v = Inr t \<Longrightarrow> safe_text m f t = Inr t"
  unfolding safe_text_accepts by (metis strip_idem)

section \<open>The audit's verdict\<close>

lemma get_brief_exec: "get_brief w k d = (scalar_one_or_none (filter (\<lambda>b. sb_id b = k \<and> sb_workspace_id b = w \<and> sb_deleted_at b = None) (briefs d)), d)"
  by (simp add: get_brief_def one_of_exec)

lemma count_strategy_audit_keeps: "keeps (\<lambda>d. (briefs d, strategy_audits d, brief_links d, research_audits d)) (count_strategy_audit w b a)"
  unfolding count_strategy_audit_def strategy_get_run_def set_srun_def by (intro steps_intro; simp)

lemma write_strategy_audit_result:
  assumes "write_strategy_audit w b sources d = (Inr a, d')"
  shows "\<exists>i t. a = strategy_audit_row w b sources i t \<and> strategy_audits d' = strategy_audits d @ [a]
    \<and> briefs d' = row_set sb_id (sb_id b) (brief_audited (st_state a)) (briefs d)"
proof -
  let ?i = "uuids (core d) (tick (core d))" and ?t = "clock (core d) (Suc (tick (core d)))"
  let ?a = "strategy_audit_row w b sources ?i ?t" and ?d = "d\<lparr>core := (core d)\<lparr>tick := Suc (Suc (tick (core d)))\<rparr>\<rparr>"
  have body: "andThen (add_strategy_audit ?a) (andThen (set_brief (sb_id b) (brief_audited (st_state ?a)))
      (andThen (count_strategy_audit w b ?a) (ret ?a))) ?d = (Inr a, d')"
    using assms by (simp add: write_strategy_audit_def bindM_exec env_exec Let_def)
  then obtain d1 where "add_strategy_audit ?a ?d = (Inr (), d1)" and rest: "andThen (set_brief (sb_id b) (brief_audited (st_state ?a)))
      (andThen (count_strategy_audit w b ?a) (ret ?a)) d1 = (Inr a, d')"
    by (cases "add_strategy_audit ?a ?d") (auto simp: andThen_exec [of "add_strategy_audit x" for x] split: sum.splits)
  then have d1: "d1 = strategy_audits_update (\<lambda>rs. rs @ [?a]) ?d" by (auto simp: add_strategy_audit_def add_row_exec split: if_splits)
  let ?d2 = "briefs_update (row_set sb_id (sb_id b) (brief_audited (st_state ?a))) d1"
  have "andThen (count_strategy_audit w b ?a) (ret ?a) ?d2 = (Inr a, d')"
    using rest by (simp add: set_brief_def andThen_exec [of "modifyM h" for h] modifyM_exec)
  then obtain u where c: "count_strategy_audit w b ?a ?d2 = (Inr u, d')" and a: "a = ?a" by (auto elim!: andThen_InrE simp: ret_exec)
  show ?thesis using keepsE [OF count_strategy_audit_keeps c] a d1 by (intro exI [of _ ?i] exI [of _ ?t]) simp
qed

lemma check_sources_pass: "snd (check_sources xs) = [] \<longleftrightarrow> (\<forall>(k, x) \<in> set xs. \<exists>a. x = Some a \<and> ra_state a = ''pass'')"
proof (induction xs)
  case (Cons x xs)
  then show ?case by (cases x; cases "snd x") simp_all
qed simp

text \<open>
  C38: What the independent strategy audit decides. A brief passes exactly when it links at least one opportunity, the latest
  research audit of every one is a pass, the business context, goal, platform and format are there, the cost is known, the
  capabilities are configured, it is not repetitive, promises no guaranteed performance and rests on no performance data. The verdict
  is recorded and opens or closes the writer handoff.
\<close>

theorem brief_verdict:
  assumes "audit_brief w k d = (Inr a, d')"
  shows "\<exists>b. b \<in> set (briefs d) \<and> sb_id b = k
    \<and> (st_state a = ''pass'' \<longleftrightarrow>
         brief_opportunity_ids w k d \<noteq> []
       \<and> (\<forall>opp \<in> set (brief_opportunity_ids w k d). \<exists>r. research_latest_audit w opp d = Some r \<and> ra_state r = ''pass'')
       \<and> sb_business_context_state b = ''complete'' \<and> opt_or (sb_business_goal b) \<noteq> []
       \<and> opt_or (sb_target_platform b) \<noteq> [] \<and> opt_or (sb_content_format b) \<noteq> []
       \<and> sb_cost_state b \<notin> {''unknown'', ''not_configured''} \<and> sb_capability_state b = ''configured''
       \<and> sb_repetition_state b \<notin> {''duplicate'', ''require_differentiation'', ''blocked''}
       \<and> \<not> search OVERSTATED_PATTERN (sb_reasoning b) \<and> \<not> search OVERSTATED_PATTERN (sb_evidence_summary b)
       \<and> sb_performance_data_state b = ''no_data'')
    \<and> strategy_audits d' = strategy_audits d @ [a]
    \<and> brief_audited (st_state a) b \<in> set (briefs d')"
proof -
  obtain b where b: "filter (\<lambda>b. sb_id b = k \<and> sb_workspace_id b = w \<and> sb_deleted_at b = None) (briefs d) = [b]"
    and wr: "write_strategy_audit w b (brief_sources w k d) d = (Inr a, d')"
    using assms by (auto simp: audit_brief_def bindM_exec get_brief_exec gets_exec scalar_one_or_none_def raise_exec split: list.splits)
  then have bin: "b \<in> set (briefs d)" "sb_id b = k" by (auto simp: filter_eq_Cons_iff)
  obtain i t where a: "a = strategy_audit_row w b (brief_sources w k d) i t" and as: "strategy_audits d' = strategy_audits d @ [a]"
    and bs: "briefs d' = row_set sb_id (sb_id b) (brief_audited (st_state a)) (briefs d)"
    using write_strategy_audit_result [OF wr] by blast
  have "st_state a = ''pass'' \<longleftrightarrow> brief_blocked (brief_sources w k d) b = [] \<and> brief_warnings b = []"
    by (simp add: a strategy_audit_row_def audit_state_def)
  also have "\<dots> \<longleftrightarrow> brief_opportunity_ids w k d \<noteq> []
       \<and> (\<forall>opp \<in> set (brief_opportunity_ids w k d). \<exists>r. research_latest_audit w opp d = Some r \<and> ra_state r = ''pass'')
       \<and> sb_business_context_state b = ''complete'' \<and> opt_or (sb_business_goal b) \<noteq> []
       \<and> opt_or (sb_target_platform b) \<noteq> [] \<and> opt_or (sb_content_format b) \<noteq> []
       \<and> sb_cost_state b \<notin> {''unknown'', ''not_configured''} \<and> sb_capability_state b = ''configured''
       \<and> sb_repetition_state b \<notin> {''duplicate'', ''require_differentiation'', ''blocked''}
       \<and> \<not> search OVERSTATED_PATTERN (sb_reasoning b) \<and> \<not> search OVERSTATED_PATTERN (sb_evidence_summary b)
       \<and> sb_performance_data_state b = ''no_data''"
    by (auto simp: brief_blocked_def brief_warnings_def check_sources_pass brief_sources_def split: if_splits)
  finally show ?thesis using bin as bs by (intro exI [of _ b]) (auto simp: row_set_def)
qed

text \<open>
  A strategy run that names an opportunity the workspace does not have is answered with a server error: the route catches the
  gate's refusal and bad values, but not the lookup error of the strategist gate, which its own route turns into a 404.
\<close>

lemma unknown_source_uncaught:
  assumes "in_core (require_workspace_admin w u) d = (Inr m, d1)" "valid_strategy_run p"
    "safe_text 1000 ''strategy objective'' (sp_strategy_objective p) = Inr t"
    "sp_source_opportunity_ids p = k # ks" "live_opportunity w k d1 = []"
  shows "fst (strategy_create_run_route w p u d) = Inl (LookupError ''opportunity not found'')"
  using assms by (simp add: strategy_create_run_route_def as_admin_def session_exec andThen_exec catchM_exec strategy_create_manual_run_def
      bindM_exec fromSum_exec require_research_pass_def strategist_gate_def get_opportunity_exec scalar_one_or_none_def raise_exec
      research_refusal_def strategy_run_errors_def)

section \<open>A brief to audit\<close>

definition sample_brief :: StrategyBrief where
  "sample_brief = (plain_brief 1 70 220 [] ''b'' ''e'' ''r'' ''f'' 221 0)\<lparr>sb_business_goal := Some ''g'', sb_target_platform := Some ''p'',
     sb_content_format := Some ''v''\<rparr>"

definition brief_dept :: dept where
  "brief_dept = evidence_dept\<lparr>briefs := [sample_brief], brief_links := [\<lparr> so_id = 222, so_workspace_id = 1, so_strategy_brief_id = 221, so_opportunity_id = 201 \<rparr>],
     research_audits := [(research_audit_row 1 scout_opportunity [] 223 0)\<lparr>ra_state := ''pass''\<rparr>]\<rparr>"

lemma brief_verdict_witness: "\<exists>a d'. audit_brief 1 221 brief_dept = (Inr a, d') \<and> st_state a = ''pass''"
proof -
  have b: "briefs brief_dept = [sample_brief]" "strategy_audits brief_dept = []" "strategy_runs brief_dept = []"
    by (simp_all add: brief_dept_def evidence_dept_def scout_dept_def empty_dept_def)
  have s: "sb_id sample_brief = 221" "sb_workspace_id sample_brief = 1" "sb_deleted_at sample_brief = None"
    by (simp_all add: sample_brief_def plain_brief_def)
  have ids: "brief_opportunity_ids 1 221 brief_dept = [201]" by (simp add: brief_opportunity_ids_def brief_dept_def)
  have r: "\<exists>r. research_latest_audit 1 201 brief_dept = Some r \<and> ra_state r = ''pass''"
    by (simp add: research_latest_audit_def opportunity_audits_def brief_dept_def research_audit_row_def scout_opportunity_def)
  have "\<exists>a. fst (audit_brief 1 221 brief_dept) = Inr a"
    using b s by (simp add: audit_brief_def get_brief_exec bindM_exec scalar_one_or_none_def gets_exec write_strategy_audit_def env_exec Let_def
        andThen_exec add_strategy_audit_def add_row_exec set_brief_def modifyM_exec count_strategy_audit_def strategy_get_run_def one_of_exec ret_exec)
  then obtain a d' where a: "audit_brief 1 221 brief_dept = (Inr a, d')" by (metis prod.collapse)
  have texts: "\<not> search OVERSTATED_PATTERN (sb_reasoning sample_brief)" "\<not> search OVERSTATED_PATTERN (sb_evidence_summary sample_brief)" by code_simp+
  from brief_verdict [OF a] have "st_state a = ''pass''"
    using b s ids r texts by (auto simp: sample_brief_def plain_brief_def text_or_def get_or_def opt_or_def)
  with a show ?thesis by blast
qed

end
