(* ===== verification/ContentDesk.thy ===== *)
theory ContentDesk imports Billing Relay WorkerAuth Lifecycle Fixtures begin

text \<open>
  The content desk: \<open>services/content_desk.py\<close> (a content job lands in the human review gate, the gate is edited and
  decided), the draft generator \<open>services/draft_desk.py\<close>, and the routes \<open>api/routes/content_jobs.py\<close> and
  \<open>api/routes/review_gates.py\<close> with the payload checks of \<open>schemas/content_desk.py\<close>.
\<close>

section \<open>Drafts\<close>

record DraftDeskOutput =
  dd_script_hook :: string
  dd_script_body :: string
  dd_script_cta :: string
  dd_provider :: string
  dd_estimated_cost_usd :: string

definition newline :: string where
  "newline = [CHR 0x0A]"

text \<open>\<open>" ".join(text.split())\<close>.\<close>

definition collapse :: "string \<Rightarrow> string" where
  "collapse s = join '' '' (split_ws [] s)"

definition generate_script_draft :: "string \<Rightarrow> int option \<Rightarrow> exn + DraftDeskOutput" where
  "generate_script_draft topic target_length_seconds =
     (let cleaned = collapse (strip topic) in
      if cleaned = [] then Inl (ValueError ''topic is required for Draft Desk generation'')
      else
        let length_note = (case target_length_seconds of
              Some n \<Rightarrow> ''Aim for about '' @ str_int n @ '' seconds.''
            | None \<Rightarrow> ''Keep the piece concise and skimmable.'');
            hook = ''What if '' @ cleaned @ '' is the lever your audience has been missing?'';
            body = hook @ newline @ newline @
              ''Today we unpack '' @ cleaned @ ''. '' @ length_note @ newline @ newline @
              ''1) Why '' @ cleaned @ '' matters now'' @ newline @
              ''2) The mistake most teams make'' @ newline @
              ''3) A practical next step you can take today'' @ newline @ newline @
              ''Close with a clear takeaway your viewer can repeat.'';
            cta = ''If this helped, save it and try one change around '' @ cleaned @ '' this week.''
        in Inr \<lparr> dd_script_hook = hook, dd_script_body = body, dd_script_cta = cta, dd_provider = ''draft_desk'',
                 dd_estimated_cost_usd = ''0.01'' \<rparr>)"

text \<open>The worker's executor: success, result, error message. \<open>target_length\<close> is \<open>int(v)\<close>, or \<open>None\<close> where that raises.\<close>

definition target_length :: "json \<Rightarrow> int option" where
  "target_length v = (if v = JNull then None else case py_int v of Inl _ \<Rightarrow> None | Inr n \<Rightarrow> Some n)"

definition or_text :: "json \<Rightarrow> string" where
  "or_text v = (if truthy v then py_str v else [])"

definition execute_stage :: "json \<Rightarrow> bool \<times> json option \<times> string" where
  "execute_stage context =
     (let st = or_text (json_get context ''stage'');
          topic = strip (or_text (json_get context ''topic''));
          len = target_length (json_get context ''target_length_seconds'')
      in
      if st = ''scripting'' \<or> st = ''idea'' then
        if topic = [] then (False, None, ''draft_desk requires topic in assignment context'')
        else (case generate_script_draft topic len of
            Inl e \<Rightarrow> (False, None, exn_str e)
          | Inr draft \<Rightarrow> (True, Some (JObj [(''provider'', JStr (dd_provider draft)),
              (''script_hook'', JStr (dd_script_hook draft)), (''script_body'', JStr (dd_script_body draft)),
              (''script_cta'', JStr (dd_script_cta draft)),
              (''estimated_cost_usd'', JStr (dd_estimated_cost_usd draft)), (''topic'', JStr (collapse topic))]), []))
      else if st = ''review'' then (False, None, ''review stage is human-gated; workers must not execute it'')
      else (True, Some (JObj [(''provider'', JStr ''draft_desk''), (''stage'', JStr st),
          (''summary'', JStr (''Draft Desk completed stage '' @ [CHR 0x27] @ st @ [CHR 0x27] @ '' for topic '' @ [CHR 0x27]
             @ (if topic = [] then ''n/a'' else topic) @ [CHR 0x27] @ ''.'')),
          (''estimated_cost_usd'', JStr ''0.01'')]), []))"

section \<open>The desk's workflow\<close>

definition DESK_WORKFLOW_NAME :: string where
  "DESK_WORKFLOW_NAME = ''agency_content_desk''"

definition DESK_WORKFLOW_VERSION :: int where
  "DESK_WORKFLOW_VERSION = 1"

definition DRAFT_DESK_PROVIDER :: string where
  "DRAFT_DESK_PROVIDER = ''draft_desk''"

definition SCRIPTING_KEY :: stage where "SCRIPTING_KEY = ''scripting''"
definition REVIEW_KEY :: stage where "REVIEW_KEY = ''review''"
definition PUBLISHED_KEY :: stage where "PUBLISHED_KEY = ''published''"

definition desk_definitions :: "uuid \<Rightarrow> db \<Rightarrow> WorkflowDefinition list" where
  "desk_definitions workspace_id s = filter (\<lambda>d. wd_workspace_id d = workspace_id \<and> wd_name d = DESK_WORKFLOW_NAME
     \<and> wd_version d = DESK_WORKFLOW_VERSION) (workflows s)"

text \<open>A stage with the column defaults.\<close>

definition desk_stage :: "uuid \<Rightarrow> stage \<Rightarrow> int \<Rightarrow> uuid \<Rightarrow> WorkflowStage" where
  "desk_stage definition_id key ordinal i =
     \<lparr> wst_id = i, wst_definition_id = definition_id, wst_stage_key = key, wst_ordinal = ordinal, wst_max_attempts = 3,
       wst_backoff_base_seconds = 5, wst_backoff_multiplier = 2, wst_backoff_max_seconds = 300, wst_timeout_seconds = 600,
       wst_is_review_gate = False, wst_is_terminal = False, wst_compensation_stage_key = None \<rparr>"

definition desk_transition :: "uuid \<Rightarrow> stage \<Rightarrow> stage \<Rightarrow> WorkflowTransitionTrigger \<Rightarrow> uuid \<Rightarrow> WorkflowTransition" where
  "desk_transition definition_id from_stage to_stage trigger i =
     \<lparr> wt_id = i, wt_definition_id = definition_id, wt_from_stage = from_stage, wt_to_stage = to_stage,
       wt_trigger = trigger, wt_condition = None, wt_priority = 100 \<rparr>"

definition add_desk_stages :: "uuid \<Rightarrow> unit M" where
  "add_desk_stages d =
     bindM uuid4 (\<lambda>a.
     bindM uuid4 (\<lambda>b.
     bindM uuid4 (\<lambda>c.
     modifyM (wstages_update (\<lambda>rs. rs @
       [(desk_stage d SCRIPTING_KEY 1 a)\<lparr>wst_max_attempts := 1\<rparr>,
        (desk_stage d REVIEW_KEY 2 b)\<lparr>wst_is_review_gate := True, wst_timeout_seconds := DEFAULT_REVIEW_TIMEOUT_HOURS * 3600\<rparr>,
        (desk_stage d PUBLISHED_KEY 3 c)\<lparr>wst_is_terminal := True, wst_timeout_seconds := 60\<rparr>])))))"

definition add_desk_transitions :: "uuid \<Rightarrow> unit M" where
  "add_desk_transitions d =
     bindM uuid4 (\<lambda>a.
     bindM uuid4 (\<lambda>b.
     modifyM (transitions_update (\<lambda>rs. rs @
       [desk_transition d SCRIPTING_KEY REVIEW_KEY ON_SUCCESS a,
        desk_transition d REVIEW_KEY PUBLISHED_KEY ON_REVIEW_APPROVED b]))))"

definition ensure_desk_workflow :: "uuid \<Rightarrow> WorkflowDefinition M" where
  "ensure_desk_workflow workspace_id =
     bindM (query_one (desk_definitions workspace_id)) (\<lambda>existing. case existing of
       Some d \<Rightarrow>
         if \<not> wd_is_active d then
           andThen (modifyM (workflows_update (row_set wd_id (wd_id d) (wd_is_active_update (\<lambda>_. True)))))
           (ret (d\<lparr>wd_is_active := True\<rparr>))
         else ret d
     | None \<Rightarrow>
         bindM uuid4 (\<lambda>i.
         let d = \<lparr> wd_id = i, wd_workspace_id = workspace_id, wd_name = DESK_WORKFLOW_NAME,
                   wd_version = DESK_WORKFLOW_VERSION, wd_is_active = True \<rparr> in
         andThen (modifyM (workflows_update (\<lambda>rs. rs @ [d]))) (
         andThen (add_desk_stages i) (
         andThen (add_desk_transitions i)
         (ret d)))))"

section \<open>Content jobs\<close>

record ContentJobResult =
  cj_content_item_id :: uuid
  cj_pipeline_run_id :: uuid
  cj_review_gate_id :: uuid
  cj_topic :: string
  cj_current_stage :: string
  cj_run_status :: string
  cj_gate_status :: string

definition job_result :: "ContentItem \<Rightarrow> PipelineRun \<Rightarrow> ReviewGate \<Rightarrow> ContentJobResult" where
  "job_result item run gate =
     \<lparr> cj_content_item_id = ci_id item, cj_pipeline_run_id = pr_id run, cj_review_gate_id = rg_id gate,
       cj_topic = ci_topic item, cj_current_stage = pr_current_stage run,
       cj_run_status = pipeline_run_status_value (pr_status run),
       cj_gate_status = review_gate_status_value (rg_status gate) \<rparr>"

definition keyed_runs :: "uuid \<Rightarrow> string option \<Rightarrow> db \<Rightarrow> PipelineRun list" where
  "keyed_runs workspace_id key s =
     filter (\<lambda>r. pr_workspace_id r = workspace_id \<and> key \<noteq> None \<and> pr_idempotency_key r = key) (runs s)"

definition run_gates :: "uuid \<Rightarrow> db \<Rightarrow> ReviewGate list" where
  "run_gates run_id s = filter (\<lambda>g. rg_pipeline_run_id g = run_id) (gates s)"

text \<open>The first part of \<open>create_content_job\<close>: the job of an idempotency key that is already there.\<close>

definition replayed_job :: "uuid \<Rightarrow> string option \<Rightarrow> ContentJobResult option M" where
  "replayed_job workspace_id key =
     (if key = None then ret None
      else bindM (query_one (keyed_runs workspace_id key)) (\<lambda>existing_run. case existing_run of
        None \<Rightarrow> ret None
      | Some run \<Rightarrow>
          bindM (query_one (run_gates (pr_id run))) (\<lambda>gate.
          bindM (get_row items ci_id (pr_content_item_id run)) (\<lambda>item.
          case (gate, item) of
            (Some g, Some x) \<Rightarrow> ret (Some (job_result x run g))
          | _ \<Rightarrow> raise (ValueError ''idempotent content job is missing review gate or content item'')))))"

record Draft =
  dr_hook :: "string option"
  dr_body :: string
  dr_cta :: "string option"
  dr_generated_by :: string
  dr_prompt_used :: string

definition or_else :: "string option \<Rightarrow> string \<Rightarrow> string option" where
  "or_else x d = (if x = None \<or> x = Some [] then Some d else x)"

definition draft_of :: "string \<Rightarrow> string \<Rightarrow> string option \<Rightarrow> string option \<Rightarrow> int option \<Rightarrow> exn + Draft" where
  "draft_of topic script_body script_hook script_cta target_length_seconds =
     (let body = strip script_body in
      if body \<noteq> [] then
        Inr \<lparr> dr_hook = script_hook, dr_body = body, dr_cta = script_cta, dr_generated_by = ''human_draft'',
              dr_prompt_used = ''review_desk_manual_draft'' \<rparr>
      else (case generate_script_draft topic target_length_seconds of
          Inl e \<Rightarrow> Inl e
        | Inr g \<Rightarrow> Inr \<lparr> dr_hook = or_else script_hook (dd_script_hook g), dr_body = dd_script_body g,
              dr_cta = or_else script_cta (dd_script_cta g), dr_generated_by = dd_provider g,
              dr_prompt_used = ''draft_desk_v1'' \<rparr>))"

text \<open>\<open>session.add(run)\<close> and its flush, under the partial unique index on (workspace, idempotency key).\<close>

definition add_keyed_run :: "PipelineRun \<Rightarrow> unit M" where
  "add_keyed_run r = (\<lambda>s.
     if keyed_runs (pr_workspace_id r) (pr_idempotency_key r) s \<noteq> [] then (Inl IntegrityError, s) else add_run r s)"

text \<open>The item, its first version and its run, linked to each other.\<close>

definition new_item :: "uuid \<Rightarrow> uuid \<Rightarrow> string \<Rightarrow> int option \<Rightarrow> uuid \<Rightarrow> ContentItem" where
  "new_item workspace_id actor_id topic target_length_seconds i =
     \<lparr> ci_id = i, ci_workspace_id = workspace_id, ci_topic = topic, ci_target_length_seconds = target_length_seconds,
       ci_current_stage = SCRIPTING_KEY, ci_status = ContentStatus.ACTIVE, ci_current_version_id = None,
       ci_current_pipeline_run_id = None, ci_created_by = Some actor_id, ci_deleted_at = None \<rparr>"

definition new_version :: "uuid \<Rightarrow> uuid \<Rightarrow> Draft \<Rightarrow> uuid \<Rightarrow> uuid \<Rightarrow> ContentVersion" where
  "new_version workspace_id actor_id d item i =
     \<lparr> cv_id = i, cv_workspace_id = workspace_id, cv_content_item_id = item, cv_script_hook = dr_hook d,
       cv_script_body = Some (dr_body d), cv_script_cta = dr_cta d, cv_prompt_used = Some (dr_prompt_used d),
       cv_generated_by = Some (dr_generated_by d), cv_created_by = Some actor_id \<rparr>"

definition new_desk_run :: "uuid \<Rightarrow> uuid \<Rightarrow> string option \<Rightarrow> uuid \<Rightarrow> PipelineRun" where
  "new_desk_run workspace_id item key i =
     \<lparr> pr_id = i, pr_workspace_id = workspace_id, pr_content_item_id = item, pr_idempotency_key = key,
       pr_current_stage = SCRIPTING_KEY, pr_status = RUNNING, pr_started_at = None, pr_completed_at = None,
       pr_pause_reason = None, pr_definition_id = None, pr_correlation_id = None, pr_trace_id = None \<rparr>"

definition insert_draft ::
  "uuid \<Rightarrow> uuid \<Rightarrow> string \<Rightarrow> int option \<Rightarrow> string option \<Rightarrow> Draft \<Rightarrow> (uuid \<times> uuid \<times> uuid) M" where
  "insert_draft workspace_id actor_id topic target_length_seconds key d =
     bindM uuid4 (\<lambda>item_id.
     andThen (add_item (new_item workspace_id actor_id topic target_length_seconds item_id)) (
     bindM uuid4 (\<lambda>version_id.
     andThen (add_version (new_version workspace_id actor_id d item_id version_id)) (
     andThen (set_item item_id (ci_current_version_id_update (\<lambda>_. Some version_id))) (
     bindM uuid4 (\<lambda>run_id.
     andThen (add_keyed_run (new_desk_run workspace_id item_id key run_id)) (
     andThen (set_item item_id (ci_current_pipeline_run_id_update (\<lambda>_. Some run_id)))
     (ret (item_id, version_id, run_id)))))))))"

text \<open>
  \<open>str(Decimal(str(x)))\<close> of a setting's float: digits with at least one decimal, for amounts that are zero or at least
  a millionth.
\<close>

fun decimals :: "nat \<Rightarrow> rat \<Rightarrow> string" where
  "decimals 0 q = []"
| "decimals (Suc n) q = (let d = \<lfloor>q * 10\<rfloor> in
     digit_char (nat d) # (if q * 10 = of_int d then [] else decimals n (q * 10 - of_int d)))"

definition str_decimal :: "usd \<Rightarrow> string" where
  "str_decimal q = str_int \<lfloor>q\<rfloor> @ ''.'' @ decimals 20 (q - of_int \<lfloor>q\<rfloor>)"

text \<open>The scripting stage done synchronously: start, reserve, succeed, commit.\<close>

definition run_scripting :: "uuid \<Rightarrow> WorkflowDefinition \<Rightarrow> uuid \<Rightarrow> unit M" where
  "run_scripting run_id d version_id =
     andThen (start_run run_id d) (
     bindM (gets (\<lambda>s. default_stage_estimate_usd (cfg s))) (\<lambda>estimate.
     bindM (reserve_spend run_id SCRIPTING_KEY DRAFT_DESK_PROVIDER estimate) (\<lambda>reservation. case reservation of
       None \<Rightarrow> raise (SpendBudgetExceededError ''workspace spend cap exceeded; pipeline run paused on spend_hold'')
     | Some r \<Rightarrow>
         andThen (handle_stage_success run_id SCRIPTING_KEY (Some (JObj [(''draft_version_id'', JStr (str_uuid version_id)),
           (''estimated_cost_usd'', JStr (str_decimal estimate)), (''provider'', JStr DRAFT_DESK_PROVIDER)])))
         (commit_spend run_id r estimate))))"

definition orphan_jobs :: "uuid \<Rightarrow> db \<Rightarrow> JobSchedule list" where
  "orphan_jobs run_id s = filter (\<lambda>j. js_ref_id j = run_id \<and> js_job_type j \<in> {STAGE, RETRY}
     \<and> js_ref_table j = SCRIPTING_KEY \<and> js_status j \<in> {JobScheduleStatus.PENDING, LEASED}) (jobs s)"

definition cancel_job :: "JobSchedule \<Rightarrow> JobSchedule" where
  "cancel_job j = j\<lparr> js_status := JobScheduleStatus.CANCELLED, js_lease_owner := None, js_lease_expires_at := None \<rparr>"

definition cancel_orphans :: "uuid \<Rightarrow> unit M" where
  "cancel_orphans run_id = bindM (query (orphan_jobs run_id)) (\<lambda>js. forM js (\<lambda>j. set_job (js_id j) cancel_job))"

definition finish_job :: "uuid \<Rightarrow> uuid \<Rightarrow> ContentJobResult M" where
  "finish_job item_id run_id =
     bindM (query_one (run_gates run_id)) (\<lambda>gate. case gate of
       None \<Rightarrow> raise (RuntimeError ''content job failed to enter Human Review Gate'')
     | Some g \<Rightarrow>
         if rg_status g \<noteq> AWAITING then raise (RuntimeError ''content job failed to enter Human Review Gate'')
         else
           andThen (set_item item_id (ci_current_stage_update (\<lambda>_. REVIEW_KEY))) (
           bindM (the_item item_id) (\<lambda>item.
           bindM (the_run run_id) (\<lambda>run.
           ret ((job_result item run g)\<lparr> cj_current_stage := REVIEW_KEY \<rparr>)))))"

definition create_content_job ::
  "uuid \<Rightarrow> uuid \<Rightarrow> string \<Rightarrow> string \<Rightarrow> string option \<Rightarrow> string option \<Rightarrow> int option \<Rightarrow> string option \<Rightarrow> ContentJobResult M" where
  "create_content_job workspace_id actor_id topic script_body script_hook script_cta target_length_seconds key =
     bindM (replayed_job workspace_id key) (\<lambda>replay. case replay of
       Some r \<Rightarrow> ret r
     | None \<Rightarrow>
         bindM (ensure_desk_workflow workspace_id) (\<lambda>d.
         bindM (fromSum (draft_of topic script_body script_hook script_cta target_length_seconds)) (\<lambda>draft.
         bindM (insert_draft workspace_id actor_id topic target_length_seconds key draft) (\<lambda>(item_id, version_id, run_id).
         andThen (run_scripting run_id d version_id) (
         andThen (cancel_orphans run_id)
         (finish_job item_id run_id))))))"

section \<open>The review queue\<close>

record ReviewGateOut =
  go_id :: uuid
  go_workspace_id :: uuid
  go_pipeline_run_id :: uuid
  go_content_item_id :: uuid
  go_content_version_id :: "uuid option"
  go_topic :: string
  go_stage :: string
  go_status :: string
  go_requested_at :: datetime
  go_timeout_at :: "datetime option"
  go_decided_at :: "datetime option"
  go_decided_by :: "uuid option"
  go_script_hook :: "string option"
  go_script_body :: "string option"
  go_script_cta :: "string option"
  go_run_status :: string

definition gate_row :: "ReviewGate \<Rightarrow> PipelineRun \<Rightarrow> ContentItem \<Rightarrow> ContentVersion option \<Rightarrow> ReviewGateOut" where
  "gate_row gate run item version =
     \<lparr> go_id = rg_id gate, go_workspace_id = rg_workspace_id gate, go_pipeline_run_id = rg_pipeline_run_id gate,
       go_content_item_id = ci_id item, go_content_version_id = rg_content_version_id gate, go_topic = ci_topic item,
       go_stage = rg_stage gate, go_status = review_gate_status_value (rg_status gate),
       go_requested_at = rg_requested_at gate, go_timeout_at = rg_timeout_at gate, go_decided_at = rg_decided_at gate,
       go_decided_by = rg_decided_by gate, go_script_hook = Option.bind version cv_script_hook,
       go_script_body = Option.bind version cv_script_body, go_script_cta = Option.bind version cv_script_cta,
       go_run_status = pipeline_run_status_value (pr_status run) \<rparr>"

text \<open>The joins: a gate without its run or item is no row, an item may be without a version.\<close>

definition gate_join :: "db \<Rightarrow> ReviewGate \<Rightarrow> ReviewGateOut option" where
  "gate_join s g =
     Option.bind (row_get pr_id (rg_pipeline_run_id g) (runs s)) (\<lambda>run.
     Option.bind (row_get ci_id (pr_content_item_id run) (items s)) (\<lambda>item.
     Some (gate_row g run item (Option.bind (ci_current_version_id item) (\<lambda>v. row_get cv_id v (versions s))))))"

definition list_review_gates :: "uuid \<Rightarrow> string option \<Rightarrow> nat option \<Rightarrow> ReviewGateOut list M" where
  "list_review_gates workspace_id status_filter limit =
     query (\<lambda>s.
       let rows = List.map_filter (gate_join s) (sort_key (\<lambda>g. - rg_requested_at g)
         (filter (\<lambda>g. rg_workspace_id g = workspace_id
            \<and> (status_filter = None \<or> status_filter = Some (review_gate_status_value (rg_status g)))) (gates s)))
       in case limit of None \<Rightarrow> rows | Some n \<Rightarrow> take n rows)"

definition workspace_gate :: "uuid \<Rightarrow> uuid \<Rightarrow> db \<Rightarrow> ReviewGate list" where
  "workspace_gate workspace_id gate_id s = filter (\<lambda>g. rg_workspace_id g = workspace_id \<and> rg_id g = gate_id) (gates s)"

definition get_review_gate :: "uuid \<Rightarrow> uuid \<Rightarrow> ReviewGateOut option M" where
  "get_review_gate workspace_id gate_id =
     gets (\<lambda>s. case List.map_filter (gate_join s) (workspace_gate workspace_id gate_id s) of [] \<Rightarrow> None | r # _ \<Rightarrow> Some r)"

text \<open>The gate an operation of the desk may act on: in the workspace, awaiting, not changed since it was loaded.\<close>

definition awaiting_gate :: "uuid \<Rightarrow> uuid \<Rightarrow> ReviewGate M" where
  "awaiting_gate workspace_id gate_id =
     bindM (query_one (workspace_gate workspace_id gate_id)) (\<lambda>gate. case gate of
       None \<Rightarrow> raise (ReviewGateNotFoundError ''review gate not found'')
     | Some g \<Rightarrow>
         if rg_status g \<noteq> AWAITING then raise (ValueError ''review gate is not awaiting a decision'') else ret g)"

definition gate_detail :: "uuid \<Rightarrow> uuid \<Rightarrow> string \<Rightarrow> ReviewGateOut M" where
  "gate_detail workspace_id gate_id after =
     bindM (get_review_gate workspace_id gate_id) (\<lambda>detail. case detail of
       None \<Rightarrow> raise (RuntimeError (''review gate disappeared after '' @ after))
     | Some r \<Rightarrow> ret r)"

definition decide_review_gate ::
  "uuid \<Rightarrow> uuid \<Rightarrow> uuid \<Rightarrow> bool \<Rightarrow> uuid option \<Rightarrow> string option \<Rightarrow> ReviewGateOut M" where
  "decide_review_gate workspace_id gate_id reviewer_id approved expected notes =
     bindM (awaiting_gate workspace_id gate_id) (\<lambda>gate.
     if approved \<and> rg_content_version_id gate = None then
       raise (ValueError ''review gate has no content version on record; it cannot be approved'')
     else if expected \<noteq> None \<and> expected \<noteq> rg_content_version_id gate then
       raise (ValueError ''review gate content has changed since it was loaded; refresh and try again'')
     else
       bindM (submit_review_decision gate_id reviewer_id approved notes) (\<lambda>event_id.
       andThen (dispatch_one (register_all []) event_id) (
       bindM (the_gate gate_id) (\<lambda>gate.
       if rg_status gate = AWAITING then raise (ReviewGateDeliveryError ''review decision could not be applied'')
       else gate_detail workspace_id gate_id ''decision''))))"

definition edited_version ::
  "uuid \<Rightarrow> uuid \<Rightarrow> ContentItem \<Rightarrow> ContentVersion option \<Rightarrow> string option \<Rightarrow> string option \<Rightarrow> string option \<Rightarrow> uuid \<Rightarrow> ContentVersion" where
  "edited_version workspace_id editor_id item current hook body cta i =
     \<lparr> cv_id = i, cv_workspace_id = workspace_id, cv_content_item_id = ci_id item,
       cv_script_hook = (if hook \<noteq> None then hook else Option.bind current cv_script_hook),
       cv_script_body = (if body \<noteq> None then body else Option.bind current cv_script_body),
       cv_script_cta = (if cta \<noteq> None then cta else Option.bind current cv_script_cta),
       cv_prompt_used = None, cv_generated_by = Some ''human_edit'', cv_created_by = Some editor_id \<rparr>"

definition edit_review_gate_content ::
  "uuid \<Rightarrow> uuid \<Rightarrow> uuid \<Rightarrow> uuid \<Rightarrow> string option \<Rightarrow> string option \<Rightarrow> string option \<Rightarrow> ReviewGateOut M" where
  "edit_review_gate_content workspace_id gate_id editor_id expected hook body cta =
     bindM (awaiting_gate workspace_id gate_id) (\<lambda>gate.
     if Some expected \<noteq> rg_content_version_id gate then
       raise (ValueError ''review gate content has changed since it was loaded; refresh and try again'')
     else
       bindM (get_row runs pr_id (rg_pipeline_run_id gate)) (\<lambda>orun. case orun of
         None \<Rightarrow> raise (ValueError (''review_gate '' @ str_uuid gate_id @ '' missing pipeline run / content item''))
       | Some run \<Rightarrow>
           bindM (get_row items ci_id (pr_content_item_id run)) (\<lambda>oitem. case oitem of
             None \<Rightarrow> raise (ValueError (''review_gate '' @ str_uuid gate_id @ '' missing content item''))
           | Some item \<Rightarrow>
               bindM (gets (\<lambda>s. Option.bind (ci_current_version_id item) (\<lambda>v. row_get cv_id v (versions s)))) (\<lambda>current.
               bindM uuid4 (\<lambda>i.
               andThen (add_version (edited_version workspace_id editor_id item current hook body cta i)) (
               andThen (set_item (ci_id item) (ci_current_version_id_update (\<lambda>_. Some i))) (
               andThen (set_gate gate_id (rg_content_version_id_update (\<lambda>_. Some i)))
               (gate_detail workspace_id gate_id ''edit''))))))))"

section \<open>Routes\<close>

record ContentJobCreate =
  jc_topic :: string
  jc_script_hook :: "string option"
  jc_script_body :: "string option"
  jc_script_cta :: "string option"
  jc_target_length_seconds :: "int option"
  jc_idempotency_key :: "string option"

definition text_within :: "nat \<Rightarrow> nat \<Rightarrow> string option \<Rightarrow> bool" where
  "text_within lo hi t = (case t of None \<Rightarrow> True | Some x \<Rightarrow> lo \<le> length x \<and> length x \<le> hi)"

definition valid_content_job :: "ContentJobCreate \<Rightarrow> bool" where
  "valid_content_job p \<longleftrightarrow> text_within 1 500 (Some (jc_topic p)) \<and> text_within 0 2000 (jc_script_hook p)
     \<and> text_within 0 50000 (jc_script_body p) \<and> text_within 0 2000 (jc_script_cta p)
     \<and> (case jc_target_length_seconds p of None \<Rightarrow> True | Some n \<Rightarrow> 1 \<le> n \<and> n \<le> 3600)
     \<and> text_within 1 200 (jc_idempotency_key p)"

definition job_http_error :: "exn \<Rightarrow> exn" where
  "job_http_error e = (case e of
     BillingError _ message \<Rightarrow> HTTPException 402 message
   | IntegrityError \<Rightarrow> HTTPException 409 ''content job conflicts with an existing idempotency key''
   | SpendBudgetExceededError message \<Rightarrow> HTTPException 402 message
   | ValueError message \<Rightarrow> HTTPException 422 message
   | RuntimeError message \<Rightarrow> HTTPException 500 message
   | NotImplementedError message \<Rightarrow> HTTPException 500 message
   | _ \<Rightarrow> e)"

definition create_content_job_route :: "uuid \<Rightarrow> ContentJobCreate \<Rightarrow> uuid \<Rightarrow> ContentJobResult M" where
  "create_content_job_route workspace_id payload user = transaction (
     andThen (require_workspace_content_author workspace_id user) (
     if \<not> valid_content_job payload then raise (HTTPException 422 ''invalid content job'')
     else catchM
       (andThen (require_entitlement_for_workspace workspace_id)
         (create_content_job workspace_id user (strip (jc_topic payload)) (the_or (jc_script_body payload) [])
           (jc_script_hook payload) (jc_script_cta payload) (jc_target_length_seconds payload) (jc_idempotency_key payload)))
       (\<lambda>e. raise (job_http_error e))))"

definition VALID_STATUSES :: "string list" where
  "VALID_STATUSES = map review_gate_status_value [AWAITING, ReviewGateStatus.APPROVED, ReviewGateStatus.REJECTED, TIMED_OUT, ESCALATED]"

definition list_review_gates_route :: "uuid \<Rightarrow> string option \<Rightarrow> int option \<Rightarrow> uuid \<Rightarrow> ReviewGateOut list M" where
  "list_review_gates_route workspace_id status_filter limit user =
     andThen (require_workspace_member workspace_id user) (
     if (case limit of None \<Rightarrow> False | Some n \<Rightarrow> n < 1 \<or> 200 < n) then raise (HTTPException 422 ''invalid limit'')
     else if (case status_filter of None \<Rightarrow> False | Some t \<Rightarrow> t \<noteq> ''all'' \<and> t \<notin> set VALID_STATUSES) then
       raise (HTTPException 422 ''status must be one of: approved, awaiting, escalated, rejected, timed_out, all'')
     else list_review_gates workspace_id (if status_filter = Some ''all'' then None else status_filter) (map_option nat limit))"

definition get_review_gate_route :: "uuid \<Rightarrow> uuid \<Rightarrow> uuid \<Rightarrow> ReviewGateOut M" where
  "get_review_gate_route workspace_id gate_id user =
     andThen (require_workspace_member workspace_id user) (
     bindM (get_review_gate workspace_id gate_id) (\<lambda>row. case row of
       None \<Rightarrow> raise (HTTPException 404 ''review gate not found'')
     | Some r \<Rightarrow> ret r))"

definition gate_http_error :: "exn \<Rightarrow> exn" where
  "gate_http_error e = (case e of
     ReviewGateNotFoundError _ \<Rightarrow> HTTPException 404 ''review gate not found''
   | ValueError message \<Rightarrow> HTTPException 409 message
   | _ \<Rightarrow> e)"

definition decision_http_error :: "exn \<Rightarrow> exn" where
  "decision_http_error e = (case e of
     ReviewGateDeliveryError _ \<Rightarrow> HTTPException 503 ''review decision could not be applied; retry safely''
   | _ \<Rightarrow> gate_http_error e)"

record ReviewGateEditIn =
  ge_script_hook :: "string option"
  ge_script_body :: "string option"
  ge_script_cta :: "string option"
  ge_expected_content_version_id :: uuid

definition valid_edit :: "ReviewGateEditIn \<Rightarrow> bool" where
  "valid_edit p \<longleftrightarrow> text_within 0 2000 (ge_script_hook p) \<and> text_within 0 50000 (ge_script_body p)
     \<and> text_within 0 2000 (ge_script_cta p)
     \<and> \<not> (ge_script_hook p = None \<and> ge_script_body p = None \<and> ge_script_cta p = None)"

definition edit_review_gate_route :: "uuid \<Rightarrow> uuid \<Rightarrow> ReviewGateEditIn \<Rightarrow> uuid \<Rightarrow> ReviewGateOut M" where
  "edit_review_gate_route workspace_id gate_id payload user = transaction (
     andThen (require_workspace_content_author workspace_id user) (
     if \<not> valid_edit payload then raise (HTTPException 422 ''invalid edit'')
     else catchM
       (edit_review_gate_content workspace_id gate_id user (ge_expected_content_version_id payload)
         (ge_script_hook payload) (ge_script_body payload) (ge_script_cta payload))
       (\<lambda>e. raise (gate_http_error e))))"

record ReviewDecisionIn =
  rd_approved :: bool
  rd_notes :: "string option"
  rd_expected_content_version_id :: "uuid option"

definition valid_decision :: "ReviewDecisionIn \<Rightarrow> bool" where
  "valid_decision p \<longleftrightarrow> text_within 0 5000 (rd_notes p) \<and> \<not> (rd_approved p \<and> rd_expected_content_version_id p = None)"

definition decide_review_gate_route :: "uuid \<Rightarrow> uuid \<Rightarrow> ReviewDecisionIn \<Rightarrow> uuid \<Rightarrow> ReviewGateOut M" where
  "decide_review_gate_route workspace_id gate_id payload user = transaction (
     andThen (require_workspace_reviewer workspace_id user) (
     if \<not> valid_decision payload then raise (HTTPException 422 ''invalid decision'')
     else catchM
       (decide_review_gate workspace_id gate_id user (rd_approved payload) (rd_expected_content_version_id payload) (rd_notes payload))
       (\<lambda>e. raise (decision_http_error e))))"

section \<open>Footprint\<close>

lemma w_desk_workflow [steps_intro]: "steps writes (ensure_desk_workflow w)"
  unfolding ensure_desk_workflow_def add_desk_stages_def add_desk_transitions_def by (intro steps_intro)

lemma w_desk_parts [steps_intro]: "steps writes (add_keyed_run r)" "steps writes (insert_draft w a t n k d)"
  "steps writes (replayed_job w k)" "steps writes (run_scripting i wd v)" "steps writes (cancel_orphans i)"
  "steps writes (finish_job x i)"
proof -
  show run: "steps writes (add_keyed_run r)" for r
    using w_inserts(1) [of r] by (auto simp: steps_def add_keyed_run_def)
  show "steps writes (insert_draft w a t n k d)"
    unfolding insert_draft_def by (intro run steps_intro; simp add: item_write_def)
  show "steps writes (replayed_job w k)" unfolding replayed_job_def by (intro steps_intro)
  show "steps writes (run_scripting i wd v)" unfolding run_scripting_def by (intro w_close steps_intro)
  show "steps writes (cancel_orphans i)"
    unfolding cancel_orphans_def by (intro steps_intro; simp add: job_write_def cancel_job_def)
  show "steps writes (finish_job x i)" unfolding finish_job_def by (intro steps_intro; simp add: item_write_def)
qed

lemma w_create_content_job [steps_intro]: "steps writes (create_content_job w a t b h c n k)"
  unfolding create_content_job_def by (intro steps_intro)

text \<open>What identifies runs, and what the scripting of a job leaves alone beside its own gate.\<close>

definition run_keys :: "db \<Rightarrow> (uuid \<times> uuid \<times> string option \<times> uuid) list" where
  "run_keys s = map (\<lambda>r. (pr_id r, pr_workspace_id r, pr_idempotency_key r, pr_content_item_id r)) (runs s)"

definition desk_rows :: "db \<Rightarrow> (uuid \<times> uuid \<times> string option \<times> uuid) list \<times> ContentItem list \<times> ContentVersion list \<times> ReviewGate list" where
  "desk_rows s = (run_keys s, items s, versions s, gates s)"

lemma run_keys_simps [simp]:
  "run_keys (s\<lparr>tick := n\<rparr>) = run_keys s" "run_keys (s\<lparr>tick := n, events := es\<rparr>) = run_keys s"
  "run_keys (jobs_update g1 s) = run_keys s" "run_keys (gates_update g2 s) = run_keys s"
  "run_keys (reservations_update g3 s) = run_keys s" "run_keys (spend_logs_update g4 s) = run_keys s"
  "run_keys (items_update g5 s) = run_keys s"
  by (simp_all add: run_keys_def)

lemma run_keys_run [simp]: "run_write f \<Longrightarrow> run_keys (runs_update (row_set pr_id i f) s) = run_keys s"
  by (simp add: run_keys_def run_write_def)

lemma desk_rows_simps [simp]:
  "desk_rows (s\<lparr>tick := n\<rparr>) = desk_rows s" "desk_rows (s\<lparr>tick := n, events := es\<rparr>) = desk_rows s"
  "desk_rows (jobs_update g1 s) = desk_rows s" "desk_rows (reservations_update g2 s) = desk_rows s"
  "desk_rows (spend_logs_update g3 s) = desk_rows s"
  by (simp_all add: desk_rows_def)

lemma desk_rows_run [simp]: "run_write f \<Longrightarrow> desk_rows (runs_update (row_set pr_id i f) s) = desk_rows s"
  by (simp add: desk_rows_def)

lemma keeps_desk_rows [steps_intro]:
  "keeps desk_rows (start_run i wd)" "keeps desk_rows (reserve_spend i st p c)" "keeps desk_rows (commit_spend i q c)"
  "keeps desk_rows (trace_run i)" "keeps desk_rows (emit_run ty i tr pl)" "keeps desk_rows (enqueue_stage i st n dt)"
  "keeps desk_rows (announce_gate i st g due)" "keeps desk_rows (cancel_orphans i)"
  unfolding start_run_def reserve_spend_def spend_hold_def announce_gate_def add_timer_def run_correlation_id_def
    cancel_orphans_def
  by (intro steps_intro; simp add: run_write_def)+

section \<open>A job's rows\<close>

text \<open>The run \<open>i\<close> of the item \<open>x\<close> in the workspace \<open>w\<close>: the item stands at the version \<open>v\<close>, and so does every gate of the run.\<close>

definition pinned :: "uuid \<Rightarrow> uuid \<Rightarrow> uuid \<Rightarrow> uuid \<Rightarrow> db \<Rightarrow> bool" where
  "pinned w i x v s \<longleftrightarrow> (i, w, x) \<in> (\<lambda>(i, w, k, x). (i, w, x)) ` set (run_keys s)
     \<and> (\<forall>q \<in> set (run_keys s). fst q = i \<longrightarrow> fst (snd q) = w \<and> snd (snd (snd q)) = x)
     \<and> (\<exists>it. row_get ci_id x (items s) = Some it \<and> ci_workspace_id it = w \<and> ci_current_version_id it = Some v)
     \<and> (\<forall>g \<in> set (run_gates i s). rg_workspace_id g = w \<and> rg_content_version_id g = Some v)"

lemma pinned_cong: "desk_rows s' = desk_rows s \<Longrightarrow> pinned w i x v s' = pinned w i x v s"
  by (simp add: pinned_def desk_rows_def run_gates_def)

lemma pinned_keeps: "keeps desk_rows m \<Longrightarrow> pres (pinned w i x v) m"
  unfolding steps_def eqOn_def keepsInv_def using pinned_cong by blast

lemma pinned_run:
  assumes "pinned w i x v s" "row_get pr_id i (runs s) = Some run"
  shows "pr_workspace_id run = w \<and> pr_content_item_id run = x"
  using assms row_get_Some [OF assms(2)] by (fastforce simp: pinned_def run_keys_def)

lemma pinned_gate:
  assumes "pinned w i x v s"
    and "\<And>run. i' = i \<Longrightarrow> row_get pr_id i (runs s) = Some run \<Longrightarrow> ver = Some v"
  shows "pinned w i x v (snd (open_gate i' st t ver s))"
proof (cases "row_get pr_id i' (runs s)")
  case None
  have "run_write (\<lambda>r. r\<lparr> pr_status := PAUSED, pr_pause_reason := p \<rparr>)" for p by (simp add: run_write_def)
  with None assms(1) show ?thesis
    by (simp add: open_gate_def exec pinned_cong [of "runs_update _ s" s])
next
  case (Some run)
  let ?f = "\<lambda>r. r\<lparr> pr_status := PAUSED, pr_pause_reason := Some (pause_reason_value PauseReason.REVIEW_GATE) \<rparr>"
  obtain s1 where 1: "snd (open_gate i' st t ver s)
      = snd (announce_gate i' st (uuids s (Suc (tick s))) (clock s (tick s) + of_int t) s1)"
    and g: "run_keys s1 = run_keys s" "items s1 = items s"
    "\<exists>g. gates s1 = gates s @ [g] \<and> rg_pipeline_run_id g = i' \<and> rg_workspace_id g = pr_workspace_id run \<and> rg_content_version_id g = ver"
  proof
    let ?s1 = "gates_update (\<lambda>gs. gs @ [\<lparr> rg_id = uuids s (Suc (tick s)), rg_workspace_id = pr_workspace_id run, rg_pipeline_run_id = i',
       rg_content_version_id = ver, rg_stage = st, rg_status = AWAITING,
       rg_requested_at = clock s (Suc (Suc (tick s))), rg_timeout_at = Some (clock s (tick s) + of_int t),
       rg_decided_at = None, rg_decided_by = None, rg_escalation_level = 0 \<rparr>]) ((runs_update (row_set pr_id i' ?f) s)\<lparr>tick := Suc (Suc (Suc (tick s)))\<rparr>)"
    show "snd (open_gate i' st t ver s)
      = snd (announce_gate i' st (uuids s (Suc (tick s))) (clock s (tick s) + of_int t) ?s1)"
      using Some by (simp add: open_gate_def exec Let_def)
    have "run_write ?f" by (simp add: run_write_def)
    then show "run_keys ?s1 = run_keys s" by simp
    show "items ?s1 = items s" by simp
    show "\<exists>g. gates ?s1 = gates s @ [g] \<and> rg_pipeline_run_id g = i' \<and> rg_workspace_id g = pr_workspace_id run \<and> rg_content_version_id g = ver"
      by simp
  qed
  have "pinned w i x v s1"
    using g assms pinned_run [OF assms(1)] Some by (auto simp: pinned_def run_gates_def)
  with 1 show ?thesis using pinned_keeps [OF keeps_desk_rows(7)] by (simp add: steps_def keepsInv_def)
qed

lemma pinned_pause: "pres (pinned w i x v) (pause_for_review i' st t)"
proof -
  have "pinned w i x v (snd (pause_for_review i' st t s))" if p: "pinned w i x v s" for s
  proof -
    have "pinned w i x v (snd (open_gate i' st t (ci_current_version_id it) s))"
      if "row_get pr_id i' (runs s) = Some run" "row_get ci_id (pr_content_item_id run) (items s) = Some it" for run it
      using p that pinned_run [OF p] by (intro pinned_gate) (auto simp: pinned_def)
    then show ?thesis
      using p by (auto simp: pause_for_review_def exec split: option.splits sum.splits if_splits)
  qed
  then show ?thesis by (simp add: steps_def keepsInv_def)
qed

lemma pinned_scripting: "pres (pinned w i x v) (run_scripting j wd y)"
proof -
  note keep = pinned_keeps [of _ w i x v]
  have "pres (pinned w i x v) (advance_or_finish j st tg c)" for st tg c
    unfolding advance_or_finish_def finish_succeeded_def
    by (intro pinned_pause inv_rules steps_if steps_option steps_Let; intro keep steps_intro; simp add: run_write_def)
  then have ss: "pres (pinned w i x v) (handle_stage_success j st c)" for st c
    unfolding handle_stage_success_def by (intro inv_rules steps_if pres_loads)
  show ?thesis
    unfolding run_scripting_def by (intro ss inv_rules steps_option keep keeps_desk_rows)
qed

text \<open>New identifiers are in none of the tables a job inserts into.\<close>

definition fresh_ids :: "db \<Rightarrow> bool" where
  "fresh_ids s \<longleftrightarrow> (\<forall>n. uuids s n \<notin> pr_id ` set (runs s) \<and> uuids s n \<notin> ci_id ` set (items s)
     \<and> uuids s n \<notin> cv_id ` set (versions s) \<and> uuids s n \<notin> rg_pipeline_run_id ` set (gates s))"

lemma keeps_desk_workflow: "keeps (\<lambda>s. (uuids s, runs s, items s, versions s, gates s, jobs s)) (ensure_desk_workflow w)"
  unfolding ensure_desk_workflow_def add_desk_stages_def add_desk_transitions_def
  by (intro steps_intro; simp)

lemma insert_draft_result:
  assumes "insert_draft w a t n k d s = (Inr (x, v, i), s')" "fresh_ids s"
  shows "pinned w i x v s' \<and> run_gates i s' = [] \<and> run_keys s' = run_keys s @ [(i, w, k, x)] \<and> i \<notin> fst ` set (run_keys s)
    \<and> (k \<noteq> None \<longrightarrow> keyed_runs w k s = []) \<and> versions s' = versions s @ [new_version w a d x v]
    \<and> row_get ci_id x (items s') = Some ((new_item w a t n x)\<lparr>ci_current_version_id := Some v, ci_current_pipeline_run_id := Some i\<rparr>)"
proof -
  let ?t = "tick s"
  have f: "uuids s m \<notin> pr_id ` set (runs s)" "row_get ci_id (uuids s m) (items s) = None"
    "uuids s m \<notin> rg_pipeline_run_id ` set (gates s)" for m
    using assms(2) by (auto simp: fresh_ids_def row_get_None_iff)
  have "x = uuids s ?t \<and> v = uuids s (Suc ?t) \<and> i = uuids s (Suc (Suc ?t))"
    and n: "keyed_runs w k s = []"
    and s': "s' = items_update (row_set ci_id x (ci_current_pipeline_run_id_update (\<lambda>_. Some i)))
      (runs_update (\<lambda>rs. rs @ [new_desk_run w x k i])
      ((items_update (row_set ci_id x (ci_current_version_id_update (\<lambda>_. Some v)))
        (versions_update (\<lambda>rs. rs @ [new_version w a d x v])
          (items_update (\<lambda>rs. rs @ [new_item w a t n x]) s)))\<lparr>tick := Suc (Suc (Suc ?t))\<rparr>))"
    using assms(1) by (auto simp: insert_draft_def exec add_keyed_run_def keyed_runs_def new_desk_run_def split: if_splits)
  then have u: "x = uuids s ?t" "v = uuids s (Suc ?t)" "i = uuids s (Suc (Suc ?t))" by simp_all
  have it: "row_get ci_id x (items s') = Some ((new_item w a t n x)\<lparr>ci_current_version_id := Some v, ci_current_pipeline_run_id := Some i\<rparr>)"
    using f(2) [of ?t] by (simp add: s' u row_get_append new_item_def)
  have rk: "run_keys s' = run_keys s @ [(i, w, k, x)]" by (simp add: s' run_keys_def new_desk_run_def)
  have rg: "run_gates i s' = []" using f(3) [of "Suc (Suc ?t)"] by (force simp: s' run_gates_def u filter_empty_conv)
  have nr: "q \<in> set (run_keys s) \<Longrightarrow> fst q \<noteq> i" for q using f(1) [of "Suc (Suc ?t)"] by (force simp: run_keys_def u)
  have "pinned w i x v s'" using it rk rg nr by (auto simp: pinned_def new_item_def)
  moreover have "versions s' = versions s @ [new_version w a d x v]" by (simp add: s')
  ultimately show ?thesis using it rk rg n nr by blast
qed

lemma keeps_scripting: "keeps (\<lambda>s. (run_keys s, items s, versions s)) (run_scripting i wd v)"
proof -
  have o: "keeps run_keys (open_gate j st t ver)" for j st t ver
    unfolding open_gate_def announce_gate_def add_timer_def run_correlation_id_def
    by (intro steps_intro; simp add: run_write_def)
  have p: "keeps run_keys (pause_for_review j st t)" for j st t
    unfolding pause_for_review_def by (intro o steps_intro)
  have a: "keeps run_keys (advance_or_finish j st tg c)" for j st tg c
    unfolding advance_or_finish_def finish_succeeded_def by (intro p steps_intro; simp add: run_write_def)
  have h: "keeps run_keys (handle_stage_success j st c)" for j st c
    unfolding handle_stage_success_def by (intro a steps_intro)
  have r: "keeps run_keys m" if "keeps desk_rows m" for m :: "'a M"
    using that by (simp add: steps_def eqOn_def desk_rows_def)
  have b: "blind versions" "blind items" by (simp_all add: blind_def)
  have "keeps run_keys (run_scripting i wd v)"
    unfolding run_scripting_def by (intro h r keeps_desk_rows frame_rules steps_option)
  moreover have "keeps items (run_scripting i wd v)" "keeps versions (run_scripting i wd v)"
    unfolding run_scripting_def start_run_def by (intro keeps_controller b steps_intro; simp)+
  ultimately show ?thesis by (simp add: steps_def eqOn_def)
qed

text \<open>Cancelling the jobs a query found, one by one.\<close>

lemma cancel_job_keeps [simp]: "js_id (cancel_job j) = js_id j" "js_ref_id (cancel_job j) = js_ref_id j"
  "js_job_type (cancel_job j) = js_job_type j" "js_ref_table (cancel_job j) = js_ref_table j"
  "js_status (cancel_job j) = JobScheduleStatus.CANCELLED"
  by (simp_all add: cancel_job_def)

definition cancelling_jobs :: "uuid set \<Rightarrow> JobSchedule \<Rightarrow> JobSchedule" where
  "cancelling_jobs ids q = (if js_id q \<in> ids then cancel_job q else q)"

lemma cancel_loop_jobs:
  "forM js (\<lambda>j. set_job (js_id j) cancel_job) s = (Inr (), jobs_update (map (cancelling_jobs (js_id ` set js))) s)"
proof (induction js arbitrary: s)
  case Nil
  then show ?case by (simp add: exec cancelling_jobs_def [abs_def] map_idI)
next
  case (Cons j js)
  have "cancelling_jobs A (if js_id r = js_id j then cancel_job r else r) = cancelling_jobs (insert (js_id j) A) r" for A r
    by (simp add: cancelling_jobs_def cancel_job_def)
  then show ?case using Cons.IH by (simp add: exec comp_def row_set_def [abs_def])
qed

lemma cancel_orphans_result:
  "\<exists>s'. cancel_orphans i s = (Inr (), s') \<and> orphan_jobs i s' = []"
proof -
  let ?f = "cancelling_jobs (js_id ` set (orphan_jobs i s))"
  have "?f q \<notin> set (orphan_jobs i (jobs_update (map ?f) s))" if "q \<in> set (jobs s)" for q
    using that by (auto simp: cancelling_jobs_def orphan_jobs_def)
  then have "orphan_jobs i (jobs_update (map ?f) s) = []" by (auto simp: orphan_jobs_def filter_empty_conv)
  then show ?thesis by (simp add: cancel_orphans_def exec cancel_loop_jobs)
qed

section \<open>Jobs land in review\<close>

lemma create_job_parts:
  assumes "create_content_job w a t b h c n k s = (Inr r, s')" "replayed_job w k s = (Inr None, s)"
  obtains d s1 draft x v i s2 s3 s4 where "ensure_desk_workflow w s = (Inr d, s1)" "draft_of t b h c n = Inr draft"
    "insert_draft w a t n k draft s1 = (Inr (x, v, i), s2)" "run_scripting i d v s2 = (Inr (), s3)"
    "cancel_orphans i s3 = (Inr (), s4)" "finish_job x i s4 = (Inr r, s')"
  using assms by (fastforce simp: create_content_job_def bindM_exec andThen_exec fromSum_exec split: prod.splits sum.splits)

lemma draft_body: "draft_of t b h c n = Inr d \<Longrightarrow> dr_body d \<noteq> []"
  by (auto simp: draft_of_def generate_script_draft_def Let_def split: if_splits sum.splits)

lemma finish_job_result:
  assumes "finish_job x i s = (Inr r, s')"
  shows "\<exists>g item run. run_gates i s = [g] \<and> rg_status g = AWAITING \<and> row_get ci_id x (items s) = Some item
    \<and> row_get pr_id i (runs s) = Some run \<and> s' = items_update (row_set ci_id x (ci_current_stage_update (\<lambda>_. REVIEW_KEY))) s
    \<and> r = (job_result (item\<lparr>ci_current_stage := REVIEW_KEY\<rparr>) run g)\<lparr>cj_current_stage := REVIEW_KEY\<rparr>"
  using assms by (auto simp: finish_job_def exec scalar_one_or_none_Some split: option.splits sum.splits if_splits)

lemma job_facts:
  assumes "create_content_job w a t b h c n k s = (Inr r, s')" "replayed_job w k s = (Inr None, s)" "fresh_ids s"
  shows "\<exists>g item ver i. run_gates i s' = [g] \<and> rg_workspace_id g = w \<and> rg_status g = AWAITING
    \<and> row_get ci_id (ci_id item) (items s') = Some item \<and> ci_workspace_id item = w \<and> ci_topic item = t
    \<and> ci_current_stage item = REVIEW_KEY \<and> ci_current_version_id item = Some (cv_id ver)
    \<and> rg_content_version_id g = Some (cv_id ver) \<and> versions s' = versions s @ [ver]
    \<and> (\<exists>script. cv_script_body ver = Some script \<and> script \<noteq> []) \<and> orphan_jobs i s' = []
    \<and> cj_content_item_id r = ci_id item \<and> cj_pipeline_run_id r = i \<and> cj_review_gate_id r = rg_id g \<and> cj_topic r = t \<and> cj_gate_status r = ''awaiting''
    \<and> (\<exists>run. row_get pr_id i (runs s') = Some run \<and> cj_run_status r = pipeline_run_status_value (pr_status run))
    \<and> run_keys s' = run_keys s @ [(i, w, k, ci_id item)] \<and> i \<notin> fst ` set (run_keys s) \<and> (k \<noteq> None \<longrightarrow> keyed_runs w k s = [])"
proof -
  from create_job_parts [OF assms(1,2)] obtain d s1 draft x v i s2 s3 s4 where
    1: "ensure_desk_workflow w s = (Inr d, s1)" and 2: "draft_of t b h c n = Inr draft"
    and 3: "insert_draft w a t n k draft s1 = (Inr (x, v, i), s2)" and 4: "run_scripting i d v s2 = (Inr (), s3)"
    and 5: "cancel_orphans i s3 = (Inr (), s4)" and 6: "finish_job x i s4 = (Inr r, s')" .
  have s1: "uuids s1 = uuids s" "runs s1 = runs s" "items s1 = items s" "versions s1 = versions s" "gates s1 = gates s"
    using keepsD' [OF keeps_desk_workflow 1] by simp_all
  then have "fresh_ids s1" using assms(3) by (simp add: fresh_ids_def)
  note i = insert_draft_result [OF 3 this]
  have k: "run_keys s3 = run_keys s2" "items s3 = items s2" "versions s3 = versions s2"
    using keepsD' [OF keeps_scripting 4] by simp_all
  have k4: "desk_rows s4 = desk_rows s3" "orphan_jobs i s4 = []"
    using keepsD' [OF keeps_desk_rows(8) 5] cancel_orphans_result [of i s3] 5 by simp_all
  have "pinned w i x v s3" using presD' [OF pinned_scripting 4] i by blast
  then have p: "pinned w i x v s4" using k4 pinned_cong by blast
  obtain g item run where f: "run_gates i s4 = [g]" "rg_status g = AWAITING" "row_get ci_id x (items s4) = Some item"
    "row_get pr_id i (runs s4) = Some run" and s': "s' = items_update (row_set ci_id x (ci_current_stage_update (\<lambda>_. REVIEW_KEY))) s4"
    and r: "r = (job_result (item\<lparr>ci_current_stage := REVIEW_KEY\<rparr>) run g)\<lparr>cj_current_stage := REVIEW_KEY\<rparr>"
    using finish_job_result [OF 6] by blast
  have it: "item = (new_item w a t n x)\<lparr>ci_current_version_id := Some v, ci_current_pipeline_run_id := Some i\<rparr>"
    using f(3) i k k4 by (simp add: desk_rows_def)
  have g: "rg_workspace_id g = w" "rg_content_version_id g = Some v" using p f(1) by (simp_all add: pinned_def)
  let ?it = "item\<lparr>ci_current_stage := REVIEW_KEY\<rparr>" and ?ver = "new_version w a draft x v"
  have "run_gates i s' = [g]" using f by (simp add: s' run_gates_def)
  moreover have "row_get ci_id (ci_id ?it) (items s') = Some ?it" using f(3) it by (simp add: s' new_item_def)
  moreover have "versions s' = versions s @ [?ver]" using i k k4 s1 by (simp add: s' desk_rows_def)
  moreover have "cv_script_body ?ver = Some (dr_body draft)" "cv_id ?ver = v" by (simp_all add: new_version_def)
  moreover have "orphan_jobs i s' = []" using k4 by (simp add: s' orphan_jobs_def)
  moreover have "run_keys s' = run_keys s @ [(i, w, k, x)]" using i k k4 s1 by (simp add: s' desk_rows_def run_keys_def)
  moreover have "ci_id ?it = x" "ci_workspace_id ?it = w" "ci_topic ?it = t" "ci_current_version_id ?it = Some v"
    "ci_current_stage ?it = REVIEW_KEY" by (simp_all add: it new_item_def)
  moreover have "cj_content_item_id r = x" "cj_pipeline_run_id r = i" "cj_review_gate_id r = rg_id g" "cj_topic r = t"
    "cj_run_status r = pipeline_run_status_value (pr_status run)" "cj_gate_status r = ''awaiting''"
    using f(2) row_get_key [OF f(4)] by (simp_all add: r job_result_def it new_item_def)
  moreover have "row_get pr_id i (runs s') = Some run" using f(4) by (simp add: s')
  moreover have "i \<notin> fst ` set (run_keys s)" using i s1 by (simp add: run_keys_def)
  moreover have "k \<noteq> None \<longrightarrow> keyed_runs w k s = []" using i s1 by (simp add: keyed_runs_def)
  ultimately show ?thesis using f(2) g draft_body [OF 2]
    by (intro exI [of _ g] exI [of _ ?it] exI [of _ ?ver] exI [of _ i] conjI) (assumption | simp | blast)+
qed

text \<open>
  C34: A content job never skips the human review. When a job that is no replay succeeds, its run stands behind exactly one
  review gate, of the workspace and still awaiting; the gate and the item both stand at the one version the job wrote,
  which has a script; and no scripting job of the run is left for the scheduler.
\<close>

theorem content_job_awaits_review:
  assumes "create_content_job w a t b h c n k s = (Inr r, s')" "replayed_job w k s = (Inr None, s)" "fresh_ids s"
  shows "\<exists>g item ver script. run_gates (cj_pipeline_run_id r) s' = [g] \<and> rg_id g = cj_review_gate_id r
    \<and> rg_workspace_id g = w \<and> rg_status g = AWAITING \<and> rg_content_version_id g = Some (cv_id ver)
    \<and> row_get ci_id (cj_content_item_id r) (items s') = Some item \<and> ci_workspace_id item = w \<and> ci_topic item = t
    \<and> ci_current_version_id item = Some (cv_id ver) \<and> versions s' = versions s @ [ver]
    \<and> cv_script_body ver = Some script \<and> script \<noteq> []
    \<and> (\<forall>j \<in> set (jobs s'). js_ref_id j = cj_pipeline_run_id r \<and> js_job_type j \<in> {STAGE, RETRY} \<and> js_ref_table j = SCRIPTING_KEY
         \<longrightarrow> js_status j \<notin> {JobScheduleStatus.PENDING, LEASED})"
proof -
  have "orphan_jobs i s' = [] \<longleftrightarrow> (\<forall>j \<in> set (jobs s'). js_ref_id j = i \<and> js_job_type j \<in> {STAGE, RETRY} \<and> js_ref_table j = SCRIPTING_KEY
      \<longrightarrow> js_status j \<notin> {JobScheduleStatus.PENDING, LEASED})" for i
    by (auto simp: orphan_jobs_def filter_empty_conv)
  with job_facts [OF assms] show ?thesis by metis
qed

lemma keyed_run:
  assumes "run_keys s' = run_keys s @ [(i, w, Some k, x)]" "keyed_runs w (Some k) s = []" "i \<notin> fst ` set (run_keys s)"
  shows "\<exists>run. keyed_runs w (Some k) s' = [run] \<and> row_get pr_id i (runs s') = Some run \<and> pr_content_item_id run = x \<and> pr_id run = i"
proof -
  let ?f = "\<lambda>r. (pr_id r, pr_workspace_id r, pr_idempotency_key r, pr_content_item_id r)"
  have "map ?f (runs s') = run_keys s @ [(i, w, Some k, x)]" using assms(1) by (simp add: run_keys_def)
  then obtain rs z where z: "runs s' = rs @ [z]" "map ?f rs = run_keys s" "?f z = (i, w, Some k, x)"
    by (auto simp: map_eq_append_conv)
  have m: "filter (\<lambda>(i, w', k', x). w' = w \<and> k' = Some k) (map ?f q)
      = map ?f (filter (\<lambda>r. pr_workspace_id r = w \<and> pr_idempotency_key r = Some k) q)" for q
    by (simp add: filter_map comp_def)
  have "filter (\<lambda>r. pr_workspace_id r = w \<and> pr_idempotency_key r = Some k) rs = []"
    using m [of rs] m [of "runs s"] assms(2) by (simp add: z run_keys_def keyed_runs_def)
  then have "keyed_runs w (Some k) s' = [z]" using z by (simp add: keyed_runs_def)
  moreover have "row_get pr_id i rs = None" using assms(3) by (simp add: row_get_None_iff z(2) [symmetric] image_image)
  then have "row_get pr_id i (runs s') = Some z" using z by (simp add: row_get_append)
  ultimately show ?thesis using z by simp
qed

text \<open>
  The idempotency key makes a retried request return the job it already created: whatever else the second request
  says, the answer names the same item, run and gate, and the database is left as it is.
\<close>

theorem content_job_replayed:
  assumes "create_content_job w a t b h c n (Some k) s = (Inr r, s')" "replayed_job w (Some k) s = (Inr None, s)" "fresh_ids s"
  shows "\<exists>stage. create_content_job w a' t' b' h' c' n' (Some k) s' = (Inr (r\<lparr>cj_current_stage := stage\<rparr>), s')"
proof -
  obtain g item i run where 1: "run_gates i s' = [g]" "rg_status g = AWAITING" "row_get ci_id (ci_id item) (items s') = Some item"
    "ci_topic item = t" and r: "cj_content_item_id r = ci_id item" "cj_pipeline_run_id r = i" "cj_review_gate_id r = rg_id g" "cj_topic r = t"
    "cj_gate_status r = ''awaiting''"
    and rk: "run_keys s' = run_keys s @ [(i, w, Some k, ci_id item)]" "keyed_runs w (Some k) s = []" "i \<notin> fst ` set (run_keys s)"
    and run: "row_get pr_id i (runs s') = Some run" "cj_run_status r = pipeline_run_status_value (pr_status run)"
    using job_facts [OF assms] by auto
  have q: "keyed_runs w (Some k) s' = [run]" "pr_content_item_id run = ci_id item" "pr_id run = i"
    using keyed_run [OF rk] run(1) by auto
  have "job_result item run g = r\<lparr>cj_current_stage := pr_current_stage run\<rparr>"
    using r run q 1 by (simp add: job_result_def)
  then have "replayed_job w (Some k) s' = (Inr (Some (r\<lparr>cj_current_stage := pr_current_stage run\<rparr>)), s')"
    using 1 q by (simp add: replayed_job_def bindM_exec query_one_exec gets_exec ret_exec)
  then show ?thesis by (auto simp: create_content_job_def bindM_exec ret_exec)
qed

section \<open>Deciding a gate\<close>

definition ruling :: "bool \<Rightarrow> ReviewGateStatus" where
  "ruling approved = (if approved then ReviewGateStatus.APPROVED else ReviewGateStatus.REJECTED)"

text \<open>The gate \<open>k\<close> stands at the version \<open>v\<close>, taken up by the reviewer \<open>u\<close>, not yet or already ruled on as \<open>b\<close>.\<close>

definition ruled :: "uuid \<Rightarrow> uuid \<Rightarrow> uuid option \<Rightarrow> uuid \<Rightarrow> bool \<Rightarrow> db \<Rightarrow> bool" where
  "ruled k w v u b s \<longleftrightarrow> (\<exists>g. row_get rg_id k (gates s) = Some g \<and> rg_workspace_id g = w \<and> rg_content_version_id g = v
     \<and> rg_decided_by g = Some u \<and> rg_status g \<in> {AWAITING, ruling b})"

lemma ruled_keeps: "keeps gates m \<Longrightarrow> pres (ruled k w v u b) m"
  unfolding steps_def eqOn_def keepsInv_def ruled_def by simp

lemma ruled_set_gate:
  assumes "\<And>g. rg_id (h g) = rg_id g \<and> rg_workspace_id (h g) = rg_workspace_id g \<and> rg_decided_by (h g) = rg_decided_by g
    \<and> rg_content_version_id (h g) = rg_content_version_id g \<and> rg_status (h g) \<in> {rg_status g, ruling b}"
  shows "pres (ruled k w v u b) (set_gate j h)"
proof -
  have "ruled k w v u b (snd (set_gate j h s))" if r: "ruled k w v u b s" for s
  proof -
    obtain g where g: "row_get rg_id k (gates s) = Some g" "rg_workspace_id g = w" "rg_content_version_id g = v"
      "rg_decided_by g = Some u" "rg_status g \<in> {AWAITING, ruling b}" using r by (auto simp: ruled_def)
    have "row_get rg_id k (row_set rg_id j h (gates s)) = Some (if k = j then h g else g)"
      using g(1) row_get_set [of rg_id h k j "gates s"] assms by auto
    then show ?thesis using g assms [of g] by (auto simp: ruled_def store_exec)
  qed
  then show ?thesis by (simp add: steps_def keepsInv_def)
qed

lemma keeps_gates_parts [steps_intro]:
  "keeps gates (announce_gate i st g due)" "keeps gates (fail_run i m)" "keeps gates (finish_succeeded i tr fs)"
  unfolding announce_gate_def add_timer_def run_correlation_id_def fail_run_def finish_succeeded_def
  by (intro steps_intro; simp)+

lemma ruled_open_gate: "pres (ruled k w v u b) (open_gate i st t ver)"
proof -
  have add: "pres (ruled k w v u b) (add_gate g)" for g
    by (auto simp: steps_def keepsInv_def ruled_def insert_exec row_get_append)
  show ?thesis unfolding open_gate_def by (intro add inv_rules pres_loads steps_Let; intro ruled_keeps steps_intro; simp)
qed

lemma ruled_resume: "pres (ruled k w v u b) (resume_from_review j b)"
proof -
  have p: "pres (ruled k w v u b) (pause_for_review i st t)" for i st t
    unfolding pause_for_review_def by (intro ruled_open_gate inv_rules pres_loads pres_query_one steps_if steps_option)
  have a: "pres (ruled k w v u b) (advance_or_finish i st tg c)" for i st tg c
    unfolding advance_or_finish_def
    by (intro p inv_rules steps_if steps_option steps_Let; intro ruled_keeps steps_intro; simp)
  show ?thesis
    unfolding resume_from_review_def Let_def
    by (intro a inv_rules steps_if steps_option; (intro ruled_keeps steps_intro; simp; fail)?)
      (rule ruled_set_gate; simp add: ruling_def)+
qed

lemma register_all_eval: "register_all [] = [(''pipeline-controller'', [(REVIEW_APPROVED, on_review True), (REVIEW_REJECTED, on_review False)])]"
  by (simp add: register_all_def register_consumer_def the_or_def on_review_approved_def on_review_rejected_def)

definition review_event_type :: "bool \<Rightarrow> string" where
  "review_event_type b = (if b then REVIEW_APPROVED else REVIEW_REJECTED)"

lemma pres_bind_from: "I (snd (m s)) \<Longrightarrow> (\<And>x. pres I (f x)) \<Longrightarrow> I (snd (bindM m f s))"
  unfolding steps_def keepsInv_def by (cases "m s"; cases "fst (m s)") (simp_all add: bindM_def)

lemma ruled_dispatch:
  assumes "ruled k w v u b s" "row_get ev_event_id i (events s) = Some e" "ev_event_type e = review_event_type b"
  shows "ruled k w v u b (snd (dispatch_one (register_all []) i s))"
proof -
  let ?I = "ruled k w v u b"
  have keep: "pres ?I (get_or_create_consumer n)" "pres ?I (get_or_create_checkpoint c ty pk)" "pres ?I (delivery_failed j n m x)"
    "pres ?I (set_checkpoint j h)" "pres ?I (the_event j)" "pres ?I (set_event j h')" for n c ty pk j m x h h'
    unfolding get_or_create_consumer_def get_or_create_checkpoint_def delivery_failed_def Let_def
    by (intro ruled_keeps steps_intro; simp)+
  have "pres ?I (on_review b q)" for q
    unfolding on_review_def by (intro ruled_resume inv_rules steps_option)
  then have d: "pres ?I (deliver_unless_applied (on_review b) q c h p)" for q c h p
    unfolding deliver_unless_applied_def apply_handler_def by (intro keep inv_rules steps_if)
  have map: "map_of [(REVIEW_APPROVED, on_review True), (REVIEW_REJECTED, on_review False)] (ev_event_type e) = Some (on_review b)"
    using assms(3) by (simp add: review_event_type_def)
  have tail: "pres ?I (bindM (get_or_create_consumer n) (\<lambda>c. bindM (get_or_create_checkpoint (ec_id c) ty pk)
      (\<lambda>h. deliver_unless_applied (on_review b) e c h p)))" for n ty pk p
    by (intro keep d inv_rules)
  have "deliver_to (''pipeline-controller'', [(REVIEW_APPROVED, on_review True), (REVIEW_REJECTED, on_review False)]) i False s
    = bindM (get_or_create_consumer ''pipeline-controller'') (\<lambda>c. bindM (get_or_create_checkpoint (ec_id c) (ev_aggregate_type e) (str_uuid (ev_aggregate_id e)))
      (\<lambda>h. deliver_unless_applied (on_review b) e c h False)) s"
    using assms(2) map by (simp add: deliver_to_def bindM_exec load_exec del: map_of.simps)
  then have "?I (snd (deliver_to (''pipeline-controller'', [(REVIEW_APPROVED, on_review True), (REVIEW_REJECTED, on_review False)]) i False s))"
    using presD [OF tail assms(1)] by presburger
  moreover have "snd (deliver_all (register_all []) i False s)
    = snd (deliver_to (''pipeline-controller'', [(REVIEW_APPROVED, on_review True), (REVIEW_REJECTED, on_review False)]) i False s)"
    by (simp add: register_all_eval bindM_exec ret_exec split: prod.split sum.split)
  ultimately have "?I (snd (deliver_all (register_all []) i False s))" by simp
  moreover have "pres ?I (bindM (the_event i) (\<lambda>e. if ev_status e \<noteq> POISON \<and> \<not> p
      then set_event i (\<lambda>e. e\<lparr> ev_status := OutboxEventStatus.DISPATCHED \<rparr>) else ret ()))" for p
    by (intro keep inv_rules steps_if)
  ultimately show ?thesis unfolding dispatch_one_def by (rule pres_bind_from)
qed

lemma keeps_dispatch_decisions: "keeps decisions (dispatch_one (register_all []) i)"
proof -
  have b: "blind decisions" by simp
  have r: "keeps decisions (on_review a e)" for a e
    unfolding on_review_def by (intro keeps_controller [OF b] frame_rules steps_option)
  have f: "keeps decisions (get_or_create_consumer n)" "keeps decisions (get_or_create_checkpoint c ty pk)"
    "keeps decisions (delivery_failed j n m x)" "keeps decisions (set_checkpoint j h)"
    "keeps decisions (the_event j)" "keeps decisions (set_event j h')" for n c ty pk j m x h h'
    unfolding get_or_create_consumer_def get_or_create_checkpoint_def delivery_failed_def Let_def
    by (intro steps_intro; simp)+
  have d: "keeps decisions (deliver_unless_applied (on_review a) q c h p)" for a q c h p
    unfolding deliver_unless_applied_def apply_handler_def by (intro f r frame_rules steps_if)
  have "keeps decisions (deliver_to (n, [(REVIEW_APPROVED, on_review True), (REVIEW_REJECTED, on_review False)]) i p)" for n p
    unfolding deliver_to_def by (intro frame.bind f) (auto intro!: f d frame_rules split: option.split)
  then show ?thesis
    unfolding dispatch_one_def register_all_eval deliver_all.simps by (intro f frame_rules steps_if)
qed

lemma submit_result:
  assumes "row_get rg_id k (gates s) = Some g" "submit_review_decision k u b notes s = (Inr i, s')"
    and fresh: "\<forall>n. uuids s n \<notin> ev_event_id ` set (events s)"
  shows "rg_status g = AWAITING \<and> ruled k (rg_workspace_id g) (rg_content_version_id g) u b s'
    \<and> (\<exists>e. row_get ev_event_id i (events s') = Some e \<and> ev_event_type e = review_event_type b)
    \<and> (\<exists>d. decisions s' = decisions s @ [d] \<and> rvd_reviewer_id d = u \<and> rvd_notes d = notes \<and> rvd_content_version_id d = None
        \<and> rvd_decision d = (if b then ReviewDecisionValue.APPROVED else ReviewDecisionValue.REJECTED))"
proof -
  have aw: "rg_status g = AWAITING" using assms by (auto simp: submit_review_decision_def exec split: if_splits)
  obtain run where run: "row_get pr_id (rg_pipeline_run_id g) (runs s) = Some run"
    using assms aw by (auto simp: submit_review_decision_def exec split: option.splits)
  let ?d = "\<lparr> rvd_id = uuids s (tick s), rvd_workspace_id = rg_workspace_id g, rvd_content_item_id = pr_content_item_id run,
    rvd_content_version_id = None, rvd_reviewer_id = u,
    rvd_decision = (if b then ReviewDecisionValue.APPROVED else ReviewDecisionValue.REJECTED), rvd_notes = notes \<rparr>"
  let ?sg = "gates_update (row_set rg_id k (rg_decided_by_update (\<lambda>_. Some u))) s"
  let ?s1 = "decisions_update (\<lambda>ds. ds @ [?d]) ((gates_update (row_set rg_id k (rg_decided_by_update (\<lambda>_. Some u))) s)\<lparr>tick := Suc (tick s)\<rparr>)"
  have "bindM (child_span (pr_trace_id run)) (\<lambda>trace. bindM (or_uuid4 (pr_correlation_id run)) (\<lambda>corr.
      emit (if b then REVIEW_APPROVED else REVIEW_REJECTED) (rg_workspace_id g) ''pipeline_run'' (rg_pipeline_run_id g) corr trace
       (JObj [(''review_gate_id'', JStr (str_uuid k)), (''decision_id'', JStr (str_uuid (uuids ?sg (tick ?sg))))]) ''review_hook'')) ?s1 = (Inr i, s')"
    using assms(1,2) aw run
    by (simp add: submit_review_decision_def load_exec bindM_exec andThen_exec gets_exec store_exec uuid4_exec insert_exec split del: if_split cong: sum.case_cong prod.case_cong)
  then obtain tr s2 c s3 where tr: "child_span (pr_trace_id run) ?s1 = (Inr tr, s2)" and c: "or_uuid4 (pr_correlation_id run) s2 = (Inr c, s3)"
    and e: "emit (if b then REVIEW_APPROVED else REVIEW_REJECTED) (rg_workspace_id g) ''pipeline_run'' (rg_pipeline_run_id g) c tr
       (JObj [(''review_gate_id'', JStr (str_uuid k)), (''decision_id'', JStr (str_uuid (uuids ?sg (tick ?sg))))]) ''review_hook'' s3 = (Inr i, s')"
    by (auto elim!: bindM_InrE)
  have "keeps (\<lambda>s. (uuids s, gates s, events s, decisions s)) (child_span (pr_trace_id run))"
    "keeps (\<lambda>s. (uuids s, gates s, events s, decisions s)) (or_uuid4 (pr_correlation_id run))" by (intro steps_intro; simp)+
  from keepsD' [OF this(1) tr] keepsD' [OF this(2) c]
  have s3: "uuids s3 = uuids s" "gates s3 = gates ?s1" "events s3 = events s" "decisions s3 = decisions s @ [?d]" by simp_all
  have i: "i = uuids s (tick s3)" and s': "gates s' = gates ?s1" "decisions s' = decisions s @ [?d]"
    using e s3 by (auto simp: emit_exec)
  obtain q where q: "events s' = events s @ [q]" "ev_event_id q = i" "ev_event_type q = review_event_type b"
    using e s3 by (auto simp: emit_exec new_event_def review_event_type_def)
  have "row_get ev_event_id i (events s) = None" using fresh i by (auto simp: row_get_None_iff)
  then have "row_get ev_event_id i (events s') = Some q" using q by (simp add: row_get_append)
  moreover have "ruled k (rg_workspace_id g) (rg_content_version_id g) u b s'" using assms(1) aw s' by (simp add: ruled_def)
  ultimately show ?thesis using aw q s' by auto
qed

lemma workspace_gate_row:
  assumes "distinct (map rg_id (gates s))" "scalar_one_or_none (workspace_gate w k s) = Inr (Some g)"
  shows "row_get rg_id k (gates s) = Some g \<and> rg_workspace_id g = w"
proof -
  have "g \<in> set (gates s)" "rg_workspace_id g = w" "rg_id g = k"
    using assms(2) by (auto simp: scalar_one_or_none_Some workspace_gate_def filter_eq_Cons_iff)
  then show ?thesis using row_get_distinct [OF assms(1)] by auto
qed

lemma awaiting_gate_result:
  "awaiting_gate w k s = (Inr g, s') \<longleftrightarrow> s' = s \<and> scalar_one_or_none (workspace_gate w k s) = Inr (Some g) \<and> rg_status g = AWAITING"
  by (auto simp: awaiting_gate_def exec split: option.splits sum.splits if_splits)

text \<open>What a decision that goes through found and left.\<close>

lemma decision_effects:
  assumes "decide_review_gate w k u b expected notes s = (Inr r, s')" "distinct (map rg_id (gates s))"
    and "\<forall>n. uuids s n \<notin> ev_event_id ` set (events s)"
  shows "\<exists>g g' d. row_get rg_id k (gates s) = Some g \<and> rg_workspace_id g = w \<and> rg_status g = AWAITING
    \<and> expected \<in> {None, rg_content_version_id g} \<and> (b \<longrightarrow> rg_content_version_id g \<noteq> None)
    \<and> row_get rg_id k (gates s') = Some g' \<and> rg_status g' = ruling b \<and> rg_content_version_id g' = rg_content_version_id g
    \<and> rg_decided_by g' = Some u \<and> decisions s' = decisions s @ [d] \<and> rvd_reviewer_id d = u
    \<and> rvd_decision d = (if b then ReviewDecisionValue.APPROVED else ReviewDecisionValue.REJECTED)
    \<and> rvd_content_version_id d = None"
proof -
  from assms(1) [unfolded decide_review_gate_def] obtain g s0 where 0: "awaiting_gate w k s = (Inr g, s0)" and
    rest: "(if b \<and> rg_content_version_id g = None then
       raise (ValueError ''review gate has no content version on record; it cannot be approved'')
     else if expected \<noteq> None \<and> expected \<noteq> rg_content_version_id g then
       raise (ValueError ''review gate content has changed since it was loaded; refresh and try again'')
     else bindM (submit_review_decision k u b notes) (\<lambda>event_id.
       andThen (dispatch_one (register_all []) event_id) (
       bindM (the_gate k) (\<lambda>gate.
       if rg_status gate = AWAITING then raise (ReviewGateDeliveryError ''review decision could not be applied'')
       else gate_detail w k ''decision'')))) s0 = (Inr r, s')" by (rule bindM_InrE)
  have aw: "rg_status g = AWAITING" and ex: "\<not> (b \<and> rg_content_version_id g = None)" "\<not> (expected \<noteq> None \<and> expected \<noteq> rg_content_version_id g)"
    and tail: "bindM (submit_review_decision k u b notes) (\<lambda>event_id.
       andThen (dispatch_one (register_all []) event_id) (
       bindM (the_gate k) (\<lambda>gate.
       if rg_status gate = AWAITING then raise (ReviewGateDeliveryError ''review decision could not be applied'')
       else gate_detail w k ''decision''))) s = (Inr r, s')"
    using 0 rest by (auto simp: awaiting_gate_result raise_exec split: if_splits)
  have "scalar_one_or_none (workspace_gate w k s) = Inr (Some g)" using 0 by (simp add: awaiting_gate_result)
  then have g: "row_get rg_id k (gates s) = Some g" "rg_workspace_id g = w" using workspace_gate_row [OF assms(2)] by blast+
  from tail obtain i s1 where 1: "submit_review_decision k u b notes s = (Inr i, s1)" and
    "andThen (dispatch_one (register_all []) i) (bindM (the_gate k) (\<lambda>gate.
       if rg_status gate = AWAITING then raise (ReviewGateDeliveryError ''review decision could not be applied'')
       else gate_detail w k ''decision'')) s1 = (Inr r, s')" by (rule bindM_InrE)
  then obtain x s2 where 2: "dispatch_one (register_all []) i s1 = (Inr x, s2)" and
    3: "bindM (the_gate k) (\<lambda>gate.
       if rg_status gate = AWAITING then raise (ReviewGateDeliveryError ''review decision could not be applied'')
       else gate_detail w k ''decision'') s2 = (Inr r, s')" by (auto elim: andThen_InrE)
  obtain e d where sub: "ruled k w (rg_content_version_id g) u b s1" "row_get ev_event_id i (events s1) = Some e"
    "ev_event_type e = review_event_type b" "decisions s1 = decisions s @ [d]" "rvd_reviewer_id d = u"
    "rvd_decision d = (if b then ReviewDecisionValue.APPROVED else ReviewDecisionValue.REJECTED)" "rvd_content_version_id d = None"
    using submit_result [OF g(1) 1 assms(3)] g(2) by blast
  have "ruled k w (rg_content_version_id g) u b s2" using ruled_dispatch [OF sub(1-3)] 2 by simp
  then obtain g' where g': "row_get rg_id k (gates s2) = Some g'" "rg_content_version_id g' = rg_content_version_id g"
    "rg_decided_by g' = Some u" "rg_status g' \<in> {AWAITING, ruling b}" by (auto simp: ruled_def)
  have "rg_status g' \<noteq> AWAITING" "s' = s2"
    using 3 g'(1) by (auto simp: bindM_exec load_exec raise_exec gate_detail_def get_review_gate_def gets_exec ret_exec split: option.splits if_splits)
  moreover have "decisions s2 = decisions s1" using keepsD' [OF keeps_dispatch_decisions 2] .
  ultimately show ?thesis using g aw ex g' sub by auto
qed

section \<open>Editing a gate\<close>

text \<open>
  C35: A decision is bound to what was reviewed. A decision the route lets through was made by an administrator or reviewer of the
  workspace on an awaiting gate of it. An approval names the version the reviewer had loaded and the gate stands at that
  very version; a rejection may leave it out, but if it names one it is compared too. The decision is on record under the
  reviewer's name, and the gate is settled as decided, still at that version. The decision record itself is written without the
  version: only the gate holds it.
\<close>

theorem decision_binds_version:
  assumes "decide_review_gate_route w k p u s = (Inr r, s')" "distinct (map rg_id (gates s))"
    and "\<forall>n. uuids s n \<notin> ev_event_id ` set (events s)"
  shows "\<exists>m g g' d. m \<in> set (memberships s) \<and> mb_workspace_id m = w \<and> mb_user_id m = u \<and> mb_role m \<in> {WorkspaceRole.ADMIN, WorkspaceRole.REVIEWER}
    \<and> row_get rg_id k (gates s) = Some g \<and> rg_workspace_id g = w \<and> rg_status g = AWAITING
    \<and> (rd_approved p \<longrightarrow> (\<exists>v. rd_expected_content_version_id p = Some v \<and> rg_content_version_id g = Some v))
    \<and> (\<not> rd_approved p \<longrightarrow> rd_expected_content_version_id p \<in> {None, rg_content_version_id g})
    \<and> row_get rg_id k (gates s') = Some g' \<and> rg_status g' = ruling (rd_approved p) \<and> rg_content_version_id g' = rg_content_version_id g
    \<and> rg_decided_by g' = Some u \<and> decisions s' = decisions s @ [d] \<and> rvd_reviewer_id d = u
    \<and> rvd_decision d = (if rd_approved p then ReviewDecisionValue.APPROVED else ReviewDecisionValue.REJECTED)
    \<and> rvd_content_version_id d = None"
proof -
  let ?rest = "if \<not> valid_decision p then raise (HTTPException 422 ''invalid decision'')
     else catchM (decide_review_gate w k u (rd_approved p) (rd_expected_content_version_id p) (rd_notes p)) (\<lambda>e. raise (decision_http_error e))"
  have "andThen (require_workspace_reviewer w u) ?rest s = (Inr r, s')"
    using assms(1) by (simp only: decide_review_gate_route_def transaction_Inr)
  then obtain m s1 where m1: "require_workspace_reviewer w u s = (Inr m, s1)" and rest: "?rest s1 = (Inr r, s')" by (rule andThen_InrE)
  have "s1 = s" using m1 require_role_state [of "[WorkspaceRole.ADMIN, WorkspaceRole.REVIEWER]" w u s] by (simp add: require_workspace_reviewer_def)
  with m1 rest have m: "require_workspace_reviewer w u s = (Inr m, s)" and v: "valid_decision p"
    and d: "decide_review_gate w k u (rd_approved p) (rd_expected_content_version_id p) (rd_notes p) s = (Inr r, s')"
    by (auto simp: raise_exec catchM_exec split: if_splits prod.splits sum.splits)
  have "m \<in> set (memberships s) \<and> mb_workspace_id m = w \<and> mb_user_id m = u \<and> mb_role m \<in> {WorkspaceRole.ADMIN, WorkspaceRole.REVIEWER}"
    using m by (auto simp: require_workspace_reviewer_def require_workspace_role_def get_membership_def exec
        scalar_one_or_none_Some filter_eq_Cons_iff split: option.splits if_splits sum.splits)
  with decision_effects [OF d assms(2,3)] v show ?thesis by (fastforce simp: valid_decision_def)
qed

lemma edit_result:
  assumes "edit_review_gate_content w k ed expected h b c s = (Inr r, s')" "distinct (map rg_id (gates s))"
  shows "\<exists>g run item ver. row_get rg_id k (gates s) = Some g \<and> rg_workspace_id g = w \<and> rg_status g = AWAITING
    \<and> rg_content_version_id g = Some expected \<and> row_get pr_id (rg_pipeline_run_id g) (runs s) = Some run
    \<and> row_get ci_id (pr_content_item_id run) (items s) = Some item
    \<and> ver = edited_version w ed item (Option.bind (ci_current_version_id item) (\<lambda>v. row_get cv_id v (versions s))) h b c (uuids s (tick s))
    \<and> s' = gates_update (row_set rg_id k (rg_content_version_id_update (\<lambda>_. Some (cv_id ver))))
        (items_update (row_set ci_id (ci_id item) (ci_current_version_id_update (\<lambda>_. Some (cv_id ver))))
          (versions_update (\<lambda>vs. vs @ [ver]) (s\<lparr>tick := Suc (tick s)\<rparr>)))"
proof -
  obtain g where g: "scalar_one_or_none (workspace_gate w k s) = Inr (Some g)" "rg_status g = AWAITING"
    using assms(1) by (auto simp: edit_review_gate_content_def bindM_exec [of "awaiting_gate w k"] awaiting_gate_result
        split: prod.splits sum.splits)
  then have aw: "awaiting_gate w k s = (Inr g, s)" by (simp add: awaiting_gate_result)
  note row = workspace_gate_row [OF assms(2) g(1)]
  have v: "rg_content_version_id g = Some expected"
    using assms(1) aw by (auto simp: edit_review_gate_content_def bindM_exec raise_exec split: if_splits)
  obtain run where run: "row_get pr_id (rg_pipeline_run_id g) (runs s) = Some run"
    using assms(1) aw v by (cases "row_get pr_id (rg_pipeline_run_id g) (runs s)")
      (auto simp: edit_review_gate_content_def bindM_exec gets_exec raise_exec)
  obtain item where item: "row_get ci_id (pr_content_item_id run) (items s) = Some item"
    using assms(1) aw v run by (cases "row_get ci_id (pr_content_item_id run) (items s)")
      (auto simp: edit_review_gate_content_def bindM_exec gets_exec raise_exec)
  have "snd (edit_review_gate_content w k ed expected h b c s)
    = gates_update (row_set rg_id k (rg_content_version_id_update (\<lambda>_. Some (uuids s (tick s)))))
        (items_update (row_set ci_id (ci_id item) (ci_current_version_id_update (\<lambda>_. Some (uuids s (tick s)))))
          (versions_update (\<lambda>vs. vs @ [edited_version w ed item (Option.bind (ci_current_version_id item) (\<lambda>v. row_get cv_id v (versions s)))
            h b c (uuids s (tick s))]) (s\<lparr>tick := Suc (tick s)\<rparr>)))"
    using aw v run item by (simp add: edit_review_gate_content_def bindM_exec gets_exec andThen_exec uuid4_exec insert_exec store_exec
        gate_detail_def get_review_gate_def raise_exec ret_exec split: option.split)
  with assms(1) row g(2) v run item show ?thesis
    by (intro exI [of _ g] exI [of _ run] exI [of _ item]) (simp add: edited_version_def)
qed

text \<open>
  C36: An edit moves the gate and the item together. It succeeds only on an awaiting gate of the workspace at the version the
  editor had loaded; it appends one version, in which hook, body and call to action are the given text where one is given and that of the item's
  current version where it is left out, leaves every older version as it was, and both the gate and the item under review then stand at the new version.
\<close>

theorem edit_moves_gate_and_item:
  assumes "edit_review_gate_content w k ed expected h b c s = (Inr r, s')" "distinct (map rg_id (gates s))"
  shows "\<exists>g run item ver. row_get rg_id k (gates s) = Some g \<and> rg_workspace_id g = w \<and> rg_status g = AWAITING
    \<and> rg_content_version_id g = Some expected \<and> row_get rg_id k (gates s') = Some (g\<lparr>rg_content_version_id := Some (cv_id ver)\<rparr>)
    \<and> row_get pr_id (rg_pipeline_run_id g) (runs s') = Some run \<and> row_get ci_id (pr_content_item_id run) (items s) = Some item
    \<and> row_get ci_id (pr_content_item_id run) (items s') = Some (item\<lparr>ci_current_version_id := Some (cv_id ver)\<rparr>)
    \<and> versions s' = versions s @ [ver] \<and> cv_created_by ver = Some ed \<and> cv_content_item_id ver = ci_id item
    \<and> (let old = Option.bind (ci_current_version_id item) (\<lambda>v. row_get cv_id v (versions s)) in
         cv_script_hook ver = (case h of Some new \<Rightarrow> Some new | None \<Rightarrow> Option.bind old cv_script_hook)
       \<and> cv_script_body ver = (case b of Some new \<Rightarrow> Some new | None \<Rightarrow> Option.bind old cv_script_body)
       \<and> cv_script_cta ver = (case c of Some new \<Rightarrow> Some new | None \<Rightarrow> Option.bind old cv_script_cta))"
proof -
  obtain g run item ver where e: "row_get rg_id k (gates s) = Some g" "rg_workspace_id g = w" "rg_status g = AWAITING"
    "rg_content_version_id g = Some expected" "row_get pr_id (rg_pipeline_run_id g) (runs s) = Some run"
    "row_get ci_id (pr_content_item_id run) (items s) = Some item"
    and ver: "ver = edited_version w ed item (Option.bind (ci_current_version_id item) (\<lambda>v. row_get cv_id v (versions s))) h b c (uuids s (tick s))"
    and s': "s' = gates_update (row_set rg_id k (rg_content_version_id_update (\<lambda>_. Some (cv_id ver))))
        (items_update (row_set ci_id (ci_id item) (ci_current_version_id_update (\<lambda>_. Some (cv_id ver))))
          (versions_update (\<lambda>vs. vs @ [ver]) (s\<lparr>tick := Suc (tick s)\<rparr>)))"
    using edit_result [OF assms] by blast
  have "ci_id item = pr_content_item_id run" using row_get_key [OF e(6)] .
  with e show ?thesis
    by (intro exI [of _ g] exI [of _ run] exI [of _ item] exI [of _ ver])
      (simp add: s', simp add: ver edited_version_def Let_def split: option.split)
qed

text \<open>
  C37: No edit is clobbered and nothing unseen is approved: once an edit has gone through, a second edit and a decision made
  on the version that was loaded before it are refused and change nothing.
\<close>

theorem stale_review_refused:
  assumes "edit_review_gate_content w k ed expected h b c s = (Inr r, s')" "distinct (map rg_id (gates s))"
    and "\<forall>n. uuids s n \<noteq> expected"
  shows "(\<exists>m. edit_review_gate_content w k ed' expected h' b' c' s' = (Inl (ValueError m), s'))
    \<and> (\<exists>m. decide_review_gate w k u approved (Some expected) notes s' = (Inl (ValueError m), s'))"
proof -
  obtain g run item ver where e: "row_get rg_id k (gates s) = Some g" "rg_workspace_id g = w" "rg_status g = AWAITING"
    and v: "ver = edited_version w ed item (Option.bind (ci_current_version_id item) (\<lambda>v. row_get cv_id v (versions s))) h b c (uuids s (tick s))"
    and s1: "s' = gates_update (row_set rg_id k (rg_content_version_id_update (\<lambda>_. Some (cv_id ver))))
        (items_update (row_set ci_id (ci_id item) (ci_current_version_id_update (\<lambda>_. Some (cv_id ver))))
          (versions_update (\<lambda>vs. vs @ [ver]) (s\<lparr>tick := Suc (tick s)\<rparr>)))"
    using edit_result [OF assms(1,2)] by blast
  let ?g = "g\<lparr>rg_content_version_id := Some (cv_id ver)\<rparr>"
  have s': "gates s' = row_set rg_id k (rg_content_version_id_update (\<lambda>_. Some (cv_id ver))) (gates s)" by (simp add: s1)
  have ver: "cv_id ver \<noteq> expected" using assms(3) by (simp add: v edited_version_def)
  have "row_get rg_id k (gates s') = Some ?g" using e(1) by (simp add: s')
  moreover have "distinct (map rg_id (gates s'))" using assms(2) by (simp add: s')
  ultimately have "filter (\<lambda>q. rg_id q = k) (gates s') = [?g]"
    using unique_filter [of rg_id "gates s'" ?g] row_get_Some by fastforce
  then have "workspace_gate w k s' = [?g]"
    using e(2) by (simp add: workspace_gate_def filter_filter [symmetric] conj_commute)
  then have "awaiting_gate w k s' = (Inr ?g, s')" using e(3) by (simp add: awaiting_gate_result)
  moreover have "Some expected \<noteq> rg_content_version_id ?g" using ver by simp
  ultimately show ?thesis
    by (auto simp: edit_review_gate_content_def decide_review_gate_def bindM_exec raise_exec)
qed

section \<open>Witnesses\<close>

lemmas desk_ops = create_content_job_def replayed_job_def ensure_desk_workflow_def add_desk_stages_def add_desk_transitions_def
  desk_stage_def desk_transition_def desk_definitions_def keyed_runs_def draft_of_def insert_draft_def new_item_def new_version_def
  new_desk_run_def add_keyed_run_def run_scripting_def cancel_orphans_def orphan_jobs_def cancel_job_def finish_job_def run_gates_def
  handle_stage_success_def advance_or_finish_def pause_for_review_def open_gate_def announce_gate_def add_timer_def or_empty_def
  awaiting_gates_def DRAFT_DESK_PROVIDER_def find_transition_def evaluate_condition_def SCRIPTING_KEY_def REVIEW_KEY_def
  PUBLISHED_KEY_def DESK_WORKFLOW_NAME_def DESK_WORKFLOW_VERSION_def

lemma uuid_hex_text: "uuid_hex n \<noteq> []"
  by (cases "nat_digits 16 n") (auto simp: uuid_hex_def Let_def)

lemma sample_job:
  "\<exists>r s'. create_content_job 1 70 ''t'' ''body'' None None None (Some ''k'') sample_db = (Inr r, s')"
  "replayed_job 1 (Some ''k'') sample_db = (Inr None, sample_db)" "fresh_ids sample_db"
proof -
  have "strip ''body'' = ''body''" by code_simp
  then have "\<exists>r. fst (create_content_job 1 70 ''t'' ''body'' None None None (Some ''k'') sample_db) = Inr r"
    by (simp add: desk_ops uuid_hex_text spend_ops workflow_ops exec sample Let_def default_settings_def)
  then show "\<exists>r s'. create_content_job 1 70 ''t'' ''body'' None None None (Some ''k'') sample_db = (Inr r, s')"
    by (metis prod.collapse)
  show "replayed_job 1 (Some ''k'') sample_db = (Inr None, sample_db)"
    by (simp add: replayed_job_def keyed_runs_def exec sample)
  show "fresh_ids sample_db" by (simp add: fresh_ids_def sample)
qed

lemma content_job_awaits_review_witness:
  "\<exists>r s' g. create_content_job 1 70 ''t'' ''body'' None None None (Some ''k'') sample_db = (Inr r, s')
    \<and> run_gates (cj_pipeline_run_id r) s' = [g] \<and> rg_status g = AWAITING"
  using sample_job(1) content_job_awaits_review [OF _ sample_job(2,3)] by metis

lemma content_job_replayed_witness:
  "\<exists>r s' r'. create_content_job 1 70 ''t'' ''body'' None None None (Some ''k'') sample_db = (Inr r, s')
    \<and> create_content_job 1 71 ''u'' '''' None None None (Some ''k'') s' = (Inr r', s')"
  using sample_job(1) content_job_replayed [OF _ sample_job(2,3)] by metis

definition reviewed_version :: ContentVersion where
  "reviewed_version = new_version 1 70 \<lparr> dr_hook = None, dr_body = ''body'', dr_cta = None, dr_generated_by = ''human_draft'',
     dr_prompt_used = ''review_desk_manual_draft'' \<rparr> 11 7"

definition desk_db :: db where
  "desk_db = sample_db\<lparr>runs := [sample_run\<lparr>pr_status := PAUSED, pr_current_stage := ''review''\<rparr>],
     items := [sample_item\<lparr>ci_current_version_id := Some 7\<rparr>], versions := [reviewed_version],
     gates := [sample_gate\<lparr>rg_content_version_id := Some 7\<rparr>]\<rparr>"

lemma desk_db_rows:
  "distinct (map rg_id (gates desk_db))" "uuids desk_db n \<notin> ev_event_id ` set (events desk_db)" "uuids desk_db n \<noteq> 7"
  by (simp_all add: desk_db_def sample)

definition staffed_desk :: db where
  "staffed_desk = desk_db\<lparr>memberships := [\<lparr> mb_id = 90, mb_workspace_id = 1, mb_user_id = 70, mb_role = WorkspaceRole.REVIEWER \<rparr>]\<rparr>"

abbreviation approval_7 :: ReviewDecisionIn where
  "approval_7 \<equiv> \<lparr> rd_approved = True, rd_notes = None, rd_expected_content_version_id = Some 7 \<rparr>"

lemma staffed_desk_decided: "\<exists>r s'. decide_review_gate_route 1 80 approval_7 70 staffed_desk = (Inr r, s')"
proof -
  have "\<exists>r. fst (decide_review_gate 1 80 70 True (Some 7) None staffed_desk) = Inr r"
    by (simp add: decide_review_gate_def awaiting_gate_def workspace_gate_def submit_review_decision_def relay_ops gate_80
        gate_detail_def get_review_gate_def gate_join_def gate_row_def staffed_desk_def
        desk_ops finish_succeeded_def next_sequence_def sequences_def new_event_def uuid_hex_text workflow_ops exec desk_db_def reviewed_version_def sample_gate_def sample checkpoint_slot_def Let_def)
  then obtain r s' where d: "decide_review_gate 1 80 70 True (Some 7) None staffed_desk = (Inr r, s')" by (metis prod.collapse)
  have "require_workspace_reviewer 1 70 staffed_desk = (Inr \<lparr> mb_id = 90, mb_workspace_id = 1, mb_user_id = 70, mb_role = WorkspaceRole.REVIEWER \<rparr>, staffed_desk)"
    by (simp add: require_workspace_reviewer_def require_workspace_role_def get_membership_def exec staffed_desk_def)
  with d show ?thesis
    by (simp add: decide_review_gate_route_def transaction_exec andThen_exec catchM_exec valid_decision_def text_within_def)
qed

lemma decision_binds_version_witness:
  "\<exists>r s' g'. decide_review_gate_route 1 80 approval_7 70 staffed_desk = (Inr r, s')
    \<and> row_get rg_id 80 (gates s') = Some g' \<and> rg_status g' = ReviewGateStatus.APPROVED \<and> rg_decided_by g' = Some 70"
proof -
  obtain r s' where d: "decide_review_gate_route 1 80 approval_7 70 staffed_desk = (Inr r, s')" using staffed_desk_decided by blast
  have "distinct (map rg_id (gates staffed_desk))" "\<forall>n. uuids staffed_desk n \<notin> ev_event_id ` set (events staffed_desk)"
    using desk_db_rows(1,2) by (simp_all add: staffed_desk_def)
  from decision_binds_version [OF d this] show ?thesis using d by (auto simp: ruling_def)
qed

lemma desk_db_edited: "\<exists>r s'. edit_review_gate_content 1 80 70 7 (Some ''h'') None None desk_db = (Inr r, s')"
proof -
  have "\<exists>r. fst (edit_review_gate_content 1 80 70 7 (Some ''h'') None None desk_db) = Inr r"
    by (simp add: edit_review_gate_content_def awaiting_gate_def workspace_gate_def edited_version_def
        gate_detail_def get_review_gate_def gate_join_def gate_row_def exec desk_db_def sample_gate_def sample)
  then show ?thesis by (metis prod.collapse)
qed

lemma edit_moves_gate_and_item_witness:
  "\<exists>r s' ver. edit_review_gate_content 1 80 70 7 (Some ''h'') None None desk_db = (Inr r, s')
    \<and> versions s' = versions desk_db @ [ver] \<and> cv_script_hook ver = Some ''h''"
proof -
  obtain r s' where d: "edit_review_gate_content 1 80 70 7 (Some ''h'') None None desk_db = (Inr r, s')" using desk_db_edited by blast
  from edit_moves_gate_and_item [OF d desk_db_rows(1)] show ?thesis using d by auto
qed

lemma stale_review_refused_witness:
  "\<exists>r s' m. edit_review_gate_content 1 80 70 7 (Some ''h'') None None desk_db = (Inr r, s')
    \<and> decide_review_gate 1 80 71 True (Some 7) None s' = (Inl (ValueError m), s')"
proof -
  obtain r s' where d: "edit_review_gate_content 1 80 70 7 (Some ''h'') None None desk_db = (Inr r, s')" using desk_db_edited by blast
  from stale_review_refused [OF d desk_db_rows(1)] desk_db_rows(3) show ?thesis using d by blast
qed

end
