(* ===== verification/ContentDepartment.thy ===== *)
theory ContentDepartment imports Strategy ContentDesk begin

text \<open>
  The content department: \<open>services/content_department.py\<close>, its routes \<open>api/routes/content_department.py\<close> and the payload checks of
  \<open>schemas/content_department.py\<close>. A creative package is made only for a brief behind the writer gate, and reaches the producer
  only when its four independent audits passed.
\<close>

section \<open>Texts and fingerprints\<close>

definition content_text :: "string \<Rightarrow> string \<Rightarrow> exn + string" where
  "content_text field value = safe_text 12000 field value"

definition text_fingerprint :: "string \<Rightarrow> string" where
  "text_fingerprint value = sha256_hex (join '' '' (split_ws [] (lower value)))"

definition structure_fingerprint :: "string list \<Rightarrow> string" where
  "structure_fingerprint parts = sha256_hex (join ''|'' (map (\<lambda>p. sub (Some1 is_alnum) ''token'' (lower p)) parts))"

definition contains :: "string \<Rightarrow> string \<Rightarrow> bool" where
  "contains w s = search (Lit w) s"

definition claim_type_of :: "string \<Rightarrow> string option" where
  "claim_type_of s =
     (let lowered = lower s in
      if list_ex is_digit s then Some ''NUMBER''
      else if \<exists>w \<in> set [''will'', ''guarantee'', ''best'', ''more than'']. contains w lowered
      then Some (if contains ''best'' lowered \<or> contains ''more than'' lowered then ''COMPARATIVE'' else ''PRODUCT CLAIM'')
      else None)"

definition claim_payload :: "string \<Rightarrow> json option" where
  "claim_payload s = (case claim_type_of s of
     None \<Rightarrow> None
   | Some ty \<Rightarrow> Some (JObj [(''claim_text'', JStr s), (''claim_type'', JStr ty), (''source_required'', JBool True),
       (''risk'', JStr (if ty \<in> {''NUMBER'', ''COMPARATIVE''} then ''high'' else ''medium''))]))"

definition extract_claims :: "string \<Rightarrow> json list" where
  "extract_claims script =
     List.map_filter (\<lambda>sentence. if strip sentence = [] then None else claim_payload (strip sentence)) (split_sentences [] script)"

definition ALLOWED_AUDITORS :: "string list" where
  "ALLOWED_AUDITORS = [''language'', ''fact'', ''brand'', ''originality'']"

definition MANDATORY_AUDITORS :: "string list" where
  "MANDATORY_AUDITORS = [''language'', ''fact'', ''brand'', ''originality'']"

section \<open>Runs and packages\<close>

definition emit_content :: "uuid \<Rightarrow> string \<Rightarrow> json \<Rightarrow> unit D" where
  "emit_content run_id event_type payload =
     bindM (gets (\<lambda>d. row_get dn_id run_id (department_runs d))) (\<lambda>run. case run of
       None \<Rightarrow> raise NoSuchRow
     | Some r \<Rightarrow> emit_on event_type (dn_workspace_id r) ''content_department_run'' (dn_id r) (dn_correlation_id r) (dn_trace_id r)
         payload ''content-department-service'')"

lemma keeps_emit_content [steps_intro]: "(\<And>d c. f (d\<lparr>core := c\<rparr>) = f d) \<Longrightarrow> keeps f (emit_content i ty p)"
  unfolding emit_content_def by (intro steps_intro; simp)

lemma pres_emit_content [steps_intro]: "(\<And>d c. I d \<Longrightarrow> I (d\<lparr>core := c\<rparr>)) \<Longrightarrow> pres I (emit_content i ty p)"
  unfolding emit_content_def by (intro steps_intro; simp)

definition content_get_run :: "uuid \<Rightarrow> uuid \<Rightarrow> ContentDepartmentRun option D" where
  "content_get_run workspace_id run_id =
     one_of (\<lambda>d. filter (\<lambda>r. dn_id r = run_id \<and> dn_workspace_id r = workspace_id) (department_runs d))"

definition live_package :: "uuid \<Rightarrow> uuid \<Rightarrow> dept \<Rightarrow> ContentPackage list" where
  "live_package workspace_id package_id d =
     filter (\<lambda>p. pk_id p = package_id \<and> pk_workspace_id p = workspace_id \<and> pk_deleted_at p = None) (packages d)"

definition get_package :: "uuid \<Rightarrow> uuid \<Rightarrow> ContentPackage option D" where
  "get_package workspace_id package_id = one_of (live_package workspace_id package_id)"

definition list_packages :: "uuid \<Rightarrow> dept \<Rightarrow> ContentPackage list" where
  "list_packages workspace_id d =
     sort_key (\<lambda>p. - pk_created_at p) (filter (\<lambda>p. pk_workspace_id p = workspace_id \<and> pk_deleted_at p = None) (packages d))"

definition set_drun :: "uuid \<Rightarrow> (ContentDepartmentRun \<Rightarrow> ContentDepartmentRun) \<Rightarrow> unit D" where
  "set_drun i f = modifyM (department_runs_update (row_set dn_id i f))"

definition set_package :: "uuid \<Rightarrow> (ContentPackage \<Rightarrow> ContentPackage) \<Rightarrow> unit D" where
  "set_package i f = modifyM (packages_update (row_set pk_id i f))"

definition add_department_run :: "ContentDepartmentRun \<Rightarrow> unit D" where
  "add_department_run = add_row dn_id department_runs department_runs_update (\<lambda>q r. False) (\<lambda>d r. True)"

definition add_direction :: "CreativeDirection \<Rightarrow> unit D" where
  "add_direction = add_row cd_id directions directions_update (\<lambda>q r. False) (\<lambda>d r. True)"

text \<open>Under \<open>uq_content_package_version\<close>.\<close>

definition add_package :: "ContentPackage \<Rightarrow> unit D" where
  "add_package = add_row pk_id packages packages_update
     (\<lambda>q r. pk_workspace_id q = pk_workspace_id r \<and> pk_content_version_id q = pk_content_version_id r) (\<lambda>d r. True)"

definition add_claim :: "ContentClaim \<Rightarrow> unit D" where
  "add_claim = add_row cl_id claims claims_update (\<lambda>q r. False) (\<lambda>d r. True)"

definition add_content_audit :: "ContentAudit \<Rightarrow> unit D" where
  "add_content_audit = add_row ca_id content_audits content_audits_update (\<lambda>q r. False) (\<lambda>d r. True)"

text \<open>Under \<open>uq_content_audit_invalidation\<close> and \<open>uq_originality_fingerprint_version\<close>.\<close>

definition add_invalidation :: "ContentAuditInvalidation \<Rightarrow> unit D" where
  "add_invalidation = add_row cx_id audit_invalidations audit_invalidations_update
     (\<lambda>q r. cx_content_audit_id q = cx_content_audit_id r \<and> cx_content_version_id q = cx_content_version_id r) (\<lambda>d r. True)"

definition add_fingerprint :: "OriginalityFingerprint \<Rightarrow> unit D" where
  "add_fingerprint = add_row og_id fingerprints fingerprints_update
     (\<lambda>q r. og_workspace_id q = og_workspace_id r \<and> og_content_version_id q = og_content_version_id r) (\<lambda>d r. True)"

definition strategy_refusal :: "exn \<Rightarrow> exn" where
  "strategy_refusal e = (case e of
     StrategyAuditGateError m \<Rightarrow> ContentDepartmentGateError m
   | LookupError m \<Rightarrow> ContentDepartmentGateError m
   | KeyError m \<Rightarrow> ContentDepartmentGateError (exn_str e)
   | _ \<Rightarrow> e)"

definition require_strategy_pass :: "uuid \<Rightarrow> uuid \<Rightarrow> StrategyBrief D" where
  "require_strategy_pass workspace_id strategy_brief_id =
     andThen (catchM (writer_gate workspace_id strategy_brief_id) (\<lambda>e. raise (strategy_refusal e))) (
     bindM (get_brief workspace_id strategy_brief_id) (\<lambda>brief. case brief of
       None \<Rightarrow> raise (ContentDepartmentGateError ''approved strategy brief not found'')
     | Some b \<Rightarrow> ret b))"

record ContentDepartmentRunCreate =
  dp_strategy_brief_id :: uuid
  dp_max_provider_calls :: int
  dp_max_tokens :: int
  dp_max_cost_usd :: usd
  dp_max_attempts :: int
  dp_timeout_seconds :: int

definition valid_department_run :: "ContentDepartmentRunCreate \<Rightarrow> bool" where
  "valid_department_run p \<longleftrightarrow> 0 \<le> dp_max_provider_calls p \<and> dp_max_provider_calls p \<le> 25
     \<and> 0 \<le> dp_max_tokens p \<and> dp_max_tokens p \<le> 100000 \<and> 0 \<le> dp_max_cost_usd p \<and> dp_max_cost_usd p \<le> 25
     \<and> 1 \<le> dp_max_attempts p \<and> dp_max_attempts p \<le> 5 \<and> 30 \<le> dp_timeout_seconds p \<and> dp_timeout_seconds p \<le> 3600"

definition new_department_run :: "uuid \<Rightarrow> uuid \<Rightarrow> uuid \<Rightarrow> string \<Rightarrow> string \<Rightarrow> string \<Rightarrow> uuid \<Rightarrow> uuid \<Rightarrow> datetime \<Rightarrow> ContentDepartmentRun" where
  "new_department_run workspace_id actor_id brief trigger status context i corr created =
     \<lparr> dn_id = i, dn_workspace_id = workspace_id, dn_strategy_brief_id = brief, dn_trigger = trigger, dn_status = status,
       dn_provider_state = ''fixture_test_only'', dn_business_context_state = context, dn_max_provider_calls = 0, dn_max_tokens = 0,
       dn_max_cost_usd = 0, dn_max_attempts = 1, dn_timeout_seconds = 60, dn_provider_calls_used = 0, dn_tokens_used = 0,
       dn_actual_cost_usd = 0, dn_creative_directions_created = 0, dn_packages_ready = 0, dn_packages_blocked = 0,
       dn_last_error = None, dn_correlation_id = corr, dn_trace_id = None, dn_test_data = False, dn_created_by = Some actor_id,
       dn_created_at = created \<rparr>"

definition content_error :: "string \<Rightarrow> string" where
  "content_error context = ''CONTENT PROVIDER NOT CONFIGURED'' @ (if context \<noteq> ''complete'' then ''; BUSINESS CONTEXT INCOMPLETE'' else '''')"

definition manual_department_run :: "ContentDepartmentRunCreate \<Rightarrow> ContentDepartmentRun \<Rightarrow> ContentDepartmentRun" where
  "manual_department_run p r = r\<lparr> dn_provider_state := ''not_configured'', dn_max_provider_calls := dp_max_provider_calls p,
     dn_max_tokens := dp_max_tokens p, dn_max_cost_usd := dp_max_cost_usd p, dn_max_attempts := dp_max_attempts p,
     dn_timeout_seconds := dp_timeout_seconds p,
     dn_last_error := Some (content_error (dn_business_context_state r) @ ''; NO CREATIVE DIRECTION OR CONTENT VERSION CREATED'') \<rparr>"

definition department_limits :: "ContentDepartmentRun \<Rightarrow> json" where
  "department_limits r = JObj [(''max_provider_calls'', JNum (of_int (dn_max_provider_calls r))), (''max_tokens'', JNum (of_int (dn_max_tokens r))),
     (''max_cost_usd'', JNum (dn_max_cost_usd r)), (''max_attempts'', JNum (of_int (dn_max_attempts r))),
     (''timeout_seconds'', JNum (of_int (dn_timeout_seconds r)))]"

definition content_create_manual_run :: "uuid \<Rightarrow> uuid \<Rightarrow> ContentDepartmentRunCreate \<Rightarrow> ContentDepartmentRun D" where
  "content_create_manual_run workspace_id actor_id payload =
     andThen (require_strategy_pass workspace_id (dp_strategy_brief_id payload)) (
     bindM (get_business_context_state workspace_id) (\<lambda>context.
     bindM fresh (\<lambda>i.
     bindM fresh (\<lambda>corr.
     bindM now (\<lambda>created.
     let r = manual_department_run payload (new_department_run workspace_id actor_id (dp_strategy_brief_id payload) ''manual''
           ''provider_not_configured'' context i corr created) in
     andThen (add_department_run r) (
     andThen (emit_content i ''content_department.started'' (JObj [(''trigger'', JStr ''manual''),
       (''strategy_brief_id'', JStr (str_uuid (dp_strategy_brief_id payload))), (''limits'', department_limits r)])) (
     andThen (emit_content i ''content_department.provider_not_configured'' (JObj [(''detail'', opt_json (dn_last_error r))]))
     (ret r))))))))"

section \<open>The package gate\<close>

definition package_audits :: "uuid \<Rightarrow> uuid \<Rightarrow> dept \<Rightarrow> ContentAudit list" where
  "package_audits workspace_id package_id d =
     filter (\<lambda>a. ca_workspace_id a = workspace_id \<and> ca_content_package_id a = package_id) (content_audits d)"

definition content_latest_audit :: "uuid \<Rightarrow> uuid \<Rightarrow> string \<Rightarrow> dept \<Rightarrow> ContentAudit option" where
  "content_latest_audit workspace_id package_id auditor_type d =
     (case sort_key (\<lambda>a. - ca_checked_at a) (filter (\<lambda>a. ca_auditor_type a = auditor_type) (package_audits workspace_id package_id d)) of
        [] \<Rightarrow> None | a # _ \<Rightarrow> Some a)"

definition mandatory_states :: "uuid \<Rightarrow> uuid \<Rightarrow> dept \<Rightarrow> string list" where
  "mandatory_states workspace_id package_id d =
     map (\<lambda>kind. case content_latest_audit workspace_id package_id kind d of None \<Rightarrow> ''not_run'' | Some a \<Rightarrow> ca_state a) MANDATORY_AUDITORS"

definition gated :: "string list \<Rightarrow> ContentPackage \<Rightarrow> ContentPackage" where
  "gated states p =
     (if \<exists>s \<in> set states. s \<in> {''blocked'', ''error''}
      then p\<lparr>pk_audit_gate_status := ''blocked'', pk_producer_handoff_state := ''blocked'', pk_status := ''audited_blocked''\<rparr>
      else if \<forall>s \<in> set states. s = ''pass''
      then p\<lparr>pk_audit_gate_status := ''pass'', pk_producer_handoff_state := ''provider_not_configured'', pk_status := ''audited_ready''\<rparr>
      else p\<lparr>pk_audit_gate_status := ''not_ready'', pk_producer_handoff_state := ''blocked'', pk_status := ''awaiting_audits''\<rparr>)"

definition recalculate_package_gate :: "ContentPackage \<Rightarrow> unit D" where
  "recalculate_package_gate p =
     bindM (gets (mandatory_states (pk_workspace_id p) (pk_id p))) (\<lambda>states. set_package (pk_id p) (gated states))"

section \<open>The fixture package\<close>

record Script =
  sc_hook :: string
  sc_body :: string
  sc_cta :: string

definition script_text :: "Script \<Rightarrow> string" where
  "script_text s = join [CHR 0x0A] [sc_hook s, sc_body s, sc_cta s]"

definition read_script :: "fields \<Rightarrow> Script D" where
  "read_script f =
     bindM (fromSum (content_text ''hook'' (text_or f ''hook'' ''A practical evidence-first opening.''))) (\<lambda>hook.
     bindM (fromSum (content_text ''script'' (text_or f ''script'' ''Use approved evidence and avoid unsupported claims.''))) (\<lambda>body.
     bindM (fromSum (content_text ''cta'' (text_or f ''cta'' ''Review the evidence before acting.''))) (\<lambda>cta.
     let s = \<lparr>sc_hook = hook, sc_body = body, sc_cta = cta\<rparr> in
     if search UNSUPPORTED_CLAIM (script_text s) then raise (ValueError ''script contains unsupported performance or guarantee claim'')
     else ret s)))"

definition opt_field :: "fields \<Rightarrow> string \<Rightarrow> string option \<Rightarrow> string option D" where
  "opt_field f k v = fromSum (opt_text (get_or f k (opt_json v)))"

text \<open>A column that takes no null.\<close>

definition req_field :: "fields \<Rightarrow> string \<Rightarrow> string \<Rightarrow> string D" where
  "req_field f k v = bindM (opt_field f k (Some v)) (\<lambda>x. case x of None \<Rightarrow> raise IntegrityError | Some s \<Rightarrow> ret s)"

definition list_field :: "fields \<Rightarrow> string \<Rightarrow> json list D" where
  "list_field f k = fromSum (as_list (get_or f k (JList [])))"

definition direction_row :: "uuid \<Rightarrow> uuid \<Rightarrow> uuid \<Rightarrow> StrategyBrief \<Rightarrow> fields \<Rightarrow> string \<Rightarrow> string \<Rightarrow> CreativeDirection D" where
  "direction_row workspace_id actor_id run_id b f objective concept =
     bindM (list_field f ''required_claims'') (\<lambda>required.
     bindM (list_field f ''prohibited_claims'') (\<lambda>prohibited.
     bindM (list_field f ''required_assets'') (\<lambda>assets.
     bindM (list_field f ''risk_notes'') (\<lambda>risks.
     bindM (opt_field f ''target_platform'' (sb_target_platform b)) (\<lambda>platform.
     bindM (opt_field f ''target_audience'' (sb_target_audience b)) (\<lambda>audience.
     bindM (opt_field f ''opening_pattern'' (sb_hook_direction b)) (\<lambda>opening.
     bindM (opt_field f ''hook_direction'' (sb_hook_direction b)) (\<lambda>hook.
     bindM (opt_field f ''story_structure'' (Some ''problem-evidence-action'')) (\<lambda>story.
     bindM (opt_field f ''tone'' (Some ''clear'')) (\<lambda>tone.
     bindM (opt_field f ''pacing'' (Some ''measured'')) (\<lambda>pacing.
     bindM (opt_field f ''visual_direction'' (Some ''evidence-led'')) (\<lambda>visual.
     bindM (opt_field f ''audio_direction'' (Some ''clear narration'')) (\<lambda>audio.
     bindM (opt_field f ''cta_direction'' (sb_cta_direction b)) (\<lambda>cta.
     bindM (opt_field f ''desired_emotion'' (Some ''confidence'')) (\<lambda>emotion.
     bindM (opt_field f ''estimated_duration'' (sb_recommended_length b)) (\<lambda>duration.
     bindM (req_field f ''production_complexity'' ''low'') (\<lambda>complexity.
     bindM fresh (\<lambda>i.
     ret \<lparr> cd_id = i, cd_workspace_id = workspace_id, cd_content_department_run_id = run_id, cd_strategy_brief_id = sb_id b,
       cd_objective = objective, cd_target_platform = platform, cd_target_audience = audience, cd_creative_concept = concept,
       cd_opening_pattern = opening, cd_hook_direction = hook, cd_story_structure = story, cd_tone = tone, cd_pacing = pacing,
       cd_visual_direction = visual, cd_audio_direction = audio, cd_cta_direction = cta, cd_desired_emotion = emotion,
       cd_required_claims = required, cd_prohibited_claims = prohibited, cd_required_assets = assets,
       cd_estimated_duration = duration, cd_production_complexity = complexity, cd_risk_notes = risks,
       cd_worker_id = ''creative_director_fixture'', cd_provider = ''fixture_test_only'', cd_model = None,
       cd_prompt_version = ''creative-director-v1-fixture'', cd_status = ''approved_for_writing'', cd_test_data = True,
       cd_created_by = Some actor_id \<rparr>))))))))))))))))))"

definition opt_int :: "json \<Rightarrow> exn + int option" where
  "opt_int v = (case v of JNull \<Rightarrow> Inr None | JNum q \<Rightarrow> if q \<in> \<int> then Inr (Some \<lfloor>q\<rfloor>) else Inl (TypeError ''expected int'')
     | _ \<Rightarrow> Inl (TypeError ''expected int''))"

text \<open>The item and its immutable version, in the engine's tables.\<close>

definition store_script :: "uuid \<Rightarrow> uuid \<Rightarrow> string \<Rightarrow> int option \<Rightarrow> Script \<Rightarrow> (uuid \<times> uuid) M" where
  "store_script workspace_id actor_id topic len s =
     bindM uuid4 (\<lambda>item_id.
     andThen (add_item (new_item workspace_id actor_id topic len item_id)) (
     bindM uuid4 (\<lambda>version_id.
     andThen (add_version \<lparr> cv_id = version_id, cv_workspace_id = workspace_id, cv_content_item_id = item_id,
       cv_script_hook = Some (sc_hook s), cv_script_body = Some (sc_body s), cv_script_cta = Some (sc_cta s),
       cv_prompt_used = Some ''writer-v1-fixture'', cv_generated_by = Some ''writer_fixture'', cv_created_by = Some actor_id \<rparr>) (
     andThen (set_item item_id (ci_current_version_id_update (\<lambda>_. Some version_id)))
     (ret (item_id, version_id))))))"

definition package_row ::
  "uuid \<Rightarrow> uuid \<Rightarrow> uuid \<Rightarrow> uuid \<Rightarrow> uuid \<Rightarrow> uuid \<Rightarrow> uuid \<Rightarrow> uuid option \<Rightarrow> string option \<Rightarrow> string \<Rightarrow> Script \<Rightarrow> fields \<Rightarrow> uuid \<Rightarrow> datetime \<Rightarrow> ContentPackage" where
  "package_row workspace_id actor_id run_id direction brief item version prior reason objective s f i created =
     \<lparr> pk_id = i, pk_workspace_id = workspace_id, pk_content_department_run_id = run_id, pk_creative_direction_id = direction,
       pk_strategy_brief_id = brief, pk_content_item_id = item, pk_content_version_id = version,
       pk_prior_content_version_id = prior, pk_revision_reason = reason, pk_writer_worker_id = ''writer_fixture'',
       pk_provider = ''fixture_test_only'', pk_model = None, pk_prompt_version = ''writer-v1-fixture'',
       pk_input_references = JObj [(''strategy_brief_id'', JStr (str_uuid brief)), (''creative_direction_id'', JStr (str_uuid direction)),
         (''business_brain_state'', JStr ''fixture_test_only'')],
       pk_package_fields = JObj [(''primary_hook'', JStr (sc_hook s)), (''script'', JStr (sc_body s)), (''cta'', JStr (sc_cta s)),
         (''title'', get_or f ''title'' (JStr objective)), (''description'', get_or f ''description'' (JStr ''TEST DATA''))],
       pk_status = ''awaiting_audits'', pk_audit_gate_status = ''not_ready'', pk_producer_handoff_state = ''blocked'',
       pk_invalidated_at = None, pk_test_data = True, pk_created_by = Some actor_id, pk_deleted_at = None, pk_created_at = created \<rparr>"

definition claim_row :: "uuid \<Rightarrow> uuid \<Rightarrow> uuid \<Rightarrow> uuid \<Rightarrow> json \<Rightarrow> uuid \<Rightarrow> exn + ContentClaim" where
  "claim_row workspace_id actor_id package version claim i = (case claim of
     JObj c \<Rightarrow>
       (case map_of c ''claim_text'' of
          None \<Rightarrow> Inl (KeyError ''claim_text'')
        | Some v \<Rightarrow> (case content_text ''claim text'' (py_str v) of
            Inl e \<Rightarrow> Inl e
          | Inr t \<Rightarrow> Inr \<lparr> cl_id = i, cl_workspace_id = workspace_id, cl_content_package_id = package, cl_content_version_id = version,
              cl_claim_text = t, cl_claim_type = text_or c ''claim_type'' ''FACT'',
              cl_source_required = truthy (get_or c ''source_required'' (JBool True)), cl_supporting_evidence = [],
              cl_verification_status = ''not_run'', cl_confidence = 0, cl_risk = text_or c ''risk'' ''unknown'', cl_freshness = None,
              cl_evidence_reasoning = None, cl_test_data = True, cl_created_by = Some actor_id \<rparr>))
   | _ \<Rightarrow> Inl (TypeError ''expected dict''))"

definition store_claims :: "uuid \<Rightarrow> uuid \<Rightarrow> uuid \<Rightarrow> uuid \<Rightarrow> Script \<Rightarrow> fields \<Rightarrow> unit D" where
  "store_claims workspace_id actor_id package version s f =
     bindM (fromSum (as_list (get_or f ''claims'' (JList (extract_claims (script_text s)))))) (\<lambda>payloads.
     forM payloads (\<lambda>claim.
       bindM fresh (\<lambda>i.
       bindM (fromSum (claim_row workspace_id actor_id package version claim i)) add_claim)))"

text \<open>Comparison with the scripts of the workspace; a duplicate blocks the package.\<close>

definition check_originality :: "uuid \<Rightarrow> uuid \<Rightarrow> uuid \<Rightarrow> uuid \<Rightarrow> Script \<Rightarrow> unit D" where
  "check_originality workspace_id actor_id package version s =
     (let fp = text_fingerprint (sc_body s) in
      bindM (one_of (\<lambda>d. filter (\<lambda>o'. og_workspace_id o' = workspace_id \<and> og_text_fingerprint o' = fp) (fingerprints d))) (\<lambda>duplicate.
      bindM fresh (\<lambda>i.
      andThen (add_fingerprint \<lparr> og_id = i, og_workspace_id = workspace_id, og_content_package_id = package,
        og_content_version_id = version, og_text_fingerprint = fp, og_hook_fingerprint = text_fingerprint (sc_hook s),
        og_structure_fingerprint = structure_fingerprint [sc_hook s, sc_body s, sc_cta s], og_semantic_reference = None,
        og_comparison_set = (case duplicate of None \<Rightarrow> [] | Some o' \<Rightarrow> [JStr (str_uuid (og_content_version_id o'))]),
        og_similarity_findings = (case duplicate of None \<Rightarrow> [] | Some o' \<Rightarrow>
          [JObj [(''severity'', JStr ''high''), (''reason'', JStr ''duplicate script fingerprint''), (''state'', JStr ''blocked'')]]),
        og_state = (case duplicate of None \<Rightarrow> ''not_run'' | Some o' \<Rightarrow> ''require_differentiation''),
        og_test_data = True, og_created_by = Some actor_id \<rparr>)
      (whenM (duplicate \<noteq> None) (set_package package (\<lambda>p. p\<lparr>pk_status := ''audited_blocked'', pk_audit_gate_status := ''blocked'',
         pk_producer_handoff_state := ''blocked''\<rparr>))))))"

text \<open>A new version supersedes the previous package and invalidates its audits.\<close>

definition supersede :: "uuid \<Rightarrow> uuid \<Rightarrow> ContentPackage \<Rightarrow> unit D" where
  "supersede workspace_id actor_id previous =
     bindM now (\<lambda>t.
     andThen (set_package (pk_id previous) (\<lambda>p. p\<lparr>pk_invalidated_at := Some t, pk_audit_gate_status := ''invalidated'',
       pk_producer_handoff_state := ''blocked'', pk_status := ''superseded''\<rparr>)) (
     bindM (gets (package_audits workspace_id (pk_id previous))) (\<lambda>audits.
     forM audits (\<lambda>a. bindM fresh (\<lambda>i. add_invalidation \<lparr> cx_id = i, cx_workspace_id = workspace_id, cx_content_audit_id = ca_id a,
       cx_content_package_id = pk_id previous, cx_content_version_id = pk_content_version_id previous,
       cx_reason = ''new immutable content version created'', cx_affected_dimensions = map JStr MANDATORY_AUDITORS,
       cx_created_by = Some actor_id \<rparr>)))))"

definition prior_package :: "uuid \<Rightarrow> uuid option \<Rightarrow> ContentPackage option D" where
  "prior_package workspace_id prior = (case prior of
     None \<Rightarrow> ret None
   | Some k \<Rightarrow> bindM (get_package workspace_id k) (\<lambda>p. case p of
       None \<Rightarrow> raise (ContentDepartmentNotFoundError ''prior content package not found'')
     | Some q \<Rightarrow> ret (Some q)))"

text \<open>Direction, script and package of a started run; the package's id.\<close>

definition make_package ::
  "uuid \<Rightarrow> uuid \<Rightarrow> uuid \<Rightarrow> StrategyBrief \<Rightarrow> fields \<Rightarrow> string \<Rightarrow> string \<Rightarrow> Script \<Rightarrow> ContentPackage option \<Rightarrow> (uuid \<times> uuid \<times> uuid) D" where
  "make_package workspace_id actor_id run_id b f objective concept s previous =
     bindM (direction_row workspace_id actor_id run_id b f objective concept) (\<lambda>direction.
     andThen (add_direction direction) (
     bindM (fromSum (opt_int (get_or f ''target_length_seconds'' JNull))) (\<lambda>len.
     bindM (in_core (store_script workspace_id actor_id objective len s)) (\<lambda>(item, version).
     bindM (if previous = None then ret None else opt_field f ''revision_reason'' None) (\<lambda>reason.
     bindM fresh (\<lambda>i.
     bindM now (\<lambda>created.
     andThen (add_package (package_row workspace_id actor_id run_id (cd_id direction) (sb_id b) item version
       (Option.bind previous (\<lambda>p. Some (pk_content_version_id p))) reason objective s f i created))
     (ret (i, version, cd_id direction)))))))))"

text \<open>The run for a brief behind the writer gate, with its package.\<close>

definition fixture_package_run ::
  "uuid \<Rightarrow> uuid \<Rightarrow> uuid \<Rightarrow> fields \<Rightarrow> uuid option \<Rightarrow> StrategyBrief \<Rightarrow> (uuid \<times> uuid \<times> uuid) D" where
  "fixture_package_run workspace_id actor_id brief_id f prior b =
     bindM (fromSum (content_text ''objective'' (text_or f ''objective'' (sb_objective b)))) (\<lambda>objective.
     bindM (fromSum (content_text ''creative concept'' (text_or f ''creative_concept'' objective))) (\<lambda>concept.
     bindM (read_script f) (\<lambda>s.
     bindM (prior_package workspace_id prior) (\<lambda>previous.
     bindM fresh (\<lambda>corr.
     bindM fresh (\<lambda>i.
     bindM now (\<lambda>created.
     andThen (add_department_run ((new_department_run workspace_id actor_id brief_id ''test_fixture'' ''writing'' ''complete'' i corr created)
       \<lparr>dn_trace_id := Some ''content-department-test-fixture'', dn_test_data := True\<rparr>)) (
     bindM (make_package workspace_id actor_id i b f objective concept s previous) (\<lambda>(package, version, direction).
     andThen (store_claims workspace_id actor_id package version s f) (
     andThen (check_originality workspace_id actor_id package version s) (
     andThen (case previous of None \<Rightarrow> ret () | Some p \<Rightarrow> supersede workspace_id actor_id p) (
     andThen (set_drun i (dn_creative_directions_created_update (\<lambda>_. 1))) (
     andThen (emit_content i ''content_department.fixture_package_created'' (JObj [(''content_package_id'', JStr (str_uuid package)), (''test_data'', JBool True)]))
     (ret (i, direction, package)))))))))))))))"

definition record_fixture_package ::
  "uuid \<Rightarrow> uuid \<Rightarrow> uuid \<Rightarrow> fields \<Rightarrow> uuid option \<Rightarrow> (uuid \<times> uuid \<times> uuid) D" where
  "record_fixture_package workspace_id actor_id brief_id f prior =
     bindM (gets environment) (\<lambda>env.
     if env \<noteq> ''test'' then raise (RuntimeError ''fixture content execution is test-only'')
     else bindM (require_strategy_pass workspace_id brief_id) (fixture_package_run workspace_id actor_id brief_id f prior))"

section \<open>Audits\<close>

definition content_audit_row ::
  "uuid \<Rightarrow> ContentPackage \<Rightarrow> CreativeDirection \<Rightarrow> string \<Rightarrow> string \<Rightarrow> json list \<Rightarrow> json list \<Rightarrow> json list \<Rightarrow> json list \<Rightarrow> uuid \<Rightarrow> datetime \<Rightarrow> ContentAudit" where
  "content_audit_row workspace_id p direction auditor_type state findings warnings blocked evidence i t =
     \<lparr> ca_id = i, ca_workspace_id = workspace_id, ca_content_package_id = pk_id p, ca_content_version_id = pk_content_version_id p,
       ca_auditor_type = auditor_type, ca_auditor_worker_id = auditor_type @ ''_auditor_fixture'', ca_state = state,
       ca_artifact_snapshot = pk_package_fields p,
       ca_requirements_snapshot = JObj [(''creative_direction_id'', JStr (str_uuid (cd_id direction))),
         (''strategy_brief_id'', JStr (str_uuid (pk_strategy_brief_id p))), (''auditor_independent'', JBool True)],
       ca_findings = findings, ca_warnings = warnings, ca_blocked_reasons = blocked, ca_evidence = evidence, ca_checked_at = t,
       ca_cost_usd = 0, ca_retry_history = [], ca_test_data = True \<rparr>"

definition package_direction :: "uuid \<Rightarrow> ContentPackage \<Rightarrow> CreativeDirection D" where
  "package_direction workspace_id p =
     bindM (gets (\<lambda>d. row_get cd_id (pk_creative_direction_id p) (directions d))) (\<lambda>direction. case direction of
       None \<Rightarrow> raise (ContentDepartmentGateError ''creative direction not found'')
     | Some c \<Rightarrow> if cd_workspace_id c \<noteq> workspace_id then raise (ContentDepartmentGateError ''creative direction not found'') else ret c)"

definition verify_claims :: "uuid \<Rightarrow> uuid \<Rightarrow> string \<Rightarrow> unit D" where
  "verify_claims workspace_id package state = modifyM (claims_update (map (\<lambda>c.
     if cl_workspace_id c = workspace_id \<and> cl_content_package_id c = package
     then c\<lparr> cl_verification_status := (if state \<in> {''pass'', ''pass_with_warning''} then ''verified'' else ''unverified''),
       cl_evidence_reasoning := Some ''independent fixture audit'' \<rparr> else c)))"

text \<open>What the recalculated gate adds to the counters of the package's run.\<close>

definition drun_tallied :: "string \<Rightarrow> ContentDepartmentRun \<Rightarrow> ContentDepartmentRun" where
  "drun_tallied gate r = (if gate = ''pass'' then r\<lparr>dn_packages_ready := dn_packages_ready r + 1\<rparr>
     else if gate = ''blocked'' then r\<lparr>dn_packages_blocked := dn_packages_blocked r + 1\<rparr> else r)"

definition count_package_audit :: "uuid \<Rightarrow> ContentPackage \<Rightarrow> string \<Rightarrow> unit D" where
  "count_package_audit workspace_id p event_type =
     bindM (content_get_run workspace_id (pk_content_department_run_id p)) (\<lambda>run. case run of
       None \<Rightarrow> ret ()
     | Some r \<Rightarrow>
         bindM (gets (\<lambda>d. case row_get pk_id (pk_id p) (packages d) of None \<Rightarrow> '''' | Some q \<Rightarrow> pk_audit_gate_status q)) (\<lambda>gate.
         andThen (set_drun (dn_id r) (drun_tallied gate))
         (emit_content (dn_id r) event_type (JObj [(''content_package_id'', JStr (str_uuid (pk_id p))), (''test_data'', JBool True)]))))"

definition write_content_audit ::
  "uuid \<Rightarrow> ContentPackage \<Rightarrow> string \<Rightarrow> string \<Rightarrow> json list \<Rightarrow> json list \<Rightarrow> json list \<Rightarrow> json list \<Rightarrow> CreativeDirection \<Rightarrow> ContentAudit D" where
  "write_content_audit workspace_id p auditor_type state findings warnings blocked evidence direction =
     (if auditor_type @ ''_auditor_fixture'' \<in> {pk_writer_worker_id p, cd_worker_id direction}
      then raise (ContentDepartmentGateError ''creator and auditor responsibilities must remain separate'')
      else
        bindM now (\<lambda>t.
        bindM fresh (\<lambda>i.
        let a = content_audit_row workspace_id p direction auditor_type state findings warnings blocked evidence i t in
        andThen (add_content_audit a) (
        andThen (whenM (auditor_type = ''fact'') (verify_claims workspace_id (pk_id p) state)) (
        andThen (recalculate_package_gate p) (
        andThen (count_package_audit workspace_id p (''content_department.audit.'' @ auditor_type @ ''.'' @ state))
        (ret a)))))))"

definition record_fixture_audit ::
  "uuid \<Rightarrow> uuid \<Rightarrow> uuid \<Rightarrow> string \<Rightarrow> string \<Rightarrow> json list \<Rightarrow> json list \<Rightarrow> json list \<Rightarrow> json list \<Rightarrow> ContentAudit D" where
  "record_fixture_audit workspace_id actor_id package_id auditor_type state findings warnings blocked evidence =
     bindM (gets environment) (\<lambda>env.
     if env \<noteq> ''test'' then raise (RuntimeError ''fixture content audits are test-only'')
     else if auditor_type \<notin> set ALLOWED_AUDITORS then raise (ValueError ''unsupported content auditor'')
     else if state \<notin> {''pass'', ''pass_with_warning'', ''blocked'', ''error''} then raise (ValueError ''unsupported content audit state'')
     else bindM (get_package workspace_id package_id) (\<lambda>package. case package of
       None \<Rightarrow> raise (ContentDepartmentNotFoundError ''content package not found'')
     | Some p \<Rightarrow> bindM (package_direction workspace_id p)
         (write_content_audit workspace_id p auditor_type state findings warnings blocked evidence)))"

section \<open>The producer gate, details and the summary\<close>

record ProducerGate =
  pg_content_package_id :: uuid
  pg_eligible :: bool
  pg_state :: string

definition producer_gate :: "uuid \<Rightarrow> uuid \<Rightarrow> ProducerGate D" where
  "producer_gate workspace_id package_id =
     bindM (get_package workspace_id package_id) (\<lambda>package. case package of
       None \<Rightarrow> raise (ContentDepartmentNotFoundError ''content package not found'')
     | Some p \<Rightarrow>
         if pk_audit_gate_status p \<noteq> ''pass''
         then raise (ContentDepartmentGateError ''all mandatory independent content audits must pass before Producer eligibility'')
         else ret \<lparr> pg_content_package_id = pk_id p, pg_eligible = False, pg_state = ''provider_not_configured'' \<rparr>)"

record PackageDetail =
  pd_package :: ContentPackage
  pd_direction :: CreativeDirection
  pd_claims :: "ContentClaim list"
  pd_audits :: "ContentAudit list"
  pd_originality :: "OriginalityFingerprint option"
  pd_invalidation_count :: nat

definition package_detail :: "uuid \<Rightarrow> uuid \<Rightarrow> PackageDetail D" where
  "package_detail workspace_id package_id =
     bindM (get_package workspace_id package_id) (\<lambda>package. case package of
       None \<Rightarrow> raise (ContentDepartmentNotFoundError ''content package not found'')
     | Some p \<Rightarrow>
         bindM (package_direction workspace_id p) (\<lambda>direction.
         bindM (one_of (\<lambda>d. filter (\<lambda>o'. og_workspace_id o' = workspace_id \<and> og_content_package_id o' = pk_id p) (fingerprints d))) (\<lambda>originality.
         gets (\<lambda>d. \<lparr> pd_package = p, pd_direction = direction,
           pd_claims = filter (\<lambda>c. cl_workspace_id c = workspace_id \<and> cl_content_package_id c = pk_id p) (claims d),
           pd_audits = sort_key (\<lambda>a. - ca_checked_at a) (package_audits workspace_id (pk_id p) d), pd_originality = originality,
           pd_invalidation_count = length (filter (\<lambda>x. cx_workspace_id x = workspace_id \<and> cx_content_package_id x = pk_id p) (audit_invalidations d)) \<rparr>))))"

record ContentSummary =
  csu_status :: string
  csu_current_run :: "ContentDepartmentRun option"
  csu_last_run :: "ContentDepartmentRun option"
  csu_creative_directions :: nat
  csu_packages_ready :: nat
  csu_packages_blocked :: nat
  csu_packages_in_progress :: nat
  csu_claims_unverified :: nat
  csu_last_error :: "string option"
  csu_business_context_state :: string

definition content_summary :: "uuid \<Rightarrow> ContentSummary D" where
  "content_summary workspace_id =
     bindM (get_business_context_state workspace_id) (\<lambda>context.
     gets (\<lambda>d.
       let rs = sort_key (\<lambda>r. - dn_created_at r) (filter (\<lambda>r. dn_workspace_id r = workspace_id) (department_runs d));
           last = (case rs of [] \<Rightarrow> None | r # _ \<Rightarrow> Some r);
           ps = filter (\<lambda>p. pk_workspace_id p = workspace_id \<and> pk_deleted_at p = None) (packages d)
       in \<lparr> csu_status = (case last of Some r \<Rightarrow> dn_status r | None \<Rightarrow> ''not_configured''),
            csu_current_run = find (\<lambda>r. dn_status r \<in> {''queued'', ''writing'', ''auditing''}) rs, csu_last_run = last,
            csu_creative_directions = length (filter (\<lambda>c. cd_workspace_id c = workspace_id) (directions d)),
            csu_packages_ready = length (filter (\<lambda>p. pk_audit_gate_status p = ''pass'') ps),
            csu_packages_blocked = length (filter (\<lambda>p. pk_audit_gate_status p = ''blocked'') ps),
            csu_packages_in_progress = length (filter (\<lambda>p. pk_audit_gate_status p \<notin> {''pass'', ''blocked''}) ps),
            csu_claims_unverified = length (filter (\<lambda>c. cl_workspace_id c = workspace_id
              \<and> cl_verification_status c \<notin> {''verified'', ''not_applicable''}) (claims d)),
            csu_last_error = (case last of Some r \<Rightarrow> dn_last_error r | None \<Rightarrow> Some (content_error context)),
            csu_business_context_state = context \<rparr>))"

section \<open>Routes\<close>

definition content_run_errors :: "exn \<Rightarrow> exn" where
  "content_run_errors e = (case e of
     ContentDepartmentGateError m \<Rightarrow> HTTPException 409 m
   | ValueError m \<Rightarrow> HTTPException 422 m
   | _ \<Rightarrow> e)"

definition content_create_run_route :: "uuid \<Rightarrow> ContentDepartmentRunCreate \<Rightarrow> uuid \<Rightarrow> ContentDepartmentRun D" where
  "content_create_run_route workspace_id payload user = as_admin workspace_id user (
     if \<not> valid_department_run payload then raise (HTTPException 422 ''invalid content department run'')
     else catchM (content_create_manual_run workspace_id user payload) (\<lambda>e. raise (content_run_errors e)))"

definition content_run_route :: "uuid \<Rightarrow> uuid \<Rightarrow> uuid \<Rightarrow> ContentDepartmentRun D" where
  "content_run_route workspace_id run_id user = as_admin workspace_id user (
     bindM (content_get_run workspace_id run_id) (or_404 ''content department run not found''))"

definition content_summary_route :: "uuid \<Rightarrow> uuid \<Rightarrow> ContentSummary D" where
  "content_summary_route workspace_id user = as_admin workspace_id user (content_summary workspace_id)"

definition packages_route :: "uuid \<Rightarrow> uuid \<Rightarrow> ContentPackage list D" where
  "packages_route workspace_id user = as_admin workspace_id user (gets (list_packages workspace_id))"

definition content_not_found :: "exn \<Rightarrow> exn" where
  "content_not_found e = (case e of ContentDepartmentNotFoundError m \<Rightarrow> HTTPException 404 m | _ \<Rightarrow> e)"

definition package_detail_route :: "uuid \<Rightarrow> uuid \<Rightarrow> uuid \<Rightarrow> PackageDetail D" where
  "package_detail_route workspace_id package_id user = as_admin workspace_id user (
     catchM (package_detail workspace_id package_id) (\<lambda>e. raise (content_not_found e)))"

definition producer_http_error :: "exn \<Rightarrow> exn" where
  "producer_http_error e = (case e of ContentDepartmentGateError m \<Rightarrow> HTTPException 409 m | _ \<Rightarrow> content_not_found e)"

definition producer_gate_route :: "uuid \<Rightarrow> uuid \<Rightarrow> uuid \<Rightarrow> ProducerGate D" where
  "producer_gate_route workspace_id package_id user = as_admin workspace_id user (
     catchM (producer_gate workspace_id package_id) (\<lambda>e. raise (producer_http_error e)))"

section \<open>What an audit makes of the package gate\<close>

lemma gated_fields [simp]: "pk_id (gated st p) = pk_id p" "pk_strategy_brief_id (gated st p) = pk_strategy_brief_id p"
  "pk_audit_gate_status (gated st p) = ''pass'' \<longleftrightarrow> (\<forall>s \<in> set st. s = ''pass'')"
  "pk_audit_gate_status (gated st p) = ''blocked'' \<longleftrightarrow> (\<exists>s \<in> set st. s \<in> {''blocked'', ''error''})"
  "pk_invalidated_at (gated st p) = pk_invalidated_at p"
  by (auto simp: gated_def)

lemma mandatory_states_iff:
  "(\<forall>s \<in> set (mandatory_states w k d). s = ''pass'') \<longleftrightarrow>
     (\<forall>kind \<in> set MANDATORY_AUDITORS. \<exists>a. content_latest_audit w k kind d = Some a \<and> ca_state a = ''pass'')"
  "(\<exists>s \<in> set (mandatory_states w k d). s \<in> {''blocked'', ''error''}) \<longleftrightarrow>
     (\<exists>kind \<in> set MANDATORY_AUDITORS. \<exists>a. content_latest_audit w k kind d = Some a \<and> ca_state a \<in> {''blocked'', ''error''})"
  by (auto simp: mandatory_states_def split: option.splits)

lemma count_package_audit_keeps: "keeps (\<lambda>d. (packages d, content_audits d)) (count_package_audit w p ty)"
  unfolding count_package_audit_def content_get_run_def set_drun_def by (intro steps_intro; simp)

lemma verify_claims_exec: "\<exists>h. whenM b (verify_claims w k st) d = (Inr (), claims_update h d)"
proof (cases b)
  case True
  then show ?thesis by (auto simp: whenM_def verify_claims_def modifyM_exec)
next
  case False
  then show ?thesis by (intro exI [of _ "\<lambda>c. c"]) (simp add: whenM_def ret_exec)
qed

lemma audit_gate_rows:
  assumes "record_fixture_audit w u k ty st fs ws bs es d = (Inr a, d')"
  shows "\<exists>p. live_package w k d = [p] \<and> ca_auditor_type a = ty \<and> ca_state a = st \<and> ca_content_package_id a = k
    \<and> ca_workspace_id a = w \<and> ca_checked_at a = clock (core d) (tick (core d))
    \<and> content_audits d' = content_audits d @ [a] \<and> packages d' = row_set pk_id k (gated (mandatory_states w k d')) (packages d)"
proof -
  let ?m = "\<lambda>p. bindM (package_direction w p) (write_content_audit w p ty st fs ws bs es)"
  have "bindM (get_package w k) (\<lambda>package. case package of None \<Rightarrow> raise (ContentDepartmentNotFoundError ''content package not found'')
      | Some p \<Rightarrow> ?m p) d = (Inr a, d')"
    using assms by (simp add: record_fixture_audit_def bindM_exec [of "gets f" for f] gets_exec raise_exec split: if_split_asm)
  then obtain p where p: "live_package w k d = [p]" and m: "?m p d = (Inr a, d')"
    by (auto simp: get_package_def bindM_exec [of "one_of q" for q] one_of_exec scalar_one_or_none_def raise_exec split: list.splits)
  have "keeps (\<lambda>x. x) (package_direction w p)" unfolding package_direction_def by (intro steps_intro)
  with m obtain direction where "write_content_audit w p ty st fs ws bs es direction d = (Inr a, d')"
    by (auto elim!: bindM_InrE dest: keepsE)
  then have body: "bindM now (\<lambda>t. bindM fresh (\<lambda>i. let a = content_audit_row w p direction ty st fs ws bs es i t in
      andThen (add_content_audit a) (andThen (whenM (ty = ''fact'') (verify_claims w (pk_id p) st)) (andThen (recalculate_package_gate p)
        (andThen (count_package_audit w p (''content_department.audit.'' @ ty @ ''.'' @ st)) (ret a)))))) d = (Inr a, d')"
    by (simp add: write_content_audit_def raise_exec split: if_split_asm)
  have k: "pk_id p = k" "pk_workspace_id p = w" using p by (auto simp: live_package_def filter_eq_Cons_iff)
  let ?t = "clock (core d) (tick (core d))" and ?i = "uuids (core d) (Suc (tick (core d)))"
  let ?a = "content_audit_row w p direction ty st fs ws bs es ?i ?t" and ?d = "d\<lparr>core := (core d)\<lparr>tick := Suc (Suc (tick (core d)))\<rparr>\<rparr>"
  have "andThen (add_content_audit ?a) (andThen (whenM (ty = ''fact'') (verify_claims w (pk_id p) st)) (andThen (recalculate_package_gate p)
        (andThen (count_package_audit w p (''content_department.audit.'' @ ty @ ''.'' @ st)) (ret ?a)))) ?d = (Inr a, d')"
    using body by (simp add: bindM_exec env_exec Let_def)
  then obtain d1 where "add_content_audit ?a ?d = (Inr (), d1)"
    and r1: "andThen (whenM (ty = ''fact'') (verify_claims w (pk_id p) st)) (andThen (recalculate_package_gate p)
        (andThen (count_package_audit w p (''content_department.audit.'' @ ty @ ''.'' @ st)) (ret ?a))) d1 = (Inr a, d')"
    by (cases "add_content_audit ?a ?d") (auto simp: andThen_exec [of "add_content_audit x" for x] split: sum.splits)
  then have d1: "d1 = content_audits_update (\<lambda>rs. rs @ [?a]) ?d" by (auto simp: add_content_audit_def add_row_exec split: if_splits)
  obtain h where h: "whenM (ty = ''fact'') (verify_claims w (pk_id p) st) d1 = (Inr (), claims_update h d1)" using verify_claims_exec by blast
  let ?e = "claims_update h d1"
  let ?f = "packages_update (row_set pk_id k (gated (mandatory_states w k ?e))) ?e"
  have rec: "recalculate_package_gate p ?e = (Inr (), ?f)"
    by (simp add: recalculate_package_gate_def bindM_exec gets_exec set_package_def modifyM_exec k)
  have "andThen (count_package_audit w p (''content_department.audit.'' @ ty @ ''.'' @ st)) (ret ?a) ?f = (Inr a, d')"
    using r1 rec by (simp add: andThen_exec [of "whenM x y" for x y] h andThen_exec [of "recalculate_package_gate p"])
  then obtain v where c: "count_package_audit w p (''content_department.audit.'' @ ty @ ''.'' @ st) ?f = (Inr v, d')" and a: "a = ?a"
    by (auto elim!: andThen_InrE simp: ret_exec)
  have out: "packages d' = packages ?f" "content_audits d' = content_audits ?f" using keepsE [OF count_package_audit_keeps c] by simp_all
  moreover have "mandatory_states w k d' = mandatory_states w k ?e"
    using out by (simp add: mandatory_states_def content_latest_audit_def package_audits_def)
  ultimately show ?thesis using p a d1 k by (simp add: content_audit_row_def)
qed

lemma live_package_map:
  assumes "\<And>x. pk_workspace_id (g x) = pk_workspace_id x \<and> pk_deleted_at (g x) = pk_deleted_at x" "\<And>x. pk_id (g x) = pk_id x"
  shows "filter (\<lambda>p. pk_id p = k \<and> pk_workspace_id p = w \<and> pk_deleted_at p = None) (row_set pk_id k g rs)
    = map g (filter (\<lambda>p. pk_id p = k \<and> pk_workspace_id p = w \<and> pk_deleted_at p = None) rs)"
  by (induction rs) (simp_all add: row_set_def assms)

text \<open>
  C14: What an independent audit makes of a package. The audit is recorded. The package is open to the producer afterwards only if
  the latest audit of every mandatory auditor is a pass, and the latest audit of any mandatory auditor that blocked it or failed
  blocks it and its handoff. For a package that is current (not superseded, none of its audits invalidated, its script no duplicate of another)
  these are the only cases: it is open exactly when all four latest audits are passes, blocked exactly when one of them
  blocked it or failed, and otherwise waits for audits.
\<close>

theorem package_gate:
  assumes "record_fixture_audit w u k ty st fs ws bs es d = (Inr a, d')"
  shows "content_audits d' = content_audits d @ [a] \<and> ca_auditor_type a = ty \<and> ca_state a = st \<and> ca_content_package_id a = k
    \<and> (\<exists>p q. live_package w k d = [p] \<and> live_package w k d' = [q]
      \<and> (pk_audit_gate_status q = ''pass'' \<longrightarrow>
           (\<forall>kind \<in> set MANDATORY_AUDITORS. \<exists>x. content_latest_audit w k kind d' = Some x \<and> ca_state x = ''pass''))
      \<and> ((\<exists>kind \<in> set MANDATORY_AUDITORS. \<exists>x. content_latest_audit w k kind d' = Some x \<and> ca_state x \<in> {''blocked'', ''error''}) \<longrightarrow>
           pk_audit_gate_status q = ''blocked'' \<and> pk_producer_handoff_state q = ''blocked'')
      \<and> (pk_invalidated_at p = None \<and> (\<forall>x \<in> set (audit_invalidations d). cx_content_package_id x \<noteq> k)
          \<and> (\<forall>g \<in> set (fingerprints d). og_content_package_id g = k \<longrightarrow> og_state g \<noteq> ''require_differentiation'') \<longrightarrow>
           (pk_audit_gate_status q = ''pass'' \<longleftrightarrow>
             (\<forall>kind \<in> set MANDATORY_AUDITORS. \<exists>x. content_latest_audit w k kind d' = Some x \<and> ca_state x = ''pass''))
         \<and> (pk_audit_gate_status q = ''blocked'' \<longleftrightarrow>
             (\<exists>kind \<in> set MANDATORY_AUDITORS. \<exists>x. content_latest_audit w k kind d' = Some x \<and> ca_state x \<in> {''blocked'', ''error''}))
         \<and> pk_audit_gate_status q \<in> {''pass'', ''blocked'', ''not_ready''}))"
proof -
  obtain p where p: "live_package w k d = [p]" and a: "ca_auditor_type a = ty" "ca_state a = st" "ca_content_package_id a = k"
      "content_audits d' = content_audits d @ [a]"
    and ps: "packages d' = row_set pk_id k (gated (mandatory_states w k d')) (packages d)"
    using audit_gate_rows [OF assms] by blast
  let ?g = "gated (mandatory_states w k d')"
  have "pk_workspace_id (?g x) = pk_workspace_id x \<and> pk_deleted_at (?g x) = pk_deleted_at x" for x by (simp add: gated_def)
  then have "live_package w k d' = map ?g (live_package w k d)" by (simp add: live_package_def ps live_package_map)
  moreover have "pk_audit_gate_status (?g p) \<in> {''pass'', ''blocked'', ''not_ready''}"
    "pk_audit_gate_status (?g p) = ''blocked'' \<Longrightarrow> pk_producer_handoff_state (?g p) = ''blocked''"
    by (auto simp: gated_def split: if_splits)
  ultimately show ?thesis using p a mandatory_states_iff [of w k d'] by simp
qed

text \<open>
  The gate looks neither at \<open>invalidated_at\<close> nor at the originality fingerprint: a superseded package, and one blocked as a
  duplicate, open for the producer again as soon as the four latest audits pass.
\<close>

lemma superseded_package_passes:
  assumes "record_fixture_audit w u k ty st fs ws bs es d = (Inr a, d')" "live_package w k d = [p]" "pk_invalidated_at p = Some t"
    "\<forall>kind \<in> set MANDATORY_AUDITORS. \<exists>x. content_latest_audit w k kind d' = Some x \<and> ca_state x = ''pass''"
  shows "\<exists>q \<in> set (packages d'). pk_id q = k \<and> pk_invalidated_at q = Some t \<and> pk_audit_gate_status q = ''pass''"
proof -
  have "packages d' = row_set pk_id k (gated (mandatory_states w k d')) (packages d)" using audit_gate_rows [OF assms(1)] by blast
  moreover have "p \<in> set (packages d)" "pk_id p = k" using assms(2) by (auto simp: live_package_def filter_eq_Cons_iff)
  ultimately have "gated (mandatory_states w k d') p \<in> set (packages d')" by (auto simp: row_set_def)
  then show ?thesis using assms(3,4) \<open>pk_id p = k\<close> by (intro bexI [of _ "gated (mandatory_states w k d') p"]) (simp_all add: mandatory_states_iff)
qed

text \<open>A script seen twice before cannot be submitted at all: the lookup of its fingerprint expects at most one.\<close>

lemma third_duplicate_fails:
  assumes "filter (\<lambda>g. og_workspace_id g = w \<and> og_text_fingerprint g = text_fingerprint (sc_body s)) (fingerprints d) = x # y # zs"
  shows "check_originality w u k v s d = (Inl MultipleResultsFound, d)"
  using assms by (simp add: check_originality_def Let_def bindM_exec one_of_exec scalar_one_or_none_def)

section \<open>A package to audit\<close>

definition draft_package :: ContentPackage where
  "draft_package = package_row 1 70 310 311 320 312 313 None None ''o'' \<lparr>sc_hook = ''h'', sc_body = ''b'', sc_cta = ''c''\<rparr> [] 330 0"

definition draft_audit :: "uuid \<Rightarrow> string \<Rightarrow> ContentAudit" where
  "draft_audit i kind = \<lparr> ca_id = i, ca_workspace_id = 1, ca_content_package_id = 330, ca_content_version_id = 313, ca_auditor_type = kind,
     ca_auditor_worker_id = ''a'', ca_state = ''pass'', ca_artifact_snapshot = JObj [], ca_requirements_snapshot = JObj [], ca_findings = [],
     ca_warnings = [], ca_blocked_reasons = [], ca_evidence = [], ca_checked_at = 0, ca_cost_usd = 0, ca_retry_history = [], ca_test_data = True \<rparr>"

definition draft_direction :: CreativeDirection where
  "draft_direction = \<lparr> cd_id = 311, cd_workspace_id = 1, cd_content_department_run_id = 310, cd_strategy_brief_id = 320, cd_objective = ''o'',
     cd_target_platform = None, cd_target_audience = None, cd_creative_concept = ''c'', cd_opening_pattern = None, cd_hook_direction = None,
     cd_story_structure = None, cd_tone = None, cd_pacing = None, cd_visual_direction = None, cd_audio_direction = None, cd_cta_direction = None,
     cd_desired_emotion = None, cd_required_claims = [], cd_prohibited_claims = [], cd_required_assets = [], cd_estimated_duration = None,
     cd_production_complexity = ''low'', cd_risk_notes = [], cd_worker_id = ''creative_director_fixture'', cd_provider = ''p'', cd_model = None,
     cd_prompt_version = ''v'', cd_status = ''s'', cd_test_data = True, cd_created_by = None \<rparr>"

definition draft_dept :: dept where
  "draft_dept = scout_dept\<lparr>packages := [draft_package], directions := [draft_direction],
     content_audits := [draft_audit 331 ''language'', draft_audit 332 ''fact'', draft_audit 333 ''brand'']\<rparr>"

lemma package_gate_witness:
  "\<exists>a d' q. record_fixture_audit 1 70 330 ''originality'' ''pass'' [] [] [] [] draft_dept = (Inr a, d') \<and> live_package 1 330 d' = [q]
    \<and> pk_audit_gate_status q = ''pass''"
proof -
  have f: "packages draft_dept = [draft_package]" "directions draft_dept = [draft_direction]" "department_runs draft_dept = []"
    "content_audits draft_dept = [draft_audit 331 ''language'', draft_audit 332 ''fact'', draft_audit 333 ''brand'']" "environment draft_dept = ''test''"
    "uuids (core draft_dept) n = 5000 + n" "tick (core draft_dept) = 0" for n
    by (simp_all add: draft_dept_def scout_dept_def empty_dept_def empty_db_def)
  have p: "pk_id draft_package = 330" "pk_workspace_id draft_package = 1" "pk_deleted_at draft_package = None" "pk_creative_direction_id draft_package = 311"
    "pk_writer_worker_id draft_package = ''writer_fixture''" "cd_id draft_direction = 311" "cd_workspace_id draft_direction = 1"
    "cd_worker_id draft_direction = ''creative_director_fixture''"
    by (simp_all add: draft_package_def package_row_def draft_direction_def)
  have "\<exists>a. fst (record_fixture_audit 1 70 330 ''originality'' ''pass'' [] [] [] [] draft_dept) = Inr a"
    by (simp add: record_fixture_audit_def bindM_exec gets_exec ALLOWED_AUDITORS_def get_package_def live_package_def one_of_exec
        scalar_one_or_none_def package_direction_def row_get_def find_Some_iff f p env_exec ret_exec Let_def andThen_exec write_content_audit_def add_content_audit_def add_row_exec
        content_audit_row_def draft_audit_def whenM_def recalculate_package_gate_def set_package_def modifyM_exec count_package_audit_def
        content_get_run_def)
  then obtain a d' where a: "record_fixture_audit 1 70 330 ''originality'' ''pass'' [] [] [] [] draft_dept = (Inr a, d')" by (metis prod.collapse)
  have current: "pk_invalidated_at draft_package = None" "audit_invalidations draft_dept = []" "fingerprints draft_dept = []"
    by (simp_all add: draft_package_def package_row_def draft_dept_def scout_dept_def empty_dept_def)
  have live: "live_package 1 330 draft_dept = [draft_package]" by (simp add: live_package_def f p)
  note g = package_gate [OF a, unfolded live current]
  have "clock (core draft_dept) n = 1000 + of_nat n" for n by (simp add: draft_dept_def scout_dept_def empty_dept_def empty_db_def)
  then have ca: "ca_workspace_id a = 1" "ca_content_package_id a = 330" "ca_checked_at a = 1000"
    using audit_gate_rows [OF a] f by auto
  have "\<forall>kind \<in> set MANDATORY_AUDITORS. \<exists>x. content_latest_audit 1 330 kind d' = Some x \<and> ca_state x = ''pass''"
    using g ca by (auto simp: MANDATORY_AUDITORS_def content_latest_audit_def package_audits_def f draft_audit_def)
  moreover obtain q where "live_package 1 330 d' = [q]" "(pk_audit_gate_status q = ''pass'') =
      (\<forall>kind \<in> set MANDATORY_AUDITORS. \<exists>x. content_latest_audit 1 330 kind d' = Some x \<and> ca_state x = ''pass'')"
    using g current(1) by (elim conjE exE) simp
  ultimately show ?thesis using a by blast
qed

end
