(* ===== verification/Production.thy ===== *)
theory Production imports ContentDepartment begin

text \<open>
  The producer and the independent media QA: \<open>services/production.py\<close>, its routes \<open>api/routes/production.py\<close> and the payload checks of
  \<open>schemas/production.py\<close>. A production job is made only for a package whose gate shows a pass; artifacts and their QA exist only
  through the test helpers.
\<close>

section \<open>Jobs\<close>

definition add_production_job :: "ProductionJob \<Rightarrow> unit D" where
  "add_production_job = add_row pj_id production_jobs production_jobs_update (\<lambda>q r. False) (\<lambda>d r. True)"

text \<open>Unlike the content department's lookup this one finds deleted packages too.\<close>

definition workspace_package :: "uuid \<Rightarrow> uuid \<Rightarrow> dept \<Rightarrow> ContentPackage list" where
  "workspace_package workspace_id package_id d = filter (\<lambda>p. pk_workspace_id p = workspace_id \<and> pk_id p = package_id) (packages d)"

definition production_package :: "uuid \<Rightarrow> uuid \<Rightarrow> ContentPackage D" where
  "production_package workspace_id package_id =
     bindM (one_of (workspace_package workspace_id package_id)) (\<lambda>package. case package of
       None \<Rightarrow> raise (ProductionNotFoundError ''content package not found'')
     | Some p \<Rightarrow> ret p)"

record ProductionRunCreate =
  pc_content_package_id :: uuid
  pc_target_platform :: "string option"
  pc_target_format :: "string option"
  pc_target_duration_seconds :: "int option"
  pc_max_provider_calls :: int
  pc_max_render_calls :: int
  pc_max_cost_usd :: usd
  pc_max_attempts :: int
  pc_max_repair_cycles :: int
  pc_timeout_seconds :: int

definition valid_production_run :: "ProductionRunCreate \<Rightarrow> bool" where
  "valid_production_run p \<longleftrightarrow> \<not> longer_than 80 (pc_target_platform p) \<and> \<not> longer_than 80 (pc_target_format p)
     \<and> (case pc_target_duration_seconds p of None \<Rightarrow> True | Some n \<Rightarrow> 1 \<le> n \<and> n \<le> 14400)
     \<and> 0 \<le> pc_max_provider_calls p \<and> pc_max_provider_calls p \<le> 20 \<and> 0 \<le> pc_max_render_calls p \<and> pc_max_render_calls p \<le> 8
     \<and> 0 \<le> pc_max_cost_usd p \<and> pc_max_cost_usd p \<le> 500 \<and> 1 \<le> pc_max_attempts p \<and> pc_max_attempts p \<le> 8
     \<and> 0 \<le> pc_max_repair_cycles p \<and> pc_max_repair_cycles p \<le> 5 \<and> 30 \<le> pc_timeout_seconds p \<and> pc_timeout_seconds p \<le> 14400"

definition package_field :: "ContentPackage \<Rightarrow> string \<Rightarrow> json \<Rightarrow> json" where
  "package_field p k v = (case pk_package_fields p of JObj kvs \<Rightarrow> get_or kvs k v | _ \<Rightarrow> v)"

definition production_job_row :: "uuid \<Rightarrow> uuid \<Rightarrow> ContentPackage \<Rightarrow> ProductionRunCreate \<Rightarrow> json list \<Rightarrow> uuid \<Rightarrow> uuid \<Rightarrow> datetime \<Rightarrow> ProductionJob" where
  "production_job_row workspace_id actor_id p c assets i corr created =
     \<lparr> pj_id = i, pj_workspace_id = workspace_id, pj_content_package_id = pk_id p, pj_content_item_id = pk_content_item_id p,
       pj_content_version_id = pk_content_version_id p, pj_pipeline_run_id = None, pj_producer_worker_id = ''producer'',
       pj_target_platform = pc_target_platform c, pj_target_format = pc_target_format c,
       pj_target_duration_seconds = pc_target_duration_seconds c, pj_required_assets = assets,
       pj_provider_plan = JObj [(''mode'', JStr ''not_configured''), (''fallbacks'', JList []),
         (''reason'', JStr ''no approved media-generation, TTS, or render provider is configured'')],
       pj_status = ''blocked_provider_not_configured'', pj_provider_state = ''not_configured'',
       pj_max_provider_calls = pc_max_provider_calls c, pj_max_render_calls = pc_max_render_calls c,
       pj_max_cost_usd = pc_max_cost_usd c, pj_max_total_cost_usd = pc_max_cost_usd c, pj_max_attempts = pc_max_attempts c,
       pj_max_repair_cycles = pc_max_repair_cycles c, pj_timeout_seconds = pc_timeout_seconds c, pj_deadline_at = None,
       pj_provider_calls_used = 0, pj_render_calls_used = 0, pj_repair_cycles_used = 0, pj_actual_cost_usd = 0, pj_retry_count = 0,
       pj_last_error = None, pj_correlation_id = corr, pj_trace_id = None, pj_started_at = None, pj_completed_at = None,
       pj_test_data = False, pj_created_by = Some actor_id, pj_created_at = created \<rparr>"

definition production_job_for :: "uuid \<Rightarrow> uuid \<Rightarrow> ProductionRunCreate \<Rightarrow> ContentPackage \<Rightarrow> ProductionJob D" where
  "production_job_for workspace_id actor_id c p =
     (if pk_audit_gate_status p \<noteq> ''pass''
      then raise (ProductionEligibilityError ''content package is not eligible for Producer; all independent content audits must pass'')
      else
        bindM fresh (\<lambda>i.
        bindM (fromSum (as_list (package_field p ''required_assets'' (JList [])))) (\<lambda>assets.
        bindM fresh (\<lambda>corr.
        bindM now (\<lambda>created.
        let j = production_job_row workspace_id actor_id p c assets i corr created in
        andThen (add_production_job j) (
        andThen (emit_on ''production.requested.not_configured'' workspace_id ''production_job'' i corr None
          (JObj [(''content_package_id'', JStr (str_uuid (pk_id p))), (''content_version_id'', JStr (str_uuid (pk_content_version_id p))),
            (''provider_state'', JStr (pj_provider_state j)), (''max_cost_usd'', JNum (pj_max_cost_usd j))]) ''producer_v1'')
        (ret j)))))))"

definition create_production_run :: "uuid \<Rightarrow> uuid \<Rightarrow> ProductionRunCreate \<Rightarrow> ProductionJob D" where
  "create_production_run workspace_id actor_id c =
     bindM (production_package workspace_id (pc_content_package_id c)) (production_job_for workspace_id actor_id c)"

definition list_jobs :: "uuid \<Rightarrow> dept \<Rightarrow> ProductionJob list" where
  "list_jobs workspace_id d =
     sort_key (\<lambda>j. - pj_created_at j) (filter (\<lambda>j. pj_workspace_id j = workspace_id) (production_jobs d))"

definition get_job :: "uuid \<Rightarrow> uuid \<Rightarrow> ProductionJob D" where
  "get_job workspace_id job_id =
     bindM (one_of (\<lambda>d. filter (\<lambda>j. pj_workspace_id j = workspace_id \<and> pj_id j = job_id) (production_jobs d))) (\<lambda>job. case job of
       None \<Rightarrow> raise (ProductionNotFoundError ''production job not found'')
     | Some j \<Rightarrow> ret j)"

record ProductionSummary =
  psu_production_jobs :: nat
  psu_active_jobs :: nat
  psu_final_artifacts :: nat
  psu_media_qa_passed :: nat
  psu_media_qa_blocked :: nat
  psu_repair_required :: nat
  psu_compliance_ready :: nat
  psu_provider_cost_usd :: usd
  psu_last_error :: "string option"

definition production_summary :: "uuid \<Rightarrow> dept \<Rightarrow> ProductionSummary" where
  "production_summary workspace_id d =
     (let js = list_jobs workspace_id d;
          qa = filter (\<lambda>q. mq_workspace_id q = workspace_id) (media_qas d)
      in \<lparr> psu_production_jobs = length js,
           psu_active_jobs = length (filter (\<lambda>j. pj_status j \<in> {''queued'', ''running'', ''repairing''}) js),
           psu_final_artifacts = length (filter (\<lambda>a. fa_workspace_id a = workspace_id) (artifacts d)),
           psu_media_qa_passed = length (filter (\<lambda>q. mq_status q = ''pass'') qa),
           psu_media_qa_blocked = length (filter (\<lambda>q. mq_status q = ''blocked'') qa),
           psu_repair_required = length (filter (\<lambda>q. mq_status q = ''repair_required'') qa),
           psu_compliance_ready = length (filter (\<lambda>r. rd_workspace_id r = workspace_id \<and> rd_status r = ''compliance_ready'') (readinesses d)),
           psu_provider_cost_usd = sum_list (map pj_actual_cost_usd js),
           psu_last_error = Option.bind (find (\<lambda>j. opt_or (pj_last_error j) \<noteq> []) js) pj_last_error \<rparr>)"

record JobDetail =
  jd_job :: ProductionJob
  jd_assets :: "ProductionAsset list"
  jd_artifacts :: "FinalArtifact list"
  jd_media_qa :: "MediaQaResult list"
  jd_repairs :: "ProductionRepair list"
  jd_readiness :: "ProductionReadiness list"

definition job_detail :: "uuid \<Rightarrow> uuid \<Rightarrow> JobDetail D" where
  "job_detail workspace_id job_id =
     bindM (get_job workspace_id job_id) (\<lambda>j.
     gets (\<lambda>d.
       let arts = filter (\<lambda>a. fa_workspace_id a = workspace_id \<and> fa_production_job_id a = pj_id j) (artifacts d);
           ids = map fa_id arts
       in \<lparr> jd_job = j,
            jd_assets = filter (\<lambda>a. pa_workspace_id a = workspace_id \<and> pa_production_job_id a = pj_id j) (production_assets d),
            jd_artifacts = arts,
            jd_media_qa = (if ids = [] then [] else filter (\<lambda>q. mq_workspace_id q = workspace_id \<and> mq_final_artifact_id q \<in> set ids) (media_qas d)),
            jd_repairs = (if ids = [] then [] else filter (\<lambda>r. pp_workspace_id r = workspace_id \<and> pp_production_job_id r = pj_id j) (repairs d)),
            jd_readiness = (if ids = [] then [] else filter (\<lambda>r. rd_workspace_id r = workspace_id \<and> rd_final_artifact_id r \<in> set ids) (readinesses d)) \<rparr>))"

section \<open>Artifacts and media QA\<close>

text \<open>Under \<open>uq_final_artifact_hash\<close>, \<open>uq_media_qa_artifact_hash\<close>, \<open>uq_production_readiness_artifact\<close> and \<open>uq_artifact_invalidation_reason\<close>.\<close>

definition add_artifact :: "FinalArtifact \<Rightarrow> unit D" where
  "add_artifact = add_row fa_id artifacts artifacts_update
     (\<lambda>q r. fa_workspace_id q = fa_workspace_id r \<and> fa_artifact_hash q = fa_artifact_hash r) (\<lambda>d r. True)"

definition add_media_qa :: "MediaQaResult \<Rightarrow> unit D" where
  "add_media_qa = add_row mq_id media_qas media_qas_update
     (\<lambda>q r. mq_final_artifact_id q = mq_final_artifact_id r \<and> mq_artifact_hash q = mq_artifact_hash r) (\<lambda>d r. True)"

definition add_readiness :: "ProductionReadiness \<Rightarrow> unit D" where
  "add_readiness = add_row rd_id readinesses readinesses_update
     (\<lambda>q r. rd_workspace_id q = rd_workspace_id r \<and> rd_final_artifact_id q = rd_final_artifact_id r) (\<lambda>d r. True)"

definition add_artifact_invalidation :: "ArtifactInvalidation \<Rightarrow> unit D" where
  "add_artifact_invalidation = add_row ax_id artifact_invalidations artifact_invalidations_update
     (\<lambda>q r. ax_final_artifact_id q = ax_final_artifact_id r \<and> ax_reason q = ax_reason r) (\<lambda>d r. True)"

definition artifact_rows :: "uuid \<Rightarrow> uuid \<Rightarrow> dept \<Rightarrow> FinalArtifact list" where
  "artifact_rows workspace_id artifact_id d = filter (\<lambda>a. fa_workspace_id a = workspace_id \<and> fa_id a = artifact_id) (artifacts d)"

definition fixture_artifact :: "uuid \<Rightarrow> uuid \<Rightarrow> ProductionJob \<Rightarrow> string \<Rightarrow> uuid \<Rightarrow> FinalArtifact" where
  "fixture_artifact workspace_id actor_id j artifact_hash i =
     \<lparr> fa_id = i, fa_workspace_id = workspace_id, fa_production_job_id = pj_id j, fa_content_item_id = pj_content_item_id j,
       fa_content_version_id = pj_content_version_id j, fa_render_asset_id = None, fa_render_provider = ''test_fixture'',
       fa_render_job_id = None, fa_artifact_hash = artifact_hash,
       fa_storage_reference = JObj [(''mode'', JStr ''test_fixture''), (''non_public'', JBool True)], fa_duration_seconds = None,
       fa_resolution = JObj [], fa_aspect_ratio = None, fa_container = None, fa_codec = None, fa_cost_usd = 0, fa_status = ''ready'',
       fa_test_data = True, fa_created_by = Some actor_id \<rparr>"

definition create_test_fixture_artifact :: "uuid \<Rightarrow> uuid \<Rightarrow> uuid \<Rightarrow> string \<Rightarrow> string \<Rightarrow> FinalArtifact D" where
  "create_test_fixture_artifact workspace_id actor_id job_id artifact_hash producer_worker_id =
     bindM (get_job workspace_id job_id) (\<lambda>j.
     if \<not> pj_test_data j then raise (ProducerGateError ''test fixtures are allowed only for test-marked production jobs'')
     else
       bindM (one_of (\<lambda>d. map fa_id (filter (\<lambda>a. fa_workspace_id a = workspace_id \<and> fa_artifact_hash a = artifact_hash) (artifacts d)))) (\<lambda>duplicate.
       if duplicate \<noteq> None then raise (ProducerGateError ''identical final artifact hash already exists in this workspace'')
       else
         bindM fresh (\<lambda>i.
         andThen (add_artifact (fixture_artifact workspace_id actor_id j artifact_hash i)) (
         andThen (emit_on ''production.artifact.fixture_created'' workspace_id ''final_artifact'' i (pj_correlation_id j) None
           (JObj [(''production_job_id'', JStr (str_uuid (pj_id j))), (''artifact_hash'', JStr artifact_hash)]) producer_worker_id)
         (ret (fixture_artifact workspace_id actor_id j artifact_hash i))))))"

definition fixture_qa :: "uuid \<Rightarrow> FinalArtifact \<Rightarrow> string \<Rightarrow> string \<Rightarrow> uuid \<Rightarrow> datetime \<Rightarrow> datetime \<Rightarrow> datetime \<Rightarrow> MediaQaResult" where
  "fixture_qa workspace_id a auditor st i t1 t2 created =
     \<lparr> mq_id = i, mq_workspace_id = workspace_id, mq_final_artifact_id = fa_id a, mq_artifact_hash = fa_artifact_hash a,
       mq_auditor_worker_id = auditor, mq_status = st, mq_checks_run = [JStr ''fixture_hash_binding''], mq_visual_findings = [],
       mq_audio_findings = [], mq_subtitle_findings = [], mq_script_alignment = JObj [],
       mq_platform_check = JObj [(''state'', JStr ''test_fixture'')], mq_package_alignment = JObj [(''state'', JStr ''test_fixture'')],
       mq_evidence = [], mq_recommended_repair = [], mq_cost_usd = 0, mq_started_at = Some t1, mq_completed_at = Some t2,
       mq_test_data = True, mq_created_at = created \<rparr>"

definition fixture_readiness :: "uuid \<Rightarrow> uuid \<Rightarrow> FinalArtifact \<Rightarrow> string \<Rightarrow> uuid \<Rightarrow> ProductionReadiness" where
  "fixture_readiness workspace_id actor_id a st i =
     \<lparr> rd_id = i, rd_workspace_id = workspace_id, rd_final_artifact_id = fa_id a, rd_content_version_id = fa_content_version_id a,
       rd_media_qa_state = st, rd_compliance_state = ''not_run'', rd_chief_audit_state = ''not_run'', rd_human_review_state = ''blocked'',
       rd_status = ''blocked'',
       rd_blocking_reasons = [JStr ''Compliance, Chief Auditor, and Human Review remain mandatory and are not fixture-approved''],
       rd_total_cost_usd = 0, rd_test_data = True, rd_created_by = Some actor_id \<rparr>"

definition create_test_media_qa :: "uuid \<Rightarrow> uuid \<Rightarrow> uuid \<Rightarrow> string \<Rightarrow> string \<Rightarrow> string \<Rightarrow> MediaQaResult D" where
  "create_test_media_qa workspace_id actor_id artifact_id auditor producer st =
     bindM (one_of (artifact_rows workspace_id artifact_id)) (\<lambda>artifact. case artifact of
       None \<Rightarrow> raise (ProductionNotFoundError ''final artifact not found'')
     | Some a \<Rightarrow>
         if \<not> fa_test_data a then raise (ProducerGateError ''test QA fixtures require a test-marked artifact'')
         else if auditor = producer then raise (ProducerGateError ''Producer cannot create or approve its own Media QA result'')
         else
           bindM fresh (\<lambda>i.
           bindM now (\<lambda>t1.
           bindM now (\<lambda>t2.
           bindM fresh (\<lambda>k.
           bindM now (\<lambda>created.
           let qa = fixture_qa workspace_id a auditor st i t1 t2 created in
           andThen (add_media_qa qa) (
           andThen (add_readiness (fixture_readiness workspace_id actor_id a st k))
           (ret qa))))))))"

definition readiness_invalidated :: "ProductionReadiness \<Rightarrow> ProductionReadiness" where
  "readiness_invalidated r = r\<lparr> rd_media_qa_state := ''invalidated'', rd_compliance_state := ''invalidated'',
     rd_chief_audit_state := ''invalidated'', rd_human_review_state := ''blocked'', rd_status := ''blocked'',
     rd_blocking_reasons := [JStr ''artifact changed or was invalidated; rerun required audits''] \<rparr>"

definition readiness_of :: "uuid \<Rightarrow> uuid \<Rightarrow> ProductionReadiness option D" where
  "readiness_of workspace_id artifact_id =
     one_of (\<lambda>d. filter (\<lambda>r. rd_workspace_id r = workspace_id \<and> rd_final_artifact_id r = artifact_id) (readinesses d))"

definition artifact_qa :: "uuid \<Rightarrow> uuid \<Rightarrow> dept \<Rightarrow> MediaQaResult list" where
  "artifact_qa workspace_id artifact_id d =
     sort_key (\<lambda>q. - mq_created_at q) (filter (\<lambda>q. mq_workspace_id q = workspace_id \<and> mq_final_artifact_id q = artifact_id) (media_qas d))"

definition invalidate_artifact :: "uuid \<Rightarrow> uuid \<Rightarrow> uuid \<Rightarrow> string \<Rightarrow> ArtifactInvalidation D" where
  "invalidate_artifact workspace_id actor_id artifact_id reason =
     bindM (one_of (artifact_rows workspace_id artifact_id)) (\<lambda>artifact. case artifact of
       None \<Rightarrow> raise (ProductionNotFoundError ''final artifact not found'')
     | Some a \<Rightarrow>
         bindM (gets (artifact_qa workspace_id (fa_id a))) (\<lambda>qa.
         bindM fresh (\<lambda>i.
         let x = \<lparr> ax_id = i, ax_workspace_id = workspace_id, ax_final_artifact_id = fa_id a,
               ax_media_qa_result_id = (case qa of [] \<Rightarrow> None | q # _ \<Rightarrow> Some (mq_id q)), ax_reason = reason,
               ax_affected_dimensions = map JStr [''media_qa'', ''compliance'', ''chief_audit'', ''human_review''],
               ax_created_by = Some actor_id \<rparr> in
         andThen (add_artifact_invalidation x) (
         bindM (readiness_of workspace_id (fa_id a)) (\<lambda>readiness.
         andThen (case readiness of None \<Rightarrow> ret ()
           | Some r \<Rightarrow> modifyM (readinesses_update (row_set rd_id (rd_id r) readiness_invalidated)))
         (ret x))))))"

definition fixture_hash :: "string \<Rightarrow> string" where
  "fixture_hash label = sha256_hex label"

section \<open>Routes\<close>

definition production_run_errors :: "exn \<Rightarrow> exn" where
  "production_run_errors e = (case e of
     ProductionNotFoundError m \<Rightarrow> HTTPException 404 m
   | ProductionEligibilityError m \<Rightarrow> HTTPException 409 m
   | _ \<Rightarrow> e)"

definition production_create_run_route :: "uuid \<Rightarrow> ProductionRunCreate \<Rightarrow> uuid \<Rightarrow> ProductionJob D" where
  "production_create_run_route workspace_id payload user = as_admin workspace_id user (
     if \<not> valid_production_run payload then raise (HTTPException 422 ''invalid production run'')
     else catchM (create_production_run workspace_id user payload) (\<lambda>e. raise (production_run_errors e)))"

definition production_summary_route :: "uuid \<Rightarrow> uuid \<Rightarrow> ProductionSummary D" where
  "production_summary_route workspace_id user = as_admin workspace_id user (gets (production_summary workspace_id))"

definition production_runs_route :: "uuid \<Rightarrow> uuid \<Rightarrow> ProductionJob list D" where
  "production_runs_route workspace_id user = as_admin workspace_id user (gets (list_jobs workspace_id))"

definition production_run_detail :: "uuid \<Rightarrow> uuid \<Rightarrow> uuid \<Rightarrow> JobDetail D" where
  "production_run_detail workspace_id job_id user = as_admin workspace_id user (
     catchM (job_detail workspace_id job_id) (\<lambda>e. raise (production_run_errors e)))"

definition artifact_detail :: "uuid \<Rightarrow> uuid \<Rightarrow> uuid \<Rightarrow> FinalArtifact D" where
  "artifact_detail workspace_id artifact_id user = as_admin workspace_id user (
     bindM (one_of (artifact_rows workspace_id artifact_id)) (or_404 ''final artifact not found''))"

definition artifact_qa_route :: "uuid \<Rightarrow> uuid \<Rightarrow> uuid \<Rightarrow> MediaQaResult list D" where
  "artifact_qa_route workspace_id artifact_id user = as_admin workspace_id user (gets (artifact_qa workspace_id artifact_id))"

definition artifact_readiness :: "uuid \<Rightarrow> uuid \<Rightarrow> uuid \<Rightarrow> ProductionReadiness option D" where
  "artifact_readiness workspace_id artifact_id user = as_admin workspace_id user (readiness_of workspace_id artifact_id)"

end
