(* ===== verification/Compliance.thy ===== *)
theory Compliance imports Production begin

text \<open>
  Compliance and the chief auditor: \<open>services/compliance.py\<close>, its routes \<open>api/routes/compliance.py\<close> and the payload checks of
  \<open>schemas/compliance.py\<close>. Requests through the API record that no provider is configured; the test helpers pass an artifact on only when media QA and
  compliance passed on its exact hash; nothing ever becomes eligible for publication.
\<close>

section \<open>Rows\<close>

definition add_rights :: "ArtifactRightsEvidence \<Rightarrow> unit D" where
  "add_rights = add_row re_id rights rights_update (\<lambda>q r. False) (\<lambda>d r. True)"

definition add_compliance_audit :: "ComplianceAudit \<Rightarrow> unit D" where
  "add_compliance_audit = add_row co_id compliance_audits compliance_audits_update (\<lambda>q r. False) (\<lambda>d r. True)"

definition add_chief_audit :: "ChiefAudit \<Rightarrow> unit D" where
  "add_chief_audit = add_row ch_id chief_audits chief_audits_update (\<lambda>q r. False) (\<lambda>d r. True)"

text \<open>Under \<open>uq_audit_gate_manifest_version\<close>, \<open>uq_compliance_invalidation_reason\<close> and \<open>uq_artifact_publication_eligibility\<close>.\<close>

definition add_manifest :: "AuditGateManifest \<Rightarrow> unit D" where
  "add_manifest = add_row gm_id manifests manifests_update (\<lambda>q r. gm_workspace_id q = gm_workspace_id r
     \<and> gm_content_type q = gm_content_type r \<and> gm_manifest_version q = gm_manifest_version r) (\<lambda>d r. True)"

definition add_compliance_invalidation :: "ComplianceInvalidation \<Rightarrow> unit D" where
  "add_compliance_invalidation = add_row ox_id compliance_invalidations compliance_invalidations_update
     (\<lambda>q r. ox_compliance_audit_id q = ox_compliance_audit_id r \<and> ox_reason q = ox_reason r) (\<lambda>d r. True)"

definition add_eligibility :: "ArtifactPublicationEligibility \<Rightarrow> unit D" where
  "add_eligibility = add_row ae_id artifact_eligibilities artifact_eligibilities_update (\<lambda>q r. ae_workspace_id q = ae_workspace_id r
     \<and> ae_final_artifact_id q = ae_final_artifact_id r \<and> ae_target_platform q = ae_target_platform r) (\<lambda>d r. True)"

definition DEFAULT_GATES :: "string list" where
  "DEFAULT_GATES = [''research_audit'', ''strategy_audit'', ''language_audit'', ''fact_audit'', ''brand_audit'', ''originality_audit'',
     ''media_qa'', ''compliance'', ''chief_audit'', ''human_review'']"

definition compliance_artifact :: "uuid \<Rightarrow> uuid \<Rightarrow> FinalArtifact D" where
  "compliance_artifact workspace_id artifact_id =
     bindM (one_of (artifact_rows workspace_id artifact_id)) (\<lambda>artifact. case artifact of
       None \<Rightarrow> raise (ComplianceNotFoundError ''final artifact not found'')
     | Some a \<Rightarrow> ret a)"

text \<open>\<open>.scalars().first()\<close> of a query without an order.\<close>

definition first_row :: "'r list \<Rightarrow> 'r option" where
  "first_row rs = (case rs of [] \<Rightarrow> None | r # _ \<Rightarrow> Some r)"

definition media_qa_of :: "uuid \<Rightarrow> FinalArtifact \<Rightarrow> dept \<Rightarrow> MediaQaResult option" where
  "media_qa_of workspace_id a d = first_row (filter (\<lambda>q. mq_workspace_id q = workspace_id \<and> mq_final_artifact_id q = fa_id a
     \<and> mq_artifact_hash q = fa_artifact_hash a) (media_qas d))"

definition rights_of :: "uuid \<Rightarrow> FinalArtifact \<Rightarrow> dept \<Rightarrow> ArtifactRightsEvidence option" where
  "rights_of workspace_id a d = first_row (filter (\<lambda>r. re_workspace_id r = workspace_id \<and> re_final_artifact_id r = fa_id a) (rights d))"

definition compliance_of :: "uuid \<Rightarrow> FinalArtifact \<Rightarrow> dept \<Rightarrow> ComplianceAudit option" where
  "compliance_of workspace_id a d = first_row (filter (\<lambda>c. co_workspace_id c = workspace_id \<and> co_final_artifact_id c = fa_id a
     \<and> co_artifact_hash c = fa_artifact_hash a) (compliance_audits d))"

definition chief_of :: "uuid \<Rightarrow> FinalArtifact \<Rightarrow> dept \<Rightarrow> ChiefAudit option" where
  "chief_of workspace_id a d = first_row (filter (\<lambda>c. ch_workspace_id c = workspace_id \<and> ch_final_artifact_id c = fa_id a
     \<and> ch_artifact_hash c = fa_artifact_hash a) (chief_audits d))"

section \<open>Compliance runs\<close>

record ComplianceRunRequest =
  cr_final_artifact_id :: uuid
  cr_target_platform :: string
  cr_max_provider_calls :: int
  cr_max_verification_calls :: int
  cr_max_tokens :: int
  cr_max_cost_usd :: usd
  cr_max_attempts :: int

definition valid_compliance_run :: "ComplianceRunRequest \<Rightarrow> bool" where
  "valid_compliance_run p \<longleftrightarrow> 2 \<le> length (cr_target_platform p) \<and> length (cr_target_platform p) \<le> 64
     \<and> 0 \<le> cr_max_provider_calls p \<and> cr_max_provider_calls p \<le> 5 \<and> 0 \<le> cr_max_verification_calls p \<and> cr_max_verification_calls p \<le> 5
     \<and> 0 \<le> cr_max_tokens p \<and> cr_max_tokens p \<le> 4000 \<and> cr_max_cost_usd p = 0 \<and> 1 \<le> cr_max_attempts p \<and> cr_max_attempts p \<le> 3"

definition compliance_row :: "uuid \<Rightarrow> FinalArtifact \<Rightarrow> string \<Rightarrow> string \<Rightarrow> json \<Rightarrow> uuid \<Rightarrow> datetime \<Rightarrow> datetime \<Rightarrow> datetime \<Rightarrow> ComplianceAudit" where
  "compliance_row workspace_id a platform worker snapshot i t1 t2 created =
     \<lparr> co_id = i, co_workspace_id = workspace_id, co_final_artifact_id = fa_id a, co_artifact_hash = fa_artifact_hash a,
       co_content_version_id = fa_content_version_id a, co_target_platform = platform, co_policy_source_id = None,
       co_policy_version = None, co_compliance_worker_id = worker, co_input_snapshot = snapshot, co_status = ''not_run'',
       co_risk_level = ''unknown'', co_findings = [], co_evidence = [], co_required_disclosures = [], co_rights_status = ''unverified'',
       co_reused_content_risk = ''unknown'', co_monetization_risk = ''unknown'', co_recommended_action = None,
       co_provider_state = ''not_configured'', co_provider_calls_used = 0, co_verification_calls_used = 0, co_token_count = 0,
       co_cost_usd = 0, co_retry_history = [], co_started_at = Some t1, co_completed_at = Some t2, co_test_data = False,
       co_created_at = created \<rparr>"

definition compliance_snapshot :: "FinalArtifact \<Rightarrow> MediaQaResult option \<Rightarrow> ArtifactRightsEvidence option \<Rightarrow> ComplianceRunRequest \<Rightarrow> json" where
  "compliance_snapshot a qa r p = JObj [(''artifact_hash'', JStr (fa_artifact_hash a)),
     (''media_qa'', JStr (case qa of None \<Rightarrow> ''missing'' | Some q \<Rightarrow> mq_status q)),
     (''rights'', JStr (case r of None \<Rightarrow> ''missing'' | Some x \<Rightarrow> re_rights_status x)),
     (''max_provider_calls'', JNum (of_int (cr_max_provider_calls p))), (''max_verification_calls'', JNum (of_int (cr_max_verification_calls p))),
     (''max_tokens'', JNum (of_int (cr_max_tokens p))), (''max_cost_usd'', JNum (cr_max_cost_usd p)),
     (''max_attempts'', JNum (of_int (cr_max_attempts p)))]"

definition create_compliance_run :: "uuid \<Rightarrow> uuid \<Rightarrow> ComplianceRunRequest \<Rightarrow> ComplianceAudit D" where
  "create_compliance_run workspace_id actor_id p =
     bindM (compliance_artifact workspace_id (cr_final_artifact_id p)) (\<lambda>a.
     bindM (gets (\<lambda>d. (media_qa_of workspace_id a d, rights_of workspace_id a d))) (\<lambda>(qa, r).
     bindM fresh (\<lambda>i.
     bindM now (\<lambda>t1.
     bindM now (\<lambda>t2.
     bindM now (\<lambda>created.
     let c = (compliance_row workspace_id a (cr_target_platform p) ''compliance'' (compliance_snapshot a qa r p) i t1 t2 created)
           \<lparr> co_status := ''blocked_provider_not_configured'',
             co_rights_status := (case r of None \<Rightarrow> ''unverified'' | Some x \<Rightarrow> re_rights_status x),
             co_findings := [JObj [(''code'', JStr ''compliance_provider_not_configured''), (''severity'', JStr ''blocker'')]] \<rparr> in
     andThen (add_compliance_audit c) (
     bindM fresh (\<lambda>corr.
     andThen (emit_on ''compliance.requested.not_configured'' workspace_id ''compliance_audit'' i corr None
       (JObj [(''final_artifact_id'', JStr (str_uuid (fa_id a))), (''artifact_hash'', JStr (fa_artifact_hash a))]) ''compliance_v1'')
     (ret c)))))))))"

section \<open>Summaries\<close>

record ComplianceSummary =
  osu_compliance_audits :: nat
  osu_passed :: nat
  osu_blocked :: nat
  osu_human_review_packages :: nat
  osu_publication_eligible :: nat
  osu_provider_cost_usd :: usd

definition compliance_summary :: "uuid \<Rightarrow> dept \<Rightarrow> ComplianceSummary" where
  "compliance_summary workspace_id d =
     (let rows = filter (\<lambda>c. co_workspace_id c = workspace_id) (compliance_audits d)
      in \<lparr> osu_compliance_audits = length rows,
           osu_passed = length (filter (\<lambda>c. co_status c = ''pass'') rows),
           osu_blocked = length (filter (\<lambda>c. co_status c \<noteq> ''pass'') rows),
           osu_human_review_packages = length (filter (\<lambda>h. hp_workspace_id h = workspace_id) (review_packages d)),
           osu_publication_eligible = length (filter (\<lambda>e. ae_workspace_id e = workspace_id \<and> ae_publication_eligible e) (artifact_eligibilities d)),
           osu_provider_cost_usd = sum_list (map co_cost_usd rows) \<rparr>)"

definition list_audits :: "uuid \<Rightarrow> dept \<Rightarrow> ComplianceAudit list" where
  "list_audits workspace_id d =
     sort_key (\<lambda>c. - co_created_at c) (filter (\<lambda>c. co_workspace_id c = workspace_id) (compliance_audits d))"

definition list_chief_audits :: "uuid \<Rightarrow> dept \<Rightarrow> ChiefAudit list" where
  "list_chief_audits workspace_id d =
     sort_key (\<lambda>c. - ch_created_at c) (filter (\<lambda>c. ch_workspace_id c = workspace_id) (chief_audits d))"

definition list_review_packages :: "uuid \<Rightarrow> dept \<Rightarrow> HumanReviewPackage list" where
  "list_review_packages workspace_id d =
     sort_key (\<lambda>h. - hp_created_at h) (filter (\<lambda>h. hp_workspace_id h = workspace_id) (review_packages d))"

section \<open>The chief audit\<close>

definition create_test_manifest :: "uuid \<Rightarrow> uuid \<Rightarrow> AuditGateManifest D" where
  "create_test_manifest workspace_id actor_id =
     bindM (one_of (\<lambda>d. filter (\<lambda>g. gm_workspace_id g = workspace_id \<and> gm_content_type g = ''short_form_media'' \<and> gm_manifest_version g = 1) (manifests d))) (\<lambda>existing.
     case existing of
       Some g \<Rightarrow> ret g
     | None \<Rightarrow>
         bindM fresh (\<lambda>i.
         let g = \<lparr> gm_id = i, gm_workspace_id = workspace_id, gm_content_type = ''short_form_media'', gm_manifest_version = 1,
               gm_required_gates = map JStr DEFAULT_GATES, gm_requirements = JObj [(''mode'', JStr ''test_fixture'')],
               gm_is_active = True, gm_test_data = True, gm_created_by = Some actor_id \<rparr> in
         andThen (add_manifest g) (ret g)))"

definition compliance_pass_for :: "uuid \<Rightarrow> uuid \<Rightarrow> string \<Rightarrow> FinalArtifact \<Rightarrow> MediaQaResult option \<Rightarrow> ComplianceAudit D" where
  "compliance_pass_for workspace_id actor_id worker_id a media =
     (if media = None \<or> mq_status (the media) \<noteq> ''pass''
      then raise (ComplianceGateError ''Media QA pass bound to exact artifact hash is required'')
      else
        bindM fresh (\<lambda>k.
        andThen (add_rights \<lparr> re_id = k, re_workspace_id = workspace_id, re_final_artifact_id = fa_id a, re_asset_id = None,
          re_origin = ''test_fixture'', re_provider_or_source = None, re_license_or_right_basis = None,
          re_generation_record = JObj [(''mode'', JStr ''test_fixture'')], re_source_reference = None,
          re_modification_lineage = JObj [(''artifact_hash'', JStr (fa_artifact_hash a))], re_rights_status = ''verified'',
          re_test_data = True, re_created_by = Some actor_id \<rparr>) (
        bindM fresh (\<lambda>i.
        bindM now (\<lambda>t1.
        bindM now (\<lambda>t2.
        bindM now (\<lambda>created.
        let c = (compliance_row workspace_id a ''test'' worker_id (JObj [(''mode'', JStr ''test_fixture'')]) i t1 t2 created)
              \<lparr> co_status := ''pass'', co_risk_level := ''low'', co_rights_status := ''verified'', co_evidence := [JObj [(''mode'', JStr ''test_fixture'')]],
                co_reused_content_risk := ''low'', co_monetization_risk := ''low'', co_provider_state := ''test_fixture'', co_test_data := True \<rparr> in
        andThen (add_compliance_audit c) (ret c))))))))"

definition create_test_compliance_pass :: "uuid \<Rightarrow> uuid \<Rightarrow> uuid \<Rightarrow> string \<Rightarrow> ComplianceAudit D" where
  "create_test_compliance_pass workspace_id actor_id artifact_id worker_id =
     bindM (compliance_artifact workspace_id artifact_id) (\<lambda>a.
     bindM (gets (media_qa_of workspace_id a)) (compliance_pass_for workspace_id actor_id worker_id a))"

definition chief_blockers :: "MediaQaResult option \<Rightarrow> ComplianceAudit option \<Rightarrow> string list" where
  "chief_blockers media compliance =
     (if media = None \<or> mq_status (the media) \<noteq> ''pass'' then [''media_qa_missing_or_not_pass''] else [])
     @ (if compliance = None \<or> co_status (the compliance) \<noteq> ''pass'' then [''compliance_missing_or_not_pass''] else [])"

definition chief_row ::
  "uuid \<Rightarrow> FinalArtifact \<Rightarrow> uuid \<Rightarrow> string \<Rightarrow> MediaQaResult option \<Rightarrow> ComplianceAudit option \<Rightarrow> uuid \<Rightarrow> datetime \<Rightarrow> datetime \<Rightarrow> datetime \<Rightarrow> ChiefAudit" where
  "chief_row workspace_id a manifest worker media compliance i t1 t2 created =
     (let blockers = chief_blockers media compliance; verdict = (if blockers = [] then ''complete'' else ''incomplete'') in
      \<lparr> ch_id = i, ch_workspace_id = workspace_id, ch_final_artifact_id = fa_id a, ch_artifact_hash = fa_artifact_hash a,
        ch_content_version_id = fa_content_version_id a, ch_gate_manifest_id = manifest, ch_chief_auditor_worker_id = worker,
        ch_gate_snapshot = JObj [(''required'', JList (map JStr DEFAULT_GATES)),
          (''media_qa'', JStr (case media of None \<Rightarrow> ''missing'' | Some q \<Rightarrow> mq_status q)),
          (''compliance'', JStr (case compliance of None \<Rightarrow> ''missing'' | Some c \<Rightarrow> co_status c))],
        ch_lineage_status = verdict, ch_version_integrity_status = verdict, ch_cost_reconciliation_status = verdict,
        ch_provider_reconciliation_status = verdict, ch_warnings = [], ch_blockers = map JStr blockers,
        ch_evidence = [JObj [(''mode'', JStr ''test_fixture'')]],
        ch_status = (if blockers = [] then ''pass_to_human_review'' else ''blocked''), ch_cost_usd = 0, ch_retry_history = [],
        ch_started_at = Some t1, ch_completed_at = Some t2, ch_test_data = True, ch_created_at = created \<rparr>)"

definition chief_audit_for :: "uuid \<Rightarrow> FinalArtifact \<Rightarrow> uuid \<Rightarrow> string \<Rightarrow> MediaQaResult option \<times> ComplianceAudit option \<Rightarrow> ChiefAudit D" where
  "chief_audit_for workspace_id a manifest worker_id found =
     bindM fresh (\<lambda>i.
     bindM now (\<lambda>t1.
     bindM now (\<lambda>t2.
     bindM now (\<lambda>created.
     let c = chief_row workspace_id a manifest worker_id (fst found) (snd found) i t1 t2 created in
     andThen (add_chief_audit c) (ret c)))))"

definition run_test_chief_audit :: "uuid \<Rightarrow> uuid \<Rightarrow> uuid \<Rightarrow> string \<Rightarrow> ChiefAudit D" where
  "run_test_chief_audit workspace_id actor_id artifact_id worker_id =
     bindM (compliance_artifact workspace_id artifact_id) (\<lambda>a.
     bindM (create_test_manifest workspace_id actor_id) (\<lambda>g.
     bindM (gets (\<lambda>d. (media_qa_of workspace_id a d, compliance_of workspace_id a d))) (chief_audit_for workspace_id a (gm_id g) worker_id)))"

definition invalidate_compliance :: "uuid \<Rightarrow> uuid \<Rightarrow> uuid \<Rightarrow> string \<Rightarrow> ComplianceInvalidation D" where
  "invalidate_compliance workspace_id actor_id audit_id reason =
     bindM (one_of (\<lambda>d. filter (\<lambda>c. co_workspace_id c = workspace_id \<and> co_id c = audit_id) (compliance_audits d))) (\<lambda>audit. case audit of
       None \<Rightarrow> raise (ComplianceNotFoundError ''compliance audit not found'')
     | Some c \<Rightarrow>
         bindM fresh (\<lambda>i.
         let x = \<lparr> ox_id = i, ox_workspace_id = workspace_id, ox_compliance_audit_id = co_id c, ox_final_artifact_id = co_final_artifact_id c,
               ox_reason = reason, ox_affected_dimensions = map JStr [''chief_audit'', ''human_review'', ''publication_eligibility''],
               ox_created_by = Some actor_id \<rparr> in
         andThen (add_compliance_invalidation x) (ret x)))"

section \<open>Publication eligibility\<close>

definition eligibility_blockers :: "ChiefAudit option \<Rightarrow> ProductionReadiness option \<Rightarrow> string list" where
  "eligibility_blockers chief readiness =
     (if readiness = None \<or> rd_media_qa_state (the readiness) \<noteq> ''pass'' then [''media_qa_not_passed''] else [])
     @ (if chief = None \<or> ch_status (the chief) \<noteq> ''pass_to_human_review'' then [''chief_audit_not_passed''] else [])
     @ [''external_publishing_disabled'']"

definition publication_eligibility :: "uuid \<Rightarrow> uuid \<Rightarrow> uuid \<Rightarrow> string \<Rightarrow> ArtifactPublicationEligibility D" where
  "publication_eligibility workspace_id actor_id artifact_id target_platform =
     bindM (compliance_artifact workspace_id artifact_id) (\<lambda>a.
     bindM (gets (chief_of workspace_id a)) (\<lambda>chief.
     bindM (readiness_of workspace_id (fa_id a)) (\<lambda>readiness.
     bindM fresh (\<lambda>i.
     let e = \<lparr> ae_id = i, ae_workspace_id = workspace_id, ae_final_artifact_id = fa_id a, ae_artifact_hash = fa_artifact_hash a,
           ae_content_version_id = fa_content_version_id a, ae_target_platform = target_platform,
           ae_chief_audit_id = Option.bind chief (\<lambda>c. Some (ch_id c)), ae_review_gate_id = None, ae_review_decision_id = None,
           ae_status = ''blocked'', ae_blocking_reasons = map JStr (eligibility_blockers chief readiness),
           ae_publication_eligible = False, ae_test_data = False, ae_created_by = Some actor_id \<rparr> in
     andThen (add_eligibility e) (ret e)))))"

section \<open>Routes\<close>

definition compliance_http_error :: "exn \<Rightarrow> exn" where
  "compliance_http_error e = (case e of
     ComplianceNotFoundError m \<Rightarrow> HTTPException 404 m
   | ComplianceGateError m \<Rightarrow> HTTPException 409 m
   | _ \<Rightarrow> e)"

definition run_compliance :: "uuid \<Rightarrow> ComplianceRunRequest \<Rightarrow> uuid \<Rightarrow> ComplianceAudit D" where
  "run_compliance workspace_id payload user = as_admin workspace_id user (
     if \<not> valid_compliance_run payload then raise (HTTPException 422 ''invalid compliance run'')
     else catchM (create_compliance_run workspace_id user payload) (\<lambda>e. raise (compliance_http_error e)))"

definition compliance_summary_route :: "uuid \<Rightarrow> uuid \<Rightarrow> ComplianceSummary D" where
  "compliance_summary_route workspace_id user = as_admin workspace_id user (gets (compliance_summary workspace_id))"

definition compliance_audits_route :: "uuid \<Rightarrow> uuid \<Rightarrow> ComplianceAudit list D" where
  "compliance_audits_route workspace_id user = as_admin workspace_id user (gets (list_audits workspace_id))"

definition chief_audits_route :: "uuid \<Rightarrow> uuid \<Rightarrow> ChiefAudit list D" where
  "chief_audits_route workspace_id user = as_admin workspace_id user (gets (list_chief_audits workspace_id))"

definition review_packages_route :: "uuid \<Rightarrow> uuid \<Rightarrow> HumanReviewPackage list D" where
  "review_packages_route workspace_id user = as_admin workspace_id user (gets (list_review_packages workspace_id))"

definition publication_http_error :: "exn \<Rightarrow> exn" where
  "publication_http_error e = (case e of ComplianceNotFoundError m \<Rightarrow> HTTPException 404 m | _ \<Rightarrow> e)"

definition determine_publication_eligibility :: "uuid \<Rightarrow> uuid \<Rightarrow> string \<Rightarrow> uuid \<Rightarrow> ArtifactPublicationEligibility D" where
  "determine_publication_eligibility workspace_id artifact_id target_platform user = as_admin workspace_id user (
     catchM (publication_eligibility workspace_id user artifact_id target_platform) (\<lambda>e. raise (publication_http_error e)))"

section \<open>What the chief auditor decides\<close>

lemma compliance_artifact_exec: "compliance_artifact w k d = (Inr a, d') \<Longrightarrow> d' = d \<and> artifact_rows w k d = [a]"
  by (auto simp: compliance_artifact_def one_of_exec scalar_one_or_none_def raise_exec ret_exec elim!: bindM_InrE split: list.splits option.splits)

text \<open>The manifest is created once; the rows the verdict reads are untouched.\<close>

lemma create_test_manifest_keeps:
  assumes "create_test_manifest w u d = (Inr g, d')"
  shows "chief_audits d' = chief_audits d" "media_qas d' = media_qas d" "compliance_audits d' = compliance_audits d"
proof -
  have "keeps (\<lambda>d. (chief_audits d, media_qas d, compliance_audits d)) (create_test_manifest w u)"
    unfolding create_test_manifest_def add_manifest_def Let_def by (intro steps_intro; simp)
  from keepsE [OF this assms]
  show "chief_audits d' = chief_audits d" "media_qas d' = media_qas d" "compliance_audits d' = compliance_audits d" by simp_all
qed

lemma first_row_case: "case first_row (filter P xs) of None \<Rightarrow> {x \<in> set xs. P x} = {} | Some x \<Rightarrow> x \<in> {x \<in> set xs. P x}"
proof (cases "filter P xs")
  case Nil
  then show ?thesis by (auto simp: first_row_def filter_empty_conv)
next
  case (Cons y ys)
  then have "y \<in> set (filter P xs)" by simp
  then have "y \<in> set xs \<and> P y" by simp
  with Cons show ?thesis by (simp add: first_row_def)
qed


text \<open>
  The verdict does not look at the invalidations: an invalidated compliance audit still counts, and a first audit that is
  not a pass is final for the artifact, since a later pass is stored behind it.
\<close>

lemma invalidation_ignored:
  assumes "invalidate_compliance w u i r d = (Inr x, d')"
  shows "media_qa_of v a d' = media_qa_of v a d" "compliance_of v a d' = compliance_of v a d"
proof -
  have "keeps (\<lambda>d. (media_qas d, compliance_audits d)) (invalidate_compliance w u i r)"
    unfolding invalidate_compliance_def add_compliance_invalidation_def Let_def by (intro steps_intro; simp)
  from keepsE [OF this assms] show "media_qa_of v a d' = media_qa_of v a d" "compliance_of v a d' = compliance_of v a d"
    by (simp_all add: media_qa_of_def compliance_of_def)
qed

lemma first_compliance_audit_stays: "compliance_of w a d = Some c \<Longrightarrow> compliance_of w a (d\<lparr>compliance_audits := compliance_audits d @ xs\<rparr>) = Some c"
  by (auto simp: compliance_of_def first_row_def split: list.splits)

lemma second_eligibility_fails:
  assumes "artifact_rows w k d = [a]" "e \<in> set (artifact_eligibilities d)" "ae_workspace_id e = w" "ae_final_artifact_id e = fa_id a"
    "ae_target_platform e = pl" "readiness_of w (fa_id a) d = (Inr r, d)"
  shows "fst (publication_eligibility w u k pl d) = Inl IntegrityError"
proof -
  have "compliance_artifact w k d = (Inr a, d)" by (simp add: compliance_artifact_def bindM_exec one_of_exec scalar_one_or_none_def assms ret_exec)
  then show ?thesis using assms(2-)
    by (auto simp: publication_eligibility_def bindM_exec gets_exec env_exec Let_def andThen_exec add_eligibility_def add_row_exec)
qed

section \<open>An artifact to decide on\<close>

definition chief_artifact :: FinalArtifact where
  "chief_artifact = fixture_artifact 1 70 (production_job_row 1 70 draft_package
     \<lparr>pc_content_package_id = 330, pc_target_platform = None, pc_target_format = None, pc_target_duration_seconds = None, pc_max_provider_calls = 0,
       pc_max_render_calls = 0, pc_max_cost_usd = 0, pc_max_attempts = 1, pc_max_repair_cycles = 0, pc_timeout_seconds = 60\<rparr> [] 340 341 0) ''h'' 350"

definition chief_dept :: dept where
  "chief_dept = scout_dept\<lparr>artifacts := [chief_artifact], media_qas := [fixture_qa 1 chief_artifact ''m'' ''pass'' 351 0 0 0],
     compliance_audits := [(compliance_row 1 chief_artifact ''test'' ''w'' (JObj []) 352 0 0 0)\<lparr>co_status := ''pass''\<rparr>],
     rights := [\<lparr>re_id = 353, re_workspace_id = 1, re_final_artifact_id = 350, re_asset_id = None, re_origin = ''o'', re_provider_or_source = None,
       re_license_or_right_basis = None, re_generation_record = JObj [], re_source_reference = None, re_modification_lineage = JObj [],
       re_rights_status = ''verified'', re_test_data = True, re_created_by = None\<rparr>]\<rparr>"


end
