(* ===== verification/Lineage.thy ===== *)
theory Lineage imports Compliance begin

text \<open>
  The departments together: every product of one rests on the passes of the department before it. The chain is stated over the rows
  and kept by every call of every department, in any order.
\<close>

section \<open>What has passed\<close>

definition researched :: "uuid \<Rightarrow> dept \<Rightarrow> bool" where
  "researched k d \<longleftrightarrow> (\<exists>a \<in> set (research_audits d). ra_opportunity_id a = k \<and> ra_state a = ''pass'')"

definition strategised :: "uuid \<Rightarrow> dept \<Rightarrow> bool" where
  "strategised k d \<longleftrightarrow> (\<exists>a \<in> set (strategy_audits d). st_strategy_brief_id a = k \<and> st_state a = ''pass'')"

definition has_source :: "uuid \<Rightarrow> dept \<Rightarrow> bool" where
  "has_source k d \<longleftrightarrow> (\<exists>l \<in> set (brief_links d). so_strategy_brief_id l = k)"

definition approved :: "uuid \<Rightarrow> dept \<Rightarrow> bool" where
  "approved k d \<longleftrightarrow> k \<in> pk_id ` set (packages d) \<and> (\<forall>kind \<in> set MANDATORY_AUDITORS.
     \<exists>a \<in> set (content_audits d). ca_content_package_id a = k \<and> ca_auditor_type a = kind \<and> ca_state a = ''pass'')"

definition qa_passed :: "uuid \<Rightarrow> string \<Rightarrow> dept \<Rightarrow> bool" where
  "qa_passed k h d \<longleftrightarrow> (\<exists>q \<in> set (media_qas d). mq_final_artifact_id q = k \<and> mq_artifact_hash q = h \<and> mq_status q = ''pass'')"

definition compliant :: "uuid \<Rightarrow> string \<Rightarrow> dept \<Rightarrow> bool" where
  "compliant k h d \<longleftrightarrow> (\<exists>c \<in> set (compliance_audits d). co_final_artifact_id c = k \<and> co_artifact_hash c = h \<and> co_status c = ''pass'')"

text \<open>
  Lineage: a brief links only researched opportunities, and an audited pass of a brief has at least one link; every package belongs
  to a brief with a strategy pass, and is open to production only with a pass of each mandatory auditor; every production job is for
  an existing package with all those passes; a compliance pass needs a media-QA pass, and a chief pass both, on the same artifact
  and hash; and nothing is eligible for publication.
\<close>

definition lineage :: "dept \<Rightarrow> bool" where
  "lineage d \<longleftrightarrow>
     (\<forall>l \<in> set (brief_links d). researched (so_opportunity_id l) d)
   \<and> (\<forall>a \<in> set (strategy_audits d). st_state a = ''pass'' \<longrightarrow> has_source (st_strategy_brief_id a) d)
   \<and> (\<forall>p \<in> set (packages d). strategised (pk_strategy_brief_id p) d \<and> (pk_audit_gate_status p = ''pass'' \<longrightarrow> approved (pk_id p) d))
   \<and> (\<forall>j \<in> set (production_jobs d). approved (pj_content_package_id j) d)
   \<and> (\<forall>c \<in> set (compliance_audits d). co_status c = ''pass'' \<longrightarrow> qa_passed (co_final_artifact_id c) (co_artifact_hash c) d)
   \<and> (\<forall>c \<in> set (chief_audits d). ch_status c = ''pass_to_human_review'' \<longrightarrow>
        qa_passed (ch_final_artifact_id c) (ch_artifact_hash c) d \<and> compliant (ch_final_artifact_id c) (ch_artifact_hash c) d)
   \<and> (\<forall>e \<in> set (artifact_eligibilities d). \<not> ae_publication_eligible e)"

text \<open>A pass as a value, so that a call can carry the passes it has seen.\<close>

datatype pass = Researched uuid | HasSource uuid | Strategised uuid | Approved uuid | QaPassed uuid string | Compliant uuid string

fun holds :: "pass \<Rightarrow> dept \<Rightarrow> bool" where
  "holds (Researched k) d = researched k d"
| "holds (HasSource k) d = has_source k d"
| "holds (Strategised k) d = strategised k d"
| "holds (Approved k) d = approved k d"
| "holds (QaPassed k h) d = qa_passed k h d"
| "holds (Compliant k h) d = compliant k h d"

text \<open>The passes the rows of a state rest on.\<close>

definition required :: "dept \<Rightarrow> pass set" where
  "required d = (Researched \<circ> so_opportunity_id) ` set (brief_links d)
     \<union> (HasSource \<circ> st_strategy_brief_id) ` {a \<in> set (strategy_audits d). st_state a = ''pass''}
     \<union> (Strategised \<circ> pk_strategy_brief_id) ` set (packages d)
     \<union> (Approved \<circ> pk_id) ` {p \<in> set (packages d). pk_audit_gate_status p = ''pass''}
     \<union> (Approved \<circ> pj_content_package_id) ` set (production_jobs d)
     \<union> (\<lambda>c. QaPassed (co_final_artifact_id c) (co_artifact_hash c)) ` {c \<in> set (compliance_audits d). co_status c = ''pass''}
     \<union> (\<lambda>c. QaPassed (ch_final_artifact_id c) (ch_artifact_hash c)) ` {c \<in> set (chief_audits d). ch_status c = ''pass_to_human_review''}
     \<union> (\<lambda>c. Compliant (ch_final_artifact_id c) (ch_artifact_hash c)) ` {c \<in> set (chief_audits d). ch_status c = ''pass_to_human_review''}"

definition certified :: "pass set \<Rightarrow> dept \<Rightarrow> bool" where
  "certified C d \<longleftrightarrow> (\<forall>c \<in> required d \<union> C. holds c d) \<and> (\<forall>e \<in> set (artifact_eligibilities d). \<not> ae_publication_eligible e)"

lemmas passes = researched_def has_source_def strategised_def approved_def qa_passed_def compliant_def

lemma lineage_certified: "lineage d \<longleftrightarrow> certified {} d"
  by (simp add: lineage_def certified_def required_def ball_Un) auto

abbreviation lineage_rows where
  "lineage_rows d \<equiv> (research_audits d, brief_links d, strategy_audits d, packages d, content_audits d, production_jobs d,
     media_qas d, compliance_audits d, chief_audits d, artifact_eligibilities d)"

lemma holds_cong: "lineage_rows d' = lineage_rows d \<Longrightarrow> holds x d' = holds x d"
  by (cases x) (simp_all add: passes)

lemma certified_cong: "lineage_rows d' = lineage_rows d \<Longrightarrow> certified C d' = certified C d"
  using holds_cong [of d' d] by (simp add: certified_def required_def)

lemma certified_core: "certified C d \<Longrightarrow> certified C (d\<lparr>core := c\<rparr>)"
  using certified_cong [of "d\<lparr>core := c\<rparr>" d C] by simp

lemma pres_lineage_keeps: "keeps lineage_rows m \<Longrightarrow> pres (certified C) m"
  by (erule keeps_pres) (metis certified_cong)

lemma certified_mono: "certified C' d \<Longrightarrow> C \<subseteq> C' \<Longrightarrow> certified C d"
  by (auto simp: certified_def)

lemma certified_add: "certified C d \<Longrightarrow> \<forall>c \<in> C'. holds c d \<Longrightarrow> certified (C' \<union> C) d"
  by (auto simp: certified_def)

text \<open>A step that keeps the passes and needs no pass that was not seen.\<close>

lemma certified_step:
  assumes "certified C d" "required d' \<subseteq> required d \<union> C" "\<And>x. holds x d \<Longrightarrow> holds x d'"
    "\<forall>e \<in> set (artifact_eligibilities d') - set (artifact_eligibilities d). \<not> ae_publication_eligible e"
  shows "certified C d'"
  using assms unfolding certified_def by blast

section \<open>Operations under it\<close>

text \<open>A call that has passed a gate goes on with what the gate has shown.\<close>

lemma pres_gate:
  assumes "pres I m" "\<And>d x d'. I d \<Longrightarrow> m d = (Inr x, d') \<Longrightarrow> J x d'" "\<And>x. pres (J x) (f x)" "\<And>x d. J x d \<Longrightarrow> I d"
  shows "pres I (bindM m f)"
  unfolding steps_def keepsInv_def
proof (intro allI impI)
  fix d
  assume I: "I d"
  obtain r d1 where m: "m d = (r, d1)" by (cases "m d")
  show "I (snd (bindM m f d))"
  proof (cases r)
    case (Inl e)
    then show ?thesis using presD' [OF assms(1) m I] m by (simp add: bindM_exec)
  next
    case (Inr x)
    then have "J x (snd (f x d1))" using presD [OF assms(3)] assms(2) I m by blast
    then show ?thesis using m Inr assms(4) by (simp add: bindM_exec)
  qed
qed

lemma pres_gate_andThen:
  assumes "pres I m" "\<And>d x d'. I d \<Longrightarrow> m d = (Inr x, d') \<Longrightarrow> J d'" "pres J n" "\<And>d. J d \<Longrightarrow> I d"
  shows "pres I (andThen m n)"
  unfolding andThen_def using assms by (intro pres_gate [where J = "\<lambda>_. J"]) auto

lemma pres_cert_env [steps_intro]:
  "pres (certified C) now" "pres (certified C) fresh" "pres (certified C) (emit_on ty w at' a co tr p by')"
  "pres (certified C) (in_core m)"
  by (intro steps_intro certified_core; assumption)+

lemma pres_cert_row:
  assumes "\<And>d. required (upd (\<lambda>rs. rs @ [r]) d) \<subseteq> required d \<union> C" "\<And>d x. holds x d \<Longrightarrow> holds x (upd (\<lambda>rs. rs @ [r]) d)"
    "\<And>d. set (artifact_eligibilities (upd (\<lambda>rs. rs @ [r]) d)) \<subseteq> set (artifact_eligibilities d) \<union> E" "\<forall>e \<in> E. \<not> ae_publication_eligible e"
  shows "pres (certified C) (add_row key tab upd clash l r)"
  by (rule pres_add_row, rule certified_step [OF _ assms(1,2)]) (use assms(3,4) in blast)+

lemma holds_mono:
  assumes "set (research_audits d) \<subseteq> set (research_audits d')" "set (brief_links d) \<subseteq> set (brief_links d')"
    "set (strategy_audits d) \<subseteq> set (strategy_audits d')" "pk_id ` set (packages d) \<subseteq> pk_id ` set (packages d')"
    "set (content_audits d) \<subseteq> set (content_audits d')" "set (media_qas d) \<subseteq> set (media_qas d')"
    "set (compliance_audits d) \<subseteq> set (compliance_audits d')" "holds x d"
  shows "holds x d'"
  using assms by (cases x) (simp_all add: passes, blast+)

lemmas cert_row = pres_cert_row [where E = "{}", OF _ holds_mono]

lemma pres_add_research_audit: "pres (certified C) (add_research_audit a)"
  unfolding add_research_audit_def by (rule cert_row) (auto simp: required_def)

lemma pres_add_brief_link: "Researched (so_opportunity_id l) \<in> C \<Longrightarrow> pres (certified C) (add_brief_link l)"
  unfolding add_brief_link_def by (rule cert_row) (auto simp: required_def)

lemma pres_add_strategy_audit:
  "(st_state a = ''pass'' \<Longrightarrow> HasSource (st_strategy_brief_id a) \<in> C) \<Longrightarrow> pres (certified C) (add_strategy_audit a)"
  unfolding add_strategy_audit_def by (rule cert_row) (auto simp: required_def)

lemma pres_add_package:
  "Strategised (pk_strategy_brief_id p) \<in> C \<Longrightarrow> pk_audit_gate_status p \<noteq> ''pass'' \<Longrightarrow> pres (certified C) (add_package p)"
  unfolding add_package_def by (rule cert_row) (auto simp: required_def)

lemma pres_add_content_audit: "pres (certified C) (add_content_audit a)"
  unfolding add_content_audit_def by (rule cert_row) (auto simp: required_def)

lemma pres_add_production_job: "Approved (pj_content_package_id j) \<in> C \<Longrightarrow> pres (certified C) (add_production_job j)"
  unfolding add_production_job_def by (rule cert_row) (auto simp: required_def)

lemma pres_add_media_qa: "pres (certified C) (add_media_qa q)"
  unfolding add_media_qa_def by (rule cert_row) (auto simp: required_def)

lemma pres_add_compliance_audit:
  "(co_status c = ''pass'' \<Longrightarrow> QaPassed (co_final_artifact_id c) (co_artifact_hash c) \<in> C) \<Longrightarrow> pres (certified C) (add_compliance_audit c)"
  unfolding add_compliance_audit_def by (rule cert_row) (auto simp: required_def)

lemma pres_add_chief_audit:
  "(ch_status c = ''pass_to_human_review'' \<Longrightarrow> {QaPassed (ch_final_artifact_id c) (ch_artifact_hash c), Compliant (ch_final_artifact_id c) (ch_artifact_hash c)} \<subseteq> C)
   \<Longrightarrow> pres (certified C) (add_chief_audit c)"
  unfolding add_chief_audit_def by (rule cert_row) (auto simp: required_def)

lemma pres_add_eligibility: "\<not> ae_publication_eligible e \<Longrightarrow> pres (certified C) (add_eligibility e)"
  unfolding add_eligibility_def by (rule pres_cert_row [where E = "{e}", OF _ holds_mono]) (auto simp: required_def)

lemma pres_set_package:
  assumes f: "\<And>p. pk_id (f p) = pk_id p" "\<And>p. pk_strategy_brief_id (f p) = pk_strategy_brief_id p"
    and g: "\<And>p. pk_audit_gate_status (f p) = ''pass'' \<Longrightarrow> Approved i \<in> C"
  shows "pres (certified C) (set_package i f)"
  unfolding set_package_def
proof (rule pres_modify, rule certified_step, assumption)
  fix d :: dept
  have ids: "pk_id ` set (row_set pk_id i f (packages d)) = pk_id ` set (packages d)" by (rule row_set_ids) (rule f(1))
  have "q \<in> set (row_set pk_id i f (packages d)) \<Longrightarrow> \<exists>p \<in> set (packages d). pk_id q = pk_id p \<and> pk_strategy_brief_id q = pk_strategy_brief_id p
      \<and> (pk_audit_gate_status q = ''pass'' \<longrightarrow> pk_audit_gate_status p = ''pass'' \<or> Approved (pk_id q) \<in> C)" for q
    using f g row_set_in [of q pk_id i f "packages d"] by metis
  then show "required (packages_update (row_set pk_id i f) d) \<subseteq> required d \<union> C" by (auto simp: required_def) blast+
  show "holds x d \<Longrightarrow> holds x (packages_update (row_set pk_id i f) d)" for x by (cases x) (simp_all add: passes ids)
qed simp

section \<open>The calls\<close>

lemmas dept_reads = research_get_run_def get_opportunity_def strategy_get_run_def get_brief_def content_profile_row_def
  get_business_context_state_def content_get_run_def get_package_def readiness_of_def

lemma keeps_research:
  "keeps lineage_rows (strategist_gate w k)" "keeps lineage_rows (research_create_manual_run w u p)"
  "keeps lineage_rows (count_research_audit w opp a)"
  unfolding strategist_gate_def research_create_manual_run_def count_research_audit_def announce_research_def set_opportunity_def
    set_rrun_def add_research_run_def dept_reads
  by (intro steps_intro; simp)+

lemma keeps_fixture_run: "keeps lineage_rows (record_fixture_run w u b src f)"
  unfolding record_fixture_run_def place_opportunity_def read_source_def link_source_def add_source_def add_evidence_def
    add_opportunity_def set_opportunity_def set_rrun_def add_research_run_def
  by (intro steps_intro; simp)

lemma pres_audit_opportunity: "pres (certified C) (audit_opportunity w k)"
  unfolding audit_opportunity_def set_opportunity_def dept_reads
  by (intro steps_intro pres_add_research_audit pres_lineage_keeps [OF keeps_research(3)]
      pres_lineage_keeps [OF keeps_modify]; simp)

lemma keeps_strategy:
  "keeps lineage_rows (require_research_pass w ks)" "keeps lineage_rows (writer_gate w k)" "keeps lineage_rows (count_strategy_audit w b a)"
  "keeps lineage_rows (brief_texts f b)" "keeps lineage_rows (brief_values f b)"
  "keeps lineage_rows (brief_fingerprint f ks t)"
  unfolding require_research_pass_def writer_gate_def count_strategy_audit_def announce_strategy_def set_brief_def set_srun_def
    brief_texts_def brief_values_def brief_fingerprint_def dept_reads
  by (intro steps_intro keeps_research; simp)+

lemma keeps_strategy_manual: "keeps lineage_rows (strategy_create_manual_run w u p)"
  unfolding strategy_create_manual_run_def add_strategy_run_def dept_reads by (intro steps_intro keeps_strategy; simp)

lemma keeps_content:
  "keeps lineage_rows (require_strategy_pass w k)" "keeps lineage_rows (content_create_manual_run w u p)"
  "keeps lineage_rows (read_script f)" "keeps lineage_rows (direction_row w u i b f t t')"
  "keeps lineage_rows (store_claims w u k v s f)" "keeps lineage_rows (prior_package w pk)" "keeps lineage_rows (package_direction w q)"
  "keeps lineage_rows (count_package_audit w q ty)" "keeps lineage_rows (verify_claims w k st)"
  unfolding require_strategy_pass_def content_create_manual_run_def add_department_run_def read_script_def direction_row_def opt_field_def
    req_field_def list_field_def store_claims_def add_claim_def prior_package_def package_direction_def count_package_audit_def
    set_drun_def verify_claims_def dept_reads
  by (intro steps_intro keeps_strategy; simp)+

lemma inv_forM: "(\<And>x. x \<in> set xs \<Longrightarrow> pres I (f x)) \<Longrightarrow> pres I (forM xs f)"
  by (induction xs) (auto intro: inv.ret inv.andThen)

lemma researched_latest: "research_latest_audit w k d = Some a \<Longrightarrow> ra_state a = ''pass'' \<Longrightarrow> researched k d"
  using latest_audit_in [of w k d a] by (auto simp: researched_def audits_of_def)

lemma research_pass_shows:
  assumes "require_research_pass w ks d = (Inr opps, d')"
  shows "\<forall>opp \<in> set opps. researched (op_id opp) d'"
  using assms unfolding require_research_pass_def
proof (induction ks arbitrary: opps d d')
  case Nil
  then show ?case by (simp add: ret_exec)
next
  case (Cons k ks)
  let ?f = "\<lambda>k. andThen (catchM (strategist_gate w k) (\<lambda>e. raise (research_refusal e)))
      (bindM (get_opportunity w k) (\<lambda>opportunity. case opportunity of
         None \<Rightarrow> raise (StrategyGateError ''source opportunity not found'') | Some opp \<Rightarrow> ret opp))"
  from Cons.prems obtain opp d1 rest where 1: "?f k d = (Inr opp, d1)" and 2: "mapM ks ?f d1 = (Inr rest, d')" and opps: "opps = opp # rest"
    by (auto elim!: bindM_InrE simp: ret_exec)
  from 1 obtain g d0 where g: "strategist_gate w k d = (Inr g, d0)" and o1: "d1 = d0" "op_id opp = k"
    by (auto elim!: andThen_InrE bindM_InrE simp: catch_raise_Inr get_opportunity_exec live_opportunity_def scalar_one_or_none_def
        raise_exec ret_exec filter_eq_Cons_iff split: list.splits option.splits)
  have "researched k d" using strategist_gate_result [OF g] researched_latest by blast
  moreover have "lineage_rows d1 = lineage_rows d" using keepsE [OF keeps_research(1) g] o1 by simp
  moreover have "lineage_rows d' = lineage_rows d1"
    using keepsE [OF keeps_strategy(1) [unfolded require_research_pass_def] 2] by simp
  ultimately have "researched (op_id opp) d'" using o1 by (simp add: researched_def)
  then show ?case using Cons.IH [OF 2] opps by simp
qed

lemma pres_store_brief:
  assumes "\<And>opp. opp \<in> set opps \<Longrightarrow> Researched (op_id opp) \<in> C"
  shows "pres (certified C) (store_brief w opps i b)"
  unfolding store_brief_def add_brief_def set_srun_def
  by (intro steps_intro inv_forM pres_add_brief_link pres_lineage_keeps [OF keeps_modify] pres_lineage_keeps [OF keeps_add_row] certified_core)
    (simp_all add: assms)

lemma pres_place_brief:
  assumes "\<And>opp. opp \<in> set opps \<Longrightarrow> Researched (op_id opp) \<in> C"
  shows "pres (certified C) (place_brief w u i ks opps t f)"
  unfolding place_brief_def set_srun_def
  by (intro steps_intro pres_store_brief pres_lineage_keeps [OF keeps_modify] pres_lineage_keeps [OF keeps_strategy(4)]
      pres_lineage_keeps [OF keeps_strategy(5)] pres_lineage_keeps [OF keeps_strategy(6)] certified_core)
    (simp_all add: assms)

lemma pres_fixture_brief: "pres (certified C) (record_fixture_brief w u t ks f)"
proof -
  let ?J = "\<lambda>opps. certified ((Researched \<circ> op_id) ` set opps \<union> C)"
  have "pres (certified C) (bindM (require_research_pass w ks) (fixture_strategy_run w u t' ks f))" for t'
  proof (rule pres_gate [where J = ?J])
    show "pres (certified C) (require_research_pass w ks)" by (rule pres_lineage_keeps [OF keeps_strategy(1)])
    show "?J opps d'" if "certified C d" "require_research_pass w ks d = (Inr opps, d')" for d opps d'
    proof -
      have "certified C d'" using that keepsE [OF keeps_strategy(1) that(2)] certified_cong [of d' d] by simp
      then show ?thesis using research_pass_shows [OF that(2)] by (intro certified_add) auto
    qed
    show "pres (?J opps) (fixture_strategy_run w u t' ks f opps)" for opps
      unfolding fixture_strategy_run_def add_strategy_run_def
      by (intro steps_intro pres_place_brief pres_lineage_keeps [OF keeps_add_row] certified_core) simp_all
    show "\<And>opps d. ?J opps d \<Longrightarrow> certified C d" by (erule certified_mono) simp
  qed
  then show ?thesis unfolding record_fixture_brief_def
    by (intro inv.bind [OF inv.gets] inv.bind [OF inv.fromSum] steps_if inv.raise)
qed

lemma brief_sources_pass:
  assumes "brief_blocked (brief_sources w k d) b = []"
  shows "has_source k d"
  using assms by (auto simp: brief_blocked_def brief_sources_def brief_opportunity_ids_def has_source_def filter_empty_conv split: if_splits)

text \<open>What a call reads in the state it goes on from.\<close>

lemma pres_fact: "(A \<Longrightarrow> pres I m) \<Longrightarrow> pres (\<lambda>d. I d \<and> A) m"
  by (auto simp: steps_def keepsInv_def)

lemma pres_read:
  assumes "\<And>d. I d \<Longrightarrow> J (g d) d" "\<And>x. pres (J x) (f x)" "\<And>x d. J x d \<Longrightarrow> I d"
  shows "pres I (bindM (gets g) f)"
  by (rule pres_gate [where J = J]) (use assms in \<open>auto simp: gets_exec intro: inv.gets\<close>)

lemma pres_found:
  assumes "\<And>d y. I d \<Longrightarrow> y \<in> set (q d) \<Longrightarrow> J y d" "pres I (f None)" "\<And>y. pres (J y) (f (Some y))" "\<And>y d. J y d \<Longrightarrow> I d"
  shows "pres I (bindM (one_of q) f)"
proof (rule pres_gate [where J = "\<lambda>x d. case x of None \<Rightarrow> I d | Some y \<Rightarrow> J y d"])
  show "pres I (one_of q)" by (rule pres_one_of)
  show "case x of None \<Rightarrow> I d' | Some y \<Rightarrow> J y d'" if "I d" "one_of q d = (Inr x, d')" for d x d'
    using that assms(1) by (auto simp: one_of_exec scalar_one_or_none_def split: list.splits)
  show "pres (\<lambda>d. case x of None \<Rightarrow> I d | Some y \<Rightarrow> J y d) (f x)" for x
    using assms(2,3) by (cases x) simp_all
  show "\<And>x d. (case x of None \<Rightarrow> I d | Some y \<Rightarrow> J y d) \<Longrightarrow> I d" using assms(4) by (auto split: option.splits)
qed

lemma certified_insert: "certified C d \<Longrightarrow> holds c d \<Longrightarrow> certified (insert c C) d"
  by (simp add: certified_def)

lemma certified_weaken: "certified (insert c C) d \<Longrightarrow> certified C d"
  by (simp add: certified_def)

lemma pres_write_strategy_audit:
  assumes "brief_blocked sources b = [] \<Longrightarrow> HasSource (sb_id b) \<in> C"
  shows "pres (certified C) (write_strategy_audit w b sources)"
  unfolding write_strategy_audit_def set_brief_def Let_def
  by (intro steps_intro pres_add_strategy_audit pres_lineage_keeps [OF keeps_strategy(3)] pres_lineage_keeps [OF keeps_modify] certified_core)
    (use assms in \<open>simp_all add: strategy_audit_row_def audit_state_def split: if_splits\<close>)

lemma pres_audit_brief: "pres (certified C) (audit_brief w k)"
proof -
  let ?J = "\<lambda>b sources. certified (if brief_blocked sources b = [] then insert (HasSource k) C else C)"
  have "pres (certified C) (bindM (gets (brief_sources w k)) (write_strategy_audit w b))" if "sb_id b = k" for b
  proof (rule pres_read [where J = "?J b"])
    show "?J b (brief_sources w k d) d" if "certified C d" for d
      using that brief_sources_pass [of w k d b] by (simp add: certified_insert)
    show "pres (?J b sources) (write_strategy_audit w b sources)" for sources
      using \<open>sb_id b = k\<close> by (intro pres_write_strategy_audit) simp
    show "?J b sources d \<Longrightarrow> certified C d" for sources d using certified_weaken by (cases "brief_blocked sources b = []") auto
  qed
  then show ?thesis unfolding audit_brief_def get_brief_def
    by (intro pres_found [where J = "\<lambda>b d. certified C d \<and> sb_id b = k"]) (auto intro: inv.raise pres_fact)
qed

lemma strategised_latest: "strategy_latest_audit w k d = Some a \<Longrightarrow> st_state a = ''pass'' \<Longrightarrow> strategised k d"
proof -
  assume a: "strategy_latest_audit w k d = Some a" "st_state a = ''pass''"
  then obtain l where "sort_key (\<lambda>a. - st_checked_at a) (brief_audits w k d) = a # l"
    by (auto simp: strategy_latest_audit_def split: list.splits)
  then have "a \<in> set (brief_audits w k d)" by (metis list.set_intros(1) set_sort)
  with a show ?thesis by (auto simp: brief_audits_def strategised_def)
qed

lemma writer_gate_shows:
  assumes "writer_gate w k d = (Inr g, d')"
  shows "strategised k d'"
proof -
  obtain a where "strategy_latest_audit w k d = Some a" "st_state a = ''pass''"
    using assms by (cases "strategy_latest_audit w k d")
      (auto simp: writer_gate_def gets_exec raise_exec get_brief_def one_of_exec elim!: bindM_InrE andThen_InrE split: option.splits if_splits)
  then have "strategised k d" by (rule strategised_latest)
  then show ?thesis using keepsE [OF keeps_strategy(2) assms] by (simp add: strategised_def)
qed

lemma strategy_pass_shows:
  assumes "require_strategy_pass w k d = (Inr b, d')"
  shows "strategised (sb_id b) d'"
proof -
  obtain g where "writer_gate w k d = (Inr g, d')" "sb_id b = k"
    using assms by (auto simp: require_strategy_pass_def catch_raise_Inr get_brief_def one_of_exec scalar_one_or_none_def raise_exec ret_exec
        filter_eq_Cons_iff elim!: andThen_InrE bindM_InrE split: list.splits option.splits)
  then show ?thesis using writer_gate_shows by blast
qed

lemma pres_make_package:
  assumes "Strategised (sb_id b) \<in> C"
  shows "pres (certified C) (make_package w u i b f objective concept s previous)"
  unfolding make_package_def add_direction_def opt_field_def
  by (intro steps_intro pres_add_package pres_lineage_keeps [OF keeps_add_row] pres_lineage_keeps [OF keeps_content(4)] certified_core)
    (simp_all add: assms package_row_def)

lemma pres_check_originality: "pres (certified C) (check_originality w u k v s)"
  unfolding check_originality_def add_fingerprint_def
  by (intro steps_intro pres_set_package pres_lineage_keeps [OF keeps_add_row]) simp_all

lemma pres_supersede: "pres (certified C) (supersede w u p)"
  unfolding supersede_def add_invalidation_def
  by (intro steps_intro pres_set_package pres_lineage_keeps [OF keeps_add_row]) simp_all

lemma pres_fixture_package: "pres (certified C) (record_fixture_package w u k f prior)"
proof -
  let ?J = "\<lambda>b. certified (insert (Strategised (sb_id b)) C)"
  have "pres (certified C) (bindM (require_strategy_pass w k) (fixture_package_run w u k f prior))"
  proof (rule pres_gate [where J = ?J])
    show "pres (certified C) (require_strategy_pass w k)" by (rule pres_lineage_keeps [OF keeps_content(1)])
    show "?J b d'" if "certified C d" "require_strategy_pass w k d = (Inr b, d')" for d b d'
      using that strategy_pass_shows [OF that(2)] keepsE [OF keeps_content(1) that(2)] certified_cong [of d' d C] by (simp add: certified_insert)
    show "pres (?J b) (fixture_package_run w u k f prior b)" for b
      unfolding fixture_package_run_def add_department_run_def set_drun_def
      by (intro steps_intro pres_make_package pres_check_originality pres_supersede pres_lineage_keeps [OF keeps_add_row]
          pres_lineage_keeps [OF keeps_content(3)] pres_lineage_keeps [OF keeps_content(5)] pres_lineage_keeps [OF keeps_content(6)]
          pres_lineage_keeps [OF keeps_modify] certified_core) simp_all
    show "\<And>b d. ?J b d \<Longrightarrow> certified C d" by (rule certified_weaken)
  qed
  then show ?thesis unfolding record_fixture_package_def by (intro inv.bind [OF inv.gets] steps_if inv.raise)
qed

lemma content_latest_in:
  "content_latest_audit w k kind d = Some a \<Longrightarrow> a \<in> set (content_audits d) \<and> ca_content_package_id a = k \<and> ca_auditor_type a = kind"
proof -
  assume "content_latest_audit w k kind d = Some a"
  then obtain l where "sort_key (\<lambda>a. - ca_checked_at a) (filter (\<lambda>a. ca_auditor_type a = kind) (package_audits w k d)) = a # l"
    by (auto simp: content_latest_audit_def split: list.splits)
  then have "a \<in> set (filter (\<lambda>a. ca_auditor_type a = kind) (package_audits w k d))" by (metis list.set_intros(1) set_sort)
  then show ?thesis by (simp add: package_audits_def)
qed

lemma mandatory_pass:
  assumes "\<forall>s \<in> set (mandatory_states w k d). s = ''pass''" "kind \<in> set MANDATORY_AUDITORS"
  shows "\<exists>a \<in> set (content_audits d). ca_content_package_id a = k \<and> ca_auditor_type a = kind \<and> ca_state a = ''pass''"
proof -
  have "(case content_latest_audit w k kind d of None \<Rightarrow> ''not_run'' | Some a \<Rightarrow> ca_state a) = ''pass''"
    using assms by (auto simp: mandatory_states_def)
  then obtain a where "content_latest_audit w k kind d = Some a" "ca_state a = ''pass''" by (auto split: option.splits)
  then show ?thesis using content_latest_in by blast
qed

lemma pres_recalculate: "pres (certified C) (recalculate_package_gate p)"
  unfolding recalculate_package_gate_def
proof (rule pres_read [where J = "\<lambda>st d. certified C d \<and> ((\<forall>s \<in> set st. s = ''pass'') \<longrightarrow> pk_id p \<in> pk_id ` set (packages d) \<longrightarrow> holds (Approved (pk_id p)) d)"])
  fix st
  show "pres (\<lambda>d. certified C d \<and> ((\<forall>s \<in> set st. s = ''pass'') \<longrightarrow> pk_id p \<in> pk_id ` set (packages d) \<longrightarrow> holds (Approved (pk_id p)) d))
    (set_package (pk_id p) (gated st))"
    unfolding steps_def keepsInv_def
  proof (intro allI impI)
    fix d
    let ?J = "\<lambda>d. certified C d \<and> ((\<forall>s \<in> set st. s = ''pass'') \<longrightarrow> pk_id p \<in> pk_id ` set (packages d) \<longrightarrow> holds (Approved (pk_id p)) d)"
    assume J: "?J d"
    have out: "snd (set_package (pk_id p) (gated st) d) = packages_update (row_set pk_id (pk_id p) (gated st)) d"
      by (simp add: set_package_def modifyM_exec)
    show "?J (snd (set_package (pk_id p) (gated st) d))"
    proof (cases "(\<forall>s \<in> set st. s = ''pass'') \<and> pk_id p \<in> pk_id ` set (packages d)")
      case True
      then have "certified (insert (Approved (pk_id p)) C) d" using J by (simp add: certified_insert)
      then have "certified (insert (Approved (pk_id p)) C) (snd (set_package (pk_id p) (gated st) d))"
        by (rule presD [rotated]) (intro pres_set_package; simp)
      then show ?thesis by (simp add: certified_def)
    next
      case False
      show ?thesis
      proof (cases "\<forall>s \<in> set st. s = ''pass''")
        case True
        with False have "lineage_rows (packages_update (row_set pk_id (pk_id p) (gated st)) d) = lineage_rows d" by (simp add: row_set_absent)
        then have "certified C (packages_update (row_set pk_id (pk_id p) (gated st)) d)" using J certified_cong by blast
        moreover have "pk_id p \<notin> pk_id ` set (packages (packages_update (row_set pk_id (pk_id p) (gated st)) d))"
          using True False by (simp add: row_set_absent)
        ultimately show ?thesis unfolding out by blast
      next
        case bad: False
        have "certified C (snd (set_package (pk_id p) (gated st) d))"
          using J bad by (intro presD [OF pres_set_package]) (auto simp: gated_def split: if_splits)
        with bad show ?thesis by blast
      qed
    qed
  qed
next
  fix d
  assume "certified C d"
  then show "certified C d \<and> ((\<forall>s \<in> set (mandatory_states (pk_workspace_id p) (pk_id p) d). s = ''pass'') \<longrightarrow> pk_id p \<in> pk_id ` set (packages d) \<longrightarrow> holds (Approved (pk_id p)) d)"
    using mandatory_pass [of "pk_workspace_id p" "pk_id p" d] by (simp add: approved_def)
qed blast

lemma pres_fixture_audit: "pres (certified C) (record_fixture_audit w u k ty st fs ws bs es)"
  unfolding record_fixture_audit_def get_package_def package_direction_def write_content_audit_def Let_def
  by (intro steps_intro pres_add_content_audit pres_recalculate pres_lineage_keeps [OF keeps_content(7)]
      pres_lineage_keeps [OF keeps_content(8)] pres_lineage_keeps [OF keeps_content(9)])

lemma production_package_shows: "production_package w k d = (Inr p, d') \<Longrightarrow> d' = d \<and> p \<in> set (packages d)"
  by (auto simp: production_package_def workspace_package_def one_of_exec scalar_one_or_none_def raise_exec ret_exec filter_eq_Cons_iff
      elim!: bindM_InrE split: list.splits option.splits)

lemma package_approved: "certified C d \<Longrightarrow> p \<in> set (packages d) \<Longrightarrow> pk_audit_gate_status p = ''pass'' \<Longrightarrow> holds (Approved (pk_id p)) d"
  by (simp add: certified_def required_def ball_Un)

lemma pres_production_run: "pres (certified C) (create_production_run w u c)"
proof -
  let ?J = "\<lambda>p. certified (if pk_audit_gate_status p = ''pass'' then insert (Approved (pk_id p)) C else C)"
  show ?thesis unfolding create_production_run_def
  proof (rule pres_gate [where J = ?J])
    show "pres (certified C) (production_package w (pc_content_package_id c))"
      unfolding production_package_def by (intro steps_intro)
    show "?J p d'" if "certified C d" "production_package w (pc_content_package_id c) d = (Inr p, d')" for d p d'
      using that production_package_shows [OF that(2)] package_approved by (simp add: certified_insert)
    show "pres (?J p) (production_job_for w u c p)" for p
      unfolding production_job_for_def Let_def by (intro steps_intro pres_add_production_job certified_core) (simp_all add: production_job_row_def)
    show "?J p d \<Longrightarrow> certified C d" for p d using certified_weaken by (cases "pk_audit_gate_status p = ''pass''") auto
  qed
qed

lemma pres_production_tests:
  "pres (certified C) (create_test_fixture_artifact w u j h p)" "pres (certified C) (create_test_media_qa w u k a p st)"
  "pres (certified C) (invalidate_artifact w u k r)"
  unfolding create_test_fixture_artifact_def get_job_def add_artifact_def create_test_media_qa_def add_readiness_def
    invalidate_artifact_def add_artifact_invalidation_def readiness_of_def
  by (intro steps_intro pres_add_media_qa pres_lineage_keeps [OF keeps_add_row] pres_lineage_keeps [OF keeps_modify]; simp)+

lemma first_row_in: "first_row rs = Some r \<Longrightarrow> r \<in> set rs"
  by (cases rs) (simp_all add: first_row_def)

lemma media_qa_shows:
  assumes "media_qa_of w a d = Some q" "mq_status q = ''pass''"
  shows "holds (QaPassed (fa_id a) (fa_artifact_hash a)) d"
  using first_row_in [OF assms(1) [unfolded media_qa_of_def]] assms(2) by (auto simp: qa_passed_def)

lemma compliance_shows:
  assumes "compliance_of w a d = Some c" "co_status c = ''pass''"
  shows "holds (Compliant (fa_id a) (fa_artifact_hash a)) d"
  using first_row_in [OF assms(1) [unfolded compliance_of_def]] assms(2) by (auto simp: compliant_def)

lemma keeps_compliance:
  "keeps lineage_rows (compliance_artifact w k)" "keeps lineage_rows (create_test_manifest w u)" "keeps lineage_rows (invalidate_compliance w u k r)"
  "keeps lineage_rows (add_rights re)"
  unfolding compliance_artifact_def create_test_manifest_def add_manifest_def invalidate_compliance_def add_compliance_invalidation_def add_rights_def
  by (intro steps_intro; simp)+

lemma pres_compliance_run: "pres (certified C) (create_compliance_run w u p)"
  unfolding create_compliance_run_def Let_def
  by (intro steps_intro pres_add_compliance_audit pres_lineage_keeps [OF keeps_compliance(1)]) simp_all

text \<open>What the media QA and the compliance audit found for an artifact certify.\<close>

definition found_passes :: "FinalArtifact \<Rightarrow> MediaQaResult option \<Rightarrow> ComplianceAudit option \<Rightarrow> pass set" where
  "found_passes a media c = (if media \<noteq> None \<and> mq_status (the media) = ''pass'' then {QaPassed (fa_id a) (fa_artifact_hash a)} else {})
     \<union> (if c \<noteq> None \<and> co_status (the c) = ''pass'' then {Compliant (fa_id a) (fa_artifact_hash a)} else {})"

lemma found_passes_hold: "\<forall>c \<in> found_passes a (media_qa_of w a d) (compliance_of w a d). holds c d"
  using media_qa_shows [of w a d] compliance_shows [of w a d] by (auto simp: found_passes_def)

lemma pres_compliance_pass: "pres (certified C) (create_test_compliance_pass w u k wk)"
  unfolding create_test_compliance_pass_def
proof (rule inv.bind [OF pres_lineage_keeps [OF keeps_compliance(1)]], rule pres_read)
  fix a
  show "certified (found_passes a (media_qa_of w a d) None \<union> C) d" if "certified C d" for d
    using that found_passes_hold [of a w d] by (intro certified_add) (auto simp: found_passes_def)
  show "pres (certified (found_passes a media None \<union> C)) (compliance_pass_for w u wk a media)" for media
    unfolding compliance_pass_for_def Let_def
    by (intro steps_intro pres_add_compliance_audit pres_lineage_keeps [OF keeps_compliance(4)] certified_core)
      (simp_all add: compliance_row_def found_passes_def)
  show "certified (found_passes a media None \<union> C) d \<Longrightarrow> certified C d" for media d by (erule certified_mono) simp
qed

lemma pres_chief_audit: "pres (certified C) (run_test_chief_audit w u k wk)"
  unfolding run_test_chief_audit_def
proof (rule inv.bind [OF pres_lineage_keeps [OF keeps_compliance(1)]], rule inv.bind [OF pres_lineage_keeps [OF keeps_compliance(2)]], rule pres_read)
  fix a g
  let ?J = "\<lambda>found. certified (found_passes a (fst found) (snd found) \<union> C)"
  show "?J (media_qa_of w a d, compliance_of w a d) d" if "certified C d" for d
    using that found_passes_hold [of a w d] by (intro certified_add) auto
  show "pres (?J found) (chief_audit_for w a (gm_id g) wk found)" for found
    unfolding chief_audit_for_def Let_def
    by (intro steps_intro pres_add_chief_audit certified_core)
      (auto simp: chief_row_def chief_blockers_def found_passes_def Let_def split: if_splits)
  show "?J found d \<Longrightarrow> certified C d" for found d by (erule certified_mono) simp
qed

lemma pres_publication_eligibility: "pres (certified C) (publication_eligibility w u k pl)"
  unfolding publication_eligibility_def readiness_of_def Let_def
  by (intro steps_intro pres_add_eligibility pres_lineage_keeps [OF keeps_compliance(1)]) simp

section \<open>The departments' calls\<close>

text \<open>
  Every call that writes, each in its session: the routes an administrator can reach and the services' test paths. A call that
  raises changes nothing but the readings of the clock.
\<close>

inductive department_call :: "dept \<Rightarrow> dept \<Rightarrow> bool" where
  research: "research_call d d' \<Longrightarrow> department_call d d'"
| profile: "department_call d (snd (save_content_profile w cp u d))"
| strategy_run: "department_call d (snd (strategy_create_run_route w sp u d))"
| brief: "department_call d (snd (session (record_fixture_brief w u t ks f) d))"
| brief_audit: "department_call d (snd (strategy_run_audit_route w k u d))"
| to_writer: "department_call d (snd (send_to_writer w k u d))"
| content_run: "department_call d (snd (content_create_run_route w dp u d))"
| package: "department_call d (snd (session (record_fixture_package w u k f prior) d))"
| package_audit: "department_call d (snd (session (record_fixture_audit w u k ty st fs ws bs es) d))"
| production_run: "department_call d (snd (production_create_run_route w pc u d))"
| artifact: "department_call d (snd (session (create_test_fixture_artifact w u k h p) d))"
| media_qa: "department_call d (snd (session (create_test_media_qa w u k a p st) d))"
| artifact_change: "department_call d (snd (session (invalidate_artifact w u k r) d))"
| compliance_run: "department_call d (snd (run_compliance w cr u d))"
| compliance_pass: "department_call d (snd (session (create_test_compliance_pass w u k wk) d))"
| chief: "department_call d (snd (session (run_test_chief_audit w u k wk) d))"
| compliance_change: "department_call d (snd (session (invalidate_compliance w u k r) d))"
| publication: "department_call d (snd (determine_publication_eligibility w k pl u d))"

lemma cert_session: "pres (certified C) m \<Longrightarrow> pres (certified C) (session m)"
  by (rule pres_session) (auto intro: certified_core dest: presD')

lemma cert_admin: "pres (certified C) m \<Longrightarrow> pres (certified C) (as_admin w u m)"
  by (rule as_admin_pres) (auto intro: certified_core dest: presD')

lemma cert_research: "research_call d d' \<Longrightarrow> certified C d \<Longrightarrow> certified C d'"
proof (induction rule: research_call.induct)
  case (start d w p u)
  have "pres (certified C) (research_create_run_route w p u)" unfolding research_create_run_route_def
    by (intro cert_admin steps_intro pres_lineage_keeps [OF keeps_research(2)])
  from presD [OF this start] show ?case .
next
  case (fixture d w u objective sources f)
  have "pres (certified C) (session (record_fixture_run w u objective sources f))"
    by (intro cert_session pres_lineage_keeps [OF keeps_fixture_run])
  from presD [OF this fixture] show ?case .
next
  case (audit d w k u)
  have "pres (certified C) (research_run_audit_route w k u)" unfolding research_run_audit_route_def
    by (intro cert_admin steps_intro pres_audit_opportunity)
  from presD [OF this audit] show ?case .
next
  case (handoff d w k u)
  have "pres (certified C) (send_to_strategist w k u)" unfolding send_to_strategist_def
    by (intro cert_admin steps_intro pres_lineage_keeps [OF keeps_research(1)])
  from presD [OF this handoff] show ?case .
qed

lemma cert_profile: "pres (certified C) (save_content_profile w p u)"
  unfolding save_content_profile_def content_profile_row_def add_content_profile_def Let_def
  by (intro cert_session steps_intro pres_lineage_keeps [OF keeps_add_row] pres_lineage_keeps [OF keeps_modify] certified_core) simp_all

lemma cert_routes:
  "pres (certified C) (strategy_create_run_route w sp u)" "pres (certified C) (strategy_run_audit_route w k u)"
  "pres (certified C) (send_to_writer w k u)" "pres (certified C) (content_create_run_route w dp u)"
  "pres (certified C) (production_create_run_route w pc u)" "pres (certified C) (run_compliance w cr u)"
  "pres (certified C) (determine_publication_eligibility w k pl u)"
  unfolding strategy_create_run_route_def strategy_run_audit_route_def send_to_writer_def content_create_run_route_def
    production_create_run_route_def run_compliance_def determine_publication_eligibility_def
  by (intro cert_admin steps_intro pres_lineage_keeps [OF keeps_strategy_manual] pres_audit_brief pres_lineage_keeps [OF keeps_strategy(2)]
      pres_lineage_keeps [OF keeps_content(2)] pres_production_run pres_compliance_run pres_publication_eligibility)+

lemma cert_call: "department_call d d' \<Longrightarrow> certified C d \<Longrightarrow> certified C d'"
proof (induction rule: department_call.induct)
  case (research d d')
  then show ?case by (rule cert_research)
qed (erule presD [rotated]; intro cert_routes cert_profile cert_session pres_fixture_brief pres_fixture_package pres_fixture_audit
    pres_production_tests pres_compliance_pass pres_chief_audit pres_lineage_keeps [OF keeps_compliance(3)])+

lemma cert_calls: "department_call\<^sup>*\<^sup>* d d' \<Longrightarrow> certified C d \<Longrightarrow> certified C d'"
  by (induction rule: rtranclp_induct) (auto dest: cert_call)

section \<open>Properties\<close>

text \<open>
  C13: The lineage of everything the departments make is kept by every call, in any order and with any outcome: briefs link only
  opportunities with a research pass; packages belong to briefs with a strategy pass and open for production only with a pass of
  each mandatory auditor; production jobs are for such packages; a compliance pass stands on a media-QA pass of the same artifact
  and hash, a chief pass on both; and nothing is ever eligible for publication.
\<close>

theorem lineage_kept:
  assumes "department_call\<^sup>*\<^sup>* d d'" "lineage d"
  shows "lineage d'"
  using assms by (simp add: lineage_certified cert_calls)

text \<open>
  C12: A production job has a complete chain behind it: its package, with a recorded pass of the language, fact, brand and
  originality auditors; a strategy pass of the package's brief; and at least one opportunity in that brief, every one of them with
  a research pass.
\<close>

theorem production_lineage:
  assumes "department_call\<^sup>*\<^sup>* d0 d" "lineage d0" "j \<in> set (production_jobs d)"
  shows "\<exists>p \<in> set (packages d). pk_id p = pj_content_package_id j
    \<and> (\<forall>kind \<in> {''language'', ''fact'', ''brand'', ''originality''}.
         \<exists>a \<in> set (content_audits d). ca_content_package_id a = pk_id p \<and> ca_auditor_type a = kind \<and> ca_state a = ''pass'')
    \<and> (\<exists>s \<in> set (strategy_audits d). st_strategy_brief_id s = pk_strategy_brief_id p \<and> st_state s = ''pass'')
    \<and> (\<exists>l \<in> set (brief_links d). so_strategy_brief_id l = pk_strategy_brief_id p)
    \<and> (\<forall>l \<in> set (brief_links d). so_strategy_brief_id l = pk_strategy_brief_id p \<longrightarrow>
         (\<exists>r \<in> set (research_audits d). ra_opportunity_id r = so_opportunity_id l \<and> ra_state r = ''pass''))"
proof -
  have lin: "lineage d" using assms(1,2) by (simp add: lineage_certified cert_calls)
  then have "approved (pj_content_package_id j) d" using assms(3) by (simp add: lineage_def)
  then obtain p where p: "p \<in> set (packages d)" "pk_id p = pj_content_package_id j" and a: "approved (pk_id p) d"
    by (auto simp: approved_def)
  have s: "strategised (pk_strategy_brief_id p) d" using lin p(1) by (simp add: lineage_def)
  then have "has_source (pk_strategy_brief_id p) d" using lin by (auto simp: lineage_def strategised_def)
  moreover have "\<forall>l \<in> set (brief_links d). researched (so_opportunity_id l) d" using lin by (simp add: lineage_def)
  ultimately show ?thesis using p a s
    by (intro bexI [of _ p]) (simp_all add: approved_def MANDATORY_AUDITORS_def strategised_def has_source_def researched_def)
qed

section \<open>A studio with an approved package\<close>

definition studio_package :: ContentPackage where
  "studio_package = (package_row 1 70 310 311 320 312 313 None None ''o'' \<lparr>sc_hook = ''h'', sc_body = ''b'', sc_cta = ''c''\<rparr> [] 330 0)
     \<lparr>pk_audit_gate_status := ''pass''\<rparr>"

definition studio_audit :: "uuid \<Rightarrow> string \<Rightarrow> ContentAudit" where
  "studio_audit i kind = \<lparr> ca_id = i, ca_workspace_id = 1, ca_content_package_id = 330, ca_content_version_id = 313, ca_auditor_type = kind,
     ca_auditor_worker_id = ''a'', ca_state = ''pass'', ca_artifact_snapshot = JObj [], ca_requirements_snapshot = JObj [], ca_findings = [],
     ca_warnings = [], ca_blocked_reasons = [], ca_evidence = [], ca_checked_at = 0, ca_cost_usd = 0, ca_retry_history = [], ca_test_data = True \<rparr>"

definition studio_dept :: dept where
  "studio_dept = (empty_dept admin_db ''test'')
     \<lparr>packages := [studio_package], content_audits := map (\<lambda>(i, k). studio_audit i k) (zip [331, 332, 333, 334] MANDATORY_AUDITORS),
      strategy_audits := [\<lparr> st_id = 321, st_workspace_id = 1, st_strategy_brief_id = 320, st_strategy_run_id = 322, st_state = ''pass'',
        st_evaluator_context_version = [], st_brief_snapshot = JObj [], st_findings = [], st_warnings = [], st_blocked_reasons = [],
        st_checked_at = 0, st_test_data = True \<rparr>],
      brief_links := [\<lparr> so_id = 323, so_workspace_id = 1, so_strategy_brief_id = 320, so_opportunity_id = 201 \<rparr>],
      research_audits := [(research_audit_row 1 scout_opportunity [] 324 0)\<lparr>ra_state := ''pass''\<rparr>]\<rparr>"

lemma studio_lineage: "lineage studio_dept"
  by (simp add: lineage_def studio_dept_def studio_package_def studio_audit_def empty_dept_def passes MANDATORY_AUDITORS_def package_row_def
      research_audit_row_def scout_opportunity_def)

definition studio_run :: ProductionRunCreate where
  "studio_run = \<lparr> pc_content_package_id = 330, pc_target_platform = None, pc_target_format = None, pc_target_duration_seconds = None,
     pc_max_provider_calls = 5, pc_max_render_calls = 2, pc_max_cost_usd = 0, pc_max_attempts = 3, pc_max_repair_cycles = 2,
     pc_timeout_seconds = 900 \<rparr>"

lemma studio_job: "\<exists>j. production_jobs (snd (production_create_run_route 1 studio_run 70 studio_dept)) = [j]"
proof -
  obtain m c where g: "in_core (require_workspace_admin 1 70) studio_dept = (Inr m, studio_dept\<lparr>core := c\<rparr>)"
    using admin_passes by (cases "require_workspace_admin 1 70 admin_db") (simp add: in_core_exec studio_dept_def empty_dept_def)
  have v: "valid_production_run studio_run" by (simp add: valid_production_run_def studio_run_def longer_than_def)
  have p: "production_package 1 330 (studio_dept\<lparr>core := c\<rparr>) = (Inr studio_package, studio_dept\<lparr>core := c\<rparr>)"
    by (simp add: production_package_def workspace_package_def bindM_exec one_of_exec ret_exec studio_dept_def studio_package_def package_row_def
        scalar_one_or_none_def)
  have j: "production_jobs studio_dept = []" by (simp add: studio_dept_def empty_dept_def)
  have a: "as_list (package_field studio_package ''required_assets'' (JList [])) = Inr []" "pk_audit_gate_status studio_package = ''pass''"
    by (simp_all add: studio_package_def package_row_def package_field_def get_or_def as_list_def)
  have c: "pc_content_package_id studio_run = 330" by (simp add: studio_run_def)
  obtain j0 d' where e: "production_job_for 1 70 studio_run studio_package (studio_dept\<lparr>core := c\<rparr>) = (Inr j0, d')" "production_jobs d' = [j0]"
  proof -
    let ?i = "uuids c (tick c)" and ?corr = "uuids c (Suc (tick c))" and ?t = "clock c (Suc (Suc (tick c)))"
    let ?j = "production_job_row 1 70 studio_package studio_run [] ?i ?corr ?t"
    let ?d = "production_jobs_update (\<lambda>rs. rs @ [?j]) (studio_dept\<lparr>core := c\<lparr>tick := Suc (Suc (Suc (tick c)))\<rparr>\<rparr>)"
    obtain c1 where "emit_on ''production.requested.not_configured'' 1 ''production_job'' ?i ?corr None
        (JObj [(''content_package_id'', JStr (str_uuid (pk_id studio_package))), (''content_version_id'', JStr (str_uuid (pk_content_version_id studio_package))),
          (''provider_state'', JStr (pj_provider_state ?j)), (''max_cost_usd'', JNum (pj_max_cost_usd ?j))]) ''producer_v1'' ?d = (Inr (), ?d\<lparr>core := c1\<rparr>)"
      using emit_on_exec by blast
    then have "production_job_for 1 70 studio_run studio_package (studio_dept\<lparr>core := c\<rparr>) = (Inr ?j, ?d\<lparr>core := c1\<rparr>)"
      by (simp add: production_job_for_def a bindM_exec env_exec fromSum_exec Let_def andThen_exec add_production_job_def add_row_exec j ret_exec)
    then show thesis by (rule that) (simp add: j)
  qed
  then show ?thesis
    by (simp add: production_create_run_route_def as_admin_def session_exec andThen_exec g v catchM_exec create_production_run_def
        bindM_exec c p del: One_nat_def)
qed

lemma lineage_kept_witness: "lineage (snd (production_create_run_route 1 studio_run 70 studio_dept))"
  by (rule lineage_kept [of studio_dept]) (intro r_into_rtranclp department_call.production_run studio_lineage)+

lemma production_lineage_witness:
  "\<exists>j d. production_jobs d = [j] \<and> d = snd (production_create_run_route 1 studio_run 70 studio_dept) \<and> (\<exists>p \<in> set (packages d). pk_id p = pj_content_package_id j)"
proof -
  let ?d = "snd (production_create_run_route 1 studio_run 70 studio_dept)"
  obtain j where j: "production_jobs ?d = [j]" using studio_job by blast
  have "department_call\<^sup>*\<^sup>* studio_dept ?d" by (intro r_into_rtranclp department_call.production_run)
  from production_lineage [OF this studio_lineage, of j] j have "\<exists>p \<in> set (packages ?d). pk_id p = pj_content_package_id j" by auto
  with j show ?thesis by blast
qed

end
