(* ===== verification/Spec2Isabelle.thy ===== *)
theory Spec2Isabelle imports WorkerRoutes PublicationPolicy Billing LocalAuth Concurrency RateLimit Lineage begin

text \<open>
  A verification library for the content orchestrator's API (\<open>src/apps/api/app\<close>).

  \<^bold>\<open>The program.\<close> Workspaces own content items. A \<^emph>\<open>pipeline run\<close> walks an item through the stages of a
  workflow. The \<^emph>\<open>controller\<close> advances runs and reserves their spend, the \<^emph>\<open>scheduler\<close> leases due jobs and hands stages to the
  \<^emph>\<open>dispatcher\<close>, which assigns them to workers; workers can also \<^emph>\<open>claim\<close> waiting assignments. Leases that expire and
  workers that vanish are taken care of by \<^emph>\<open>recovery\<close>. Every change is announced through the transactional \<^emph>\<open>outbox\<close>, whose
  \<^emph>\<open>relay\<close> delivers events to consumers; the one consumer wired up resumes a run when its human review gate is
  decided. The \<^emph>\<open>content desk\<close> puts a drafted script straight behind such a gate. Around this engine stand worker and user
  authentication, memberships, rate limiting, billing (Stripe webhooks), and the publication policy. All components share one
  database; a request or a background tick is one transaction on it.

  \<^bold>\<open>The model.\<close> An operation is a function from the database to a result and a database (\<open>Prelude.op\<close>): \<open>Inl\<close> an exception
  with the state it left, since a Python exception undoes nothing, or \<open>Inr\<close> a value. Tables are lists of records in insertion
  order, rows addressed by primary key. The record \<open>Database.db\<close> holds the tables the engine uses, the settings, and the oracles
  (clock, fresh identifiers, random readings, tokens), read through one counter. Where a theorem needs identifiers to
  be fresh or keys to be unique it says so as a hypothesis, and its witness shows that the hypothesis can hold. A rollback is explicit
  (\<open>Database.transaction\<close>, a savepoint). \<open>SELECT ... FOR UPDATE\<close> is the atomicity of the step, \<open>SKIP LOCKED\<close> does not see the
  rows in \<open>db.locks\<close> (a theorem about what such a query leaves behind excepts them by name); interleavings are sequences of such steps (\<open>rtranclp\<close> of \<open>Writes.db_write\<close>, lists of requests). Dates are
  seconds as rationals, money is rational, text is ASCII.

  \<^bold>\<open>Theories, in the order they build on each other.\<close>

  \<^item> \<open>Prelude\<close>: the operation type, composition laws and the locale \<open>step_contract\<close> with its rules \<open>steps_intro\<close> for what an
    operation does to a state (frame, invariant preservation), the row lookup laws.
  \<^item> \<open>PyLib\<close>, \<open>Sha256\<close>: what the code uses of Python: exceptions, identifiers as text, string functions, JSON with Python's
    comparisons, calendar arithmetic, the digest.
  \<^item> \<open>Enums\<close>, \<open>Tables\<close>, \<open>Database\<close> (\<open>models/\<close>, \<open>core/config.py\<close>): enumerations with their column values, rows, settings, and the
    session's primitive reads and writes.
  \<^item> \<open>Outbox\<close> (\<open>orchestration/outbox.py\<close>, \<open>events/\<close>): \<open>emit\<close>, per-aggregate sequence numbers without gaps, envelope upcasting.
  \<^item> \<open>Writes\<close>: the footprint of the engine: an inductive relation \<open>db_write\<close> with one rule per kind of atomic write, and what every
    sequence of such writes preserves (append-only logs, gapless events, unique assignments, effect keys and receipts, at
    most one awaiting gate per run, settled gates and reservations stay settled). Each component proves \<open>steps writes\<close> of its operations.
  \<^item> \<open>Retry\<close>, \<open>Capacity\<close>, \<open>Effects\<close> (\<open>orchestration/retry.py\<close>, \<open>priority.py\<close>, \<open>provider_budgets.py\<close>, \<open>backpressure.py\<close>,
    \<open>provider_effects.py\<close>): back-off bounds, effective priority in SQL and in Python, provider budgets, back-pressure
    states, at-most-once effect keys.
  \<^item> \<open>Workflow\<close>, \<open>Spend\<close>, \<open>Controller\<close>, \<open>Lifecycle\<close> (\<open>orchestration/controller.py\<close>): conditions and transitions; reserve, commit
    and release under the caps; starting, advancing, failing, timing out, cancelling, compensating and reviewing a run.
  \<^item> \<open>Dispatcher\<close>, \<open>Claiming\<close>, \<open>Recovery\<close> (\<open>orchestration/dispatcher.py\<close>, \<open>claiming.py\<close>, \<open>recovery.py\<close>): assignments, leases and
    results; the claim scan; requeue or give up, and the reapers.
  \<^item> \<open>Scheduler\<close>, \<open>Relay\<close>, \<open>Ticks\<close> (\<open>orchestration/scheduler.py\<close>, \<open>relay.py\<close>, \<open>consumers.py\<close>, \<open>services/workers.py\<close>, the loops of
    \<open>main.py\<close>): fair leasing of jobs, delivery behind checkpoints, fleet liveness, and each tick as one transaction.
  \<^item> \<open>WorkerAuth\<close>, \<open>WorkerRoutes\<close> (\<open>core/worker_auth.py\<close>, \<open>core/authorization.py\<close>, \<open>api/routes/workers.py\<close>): worker credentials
    and what a worker can ask for.
  \<^item> \<open>PublicationPolicy\<close>, \<open>Billing\<close>, \<open>LocalAuth\<close>, \<open>Members\<close>, \<open>Concurrency\<close>, \<open>RateLimit\<close>, \<open>ContentDesk\<close> (the services and routes of the same names;
    \<open>Concurrency\<close> is \<open>api/routes/concurrency.py\<close>).
  \<^item> \<open>Departments\<close> (\<open>models/research.py\<close>, \<open>strategy.py\<close>, \<open>content_department.py\<close>, \<open>production.py\<close>, \<open>compliance.py\<close>): the record
    \<open>dept\<close> puts the departments' rows beside the engine's database (its field \<open>core\<close>); \<open>in_core\<close> runs an engine operation there, \<open>session\<close>
    is a route's transaction, and \<open>add_row\<close> an insert under the primary key, unique constraint and foreign key named with it.
  \<^item> \<open>Patterns\<close>, \<open>Urls\<close>: matching and substitution for the regular expressions of the services, with a proof that the matcher
    agrees with the languages they denote; \<open>urlsplit\<close>, \<open>ipaddress\<close> and the canonical form of a source's address.
  \<^item> \<open>Research\<close>, \<open>Strategy\<close>, \<open>ContentDepartment\<close>, \<open>Production\<close>, \<open>Compliance\<close> (the services and routes of the same names, and the
    content profile): each department's runs, records, independent audit and the gate to the next department.
  \<^item> \<open>Lineage\<close>: the chain of passes behind everything the departments make, kept by every sequence of their calls.
  \<^item> \<open>Fixtures\<close>: a small concrete database on which the witnesses are evaluated.

  \<^bold>\<open>What the groups of lemmas show.\<close> \<open>w_\<close>... lemmas give an operation's footprint, \<open>keeps_\<close>... and \<open>pres_\<close>... its frame;
  \<open>..._result\<close>, \<open>..._cases\<close> and \<open>..._Inr\<close> its behaviour by branch; the theorems numbered \<open>C\<close>\<^emph>\<open>n\<close> are the properties, and
  \<open>..._witness\<close> applies one at concrete data. Theorems without a number show defects of the code or support a property.
  Where a document under \<open>src/docs\<close> asks for more than the code does, the property claims what both agree on and the difference is a
  theorem of its own: the package gate and the chief audit do not look at invalidations (\<open>ContentDepartment.superseded_package_passes\<close>,
  \<open>Compliance.invalidation_ignored\<close>), though \<open>CONTENT_DEPARTMENT_V1_ARCHITECTURE.md\<close> and
  \<open>COMPLIANCE_CHIEF_AUDITOR_V1_ARCHITECTURE.md\<close> want them to block.

  \<^bold>\<open>Bounds.\<close> Loops of the code are structural recursions or have a measure. The reaper's batch loop
  (\<open>Recovery.reap_rounds\<close>) takes fuel one more than the assignments held, and \<open>reap_rounds_enough\<close> shows that it is never exhausted;
  the scheduler's round robin ends by the jobs that are left. Only \<open>ContentDesk.decimals\<close> is cut, at twenty digits, in the text of a setting.

  \<^bold>\<open>Not modelled.\<close> The HTTP layer itself (routing, pydantic's parsing, response serialisation), log and audit lines, metrics and
  health endpoints, the dashboards (read-only aggregations), data governance (raw SQL over the catalogue), settings parsing, SQL migrations and row-level security (the constraints the code relies on are part of the row
  operations), the calls to Stripe and GitHub, PyJWT (a parameter), the columns no operation reads (version counters, update times), and the response
  fields that are the same constant in every answer. A text made from a decimal in an event's payload is kept as the number, and a JSON number does
  not tell \<open>5\<close> from \<open>5.0\<close>.
\<close>

end
